(* ===== verification/Prelude.thy ===== *)
theory Prelude
  imports Complex_Main "HOL-Library.AList" "HOL-Library.Multiset" "HOL-Library.List_Lexorder" "HOL-Library.Char_ord"
begin

text \<open>
  What the components of the gateway share: Go's strings (byte strings) with the functions of
  package \<^verbatim>\<open>strings\<close> that the code calls, Go's maps as association lists, fallible
  results as sums, stable sorting by a comparison (\<^verbatim>\<open>sort.SliceStable\<close>), 64-bit wrap-around,
  instants and durations (\<^verbatim>\<open>time.ParseDuration\<close>), and the fact collections the component
  theories extend.

  A Go string is a list of bytes (\<open>char list\<close>). \<open>trim_space\<close> strips exactly the white
  space of Unicode in its UTF-8 encoding; \<open>to_lower\<close> and \<open>to_upper\<close> map the ASCII letters and
  leave every other byte alone, so they agree with Go on ASCII strings.
\<close>

named_theorems go_defs \<open>definitions a component's proofs unfold\<close>
named_theorems result_simps \<open>equations for fallible results\<close>
named_theorems gomap_simps \<open>equations for Go maps\<close>

section \<open>Fallible results\<close>

text \<open>A Go function that returns \<open>(T, error)\<close> yields \<open>Inl\<close> the error or \<open>Inr\<close> the value.\<close>

definition bind_res :: "'e + 'a \<Rightarrow> ('a \<Rightarrow> 'e + 'b) \<Rightarrow> 'e + 'b" where
  "bind_res m f = (case m of Inl e \<Rightarrow> Inl e | Inr x \<Rightarrow> f x)"

definition check_res :: "bool \<Rightarrow> 'e \<Rightarrow> 'e + unit" where
  "check_res ok e = (if ok then Inr () else Inl e)"

lemma bind_res_simps [simp, result_simps]:
  "bind_res (Inl e) f = Inl e"
  "bind_res (Inr x) f = f x"
  by (simp_all add: bind_res_def)

lemma bind_res_Inr_iff [result_simps]:
  "bind_res m f = Inr y \<longleftrightarrow> (\<exists>x. m = Inr x \<and> f x = Inr y)"
  by (cases m) simp_all

lemma bind_res_Inl_iff [result_simps]:
  "bind_res m f = Inl e \<longleftrightarrow> m = Inl e \<or> (\<exists>x. m = Inr x \<and> f x = Inl e)"
  by (cases m) simp_all

lemma bind_res_split:
  "P (bind_res m f) \<longleftrightarrow> (\<forall>e. m = Inl e \<longrightarrow> P (Inl e)) \<and> (\<forall>x. m = Inr x \<longrightarrow> P (f x))"
  by (cases m) simp_all

lemma check_res_simps [simp, result_simps]:
  "check_res ok e = Inr u \<longleftrightarrow> ok"
  "check_res ok e = Inl e' \<longleftrightarrow> \<not> ok \<and> e' = e"
  by (auto simp: check_res_def)

definition is_ok :: "'e + 'a \<Rightarrow> bool" where
  "is_ok m = (case m of Inl _ \<Rightarrow> False | Inr _ \<Rightarrow> True)"

lemma is_ok_simps [simp, result_simps]: "is_ok (Inr x)" "\<not> is_ok (Inl e)"
  by (simp_all add: is_ok_def)

lemma is_ok_iff: "is_ok m \<longleftrightarrow> (\<exists>x. m = Inr x)"
  by (cases m) simp_all

text \<open>Traversing a list with a fallible function stops at the first error, as the loops do.\<close>

fun map_res :: "('a \<Rightarrow> 'e + 'b) \<Rightarrow> 'a list \<Rightarrow> 'e + 'b list" where
  "map_res f [] = Inr []"
| "map_res f (x # xs) = bind_res (f x) (\<lambda>y. bind_res (map_res f xs) (\<lambda>ys. Inr (y # ys)))"

lemma map_res_Inr_list_all2: "map_res f xs = Inr ys \<longleftrightarrow> list_all2 (\<lambda>x y. f x = Inr y) xs ys"
  by (induction xs arbitrary: ys) (auto simp: bind_res_Inr_iff list_all2_Cons1)

lemma map_res_length: "map_res f xs = Inr ys \<Longrightarrow> length ys = length xs"
  by (auto simp: map_res_Inr_list_all2 dest: list_all2_lengthD)

section \<open>Go maps\<close>

text \<open>
  A Go map is an association list with distinct keys; the order of its entries stands for the
  iteration order, which Go leaves unspecified. A nil map reads like an empty one.
\<close>

type_synonym ('k, 'v) gomap = "('k \<times> 'v) list"

abbreviation gm_get :: "('k, 'v) gomap \<Rightarrow> 'k \<Rightarrow> 'v option" where
  "gm_get \<equiv> map_of"

abbreviation gm_put :: "'k \<Rightarrow> 'v \<Rightarrow> ('k, 'v) gomap \<Rightarrow> ('k, 'v) gomap" where
  "gm_put \<equiv> AList.update"

abbreviation gm_del :: "'k \<Rightarrow> ('k, 'v) gomap \<Rightarrow> ('k, 'v) gomap" where
  "gm_del \<equiv> AList.delete"

definition gm_wf :: "('k, 'v) gomap \<Rightarrow> bool" where
  "gm_wf m \<longleftrightarrow> distinct (map fst m)"

lemma gm_get_put [simp, gomap_simps]: "gm_get (gm_put k v m) k' = (if k' = k then Some v else gm_get m k')"
  by (simp add: update_conv')

lemma gm_get_del [simp, gomap_simps]: "gm_get (gm_del k m) k' = (if k' = k then None else gm_get m k')"
  by (simp add: delete_conv')

lemma gm_wf_Nil [simp, gomap_simps]: "gm_wf []"
  by (simp add: gm_wf_def)

lemma gm_wf_put [simp, gomap_simps]: "gm_wf m \<Longrightarrow> gm_wf (gm_put k v m)"
  by (simp add: gm_wf_def distinct_update)

lemma gm_wf_del [simp, gomap_simps]: "gm_wf m \<Longrightarrow> gm_wf (gm_del k m)"
  by (simp add: gm_wf_def distinct_delete)

lemma gm_get_mem: "gm_wf m \<Longrightarrow> (k, v) \<in> set m \<longleftrightarrow> gm_get m k = Some v"
  by (simp add: gm_wf_def)

lemma gm_get_set: "gm_get m k = Some v \<Longrightarrow> (k, v) \<in> set m"
  by (rule map_of_SomeD)

lemma gm_put_nonempty [simp]: "gm_put k v m \<noteq> []"
  by (cases m) (auto split: if_splits)

text \<open>
  The loops that fill a map from a slice write one entry per element they keep; the last write
  to a key wins. \<open>index_by\<close> is that loop and \<open>last_with\<close> its specification.
\<close>

fun index_by :: "('a \<Rightarrow> ('k \<times> 'v) option) \<Rightarrow> 'a list \<Rightarrow> ('k, 'v) gomap \<Rightarrow> ('k, 'v) gomap" where
  "index_by f [] m = m"
| "index_by f (x # xs) m =
     index_by f xs (case f x of None \<Rightarrow> m | Some (k, v) \<Rightarrow> gm_put k v m)"

fun last_with :: "('a \<Rightarrow> ('k \<times> 'v) option) \<Rightarrow> 'a list \<Rightarrow> 'k \<Rightarrow> 'v option" where
  "last_with f [] k = None"
| "last_with f (x # xs) k =
     (case last_with f xs k of
        Some v \<Rightarrow> Some v
      | None \<Rightarrow> (case f x of Some (k', v) \<Rightarrow> if k' = k then Some v else None | None \<Rightarrow> None))"

lemma gm_get_index_by_acc:
  "gm_get (index_by f xs m) k = (case last_with f xs k of Some v \<Rightarrow> Some v | None \<Rightarrow> gm_get m k)"
  by (induction xs arbitrary: m) (auto split: option.splits)

lemma gm_get_index_by [gomap_simps]: "gm_get (index_by f xs []) k = last_with f xs k"
  by (simp add: gm_get_index_by_acc split: option.splits)

lemma gm_wf_index_by [gomap_simps]: "gm_wf m \<Longrightarrow> gm_wf (index_by f xs m)"
  by (induction xs arbitrary: m) (auto split: option.splits)

lemma last_with_SomeD: "last_with f xs k = Some v \<Longrightarrow> \<exists>x\<in>set xs. f x = Some (k, v)"
  by (induction xs) (auto split: option.splits if_splits prod.splits)

lemma last_with_None_iff: "last_with f xs k = None \<longleftrightarrow> (\<forall>x\<in>set xs. \<forall>v. f x \<noteq> Some (k, v))"
  by (induction xs) (auto split: option.splits if_splits prod.splits)

lemma last_with_append:
  "last_with f (xs @ ys) k = (case last_with f ys k of Some v \<Rightarrow> Some v | None \<Rightarrow> last_with f xs k)"
  by (induction xs) (auto split: option.splits)

lemma last_with_distinct:
  assumes "x \<in> set xs" and "f x = Some (k, v)"
    and "\<And>y w. y \<in> set xs \<Longrightarrow> f y = Some (k, w) \<Longrightarrow> w = v"
  shows "last_with f xs k = Some v"
proof (cases "last_with f xs k")
  case None
  with assms(1,2) show ?thesis by (auto simp: last_with_None_iff)
next
  case (Some w)
  then obtain y where "y \<in> set xs" "f y = Some (k, w)" using last_with_SomeD by metis
  with assms(3) Some show ?thesis by auto
qed

lemma find_append: "find P (xs @ ys) = (case find P xs of None \<Rightarrow> find P ys | Some x \<Rightarrow> Some x)"
  by (induction xs) auto

text \<open>The last element with a property, and the lookup in the filled map in terms of it.\<close>

definition find_last :: "('a \<Rightarrow> bool) \<Rightarrow> 'a list \<Rightarrow> 'a option" where
  "find_last P xs = find P (rev xs)"

lemma find_last_simps [simp]:
  "find_last P [] = None"
  "find_last P (x # xs) = (case find_last P xs of Some y \<Rightarrow> Some y | None \<Rightarrow> if P x then Some x else None)"
  by (auto simp: find_last_def find_append split: option.splits)

lemma find_last_SomeD: "find_last P xs = Some x \<Longrightarrow> x \<in> set xs \<and> P x"
  by (induction xs) (auto split: option.splits if_splits)

lemma find_last_None_iff: "find_last P xs = None \<longleftrightarrow> (\<forall>x\<in>set xs. \<not> P x)"
  by (induction xs) (auto split: option.splits)

lemma find_last_cong: "(\<And>x. x \<in> set xs \<Longrightarrow> P x = Q x) \<Longrightarrow> find_last P xs = find_last Q xs"
  by (induction xs) auto

lemma last_with_find_last:
  assumes "\<And>x. x \<in> set xs \<Longrightarrow> Q x \<Longrightarrow> f x = Some (k, g x)"
    and "\<And>x v. x \<in> set xs \<Longrightarrow> f x = Some (k, v) \<Longrightarrow> Q x"
  shows "last_with f xs k = map_option g (find_last Q xs)"
  using assms
proof (induction xs)
  case (Cons x xs)
  have IH: "last_with f xs k = map_option g (find_last Q xs)"
    by (rule Cons.IH; rule Cons.prems; (rule list.set_intros(2))?; assumption)
  have "(case f x of Some (k', v) \<Rightarrow> if k' = k then Some v else None | None \<Rightarrow> None) =
      (if Q x then Some (g x) else None)"
  proof (cases "Q x")
    case True
    then have "f x = Some (k, g x)" by (rule Cons.prems(1) [OF list.set_intros(1)])
    with True show ?thesis by simp
  next
    case False
    then have "f x \<noteq> Some (k, v)" for v using Cons.prems(2) [OF list.set_intros(1)] by blast
    with False show ?thesis by (auto split: option.splits)
  qed
  with IH show ?case by (auto split: option.splits)
qed simp

lemma last_with_find_last_id:
  assumes "\<And>x. x \<in> set xs \<Longrightarrow> Q x \<Longrightarrow> f x = Some (k, x)"
    and "\<And>x v. x \<in> set xs \<Longrightarrow> f x = Some (k, v) \<Longrightarrow> Q x"
  shows "last_with f xs k = find_last Q xs"
proof -
  have "last_with f xs k = map_option (\<lambda>x. x) (find_last Q xs)"
    by (rule last_with_find_last) (rule assms; assumption)+
  then show ?thesis by (simp add: option.map_ident)
qed

lemma find_last_distinct:
  "distinct (map f xs) \<Longrightarrow> x \<in> set xs \<Longrightarrow> find_last (\<lambda>y. f y = f x) xs = Some x"
proof (induction xs)
  case (Cons y ys)
  show ?case
  proof (cases "x = y")
    case True
    with Cons.prems have "find_last (\<lambda>y. f y = f x) ys = None"
      by (auto simp: find_last_None_iff) (metis image_eqI)
    with True show ?thesis by simp
  next
    case False
    with Cons show ?thesis by auto
  qed
qed simp

lemma index_by_nonempty: "m \<noteq> [] \<Longrightarrow> index_by f xs m \<noteq> []"
  by (induction xs arbitrary: m) (auto split: option.splits)

lemma index_by_empty_iff: "index_by f xs [] = [] \<longleftrightarrow> (\<forall>x\<in>set xs. f x = None)"
  by (induction xs) (auto simp: index_by_nonempty split: option.splits)

section \<open>Strings\<close>

function strip_left :: "string list \<Rightarrow> string \<Rightarrow> string" where
  "strip_left encs s =
     (case find (\<lambda>e. e \<noteq> [] \<and> take (length e) s = e) encs of
        None \<Rightarrow> s
      | Some e \<Rightarrow> if length e \<le> length s \<and> e \<noteq> [] then strip_left encs (drop (length e) s) else s)"
  by pat_completeness auto

termination
  by (relation "measure (\<lambda>(encs, s). length s)") (auto intro: diff_less dest: order.strict_trans1 simp: length_greater_0_conv)

declare strip_left.simps [simp del]

text \<open>The UTF-8 encodings of the runes that \<^verbatim>\<open>unicode.IsSpace\<close> accepts.\<close>

definition go_spaces :: "string list" where
  "go_spaces =
     [[CHR 0x20], [CHR 0x09], [CHR 0x0A], [CHR 0x0B], [CHR 0x0C], [CHR 0x0D],
      [CHR 0xC2, CHR 0x85], [CHR 0xC2, CHR 0xA0], [CHR 0xE1, CHR 0x9A, CHR 0x80],
      [CHR 0xE2, CHR 0x80, CHR 0x80], [CHR 0xE2, CHR 0x80, CHR 0x81], [CHR 0xE2, CHR 0x80, CHR 0x82],
      [CHR 0xE2, CHR 0x80, CHR 0x83], [CHR 0xE2, CHR 0x80, CHR 0x84], [CHR 0xE2, CHR 0x80, CHR 0x85],
      [CHR 0xE2, CHR 0x80, CHR 0x86], [CHR 0xE2, CHR 0x80, CHR 0x87], [CHR 0xE2, CHR 0x80, CHR 0x88],
      [CHR 0xE2, CHR 0x80, CHR 0x89], [CHR 0xE2, CHR 0x80, CHR 0x8A], [CHR 0xE2, CHR 0x80, CHR 0xA8],
      [CHR 0xE2, CHR 0x80, CHR 0xA9], [CHR 0xE2, CHR 0x80, CHR 0xAF], [CHR 0xE2, CHR 0x81, CHR 0x9F],
      [CHR 0xE3, CHR 0x80, CHR 0x80]]"

definition trim_space :: "string \<Rightarrow> string" where
  "trim_space s = rev (strip_left (map rev go_spaces) (rev (strip_left go_spaces s)))"

definition starts_with_any :: "string list \<Rightarrow> string \<Rightarrow> bool" where
  "starts_with_any encs s \<longleftrightarrow> (\<exists>e\<in>set encs. e \<noteq> [] \<and> take (length e) s = e)"

lemma strip_left_fixed: "\<not> starts_with_any encs s \<Longrightarrow> strip_left encs s = s"
  by (subst strip_left.simps) (auto simp: starts_with_any_def find_None_iff split: option.splits dest!: find_Some_iff [THEN iffD1] nth_mem)

lemma strip_left_stops: "\<not> starts_with_any encs (strip_left encs s)"
proof (induction encs s rule: strip_left.induct)
  case (1 encs s)
  show ?case
  proof (cases "find (\<lambda>e. e \<noteq> [] \<and> take (length e) s = e) encs")
    case None
    then show ?thesis
      by (subst strip_left.simps) (simp, auto simp: starts_with_any_def find_None_iff)
  next
    case (Some e)
    then have e: "e \<noteq> []" "take (length e) s = e" by (auto simp: find_Some_iff)
    then have "length e \<le> length s" by (metis length_take min.cobounded1)
    with Some e 1 show ?thesis by (subst strip_left.simps) simp
  qed
qed

lemma strip_left_suffix: "\<exists>p. s = p @ strip_left encs s"
proof (induction encs s rule: strip_left.induct)
  case (1 encs s)
  show ?case
  proof (cases "find (\<lambda>e. e \<noteq> [] \<and> take (length e) s = e) encs")
    case None
    then show ?thesis by (subst strip_left.simps) simp
  next
    case (Some e)
    then have e: "e \<noteq> []" "take (length e) s = e" by (auto simp: find_Some_iff)
    then have le: "length e \<le> length s" by (metis length_take min.cobounded1)
    from 1 Some e le obtain p where "drop (length e) s = p @ strip_left encs (drop (length e) s)" by blast
    then have "s = (e @ p) @ strip_left encs (drop (length e) s)"
      by (metis append_assoc append_take_drop_id e(2))
    moreover have "strip_left encs s = strip_left encs (drop (length e) s)"
      using Some e le by (subst strip_left.simps) simp
    ultimately show ?thesis by metis
  qed
qed

lemma starts_with_any_append: "starts_with_any encs s \<Longrightarrow> starts_with_any encs (s @ t)"
proof -
  assume "starts_with_any encs s"
  then obtain e where e: "e \<in> set encs" "e \<noteq> []" "take (length e) s = e"
    by (auto simp: starts_with_any_def)
  then have "length e \<le> length s" by (metis length_take min.cobounded1)
  with e have "take (length e) (s @ t) = e" by simp
  with e show ?thesis by (auto simp: starts_with_any_def)
qed

lemma trim_space_clean:
  "\<not> starts_with_any go_spaces (trim_space s)"
  "\<not> starts_with_any (map rev go_spaces) (rev (trim_space s))"
proof -
  let ?l = "strip_left go_spaces s"
  obtain p where "rev ?l = p @ strip_left (map rev go_spaces) (rev ?l)"
    using strip_left_suffix by metis
  then have "?l = trim_space s @ rev p"
    by (metis rev_append rev_rev_ident trim_space_def)
  then show "\<not> starts_with_any go_spaces (trim_space s)"
    using strip_left_stops [of go_spaces s] starts_with_any_append by metis
  show "\<not> starts_with_any (map rev go_spaces) (rev (trim_space s))"
    by (simp add: trim_space_def strip_left_stops)
qed

lemma trim_space_fixed:
  assumes "\<not> starts_with_any go_spaces s" and "\<not> starts_with_any (map rev go_spaces) (rev s)"
  shows "trim_space s = s"
  using assms by (simp add: trim_space_def strip_left_fixed)

lemma trim_space_idem [simp]: "trim_space (trim_space s) = trim_space s"
  by (rule trim_space_fixed) (rule trim_space_clean)+

lemma trim_space_Nil [simp]: "trim_space [] = []"
  by (simp add: trim_space_def strip_left_fixed starts_with_any_def)

definition trim_right_slashes :: "string \<Rightarrow> string" where
  "trim_right_slashes s = rev (dropWhile (\<lambda>c. c = CHR ''/'') (rev s))"

definition lower_char :: "char \<Rightarrow> char" where
  "lower_char c =
     (let n = of_char c :: nat in if 65 \<le> n \<and> n \<le> 90 then char_of (n + 32) else c)"

definition upper_char :: "char \<Rightarrow> char" where
  "upper_char c =
     (let n = of_char c :: nat in if 97 \<le> n \<and> n \<le> 122 then char_of (n - 32) else c)"

definition to_lower :: "string \<Rightarrow> string" where
  "to_lower = map lower_char"

definition to_upper :: "string \<Rightarrow> string" where
  "to_upper = map upper_char"

lemma lower_char_idem [simp]: "lower_char (lower_char c) = lower_char c"
  by (auto simp: lower_char_def Let_def)

text \<open>Lower-casing neither creates nor destroys white space, so trimming stays done.\<close>

definition caseless :: "char \<Rightarrow> bool" where
  "caseless x \<longleftrightarrow> (let n = of_char x :: nat in n < 65 \<or> (90 < n \<and> n < 97) \<or> 122 < n)"

lemma lower_char_caseless: "caseless x \<Longrightarrow> lower_char c = x \<longleftrightarrow> c = x"
  by (auto simp: caseless_def lower_char_def Let_def)

lemma map_lower_caseless: "list_all caseless e \<Longrightarrow> map lower_char xs = e \<longleftrightarrow> xs = e"
  by (induction e arbitrary: xs) (auto simp: lower_char_caseless map_eq_Cons_conv)

lemma starts_with_any_lower:
  assumes "list_all (list_all caseless) encs"
  shows "starts_with_any encs (map lower_char s) = starts_with_any encs s"
proof -
  have "take (length e) (map lower_char s) = e \<longleftrightarrow> take (length e) s = e" if "e \<in> set encs" for e
    using that assms map_lower_caseless [of e "take (length e) s"] by (simp add: take_map list_all_iff)
  then show ?thesis by (auto simp: starts_with_any_def)
qed

lemma go_spaces_caseless:
  "list_all (list_all caseless) go_spaces" "list_all (list_all caseless) (map rev go_spaces)"
  by code_simp+

lemma trim_space_lower [simp]: "trim_space (to_lower (trim_space s)) = to_lower (trim_space s)"
  by (rule trim_space_fixed)
    (simp_all add: to_lower_def rev_map starts_with_any_lower go_spaces_caseless trim_space_clean)

lemma to_lower_idem [simp]: "to_lower (to_lower s) = to_lower s"
  by (simp add: to_lower_def)

lemma to_lower_Nil_iff [simp]: "to_lower s = [] \<longleftrightarrow> s = []"
  by (simp add: to_lower_def)

lemma length_to_lower [simp]: "length (to_lower s) = length s"
  by (simp add: to_lower_def)

definition has_prefix :: "string \<Rightarrow> string \<Rightarrow> bool" where
  "has_prefix s p \<longleftrightarrow> take (length p) s = p"

definition trim_prefix :: "string \<Rightarrow> string \<Rightarrow> string" where
  "trim_prefix s p = (if has_prefix s p then drop (length p) s else s)"

definition has_suffix :: "string \<Rightarrow> string \<Rightarrow> bool" where
  "has_suffix s p \<longleftrightarrow> length p \<le> length s \<and> drop (length s - length p) s = p"

text \<open>\<^verbatim>\<open>strings.CutSuffix\<close>: the string without the suffix, and whether it had it.\<close>

definition cut_suffix :: "string \<Rightarrow> string \<Rightarrow> string \<times> bool" where
  "cut_suffix s p = (if has_suffix s p then (take (length s - length p) s, True) else (s, False))"

lemma cut_suffix_append [simp]: "cut_suffix (s @ p) p = (s, True)"
  by (simp add: cut_suffix_def has_suffix_def)

lemma cut_suffix_True: "cut_suffix s p = (t, True) \<longleftrightarrow> s = t @ p"
proof
  assume "cut_suffix s p = (t, True)"
  then have "length p \<le> length s" "drop (length s - length p) s = p" "t = take (length s - length p) s"
    by (auto simp: cut_suffix_def has_suffix_def split: if_splits)
  then show "s = t @ p" by (metis append_take_drop_id)
qed simp

text \<open>\<^verbatim>\<open>strings.Split\<close> on a one-byte separator and \<^verbatim>\<open>strings.Cut\<close>.\<close>

fun split_char :: "char \<Rightarrow> string \<Rightarrow> string list" where
  "split_char c [] = [[]]"
| "split_char c (x # xs) =
     (if x = c then [] # split_char c xs
      else (case split_char c xs of [] \<Rightarrow> [[x]] | w # ws \<Rightarrow> (x # w) # ws))"

fun cut_char :: "char \<Rightarrow> string \<Rightarrow> string \<times> string \<times> bool" where
  "cut_char c [] = ([], [], False)"
| "cut_char c (x # xs) =
     (if x = c then ([], xs, True)
      else (case cut_char c xs of (a, b, ok) \<Rightarrow> (x # a, b, ok)))"

lemma split_char_nonempty [simp]: "split_char c s \<noteq> []"
  by (cases s) (auto split: list.splits)

lemma split_char_no_sep: "\<forall>w\<in>set (split_char c s). c \<notin> set w"
  by (induction s) (auto split: list.splits)

lemma cut_char_found: "cut_char c s = (a, b, True) \<Longrightarrow> s = a @ c # b \<and> c \<notin> set a"
  by (induction s arbitrary: a) (auto split: if_splits prod.splits)

section \<open>Stable sorting by a comparison\<close>

text \<open>
  \<^verbatim>\<open>sort.SliceStable(xs, less)\<close>: for a strict weak order there is exactly one stable sorted
  permutation, and insertion from the right computes it.
\<close>

fun insert_by :: "('a \<Rightarrow> 'a \<Rightarrow> bool) \<Rightarrow> 'a \<Rightarrow> 'a list \<Rightarrow> 'a list" where
  "insert_by lt x [] = [x]"
| "insert_by lt x (y # ys) = (if lt y x then y # insert_by lt x ys else x # y # ys)"

definition stable_sort :: "('a \<Rightarrow> 'a \<Rightarrow> bool) \<Rightarrow> 'a list \<Rightarrow> 'a list" where
  "stable_sort lt xs = foldr (insert_by lt) xs []"

lemma stable_sort_simps [simp]:
  "stable_sort lt [] = []"
  "stable_sort lt (x # xs) = insert_by lt x (stable_sort lt xs)"
  by (simp_all add: stable_sort_def)

lemma mset_insert_by [simp]: "mset (insert_by lt x xs) = add_mset x (mset xs)"
  by (induction xs) auto

lemma mset_stable_sort [simp]: "mset (stable_sort lt xs) = mset xs"
  by (induction xs) auto

lemma set_insert_by [simp]: "set (insert_by lt x xs) = insert x (set xs)"
  by (induction xs) auto

lemma set_stable_sort [simp]: "set (stable_sort lt xs) = set xs"
  by (induction xs) auto

lemma length_stable_sort [simp]: "length (stable_sort lt xs) = length xs"
  by (metis mset_stable_sort size_mset)

text \<open>When \<open>lt\<close> compares keys of a linear order, this is the library's stable sort.\<close>

lemma insert_by_key:
  "(\<And>a b. lt a b \<longleftrightarrow> f a < f b) \<Longrightarrow> insert_by lt x xs = insort_key f x xs"
  by (induction xs) (auto simp: not_less)

lemma stable_sort_key:
  assumes "\<And>a b. lt a b \<longleftrightarrow> f a < (f b :: 'k::linorder)"
  shows "stable_sort lt xs = sort_key f xs"
proof (induction xs)
  case (Cons x xs)
  have "insert_by lt x ys = insort_key f x ys" for ys by (rule insert_by_key) (rule assms)
  with Cons show ?case by simp
qed simp

section \<open>64-bit integers\<close>

text \<open>Go's \<open>int\<close> and \<open>int64\<close> on a 64-bit target: two's complement wrap-around.\<close>

definition i64 :: "int \<Rightarrow> int" where
  "i64 x = (x + 2 ^ 63) mod 2 ^ 64 - 2 ^ 63"

lemma i64_id: "- (2 ^ 63) \<le> x \<Longrightarrow> x < 2 ^ 63 \<Longrightarrow> i64 x = x"
  by (simp add: i64_def)

lemma i64_range: "- (2 ^ 63) \<le> i64 x \<and> i64 x < 2 ^ 63"
proof -
  have "0 \<le> (x + 2 ^ 63) mod 2 ^ 64 \<and> (x + 2 ^ 63) mod 2 ^ 64 < (2 ^ 64 :: int)" by simp
  then show ?thesis by (simp add: i64_def)
qed

section \<open>Time\<close>

text \<open>
  An instant is the number of nanoseconds since Go's zero time, so \<open>IsZero\<close> is equality with 0;
  the location that \<open>UTC()\<close> sets is not part of it. A duration is a number of nanoseconds.
\<close>

type_synonym gotime = int
type_synonym duration = int

definition second :: duration where "second = 1000000000"
definition minute :: duration where "minute = 60 * second"
definition hour :: duration where "hour = 60 * minute"

text \<open>\<^verbatim>\<open>time.ParseDuration\<close>, with its overflow checks; the fraction is rounded down exactly.\<close>

definition is_digit :: "char \<Rightarrow> bool" where
  "is_digit c \<longleftrightarrow> 48 \<le> (of_char c :: nat) \<and> (of_char c :: nat) \<le> 57"

definition digit_val :: "char \<Rightarrow> int" where
  "digit_val c = of_char c - 48"

fun leading_int :: "int \<Rightarrow> string \<Rightarrow> (int \<times> string) option" where
  "leading_int x [] = Some (x, [])"
| "leading_int x (c # cs) =
     (if \<not> is_digit c then Some (x, c # cs)
      else if x > 2 ^ 63 div 10 then None
      else let y = x * 10 + digit_val c in if y > 2 ^ 63 then None else leading_int y cs)"

fun leading_fraction :: "int \<Rightarrow> int \<Rightarrow> bool \<Rightarrow> string \<Rightarrow> int \<times> int \<times> string" where
  "leading_fraction x scale ovf [] = (x, scale, [])"
| "leading_fraction x scale ovf (c # cs) =
     (if \<not> is_digit c then (x, scale, c # cs)
      else if ovf \<or> x > (2 ^ 63 - 1) div 10 then leading_fraction x scale True cs
      else let y = x * 10 + digit_val c in
        if y > 2 ^ 63 then leading_fraction x scale True cs
        else leading_fraction y (scale * 10) ovf cs)"

definition unit_ns :: "string \<Rightarrow> int option" where
  "unit_ns u =
     (if u = ''ns'' then Some 1
      else if u = ''us'' \<or> u = [CHR 0xC2, CHR 0xB5, CHR 0x73] \<or> u = [CHR 0xCE, CHR 0xBC, CHR 0x73] then Some 1000
      else if u = ''ms'' then Some 1000000
      else if u = ''s'' then Some second
      else if u = ''m'' then Some minute
      else if u = ''h'' then Some hour
      else None)"

definition unit_char :: "char \<Rightarrow> bool" where
  "unit_char c \<longleftrightarrow> c \<noteq> CHR ''.'' \<and> \<not> is_digit c"

text \<open>One number-and-unit group; the rest of the string is strictly shorter.\<close>

definition duration_group :: "string \<Rightarrow> (int \<times> string) option" where
  "duration_group s =
     (case s of [] \<Rightarrow> None | c # _ \<Rightarrow>
        if c \<noteq> CHR ''.'' \<and> \<not> is_digit c then None
        else (case leading_int 0 s of None \<Rightarrow> None | Some (v, s1) \<Rightarrow>
          (let pre = (length s1 \<noteq> length s);
               (f, scale, s2, post) =
                 (case s1 of
                    CHR 0x2E # s1' \<Rightarrow>
                      (case leading_fraction 0 1 False s1' of
                         (f, scale, s2) \<Rightarrow> (f, scale, s2, length s2 \<noteq> length s1'))
                  | _ \<Rightarrow> (0, 1, s1, False));
               u = takeWhile unit_char s2; rest = dropWhile unit_char s2
           in if \<not> pre \<and> \<not> post then None
              else if u = [] then None
              else (case unit_ns u of None \<Rightarrow> None | Some unit \<Rightarrow>
                if v > 2 ^ 63 div unit then None
                else let w = v * unit + (if f > 0 then (f * unit) div scale else 0)
                  in if w > 2 ^ 63 then None else Some (w, rest)))))"

fun duration_groups :: "nat \<Rightarrow> int \<Rightarrow> string \<Rightarrow> int option" where
  "duration_groups 0 d s = (if s = [] then Some d else None)"
| "duration_groups (Suc n) d s =
     (if s = [] then Some d
      else (case duration_group s of None \<Rightarrow> None
        | Some (v, rest) \<Rightarrow> if d + v > 2 ^ 63 then None else duration_groups n (d + v) rest))"

text \<open>A group takes at least one byte of unit, so as many rounds as bytes are enough.\<close>

definition parse_duration :: "string \<Rightarrow> duration option" where
  "parse_duration s0 =
     (let neg = (case s0 of c # _ \<Rightarrow> c = CHR ''-'' | [] \<Rightarrow> False);
          s = (case s0 of c # cs \<Rightarrow> if c = CHR ''-'' \<or> c = CHR ''+'' then cs else s0 | [] \<Rightarrow> [])
      in if s = ''0'' then Some 0
         else if s = [] then None
         else (case duration_groups (length s) 0 s of None \<Rightarrow> None
           | Some d \<Rightarrow> if neg then Some (- d) else if d > 2 ^ 63 - 1 then None else Some d))"

text \<open>Decimal numbers, \<^verbatim>\<open>strconv.Itoa\<close>.\<close>

fun show_nat :: "nat \<Rightarrow> string" where
  "show_nat n =
     (if n < 10 then [char_of (48 + n)] else show_nat (n div 10) @ [char_of (48 + n mod 10)])"

declare show_nat.simps [simp del]

definition show_int :: "int \<Rightarrow> string" where
  "show_int n = (if n < 0 then CHR ''-'' # show_nat (nat (- n)) else show_nat (nat n))"

end
