(* ===== verification/Kernel.thy ===== *)
theory Kernel
  imports Prelude
begin

text \<open>
  The error values of \<^verbatim>\<open>src/internal/kernel/errors.go\<close> and the dynamically typed values
  (\<^verbatim>\<open>map[string]any\<close>, \<^verbatim>\<open>json.RawMessage\<close>) the components exchange. An error is the sentinel
  that \<^verbatim>\<open>errors.Is\<close> finds in its chain together with its message; arguments formatted into a
  message are not part of it.
\<close>

datatype err_kind =
  ErrNotFound | ErrUnauthorized | ErrForbidden | ErrInvalidRequest | ErrConflict | ErrOther

datatype err = Err (err_kind: err_kind) (err_msg: string)

definition err_is :: "err \<Rightarrow> err_kind \<Rightarrow> bool" where
  "err_is e k \<longleftrightarrow> err_kind e = k"

lemma err_is_simps [simp, result_simps]: "err_is (Err k m) k' \<longleftrightarrow> k = k'"
  by (simp add: err_is_def)

type_synonym 'a res = "err + 'a"

text \<open>The sentinel itself, returned unwrapped.\<close>

abbreviation sentinel :: "err_kind \<Rightarrow> err" where
  "sentinel k \<equiv> Err k []"

section \<open>Raw JSON\<close>

text \<open>
  A \<^verbatim>\<open>json.RawMessage\<close> of a snapshot is well-formed JSON text (it comes from a jsonb column or
  from decoding a larger document), so it is modelled by its value; \<open>None\<close> is the empty message.
  Numbers are exact.
\<close>

datatype json =
    JNull
  | JBool bool
  | JNum rat
  | JStr string
  | JArr "json list"
  | JObj "(string \<times> json) list"

type_synonym raw_json = "json option"

text \<open>
  \<^verbatim>\<open>json.Unmarshal\<close> into a struct whose fields are strings: an object assigns the members whose
  name matches the field's up to case, the last one winning, \<^verbatim>\<open>null\<close> changes nothing and any
  other type of value is an error.
\<close>

definition json_str_member :: "string \<Rightarrow> string \<times> json \<Rightarrow> string res \<Rightarrow> string res" where
  "json_str_member name kv acc =
     (case acc of Inl e \<Rightarrow> Inl e | Inr old \<Rightarrow>
        if to_lower (fst kv) = name then
          (case snd kv of JStr v \<Rightarrow> Inr v | JNull \<Rightarrow> Inr old
             | _ \<Rightarrow> Inl (Err ErrOther ''json: cannot unmarshal into Go struct field''))
        else Inr old)"

definition json_str_field :: "string \<Rightarrow> json \<Rightarrow> string res" where
  "json_str_field name j =
     (case j of
        JObj kvs \<Rightarrow> fold (json_str_member name) kvs (Inr [])
      | JNull \<Rightarrow> Inr []
      | _ \<Rightarrow> Inl (Err ErrOther ''json: cannot unmarshal into Go value''))"

section \<open>Values of type any\<close>

datatype goval =
    GNil
  | GBool bool
  | GStr string
  | GFloat64 rat
  | GFloat32 rat
  | GInt int
  | GInt32 int
  | GInt64 int
  | GUint nat
  | GUint64 nat
  | GOther

end
