(* ===== verification/Provider_Catalog.thy ===== *)
theory Provider_Catalog
  imports Kernel
begin

text \<open>
  \<^verbatim>\<open>src/internal/providercatalog\<close>: the registry of provider types. The package-level map is the
  explicit state \<open>registry\<close>; \<open>builtin_registry\<close> is its value after the package's \<^verbatim>\<open>init\<close>.
\<close>

section \<open>Data\<close>

definition AuthAPIKey :: string where "AuthAPIKey = ''api_key''"
definition AuthOptional :: string where "AuthOptional = ''optional''"

record capabilities =
  cap_chat :: bool
  cap_stream :: bool
  cap_tts :: bool
  cap_stt :: bool
  cap_embedding :: bool
  cap_image :: bool

definition no_caps :: capabilities where
  "no_caps = \<lparr>cap_chat = False, cap_stream = False, cap_tts = False, cap_stt = False,
     cap_embedding = False, cap_image = False\<rparr>"

record seed_route =
  sr_id :: string
  sr_model :: string
  sr_target_model :: string

record spec =
  sp_type :: string
  sp_display_name :: string
  sp_default_base_url :: string
  sp_default_api_key_env :: string
  sp_capabilities :: capabilities
  sp_auth_mode :: string
  sp_ui_visible :: bool
  sp_seed :: bool
  sp_seed_id :: string
  sp_seed_route :: "seed_route option"
  sp_catalog_alias :: string

definition zero_spec :: spec where
  "zero_spec = \<lparr>sp_type = [], sp_display_name = [], sp_default_base_url = [],
     sp_default_api_key_env = [], sp_capabilities = no_caps, sp_auth_mode = [],
     sp_ui_visible = False, sp_seed = False, sp_seed_id = [], sp_seed_route = None,
     sp_catalog_alias = []\<rparr>"

type_synonym registry = "(string, spec) gomap"

section \<open>Operations\<close>

definition canon_type :: "string \<Rightarrow> string" where
  "canon_type typ = to_lower (trim_space typ)"

definition register_spec :: "spec \<Rightarrow> registry \<Rightarrow> registry" where
  "register_spec s reg =
     (let typ = canon_type (sp_type s) in
      if typ = [] then reg
      else
        let s1 = s\<lparr>sp_type := typ\<rparr>;
            s2 = (if sp_auth_mode s1 = [] then s1\<lparr>sp_auth_mode := AuthAPIKey\<rparr> else s1)
        in gm_put typ s2 reg)"

definition pc_lookup :: "registry \<Rightarrow> string \<Rightarrow> spec option" where
  "pc_lookup reg typ = gm_get reg (canon_type typ)"

definition pc_must :: "registry \<Rightarrow> string \<Rightarrow> spec" where
  "pc_must reg typ =
     (case pc_lookup reg typ of
        Some s \<Rightarrow> s
      | None \<Rightarrow> zero_spec\<lparr>sp_type := canon_type typ, sp_auth_mode := AuthAPIKey\<rparr>)"

definition pc_all :: "registry \<Rightarrow> spec list" where
  "pc_all reg = stable_sort (\<lambda>a b. sp_type a < sp_type b) (map snd reg)"

definition pc_ui_visible :: "registry \<Rightarrow> spec list" where
  "pc_ui_visible reg = filter sp_ui_visible (pc_all reg)"

definition pc_seedable :: "registry \<Rightarrow> spec list" where
  "pc_seedable reg = filter sp_seed (pc_all reg)"

definition seed_provider_id :: "spec \<Rightarrow> string" where
  "seed_provider_id s =
     (let i = trim_space (sp_seed_id s) in if i \<noteq> [] then i else ''prov_'' @ sp_type s)"

definition allows_empty_api_key :: "registry \<Rightarrow> string \<Rightarrow> bool" where
  "allows_empty_api_key reg typ =
     (case pc_lookup reg typ of None \<Rightarrow> False | Some s \<Rightarrow> sp_auth_mode s = AuthOptional)"

definition catalog_aliases :: "registry \<Rightarrow> string \<Rightarrow> string list" where
  "catalog_aliases reg typ =
     (case pc_lookup reg typ of
        None \<Rightarrow> []
      | Some s \<Rightarrow> if trim_space (sp_catalog_alias s) = [] then []
                  else [to_lower (trim_space (sp_catalog_alias s))])"

section \<open>The built-in provider types\<close>

definition all_caps :: capabilities where
  "all_caps = \<lparr>cap_chat = True, cap_stream = True, cap_tts = True, cap_stt = True,
     cap_embedding = True, cap_image = True\<rparr>"

definition chat_caps :: capabilities where
  "chat_caps = no_caps\<lparr>cap_chat := True, cap_stream := True\<rparr>"

definition builtin_spec ::
  "string \<Rightarrow> string \<Rightarrow> string \<Rightarrow> string \<Rightarrow> capabilities \<Rightarrow> string \<Rightarrow> string \<Rightarrow> string \<Rightarrow> spec" where
  "builtin_spec typ display url env caps auth seed_id alias =
     zero_spec\<lparr>sp_type := typ, sp_display_name := display, sp_default_base_url := url,
       sp_default_api_key_env := env, sp_capabilities := caps, sp_auth_mode := auth,
       sp_ui_visible := True, sp_seed := True, sp_seed_id := seed_id, sp_catalog_alias := alias\<rparr>"

definition builtin_specs :: "spec list" where
  "builtin_specs =
    [builtin_spec ''openai'' ''OpenAI'' ''https://api.openai.com/v1'' ''OPENAI_API_KEY''
       all_caps AuthAPIKey ''prov_openai'' [],
     builtin_spec ''openai_compatible'' ''Ollama / compatible'' ''http://127.0.0.1:11434/v1''
       ''OLLAMA_API_KEY'' all_caps AuthAPIKey ''prov_ollama'' ''openai'',
     builtin_spec ''azure_openai'' ''Azure OpenAI'' ''https://YOUR_RESOURCE.openai.azure.com''
       ''AZURE_OPENAI_API_KEY'' all_caps AuthAPIKey ''prov_azure_openai'' ''openai'',
     builtin_spec ''anthropic'' ''Anthropic'' ''https://api.anthropic.com/v1'' ''ANTHROPIC_API_KEY''
       chat_caps AuthAPIKey ''prov_anthropic'' [],
     builtin_spec ''gemini'' ''Gemini'' ''https://generativelanguage.googleapis.com/v1beta''
       ''GEMINI_API_KEY'' chat_caps AuthAPIKey ''prov_gemini'' [],
     builtin_spec ''bedrock'' ''AWS Bedrock'' ''https://bedrock-runtime.us-west-2.amazonaws.com''
       [] chat_caps AuthOptional ''prov_bedrock'' [],
     builtin_spec ''elevenlabs'' ''ElevenLabs'' ''https://api.elevenlabs.io'' ''ELEVENLABS_API_KEY''
       (no_caps\<lparr>cap_tts := True, cap_stt := True\<rparr>) AuthAPIKey ''prov_elevenlabs'' [],
     (builtin_spec ''echo'' ''Echo (extension)'' ''http://localhost/echo'' ''ECHO_UNUSED''
       (no_caps\<lparr>cap_chat := True\<rparr>) AuthAPIKey ''prov_echo'' [])
       \<lparr>sp_seed_route := Some \<lparr>sr_id = ''route_echo'', sr_model = ''echo-demo'',
          sr_target_model = ''echo-demo''\<rparr>\<rparr>]"

definition builtin_registry :: registry where
  "builtin_registry = fold register_spec builtin_specs []"

section \<open>The registry invariant\<close>

text \<open>Every entry is stored under its own canonical type and has an authentication mode.\<close>

definition registry_ok :: "registry \<Rightarrow> bool" where
  "registry_ok reg \<longleftrightarrow> gm_wf reg \<and>
     (\<forall>(typ, s) \<in> set reg. typ = sp_type s \<and> typ \<noteq> [] \<and> sp_auth_mode s \<noteq> [])"

lemma registry_ok_Nil [simp, intro]: "registry_ok []"
  by (simp add: registry_ok_def)

lemma set_gm_put_subset: "set (gm_put k v m) \<subseteq> insert (k, v) (set m)"
  by (induction m) auto

lemma registry_ok_register [intro]: "registry_ok reg \<Longrightarrow> registry_ok (register_spec s reg)"
  using set_gm_put_subset by (fastforce simp: registry_ok_def register_spec_def Let_def AuthAPIKey_def)

lemma registry_ok_fold: "registry_ok reg \<Longrightarrow> registry_ok (fold register_spec ss reg)"
  by (induction ss arbitrary: reg) auto

lemma registry_ok_builtin: "registry_ok builtin_registry"
  unfolding builtin_registry_def by (rule registry_ok_fold) simp

lemma pc_lookup_register:
  assumes "canon_type (sp_type s) \<noteq> []"
  shows "pc_lookup (register_spec s reg) typ =
     (if canon_type typ = canon_type (sp_type s)
      then Some (s\<lparr>sp_type := canon_type (sp_type s),
        sp_auth_mode := (if sp_auth_mode s = [] then AuthAPIKey else sp_auth_mode s)\<rparr>)
      else pc_lookup reg typ)"
  using assms by (auto simp: pc_lookup_def register_spec_def Let_def)

lemma pc_lookup_type: "registry_ok reg \<Longrightarrow> pc_lookup reg typ = Some s \<Longrightarrow> sp_type s = canon_type typ"
  by (fastforce simp: pc_lookup_def registry_ok_def dest: gm_get_set)

lemma pc_all_sorted: "registry_ok reg \<Longrightarrow> sorted (map sp_type (pc_all reg)) \<and> distinct (map sp_type (pc_all reg))"
proof
  assume ok: "registry_ok reg"
  have s: "pc_all reg = sort_key sp_type (map snd reg)"
    unfolding pc_all_def by (rule stable_sort_key) simp
  show "sorted (map sp_type (pc_all reg))" by (simp add: s)
  have "map sp_type (map snd reg) = map fst reg"
    using ok by (auto simp: registry_ok_def)
  then have "distinct (map sp_type (map snd reg))"
    using ok by (simp only: registry_ok_def gm_wf_def)
  moreover have "mset (map sp_type (pc_all reg)) = mset (map sp_type (map snd reg))"
    by (simp only: pc_all_def mset_map mset_stable_sort)
  ultimately show "distinct (map sp_type (pc_all reg))"
    using mset_eq_imp_distinct_iff by blast
qed

lemma bedrock_allows_empty_key:
  "allows_empty_api_key builtin_registry '' Bedrock '' \<and> \<not> allows_empty_api_key builtin_registry ''openai''"
  by code_simp

lemma pc_all_length: "length (pc_all reg) = length reg"
  by (simp add: pc_all_def)

end
