(* ===== verification/Snapshot_Types.thy ===== *)
theory Snapshot_Types
  imports Provider_Catalog
begin

text \<open>
  The data of \<^verbatim>\<open>src/internal/snapshot\<close>: the compiled gateway configuration
  (\<^verbatim>\<open>types.go\<close>, \<^verbatim>\<open>policy.go\<close>, \<^verbatim>\<open>capabilities.go\<close>), the retry policy with its back-off
  (\<^verbatim>\<open>retry.go\<close>), and the key hash (\<^verbatim>\<open>hash.go\<close>). Field names carry a prefix per struct.
\<close>

section \<open>Constants\<close>

definition ScopeOrganization :: string where "ScopeOrganization = ''organization''"
definition ScopeTeam :: string where "ScopeTeam = ''team''"
definition ScopeProject :: string where "ScopeProject = ''project''"
definition ScopeUser :: string where "ScopeUser = ''user''"
definition ScopeAPIKey :: string where "ScopeAPIKey = ''api_key''"

lemmas scope_defs =
  ScopeOrganization_def ScopeTeam_def ScopeProject_def ScopeUser_def ScopeAPIKey_def

definition MetricRequests :: string where "MetricRequests = ''requests''"
definition MetricTokens :: string where "MetricTokens = ''tokens''"

definition WindowTotal :: string where "WindowTotal = ''total''"
definition WindowMinute :: string where "WindowMinute = ''minute''"
definition WindowHour :: string where "WindowHour = ''hour''"
definition WindowDay :: string where "WindowDay = ''day''"

lemmas window_defs = WindowTotal_def WindowMinute_def WindowHour_def WindowDay_def

definition RequestWindows :: "string list" where
  "RequestWindows = [WindowMinute, WindowHour, WindowDay, WindowTotal]"

definition StatusActive :: string where "StatusActive = ''active''"
definition AuthMethodAPIKey :: string where "AuthMethodAPIKey = ''api_key''"
definition AuthMethodSignedRequest :: string where "AuthMethodSignedRequest = ''signed_request''"

section \<open>Retry policy\<close>

record backoff_config =
  bo_strategy :: string
  bo_base_delay :: string
  bo_max_delay :: string
  bo_multiplier :: rat

record retry_config =
  rc_max_attempts :: int
  rc_backoff :: backoff_config

text \<open>
  \<^verbatim>\<open>time.Duration(f)\<close> for a float \<open>f\<close> truncates towards zero; outside the range of
  \<^verbatim>\<open>int64\<close> the language leaves the result to the implementation, which is the argument \<open>ovf\<close>.
  The product is exact here, where Go rounds to double precision.
\<close>

definition float_to_i64 :: "(rat \<Rightarrow> int) \<Rightarrow> rat \<Rightarrow> int" where
  "float_to_i64 ovf x =
     (let n = (if x < 0 then \<lceil>x\<rceil> else \<lfloor>x\<rfloor>) in
      if - (2 ^ 63) \<le> n \<and> n < 2 ^ 63 then n else i64 (ovf x))"

definition rc_delay :: "(rat \<Rightarrow> int) \<Rightarrow> retry_config option \<Rightarrow> int \<Rightarrow> duration" where
  "rc_delay ovf c n =
     (case c of None \<Rightarrow> 0 | Some c \<Rightarrow>
        if n < 0 then 0
        else (case parse_duration (bo_base_delay (rc_backoff c)) of None \<Rightarrow> 0 | Some base \<Rightarrow>
          if base < 0 then 0
          else if bo_strategy (rc_backoff c) = ''fixed'' then base
          else if bo_strategy (rc_backoff c) = ''exponential'' then
            (let m = bo_multiplier (rc_backoff c);
                 mult = (if m = 0 then 2 else m);
                 d = float_to_i64 ovf (of_int base * mult ^ nat n)
             in if bo_max_delay (rc_backoff c) \<noteq> [] then
                  (case parse_duration (bo_max_delay (rc_backoff c)) of
                     Some mx \<Rightarrow> if d > mx then mx else d
                   | None \<Rightarrow> d)
                else d)
          else 0))"

section \<open>Structs\<close>

record object_store_config =
  os_enabled :: bool
  os_endpoint :: string
  os_region :: string
  os_bucket :: string
  os_use_ssl :: bool
  os_path_style :: bool
  os_credential_id :: string
  os_access_key_env :: string
  os_secret_key_env :: string
  os_presign_ttl_seconds :: int

record mcp_backend =
  mb_id :: string
  mb_organization_id :: string
  mb_alias :: string
  mb_name :: string
  mb_base_url :: string
  mb_api_key_env :: string
  mb_method_allowlist :: "string list"
  mb_enabled :: bool
  mb_inline_api_key :: string

record a2a_agent =
  aa_id :: string
  aa_organization_id :: string
  aa_alias :: string
  aa_name :: string
  aa_upstream_url :: string
  aa_card_url :: string
  aa_card_cache :: raw_json
  aa_api_key_env :: string
  aa_auth_scheme :: string
  aa_enabled :: bool
  aa_inline_api_key :: string

record wasm_hook =
  wh_id :: string
  wh_organization_id :: string
  wh_name :: string
  wh_phase :: string
  wh_module_uri :: string
  wh_digest :: string
  wh_enabled :: bool
  wh_priority :: int
  wh_config :: raw_json

record credential =
  cr_id :: string
  cr_organization_id :: string
  cr_name :: string
  cr_provider_type :: string
  cr_storage_kind :: string
  cr_secret_ref :: string
  cr_encrypted_payload :: string
  cr_key_version :: int
  cr_status :: string

record quota =
  qt_id :: string
  qt_organization_id :: string
  qt_scope_type :: string
  qt_scope_id :: string
  qt_metric :: string
  qt_limit_value :: int
  qt_window :: string

record api_key =
  ak_key_hash :: string
  ak_key_prefix :: string
  ak_project_id :: string
  ak_team_id :: string
  ak_environment_id :: string
  ak_organization_id :: string
  ak_name :: string
  ak_id :: string
  ak_kind :: string
  ak_owner_user_id :: string

definition zero_api_key :: api_key where
  "zero_api_key = \<lparr>ak_key_hash = [], ak_key_prefix = [], ak_project_id = [], ak_team_id = [],
     ak_environment_id = [], ak_organization_id = [], ak_name = [], ak_id = [], ak_kind = [],
     ak_owner_user_id = []\<rparr>"

record signing_key =
  sk_id :: string
  sk_key_id :: string
  sk_project_id :: string
  sk_team_id :: string
  sk_environment_id :: string
  sk_organization_id :: string
  sk_name :: string
  sk_algorithm :: string
  sk_public_key_pem :: string
  sk_status :: string

record principal =
  pr_organization_id :: string
  pr_project_id :: string
  pr_team_id :: string
  pr_environment_id :: string
  pr_api_key_id :: string
  pr_signing_key_id :: string
  pr_key_id :: string
  pr_auth_method :: string
  pr_kind :: string
  pr_owner_user_id :: string
  pr_name :: string

record provider =
  pv_id :: string
  pv_type :: string
  pv_base_url :: string
  pv_api_key_env :: string
  pv_name :: string
  pv_capabilities :: capabilities
  pv_config :: raw_json
  pv_inline_api_key :: string

record route_target =
  rt_provider_id :: string
  rt_target_model :: string
  rt_weight :: int

record route =
  ro_organization_id :: string
  ro_model :: string
  ro_provider_id :: string
  ro_target_model :: string
  ro_fallbacks :: "route_target list"
  ro_retry :: "retry_config option"
  ro_routing_strategy :: string
  ro_weight :: int

record policy_action =
  pa_type :: string
  pa_config :: raw_json

record policy =
  po_id :: string
  po_organization_id :: string
  po_name :: string
  po_expression :: string
  po_actions :: "policy_action list"
  po_enabled :: bool
  po_priority :: int

definition effective_actions :: "policy \<Rightarrow> policy_action list" where
  "effective_actions p = po_actions p"

text \<open>
  \<open>sn_allowed\<close> is \<^verbatim>\<open>AllowedOrganizationIDs\<close>: \<open>None\<close> is the nil slice, which the code tells apart
  from an empty one. Nil and empty maps are both \<open>[]\<close>. The maps to pointers keep nil entries.
\<close>

record snapshot =
  sn_version :: int
  sn_created_at :: gotime
  sn_api_keys :: "(string, api_key) gomap"
  sn_signing_keys :: "(string, signing_key) gomap"
  sn_providers :: "(string, provider) gomap"
  sn_routes :: "(string, route) gomap"
  sn_credentials :: "(string, credential) gomap"
  sn_assignments :: "(string, string) gomap"
  sn_quotas :: "quota list"
  sn_policies :: "policy list"
  sn_wasm_hooks :: "wasm_hook list"
  sn_mcp_backends :: "(string, mcp_backend) gomap"
  sn_mcp_routes :: "(string, string) gomap"
  sn_a2a_agents :: "(string, a2a_agent) gomap"
  sn_a2a_routes :: "(string, string) gomap"
  sn_default_retries :: "(string, retry_config option) gomap"
  sn_object_stores :: "(string, object_store_config option) gomap"
  sn_allowed :: "string list option"

definition empty_snapshot :: snapshot where
  "empty_snapshot = \<lparr>sn_version = 0, sn_created_at = 0, sn_api_keys = [], sn_signing_keys = [],
     sn_providers = [], sn_routes = [], sn_credentials = [], sn_assignments = [], sn_quotas = [],
     sn_policies = [], sn_wasm_hooks = [], sn_mcp_backends = [], sn_mcp_routes = [],
     sn_a2a_agents = [], sn_a2a_routes = [], sn_default_retries = [], sn_object_stores = [],
     sn_allowed = None\<rparr>"

section \<open>Keys of the indexes\<close>

definition route_key :: "string \<Rightarrow> string \<Rightarrow> string" where
  "route_key org model = org @ ''::'' @ model"

definition mcp_route_key :: "string \<Rightarrow> string \<Rightarrow> string" where
  "mcp_route_key org alias = org @ ''::'' @ alias"

definition a2a_route_key :: "string \<Rightarrow> string \<Rightarrow> string" where
  "a2a_route_key org alias = org @ ''::'' @ alias"

definition assignment_key :: "string \<Rightarrow> string \<Rightarrow> string \<Rightarrow> string" where
  "assignment_key provider_type scope_type scope_id =
     provider_type @ ''::'' @ scope_type @ ''::'' @ scope_id"

text \<open>The hash of a raw key: hexadecimal SHA-256, with \<open>sha\<close> the digest function.\<close>

definition hex_digit :: "nat \<Rightarrow> char" where
  "hex_digit n = char_of (if n < 10 then 48 + n else 87 + n)"

definition hex_encode :: "string \<Rightarrow> string" where
  "hex_encode bs =
     concat (map (\<lambda>b. let n = of_char b :: nat in [hex_digit (n div 16), hex_digit (n mod 16)]) bs)"

definition hash_key :: "(string \<Rightarrow> string) \<Rightarrow> string \<Rightarrow> string" where
  "hash_key sha raw = hex_encode (sha raw)"

section \<open>Identities\<close>

definition principal_from_api_key :: "api_key \<Rightarrow> principal" where
  "principal_from_api_key k =
     \<lparr>pr_organization_id = ak_organization_id k, pr_project_id = ak_project_id k,
      pr_team_id = ak_team_id k, pr_environment_id = ak_environment_id k,
      pr_api_key_id = ak_id k, pr_signing_key_id = [], pr_key_id = [],
      pr_auth_method = AuthMethodAPIKey, pr_kind = ak_kind k,
      pr_owner_user_id = ak_owner_user_id k, pr_name = ak_name k\<rparr>"

definition principal_from_signing_key :: "signing_key \<Rightarrow> principal" where
  "principal_from_signing_key k =
     \<lparr>pr_organization_id = sk_organization_id k, pr_project_id = sk_project_id k,
      pr_team_id = sk_team_id k, pr_environment_id = sk_environment_id k,
      pr_api_key_id = [], pr_signing_key_id = sk_id k, pr_key_id = sk_key_id k,
      pr_auth_method = AuthMethodSignedRequest, pr_kind = ''service_account'',
      pr_owner_user_id = [], pr_name = sk_name k\<rparr>"

definition policy_key :: "principal \<Rightarrow> api_key" where
  "policy_key p =
     zero_api_key\<lparr>ak_id := (if pr_api_key_id p = [] then pr_signing_key_id p else pr_api_key_id p),
       ak_project_id := pr_project_id p, ak_team_id := pr_team_id p,
       ak_environment_id := pr_environment_id p, ak_organization_id := pr_organization_id p,
       ak_name := pr_name p, ak_kind := pr_kind p, ak_owner_user_id := pr_owner_user_id p\<rparr>"

section \<open>Provider capabilities\<close>

definition caps_from_catalog :: "capabilities \<Rightarrow> capabilities" where
  "caps_from_catalog c = c"

definition default_capabilities :: "registry \<Rightarrow> string \<Rightarrow> capabilities" where
  "default_capabilities reg typ =
     (case pc_lookup reg typ of
        Some s \<Rightarrow> caps_from_catalog (sp_capabilities s)
      | None \<Rightarrow> no_caps\<lparr>cap_chat := True, cap_stream := True\<rparr>)"

definition normalize_capabilities :: "registry \<Rightarrow> string \<Rightarrow> capabilities \<Rightarrow> capabilities" where
  "normalize_capabilities reg typ c =
     (let d = default_capabilities reg typ in
      if \<not> cap_chat c \<and> \<not> cap_stream c \<and> \<not> cap_tts c \<and> \<not> cap_stt c \<and> \<not> cap_embedding c \<and> \<not> cap_image c
      then d
      else
        let c1 = (if \<not> cap_tts c \<and> \<not> cap_stt c \<and> (cap_tts d \<or> cap_stt d)
                  then c\<lparr>cap_tts := cap_tts d, cap_stt := cap_stt d\<rparr> else c);
            c2 = (if \<not> cap_embedding c1 \<and> cap_embedding d then c1\<lparr>cap_embedding := True\<rparr> else c1)
        in if \<not> cap_image c2 \<and> cap_image d then c2\<lparr>cap_image := True\<rparr> else c2)"

definition default_api_key_env :: "registry \<Rightarrow> string \<Rightarrow> string" where
  "default_api_key_env reg typ =
     (case pc_lookup reg typ of Some s \<Rightarrow> sp_default_api_key_env s | None \<Rightarrow> ''OPENAI_API_KEY'')"

section \<open>Lemmas on the data\<close>

text \<open>
  Normalising the capabilities twice is normalising once, and it never takes a capability away.
\<close>

definition caps_empty :: "capabilities \<Rightarrow> bool" where
  "caps_empty c \<longleftrightarrow> \<not> cap_chat c \<and> \<not> cap_stream c \<and> \<not> cap_tts c \<and> \<not> cap_stt c \<and>
     \<not> cap_embedding c \<and> \<not> cap_image c"

lemma normalize_capabilities_empty:
  "caps_empty c \<Longrightarrow> normalize_capabilities reg typ c = default_capabilities reg typ"
  by (simp add: normalize_capabilities_def caps_empty_def Let_def)

lemma normalize_capabilities_fields:
  assumes "\<not> caps_empty c" and "d = default_capabilities reg typ" and "n = normalize_capabilities reg typ c"
  shows "cap_chat n = cap_chat c" "cap_stream n = cap_stream c"
    "cap_tts n = (cap_tts c \<or> \<not> cap_stt c \<and> cap_tts d)"
    "cap_stt n = (cap_stt c \<or> \<not> cap_tts c \<and> cap_stt d)"
    "cap_embedding n = (cap_embedding c \<or> cap_embedding d)"
    "cap_image n = (cap_image c \<or> cap_image d)"
  using assms by (auto simp: normalize_capabilities_def caps_empty_def Let_def)

lemma normalize_capabilities_idem:
  "normalize_capabilities reg typ (normalize_capabilities reg typ c) = normalize_capabilities reg typ c"
proof -
  let ?d = "default_capabilities reg typ" and ?n = "normalize_capabilities reg typ"
  have fixed: "?n n = n" if "cap_tts n \<or> cap_stt n \<or> (\<not> cap_tts ?d \<and> \<not> cap_stt ?d)"
    "cap_embedding ?d \<Longrightarrow> cap_embedding n" "cap_image ?d \<Longrightarrow> cap_image n" "\<not> caps_empty n" for n
    using that by (simp add: normalize_capabilities_def caps_empty_def Let_def) blast
  show ?thesis
  proof (cases "caps_empty c")
    case True
    then show ?thesis
      by (cases "caps_empty ?d") (auto simp: normalize_capabilities_empty intro: fixed)
  next
    case False
    note f = normalize_capabilities_fields [OF False refl refl]
    have "\<not> caps_empty (?n c)" using False by (auto simp: caps_empty_def f)
    then show ?thesis by (intro fixed) (auto simp: f)
  qed
qed

lemma normalize_capabilities_mono:
  "cap_chat c \<Longrightarrow> cap_chat (normalize_capabilities reg typ c)"
  "cap_tts c \<Longrightarrow> cap_tts (normalize_capabilities reg typ c)"
  "cap_image c \<Longrightarrow> cap_image (normalize_capabilities reg typ c)"
  by (cases "caps_empty c"; simp add: normalize_capabilities_fields [OF _ refl refl] caps_empty_def)+

text \<open>An index key determines its parts when the organization contains no colon.\<close>

lemma append_sep_inj:
  "CHR '':'' \<notin> set a \<Longrightarrow> CHR '':'' \<notin> set b \<Longrightarrow> a @ CHR '':'' # x = b @ CHR '':'' # y \<longleftrightarrow> a = b \<and> x = y"
proof (induction a arbitrary: b)
  case Nil
  then show ?case by (cases b) auto
next
  case (Cons c a)
  then show ?case by (cases b) auto
qed

lemma route_key_inj:
  "CHR '':'' \<notin> set org \<Longrightarrow> CHR '':'' \<notin> set org' \<Longrightarrow>
   route_key org m = route_key org' m' \<longleftrightarrow> org = org' \<and> m = m'"
  by (simp add: route_key_def append_sep_inj)

lemma assignment_key_inj:
  assumes "CHR '':'' \<notin> set pt" "CHR '':'' \<notin> set pt'" "CHR '':'' \<notin> set st" "CHR '':'' \<notin> set st'"
  shows "assignment_key pt st i = assignment_key pt' st' i' \<longleftrightarrow> pt = pt' \<and> st = st' \<and> i = i'"
  using assms by (simp add: assignment_key_def append_sep_inj)

lemma policy_key_api_key:
  "ak_id (policy_key (principal_from_api_key k)) = ak_id k"
  "ak_organization_id (policy_key (principal_from_api_key k)) = ak_organization_id k"
  "ak_project_id (policy_key (principal_from_api_key k)) = ak_project_id k"
  by (simp_all add: policy_key_def principal_from_api_key_def)

end
