(* ===== verification/Snapshot.thy ===== *)
theory Snapshot
  imports Snapshot_Types
begin

text \<open>
  \<^verbatim>\<open>src/internal/snapshot\<close>: compiling the control-plane view into a snapshot (\<^verbatim>\<open>compile.go\<close>)
  and the lookups of the data plane on it (\<^verbatim>\<open>types.go\<close>). A \<^verbatim>\<open>*Snapshot\<close> that may be nil is a
  \<open>snapshot option\<close>; a result \<open>(T, bool)\<close> is an option. The lemmas characterise each index by
  the source rows, the credential and quota resolution by precedence, and the allowlist.
\<close>

section \<open>Lookups\<close>

definition lookup_key :: "(string \<Rightarrow> string) \<Rightarrow> snapshot option \<Rightarrow> string \<Rightarrow> api_key option" where
  "lookup_key sha s raw =
     (case s of None \<Rightarrow> None | Some s \<Rightarrow> gm_get (sn_api_keys s) (hash_key sha raw))"

definition lookup_signing_key :: "snapshot option \<Rightarrow> string \<Rightarrow> signing_key option" where
  "lookup_signing_key s key_id =
     (case s of None \<Rightarrow> None | Some s \<Rightarrow>
        (case gm_get (sn_signing_keys s) (trim_space key_id) of
           None \<Rightarrow> None
         | Some k \<Rightarrow> if sk_status k \<noteq> ''active'' then None else Some k))"

definition lookup_route :: "snapshot option \<Rightarrow> string \<Rightarrow> string \<Rightarrow> (route \<times> provider) option" where
  "lookup_route s org model =
     (case s of None \<Rightarrow> None | Some s \<Rightarrow>
        (case gm_get (sn_routes s) (route_key org model) of
           None \<Rightarrow> None
         | Some r \<Rightarrow> (case gm_get (sn_providers s) (ro_provider_id r) of
              None \<Rightarrow> None
            | Some p \<Rightarrow> Some (r, p))))"

definition lookup_mcp_backend :: "snapshot option \<Rightarrow> string \<Rightarrow> string \<Rightarrow> mcp_backend option" where
  "lookup_mcp_backend s org alias =
     (case s of None \<Rightarrow> None | Some s \<Rightarrow>
        (case gm_get (sn_mcp_routes s) (mcp_route_key org alias) of
           None \<Rightarrow> None
         | Some i \<Rightarrow> (case gm_get (sn_mcp_backends s) i of
              None \<Rightarrow> None
            | Some b \<Rightarrow> if mb_enabled b then Some b else None)))"

definition lookup_a2a_agent :: "snapshot option \<Rightarrow> string \<Rightarrow> string \<Rightarrow> a2a_agent option" where
  "lookup_a2a_agent s org alias =
     (case s of None \<Rightarrow> None | Some s \<Rightarrow>
        (case gm_get (sn_a2a_routes s) (a2a_route_key org alias) of
           None \<Rightarrow> None
         | Some i \<Rightarrow> (case gm_get (sn_a2a_agents s) i of
              None \<Rightarrow> None
            | Some a \<Rightarrow> if aa_enabled a then Some a else None)))"

text \<open>The loop over the credential map returns the first match in iteration order.\<close>

definition credential_matches :: "string \<Rightarrow> string \<Rightarrow> string \<Rightarrow> credential \<Rightarrow> bool" where
  "credential_matches org pt name c \<longleftrightarrow>
     cr_status c = StatusActive \<and> cr_organization_id c = org \<and> cr_provider_type c = pt \<and> cr_name c = name"

definition lookup_credential_by_name ::
  "snapshot option \<Rightarrow> string \<Rightarrow> string \<Rightarrow> string \<Rightarrow> credential option" where
  "lookup_credential_by_name s org0 pt0 name0 =
     (case s of None \<Rightarrow> None | Some s \<Rightarrow>
        let org = trim_space org0; pt = trim_space pt0; name = trim_space name0 in
        if org = [] \<or> pt = [] \<or> name = [] then None
        else find (credential_matches org pt name) (map snd (sn_credentials s)))"

datatype cred_result = CredHit credential | CredNone | CredMissingOverride

text \<open>One assignment scope: the assigned credential, when the scope is set and it is active.\<close>

definition assigned_credential :: "snapshot \<Rightarrow> string \<Rightarrow> string \<Rightarrow> string \<Rightarrow> credential option" where
  "assigned_credential s pt scope_type scope_id =
     (if scope_id = [] then None
      else (case gm_get (sn_assignments s) (assignment_key pt scope_type scope_id) of
          None \<Rightarrow> None
        | Some i \<Rightarrow> (case gm_get (sn_credentials s) i of
              None \<Rightarrow> None
            | Some c \<Rightarrow> if cr_status c = StatusActive then Some c else None)))"

definition resolve_credential_for_call ::
  "snapshot option \<Rightarrow> string \<Rightarrow> api_key \<Rightarrow> string \<Rightarrow> cred_result" where
  "resolve_credential_for_call s pt key override_name =
     (case s of None \<Rightarrow> CredNone | Some sn \<Rightarrow>
        let name = trim_space override_name in
        if name \<noteq> [] then
          (case lookup_credential_by_name s (ak_organization_id key) pt name of
             None \<Rightarrow> CredMissingOverride
           | Some c \<Rightarrow> CredHit c)
        else
          (case assigned_credential sn pt ScopeAPIKey (ak_id key) of
             Some c \<Rightarrow> CredHit c
           | None \<Rightarrow> (case assigned_credential sn pt ScopeProject (ak_project_id key) of
               Some c \<Rightarrow> CredHit c
             | None \<Rightarrow> (case assigned_credential sn pt ScopeOrganization (ak_organization_id key) of
                 Some c \<Rightarrow> CredHit c
               | None \<Rightarrow> CredNone))))"

definition resolve_credential :: "snapshot option \<Rightarrow> string \<Rightarrow> api_key \<Rightarrow> credential option" where
  "resolve_credential s pt key =
     (case resolve_credential_for_call s pt key [] of CredHit c \<Rightarrow> Some c | _ \<Rightarrow> None)"

definition valid_quota_window :: "string \<Rightarrow> bool" where
  "valid_quota_window w \<longleftrightarrow> w \<in> {WindowTotal, WindowMinute, WindowHour, WindowDay}"

definition quota_rank :: "api_key \<Rightarrow> quota \<Rightarrow> nat" where
  "quota_rank key q =
     (if qt_scope_type q = ScopeAPIKey then (if qt_scope_id q = ak_id key then 5 else 0)
      else if qt_scope_type q = ScopeUser then
        (if ak_owner_user_id key \<noteq> [] \<and> qt_scope_id q = ak_owner_user_id key then 4 else 0)
      else if qt_scope_type q = ScopeProject then
        (if ak_project_id key \<noteq> [] \<and> qt_scope_id q = ak_project_id key then 3 else 0)
      else if qt_scope_type q = ScopeTeam then
        (if ak_team_id key \<noteq> [] \<and> qt_scope_id q = ak_team_id key then 2 else 0)
      else if qt_scope_type q = ScopeOrganization then
        (if qt_scope_id q = ak_organization_id key then 1 else 0)
      else 0)"

fun quota_loop :: "api_key \<Rightarrow> string \<Rightarrow> string \<Rightarrow> quota list \<Rightarrow> nat \<Rightarrow> quota option \<Rightarrow> quota option" where
  "quota_loop key metric window [] best found = found"
| "quota_loop key metric window (q # qs) best found =
     (if qt_metric q \<noteq> metric \<or> qt_window q \<noteq> window then quota_loop key metric window qs best found
      else if quota_rank key q > best
        then quota_loop key metric window qs (quota_rank key q) (Some q)
      else quota_loop key metric window qs best found)"

definition resolve_quota :: "snapshot option \<Rightarrow> api_key \<Rightarrow> string \<Rightarrow> string \<Rightarrow> quota option" where
  "resolve_quota s key metric window =
     (case s of None \<Rightarrow> None | Some s \<Rightarrow>
        quota_loop key metric (if window = [] then WindowTotal else window) (sn_quotas s) 0 None)"

definition resolve_retry :: "snapshot option \<Rightarrow> route \<Rightarrow> retry_config option" where
  "resolve_retry s r =
     (case ro_retry r of Some c \<Rightarrow> Some c
      | None \<Rightarrow> (case s of None \<Rightarrow> None | Some s \<Rightarrow>
          (case gm_get (sn_default_retries s) (ro_organization_id r) of None \<Rightarrow> None | Some c \<Rightarrow> c)))"

definition resolve_object_store :: "snapshot option \<Rightarrow> string \<Rightarrow> object_store_config option" where
  "resolve_object_store s org =
     (case s of None \<Rightarrow> None | Some s \<Rightarrow>
        if org = [] then None
        else (case gm_get (sn_object_stores s) org of None \<Rightarrow> None | Some c \<Rightarrow> c))"

definition allows_organization :: "snapshot option \<Rightarrow> string \<Rightarrow> bool" where
  "allows_organization s org =
     (case s of None \<Rightarrow> False | Some s \<Rightarrow>
        (case sn_allowed s of None \<Rightarrow> True
         | Some ids \<Rightarrow> (let o' = trim_space org in o' \<noteq> [] \<and> o' \<in> set ids)))"

section \<open>Compilation\<close>

record credential_assignment =
  ca_credential_id :: string
  ca_provider_type :: string
  ca_scope_type :: string
  ca_scope_id :: string

record source =
  so_api_keys :: "api_key list"
  so_signing_keys :: "signing_key list"
  so_providers :: "provider list"
  so_routes :: "route list"
  so_credentials :: "credential list"
  so_assignments :: "credential_assignment list"
  so_quotas :: "quota list"
  so_policies :: "policy list"
  so_wasm_hooks :: "wasm_hook list"
  so_mcp_backends :: "mcp_backend list"
  so_a2a_agents :: "a2a_agent list"
  so_default_retries :: "(string, retry_config option) gomap"
  so_object_stores :: "(string, object_store_config option) gomap"

definition empty_source :: source where
  "empty_source = \<lparr>so_api_keys = [], so_signing_keys = [], so_providers = [], so_routes = [],
     so_credentials = [], so_assignments = [], so_quotas = [], so_policies = [],
     so_wasm_hooks = [], so_mcp_backends = [], so_a2a_agents = [], so_default_retries = [],
     so_object_stores = []\<rparr>"

text \<open>What each loop of \<^verbatim>\<open>Compile\<close> writes for one row, if anything.\<close>

definition api_key_row :: "api_key \<Rightarrow> (string \<times> api_key) option" where
  "api_key_row k = (if ak_key_hash k = [] then None else Some (ak_key_hash k, k))"

definition signing_key_row :: "signing_key \<Rightarrow> (string \<times> signing_key) option" where
  "signing_key_row k = (if sk_key_id k = [] then None else Some (sk_key_id k, k))"

definition provider_row :: "registry \<Rightarrow> provider \<Rightarrow> (string \<times> provider) option" where
  "provider_row reg p =
     Some (pv_id p, p\<lparr>pv_capabilities := normalize_capabilities reg (pv_type p) (pv_capabilities p)\<rparr>)"

definition route_row :: "route \<Rightarrow> (string \<times> route) option" where
  "route_row r = Some (route_key (ro_organization_id r) (ro_model r), r)"

definition credential_row :: "credential \<Rightarrow> (string \<times> credential) option" where
  "credential_row c = (if cr_id c = [] then None else Some (cr_id c, c))"

definition assignment_row :: "credential_assignment \<Rightarrow> (string \<times> string) option" where
  "assignment_row a =
     (if ca_credential_id a = [] \<or> ca_provider_type a = [] \<or> ca_scope_type a = [] \<or> ca_scope_id a = []
      then None
      else Some (assignment_key (ca_provider_type a) (ca_scope_type a) (ca_scope_id a), ca_credential_id a))"

definition mcp_backend_row :: "mcp_backend \<Rightarrow> (string \<times> mcp_backend) option" where
  "mcp_backend_row b =
     (if mb_id b = [] \<or> mb_organization_id b = [] \<or> mb_alias b = [] then None else Some (mb_id b, b))"

definition mcp_alias_row :: "mcp_backend \<Rightarrow> (string \<times> string) option" where
  "mcp_alias_row b =
     (if mb_id b = [] \<or> mb_organization_id b = [] \<or> mb_alias b = [] \<or> \<not> mb_enabled b then None
      else Some (mcp_route_key (mb_organization_id b) (mb_alias b), mb_id b))"

definition a2a_agent_row :: "a2a_agent \<Rightarrow> (string \<times> a2a_agent) option" where
  "a2a_agent_row a =
     (if aa_id a = [] \<or> aa_organization_id a = [] \<or> aa_alias a = [] then None else Some (aa_id a, a))"

definition a2a_alias_row :: "a2a_agent \<Rightarrow> (string \<times> string) option" where
  "a2a_alias_row a =
     (if aa_id a = [] \<or> aa_organization_id a = [] \<or> aa_alias a = [] \<or> \<not> aa_enabled a then None
      else Some (a2a_route_key (aa_organization_id a) (aa_alias a), aa_id a))"

definition org_pointer_row :: "string \<times> 'a option \<Rightarrow> (string \<times> 'a option) option" where
  "org_pointer_row kv = (if fst kv = [] \<or> snd kv = None then None else Some kv)"

definition compile :: "registry \<Rightarrow> gotime \<Rightarrow> source \<Rightarrow> snapshot" where
  "compile reg now src =
     (let backends = index_by mcp_backend_row (so_mcp_backends src) [];
          agents = index_by a2a_agent_row (so_a2a_agents src) []
      in \<lparr>sn_version = 0, sn_created_at = now,
          sn_api_keys = index_by api_key_row (so_api_keys src) [],
          sn_signing_keys = index_by signing_key_row (so_signing_keys src) [],
          sn_providers = index_by (provider_row reg) (so_providers src) [],
          sn_routes = index_by route_row (so_routes src) [],
          sn_credentials = index_by credential_row (so_credentials src) [],
          sn_assignments = index_by assignment_row (so_assignments src) [],
          sn_quotas = so_quotas src,
          sn_policies = so_policies src,
          sn_wasm_hooks = so_wasm_hooks src,
          sn_mcp_backends = backends,
          sn_mcp_routes =
            (if backends = [] then [] else index_by mcp_alias_row (so_mcp_backends src) []),
          sn_a2a_agents = agents,
          sn_a2a_routes =
            (if agents = [] then [] else index_by a2a_alias_row (so_a2a_agents src) []),
          sn_default_retries = index_by org_pointer_row (so_default_retries src) [],
          sn_object_stores = index_by org_pointer_row (so_object_stores src) [],
          sn_allowed = None\<rparr>)"

text \<open>
  \<^verbatim>\<open>append([]string(nil), xs...)\<close> is nil when \<open>xs\<close> is empty.
\<close>

definition append_to_nil :: "'a list \<Rightarrow> 'a list option" where
  "append_to_nil xs = (if xs = [] then None else Some xs)"

definition compile_region :: "registry \<Rightarrow> gotime \<Rightarrow> source \<Rightarrow> string list option \<Rightarrow> snapshot" where
  "compile_region reg now src allowed =
     (let ids = (case allowed of None \<Rightarrow> [] | Some ids \<Rightarrow> ids)
      in (compile reg now src)\<lparr>sn_allowed := append_to_nil ids\<rparr>)"

section \<open>Quota resolution\<close>

text \<open>How well a quota matches: 0 for not at all, else the rank of its scope.\<close>

definition quota_match :: "api_key \<Rightarrow> string \<Rightarrow> string \<Rightarrow> quota \<Rightarrow> nat" where
  "quota_match key metric window q =
     (if qt_metric q = metric \<and> qt_window q = window then quota_rank key q else 0)"

lemma quota_loop_match:
  "quota_loop key metric window (q # qs) best found =
     (if quota_match key metric window q > best
      then quota_loop key metric window qs (quota_match key metric window q) (Some q)
      else quota_loop key metric window qs best found)"
  by (auto simp: quota_match_def)

declare quota_loop.simps(2) [simp del]

lemma quota_loop_spec:
  "(quota_loop key metric w qs best found = found \<and> (\<forall>q\<in>set qs. quota_match key metric w q \<le> best)) \<or>
   (\<exists>i<length qs. quota_loop key metric w qs best found = Some (qs ! i) \<and>
      best < quota_match key metric w (qs ! i) \<and>
      (\<forall>q\<in>set qs. quota_match key metric w q \<le> quota_match key metric w (qs ! i)) \<and>
      (\<forall>j<i. quota_match key metric w (qs ! j) < quota_match key metric w (qs ! i)))"
proof (induction qs arbitrary: best found)
  case (Cons q qs)
  let ?m = "quota_match key metric w"
  show ?case
  proof (cases "?m q > best")
    case True
    then have eq: "quota_loop key metric w (q # qs) best found = quota_loop key metric w qs (?m q) (Some q)"
      by (simp add: quota_loop_match)
    from Cons [of "?m q" "Some q"] show ?thesis
    proof (elim disjE exE conjE)
      assume "quota_loop key metric w qs (?m q) (Some q) = Some q" "\<forall>q'\<in>set qs. ?m q' \<le> ?m q"
      with eq True show ?thesis by (intro disjI2 exI [of _ 0]) auto
    next
      fix i
      assume i: "i < length qs" "quota_loop key metric w qs (?m q) (Some q) = Some (qs ! i)"
        "?m q < ?m (qs ! i)" "\<forall>q\<in>set qs. ?m q \<le> ?m (qs ! i)" "\<forall>j<i. ?m (qs ! j) < ?m (qs ! i)"
      have "\<forall>j<Suc i. ?m ((q # qs) ! j) < ?m (qs ! i)"
        using i(3,5) by (auto simp: less_Suc_eq_0_disj)
      with i eq True show ?thesis by (intro disjI2 exI [of _ "Suc i"]) auto
    qed
  next
    case False
    then have eq: "quota_loop key metric w (q # qs) best found = quota_loop key metric w qs best found"
      by (simp add: quota_loop_match)
    from Cons [of best found] show ?thesis
    proof (elim disjE exE conjE)
      assume "quota_loop key metric w qs best found = found" "\<forall>q'\<in>set qs. ?m q' \<le> best"
      with eq False show ?thesis by (intro disjI1) auto
    next
      fix i
      assume i: "i < length qs" "quota_loop key metric w qs best found = Some (qs ! i)"
        "best < ?m (qs ! i)" "\<forall>q\<in>set qs. ?m q \<le> ?m (qs ! i)" "\<forall>j<i. ?m (qs ! j) < ?m (qs ! i)"
      have "\<forall>j<Suc i. ?m ((q # qs) ! j) < ?m (qs ! i)"
        using i(3,5) False by (auto simp: less_Suc_eq_0_disj)
      with i eq False show ?thesis by (intro disjI2 exI [of _ "Suc i"]) auto
    qed
  qed
qed simp

lemma resolve_quota_Some:
  assumes "resolve_quota (Some s) key metric window = Some q" and "window \<noteq> []"
  obtains i where "i < length (sn_quotas s)" "q = sn_quotas s ! i" "0 < quota_match key metric window q"
    "\<forall>q'\<in>set (sn_quotas s). quota_match key metric window q' \<le> quota_match key metric window q"
    "\<forall>j<i. quota_match key metric window (sn_quotas s ! j) < quota_match key metric window q"
  using quota_loop_spec [of key metric window "sn_quotas s" 0 None] assms
  by (auto simp: resolve_quota_def)

lemma resolve_quota_None_iff:
  "window \<noteq> [] \<Longrightarrow> resolve_quota (Some s) key metric window = None \<longleftrightarrow>
     (\<forall>q\<in>set (sn_quotas s). quota_match key metric window q = 0)"
  using quota_loop_spec [of key metric window "sn_quotas s" 0 None]
  by (fastforce simp: resolve_quota_def)

lemma quota_match_pos:
  "0 < quota_match key metric window q \<Longrightarrow> qt_metric q = metric \<and> qt_window q = window \<and> 0 < quota_rank key q"
  by (auto simp: quota_match_def split: if_splits)

section \<open>Credential resolution\<close>

lemma lookup_credential_by_name_SomeD:
  assumes "lookup_credential_by_name (Some s) org pt name = Some c"
  shows "credential_matches (trim_space org) (trim_space pt) (trim_space name) c"
    and "c \<in> snd ` set (sn_credentials s)"
proof -
  have "find (credential_matches (trim_space org) (trim_space pt) (trim_space name))
      (map snd (sn_credentials s)) = Some c"
    using assms by (auto simp: lookup_credential_by_name_def Let_def split: if_splits)
  then obtain i where "i < length (sn_credentials s)" "c = map snd (sn_credentials s) ! i"
    "credential_matches (trim_space org) (trim_space pt) (trim_space name) c"
    by (auto simp: find_Some_iff)
  then show "credential_matches (trim_space org) (trim_space pt) (trim_space name) c"
    "c \<in> snd ` set (sn_credentials s)" by auto
qed

lemma assigned_credential_SomeD:
  assumes "assigned_credential s pt st i = Some c"
  shows "cr_status c = StatusActive" "i \<noteq> []"
    "\<exists>cid. gm_get (sn_assignments s) (assignment_key pt st i) = Some cid \<and> gm_get (sn_credentials s) cid = Some c"
  using assms by (auto simp: assigned_credential_def split: if_splits option.splits)

lemma find_unique:
  assumes "mset xs = mset ys" and "\<And>x y. x \<in> set xs \<Longrightarrow> y \<in> set xs \<Longrightarrow> P x \<Longrightarrow> P y \<Longrightarrow> x = y"
  shows "find P xs = find P ys"
proof -
  have s: "set xs = set ys" using assms(1) by (metis set_mset_mset)
  show ?thesis
  proof (cases "find P xs")
    case None
    then show ?thesis using s by (metis find_None_iff)
  next
    case (Some x)
    then have x: "x \<in> set xs" "P x" by (auto simp: find_Some_iff)
    then obtain y where y: "find P ys = Some y"
      using s by (cases "find P ys") (auto simp: find_None_iff)
    then have "y \<in> set ys" "P y" by (auto simp: find_Some_iff)
    with x s assms(2) y Some show ?thesis by metis
  qed
qed

section \<open>Compiled indexes\<close>

lemma compile_simps [simp]:
  "sn_api_keys (compile reg now src) = index_by api_key_row (so_api_keys src) []"
  "sn_signing_keys (compile reg now src) = index_by signing_key_row (so_signing_keys src) []"
  "sn_providers (compile reg now src) = index_by (provider_row reg) (so_providers src) []"
  "sn_routes (compile reg now src) = index_by route_row (so_routes src) []"
  "sn_credentials (compile reg now src) = index_by credential_row (so_credentials src) []"
  "sn_assignments (compile reg now src) = index_by assignment_row (so_assignments src) []"
  "sn_quotas (compile reg now src) = so_quotas src"
  "sn_policies (compile reg now src) = so_policies src"
  "sn_mcp_backends (compile reg now src) = index_by mcp_backend_row (so_mcp_backends src) []"
  "sn_a2a_agents (compile reg now src) = index_by a2a_agent_row (so_a2a_agents src) []"
  "sn_default_retries (compile reg now src) = index_by org_pointer_row (so_default_retries src) []"
  "sn_allowed (compile reg now src) = None"
  by (simp_all add: compile_def Let_def)

text \<open>Dropping the alias index together with the empty backend index loses nothing.\<close>

lemma compile_mcp_routes [simp]:
  "sn_mcp_routes (compile reg now src) = index_by mcp_alias_row (so_mcp_backends src) []"
proof -
  have "mcp_backend_row b = None \<Longrightarrow> mcp_alias_row b = None" for b
    by (auto simp: mcp_backend_row_def mcp_alias_row_def split: if_splits)
  then have "index_by mcp_backend_row (so_mcp_backends src) [] = [] \<Longrightarrow> index_by mcp_alias_row (so_mcp_backends src) [] = []"
    by (simp add: index_by_empty_iff)
  then show ?thesis by (auto simp: compile_def Let_def)
qed

lemma compile_a2a_routes [simp]:
  "sn_a2a_routes (compile reg now src) = index_by a2a_alias_row (so_a2a_agents src) []"
proof -
  have "a2a_agent_row b = None \<Longrightarrow> a2a_alias_row b = None" for b
    by (auto simp: a2a_agent_row_def a2a_alias_row_def split: if_splits)
  then have "index_by a2a_agent_row (so_a2a_agents src) [] = [] \<Longrightarrow> index_by a2a_alias_row (so_a2a_agents src) [] = []"
    by (simp add: index_by_empty_iff)
  then show ?thesis by (auto simp: compile_def Let_def)
qed

lemma last_with_api_key:
  "k \<noteq> [] \<Longrightarrow> last_with api_key_row xs k = find_last (\<lambda>x. ak_key_hash x = k) xs"
  by (rule last_with_find_last_id) (auto simp: api_key_row_def split: if_splits)

lemma last_with_credential:
  "k \<noteq> [] \<Longrightarrow> last_with credential_row xs k = find_last (\<lambda>x. cr_id x = k) xs"
  by (rule last_with_find_last_id) (auto simp: credential_row_def split: if_splits)

definition normalized_provider :: "registry \<Rightarrow> provider \<Rightarrow> provider" where
  "normalized_provider reg p =
     p\<lparr>pv_capabilities := normalize_capabilities reg (pv_type p) (pv_capabilities p)\<rparr>"

lemma last_with_provider:
  "last_with (provider_row reg) ps i = map_option (normalized_provider reg) (find_last (\<lambda>p. pv_id p = i) ps)"
  by (rule last_with_find_last) (auto simp: provider_row_def normalized_provider_def)

lemma last_with_route:
  assumes "CHR '':'' \<notin> set org" and "\<forall>r\<in>set rs. CHR '':'' \<notin> set (ro_organization_id r)"
  shows "last_with route_row rs (route_key org m) =
     find_last (\<lambda>r. ro_organization_id r = org \<and> ro_model r = m) rs"
  using assms by (intro last_with_find_last_id) (auto simp: route_row_def route_key_inj)

lemma compile_index_wf:
  "gm_wf (sn_api_keys (compile reg now src)) \<and> gm_wf (sn_routes (compile reg now src)) \<and>
   gm_wf (sn_providers (compile reg now src)) \<and> gm_wf (sn_credentials (compile reg now src)) \<and>
   gm_wf (sn_assignments (compile reg now src))"
  by (simp add: gm_wf_index_by)

text \<open>With distinct identifiers a compiled backend is found under its own identifier only.\<close>

lemma mcp_index_SomeD:
  assumes "distinct (map mb_id bs)" and "last_with mcp_alias_row bs k = Some i"
    and "last_with mcp_backend_row bs i = Some b"
  shows "b \<in> set bs \<and> mb_enabled b \<and> k = mcp_route_key (mb_organization_id b) (mb_alias b)"
proof -
  from assms(2) obtain b1 where b1: "b1 \<in> set bs" "mcp_alias_row b1 = Some (k, i)"
    by (meson last_with_SomeD)
  from assms(3) obtain b2 where b2: "b2 \<in> set bs" "mcp_backend_row b2 = Some (i, b)"
    by (meson last_with_SomeD)
  have eqs: "mb_id b1 = i" "b2 = b" "mb_id b = i"
    using b1(2) b2(2) by (auto simp: mcp_alias_row_def mcp_backend_row_def split: if_splits)
  have "b1 = b" using assms(1) b1(1) b2(1) eqs by (metis inj_on_def distinct_map)
  with b1 show ?thesis by (auto simp: mcp_alias_row_def split: if_splits)
qed

section \<open>Properties\<close>

text \<open>
  Quota resolution picks the most specific quota. For a metric and window, the result is a
  quota of the snapshot with that metric and window whose scope is the caller's, no other
  matching quota has a more specific scope (key, then user, project, team, organization), and
  it is the first of its rank; there is no result exactly when no quota matches.
\<close>

theorem resolve_quota_most_specific:
  assumes "window \<noteq> []"
  shows "case resolve_quota (Some s) key metric window of
       None \<Rightarrow> \<forall>q\<in>set (sn_quotas s). quota_match key metric window q = 0
     | Some q \<Rightarrow> \<exists>i<length (sn_quotas s). q = sn_quotas s ! i \<and>
          qt_metric q = metric \<and> qt_window q = window \<and> 0 < quota_rank key q \<and>
          (\<forall>q'\<in>set (sn_quotas s). quota_match key metric window q' \<le> quota_rank key q) \<and>
          (\<forall>j<i. quota_match key metric window (sn_quotas s ! j) < quota_rank key q)"
proof (cases "resolve_quota (Some s) key metric window")
  case None
  with assms have "\<forall>q\<in>set (sn_quotas s). quota_match key metric window q = 0"
    using resolve_quota_None_iff by blast
  with None show ?thesis by simp
next
  case (Some q)
  from resolve_quota_Some [OF Some assms] obtain i where i: "i < length (sn_quotas s)"
    "q = sn_quotas s ! i" "0 < quota_match key metric window q"
    "\<forall>q'\<in>set (sn_quotas s). quota_match key metric window q' \<le> quota_match key metric window q"
    "\<forall>j<i. quota_match key metric window (sn_quotas s ! j) < quota_match key metric window q" .
  from quota_match_pos [OF i(3)] have "quota_match key metric window q = quota_rank key q"
    by (simp add: quota_match_def)
  with i quota_match_pos [OF i(3)] Some show ?thesis by auto
qed

definition demo_key :: api_key where
  "demo_key = zero_api_key\<lparr>ak_id := ''k1'', ak_organization_id := ''o1'', ak_project_id := ''p1''\<rparr>"

definition demo_quota :: "string \<Rightarrow> string \<Rightarrow> int \<Rightarrow> quota" where
  "demo_quota scope i n = \<lparr>qt_id = i, qt_organization_id = ''o1'', qt_scope_type = scope,
     qt_scope_id = i, qt_metric = ''requests'', qt_limit_value = n, qt_window = ''minute''\<rparr>"

definition demo_quota_snapshot :: snapshot where
  "demo_quota_snapshot = empty_snapshot\<lparr>sn_quotas :=
     [demo_quota ''organization'' ''o1'' 100, demo_quota ''project'' ''p1'' 10,
      demo_quota ''project'' ''p2'' 5]\<rparr>"

lemma demo_quota_resolved:
  "resolve_quota (Some demo_quota_snapshot) demo_key ''requests'' ''minute'' =
     Some (demo_quota ''project'' ''p1'' 10)"
  by code_simp

theorem resolve_quota_most_specific_witness:
  "\<exists>q i. resolve_quota (Some demo_quota_snapshot) demo_key ''requests'' ''minute'' = Some q \<and>
     q = sn_quotas demo_quota_snapshot ! i \<and> 0 < quota_rank demo_key q \<and> qt_limit_value q = 10"
  using resolve_quota_most_specific [of "''minute''" demo_quota_snapshot demo_key "''requests''"]
  by (auto simp: demo_quota_resolved demo_quota_def)

text \<open>
  A credential chosen for a call is active, and a policy override never falls back. With
  an override the result is either the organization's own active credential of that provider
  type and name or the explicit missing-override outcome; without one it is the credential
  assigned to the key, else to the project, else to the organization, skipping scopes whose
  assignment is absent or inactive.
\<close>

theorem resolve_credential_fail_closed:
  "case resolve_credential_for_call (Some s) pt key override_name of
     CredHit c \<Rightarrow> cr_status c = StatusActive \<and>
       (if trim_space override_name \<noteq> []
        then cr_organization_id c = trim_space (ak_organization_id key) \<and>
             cr_provider_type c = trim_space pt \<and> cr_name c = trim_space override_name
        else assigned_credential s pt ScopeAPIKey (ak_id key) = Some c \<or>
             assigned_credential s pt ScopeAPIKey (ak_id key) = None \<and>
               (assigned_credential s pt ScopeProject (ak_project_id key) = Some c \<or>
                assigned_credential s pt ScopeProject (ak_project_id key) = None \<and>
                assigned_credential s pt ScopeOrganization (ak_organization_id key) = Some c))
   | CredMissingOverride \<Rightarrow> trim_space override_name \<noteq> [] \<and>
       lookup_credential_by_name (Some s) (ak_organization_id key) pt override_name = None
   | CredNone \<Rightarrow> trim_space override_name = [] \<and>
       assigned_credential s pt ScopeAPIKey (ak_id key) = None \<and>
       assigned_credential s pt ScopeProject (ak_project_id key) = None \<and>
       assigned_credential s pt ScopeOrganization (ak_organization_id key) = None"
proof -
  have trim: "lookup_credential_by_name (Some s) org pt (trim_space n) = lookup_credential_by_name (Some s) org pt n"
    for org n by (simp add: lookup_credential_by_name_def)
  show ?thesis
    by (auto simp: resolve_credential_for_call_def Let_def trim credential_matches_def
        split: option.splits dest: lookup_credential_by_name_SomeD(1) assigned_credential_SomeD(1))
qed

text \<open>
  Looking a credential up by name does not depend on Go's map iteration order, as long as
  active credentials are unique per organization, provider type and name.
\<close>

theorem lookup_credential_by_name_order:
  assumes "mset (sn_credentials s) = mset (sn_credentials s')"
    and "\<And>c c'. c \<in> snd ` set (sn_credentials s) \<Longrightarrow> c' \<in> snd ` set (sn_credentials s) \<Longrightarrow>
       cr_status c = StatusActive \<Longrightarrow> cr_status c' = StatusActive \<Longrightarrow>
       cr_organization_id c = cr_organization_id c' \<Longrightarrow> cr_provider_type c = cr_provider_type c' \<Longrightarrow>
       cr_name c = cr_name c' \<Longrightarrow> c = c'"
  shows "lookup_credential_by_name (Some s) org pt name = lookup_credential_by_name (Some s') org pt name"
proof -
  have "mset (map snd (sn_credentials s)) = mset (map snd (sn_credentials s'))"
    using assms(1) by (simp only: mset_map)
  then have "find (credential_matches o' p' n') (map snd (sn_credentials s)) =
      find (credential_matches o' p' n') (map snd (sn_credentials s'))" for o' p' n'
  proof (rule find_unique)
    fix c c'
    assume "c \<in> set (map snd (sn_credentials s))" "c' \<in> set (map snd (sn_credentials s))"
    then have "c \<in> snd ` set (sn_credentials s)" "c' \<in> snd ` set (sn_credentials s)" by simp_all
    note unique = assms(2) [OF this]
    assume "credential_matches o' p' n' c" "credential_matches o' p' n' c'"
    then show "c = c'" by (intro unique) (simp_all add: credential_matches_def)
  qed
  then show ?thesis by (simp add: lookup_credential_by_name_def Let_def)
qed

definition demo_credential :: "string \<Rightarrow> string \<Rightarrow> credential" where
  "demo_credential i name = \<lparr>cr_id = i, cr_organization_id = ''o1'', cr_name = name,
     cr_provider_type = ''openai'', cr_storage_kind = ''env'', cr_secret_ref = ''X'',
     cr_encrypted_payload = [], cr_key_version = 0, cr_status = ''active''\<rparr>"

definition demo_credentials :: "(string, credential) gomap" where
  "demo_credentials = [(''c1'', demo_credential ''c1'' ''prod''), (''c2'', demo_credential ''c2'' ''dev'')]"

theorem lookup_credential_by_name_order_witness:
  "lookup_credential_by_name (Some (empty_snapshot\<lparr>sn_credentials := demo_credentials\<rparr>)) ''o1'' ''openai'' ''prod'' =
   lookup_credential_by_name (Some (empty_snapshot\<lparr>sn_credentials := rev demo_credentials\<rparr>)) ''o1'' ''openai'' ''prod''"
  by (rule lookup_credential_by_name_order) (auto simp: demo_credentials_def demo_credential_def)

text \<open>
  Routes are isolated per organization. On a compiled snapshot a route lookup finds the
  last source row of exactly that organization and model, joined with the last provider row of
  the route's provider identifier with its capabilities normalised; a missing route or provider
  gives no result. Organization identifiers must not contain a colon, since keys are
  concatenated.
\<close>

theorem compile_route_lookup:
  assumes "CHR '':'' \<notin> set org" and "\<forall>r\<in>set (so_routes src). CHR '':'' \<notin> set (ro_organization_id r)"
  shows "lookup_route (Some (compile reg now src)) org model =
     (case find_last (\<lambda>r. ro_organization_id r = org \<and> ro_model r = model) (so_routes src) of
        None \<Rightarrow> None
      | Some r \<Rightarrow> (case find_last (\<lambda>p. pv_id p = ro_provider_id r) (so_providers src) of
            None \<Rightarrow> None
          | Some p \<Rightarrow> Some (r, normalized_provider reg p)))"
  using assms
  by (auto simp: lookup_route_def gm_get_index_by last_with_route last_with_provider split: option.splits)

definition demo_provider :: "string \<Rightarrow> string \<Rightarrow> provider" where
  "demo_provider i typ = \<lparr>pv_id = i, pv_type = typ, pv_base_url = ''u'', pv_api_key_env = ''E'',
     pv_name = i, pv_capabilities = no_caps, pv_config = None, pv_inline_api_key = []\<rparr>"

definition demo_route :: "string \<Rightarrow> string \<Rightarrow> string \<Rightarrow> route" where
  "demo_route org model prov = \<lparr>ro_organization_id = org, ro_model = model, ro_provider_id = prov,
     ro_target_model = model, ro_fallbacks = [], ro_retry = None, ro_routing_strategy = [],
     ro_weight = 0\<rparr>"

definition demo_source :: source where
  "demo_source = empty_source\<lparr>so_providers := [demo_provider ''pa'' ''openai'', demo_provider ''pb'' ''gemini''],
     so_routes := [demo_route ''a'' ''m'' ''pa'', demo_route ''b'' ''m'' ''pb'']\<rparr>"

theorem compile_route_lookup_witness:
  "lookup_route (Some (compile builtin_registry 0 demo_source)) ''b'' ''m'' =
     Some (demo_route ''b'' ''m'' ''pb'', normalized_provider builtin_registry (demo_provider ''pb'' ''gemini''))"
  by (subst compile_route_lookup) (simp_all add: demo_source_def demo_route_def demo_provider_def empty_source_def)

text \<open>
  MCP backends are isolated per organization: when backend identifiers are distinct and
  organization identifiers contain no colon, an alias resolves on a compiled snapshot only to
  an enabled source backend of that very organization and alias.
\<close>

theorem compile_mcp_isolation:
  assumes "distinct (map mb_id (so_mcp_backends src))"
    and "CHR '':'' \<notin> set org" and "\<forall>b\<in>set (so_mcp_backends src). CHR '':'' \<notin> set (mb_organization_id b)"
    and "lookup_mcp_backend (Some (compile reg now src)) org alias = Some b"
  shows "b \<in> set (so_mcp_backends src) \<and> mb_enabled b \<and> mb_organization_id b = org \<and> mb_alias b = alias"
proof -
  from assms(4) obtain i where
    "last_with mcp_alias_row (so_mcp_backends src) (mcp_route_key org alias) = Some i"
    "last_with mcp_backend_row (so_mcp_backends src) i = Some b"
    by (auto simp: lookup_mcp_backend_def gm_get_index_by split: option.splits if_splits)
  from mcp_index_SomeD [OF assms(1) this] assms(2,3) show ?thesis
    by (auto simp: mcp_route_key_def append_sep_inj)
qed

definition demo_backend :: "string \<Rightarrow> string \<Rightarrow> mcp_backend" where
  "demo_backend i org = \<lparr>mb_id = i, mb_organization_id = org, mb_alias = ''git'', mb_name = i,
     mb_base_url = ''u'', mb_api_key_env = [], mb_method_allowlist = [], mb_enabled = True,
     mb_inline_api_key = []\<rparr>"

theorem compile_mcp_isolation_witness:
  "mb_organization_id (demo_backend ''x2'' ''b'') = ''b'' \<and>
   lookup_mcp_backend (Some (compile builtin_registry 0
     (empty_source\<lparr>so_mcp_backends := [demo_backend ''x1'' ''a'', demo_backend ''x2'' ''b'']\<rparr>))) ''b'' ''git'' =
     Some (demo_backend ''x2'' ''b'')"
proof -
  let ?src = "empty_source\<lparr>so_mcp_backends := [demo_backend ''x1'' ''a'', demo_backend ''x2'' ''b'']\<rparr>"
  have l: "lookup_mcp_backend (Some (compile builtin_registry 0 ?src)) ''b'' ''git'' = Some (demo_backend ''x2'' ''b'')"
    by code_simp
  have "mb_organization_id (demo_backend ''x2'' ''b'') = ''b''"
    using compile_mcp_isolation [OF _ _ _ l] by (simp add: demo_backend_def)
  with l show ?thesis by blast
qed

text \<open>
  A region snapshot compiled with a non-empty allowlist admits exactly the listed
  organizations (after trimming the caller's identifier; an empty identifier is refused).
\<close>

theorem region_allowlist_exact:
  assumes "ids \<noteq> []"
  shows "allows_organization (Some (compile_region reg now src (Some ids))) org \<longleftrightarrow>
     trim_space org \<noteq> [] \<and> trim_space org \<in> set ids"
  using assms by (simp add: allows_organization_def compile_region_def append_to_nil_def Let_def)

theorem region_allowlist_exact_witness:
  "allows_organization (Some (compile_region builtin_registry 0 empty_source (Some [''o1'']))) ''o1'' \<and>
   \<not> allows_organization (Some (compile_region builtin_registry 0 empty_source (Some [''o1'']))) ''o2''"
proof -
  have "trim_space ''o1'' = ''o1''" "trim_space ''o2'' = ''o2''" by code_simp+
  then show ?thesis
    using region_allowlist_exact [of "[''o1'']" builtin_registry 0 empty_source] by simp
qed

text \<open>
  A region snapshot compiled for a region with no organizations is unrestricted: the
  allowlist becomes nil (appending nothing to a nil slice), which the gateway reads as a global
  snapshot, so every organization is admitted although the allowlist is meant to be empty.
\<close>

theorem empty_region_allowlist_admits_all:
  "allows_organization (Some (compile_region reg now src (Some []))) org \<and>
   allows_organization (Some (compile_region reg now src None)) org"
  by (simp add: allows_organization_def compile_region_def append_to_nil_def Let_def)

end
