(* ===== verification/Model_Catalog.thy ===== *)
theory Model_Catalog
  imports Provider_Catalog
begin

text \<open>
  \<^verbatim>\<open>src/internal/usage\<close> (the usage event) and \<^verbatim>\<open>src/internal/modelcatalog\<close> (curated model
  metadata and the cost estimate). The embedded \<^verbatim>\<open>catalog.json\<close> is the argument \<open>entries\<close>;
  floating-point numbers are exact rationals.
\<close>

section \<open>Usage events\<close>

record usage_event =
  ue_organization_id :: string
  ue_project_id :: string
  ue_team_id :: string
  ue_environment_id :: string
  ue_api_key_id :: string
  ue_signing_key_id :: string
  ue_signer_key_id :: string
  ue_auth_method :: string
  ue_credential_id :: string
  ue_used_byok :: bool
  ue_model :: string
  ue_provider_type :: string
  ue_target_model :: string
  ue_status :: string
  ue_latency_ms :: int
  ue_prompt_tokens :: int
  ue_completion_tokens :: int
  ue_modality :: string
  ue_metrics :: "(string, goval) gomap"
  ue_tags :: "(string, string) gomap"

definition zero_usage_event :: usage_event where
  "zero_usage_event = \<lparr>ue_organization_id = [], ue_project_id = [], ue_team_id = [],
     ue_environment_id = [], ue_api_key_id = [], ue_signing_key_id = [], ue_signer_key_id = [],
     ue_auth_method = [], ue_credential_id = [], ue_used_byok = False, ue_model = [],
     ue_provider_type = [], ue_target_model = [], ue_status = [], ue_latency_ms = 0,
     ue_prompt_tokens = 0, ue_completion_tokens = 0, ue_modality = [], ue_metrics = [],
     ue_tags = []\<rparr>"

definition mark_byok :: "usage_event \<Rightarrow> usage_event" where
  "mark_byok e = e\<lparr>ue_used_byok := ue_credential_id e \<noteq> []\<rparr>"

definition modality_string :: "string \<Rightarrow> string" where
  "modality_string m = (if m = [] then ''chat'' else m)"

definition normalize_modality :: "string \<Rightarrow> string" where
  "normalize_modality m = (if m = [] then ''chat'' else m)"

section \<open>The model catalog\<close>

definition ModeChat :: string where "ModeChat = ''chat''"
definition ModeAudioSpeech :: string where "ModeAudioSpeech = ''audio_speech''"
definition ModeAudioTranscription :: string where "ModeAudioTranscription = ''audio_transcription''"
definition ModeEmbedding :: string where "ModeEmbedding = ''embedding''"
definition ModeImage :: string where "ModeImage = ''image''"

lemmas mode_defs = ModeChat_def ModeAudioSpeech_def ModeAudioTranscription_def ModeEmbedding_def
  ModeImage_def

record entry =
  en_mode :: string
  en_max_input_tokens :: int
  en_max_output_tokens :: int
  en_input_cost_per_mtok :: "rat option"
  en_output_cost_per_mtok :: "rat option"
  en_input_cost_per_character :: "rat option"
  en_input_cost_per_second :: "rat option"
  en_input_cost_per_image :: "rat option"
  en_supports_streaming :: "bool option"
  en_supports_vision :: bool
  en_supports_tools :: bool

type_synonym entries = "(string, entry) gomap"

definition catalog_key :: "string \<Rightarrow> string \<Rightarrow> string" where
  "catalog_key provider_type model = to_lower (trim_space provider_type) @ ''/'' @ trim_space model"

fun first_entry :: "entries \<Rightarrow> string list \<Rightarrow> string \<Rightarrow> entry option" where
  "first_entry es [] model = None"
| "first_entry es (alias # rest) model =
     (case gm_get es (catalog_key alias model) of
        Some e \<Rightarrow> Some e | None \<Rightarrow> first_entry es rest model)"

definition mc_lookup :: "registry \<Rightarrow> entries \<Rightarrow> string \<Rightarrow> string \<Rightarrow> entry option" where
  "mc_lookup reg es provider_type model =
     (if model = [] then None
      else
        let pt = to_lower (trim_space provider_type); m = trim_space model in
        case gm_get es (catalog_key pt m) of
          Some e \<Rightarrow> Some e
        | None \<Rightarrow> first_entry es (catalog_aliases reg pt) m)"

record listed =
  li_provider_type :: string
  li_id :: string
  li_mode :: string
  li_entry :: entry

definition split_catalog_key :: "string \<Rightarrow> (string \<times> string) option" where
  "split_catalog_key key =
     (case cut_char (CHR ''/'') key of
        (p, m, found) \<Rightarrow> if \<not> found \<or> p = [] \<or> m = [] then None else Some (p, m))"

definition list_row :: "string \<Rightarrow> string \<times> entry \<Rightarrow> listed option" where
  "list_row want ke =
     (case split_catalog_key (fst ke) of None \<Rightarrow> None
      | Some (prov, i) \<Rightarrow>
          if want \<noteq> [] \<and> prov \<noteq> want then None
          else Some \<lparr>li_provider_type = prov, li_id = i,
                     li_mode = (if en_mode (snd ke) = [] then ModeChat else en_mode (snd ke)),
                     li_entry = snd ke\<rparr>)"

definition listed_less :: "listed \<Rightarrow> listed \<Rightarrow> bool" where
  "listed_less a b =
     (if li_provider_type a \<noteq> li_provider_type b then li_provider_type a < li_provider_type b
      else li_id a < li_id b)"

definition mc_list :: "entries \<Rightarrow> string \<Rightarrow> listed list" where
  "mc_list es provider_type =
     stable_sort listed_less (List.map_filter (list_row (to_lower (trim_space provider_type))) es)"

definition is_chat :: "entry \<Rightarrow> bool" where
  "is_chat e \<longleftrightarrow> en_mode e = ModeChat \<or> en_mode e = []"
definition is_tts :: "entry \<Rightarrow> bool" where
  "is_tts e \<longleftrightarrow> en_mode e = ModeAudioSpeech"
definition is_stt :: "entry \<Rightarrow> bool" where
  "is_stt e \<longleftrightarrow> en_mode e = ModeAudioTranscription"
definition is_embedding :: "entry \<Rightarrow> bool" where
  "is_embedding e \<longleftrightarrow> en_mode e = ModeEmbedding"
definition is_image :: "entry \<Rightarrow> bool" where
  "is_image e \<longleftrightarrow> en_mode e = ModeImage"

definition streaming_enabled :: "entry \<Rightarrow> bool" where
  "streaming_enabled e = (case en_supports_streaming e of Some b \<Rightarrow> b | None \<Rightarrow> is_chat e)"

section \<open>Cost\<close>

definition metric_float :: "(string, goval) gomap \<Rightarrow> string \<Rightarrow> rat option" where
  "metric_float metrics key =
     (case gm_get metrics key of
        None \<Rightarrow> None
      | Some v \<Rightarrow> (case v of
            GFloat64 x \<Rightarrow> Some x | GFloat32 x \<Rightarrow> Some x
          | GInt n \<Rightarrow> Some (of_int n) | GInt32 n \<Rightarrow> Some (of_int n) | GInt64 n \<Rightarrow> Some (of_int n)
          | GUint n \<Rightarrow> Some (of_nat n) | GUint64 n \<Rightarrow> Some (of_nat n)
          | _ \<Rightarrow> None))"

definition per_unit_cost :: "rat option \<Rightarrow> rat option \<Rightarrow> rat option" where
  "per_unit_cost units price =
     (case units of None \<Rightarrow> None
      | Some n \<Rightarrow> (case price of None \<Rightarrow> None | Some c \<Rightarrow> Some (n * c)))"

definition token_cost :: "usage_event \<Rightarrow> rat \<Rightarrow> rat \<Rightarrow> rat" where
  "token_cost e inp outp =
     of_int (ue_prompt_tokens e) / 1000000 * inp + of_int (ue_completion_tokens e) / 1000000 * outp"

text \<open>The switch over the mode of the catalog entry, and the lookup in front of it.\<close>

definition entry_cost :: "usage_event \<Rightarrow> entry \<Rightarrow> rat option" where
  "entry_cost e en =
     (if en_mode en = ModeAudioSpeech then
        per_unit_cost (metric_float (ue_metrics e) ''characters'') (en_input_cost_per_character en)
      else if en_mode en = ModeAudioTranscription then
        per_unit_cost (metric_float (ue_metrics e) ''audio_seconds'') (en_input_cost_per_second en)
      else if en_mode en = ModeEmbedding then
        (case en_input_cost_per_mtok en of None \<Rightarrow> None | Some inp \<Rightarrow>
           if ue_prompt_tokens e = 0 \<and> ue_completion_tokens e = 0 then None
           else Some (token_cost e inp
             (case en_output_cost_per_mtok en of None \<Rightarrow> 0 | Some outp \<Rightarrow> outp)))
      else if en_mode en = ModeImage then
        per_unit_cost (metric_float (ue_metrics e) ''images'') (en_input_cost_per_image en)
      else
        (case en_input_cost_per_mtok en of None \<Rightarrow> None | Some inp \<Rightarrow>
          (case en_output_cost_per_mtok en of None \<Rightarrow> None | Some outp \<Rightarrow>
             if ue_prompt_tokens e = 0 \<and> ue_completion_tokens e = 0 then None
             else Some (token_cost e inp outp))))"

definition estimate_cost_usd :: "registry \<Rightarrow> entries \<Rightarrow> usage_event \<Rightarrow> rat option" where
  "estimate_cost_usd reg es e =
     (let model = (if ue_target_model e = [] then ue_model e else ue_target_model e) in
      case mc_lookup reg es (ue_provider_type e) model of
        None \<Rightarrow> None
      | Some en \<Rightarrow> entry_cost e en)"

section \<open>Properties of the catalog\<close>

lemma catalog_key_canon [simp]:
  "catalog_key (to_lower (trim_space pt)) m = catalog_key pt m"
  "catalog_key pt (trim_space m) = catalog_key pt m"
  by (simp_all add: catalog_key_def)

lemma catalog_aliases_canon [simp]: "catalog_aliases reg (to_lower (trim_space pt)) = catalog_aliases reg pt"
  by (simp add: catalog_aliases_def pc_lookup_def canon_type_def)

lemma mc_lookup_direct:
  "model \<noteq> [] \<Longrightarrow> gm_get es (catalog_key pt model) = Some e \<Longrightarrow> mc_lookup reg es pt model = Some e"
  by (simp add: mc_lookup_def Let_def)

text \<open>An alias entry is used exactly when the type has no entry of its own.\<close>

lemma mc_lookup_alias:
  assumes "model \<noteq> []" and "gm_get es (catalog_key pt model) = None"
    and "catalog_aliases reg pt = [al]"
  shows "mc_lookup reg es pt model = gm_get es (catalog_key al model)"
  using assms by (simp add: mc_lookup_def Let_def split: option.splits)

lemma first_entry_SomeD: "first_entry es als m = Some en \<Longrightarrow> \<exists>k. gm_get es k = Some en"
  by (induction als) (auto split: option.splits)

lemma mc_lookup_SomeD: "mc_lookup reg es pt m = Some en \<Longrightarrow> \<exists>k. gm_get es k = Some en"
  by (auto simp: mc_lookup_def Let_def split: option.splits if_splits dest: first_entry_SomeD)

text \<open>A cost is never negative when the prices, the tokens and the metrics are not.\<close>

definition price_ok :: "rat option \<Rightarrow> bool" where
  "price_ok p = (case p of None \<Rightarrow> True | Some c \<Rightarrow> 0 \<le> c)"

definition entry_nonneg :: "entry \<Rightarrow> bool" where
  "entry_nonneg e \<longleftrightarrow> list_all price_ok
     [en_input_cost_per_mtok e, en_output_cost_per_mtok e, en_input_cost_per_character e,
      en_input_cost_per_second e, en_input_cost_per_image e]"

lemma per_unit_cost_nonneg:
  "price_ok units \<Longrightarrow> price_ok price \<Longrightarrow> per_unit_cost units price = Some c \<Longrightarrow> 0 \<le> c"
  by (auto simp: per_unit_cost_def price_ok_def split: option.splits)

lemma token_cost_nonneg:
  "0 \<le> ue_prompt_tokens e \<Longrightarrow> 0 \<le> ue_completion_tokens e \<Longrightarrow> 0 \<le> inp \<Longrightarrow> 0 \<le> outp \<Longrightarrow>
   0 \<le> token_cost e inp outp"
  by (simp add: token_cost_def)

lemma entry_cost_nonneg:
  assumes "entry_nonneg en" and "0 \<le> ue_prompt_tokens e" "0 \<le> ue_completion_tokens e"
    and "\<And>k. price_ok (metric_float (ue_metrics e) k)" and "entry_cost e en = Some c"
  shows "0 \<le> c"
proof -
  have opt: "price_ok p \<Longrightarrow> p = Some x \<Longrightarrow> 0 \<le> x" for p x by (simp add: price_ok_def)
  have prices: "price_ok (en_input_cost_per_mtok en)" "price_ok (en_output_cost_per_mtok en)"
    "price_ok (en_input_cost_per_character en)" "price_ok (en_input_cost_per_second en)"
    "price_ok (en_input_cost_per_image en)"
    using assms(1) by (simp_all add: entry_nonneg_def)
  show ?thesis
    using assms(5) unfolding entry_cost_def
    by (auto split: if_splits option.splits
        dest: opt [OF prices(1)] opt [OF prices(2)]
          per_unit_cost_nonneg [OF assms(4) prices(3)] per_unit_cost_nonneg [OF assms(4) prices(4)]
          per_unit_cost_nonneg [OF assms(4) prices(5)]
        intro!: token_cost_nonneg assms(2,3))
qed

lemma estimate_cost_nonneg:
  assumes "\<And>k en. gm_get es k = Some en \<Longrightarrow> entry_nonneg en"
    and "0 \<le> ue_prompt_tokens e" "0 \<le> ue_completion_tokens e"
    and "\<And>k. price_ok (metric_float (ue_metrics e) k)"
    and "estimate_cost_usd reg es e = Some c"
  shows "0 \<le> c"
proof -
  from assms(5) obtain en m where en: "mc_lookup reg es (ue_provider_type e) m = Some en"
    and cost: "entry_cost e en = Some c"
    by (auto simp: estimate_cost_usd_def Let_def split: option.splits)
  from mc_lookup_SomeD [OF en] assms(1) have "entry_nonneg en" by blast
  then show ?thesis using entry_cost_nonneg [OF _ assms(2-4) cost] by blast
qed

end
