(* ===== verification/Routing.thy ===== *)
theory Routing
  imports Snapshot Model_Catalog
begin

text \<open>
  \<^verbatim>\<open>src/internal/dataplane/routing\<close>: the selectors that order the targets of a route and the
  gateway-local signal store. A selector's contract (its result is a permutation of the
  candidates) and the signal store's laws are locales; the code's selectors and its memory
  store interpret them. The random source is a function \<open>draw\<close> with \<open>0 \<le> draw n < n\<close>.
\<close>

section \<open>Candidates and strategies\<close>

definition StrategyOrdered :: string where "StrategyOrdered = ''ordered''"
definition StrategyWeighted :: string where "StrategyWeighted = ''weighted''"
definition StrategyLatency :: string where "StrategyLatency = ''latency''"
definition StrategyCost :: string where "StrategyCost = ''cost''"

lemmas strategy_defs =
  StrategyOrdered_def StrategyWeighted_def StrategyLatency_def StrategyCost_def

record candidate =
  cd_provider_id :: string
  cd_provider_type :: string
  cd_target_model :: string
  cd_weight :: int

text \<open>What a latency selector reads from its store: the EWMA of a provider and model.\<close>

type_synonym latency_view = "string \<Rightarrow> string \<Rightarrow> rat option"

definition clone_candidates :: "candidate list \<Rightarrow> candidate list" where
  "clone_candidates cs = cs"

definition intn :: "(int \<Rightarrow> int) \<Rightarrow> int \<Rightarrow> int" where
  "intn draw n = (if n \<le> 0 then 0 else draw n)"

section \<open>The selectors\<close>

definition ordered_order :: "candidate list \<Rightarrow> candidate list" where
  "ordered_order cs = clone_candidates cs"

definition eff_weight :: "candidate \<Rightarrow> int" where
  "eff_weight c = (if cd_weight c < 1 then 1 else cd_weight c)"

definition total_weight :: "candidate list \<Rightarrow> int" where
  "total_weight cs = fold (\<lambda>c total. i64 (total + eff_weight c)) cs 0"

text \<open>The loop that looks for the first index whose accumulated weight exceeds \<open>n\<close>.\<close>

fun pick_loop :: "candidate list \<Rightarrow> nat \<Rightarrow> int \<Rightarrow> int \<Rightarrow> nat" where
  "pick_loop [] i acc n = 0"
| "pick_loop (c # cs) i acc n =
     (let acc' = i64 (acc + eff_weight c) in if n < acc' then i else pick_loop cs (Suc i) acc' n)"

definition weighted_pick :: "(int \<Rightarrow> int) \<Rightarrow> candidate list \<Rightarrow> nat" where
  "weighted_pick draw cs =
     (let total = total_weight cs in if total > 0 then pick_loop cs 0 0 (intn draw total) else 0)"

definition weighted_order :: "(int \<Rightarrow> int) \<Rightarrow> candidate list \<Rightarrow> candidate list" where
  "weighted_order draw cs =
     (if length cs \<le> 1 then clone_candidates cs
      else let pick = weighted_pick draw cs in cs ! pick # (take pick cs @ drop (Suc pick) cs))"

record scored =
  sc_c :: candidate
  sc_idx :: nat
  sc_score :: rat
  sc_known :: bool

definition score_less :: "scored \<Rightarrow> scored \<Rightarrow> bool" where
  "score_less a b =
     (if sc_score a = sc_score b then sc_idx a < sc_idx b else sc_score a < sc_score b)"

definition median_of :: "rat list \<Rightarrow> rat" where
  "median_of ks =
     (let s = sort ks; m = s ! (length s div 2) in
      if length s mod 2 = 0 then (s ! (length s div 2 - 1) + s ! (length s div 2)) / 2 else m)"

definition latency_order :: "latency_view option \<Rightarrow> candidate list \<Rightarrow> candidate list" where
  "latency_order store cs =
     (case store of None \<Rightarrow> clone_candidates cs | Some lat \<Rightarrow>
        if length cs \<le> 1 then clone_candidates cs
        else
          let view = (\<lambda>c. lat (cd_provider_id c) (cd_target_model c));
              known = List.map_filter view cs
          in if known = [] then clone_candidates cs
             else
               let median = median_of known;
                   items = map (\<lambda>(i, c). \<lparr>sc_c = c, sc_idx = i,
                      sc_score = (case view c of Some ms \<Rightarrow> ms | None \<Rightarrow> median),
                      sc_known = (view c \<noteq> None)\<rparr>) (enumerate 0 cs)
               in map sc_c (stable_sort score_less items))"

text \<open>Prices are rationals, so the guards against NaN and infinities never fire.\<close>

definition catalog_unit_score :: "registry \<Rightarrow> entries \<Rightarrow> string \<Rightarrow> string \<Rightarrow> rat option" where
  "catalog_unit_score reg es provider_type target_model =
     (case mc_lookup reg es provider_type target_model of None \<Rightarrow> None | Some e \<Rightarrow>
        if en_mode e = ModeAudioSpeech then en_input_cost_per_character e
        else if en_mode e = ModeAudioTranscription then en_input_cost_per_second e
        else
          (case (en_input_cost_per_mtok e, en_output_cost_per_mtok e) of
             (None, None) \<Rightarrow> None
           | (Some i, None) \<Rightarrow> Some i
           | (None, Some out) \<Rightarrow> Some out
           | (Some i, Some out) \<Rightarrow> Some (i + out)))"

definition cost_less :: "scored \<Rightarrow> scored \<Rightarrow> bool" where
  "cost_less a b =
     (if sc_known a \<noteq> sc_known b then sc_known a
      else if \<not> sc_known a then sc_idx a < sc_idx b
      else if sc_score a = sc_score b then sc_idx a < sc_idx b
      else sc_score a < sc_score b)"

definition cost_order :: "registry \<Rightarrow> entries \<Rightarrow> candidate list \<Rightarrow> candidate list" where
  "cost_order reg es cs =
     (if length cs \<le> 1 then clone_candidates cs
      else
        let items = map (\<lambda>(i, c).
              let s = catalog_unit_score reg es (cd_provider_type c) (cd_target_model c)
              in \<lparr>sc_c = c, sc_idx = i, sc_score = (case s of Some x \<Rightarrow> x | None \<Rightarrow> 0),
                  sc_known = (s \<noteq> None)\<rparr>) (enumerate 0 cs)
        in map sc_c (stable_sort cost_less items))"

text \<open>\<^verbatim>\<open>ForStrategy(strategy, signals).Order(candidates, rng)\<close>.\<close>

datatype selector_kind = SelOrdered | SelWeighted | SelLatency latency_view | SelCost

definition for_strategy :: "string \<Rightarrow> latency_view option \<Rightarrow> selector_kind" where
  "for_strategy strategy signals =
     (let s = trim_space (to_lower strategy) in
      if s = StrategyWeighted then SelWeighted
      else if s = StrategyLatency then
        (case signals of None \<Rightarrow> SelOrdered | Some v \<Rightarrow> SelLatency v)
      else if s = StrategyCost then SelCost
      else SelOrdered)"

definition selector_order ::
  "registry \<Rightarrow> entries \<Rightarrow> (int \<Rightarrow> int) \<Rightarrow> selector_kind \<Rightarrow> candidate list \<Rightarrow> candidate list" where
  "selector_order reg es draw sel cs =
     (case sel of
        SelOrdered \<Rightarrow> ordered_order cs
      | SelWeighted \<Rightarrow> weighted_order draw cs
      | SelLatency v \<Rightarrow> latency_order (Some v) cs
      | SelCost \<Rightarrow> cost_order reg es cs)"

section \<open>The contract of a selector\<close>

locale selector =
  fixes order :: "candidate list \<Rightarrow> candidate list"
  assumes perm: "mset (order cs) = mset cs"
begin

lemma length_order: "length (order cs) = length cs"
  using perm by (metis size_mset)

lemma set_order: "set (order cs) = set cs"
  using perm by (metis set_mset_mset)

lemma distinct_order: "distinct (order cs) = distinct cs"
  using perm mset_eq_imp_distinct_iff by blast

lemma order_Nil_iff: "order cs = [] \<longleftrightarrow> cs = []"
  using length_order by (metis length_0_conv)

end

text \<open>Stable sorting of the enumerated items is the library's stable sort of the candidates.\<close>

lemma insert_by_cong:
  "(\<And>y. y \<in> set ys \<Longrightarrow> lt y x = lt' y x) \<Longrightarrow> insert_by lt x ys = insert_by lt' x ys"
  by (induction ys) auto

lemma map_insert_by:
  "(\<And>y. y \<in> set ys \<Longrightarrow> lt y x \<longleftrightarrow> lt' (g y) (g x)) \<Longrightarrow>
   map g (insert_by lt x ys) = insert_by lt' (g x) (map g ys)"
  by (induction ys) auto

lemma stable_sort_enumerated:
  assumes "\<And>a b. a \<in> set items \<Longrightarrow> b \<in> set items \<Longrightarrow> idx b < idx a \<Longrightarrow> lt a b \<longleftrightarrow> lt' (g a) (g b)"
    and "sorted_wrt (\<lambda>a b. idx a < (idx b :: nat)) items"
  shows "map g (stable_sort lt items) = stable_sort lt' (map g items)"
  using assms
proof (induction items)
  case (Cons x xs)
  have "map g (insert_by lt x (stable_sort lt xs)) = insert_by lt' (g x) (map g (stable_sort lt xs))"
    using Cons.prems by (intro map_insert_by) auto
  with Cons show ?case by simp
qed simp

lemma sorted_wrt_enumerate:
  "(\<And>p. idx (f p) = fst p) \<Longrightarrow> sorted_wrt (\<lambda>a b. idx a < (idx b :: nat)) (map f (enumerate n cs))"
  by (simp add: sorted_wrt_map sorted_wrt_iff_nth_less nth_enumerate_eq)

definition latency_score :: "latency_view \<Rightarrow> rat \<Rightarrow> candidate \<Rightarrow> rat" where
  "latency_score lat median c =
     (case lat (cd_provider_id c) (cd_target_model c) of Some ms \<Rightarrow> ms | None \<Rightarrow> median)"

definition known_latencies :: "latency_view \<Rightarrow> candidate list \<Rightarrow> rat list" where
  "known_latencies lat cs = List.map_filter (\<lambda>c. lat (cd_provider_id c) (cd_target_model c)) cs"

lemma latency_order_sort:
  "latency_order (Some lat) cs =
     (if known_latencies lat cs = [] then cs
      else sort_key (latency_score lat (median_of (known_latencies lat cs))) cs)"
proof (cases "length cs \<le> 1")
  case True
  then show ?thesis
    by (cases cs) (auto simp: latency_order_def clone_candidates_def)
next
  case False
  let ?m = "median_of (known_latencies lat cs)"
  let ?item = "\<lambda>(i, c). \<lparr>sc_c = c, sc_idx = i, sc_score = latency_score lat ?m c,
     sc_known = (lat (cd_provider_id c) (cd_target_model c) \<noteq> None)\<rparr>"
  let ?items = "map ?item (enumerate 0 cs)"
  have sc: "x \<in> set ?items \<Longrightarrow> sc_score x = latency_score lat ?m (sc_c x)" for x by auto
  have "map sc_c (stable_sort score_less ?items) =
      stable_sort (\<lambda>a b. latency_score lat ?m a < latency_score lat ?m b) (map sc_c ?items)"
  proof (rule stable_sort_enumerated [where idx = sc_idx])
    show "sorted_wrt (\<lambda>a b. sc_idx a < sc_idx b) ?items" by (rule sorted_wrt_enumerate) auto
    fix a b
    assume "a \<in> set ?items" "b \<in> set ?items" "sc_idx b < sc_idx a"
    then show "score_less a b \<longleftrightarrow> latency_score lat ?m (sc_c a) < latency_score lat ?m (sc_c b)"
      using sc by (auto simp: score_less_def)
  qed
  also have "map sc_c ?items = cs" by (simp add: comp_def case_prod_unfold)
  also have "stable_sort (\<lambda>a b. latency_score lat ?m a < latency_score lat ?m b) cs =
      sort_key (latency_score lat ?m) cs" by (rule stable_sort_key) simp
  finally show ?thesis
    using False
    by (simp add: latency_order_def known_latencies_def latency_score_def clone_candidates_def Let_def)
qed

definition unit_price :: "registry \<Rightarrow> entries \<Rightarrow> candidate \<Rightarrow> rat option" where
  "unit_price reg es c = catalog_unit_score reg es (cd_provider_type c) (cd_target_model c)"

definition price_less :: "rat option \<Rightarrow> rat option \<Rightarrow> bool" where
  "price_less p q =
     (case p of None \<Rightarrow> False | Some x \<Rightarrow> (case q of None \<Rightarrow> True | Some y \<Rightarrow> x < y))"

lemma cost_order_sort:
  "cost_order reg es cs = stable_sort (\<lambda>a b. price_less (unit_price reg es a) (unit_price reg es b)) cs"
proof (cases "length cs \<le> 1")
  case True
  then show ?thesis by (cases cs) (auto simp: cost_order_def clone_candidates_def)
next
  case False
  let ?item = "\<lambda>(i, c). let s = catalog_unit_score reg es (cd_provider_type c) (cd_target_model c)
     in \<lparr>sc_c = c, sc_idx = i, sc_score = (case s of Some x \<Rightarrow> x | None \<Rightarrow> 0), sc_known = (s \<noteq> None)\<rparr>"
  let ?items = "map ?item (enumerate 0 cs)"
  have sc: "x \<in> set ?items \<Longrightarrow> sc_known x = (unit_price reg es (sc_c x) \<noteq> None) \<and>
      sc_score x = (case unit_price reg es (sc_c x) of Some y \<Rightarrow> y | None \<Rightarrow> 0)" for x
    by (auto simp: Let_def unit_price_def)
  have "map sc_c (stable_sort cost_less ?items) =
      stable_sort (\<lambda>a b. price_less (unit_price reg es a) (unit_price reg es b)) (map sc_c ?items)"
  proof (rule stable_sort_enumerated [where idx = sc_idx])
    show "sorted_wrt (\<lambda>a b. sc_idx a < sc_idx b) ?items"
      by (rule sorted_wrt_enumerate) (auto simp: Let_def split: prod.splits)
    fix a b
    assume "a \<in> set ?items" "b \<in> set ?items" "sc_idx b < sc_idx a"
    then show "cost_less a b \<longleftrightarrow> price_less (unit_price reg es (sc_c a)) (unit_price reg es (sc_c b))"
      using sc [of a] sc [of b] by (auto simp: cost_less_def price_less_def split: option.splits)
  qed
  also have "map sc_c ?items = cs" by (simp add: comp_def case_prod_unfold Let_def)
  finally show ?thesis using False by (simp add: cost_order_def Let_def)
qed

text \<open>Each selector of the code satisfies the contract.\<close>

interpretation ordered: selector ordered_order
  by unfold_locales (simp add: ordered_order_def clone_candidates_def)

lemma pick_loop_bound: "cs \<noteq> [] \<Longrightarrow> pick_loop cs i acc n < i + length cs"
proof (induction cs arbitrary: i acc)
  case (Cons c cs)
  then show ?case using Cons.IH [of "Suc i" "i64 (acc + eff_weight c)"]
    by (cases "cs = []") (auto simp: Let_def)
qed simp

lemma weighted_pick_bound: "cs \<noteq> [] \<Longrightarrow> weighted_pick draw cs < length cs"
  using pick_loop_bound [of cs 0 0 "intn draw (total_weight cs)"]
  by (auto simp: weighted_pick_def Let_def)

interpretation weighted: selector "weighted_order draw" for draw
proof
  fix cs
  show "mset (weighted_order draw cs) = mset cs"
  proof (cases "length cs \<le> 1")
    case False
    then have "weighted_pick draw cs < length cs" by (intro weighted_pick_bound) auto
    then have "mset (take (weighted_pick draw cs) cs @ cs ! weighted_pick draw cs # drop (Suc (weighted_pick draw cs)) cs) = mset cs"
      by (simp add: id_take_nth_drop [symmetric])
    with False show ?thesis by (simp add: weighted_order_def Let_def)
  qed (simp add: weighted_order_def clone_candidates_def)
qed

interpretation latency: selector "latency_order store" for store
  by unfold_locales
    (cases store, auto simp: latency_order_sort, simp add: latency_order_def clone_candidates_def)

interpretation cost: selector "cost_order reg es" for reg es
  by unfold_locales (simp add: cost_order_sort)

interpretation any_strategy: selector "selector_order reg es draw sel" for reg es draw sel
  by unfold_locales
    (simp add: selector_order_def ordered.perm weighted.perm latency.perm cost.perm split: selector_kind.splits)

section \<open>The signal store\<close>

definition ewma_alpha :: rat where "ewma_alpha = 1 / 5"

record signal_entry =
  se_latency_ewma :: rat
  se_has_latency :: bool
  se_successes :: int
  se_failures :: int

type_synonym signal_state = "(string, signal_entry) gomap"

definition new_signal_store :: signal_state where
  "new_signal_store = []"

definition signal_key :: "string \<Rightarrow> string \<Rightarrow> string" where
  "signal_key provider_id target_model = trim_space provider_id @ [CHR 0x00] @ trim_space target_model"

definition zero_signal :: signal_entry where
  "zero_signal = \<lparr>se_latency_ewma = 0, se_has_latency = False, se_successes = 0, se_failures = 0\<rparr>"

definition observe_entry :: "int \<Rightarrow> bool \<Rightarrow> signal_entry \<Rightarrow> signal_entry" where
  "observe_entry latency_ms failed e =
     (let ms = (if latency_ms < 0 then 0 else latency_ms);
          sample = of_int ms;
          e1 = (if \<not> se_has_latency e then e\<lparr>se_latency_ewma := sample, se_has_latency := True\<rparr>
                else e\<lparr>se_latency_ewma := ewma_alpha * sample + (1 - ewma_alpha) * se_latency_ewma e\<rparr>)
      in if failed then e1\<lparr>se_failures := i64 (se_failures e1 + 1)\<rparr>
         else e1\<lparr>se_successes := i64 (se_successes e1 + 1)\<rparr>)"

definition sig_observe :: "string \<Rightarrow> string \<Rightarrow> int \<Rightarrow> bool \<Rightarrow> signal_state \<Rightarrow> signal_state" where
  "sig_observe pid model latency_ms failed s =
     (let k = signal_key pid model;
          e = (case gm_get s k of Some e \<Rightarrow> e | None \<Rightarrow> zero_signal)
      in gm_put k (observe_entry latency_ms failed e) s)"

definition sig_latency_ewma :: "signal_state \<Rightarrow> string \<Rightarrow> string \<Rightarrow> rat option" where
  "sig_latency_ewma s pid model =
     (case gm_get s (signal_key pid model) of
        None \<Rightarrow> None | Some e \<Rightarrow> if se_has_latency e then Some (se_latency_ewma e) else None)"

definition sig_error_rate :: "signal_state \<Rightarrow> string \<Rightarrow> string \<Rightarrow> rat option" where
  "sig_error_rate s pid model =
     (case gm_get s (signal_key pid model) of
        None \<Rightarrow> None
      | Some e \<Rightarrow>
          let total = i64 (se_successes e + se_failures e) in
          if total = 0 then None else Some (of_int (se_failures e) / of_int total))"

text \<open>
  The laws of a signal store: what one observation does to the EWMA of its own key, and that it
  leaves the other keys alone. Inside, what a whole history of observations does.
\<close>

locale signal_store =
  fixes empty_store :: 's
    and observe :: "string \<Rightarrow> string \<Rightarrow> int \<Rightarrow> bool \<Rightarrow> 's \<Rightarrow> 's"
    and ewma :: "'s \<Rightarrow> string \<Rightarrow> string \<Rightarrow> rat option"
  assumes ewma_empty: "ewma empty_store p m = None"
    and ewma_first: "ewma s p m = None \<Longrightarrow> ewma (observe p m ms f s) p m = Some (of_int (max 0 ms))"
    and ewma_next: "ewma s p m = Some x \<Longrightarrow>
      ewma (observe p m ms f s) p m = Some (ewma_alpha * of_int (max 0 ms) + (1 - ewma_alpha) * x)"
    and ewma_same: "signal_key p m = signal_key p' m' \<Longrightarrow> ewma s p m = ewma s p' m'"
    and ewma_other: "signal_key p m \<noteq> signal_key p' m' \<Longrightarrow> ewma (observe p m ms f s) p' m' = ewma s p' m'"
begin

definition replay_obs :: "(string \<times> string \<times> int \<times> bool) list \<Rightarrow> 's \<Rightarrow> 's" where
  "replay_obs hist s = fold (\<lambda>(p, m, ms, f). observe p m ms f) hist s"

lemma replay_obs_simps [simp]:
  "replay_obs [] s = s"
  "replay_obs ((p, m, ms, f) # hist) s = replay_obs hist (observe p m ms f s)"
  by (simp_all add: replay_obs_def)

lemma ewma_step_bounds:
  assumes "\<And>x. ewma s p m = Some x \<Longrightarrow> lo \<le> x \<and> x \<le> hi"
    and "signal_key p' m' = signal_key p m \<Longrightarrow> lo \<le> of_int (max 0 ms) \<and> of_int (max 0 ms) \<le> hi"
    and "ewma (observe p' m' ms f s) p m = Some y"
  shows "lo \<le> y \<and> y \<le> hi"
proof (cases "signal_key p' m' = signal_key p m")
  case False
  with assms(1,3) show ?thesis by (simp add: ewma_other)
next
  case True
  have y: "ewma (observe p' m' ms f s) p' m' = Some y"
    using assms(3) ewma_same [OF True] by simp
  have bounds: "lo \<le> of_int (max 0 ms)" "of_int (max 0 ms) \<le> hi" using assms(2) [OF True] by auto
  show ?thesis
  proof (cases "ewma s p' m'")
    case None
    from ewma_first [OF None] y bounds show ?thesis by simp
  next
    case (Some x)
    then have x: "lo \<le> x" "x \<le> hi" using assms(1) ewma_same [OF True] by simp_all
    have "y = 1 / 5 * of_int (max 0 ms) + 4 / 5 * x"
      using ewma_next [OF Some] y by (simp add: ewma_alpha_def)
    with x bounds show ?thesis by linarith
  qed
qed

lemma ewma_history_bounds:
  assumes "\<And>x. ewma s p m = Some x \<Longrightarrow> lo \<le> x \<and> x \<le> hi"
    and "\<And>p' m' ms f. (p', m', ms, f) \<in> set hist \<Longrightarrow> signal_key p' m' = signal_key p m \<Longrightarrow>
      lo \<le> of_int (max 0 ms) \<and> of_int (max 0 ms) \<le> hi"
    and "ewma (replay_obs hist s) p m = Some y"
  shows "lo \<le> y \<and> y \<le> hi"
  using assms
proof (induction hist arbitrary: s)
  case (Cons ob hist)
  obtain p' m' ms f where ob: "ob = (p', m', ms, f)" by (cases ob)
  show ?case
  proof (rule Cons.IH [of "observe p' m' ms f s"])
    fix x
    assume "ewma (observe p' m' ms f s) p m = Some x"
    then show "lo \<le> x \<and> x \<le> hi"
      using ewma_step_bounds [of s p m lo hi p' m' ms f x] Cons.prems(1) Cons.prems(2) [of p' m' ms f] ob by simp
  next
    fix p'' m'' ms' f'
    assume "(p'', m'', ms', f') \<in> set hist" "signal_key p'' m'' = signal_key p m"
    then show "lo \<le> of_int (max 0 ms') \<and> of_int (max 0 ms') \<le> hi"
      using Cons.prems(2) [of p'' m'' ms' f'] by simp
  qed (use Cons.prems(3) ob in simp)
qed simp

end

interpretation mem_signals: signal_store new_signal_store sig_observe sig_latency_ewma
  by unfold_locales
    (auto simp: new_signal_store_def sig_observe_def sig_latency_ewma_def observe_entry_def zero_signal_def
      Let_def max_def split: option.splits if_splits)

text \<open>The outcome counters, with the error rate they give.\<close>

lemma sig_error_rate_bounds:
  assumes "gm_get s (signal_key p m) = Some e" "0 \<le> se_successes e" "0 \<le> se_failures e"
    and "se_successes e + se_failures e < 2 ^ 63" and "sig_error_rate s p m = Some r"
  shows "0 \<le> r \<and> r \<le> 1"
proof -
  have i: "i64 (se_successes e + se_failures e) = se_successes e + se_failures e"
    using assms(2-4) by (intro i64_id) auto
  have r: "r = of_int (se_failures e) / of_int (se_successes e + se_failures e)"
    and pos: "0 < se_successes e + se_failures e"
    using assms i by (auto simp: sig_error_rate_def Let_def split: if_splits)
  have "of_int (se_failures e) \<le> (of_int (se_successes e + se_failures e) :: rat)"
    "0 < (of_int (se_successes e + se_failures e) :: rat)" "0 \<le> (of_int (se_failures e) :: rat)"
    using assms(2,3) pos by (simp_all del: of_int_add)
  then show ?thesis by (simp add: r del: of_int_add)
qed

section \<open>The weighted pick\<close>

definition weight_sum :: "candidate list \<Rightarrow> int" where
  "weight_sum cs = sum_list (map eff_weight cs)"

lemma eff_weight_pos: "0 < eff_weight c"
  by (simp add: eff_weight_def)

lemma weight_sum_simps [simp]:
  "weight_sum [] = 0" "weight_sum (c # cs) = eff_weight c + weight_sum cs"
  by (simp_all add: weight_sum_def)

lemma weight_sum_nonneg: "0 \<le> weight_sum cs"
  by (induction cs) (auto intro: add_nonneg_nonneg less_imp_le [OF eff_weight_pos])

lemma weight_sum_take_le: "weight_sum (take i cs) \<le> weight_sum cs"
proof -
  have "weight_sum cs = weight_sum (take i cs) + weight_sum (drop i cs)"
    by (metis append_take_drop_id map_append sum_list.append weight_sum_def)
  with weight_sum_nonneg [of "drop i cs"] show ?thesis by linarith
qed

lemma total_weight_acc:
  "0 \<le> acc \<Longrightarrow> acc + weight_sum cs < 2 ^ 63 \<Longrightarrow>
   fold (\<lambda>c total. i64 (total + eff_weight c)) cs acc = acc + weight_sum cs"
proof (induction cs arbitrary: acc)
  case (Cons c cs)
  have "i64 (acc + eff_weight c) = acc + eff_weight c"
    using Cons.prems eff_weight_pos [of c] weight_sum_nonneg [of cs] by (intro i64_id) auto
  with Cons eff_weight_pos [of c] show ?case by (simp add: add.assoc)
qed simp

lemma total_weight_exact: "weight_sum cs < 2 ^ 63 \<Longrightarrow> total_weight cs = weight_sum cs"
  by (simp add: total_weight_def total_weight_acc)

lemma pick_loop_prefix:
  assumes "j < length cs" "0 \<le> acc" "acc + weight_sum cs < 2 ^ 63"
    and "acc + weight_sum (take j cs) \<le> n" "n < acc + weight_sum (take (Suc j) cs)"
  shows "pick_loop cs i acc n = i + j"
  using assms
proof (induction cs arbitrary: i acc j)
  case (Cons c cs)
  have acc': "i64 (acc + eff_weight c) = acc + eff_weight c"
    using Cons.prems eff_weight_pos [of c] weight_sum_nonneg [of cs] by (intro i64_id) auto
  show ?case
  proof (cases j)
    case 0
    with Cons.prems acc' show ?thesis by simp
  next
    case (Suc k)
    have "\<not> n < acc + eff_weight c"
      using Cons.prems(4) Suc weight_sum_nonneg [of "take k cs"] by simp
    moreover have "pick_loop cs (Suc i) (acc + eff_weight c) n = Suc i + k"
      using Cons.prems Suc eff_weight_pos [of c] by (intro Cons.IH) (simp_all add: add.assoc)
    ultimately show ?thesis using acc' Suc by simp
  qed
qed simp

lemma prefix_interval:
  assumes "0 \<le> n" "n < weight_sum cs"
  obtains j where "j < length cs" "weight_sum (take j cs) \<le> n" "n < weight_sum (take (Suc j) cs)"
  using assms
proof (induction cs arbitrary: n thesis)
  case (Cons c cs)
  show ?case
  proof (cases "n < eff_weight c")
    case True
    with Cons.prems show ?thesis by (intro Cons.prems(1) [of 0]) auto
  next
    case False
    with Cons.prems obtain k where "k < length cs" "weight_sum (take k cs) \<le> n - eff_weight c"
      "n - eff_weight c < weight_sum (take (Suc k) cs)"
      using Cons.IH [of "n - eff_weight c"] by auto
    then show ?thesis by (intro Cons.prems(1) [of "Suc k"]) auto
  qed
qed simp

lemma weighted_pick_iff:
  assumes "weight_sum cs < 2 ^ 63" "i < length cs" "0 \<le> n" "n < weight_sum cs"
  shows "weighted_pick (\<lambda>_. n) cs = i \<longleftrightarrow> weight_sum (take i cs) \<le> n \<and> n < weight_sum (take (Suc i) cs)"
proof -
  have pick: "weighted_pick (\<lambda>_. n) cs = pick_loop cs 0 0 n"
    using assms by (simp add: weighted_pick_def total_weight_exact intn_def Let_def)
  have hit: "pick_loop cs 0 0 n = j" if "j < length cs" "weight_sum (take j cs) \<le> n" "n < weight_sum (take (Suc j) cs)" for j
    using pick_loop_prefix [of j cs 0 n 0] that assms(1) by simp
  obtain j where j: "j < length cs" "weight_sum (take j cs) \<le> n" "n < weight_sum (take (Suc j) cs)"
    using prefix_interval [OF assms(3,4)] .
  show ?thesis using hit [OF j] hit [OF assms(2)] j pick by auto
qed

section \<open>Properties\<close>

text \<open>
  Whatever the strategy of a route, the signals and the random source, ordering the
  candidates loses none, invents none and repeats none: the result is a permutation.
\<close>

theorem selector_order_permutation:
  "mset (selector_order reg es draw (for_strategy strategy signals) cs) = mset cs"
  by (rule any_strategy.perm)

text \<open>
  The weighted strategy is fair: of the equally likely draws, exactly as many as a
  candidate's weight (at least one) make it the first attempt, as long as the weights add up
  below 2 to the 63.
\<close>

theorem weighted_pick_fair:
  assumes "weight_sum cs < 2 ^ 63" "i < length cs"
  shows "int (card {n. 0 \<le> n \<and> n < total_weight cs \<and> weighted_pick (\<lambda>_. n) cs = i}) = eff_weight (cs ! i)"
proof -
  let ?lo = "weight_sum (take i cs)" and ?hi = "weight_sum (take (Suc i) cs)"
  have hi: "?hi = ?lo + eff_weight (cs ! i)"
    using assms(2) by (simp add: take_Suc_conv_app_nth weight_sum_def)
  have le: "?hi \<le> weight_sum cs" by (rule weight_sum_take_le)
  have "{n. 0 \<le> n \<and> n < total_weight cs \<and> weighted_pick (\<lambda>_. n) cs = i} = {?lo ..< ?hi}"
  proof (intro set_eqI)
    fix n
    show "n \<in> {n. 0 \<le> n \<and> n < total_weight cs \<and> weighted_pick (\<lambda>_. n) cs = i} \<longleftrightarrow> n \<in> {?lo ..< ?hi}"
      using weighted_pick_iff [OF assms, of n] le weight_sum_nonneg [of "take i cs"]
      by (cases "0 \<le> n \<and> n < weight_sum cs") (auto simp: total_weight_exact [OF assms(1)])
  qed
  then show ?thesis using hi eff_weight_pos [of "cs ! i"] by simp
qed

definition demo_candidate :: "string \<Rightarrow> int \<Rightarrow> candidate" where
  "demo_candidate i w = \<lparr>cd_provider_id = i, cd_provider_type = ''openai'', cd_target_model = ''m'',
     cd_weight = w\<rparr>"

theorem weighted_pick_fair_witness:
  "int (card {n. 0 \<le> n \<and> n < total_weight [demo_candidate ''a'' 3, demo_candidate ''b'' 0] \<and>
     weighted_pick (\<lambda>_. n) [demo_candidate ''a'' 3, demo_candidate ''b'' 0] = 0}) = 3"
  using weighted_pick_fair [of "[demo_candidate ''a'' 3, demo_candidate ''b'' 0]" 0]
  by (simp add: demo_candidate_def eff_weight_def weight_sum_def)


lemma stable_sort_price:
  "stable_sort (\<lambda>a b. price_less (f a) (f b)) cs =
     sort_key (\<lambda>c. the (f c)) (filter (\<lambda>c. f c \<noteq> None) cs) @ filter (\<lambda>c. f c = None) cs"
proof (induction cs)
  case (Cons c cs)
  let ?lt = "\<lambda>a b. price_less (f a) (f b)"
  have none: "insert_by ?lt c (ys @ zs) = ys @ insert_by ?lt c zs"
    if "f c = None" "\<forall>y\<in>set ys. f y \<noteq> None" for ys zs
    using that by (induction ys) (auto simp: price_less_def)
  have none': "insert_by ?lt c zs = c # zs" if "\<forall>z\<in>set zs. f z = None" for zs
    using that by (cases zs) (auto simp: price_less_def)
  have some: "insert_by ?lt c (ys @ zs) = insort_key (\<lambda>c. the (f c)) c ys @ zs"
    if "f c \<noteq> None" "\<forall>y\<in>set ys. f y \<noteq> None" "\<forall>z\<in>set zs. f z = None" for ys zs
    using that
  proof (induction ys)
    case Nil
    then show ?case by (simp only: append_Nil none' insort_key.simps append.simps)
  next
    case (Cons y ys)
    then have "?lt y c \<longleftrightarrow> \<not> the (f c) \<le> the (f y)" by (auto simp: price_less_def)
    with Cons show ?case by simp
  qed
  show ?case using Cons by (cases "f c") (simp_all add: none none' some)
qed simp

text \<open>
  The cost strategy puts the candidates with a known catalog price first, by ascending
  price with ties in configured order, and the candidates without one last in configured order.
\<close>

theorem cost_order_known_first:
  "cost_order reg es cs =
     sort_key (\<lambda>c. the (unit_price reg es c)) (filter (\<lambda>c. unit_price reg es c \<noteq> None) cs) @
     filter (\<lambda>c. unit_price reg es c = None) cs"
  unfolding cost_order_sort by (rule stable_sort_price)

text \<open>
  After any history of observations on the memory store, the EWMA latency of a provider
  and model lies between the smallest and the largest sample observed for it (negative samples
  counting as 0).
\<close>

theorem ewma_within_samples:
  assumes "\<And>p' m' ms f. (p', m', ms, f) \<in> set hist \<Longrightarrow> signal_key p' m' = signal_key p m \<Longrightarrow>
      lo \<le> of_int (max 0 ms) \<and> of_int (max 0 ms) \<le> hi"
    and "sig_latency_ewma (fold (\<lambda>(p, m, ms, f). sig_observe p m ms f) hist new_signal_store) p m = Some y"
  shows "lo \<le> y \<and> y \<le> hi"
  using mem_signals.ewma_history_bounds [of new_signal_store p m lo hi hist y] assms
  by (simp add: mem_signals.ewma_empty mem_signals.replay_obs_def)

theorem ewma_within_samples_witness:
  "sig_latency_ewma (fold (\<lambda>(p, m, ms, f). sig_observe p m ms f)
       [(''p'', ''m'', 100, False), (''p'', ''m'', 200, True), (''q'', ''m'', 900, False)] new_signal_store) ''p'' ''m'' = Some 120 \<and>
   (100::rat) \<le> 120 \<and> (120::rat) \<le> 200"
proof -
  have l: "sig_latency_ewma (fold (\<lambda>(p, m, ms, f). sig_observe p m ms f)
       [(''p'', ''m'', 100, False), (''p'', ''m'', 200, True), (''q'', ''m'', 900, False)] new_signal_store) ''p'' ''m'' = Some 120"
    by code_simp
  have "signal_key ''q'' ''m'' \<noteq> signal_key ''p'' ''m''" by code_simp
  then have "(100::rat) \<le> 120 \<and> (120::rat) \<le> 200"
    by (intro ewma_within_samples [OF _ l]) auto
  with l show ?thesis by blast
qed

end
