(* ===== verification/Gateway_Config.thy ===== *)
theory Gateway_Config
  imports Routing
begin

text \<open>
  \<^verbatim>\<open>src/internal/gatewayconfig\<close>: the validated write models of the control plane for quotas
  (\<^verbatim>\<open>quota.go\<close>, \<^verbatim>\<open>values.go\<close>), retries (\<^verbatim>\<open>retry.go\<close>), routing (\<^verbatim>\<open>routing_strategy.go\<close>) and
  providers and routes (\<^verbatim>\<open>provider_route.go\<close>). The argument \<open>wall\<close> is the current time, used
  when the caller passes the zero time. The lemmas show that what a constructor accepts is what
  the data plane understands: a window it checks, a strategy it knows, a delay it can bound.
\<close>

section \<open>Quotas\<close>

definition invalid :: "string \<Rightarrow> err" where
  "invalid msg = Err ErrInvalidRequest msg"

record gc_quota =
  gq_id :: string
  gq_organization_id :: string
  gq_scope_type :: string
  gq_scope_id :: string
  gq_metric :: string
  gq_limit_value :: int
  gq_window :: string
  gq_created_at :: gotime

definition normalize_window :: "string \<Rightarrow> string" where
  "normalize_window w = (if w = [] then WindowTotal else w)"

definition validate_window :: "string \<Rightarrow> unit res" where
  "validate_window w =
     (if \<not> valid_quota_window w then Inl (invalid ''window must be total, minute, hour, or day'') else Inr ())"

definition validate_metric :: "string \<Rightarrow> unit res" where
  "validate_metric m =
     (if m = MetricRequests \<or> m = MetricTokens then Inr ()
      else if m = [] then Inl (invalid ''metric is required'')
      else Inl (invalid ''invalid metric''))"

definition validate_scope_type :: "string \<Rightarrow> unit res" where
  "validate_scope_type s =
     (if s \<in> {ScopeOrganization, ScopeTeam, ScopeProject, ScopeUser, ScopeAPIKey} then Inr ()
      else if s = [] then Inl (invalid ''scope_type is required'')
      else Inl (invalid ''invalid scope_type''))"

definition validate_limit :: "int \<Rightarrow> unit res" where
  "validate_limit n = (if n \<le> 0 then Inl (invalid ''limit_value must be positive'') else Inr ())"

definition validate_new_fields ::
  "string \<Rightarrow> string \<Rightarrow> string \<Rightarrow> string \<Rightarrow> int \<Rightarrow> string \<Rightarrow> unit res" where
  "validate_new_fields org scope_type scope_id metric limit window =
     (if org = [] then Inl (invalid ''organization_id is required'')
      else if scope_id = [] then Inl (invalid ''scope_id is required'')
      else bind_res (validate_scope_type scope_type) (\<lambda>_.
        bind_res (validate_metric metric) (\<lambda>_.
        bind_res (validate_limit limit) (\<lambda>_.
        bind_res (validate_window window) (\<lambda>_.
          if scope_type = ScopeOrganization \<and> scope_id \<noteq> org
          then Inl (invalid ''organization scope_id must match organization'')
          else Inr ())))))"

definition parse_quota_window :: "string \<Rightarrow> string res" where
  "parse_quota_window w0 =
     (let w = normalize_window w0 in bind_res (validate_window w) (\<lambda>_. Inr w))"

definition parse_quota_metric :: "string \<Rightarrow> string res" where
  "parse_quota_metric m = bind_res (validate_metric m) (\<lambda>_. Inr m)"

definition parse_quota_scope :: "string \<Rightarrow> string res" where
  "parse_quota_scope s = bind_res (validate_scope_type s) (\<lambda>_. Inr s)"

definition scope_is_organization :: "string \<Rightarrow> bool" where
  "scope_is_organization s \<longleftrightarrow> s = ScopeOrganization"

definition or_wall :: "gotime \<Rightarrow> gotime \<Rightarrow> gotime" where
  "or_wall wall now = (if now = 0 then wall else now)"

definition new_quota ::
  "gotime \<Rightarrow> string \<Rightarrow> string \<Rightarrow> string \<Rightarrow> string \<Rightarrow> string \<Rightarrow> int \<Rightarrow> string \<Rightarrow> gotime \<Rightarrow> gc_quota res" where
  "new_quota wall i org scope_type scope_id metric limit window0 now =
     (let window = normalize_window window0 in
      bind_res (parse_quota_scope scope_type) (\<lambda>scope.
      bind_res (parse_quota_metric metric) (\<lambda>met.
      bind_res (parse_quota_window window) (\<lambda>win.
      bind_res (validate_new_fields org scope scope_id met limit win) (\<lambda>_.
        if i = [] then Inl (invalid ''id is required'')
        else Inr \<lparr>gq_id = i, gq_organization_id = org, gq_scope_type = scope, gq_scope_id = scope_id,
                  gq_metric = met, gq_limit_value = limit, gq_window = win,
                  gq_created_at = or_wall wall now\<rparr>)))))"

section \<open>Retries\<close>

definition BackoffFixed :: string where "BackoffFixed = ''fixed''"
definition BackoffExponential :: string where "BackoffExponential = ''exponential''"

text \<open>\<^verbatim>\<open>time.ParseDuration\<close> with its error turned into a validation error.\<close>

definition parse_delay :: "string \<Rightarrow> string \<Rightarrow> duration res" where
  "parse_delay field s =
     (case parse_duration s of Some d \<Rightarrow> Inr d | None \<Rightarrow> Inl (invalid field))"

definition validate_retry :: "retry_config option \<Rightarrow> unit res" where
  "validate_retry c =
     (case c of None \<Rightarrow> Inr () | Some c \<Rightarrow>
        let b = rc_backoff c in
        if rc_max_attempts c < 1 then Inl (invalid ''max_attempts must be >= 1'')
        else if bo_strategy b = [] then Inl (invalid ''backoff.strategy is required'')
        else if bo_strategy b \<noteq> BackoffFixed \<and> bo_strategy b \<noteq> BackoffExponential
          then Inl (invalid ''backoff.strategy must be fixed or exponential'')
        else if bo_base_delay b = [] then Inl (invalid ''backoff.base_delay is required'')
        else bind_res (parse_delay ''backoff.base_delay'' (bo_base_delay b)) (\<lambda>base.
          if base < 0 then Inl (invalid ''backoff.base_delay must be >= 0'')
          else if bo_strategy b = BackoffFixed then
            (if bo_max_delay b \<noteq> [] then Inl (invalid ''backoff.max_delay is only valid for exponential'')
             else if bo_multiplier b \<noteq> 0 then Inl (invalid ''backoff.multiplier is only valid for exponential'')
             else Inr ())
          else
            (if bo_multiplier b \<noteq> 0 \<and> bo_multiplier b < 1 then Inl (invalid ''backoff.multiplier must be >= 1'')
             else if bo_max_delay b \<noteq> [] then
               bind_res (parse_delay ''backoff.max_delay'' (bo_max_delay b)) (\<lambda>mx.
                 if mx < base then Inl (invalid ''backoff.max_delay must be >= base_delay'') else Inr ())
             else Inr ())))"

definition normalize_retry :: "retry_config option \<Rightarrow> retry_config option res" where
  "normalize_retry c =
     (case c of None \<Rightarrow> Inr None | Some c \<Rightarrow>
        let b = rc_backoff c;
            b1 = b\<lparr>bo_strategy := trim_space (to_lower (bo_strategy b)),
                   bo_base_delay := trim_space (bo_base_delay b),
                   bo_max_delay := trim_space (bo_max_delay b)\<rparr>;
            out = c\<lparr>rc_backoff := b1\<rparr>
        in bind_res (validate_retry (Some out)) (\<lambda>_.
          if bo_strategy b1 = BackoffExponential \<and> bo_multiplier b1 = 0
          then Inr (Some (out\<lparr>rc_backoff := b1\<lparr>bo_multiplier := 2\<rparr>\<rparr>))
          else Inr (Some out)))"

definition gc_delay :: "(rat \<Rightarrow> int) \<Rightarrow> retry_config option \<Rightarrow> int \<Rightarrow> duration" where
  "gc_delay ovf c n =
     (case c of None \<Rightarrow> 0 | Some c \<Rightarrow>
        if n < 0 then 0
        else (case parse_duration (bo_base_delay (rc_backoff c)) of None \<Rightarrow> 0 | Some base \<Rightarrow>
          if base < 0 then 0
          else if bo_strategy (rc_backoff c) = BackoffFixed then base
          else if bo_strategy (rc_backoff c) = BackoffExponential then
            (let m = bo_multiplier (rc_backoff c);
                 mult = (if m = 0 then 2 else m);
                 d = float_to_i64 ovf (of_int base * mult ^ nat n)
             in if bo_max_delay (rc_backoff c) \<noteq> [] then
                  (case parse_duration (bo_max_delay (rc_backoff c)) of
                     Some mx \<Rightarrow> if d > mx then mx else d
                   | None \<Rightarrow> d)
                else d)
          else 0))"

definition retry_to_snapshot :: "retry_config option \<Rightarrow> retry_config option" where
  "retry_to_snapshot c =
     (case c of None \<Rightarrow> None | Some c \<Rightarrow>
        Some \<lparr>rc_max_attempts = rc_max_attempts c,
              rc_backoff = \<lparr>bo_strategy = bo_strategy (rc_backoff c),
                 bo_base_delay = bo_base_delay (rc_backoff c),
                 bo_max_delay = bo_max_delay (rc_backoff c),
                 bo_multiplier = bo_multiplier (rc_backoff c)\<rparr>\<rparr>)"

section \<open>Routing\<close>

definition normalize_routing_strategy :: "string \<Rightarrow> string res" where
  "normalize_routing_strategy s0 =
     (let s = trim_space (to_lower s0) in
      if s = [] then Inr StrategyOrdered
      else if s \<in> {StrategyOrdered, StrategyWeighted, StrategyLatency, StrategyCost} then Inr s
      else Inl (invalid ''routing_strategy must be ordered, weighted, latency, or cost''))"

definition normalize_weight :: "int \<Rightarrow> int res" where
  "normalize_weight w =
     (if w < 0 then Inl (invalid ''weight must be >= 0'') else if w = 0 then Inr 1 else Inr w)"

definition normalize_fallback :: "route_target \<Rightarrow> route_target res" where
  "normalize_fallback fb =
     bind_res (normalize_weight (rt_weight fb)) (\<lambda>w.
       Inr \<lparr>rt_provider_id = trim_space (rt_provider_id fb),
            rt_target_model = trim_space (rt_target_model fb), rt_weight = w\<rparr>)"

definition normalize_route_routing ::
  "string \<Rightarrow> int \<Rightarrow> route_target list \<Rightarrow> (string \<times> int \<times> route_target list) res" where
  "normalize_route_routing strategy weight fallbacks =
     bind_res (normalize_routing_strategy strategy) (\<lambda>s.
     bind_res (normalize_weight weight) (\<lambda>w.
     bind_res (map_res normalize_fallback fallbacks) (\<lambda>out. Inr (s, w, out))))"

section \<open>Providers and routes\<close>

record gc_provider =
  gp_id :: string
  gp_organization_id :: string
  gp_name :: string
  gp_type :: string
  gp_base_url :: string
  gp_api_key_env :: string
  gp_capabilities :: capabilities
  gp_config :: raw_json
  gp_created_at :: gotime

record gc_route =
  gr_id :: string
  gr_organization_id :: string
  gr_model :: string
  gr_provider_id :: string
  gr_target_model :: string
  gr_fallbacks :: "route_target list"
  gr_retry :: "retry_config option"
  gr_routing_strategy :: string
  gr_weight :: int
  gr_created_at :: gotime

text \<open>
  Decoding into \<^verbatim>\<open>map[string]any\<close> and encoding again keeps the last of equal members and sorts
  them by name, in every nested object; \<^verbatim>\<open>null\<close> decodes to a nil map, which encodes as \<^verbatim>\<open>null\<close>.
\<close>

definition sort_members :: "(string \<times> json) list \<Rightarrow> (string \<times> json) list" where
  "sort_members kvs = sort_key fst (index_by Some kvs [])"

primrec json_canon :: "json \<Rightarrow> json" where
  "json_canon JNull = JNull"
| "json_canon (JBool b) = JBool b"
| "json_canon (JNum x) = JNum x"
| "json_canon (JStr s) = JStr s"
| "json_canon (JArr js) = JArr (map json_canon js)"
| "json_canon (JObj kvs) = JObj (sort_members (map (map_prod id json_canon) kvs))"

definition normalize_provider_config :: "raw_json \<Rightarrow> raw_json res" where
  "normalize_provider_config raw =
     (case raw of None \<Rightarrow> Inr (Some (JObj []))
      | Some (JObj kvs) \<Rightarrow> Inr (Some (json_canon (JObj kvs)))
      | Some JNull \<Rightarrow> Inr (Some JNull)
      | Some _ \<Rightarrow> Inl (invalid ''config must be a JSON object''))"

definition new_provider ::
  "registry \<Rightarrow> gotime \<Rightarrow> string \<Rightarrow> string \<Rightarrow> string \<Rightarrow> string \<Rightarrow> string \<Rightarrow> string \<Rightarrow> capabilities \<Rightarrow>
   raw_json \<Rightarrow> gotime \<Rightarrow> gc_provider res" where
  "new_provider reg wall i org name0 typ0 base_url env caps config now =
     (let name = trim_space name0; typ = trim_space typ0 in
      if i = [] \<or> org = [] then Inl (invalid ''id and organization_id required'')
      else if name = [] \<or> typ = [] then Inl (invalid ''name and type required'')
      else bind_res (normalize_provider_config config) (\<lambda>cfg.
        Inr \<lparr>gp_id = i, gp_organization_id = org, gp_name = name, gp_type = typ,
             gp_base_url = base_url, gp_api_key_env = env,
             gp_capabilities = normalize_capabilities reg typ caps, gp_config = cfg,
             gp_created_at = or_wall wall now\<rparr>))"

definition new_route ::
  "gotime \<Rightarrow> string \<Rightarrow> string \<Rightarrow> string \<Rightarrow> string \<Rightarrow> string \<Rightarrow> route_target list \<Rightarrow> retry_config option \<Rightarrow>
   string \<Rightarrow> int \<Rightarrow> gotime \<Rightarrow> gc_route res" where
  "new_route wall i org model0 provider0 target fallbacks retry strategy weight now =
     (let model = trim_space model0; provider_id = trim_space provider0 in
      if i = [] \<or> org = [] then Inl (invalid ''id and organization_id required'')
      else if model = [] \<or> provider_id = [] then Inl (invalid ''model and provider_id required'')
      else bind_res (normalize_route_routing strategy weight fallbacks) (\<lambda>(s, w, fbs).
        bind_res (normalize_retry retry) (\<lambda>r.
          Inr \<lparr>gr_id = i, gr_organization_id = org, gr_model = model, gr_provider_id = provider_id,
               gr_target_model = target, gr_fallbacks = fbs, gr_retry = r,
               gr_routing_strategy = s, gr_weight = w, gr_created_at = or_wall wall now\<rparr>)))"

section \<open>Lemmas\<close>

lemma validate_simps [simp]:
  "validate_window w = Inr u \<longleftrightarrow> valid_quota_window w"
  "validate_metric m = Inr u \<longleftrightarrow> m = MetricRequests \<or> m = MetricTokens"
  "validate_scope_type s = Inr u \<longleftrightarrow> s \<in> {ScopeOrganization, ScopeTeam, ScopeProject, ScopeUser, ScopeAPIKey}"
  "validate_limit n = Inr u \<longleftrightarrow> 0 < n"
  by (auto simp: validate_window_def validate_metric_def validate_scope_type_def validate_limit_def)

lemma parse_simps [simp]:
  "parse_quota_window w = Inr v \<longleftrightarrow> v = normalize_window w \<and> valid_quota_window v"
  "parse_quota_metric m = Inr v \<longleftrightarrow> v = m \<and> (m = MetricRequests \<or> m = MetricTokens)"
  "parse_quota_scope s = Inr v \<longleftrightarrow>
     v = s \<and> s \<in> {ScopeOrganization, ScopeTeam, ScopeProject, ScopeUser, ScopeAPIKey}"
  by (auto simp: parse_quota_window_def parse_quota_metric_def parse_quota_scope_def bind_res_Inr_iff Let_def)

lemma validate_new_fields_Inr [simp]:
  "validate_new_fields org st si m n w = Inr u \<longleftrightarrow>
     org \<noteq> [] \<and> si \<noteq> [] \<and> st \<in> {ScopeOrganization, ScopeTeam, ScopeProject, ScopeUser, ScopeAPIKey} \<and>
     (m = MetricRequests \<or> m = MetricTokens) \<and> 0 < n \<and> valid_quota_window w \<and>
     (st = ScopeOrganization \<longrightarrow> si = org)"
  by (auto simp: validate_new_fields_def bind_res_Inr_iff split: if_splits)

lemma valid_window_checked: "valid_quota_window w \<longleftrightarrow> w \<in> set RequestWindows"
  by (auto simp: valid_quota_window_def RequestWindows_def)

lemma normalize_window_idem [simp]: "normalize_window (normalize_window w) = normalize_window w"
  by (simp add: normalize_window_def WindowTotal_def)

lemma new_quota_Inr:
  "new_quota wall i org st si m n w now = Inr q \<longleftrightarrow>
     i \<noteq> [] \<and> validate_new_fields org st si m n (normalize_window w) = Inr () \<and>
     q = \<lparr>gq_id = i, gq_organization_id = org, gq_scope_type = st, gq_scope_id = si, gq_metric = m,
        gq_limit_value = n, gq_window = normalize_window w, gq_created_at = or_wall wall now\<rparr>"
  by (auto simp: new_quota_def bind_res_Inr_iff Let_def split: if_splits)

lemma strategy_constants [simp]:
  "trim_space (to_lower BackoffFixed) = BackoffFixed"
  "trim_space (to_lower BackoffExponential) = BackoffExponential"
  "BackoffFixed \<noteq> []" "BackoffExponential \<noteq> []" "BackoffFixed \<noteq> BackoffExponential"
  "BackoffExponential \<noteq> BackoffFixed"
  by code_simp+

lemma routing_constants [simp]:
  "trim_space (to_lower StrategyOrdered) = StrategyOrdered"
  "trim_space (to_lower StrategyWeighted) = StrategyWeighted"
  "trim_space (to_lower StrategyLatency) = StrategyLatency"
  "trim_space (to_lower StrategyCost) = StrategyCost"
  "StrategyOrdered \<noteq> []" "StrategyWeighted \<noteq> []" "StrategyLatency \<noteq> []" "StrategyCost \<noteq> []"
  by code_simp+

lemma validate_retry_strategy:
  "validate_retry (Some c) = Inr u \<Longrightarrow>
     bo_strategy (rc_backoff c) = BackoffFixed \<or> bo_strategy (rc_backoff c) = BackoffExponential"
  by (auto simp: validate_retry_def Let_def split: if_splits)

text \<open>Filling in the default multiplier keeps a configuration valid.\<close>

lemma validate_retry_multiplier:
  assumes "validate_retry (Some c) = Inr ()" and "bo_strategy (rc_backoff c) = BackoffExponential"
  shows "validate_retry (Some (c\<lparr>rc_backoff := (rc_backoff c)\<lparr>bo_multiplier := 2\<rparr>\<rparr>)) = Inr ()"
  using assms by (auto simp: validate_retry_def Let_def bind_res_Inr_iff split: if_splits)

definition canonical_retry :: "retry_config \<Rightarrow> bool" where
  "canonical_retry r \<longleftrightarrow> validate_retry (Some r) = Inr () \<and>
     trim_space (bo_base_delay (rc_backoff r)) = bo_base_delay (rc_backoff r) \<and>
     trim_space (bo_max_delay (rc_backoff r)) = bo_max_delay (rc_backoff r) \<and>
     (bo_strategy (rc_backoff r) = BackoffExponential \<longrightarrow> bo_multiplier (rc_backoff r) \<noteq> 0)"

lemma normalize_retry_canonical:
  assumes "normalize_retry (Some c) = Inr (Some r)"
  shows "canonical_retry r"
proof -
  let ?b = "(rc_backoff c)\<lparr>bo_strategy := trim_space (to_lower (bo_strategy (rc_backoff c))),
       bo_base_delay := trim_space (bo_base_delay (rc_backoff c)),
       bo_max_delay := trim_space (bo_max_delay (rc_backoff c))\<rparr>"
  let ?out = "c\<lparr>rc_backoff := ?b\<rparr>"
  have valid: "validate_retry (Some ?out) = Inr ()"
    and r: "r = (if bo_strategy ?b = BackoffExponential \<and> bo_multiplier ?b = 0
        then ?out\<lparr>rc_backoff := ?b\<lparr>bo_multiplier := 2\<rparr>\<rparr> else ?out)"
    using assms by (auto simp: normalize_retry_def Let_def bind_res_Inr_iff split: if_splits)
  show ?thesis
    using valid validate_retry_multiplier [OF valid] by (simp add: r canonical_retry_def)
qed

lemma canonical_retry_fixed:
  assumes "canonical_retry r"
  shows "normalize_retry (Some r) = Inr (Some r)"
proof -
  have "trim_space (to_lower (bo_strategy (rc_backoff r))) = bo_strategy (rc_backoff r)"
    using validate_retry_strategy assms by (metis canonical_retry_def strategy_constants(1,2))
  then show ?thesis
    using assms by (auto simp: normalize_retry_def Let_def canonical_retry_def)
qed

lemma retry_to_snapshot_id: "retry_to_snapshot c = c"
  by (cases c) (simp_all add: retry_to_snapshot_def)

lemma gc_delay_eq_rc_delay: "gc_delay ovf c n = rc_delay ovf (retry_to_snapshot c) n"
  unfolding gc_delay_def rc_delay_def retry_to_snapshot_id BackoffFixed_def BackoffExponential_def by (rule refl)

lemma normalize_weight_Inr [simp]: "normalize_weight w = Inr v \<longleftrightarrow> 0 \<le> w \<and> v = (if w = 0 then 1 else w)"
  by (auto simp: normalize_weight_def)

lemma normalize_fallback_Inr:
  "normalize_fallback fb = Inr out \<Longrightarrow>
     1 \<le> rt_weight out \<and> trim_space (rt_provider_id out) = rt_provider_id out \<and> normalize_fallback out = Inr out"
  by (auto simp: normalize_fallback_def bind_res_Inr_iff split: if_splits)

lemma normalize_routing_strategy_Inr:
  "normalize_routing_strategy s = Inr v \<Longrightarrow>
     v \<in> {StrategyOrdered, StrategyWeighted, StrategyLatency, StrategyCost} \<and>
     normalize_routing_strategy v = Inr v"
  by (auto simp: normalize_routing_strategy_def Let_def split: if_splits)

lemma map_res_fixed: "(\<And>x. x \<in> set xs \<Longrightarrow> f x = Inr x) \<Longrightarrow> map_res f xs = Inr xs"
  by (induction xs) auto

lemma map_res_Inr_forall:
  "map_res f xs = Inr ys \<Longrightarrow> (\<And>x y. f x = Inr y \<Longrightarrow> P y) \<Longrightarrow> y \<in> set ys \<Longrightarrow> P y"
  by (induction xs arbitrary: ys) (auto simp: bind_res_Inr_iff)

lemma normalize_retry_idempotent_aux:
  assumes "normalize_retry c = Inr r"
  shows "normalize_retry r = Inr r"
proof (cases r)
  case None
  then show ?thesis by (simp add: normalize_retry_def)
next
  case (Some r')
  with assms obtain c' where "c = Some c'" by (cases c) (auto simp: normalize_retry_def)
  with assms Some show ?thesis using normalize_retry_canonical canonical_retry_fixed by blast
qed

section \<open>Properties\<close>

text \<open>
  Every quota the control plane accepts is one the gateway enforces: its window is one of
  the windows checked on each request, its metric and scope are known, its limit is positive,
  and an organization-wide quota is about its own organization.
\<close>

theorem new_quota_enforceable:
  assumes "new_quota wall i org scope_type scope_id metric limit window now = Inr q"
  shows "gq_window q \<in> set RequestWindows \<and> 0 < gq_limit_value q \<and>
     gq_metric q \<in> {MetricRequests, MetricTokens} \<and>
     gq_scope_type q \<in> {ScopeOrganization, ScopeTeam, ScopeProject, ScopeUser, ScopeAPIKey} \<and>
     (gq_scope_type q = ScopeOrganization \<longrightarrow> gq_scope_id q = gq_organization_id q) \<and>
     gq_id q \<noteq> [] \<and> gq_organization_id q \<noteq> [] \<and> gq_scope_id q \<noteq> []"
  using assms by (auto simp: new_quota_Inr valid_window_checked)

theorem new_quota_enforceable_witness:
  "\<exists>q. new_quota 5 ''q1'' ''o1'' ''project'' ''p1'' ''requests'' 10 [] 0 = Inr q \<and>
     gq_window q \<in> set RequestWindows \<and> gq_window q = ''total''"
proof -
  let ?q = "\<lparr>gq_id = ''q1'', gq_organization_id = ''o1'', gq_scope_type = ''project'', gq_scope_id = ''p1'',
     gq_metric = ''requests'', gq_limit_value = 10, gq_window = ''total'', gq_created_at = 5\<rparr>"
  have ok: "new_quota 5 ''q1'' ''o1'' ''project'' ''p1'' ''requests'' 10 [] 0 = Inr ?q" by code_simp
  from new_quota_enforceable [OF ok] ok show ?thesis by auto
qed

text \<open>
  Normalising a retry configuration is idempotent: what \<^verbatim>\<open>NormalizeRetry\<close> returns passes it
  again unchanged, so re-saving a stored route never alters or rejects its retry policy.
\<close>

theorem normalize_retry_idempotent:
  assumes "normalize_retry c = Inr r"
  shows "normalize_retry r = Inr r"
  using assms by (rule normalize_retry_idempotent_aux)

definition demo_retry :: "string \<Rightarrow> string \<Rightarrow> string \<Rightarrow> rat \<Rightarrow> int \<Rightarrow> retry_config" where
  "demo_retry strategy base mx factor n = \<lparr>rc_max_attempts = n, rc_backoff = \<lparr>bo_strategy = strategy,
     bo_base_delay = base, bo_max_delay = mx, bo_multiplier = factor\<rparr>\<rparr>"

theorem normalize_retry_idempotent_witness:
  "normalize_retry (Some (demo_retry ''exponential'' ''100ms'' ''2s'' 2 3)) =
     Inr (Some (demo_retry ''exponential'' ''100ms'' ''2s'' 2 3))"
proof -
  have "normalize_retry (Some (demo_retry '' Exponential'' ''100ms '' ''2s'' 0 3)) =
     Inr (Some (demo_retry ''exponential'' ''100ms'' ''2s'' 2 3))" by code_simp
  then show ?thesis by (rule normalize_retry_idempotent)
qed

text \<open>
  The back-off delay of an accepted exponential policy never exceeds its maximum delay,
  and it is at least the base delay as long as the unbounded product fits a 64-bit duration.
\<close>

theorem retry_delay_bounds:
  assumes "canonical_retry c" "bo_strategy (rc_backoff c) = BackoffExponential" "0 \<le> n"
    and "parse_duration (bo_base_delay (rc_backoff c)) = Some base"
    and "bo_max_delay (rc_backoff c) \<noteq> []" "parse_duration (bo_max_delay (rc_backoff c)) = Some mx"
    and "of_int base * bo_multiplier (rc_backoff c) ^ nat n < 2 ^ 63"
  shows "base \<le> rc_delay ovf (Some c) n \<and> rc_delay ovf (Some c) n \<le> mx"
proof -
  let ?m = "bo_multiplier (rc_backoff c)"
  have v: "0 \<le> base" "base \<le> mx" "?m = 0 \<or> 1 \<le> ?m"
    using assms(1,2,4-6)
    by (auto simp: canonical_retry_def validate_retry_def Let_def bind_res_Inr_iff parse_delay_def
        split: if_splits)
  have m: "1 \<le> ?m" using v(3) assms(1,2) by (auto simp: canonical_retry_def)
  then have ge: "(of_int base :: rat) \<le> of_int base * ?m ^ nat n"
    using v(1) mult_left_mono [of 1 "?m ^ nat n" "of_int base"] by (simp add: one_le_power)
  then have fl: "base \<le> \<lfloor>of_int base * ?m ^ nat n\<rfloor>" by (simp add: le_floor_iff)
  have "\<lfloor>of_int base * ?m ^ nat n\<rfloor> < 2 ^ 63" using assms(7) by (simp add: floor_less_iff)
  moreover have "\<not> of_int base * ?m ^ nat n < 0" using ge v(1) by (simp add: not_less)
  ultimately have d: "float_to_i64 ovf (of_int base * ?m ^ nat n) = \<lfloor>of_int base * ?m ^ nat n\<rfloor>"
    using fl v(1) by (simp add: float_to_i64_def Let_def)
  have "rc_delay ovf (Some c) n = min mx \<lfloor>of_int base * ?m ^ nat n\<rfloor>"
    using assms v m d by (auto simp: rc_delay_def Let_def BackoffExponential_def)
  with fl v show ?thesis by auto
qed

theorem retry_delay_bounds_witness:
  "(100000000::int) \<le> rc_delay (\<lambda>_. 0) (Some (demo_retry ''exponential'' ''100ms'' ''2s'' 2 9)) 6 \<and>
   rc_delay (\<lambda>_. 0) (Some (demo_retry ''exponential'' ''100ms'' ''2s'' 2 9)) 6 \<le> 2000000000"
proof (rule retry_delay_bounds)
  show "canonical_retry (demo_retry ''exponential'' ''100ms'' ''2s'' 2 9)" by code_simp
qed code_simp+

text \<open>
  Without that bound the delay is not even positive: for an accepted policy with a maximum
  delay of 30 seconds, the 38th retry overflows the duration, and where the conversion yields
  the least integer (as on amd64) the cap is passed by and the wait is negative.
\<close>

theorem retry_delay_overflow:
  "normalize_retry (Some (demo_retry ''exponential'' ''100ms'' ''30s'' 2 64)) =
     Inr (Some (demo_retry ''exponential'' ''100ms'' ''30s'' 2 64)) \<and>
   rc_delay (\<lambda>_. - (2 ^ 63)) (Some (demo_retry ''exponential'' ''100ms'' ''30s'' 2 64)) 37 < 0"
  by code_simp

text \<open>
  A route the control plane accepts is in normal form: its strategy is one of the four the
  selector knows, its weights are at least 1, and normalising its routing and its retry policy
  again changes nothing.
\<close>

theorem new_route_normal_form:
  assumes "new_route wall i org model pid target fallbacks retry strategy weight now = Inr r"
  shows "gr_routing_strategy r \<in> {StrategyOrdered, StrategyWeighted, StrategyLatency, StrategyCost} \<and>
     1 \<le> gr_weight r \<and> list_all (\<lambda>fb. 1 \<le> rt_weight fb) (gr_fallbacks r) \<and>
     normalize_route_routing (gr_routing_strategy r) (gr_weight r) (gr_fallbacks r) =
       Inr (gr_routing_strategy r, gr_weight r, gr_fallbacks r) \<and>
     normalize_retry (gr_retry r) = Inr (gr_retry r) \<and> length (gr_fallbacks r) = length fallbacks"
proof -
  from assms have s: "normalize_routing_strategy strategy = Inr (gr_routing_strategy r)"
    and w: "normalize_weight weight = Inr (gr_weight r)"
    and fbs: "map_res normalize_fallback fallbacks = Inr (gr_fallbacks r)"
    and retry: "normalize_retry retry = Inr (gr_retry r)"
    by (auto simp: new_route_def normalize_route_routing_def bind_res_Inr_iff Let_def
        simp del: normalize_weight_Inr split: if_splits)
  have fb: "1 \<le> rt_weight out \<and> normalize_fallback out = Inr out" if "out \<in> set (gr_fallbacks r)" for out
    using map_res_Inr_forall [OF fbs _ that, of "\<lambda>x. 1 \<le> rt_weight x \<and> normalize_fallback x = Inr x"]
      normalize_fallback_Inr by blast
  have w1: "1 \<le> gr_weight r \<and> normalize_weight (gr_weight r) = Inr (gr_weight r)"
    using w by (auto split: if_splits)
  have "map_res normalize_fallback (gr_fallbacks r) = Inr (gr_fallbacks r)"
    by (rule map_res_fixed) (use fb in blast)
  then show ?thesis
    using normalize_routing_strategy_Inr [OF s] w1 fb map_res_length [OF fbs]
      normalize_retry_idempotent_aux [OF retry]
    by (simp add: normalize_route_routing_def list_all_iff del: normalize_weight_Inr)
qed

theorem new_route_normal_form_witness:
  "\<exists>r. new_route 5 ''r1'' ''o1'' '' m '' ''p1'' ''t''
       [\<lparr>rt_provider_id = '' p2'', rt_target_model = ''t2'', rt_weight = 0\<rparr>] None '' Weighted'' 0 0 = Inr r \<and>
     gr_routing_strategy r = ''weighted'' \<and> 1 \<le> gr_weight r"
proof -
  let ?r = "\<lparr>gr_id = ''r1'', gr_organization_id = ''o1'', gr_model = ''m'', gr_provider_id = ''p1'',
     gr_target_model = ''t'',
     gr_fallbacks = [\<lparr>rt_provider_id = ''p2'', rt_target_model = ''t2'', rt_weight = 1\<rparr>],
     gr_retry = None, gr_routing_strategy = ''weighted'', gr_weight = 1, gr_created_at = 5\<rparr>"
  have ok: "new_route 5 ''r1'' ''o1'' '' m '' ''p1'' ''t''
       [\<lparr>rt_provider_id = '' p2'', rt_target_model = ''t2'', rt_weight = 0\<rparr>] None '' Weighted'' 0 0 = Inr ?r"
    by code_simp
  from new_route_normal_form [OF ok] ok show ?thesis by auto
qed

end
