(* ===== verification/Policy.thy ===== *)
theory Policy
  imports Snapshot "HOL-Library.Product_Lexorder"
begin

text \<open>
  \<^verbatim>\<open>src/internal/policy/cel.go\<close>: the when/then policies of an organization. Compiling and
  evaluating a CEL expression is the third-party engine, an argument \<open>cel\<close>; which policies are
  consulted, in which order, what each action does and when evaluation stops is modelled in
  full. The main lemma relates the nested loops to the first deciding action of the flattened
  list of the matching policies' actions.
\<close>

section \<open>Data\<close>

record cel_request =
  rq_model :: string
  rq_path :: string
  rq_stream :: bool
  rq_tags :: "(string, string) gomap"
  rq_headers :: "(string, string) gomap"

record cel_credential =
  cc_id :: string
  cc_name :: string
  cc_storage_kind :: string
  cc_is_byok :: bool
  cc_provider_type :: string

record decision =
  de_allowed :: bool
  de_denied_by :: string
  de_credential_name :: string
  de_request_headers :: "(string, string) gomap"
  de_matched_allow :: string

definition allow_decision :: decision where
  "allow_decision = \<lparr>de_allowed = True, de_denied_by = [], de_credential_name = [],
     de_request_headers = [], de_matched_allow = []\<rparr>"

definition deny_decision :: "string \<Rightarrow> decision" where
  "deny_decision name = \<lparr>de_allowed = False, de_denied_by = name, de_credential_name = [],
     de_request_headers = [], de_matched_allow = []\<rparr>"

type_synonym cel_vars = "(string \<times> json) list"

record cel_engine =
  ce_bool :: "string \<Rightarrow> cel_vars \<Rightarrow> bool res"
  ce_string :: "string \<Rightarrow> cel_vars \<Rightarrow> string res"

definition ActionDeny :: string where "ActionDeny = ''deny''"
definition ActionAllow :: string where "ActionAllow = ''allow''"
definition ActionSetHeader :: string where "ActionSetHeader = ''set_header''"
definition ActionUseCredential :: string where "ActionUseCredential = ''use_credential''"

lemmas action_defs = ActionDeny_def ActionAllow_def ActionSetHeader_def ActionUseCredential_def

section \<open>Evaluation\<close>

definition policy_less :: "policy \<Rightarrow> policy \<Rightarrow> bool" where
  "policy_less a b =
     (if po_priority a \<noteq> po_priority b then po_priority a > po_priority b else po_name a < po_name b)"

definition sorted_org_policies :: "policy list \<Rightarrow> string \<Rightarrow> policy list" where
  "sorted_org_policies ps org =
     stable_sort policy_less (filter (\<lambda>p. \<not> (\<not> po_enabled p \<or> po_organization_id p \<noteq> org)) ps)"

definition string_map :: "(string, string) gomap \<Rightarrow> json" where
  "string_map m = JObj (map (map_prod id JStr) m)"

definition eval_vars :: "api_key \<Rightarrow> cel_request \<Rightarrow> cel_credential \<Rightarrow> cel_vars" where
  "eval_vars key req cred =
     [(''request'', JObj
        [(''model'', JStr (rq_model req)), (''path'', JStr (rq_path req)),
         (''stream'', JBool (rq_stream req)), (''tags'', string_map (rq_tags req)),
         (''headers'', string_map (rq_headers req))]),
      (''key'', JObj
        [(''id'', JStr (ak_id key)), (''organization_id'', JStr (ak_organization_id key)),
         (''project_id'', JStr (ak_project_id key)), (''kind'', JStr (ak_kind key)),
         (''owner_user_id'', JStr (ak_owner_user_id key)), (''name'', JStr (ak_name key))]),
      (''credential'', JObj
        [(''id'', JStr (cc_id cred)), (''name'', JStr (cc_name cred)),
         (''storage_kind'', JStr (cc_storage_kind cred)), (''is_byok'', JBool (cc_is_byok cred)),
         (''provider_type'', JStr (cc_provider_type cred))])]"

definition eval_bool :: "cel_engine \<Rightarrow> string \<Rightarrow> cel_vars \<Rightarrow> bool res" where
  "eval_bool cel expr vars =
     (if expr = [] then Inl (Err ErrOther ''empty expression'') else ce_bool cel expr vars)"

definition eval_string :: "cel_engine \<Rightarrow> string \<Rightarrow> cel_vars \<Rightarrow> string res" where
  "eval_string cel expr vars =
     (if expr = [] then Inl (Err ErrOther ''empty expression'') else ce_string cel expr vars)"

definition resolve_dynamic_string :: "cel_engine \<Rightarrow> string \<Rightarrow> string \<Rightarrow> cel_vars \<Rightarrow> string res" where
  "resolve_dynamic_string cel static expr0 vars =
     (let expr = trim_space expr0 in if expr \<noteq> [] then eval_string cel expr vars else Inr static)"

definition config_field :: "string \<Rightarrow> raw_json \<Rightarrow> string res" where
  "config_field name cfg = (case cfg of None \<Rightarrow> Inr [] | Some j \<Rightarrow> json_str_field name j)"

definition action_kind :: "policy_action \<Rightarrow> string" where
  "action_kind act =
     (let a = trim_space (to_lower (pa_type act)) in if a = [] then ActionDeny else a)"

text \<open>One THEN step: whether evaluation stops, and the decision so far.\<close>

definition apply_action ::
  "cel_engine \<Rightarrow> string \<Rightarrow> policy_action \<Rightarrow> cel_vars \<Rightarrow> decision \<Rightarrow> (bool \<times> decision) res" where
  "apply_action cel pname act vars out =
     (let action = action_kind act in
      if action = ActionDeny then Inr (True, deny_decision pname)
      else if action = ActionAllow then Inr (True, out\<lparr>de_matched_allow := pname\<rparr>)
      else if action = ActionSetHeader then
        bind_res (config_field ''header'' (pa_config act)) (\<lambda>header.
        bind_res (config_field ''value'' (pa_config act)) (\<lambda>value.
        bind_res (config_field ''value_expr'' (pa_config act)) (\<lambda>value_expr.
          let h = trim_space header in
          if h = [] then Inl (Err ErrOther ''policy: set_header missing header'')
          else bind_res (resolve_dynamic_string cel value value_expr vars) (\<lambda>v.
            Inr (False, out\<lparr>de_request_headers := gm_put h v (de_request_headers out)\<rparr>)))))
      else if action = ActionUseCredential then
        bind_res (config_field ''credential_name'' (pa_config act)) (\<lambda>cname.
        bind_res (config_field ''credential_name_expr'' (pa_config act)) (\<lambda>cname_expr.
        bind_res (resolve_dynamic_string cel cname cname_expr vars) (\<lambda>n.
          let name = trim_space n in
          if name = [] then Inl (Err ErrOther ''policy: use_credential resolved empty credential name'')
          else Inr (False, out\<lparr>de_credential_name := name\<rparr>))))
      else Inl (Err ErrOther ''policy: unknown action''))"

fun apply_actions ::
  "cel_engine \<Rightarrow> string \<Rightarrow> policy_action list \<Rightarrow> cel_vars \<Rightarrow> decision \<Rightarrow> (bool \<times> decision) res" where
  "apply_actions cel pname [] vars out = Inr (False, out)"
| "apply_actions cel pname (act # acts) vars out =
     bind_res (apply_action cel pname act vars out) (\<lambda>(stop, out').
       if stop then Inr (True, out') else apply_actions cel pname acts vars out')"

fun apply_policies :: "cel_engine \<Rightarrow> policy list \<Rightarrow> cel_vars \<Rightarrow> decision \<Rightarrow> decision res" where
  "apply_policies cel [] vars out = Inr out"
| "apply_policies cel (p # ps) vars out =
     bind_res (eval_bool cel (po_expression p) vars) (\<lambda>ok.
       if \<not> ok then apply_policies cel ps vars out
       else if effective_actions p = [] then Inl (Err ErrOther ''policy: no then actions'')
       else bind_res (apply_actions cel (po_name p) (effective_actions p) vars out) (\<lambda>(stop, out').
         if stop then Inr out' else apply_policies cel ps vars out'))"

definition policy_apply ::
  "cel_engine \<Rightarrow> policy list \<Rightarrow> api_key \<Rightarrow> cel_request \<Rightarrow> cel_credential \<Rightarrow> decision res" where
  "policy_apply cel ps key req cred =
     apply_policies cel (sorted_org_policies ps (ak_organization_id key)) (eval_vars key req cred)
       allow_decision"

definition credential_from_snapshot ::
  "snapshot option \<Rightarrow> string \<Rightarrow> api_key \<Rightarrow> string \<Rightarrow> cel_credential" where
  "credential_from_snapshot snap pt key override_name =
     (let out = \<lparr>cc_id = [], cc_name = [], cc_storage_kind = [], cc_is_byok = False, cc_provider_type = pt\<rparr> in
      if snap = None \<or> pt = [] then out
      else (case resolve_credential_for_call snap pt key override_name of
          CredHit c \<Rightarrow> out\<lparr>cc_id := cr_id c, cc_name := cr_name c, cc_storage_kind := cr_storage_kind c,
                          cc_is_byok := True\<rparr>
        | _ \<Rightarrow> out))"

section \<open>Order of evaluation\<close>

lemma sorted_org_policies_sort_key:
  "sorted_org_policies ps org =
     sort_key (\<lambda>p. (- po_priority p, po_name p)) (filter (\<lambda>p. po_enabled p \<and> po_organization_id p = org) ps)"
  unfolding sorted_org_policies_def
  by (subst stable_sort_key [where f = "\<lambda>p. (- po_priority p, po_name p)"])
    (auto simp: policy_less_def less_prod_def)

lemma sorted_org_policies_set:
  "p \<in> set (sorted_org_policies ps org) \<longleftrightarrow> p \<in> set ps \<and> po_enabled p \<and> po_organization_id p = org"
  by (auto simp: sorted_org_policies_def)

lemma sorted_org_policies_ordered:
  "sorted_wrt (\<lambda>a b. po_priority a \<ge> po_priority b) (sorted_org_policies ps org)"
proof -
  have "sorted (map (\<lambda>p. (- po_priority p, po_name p)) (sorted_org_policies ps org))"
    by (simp only: sorted_org_policies_sort_key sorted_sort_key)
  then have "sorted_wrt (\<lambda>a b. (- po_priority a, po_name a) \<le> (- po_priority b, po_name b)) (sorted_org_policies ps org)"
    by (simp add: sorted_map)
  then show ?thesis by (rule sorted_wrt_mono_rel [rotated]) (auto simp: less_eq_prod_def)
qed

text \<open>Policies of other organizations have no influence.\<close>

lemma sorted_org_policies_filter:
  "sorted_org_policies (filter (\<lambda>p. po_organization_id p = org) ps) org = sorted_org_policies ps org"
proof -
  have "filter (\<lambda>p. \<not> (\<not> po_enabled p \<or> po_organization_id p \<noteq> org)) (filter (\<lambda>p. po_organization_id p = org) ps) =
      filter (\<lambda>p. \<not> (\<not> po_enabled p \<or> po_organization_id p \<noteq> org)) ps"
    by (induction ps) auto
  then show ?thesis by (simp only: sorted_org_policies_def)
qed

section \<open>The deciding action\<close>

definition is_terminal :: "policy_action \<Rightarrow> bool" where
  "is_terminal act \<longleftrightarrow> action_kind act = ActionDeny \<or> action_kind act = ActionAllow"

definition policy_holds :: "cel_engine \<Rightarrow> cel_vars \<Rightarrow> policy \<Rightarrow> bool" where
  "policy_holds cel vars p \<longleftrightarrow> eval_bool cel (po_expression p) vars = Inr True"

definition policy_steps :: "policy \<Rightarrow> (string \<times> policy_action) list" where
  "policy_steps p = map (Pair (po_name p)) (effective_actions p)"

definition deciding_step :: "cel_engine \<Rightarrow> cel_vars \<Rightarrow> policy list \<Rightarrow> (string \<times> policy_action) option" where
  "deciding_step cel vars ps =
     find (\<lambda>(n, a). is_terminal a) (concat (map policy_steps (filter (policy_holds cel vars) ps)))"

definition decided_by :: "(string \<times> policy_action) option \<Rightarrow> decision \<Rightarrow> bool" where
  "decided_by step d =
     (case step of
        None \<Rightarrow> de_allowed d \<and> de_denied_by d = [] \<and> de_matched_allow d = []
      | Some (n, a) \<Rightarrow>
          if action_kind a = ActionDeny then d = deny_decision n
          else de_allowed d \<and> de_denied_by d = [] \<and> de_matched_allow d = n)"

definition undecided :: "decision \<Rightarrow> bool" where
  "undecided d \<longleftrightarrow> de_allowed d \<and> de_denied_by d = [] \<and> de_matched_allow d = []"

lemma apply_action_stop:
  assumes "apply_action cel n act vars out = Inr (stop, out')" and "undecided out"
  shows "stop \<longleftrightarrow> is_terminal act" and "stop \<Longrightarrow> decided_by (Some (n, act)) out'"
    and "\<not> stop \<Longrightarrow> undecided out'"
  using assms
  by (auto simp: apply_action_def is_terminal_def decided_by_def undecided_def Let_def bind_res_Inr_iff action_defs
      split: if_splits)

lemma apply_actions_stop:
  assumes "apply_actions cel n acts vars out = Inr (stop, out')" and "undecided out"
  shows "if stop then \<exists>a. find (\<lambda>(n, a). is_terminal a) (map (Pair n) acts) = Some (n, a) \<and> decided_by (Some (n, a)) out'
     else find (\<lambda>(n, a). is_terminal a) (map (Pair n) acts) = None \<and> undecided out'"
  using assms
proof (induction acts arbitrary: out)
  case (Cons act acts)
  then obtain s1 out1 where a: "apply_action cel n act vars out = Inr (s1, out1)"
    and rest: "(if s1 then Inr (True, out1) else apply_actions cel n acts vars out1) = Inr (stop, out')"
    by (auto simp: bind_res_Inr_iff)
  note st = apply_action_stop [OF a Cons.prems(2)]
  show ?case
  proof (cases s1)
    case True
    with rest st show ?thesis by auto
  next
    case False
    with Cons.IH [of out1] rest st show ?thesis by simp
  qed
qed (simp add: undecided_def)

lemma apply_policies_decided:
  assumes "apply_policies cel ps vars out = Inr d" and "undecided out"
  shows "decided_by (deciding_step cel vars ps) d"
  using assms
proof (induction ps arbitrary: out)
  case Nil
  then show ?case by (simp add: deciding_step_def decided_by_def undecided_def)
next
  case (Cons p ps)
  then obtain ok where ok: "eval_bool cel (po_expression p) vars = Inr ok"
    by (auto simp: bind_res_Inr_iff)
  show ?case
  proof (cases ok)
    case False
    with Cons ok show ?thesis by (simp add: deciding_step_def policy_holds_def)
  next
    case True
    with Cons.prems ok obtain stop out' where
      acts: "apply_actions cel (po_name p) (effective_actions p) vars out = Inr (stop, out')"
      and rest: "(if stop then Inr out' else apply_policies cel ps vars out') = Inr d"
      by (auto simp: bind_res_Inr_iff split: if_splits)
    have step: "deciding_step cel vars (p # ps) =
        (case find (\<lambda>(n, a). is_terminal a) (map (Pair (po_name p)) (effective_actions p)) of
           None \<Rightarrow> deciding_step cel vars ps | Some x \<Rightarrow> Some x)"
      using ok True unfolding deciding_step_def by (simp add: policy_holds_def policy_steps_def find_append)
    from apply_actions_stop [OF acts Cons.prems(2)] rest Cons.IH [of out'] show ?thesis
      by (auto simp: step split: if_splits)
  qed
qed

section \<open>Properties\<close>

text \<open>
  C14: The outcome of policy evaluation is decided by the first deny or allow action among the
  actions of the organization's enabled, matching policies taken by descending priority (then by
  name): deny refuses in that policy's name and drops every header and credential collected so
  far, allow short-circuits, and without such an action the call is allowed.
\<close>

theorem policy_first_terminal_decides:
  assumes "policy_apply cel ps key req cred = Inr d"
  shows "decided_by (deciding_step cel (eval_vars key req cred)
     (sort_key (\<lambda>p. (- po_priority p, po_name p))
       (filter (\<lambda>p. po_enabled p \<and> po_organization_id p = ak_organization_id key) ps))) d"
  using apply_policies_decided [of cel "sorted_org_policies ps (ak_organization_id key)" "eval_vars key req cred"
      allow_decision d] assms
  by (simp add: policy_apply_def undecided_def allow_decision_def sorted_org_policies_sort_key)

definition demo_policy :: "string \<Rightarrow> string \<Rightarrow> int \<Rightarrow> string \<Rightarrow> policy" where
  "demo_policy org name prio act = \<lparr>po_id = name, po_organization_id = org, po_name = name,
     po_expression = ''true'', po_actions = [\<lparr>pa_type = act, pa_config = None\<rparr>], po_enabled = True,
     po_priority = prio\<rparr>"

definition demo_cel :: cel_engine where
  "demo_cel = \<lparr>ce_bool = (\<lambda>e vars. Inr (e = ''true'')), ce_string = (\<lambda>e vars. Inr e)\<rparr>"

definition demo_req :: cel_request where
  "demo_req = \<lparr>rq_model = ''m'', rq_path = ''/v1/chat/completions'', rq_stream = False, rq_tags = [], rq_headers = []\<rparr>"

definition no_credential :: cel_credential where
  "no_credential = \<lparr>cc_id = [], cc_name = [], cc_storage_kind = [], cc_is_byok = False, cc_provider_type = []\<rparr>"

definition demo_policies :: "policy list" where
  "demo_policies = [demo_policy ''o1'' ''low'' 1 ''allow'', demo_policy ''o1'' ''high'' 9 ''Deny '',
     demo_policy ''o2'' ''other'' 99 ''allow'']"

theorem policy_first_terminal_decides_witness:
  "policy_apply demo_cel demo_policies demo_key demo_req no_credential = Inr (deny_decision ''high'') \<and>
   decided_by (deciding_step demo_cel (eval_vars demo_key demo_req no_credential)
     (sort_key (\<lambda>p. (- po_priority p, po_name p))
       (filter (\<lambda>p. po_enabled p \<and> po_organization_id p = ak_organization_id demo_key) demo_policies)))
     (deny_decision ''high'')"
proof -
  have ok: "policy_apply demo_cel demo_policies demo_key demo_req no_credential = Inr (deny_decision ''high'')"
    by code_simp
  from policy_first_terminal_decides [OF ok] ok show ?thesis by blast
qed

text \<open>
  Policy evaluation is isolated per organization: adding, removing or changing the policies
  of other organizations does not change the outcome, errors included.
\<close>

theorem policy_apply_isolated:
  assumes "filter (\<lambda>p. po_organization_id p = ak_organization_id key) ps =
     filter (\<lambda>p. po_organization_id p = ak_organization_id key) ps'"
  shows "policy_apply cel ps key req cred = policy_apply cel ps' key req cred"
  using sorted_org_policies_filter [of "ak_organization_id key" ps]
    sorted_org_policies_filter [of "ak_organization_id key" ps'] assms
  by (simp add: policy_apply_def)

theorem policy_apply_isolated_witness:
  "policy_apply demo_cel demo_policies demo_key demo_req no_credential =
   policy_apply demo_cel (take 2 demo_policies) demo_key demo_req no_credential"
  by (rule policy_apply_isolated) (simp add: demo_policies_def demo_policy_def demo_key_def)

end
