(* ===== verification/Quota.thy ===== *)
theory Quota
  imports Snapshot
begin

text \<open>
  Quota counters: the gate of \<^verbatim>\<open>src/internal/dataplane/quota.go\<close>, the composite store of
  \<^verbatim>\<open>composite_counters.go\<close>, and the two stores behind it, the SQL table of
  \<^verbatim>\<open>adapters/postgres/counters.go\<close> and the Redis buckets of \<^verbatim>\<open>adapters/redis/counters.go\<close>.
  The locale \<open>counter_store\<close> states what the gate relies on; the three stores interpret it, the
  composite from its two parts. The database and Redis are modelled by their contents and by a
  flag that says whether they answer.
\<close>

section \<open>The interface\<close>

text \<open>A counter: scope type, scope identifier, metric, window.\<close>

type_synonym ckey = "string \<times> string \<times> string \<times> string"

record 's counters =
  ct_get :: "'s \<Rightarrow> ckey \<Rightarrow> int res"
  ct_incr :: "'s \<Rightarrow> ckey \<Rightarrow> int \<Rightarrow> int res \<times> 's"

definition quota_ckey :: "quota \<Rightarrow> ckey" where
  "quota_ckey q = (qt_scope_type q, qt_scope_id q, qt_metric q, qt_window q)"

section \<open>The gate\<close>

text \<open>
  First loop: the quotas to charge, \<open>None\<close> when one is exhausted. Second loop: charge them.
\<close>

fun collect_hits ::
  "'s counters \<Rightarrow> snapshot option \<Rightarrow> api_key \<Rightarrow> string list \<Rightarrow> quota list \<Rightarrow> 's \<Rightarrow> quota list option res" where
  "collect_hits c snap key [] hits s = Inr (Some hits)"
| "collect_hits c snap key (w # ws) hits s =
     (case resolve_quota snap key MetricRequests w of
        None \<Rightarrow> collect_hits c snap key ws hits s
      | Some q \<Rightarrow> bind_res (ct_get c s (quota_ckey q)) (\<lambda>used.
          if used \<ge> qt_limit_value q then Inr None
          else collect_hits c snap key ws (hits @ [q]) s))"

fun charge_hits :: "'s counters \<Rightarrow> quota list \<Rightarrow> 's \<Rightarrow> bool res \<times> 's" where
  "charge_hits c [] s = (Inr False, s)"
| "charge_hits c (q # qs) s =
     (case ct_incr c s (quota_ckey q) 1 of
        (Inl e, s') \<Rightarrow> (Inl e, s')
      | (Inr _, s') \<Rightarrow> charge_hits c qs s')"

definition check_and_incr_requests ::
  "'s counters option \<Rightarrow> snapshot option \<Rightarrow> api_key \<Rightarrow> 's \<Rightarrow> bool res \<times> 's" where
  "check_and_incr_requests counters snap key s =
     (case counters of None \<Rightarrow> (Inr False, s) | Some c \<Rightarrow>
        (case collect_hits c snap key RequestWindows [] s of
           Inl e \<Rightarrow> (Inl e, s)
         | Inr None \<Rightarrow> (Inr True, s)
         | Inr (Some hits) \<Rightarrow> charge_hits c hits s))"

fun incr_token_windows ::
  "'s counters \<Rightarrow> snapshot option \<Rightarrow> api_key \<Rightarrow> int \<Rightarrow> string list \<Rightarrow> 's \<Rightarrow> 's" where
  "incr_token_windows c snap key tokens [] s = s"
| "incr_token_windows c snap key tokens (w # ws) s =
     (case resolve_quota snap key MetricTokens w of
        None \<Rightarrow> incr_token_windows c snap key tokens ws s
      | Some q \<Rightarrow> incr_token_windows c snap key tokens ws (snd (ct_incr c s (quota_ckey q) tokens)))"

definition incr_tokens :: "'s counters option \<Rightarrow> snapshot option \<Rightarrow> api_key \<Rightarrow> int \<Rightarrow> 's \<Rightarrow> 's" where
  "incr_tokens counters snap key tokens s =
     (case counters of None \<Rightarrow> s | Some c \<Rightarrow>
        if tokens \<le> 0 then s else incr_token_windows c snap key tokens RequestWindows s)"

section \<open>The composite store\<close>

definition store_error :: "string \<Rightarrow> err" where
  "store_error msg = Err ErrOther msg"

definition ckey_window :: "ckey \<Rightarrow> string" where
  "ckey_window k = snd (snd (snd k))"

datatype which_store = TotalStore | TimedStore

definition store_for :: "'a counters option \<Rightarrow> 'b counters option \<Rightarrow> string \<Rightarrow> which_store res" where
  "store_for tot tim w =
     (if w = WindowTotal \<or> w = [] then
        (if tot = None then Inl (store_error ''total counter store not configured'') else Inr TotalStore)
      else if w = WindowMinute \<or> w = WindowHour \<or> w = WindowDay then
        (if tim = None then Inl (store_error ''redis rate limits required for window'') else Inr TimedStore)
      else Inl (store_error ''unsupported quota window''))"

definition composite_get :: "'a counters option \<Rightarrow> 'b counters option \<Rightarrow> 'a \<times> 'b \<Rightarrow> ckey \<Rightarrow> int res" where
  "composite_get tot tim s k =
     bind_res (store_for tot tim (ckey_window k)) (\<lambda>st.
       case st of TotalStore \<Rightarrow> ct_get (the tot) (fst s) k | TimedStore \<Rightarrow> ct_get (the tim) (snd s) k)"

definition composite_incr ::
  "'a counters option \<Rightarrow> 'b counters option \<Rightarrow> 'a \<times> 'b \<Rightarrow> ckey \<Rightarrow> int \<Rightarrow> int res \<times> ('a \<times> 'b)" where
  "composite_incr tot tim s k d =
     (case store_for tot tim (ckey_window k) of
        Inl e \<Rightarrow> (Inl e, s)
      | Inr TotalStore \<Rightarrow> (case ct_incr (the tot) (fst s) k d of (r, a) \<Rightarrow> (r, (a, snd s)))
      | Inr TimedStore \<Rightarrow> (case ct_incr (the tim) (snd s) k d of (r, b) \<Rightarrow> (r, (fst s, b))))"

definition composite_counters :: "'a counters option \<Rightarrow> 'b counters option \<Rightarrow> ('a \<times> 'b) counters" where
  "composite_counters tot tim =
     \<lparr>ct_get = composite_get tot tim, ct_incr = composite_incr tot tim\<rparr>"

section \<open>Postgres\<close>

text \<open>The table \<^verbatim>\<open>quota_counters\<close>; an update beyond the range of \<^verbatim>\<open>bigint\<close> fails.\<close>

record pg_counters =
  pg_used :: "(ckey, int) gomap"
  pg_up :: bool

definition fits_i64 :: "int \<Rightarrow> bool" where
  "fits_i64 n \<longleftrightarrow> - (2 ^ 63) \<le> n \<and> n < 2 ^ 63"

definition pg_value :: "pg_counters \<Rightarrow> ckey \<Rightarrow> int" where
  "pg_value s k = (case gm_get (pg_used s) k of None \<Rightarrow> 0 | Some n \<Rightarrow> n)"

definition pg_get :: "pg_counters \<Rightarrow> ckey \<Rightarrow> int res" where
  "pg_get s k =
     (if \<not> pg_up s then Inl (store_error ''postgres unavailable'')
      else (case gm_get (pg_used s) k of None \<Rightarrow> Inr 0 | Some n \<Rightarrow> Inr n))"

definition pg_incr :: "pg_counters \<Rightarrow> ckey \<Rightarrow> int \<Rightarrow> int res \<times> pg_counters" where
  "pg_incr s k d =
     (if \<not> pg_up s then (Inl (store_error ''postgres unavailable''), s)
      else
        let used = (case gm_get (pg_used s) k of None \<Rightarrow> d | Some n \<Rightarrow> n + d) in
        if \<not> fits_i64 used then (Inl (store_error ''bigint out of range''), s)
        else (Inr used, s\<lparr>pg_used := gm_put k used (pg_used s)\<rparr>))"

definition pg_store :: "pg_counters counters" where
  "pg_store = \<lparr>ct_get = pg_get, ct_incr = pg_incr\<rparr>"

section \<open>Redis\<close>

text \<open>Decimal and calendar formatting of the bucket names.\<close>

definition pad_left :: "nat \<Rightarrow> string \<Rightarrow> string" where
  "pad_left n s = replicate (n - length s) (CHR ''0'') @ s"

text \<open>Seconds between Go's zero time and the Unix epoch, and the civil date of a day number.\<close>

definition unix_seconds :: "gotime \<Rightarrow> int" where
  "unix_seconds t = t div second - 62135596800"

definition trunc_div :: "int \<Rightarrow> int \<Rightarrow> int" where
  "trunc_div a b = (if a < 0 then - ((- a) div b) else a div b)"

definition civil_date :: "int \<Rightarrow> int \<times> int \<times> int" where
  "civil_date day =
     (let z = day + 306; era = z div 146097; doe = z mod 146097;
          yoe = (doe - doe div 1460 + doe div 36524 - doe div 146096) div 365;
          doy = doe - (365 * yoe + yoe div 4 - yoe div 100);
          mp = (5 * doy + 2) div 153;
          d = doy - (153 * mp + 2) div 5 + 1;
          m = (if mp < 10 then mp + 3 else mp - 9);
          y = yoe + era * 400 + (if m \<le> 2 then 1 else 0)
      in (y, m, d))"

definition format_date :: "gotime \<Rightarrow> string" where
  "format_date t =
     (case civil_date (t div (24 * hour)) of (y, m, d) \<Rightarrow>
        pad_left 4 (show_int y) @ ''-'' @ pad_left 2 (show_int m) @ ''-'' @ pad_left 2 (show_int d))"

definition window_bucket :: "string \<Rightarrow> gotime \<Rightarrow> (string \<times> duration) res" where
  "window_bucket w t =
     (if w = WindowMinute then Inr (show_int (trunc_div (unix_seconds t) 60), 2 * minute)
      else if w = WindowHour then Inr (show_int (trunc_div (unix_seconds t) 3600), 2 * hour)
      else if w = WindowDay then Inr (format_date t, 48 * hour)
      else Inl (store_error ''redis counters do not support window''))"

definition redis_quota_key :: "ckey \<Rightarrow> string \<Rightarrow> string" where
  "redis_quota_key k bucket =
     (case k of (st, si, m, w) \<Rightarrow>
        ''afi:quota:'' @ st @ '':'' @ si @ '':'' @ m @ '':'' @ w @ '':'' @ bucket)"

text \<open>Redis: the keys with value and expiry, the clock, and whether it answers.\<close>

record redis_counters =
  rd_keys :: "(string, int \<times> gotime) gomap"
  rd_now :: gotime
  rd_up :: bool

definition redis_read :: "redis_counters \<Rightarrow> string \<Rightarrow> int option" where
  "redis_read s key =
     (case gm_get (rd_keys s) key of
        None \<Rightarrow> None | Some (n, expiry) \<Rightarrow> if expiry \<le> rd_now s then None else Some n)"

definition redis_get :: "redis_counters \<Rightarrow> ckey \<Rightarrow> int res" where
  "redis_get s k =
     bind_res (window_bucket (ckey_window k) (rd_now s)) (\<lambda>(bucket, ttl).
       if \<not> rd_up s then Inl (store_error ''redis unavailable'')
       else (case redis_read s (redis_quota_key k bucket) of None \<Rightarrow> Inr 0 | Some n \<Rightarrow> Inr n))"

text \<open>
  \<^verbatim>\<open>INCRBY\<close> and \<^verbatim>\<open>EXPIRE\<close> in one transaction: an overflowing increment fails alone, and the
  expiry is set all the same when the key exists.
\<close>

definition redis_incr :: "redis_counters \<Rightarrow> ckey \<Rightarrow> int \<Rightarrow> int res \<times> redis_counters" where
  "redis_incr s k d =
     (case window_bucket (ckey_window k) (rd_now s) of
        Inl e \<Rightarrow> (Inl e, s)
      | Inr (bucket, ttl) \<Rightarrow>
          if \<not> rd_up s then (Inl (store_error ''redis unavailable''), s)
          else
            let key = redis_quota_key k bucket;
                old = (case redis_read s key of None \<Rightarrow> 0 | Some n \<Rightarrow> n);
                expiry = rd_now s + ttl
            in if fits_i64 (old + d)
               then (Inr (old + d), s\<lparr>rd_keys := gm_put key (old + d, expiry) (rd_keys s)\<rparr>)
               else (Inl (store_error ''increment or decrement would overflow''),
                     if redis_read s key = None then s
                     else s\<lparr>rd_keys := gm_put key (old, expiry) (rd_keys s)\<rparr>))"

definition redis_store :: "redis_counters counters" where
  "redis_store = \<lparr>ct_get = redis_get, ct_incr = redis_incr\<rparr>"

section \<open>The contract of a counter store\<close>

text \<open>
  \<open>good\<close> are the counters the store is responsible for and \<open>val\<close> their current values. A
  successful read reports the value, a successful increment adds to that counter alone, and a
  failed one changes no value.
\<close>

locale counter_store =
  fixes good :: "ckey \<Rightarrow> bool"
    and c :: "'s counters"
    and val :: "'s \<Rightarrow> ckey \<Rightarrow> int"
  assumes get_val: "good k \<Longrightarrow> ct_get c s k = Inr u \<Longrightarrow> u = val s k"
    and incr_val: "good k \<Longrightarrow> ct_incr c s k d = (Inr n, s') \<Longrightarrow> n = val s k + d \<and> val s' k = val s k + d"
    and incr_frame: "good k \<Longrightarrow> good k' \<Longrightarrow> k' \<noteq> k \<Longrightarrow> ct_incr c s k d = (r, s') \<Longrightarrow> val s' k' = val s k'"
    and incr_fail: "good k \<Longrightarrow> good k' \<Longrightarrow> ct_incr c s k d = (Inl e, s') \<Longrightarrow> val s' k' = val s k'"
begin

text \<open>The request quotas of a caller, in the order of the windows.\<close>

definition hits :: "snapshot option \<Rightarrow> api_key \<Rightarrow> string list \<Rightarrow> quota list" where
  "hits snap key ws = List.map_filter (resolve_quota snap key MetricRequests) ws"

lemma hits_simps [simp]:
  "hits snap key [] = []"
  "hits snap key (w # ws) =
     (case resolve_quota snap key MetricRequests w of None \<Rightarrow> hits snap key ws | Some q \<Rightarrow> q # hits snap key ws)"
  by (simp_all add: hits_def List.map_filter_simps split: option.splits)

lemma collect_hits_Some:
  assumes "collect_hits c snap key ws acc s = Inr (Some hs)"
    and "\<forall>q\<in>set (hits snap key ws). good (quota_ckey q)"
  shows "hs = acc @ hits snap key ws \<and> (\<forall>q\<in>set (hits snap key ws). val s (quota_ckey q) < qt_limit_value q)"
  using assms
proof (induction ws arbitrary: acc)
  case (Cons w ws)
  show ?case
  proof (cases "resolve_quota snap key MetricRequests w")
    case None
    with Cons show ?thesis by simp
  next
    case (Some q)
    with Cons.prems obtain u where u: "ct_get c s (quota_ckey q) = Inr u" "u < qt_limit_value q"
      "collect_hits c snap key ws (acc @ [q]) s = Inr (Some hs)"
      by (auto simp: bind_res_Inr_iff split: if_splits)
    with get_val Cons.prems(2) Some have "val s (quota_ckey q) < qt_limit_value q" by auto
    with Cons.IH [OF u(3)] Cons.prems(2) Some show ?thesis by simp
  qed
qed simp

lemma collect_hits_denied:
  assumes "collect_hits c snap key ws acc s = Inr None"
    and "\<forall>q\<in>set (hits snap key ws). good (quota_ckey q)"
  shows "\<exists>q\<in>set (hits snap key ws). qt_limit_value q \<le> val s (quota_ckey q)"
  using assms
proof (induction ws arbitrary: acc)
  case (Cons w ws)
  then show ?case
    by (auto simp: bind_res_Inr_iff split: option.splits if_splits dest!: get_val [rotated])
qed simp

lemma charge_hits_val:
  assumes "charge_hits c qs s = (Inr r, s')" and "distinct (map quota_ckey qs)"
    and "\<forall>q\<in>set qs. good (quota_ckey q)" and "good k"
  shows "val s' k = val s k + (if k \<in> quota_ckey ` set qs then 1 else 0) \<and> \<not> r"
  using assms
proof (induction qs arbitrary: s)
  case (Cons q qs)
  obtain n s1 where i: "ct_incr c s (quota_ckey q) 1 = (Inr n, s1)"
    and rest: "charge_hits c qs s1 = (Inr r, s')"
    using Cons.prems(1) by (auto split: prod.splits sum.splits)
  have IH: "val s' k = val s1 k + (if k \<in> quota_ckey ` set qs then 1 else 0) \<and> \<not> r"
    using Cons.IH [OF rest] Cons.prems by simp
  show ?case
  proof (cases "k = quota_ckey q")
    case True
    with incr_val [OF _ i] Cons.prems have "val s1 k = val s k + 1" by simp
    with IH True Cons.prems(2) show ?thesis by simp
  next
    case False
    with incr_frame [OF _ _ _ i, of k] Cons.prems have "val s1 k = val s k" by simp
    with IH False show ?thesis by simp
  qed
qed simp

lemma hits_window: "w \<noteq> [] \<Longrightarrow> resolve_quota snap key m w = Some q \<Longrightarrow> qt_window q = w \<and> qt_metric q = m"
proof -
  assume w: "w \<noteq> []" and q: "resolve_quota snap key m w = Some q"
  then obtain s where s: "snap = Some s" by (cases snap) (auto simp: resolve_quota_def)
  have "0 < quota_match key m w q" by (rule resolve_quota_Some [OF q [unfolded s] w])
  from quota_match_pos [OF this] show ?thesis by simp
qed

lemma hits_distinct:
  "[] \<notin> set ws \<Longrightarrow> distinct ws \<Longrightarrow> distinct (map quota_ckey (hits snap key ws)) \<and>
     qt_window ` set (hits snap key ws) \<subseteq> set ws"
proof (induction ws)
  case (Cons w ws)
  show ?case
  proof (cases "resolve_quota snap key MetricRequests w")
    case None
    with Cons show ?thesis by auto
  next
    case (Some q)
    with hits_window Cons.prems have qw: "qt_window q = w" by auto
    have "quota_ckey q \<notin> quota_ckey ` set (hits snap key ws)"
      using Cons qw by (force simp: quota_ckey_def)
    with Cons Some qw show ?thesis by auto
  qed
qed simp

lemma request_windows_distinct: "distinct RequestWindows" "[] \<notin> set RequestWindows"
  by (simp_all add: RequestWindows_def window_defs)

theorem admitted:
  assumes "check_and_incr_requests (Some c) snap key s = (Inr False, s')"
    and "\<forall>q\<in>set (hits snap key RequestWindows). good (quota_ckey q)"
  shows "(\<forall>q\<in>set (hits snap key RequestWindows). val s (quota_ckey q) < qt_limit_value q) \<and>
    (\<forall>k. good k \<longrightarrow> val s' k = val s k + (if k \<in> quota_ckey ` set (hits snap key RequestWindows) then 1 else 0))"
proof -
  from assms(1) obtain hs where hs: "collect_hits c snap key RequestWindows [] s = Inr (Some hs)"
    "charge_hits c hs s = (Inr False, s')"
    by (auto simp: check_and_incr_requests_def split: sum.splits option.splits)
  from collect_hits_Some [OF hs(1) assms(2)] have h: "hs = hits snap key RequestWindows"
    "\<forall>q\<in>set (hits snap key RequestWindows). val s (quota_ckey q) < qt_limit_value q" by auto
  show ?thesis
    using h charge_hits_val [OF hs(2)] hits_distinct [OF request_windows_distinct(2,1)] assms(2) by auto
qed

lemma charge_hits_not_True: "fst (charge_hits c qs s) \<noteq> Inr True"
  by (induction qs arbitrary: s) (auto split: prod.splits sum.splits)

theorem denied:
  assumes "check_and_incr_requests (Some c) snap key s = (Inr True, s')"
    and "\<forall>q\<in>set (hits snap key RequestWindows). good (quota_ckey q)"
  shows "s' = s \<and> (\<exists>q\<in>set (hits snap key RequestWindows). qt_limit_value q \<le> val s (quota_ckey q))"
proof -
  from assms(1) have "collect_hits c snap key RequestWindows [] s = Inr None \<and> s' = s"
    using charge_hits_not_True
    by (auto simp: check_and_incr_requests_def split: sum.splits option.splits) (metis fst_conv)+
  with collect_hits_denied assms(2) show ?thesis by blast
qed

text \<open>
  Whatever the gate answers, errors half-way through the charging included, a counter changes
  only by one, and only when the caller was below the limit of a quota on it.
\<close>

lemma charge_hits_bound:
  assumes "charge_hits c qs s = (r, s')" and "distinct (map quota_ckey qs)"
    and "\<forall>q\<in>set qs. good (quota_ckey q)" and "good k"
  shows "val s' k = val s k \<or> k \<in> quota_ckey ` set qs \<and> val s' k = val s k + 1"
  using assms
proof (induction qs arbitrary: s)
  case (Cons q qs)
  obtain x s1 where i: "ct_incr c s (quota_ckey q) 1 = (x, s1)" by fastforce
  show ?case
  proof (cases x)
    case (Inl e)
    with i Cons.prems(1) have "s' = s1" by simp
    with incr_fail [OF _ _ i [unfolded Inl], of k] Cons.prems(3,4) show ?thesis by simp
  next
    case (Inr n)
    have i': "ct_incr c s (quota_ckey q) 1 = (Inr n, s1)" using i Inr by simp
    with Cons.prems(1) have rest: "charge_hits c qs s1 = (r, s')" by simp
    have IH: "val s' k = val s1 k \<or> k \<in> quota_ckey ` set qs \<and> val s' k = val s1 k + 1"
      using Cons.IH [OF rest] Cons.prems by simp
    show ?thesis
    proof (cases "k = quota_ckey q")
      case True
      with incr_val [OF _ i'] Cons.prems have "val s1 k = val s k + 1" by simp
      moreover have "k \<notin> quota_ckey ` set qs" using True Cons.prems(2) by simp
      ultimately show ?thesis using IH True by simp
    next
      case False
      with incr_frame [OF _ _ _ i', of k] Cons.prems have "val s1 k = val s k" by simp
      with IH show ?thesis by auto
    qed
  qed
qed simp

lemma gate_step_bound:
  assumes "check_and_incr_requests (Some c) snap key s = (r, s')"
    and "\<forall>q\<in>set (hits snap key RequestWindows). good (quota_ckey q)" and "good k"
  shows "val s' k = val s k \<or>
    (\<exists>q\<in>set (hits snap key RequestWindows). quota_ckey q = k \<and> val s k < qt_limit_value q \<and> val s' k = val s k + 1)"
proof (cases "collect_hits c snap key RequestWindows [] s")
  case (Inl e)
  with assms(1) show ?thesis by (simp add: check_and_incr_requests_def)
next
  case (Inr h)
  show ?thesis
  proof (cases h)
    case None
    with Inr assms(1) show ?thesis by (simp add: check_and_incr_requests_def)
  next
    case (Some hs)
    from collect_hits_Some [OF Inr [unfolded Some] assms(2)]
    have h: "hs = hits snap key RequestWindows"
      "\<forall>q\<in>set (hits snap key RequestWindows). val s (quota_ckey q) < qt_limit_value q" by auto
    have "charge_hits c hs s = (r, s')" using Inr Some assms(1) by (simp add: check_and_incr_requests_def)
    from charge_hits_bound [OF this _ _ assms(3)] h hits_distinct [OF request_windows_distinct(2,1)] assms(2)
    show ?thesis by auto
  qed
qed

end

section \<open>The stores satisfy the contract\<close>

interpretation pg: counter_store "\<lambda>_. True" pg_store pg_value
  by unfold_locales
    (auto simp: pg_store_def pg_get_def pg_incr_def pg_value_def Let_def split: option.splits if_splits)

text \<open>Redis is responsible for timed windows; identifiers must not contain the separator.\<close>

definition redis_good :: "ckey \<Rightarrow> bool" where
  "redis_good k =
     (case k of (st, si, m, w) \<Rightarrow>
        w \<in> {WindowMinute, WindowHour, WindowDay} \<and> CHR '':'' \<notin> set st \<and> CHR '':'' \<notin> set si \<and> CHR '':'' \<notin> set m)"

definition redis_value :: "redis_counters \<Rightarrow> ckey \<Rightarrow> int" where
  "redis_value s k =
     (case window_bucket (ckey_window k) (rd_now s) of
        Inl _ \<Rightarrow> 0
      | Inr (bucket, ttl) \<Rightarrow> (case redis_read s (redis_quota_key k bucket) of None \<Rightarrow> 0 | Some n \<Rightarrow> n))"

lemma window_bucket_timed:
  assumes "redis_good k"
  obtains b ttl where "window_bucket (ckey_window k) t = Inr (b, ttl)" "0 < ttl"
  using assms
  by (auto simp: redis_good_def window_bucket_def ckey_window_def window_defs second_def minute_def hour_def
      split: prod.splits)

lemma redis_quota_key_inj:
  assumes "redis_good k" "redis_good k'" "redis_quota_key k b = redis_quota_key k' b'"
  shows "k = k'"
proof -
  have w: "w \<in> {WindowMinute, WindowHour, WindowDay} \<Longrightarrow> CHR '':'' \<notin> set w" for w
    by (auto simp: window_defs)
  obtain st si m w st' si' m' w' where k: "k = (st, si, m, w)" "k' = (st', si', m', w')"
    by (cases k; cases k') auto
  from assms show ?thesis
    by (auto simp: k redis_good_def redis_quota_key_def append_sep_inj w)
qed

lemma redis_read_put:
  "redis_read (s\<lparr>rd_keys := gm_put key (n, e) (rd_keys s)\<rparr>) key' =
     (if key' = key then (if e \<le> rd_now s then None else Some n) else redis_read s key')"
  by (auto simp: redis_read_def split: option.splits)

lemma redis_incr_cases:
  assumes "redis_good k" "redis_incr s k d = (r, s')"
  obtains (down) e where "r = Inl e" "s' = s"
  | (added) b ttl where "window_bucket (ckey_window k) (rd_now s) = Inr (b, ttl)" "0 < ttl"
      "r = Inr (redis_value s k + d)"
      "s' = s\<lparr>rd_keys := gm_put (redis_quota_key k b) (redis_value s k + d, rd_now s + ttl) (rd_keys s)\<rparr>"
  | (overflow) e b ttl where "window_bucket (ckey_window k) (rd_now s) = Inr (b, ttl)" "0 < ttl" "r = Inl e"
      "s' = s\<lparr>rd_keys := gm_put (redis_quota_key k b) (redis_value s k, rd_now s + ttl) (rd_keys s)\<rparr>"
proof -
  obtain b ttl where b: "window_bucket (ckey_window k) (rd_now s) = Inr (b, ttl)" "0 < ttl"
    using window_bucket_timed [OF assms(1)] .
  let ?key = "redis_quota_key k b"
  have v: "redis_value s k = (case redis_read s ?key of None \<Rightarrow> 0 | Some n \<Rightarrow> n)"
    using b by (simp add: redis_value_def)
  show thesis
  proof (cases "rd_up s")
    case False
    with assms(2) b have "r = Inl (store_error ''redis unavailable'')" "s' = s" by (simp_all add: redis_incr_def)
    then show ?thesis by (rule down)
  next
    case up: True
    show ?thesis
    proof (cases "fits_i64 (redis_value s k + d)")
      case True
      with assms(2) b up v added [OF b] show ?thesis by (simp add: redis_incr_def Let_def)
    next
      case False
      with assms(2) b up v have "r = Inl (store_error ''increment or decrement would overflow'')"
        "s' = (if redis_read s ?key = None then s
           else s\<lparr>rd_keys := gm_put ?key (redis_value s k, rd_now s + ttl) (rd_keys s)\<rparr>)"
        by (auto simp: redis_incr_def Let_def)
      with overflow [OF b] down show ?thesis by (simp split: if_splits)
    qed
  qed
qed

lemma redis_value_put:
  assumes "redis_good k" "redis_good k'" "window_bucket (ckey_window k) (rd_now s) = Inr (b, ttl)" "0 < ttl"
  shows "redis_value (s\<lparr>rd_keys := gm_put (redis_quota_key k b) (n, rd_now s + ttl) (rd_keys s)\<rparr>) k' =
     (if k' = k then n else redis_value s k')"
proof (cases "k' = k")
  case True
  with assms show ?thesis by (simp add: redis_value_def redis_read_put)
next
  case False
  obtain b' ttl' where b': "window_bucket (ckey_window k') (rd_now s) = Inr (b', ttl')"
    using window_bucket_timed [OF assms(2)] .
  have "redis_quota_key k' b' \<noteq> redis_quota_key k b"
    using redis_quota_key_inj [OF assms(2,1)] False by blast
  with False b' show ?thesis by (simp add: redis_value_def redis_read_put)
qed

interpretation redis: counter_store redis_good redis_store redis_value
proof
  fix k s u
  assume "redis_good k" "ct_get redis_store s k = Inr u"
  then show "u = redis_value s k"
    by (auto simp: redis_store_def redis_get_def redis_value_def bind_res_Inr_iff split: if_splits option.splits)
next
  fix k s d n s'
  assume k: "redis_good k" and i: "ct_incr redis_store s k d = (Inr n, s')"
  from i have "redis_incr s k d = (Inr n, s')" by (simp add: redis_store_def)
  with k show "n = redis_value s k + d \<and> redis_value s' k = redis_value s k + d"
    by (cases rule: redis_incr_cases [OF k]) (auto simp: redis_value_put)
next
  fix k k' s d r s'
  assume k: "redis_good k" "redis_good k'" "k' \<noteq> k" and i: "ct_incr redis_store s k d = (r, s')"
  from i have i': "redis_incr s k d = (r, s')" by (simp add: redis_store_def)
  from k(1) i' show "redis_value s' k' = redis_value s k'"
    by (cases rule: redis_incr_cases) (auto simp: redis_value_put k)
next
  fix k k' s d e s'
  assume k: "redis_good k" "redis_good k'" and i: "ct_incr redis_store s k d = (Inl e, s')"
  from i have i': "redis_incr s k d = (Inl e, s')" by (simp add: redis_store_def)
  from k(1) i' show "redis_value s' k' = redis_value s k'"
    by (cases rule: redis_incr_cases) (auto simp: redis_value_put k)
qed

text \<open>The composite of two stores is a store: each window is served by the store it is routed to.\<close>

definition composite_good :: "(ckey \<Rightarrow> bool) \<Rightarrow> (ckey \<Rightarrow> bool) \<Rightarrow> ckey \<Rightarrow> bool" where
  "composite_good g1 g2 k \<longleftrightarrow>
     (if ckey_window k = WindowTotal \<or> ckey_window k = [] then g1 k
      else ckey_window k \<in> {WindowMinute, WindowHour, WindowDay} \<and> g2 k)"

definition composite_value :: "('a \<Rightarrow> ckey \<Rightarrow> int) \<Rightarrow> ('b \<Rightarrow> ckey \<Rightarrow> int) \<Rightarrow> 'a \<times> 'b \<Rightarrow> ckey \<Rightarrow> int" where
  "composite_value v1 v2 s k =
     (if ckey_window k = WindowTotal \<or> ckey_window k = [] then v1 (fst s) k else v2 (snd s) k)"

lemma store_for_good:
  "composite_good g1 g2 k \<Longrightarrow> store_for (Some c1) (Some c2) (ckey_window k) =
     Inr (if ckey_window k = WindowTotal \<or> ckey_window k = [] then TotalStore else TimedStore)"
  by (auto simp: composite_good_def store_for_def split: if_splits)

lemma composite_counter_store:
  assumes "counter_store g1 c1 v1" and "counter_store g2 c2 v2"
  shows "counter_store (composite_good g1 g2) (composite_counters (Some c1) (Some c2)) (composite_value v1 v2)"
proof -
  note l1 = counter_store.get_val [OF assms(1)] counter_store.incr_val [OF assms(1)]
    counter_store.incr_frame [OF assms(1)] counter_store.incr_fail [OF assms(1)]
  note l2 = counter_store.get_val [OF assms(2)] counter_store.incr_val [OF assms(2)]
    counter_store.incr_frame [OF assms(2)] counter_store.incr_fail [OF assms(2)]
  note defs = composite_counters_def composite_get_def composite_incr_def composite_value_def store_for_good
  show ?thesis
  proof
    fix k s u
    assume k: "composite_good g1 g2 k" and "ct_get (composite_counters (Some c1) (Some c2)) s k = Inr u"
    then show "u = composite_value v1 v2 s k"
      using l1(1) [of k "fst s" u] l2(1) [of k "snd s" u]
      by (auto simp: defs composite_good_def split: if_splits)
  next
    fix k s d n s'
    assume k: "composite_good g1 g2 k" and "ct_incr (composite_counters (Some c1) (Some c2)) s k d = (Inr n, s')"
    then show "n = composite_value v1 v2 s k + d \<and> composite_value v1 v2 s' k = composite_value v1 v2 s k + d"
      using l1(2) [of k "fst s" d n "fst s'"] l2(2) [of k "snd s" d n "snd s'"]
      by (auto simp: defs composite_good_def split: if_splits prod.splits)
  next
    fix k k' s d r s'
    assume k: "composite_good g1 g2 k" "composite_good g1 g2 k'" "k' \<noteq> k"
      and "ct_incr (composite_counters (Some c1) (Some c2)) s k d = (r, s')"
    then show "composite_value v1 v2 s' k' = composite_value v1 v2 s k'"
      using l1(3) [of k k' "fst s" d r "fst s'"] l2(3) [of k k' "snd s" d r "snd s'"]
      by (auto simp: defs composite_good_def split: if_splits prod.splits)
  next
    fix k k' s d e s'
    assume k: "composite_good g1 g2 k" "composite_good g1 g2 k'"
      and "ct_incr (composite_counters (Some c1) (Some c2)) s k d = (Inl e, s')"
    then show "composite_value v1 v2 s' k' = composite_value v1 v2 s k'"
      using l1(4) [of k k' "fst s" d e "fst s'"] l2(4) [of k k' "snd s" d e "snd s'"]
      by (auto simp: defs composite_good_def split: if_splits prod.splits)
  qed
qed

text \<open>The gateway's store: Postgres for lifetime quotas and Redis for timed windows.\<close>

definition gateway_counters :: "(pg_counters \<times> redis_counters) counters" where
  "gateway_counters = composite_counters (Some pg_store) (Some redis_store)"

definition gateway_good :: "ckey \<Rightarrow> bool" where
  "gateway_good = composite_good (\<lambda>_. True) redis_good"

definition gateway_value :: "pg_counters \<times> redis_counters \<Rightarrow> ckey \<Rightarrow> int" where
  "gateway_value = composite_value pg_value redis_value"

interpretation gateway: counter_store gateway_good gateway_counters gateway_value
  unfolding gateway_good_def gateway_counters_def gateway_value_def
  by (rule composite_counter_store [OF pg.counter_store_axioms redis.counter_store_axioms])

section \<open>Properties\<close>

text \<open>The request quotas the gate consults for a caller.\<close>

definition request_quotas :: "snapshot option \<Rightarrow> api_key \<Rightarrow> quota list" where
  "request_quotas snap key = List.map_filter (resolve_quota snap key MetricRequests) RequestWindows"

lemma request_quotas_hits: "gateway.hits snap key RequestWindows = request_quotas snap key"
  by (simp add: gateway.hits_def request_quotas_def)

text \<open>
  C11: An admitted request was below every one of its request quotas and is charged exactly
  once to each: on the gateway's store (Postgres for lifetime, Redis for timed windows) every
  resolved counter was below its limit and grows by one, and no other counter changes.
\<close>

theorem gate_admits_below_limit:
  assumes "check_and_incr_requests (Some gateway_counters) snap key s = (Inr False, s')"
    and "\<forall>q\<in>set (request_quotas snap key). gateway_good (quota_ckey q)"
  shows "(\<forall>q\<in>set (request_quotas snap key). gateway_value s (quota_ckey q) < qt_limit_value q) \<and>
    (\<forall>k. gateway_good k \<longrightarrow> gateway_value s' k =
       gateway_value s k + (if k \<in> quota_ckey ` set (request_quotas snap key) then 1 else 0))"
  using gateway.admitted [OF assms(1)] assms(2) by (simp add: request_quotas_hits)

text \<open>
  A denied request consumes nothing: the stores are unchanged, and some request quota of
  the caller had reached its limit.
\<close>

theorem gate_denies_without_charge:
  assumes "check_and_incr_requests (Some gateway_counters) snap key s = (Inr True, s')"
    and "\<forall>q\<in>set (request_quotas snap key). gateway_good (quota_ckey q)"
  shows "s' = s \<and> (\<exists>q\<in>set (request_quotas snap key). qt_limit_value q \<le> gateway_value s (quota_ckey q))"
  using gateway.denied [OF assms(1)] assms(2) by (simp add: request_quotas_hits)

fun gate_run ::
  "snapshot option \<Rightarrow> api_key list \<Rightarrow> pg_counters \<times> redis_counters \<Rightarrow> pg_counters \<times> redis_counters" where
  "gate_run snap [] s = s"
| "gate_run snap (k # ks) s = gate_run snap ks (snd (check_and_incr_requests (Some gateway_counters) snap k s))"

text \<open>
  Served one after the other, requests never push a counter past its limit: after any
  sequence of gate calls by any callers, whatever their outcomes (errors half-way through the
  charging included), a counter that was at or below \<open>limit\<close> still is, when every quota on that
  counter has at most that limit.
\<close>

theorem gate_run_within_limit:
  assumes "gateway_good k" and "gateway_value s k \<le> limit"
    and "\<forall>a\<in>set callers. \<forall>q\<in>set (request_quotas snap a).
      gateway_good (quota_ckey q) \<and> (quota_ckey q = k \<longrightarrow> qt_limit_value q \<le> limit)"
  shows "gateway_value (gate_run snap callers s) k \<le> limit"
  using assms
proof (induction callers arbitrary: s)
  case (Cons a callers)
  obtain r s1 where step: "check_and_incr_requests (Some gateway_counters) snap a s = (r, s1)"
    by (meson surj_pair)
  have "gateway_value s1 k = gateway_value s k \<or>
    (\<exists>q\<in>set (request_quotas snap a). quota_ckey q = k \<and> gateway_value s k < qt_limit_value q \<and>
       gateway_value s1 k = gateway_value s k + 1)"
    using gateway.gate_step_bound [OF step _ Cons.prems(1)] Cons.prems(3) by (simp add: request_quotas_hits)
  then have "gateway_value s1 k \<le> limit" using Cons.prems(2,3) by fastforce
  with Cons.IH [of s1] Cons.prems step show ?case by simp
qed simp

definition demo_pg :: pg_counters where "demo_pg = \<lparr>pg_used = [], pg_up = True\<rparr>"
definition demo_rd :: redis_counters where
  "demo_rd = \<lparr>rd_keys = [], rd_now = 62135596800000000000, rd_up = True\<rparr>"

definition demo_gate_snapshot :: snapshot where
  "demo_gate_snapshot = empty_snapshot\<lparr>sn_quotas := [demo_quota ''project'' ''p1'' 1]\<rparr>"

lemma demo_request_quotas:
  "request_quotas (Some demo_gate_snapshot) demo_key = [demo_quota ''project'' ''p1'' 1]"
  by code_simp

lemma demo_gate_good: "gateway_good (quota_ckey (demo_quota ''project'' ''p1'' 1))"
  by code_simp

definition demo_charged :: redis_counters where
  "demo_charged = demo_rd\<lparr>rd_keys := [(''afi:quota:project:p1:requests:minute:0'',
     (1, 62135596800000000000 + 120000000000))]\<rparr>"

lemma demo_gate_first:
  "check_and_incr_requests (Some gateway_counters) (Some demo_gate_snapshot) demo_key (demo_pg, demo_rd) =
     (Inr False, (demo_pg, demo_charged))"
  by code_simp

lemma demo_gate_second:
  "check_and_incr_requests (Some gateway_counters) (Some demo_gate_snapshot) demo_key (demo_pg, demo_charged) =
     (Inr True, (demo_pg, demo_charged))"
  by code_simp

theorem gate_admits_below_limit_witness:
  "gateway_value (demo_pg, demo_rd) (quota_ckey (demo_quota ''project'' ''p1'' 1)) < 1 \<and>
   gateway_value (demo_pg, demo_charged) (quota_ckey (demo_quota ''project'' ''p1'' 1)) =
   gateway_value (demo_pg, demo_rd) (quota_ckey (demo_quota ''project'' ''p1'' 1)) + 1"
proof -
  let ?q = "demo_quota ''project'' ''p1'' 1"
  have a: "(\<forall>q\<in>set (request_quotas (Some demo_gate_snapshot) demo_key).
      gateway_value (demo_pg, demo_rd) (quota_ckey q) < qt_limit_value q) \<and>
    (\<forall>k. gateway_good k \<longrightarrow> gateway_value (demo_pg, demo_charged) k = gateway_value (demo_pg, demo_rd) k +
       (if k \<in> quota_ckey ` set (request_quotas (Some demo_gate_snapshot) demo_key) then 1 else 0))"
    by (rule gate_admits_below_limit [OF demo_gate_first]) (simp add: demo_request_quotas demo_gate_good)
  have "qt_limit_value ?q = 1" by (simp add: demo_quota_def)
  with a [THEN conjunct1] a [THEN conjunct2, THEN spec, of "quota_ckey ?q"] demo_gate_good show ?thesis
    by (simp add: demo_request_quotas)
qed

theorem gate_denies_without_charge_witness:
  "1 \<le> gateway_value (demo_pg, demo_charged) (quota_ckey (demo_quota ''project'' ''p1'' 1))"
  using gate_denies_without_charge [OF demo_gate_second]
  by (simp add: demo_request_quotas demo_gate_good) (simp add: demo_quota_def)

theorem gate_run_within_limit_witness:
  "gateway_value (gate_run (Some demo_gate_snapshot) [demo_key, demo_key, demo_key] (demo_pg, demo_rd))
     (quota_ckey (demo_quota ''project'' ''p1'' 1)) \<le> 1"
proof (rule gate_run_within_limit)
  show "gateway_value (demo_pg, demo_rd) (quota_ckey (demo_quota ''project'' ''p1'' 1)) \<le> 1" by code_simp
qed (simp_all add: demo_request_quotas demo_gate_good, simp add: demo_quota_def)

lemma quota_loop_filter_metric:
  "metric \<noteq> m \<Longrightarrow> quota_loop key metric w (filter (\<lambda>q. qt_metric q \<noteq> m) qs) best found =
     quota_loop key metric w qs best found"
  by (induction qs arbitrary: best found) (auto simp: quota_loop_match quota_match_def)

lemma collect_hits_cong:
  "(\<And>w. resolve_quota snap key MetricRequests w = resolve_quota snap' key MetricRequests w) \<Longrightarrow>
   collect_hits c snap key ws hits s = collect_hits c snap' key ws hits s"
proof (induction ws arbitrary: hits)
  case (Cons w ws)
  then show ?case by (cases "resolve_quota snap' key MetricRequests w") (simp_all cong: if_cong)
qed simp

text \<open>
  Token quotas are counted but never enforced: the gate's answer and its charges are the
  same with and without the token quotas of the snapshot, for every store, caller and state.
\<close>

theorem token_quotas_not_enforced:
  "check_and_incr_requests counters
     (Some (sn\<lparr>sn_quotas := filter (\<lambda>q. qt_metric q \<noteq> MetricTokens) (sn_quotas sn)\<rparr>)) key s =
   check_and_incr_requests counters (Some sn) key s"
proof -
  have "resolve_quota (Some (sn\<lparr>sn_quotas := filter (\<lambda>q. qt_metric q \<noteq> MetricTokens) (sn_quotas sn)\<rparr>)) key MetricRequests w =
      resolve_quota (Some sn) key MetricRequests w" for w
    by (simp add: resolve_quota_def quota_loop_filter_metric MetricRequests_def MetricTokens_def)
  note eq = collect_hits_cong [of _ key, OF this]
  show ?thesis by (cases counters) (simp_all add: check_and_incr_requests_def eq)
qed

end
