(* ===== verification/Json.thy ===== *)
theory Json
  imports Kernel
begin

text \<open>
  Reading and writing JSON values the way \<^verbatim>\<open>encoding/json\<close> does: access to the members of a
  \<^verbatim>\<open>map[string]any\<close>, and decoding into Go structs. A decoder updates the value a variable has:
  \<^verbatim>\<open>null\<close> leaves a scalar alone, members match a field up to case and are assigned in the order of
  the text, unknown members are skipped. Numbers are their values: an integer written with a
  fraction or an exponent is an integer here. The text of JSON is the component's parameter.
\<close>

section \<open>Values of type any\<close>

text \<open>Members of a decoded object: the last one of a name.\<close>

definition jmember :: "string \<Rightarrow> json \<Rightarrow> json option" where
  "jmember name j = (case j of JObj kvs \<Rightarrow> map_of (rev kvs) name | _ \<Rightarrow> None)"

definition jstring :: "json option \<Rightarrow> string" where
  "jstring j = (case j of Some (JStr s) \<Rightarrow> s | _ \<Rightarrow> [])"

text \<open>\<^verbatim>\<open>m[name]\<close> on a map that may be nil: a missing member reads as nil.\<close>

definition jget :: "string \<Rightarrow> json \<Rightarrow> json" where
  "jget name j = (case jmember name j of None \<Rightarrow> JNull | Some v \<Rightarrow> v)"

text \<open>The type assertions \<^verbatim>\<open>v, _ := x.(T)\<close>: the zero value when they fail.\<close>

definition as_string :: "json \<Rightarrow> string" where
  "as_string j = (case j of JStr s \<Rightarrow> s | _ \<Rightarrow> [])"

definition as_array :: "json \<Rightarrow> json list" where
  "as_array j = (case j of JArr xs \<Rightarrow> xs | _ \<Rightarrow> [])"

definition is_object :: "json \<Rightarrow> bool" where
  "is_object j \<longleftrightarrow> (case j of JObj _ \<Rightarrow> True | _ \<Rightarrow> False)"

definition as_number :: "json \<Rightarrow> rat option" where
  "as_number j = (case j of JNum r \<Rightarrow> Some r | _ \<Rightarrow> None)"

text \<open>The conversion of a float to an integer in range truncates towards zero.\<close>

definition trunc_rat :: "rat \<Rightarrow> int" where
  "trunc_rat r = (if r \<ge> 0 then \<lfloor>r\<rfloor> else - \<lfloor>- r\<rfloor>)"

lemma jmember_simps [simp]:
  "jmember k (JObj []) = None" "jmember k (JObj [(k', v)]) = (if k = k' then Some v else None)"
  "jmember k JNull = None" "jmember k (JStr s) = None" "jmember k (JArr xs) = None"
  by (simp_all add: jmember_def)

lemma jmember_Cons [simp]:
  "jmember k (JObj ((k', v) # kvs)) =
     (case jmember k (JObj kvs) of Some w \<Rightarrow> Some w | None \<Rightarrow> if k = k' then Some v else None)"
  by (simp add: jmember_def map_add_def split: option.splits)

lemma as_simps [simp]:
  "as_string (JStr s) = s" "as_string JNull = []" "as_array (JArr xs) = xs" "as_array JNull = []"
  "is_object (JObj kvs)" "\<not> is_object JNull" "\<not> is_object (JStr s)" "\<not> is_object (JArr xs)"
  "as_number (JNum r) = Some r" "as_number JNull = None"
  by (simp_all add: as_string_def as_array_def is_object_def as_number_def)

lemma trunc_rat_of_int [simp]: "trunc_rat (of_int n) = n"
  by (simp add: trunc_rat_def)

section \<open>Decoding into Go values\<close>

type_synonym 'a decoder = "json \<Rightarrow> 'a \<Rightarrow> 'a res"

definition type_error :: err where
  "type_error = Err ErrOther ''json: cannot unmarshal value of this type''"

definition dec_string :: "string decoder" where
  "dec_string j old = (case j of JNull \<Rightarrow> Inr old | JStr s \<Rightarrow> Inr s | _ \<Rightarrow> Inl type_error)"

definition dec_bool :: "bool decoder" where
  "dec_bool j old = (case j of JNull \<Rightarrow> Inr old | JBool b \<Rightarrow> Inr b | _ \<Rightarrow> Inl type_error)"

definition dec_int :: "int decoder" where
  "dec_int j old =
     (case j of
        JNull \<Rightarrow> Inr old
      | JNum r \<Rightarrow> if of_int \<lfloor>r\<rfloor> = r \<and> - (2 ^ 63) \<le> \<lfloor>r\<rfloor> \<and> \<lfloor>r\<rfloor> < 2 ^ 63 then Inr \<lfloor>r\<rfloor> else Inl type_error
      | _ \<Rightarrow> Inl type_error)"

definition dec_float :: "rat decoder" where
  "dec_float j old = (case j of JNull \<Rightarrow> Inr old | JNum r \<Rightarrow> Inr r | _ \<Rightarrow> Inl type_error)"

text \<open>A field of type \<^verbatim>\<open>any\<close> holds the value, nil for \<^verbatim>\<open>null\<close>; a \<^verbatim>\<open>json.RawMessage\<close> holds its text.\<close>

definition dec_any :: "json decoder" where
  "dec_any j old = Inr j"

definition dec_raw :: "raw_json decoder" where
  "dec_raw j old = Inr (Some j)"

text \<open>A pointer: \<^verbatim>\<open>null\<close> makes it nil, anything else is decoded into what it points to.\<close>

definition dec_ptr :: "'a \<Rightarrow> 'a decoder \<Rightarrow> 'a option decoder" where
  "dec_ptr zero d j old =
     (if j = JNull then Inr None
      else bind_res (d j (case old of None \<Rightarrow> zero | Some x \<Rightarrow> x)) (\<lambda>x. Inr (Some x)))"

text \<open>A slice: \<^verbatim>\<open>null\<close> makes it nil, an array replaces it.\<close>

definition dec_slice :: "'a \<Rightarrow> 'a decoder \<Rightarrow> 'a list decoder" where
  "dec_slice zero d j old =
     (case j of
        JNull \<Rightarrow> Inr []
      | JArr js \<Rightarrow> map_res (\<lambda>x. d x zero) js
      | _ \<Rightarrow> Inl type_error)"

text \<open>A struct: its fields by name, each with the update of the struct a member makes.\<close>

type_synonym 'r fields = "(string \<times> 'r decoder) list"

definition field_for :: "'r fields \<Rightarrow> string \<Rightarrow> (string \<times> 'r decoder) option" where
  "field_for fs key =
     (case find (\<lambda>f. fst f = key) fs of
        Some f \<Rightarrow> Some f
      | None \<Rightarrow> find (\<lambda>f. fst f = to_lower key) fs)"

fun dec_members :: "'r fields \<Rightarrow> (string \<times> json) list \<Rightarrow> 'r \<Rightarrow> 'r res" where
  "dec_members fs [] r = Inr r"
| "dec_members fs ((key, v) # kvs) r =
     (case field_for fs key of
        None \<Rightarrow> dec_members fs kvs r
      | Some f \<Rightarrow> bind_res (snd f v r) (dec_members fs kvs))"

definition dec_struct :: "'r fields \<Rightarrow> 'r decoder" where
  "dec_struct fs j old =
     (case j of JNull \<Rightarrow> Inr old | JObj kvs \<Rightarrow> dec_members fs kvs old | _ \<Rightarrow> Inl type_error)"

text \<open>A field of a struct, given by its reader and its writer.\<close>

definition field :: "string \<Rightarrow> 'a decoder \<Rightarrow> ('r \<Rightarrow> 'a) \<Rightarrow> ('a \<Rightarrow> 'r \<Rightarrow> 'r) \<Rightarrow> string \<times> 'r decoder" where
  "field name d get upd = (name, \<lambda>j r. bind_res (d j (get r)) (\<lambda>x. Inr (upd x r)))"

lemma dec_simps [simp]:
  "dec_string (JStr s) old = Inr s" "dec_string JNull old = Inr old"
  "dec_bool (JBool b) old1 = Inr b" "dec_bool JNull old1 = Inr old1"
  "dec_float (JNum r) old2 = Inr r" "dec_float JNull old2 = Inr old2"
  "dec_int JNull old3 = Inr old3"
  "dec_any j w = Inr j" "dec_raw j rw = Inr (Some j)"
  "dec_slice z d JNull xs = Inr []" "dec_slice z d (JArr js) xs = map_res (\<lambda>x. d x z) js"
  "dec_ptr z' d' JNull p = Inr None"
  by (simp_all add: dec_string_def dec_bool_def dec_float_def dec_int_def dec_any_def dec_raw_def dec_slice_def dec_ptr_def)

lemma dec_int_of_int [simp]: "- (2 ^ 63) \<le> n \<Longrightarrow> n < 2 ^ 63 \<Longrightarrow> dec_int (JNum (of_int n)) old = Inr n"
  by (simp add: dec_int_def)

lemma dec_ptr_value: "j \<noteq> JNull \<Longrightarrow> dec_ptr z d j None = bind_res (d j z) (\<lambda>x. Inr (Some x))"
  by (simp add: dec_ptr_def)

lemma dec_struct_simps [simp]:
  "dec_struct fs JNull old = Inr old"
  "dec_struct fs (JObj kvs) old = dec_members fs kvs old"
  by (simp_all add: dec_struct_def)

lemma field_for_simps [simp]:
  "field_for (f # fs) (fst f) = Some f"
  "find (\<lambda>g. fst g = key) fs = Some f \<Longrightarrow> field_for fs key = Some f"
  by (simp_all add: field_for_def)

lemma dec_members_append [simp]:
  "dec_members fs (xs @ ys) r = bind_res (dec_members fs xs r) (dec_members fs ys)"
proof (induction fs xs r rule: dec_members.induct)
  case (2 fs key v kvs r)
  then show ?case
    by (cases "field_for fs key") (auto simp: bind_res_def split: sum.splits)
qed simp

text \<open>A member the encoder may leave out.\<close>

definition opt_member :: "bool \<Rightarrow> string \<Rightarrow> json \<Rightarrow> (string \<times> json) list" where
  "opt_member b name v = (if b then [(name, v)] else [])"

lemma opt_member_simps [simp]: "opt_member True k v = [(k, v)]" "opt_member False k v = []"
  by (simp_all add: opt_member_def)

lemma jmember_append [simp]:
  "jmember k (JObj (xs @ ys)) = (case jmember k (JObj ys) of Some v \<Rightarrow> Some v | None \<Rightarrow> jmember k (JObj xs))"
  by (simp add: jmember_def map_add_def split: option.splits)

lemma jmember_opt [simp]: "jmember k (JObj (opt_member b k' v)) = (if b \<and> k = k' then Some v else None)"
  by (simp add: opt_member_def)

lemma map_res_map: "map_res f (map g xs) = map_res (\<lambda>x. f (g x)) xs"
  by (induction xs) simp_all

lemma map_res_id: "(\<And>x. x \<in> set xs \<Longrightarrow> f x = Inr (g x)) \<Longrightarrow> map_res f xs = Inr (map g xs)"
  by (induction xs) simp_all

text \<open>Names in the output that no struct reads.\<close>

lemma lower_keys [simp]:
  "to_lower ''type'' = ''type''" "to_lower ''object'' = ''object''" "to_lower ''index'' = ''index''"
  "to_lower ''total_tokens'' = ''total_tokens''" "to_lower ''input'' = ''input''"
  by code_simp+

section \<open>Strings\<close>

text \<open>\<^verbatim>\<open>strings.Join\<close>.\<close>

fun join :: "string \<Rightarrow> string list \<Rightarrow> string" where
  "join sep [] = []"
| "join sep [s] = s"
| "join sep (s # ss) = s @ sep @ join sep ss"

lemma join_Nil [simp]: "join [] ss = concat ss"
  by (induction ss rule: induct_list012) simp_all

end
