(* ===== verification/Dialect.thy ===== *)
theory Dialect
  imports Model_Catalog Json
begin

text \<open>
  The chat representation of \<^verbatim>\<open>src/sdk/chatir\<close>, the error dialects of
  \<^verbatim>\<open>src/internal/dataplane/dialect\<close> (\<^verbatim>\<open>errors.go\<close>, \<^verbatim>\<open>codec.go\<close>) and the OpenAI stream writer
  (\<^verbatim>\<open>openai.go\<close>). Parsing JSON text is the argument \<open>parse_json\<close>; a channel of events is the
  list of what it delivers before it is closed, or \<open>None\<close> for a nil channel, on which a receive
  blocks for ever.
\<close>

section \<open>Chat representation\<close>

definition DialectOpenAI :: string where "DialectOpenAI = ''openai''"
definition DialectAnthropic :: string where "DialectAnthropic = ''anthropic''"
definition DialectGemini :: string where "DialectGemini = ''gemini''"

lemmas dialect_defs = DialectOpenAI_def DialectAnthropic_def DialectGemini_def

record image_source =
  im_url :: string
  im_media_type :: string
  im_data :: string

record content_part =
  cp_type :: string
  cp_text :: string
  cp_image :: "image_source option"

record tool =
  tl_name :: string
  tl_description :: string
  tl_parameters :: raw_json

record tool_choice =
  tc_mode :: string
  tc_name :: string

record tool_call =
  tk_id :: string
  tk_name :: string
  tk_arguments :: string

record message =
  ms_role :: string
  ms_content :: string
  ms_parts :: "content_part list"
  ms_tool_calls :: "tool_call list"
  ms_tool_call_id :: string

record chat_request =
  cq_model :: string
  cq_messages :: "message list"
  cq_system :: string
  cq_max_tokens :: int
  cq_temperature :: "rat option"
  cq_top_p :: "rat option"
  cq_stream :: bool
  cq_stop :: "string list"
  cq_tools :: "tool list"
  cq_tool_choice :: "tool_choice option"

record token_usage =
  us_prompt :: int
  us_completion :: int

record chat_response =
  cr_resp_id :: string
  cr_model :: string
  cr_role :: string
  cr_content :: string
  cr_tool_calls :: "tool_call list"
  cr_finish_reason :: string
  cr_usage :: token_usage

datatype stream_kind =
  StreamMessageStart | StreamTextDelta | StreamToolCallStart | StreamToolCallDelta
| StreamMessageEnd | StreamError | StreamOther string

record stream_event =
  sv_kind :: stream_kind
  sv_id :: string
  sv_model :: string
  sv_role :: string
  sv_text :: string
  sv_finish_reason :: string
  sv_usage :: "token_usage option"
  sv_err :: "err option"
  sv_tool_index :: int
  sv_tool_id :: string
  sv_tool_name :: string
  sv_args_delta :: string

type_synonym events = "stream_event list option"

record chat_result =
  rs_status_code :: int
  rs_response :: "chat_response option"
  rs_events :: events
  rs_error_body :: string

definition zero_chat_result :: chat_result where
  "zero_chat_result = \<lparr>rs_status_code = 0, rs_response = None, rs_events = None, rs_error_body = []\<rparr>"

section \<open>Errors of a call\<close>

text \<open>What decoding, encoding or an attempt fails with.\<close>

datatype call_error = StreamUnsupported | Unsupported string string | OtherError string

definition unsupported_message :: "string \<Rightarrow> string \<Rightarrow> string" where
  "unsupported_message feature message =
     (if message \<noteq> [] then message else ''unsupported feature: '' @ feature)"

definition error_text :: "call_error \<Rightarrow> string" where
  "error_text e =
     (case e of StreamUnsupported \<Rightarrow> ''streaming is not supported for this provider''
      | Unsupported f m \<Rightarrow> unsupported_message f m
      | OtherError m \<Rightarrow> m)"

definition as_unsupported :: "call_error \<Rightarrow> string option" where
  "as_unsupported e = (case e of Unsupported f m \<Rightarrow> Some (unsupported_message f m) | _ \<Rightarrow> None)"

section \<open>Error types per dialect\<close>

definition default_error_type :: "int \<Rightarrow> string" where
  "default_error_type status =
     (if status = 429 then ''rate_limit_error''
      else if status = 401 then ''authentication_error''
      else if status = 403 then ''permission_error''
      else if status = 404 then ''not_found_error''
      else if status \<ge> 500 then ''api_error''
      else ''invalid_request_error'')"

definition normalize_error_type :: "string \<Rightarrow> string \<Rightarrow> string" where
  "normalize_error_type d typ0 =
     (let typ = trim_space typ0; l = to_lower typ in
      if typ = [] then typ
      else if d = DialectAnthropic then
        (if l \<in> {''server_error'', ''internal_server_error''} then ''api_error''
         else if l = ''insufficient_quota'' then ''rate_limit_error''
         else if l \<in> {''policy_violation'', ''hook_denied''} then ''permission_error''
         else typ)
      else if d = DialectGemini then
        (if l = ''invalid_request_error'' then ''INVALID_ARGUMENT''
         else if l = ''authentication_error'' then ''UNAUTHENTICATED''
         else if l \<in> {''permission_error'', ''policy_violation'', ''hook_denied''} then ''PERMISSION_DENIED''
         else if l \<in> {''rate_limit_error'', ''insufficient_quota''} then ''RESOURCE_EXHAUSTED''
         else if l = ''not_found_error'' then ''NOT_FOUND''
         else if l \<in> {''server_error'', ''api_error'', ''overloaded_error''} then ''INTERNAL''
         else to_upper typ)
      else
        (if l \<in> {''api_error'', ''overloaded_error''} then ''server_error''
         else typ))"

definition gemini_statuses :: "string list" where
  "gemini_statuses = [''INVALID_ARGUMENT'', ''UNAUTHENTICATED'', ''PERMISSION_DENIED'',
     ''RESOURCE_EXHAUSTED'', ''NOT_FOUND'', ''INTERNAL'', ''UNAVAILABLE'']"

definition gemini_error_status :: "int \<Rightarrow> string \<Rightarrow> string" where
  "gemini_error_status status typ =
     (let upper = to_upper (trim_space typ) in
      if upper \<in> set gemini_statuses then upper
      else if status = 400 then ''INVALID_ARGUMENT''
      else if status = 401 then ''UNAUTHENTICATED''
      else if status = 403 then ''PERMISSION_DENIED''
      else if status = 404 then ''NOT_FOUND''
      else if status = 429 then ''RESOURCE_EXHAUSTED''
      else if status = 503 then ''UNAVAILABLE''
      else if status \<ge> 500 then ''INTERNAL''
      else normalize_error_type DialectGemini typ)"

section \<open>Responses\<close>

record http_response =
  hp_status :: int
  hp_headers :: "(string, string) gomap"
  hp_body :: json

definition write_error_type :: "string \<Rightarrow> int \<Rightarrow> string \<Rightarrow> string" where
  "write_error_type d status typ0 =
     (let typ = (if typ0 = [] then ''invalid_request_error'' else typ0) in
      if d = DialectGemini then gemini_error_status status typ else normalize_error_type d typ)"

definition error_payload :: "string \<Rightarrow> int \<Rightarrow> string \<Rightarrow> string \<Rightarrow> json" where
  "error_payload d status message typ =
     (if d = DialectAnthropic then
        JObj [(''type'', JStr ''error''),
              (''error'', JObj [(''type'', JStr typ), (''message'', JStr message)])]
      else if d = DialectGemini then
        JObj [(''error'', JObj [(''code'', JNum (of_int status)), (''message'', JStr message), (''status'', JStr typ)])]
      else
        JObj [(''error'', JObj [(''message'', JStr message), (''type'', JStr typ), (''code'', JStr typ)])])"

definition write_error :: "(string, string) gomap \<Rightarrow> string \<Rightarrow> int \<Rightarrow> string \<Rightarrow> string \<Rightarrow> http_response" where
  "write_error headers d status message typ =
     \<lparr>hp_status = status, hp_headers = gm_put ''Content-Type'' ''application/json'' headers,
      hp_body = error_payload d status message (write_error_type d status typ)\<rparr>"

section \<open>Upstream error bodies\<close>

definition looks_like_plain_text :: "string \<Rightarrow> bool" where
  "looks_like_plain_text s = (case s of [] \<Rightarrow> False | c # _ \<Rightarrow> c \<noteq> CHR ''{'' \<and> c \<noteq> CHR ''['')"

definition first_nonempty :: "string list \<Rightarrow> string" where
  "first_nonempty ss = (case find (\<lambda>s. s \<noteq> []) ss of Some s \<Rightarrow> s | None \<Rightarrow> [])"

definition parse_error_object :: "json \<Rightarrow> string \<times> string" where
  "parse_error_object raw =
     (let flat =
        (if trim_space (jstring (jmember ''message'' raw)) \<noteq> [] then
           (trim_space (jstring (jmember ''message'' raw)),
            first_nonempty [jstring (jmember ''code'' raw), jstring (jmember ''type'' raw),
              jstring (jmember ''__type'' raw)])
         else ([], []));
        general =
        (case jmember ''error'' raw of
           Some (JStr e) \<Rightarrow> (trim_space e, [])
         | Some (JObj kvs) \<Rightarrow>
             (trim_space (jstring (jmember ''message'' (JObj kvs))),
              first_nonempty [jstring (jmember ''type'' (JObj kvs)), jstring (jmember ''status'' (JObj kvs)),
                jstring (jmember ''code'' (JObj kvs))])
         | _ \<Rightarrow> flat)
      in if jstring (jmember ''type'' raw) = ''error'' then
           (case jmember ''error'' raw of
              Some (JObj kvs) \<Rightarrow>
                (trim_space (jstring (jmember ''message'' (JObj kvs))), jstring (jmember ''type'' (JObj kvs)))
            | _ \<Rightarrow> general)
         else general)"

definition parse_error_body :: "(string \<Rightarrow> json option) \<Rightarrow> string \<Rightarrow> string \<times> string" where
  "parse_error_body parse_json body0 =
     (let body = trim_space body0 in
      if body = [] then ([], [])
      else (case parse_json body of
          Some (JObj kvs) \<Rightarrow> parse_error_object (JObj kvs)
        | Some JNull \<Rightarrow> ([], [])
        | _ \<Rightarrow> if looks_like_plain_text body then (take 512 body, []) else ([], [])))"

text \<open>\<^verbatim>\<open>http.StatusText\<close> for the error statuses.\<close>

definition status_texts :: "(int \<times> string) list" where
  "status_texts =
     [(400, ''Bad Request''), (401, ''Unauthorized''), (402, ''Payment Required''), (403, ''Forbidden''),
      (404, ''Not Found''), (405, ''Method Not Allowed''), (406, ''Not Acceptable''),
      (407, ''Proxy Authentication Required''), (408, ''Request Timeout''), (409, ''Conflict''),
      (410, ''Gone''), (411, ''Length Required''), (412, ''Precondition Failed''),
      (413, ''Request Entity Too Large''), (414, ''Request URI Too Long''),
      (415, ''Unsupported Media Type''), (416, ''Requested Range Not Satisfiable''),
      (417, ''Expectation Failed''), (418, ''I'' @ [CHR 0x27] @ ''m a teapot''),
      (421, ''Misdirected Request''), (422, ''Unprocessable Entity''), (423, ''Locked''),
      (424, ''Failed Dependency''), (425, ''Too Early''), (426, ''Upgrade Required''),
      (428, ''Precondition Required''), (429, ''Too Many Requests''),
      (431, ''Request Header Fields Too Large''), (451, ''Unavailable For Legal Reasons''),
      (500, ''Internal Server Error''), (501, ''Not Implemented''), (502, ''Bad Gateway''),
      (503, ''Service Unavailable''), (504, ''Gateway Timeout''), (505, ''HTTP Version Not Supported''),
      (506, ''Variant Also Negotiates''), (507, ''Insufficient Storage''), (508, ''Loop Detected''),
      (510, ''Not Extended''), (511, ''Network Authentication Required'')]"

definition status_text :: "int \<Rightarrow> string" where
  "status_text n = (case map_of status_texts n of Some t \<Rightarrow> t | None \<Rightarrow> [])"

definition write_upstream_error ::
  "(string \<Rightarrow> json option) \<Rightarrow> (string, string) gomap \<Rightarrow> string \<Rightarrow> int \<Rightarrow> string \<Rightarrow> http_response" where
  "write_upstream_error parse_json headers d status body =
     (case parse_error_body parse_json body of (msg, typ) \<Rightarrow>
        let msg' = (if msg \<noteq> [] then msg else if status_text status \<noteq> [] then status_text status
                    else ''upstream error'');
            typ' = (if typ = [] then default_error_type status else typ)
        in write_error headers d status msg' typ')"

section \<open>The OpenAI stream writer\<close>

text \<open>
  One server-sent event. The writer fails from its \<open>n\<close>-th write on when \<open>ok n\<close> is false; the
  state is what was written, the identifiers of the chunks and the token counts.
\<close>

datatype sse = Chunk string string json json | UsageChunk string string int int | Done

record stream_state =
  ss_out :: "sse list"
  ss_id :: string
  ss_model :: string
  ss_prompt :: int
  ss_completion :: int

definition stream_init :: stream_state where
  "stream_init = \<lparr>ss_out = [], ss_id = ''chatcmpl-afi'', ss_model = [], ss_prompt = 0, ss_completion = 0\<rparr>"

definition sse_write :: "(nat \<Rightarrow> bool) \<Rightarrow> sse \<Rightarrow> stream_state \<Rightarrow> stream_state \<times> err option" where
  "sse_write ok c s =
     (if ok (length (ss_out s)) then (s\<lparr>ss_out := ss_out s @ [c]\<rparr>, None)
      else (s, Some (Err ErrOther ''write failed'')))"

definition write_event :: "(nat \<Rightarrow> bool) \<Rightarrow> stream_event \<Rightarrow> stream_state \<Rightarrow> stream_state \<times> err option" where
  "write_event ok ev s =
     (case sv_kind ev of
        StreamError \<Rightarrow>
          (s, Some (case sv_err ev of Some e \<Rightarrow> e | None \<Rightarrow> Err ErrOther ''stream error''))
      | StreamMessageStart \<Rightarrow>
          (let s1 = s\<lparr>ss_id := (if sv_id ev \<noteq> [] then sv_id ev else ss_id s),
                     ss_model := (if sv_model ev \<noteq> [] then sv_model ev else ss_model s)\<rparr>;
               role = (if sv_role ev = [] then ''assistant'' else sv_role ev)
           in sse_write ok (Chunk (ss_id s1) (ss_model s1) (JObj [(''role'', JStr role)]) JNull) s1)
      | StreamTextDelta \<Rightarrow>
          (if sv_text ev = [] then (s, None)
           else sse_write ok (Chunk (ss_id s) (ss_model s) (JObj [(''content'', JStr (sv_text ev))]) JNull) s)
      | StreamToolCallStart \<Rightarrow>
          sse_write ok (Chunk (ss_id s) (ss_model s)
            (JObj [(''tool_calls'', JArr [JObj
               [(''index'', JNum (of_int (sv_tool_index ev))), (''id'', JStr (sv_tool_id ev)),
                (''type'', JStr ''function''),
                (''function'', JObj [(''name'', JStr (sv_tool_name ev)), (''arguments'', JStr [])])]])]) JNull) s
      | StreamToolCallDelta \<Rightarrow>
          (if sv_args_delta ev = [] then (s, None)
           else sse_write ok (Chunk (ss_id s) (ss_model s)
             (JObj [(''tool_calls'', JArr [JObj
                [(''index'', JNum (of_int (sv_tool_index ev))),
                 (''function'', JObj [(''arguments'', JStr (sv_args_delta ev))])]])]) JNull) s)
      | StreamMessageEnd \<Rightarrow>
          (case sse_write ok (Chunk (ss_id s) (ss_model s) (JObj [])
             (if sv_finish_reason ev \<noteq> [] then JStr (sv_finish_reason ev) else JNull)) s of
             (s1, Some e) \<Rightarrow> (s1, Some e)
           | (s1, None) \<Rightarrow>
               (case sv_usage ev of None \<Rightarrow> (s1, None)
                | Some u \<Rightarrow>
                    sse_write ok (UsageChunk (ss_id s1) (ss_model s1) (us_prompt u) (us_completion u))
                      (s1\<lparr>ss_prompt := us_prompt u, ss_completion := us_completion u\<rparr>)))
      | StreamOther k \<Rightarrow> (s, None))"

fun write_events :: "(nat \<Rightarrow> bool) \<Rightarrow> stream_event list \<Rightarrow> stream_state \<Rightarrow> stream_state \<times> err option" where
  "write_events ok [] s = sse_write ok Done s"
| "write_events ok (ev # evs) s =
     (case write_event ok ev s of
        (s1, Some e) \<Rightarrow> (s1, Some e)
      | (s1, None) \<Rightarrow> write_events ok evs s1)"

text \<open>\<^verbatim>\<open>OpenAI.WriteStream\<close>: \<open>None\<close> is a call that never returns.\<close>

definition write_stream :: "(nat \<Rightarrow> bool) \<Rightarrow> events \<Rightarrow> (stream_state \<times> err option) option" where
  "write_stream ok events =
     (case events of None \<Rightarrow> None | Some evs \<Rightarrow> Some (write_events ok evs stream_init))"

section \<open>What the stream carries\<close>

definition event_text :: "stream_event \<Rightarrow> string" where
  "event_text ev = (if sv_kind ev = StreamTextDelta then sv_text ev else [])"

definition sse_text :: "sse \<Rightarrow> string" where
  "sse_text c = (case c of Chunk _ _ delta _ \<Rightarrow> jstring (jmember ''content'' delta) | _ \<Rightarrow> [])"

text \<open>The token counts after an event: those of a usage report at a message end.\<close>

definition usage_after :: "stream_event \<Rightarrow> int \<times> int \<Rightarrow> int \<times> int" where
  "usage_after ev pc =
     (if sv_kind ev = StreamMessageEnd then
        (case sv_usage ev of Some u \<Rightarrow> (us_prompt u, us_completion u) | None \<Rightarrow> pc)
      else pc)"

lemma sse_write_ok [simp]: "sse_write (\<lambda>_. True) c s = (s\<lparr>ss_out := ss_out s @ [c]\<rparr>, None)"
  by (simp add: sse_write_def)

lemma write_event_ok:
  assumes "sv_kind ev \<noteq> StreamError"
  shows "\<exists>s'. write_event (\<lambda>_. True) ev s = (s', None) \<and>
     concat (map sse_text (ss_out s')) = concat (map sse_text (ss_out s)) @ event_text ev \<and>
     (ss_prompt s', ss_completion s') = usage_after ev (ss_prompt s, ss_completion s)"
  using assms
  by (cases "sv_kind ev")
    (auto simp: write_event_def event_text_def usage_after_def sse_text_def jstring_def Let_def
      split: option.splits)

lemma write_events_ok:
  assumes "\<forall>ev\<in>set evs. sv_kind ev \<noteq> StreamError"
  shows "\<exists>s'. write_events (\<lambda>_. True) evs s = (s', None) \<and> last (ss_out s') = Done \<and>
     concat (map sse_text (ss_out s')) = concat (map sse_text (ss_out s)) @ concat (map event_text evs) \<and>
     (ss_prompt s', ss_completion s') = fold usage_after evs (ss_prompt s, ss_completion s)"
  using assms
proof (induction evs arbitrary: s)
  case Nil
  then show ?case by (simp add: sse_text_def)
next
  case (Cons ev evs)
  then obtain s1 where s1: "write_event (\<lambda>_. True) ev s = (s1, None)"
    "concat (map sse_text (ss_out s1)) = concat (map sse_text (ss_out s)) @ event_text ev"
    "(ss_prompt s1, ss_completion s1) = usage_after ev (ss_prompt s, ss_completion s)"
    using write_event_ok [of ev s] by auto
  with Cons show ?case by (auto dest!: Cons.IH [of s1])
qed

section \<open>Properties\<close>

text \<open>
  Streaming a reply in the OpenAI dialect is lossless: for a closed stream without error
  events, written to a writer that does not fail, the call returns without error, the output
  ends with the terminator, the concatenated content deltas are exactly the concatenated text
  of the events, and the reported tokens are those of the last usage report.
\<close>

theorem openai_stream_lossless:
  assumes "\<forall>ev\<in>set evs. sv_kind ev \<noteq> StreamError"
  shows "\<exists>s. write_stream (\<lambda>_. True) (Some evs) = Some (s, None) \<and> last (ss_out s) = Done \<and>
     concat (map sse_text (ss_out s)) = concat (map event_text evs) \<and>
     (ss_prompt s, ss_completion s) = fold usage_after evs (0, 0)"
  using write_events_ok [OF assms, of stream_init] by (auto simp: write_stream_def stream_init_def)

definition demo_event :: "stream_kind \<Rightarrow> string \<Rightarrow> token_usage option \<Rightarrow> stream_event" where
  "demo_event k t u = \<lparr>sv_kind = k, sv_id = ''c1'', sv_model = ''m'', sv_role = [], sv_text = t,
     sv_finish_reason = ''stop'', sv_usage = u, sv_err = None, sv_tool_index = 0, sv_tool_id = [],
     sv_tool_name = [], sv_args_delta = []\<rparr>"

definition demo_events :: "stream_event list" where
  "demo_events = [demo_event StreamMessageStart [] None, demo_event StreamTextDelta ''Hel'' None,
     demo_event StreamTextDelta ''lo'' None,
     demo_event StreamMessageEnd [] (Some \<lparr>us_prompt = 3, us_completion = 2\<rparr>)]"

theorem openai_stream_lossless_witness:
  "\<exists>s. write_stream (\<lambda>_. True) (Some demo_events) = Some (s, None) \<and> last (ss_out s) = Done \<and>
     concat (map sse_text (ss_out s)) = ''Hello'' \<and> (ss_prompt s, ss_completion s) = (3, 2)"
proof -
  have "concat (map event_text demo_events) = ''Hello''" "fold usage_after demo_events (0, 0) = (3, 2)"
    by code_simp+
  moreover have "\<forall>ev\<in>set demo_events. sv_kind ev \<noteq> StreamError"
    by (simp add: demo_events_def demo_event_def)
  ultimately show ?thesis using openai_stream_lossless [of demo_events] by auto
qed

end
