(* ===== verification/Gateway_Auth.thy ===== *)
theory Gateway_Auth
  imports Snapshot
begin

text \<open>
  Authentication of gateway requests: \<^verbatim>\<open>src/internal/dataplane/auth_signed.go\<close>, the token
  extraction of \<^verbatim>\<open>pipeline.go\<close> and the tag and header parsing of \<^verbatim>\<open>tags.go\<close>. Message signatures
  are checked by third-party libraries, the argument \<open>lib\<close>; what the gateway asks of them and
  in which order is modelled. The replay store is a locale, interpreted by the memory store.
\<close>

section \<open>Requests\<close>

text \<open>Header names are in canonical form; a header has its values in order.\<close>

record http_request =
  hr_method :: string
  hr_path :: string
  hr_headers :: "(string, string list) gomap"
  hr_query :: "(string, string) gomap"

definition header_values :: "http_request \<Rightarrow> string \<Rightarrow> string list" where
  "header_values r name = (case gm_get (hr_headers r) name of None \<Rightarrow> [] | Some vs \<Rightarrow> vs)"

definition header_get :: "http_request \<Rightarrow> string \<Rightarrow> string" where
  "header_get r name = (case header_values r name of [] \<Rightarrow> [] | v # _ \<Rightarrow> v)"

definition query_get :: "http_request \<Rightarrow> string \<Rightarrow> string" where
  "query_get r name = (case gm_get (hr_query r) name of None \<Rightarrow> [] | Some v \<Rightarrow> v)"

section \<open>Virtual keys\<close>

definition bearer_token :: "string \<Rightarrow> string res" where
  "bearer_token h =
     (if \<not> has_prefix h ''Bearer '' then Inl (Err ErrOther ''missing bearer'')
      else
        let tok = trim_space (trim_prefix h ''Bearer '') in
        if tok = [] then Inl (Err ErrOther ''empty token'') else Inr tok)"

definition virtual_api_key :: "http_request \<Rightarrow> string res" where
  "virtual_api_key r =
     (case bearer_token (header_get r ''Authorization'') of
        Inr tok \<Rightarrow> Inr tok
      | Inl _ \<Rightarrow>
          if trim_space (header_get r ''X-Api-Key'') \<noteq> [] then Inr (trim_space (header_get r ''X-Api-Key''))
          else if has_prefix (hr_path r) ''/gemini/'' \<and> trim_space (header_get r ''X-Goog-Api-Key'') \<noteq> []
            then Inr (trim_space (header_get r ''X-Goog-Api-Key''))
          else if has_prefix (hr_path r) ''/gemini/'' \<and> trim_space (query_get r ''key'') \<noteq> []
            then Inr (trim_space (query_get r ''key''))
          else Inl (Err ErrOther ''missing bearer''))"

definition must_virtual_api_key :: "http_request \<Rightarrow> string" where
  "must_virtual_api_key r = (case virtual_api_key r of Inr k \<Rightarrow> k | Inl _ \<Rightarrow> [])"

definition authenticate_key :: "(string \<Rightarrow> string) \<Rightarrow> snapshot option \<Rightarrow> string \<Rightarrow> api_key res" where
  "authenticate_key sha snap raw =
     (if snap = None then Inl (sentinel ErrNotFound)
      else if trim_space raw = [] then Inl (sentinel ErrUnauthorized)
      else (case lookup_key sha snap raw of
          None \<Rightarrow> Inl (sentinel ErrUnauthorized) | Some k \<Rightarrow> Inr k))"

section \<open>The replay store\<close>

text \<open>The in-memory store at time \<open>now\<close>: expired entries go, a live key is refused.\<close>

type_synonym replay_items = "(string, gotime) gomap"

definition mem_replay_new :: replay_items where
  "mem_replay_new = []"

definition mem_replay_use :: "gotime \<Rightarrow> string \<Rightarrow> duration \<Rightarrow> replay_items \<Rightarrow> bool res \<times> replay_items" where
  "mem_replay_use now key ttl items =
     (let live = filter (\<lambda>kv. \<not> \<not> (now < snd kv)) items in
      case gm_get live key of
        Some expiry \<Rightarrow> if now < expiry then (Inr False, live) else (Inr True, gm_put key (now + ttl) live)
      | None \<Rightarrow> (Inr True, gm_put key (now + ttl) live))"

text \<open>
  The contract: \<open>blocked s k t\<close> says that \<open>k\<close> is refused at time \<open>t\<close>. An accepted key is blocked
  for its time to live, and blocking never ends early.
\<close>

locale replay_store =
  fixes use :: "gotime \<Rightarrow> string \<Rightarrow> duration \<Rightarrow> 'r \<Rightarrow> bool res \<times> 'r"
    and inv :: "'r \<Rightarrow> bool"
    and blocked :: "'r \<Rightarrow> string \<Rightarrow> gotime \<Rightarrow> bool"
  assumes use_refused: "inv s \<Longrightarrow> blocked s k t \<Longrightarrow> fst (use t k ttl s) \<noteq> Inr True"
    and use_accepted: "inv s \<Longrightarrow> use t k ttl s = (Inr True, s') \<Longrightarrow> t' < t + ttl \<Longrightarrow> blocked s' k t'"
    and use_keeps: "inv s \<Longrightarrow> blocked s k' t' \<Longrightarrow> t \<le> t' \<Longrightarrow> blocked (snd (use t k ttl s)) k' t'"
    and use_inv: "inv s \<Longrightarrow> inv (snd (use t k ttl s))"
begin

text \<open>A run of uses at given times.\<close>

definition uses :: "(gotime \<times> string \<times> duration) list \<Rightarrow> 'r \<Rightarrow> 'r" where
  "uses us s = fold (\<lambda>(t, k, ttl) s. snd (use t k ttl s)) us s"

lemma uses_blocked:
  "inv s \<Longrightarrow> blocked s k t' \<Longrightarrow> \<forall>(t, _, _)\<in>set us. t \<le> t' \<Longrightarrow> inv (uses us s) \<and> blocked (uses us s) k t'"
  by (induction us arbitrary: s) (auto simp: uses_def use_keeps use_inv)

theorem single_use:
  assumes "inv s" and "use t k ttl s = (Inr True, s1)"
    and "\<forall>(t1, _, _)\<in>set us. t1 \<le> t'" and "t' < t + ttl"
  shows "fst (use t' k ttl' (uses us s1)) \<noteq> Inr True"
proof -
  have "inv s1" using use_inv [OF assms(1), of t k ttl] assms(2) by simp
  moreover have "blocked s1 k t'" by (rule use_accepted [OF assms(1,2,4)])
  ultimately have "inv (uses us s1) \<and> blocked (uses us s1) k t'" using uses_blocked assms(3) by blast
  then show ?thesis using use_refused by blast
qed

end

definition mem_blocked :: "replay_items \<Rightarrow> string \<Rightarrow> gotime \<Rightarrow> bool" where
  "mem_blocked items k t = (case gm_get items k of Some expiry \<Rightarrow> t < expiry | None \<Rightarrow> False)"

lemma map_of_filter_snd:
  "gm_wf m \<Longrightarrow> map_of (filter (\<lambda>kv. P (snd kv)) m) k = (case map_of m k of Some v \<Rightarrow> if P v then Some v else None | None \<Rightarrow> None)"
proof (induction m)
  case (Cons kv m)
  have "gm_wf m" "map_of m (fst kv) = None"
    using Cons.prems by (auto simp: gm_wf_def map_of_eq_None_iff)
  with Cons.IH show ?case by (cases kv) (auto split: option.splits)
qed simp

lemma gm_wf_filter: "gm_wf m \<Longrightarrow> gm_wf (filter P m)"
  by (auto simp: gm_wf_def distinct_map intro: inj_on_subset)

interpretation mem_replay: replay_store mem_replay_use gm_wf mem_blocked
proof
  fix s :: replay_items and k t ttl
  assume "gm_wf s" "mem_blocked s k t"
  then show "fst (mem_replay_use t k ttl s) \<noteq> Inr True"
    by (auto simp: mem_blocked_def mem_replay_use_def map_of_filter_snd Let_def split: option.splits)
next
  fix s s' :: replay_items and k t ttl t'
  assume "gm_wf s" "mem_replay_use t k ttl s = (Inr True, s')" "t' < t + ttl"
  then show "mem_blocked s' k t'"
    by (auto simp: mem_blocked_def mem_replay_use_def Let_def split: option.splits if_splits)
next
  fix s :: replay_items and k k' t t' ttl
  assume "gm_wf s" "mem_blocked s k' t'" "t \<le> t'"
  then show "mem_blocked (snd (mem_replay_use t k ttl s)) k' t'"
    by (auto simp: mem_blocked_def mem_replay_use_def map_of_filter_snd Let_def split: option.splits)
next
  fix s :: replay_items and k t ttl
  assume "gm_wf s"
  then show "gm_wf (snd (mem_replay_use t k ttl s))"
    by (auto simp: mem_replay_use_def gm_wf_filter Let_def split: option.splits)
qed

section \<open>Signed requests\<close>

definition default_signed_request_max_skew :: duration where
  "default_signed_request_max_skew = 5 * minute"
definition default_replay_ttl :: duration where
  "default_replay_ttl = 10 * minute"
definition signature_name :: string where
  "signature_name = ''sig1''"

definition has_signed_request_headers :: "http_request \<Rightarrow> bool" where
  "has_signed_request_headers r \<longleftrightarrow>
     trim_space (header_get r ''Signature'') \<noteq> [] \<and> trim_space (header_get r ''Signature-Input'') \<noteq> []"

text \<open>
  The libraries. \<open>sl_names\<close> parses the signature input into its names, \<open>sl_details\<close> gives key
  identifier and nonce, \<open>sl_parse_key\<close> reads a PEM key, \<open>sl_digest\<close> checks the content digest.
  \<open>sl_verify\<close> checks the signature against the clock (its arguments are the key, the key
  identifier, the name, the request and the time) and consults the nonce validator at most once,
  on the nonce it found: it rejects before, or its verdict is the flag once the nonce is accepted.
\<close>

datatype sig_verdict = SigReject | SigNonce string bool

record sig_lib =
  sl_names :: "string list \<Rightarrow> string list option"
  sl_details :: "string \<Rightarrow> http_request \<Rightarrow> (string option \<times> string option) option"
  sl_parse_key :: "string \<Rightarrow> string option"
  sl_digest :: "string list \<Rightarrow> string \<Rightarrow> bool"
  sl_verify :: "string \<Rightarrow> string \<Rightarrow> string \<Rightarrow> http_request \<Rightarrow> gotime \<Rightarrow> sig_verdict"

definition resolve_signature_name :: "sig_lib \<Rightarrow> http_request \<Rightarrow> string res" where
  "resolve_signature_name lib r =
     (case sl_names lib (header_values r ''Signature-Input'') of
        None \<Rightarrow> Inl (Err ErrOther ''invalid Signature-Input'')
      | Some [] \<Rightarrow> Inl (Err ErrOther ''empty Signature-Input'')
      | Some (n # ns) \<Rightarrow> if signature_name \<in> set (n # ns) then Inr signature_name else Inr n)"

text \<open>The nonce validator passed to the library.\<close>

definition validate_nonce ::
  "(gotime \<Rightarrow> string \<Rightarrow> duration \<Rightarrow> 'r \<Rightarrow> bool res \<times> 'r) option \<Rightarrow> gotime \<Rightarrow> string \<Rightarrow> string \<Rightarrow> 'r \<Rightarrow> unit res \<times> 'r" where
  "validate_nonce replay now key_id n0 s =
     (let n = trim_space n0 in
      if n = [] then (Inl (Err ErrOther ''empty nonce''), s)
      else (case replay of None \<Rightarrow> (Inr (), s) | Some use \<Rightarrow>
        (case use now (key_id @ '':'' @ n) default_replay_ttl s of
           (Inl e, s') \<Rightarrow> (Inl e, s')
         | (Inr True, s') \<Rightarrow> (Inr (), s')
         | (Inr False, s') \<Rightarrow> (Inl (Err ErrOther ''nonce replayed''), s'))))"

definition nonblank :: "string option \<Rightarrow> string option" where
  "nonblank x = (case x of None \<Rightarrow> None | Some s \<Rightarrow> if trim_space s = [] then None else Some (trim_space s))"

definition authenticate_signed_request ::
  "sig_lib \<Rightarrow> (gotime \<Rightarrow> string \<Rightarrow> duration \<Rightarrow> 'r \<Rightarrow> bool res \<times> 'r) option \<Rightarrow> gotime \<Rightarrow>
   snapshot option \<Rightarrow> http_request \<Rightarrow> string \<Rightarrow> 'r \<Rightarrow> principal res \<times> 'r" where
  "authenticate_signed_request lib replay now snap r body s =
     (let unauthorized = (Inl (sentinel ErrUnauthorized), s) in
      case resolve_signature_name lib r of Inl _ \<Rightarrow> unauthorized | Inr sig_name \<Rightarrow>
      (case sl_details lib sig_name r of None \<Rightarrow> unauthorized | Some (kid, nonce) \<Rightarrow>
      (case nonblank kid of None \<Rightarrow> unauthorized | Some key_id \<Rightarrow>
      (case nonblank nonce of None \<Rightarrow> unauthorized | Some _ \<Rightarrow>
      (case lookup_signing_key snap key_id of None \<Rightarrow> unauthorized | Some signer \<Rightarrow>
      (case sl_parse_key lib (sk_public_key_pem signer) of None \<Rightarrow> unauthorized | Some pub \<Rightarrow>
        if \<not> sl_digest lib (header_values r ''Content-Digest'') body then unauthorized
        else
          (case sl_verify lib pub key_id sig_name r now of
             SigReject \<Rightarrow> unauthorized
           | SigNonce n accept \<Rightarrow>
               (case validate_nonce replay now key_id n s of
                  (Inl _, s') \<Rightarrow> (Inl (sentinel ErrUnauthorized), s')
                | (Inr _, s') \<Rightarrow>
                    if accept then (Inr (principal_from_signing_key signer), s')
                    else (Inl (sentinel ErrUnauthorized), s')))))))))"

definition authenticate_gateway_request ::
  "(string \<Rightarrow> string) \<Rightarrow> sig_lib \<Rightarrow> (gotime \<Rightarrow> string \<Rightarrow> duration \<Rightarrow> 'r \<Rightarrow> bool res \<times> 'r) option \<Rightarrow> gotime \<Rightarrow>
   snapshot option \<Rightarrow> http_request \<Rightarrow> string \<Rightarrow> 'r \<Rightarrow> principal res \<times> 'r" where
  "authenticate_gateway_request sha lib replay now snap r body s =
     (if snap = None then (Inl (sentinel ErrNotFound), s)
      else
        (case (if has_signed_request_headers r
               then authenticate_signed_request lib replay now snap r body s
               else (map_sum id principal_from_api_key (authenticate_key sha snap (must_virtual_api_key r)), s)) of
           (Inl e, s') \<Rightarrow> (Inl e, s')
         | (Inr p, s') \<Rightarrow>
             if \<not> allows_organization snap (pr_organization_id p) then (Inl (sentinel ErrForbidden), s')
             else (Inr p, s')))"

definition auth_err_message :: "err \<Rightarrow> string" where
  "auth_err_message e =
     (if err_is e ErrNotFound then ''no snapshot loaded''
      else if err_is e ErrForbidden then ''organization not allowed in this region''
      else if err_is e ErrUnauthorized then ''missing or invalid authorization''
      else ''authentication failed: '' @ err_msg e)"

definition auth_http_status :: "err \<Rightarrow> int" where
  "auth_http_status e =
     (if err_is e ErrNotFound then 503 else if err_is e ErrForbidden then 403 else 401)"

section \<open>Tags and headers\<close>

definition tag_row :: "string \<Rightarrow> (string \<times> string) option" where
  "tag_row part0 =
     (let part = trim_space part0 in
      if part = [] then None
      else (case cut_char (CHR '':'') part of (k, v, ok) \<Rightarrow>
        let key = trim_space k in if \<not> ok \<or> key = [] then None else Some (key, trim_space v)))"

definition parse_afi_tags :: "string \<Rightarrow> (string, string) gomap" where
  "parse_afi_tags h =
     (let header = trim_space h in
      if header = [] then [] else index_by tag_row (split_char (CHR '','') header) [])"

definition tags_from_request :: "http_request \<Rightarrow> (string, string) gomap" where
  "tags_from_request r = parse_afi_tags (header_get r ''X-Afi-Tags'')"

definition sensitive_headers :: "string list" where
  "sensitive_headers = [''authorization'', ''cookie'', ''set-cookie'', ''proxy-authorization'']"

definition policy_header_row :: "string \<times> string list \<Rightarrow> (string \<times> string) option" where
  "policy_header_row kv =
     (case snd kv of [] \<Rightarrow> None
      | v # _ \<Rightarrow> let lk = to_lower (fst kv) in if lk \<in> set sensitive_headers then None else Some (lk, v))"

definition headers_for_policy :: "(string, string list) gomap \<Rightarrow> (string, string) gomap" where
  "headers_for_policy h = index_by policy_header_row h []"

definition clone_tags :: "(string, string) gomap \<Rightarrow> (string, string) gomap" where
  "clone_tags tags = tags"

section \<open>Lemmas\<close>

lemma nonblank_Some [simp]: "nonblank x = Some s \<longleftrightarrow> (\<exists>y. x = Some y \<and> s = trim_space y \<and> s \<noteq> [])"
  by (auto simp: nonblank_def split: option.splits)

lemma signed_Inr:
  assumes "authenticate_signed_request lib replay now snap r body s = (Inr p, s')"
  obtains sig_name kid nonce signer pub n where
    "resolve_signature_name lib r = Inr sig_name"
    "sl_details lib sig_name r = Some (Some kid, Some nonce)" "trim_space nonce \<noteq> []"
    "lookup_signing_key snap (trim_space kid) = Some signer"
    "sl_parse_key lib (sk_public_key_pem signer) = Some pub"
    "sl_digest lib (header_values r ''Content-Digest'') body"
    "sl_verify lib pub (trim_space kid) sig_name r now = SigNonce n True"
    "validate_nonce replay now (trim_space kid) n s = (Inr (), s')"
    "p = principal_from_signing_key signer"
  using assms
  by (auto simp: authenticate_signed_request_def Let_def
      split: sum.splits option.splits prod.splits if_splits sig_verdict.splits)

lemma validate_nonce_Inr:
  assumes "validate_nonce (Some use) now kid n s = (Inr (), s')"
  shows "use now (kid @ '':'' @ trim_space n) default_replay_ttl s = (Inr True, s')"
  using assms by (auto simp: validate_nonce_def Let_def split: if_splits prod.splits sum.splits bool.splits)

lemma lookup_signing_key_SomeD:
  "lookup_signing_key (Some sn) kid = Some k \<Longrightarrow>
     gm_get (sn_signing_keys sn) (trim_space kid) = Some k \<and> sk_status k = ''active''"
  by (auto simp: lookup_signing_key_def split: option.splits if_splits)

section \<open>Properties\<close>

text \<open>
  C4: An authenticated principal is one the snapshot vouches for: the snapshot allows its
  organization, and it is either the API key stored under the hash of the presented key, or an
  active signing key of the snapshot for which the signature was verified and the body digest
  matched. In particular no request authenticates without a snapshot.
\<close>

theorem authenticated_principal_vouched:
  assumes "authenticate_gateway_request sha lib replay now snap r body s = (Inr p, s')"
  shows "\<exists>sn. snap = Some sn \<and> allows_organization snap (pr_organization_id p) \<and>
    (if has_signed_request_headers r
     then \<exists>kid k pub name n. gm_get (sn_signing_keys sn) kid = Some k \<and> sk_status k = ''active'' \<and>
       p = principal_from_signing_key k \<and> sl_parse_key lib (sk_public_key_pem k) = Some pub \<and>
       sl_verify lib pub kid name r now = SigNonce n True \<and>
       sl_digest lib (header_values r ''Content-Digest'') body
     else \<exists>k. gm_get (sn_api_keys sn) (hash_key sha (must_virtual_api_key r)) = Some k \<and>
       p = principal_from_api_key k)"
proof -
  obtain sn where sn: "snap = Some sn"
    using assms by (cases snap) (auto simp: authenticate_gateway_request_def)
  have allowed: "allows_organization snap (pr_organization_id p)"
    using assms by (auto simp: authenticate_gateway_request_def split: if_splits prod.splits sum.splits)
  show ?thesis
  proof (cases "has_signed_request_headers r")
    case True
    then have "authenticate_signed_request lib replay now snap r body s = (Inr p, s')"
      using assms by (auto simp: authenticate_gateway_request_def split: if_splits prod.splits sum.splits)
    then obtain name kid signer pub n where v: "lookup_signing_key snap (trim_space kid) = Some signer"
      "sl_parse_key lib (sk_public_key_pem signer) = Some pub"
      "sl_digest lib (header_values r ''Content-Digest'') body"
      "sl_verify lib pub (trim_space kid) name r now = SigNonce n True"
      "p = principal_from_signing_key signer"
      by (rule signed_Inr)
    from lookup_signing_key_SomeD [OF v(1) [unfolded sn]]
    have "gm_get (sn_signing_keys sn) (trim_space kid) = Some signer" "sk_status signer = ''active''" by simp_all
    with v sn allowed True show ?thesis
      by (intro exI [of _ sn]) (simp, intro exI [of _ "trim_space kid"] exI [of _ signer], blast)
  next
    case False
    then obtain k where "authenticate_key sha snap (must_virtual_api_key r) = Inr k" "p = principal_from_api_key k"
      using assms
      by (cases "authenticate_key sha snap (must_virtual_api_key r)")
        (auto simp: authenticate_gateway_request_def split: if_splits)
    with sn allowed False show ?thesis
      by (auto simp: authenticate_key_def lookup_key_def split: if_splits option.splits)
  qed
qed

definition demo_sha :: "string \<Rightarrow> string" where "demo_sha s = s"

definition demo_request :: http_request where
  "demo_request = \<lparr>hr_method = ''POST'', hr_path = ''/v1/chat/completions'',
     hr_headers = [(''Authorization'', [''Bearer k''])], hr_query = []\<rparr>"

definition demo_signed_request :: http_request where
  "demo_signed_request = \<lparr>hr_method = ''POST'', hr_path = ''/v1/chat/completions'',
     hr_headers = [(''Signature'', [''s'']), (''Signature-Input'', [''sig1''])], hr_query = []\<rparr>"

definition demo_lib :: sig_lib where
  "demo_lib = \<lparr>sl_names = (\<lambda>vs. Some vs), sl_details = (\<lambda>n r. Some (Some ''kid'', Some ''nonce'')),
     sl_parse_key = Some, sl_digest = (\<lambda>vs b. True), sl_verify = (\<lambda>p k n r t. SigNonce ''nonce'' True)\<rparr>"

definition demo_signing_key :: signing_key where
  "demo_signing_key = \<lparr>sk_id = ''s1'', sk_key_id = ''kid'', sk_project_id = ''p1'', sk_team_id = [],
     sk_environment_id = [], sk_organization_id = ''o1'', sk_name = ''n'', sk_algorithm = ''ed25519'',
     sk_public_key_pem = ''pem'', sk_status = ''active''\<rparr>"

definition demo_auth_snapshot :: snapshot where
  "demo_auth_snapshot = empty_snapshot\<lparr>sn_api_keys := [(hash_key demo_sha ''k'', demo_key)],
     sn_signing_keys := [(''kid'', demo_signing_key)], sn_allowed := Some [''o1'']\<rparr>"

theorem authenticated_principal_vouched_witness:
  "\<exists>k. gm_get (sn_api_keys demo_auth_snapshot) (hash_key demo_sha ''k'') = Some k \<and>
     principal_from_api_key demo_key = principal_from_api_key k"
proof -
  have a: "authenticate_gateway_request demo_sha demo_lib (Some mem_replay_use) 0 (Some demo_auth_snapshot)
      demo_request [] [] = (Inr (principal_from_api_key demo_key), [])" by code_simp
  have "must_virtual_api_key demo_request = ''k''" "\<not> has_signed_request_headers demo_request" by code_simp+
  with authenticated_principal_vouched [OF a] show ?thesis by auto
qed

text \<open>
  C5: A signed request cannot be replayed: once it has been accepted, the same request is
  refused for the whole replay window of ten minutes, whatever other requests use the in-memory
  replay store in between and whatever snapshot is then in force, provided the signature
  library hands the request's own nonce to the validator.
\<close>

theorem signed_request_not_replayable:
  assumes nonce: "\<And>pub kid name now n b. sl_details lib name r = Some (Some kid, Some nonce) \<Longrightarrow>
      sl_verify lib pub (trim_space kid) name r now = SigNonce n b \<Longrightarrow> n = nonce"
    and name: "\<And>name kid m. sl_details lib name r = Some (kid, Some m) \<Longrightarrow> m = nonce"
    and first: "gm_wf items" "authenticate_signed_request lib (Some mem_replay_use) t snap r body items = (Inr p, items1)"
    and between: "\<forall>(t1, _, _)\<in>set us. t1 \<le> t'" "t' < t + default_replay_ttl"
  shows "fst (authenticate_signed_request lib (Some mem_replay_use) t' snap' r body' (mem_replay.uses us items1)) \<noteq> Inr p'"
proof
  let ?items2 = "mem_replay.uses us items1"
  assume "fst (authenticate_signed_request lib (Some mem_replay_use) t' snap' r body' ?items2) = Inr p'"
  then obtain items3 where second:
    "authenticate_signed_request lib (Some mem_replay_use) t' snap' r body' ?items2 = (Inr p', items3)"
    by (metis prod.collapse)
  obtain sig kid m n where one: "resolve_signature_name lib r = Inr sig"
    "sl_details lib sig r = Some (Some kid, Some m)"
    "\<exists>pub. sl_verify lib pub (trim_space kid) sig r t = SigNonce n True"
    "validate_nonce (Some mem_replay_use) t (trim_space kid) n items = (Inr (), items1)"
    by (rule signed_Inr [OF first(2)]) blast
  obtain sig' kid' m' n' where two: "resolve_signature_name lib r = Inr sig'"
    "sl_details lib sig' r = Some (Some kid', Some m')"
    "\<exists>pub. sl_verify lib pub (trim_space kid') sig' r t' = SigNonce n' True"
    "validate_nonce (Some mem_replay_use) t' (trim_space kid') n' ?items2 = (Inr (), items3)"
    by (rule signed_Inr [OF second]) blast
  have same: "kid' = kid" "m = nonce" "m' = nonce" using one(1,2) two(1,2) name by auto
  have n: "n = nonce" "n' = nonce"
    using nonce [of sig kid] nonce [of sig' kid'] one(2,3) two(2,3) same by auto
  let ?k = "trim_space kid @ '':'' @ trim_space nonce"
  have "mem_replay_use t ?k default_replay_ttl items = (Inr True, items1)"
    using validate_nonce_Inr [OF one(4)] n by simp
  from mem_replay.single_use [OF first(1) this between, of default_replay_ttl]
  show False using validate_nonce_Inr [OF two(4)] n same by simp
qed

theorem signed_request_not_replayable_witness:
  "fst (authenticate_signed_request demo_lib (Some mem_replay_use) 1000000000 (Some demo_auth_snapshot)
     demo_signed_request [] (mem_replay.uses [(500000000, ''other'', default_replay_ttl)]
       [(''kid:nonce'', default_replay_ttl)])) \<noteq> Inr (principal_from_signing_key demo_signing_key)"
proof (rule signed_request_not_replayable [where t = 0 and items = "[]" and nonce = "''nonce''"])
  show "authenticate_signed_request demo_lib (Some mem_replay_use) 0 (Some demo_auth_snapshot) demo_signed_request []
      [] = (Inr (principal_from_signing_key demo_signing_key), [(''kid:nonce'', default_replay_ttl)])"
    by code_simp
qed (simp_all add: demo_lib_def default_replay_ttl_def minute_def second_def)

text \<open>
  The headers shown to policies never contain credentials: no entry is named after an
  authorization or cookie header, in any letter case, and every entry is the lower-cased name
  and first value of a request header.
\<close>

theorem policy_headers_sanitized:
  assumes "gm_get (headers_for_policy h) name = Some v"
  shows "name \<notin> {''authorization'', ''cookie'', ''set-cookie'', ''proxy-authorization''} \<and>
     (\<exists>k vs. (k, v # vs) \<in> set h \<and> to_lower k = name)"
proof -
  from assms have "last_with policy_header_row h name = Some v"
    by (simp add: headers_for_policy_def gm_get_index_by)
  then obtain kv where kv: "kv \<in> set h" "policy_header_row kv = Some (name, v)" using last_with_SomeD by metis
  obtain vs where vs: "snd kv = v # vs" "name \<notin> set sensitive_headers" "to_lower (fst kv) = name"
    using kv(2) by (auto simp: policy_header_row_def Let_def split: list.splits if_splits)
  then have "(fst kv, v # vs) \<in> set h" using kv(1) by (metis prod.collapse)
  with vs(3) have "\<exists>k vs. (k, v # vs) \<in> set h \<and> to_lower k = name" by blast
  with vs(2) show ?thesis by (simp add: sensitive_headers_def)
qed

theorem policy_headers_sanitized_witness:
  "gm_get (headers_for_policy [(''Authorization'', [''secret'']), (''X-Team'', [''red'', ''blue''])]) ''x-team'' = Some ''red'' \<and>
   ''x-team'' \<notin> {''authorization'', ''cookie'', ''set-cookie'', ''proxy-authorization''}"
proof -
  have "gm_get (headers_for_policy [(''Authorization'', [''secret'']), (''X-Team'', [''red'', ''blue''])]) ''x-team'' = Some ''red''"
    by code_simp
  with policy_headers_sanitized [OF this] show ?thesis by blast
qed

end
