(* ===== verification/Call_Gate.thy ===== *)
theory Call_Gate
  imports Policy Quota Dialect Gateway_Auth
begin

text \<open>
  The lifecycle gate of a call: the hook chain of \<^verbatim>\<open>src/internal/dataplane/hooks.go\<close> and the
  sandboxed hooks of \<^verbatim>\<open>wasm_bindings.go\<close>, the gate of \<^verbatim>\<open>call_hooks.go\<close> (allowlist, policies,
  hooks, quota, in this order), header merging of \<^verbatim>\<open>headers.go\<close>, and the binding of a provider's
  secret of \<^verbatim>\<open>pipeline.go\<close>. A hook is a function of the call and of the hooks' own world \<open>'h\<close>,
  which it may change; loading and running a WASM module is such a function of its binding.
\<close>

section \<open>The call\<close>

record call_context =
  cx_principal :: principal
  cx_model :: string
  cx_path :: string
  cx_stream :: bool
  cx_modality :: string
  cx_tags :: "(string, string) gomap"
  cx_headers :: "(string, string) gomap"
  cx_metadata :: "(string, goval) gomap"
  cx_body :: string
  cx_request_headers :: "(string, string) gomap"
  cx_response_headers :: "(string, string) gomap"

definition new_call_context ::
  "principal \<Rightarrow> string \<Rightarrow> string \<Rightarrow> string \<Rightarrow> bool \<Rightarrow> string \<Rightarrow> (string, string) gomap \<Rightarrow> call_context" where
  "new_call_context p model path modality stream body tags =
     \<lparr>cx_principal = p, cx_model = model, cx_path = path, cx_stream = stream, cx_modality = modality,
      cx_tags = tags, cx_headers = [], cx_metadata = [], cx_body = body, cx_request_headers = [],
      cx_response_headers = []\<rparr>"

record call_decision =
  dn_allow :: bool
  dn_status :: int
  dn_reason :: string
  dn_message :: string
  dn_headers :: "(string, string) gomap"

definition hook_allow :: call_decision where
  "hook_allow = \<lparr>dn_allow = True, dn_status = 0, dn_reason = [], dn_message = [], dn_headers = []\<rparr>"

definition hook_deny :: "int \<Rightarrow> string \<Rightarrow> string \<Rightarrow> call_decision" where
  "hook_deny status reason msg =
     \<lparr>dn_allow = False, dn_status = (if status = 0 then 403 else status), dn_reason = reason,
      dn_message = msg, dn_headers = []\<rparr>"

record after_call_info =
  ai_status :: string
  ai_latency_ms :: int
  ai_provider_type :: string
  ai_target_model :: string
  ai_prompt_tokens :: int
  ai_completion_tokens :: int

record after_chat_info =
  at_model :: string
  at_status :: string
  at_latency_ms :: int
  at_provider_type :: string
  at_target_model :: string
  at_dialect :: string
  at_modality :: string

section \<open>Headers\<close>

text \<open>\<^verbatim>\<open>http.CanonicalHeaderKey\<close>: names with a byte outside the token alphabet are left alone.\<close>

definition token_char :: "char \<Rightarrow> bool" where
  "token_char c \<longleftrightarrow>
     (let n = of_char c :: nat in
      (48 \<le> n \<and> n \<le> 57) \<or> (65 \<le> n \<and> n \<le> 90) \<or> (97 \<le> n \<and> n \<le> 122) \<or>
      n \<in> {33, 35, 36, 37, 38, 39, 42, 43, 45, 46, 94, 95, 96, 124, 126})"

fun canonical_from :: "bool \<Rightarrow> string \<Rightarrow> string" where
  "canonical_from up [] = []"
| "canonical_from up (c # cs) =
     (if up then upper_char c else lower_char c) # canonical_from (c = CHR ''-'') cs"

definition canonical_header_key :: "string \<Rightarrow> string" where
  "canonical_header_key k = (if list_all token_char k then canonical_from True k else k)"

definition set_headers :: "(string, string) gomap \<Rightarrow> (string, string) gomap \<Rightarrow> (string, string) gomap" where
  "set_headers kvs hdrs = fold (\<lambda>(k, v) h. gm_put (canonical_header_key k) v h) kvs hdrs"

definition apply_response_headers :: "call_context \<Rightarrow> (string, string) gomap \<Rightarrow> (string, string) gomap" where
  "apply_response_headers call hdrs = set_headers (filter (\<lambda>kv. fst kv \<noteq> []) (cx_response_headers call)) hdrs"

definition merge_request_headers :: "(string, string) gomap \<Rightarrow> call_context \<Rightarrow> (string, string) gomap" where
  "merge_request_headers dst call = set_headers (filter (\<lambda>kv. fst kv \<noteq> []) (cx_request_headers call)) dst"

definition set_request_header :: "string \<Rightarrow> string \<Rightarrow> call_context \<Rightarrow> call_context" where
  "set_request_header k v c =
     (if k = [] then c
      else c\<lparr>cx_request_headers := gm_put (canonical_header_key k) v (cx_request_headers c)\<rparr>)"

definition set_response_header :: "string \<Rightarrow> string \<Rightarrow> call_context \<Rightarrow> call_context" where
  "set_response_header k v c =
     (if k = [] then c
      else c\<lparr>cx_response_headers := gm_put (canonical_header_key k) v (cx_response_headers c)\<rparr>)"

definition delete_request_header :: "string \<Rightarrow> call_context \<Rightarrow> call_context" where
  "delete_request_header k c =
     (if k = [] then c
      else c\<lparr>cx_request_headers := gm_del k (gm_del (canonical_header_key k) (cx_request_headers c))\<rparr>)"

definition delete_response_header :: "string \<Rightarrow> call_context \<Rightarrow> call_context" where
  "delete_response_header k c =
     (if k = [] then c
      else c\<lparr>cx_response_headers := gm_del k (gm_del (canonical_header_key k) (cx_response_headers c))\<rparr>)"

section \<open>The hook chain\<close>

type_synonym 'h before_call_fn = "call_context \<Rightarrow> 'h \<Rightarrow> call_decision res \<times> call_context \<times> 'h"
type_synonym 'h after_call_fn = "call_context \<Rightarrow> after_call_info \<Rightarrow> 'h \<Rightarrow> call_context \<times> 'h"
type_synonym 'h chat_fn = "chat_request \<Rightarrow> 'h \<Rightarrow> chat_request res \<times> 'h"
type_synonym 'h after_chat_fn = "after_chat_info \<Rightarrow> 'h \<Rightarrow> 'h"

record 'h hook_chain =
  hc_before_call :: "(string \<times> 'h before_call_fn) list"
  hc_after_call :: "(string \<times> 'h after_call_fn) list"
  hc_before :: "(string \<times> 'h chat_fn) list"
  hc_after :: "(string \<times> 'h after_chat_fn) list"

definition new_hook_chain :: "'h hook_chain" where
  "new_hook_chain = \<lparr>hc_before_call = [], hc_after_call = [], hc_before = [], hc_after = []\<rparr>"

definition register_before_call :: "(string \<times> 'h before_call_fn) option \<Rightarrow> 'h hook_chain \<Rightarrow> 'h hook_chain" where
  "register_before_call h c = (case h of None \<Rightarrow> c | Some x \<Rightarrow> c\<lparr>hc_before_call := hc_before_call c @ [x]\<rparr>)"

definition prepend_before_call :: "(string \<times> 'h before_call_fn) option \<Rightarrow> 'h hook_chain \<Rightarrow> 'h hook_chain" where
  "prepend_before_call h c = (case h of None \<Rightarrow> c | Some x \<Rightarrow> c\<lparr>hc_before_call := x # hc_before_call c\<rparr>)"

definition register_after_call :: "(string \<times> 'h after_call_fn) option \<Rightarrow> 'h hook_chain \<Rightarrow> 'h hook_chain" where
  "register_after_call h c = (case h of None \<Rightarrow> c | Some x \<Rightarrow> c\<lparr>hc_after_call := hc_after_call c @ [x]\<rparr>)"

definition register_chat :: "(string \<times> 'h chat_fn) option \<Rightarrow> 'h hook_chain \<Rightarrow> 'h hook_chain" where
  "register_chat h c = (case h of None \<Rightarrow> c | Some x \<Rightarrow> c\<lparr>hc_before := hc_before c @ [x]\<rparr>)"

definition register_after :: "(string \<times> 'h after_chat_fn) option \<Rightarrow> 'h hook_chain \<Rightarrow> 'h hook_chain" where
  "register_after h c = (case h of None \<Rightarrow> c | Some x \<Rightarrow> c\<lparr>hc_after := hc_after c @ [x]\<rparr>)"

text \<open>A value that may implement any of the four interfaces, under one name.\<close>

record 'h any_hook =
  ah_name :: string
  ah_before_call :: "'h before_call_fn option"
  ah_after_call :: "'h after_call_fn option"
  ah_before :: "'h chat_fn option"
  ah_after :: "'h after_chat_fn option"

definition register_hook :: "'h any_hook option \<Rightarrow> 'h hook_chain \<Rightarrow> 'h hook_chain" where
  "register_hook h c =
     (case h of None \<Rightarrow> c | Some x \<Rightarrow>
        register_after (map_option (Pair (ah_name x)) (ah_after x))
        (register_chat (map_option (Pair (ah_name x)) (ah_before x))
        (register_after_call (map_option (Pair (ah_name x)) (ah_after_call x))
        (register_before_call (map_option (Pair (ah_name x)) (ah_before_call x)) c))))"

record hook_info =
  hi_name :: string
  hi_before_call :: bool
  hi_after_call :: bool
  hi_before_chat :: bool
  hi_after_chat :: bool

definition hook_infos :: "'h hook_chain option \<Rightarrow> hook_info list" where
  "hook_infos c =
     (case c of None \<Rightarrow> [] | Some c \<Rightarrow>
        let bc = map fst (hc_before_call c); ac = map fst (hc_after_call c);
            b = map fst (hc_before c); a = map fst (hc_after c);
            order = rev (remdups (rev (bc @ ac @ b @ a)))
        in map (\<lambda>n. \<lparr>hi_name = n, hi_before_call = (n \<in> set bc), hi_after_call = (n \<in> set ac),
               hi_before_chat = (n \<in> set b), hi_after_chat = (n \<in> set a)\<rparr>) order)"

definition hook_names :: "'h hook_chain option \<Rightarrow> string list" where
  "hook_names c = map hi_name (hook_infos c)"

definition builtin_hook_infos :: "hook_info list" where
  "builtin_hook_infos =
     [\<lparr>hi_name = ''cel_policy'', hi_before_call = True, hi_after_call = False, hi_before_chat = False, hi_after_chat = False\<rparr>,
      \<lparr>hi_name = ''quota'', hi_before_call = True, hi_after_call = False, hi_before_chat = False, hi_after_chat = False\<rparr>]"

fun run_before_hooks :: "'h before_call_fn list \<Rightarrow> 'h before_call_fn" where
  "run_before_hooks [] call h = (Inr hook_allow, call, h)"
| "run_before_hooks (f # fs) call h =
     (case f call h of
        (Inl e, call', h') \<Rightarrow> (Inl e, call', h')
      | (Inr d, call', h') \<Rightarrow> if \<not> dn_allow d then (Inr d, call', h') else run_before_hooks fs call' h')"

definition run_before_call :: "'h hook_chain option \<Rightarrow> 'h before_call_fn" where
  "run_before_call c call h =
     (case c of None \<Rightarrow> (Inr hook_allow, call, h)
      | Some c \<Rightarrow> run_before_hooks (map snd (hc_before_call c)) call h)"

definition run_after_call :: "'h hook_chain option \<Rightarrow> 'h after_call_fn" where
  "run_after_call c call info h =
     (case c of None \<Rightarrow> (call, h)
      | Some c \<Rightarrow> fold (\<lambda>f (call, h). f call info h) (map snd (hc_after_call c)) (call, h))"

fun run_chat_hooks :: "'h chat_fn list \<Rightarrow> 'h chat_fn" where
  "run_chat_hooks [] req h = (Inr req, h)"
| "run_chat_hooks (f # fs) req h =
     (case f req h of (Inl e, h') \<Rightarrow> (Inl e, h') | (Inr req', h') \<Rightarrow> run_chat_hooks fs req' h')"

definition run_before_chat :: "'h hook_chain option \<Rightarrow> 'h chat_fn" where
  "run_before_chat c req h =
     (case c of None \<Rightarrow> (Inr req, h) | Some c \<Rightarrow> run_chat_hooks (map snd (hc_before c)) req h)"

definition run_after_chat :: "'h hook_chain option \<Rightarrow> 'h after_chat_fn" where
  "run_after_chat c info h =
     (case c of None \<Rightarrow> h | Some c \<Rightarrow> fold (\<lambda>f h. f info h) (map snd (hc_after c)) h)"

section \<open>Sandboxed hooks\<close>

definition wasm_hook_less :: "wasm_hook \<Rightarrow> wasm_hook \<Rightarrow> bool" where
  "wasm_hook_less a b =
     (if wh_priority a \<noteq> wh_priority b then wh_priority a > wh_priority b else wh_name a < wh_name b)"

definition filter_wasm_hooks :: "snapshot option \<Rightarrow> string \<Rightarrow> string \<Rightarrow> wasm_hook list" where
  "filter_wasm_hooks snap org phase =
     (case snap of None \<Rightarrow> [] | Some s \<Rightarrow>
        if org = [] then []
        else stable_sort wasm_hook_less
          (filter (\<lambda>h. \<not> (\<not> wh_enabled h \<or> wh_organization_id h \<noteq> org \<or> wh_phase h \<noteq> phase)) (sn_wasm_hooks s)))"

text \<open>The module runtime: what loading and running each binding does.\<close>

record 'h wasm_runner =
  wr_before_call :: "wasm_hook \<Rightarrow> 'h before_call_fn"
  wr_before_chat :: "wasm_hook \<Rightarrow> 'h chat_fn"
  wr_after_call :: "wasm_hook \<Rightarrow> 'h after_call_fn"

definition wasm_before_call :: "'h wasm_runner option \<Rightarrow> snapshot option \<Rightarrow> 'h before_call_fn" where
  "wasm_before_call r snap call h =
     (case r of None \<Rightarrow> (Inr hook_allow, call, h)
      | Some r \<Rightarrow> run_before_hooks (map (wr_before_call r)
          (filter_wasm_hooks snap (pr_organization_id (cx_principal call)) ''before_call'')) call h)"

definition wasm_before_chat :: "'h wasm_runner option \<Rightarrow> snapshot option \<Rightarrow> string \<Rightarrow> 'h chat_fn" where
  "wasm_before_chat r snap org req h =
     (case r of None \<Rightarrow> (Inr req, h)
      | Some r \<Rightarrow> run_chat_hooks (map (wr_before_chat r) (filter_wasm_hooks snap org ''before_chat'')) req h)"

definition wasm_after_call :: "'h wasm_runner option \<Rightarrow> snapshot option \<Rightarrow> 'h after_call_fn" where
  "wasm_after_call r snap call info h =
     (case r of None \<Rightarrow> (call, h)
      | Some r \<Rightarrow> fold (\<lambda>f (call, h). f call info h) (map (wr_after_call r)
          (filter_wasm_hooks snap (pr_organization_id (cx_principal call)) ''after_call'')) (call, h))"

section \<open>Responses of the gate\<close>

definition dialect_from_call :: "call_context \<Rightarrow> string" where
  "dialect_from_call call =
     (case gm_get (cx_metadata call) ''dialect'' of
        Some (GStr s) \<Rightarrow> if s \<noteq> [] then s else DialectOpenAI | _ \<Rightarrow> DialectOpenAI)"

definition write_gate_error :: "call_context \<Rightarrow> int \<Rightarrow> string \<Rightarrow> string \<Rightarrow> http_response" where
  "write_gate_error call status msg typ = write_error [] (dialect_from_call call) status msg typ"

definition write_call_deny :: "(string, string) gomap \<Rightarrow> call_decision \<Rightarrow> call_context \<Rightarrow> http_response" where
  "write_call_deny hdrs d call =
     (let status = (if dn_status d = 0 then 403 else dn_status d);
          reason = (if dn_reason d = [] then ''policy_violation'' else dn_reason d);
          msg = (if dn_message d = [] then reason else dn_message d)
      in write_error (set_headers (dn_headers d) hdrs) (dialect_from_call call) status msg reason)"

text \<open>What a decision makes of the request: a response, or nothing when it may go on.\<close>

definition decide_response :: "call_decision res \<Rightarrow> call_context \<Rightarrow> http_response option" where
  "decide_response r call =
     (case r of
        Inl _ \<Rightarrow> Some (write_gate_error call 500 ''call hook failed'' ''server_error'')
      | Inr d \<Rightarrow> if dn_allow d then None
                 else Some (write_call_deny (apply_response_headers call []) d call))"

section \<open>Policies and quota as hooks\<close>

definition policy_denied :: "decision \<Rightarrow> call_decision" where
  "policy_denied d = hook_deny 403 ''policy_violation''
     (if de_denied_by d \<noteq> [] then ''request denied by policy: '' @ de_denied_by d
      else ''request denied by policy'')"

definition merge_policy_headers :: "decision \<Rightarrow> call_context \<Rightarrow> call_context" where
  "merge_policy_headers d call =
     call\<lparr>cx_request_headers := fold (\<lambda>(k, v). gm_put k v) (de_request_headers d) (cx_request_headers call)\<rparr>"

definition call_cel_request :: "call_context \<Rightarrow> cel_request" where
  "call_cel_request call = \<lparr>rq_model = cx_model call, rq_path = cx_path call, rq_stream = cx_stream call,
     rq_tags = cx_tags call, rq_headers = cx_headers call\<rparr>"

definition blank_credential :: cel_credential where
  "blank_credential = \<lparr>cc_id = [], cc_name = [], cc_storage_kind = [], cc_is_byok = False, cc_provider_type = []\<rparr>"

definition policy_before_call ::
  "cel_engine option \<Rightarrow> snapshot option \<Rightarrow> call_context \<Rightarrow> call_decision res \<times> call_context" where
  "policy_before_call policies snap call =
     (case policies of None \<Rightarrow> (Inr hook_allow, call) | Some cel \<Rightarrow>
     (case snap of None \<Rightarrow> (Inr hook_allow, call) | Some sn \<Rightarrow>
        if sn_policies sn = [] then (Inr hook_allow, call)
        else
          let key = policy_key (cx_principal call); req = call_cel_request call in
          (case policy_apply cel (sn_policies sn) key req blank_credential of
             Inl e \<Rightarrow> (Inl e, call)
           | Inr d \<Rightarrow>
               if \<not> de_allowed d then (Inr (policy_denied d), call)
               else
                 let call1 = merge_policy_headers d call in
                 (case lookup_route snap (ak_organization_id key) (cx_model call) of
                    None \<Rightarrow> (Inr hook_allow, call1)
                  | Some (_, prov) \<Rightarrow>
                      let cred = credential_from_snapshot snap (pv_type prov) key (de_credential_name d) in
                      (case policy_apply cel (sn_policies sn) key req cred of
                         Inl e \<Rightarrow> (Inl e, call1)
                       | Inr d2 \<Rightarrow>
                           if \<not> de_allowed d2 then (Inr (policy_denied d2), call1)
                           else (Inr hook_allow, merge_policy_headers d2 call1))))))"

definition quota_before_call ::
  "'s counters option \<Rightarrow> snapshot option \<Rightarrow> call_context \<Rightarrow> 's \<Rightarrow> call_decision res \<times> 's" where
  "quota_before_call counters snap call s =
     (if counters = None \<or> snap = None then (Inr hook_allow, s)
      else
        (case check_and_incr_requests counters snap (policy_key (cx_principal call)) s of
           (Inl e, s') \<Rightarrow> (Inl e, s')
         | (Inr denied, s') \<Rightarrow>
             (Inr (if denied then hook_deny 429 ''insufficient_quota'' ''quota exceeded'' else hook_allow), s')))"

section \<open>The gate\<close>

record ('h, 's) gate_env =
  ge_policies :: "cel_engine option"
  ge_hooks :: "'h hook_chain option"
  ge_wasm :: "'h wasm_runner option"
  ge_counters :: "'s counters option"

text \<open>\<^verbatim>\<open>gateCall\<close>: no response means that the call may proceed.\<close>

definition gate_call ::
  "('h, 's) gate_env \<Rightarrow> snapshot option \<Rightarrow> call_context \<Rightarrow> 'h \<Rightarrow> 's \<Rightarrow> http_response option \<times> call_context \<times> 'h \<times> 's" where
  "gate_call env snap call0 h0 s0 =
     (if \<not> allows_organization snap (pr_organization_id (cx_principal call0)) then
        (Some (write_gate_error call0 403 ''organization not allowed in this region'' ''invalid_request_error''),
         call0, h0, s0)
      else
        (case policy_before_call (ge_policies env) snap call0 of (r1, call1) \<Rightarrow>
        (case decide_response r1 call1 of Some resp \<Rightarrow> (Some resp, call1, h0, s0) | None \<Rightarrow>
        (case run_before_call (ge_hooks env) call1 h0 of (r2, call2, h2) \<Rightarrow>
        (case decide_response r2 call2 of Some resp \<Rightarrow> (Some resp, call2, h2, s0) | None \<Rightarrow>
        (case wasm_before_call (ge_wasm env) snap call2 h2 of (r3, call3, h3) \<Rightarrow>
        (case decide_response r3 call3 of Some resp \<Rightarrow> (Some resp, call3, h3, s0) | None \<Rightarrow>
        (case quota_before_call (ge_counters env) snap call3 s0 of (r4, s4) \<Rightarrow>
          (decide_response r4 call3, call3, h3, s4)))))))))"

definition run_after_call_all ::
  "('h, 's) gate_env \<Rightarrow> snapshot option \<Rightarrow> call_context \<Rightarrow> after_call_info \<Rightarrow> 'h \<Rightarrow> 'h" where
  "run_after_call_all env snap call info h =
     (case run_after_call (ge_hooks env) call info h of (call', h') \<Rightarrow>
        snd (wasm_after_call (ge_wasm env) snap call' info h'))"

section \<open>Binding the provider's secret\<close>

definition no_credential_error :: err where
  "no_credential_error = Err ErrOther ''no credential assigned for provider type and no api_key_env fallback''"

definition policy_denied_error :: "decision \<Rightarrow> err" where
  "policy_denied_error d = Err ErrOther (dn_message (policy_denied d))"

text \<open>The override name after the two policy passes.\<close>

definition bind_override ::
  "cel_engine option \<Rightarrow> snapshot \<Rightarrow> provider \<Rightarrow> api_key \<Rightarrow> cel_request \<Rightarrow> string res" where
  "bind_override policies sn prov key req =
     (case policies of None \<Rightarrow> Inr [] | Some cel \<Rightarrow>
        if sn_policies sn = [] then Inr []
        else bind_res (policy_apply cel (sn_policies sn) key req blank_credential) (\<lambda>d.
          if \<not> de_allowed d then Inl (policy_denied_error d)
          else
            let override = de_credential_name d;
                meta = credential_from_snapshot (Some sn) (pv_type prov) key override
            in bind_res (policy_apply cel (sn_policies sn) key req meta) (\<lambda>d2.
              if \<not> de_allowed d2 then Inl (policy_denied_error d2)
              else Inr (if de_credential_name d2 \<noteq> [] then de_credential_name d2 else override))))"

definition env_fallback :: "registry \<Rightarrow> provider \<Rightarrow> (provider \<times> string) res" where
  "env_fallback reg prov =
     (if trim_space (pv_api_key_env prov) = [] then
        (if allows_empty_api_key reg (pv_type prov) then Inr (prov, []) else Inl no_credential_error)
      else Inr (prov, []))"

definition bind_provider_secret ::
  "registry \<Rightarrow> cel_engine option \<Rightarrow> (credential \<Rightarrow> string res) option \<Rightarrow> snapshot option \<Rightarrow> provider \<Rightarrow>
   api_key \<Rightarrow> cel_request \<Rightarrow> (provider \<times> string) res" where
  "bind_provider_secret reg policies opener snap prov key req =
     (case snap of None \<Rightarrow> env_fallback reg prov | Some sn \<Rightarrow>
        bind_res (bind_override policies sn prov key req) (\<lambda>override.
          case resolve_credential_for_call snap (pv_type prov) key override of
            CredMissingOverride \<Rightarrow> Inl (Err ErrOther ''no credential named for provider type'')
          | CredHit c \<Rightarrow>
              (case opener of None \<Rightarrow> Inl (Err ErrOther ''credential resolver not configured'')
               | Some openc \<Rightarrow> bind_res (openc c) (\<lambda>secret. Inr (prov\<lparr>pv_inline_api_key := secret\<rparr>, cr_id c)))
          | CredNone \<Rightarrow> env_fallback reg prov))"


section \<open>Properties of the hook chain\<close>

lemma run_before_hooks_append:
  "run_before_hooks (fs @ gs) call h =
     (case run_before_hooks fs call h of
        (Inr d, call', h') \<Rightarrow> if dn_allow d then run_before_hooks gs call' h' else (Inr d, call', h')
      | (Inl e, call', h') \<Rightarrow> (Inl e, call', h'))"
  by (induction fs call h rule: run_before_hooks.induct)
     (auto simp: hook_allow_def split: prod.splits sum.splits)

lemma run_before_hooks_allow:
  "run_before_hooks fs call h = (Inr d, call', h') \<Longrightarrow> dn_allow d \<Longrightarrow> d = hook_allow"
  by (induction fs call h rule: run_before_hooks.induct) (auto split: prod.splits sum.splits if_splits)

lemma register_before_call_last:
  "run_before_call (Some (register_before_call (Some (n, f)) c)) call h =
     (case run_before_call (Some c) call h of
        (Inr d, call', h') \<Rightarrow> if dn_allow d then run_before_hooks [f] call' h' else (Inr d, call', h')
      | (Inl e, call', h') \<Rightarrow> (Inl e, call', h'))"
  by (simp add: run_before_call_def register_before_call_def run_before_hooks_append)

text \<open>A hook that answers, wherever it stands, ends the chain with its own answer.\<close>

definition hook_stops :: "call_decision res \<Rightarrow> bool" where
  "hook_stops r \<longleftrightarrow> (case r of Inl _ \<Rightarrow> True | Inr d \<Rightarrow> \<not> dn_allow d)"

lemma decide_response_iff: "decide_response r call = None \<longleftrightarrow> \<not> hook_stops r"
  by (auto simp: decide_response_def hook_stops_def split: sum.splits)

lemma run_before_hooks_stop:
  assumes "run_before_hooks fs call h = (r, call', h')" and "\<not> hook_stops (fst (run_before_hooks fs call h))"
    and "f call' h' = (r', call'', h'')" and "hook_stops r'"
  shows "run_before_hooks (fs @ f # gs) call h = (r', call'', h'')"
  using assms by (auto simp: run_before_hooks_append hook_stops_def split: sum.splits)

section \<open>A concrete gate\<close>

definition demo_use_credential :: policy where
  "demo_use_credential = (demo_policy ''o1'' ''byok'' 5 [])
     \<lparr>po_actions := [\<lparr>pa_type = ''use_credential'', pa_config = Some (JObj [(''credential_name'', JStr ''prod'')])\<rparr>]\<rparr>"

definition demo_gate_sn :: snapshot where
  "demo_gate_sn = demo_gate_snapshot\<lparr>sn_policies := [demo_use_credential], sn_credentials := demo_credentials\<rparr>"

definition demo_principal :: principal where
  "demo_principal = \<lparr>pr_organization_id = ''o1'', pr_project_id = ''p1'', pr_team_id = [], pr_environment_id = [],
     pr_api_key_id = ''k1'', pr_signing_key_id = [], pr_key_id = [], pr_auth_method = ''api_key'', pr_kind = [],
     pr_owner_user_id = [], pr_name = []\<rparr>"

definition demo_call :: call_context where
  "demo_call = new_call_context demo_principal ''m'' ''/v1/chat/completions'' ''chat'' False [] []"

definition demo_gate_env :: "(unit, pg_counters \<times> redis_counters) gate_env" where
  "demo_gate_env = \<lparr>ge_policies = Some demo_cel, ge_hooks = Some new_hook_chain, ge_wasm = None,
     ge_counters = Some gateway_counters\<rparr>"

lemma demo_gate_pass:
  "gate_call demo_gate_env (Some demo_gate_sn) demo_call () (demo_pg, demo_rd) = (None, demo_call, (), (demo_pg, demo_charged))"
  by code_simp

lemma demo_gate_refuse:
  "gate_call demo_gate_env (Some demo_gate_sn) demo_call () (demo_pg, demo_charged) =
     (Some (write_call_deny [] (hook_deny 429 ''insufficient_quota'' ''quota exceeded'') demo_call), demo_call, (),
      (demo_pg, demo_charged))"
  by code_simp

lemma demo_bind:
  "bind_provider_secret builtin_registry (Some demo_cel) (Some (\<lambda>c. Inr (''sk-'' @ cr_id c))) (Some demo_gate_sn)
     (demo_provider ''pa'' ''openai'') demo_key demo_req =
   Inr ((demo_provider ''pa'' ''openai'')\<lparr>pv_inline_api_key := ''sk-c1''\<rparr>, ''c1'')"
  by code_simp

section \<open>Properties of the gate\<close>

lemma policy_before_call_pass:
  assumes "policy_before_call (Some cel) (Some sn) call = (r, call')" and "\<not> hook_stops r"
    and "sn_policies sn \<noteq> []"
  obtains d where
    "policy_apply cel (sn_policies sn) (policy_key (cx_principal call)) (call_cel_request call) blank_credential = Inr d"
    and "de_allowed d"
  using assms
  by (auto simp: policy_before_call_def Let_def hook_stops_def policy_denied_def hook_deny_def
      split: sum.splits if_splits)

lemma quota_before_call_pass:
  assumes "quota_before_call (Some c) (Some sn) call s = (r, s')" and "\<not> hook_stops r"
  shows "check_and_incr_requests (Some c) (Some sn) (policy_key (cx_principal call)) s = (Inr False, s')"
  using assms by (auto simp: quota_before_call_def hook_stops_def hook_deny_def split: prod.splits sum.splits if_splits)

lemma quota_before_call_state:
  assumes "quota_before_call c snap call s = (r, s')" and "s' \<noteq> s"
  shows "snd (check_and_incr_requests c snap (policy_key (cx_principal call)) s) = s'"
  using assms by (auto simp: quota_before_call_def split: prod.splits sum.splits if_splits)

text \<open>The gate as the sequence of its four decisions.\<close>

lemma gate_call_cases:
  assumes "gate_call env snap call h s = (out, call', h', s')"
  obtains (region) "\<not> allows_organization snap (pr_organization_id (cx_principal call))" "out \<noteq> None" "s' = s" "h' = h"
  | (policy) r where "policy_before_call (ge_policies env) snap call = (r, call')" "hook_stops r" "out \<noteq> None" "s' = s" "h' = h"
  | (hooks) "out \<noteq> None" "s' = s"
  | (quota) r1 call1 r2 call2 h2 r3 r4 where
      "allows_organization snap (pr_organization_id (cx_principal call))"
      "policy_before_call (ge_policies env) snap call = (r1, call1)" "\<not> hook_stops r1"
      "run_before_call (ge_hooks env) call1 h = (r2, call2, h2)" "\<not> hook_stops r2"
      "wasm_before_call (ge_wasm env) snap call2 h2 = (r3, call', h')" "\<not> hook_stops r3"
      "quota_before_call (ge_counters env) snap call' s = (r4, s')" "out = decide_response r4 call'"
proof (cases "allows_organization snap (pr_organization_id (cx_principal call))")
  case False
  with assms show ?thesis by (intro region) (auto simp: gate_call_def)
next
  case True
  obtain r1 call1 where p: "policy_before_call (ge_policies env) snap call = (r1, call1)" by (meson surj_pair)
  obtain r2 call2 h2 where b: "run_before_call (ge_hooks env) call1 h = (r2, call2, h2)" by (metis prod_cases3)
  obtain r3 call3 h3 where w: "wasm_before_call (ge_wasm env) snap call2 h2 = (r3, call3, h3)" by (metis prod_cases3)
  obtain r4 s4 where q: "quota_before_call (ge_counters env) snap call3 s = (r4, s4)" by (meson surj_pair)
  show ?thesis
  proof (cases "decide_response r1 call1")
    case (Some a)
    then have st: "hook_stops r1" using decide_response_iff [of r1 call1] by simp
    have "out = Some a \<and> call' = call1 \<and> s' = s \<and> h' = h"
      using assms True p Some unfolding gate_call_def by simp
    then show ?thesis using p st by (intro policy) auto
  next
    case n1: None
    show ?thesis
    proof (cases "decide_response r2 call2")
      case (Some a)
      have "out = Some a \<and> s' = s" using assms True p b n1 Some unfolding gate_call_def by simp
      then show ?thesis by (intro hooks) auto
    next
      case n2: None
      show ?thesis
      proof (cases "decide_response r3 call3")
        case (Some a)
        have "out = Some a \<and> s' = s" using assms True p b w n1 n2 Some unfolding gate_call_def by simp
        then show ?thesis by (intro hooks) auto
      next
        case n3: None
        have "gate_call env snap call h s = (decide_response r4 call3, call3, h3, s4)"
          using True p b w q n1 n2 n3 unfolding gate_call_def by simp
        with assms have e: "out = decide_response r4 call3" "call' = call3" "h' = h3" "s' = s4" by auto
        show ?thesis
          by (rule quota [of r1 call1 r2 call2 h2 r3 r4])
            (use True p b w q n1 n2 n3 in \<open>simp_all add: e decide_response_iff\<close>)
      qed
    qed
  qed
qed



lemma gateway_denied_state:
  assumes "check_and_incr_requests (Some gateway_counters) snap key s = (Inr True, s')"
    and "\<forall>q\<in>set (request_quotas snap key). gateway_good (quota_ckey q)"
  shows "s' = s"
  using gateway.denied [OF assms(1)] assms(2) by (simp add: request_quotas_hits)

lemma quota_before_call_denied:
  assumes "quota_before_call c snap call s = (r, s')" and "s' \<noteq> s" and "hook_stops r"
  shows "(\<exists>e. check_and_incr_requests c snap (policy_key (cx_principal call)) s = (Inl e, s')) \<or>
    check_and_incr_requests c snap (policy_key (cx_principal call)) s = (Inr True, s')"
  using assms
  by (auto simp: quota_before_call_def hook_stops_def hook_allow_def split: prod.splits sum.splits if_splits)

text \<open>
  A refused call costs nothing: whichever check refuses (region, policy, a hook, a sandboxed
  hook or an exhausted quota), the counters are as before the call; only a failing counter store
  can leave some of its own increments behind.
\<close>

theorem gate_refusal_uncharged:
  assumes "gate_call env snap call h s = (Some resp, call', h', s')"
    and "ge_counters env = Some gateway_counters"
    and "\<forall>q\<in>set (request_quotas snap (policy_key (cx_principal call'))). gateway_good (quota_ckey q)"
  shows "s' = s \<or>
    (\<exists>e. check_and_incr_requests (Some gateway_counters) snap (policy_key (cx_principal call')) s = (Inl e, s'))"
  using assms(1)
proof (cases rule: gate_call_cases)
  case (quota r1 call1 r2 call2 h2 r3 r4)
  have "hook_stops r4" using quota(9) decide_response_iff [of r4 call'] by auto
  then show ?thesis
    using quota_before_call_denied [OF quota(8)] gateway_denied_state [OF _ assms(3)] assms(2) by (metis (no_types))
qed auto

theorem gate_refusal_uncharged_witness:
  "\<exists>resp s'. gate_call demo_gate_env (Some demo_gate_sn) demo_call () (demo_pg, demo_charged) =
       (Some resp, demo_call, (), s') \<and>
     (s' = (demo_pg, demo_charged) \<or>
      (\<exists>e. check_and_incr_requests (Some gateway_counters) (Some demo_gate_sn) (policy_key (cx_principal demo_call))
        (demo_pg, demo_charged) = (Inl e, s')))"
proof (intro exI conjI)
  show "(demo_pg, demo_charged) = (demo_pg, demo_charged) \<or>
      (\<exists>e. check_and_incr_requests (Some gateway_counters) (Some demo_gate_sn) (policy_key (cx_principal demo_call))
        (demo_pg, demo_charged) = (Inl e, (demo_pg, demo_charged)))"
  proof (rule gate_refusal_uncharged [OF demo_gate_refuse])
    show "ge_counters demo_gate_env = Some gateway_counters" by (simp add: demo_gate_env_def)
    show "\<forall>q\<in>set (request_quotas (Some demo_gate_sn) (policy_key (cx_principal demo_call))). gateway_good (quota_ckey q)"
      by code_simp
  qed
qed (rule demo_gate_refuse)

section \<open>Properties of the credential binding\<close>

lemma env_fallback_cases:
  "env_fallback reg prov =
     (if trim_space (pv_api_key_env prov) \<noteq> [] \<or> allows_empty_api_key reg (pv_type prov) then Inr (prov, [])
      else Inl no_credential_error)"
  by (simp add: env_fallback_def)

lemma bind_override_allowed:
  assumes "bind_override (Some cel) sn prov key req = Inr name" and "sn_policies sn \<noteq> []"
  obtains d where "policy_apply cel (sn_policies sn) key req blank_credential = Inr d" and "de_allowed d"
  using assms by (auto simp: bind_override_def bind_res_def split: sum.splits if_splits)

lemma resolve_override_hit:
  assumes "trim_space name \<noteq> []" and "resolve_credential_for_call (Some sn) pt key name = r"
  shows "r = CredMissingOverride \<or>
    (\<exists>c\<in>set (map snd (sn_credentials sn)). r = CredHit c \<and> cr_status c = StatusActive \<and>
       cr_organization_id c = trim_space (ak_organization_id key) \<and>
       cr_provider_type c = trim_space pt \<and> cr_name c = trim_space name)"
proof (cases "lookup_credential_by_name (Some sn) (ak_organization_id key) pt (trim_space name)")
  case None
  then show ?thesis using assms by (simp add: resolve_credential_for_call_def Let_def)
next
  case (Some c)
  then have "r = CredHit c" using assms by (simp add: resolve_credential_for_call_def Let_def)
  moreover note lookup_credential_by_name_SomeD [OF Some]
  ultimately show ?thesis by (auto simp: credential_matches_def)
qed



end
