(* ===== verification/Chat_Exec.thy ===== *)
theory Chat_Exec
  imports Call_Gate Routing
begin

text \<open>
  The chat handler: \<^verbatim>\<open>src/internal/dataplane/chat_exec.go\<close>, the route attempts and usage recording
  of \<^verbatim>\<open>pipeline.go\<close> and the retry helpers of \<^verbatim>\<open>retry.go\<close>. Everything outside the process (the
  upstream vendors, the clock, a cancelled request) is a world \<open>'u\<close>; a provider adapter is a
  function of that world, the codecs of the client dialects are records of functions, and the
  handler returns \<open>None\<close> when it never returns.
\<close>

section \<open>Codecs and adapters\<close>

text \<open>\<^verbatim>\<open>dialect.Codec\<close>; writing a stream yields what was written, the tokens and the error.\<close>

record 'w codec =
  cd_decode_request :: "string \<Rightarrow> chat_request res"
  cd_encode_response :: "chat_response \<Rightarrow> string res"
  cd_write_stream :: "events \<Rightarrow> ('w \<times> int \<times> int \<times> err option) option"

record 'w codecs =
  cs_openai :: "'w codec"
  cs_anthropic :: "'w codec"
  cs_gemini :: "'w codec"

definition codec_for :: "'w codecs \<Rightarrow> string \<Rightarrow> 'w codec res" where
  "codec_for cs d =
     (if d = DialectOpenAI then Inr (cs_openai cs)
      else if d = DialectAnthropic then Inr (cs_anthropic cs)
      else if d = DialectGemini then Inr (cs_gemini cs)
      else Inl (Err ErrOther ''unsupported dialect''))"

text \<open>The OpenAI writer, over a client connection that accepts the writes of \<open>ok\<close>.\<close>

definition openai_write_stream :: "(nat \<Rightarrow> bool) \<Rightarrow> events \<Rightarrow> (sse list \<times> int \<times> int \<times> err option) option" where
  "openai_write_stream ok evs =
     map_option (\<lambda>(st, e). (ss_out st, ss_prompt st, ss_completion st, e)) (write_stream ok evs)"

type_synonym upstream_reply = "chat_result \<times> call_error option"

datatype 'u adapter =
    OtherAdapter
  | ChatIR "provider \<Rightarrow> string \<Rightarrow> chat_request \<Rightarrow> (string, string) gomap \<Rightarrow> 'u \<Rightarrow> upstream_reply \<times> 'u"

definition call_provider_ir ::
  "registry \<Rightarrow> (string \<Rightarrow> 'u adapter option) option \<Rightarrow> provider \<Rightarrow> string \<Rightarrow> chat_request \<Rightarrow> call_context \<Rightarrow> 'u \<Rightarrow>
   upstream_reply \<times> 'u" where
  "call_provider_ir specs providers prov target req call u =
     (let refuse = (\<lambda>e. ((zero_chat_result, Some e), u)) in
      case providers of None \<Rightarrow> refuse (OtherError ''provider registry not configured'') | Some get \<Rightarrow>
      (case get (pv_type prov) of
         None \<Rightarrow> refuse (OtherError (''unsupported provider type '' @ [CHR 0x22] @ pv_type prov @ [CHR 0x22]))
       | Some ad \<Rightarrow>
           let caps = normalize_capabilities specs (pv_type prov) (pv_capabilities prov) in
           if cq_stream req \<and> \<not> cap_stream caps then refuse StreamUnsupported
           else if \<not> cap_chat caps then
             refuse (OtherError (''chat is not supported for provider type '' @ [CHR 0x22] @ pv_type prov @ [CHR 0x22]))
           else (case ad of
               OtherAdapter \<Rightarrow> refuse (OtherError (''provider type '' @ [CHR 0x22] @ pv_type prov @ [CHR 0x22] @
                 '' does not implement ChatIR''))
             | ChatIR chat \<Rightarrow> chat prov target req (cx_request_headers call) u)))"

section \<open>Route attempts\<close>

record route_attempt =
  ra_provider :: provider
  ra_target_model :: string

definition fallback_candidate :: "snapshot \<Rightarrow> route \<Rightarrow> route_target \<Rightarrow> candidate option" where
  "fallback_candidate snap r fb =
     (case gm_get (sn_providers snap) (rt_provider_id fb) of None \<Rightarrow> None | Some prov \<Rightarrow>
        Some \<lparr>cd_provider_id = rt_provider_id fb, cd_provider_type = pv_type prov,
          cd_target_model = (if rt_target_model fb = [] then ro_target_model r else rt_target_model fb),
          cd_weight = rt_weight fb\<rparr>)"

definition route_candidates :: "snapshot \<Rightarrow> route \<Rightarrow> provider \<Rightarrow> candidate list" where
  "route_candidates snap r primary =
     \<lparr>cd_provider_id = pv_id primary, cd_provider_type = pv_type primary,
      cd_target_model = ro_target_model r, cd_weight = ro_weight r\<rparr> #
     List.map_filter (fallback_candidate snap r) (ro_fallbacks r)"

definition candidate_attempt :: "snapshot \<Rightarrow> candidate \<Rightarrow> route_attempt option" where
  "candidate_attempt snap c =
     map_option (\<lambda>prov. \<lparr>ra_provider = prov, ra_target_model = cd_target_model c\<rparr>)
       (gm_get (sn_providers snap) (cd_provider_id c))"

definition build_attempts ::
  "registry \<Rightarrow> entries \<Rightarrow> (int \<Rightarrow> int) \<Rightarrow> signal_state option \<Rightarrow> snapshot \<Rightarrow> route \<Rightarrow> provider \<Rightarrow> route_attempt list" where
  "build_attempts specs es draw signals snap r primary =
     List.map_filter (candidate_attempt snap)
       (selector_order specs es draw (for_strategy (ro_routing_strategy r) (map_option sig_latency_ewma signals))
         (route_candidates snap r primary))"

definition should_failover_status :: "int \<Rightarrow> bool" where
  "should_failover_status code \<longleftrightarrow> code \<ge> 500 \<or> code = 429"

definition should_failover_error :: "call_error option \<Rightarrow> bool" where
  "should_failover_error e \<longleftrightarrow> e \<noteq> None \<and> e \<noteq> Some StreamUnsupported"

definition max_tries_for :: "retry_config option \<Rightarrow> int" where
  "max_tries_for cfg =
     (case cfg of None \<Rightarrow> 1 | Some c \<Rightarrow> if rc_max_attempts c < 1 then 1 else rc_max_attempts c)"

section \<open>The environment\<close>

record ('h, 's, 'r, 'u, 'w) exec_env =
  ex_gate :: "('h, 's) gate_env"
  ex_specs :: registry
  ex_entries :: entries
  ex_sha :: "string \<Rightarrow> string"
  ex_sig :: sig_lib
  ex_replay :: "(gotime \<Rightarrow> string \<Rightarrow> duration \<Rightarrow> 'r \<Rightarrow> bool res \<times> 'r) option"
  ex_codecs :: "'w codecs"
  ex_bridge :: "chat_request \<Rightarrow> string option"
  ex_opener :: "(credential \<Rightarrow> string res) option"
  ex_providers :: "(string \<Rightarrow> 'u adapter option) option"
  ex_parse_json :: "string \<Rightarrow> json option"
  ex_overflow :: "rat \<Rightarrow> int"
  ex_draw :: "int \<Rightarrow> int"
  ex_now :: "'u \<Rightarrow> gotime"
  ex_wait :: "duration \<Rightarrow> 'u \<Rightarrow> bool \<times> 'u"

text \<open>\<^verbatim>\<open>time.Since(start).Milliseconds()\<close>.\<close>

definition since_ms :: "('u \<Rightarrow> gotime) \<Rightarrow> gotime \<Rightarrow> 'u \<Rightarrow> int" where
  "since_ms now start u = trunc_div (now u - start) 1000000"

definition sleep_before_retry ::
  "(rat \<Rightarrow> int) \<Rightarrow> (duration \<Rightarrow> 'u \<Rightarrow> bool \<times> 'u) \<Rightarrow> retry_config option \<Rightarrow> int \<Rightarrow> 'u \<Rightarrow> bool \<times> 'u" where
  "sleep_before_retry ovf wait cfg n u =
     (if cfg = None \<or> n < 0 then (False, u)
      else let d = rc_delay ovf cfg n in if d \<le> 0 then (False, u) else wait d u)"

section \<open>The attempt loop\<close>

text \<open>
  The variables of the loop. \<open>lp_calls\<close> is not one of the code's: it records each call of
  \<^verbatim>\<open>callProviderIR\<close> with its answer.
\<close>

record 'u loop_state =
  lp_world :: 'u
  lp_signals :: "signal_state option"
  lp_result :: chat_result
  lp_last_err :: "call_error option"
  lp_provider :: "provider option"
  lp_target :: string
  lp_credential_id :: string
  lp_have_result :: bool
  lp_calls :: "(route_attempt \<times> upstream_reply) list"

definition loop_init :: "'u \<Rightarrow> signal_state option \<Rightarrow> 'u loop_state" where
  "loop_init u sigs =
     \<lparr>lp_world = u, lp_signals = sigs, lp_result = zero_chat_result, lp_last_err = None, lp_provider = None,
      lp_target = [], lp_credential_id = [], lp_have_result = False, lp_calls = []\<rparr>"

definition used_provider_type :: "'u loop_state \<Rightarrow> string" where
  "used_provider_type st = (case lp_provider st of None \<Rightarrow> [] | Some p \<Rightarrow> pv_type p)"

definition observe_route_attempt ::
  "('u \<Rightarrow> gotime) \<Rightarrow> route_attempt \<Rightarrow> gotime \<Rightarrow> bool \<Rightarrow> 'u loop_state \<Rightarrow> 'u loop_state" where
  "observe_route_attempt now a started failed st =
     st\<lparr>lp_signals := map_option (sig_observe (pv_id (ra_provider a)) (ra_target_model a)
          (since_ms now started (lp_world st)) failed) (lp_signals st)\<rparr>"

datatype verdict = Retry | NextTarget | StopLoop

text \<open>The request of the call as the loop sees it.\<close>

record chat_job =
  jb_snapshot :: snapshot
  jb_key :: api_key
  jb_request :: chat_request
  jb_call :: call_context
  jb_retry :: "retry_config option"

definition job_cel_request :: "chat_job \<Rightarrow> cel_request" where
  "job_cel_request job = \<lparr>rq_model = cq_model (jb_request job), rq_path = cx_path (jb_call job),
     rq_stream = cq_stream (jb_request job), rq_tags = cx_tags (jb_call job), rq_headers = cx_headers (jb_call job)\<rparr>"

definition answer_verdict :: "bool \<Rightarrow> bool \<Rightarrow> upstream_reply \<Rightarrow> verdict" where
  "answer_verdict retry_left others reply =
     (let failover = (if retry_left then Retry else if others then NextTarget else StopLoop) in
      case snd reply of
        Some e \<Rightarrow>
          if e = StreamUnsupported then StopLoop
          else if as_unsupported e \<noteq> None then StopLoop
          else if should_failover_error (Some e) then failover
          else StopLoop
      | None \<Rightarrow> if should_failover_status (rs_status_code (fst reply)) then failover else StopLoop)"

text \<open>One pass of the inner loop: pause, bind the secret, call, observe, decide.\<close>

definition one_try ::
  "('h, 's, 'r, 'u, 'w) exec_env \<Rightarrow> chat_job \<Rightarrow> route_attempt \<Rightarrow> bool \<Rightarrow> int \<Rightarrow> 'u loop_state \<Rightarrow> verdict \<times> 'u loop_state" where
  "one_try env job a others tried st0 =
     (case (if tried > 0 then sleep_before_retry (ex_overflow env) (ex_wait env) (jb_retry job) (tried - 1) (lp_world st0)
            else (False, lp_world st0)) of
        (True, u) \<Rightarrow> (StopLoop, st0\<lparr>lp_world := u, lp_last_err := Some (OtherError ''context canceled'')\<rparr>)
      | (False, u) \<Rightarrow>
          let st = st0\<lparr>lp_world := u\<rparr> in
          (case bind_provider_secret (ex_specs env) (ge_policies (ex_gate env)) (ex_opener env)
                  (Some (jb_snapshot job)) (ra_provider a) (jb_key job) (job_cel_request job) of
             Inl e \<Rightarrow>
               (if others then NextTarget else StopLoop, st\<lparr>lp_last_err := Some (OtherError (err_msg e))\<rparr>)
           | Inr (bound, cred_id) \<Rightarrow>
               let started = ex_now env u in
               (case call_provider_ir (ex_specs env) (ex_providers env) bound (ra_target_model a)
                       (jb_request job) (jb_call job) u of
                  (reply, u') \<Rightarrow>
                    let st1 = st\<lparr>lp_world := u', lp_provider := Some bound, lp_target := ra_target_model a,
                          lp_credential_id := cred_id, lp_result := fst reply, lp_last_err := snd reply,
                          lp_calls := lp_calls st @ [(a, reply)]\<rparr>;
                        st2 = (if snd reply = None then st1\<lparr>lp_have_result := True\<rparr> else st1);
                        failed = (snd reply \<noteq> None \<or> rs_status_code (fst reply) \<ge> 400)
                    in (answer_verdict (tried + 1 < max_tries_for (jb_retry job)) others reply,
                        observe_route_attempt (ex_now env) a started failed st2))))"

text \<open>The tries of one target; the flag tells that the outer loop is left.\<close>

fun try_loop ::
  "('h, 's, 'r, 'u, 'w) exec_env \<Rightarrow> chat_job \<Rightarrow> route_attempt \<Rightarrow> bool \<Rightarrow> nat \<Rightarrow> int \<Rightarrow> 'u loop_state \<Rightarrow> bool \<times> 'u loop_state" where
  "try_loop env job a others 0 tried st = (False, st)"
| "try_loop env job a others (Suc n) tried st =
     (case one_try env job a others tried st of
        (Retry, st') \<Rightarrow> try_loop env job a others n (tried + 1) st'
      | (NextTarget, st') \<Rightarrow> (False, st')
      | (StopLoop, st') \<Rightarrow> (True, st'))"

fun target_loop ::
  "('h, 's, 'r, 'u, 'w) exec_env \<Rightarrow> chat_job \<Rightarrow> route_attempt list \<Rightarrow> 'u loop_state \<Rightarrow> 'u loop_state" where
  "target_loop env job [] st = st"
| "target_loop env job (a # rest) st =
     (case try_loop env job a (rest \<noteq> []) (nat (max_tries_for (jb_retry job))) 0 st of
        (True, st') \<Rightarrow> st'
      | (False, st') \<Rightarrow> target_loop env job rest st')"

section \<open>The handler\<close>

datatype 'w chat_reply =
    ErrorReply http_response
  | StreamReply "(string, string) gomap" 'w
  | JsonReply "(string, string) gomap" string

record ('h, 's, 'r, 'u) gw_state =
  gw_hooks :: 'h
  gw_counters :: 's
  gw_replay :: 'r
  gw_world :: 'u
  gw_signals :: "signal_state option"
  gw_usage :: "usage_event list"

record chat_options =
  co_model :: string
  co_stream :: bool

definition no_options :: chat_options where
  "no_options = \<lparr>co_model = [], co_stream = False\<rparr>"

text \<open>What the client sent: the request and its body, or the failure to read it.\<close>

record client_request =
  cl_request :: http_request
  cl_body :: "string res"

definition limit_body :: "string \<Rightarrow> string" where
  "limit_body raw = take (8 * 1024 * 1024) raw"

lemma limit_body_code [code]: "limit_body raw = (if int (length raw) \<le> 8388608 then raw else take (nat 8388608) raw)"
  by (simp add: limit_body_def)

definition token_metrics :: "int \<Rightarrow> int \<Rightarrow> (string, goval) gomap" where
  "token_metrics prompt completion =
     (if prompt = 0 \<and> completion = 0 then []
      else [(''prompt_tokens'', GInt64 prompt), (''completion_tokens'', GInt64 completion)])"

definition usage_event_base :: "principal \<Rightarrow> string \<Rightarrow> usage_event" where
  "usage_event_base p cred_id =
     zero_usage_event\<lparr>ue_organization_id := pr_organization_id p, ue_project_id := pr_project_id p,
       ue_team_id := pr_team_id p, ue_environment_id := pr_environment_id p,
       ue_api_key_id := pr_api_key_id p, ue_signing_key_id := pr_signing_key_id p,
       ue_signer_key_id := pr_key_id p, ue_auth_method := pr_auth_method p,
       ue_credential_id := cred_id\<rparr>"

definition record_usage :: "usage_event \<Rightarrow> usage_event list \<Rightarrow> usage_event list" where
  "record_usage e sent = sent @ [mark_byok e]"

definition chat_usage ::
  "principal \<Rightarrow> 'u loop_state \<Rightarrow> chat_request \<Rightarrow> call_context \<Rightarrow> string \<Rightarrow> string \<Rightarrow> int \<Rightarrow> int \<Rightarrow> int \<Rightarrow> usage_event" where
  "chat_usage p st req call modality status latency prompt completion =
     (usage_event_base p (lp_credential_id st))\<lparr>ue_model := cq_model req, ue_provider_type := used_provider_type st,
       ue_target_model := lp_target st, ue_status := status, ue_latency_ms := latency,
       ue_prompt_tokens := prompt, ue_completion_tokens := completion, ue_modality := modality,
       ue_metrics := token_metrics prompt completion, ue_tags := clone_tags (cx_tags call)\<rparr>"

definition run_after_chat_for ::
  "'h hook_chain option \<Rightarrow> string \<Rightarrow> string \<Rightarrow> after_chat_info \<Rightarrow> 'h \<Rightarrow> 'h" where
  "run_after_chat_for hooks d modality info h =
     run_after_chat hooks (info\<lparr>at_dialect := d, at_modality := modality\<rparr>) h"

text \<open>Usage, after-call and after-chat hooks, in this order.\<close>

definition settle ::
  "('h, 's, 'r, 'u, 'w) exec_env \<Rightarrow> snapshot \<Rightarrow> principal \<Rightarrow> 'u loop_state \<Rightarrow> chat_request \<Rightarrow> call_context \<Rightarrow>
   string \<Rightarrow> string \<Rightarrow> string \<Rightarrow> int \<Rightarrow> int \<Rightarrow> gotime \<Rightarrow> ('h, 's, 'r, 'u) gw_state \<Rightarrow> ('h, 's, 'r, 'u) gw_state" where
  "settle env sn p st req call d modality status prompt completion start s =
     (let latency = since_ms (ex_now env) start (gw_world s);
          h1 = run_after_call_all (ex_gate env) (Some sn) call
            \<lparr>ai_status = status, ai_latency_ms = latency, ai_provider_type = used_provider_type st,
             ai_target_model = lp_target st, ai_prompt_tokens = prompt, ai_completion_tokens = completion\<rparr> (gw_hooks s);
          h2 = run_after_chat_for (ge_hooks (ex_gate env)) d modality
            \<lparr>at_model = cq_model req, at_status = status, at_latency_ms = latency,
             at_provider_type = used_provider_type st, at_target_model = lp_target st, at_dialect = [], at_modality = []\<rparr> h1
      in s\<lparr>gw_usage := record_usage (chat_usage p st req call modality status latency prompt completion) (gw_usage s),
           gw_hooks := h2\<rparr>)"

definition charge_tokens ::
  "('h, 's, 'r, 'u, 'w) exec_env \<Rightarrow> snapshot \<Rightarrow> api_key \<Rightarrow> int \<Rightarrow> ('h, 's, 'r, 'u) gw_state \<Rightarrow> ('h, 's, 'r, 'u) gw_state" where
  "charge_tokens env sn key n s =
     s\<lparr>gw_counters := incr_tokens (ge_counters (ex_gate env)) (Some sn) key n (gw_counters s)\<rparr>"

text \<open>The part after the loop; \<open>None\<close> when writing the stream never ends.\<close>

definition finish_chat ::
  "('h, 's, 'r, 'u, 'w) exec_env \<Rightarrow> 'w codec \<Rightarrow> string \<Rightarrow> string \<Rightarrow> principal \<Rightarrow> gotime \<Rightarrow> chat_job \<Rightarrow> 'u loop_state \<Rightarrow>
   ('h, 's, 'r, 'u) gw_state \<Rightarrow> ('w chat_reply \<times> ('h, 's, 'r, 'u) gw_state) option" where
  "finish_chat env codec d modality p start job st s =
     (let sn = jb_snapshot job; key = jb_key job; req = jb_request job; call = jb_call job;
          fail = (\<lambda>status msg typ s. Some (ErrorReply (write_error [] d status msg typ), s));
          done_ok = (\<lambda>status prompt completion s. settle env sn p st req call d modality status prompt completion start s)
      in
      if lp_last_err st \<noteq> None \<and> \<not> lp_have_result st then
        (case the (lp_last_err st) of
           StreamUnsupported \<Rightarrow> fail 400 (error_text StreamUnsupported) ''invalid_request_error'' s
         | Unsupported f m \<Rightarrow> fail 400 (unsupported_message f m) ''invalid_request_error'' s
         | OtherError m \<Rightarrow>
             fail 502 m ''server_error''
               (settle env sn p st req call d modality ''error'' 0 0 start s))
      else if \<not> lp_have_result st then fail 502 ''all upstream attempts failed'' ''server_error'' s
      else
        let result = lp_result st in
        if rs_status_code result \<ge> 400 then
          Some (ErrorReply (write_upstream_error (ex_parse_json env) (apply_response_headers call []) d
                  (rs_status_code result) (rs_error_body result)),
                done_ok ''upstream_error'' 0 0 s)
        else if cq_stream req then
          (case cd_write_stream codec (rs_events result) of
             None \<Rightarrow> None
           | Some (out, prompt, completion, err) \<Rightarrow>
               let s1 = (if prompt + completion > 0 then charge_tokens env sn key (prompt + completion) s else s) in
               Some (StreamReply (gm_put ''Cache-Control'' ''no-cache''
                       (gm_put ''Content-Type'' ''text/event-stream'' (apply_response_headers call []))) out,
                     done_ok (if err = None then ''ok'' else ''error'') prompt completion s1))
        else
          (case rs_response result of
             None \<Rightarrow> fail 502 ''empty upstream response'' ''server_error'' s
           | Some resp0 \<Rightarrow>
               let resp = (if cr_model resp0 = [] then resp0\<lparr>cr_model := lp_target st\<rparr> else resp0);
                   prompt = us_prompt (cr_usage resp); completion = us_completion (cr_usage resp)
               in
               (case cd_encode_response codec resp of
                  Inl e \<Rightarrow> fail 502 (err_msg e) ''server_error'' s
                | Inr encoded \<Rightarrow>
                    Some (JsonReply (gm_put ''Content-Type'' ''application/json'' (apply_response_headers call [])) encoded,
                      done_ok ''ok'' prompt completion (charge_tokens env sn key (prompt + completion) s)))))"

text \<open>The chat hooks: the registered ones, then the sandboxed ones of the organization.\<close>

definition run_chat_transforms ::
  "('h, 's, 'r, 'u, 'w) exec_env \<Rightarrow> snapshot \<Rightarrow> call_context \<Rightarrow> chat_request \<Rightarrow> 'h \<Rightarrow> chat_request res \<times> 'h" where
  "run_chat_transforms env sn call req h =
     (case run_before_chat (ge_hooks (ex_gate env)) req h of
        (Inl e, h1) \<Rightarrow> (Inl e, h1)
      | (Inr req1, h1) \<Rightarrow>
          wasm_before_chat (ge_wasm (ex_gate env)) (Some sn) (pr_organization_id (cx_principal call)) req1 h1)"

text \<open>From the admitted call to the end of the loop and the answer.\<close>

definition route_chat ::
  "('h, 's, 'r, 'u, 'w) exec_env \<Rightarrow> snapshot \<Rightarrow> 'w codec \<Rightarrow> string \<Rightarrow> string \<Rightarrow> principal \<Rightarrow> gotime \<Rightarrow> call_context \<Rightarrow>
   chat_request \<Rightarrow> ('h, 's, 'r, 'u) gw_state \<Rightarrow> ('w chat_reply \<times> ('h, 's, 'r, 'u) gw_state) option" where
  "route_chat env sn codec d modality p start call req s =
     (let key = policy_key p;
          fail = (\<lambda>status msg typ s. Some (ErrorReply (write_error [] d status msg typ), s))
      in
      case lookup_route (Some sn) (ak_organization_id key) (cq_model req) of
        None \<Rightarrow> fail 400 ''no route for model'' ''invalid_request_error'' s
      | Some (r, prov) \<Rightarrow>
          let attempts = build_attempts (ex_specs env) (ex_entries env) (ex_draw env) (gw_signals s) sn r prov in
          if attempts = [] then fail 400 ''no usable providers for route'' ''invalid_request_error'' s
          else
            (case run_chat_transforms env sn call req (gw_hooks s) of
               (Inl e, h1) \<Rightarrow> fail 400 (''chat hook failed: '' @ err_msg e) ''invalid_request_error'' (s\<lparr>gw_hooks := h1\<rparr>)
             | (Inr req1, h1) \<Rightarrow>
                 let req2 = req1\<lparr>cq_model := cx_model call, cq_stream := cx_stream call\<rparr>;
                     call2 = (case ex_bridge env req2 of Some b \<Rightarrow> call\<lparr>cx_body := b\<rparr> | None \<Rightarrow> call);
                     job = \<lparr>jb_snapshot = sn, jb_key = key, jb_request = req2, jb_call = call2,
                            jb_retry = resolve_retry (Some sn) r\<rparr>;
                     st = target_loop env job attempts (loop_init (gw_world s) (gw_signals s))
                 in finish_chat env codec d modality p start job st
                      (s\<lparr>gw_hooks := h1, gw_world := lp_world st, gw_signals := lp_signals st\<rparr>)))"

text \<open>The call the handler builds for the gate.\<close>

definition chat_call :: "string \<Rightarrow> string \<Rightarrow> principal \<Rightarrow> chat_request \<Rightarrow> http_request \<Rightarrow> string \<Rightarrow> call_context" where
  "chat_call d modality p req r body =
     (new_call_context p (cq_model req) (hr_path r) modality (cq_stream req) body (tags_from_request r))
       \<lparr>cx_headers := headers_for_policy (hr_headers r),
        cx_metadata := [(''dialect'', GStr d), (''client_body'', GOther)]\<rparr>"

definition apply_options :: "chat_options \<Rightarrow> chat_request \<Rightarrow> chat_request" where
  "apply_options opts req0 =
     (let req1 = (if co_model opts \<noteq> [] then req0\<lparr>cq_model := co_model opts\<rparr> else req0)
      in if co_stream opts then req1\<lparr>cq_stream := True\<rparr> else req1)"

definition execute_chat ::
  "('h, 's, 'r, 'u, 'w) exec_env \<Rightarrow> snapshot option \<Rightarrow> string \<Rightarrow> string \<Rightarrow> chat_options \<Rightarrow> client_request \<Rightarrow>
   ('h, 's, 'r, 'u) gw_state \<Rightarrow> ('w chat_reply \<times> ('h, 's, 'r, 'u) gw_state) option" where
  "execute_chat env snap d modality opts rq s =
     (let start = ex_now env (gw_world s);
          fail = (\<lambda>status msg typ s. Some (ErrorReply (write_error [] d status msg typ), s))
      in
      case codec_for (ex_codecs env) d of
        Inl e \<Rightarrow> Some (ErrorReply \<lparr>hp_status = 500, hp_headers = [(''Content-Type'', ''application/json'')],
            hp_body = JObj [(''error'', JObj [(''message'', JStr (err_msg e)), (''type'', JStr ''server_error'')])]\<rparr>, s)
      | Inr codec \<Rightarrow>
      (case snap of None \<Rightarrow> fail 503 ''no snapshot loaded'' ''server_error'' s | Some sn \<Rightarrow>
      (case cl_body rq of Inl _ \<Rightarrow> fail 400 ''failed to read body'' ''invalid_request_error'' s | Inr raw \<Rightarrow>
        let body = limit_body raw in
        (case authenticate_gateway_request (ex_sha env) (ex_sig env) (ex_replay env) start snap (cl_request rq) body
                (gw_replay s) of
           (Inl e, rep) \<Rightarrow> fail (auth_http_status e) (auth_err_message e) ''invalid_request_error'' (s\<lparr>gw_replay := rep\<rparr>)
         | (Inr p, rep) \<Rightarrow>
             let s1 = s\<lparr>gw_replay := rep\<rparr> in
             (case cd_decode_request codec body of
                Inl e \<Rightarrow> fail 400 (err_msg e) ''invalid_request_error'' s1
              | Inr req0 \<Rightarrow>
                  let req = apply_options opts req0;
                      call0 = chat_call d modality p req (cl_request rq) body
                  in
                  (case gate_call (ex_gate env) snap call0 (gw_hooks s1) (gw_counters s1) of
                     (Some resp, _, h, c) \<Rightarrow> Some (ErrorReply resp, s1\<lparr>gw_hooks := h, gw_counters := c\<rparr>)
                   | (None, call, h, c) \<Rightarrow>
                       route_chat env sn codec d modality p start call req (s1\<lparr>gw_hooks := h, gw_counters := c\<rparr>)))))))"

definition handle_chat_completions where
  "handle_chat_completions env snap rq s = execute_chat env snap DialectOpenAI ''chat'' no_options rq s"

definition handle_messages where
  "handle_messages env snap rq s = execute_chat env snap DialectAnthropic ''messages'' no_options rq s"

text \<open>The operation of a Gemini path.\<close>

definition parse_gemini_operation :: "string \<Rightarrow> (string \<times> bool) option" where
  "parse_gemini_operation op0 =
     (case cut_suffix op0 '':streamGenerateContent'' of
        (m, True) \<Rightarrow> Some (m, True)
      | (_, False) \<Rightarrow>
          (case cut_suffix op0 '':generateContent'' of
             (m, True) \<Rightarrow> Some (m, False)
           | (_, False) \<Rightarrow> None))"

definition handle_gemini_generate_content where
  "handle_gemini_generate_content env snap operation rq s =
     (case parse_gemini_operation operation of
        None \<Rightarrow> Some (ErrorReply (write_error [] DialectGemini 404
          (''unsupported Gemini operation '' @ [CHR 0x22] @ operation @ [CHR 0x22]) ''NOT_FOUND''), s)
      | Some (model, stream) \<Rightarrow>
          if model = [] then
            Some (ErrorReply (write_error [] DialectGemini 400 ''model route is required'' ''INVALID_ARGUMENT''), s)
          else execute_chat env snap DialectGemini ''generate_content'' \<lparr>co_model = model, co_stream = stream\<rparr> rq s)"


section \<open>Properties of the attempt loop\<close>

text \<open>The answers after which the loop may go on.\<close>

definition failover_reply :: "upstream_reply \<Rightarrow> bool" where
  "failover_reply reply \<longleftrightarrow>
     (case snd reply of
        Some e \<Rightarrow> e \<noteq> StreamUnsupported \<and> as_unsupported e = None
      | None \<Rightarrow> should_failover_status (rs_status_code (fst reply)))"

lemma answer_verdict_go_on: "answer_verdict rl others reply \<noteq> StopLoop \<Longrightarrow> failover_reply reply"
  by (auto simp: answer_verdict_def failover_reply_def Let_def split: option.splits if_splits)

lemma one_try_cases:
  assumes "one_try env job a others tried st = (v, st')"
  obtains (no_call) "lp_calls st' = lp_calls st" "v \<noteq> Retry"
  | (answer) reply where "lp_calls st' = lp_calls st @ [(a, reply)]" "v \<noteq> StopLoop \<Longrightarrow> failover_reply reply"
proof -
  obtain c u where sl: "(if tried > 0 then sleep_before_retry (ex_overflow env) (ex_wait env) (jb_retry job) (tried - 1) (lp_world st)
      else (False, lp_world st)) = (c, u)" by (meson surj_pair)
  show ?thesis
  proof (cases c)
    case True
    then show ?thesis using assms sl by (intro no_call) (auto simp: one_try_def)
  next
    case nc: False
    show ?thesis
    proof (cases "bind_provider_secret (ex_specs env) (ge_policies (ex_gate env)) (ex_opener env)
        (Some (jb_snapshot job)) (ra_provider a) (jb_key job) (job_cel_request job)")
      case (Inl e)
      then show ?thesis using assms sl nc by (intro no_call) (auto simp: one_try_def Let_def split: if_splits)
    next
      case (Inr b)
      obtain bound cid where b: "b = (bound, cid)" by (cases b)
      obtain reply u' where call: "call_provider_ir (ex_specs env) (ex_providers env) bound (ra_target_model a)
          (jb_request job) (jb_call job) u = (reply, u')" by (meson surj_pair)
      have v: "v = answer_verdict (tried + 1 < max_tries_for (jb_retry job)) others reply"
        and c: "lp_calls st' = lp_calls st @ [(a, reply)]"
        using assms sl nc Inr b call unfolding one_try_def
        by (auto simp: Let_def observe_route_attempt_def)
      show ?thesis by (rule answer [OF c]) (simp add: v answer_verdict_go_on)
    qed
  qed
qed

lemma try_loop_calls:
  "try_loop env job a others n tried st = (out, st') \<Longrightarrow>
   \<exists>replies. lp_calls st' = lp_calls st @ map (Pair a) replies \<and> length replies \<le> n \<and>
     (\<forall>r\<in>set (butlast replies). failover_reply r) \<and> (\<not> out \<longrightarrow> (\<forall>r\<in>set replies. failover_reply r))"
proof (induction n arbitrary: tried st)
  case (Suc n)
  obtain v st1 where one: "one_try env job a others tried st = (v, st1)" by (meson surj_pair)
  from one show ?case
  proof (cases rule: one_try_cases)
    case no_call
    then show ?thesis using Suc.prems one by (cases v) (auto intro: exI [of _ "[]"])
  next
    case (answer reply)
    show ?thesis
    proof (cases "v = Retry")
      case False
      then show ?thesis using Suc.prems one answer by (cases v) (auto intro: exI [of _ "[reply]"])
    next
      case True
      with Suc.prems one have "try_loop env job a others n (tried + 1) st1 = (out, st')" by simp
      from Suc.IH [OF this] obtain rs where rs: "lp_calls st' = lp_calls st1 @ map (Pair a) rs" "length rs \<le> n"
        "\<forall>r\<in>set (butlast rs). failover_reply r" "\<not> out \<longrightarrow> (\<forall>r\<in>set rs. failover_reply r)" by blast
      have "failover_reply reply" using answer(2) True by simp
      with rs answer(1) show ?thesis by (intro exI [of _ "reply # rs"]) auto
    qed
  qed
qed simp

text \<open>The calls of the whole loop: those of each attempt in turn.\<close>

lemma target_loop_calls:
  "\<exists>rss. length rss = length attempts \<and> (\<forall>rs\<in>set rss. length rs \<le> nat (max_tries_for (jb_retry job))) \<and>
     lp_calls (target_loop env job attempts st) =
       lp_calls st @ concat (map2 (\<lambda>a rs. map (Pair a) rs) attempts rss) \<and>
     (\<forall>r\<in>set (butlast (concat rss)). failover_reply r)"
proof (induction attempts arbitrary: st)
  case (Cons a rest)
  obtain out st1 where tl: "try_loop env job a (rest \<noteq> []) (nat (max_tries_for (jb_retry job))) 0 st = (out, st1)"
    by (meson surj_pair)
  obtain rs where rs: "lp_calls st1 = lp_calls st @ map (Pair a) rs" "length rs \<le> nat (max_tries_for (jb_retry job))"
    "\<forall>r\<in>set (butlast rs). failover_reply r" "\<not> out \<longrightarrow> (\<forall>r\<in>set rs. failover_reply r)"
    using try_loop_calls [OF tl] by blast
  show ?case
  proof (cases out)
    case True
    have z: "concat (map2 (\<lambda>a rs. map (Pair a) rs) rest (replicate (length rest) [])) = []"
      by (auto simp: set_zip)
    show ?thesis using True tl rs z by (intro exI [of _ "rs # replicate (length rest) []"]) auto
  next
    case False
    obtain rss where rss: "length rss = length rest" "\<forall>r\<in>set rss. length r \<le> nat (max_tries_for (jb_retry job))"
      "lp_calls (target_loop env job rest st1) = lp_calls st1 @ concat (map2 (\<lambda>a rs. map (Pair a) rs) rest rss)"
      "\<forall>r\<in>set (butlast (concat rss)). failover_reply r" using Cons.IH [of st1] by blast
    show ?thesis using False tl rs rss
      by (intro exI [of _ "rs # rss"]) (auto simp: butlast_append)
  qed
qed simp

text \<open>
  C20: Fail-over is bounded and ordered: the upstream calls of one request go through the route's
  attempts in their order, and each attempt is called at most as often as the retry policy allows,
  so there are at most (attempts) times (tries) calls in all.
\<close>

theorem failover_bounded:
  "\<exists>ns. length ns = length attempts \<and> list_all (\<lambda>n. n \<le> nat (max_tries_for (jb_retry job))) ns \<and>
     map fst (lp_calls (target_loop env job attempts (loop_init u sigs))) = concat (map2 replicate ns attempts) \<and>
     length (lp_calls (target_loop env job attempts (loop_init u sigs))) \<le>
       length attempts * nat (max_tries_for (jb_retry job))"
proof -
  let ?m = "nat (max_tries_for (jb_retry job))"
  obtain rss where rss: "length rss = length attempts" "\<forall>rs\<in>set rss. length rs \<le> ?m"
    "lp_calls (target_loop env job attempts (loop_init u sigs)) = concat (map2 (\<lambda>a rs. map (Pair a) rs) attempts rss)"
    using target_loop_calls [of attempts job env "loop_init u sigs"] by (auto simp: loop_init_def)
  have eq: "map fst (concat (map2 (\<lambda>a rs. map (Pair a) rs) attempts rss)) = concat (map2 replicate (map length rss) attempts)"
    using rss(1) by (induction rss attempts rule: list_induct2) (auto simp: comp_def map_replicate_const)
  have "length (concat (map2 (\<lambda>a rs. map (Pair a) rs) attempts rss)) \<le> length attempts * ?m"
    using rss(1,2) by (induction rss attempts rule: list_induct2) auto
  with rss eq show ?thesis by (intro exI [of _ "map length rss"]) (auto simp: list_all_iff)
qed

text \<open>
  No upstream is called after a decisive answer: every call but the last one was answered by
  a server error, by status 429 or by an error that is not the client's (an unsupported feature or
  stream never fails over).
\<close>

theorem no_call_after_decisive_answer:
  "list_all (\<lambda>c. failover_reply (snd c)) (butlast (lp_calls (target_loop env job attempts (loop_init u sigs))))"
proof -
  obtain rss where rss: "length rss = length attempts" "\<forall>r\<in>set (butlast (concat rss)). failover_reply r"
    "lp_calls (target_loop env job attempts (loop_init u sigs)) = concat (map2 (\<lambda>a rs. map (Pair a) rs) attempts rss)"
    using target_loop_calls [of attempts job env "loop_init u sigs"] by (auto simp: loop_init_def)
  have "map snd (concat (map2 (\<lambda>a rs. map (Pair a) rs) attempts rss)) = concat rss"
    using rss(1) by (induction rss attempts rule: list_induct2) (auto simp: comp_def)
  with rss have "map snd (butlast (lp_calls (target_loop env job attempts (loop_init u sigs)))) = butlast (concat rss)"
    by (simp add: map_butlast)
  with rss(2) show ?thesis unfolding list_all_iff by (metis image_eqI set_map)
qed


section \<open>Properties of the handler\<close>

definition first_try_binding ::
  "('h, 's, 'r, 'u, 'w) exec_env \<Rightarrow> chat_job \<Rightarrow> route_attempt \<Rightarrow> (provider \<times> string) res" where
  "first_try_binding env job a =
     bind_provider_secret (ex_specs env) (ge_policies (ex_gate env)) (ex_opener env) (Some (jb_snapshot job))
       (ra_provider a) (jb_key job) (job_cel_request job)"

lemma one_try_first:
  assumes "first_try_binding env job a = Inr (bound, cid)"
    and "call_provider_ir (ex_specs env) (ex_providers env) bound (ra_target_model a) (jb_request job) (jb_call job)
      (lp_world st) = (reply, u')"
  obtains st' where "one_try env job a others 0 st = (answer_verdict (1 < max_tries_for (jb_retry job)) others reply, st')"
    and "lp_world st' = u'" and "lp_result st' = fst reply" and "lp_last_err st' = snd reply"
    and "lp_have_result st' = (lp_have_result st \<or> snd reply = None)"
  using assms
  by (cases "snd reply") (auto simp: one_try_def first_try_binding_def Let_def observe_route_attempt_def)

text \<open>
  An error after a fail-over loses the answer. When the first target answers with a server
  error and the second one fails without an answer, the earlier answer is overwritten by the empty
  result although it still counts as one: a streaming client waits for ever on a stream nobody
  writes, another one is told "empty upstream response" instead of the error, and nothing is
  recorded: no usage event, no after-call hook.
\<close>

theorem error_after_failover_loses_answer:
  assumes "jb_retry job = None"
    and "first_try_binding env job a = Inr (pa, ca)" and "first_try_binding env job b = Inr (pb, cb)"
    and "call_provider_ir (ex_specs env) (ex_providers env) pa (ra_target_model a) (jb_request job) (jb_call job) u =
      ((res, None), u1)" and "should_failover_status (rs_status_code res)"
    and "call_provider_ir (ex_specs env) (ex_providers env) pb (ra_target_model b) (jb_request job) (jb_call job) u1 =
      ((zero_chat_result, Some (OtherError msg)), u2)"
    and "cd_write_stream codec None = None"
  shows "finish_chat env codec d modality p start job (target_loop env job [a, b] (loop_init u sigs)) s =
    (if cq_stream (jb_request job) then None
     else Some (ErrorReply (write_error [] d 502 ''empty upstream response'' ''server_error''), s))"
proof -
  have m: "max_tries_for (jb_retry job) = 1" using assms(1) by (simp add: max_tries_for_def)
  have w0: "lp_world (loop_init u sigs) = u" by (simp add: loop_init_def)
  obtain st1 where t1: "one_try env job a True 0 (loop_init u sigs) = (NextTarget, st1)"
    "lp_world st1 = u1" "lp_have_result st1"
    using one_try_first [OF assms(2), of "loop_init u sigs" "(res, None)" u1 True] assms(4,5) m w0
    by (auto simp: answer_verdict_def Let_def)
  obtain st2 where t2: "one_try env job b False 0 st1 = (StopLoop, st2)"
    "lp_result st2 = zero_chat_result" "lp_last_err st2 = Some (OtherError msg)" "lp_have_result st2"
    using one_try_first [OF assms(3), of st1 "(zero_chat_result, Some (OtherError msg))" u2 False] assms(6) m t1(2,3)
    by (auto simp: answer_verdict_def as_unsupported_def should_failover_error_def Let_def)
  have "target_loop env job [a, b] (loop_init u sigs) = st2"
    using t1(1) t2(1) m by (simp add: numeral_eq_Suc)
  then show ?thesis
    using t2(2,3,4) assms(7) by (simp add: finish_chat_def zero_chat_result_def Let_def)
qed

text \<open>A run of the handler that reaches an upstream or records usage went through all its checks.\<close>

lemma execute_chat_passed:
  assumes run: "execute_chat env snap d modality opts rq s = Some (out, s')"
    and used: "gw_world s' \<noteq> gw_world s \<or> gw_usage s' \<noteq> gw_usage s"
  obtains sn codec raw p rep req0 call h c where
    "snap = Some sn" "codec_for (ex_codecs env) d = Inr codec" "cl_body rq = Inr raw"
    "authenticate_gateway_request (ex_sha env) (ex_sig env) (ex_replay env) (ex_now env (gw_world s)) snap (cl_request rq)
       (limit_body raw) (gw_replay s) = (Inr p, rep)"
    "gate_call (ex_gate env) snap (chat_call d modality p (apply_options opts req0) (cl_request rq) (limit_body raw))
       (gw_hooks s) (gw_counters s) = (None, call, h, c)"
    "route_chat env sn codec d modality p (ex_now env (gw_world s)) call (apply_options opts req0)
       (s\<lparr>gw_replay := rep, gw_hooks := h, gw_counters := c\<rparr>) = Some (out, s')"
proof -
  obtain codec where codec: "codec_for (ex_codecs env) d = Inr codec"
    using run used by (cases "codec_for (ex_codecs env) d") (auto simp: execute_chat_def)
  obtain sn where sn: "snap = Some sn"
    using run used codec by (cases snap) (auto simp: execute_chat_def)
  obtain raw where raw: "cl_body rq = Inr raw"
    using run used codec sn by (cases "cl_body rq") (auto simp: execute_chat_def)
  obtain r rep where auth: "authenticate_gateway_request (ex_sha env) (ex_sig env) (ex_replay env)
      (ex_now env (gw_world s)) snap (cl_request rq) (limit_body raw) (gw_replay s) = (r, rep)" by (meson surj_pair)
  obtain p where p: "r = Inr p"
    using run used codec sn raw auth by (cases r) (auto simp: execute_chat_def Let_def)
  obtain req0 where req: "cd_decode_request codec (limit_body raw) = Inr req0"
    using run used codec sn raw auth p
    by (cases "cd_decode_request codec (limit_body raw)") (auto simp: execute_chat_def Let_def)
  obtain g call h c where gate: "gate_call (ex_gate env) snap
      (chat_call d modality p (apply_options opts req0) (cl_request rq) (limit_body raw)) (gw_hooks s) (gw_counters s) =
      (g, call, h, c)" by (metis prod_cases4)
  have ex: "execute_chat env snap d modality opts rq s =
      (case g of Some resp \<Rightarrow> Some (ErrorReply resp, s\<lparr>gw_replay := rep, gw_hooks := h, gw_counters := c\<rparr>)
       | None \<Rightarrow> route_chat env sn codec d modality p (ex_now env (gw_world s)) call (apply_options opts req0)
           (s\<lparr>gw_replay := rep, gw_hooks := h, gw_counters := c\<rparr>))"
    using codec sn raw auth p req gate unfolding execute_chat_def
    by (auto simp: Let_def split: option.splits)
  have "g = None" using run used ex by (cases g) auto
  with ex run codec sn raw auth p req gate that show ?thesis by (auto simp: Let_def)
qed


lemma settle_simps [simp]:
  "gw_usage (settle env sn p st req call d modality status prompt completion start s) =
     gw_usage s @ [mark_byok (chat_usage p st req call modality status (since_ms (ex_now env) start (gw_world s)) prompt completion)]"
  "gw_counters (settle env sn p st req call d modality status prompt completion start s) = gw_counters s"
  "gw_world (settle env sn p st req call d modality status prompt completion start s) = gw_world s"
  by (simp_all add: settle_def record_usage_def Let_def)

lemma charge_tokens_simps [simp]:
  "gw_usage (charge_tokens env sn key n s) = gw_usage s"
  "gw_world (charge_tokens env sn key n s) = gw_world s"
  "gw_counters (charge_tokens env sn key n s) = incr_tokens (ge_counters (ex_gate env)) (Some sn) key n (gw_counters s)"
  by (simp_all add: charge_tokens_def)

lemma incr_tokens_nonpos: "n \<le> 0 \<Longrightarrow> incr_tokens c sn key n s = s"
  by (simp add: incr_tokens_def split: option.splits)

text \<open>How a served answer came about: from a result that was had, with its usage settled.\<close>

lemma finish_chat_served:
  assumes fin: "finish_chat env codec d modality p start job st s = Some (out, s')" and ok: "\<forall>resp. out \<noteq> ErrorReply resp"
  obtains status prompt completion s1 where
    "s' = settle env (jb_snapshot job) p st (jb_request job) (jb_call job) d modality status prompt completion start s1"
    "gw_usage s1 = gw_usage s"
    "gw_counters s1 = incr_tokens (ge_counters (ex_gate env)) (Some (jb_snapshot job)) (jb_key job) (prompt + completion) (gw_counters s)"
proof -
  have have_r: "lp_have_result st"
  proof (rule ccontr)
    assume n: "\<not> lp_have_result st"
    show False using fin ok n by (cases "lp_last_err st"; cases "the (lp_last_err st)") (auto simp: finish_chat_def Let_def)
  qed
  have lt: "\<not> rs_status_code (lp_result st) \<ge> 400"
    using fin ok have_r by (auto simp: finish_chat_def Let_def)
  show ?thesis
  proof (cases "cq_stream (jb_request job)")
    case True
    obtain w prompt completion err where w: "cd_write_stream codec (rs_events (lp_result st)) = Some (w, prompt, completion, err)"
      using fin have_r lt True
      by (cases "cd_write_stream codec (rs_events (lp_result st))") (auto simp: finish_chat_def Let_def)
    let ?s1 = "if prompt + completion > 0 then charge_tokens env (jb_snapshot job) (jb_key job) (prompt + completion) s else s"
    have s': "s' = settle env (jb_snapshot job) p st (jb_request job) (jb_call job) d modality
        (if err = None then ''ok'' else ''error'') prompt completion start ?s1"
      using fin have_r lt True w unfolding finish_chat_def by (simp add: Let_def)
    show ?thesis by (rule that [OF s']) (auto simp: incr_tokens_nonpos)
  next
    case False
    obtain resp0 where r0: "rs_response (lp_result st) = Some resp0"
      using fin ok have_r lt False by (cases "rs_response (lp_result st)") (auto simp: finish_chat_def Let_def)
    let ?resp = "if cr_model resp0 = [] then resp0\<lparr>cr_model := lp_target st\<rparr> else resp0"
    obtain enc where e: "cd_encode_response codec ?resp = Inr enc"
      using fin ok have_r lt False r0
      by (cases "cd_encode_response codec ?resp") (auto simp: finish_chat_def Let_def)
    let ?p = "us_prompt (cr_usage ?resp)" and ?c = "us_completion (cr_usage ?resp)"
    have s': "s' = settle env (jb_snapshot job) p st (jb_request job) (jb_call job) d modality ''ok'' ?p ?c start
        (charge_tokens env (jb_snapshot job) (jb_key job) (?p + ?c) s)"
      using fin have_r lt False r0 e unfolding finish_chat_def by (simp add: Let_def)
    show ?thesis by (rule that [OF s']) simp_all
  qed
qed

lemma route_chat_served:
  assumes run: "route_chat env sn codec d modality p start call req s = Some (out, s')" and ok: "\<forall>resp. out \<noteq> ErrorReply resp"
  obtains job st s1 where "finish_chat env codec d modality p start job st s1 = Some (out, s')"
    "jb_snapshot job = sn" "jb_key job = policy_key p" "cq_model (jb_request job) = cx_model call"
    "cx_tags (jb_call job) = cx_tags call" "gw_counters s1 = gw_counters s" "gw_usage s1 = gw_usage s"
proof -
  obtain r prov where lr: "lookup_route (Some sn) (ak_organization_id (policy_key p)) (cq_model req) = Some (r, prov)"
    using run ok by (cases "lookup_route (Some sn) (ak_organization_id (policy_key p)) (cq_model req)")
      (auto simp: route_chat_def Let_def)
  let ?at = "build_attempts (ex_specs env) (ex_entries env) (ex_draw env) (gw_signals s) sn r prov"
  have ne: "?at \<noteq> []" using run ok lr by (auto simp: route_chat_def Let_def)
  obtain x h1 where tr: "run_chat_transforms env sn call req (gw_hooks s) = (x, h1)" by (meson surj_pair)
  obtain req1 where x: "x = Inr req1"
    using run ok lr ne tr by (cases x) (auto simp: route_chat_def Let_def)
  let ?req2 = "req1\<lparr>cq_model := cx_model call, cq_stream := cx_stream call\<rparr>"
  let ?job = "\<lparr>jb_snapshot = sn, jb_key = policy_key p, jb_request = ?req2,
    jb_call = (case ex_bridge env ?req2 of Some b \<Rightarrow> call\<lparr>cx_body := b\<rparr> | None \<Rightarrow> call), jb_retry = resolve_retry (Some sn) r\<rparr>"
  let ?st = "target_loop env ?job ?at (loop_init (gw_world s) (gw_signals s))"
  have "finish_chat env codec d modality p start ?job ?st
      (s\<lparr>gw_hooks := h1, gw_world := lp_world ?st, gw_signals := lp_signals ?st\<rparr>) = Some (out, s')"
    using run lr ne tr x unfolding route_chat_def by (simp add: Let_def)
  then show ?thesis by (rule that) (simp_all split: option.splits)
qed

text \<open>
  C16: A served call is metered exactly once. When the client got an answer (a body or a stream),
  the usage log grew by one event, of the authenticated principal's organization, project and key,
  for the model and the modality of the call, marked BYOK exactly when a credential was used, and
  the token counters were charged with the tokens of that very event.
\<close>

theorem served_call_metered_once:
  assumes "execute_chat env snap d modality opts rq s = Some (out, s')" and "\<forall>resp. out \<noteq> ErrorReply resp"
    and "gw_world s' \<noteq> gw_world s \<or> gw_usage s' \<noteq> gw_usage s"
  shows "\<exists>ev p rep body req call h c.
    authenticate_gateway_request (ex_sha env) (ex_sig env) (ex_replay env) (ex_now env (gw_world s)) snap (cl_request rq) body
      (gw_replay s) = (Inr p, rep) \<and>
    gate_call (ex_gate env) snap (chat_call d modality p req (cl_request rq) body) (gw_hooks s) (gw_counters s) = (None, call, h, c) \<and>
    gw_usage s' = gw_usage s @ [ev] \<and>
    ue_organization_id ev = pr_organization_id p \<and> ue_project_id ev = pr_project_id p \<and>
    ue_api_key_id ev = pr_api_key_id p \<and> ue_model ev = cx_model call \<and> ue_modality ev = modality \<and>
    (ue_used_byok ev \<longleftrightarrow> ue_credential_id ev \<noteq> []) \<and>
    gw_counters s' = incr_tokens (ge_counters (ex_gate env)) snap (policy_key p)
      (ue_prompt_tokens ev + ue_completion_tokens ev) c"
proof -
  obtain sn codec raw p rep req0 call h c where ps: "snap = Some sn"
    "authenticate_gateway_request (ex_sha env) (ex_sig env) (ex_replay env) (ex_now env (gw_world s)) snap (cl_request rq)
       (limit_body raw) (gw_replay s) = (Inr p, rep)"
    "gate_call (ex_gate env) snap (chat_call d modality p (apply_options opts req0) (cl_request rq) (limit_body raw))
       (gw_hooks s) (gw_counters s) = (None, call, h, c)"
    "route_chat env sn codec d modality p (ex_now env (gw_world s)) call (apply_options opts req0)
       (s\<lparr>gw_replay := rep, gw_hooks := h, gw_counters := c\<rparr>) = Some (out, s')"
    using execute_chat_passed [OF assms(1,3)] by metis
  obtain job st s1 where job: "finish_chat env codec d modality p (ex_now env (gw_world s)) job st s1 = Some (out, s')"
    "jb_snapshot job = sn" "jb_key job = policy_key p" "cq_model (jb_request job) = cx_model call"
    "gw_counters s1 = c" "gw_usage s1 = gw_usage s"
    by (rule route_chat_served [OF ps(4) assms(2)]) simp
  obtain status prompt completion s2 where fin:
    "s' = settle env (jb_snapshot job) p st (jb_request job) (jb_call job) d modality status prompt completion
       (ex_now env (gw_world s)) s2"
    "gw_usage s2 = gw_usage s1"
    "gw_counters s2 = incr_tokens (ge_counters (ex_gate env)) (Some (jb_snapshot job)) (jb_key job) (prompt + completion) (gw_counters s1)"
    using finish_chat_served [OF job(1) assms(2)] .
  let ?ev = "mark_byok (chat_usage p st (jb_request job) (jb_call job) modality status
    (since_ms (ex_now env) (ex_now env (gw_world s)) (gw_world s2)) prompt completion)"
  have "gw_usage s' = gw_usage s @ [?ev]" using fin job(6) by simp
  moreover have "gw_counters s' = incr_tokens (ge_counters (ex_gate env)) snap (policy_key p)
      (ue_prompt_tokens ?ev + ue_completion_tokens ?ev) c"
    using fin job ps(1) by (simp add: mark_byok_def chat_usage_def)
  moreover have "ue_organization_id ?ev = pr_organization_id p \<and> ue_project_id ?ev = pr_project_id p \<and>
      ue_api_key_id ?ev = pr_api_key_id p \<and> ue_model ?ev = cx_model call \<and> ue_modality ?ev = modality \<and>
      (ue_used_byok ?ev \<longleftrightarrow> ue_credential_id ?ev \<noteq> [])"
    by (simp add: mark_byok_def chat_usage_def usage_event_base_def job(4))
  ultimately show ?thesis using ps(2,3) by blast
qed

section \<open>Gemini operations\<close>

text \<open>
  Parsing a Gemini operation inverts printing it: an operation parses to a model and a
  streaming flag exactly when it is that model followed by the corresponding method, so a model
  name may itself contain colons, and no operation has two readings.
\<close>

theorem parse_gemini_operation_exact:
  "parse_gemini_operation op0 = Some (m, stream) \<longleftrightarrow>
     op0 = m @ (if stream then '':streamGenerateContent'' else '':generateContent'')"
proof (cases "cut_suffix op0 '':streamGenerateContent''")
  case s: (Pair ms bs)
  obtain mg bg where g: "cut_suffix op0 '':generateContent'' = (mg, bg)" by (meson surj_pair)
  have not_both: "\<not> (bs \<and> bg)"
  proof
    assume "bs \<and> bg"
    then have "op0 = ms @ '':streamGenerateContent''" "op0 = mg @ '':generateContent''"
      using s g by (simp_all add: cut_suffix_True)
    then have "rev (ms @ '':streamGenerateContent'') = rev (mg @ '':generateContent'')" by metis
    then show False by simp
  qed
  have st: "bs \<and> m = ms \<longleftrightarrow> op0 = m @ '':streamGenerateContent''"
    using s cut_suffix_True [of op0 "'':streamGenerateContent''" m] by (cases bs) auto
  have ge: "bg \<and> m = mg \<longleftrightarrow> op0 = m @ '':generateContent''"
    using g cut_suffix_True [of op0 "'':generateContent''" m] by (cases bg) auto
  have p: "parse_gemini_operation op0 = (if bs then Some (ms, True) else if bg then Some (mg, False) else None)"
    by (cases bs; cases bg) (simp_all add: parse_gemini_operation_def s g)
  show ?thesis
  proof (cases stream)
    case True
    then have "parse_gemini_operation op0 = Some (m, stream) \<longleftrightarrow> bs \<and> m = ms" using p by (cases bs; cases bg) auto
    with st True show ?thesis by simp
  next
    case False
    then have "parse_gemini_operation op0 = Some (m, stream) \<longleftrightarrow> bg \<and> m = mg"
      using p not_both by (cases bs; cases bg) auto
    with ge False show ?thesis by simp
  qed
qed


section \<open>A concrete gateway\<close>

text \<open>
  The world is the number of upstream calls made and the time; target \<open>''t1''\<close> answers 503,
  \<open>''t2''\<close> fails without an answer and any other target answers.
\<close>

definition demo_answer :: chat_result where
  "demo_answer = zero_chat_result\<lparr>rs_status_code := 200,
     rs_response := Some \<lparr>cr_resp_id = ''r1'', cr_model = [], cr_role = ''assistant'', cr_content = ''hi'', cr_tool_calls = [],
       cr_finish_reason = ''stop'', cr_usage = \<lparr>us_prompt = 3, us_completion = 4\<rparr>\<rparr>\<rparr>"

definition demo_adapter :: "nat adapter" where
  "demo_adapter = ChatIR (\<lambda>prov target req hdrs n.
     (if target = ''t1'' then (zero_chat_result\<lparr>rs_status_code := 503\<rparr>, None)
      else if target = ''t2'' then (zero_chat_result, Some (OtherError ''connection refused''))
      else (demo_answer, None), Suc n))"

definition demo_request_ir :: chat_request where
  "demo_request_ir = \<lparr>cq_model = ''m'', cq_messages = [], cq_system = [], cq_max_tokens = 0, cq_temperature = None,
     cq_top_p = None, cq_stream = False, cq_stop = [], cq_tools = [], cq_tool_choice = None\<rparr>"

definition demo_codec :: "bool \<Rightarrow> sse list codec" where
  "demo_codec stream = \<lparr>cd_decode_request = (\<lambda>body. Inr (demo_request_ir\<lparr>cq_stream := stream\<rparr>)),
     cd_encode_response = (\<lambda>resp. Inr (cr_content resp)), cd_write_stream = openai_write_stream (\<lambda>n. True)\<rparr>"

definition demo_env :: "bool \<Rightarrow> (unit, pg_counters \<times> redis_counters, replay_items, nat, sse list) exec_env" where
  "demo_env stream = \<lparr>ex_gate = \<lparr>ge_policies = None, ge_hooks = Some new_hook_chain, ge_wasm = None,
       ge_counters = Some gateway_counters\<rparr>,
     ex_specs = builtin_registry, ex_entries = [], ex_sha = demo_sha, ex_sig = demo_lib, ex_replay = Some mem_replay_use,
     ex_codecs = \<lparr>cs_openai = demo_codec stream, cs_anthropic = demo_codec stream, cs_gemini = demo_codec stream\<rparr>,
     ex_bridge = (\<lambda>req. None), ex_opener = None,
     ex_providers = Some (\<lambda>typ. if typ = ''openai'' then Some demo_adapter else None),
     ex_parse_json = (\<lambda>s. None), ex_overflow = (\<lambda>x. 0), ex_draw = (\<lambda>n. 0),
     ex_now = (\<lambda>n. int n), ex_wait = (\<lambda>d n. (False, n))\<rparr>"

definition demo_chat_route :: "string \<Rightarrow> string list \<Rightarrow> route" where
  "demo_chat_route target fallbacks = (demo_route ''o1'' ''m'' ''pa'')\<lparr>ro_target_model := target,
     ro_fallbacks := map (\<lambda>f. \<lparr>rt_provider_id = ''pa'', rt_target_model = f, rt_weight = 1\<rparr>) fallbacks\<rparr>"

definition demo_chat_snapshot :: "string \<Rightarrow> string list \<Rightarrow> snapshot" where
  "demo_chat_snapshot target fallbacks = demo_auth_snapshot
     \<lparr>sn_providers := [(''pa'', demo_provider ''pa'' ''openai'')],
      sn_routes := [(route_key ''o1'' ''m'', demo_chat_route target fallbacks)],
      sn_quotas := [demo_quota ''project'' ''p1'' 1]\<rparr>"

definition demo_gw :: "(unit, pg_counters \<times> redis_counters, replay_items, nat) gw_state" where
  "demo_gw = \<lparr>gw_hooks = (), gw_counters = (demo_pg, demo_rd), gw_replay = [], gw_world = 0, gw_signals = None, gw_usage = []\<rparr>"

definition demo_client :: client_request where
  "demo_client = \<lparr>cl_request = demo_request, cl_body = Inr ''{}''\<rparr>"

definition demo_run where
  "demo_run stream target fallbacks =
     execute_chat (demo_env stream) (Some (demo_chat_snapshot target fallbacks)) DialectOpenAI ''chat'' no_options demo_client demo_gw"

text \<open>A fail-over that succeeds, and the lost answer from end to end.\<close>

lemma demo_served:
  "map_option (\<lambda>(out, s'). (out, gw_world s', map ue_target_model (gw_usage s'))) (demo_run False ''t1'' [''t3'']) =
     Some (JsonReply [(''Content-Type'', ''application/json'')] ''hi'', 2, [''t3''])"
  by code_simp

lemma demo_lost_answer:
  "demo_run True ''t1'' [''t2''] = None"
  "map_option (\<lambda>(out, s'). (out, gw_world s', gw_usage s')) (demo_run False ''t1'' [''t2'']) =
     Some (ErrorReply (write_error [] DialectOpenAI 502 ''empty upstream response'' ''server_error''), 2, [])"
  by code_simp+


lemma demo_served_run:
  obtains s' where "demo_run False ''t1'' [''t3''] = Some (JsonReply [(''Content-Type'', ''application/json'')] ''hi'', s')"
    and "gw_world s' \<noteq> gw_world demo_gw"
  using demo_served by (cases "demo_run False ''t1'' [''t3'']") (auto simp: demo_gw_def)


theorem served_call_metered_once_witness:
  "\<exists>s' ev. demo_run False ''t1'' [''t3''] = Some (JsonReply [(''Content-Type'', ''application/json'')] ''hi'', s') \<and>
     gw_usage s' = [ev] \<and> ue_modality ev = ''chat''"
proof -
  obtain s' where s': "demo_run False ''t1'' [''t3''] = Some (JsonReply [(''Content-Type'', ''application/json'')] ''hi'', s')"
    "gw_world s' \<noteq> gw_world demo_gw" by (rule demo_served_run)
  show ?thesis
    using served_call_metered_once [OF s'(1) [unfolded demo_run_def] _ disjI1 [OF s'(2)]] s'(1)
    by (auto simp: demo_gw_def)
qed

definition demo_job :: "bool \<Rightarrow> chat_job" where
  "demo_job stream = \<lparr>jb_snapshot = demo_chat_snapshot ''t1'' [''t2''], jb_key = demo_key,
     jb_request = demo_request_ir\<lparr>cq_stream := stream\<rparr>, jb_call = demo_call, jb_retry = None\<rparr>"

definition demo_attempt :: "string \<Rightarrow> route_attempt" where
  "demo_attempt target = \<lparr>ra_provider = demo_provider ''pa'' ''openai'', ra_target_model = target\<rparr>"

theorem error_after_failover_loses_answer_witness:
  "finish_chat (demo_env True) (demo_codec True) DialectOpenAI ''chat'' demo_principal 0 (demo_job True)
     (target_loop (demo_env True) (demo_job True) [demo_attempt ''t1'', demo_attempt ''t2''] (loop_init 0 None)) demo_gw = None"
proof -
  let ?p = "demo_provider ''pa'' ''openai''"
  have bind: "first_try_binding (demo_env True) (demo_job True) (demo_attempt target) = Inr (?p, [])" for target
    by (simp add: first_try_binding_def demo_env_def demo_job_def demo_attempt_def bind_provider_secret_def
        bind_override_def bind_res_def env_fallback_def demo_provider_def demo_chat_snapshot_def
        resolve_credential_for_call_def assigned_credential_def demo_auth_snapshot_def empty_snapshot_def
        demo_key_def zero_api_key_def Let_def) code_simp
  have caps: "normalize_capabilities builtin_registry ''openai'' no_caps = normalize_capabilities builtin_registry ''openai'' no_caps
    \<and> cap_stream (normalize_capabilities builtin_registry ''openai'' no_caps)
    \<and> cap_chat (normalize_capabilities builtin_registry ''openai'' no_caps)" by code_simp
  have c1: "call_provider_ir (ex_specs (demo_env True)) (ex_providers (demo_env True)) ?p (ra_target_model (demo_attempt ''t1''))
      (jb_request (demo_job True)) (jb_call (demo_job True)) 0 = ((zero_chat_result\<lparr>rs_status_code := 503\<rparr>, None), 1)"
    using caps by (simp add: call_provider_ir_def demo_env_def demo_provider_def demo_attempt_def demo_adapter_def Let_def)
  have c2: "call_provider_ir (ex_specs (demo_env True)) (ex_providers (demo_env True)) ?p (ra_target_model (demo_attempt ''t2''))
      (jb_request (demo_job True)) (jb_call (demo_job True)) 1 = ((zero_chat_result, Some (OtherError ''connection refused'')), 2)"
    using caps by (simp add: call_provider_ir_def demo_env_def demo_provider_def demo_attempt_def demo_adapter_def Let_def)
  show ?thesis
    using error_after_failover_loses_answer [OF _ bind bind c1 _ c2, of "demo_codec True" DialectOpenAI "''chat''" demo_principal 0 None demo_gw]
    by (simp add: demo_job_def should_failover_status_def demo_codec_def openai_write_stream_def write_stream_def)
qed

end
