(* ===== verification/Store.thy ===== *)
theory Store
  imports Kernel
begin

text \<open>
  Operations on a store: an operation of the repositories takes the state of the tables and gives
  a result, or an error, and the tables afterwards. An operation is one statement or one
  transaction; sequencing threads the tables and stops at the first error, keeping what was
  written before it.
\<close>

type_synonym ('a, 's) storeop = "'s \<Rightarrow> 'a res \<times> 's"

definition invalid_request :: "string \<Rightarrow> err" where
  "invalid_request msg = Err ErrInvalidRequest msg"

definition key_violation :: err where
  "key_violation = Err ErrOther ''duplicate key value violates unique constraint''"
definition foreign_key_violation :: err where
  "foreign_key_violation = Err ErrOther ''insert or update violates foreign key constraint''"

text \<open>A lookup by key: no row is \<^verbatim>\<open>kernel.ErrNotFound\<close>.\<close>

definition found :: "'a option \<Rightarrow> 'a res" where
  "found x = (case x of None \<Rightarrow> Inl (sentinel ErrNotFound) | Some v \<Rightarrow> Inr v)"

definition db_bind :: "('a, 's) storeop \<Rightarrow> ('a \<Rightarrow> ('b, 's) storeop) \<Rightarrow> ('b, 's) storeop" where
  "db_bind m f db = (case m db of (Inl e, db') \<Rightarrow> (Inl e, db') | (Inr x, db') \<Rightarrow> f x db')"

definition db_check :: "'a res \<Rightarrow> ('a \<Rightarrow> ('b, 's) storeop) \<Rightarrow> ('b, 's) storeop" where
  "db_check r f db = (case r of Inl e \<Rightarrow> (Inl e, db) | Inr x \<Rightarrow> f x db)"

text \<open>Sequencing: an operation keeps a predicate when its parts do.\<close>

lemma db_bind_keeps:
  "P (snd (m db)) \<Longrightarrow> (\<And>x db'. m db = (Inr x, db') \<Longrightarrow> P db' \<Longrightarrow> P (snd (f x db'))) \<Longrightarrow> P (snd (db_bind m f db))"
  by (auto simp: db_bind_def split: prod.splits sum.splits)

lemma db_check_keeps: "P db \<Longrightarrow> (\<And>x. r = Inr x \<Longrightarrow> P (snd (f x db))) \<Longrightarrow> P (snd (db_check r f db))"
  by (auto simp: db_check_def split: sum.splits)

lemma found_simps [simp, result_simps]:
  "found None = Inl (sentinel ErrNotFound)" "found (Some v) = Inr v"
  by (simp_all add: found_def)

lemma found_Inr_iff [result_simps]: "found x = Inr v \<longleftrightarrow> x = Some v"
  by (cases x) (simp_all add: found_def)

section \<open>Tables\<close>

text \<open>
  Rows are kept under their identifiers, and unique columns are unique: \<open>unique_on f\<close> is a unique
  index over the rows where \<open>f\<close> has a value.
\<close>

definition keyed_by :: "('v \<Rightarrow> 'k) \<Rightarrow> ('k, 'v) gomap \<Rightarrow> bool" where
  "keyed_by f m \<longleftrightarrow> gm_wf m \<and> (\<forall>i v. gm_get m i = Some v \<longrightarrow> f v = i)"

definition unique_on :: "('v \<Rightarrow> 'c option) \<Rightarrow> ('k, 'v) gomap \<Rightarrow> bool" where
  "unique_on f m \<longleftrightarrow>
     (\<forall>i j v w c. gm_get m i = Some v \<and> gm_get m j = Some w \<and> f v = Some c \<and> f w = Some c \<longrightarrow> i = j)"

lemma gm_get_filter:
  "gm_wf m \<Longrightarrow> gm_get (filter (\<lambda>(k, v). P v) m) k = Some v \<longleftrightarrow> gm_get m k = Some v \<and> P v"
proof -
  assume wf: "gm_wf m"
  then have "gm_wf (filter (\<lambda>(k, v). P v) m)" by (auto simp: gm_wf_def distinct_map_filter)
  then show ?thesis using wf by (simp add: gm_get_mem [symmetric])
qed

lemma gm_value: "gm_get m k = Some v \<Longrightarrow> v \<in> snd ` set m"
  by (force dest: map_of_SomeD)

lemma keyed_by_put: "keyed_by f m \<Longrightarrow> f v = k \<Longrightarrow> keyed_by f (gm_put k v m)"
  by (simp add: keyed_by_def)

lemma keyed_by_filter: "keyed_by f m \<Longrightarrow> keyed_by f (filter (\<lambda>(k, v). P v) m)"
  by (simp add: keyed_by_def gm_get_filter) (simp add: gm_wf_def distinct_map_filter)

lemma unique_on_put:
  "unique_on f m \<Longrightarrow> (\<And>i w. gm_get m i = Some w \<Longrightarrow> i \<noteq> k \<Longrightarrow> f v \<noteq> None \<Longrightarrow> f w \<noteq> f v) \<Longrightarrow> unique_on f (gm_put k v m)"
  unfolding unique_on_def gm_get_put by (metis option.distinct(1) option.inject)

lemma unique_on_filter: "gm_wf m \<Longrightarrow> unique_on f m \<Longrightarrow> unique_on f (filter (\<lambda>(k, v). P v) m)"
  unfolding unique_on_def gm_get_filter by blast

lemma unique_onD:
  "unique_on f m \<Longrightarrow> gm_get m i = Some v \<Longrightarrow> gm_get m j = Some w \<Longrightarrow> f v = f w \<Longrightarrow> f v \<noteq> None \<Longrightarrow> i = j"
  by (auto simp: unique_on_def)

lemma unique_on_update:
  "unique_on f m \<Longrightarrow> gm_get m k = Some v \<Longrightarrow> f w = f v \<or> f w = None \<Longrightarrow> unique_on f (gm_put k w m)"
  by (rule unique_on_put) (auto dest: unique_onD)

lemma keyed_by_del: "keyed_by f m \<Longrightarrow> keyed_by f (gm_del k m)"
  by (simp add: keyed_by_def)

lemma unique_on_del: "unique_on f m \<Longrightarrow> unique_on f (gm_del k m)"
  unfolding unique_on_def gm_get_del by (metis option.distinct(1))

lemma keyed_by_wf: "keyed_by f m \<Longrightarrow> gm_wf m"
  by (simp add: keyed_by_def)

lemma find_exists: "x \<in> set xs \<Longrightarrow> P x \<Longrightarrow> \<exists>y. find P xs = Some y \<and> y \<in> set xs \<and> P y"
  by (induction xs) auto

lemma find_row: "find P (map snd m) = Some v \<Longrightarrow> gm_wf m \<Longrightarrow> P v \<and> (\<exists>k. gm_get m k = Some v)"
proof -
  assume f: "find P (map snd m) = Some v" and wf: "gm_wf m"
  then obtain k where "(k, v) \<in> set m" by (auto simp: find_Some_iff in_set_conv_nth) (metis nth_mem prod.collapse)
  then show ?thesis using f wf by (auto simp: gm_get_mem find_Some_iff)
qed

end
