(* ===== verification/Tenancy.thy ===== *)
theory Tenancy
  imports Snapshot_Types Store
begin

text \<open>
  Organizations, teams, projects, environments and invites: the services and rules of
  \<^verbatim>\<open>src/internal/tenancy\<close> over the tables of \<^verbatim>\<open>src/internal/adapters/postgres\<close> (\<^verbatim>\<open>tenancy.go\<close>,
  \<^verbatim>\<open>invites.go\<close>, \<^verbatim>\<open>environments.go\<close>, \<^verbatim>\<open>migrate.go\<close>). A table is a map from its primary key; an
  insert checks the primary, unique and foreign keys of the schema. Connection failures are not
  modelled. Identifiers, raw tokens and the clock are arguments.
\<close>

section \<open>Roles\<close>

definition OrgRoleOwner :: string where "OrgRoleOwner = ''owner''"
definition OrgRoleAdmin :: string where "OrgRoleAdmin = ''admin''"
definition OrgRoleMember :: string where "OrgRoleMember = ''member''"

lemmas role_defs = OrgRoleOwner_def OrgRoleAdmin_def OrgRoleMember_def

definition validate_org_role :: "string \<Rightarrow> unit res" where
  "validate_org_role role =
     (if role = OrgRoleOwner \<or> role = OrgRoleAdmin \<or> role = OrgRoleMember then Inr ()
      else Inl (invalid_request ''role must be owner, admin, or member''))"

definition parse_org_role :: "string \<Rightarrow> string res" where
  "parse_org_role role = bind_res (validate_org_role role) (\<lambda>_. Inr role)"

definition validate_team_role :: "string \<Rightarrow> unit res" where
  "validate_team_role role =
     (if role = OrgRoleOwner \<or> role = OrgRoleAdmin \<or> role = OrgRoleMember then Inr ()
      else Inl (invalid_request ''role must be owner, admin, or member''))"

definition parse_team_role :: "string \<Rightarrow> string res" where
  "parse_team_role role = bind_res (validate_team_role role) (\<lambda>_. Inr role)"

definition role_is_admin :: "string \<Rightarrow> bool" where
  "role_is_admin r \<longleftrightarrow> r = OrgRoleOwner \<or> r = OrgRoleAdmin"

definition role_can_change_roles :: "string \<Rightarrow> bool" where
  "role_can_change_roles r \<longleftrightarrow> r = OrgRoleOwner"

definition team_role_is_manager :: "string \<Rightarrow> bool" where
  "team_role_is_manager r \<longleftrightarrow> r = OrgRoleOwner \<or> r = OrgRoleAdmin"

definition assert_sole_team_owner_safe :: "string \<Rightarrow> string \<Rightarrow> nat \<Rightarrow> unit res" where
  "assert_sole_team_owner_safe target_role new_role owner_count =
     (if target_role = OrgRoleOwner \<and> new_role \<noteq> OrgRoleOwner \<and> owner_count \<le> 1
      then Inl (invalid_request ''cannot demote the sole team owner'') else Inr ())"

definition assert_actor_can_change_roles :: "string \<Rightarrow> unit res" where
  "assert_actor_can_change_roles actor_role =
     (if \<not> role_can_change_roles actor_role then Inl (sentinel ErrUnauthorized) else Inr ())"

definition assert_sole_owner_safe :: "string \<Rightarrow> string \<Rightarrow> string \<Rightarrow> string \<Rightarrow> nat \<Rightarrow> unit res" where
  "assert_sole_owner_safe actor target target_role new_role owner_count =
     (if target = actor \<and> new_role \<noteq> OrgRoleOwner \<and> owner_count \<le> 1
      then Inl (invalid_request ''cannot demote the sole owner'')
      else if target_role = OrgRoleOwner \<and> new_role \<noteq> OrgRoleOwner \<and> owner_count \<le> 1 \<and> target \<noteq> actor
      then Inl (invalid_request ''cannot demote the sole owner'')
      else Inr ())"

definition should_demote_actor :: "string \<Rightarrow> string \<Rightarrow> string \<Rightarrow> bool" where
  "should_demote_actor actor target new_role \<longleftrightarrow> new_role = OrgRoleOwner \<and> target \<noteq> actor"

section \<open>Entities\<close>

record organization =
  og_id :: string
  og_name :: string
  og_created_at :: gotime

record team =
  tm_id :: string
  tm_organization_id :: string
  tm_name :: string
  tm_created_at :: gotime

record project =
  pj_id :: string
  pj_organization_id :: string
  pj_team_id :: string
  pj_name :: string
  pj_created_at :: gotime

record environment =
  ev_id :: string
  ev_organization_id :: string
  ev_project_id :: string
  ev_name :: string
  ev_slug :: string
  ev_created_at :: gotime

definition new_organization :: "string \<Rightarrow> string \<Rightarrow> gotime \<Rightarrow> organization res" where
  "new_organization i name0 now =
     (let name = trim_space name0 in
      if i = [] then Inl (invalid_request ''id required'')
      else if name = [] then Inl (invalid_request ''name required'')
      else Inr \<lparr>og_id = i, og_name = name, og_created_at = now\<rparr>)"

definition new_team :: "string \<Rightarrow> string \<Rightarrow> string \<Rightarrow> gotime \<Rightarrow> team res" where
  "new_team i org name0 now =
     (let name = trim_space name0 in
      if i = [] \<or> org = [] then Inl (invalid_request ''id and organization_id required'')
      else if name = [] then Inl (invalid_request ''name required'')
      else Inr \<lparr>tm_id = i, tm_organization_id = org, tm_name = name, tm_created_at = now\<rparr>)"

definition new_project :: "string \<Rightarrow> string \<Rightarrow> string \<Rightarrow> string \<Rightarrow> gotime \<Rightarrow> project res" where
  "new_project i org team name0 now =
     (let name = trim_space name0 in
      if i = [] \<or> org = [] then Inl (invalid_request ''id and organization_id required'')
      else if name = [] then Inl (invalid_request ''name required'')
      else Inr \<lparr>pj_id = i, pj_organization_id = org, pj_team_id = team, pj_name = name, pj_created_at = now\<rparr>)"

definition max_environment_slug_len :: nat where
  "max_environment_slug_len = 64"

definition normalize_environment_slug :: "string \<Rightarrow> string" where
  "normalize_environment_slug slug = to_lower (trim_space slug)"

definition slug_char :: "char \<Rightarrow> bool" where
  "slug_char c \<longleftrightarrow>
     (CHR ''a'' \<le> c \<and> c \<le> CHR ''z'') \<or> (CHR ''0'' \<le> c \<and> c \<le> CHR ''9'') \<or> c = CHR ''-'' \<or> c = CHR ''_''"

definition validate_environment_slug :: "string \<Rightarrow> unit res" where
  "validate_environment_slug slug0 =
     (let slug = normalize_environment_slug slug0 in
      if slug = [] then Inl (invalid_request ''slug is required'')
      else if length slug > max_environment_slug_len then Inl (invalid_request ''slug must be at most 64 characters'')
      else if list_all slug_char slug then Inr ()
      else Inl (invalid_request ''slug must be lowercase alphanumeric with - or _''))"

definition new_environment :: "string \<Rightarrow> string \<Rightarrow> string \<Rightarrow> string \<Rightarrow> string \<Rightarrow> gotime \<Rightarrow> environment res" where
  "new_environment i org proj name0 slug0 now =
     (let name = trim_space name0; slug = normalize_environment_slug slug0 in
      if i = [] \<or> org = [] \<or> proj = [] then Inl (invalid_request ''id, organization_id, and project_id required'')
      else if name = [] then Inl (invalid_request ''name required'')
      else bind_res (validate_environment_slug slug) (\<lambda>_.
        Inr \<lparr>ev_id = i, ev_organization_id = org, ev_project_id = proj, ev_name = name, ev_slug = slug, ev_created_at = now\<rparr>))"

section \<open>Tables\<close>

record user_row =
  ur_id :: string
  ur_email :: string
  ur_name :: string
  ur_role :: string
  ur_password_hash :: string

record invite =
  iv_id :: string
  iv_organization_id :: string
  iv_email :: string
  iv_role :: string
  iv_invited_by :: string
  iv_status :: string
  iv_expires_at :: gotime
  iv_created_at :: gotime
  iv_accepted_at :: "gotime option"
  iv_token_hash :: string

definition InviteStatusPending :: string where "InviteStatusPending = ''pending''"
definition InviteStatusAccepted :: string where "InviteStatusAccepted = ''accepted''"
definition InviteStatusRevoked :: string where "InviteStatusRevoked = ''revoked''"

lemmas invite_status_defs = InviteStatusPending_def InviteStatusAccepted_def InviteStatusRevoked_def

text \<open>Membership tables map a scope (organization or team) and a user to a role.\<close>

type_synonym member_rows = "(string \<times> string, string) gomap"

record tenancy_db =
  db_users :: "(string, user_row) gomap"
  db_orgs :: "(string, organization) gomap"
  db_org_members :: member_rows
  db_teams :: "(string, team) gomap"
  db_team_members :: member_rows
  db_projects :: "(string, project) gomap"
  db_environments :: "(string, environment) gomap"
  db_invites :: "(string, invite) gomap"

type_synonym 'a dbop = "tenancy_db \<Rightarrow> 'a res \<times> tenancy_db"

subsection \<open>Membership rows\<close>

definition member_role :: "member_rows \<Rightarrow> string \<Rightarrow> string \<Rightarrow> string option" where
  "member_role rows scope user = gm_get rows (scope, user)"

definition count_owners :: "member_rows \<Rightarrow> string \<Rightarrow> nat" where
  "count_owners rows scope = length (filter (\<lambda>((s, _), r). s = scope \<and> r = OrgRoleOwner) rows)"

text \<open>\<^verbatim>\<open>UPDATE ... SET role\<close>: no row, no change.\<close>

definition update_role :: "string \<Rightarrow> string \<Rightarrow> string \<Rightarrow> member_rows \<Rightarrow> member_rows" where
  "update_role scope user r rows = (if gm_get rows (scope, user) = None then rows else gm_put (scope, user) r rows)"

subsection \<open>Users\<close>

definition users_get_by_email :: "tenancy_db \<Rightarrow> string \<Rightarrow> user_row res" where
  "users_get_by_email db email = found (find (\<lambda>u. ur_email u = email) (map snd (db_users db)))"

definition users_create :: "user_row \<Rightarrow> unit dbop" where
  "users_create u db =
     (if gm_get (db_users db) (ur_id u) \<noteq> None \<or> (\<exists>v\<in>set (map snd (db_users db)). ur_email v = ur_email u)
      then (Inl key_violation, db)
      else (Inr (), db\<lparr>db_users := gm_put (ur_id u) u (db_users db)\<rparr>))"

subsection \<open>Organizations\<close>

definition orgs_get_member_role :: "tenancy_db \<Rightarrow> string \<Rightarrow> string \<Rightarrow> string res" where
  "orgs_get_member_role db user org = found (member_role (db_org_members db) org user)"

definition orgs_count_owners :: "tenancy_db \<Rightarrow> string \<Rightarrow> nat" where
  "orgs_count_owners db org = count_owners (db_org_members db) org"

definition orgs_create_with_owner :: "organization \<Rightarrow> string \<Rightarrow> unit dbop" where
  "orgs_create_with_owner og owner db =
     (if gm_get (db_orgs db) (og_id og) \<noteq> None then (Inl key_violation, db)
      else if gm_get (db_users db) owner = None then (Inl foreign_key_violation, db)
      else if gm_get (db_org_members db) (og_id og, owner) \<noteq> None then (Inl key_violation, db)
      else (Inr (), db\<lparr>db_orgs := gm_put (og_id og) og (db_orgs db),
              db_org_members := gm_put (og_id og, owner) OrgRoleOwner (db_org_members db)\<rparr>))"

definition orgs_add_member :: "string \<Rightarrow> string \<Rightarrow> string \<Rightarrow> unit dbop" where
  "orgs_add_member org user role db =
     (if gm_get (db_org_members db) (org, user) \<noteq> None then (Inr (), db)
      else if gm_get (db_orgs db) org = None \<or> gm_get (db_users db) user = None then (Inl foreign_key_violation, db)
      else (Inr (), db\<lparr>db_org_members := gm_put (org, user) role (db_org_members db)\<rparr>))"

definition orgs_apply_role_change :: "string \<Rightarrow> string \<Rightarrow> string \<Rightarrow> string \<Rightarrow> bool \<Rightarrow> tenancy_db \<Rightarrow> tenancy_db" where
  "orgs_apply_role_change org actor target role demote_actor db =
     (let db1 = (if demote_actor
                 then db\<lparr>db_org_members := update_role org actor OrgRoleAdmin (db_org_members db)\<rparr> else db)
      in db1\<lparr>db_org_members := update_role org target role (db_org_members db1)\<rparr>)"

record member =
  me_user_id :: string
  me_email :: string
  me_name :: string
  me_role :: string

definition member_row :: "tenancy_db \<Rightarrow> string \<Rightarrow> string \<Rightarrow> member option" where
  "member_row db user role =
     map_option (\<lambda>u. \<lparr>me_user_id = ur_id u, me_email = ur_email u, me_name = ur_name u, me_role = role\<rparr>)
       (gm_get (db_users db) user)"

definition orgs_get_member :: "tenancy_db \<Rightarrow> string \<Rightarrow> string \<Rightarrow> member res" where
  "orgs_get_member db org user =
     found (Option.bind (member_role (db_org_members db) org user) (member_row db user))"

subsection \<open>Teams\<close>

definition teams_org_id :: "tenancy_db \<Rightarrow> string \<Rightarrow> string res" where
  "teams_org_id db team = found (map_option tm_organization_id (gm_get (db_teams db) team))"

definition teams_get_member_role :: "tenancy_db \<Rightarrow> string \<Rightarrow> string \<Rightarrow> string res" where
  "teams_get_member_role db team user = found (member_role (db_team_members db) team user)"

definition teams_get_member :: "tenancy_db \<Rightarrow> string \<Rightarrow> string \<Rightarrow> member res" where
  "teams_get_member db team user =
     found (Option.bind (member_role (db_team_members db) team user) (member_row db user))"

definition teams_count_owners :: "tenancy_db \<Rightarrow> string \<Rightarrow> nat" where
  "teams_count_owners db team = count_owners (db_team_members db) team"

definition teams_create_with_owner :: "team \<Rightarrow> string \<Rightarrow> unit dbop" where
  "teams_create_with_owner t owner db =
     (if gm_get (db_teams db) (tm_id t) \<noteq> None then (Inl key_violation, db)
      else if gm_get (db_orgs db) (tm_organization_id t) = None \<or> gm_get (db_users db) owner = None
        then (Inl foreign_key_violation, db)
      else if gm_get (db_team_members db) (tm_id t, owner) \<noteq> None then (Inl key_violation, db)
      else (Inr (), db\<lparr>db_teams := gm_put (tm_id t) t (db_teams db),
              db_team_members := gm_put (tm_id t, owner) OrgRoleOwner (db_team_members db)\<rparr>))"

definition teams_add_member :: "string \<Rightarrow> string \<Rightarrow> string \<Rightarrow> unit dbop" where
  "teams_add_member team user role db =
     (if gm_get (db_team_members db) (team, user) \<noteq> None then (Inl key_violation, db)
      else if gm_get (db_teams db) team = None \<or> gm_get (db_users db) user = None then (Inl foreign_key_violation, db)
      else (Inr (), db\<lparr>db_team_members := gm_put (team, user) role (db_team_members db)\<rparr>))"

definition teams_remove_member :: "string \<Rightarrow> string \<Rightarrow> unit dbop" where
  "teams_remove_member team user db =
     (if gm_get (db_team_members db) (team, user) = None then (Inl (sentinel ErrNotFound), db)
      else (Inr (), db\<lparr>db_team_members := gm_del (team, user) (db_team_members db)\<rparr>))"

definition teams_set_member_role :: "string \<Rightarrow> string \<Rightarrow> string \<Rightarrow> unit dbop" where
  "teams_set_member_role team user role db =
     (if gm_get (db_team_members db) (team, user) = None then (Inl (sentinel ErrNotFound), db)
      else (Inr (), db\<lparr>db_team_members := update_role team user role (db_team_members db)\<rparr>))"

definition teams_list_by_org :: "tenancy_db \<Rightarrow> string \<Rightarrow> team list" where
  "teams_list_by_org db org = sort_key tm_created_at (filter (\<lambda>t. tm_organization_id t = org) (map snd (db_teams db)))"

definition teams_list_by_org_for_user :: "tenancy_db \<Rightarrow> string \<Rightarrow> string \<Rightarrow> team list" where
  "teams_list_by_org_for_user db org user =
     sort_key tm_created_at (filter (\<lambda>t. tm_organization_id t = org \<and>
       member_role (db_team_members db) (tm_id t) user \<noteq> None) (map snd (db_teams db)))"

subsection \<open>Projects and environments\<close>

definition projects_insert :: "project \<Rightarrow> unit dbop" where
  "projects_insert p db =
     (if gm_get (db_projects db) (pj_id p) \<noteq> None then (Inl key_violation, db)
      else if gm_get (db_orgs db) (pj_organization_id p) = None \<or>
              pj_team_id p \<noteq> [] \<and> gm_get (db_teams db) (pj_team_id p) = None
        then (Inl foreign_key_violation, db)
      else (Inr (), db\<lparr>db_projects := gm_put (pj_id p) p (db_projects db)\<rparr>))"

definition projects_org_id :: "tenancy_db \<Rightarrow> string \<Rightarrow> string res" where
  "projects_org_id db proj = found (map_option pj_organization_id (gm_get (db_projects db) proj))"

definition projects_list_by_org :: "tenancy_db \<Rightarrow> string \<Rightarrow> project list" where
  "projects_list_by_org db org =
     sort_key pj_created_at (filter (\<lambda>p. pj_organization_id p = org) (map snd (db_projects db)))"

definition projects_list_by_org_for_user :: "tenancy_db \<Rightarrow> string \<Rightarrow> string \<Rightarrow> project list" where
  "projects_list_by_org_for_user db org user =
     sort_key pj_created_at (filter (\<lambda>p. pj_organization_id p = org \<and>
       member_role (db_team_members db) (pj_team_id p) user \<noteq> None) (map snd (db_projects db)))"

definition environments_insert :: "environment \<Rightarrow> unit dbop" where
  "environments_insert e db =
     (if gm_get (db_environments db) (ev_id e) \<noteq> None \<or>
         (\<exists>f\<in>set (map snd (db_environments db)). ev_project_id f = ev_project_id e \<and> ev_slug f = ev_slug e)
      then (Inl key_violation, db)
      else if gm_get (db_orgs db) (ev_organization_id e) = None \<or> gm_get (db_projects db) (ev_project_id e) = None
        then (Inl foreign_key_violation, db)
      else (Inr (), db\<lparr>db_environments := gm_put (ev_id e) e (db_environments db)\<rparr>))"

subsection \<open>Invites\<close>

definition invites_get :: "tenancy_db \<Rightarrow> string \<Rightarrow> invite res" where
  "invites_get db i = found (gm_get (db_invites db) i)"

definition invites_get_pending :: "tenancy_db \<Rightarrow> string \<Rightarrow> string \<Rightarrow> invite res" where
  "invites_get_pending db org email =
     found (find (\<lambda>v. iv_organization_id v = org \<and> iv_email v = email \<and> iv_status v = InviteStatusPending)
       (map snd (db_invites db)))"

text \<open>The invite of a token, joined with its organization.\<close>

definition invites_get_by_token_hash :: "tenancy_db \<Rightarrow> string \<Rightarrow> (invite \<times> string) res" where
  "invites_get_by_token_hash db h =
     found (Option.bind (find (\<lambda>v. iv_token_hash v = h \<and> gm_get (db_orgs db) (iv_organization_id v) \<noteq> None)
         (map snd (db_invites db)))
       (\<lambda>v. map_option (\<lambda>og. (v, og_name og)) (gm_get (db_orgs db) (iv_organization_id v))))"

text \<open>The unique indexes: one row per token hash, one pending row per organization and email.\<close>

definition invite_conflicts :: "tenancy_db \<Rightarrow> invite \<Rightarrow> bool" where
  "invite_conflicts db v \<longleftrightarrow>
     (\<exists>w\<in>set (map snd (db_invites db)). iv_id w \<noteq> iv_id v \<and>
       (iv_token_hash w = iv_token_hash v \<or>
        iv_status v = InviteStatusPending \<and> iv_status w = InviteStatusPending \<and>
          iv_organization_id w = iv_organization_id v \<and> iv_email w = iv_email v))"

definition invites_insert :: "invite \<Rightarrow> unit dbop" where
  "invites_insert v db =
     (if gm_get (db_invites db) (iv_id v) \<noteq> None \<or> invite_conflicts db v then (Inl key_violation, db)
      else if gm_get (db_orgs db) (iv_organization_id v) = None \<or> gm_get (db_users db) (iv_invited_by v) = None
        then (Inl foreign_key_violation, db)
      else (Inr (), db\<lparr>db_invites := gm_put (iv_id v) v (db_invites db)\<rparr>))"

definition invites_update :: "string \<Rightarrow> (invite \<Rightarrow> invite) \<Rightarrow> unit dbop" where
  "invites_update i f db =
     (case gm_get (db_invites db) i of
        None \<Rightarrow> (Inl (sentinel ErrNotFound), db)
      | Some v \<Rightarrow>
          if invite_conflicts db (f v) then (Inl key_violation, db)
          else (Inr (), db\<lparr>db_invites := gm_put i (f v) (db_invites db)\<rparr>))"

definition invites_update_token :: "string \<Rightarrow> string \<Rightarrow> gotime \<Rightarrow> unit dbop" where
  "invites_update_token i h expires =
     invites_update i (\<lambda>v. v\<lparr>iv_token_hash := h, iv_expires_at := expires, iv_status := InviteStatusPending\<rparr>)"

definition invites_mark_accepted :: "string \<Rightarrow> gotime \<Rightarrow> unit dbop" where
  "invites_mark_accepted i t = invites_update i (\<lambda>v. v\<lparr>iv_status := InviteStatusAccepted, iv_accepted_at := Some t\<rparr>)"

definition invites_mark_revoked :: "string \<Rightarrow> unit dbop" where
  "invites_mark_revoked i = invites_update i (\<lambda>v. v\<lparr>iv_status := InviteStatusRevoked\<rparr>)"

end
