(* ===== verification/Tenancy_Service.thy ===== *)
theory Tenancy_Service
  imports Tenancy
begin

text \<open>
  The services of \<^verbatim>\<open>src/internal/tenancy/service.go\<close> and \<^verbatim>\<open>invite.go\<close>, over the tables of
  \<^verbatim>\<open>Tenancy\<close>, and their properties. The membership tables are a locale: what a guard may conclude
  from a role and a count of owners. An operation of the control plane is a constructor of
  \<open>tenancy_op\<close>; invariants are proved over every sequence of them.
\<close>

section \<open>Organizations, teams, projects\<close>

definition create_organization :: "gotime \<Rightarrow> string \<Rightarrow> string \<Rightarrow> string \<Rightarrow> organization dbop" where
  "create_organization now i name creator =
     (if creator = [] then (\<lambda>db. (Inl (sentinel ErrInvalidRequest), db))
      else db_check (new_organization i name now) (\<lambda>og.
           db_bind (orgs_create_with_owner og creator) (\<lambda>_ db. (Inr og, db))))"

definition create_team :: "gotime \<Rightarrow> string \<Rightarrow> string \<Rightarrow> string \<Rightarrow> string \<Rightarrow> team dbop" where
  "create_team now i org name creator =
     (if creator = [] then (\<lambda>db. (Inl (sentinel ErrInvalidRequest), db))
      else db_check (new_team i org name now) (\<lambda>t.
           db_bind (teams_create_with_owner t creator) (\<lambda>_ db. (Inr t, db))))"

definition create_project :: "gotime \<Rightarrow> string \<Rightarrow> string \<Rightarrow> string \<Rightarrow> string \<Rightarrow> project dbop" where
  "create_project now i org team name =
     db_check (new_project i org team name now) (\<lambda>p. db_bind (projects_insert p) (\<lambda>_ db. (Inr p, db)))"

definition create_environment :: "gotime \<Rightarrow> string \<Rightarrow> string \<Rightarrow> string \<Rightarrow> string \<Rightarrow> string \<Rightarrow> environment dbop" where
  "create_environment now i org proj name slug db =
     db_check (projects_org_id db proj) (\<lambda>proj_org.
       if proj_org \<noteq> org then (\<lambda>db. (Inl (invalid_request ''project does not belong to organization''), db))
       else db_check (new_environment i org proj name slug now) (\<lambda>e.
            db_bind (environments_insert e) (\<lambda>_ db. (Inr e, db)))) db"

definition add_org_member_by_email :: "string \<Rightarrow> string \<Rightarrow> member dbop" where
  "add_org_member_by_email org email db =
     db_check (users_get_by_email db email) (\<lambda>u.
       db_bind (orgs_add_member org (ur_id u) OrgRoleMember) (\<lambda>_ db.
         (Inr \<lparr>me_user_id = ur_id u, me_email = ur_email u, me_name = ur_name u, me_role = OrgRoleMember\<rparr>, db))) db"

text \<open>The reads and guards of a role change: the role and whether the actor steps down.\<close>

definition check_org_role_change ::
  "tenancy_db \<Rightarrow> string \<Rightarrow> string \<Rightarrow> string \<Rightarrow> string \<Rightarrow> (string \<times> bool) res" where
  "check_org_role_change db org actor target role0 =
     bind_res (parse_org_role role0) (\<lambda>role.
     bind_res (orgs_get_member_role db actor org) (\<lambda>actor_role.
     bind_res (assert_actor_can_change_roles actor_role) (\<lambda>_.
     bind_res (orgs_get_member_role db target org) (\<lambda>target_role.
     bind_res (assert_sole_owner_safe actor target target_role role (orgs_count_owners db org)) (\<lambda>_.
       Inr (role, should_demote_actor actor target role))))))"

definition update_org_member_role :: "string \<Rightarrow> string \<Rightarrow> string \<Rightarrow> string \<Rightarrow> member dbop" where
  "update_org_member_role org actor target role0 db =
     (case check_org_role_change db org actor target role0 of
        Inl e \<Rightarrow> (Inl e, db)
      | Inr (role, demote) \<Rightarrow>
          let db' = orgs_apply_role_change org actor target role demote db in (orgs_get_member db' org target, db'))"

text \<open>A missing membership means no privilege; other errors are passed on.\<close>

definition org_privilege :: "(string \<Rightarrow> bool) \<Rightarrow> tenancy_db \<Rightarrow> string \<Rightarrow> string \<Rightarrow> bool res" where
  "org_privilege holds db user org =
     (case orgs_get_member_role db user org of
        Inl e \<Rightarrow> if err_is e ErrNotFound then Inr False else Inl e
      | Inr role \<Rightarrow> Inr (holds role))"

definition is_org_admin :: "tenancy_db \<Rightarrow> string \<Rightarrow> string \<Rightarrow> bool res" where
  "is_org_admin = org_privilege role_is_admin"

definition is_org_owner :: "tenancy_db \<Rightarrow> string \<Rightarrow> string \<Rightarrow> bool res" where
  "is_org_owner = org_privilege role_can_change_roles"

definition list_visible_teams :: "tenancy_db \<Rightarrow> string \<Rightarrow> string \<Rightarrow> team list res" where
  "list_visible_teams db org user =
     bind_res (is_org_admin db user org) (\<lambda>admin.
       Inr (if admin then teams_list_by_org db org else teams_list_by_org_for_user db org user))"

definition list_visible_projects :: "tenancy_db \<Rightarrow> string \<Rightarrow> string \<Rightarrow> project list res" where
  "list_visible_projects db org user =
     bind_res (is_org_admin db user org) (\<lambda>admin.
       Inr (if admin then projects_list_by_org db org else projects_list_by_org_for_user db org user))"

text \<open>An organization admin, or a team role that satisfies \<open>holds\<close>.\<close>

definition team_privilege :: "(string \<Rightarrow> bool) \<Rightarrow> tenancy_db \<Rightarrow> string \<Rightarrow> string \<Rightarrow> bool res" where
  "team_privilege holds db team user =
     bind_res (teams_org_id db team) (\<lambda>org.
     bind_res (is_org_admin db user org) (\<lambda>admin.
       if admin then Inr True
       else (case teams_get_member_role db team user of
               Inl e \<Rightarrow> if err_is e ErrNotFound then Inr False else Inl e
             | Inr role \<Rightarrow> Inr (holds role))))"

definition can_access_team :: "tenancy_db \<Rightarrow> string \<Rightarrow> string \<Rightarrow> bool res" where
  "can_access_team = team_privilege (\<lambda>role. True)"

definition can_manage_team :: "tenancy_db \<Rightarrow> string \<Rightarrow> string \<Rightarrow> bool res" where
  "can_manage_team = team_privilege team_role_is_manager"

definition can_change_team_roles :: "tenancy_db \<Rightarrow> string \<Rightarrow> string \<Rightarrow> bool res" where
  "can_change_team_roles = team_privilege role_can_change_roles"

definition add_team_member :: "string \<Rightarrow> string \<Rightarrow> member dbop" where
  "add_team_member team user db =
     (if user = [] then (Inl (sentinel ErrInvalidRequest), db)
      else db_check (teams_org_id db team) (\<lambda>org db.
        case orgs_get_member_role db user org of
          Inl e \<Rightarrow> (Inl (if err_is e ErrNotFound then sentinel ErrInvalidRequest else e), db)
        | Inr _ \<Rightarrow>
            (case teams_get_member_role db team user of
               Inr _ \<Rightarrow> (Inl (sentinel ErrInvalidRequest), db)
             | Inl e \<Rightarrow>
                 if \<not> err_is e ErrNotFound then (Inl e, db)
                 else db_bind (teams_add_member team user OrgRoleMember) (\<lambda>_ db. (teams_get_member db team user, db)) db)) db)"

definition remove_team_member :: "string \<Rightarrow> string \<Rightarrow> unit dbop" where
  "remove_team_member team target db =
     (if target = [] then (Inl (sentinel ErrInvalidRequest), db)
      else db_check (teams_get_member_role db team target) (\<lambda>role.
        if role = OrgRoleOwner \<and> teams_count_owners db team \<le> 1 then (\<lambda>db. (Inl (sentinel ErrInvalidRequest), db))
        else teams_remove_member team target) db)"

definition update_team_member_role :: "string \<Rightarrow> string \<Rightarrow> string \<Rightarrow> string \<Rightarrow> member dbop" where
  "update_team_member_role team actor target role0 db =
     db_check (parse_team_role role0) (\<lambda>role.
       if actor = [] \<or> target = [] then (\<lambda>db. (Inl (sentinel ErrInvalidRequest), db))
       else db_check (can_change_team_roles db team actor) (\<lambda>ok.
         if \<not> ok then (\<lambda>db. (Inl (sentinel ErrUnauthorized), db))
         else db_check (teams_get_member_role db team target) (\<lambda>target_role.
           if target_role = role then (\<lambda>db. (teams_get_member db team target, db))
           else db_check (assert_sole_team_owner_safe target_role role (teams_count_owners db team)) (\<lambda>_.
             db_bind (teams_set_member_role team target role) (\<lambda>_ db. (teams_get_member db team target, db)))))) db"

section \<open>Invites\<close>

definition default_invite_ttl :: duration where
  "default_invite_ttl = 7 * 24 * hour"

definition hash_invite_token :: "(string \<Rightarrow> string) \<Rightarrow> string \<Rightarrow> string" where
  "hash_invite_token sha raw = hex_encode (sha raw)"

definition normalize_email :: "string \<Rightarrow> string" where
  "normalize_email email = to_lower (trim_space email)"

datatype invite_outcome = Added member | Invited invite string

definition invite_org_member ::
  "(string \<Rightarrow> string) \<Rightarrow> gotime \<Rightarrow> string \<Rightarrow> string \<Rightarrow> string \<Rightarrow> string \<Rightarrow> string \<Rightarrow> invite_outcome dbop" where
  "invite_org_member sha now raw invite_id org email0 invited_by db =
     (let email = normalize_email email0; h = hash_invite_token sha raw; expires = now + default_invite_ttl in
      if org = [] \<or> email = [] \<or> invited_by = [] then (Inl (sentinel ErrInvalidRequest), db)
      else if CHR ''@'' \<notin> set email then (Inl (sentinel ErrInvalidRequest), db)
      else
        (case users_get_by_email db email of
           Inr u \<Rightarrow>
             (case orgs_get_member_role db (ur_id u) org of
                Inr _ \<Rightarrow> (Inl (invalid_request ''already a member''), db)
              | Inl e \<Rightarrow>
                  if \<not> err_is e ErrNotFound then (Inl e, db)
                  else db_bind (orgs_add_member org (ur_id u) OrgRoleMember) (\<lambda>_ db.
                    (Inr (Added \<lparr>me_user_id = ur_id u, me_email = ur_email u, me_name = ur_name u,
                       me_role = OrgRoleMember\<rparr>), db)) db)
         | Inl e \<Rightarrow>
             if \<not> err_is e ErrNotFound then (Inl e, db)
             else
               (case invites_get_pending db org email of
                  Inr v \<Rightarrow>
                    db_bind (invites_update_token (iv_id v) h expires) (\<lambda>_ db.
                      (Inr (Invited (v\<lparr>iv_expires_at := expires, iv_status := InviteStatusPending\<rparr>) raw), db)) db
                | Inl e \<Rightarrow>
                    if \<not> err_is e ErrNotFound then (Inl e, db)
                    else if invite_id = [] then (Inl (sentinel ErrInvalidRequest), db)
                    else
                      let v = \<lparr>iv_id = invite_id, iv_organization_id = org, iv_email = email, iv_role = OrgRoleMember,
                        iv_invited_by = invited_by, iv_status = InviteStatusPending, iv_expires_at = expires,
                        iv_created_at = now, iv_accepted_at = None, iv_token_hash = h\<rparr>
                      in db_bind (invites_insert v) (\<lambda>_ db. (Inr (Invited v raw), db)) db)))"

definition revoke_invite :: "string \<Rightarrow> string \<Rightarrow> unit dbop" where
  "revoke_invite org invite_id db =
     db_check (invites_get db invite_id) (\<lambda>v.
       if iv_organization_id v \<noteq> org then (\<lambda>db. (Inl (sentinel ErrNotFound), db))
       else if iv_status v \<noteq> InviteStatusPending then (\<lambda>db. (Inl (sentinel ErrInvalidRequest), db))
       else invites_mark_revoked invite_id) db"

definition resend_invite :: "(string \<Rightarrow> string) \<Rightarrow> gotime \<Rightarrow> string \<Rightarrow> string \<Rightarrow> string \<Rightarrow> (invite \<times> string) dbop" where
  "resend_invite sha now raw org invite_id db =
     db_check (invites_get db invite_id) (\<lambda>v.
       if iv_organization_id v \<noteq> org \<or> iv_status v \<noteq> InviteStatusPending
       then (\<lambda>db. (Inl (sentinel ErrInvalidRequest), db))
       else if now > iv_expires_at v then (\<lambda>db. (Inl (sentinel ErrInvalidRequest), db))
       else
         let expires = now + default_invite_ttl in
         db_bind (invites_update_token invite_id (hash_invite_token sha raw) expires) (\<lambda>_ db.
           (Inr (v\<lparr>iv_expires_at := expires\<rparr>, raw), db))) db"

text \<open>The checks that previewing and accepting share.\<close>

definition live_invite :: "(string \<Rightarrow> string) \<Rightarrow> gotime \<Rightarrow> tenancy_db \<Rightarrow> string \<Rightarrow> (invite \<times> string) res" where
  "live_invite sha now db raw =
     bind_res (invites_get_by_token_hash db (hash_invite_token sha raw)) (\<lambda>(v, org_name).
       if iv_status v \<noteq> InviteStatusPending then Inl (sentinel ErrNotFound)
       else if now > iv_expires_at v then Inl (sentinel ErrInvalidRequest)
       else Inr (v, org_name))"

record invite_preview =
  ip_email :: string
  ip_organization_id :: string
  ip_organization_name :: string
  ip_expires_at :: gotime
  ip_user_exists :: bool

definition preview_invite :: "(string \<Rightarrow> string) \<Rightarrow> gotime \<Rightarrow> tenancy_db \<Rightarrow> string \<Rightarrow> invite_preview res" where
  "preview_invite sha now db raw =
     bind_res (live_invite sha now db raw) (\<lambda>(v, org_name).
       let known = users_get_by_email db (iv_email v) in
       (case known of
          Inl e \<Rightarrow> if \<not> err_is e ErrNotFound then Inl e
            else Inr \<lparr>ip_email = iv_email v, ip_organization_id = iv_organization_id v,
              ip_organization_name = org_name, ip_expires_at = iv_expires_at v, ip_user_exists = False\<rparr>
        | Inr _ \<Rightarrow> Inr \<lparr>ip_email = iv_email v, ip_organization_id = iv_organization_id v,
              ip_organization_name = org_name, ip_expires_at = iv_expires_at v, ip_user_exists = True\<rparr>))"

definition create_user :: "string \<Rightarrow> string \<Rightarrow> string \<Rightarrow> string \<Rightarrow> user_row dbop" where
  "create_user i email name password_hash =
     (let u = \<lparr>ur_id = i, ur_email = email, ur_name = name, ur_role = ''member'', ur_password_hash = password_hash\<rparr>
      in db_bind (users_create u) (\<lambda>_ db. (Inr u, db)))"

text \<open>The user who accepts: the known one (whose platform role is not loaded) or a new one.\<close>

definition accepting_user :: "invite \<Rightarrow> string \<Rightarrow> string \<Rightarrow> string \<Rightarrow> user_row dbop" where
  "accepting_user v name0 password_hash new_user_id db =
     (case users_get_by_email db (iv_email v) of
        Inr u \<Rightarrow> (Inr \<lparr>ur_id = ur_id u, ur_email = ur_email u, ur_name = ur_name u, ur_role = [], ur_password_hash = []\<rparr>, db)
      | Inl e \<Rightarrow>
          if \<not> err_is e ErrNotFound then (Inl e, db)
          else
            let name = trim_space name0 in
            if name = [] \<or> trim_space password_hash = [] then (Inl (invalid_request ''name and password required''), db)
            else if new_user_id = [] then (Inl (sentinel ErrInvalidRequest), db)
            else create_user new_user_id (iv_email v) name password_hash db)"

definition accept_invite ::
  "(string \<Rightarrow> string) \<Rightarrow> gotime \<Rightarrow> string \<Rightarrow> string \<Rightarrow> string \<Rightarrow> string \<Rightarrow> (member \<times> user_row) dbop" where
  "accept_invite sha now raw name password_hash new_user_id db =
     db_check (live_invite sha now db raw) (\<lambda>(v, _).
       db_bind (accepting_user v name password_hash new_user_id) (\<lambda>u db.
         let joined = (\<lambda>role. \<lparr>me_user_id = ur_id u, me_email = ur_email u, me_name = ur_name u, me_role = role\<rparr>) in
         (case orgs_get_member_role db (ur_id u) (iv_organization_id v) of
            Inr _ \<Rightarrow> (Inr (joined OrgRoleMember, u), snd (invites_mark_accepted (iv_id v) now db))
          | Inl e \<Rightarrow>
              if \<not> err_is e ErrNotFound then (Inl e, db)
              else
                let role = (if iv_role v = [] then OrgRoleMember else iv_role v) in
                db_bind (orgs_add_member (iv_organization_id v) (ur_id u) role) (\<lambda>_.
                db_bind (invites_mark_accepted (iv_id v) now) (\<lambda>_ db.
                  (Inr (joined role, u), db))) db))) db"

section \<open>Operations of the control plane\<close>

datatype tenancy_op =
    CreateOrganization gotime string string string
  | CreateTeam gotime string string string string
  | CreateProject gotime string string string string
  | CreateEnvironment gotime string string string string string
  | AddOrgMemberByEmail string string
  | UpdateOrgMemberRole string string string string
  | AddTeamMember string string
  | RemoveTeamMember string string
  | UpdateTeamMemberRole string string string string
  | InviteOrgMember gotime string string string string string
  | RevokeInvite string string
  | ResendInvite gotime string string string
  | AcceptInvite gotime string string string string

fun exec_op :: "(string \<Rightarrow> string) \<Rightarrow> tenancy_op \<Rightarrow> tenancy_db \<Rightarrow> tenancy_db" where
  "exec_op sha (CreateOrganization now i name creator) db = snd (create_organization now i name creator db)"
| "exec_op sha (CreateTeam now i org name creator) db = snd (create_team now i org name creator db)"
| "exec_op sha (CreateProject now i org team name) db = snd (create_project now i org team name db)"
| "exec_op sha (CreateEnvironment now i org proj name slug) db = snd (create_environment now i org proj name slug db)"
| "exec_op sha (AddOrgMemberByEmail org email) db = snd (add_org_member_by_email org email db)"
| "exec_op sha (UpdateOrgMemberRole org actor target role) db = snd (update_org_member_role org actor target role db)"
| "exec_op sha (AddTeamMember team user) db = snd (add_team_member team user db)"
| "exec_op sha (RemoveTeamMember team user) db = snd (remove_team_member team user db)"
| "exec_op sha (UpdateTeamMemberRole team actor target role) db = snd (update_team_member_role team actor target role db)"
| "exec_op sha (InviteOrgMember now raw i org email by) db = snd (invite_org_member sha now raw i org email by db)"
| "exec_op sha (RevokeInvite org i) db = snd (revoke_invite org i db)"
| "exec_op sha (ResendInvite now raw org i) db = snd (resend_invite sha now raw org i db)"
| "exec_op sha (AcceptInvite now raw name pw uid) db = snd (accept_invite sha now raw name pw uid db)"

definition exec_ops :: "(string \<Rightarrow> string) \<Rightarrow> tenancy_op list \<Rightarrow> tenancy_db \<Rightarrow> tenancy_db" where
  "exec_ops sha ops db = fold (exec_op sha) ops db"


section \<open>Memberships\<close>

text \<open>
  What the guards use of a membership table: writing a role changes that row alone and creates
  none, and a scope counts at most one owner exactly when an owner of it is its only one.
\<close>

locale member_store =
  fixes role :: "'db \<Rightarrow> string \<Rightarrow> string \<Rightarrow> string option"
    and owner_count :: "'db \<Rightarrow> string \<Rightarrow> nat"
    and set_role :: "string \<Rightarrow> string \<Rightarrow> string \<Rightarrow> 'db \<Rightarrow> 'db"
    and ok :: "'db \<Rightarrow> bool"
  assumes role_set: "role (set_role s u r db) s' u' =
      (if s' = s \<and> u' = u \<and> role db s u \<noteq> None then Some r else role db s' u')"
    and ok_set: "ok db \<Longrightarrow> ok (set_role s u r db)"
    and sole_owner: "ok db \<Longrightarrow> role db s u = Some OrgRoleOwner \<Longrightarrow>
      owner_count db s \<le> 1 \<longleftrightarrow> (\<forall>v. role db s v = Some OrgRoleOwner \<longrightarrow> v = u)"
begin

definition owned :: "'db \<Rightarrow> string \<Rightarrow> bool" where
  "owned db s \<longleftrightarrow> (\<exists>u. role db s u = Some OrgRoleOwner)"

lemma owned_promote: "role db s u \<noteq> None \<Longrightarrow> owned (set_role s u OrgRoleOwner db) s"
  by (auto simp: owned_def role_set)

lemma owned_set_other: "s' \<noteq> s \<Longrightarrow> owned (set_role s u r db) s' = owned db s'"
  by (auto simp: owned_def role_set)

text \<open>A guarded write never takes the last owner away.\<close>

lemma owned_guarded:
  assumes "ok db" and "owned db s'"
    and "r = OrgRoleOwner \<or> role db s u \<noteq> Some OrgRoleOwner \<or> owner_count db s > 1"
  shows "owned (set_role s u r db) s'"
proof (cases "s' = s")
  case False
  then show ?thesis using assms(2) by (simp add: owned_set_other)
next
  case True
  obtain w where w: "role db s w = Some OrgRoleOwner" using assms(2) True by (auto simp: owned_def)
  consider "r = OrgRoleOwner" | "role db s u \<noteq> Some OrgRoleOwner"
    | "role db s u = Some OrgRoleOwner" "owner_count db s > 1" using assms(3) by blast
  then show ?thesis
  proof cases
    case 1
    with w True show ?thesis by (auto simp: owned_def role_set)
  next
    case 2
    with w have "role (set_role s u r db) s w = Some OrgRoleOwner" by (auto simp: role_set)
    with True show ?thesis by (auto simp: owned_def)
  next
    case 3
    then obtain v where "role db s v = Some OrgRoleOwner" "v \<noteq> u"
      using sole_owner [OF assms(1) 3(1)] by auto
    then have "role (set_role s u r db) s v = Some OrgRoleOwner" by (simp add: role_set)
    with True show ?thesis by (auto simp: owned_def)
  qed
qed

text \<open>Stepping down for a successor who is a member.\<close>

lemma owned_transfer:
  assumes "role db s u \<noteq> None" and "owned db s'"
  shows "owned (set_role s u OrgRoleOwner (set_role s a r db)) s'"
proof (cases "s' = s")
  case True
  have "role (set_role s a r db) s u \<noteq> None" using assms(1) by (simp add: role_set)
  with True show ?thesis using owned_promote by blast
qed (simp add: owned_set_other assms(2))

end

lemma member_role_update:
  "member_role (update_role s u r rows) s' u' =
     (if s' = s \<and> u' = u \<and> member_role rows s u \<noteq> None then Some r else member_role rows s' u')"
  by (simp add: member_role_def update_role_def)

lemma gm_wf_update_role: "gm_wf rows \<Longrightarrow> gm_wf (update_role s u r rows)"
  by (simp add: update_role_def)

lemma count_owners_card:
  assumes "gm_wf rows"
  shows "count_owners rows s = card {u. member_role rows s u = Some OrgRoleOwner}"
    and "finite {u. member_role rows s u = Some OrgRoleOwner}"
proof -
  let ?f = "filter (\<lambda>((s', _), r). s' = s \<and> r = OrgRoleOwner) rows"
  have d: "distinct ?f" using assms distinct_map by (auto simp: gm_wf_def intro: distinct_filter)
  have img: "(\<lambda>x. snd (fst x)) ` set ?f = {u. member_role rows s u = Some OrgRoleOwner}"
    using gm_get_mem [OF assms] by (force simp: member_role_def image_iff)
  have inj: "inj_on (\<lambda>x. snd (fst x)) (set ?f)" by (auto simp: inj_on_def)
  have "count_owners rows s = card (set ?f)" using distinct_card [OF d] by (simp only: count_owners_def)
  also have "\<dots> = card {u. member_role rows s u = Some OrgRoleOwner}" using card_image [OF inj] img by simp
  finally show "count_owners rows s = card {u. member_role rows s u = Some OrgRoleOwner}" .
  show "finite {u. member_role rows s u = Some OrgRoleOwner}" using img by (metis finite_imageI List.finite_set)
qed

lemma count_owners_sole:
  assumes "gm_wf rows" and "member_role rows s u = Some OrgRoleOwner"
  shows "count_owners rows s \<le> 1 \<longleftrightarrow> (\<forall>v. member_role rows s v = Some OrgRoleOwner \<longrightarrow> v = u)"
  using count_owners_card [OF assms(1), of s] assms(2) by (auto simp: card_le_Suc0_iff_eq)

interpretation org_rows: member_store "\<lambda>db. member_role (db_org_members db)" orgs_count_owners
  "\<lambda>s u r db. db\<lparr>db_org_members := update_role s u r (db_org_members db)\<rparr>" "\<lambda>db. gm_wf (db_org_members db)"
  by unfold_locales (simp_all add: member_role_update gm_wf_update_role orgs_count_owners_def count_owners_sole [unfolded One_nat_def])

interpretation team_rows: member_store "\<lambda>db. member_role (db_team_members db)" teams_count_owners
  "\<lambda>s u r db. db\<lparr>db_team_members := update_role s u r (db_team_members db)\<rparr>" "\<lambda>db. gm_wf (db_team_members db)"
  by unfold_locales (simp_all add: member_role_update gm_wf_update_role teams_count_owners_def count_owners_sole [unfolded One_nat_def])

section \<open>No organization or team without an owner\<close>

definition tenancy_owned :: "tenancy_db \<Rightarrow> bool" where
  "tenancy_owned db \<longleftrightarrow> gm_wf (db_org_members db) \<and> gm_wf (db_team_members db) \<and>
     (\<forall>org. gm_get (db_orgs db) org \<noteq> None \<longrightarrow> (\<exists>u. member_role (db_org_members db) org u = Some OrgRoleOwner)) \<and>
     (\<forall>team. gm_get (db_teams db) team \<noteq> None \<longrightarrow> (\<exists>u. member_role (db_team_members db) team u = Some OrgRoleOwner))"

text \<open>The part of the database the invariant reads.\<close>

lemma tenancy_owned_cong:
  "db_orgs db' = db_orgs db \<Longrightarrow> db_teams db' = db_teams db \<Longrightarrow> db_org_members db' = db_org_members db \<Longrightarrow>
   db_team_members db' = db_team_members db \<Longrightarrow> tenancy_owned db' = tenancy_owned db"
  by (simp add: tenancy_owned_def)

lemma owned_add_row: "\<exists>u. member_role rows s u = Some r0 \<Longrightarrow> gm_get rows (s', v) = None \<Longrightarrow>
   \<exists>u. member_role (gm_put (s', v) r rows) s u = Some r0"
  by (auto simp: member_role_def) (metis option.distinct(1))

named_theorems owned_intros \<open>operations that keep every organization and team owned\<close>

lemma orgs_add_member_owned [owned_intros]: "tenancy_owned db \<Longrightarrow> tenancy_owned (snd (orgs_add_member org user r db))"
  by (auto simp: orgs_add_member_def tenancy_owned_def owned_add_row)

lemma teams_add_member_owned [owned_intros]: "tenancy_owned db \<Longrightarrow> tenancy_owned (snd (teams_add_member team user r db))"
  by (auto simp: teams_add_member_def tenancy_owned_def owned_add_row)

lemma orgs_create_owned [owned_intros]: "tenancy_owned db \<Longrightarrow> tenancy_owned (snd (orgs_create_with_owner og u db))"
  by (auto simp: orgs_create_with_owner_def tenancy_owned_def owned_add_row member_role_def)

lemma teams_create_owned [owned_intros]: "tenancy_owned db \<Longrightarrow> tenancy_owned (snd (teams_create_with_owner t u db))"
  by (auto simp: teams_create_with_owner_def tenancy_owned_def owned_add_row member_role_def)

lemma other_tables_owned [owned_intros]:
  "tenancy_owned db \<Longrightarrow> tenancy_owned (snd (users_create u db))"
  "tenancy_owned db \<Longrightarrow> tenancy_owned (snd (projects_insert p db))"
  "tenancy_owned db \<Longrightarrow> tenancy_owned (snd (environments_insert e db))"
  "tenancy_owned db \<Longrightarrow> tenancy_owned (snd (invites_insert v db))"
  "tenancy_owned db \<Longrightarrow> tenancy_owned (snd (invites_update i f db))"
  by (auto simp: users_create_def projects_insert_def environments_insert_def invites_insert_def invites_update_def
      tenancy_owned_def split: option.splits)

lemmas owned_seq = db_bind_keeps [where P = tenancy_owned] db_check_keeps [where P = tenancy_owned]

lemma create_organization_owned: "tenancy_owned db \<Longrightarrow> tenancy_owned (snd (create_organization now i name u db))"
  unfolding create_organization_def by (auto intro!: owned_seq owned_intros)

lemma create_team_owned: "tenancy_owned db \<Longrightarrow> tenancy_owned (snd (create_team now i org name u db))"
  unfolding create_team_def by (auto intro!: owned_seq owned_intros)

lemma create_project_owned: "tenancy_owned db \<Longrightarrow> tenancy_owned (snd (create_project now i org team name db))"
  unfolding create_project_def by (auto intro!: owned_seq owned_intros)

lemma create_environment_owned:
  "tenancy_owned db \<Longrightarrow> tenancy_owned (snd (create_environment now i org proj name slug db))"
  unfolding create_environment_def by (auto intro!: owned_seq owned_intros)

lemma add_org_member_by_email_owned: "tenancy_owned db \<Longrightarrow> tenancy_owned (snd (add_org_member_by_email org email db))"
  unfolding add_org_member_by_email_def by (auto intro!: owned_seq owned_intros)

lemma bind_res_Inr: "bind_res r f = Inr y \<longleftrightarrow> (\<exists>x. r = Inr x \<and> f x = Inr y)"
  by (cases r) (auto simp: bind_res_def)

lemma found_Inr: "found x = Inr y \<longleftrightarrow> x = Some y"
  by (cases x) (auto simp: found_def)

text \<open>What the guards of a role change establish.\<close>

lemma check_org_role_change_Inr:
  assumes "check_org_role_change db org actor target role0 = Inr (role, demote)"
  shows "role = role0" "role \<in> {OrgRoleOwner, OrgRoleAdmin, OrgRoleMember}"
    "member_role (db_org_members db) org actor = Some OrgRoleOwner"
    "member_role (db_org_members db) org target \<noteq> None"
    "demote \<longleftrightarrow> role = OrgRoleOwner \<and> target \<noteq> actor"
    "role = OrgRoleOwner \<or> member_role (db_org_members db) org target \<noteq> Some OrgRoleOwner \<or> orgs_count_owners db org > 1"
  using assms
  by (auto simp: check_org_role_change_def bind_res_Inr parse_org_role_def validate_org_role_def orgs_get_member_role_def
      found_Inr assert_actor_can_change_roles_def role_can_change_roles_def assert_sole_owner_safe_def
      should_demote_actor_def split: if_splits)

lemma orgs_apply_role_change_simps [simp]:
  "db_orgs (orgs_apply_role_change org a t r d db) = db_orgs db"
  "db_teams (orgs_apply_role_change org a t r d db) = db_teams db"
  "db_team_members (orgs_apply_role_change org a t r d db) = db_team_members db"
  "gm_wf (db_org_members db) \<Longrightarrow> gm_wf (db_org_members (orgs_apply_role_change org a t r d db))"
  by (simp_all add: orgs_apply_role_change_def Let_def gm_wf_update_role)

lemma update_org_member_role_owned:
  assumes "tenancy_owned db"
  shows "tenancy_owned (snd (update_org_member_role org actor target role0 db))"
proof (cases "check_org_role_change db org actor target role0")
  case (Inl e)
  then show ?thesis using assms by (simp add: update_org_member_role_def)
next
  case (Inr rd)
  obtain role demote where rd: "rd = (role, demote)" by (cases rd)
  note c = check_org_role_change_Inr [OF Inr [unfolded rd]]
  let ?db = "orgs_apply_role_change org actor target role demote db"
  have wf: "gm_wf (db_org_members db)" using assms by (simp add: tenancy_owned_def)
  have "org_rows.owned ?db o'" if "org_rows.owned db o'" for o'
  proof (cases demote)
    case True
    with c(5) have "role = OrgRoleOwner" by simp
    with True show ?thesis
      using org_rows.owned_transfer [OF c(4) that, of actor OrgRoleAdmin]
      by (simp add: orgs_apply_role_change_def Let_def)
  next
    case False
    then show ?thesis
      using org_rows.owned_guarded [OF wf that c(6)] by (simp add: orgs_apply_role_change_def Let_def)
  qed
  then show ?thesis
    using assms rd Inr by (simp add: update_org_member_role_def tenancy_owned_def org_rows.owned_def Let_def)
qed

lemma add_team_member_owned: "tenancy_owned db \<Longrightarrow> tenancy_owned (snd (add_team_member team user db))"
  unfolding add_team_member_def
  by (auto intro!: owned_seq owned_intros split: sum.splits)

lemma teams_set_role_owned:
  assumes "tenancy_owned db"
    and "r = OrgRoleOwner \<or> member_role (db_team_members db) team u \<noteq> Some OrgRoleOwner \<or> teams_count_owners db team > 1"
  shows "tenancy_owned (snd (teams_set_member_role team u r db))"
proof -
  have wf: "gm_wf (db_team_members db)" using assms(1) by (simp add: tenancy_owned_def)
  have "team_rows.owned (db\<lparr>db_team_members := update_role team u r (db_team_members db)\<rparr>) t'"
    if "team_rows.owned db t'" for t'
    using team_rows.owned_guarded [OF wf that assms(2)] .
  with assms(1) show ?thesis
    by (auto simp: teams_set_member_role_def tenancy_owned_def team_rows.owned_def gm_wf_update_role)
qed

lemma teams_remove_owned:
  assumes "tenancy_owned db"
    and "member_role (db_team_members db) team u \<noteq> Some OrgRoleOwner \<or> teams_count_owners db team > 1"
  shows "tenancy_owned (snd (teams_remove_member team u db))"
proof -
  have wf: "gm_wf (db_team_members db)" using assms(1) by (simp add: tenancy_owned_def)
  have "\<exists>w. w \<noteq> u \<and> member_role (db_team_members db) team w = Some OrgRoleOwner"
    if "\<exists>w. member_role (db_team_members db) team w = Some OrgRoleOwner"
    using that assms(2) team_rows.sole_owner [OF wf, of team u] by (metis not_le)
  with assms(1) show ?thesis
    by (auto simp: teams_remove_member_def tenancy_owned_def member_role_def) (metis prod.inject)+
qed

lemma remove_team_member_owned:
  assumes "tenancy_owned db" shows "tenancy_owned (snd (remove_team_member team u db))"
  unfolding remove_team_member_def using assms
  by (auto intro!: owned_seq teams_remove_owned simp: teams_get_member_role_def found_Inr)

lemma update_team_member_role_owned:
  assumes "tenancy_owned db" shows "tenancy_owned (snd (update_team_member_role team actor u role db))"
  unfolding update_team_member_role_def using assms
  by (auto intro!: owned_seq teams_set_role_owned
      simp: teams_get_member_role_def found_Inr assert_sole_team_owner_safe_def split: if_splits)

lemma invites_update_token_owned: "tenancy_owned db \<Longrightarrow> tenancy_owned (snd (invites_update_token i h e db))"
  "tenancy_owned db \<Longrightarrow> tenancy_owned (snd (invites_mark_accepted i t db))"
  "tenancy_owned db \<Longrightarrow> tenancy_owned (snd (invites_mark_revoked i db))"
  by (simp_all add: invites_update_token_def invites_mark_accepted_def invites_mark_revoked_def owned_intros)

lemmas invite_owned_intros = invites_update_token_owned owned_seq owned_intros

lemma invite_org_member_owned: "tenancy_owned db \<Longrightarrow> tenancy_owned (snd (invite_org_member sha now raw i org email by db))"
  unfolding invite_org_member_def Let_def by (auto intro!: invite_owned_intros split: sum.splits)

lemma revoke_resend_owned:
  "tenancy_owned db \<Longrightarrow> tenancy_owned (snd (revoke_invite org i db))"
  "tenancy_owned db \<Longrightarrow> tenancy_owned (snd (resend_invite sha now raw org i db))"
  unfolding revoke_invite_def resend_invite_def Let_def by (auto intro!: invite_owned_intros)

lemma accepting_user_owned: "tenancy_owned db \<Longrightarrow> tenancy_owned (snd (accepting_user v name pw uid db))"
  unfolding accepting_user_def create_user_def Let_def by (auto intro!: invite_owned_intros split: sum.splits)

lemma accept_invite_owned: "tenancy_owned db \<Longrightarrow> tenancy_owned (snd (accept_invite sha now raw name pw uid db))"
  unfolding accept_invite_def Let_def
  by (auto intro!: invite_owned_intros accepting_user_owned split: sum.splits prod.splits)

lemma exec_op_owned: "tenancy_owned db \<Longrightarrow> tenancy_owned (exec_op sha op0 db)"
  by (cases op0)
    (simp_all add: create_organization_owned create_team_owned create_project_owned create_environment_owned
      add_org_member_by_email_owned update_org_member_role_owned add_team_member_owned remove_team_member_owned
      update_team_member_role_owned invite_org_member_owned revoke_resend_owned accept_invite_owned)

text \<open>A small database: an organization with the owners \<open>u1\<close> and \<open>u2\<close>, and an invite for \<open>x@y\<close>.\<close>

definition small_db :: tenancy_db where
  "small_db =
     \<lparr>db_users = [(''u1'', \<lparr>ur_id = ''u1'', ur_email = ''a@y'', ur_name = ''A'', ur_role = ''member'', ur_password_hash = ''h''\<rparr>),
                 (''u2'', \<lparr>ur_id = ''u2'', ur_email = ''b@y'', ur_name = ''B'', ur_role = ''member'', ur_password_hash = ''h''\<rparr>)],
      db_orgs = [(''o'', \<lparr>og_id = ''o'', og_name = ''O'', og_created_at = 0\<rparr>)],
      db_org_members = [((''o'', ''u1''), ''owner''), ((''o'', ''u2''), ''owner'')],
      db_teams = [], db_team_members = [], db_projects = [], db_environments = [],
      db_invites = [(''i'', \<lparr>iv_id = ''i'', iv_organization_id = ''o'', iv_email = ''x@y'', iv_role = ''member'',
         iv_invited_by = ''u1'', iv_status = ''pending'', iv_expires_at = 9, iv_created_at = 0, iv_accepted_at = None,
         iv_token_hash = hash_invite_token id ''t''\<rparr>)]\<rparr>"

lemma small_db_owned: "tenancy_owned small_db"
  by (auto simp: tenancy_owned_def small_db_def gm_wf_def member_role_def role_defs)

text \<open>
  C12: No organization and no team is ever left without an owner: whatever sequence of operations
  the control plane executes, in whatever order and with whatever outcomes (creations, invites,
  role changes, ownership transfers, removals), each existing organization and team keeps at least
  one owner.
\<close>

theorem no_scope_without_owner:
  assumes "tenancy_owned db"
  shows "tenancy_owned (exec_ops sha ops db)"
  unfolding exec_ops_def using assms by (induction ops arbitrary: db) (simp_all add: exec_op_owned)

theorem no_scope_without_owner_witness:
  "tenancy_owned (exec_ops id [UpdateOrgMemberRole ''o'' ''u1'' ''u2'' ''member'',
     UpdateOrgMemberRole ''o'' ''u1'' ''u1'' ''member''] small_db)"
  by (rule no_scope_without_owner [OF small_db_owned])

text \<open>
  Only an owner changes roles, and only of members: a role change that succeeds was asked by an
  owner of that organization for one of its members, the member then has exactly the new role, the
  actor steps down to admin exactly when handing the ownership over, and no other membership of any
  organization changes.
\<close>

theorem role_change_authorized:
  assumes "update_org_member_role org actor target role0 db = (Inr m, db')"
  shows "member_role (db_org_members db) org actor = Some OrgRoleOwner \<and>
    member_role (db_org_members db) org target \<noteq> None \<and> me_role m = role0 \<and>
    (\<forall>org' u. member_role (db_org_members db') org' u =
       (if org' = org \<and> u = target then Some role0
        else if org' = org \<and> u = actor \<and> role0 = OrgRoleOwner then Some OrgRoleAdmin
        else member_role (db_org_members db) org' u))"
proof -
  obtain rd where Inr: "check_org_role_change db org actor target role0 = Inr rd"
    using assms by (cases "check_org_role_change db org actor target role0") (auto simp: update_org_member_role_def)
  obtain role demote where rd: "rd = (role, demote)" by (cases rd)
  note c = check_org_role_change_Inr [OF Inr [unfolded rd]]
  have "update_org_member_role org actor target role0 db =
      (orgs_get_member (orgs_apply_role_change org actor target role demote db) org target,
       orgs_apply_role_change org actor target role demote db)"
    using Inr rd by (simp add: update_org_member_role_def Let_def)
  with assms c(1) have db': "db' = orgs_apply_role_change org actor target role0 demote db"
    and m: "orgs_get_member db' org target = Inr m" by auto
  have rows: "member_role (db_org_members db') org' u =
      (if org' = org \<and> u = target then Some role0
       else if org' = org \<and> u = actor \<and> role0 = OrgRoleOwner then Some OrgRoleAdmin
       else member_role (db_org_members db) org' u)" for org' u
    using c by (auto simp: db' orgs_apply_role_change_def Let_def member_role_update)
  have "me_role m = role0" using m rows [of org target]
    by (auto simp: orgs_get_member_def found_Inr member_row_def)
  with c rows show ?thesis by simp
qed

theorem role_change_authorized_witness:
  "member_role (db_org_members small_db) ''o'' ''u1'' = Some OrgRoleOwner"
proof -
  have "update_org_member_role ''o'' ''u1'' ''u2'' ''member'' small_db =
      (Inr \<lparr>me_user_id = ''u2'', me_email = ''b@y'', me_name = ''B'', me_role = ''member''\<rparr>,
       snd (update_org_member_role ''o'' ''u1'' ''u2'' ''member'' small_db))"
    by code_simp
  from role_change_authorized [OF this] show ?thesis by blast
qed

section \<open>Concurrent role changes\<close>

text \<open>
  The guards of a role change and its write are separate statements, so two role changes that
  overlap can leave an organization without any owner: when an organization has exactly two owners
  and each demotes the other, both pass the guards on the same state, and after both writes nobody
  owns the organization, nor can anybody change its roles any more.
\<close>

theorem concurrent_demotions_orphan_organization:
  assumes "gm_wf (db_org_members db)" and "a \<noteq> b"
    and "\<forall>u. member_role (db_org_members db) org u = Some OrgRoleOwner \<longleftrightarrow> u = a \<or> u = b"
  shows "check_org_role_change db org a b OrgRoleMember = Inr (OrgRoleMember, False) \<and>
    check_org_role_change db org b a OrgRoleMember = Inr (OrgRoleMember, False) \<and>
    isl (check_org_role_change
       (orgs_apply_role_change org b a OrgRoleMember False (orgs_apply_role_change org a b OrgRoleMember False db))
       org actor target role)"
proof (intro conjI)
  have a: "member_role (db_org_members db) org a = Some OrgRoleOwner"
    and b: "member_role (db_org_members db) org b = Some OrgRoleOwner" using assms(3) by auto
  have two: "\<not> orgs_count_owners db org \<le> 1"
    using org_rows.sole_owner [OF assms(1) a] b assms(2) by blast
  show "check_org_role_change db org a b OrgRoleMember = Inr (OrgRoleMember, False)"
    "check_org_role_change db org b a OrgRoleMember = Inr (OrgRoleMember, False)"
    using a b two assms(2)
    by (simp_all add: check_org_role_change_def parse_org_role_def validate_org_role_def orgs_get_member_role_def found_def
        assert_actor_can_change_roles_def role_can_change_roles_def assert_sole_owner_safe_def should_demote_actor_def
        bind_res_def role_defs)
  let ?db = "orgs_apply_role_change org b a OrgRoleMember False (orgs_apply_role_change org a b OrgRoleMember False db)"
  have rows: "member_role (db_org_members ?db) org u =
      (if u = a \<or> u = b then Some OrgRoleMember else member_role (db_org_members db) org u)" for u
    by (simp add: orgs_apply_role_change_def Let_def member_role_update a b)
  have "member_role (db_org_members ?db) org actor \<noteq> Some OrgRoleOwner"
    using assms(3) unfolding rows by (auto simp: role_defs)
  then show "isl (check_org_role_change ?db org actor target role)"
    using check_org_role_change_Inr(3) [of ?db org actor target role]
    by (cases "check_org_role_change ?db org actor target role") auto
qed

theorem concurrent_demotions_orphan_organization_witness:
  "check_org_role_change small_db ''o'' ''u1'' ''u2'' OrgRoleMember = Inr (OrgRoleMember, False)"
proof -
  have "gm_wf (db_org_members small_db)" using small_db_owned by (simp add: tenancy_owned_def)
  moreover have "\<forall>u. member_role (db_org_members small_db) ''o'' u = Some OrgRoleOwner \<longleftrightarrow> u = ''u1'' \<or> u = ''u2''"
    by (simp add: small_db_def member_role_def role_defs)
  ultimately show ?thesis
    using concurrent_demotions_orphan_organization [of small_db "''u1''" "''u2''" "''o''"] by simp
qed

end
