(* ===== verification/Tenancy_Invites.thy ===== *)
theory Tenancy_Invites
  imports Tenancy_Service
begin

text \<open>
  The invite table keeps one row per token hash; a token whose invite is no longer pending is
  \<open>token_spent\<close> and stays so under every operation of the control plane.
\<close>

section \<open>Invite tokens\<close>

text \<open>The keys of the invite table: rows under their identifier, one row per token hash.\<close>

definition invites_keyed :: "tenancy_db \<Rightarrow> bool" where
  "invites_keyed db \<longleftrightarrow> gm_wf (db_invites db) \<and>
     (\<forall>i v. gm_get (db_invites db) i = Some v \<longrightarrow> iv_id v = i) \<and>
     (\<forall>i v j w. gm_get (db_invites db) i = Some v \<and> gm_get (db_invites db) j = Some w \<and>
        iv_token_hash v = iv_token_hash w \<longrightarrow> i = j)"

definition token_spent :: "string \<Rightarrow> tenancy_db \<Rightarrow> bool" where
  "token_spent h db \<longleftrightarrow> invites_keyed db \<and>
     (\<exists>i v. gm_get (db_invites db) i = Some v \<and> iv_token_hash v = h \<and> iv_status v \<noteq> InviteStatusPending)"

lemma invites_keyed_cong: "db_invites db' = db_invites db \<Longrightarrow> invites_keyed db' = invites_keyed db"
  by (simp add: invites_keyed_def)

lemma token_spent_cong: "db_invites db' = db_invites db \<Longrightarrow> token_spent h db' = token_spent h db"
  by (simp add: token_spent_def invites_keyed_def)

lemma invite_rows:
  assumes "invites_keyed db"
  shows "v \<in> set (map snd (db_invites db)) \<longleftrightarrow> gm_get (db_invites db) (iv_id v) = Some v"
proof -
  have wf: "gm_wf (db_invites db)" and key: "\<And>i w. gm_get (db_invites db) i = Some w \<Longrightarrow> iv_id w = i"
    using assms by (auto simp: invites_keyed_def)
  have "v \<in> set (map snd (db_invites db)) \<longleftrightarrow> (\<exists>i. (i, v) \<in> set (db_invites db))"
    by (auto intro: rev_image_eqI)
  also have "\<dots> \<longleftrightarrow> (\<exists>i. gm_get (db_invites db) i = Some v)" by (simp only: gm_get_mem [OF wf])
  also have "\<dots> \<longleftrightarrow> gm_get (db_invites db) (iv_id v) = Some v" using key by blast
  finally show ?thesis .
qed

lemma no_invite_conflict:
  assumes "invites_keyed db" and "\<not> invite_conflicts db v" and "gm_get (db_invites db) j = Some w" and "j \<noteq> iv_id v"
  shows "iv_token_hash w \<noteq> iv_token_hash v"
proof -
  have j: "iv_id w = j" using assms(1,3) by (auto simp: invites_keyed_def)
  then have "w \<in> set (map snd (db_invites db))" using assms(3) invite_rows [OF assms(1), of w] by simp
  with assms(2,4) j show ?thesis by (auto simp: invite_conflicts_def)
qed

lemma put_invite_keyed:
  assumes "invites_keyed db" and "\<not> invite_conflicts db v"
  shows "invites_keyed (db\<lparr>db_invites := gm_put (iv_id v) v (db_invites db)\<rparr>)"
  using assms(1) no_invite_conflict [OF assms] unfolding invites_keyed_def by (auto split: if_splits) metis

text \<open>Writing a row keeps a spent token spent, unless that row was the spent one and revives it.\<close>

lemma put_invite_spent:
  assumes "token_spent h db" and "\<not> invite_conflicts db v"
    and "\<And>w. gm_get (db_invites db) (iv_id v) = Some w \<Longrightarrow> iv_token_hash w = h \<Longrightarrow> iv_status w \<noteq> InviteStatusPending \<Longrightarrow>
      iv_token_hash v = h \<and> iv_status v \<noteq> InviteStatusPending"
  shows "token_spent h (db\<lparr>db_invites := gm_put (iv_id v) v (db_invites db)\<rparr>)"
proof -
  obtain i w where w: "gm_get (db_invites db) i = Some w" "iv_token_hash w = h" "iv_status w \<noteq> InviteStatusPending"
    and k: "invites_keyed db" using assms(1) by (auto simp: token_spent_def)
  show ?thesis
    unfolding token_spent_def
  proof (intro conjI)
    show "invites_keyed (db\<lparr>db_invites := gm_put (iv_id v) v (db_invites db)\<rparr>)" by (rule put_invite_keyed [OF k assms(2)])
    show "\<exists>i x. gm_get (db_invites (db\<lparr>db_invites := gm_put (iv_id v) v (db_invites db)\<rparr>)) i = Some x \<and>
        iv_token_hash x = h \<and> iv_status x \<noteq> InviteStatusPending"
    proof (cases "i = iv_id v")
      case True
      with w assms(3) show ?thesis by (intro exI [of _ "iv_id v"] exI [of _ v]) auto
    next
      case False
      with w show ?thesis by (intro exI [of _ i] exI [of _ w]) auto
    qed
  qed
qed

named_theorems spent_intros \<open>operations that keep a spent token spent\<close>

lemma other_tables_invites [simp]:
  "db_invites (snd (users_create ur db)) = db_invites db"
  "db_invites (snd (orgs_create_with_owner og u db)) = db_invites db"
  "db_invites (snd (orgs_add_member org u r db)) = db_invites db"
  "db_invites (snd (teams_create_with_owner t u db)) = db_invites db"
  "db_invites (snd (teams_add_member team u r db)) = db_invites db"
  "db_invites (snd (teams_remove_member team u db)) = db_invites db"
  "db_invites (snd (teams_set_member_role team u r db)) = db_invites db"
  "db_invites (snd (projects_insert p db)) = db_invites db"
  "db_invites (snd (environments_insert e db)) = db_invites db"
  by (simp_all add: users_create_def orgs_create_with_owner_def orgs_add_member_def teams_create_with_owner_def
      teams_add_member_def teams_remove_member_def teams_set_member_role_def projects_insert_def environments_insert_def)

lemma other_tables_spent [spent_intros]:
  "token_spent h db \<Longrightarrow> token_spent h (snd (users_create ur db))"
  "token_spent h db \<Longrightarrow> token_spent h (snd (orgs_create_with_owner og u db))"
  "token_spent h db \<Longrightarrow> token_spent h (snd (orgs_add_member org u r db))"
  "token_spent h db \<Longrightarrow> token_spent h (snd (teams_create_with_owner t u db))"
  "token_spent h db \<Longrightarrow> token_spent h (snd (teams_add_member team u r db))"
  "token_spent h db \<Longrightarrow> token_spent h (snd (teams_remove_member team u db))"
  "token_spent h db \<Longrightarrow> token_spent h (snd (teams_set_member_role team u r db))"
  "token_spent h db \<Longrightarrow> token_spent h (snd (projects_insert p db))"
  "token_spent h db \<Longrightarrow> token_spent h (snd (environments_insert e db))"
  by (simp_all add: token_spent_cong [of "snd _"])

lemma invites_insert_spent [spent_intros]: "token_spent h db \<Longrightarrow> token_spent h (snd (invites_insert v db))"
  using put_invite_spent [of h db v] by (auto simp: invites_insert_def)

text \<open>An update of a row that keeps its identifier, and of a spent row its hash and status.\<close>

lemma invites_update_spent:
  assumes s: "token_spent h db"
    and f: "\<And>v. gm_get (db_invites db) i = Some v \<Longrightarrow> iv_id (f v) = iv_id v \<and>
      (iv_status v \<noteq> InviteStatusPending \<longrightarrow> iv_token_hash (f v) = iv_token_hash v \<and> iv_status (f v) \<noteq> InviteStatusPending)"
  shows "token_spent h (snd (invites_update i f db))"
proof (cases "gm_get (db_invites db) i")
  case None
  then show ?thesis using s by (simp add: invites_update_def)
next
  case (Some v)
  then have i: "iv_id (f v) = i" using s f [OF Some] by (auto simp: token_spent_def invites_keyed_def)
  then show ?thesis
    using s f [OF Some] Some put_invite_spent [OF s, of "f v"] by (auto simp: invites_update_def)
qed

lemma mark_spent [spent_intros]:
  "token_spent h db \<Longrightarrow> token_spent h (snd (invites_mark_accepted i t db))"
  "token_spent h db \<Longrightarrow> token_spent h (snd (invites_mark_revoked i db))"
  unfolding invites_mark_accepted_def invites_mark_revoked_def
  by (rule invites_update_spent, assumption, simp add: invite_status_defs)+

text \<open>A token is only rotated for a pending invite.\<close>

lemma update_token_spent:
  assumes s: "token_spent h db" and p: "\<And>v. gm_get (db_invites db) i = Some v \<Longrightarrow> iv_status v = InviteStatusPending"
  shows "token_spent h (snd (invites_update_token i h' e db))"
  unfolding invites_update_token_def by (rule invites_update_spent [OF s]) (simp add: p)

lemma pending_rows:
  assumes "token_spent h db"
  shows "invites_get db i = Inr v \<Longrightarrow> gm_get (db_invites db) i = Some v"
    and "invites_get_pending db org email = Inr v \<Longrightarrow>
      gm_get (db_invites db) (iv_id v) = Some v \<and> iv_status v = InviteStatusPending"
  using assms invite_rows [of db v]
  by (auto simp: invites_get_def invites_get_pending_def found_Inr find_Some_iff token_spent_def)

lemmas spent_seq = db_bind_keeps [where P = "token_spent h" for h] db_check_keeps [where P = "token_spent h" for h]

lemma create_user_spent: "token_spent h db \<Longrightarrow> token_spent h (snd (create_user i e n pw db))"
  unfolding create_user_def Let_def by (auto intro!: spent_seq spent_intros)

lemma accepting_user_invites [simp]: "db_invites (snd (accepting_user v name pw uid db)) = db_invites db"
  by (auto simp: accepting_user_def create_user_def db_bind_def users_create_def Let_def split: sum.splits)

lemma accepting_user_spent: "token_spent h db \<Longrightarrow> token_spent h (snd (accepting_user v name pw uid db))"
  by (simp add: token_spent_cong [of "snd _"])

lemma tenancy_entities_spent:
  "token_spent h db \<Longrightarrow> token_spent h (snd (create_organization now i name u db))"
  "token_spent h db \<Longrightarrow> token_spent h (snd (create_team now i org name u db))"
  "token_spent h db \<Longrightarrow> token_spent h (snd (create_project now i org team name db))"
  "token_spent h db \<Longrightarrow> token_spent h (snd (create_environment now i org proj name slug db))"
  "token_spent h db \<Longrightarrow> token_spent h (snd (add_org_member_by_email org email db))"
  unfolding create_organization_def create_team_def create_project_def create_environment_def add_org_member_by_email_def
  by (auto intro!: spent_seq spent_intros)

lemma update_org_member_role_invites [simp]:
  "db_invites (snd (update_org_member_role org actor target role0 db)) = db_invites db"
  by (simp add: update_org_member_role_def orgs_apply_role_change_def Let_def split: sum.splits prod.splits)

lemma update_org_member_role_spent:
  "token_spent h db \<Longrightarrow> token_spent h (snd (update_org_member_role org actor target role0 db))"
  by (simp add: token_spent_cong [of "snd _"])

lemma team_members_spent:
  "token_spent h db \<Longrightarrow> token_spent h (snd (add_team_member team u db))"
  "token_spent h db \<Longrightarrow> token_spent h (snd (remove_team_member team u db))"
  "token_spent h db \<Longrightarrow> token_spent h (snd (update_team_member_role team actor u role db))"
  unfolding add_team_member_def remove_team_member_def update_team_member_role_def
  by (auto intro!: spent_seq spent_intros split: sum.splits)

lemma invite_org_member_spent:
  "token_spent h db \<Longrightarrow> token_spent h (snd (invite_org_member sha now raw i org email by db))"
  unfolding invite_org_member_def Let_def
  by (auto intro!: spent_seq spent_intros update_token_spent dest: pending_rows split: sum.splits)

lemma revoke_resend_spent:
  "token_spent h db \<Longrightarrow> token_spent h (snd (revoke_invite org i db))"
  "token_spent h db \<Longrightarrow> token_spent h (snd (resend_invite sha now raw org i db))"
  unfolding revoke_invite_def resend_invite_def Let_def
  by (auto intro!: spent_seq spent_intros update_token_spent simp: invites_get_def found_Inr)

lemma accept_invite_spent: "token_spent h db \<Longrightarrow> token_spent h (snd (accept_invite sha now raw name pw uid db))"
  unfolding accept_invite_def Let_def
  by (auto intro!: spent_seq spent_intros accepting_user_spent split: sum.splits prod.splits)

lemma exec_op_spent: "token_spent h db \<Longrightarrow> token_spent h (exec_op sha op0 db)"
  by (cases op0)
    (simp_all add: tenancy_entities_spent update_org_member_role_spent team_members_spent invite_org_member_spent
      revoke_resend_spent accept_invite_spent)

lemma exec_ops_spent: "token_spent h db \<Longrightarrow> token_spent h (exec_ops sha ops db)"
  unfolding exec_ops_def by (induction ops arbitrary: db) (simp_all add: exec_op_spent)

text \<open>A live invite is the one row of its token; a spent token has no live invite.\<close>

lemma live_invite_Inr:
  assumes "invites_keyed db" and "live_invite sha now db raw = Inr (v, org_name)"
  shows "gm_get (db_invites db) (iv_id v) = Some v" "iv_status v = InviteStatusPending" "now \<le> iv_expires_at v"
    "iv_token_hash v = hash_invite_token sha raw"
  using assms invite_rows [OF assms(1), of v]
  by (auto simp: live_invite_def bind_res_Inr invites_get_by_token_hash_def found_Inr Option.bind_eq_Some_conv
      find_Some_iff split: if_splits)

lemma live_invite_spent: "token_spent (hash_invite_token sha raw) db \<Longrightarrow> isl (live_invite sha now db raw)"
proof (cases "live_invite sha now db raw")
  case (Inr x)
  assume s: "token_spent (hash_invite_token sha raw) db"
  obtain v name where x: "x = (v, name)" by (cases x)
  have "invites_keyed db" using s by (simp add: token_spent_def)
  from live_invite_Inr [OF this Inr [unfolded x]] s show ?thesis
    unfolding token_spent_def invites_keyed_def by (metis option.inject)
qed simp

lemma accept_invite_dead: "isl (live_invite sha now db raw) \<Longrightarrow> isl (fst (accept_invite sha now raw name pw uid db))"
  by (auto simp: accept_invite_def db_check_def split: sum.splits)

lemma mark_accepted_keyed:
  assumes "invites_keyed db" and "gm_get (db_invites db) i = Some v"
  shows "token_spent (iv_token_hash v) (snd (invites_mark_accepted i t db))"
proof -
  let ?v = "v\<lparr>iv_status := InviteStatusAccepted, iv_accepted_at := Some t\<rparr>"
  have i: "iv_id v = i" using assms by (auto simp: invites_keyed_def)
  have "iv_token_hash w \<noteq> iv_token_hash v" if "w \<in> set (map snd (db_invites db))" "iv_id w \<noteq> iv_id v" for w
    using assms that invite_rows [OF assms(1), of w] i unfolding invites_keyed_def by metis
  then have c: "\<not> invite_conflicts db ?v" by (auto simp: invite_conflicts_def invite_status_defs)
  have "snd (invites_mark_accepted i t db) = db\<lparr>db_invites := gm_put (iv_id ?v) ?v (db_invites db)\<rparr>"
    using assms(2) c i by (simp add: invites_mark_accepted_def invites_update_def)
  moreover have "invites_keyed (db\<lparr>db_invites := gm_put (iv_id ?v) ?v (db_invites db)\<rparr>)"
    by (rule put_invite_keyed [OF assms(1) c])
  ultimately show ?thesis
    using i by (auto simp: token_spent_def invite_status_defs intro!: exI [of _ i])
qed

lemma accept_invite_Inr:
  assumes k: "invites_keyed db" and acc: "accept_invite sha now raw name pw uid db = (Inr (m, u), db')"
  obtains v where "gm_get (db_invites db) (iv_id v) = Some v" "iv_status v = InviteStatusPending" "now \<le> iv_expires_at v"
    "iv_token_hash v = hash_invite_token sha raw" "member_role (db_org_members db') (iv_organization_id v) (ur_id u) \<noteq> None"
    "token_spent (hash_invite_token sha raw) db'"
proof -
  obtain x where "live_invite sha now db raw = Inr x"
    using acc by (cases "live_invite sha now db raw") (auto simp: accept_invite_def db_check_def)
  moreover obtain v org_name where "x = (v, org_name)" by (cases x)
  ultimately have live: "live_invite sha now db raw = Inr (v, org_name)" by simp
  note v = live_invite_Inr [OF k live]
  obtain db1 where au: "accepting_user v name pw uid db = (Inr u, db1)"
    using acc live
    by (cases "accepting_user v name pw uid db")
      (auto simp: accept_invite_def db_check_def db_bind_def Let_def split: sum.splits prod.splits if_splits)
  have i1: "db_invites db1 = db_invites db" using accepting_user_invites [of v name pw uid db] au by simp
  have k1: "invites_keyed db1" using k invites_keyed_cong [OF i1] by simp
  have row: "gm_get (db_invites db1) (iv_id v) = Some v" using v(1) i1 by simp
  have members: "db_org_members (snd (invites_mark_accepted i t d)) = db_org_members d" for i t d
    by (simp add: invites_mark_accepted_def invites_update_def split: option.splits)
  show thesis
  proof (cases "member_role (db_org_members db1) (iv_organization_id v) (ur_id u)")
    case (Some r)
    then have "db' = snd (invites_mark_accepted (iv_id v) now db1)"
      using acc live au by (auto simp: accept_invite_def db_check_def db_bind_def Let_def orgs_get_member_role_def found_def)
    then show ?thesis using that [OF v] mark_accepted_keyed [OF k1 row] v(4) Some members by simp
  next
    case None
    let ?role = "if iv_role v = [] then OrgRoleMember else iv_role v"
    let ?add = "orgs_add_member (iv_organization_id v) (ur_id u) ?role"
    have nf: "orgs_get_member_role db1 (ur_id u) (iv_organization_id v) = Inl (sentinel ErrNotFound)"
      using None by (simp add: orgs_get_member_role_def found_def)
    have "db' = snd (invites_mark_accepted (iv_id v) now (snd (?add db1))) \<and> fst (?add db1) = Inr ()"
      using acc live au nf
      by (cases "?add db1"; cases "fst (?add db1)"; cases "invites_mark_accepted (iv_id v) now (snd (?add db1))")
        (auto simp: accept_invite_def db_check_def db_bind_def Let_def err_is_def split: sum.splits)
    moreover from this None have "member_role (db_org_members (snd (?add db1))) (iv_organization_id v) (ur_id u) \<noteq> None"
      by (auto simp: orgs_add_member_def member_role_def split: if_splits)
    moreover have "invites_keyed (snd (?add db1))" using k1 invites_keyed_cong [of "snd (?add db1)" db1] by simp
    ultimately show ?thesis
      using that [OF v] mark_accepted_keyed [of "snd (?add db1)" "iv_id v" v now] row v(4) members by simp
  qed
qed

text \<open>
  C13: An invite is single use: accepting succeeds only with the token of a pending, unexpired
  invite and makes the user a member of that invite's organization, and afterwards, whatever the
  control plane executes in between (role changes, revocations, resends, new invites), the same
  token is never accepted again.
\<close>

theorem invite_single_use:
  assumes "invites_keyed db" and "accept_invite sha now raw name pw uid db = (Inr (m, u), db')"
  shows "(\<exists>v. gm_get (db_invites db) (iv_id v) = Some v \<and> iv_token_hash v = hash_invite_token sha raw \<and>
        iv_status v = InviteStatusPending \<and> now \<le> iv_expires_at v \<and>
        member_role (db_org_members db') (iv_organization_id v) (ur_id u) \<noteq> None) \<and>
    isl (fst (accept_invite sha now' raw name' pw' uid' (exec_ops sha ops db')))"
proof (rule accept_invite_Inr [OF assms])
  fix v
  assume v: "gm_get (db_invites db) (iv_id v) = Some v" "iv_status v = InviteStatusPending" "now \<le> iv_expires_at v"
    "iv_token_hash v = hash_invite_token sha raw" "member_role (db_org_members db') (iv_organization_id v) (ur_id u) \<noteq> None"
    "token_spent (hash_invite_token sha raw) db'"
  show ?thesis
    using v(1-5) accept_invite_dead [OF live_invite_spent [OF exec_ops_spent [OF v(6)]]] by blast
qed

theorem invite_single_use_witness:
  "isl (fst (accept_invite id 6 ''t'' ''Y'' ''pw'' ''u4'' (exec_ops id [RevokeInvite ''o'' ''i'']
     (snd (accept_invite id 5 ''t'' ''X'' ''pw'' ''u3'' small_db)))))"
proof -
  have k: "invites_keyed small_db" by (auto simp: invites_keyed_def small_db_def gm_wf_def split: if_splits)
  have "accept_invite id 5 ''t'' ''X'' ''pw'' ''u3'' small_db =
      (Inr (\<lparr>me_user_id = ''u3'', me_email = ''x@y'', me_name = ''X'', me_role = ''member''\<rparr>,
            \<lparr>ur_id = ''u3'', ur_email = ''x@y'', ur_name = ''X'', ur_role = ''member'', ur_password_hash = ''pw''\<rparr>),
       snd (accept_invite id 5 ''t'' ''X'' ''pw'' ''u3'' small_db))"
    by code_simp
  from invite_single_use [OF k this] show ?thesis by blast
qed

end
