(* ===== verification/Codec_OpenAI.thy ===== *)
theory Codec_OpenAI
  imports Dialect
begin

text \<open>
  The OpenAI chat.completions codec: \<^verbatim>\<open>src/internal/dataplane/ir/openai_codec.go\<close>, \<^verbatim>\<open>image.go\<close> and
  the checks of \<^verbatim>\<open>validate.go\<close>. Encoding yields the JSON value that is marshalled, with the members
  in the order the code adds them; decoding starts from the value of the body. Decoding a request
  the encoder wrote gives the request back.
\<close>

section \<open>Images\<close>

definition image_source_to_data_url :: "image_source option \<Rightarrow> string" where
  "image_source_to_data_url img =
     (case img of None \<Rightarrow> []
      | Some im \<Rightarrow>
          if im_url im \<noteq> [] then im_url im
          else if im_data im = [] then []
          else ''data:'' @ (if im_media_type im = [] then ''application/octet-stream'' else im_media_type im) @
            '';base64,'' @ im_data im)"

definition url_image :: "string \<Rightarrow> image_source" where
  "url_image url = \<lparr>im_url = url, im_media_type = [], im_data = []\<rparr>"

definition data_image :: "string \<Rightarrow> string \<Rightarrow> image_source" where
  "data_image media_type data = \<lparr>im_url = [], im_media_type = media_type, im_data = data\<rparr>"

definition parse_image_url :: "string \<Rightarrow> image_source option" where
  "parse_image_url raw0 =
     (let raw = trim_space raw0 in
      if raw = [] then None
      else if \<not> has_prefix raw ''data:'' then Some (url_image raw)
      else (case cut_char CHR '','' (trim_prefix raw ''data:'') of (meta, data, found) \<Rightarrow>
        if \<not> found then Some (url_image raw)
        else Some (data_image (fst (cut_char CHR '';'' meta)) data)))"

section \<open>Encoding requests\<close>

definition ContentText :: string where "ContentText = ''text''"
definition ContentImage :: string where "ContentImage = ''image''"
definition ToolChoiceAuto :: string where "ToolChoiceAuto = ''auto''"
definition ToolChoiceNone :: string where "ToolChoiceNone = ''none''"
definition ToolChoiceRequired :: string where "ToolChoiceRequired = ''required''"
definition ToolChoiceTool :: string where "ToolChoiceTool = ''tool''"

lemmas tool_mode_defs = ToolChoiceAuto_def ToolChoiceNone_def ToolChoiceRequired_def ToolChoiceTool_def
lemmas content_kinds = ContentText_def ContentImage_def

text \<open>The text part of a message, and what both dialects do with a part that is not an image.\<close>

definition openai_content_parts :: "content_part list \<Rightarrow> json list" where
  "openai_content_parts parts =
     concat (map (\<lambda>p.
       if cp_type p = ContentImage then
         (let url = image_source_to_data_url (cp_image p) in
          if url \<noteq> [] then [JObj [(''type'', JStr ''image_url''), (''image_url'', JObj [(''url'', JStr url)])]] else [])
       else [JObj [(''type'', JStr ''text''), (''text'', JStr (cp_text p))]]) parts)"

definition openai_tool_calls :: "tool_call list \<Rightarrow> json list" where
  "openai_tool_calls calls =
     map (\<lambda>c. JObj [(''id'', JStr (tk_id c)), (''type'', JStr ''function''),
        (''function'', JObj [(''name'', JStr (tk_name c)),
           (''arguments'', JStr (if tk_arguments c = [] then ''{}'' else tk_arguments c))])]) calls"

definition openai_message :: "message \<Rightarrow> json" where
  "openai_message m =
     JObj ([(''role'', JStr (ms_role m)),
            (''content'',
              if ms_parts m \<noteq> [] then JArr (openai_content_parts (ms_parts m))
              else if ms_tool_calls m \<noteq> [] \<and> ms_content m = [] then JNull
              else JStr (ms_content m))]
           @ opt_member (ms_tool_calls m \<noteq> []) ''tool_calls'' (JArr (openai_tool_calls (ms_tool_calls m)))
           @ opt_member (ms_role m = ''tool'' \<and> ms_tool_call_id m \<noteq> []) ''tool_call_id'' (JStr (ms_tool_call_id m)))"

definition raw_value :: "raw_json \<Rightarrow> json" where
  "raw_value r = (case r of None \<Rightarrow> JNull | Some j \<Rightarrow> j)"

definition openai_tools :: "tool list \<Rightarrow> json list" where
  "openai_tools tools =
     map (\<lambda>t. JObj [(''type'', JStr ''function''),
        (''function'', JObj ([(''name'', JStr (tl_name t))]
           @ opt_member (tl_description t \<noteq> []) ''description'' (JStr (tl_description t))
           @ opt_member (tl_parameters t \<noteq> None) ''parameters'' (raw_value (tl_parameters t))))]) tools"

definition openai_tool_choice :: "tool_choice option \<Rightarrow> json option" where
  "openai_tool_choice tc =
     (case tc of None \<Rightarrow> None
      | Some c \<Rightarrow>
          if tc_mode c = ToolChoiceAuto then Some (JStr ''auto'')
          else if tc_mode c = ToolChoiceNone then Some (JStr ''none'')
          else if tc_mode c = ToolChoiceRequired then Some (JStr ''required'')
          else if tc_mode c = ToolChoiceTool then
            Some (JObj [(''type'', JStr ''function''), (''function'', JObj [(''name'', JStr (tc_name c))])])
          else None)"

definition num_value :: "rat option \<Rightarrow> json" where
  "num_value x = (case x of None \<Rightarrow> JNull | Some r \<Rightarrow> JNum r)"

definition encode_openai :: "chat_request \<Rightarrow> json" where
  "encode_openai req =
     JObj ([(''model'', JStr (cq_model req)),
            (''messages'', JArr
              ((if cq_system req \<noteq> [] then [JObj [(''role'', JStr ''system''), (''content'', JStr (cq_system req))]] else [])
               @ map openai_message
                   (filter (\<lambda>m. \<not> (ms_role m = ''system'' \<and> cq_system req \<noteq> [])) (cq_messages req))))]
           @ opt_member (cq_stream req) ''stream'' (JBool True)
           @ opt_member (cq_max_tokens req > 0) ''max_tokens'' (JNum (of_int (cq_max_tokens req)))
           @ opt_member (cq_temperature req \<noteq> None) ''temperature'' (num_value (cq_temperature req))
           @ opt_member (cq_top_p req \<noteq> None) ''top_p'' (num_value (cq_top_p req))
           @ opt_member (cq_stop req \<noteq> []) ''stop'' (JArr (map JStr (cq_stop req)))
           @ opt_member (cq_tools req \<noteq> []) ''tools'' (JArr (openai_tools (cq_tools req)))
           @ opt_member (openai_tool_choice (cq_tool_choice req) \<noteq> None) ''tool_choice''
               (raw_value (openai_tool_choice (cq_tool_choice req))))"

section \<open>Rejected features\<close>

definition unsupported :: "string \<Rightarrow> string \<Rightarrow> call_error + 'a" where
  "unsupported feature message = Inl (Unsupported feature message)"

text \<open>A present member that is not null.\<close>

definition present :: "string \<Rightarrow> json \<Rightarrow> bool" where
  "present name raw \<longleftrightarrow> jget name raw \<noteq> JNull"

definition reject_openai_unsupported :: "json \<Rightarrow> call_error + unit" where
  "reject_openai_unsupported raw =
     (if present ''functions'' raw then unsupported ''functions'' ''functions are not supported; use tools instead''
      else if present ''function_call'' raw then
        unsupported ''function_call'' ''function_call is not supported; use tool_choice instead''
      else if (case jget ''logprobs'' raw of JBool b \<Rightarrow> b | JNum r \<Rightarrow> r \<noteq> 0 | JNull \<Rightarrow> False | _ \<Rightarrow> True) then
        unsupported ''logprobs'' ''logprobs are not supported by the gateway chat dialect yet''
      else if (case jget ''n'' raw of JNum r \<Rightarrow> r > 1 | _ \<Rightarrow> False) then
        unsupported ''n'' ''n > 1 is not supported by the gateway chat dialect yet''
      else Inr ())"

section \<open>Decoding requests\<close>

text \<open>\<^verbatim>\<open>fmt.Errorf("...: %w", err)\<close>: the message without the argument.\<close>

definition or_error :: "string \<Rightarrow> 'a res \<Rightarrow> call_error + 'a" where
  "or_error msg r = (case r of Inl e \<Rightarrow> Inl (OtherError msg) | Inr x \<Rightarrow> Inr x)"

lemma or_error_simps [simp]: "or_error msg (Inr x) = Inr x" "or_error msg (Inl e) = Inl (OtherError msg)"
  by (simp_all add: or_error_def)

record openai_in_message =
  om_role :: string
  om_content :: json
  om_tool_call_id :: string
  om_tool_calls :: raw_json

record openai_in =
  oi_model :: string
  oi_stream :: bool
  oi_max_tokens :: "int option"
  oi_max_completion_tokens :: "int option"
  oi_temperature :: "rat option"
  oi_top_p :: "rat option"
  oi_stop :: json
  oi_tools :: raw_json
  oi_tool_choice :: raw_json
  oi_messages :: "openai_in_message list"

definition openai_in_message_fields :: "openai_in_message fields" where
  "openai_in_message_fields =
     [field ''role'' dec_string om_role (\<lambda>x. om_role_update (\<lambda>_. x)),
      field ''content'' dec_any om_content (\<lambda>x. om_content_update (\<lambda>_. x)),
      field ''tool_call_id'' dec_string om_tool_call_id (\<lambda>x. om_tool_call_id_update (\<lambda>_. x)),
      field ''tool_calls'' dec_raw om_tool_calls (\<lambda>x. om_tool_calls_update (\<lambda>_. x))]"

definition zero_openai_in_message :: openai_in_message where
  "zero_openai_in_message = \<lparr>om_role = [], om_content = JNull, om_tool_call_id = [], om_tool_calls = None\<rparr>"

definition openai_in_fields :: "openai_in fields" where
  "openai_in_fields =
     [field ''model'' dec_string oi_model (\<lambda>x. oi_model_update (\<lambda>_. x)),
      field ''stream'' dec_bool oi_stream (\<lambda>x. oi_stream_update (\<lambda>_. x)),
      field ''max_tokens'' (dec_ptr 0 dec_int) oi_max_tokens (\<lambda>x. oi_max_tokens_update (\<lambda>_. x)),
      field ''max_completion_tokens'' (dec_ptr 0 dec_int) oi_max_completion_tokens
        (\<lambda>x. oi_max_completion_tokens_update (\<lambda>_. x)),
      field ''temperature'' (dec_ptr 0 dec_float) oi_temperature (\<lambda>x. oi_temperature_update (\<lambda>_. x)),
      field ''top_p'' (dec_ptr 0 dec_float) oi_top_p (\<lambda>x. oi_top_p_update (\<lambda>_. x)),
      field ''stop'' dec_any oi_stop (\<lambda>x. oi_stop_update (\<lambda>_. x)),
      field ''tools'' dec_raw oi_tools (\<lambda>x. oi_tools_update (\<lambda>_. x)),
      field ''tool_choice'' dec_raw oi_tool_choice (\<lambda>x. oi_tool_choice_update (\<lambda>_. x)),
      field ''messages'' (dec_slice zero_openai_in_message (dec_struct openai_in_message_fields)) oi_messages
        (\<lambda>x. oi_messages_update (\<lambda>_. x))]"

definition zero_openai_in :: openai_in where
  "zero_openai_in = \<lparr>oi_model = [], oi_stream = False, oi_max_tokens = None, oi_max_completion_tokens = None,
     oi_temperature = None, oi_top_p = None, oi_stop = JNull, oi_tools = None, oi_tool_choice = None, oi_messages = []\<rparr>"

definition openai_image_part :: "json \<Rightarrow> image_source option" where
  "openai_image_part pm =
     (case jmember ''image_url'' pm of
        Some (JStr v) \<Rightarrow> parse_image_url v
      | Some (JObj kvs) \<Rightarrow> parse_image_url (as_string (jget ''url'' (JObj kvs)))
      | _ \<Rightarrow> None)"

definition text_part :: "string \<Rightarrow> content_part" where
  "text_part t = \<lparr>cp_type = ContentText, cp_text = t, cp_image = None\<rparr>"

definition image_part :: "image_source \<Rightarrow> content_part" where
  "image_part im = \<lparr>cp_type = ContentImage, cp_text = [], cp_image = Some im\<rparr>"

text \<open>One content part: nothing, a text or an image.\<close>

definition parse_openai_part :: "json \<Rightarrow> call_error + content_part option" where
  "parse_openai_part pm =
     (if \<not> is_object pm then Inr None
      else
        let typ = as_string (jget ''type'' pm) in
        if typ = [] \<or> typ = ''text'' then Inr (Some (text_part (as_string (jget ''text'' pm))))
        else if typ = ''image_url'' then
          (case openai_image_part pm of
             None \<Rightarrow> unsupported ''vision'' ''image_url content part is missing a url''
           | Some im \<Rightarrow> Inr (Some (image_part im)))
        else unsupported ''content_parts'' ''content part type is not supported by the gateway chat dialect yet'')"

definition part_text :: "content_part \<Rightarrow> string list" where
  "part_text p = (if cp_type p = ContentImage then [] else [cp_text p])"

definition has_image :: "content_part list \<Rightarrow> bool" where
  "has_image parts \<longleftrightarrow> list_ex (\<lambda>p. cp_type p = ContentImage) parts"

definition parse_openai_content :: "json \<Rightarrow> call_error + string \<times> content_part list" where
  "parse_openai_content content =
     (case content of
        JStr v \<Rightarrow> Inr (v, [])
      | JNull \<Rightarrow> Inr ([], [])
      | JArr v \<Rightarrow>
          bind_res (map_res parse_openai_part v) (\<lambda>ps.
            let built = concat (map (\<lambda>p. case p of None \<Rightarrow> [] | Some q \<Rightarrow> [q]) ps) in
            Inr (join ''\<newline>'' (concat (map part_text built)), if has_image built then built else []))
      | _ \<Rightarrow> unsupported ''content'' ''message content must be a string or content parts'')"

definition openai_call_fields :: "tool_call fields" where
  "openai_call_fields =
     [field ''id'' dec_string tk_id (\<lambda>x. tk_id_update (\<lambda>_. x)),
      (''function'', dec_struct
         [field ''name'' dec_string tk_name (\<lambda>x. tk_name_update (\<lambda>_. x)),
          field ''arguments'' dec_string tk_arguments (\<lambda>x. tk_arguments_update (\<lambda>_. x))])]"

definition zero_tool_call :: tool_call where
  "zero_tool_call = \<lparr>tk_id = [], tk_name = [], tk_arguments = []\<rparr>"

definition absent :: "raw_json \<Rightarrow> bool" where
  "absent raw \<longleftrightarrow> raw = None \<or> raw = Some JNull"

definition parse_openai_tool_calls :: "raw_json \<Rightarrow> call_error + tool_call list" where
  "parse_openai_tool_calls raw =
     (if absent raw then Inr []
      else or_error ''invalid tool_calls''
        (dec_slice zero_tool_call (dec_struct openai_call_fields) (raw_value raw) []))"

definition openai_tool_fields :: "tool fields" where
  "openai_tool_fields =
     [(''function'', dec_struct
         [field ''name'' dec_string tl_name (\<lambda>x. tl_name_update (\<lambda>_. x)),
          field ''description'' dec_string tl_description (\<lambda>x. tl_description_update (\<lambda>_. x)),
          field ''parameters'' dec_raw tl_parameters (\<lambda>x. tl_parameters_update (\<lambda>_. x))])]"

definition zero_tool :: tool where
  "zero_tool = \<lparr>tl_name = [], tl_description = [], tl_parameters = None\<rparr>"

definition parse_openai_tools :: "raw_json \<Rightarrow> call_error + tool list" where
  "parse_openai_tools raw =
     (if absent raw then Inr []
      else bind_res (or_error ''invalid tools'' (dec_slice zero_tool (dec_struct openai_tool_fields) (raw_value raw) []))
        (\<lambda>ts. Inr (filter (\<lambda>t. tl_name t \<noteq> []) ts)))"

definition parse_openai_tool_choice :: "raw_json \<Rightarrow> call_error + tool_choice option" where
  "parse_openai_tool_choice raw =
     (if absent raw then Inr None
      else
        (case raw_value raw of
           JStr s \<Rightarrow> Inr
             (if s = ''auto'' then Some \<lparr>tc_mode = ToolChoiceAuto, tc_name = []\<rparr>
              else if s = ''none'' then Some \<lparr>tc_mode = ToolChoiceNone, tc_name = []\<rparr>
              else if s = ''required'' \<or> s = ''any'' then Some \<lparr>tc_mode = ToolChoiceRequired, tc_name = []\<rparr>
              else None)
         | j \<Rightarrow>
             bind_res (or_error ''invalid tool_choice''
                 (dec_struct [(''function'', dec_struct [field ''name'' dec_string id (\<lambda>x _. x)])] j []))
               (\<lambda>name. Inr (if name \<noteq> [] then Some \<lparr>tc_mode = ToolChoiceTool, tc_name = name\<rparr> else None))))"

definition normalize_stop :: "json \<Rightarrow> string list" where
  "normalize_stop stop =
     (case stop of
        JStr v \<Rightarrow> if v = [] then [] else [v]
      | JArr v \<Rightarrow> filter (\<lambda>s. s \<noteq> []) (map as_string v)
      | _ \<Rightarrow> [])"

text \<open>The loop over the messages: the system texts and the messages.\<close>

fun openai_messages :: "openai_in_message list \<Rightarrow> call_error + string list \<times> message list" where
  "openai_messages [] = Inr ([], [])"
| "openai_messages (m # ms) =
     bind_res (parse_openai_content (om_content m)) (\<lambda>(text, parts).
     bind_res (parse_openai_tool_calls (om_tool_calls m)) (\<lambda>calls.
     bind_res (openai_messages ms) (\<lambda>(sys, msgs). Inr
       (if om_role m = ''system'' then (if text \<noteq> [] then text # sys else sys, msgs)
        else if om_role m = ''user'' \<or> om_role m = ''assistant'' then
          (sys, \<lparr>ms_role = om_role m, ms_content = text, ms_parts = parts, ms_tool_calls = calls, ms_tool_call_id = []\<rparr> # msgs)
        else if om_role m = ''tool'' then
          (sys, \<lparr>ms_role = ''tool'', ms_content = text, ms_parts = [], ms_tool_calls = [],
                 ms_tool_call_id = om_tool_call_id m\<rparr> # msgs)
        else if text \<noteq> [] \<or> calls \<noteq> [] then
          (sys, \<lparr>ms_role = om_role m, ms_content = text, ms_parts = parts, ms_tool_calls = calls, ms_tool_call_id = []\<rparr> # msgs)
        else (sys, msgs)))))"

definition positive :: "int option \<Rightarrow> bool" where
  "positive n \<longleftrightarrow> (case n of None \<Rightarrow> False | Some k \<Rightarrow> k > 0)"

definition openai_max_tokens :: "openai_in \<Rightarrow> int" where
  "openai_max_tokens inp =
     (if positive (oi_max_tokens inp) then the (oi_max_tokens inp)
      else if positive (oi_max_completion_tokens inp) then the (oi_max_completion_tokens inp)
      else 0)"

text \<open>Unmarshalling a body into \<^verbatim>\<open>map[string]any\<close>: an object or \<^verbatim>\<open>null\<close>.\<close>

definition decode_map :: "string \<Rightarrow> json \<Rightarrow> call_error + json" where
  "decode_map msg j = (if is_object j \<or> j = JNull then Inr j else Inl (OtherError msg))"

definition decode_openai_value :: "json \<Rightarrow> call_error + chat_request" where
  "decode_openai_value body =
     bind_res (decode_map ''invalid openai chat body'' body) (\<lambda>raw.
     bind_res (reject_openai_unsupported raw) (\<lambda>_.
     bind_res (or_error ''invalid openai chat body'' (dec_struct openai_in_fields body zero_openai_in)) (\<lambda>inp.
       if trim_space (oi_model inp) = [] then Inl (OtherError ''model is required'')
       else
         bind_res (parse_openai_tools (oi_tools inp)) (\<lambda>tools.
         bind_res (parse_openai_tool_choice (oi_tool_choice inp)) (\<lambda>tc.
         bind_res (openai_messages (oi_messages inp)) (\<lambda>(sys, msgs).
           if msgs = [] then Inl (OtherError ''at least one user/assistant message is required'')
           else Inr \<lparr>cq_model = oi_model inp, cq_messages = msgs, cq_system = join ''\<newline>\<newline>'' sys,
             cq_max_tokens = openai_max_tokens inp, cq_temperature = oi_temperature inp, cq_top_p = oi_top_p inp,
             cq_stream = oi_stream inp, cq_stop = normalize_stop (oi_stop inp), cq_tools = tools,
             cq_tool_choice = tc\<rparr>))))))"

text \<open>From the text of the body, with the JSON parser \<open>parse_json\<close>.\<close>

definition decode_openai_request :: "(string \<Rightarrow> json option) \<Rightarrow> string \<Rightarrow> call_error + chat_request" where
  "decode_openai_request parse_json body =
     (case parse_json body of
        None \<Rightarrow> Inl (OtherError ''invalid openai chat body'')
      | Some j \<Rightarrow> decode_openai_value j)"

section \<open>Responses\<close>

definition encode_openai_response :: "chat_response \<Rightarrow> json" where
  "encode_openai_response resp =
     (let content = (if cr_content resp \<noteq> [] \<or> cr_tool_calls resp = [] then JStr (cr_content resp) else JNull);
          message = JObj ([(''role'', JStr (if cr_role resp = [] then ''assistant'' else cr_role resp)),
                           (''content'', content)]
             @ opt_member (cr_tool_calls resp \<noteq> []) ''tool_calls'' (JArr (openai_tool_calls (cr_tool_calls resp))));
          u = cr_usage resp
      in JObj
        [(''id'', JStr (cr_resp_id resp)), (''object'', JStr ''chat.completion''), (''model'', JStr (cr_model resp)),
         (''choices'', JArr [JObj [(''index'', JNum 0), (''message'', message),
            (''finish_reason'', JStr (cr_finish_reason resp))]]),
         (''usage'', JObj [(''prompt_tokens'', JNum (of_int (us_prompt u))),
            (''completion_tokens'', JNum (of_int (us_completion u))),
            (''total_tokens'', JNum (of_int (i64 (us_prompt u + us_completion u))))])])"

record openai_choice_in =
  och_role :: string
  och_content :: json
  och_tool_calls :: raw_json
  och_finish_reason :: string

record openai_resp_in =
  ori_id :: string
  ori_model :: string
  ori_choices :: "openai_choice_in list"
  ori_prompt :: int
  ori_completion :: int
  ori_error :: "string option"

definition openai_choice_fields :: "openai_choice_in fields" where
  "openai_choice_fields =
     [(''message'', dec_struct
         [field ''role'' dec_string och_role (\<lambda>x. och_role_update (\<lambda>_. x)),
          field ''content'' dec_any och_content (\<lambda>x. och_content_update (\<lambda>_. x)),
          field ''tool_calls'' dec_raw och_tool_calls (\<lambda>x. och_tool_calls_update (\<lambda>_. x))]),
      field ''finish_reason'' dec_string och_finish_reason (\<lambda>x. och_finish_reason_update (\<lambda>_. x))]"

definition zero_openai_choice :: openai_choice_in where
  "zero_openai_choice = \<lparr>och_role = [], och_content = JNull, och_tool_calls = None, och_finish_reason = []\<rparr>"

definition openai_resp_fields :: "openai_resp_in fields" where
  "openai_resp_fields =
     [field ''id'' dec_string ori_id (\<lambda>x. ori_id_update (\<lambda>_. x)),
      field ''model'' dec_string ori_model (\<lambda>x. ori_model_update (\<lambda>_. x)),
      field ''choices'' (dec_slice zero_openai_choice (dec_struct openai_choice_fields)) ori_choices
        (\<lambda>x. ori_choices_update (\<lambda>_. x)),
      (''usage'', dec_struct
         [field ''prompt_tokens'' dec_int ori_prompt (\<lambda>x. ori_prompt_update (\<lambda>_. x)),
          field ''completion_tokens'' dec_int ori_completion (\<lambda>x. ori_completion_update (\<lambda>_. x))]),
      field ''error'' (dec_ptr [] (dec_struct [field ''message'' dec_string id (\<lambda>x _. x)])) ori_error
        (\<lambda>x. ori_error_update (\<lambda>_. x))]"

definition zero_openai_resp :: openai_resp_in where
  "zero_openai_resp = \<lparr>ori_id = [], ori_model = [], ori_choices = [], ori_prompt = 0, ori_completion = 0, ori_error = None\<rparr>"

text \<open>Content that is neither a string nor a list of parts is marshalled again by \<open>show_json\<close>.\<close>

definition content_to_string :: "(json \<Rightarrow> string) \<Rightarrow> json \<Rightarrow> string" where
  "content_to_string show_json content =
     (case content of
        JStr v \<Rightarrow> v
      | JNull \<Rightarrow> []
      | JArr v \<Rightarrow> join ''\<newline>'' (concat (map (\<lambda>pm. case jmember ''text'' pm of Some (JStr t) \<Rightarrow> [t] | _ \<Rightarrow> []) v))
      | j \<Rightarrow> show_json j)"

definition decode_openai_response :: "(json \<Rightarrow> string) \<Rightarrow> json \<Rightarrow> call_error + chat_response" where
  "decode_openai_response show_json body =
     bind_res (or_error ''invalid openai chat response'' (dec_struct openai_resp_fields body zero_openai_resp)) (\<lambda>inp.
       case ori_error inp of
         Some msg \<Rightarrow> Inl (OtherError (''openai: '' @ msg))
       | None \<Rightarrow>
           (case ori_choices inp of
              [] \<Rightarrow> Inl (OtherError ''openai: empty choices'')
            | c # _ \<Rightarrow>
                bind_res (parse_openai_tool_calls (och_tool_calls c)) (\<lambda>calls.
                  Inr \<lparr>cr_resp_id = ori_id inp, cr_model = ori_model inp, cr_role = och_role c,
                    cr_content = content_to_string show_json (och_content c), cr_tool_calls = calls,
                    cr_finish_reason = och_finish_reason c,
                    cr_usage = \<lparr>us_prompt = ori_prompt inp, us_completion = ori_completion inp\<rparr>\<rparr>)))"

section \<open>Requests in normal form\<close>

text \<open>The requests the decoder produces and the encoder can express.\<close>

definition normal_image :: "image_source \<Rightarrow> bool" where
  "normal_image im \<longleftrightarrow>
     trim_space (image_source_to_data_url (Some im)) = image_source_to_data_url (Some im) \<and>
     (im_media_type im = [] \<and> im_data im = [] \<and> im_url im \<noteq> [] \<and> \<not> has_prefix (im_url im) ''data:'' \<or>
      im_url im = [] \<and> im_data im \<noteq> [] \<and> im_media_type im \<noteq> [] \<and>
        CHR '','' \<notin> set (im_media_type im) \<and> CHR '';'' \<notin> set (im_media_type im))"

definition normal_part :: "content_part \<Rightarrow> bool" where
  "normal_part p \<longleftrightarrow>
     (if cp_type p = ContentImage then cp_text p = [] \<and> (case cp_image p of None \<Rightarrow> False | Some im \<Rightarrow> normal_image im)
      else cp_type p = ContentText \<and> cp_image p = None)"

definition normal_parts :: "string \<Rightarrow> string \<Rightarrow> content_part list \<Rightarrow> bool" where
  "normal_parts sep content parts \<longleftrightarrow>
     parts = [] \<or>
     has_image parts \<and> list_all normal_part parts \<and> content = join sep (concat (map part_text parts))"

definition normal_message :: "message \<Rightarrow> bool" where
  "normal_message m \<longleftrightarrow>
     (if ms_role m = ''tool'' then ms_parts m = [] \<and> ms_tool_calls m = []
      else (ms_role m = ''user'' \<or> ms_role m = ''assistant'') \<and> ms_tool_call_id m = [] \<and>
        normal_parts ''\<newline>'' (ms_content m) (ms_parts m) \<and>
        list_all (\<lambda>c. tk_arguments c \<noteq> []) (ms_tool_calls m))"

definition normal_tool_choice :: "tool_choice option \<Rightarrow> bool" where
  "normal_tool_choice tc \<longleftrightarrow>
     (case tc of None \<Rightarrow> True
      | Some c \<Rightarrow> if tc_mode c = ToolChoiceTool then tc_name c \<noteq> []
          else tc_mode c \<in> {ToolChoiceAuto, ToolChoiceNone, ToolChoiceRequired} \<and> tc_name c = [])"

definition normal_request :: "chat_request \<Rightarrow> bool" where
  "normal_request r \<longleftrightarrow>
     trim_space (cq_model r) \<noteq> [] \<and> cq_messages r \<noteq> [] \<and> list_all normal_message (cq_messages r) \<and>
     0 \<le> cq_max_tokens r \<and> cq_max_tokens r < 2 ^ 63 \<and> list_all (\<lambda>s. s \<noteq> []) (cq_stop r) \<and>
     list_all (\<lambda>t. tl_name t \<noteq> []) (cq_tools r) \<and> normal_tool_choice (cq_tool_choice r)"

section \<open>Decoding what was encoded\<close>

lemma raw_value_Some [simp]: "raw_value (Some j) = j" "raw_value None = JNull"
  by (simp_all add: raw_value_def)

lemma dec_members_opt: "dec_members fs (opt_member b k v) r = (if b then dec_members fs [(k, v)] r else Inr r)"
  by simp

lemma parse_image_url_data_url:
  assumes "normal_image im"
  shows "parse_image_url (image_source_to_data_url (Some im)) = Some im"
proof (cases "im_url im = []")
  case True
  have cut: "cut_char c (xs @ c # ys) = (xs, ys, True)" if "c \<notin> set xs" for c xs ys
    using that by (induction xs) auto
  have keep: "fst (cut_char CHR '';'' (m @ '';base64'')) = m" if "CHR '';'' \<notin> set m" for m
    using cut [OF that, of "''base64''"] by simp
  let ?m = "im_media_type im"
  have url: "image_source_to_data_url (Some im) = ''data:'' @ ?m @ '';base64,'' @ im_data im"
    using assms True by (simp add: image_source_to_data_url_def normal_image_def)
  have t: "trim_space (''data:'' @ ?m @ '';base64,'' @ im_data im) = ''data:'' @ ?m @ '';base64,'' @ im_data im"
    using assms url by (simp add: normal_image_def)
  have c: "cut_char CHR '','' ((?m @ '';base64'') @ CHR '','' # im_data im) = (?m @ '';base64'', im_data im, True)"
    by (rule cut) (use assms True in \<open>auto simp: normal_image_def\<close>)
  have im: "data_image ?m (im_data im) = im" using True by (cases im) (simp add: data_image_def)
  show ?thesis
    unfolding url parse_image_url_def Let_def t
    using c keep [of ?m] assms True im
    by (auto simp: has_prefix_def trim_prefix_def normal_image_def)
next
  case False
  then have "im = url_image (im_url im)" using assms by (cases im) (auto simp: normal_image_def url_image_def)
  then show ?thesis
    using assms False by (auto simp: parse_image_url_def image_source_to_data_url_def normal_image_def Let_def)
qed

lemma parse_openai_parts:
  assumes "list_all normal_part parts"
  shows "map_res parse_openai_part (openai_content_parts parts) = Inr (map Some parts)"
  using assms
proof (induction parts)
  case Nil
  then show ?case by (simp add: openai_content_parts_def)
next
  case (Cons p parts)
  have ne: "image_source_to_data_url (Some im) \<noteq> []" if "normal_image im" for im
    using that by (auto simp: normal_image_def image_source_to_data_url_def)
  show ?case
  proof (cases "cp_type p = ContentImage")
    case True
    then obtain im where im: "cp_image p = Some im" "normal_image im"
      using Cons.prems by (auto simp: normal_part_def split: option.splits)
    have "p = image_part im" using True im Cons.prems by (cases p) (auto simp: normal_part_def image_part_def)
    then show ?thesis
      using Cons True im ne [OF im(2)] parse_image_url_data_url [OF im(2)]
      by (simp add: openai_content_parts_def parse_openai_part_def jget_def openai_image_part_def Let_def)
  next
    case False
    then have "p = text_part (cp_text p)" using Cons.prems by (cases p) (auto simp: normal_part_def text_part_def)
    then show ?thesis
      using Cons False by (simp add: openai_content_parts_def parse_openai_part_def jget_def Let_def)
  qed
qed

lemma built_Some [simp]: "concat (map (\<lambda>p. case p of None \<Rightarrow> [] | Some q \<Rightarrow> [q]) (map Some ps)) = ps"
  by (induction ps) simp_all

text \<open>What the struct of a message holds.\<close>

definition message_content :: "message \<Rightarrow> json" where
  "message_content m =
     (if ms_parts m \<noteq> [] then JArr (openai_content_parts (ms_parts m))
      else if ms_tool_calls m \<noteq> [] \<and> ms_content m = [] then JNull else JStr (ms_content m))"

lemma parse_message_content:
  assumes "normal_message m"
  shows "parse_openai_content (message_content m) = Inr (ms_content m, ms_parts m)"
  using assms parse_openai_parts [of "ms_parts m"]
  by (auto simp: message_content_def parse_openai_content_def normal_message_def normal_parts_def Let_def simp del: map_map split: if_splits)

lemma parse_openai_tool_calls_back:
  assumes "list_all (\<lambda>c. tk_arguments c \<noteq> []) calls" and "calls \<noteq> []"
  shows "parse_openai_tool_calls (Some (JArr (openai_tool_calls calls))) = Inr calls"
proof -
  have "map_res (\<lambda>x. dec_struct openai_call_fields x zero_tool_call) (openai_tool_calls calls) = Inr (map id calls)"
    unfolding openai_tool_calls_def map_res_map
    by (rule map_res_id) (use assms in \<open>auto simp: openai_call_fields_def field_for_def field_def zero_tool_call_def list_all_iff\<close>)
  then show ?thesis by (simp add: parse_openai_tool_calls_def absent_def)
qed

section \<open>The structs of an encoded request\<close>

definition message_in :: "message \<Rightarrow> openai_in_message" where
  "message_in m = \<lparr>om_role = ms_role m, om_content = message_content m,
     om_tool_call_id = (if ms_role m = ''tool'' then ms_tool_call_id m else []),
     om_tool_calls = (if ms_tool_calls m \<noteq> [] then Some (JArr (openai_tool_calls (ms_tool_calls m))) else None)\<rparr>"

lemma dec_openai_message:
  "dec_struct openai_in_message_fields (openai_message m) zero_openai_in_message = Inr (message_in m)"
  by (auto simp: openai_message_def message_content_def [symmetric] openai_in_message_fields_def field_for_def field_def
      zero_openai_in_message_def message_in_def dec_members_opt)

lemma openai_messages_back:
  assumes "list_all normal_message ms"
  shows "openai_messages (map message_in ms) = Inr ([], ms)"
  using assms
proof (induction ms)
  case (Cons m ms)
  have c: "parse_openai_content (message_content m) = Inr (ms_content m, ms_parts m)"
    using Cons.prems by (simp add: parse_message_content)
  have t: "parse_openai_tool_calls (if ms_tool_calls m \<noteq> [] then Some (JArr (openai_tool_calls (ms_tool_calls m))) else None) =
      Inr (ms_tool_calls m)"
    using Cons.prems parse_openai_tool_calls_back [of "ms_tool_calls m"]
    by (auto simp: normal_message_def parse_openai_tool_calls_def absent_def split: if_splits)
  show ?case
    using Cons c t by (cases m) (auto simp: message_in_def normal_message_def)
qed simp

lemma system_message_in:
  "dec_struct openai_in_message_fields (JObj [(''role'', JStr ''system''), (''content'', JStr s)]) zero_openai_in_message =
   Inr \<lparr>om_role = ''system'', om_content = JStr s, om_tool_call_id = [], om_tool_calls = None\<rparr>"
  by (simp add: openai_in_message_fields_def field_for_def field_def zero_openai_in_message_def)

definition messages_json :: "chat_request \<Rightarrow> json list" where
  "messages_json req =
     (if cq_system req \<noteq> [] then [JObj [(''role'', JStr ''system''), (''content'', JStr (cq_system req))]] else [])
       @ map openai_message (filter (\<lambda>m. \<not> (ms_role m = ''system'' \<and> cq_system req \<noteq> [])) (cq_messages req))"

definition messages_in :: "chat_request \<Rightarrow> openai_in_message list" where
  "messages_in req =
     (if cq_system req \<noteq> [] then [\<lparr>om_role = ''system'', om_content = JStr (cq_system req), om_tool_call_id = [],
        om_tool_calls = None\<rparr>] else []) @ map message_in (cq_messages req)"

lemma dec_messages:
  assumes "list_all normal_message (cq_messages req)"
  shows "dec_slice zero_openai_in_message (dec_struct openai_in_message_fields) (JArr (messages_json req)) old =
    Inr (messages_in req)"
proof -
  have f: "filter (\<lambda>m. \<not> (ms_role m = ''system'' \<and> cq_system req \<noteq> [])) (cq_messages req) = cq_messages req"
    using assms by (auto simp: filter_id_conv list_all_iff normal_message_def split: if_splits)
  have "map_res (\<lambda>x. dec_struct openai_in_message_fields x zero_openai_in_message) (map openai_message ms) =
      Inr (map message_in ms)" for ms
    unfolding map_res_map by (rule map_res_id) (simp add: dec_openai_message)
  then show ?thesis
    unfolding messages_json_def f by (simp add: messages_in_def system_message_in del: dec_struct_simps)
qed

lemma openai_messages_in:
  assumes "list_all normal_message (cq_messages req)"
  shows "openai_messages (messages_in req) = Inr (if cq_system req \<noteq> [] then [cq_system req] else [], cq_messages req)"
  using openai_messages_back [OF assms]
  by (simp add: messages_in_def parse_openai_content_def parse_openai_tool_calls_def absent_def)

definition request_in :: "chat_request \<Rightarrow> openai_in" where
  "request_in r = \<lparr>oi_model = cq_model r, oi_stream = cq_stream r,
     oi_max_tokens = (if cq_max_tokens r > 0 then Some (cq_max_tokens r) else None), oi_max_completion_tokens = None,
     oi_temperature = cq_temperature r, oi_top_p = cq_top_p r,
     oi_stop = (if cq_stop r \<noteq> [] then JArr (map JStr (cq_stop r)) else JNull),
     oi_tools = (if cq_tools r \<noteq> [] then Some (JArr (openai_tools (cq_tools r))) else None),
     oi_tool_choice = openai_tool_choice (cq_tool_choice r), oi_messages = messages_in r\<rparr>"

lemma dec_ptr_max_tokens: "- (2 ^ 63) \<le> n \<Longrightarrow> n < 2 ^ 63 \<Longrightarrow> dec_ptr (0::int) dec_int (JNum (of_int n)) old = Inr (Some n)"
  by (simp add: dec_ptr_def)

lemma dec_ptr_num: "x \<noteq> None \<Longrightarrow> dec_ptr (0::rat) dec_float (num_value x) old = Inr x"
  by (cases x) (simp_all add: num_value_def dec_ptr_def)

text \<open>Each member of the body and the field it sets.\<close>

lemma request_members:
  "dec_members openai_in_fields [(''model'', JStr w)] r = Inr (r\<lparr>oi_model := w\<rparr>)"
  "dec_members openai_in_fields (opt_member b ''stream'' (JBool True)) r = Inr (r\<lparr>oi_stream := b \<or> oi_stream r\<rparr>)"
  "0 \<le> n \<Longrightarrow> n < 2 ^ 63 \<Longrightarrow> dec_members openai_in_fields (opt_member (n > 0) ''max_tokens'' (JNum (of_int n))) r =
     Inr (r\<lparr>oi_max_tokens := (if n > 0 then Some n else oi_max_tokens r)\<rparr>)"
  "dec_members openai_in_fields (opt_member (x \<noteq> None) ''temperature'' (num_value x)) r =
     Inr (r\<lparr>oi_temperature := (if x = None then oi_temperature r else x)\<rparr>)"
  "dec_members openai_in_fields (opt_member (x \<noteq> None) ''top_p'' (num_value x)) r =
     Inr (r\<lparr>oi_top_p := (if x = None then oi_top_p r else x)\<rparr>)"
  "dec_members openai_in_fields (opt_member b ''stop'' v) r = Inr (r\<lparr>oi_stop := (if b then v else oi_stop r)\<rparr>)"
  "dec_members openai_in_fields (opt_member b ''tools'' v) r = Inr (r\<lparr>oi_tools := (if b then Some v else oi_tools r)\<rparr>)"
  "dec_members openai_in_fields (opt_member (c \<noteq> None) ''tool_choice'' (raw_value c)) r =
     Inr (r\<lparr>oi_tool_choice := (if c = None then oi_tool_choice r else c)\<rparr>)"
  "list_all normal_message (cq_messages req) \<Longrightarrow>
     dec_members openai_in_fields [(''messages'', JArr (messages_json req))] r = Inr (r\<lparr>oi_messages := messages_in req\<rparr>)"
  using dec_messages [of req]
  by (auto simp: openai_in_fields_def field_for_def field_def dec_members_opt dec_ptr_max_tokens dec_ptr_num
      simp del: dec_simps(10, 11))

lemma encode_openai_members:
  "encode_openai req =
     JObj ([(''model'', JStr (cq_model req))] @ [(''messages'', JArr (messages_json req))]
           @ opt_member (cq_stream req) ''stream'' (JBool True)
           @ opt_member (cq_max_tokens req > 0) ''max_tokens'' (JNum (of_int (cq_max_tokens req)))
           @ opt_member (cq_temperature req \<noteq> None) ''temperature'' (num_value (cq_temperature req))
           @ opt_member (cq_top_p req \<noteq> None) ''top_p'' (num_value (cq_top_p req))
           @ opt_member (cq_stop req \<noteq> []) ''stop'' (JArr (map JStr (cq_stop req)))
           @ opt_member (cq_tools req \<noteq> []) ''tools'' (JArr (openai_tools (cq_tools req)))
           @ opt_member (openai_tool_choice (cq_tool_choice req) \<noteq> None) ''tool_choice''
               (raw_value (openai_tool_choice (cq_tool_choice req))))"
  by (simp add: encode_openai_def messages_json_def)

lemma dec_openai_request:
  assumes "normal_request r"
  shows "dec_struct openai_in_fields (encode_openai r) zero_openai_in = Inr (request_in r)"
proof -
  have m: "list_all normal_message (cq_messages r)" and t: "0 \<le> cq_max_tokens r" "cq_max_tokens r < 2 ^ 63"
    using assms by (simp_all add: normal_request_def)
  show ?thesis
    unfolding encode_openai_members dec_struct_simps dec_members_append request_members(1) bind_res_simps
      request_members(9) [OF m] request_members(2) request_members(3) [OF t] request_members(4-8)
    by (simp add: zero_openai_in_def request_in_def)
qed

lemma reject_encoded: "reject_openai_unsupported (encode_openai r) = Inr ()"
  by (simp add: encode_openai_def reject_openai_unsupported_def present_def jget_def)

lemma parse_openai_tools_back:
  assumes "list_all (\<lambda>t. tl_name t \<noteq> []) tools"
  shows "parse_openai_tools (if tools \<noteq> [] then Some (JArr (openai_tools tools)) else None) = Inr tools"
proof -
  have "map_res (\<lambda>x. dec_struct openai_tool_fields x zero_tool) (openai_tools tools) = Inr (map id tools)"
    unfolding openai_tools_def map_res_map
    by (rule map_res_id)
      (auto simp: openai_tool_fields_def field_for_def field_def zero_tool_def dec_members_opt raw_value_def split: option.splits)
  then show ?thesis using assms by (simp add: parse_openai_tools_def absent_def filter_id_conv list_all_iff)
qed

lemma parse_openai_tool_choice_back:
  assumes "normal_tool_choice tc"
  shows "parse_openai_tool_choice (openai_tool_choice tc) = Inr tc"
  using assms
  by (cases tc)
    (auto simp: normal_tool_choice_def openai_tool_choice_def parse_openai_tool_choice_def absent_def tool_mode_defs
      field_for_def field_def tool_choice.equality)

lemma normalize_stop_back:
  assumes "list_all (\<lambda>s. s \<noteq> []) ss"
  shows "normalize_stop (if ss \<noteq> [] then JArr (map JStr ss) else JNull) = ss"
proof -
  have "map as_string (map JStr ss) = ss" by (induction ss) simp_all
  then show ?thesis using assms by (simp add: normalize_stop_def filter_id_conv list_all_iff)
qed

text \<open>
  C24: The OpenAI request codec round-trips: decoding the body that a request in normal form is
  encoded to gives back exactly that request, with its system prompt, multi-part content, images,
  tools, tool calls, tool results, tool choice, sampling parameters, limits and stop sequences.
\<close>

theorem openai_request_roundtrip:
  assumes "normal_request r"
  shows "decode_openai_value (encode_openai r) = Inr r"
proof -
  have n: "trim_space (cq_model r) \<noteq> []" "cq_messages r \<noteq> []" "list_all normal_message (cq_messages r)"
    "list_all (\<lambda>s. s \<noteq> []) (cq_stop r)" "list_all (\<lambda>t. tl_name t \<noteq> []) (cq_tools r)" "normal_tool_choice (cq_tool_choice r)"
    "0 \<le> cq_max_tokens r"
    using assms by (simp_all add: normal_request_def)
  have o: "is_object (encode_openai r)" by (simp add: encode_openai_def)
  have mt: "openai_max_tokens (request_in r) = cq_max_tokens r"
    using n(7) by (auto simp: openai_max_tokens_def request_in_def positive_def)
  have j: "join ''\<newline>\<newline>'' (if cq_system r \<noteq> [] then [cq_system r] else []) = cq_system r" by simp
  have parts: "parse_openai_tools (oi_tools (request_in r)) = Inr (cq_tools r)"
    "parse_openai_tool_choice (oi_tool_choice (request_in r)) = Inr (cq_tool_choice r)"
    "openai_messages (oi_messages (request_in r)) = Inr (if cq_system r \<noteq> [] then [cq_system r] else [], cq_messages r)"
    "normalize_stop (oi_stop (request_in r)) = cq_stop r"
    using parse_openai_tools_back [OF n(5)] parse_openai_tool_choice_back [OF n(6)] openai_messages_in [OF n(3)]
      normalize_stop_back [OF n(4)] by (simp_all only: request_in_def openai_in.simps)
  have fields: "oi_model (request_in r) = cq_model r" "oi_stream (request_in r) = cq_stream r"
    "oi_temperature (request_in r) = cq_temperature r" "oi_top_p (request_in r) = cq_top_p r"
    by (simp_all add: request_in_def)
  show ?thesis
    unfolding decode_openai_value_def decode_map_def
    by (simp add: o reject_encoded dec_openai_request [OF assms] parts fields mt j n(1,2) split del: if_split)
qed

definition demo_codec_request :: chat_request where
  "demo_codec_request =
     \<lparr>cq_model = ''m'',
      cq_messages =
        [\<lparr>ms_role = ''user'', ms_content = ''look'', ms_parts = [text_part ''look'', image_part (data_image ''image/png'' ''AA'')],
          ms_tool_calls = [], ms_tool_call_id = []\<rparr>,
         \<lparr>ms_role = ''assistant'', ms_content = [], ms_parts = [],
          ms_tool_calls = [\<lparr>tk_id = ''c'', tk_name = ''f'', tk_arguments = ''{}''\<rparr>], ms_tool_call_id = []\<rparr>,
         \<lparr>ms_role = ''tool'', ms_content = ''ok'', ms_parts = [], ms_tool_calls = [], ms_tool_call_id = ''c''\<rparr>],
      cq_system = ''s'', cq_max_tokens = 7, cq_temperature = Some (1/2), cq_top_p = None, cq_stream = True,
      cq_stop = [''x''], cq_tools = [\<lparr>tl_name = ''f'', tl_description = [], tl_parameters = None\<rparr>],
      cq_tool_choice = Some \<lparr>tc_mode = ''tool'', tc_name = ''f''\<rparr>\<rparr>"

theorem openai_request_roundtrip_witness:
  "decode_openai_value (encode_openai demo_codec_request) = Inr demo_codec_request"
proof -
  have "normal_request demo_codec_request" by code_simp
  then show ?thesis by (rule openai_request_roundtrip)
qed

text \<open>Responses round-trip too.\<close>

definition int64_ok :: "int \<Rightarrow> bool" where
  "int64_ok n \<longleftrightarrow> - (2 ^ 63) \<le> n \<and> n < 2 ^ 63"

definition normal_response :: "chat_response \<Rightarrow> bool" where
  "normal_response r \<longleftrightarrow>
     cr_role r \<noteq> [] \<and> list_all (\<lambda>c. tk_arguments c \<noteq> []) (cr_tool_calls r) \<and>
     int64_ok (us_prompt (cr_usage r)) \<and> int64_ok (us_completion (cr_usage r))"

definition choice_in :: "chat_response \<Rightarrow> openai_choice_in" where
  "choice_in r = \<lparr>och_role = cr_role r,
     och_content = (if cr_content r \<noteq> [] \<or> cr_tool_calls r = [] then JStr (cr_content r) else JNull),
     och_tool_calls = (if cr_tool_calls r \<noteq> [] then Some (JArr (openai_tool_calls (cr_tool_calls r))) else None),
     och_finish_reason = cr_finish_reason r\<rparr>"

lemma openai_response_roundtrip:
  assumes "normal_response r"
  shows "decode_openai_response show_json (encode_openai_response r) = Inr r"
proof -
  have d: "dec_struct openai_resp_fields (encode_openai_response r) zero_openai_resp =
      Inr \<lparr>ori_id = cr_resp_id r, ori_model = cr_model r, ori_choices = [choice_in r], ori_prompt = us_prompt (cr_usage r),
        ori_completion = us_completion (cr_usage r), ori_error = None\<rparr>"
    using assms
    by (simp add: encode_openai_response_def openai_resp_fields_def field_for_def field_def zero_openai_resp_def
        openai_choice_fields_def zero_openai_choice_def choice_in_def dec_members_opt normal_response_def int64_ok_def Let_def)
  have t: "parse_openai_tool_calls (och_tool_calls (choice_in r)) = Inr (cr_tool_calls r)"
    using assms parse_openai_tool_calls_back [of "cr_tool_calls r"]
    by (auto simp: choice_in_def normal_response_def parse_openai_tool_calls_def absent_def)
  have c: "content_to_string show_json (och_content (choice_in r)) = cr_content r"
    by (simp add: choice_in_def content_to_string_def)
  show ?thesis
    unfolding decode_openai_response_def d
    by (simp add: t c) (simp add: choice_in_def)
qed

end
