(* ===== verification/Codec_Anthropic.thy ===== *)
theory Codec_Anthropic
  imports Codec_OpenAI
begin

text \<open>
  The Anthropic messages codec: \<^verbatim>\<open>src/internal/dataplane/ir/anthropic_codec.go\<close> and its check in
  \<^verbatim>\<open>validate.go\<close>. Tool arguments are JSON text in the representation and JSON values on the wire, so
  the codec takes the parser and printer of JSON text. Consecutive turns of one side become one
  message.
\<close>

section \<open>Tool arguments\<close>

definition args_to_object :: "(string \<Rightarrow> json option) \<Rightarrow> string \<Rightarrow> json" where
  "args_to_object parse_json args =
     (if trim_space args = [] then JObj []
      else (case parse_json args of None \<Rightarrow> JObj [] | Some v \<Rightarrow> v))"

definition object_to_args :: "(json \<Rightarrow> string) \<Rightarrow> json \<Rightarrow> string" where
  "object_to_args show_json inp = (if inp = JNull then ''{}'' else show_json inp)"

section \<open>Encoding requests\<close>

definition anthropic_image_block :: "image_source option \<Rightarrow> json option" where
  "anthropic_image_block img =
     (case img of None \<Rightarrow> None
      | Some im \<Rightarrow>
          if im_data im \<noteq> [] then
            Some (JObj [(''type'', JStr ''image''),
              (''source'', JObj [(''type'', JStr ''base64''),
                 (''media_type'', JStr (if im_media_type im = [] then ''application/octet-stream'' else im_media_type im)),
                 (''data'', JStr (im_data im))])])
          else if im_url im \<noteq> [] then
            Some (JObj [(''type'', JStr ''image''),
              (''source'', JObj [(''type'', JStr ''url''), (''url'', JStr (im_url im))])])
          else None)"

definition text_block :: "string \<Rightarrow> json" where
  "text_block t = JObj [(''type'', JStr ''text''), (''text'', JStr t)]"

definition content_blocks :: "message \<Rightarrow> json list" where
  "content_blocks m =
     (if ms_parts m \<noteq> [] then
        concat (map (\<lambda>p. if cp_type p = ContentImage
            then (case anthropic_image_block (cp_image p) of None \<Rightarrow> [] | Some b \<Rightarrow> [b])
            else [text_block (cp_text p)]) (ms_parts m))
      else if ms_content m \<noteq> [] then [text_block (ms_content m)] else [])"

definition tool_use_block :: "(string \<Rightarrow> json option) \<Rightarrow> tool_call \<Rightarrow> json" where
  "tool_use_block parse_json tc =
     JObj [(''type'', JStr ''tool_use''), (''id'', JStr (tk_id tc)), (''name'', JStr (tk_name tc)),
           (''input'', args_to_object parse_json (tk_arguments tc))]"

definition assistant_blocks :: "(string \<Rightarrow> json option) \<Rightarrow> message \<Rightarrow> json list" where
  "assistant_blocks parse_json m = content_blocks m @ map (tool_use_block parse_json) (ms_tool_calls m)"

definition tool_result_block :: "message \<Rightarrow> json" where
  "tool_result_block m =
     JObj [(''type'', JStr ''tool_result''), (''tool_use_id'', JStr (ms_tool_call_id m)), (''content'', JStr (ms_content m))]"

text \<open>The side a message belongs to, and its blocks; other roles are skipped.\<close>

definition turn_side :: "message \<Rightarrow> string option" where
  "turn_side m =
     (if ms_role m = ''assistant'' then Some ''assistant''
      else if ms_role m = ''user'' \<or> ms_role m = ''tool'' then Some ''user''
      else None)"

definition turn_blocks :: "(string \<Rightarrow> json option) \<Rightarrow> message \<Rightarrow> json list" where
  "turn_blocks parse_json m =
     (if ms_role m = ''assistant'' then assistant_blocks parse_json m
      else if ms_role m = ''user'' then content_blocks m
      else [tool_result_block m])"

definition flush_turn :: "string \<Rightarrow> json list \<Rightarrow> (string \<times> json list) list" where
  "flush_turn role blocks = (if role \<noteq> [] \<and> blocks \<noteq> [] then [(role, blocks)] else [])"

fun anthropic_turns ::
  "(string \<Rightarrow> json option) \<Rightarrow> string \<Rightarrow> json list \<Rightarrow> message list \<Rightarrow> (string \<times> json list) list" where
  "anthropic_turns parse_json role blocks [] = flush_turn role blocks"
| "anthropic_turns parse_json role blocks (m # ms) =
     (case turn_side m of
        None \<Rightarrow> anthropic_turns parse_json role blocks ms
      | Some side \<Rightarrow>
          if role \<noteq> side
          then flush_turn role blocks @ anthropic_turns parse_json side (turn_blocks parse_json m) ms
          else anthropic_turns parse_json role (blocks @ turn_blocks parse_json m) ms)"

definition turn_json :: "string \<times> json list \<Rightarrow> json" where
  "turn_json t = JObj [(''role'', JStr (fst t)), (''content'', JArr (snd t))]"

definition anthropic_messages :: "(string \<Rightarrow> json option) \<Rightarrow> message list \<Rightarrow> json list" where
  "anthropic_messages parse_json ms = map turn_json (anthropic_turns parse_json [] [] ms)"

definition anthropic_tools :: "tool list \<Rightarrow> json list" where
  "anthropic_tools tools =
     map (\<lambda>t. JObj ([(''name'', JStr (tl_name t))]
       @ opt_member (tl_description t \<noteq> []) ''description'' (JStr (tl_description t))
       @ [(''input_schema'', if tl_parameters t \<noteq> None then raw_value (tl_parameters t)
            else JObj [(''type'', JStr ''object'')])])) tools"

definition anthropic_tool_choice :: "tool_choice option \<Rightarrow> json option" where
  "anthropic_tool_choice tc =
     (case tc of None \<Rightarrow> None
      | Some c \<Rightarrow>
          if tc_mode c = ToolChoiceAuto then Some (JObj [(''type'', JStr ''auto'')])
          else if tc_mode c = ToolChoiceNone then Some (JObj [(''type'', JStr ''none'')])
          else if tc_mode c = ToolChoiceRequired then Some (JObj [(''type'', JStr ''any'')])
          else if tc_mode c = ToolChoiceTool then Some (JObj [(''type'', JStr ''tool''), (''name'', JStr (tc_name c))])
          else None)"

definition anthropic_system :: "chat_request \<Rightarrow> string" where
  "anthropic_system req =
     (if cq_system req \<noteq> [] then cq_system req
      else join ''\<newline>\<newline>''
        (map ms_content (filter (\<lambda>m. ms_role m = ''system'' \<and> ms_content m \<noteq> []) (cq_messages req))))"

definition encode_anthropic :: "(string \<Rightarrow> json option) \<Rightarrow> chat_request \<Rightarrow> string \<Rightarrow> call_error + json" where
  "encode_anthropic parse_json req target_model =
     (let messages = anthropic_messages parse_json (cq_messages req);
          sys = anthropic_system req;
          tc = anthropic_tool_choice (cq_tool_choice req) in
      if messages = [] then Inl (OtherError ''at least one user/assistant message is required'')
      else Inr (JObj (
        [(''model'', JStr (if target_model = [] then cq_model req else target_model)),
         (''max_tokens'', JNum (of_int (if cq_max_tokens req \<le> 0 then 4096 else cq_max_tokens req))),
         (''messages'', JArr messages)]
        @ opt_member (cq_stream req) ''stream'' (JBool True)
        @ opt_member (sys \<noteq> []) ''system'' (JStr sys)
        @ opt_member (cq_temperature req \<noteq> None) ''temperature'' (num_value (cq_temperature req))
        @ opt_member (cq_top_p req \<noteq> None) ''top_p'' (num_value (cq_top_p req))
        @ opt_member (cq_stop req \<noteq> []) ''stop_sequences'' (JArr (map JStr (cq_stop req)))
        @ opt_member (cq_tools req \<noteq> []) ''tools'' (JArr (anthropic_tools (cq_tools req)))
        @ opt_member (tc \<noteq> None) ''tool_choice'' (raw_value tc))))"

section \<open>Decoding content\<close>

definition anthropic_parse_image :: "json \<Rightarrow> image_source option" where
  "anthropic_parse_image bm =
     (let src = jget ''source'' bm; styp = as_string (jget ''type'' src) in
      if \<not> is_object src then None
      else if styp = ''base64'' then
        (if as_string (jget ''data'' src) = [] then None
         else Some (data_image (as_string (jget ''media_type'' src)) (as_string (jget ''data'' src))))
      else if styp = ''url'' then
        (if as_string (jget ''url'' src) = [] then None else Some (url_image (as_string (jget ''url'' src))))
      else None)"

text \<open>The texts of the blocks that have one.\<close>

definition block_texts :: "json list \<Rightarrow> string list" where
  "block_texts blocks = concat (map (\<lambda>b. case jmember ''text'' b of Some (JStr t) \<Rightarrow> [t] | _ \<Rightarrow> []) blocks)"

definition anthropic_tool_result_text :: "json \<Rightarrow> string" where
  "anthropic_tool_result_text content =
     (case content of JStr v \<Rightarrow> v | JArr v \<Rightarrow> concat (block_texts v) | _ \<Rightarrow> [])"

datatype block = SkipBlock | PartBlock content_part | CallBlock tool_call | ResultBlock string string

definition parse_anthropic_block :: "(json \<Rightarrow> string) \<Rightarrow> json \<Rightarrow> call_error + block" where
  "parse_anthropic_block show_json bm =
     (if \<not> is_object bm then Inr SkipBlock
      else
        let typ = as_string (jget ''type'' bm) in
        if typ = [] \<or> typ = ''text'' then Inr (PartBlock (text_part (as_string (jget ''text'' bm))))
        else if typ = ''image'' then
          (case anthropic_parse_image bm of
             None \<Rightarrow> unsupported ''vision'' ''image content block has an unsupported source''
           | Some im \<Rightarrow> Inr (PartBlock (image_part im)))
        else if typ = ''tool_use'' then
          Inr (CallBlock \<lparr>tk_id = as_string (jget ''id'' bm), tk_name = as_string (jget ''name'' bm),
                 tk_arguments = object_to_args show_json (jget ''input'' bm)\<rparr>)
        else if typ = ''tool_result'' then
          Inr (ResultBlock (as_string (jget ''tool_use_id'' bm)) (anthropic_tool_result_text (jget ''content'' bm)))
        else unsupported ''content_blocks'' ''content block type is not supported by the gateway chat dialect yet'')"

record anthropic_content =
  ac_text :: string
  ac_parts :: "content_part list"
  ac_calls :: "tool_call list"
  ac_results :: "(string \<times> string) list"

definition plain_content :: "string \<Rightarrow> anthropic_content" where
  "plain_content t = \<lparr>ac_text = t, ac_parts = [], ac_calls = [], ac_results = []\<rparr>"

fun block_parts :: "block list \<Rightarrow> content_part list" where
  "block_parts [] = []"
| "block_parts (PartBlock p # bs) = p # block_parts bs"
| "block_parts (_ # bs) = block_parts bs"

fun block_calls :: "block list \<Rightarrow> tool_call list" where
  "block_calls [] = []"
| "block_calls (CallBlock c # bs) = c # block_calls bs"
| "block_calls (_ # bs) = block_calls bs"

fun block_results :: "block list \<Rightarrow> (string \<times> string) list" where
  "block_results [] = []"
| "block_results (ResultBlock i c # bs) = (i, c) # block_results bs"
| "block_results (_ # bs) = block_results bs"

definition parse_anthropic_content :: "(json \<Rightarrow> string) \<Rightarrow> json \<Rightarrow> call_error + anthropic_content" where
  "parse_anthropic_content show_json content =
     (case content of
        JStr v \<Rightarrow> Inr (plain_content v)
      | JNull \<Rightarrow> Inr (plain_content [])
      | JArr v \<Rightarrow>
          bind_res (map_res (parse_anthropic_block show_json) v) (\<lambda>bs.
            let built = block_parts bs in
            Inr \<lparr>ac_text = join [] (concat (map part_text built)), ac_parts = (if has_image built then built else []),
                 ac_calls = block_calls bs, ac_results = block_results bs\<rparr>)
      | _ \<Rightarrow> unsupported ''content'' ''message content must be a string or content blocks'')"

section \<open>Decoding requests\<close>

definition reject_anthropic_unsupported :: "json \<Rightarrow> call_error + unit" where
  "reject_anthropic_unsupported raw =
     (if present ''thinking'' raw
      then unsupported ''thinking'' ''thinking is not supported by the gateway chat dialect yet''
      else Inr ())"

definition anthropic_system_to_string :: "(json \<Rightarrow> string) \<Rightarrow> json \<Rightarrow> string" where
  "anthropic_system_to_string show_json system =
     (case system of
        JStr v \<Rightarrow> v
      | JNull \<Rightarrow> []
      | JArr v \<Rightarrow> join ''\<newline>\<newline>'' (filter (\<lambda>t. t \<noteq> []) (block_texts v))
      | j \<Rightarrow> content_to_string show_json j)"

definition anthropic_tool_fields :: "tool fields" where
  "anthropic_tool_fields =
     [field ''name'' dec_string tl_name (\<lambda>x. tl_name_update (\<lambda>_. x)),
      field ''description'' dec_string tl_description (\<lambda>x. tl_description_update (\<lambda>_. x)),
      field ''input_schema'' dec_raw tl_parameters (\<lambda>x. tl_parameters_update (\<lambda>_. x))]"

definition parse_anthropic_tools :: "raw_json \<Rightarrow> call_error + tool list" where
  "parse_anthropic_tools raw =
     (if absent raw then Inr []
      else bind_res (or_error ''invalid tools'' (dec_slice zero_tool (dec_struct anthropic_tool_fields) (raw_value raw) []))
        (\<lambda>ts. Inr (filter (\<lambda>t. tl_name t \<noteq> []) ts)))"

definition parse_anthropic_tool_choice :: "raw_json \<Rightarrow> call_error + tool_choice option" where
  "parse_anthropic_tool_choice raw =
     (if absent raw then Inr None
      else bind_res (or_error ''invalid tool_choice''
          (dec_struct [field ''type'' dec_string fst (\<lambda>x (_, n). (x, n)), field ''name'' dec_string snd (\<lambda>x (t, _). (t, x))]
            (raw_value raw) ([], [])))
        (\<lambda>(typ, name). Inr
          (if typ = ''auto'' then Some \<lparr>tc_mode = ToolChoiceAuto, tc_name = []\<rparr>
           else if typ = ''none'' then Some \<lparr>tc_mode = ToolChoiceNone, tc_name = []\<rparr>
           else if typ = ''any'' then Some \<lparr>tc_mode = ToolChoiceRequired, tc_name = []\<rparr>
           else if typ = ''tool'' then Some \<lparr>tc_mode = ToolChoiceTool, tc_name = name\<rparr>
           else None)))"

record anthropic_in_message =
  am_role :: string
  am_content :: json

record anthropic_in =
  ai_model :: string
  ai_stream :: bool
  ai_max_tokens :: int
  ai_temperature :: "rat option"
  ai_top_p :: "rat option"
  ai_system :: json
  ai_stop :: "string list"
  ai_tools :: raw_json
  ai_tool_choice :: raw_json
  ai_messages :: "anthropic_in_message list"

definition anthropic_in_message_fields :: "anthropic_in_message fields" where
  "anthropic_in_message_fields =
     [field ''role'' dec_string am_role (\<lambda>x. am_role_update (\<lambda>_. x)),
      field ''content'' dec_any am_content (\<lambda>x. am_content_update (\<lambda>_. x))]"

definition anthropic_in_fields :: "anthropic_in fields" where
  "anthropic_in_fields =
     [field ''model'' dec_string ai_model (\<lambda>x. ai_model_update (\<lambda>_. x)),
      field ''stream'' dec_bool ai_stream (\<lambda>x. ai_stream_update (\<lambda>_. x)),
      field ''max_tokens'' dec_int ai_max_tokens (\<lambda>x. ai_max_tokens_update (\<lambda>_. x)),
      field ''temperature'' (dec_ptr 0 dec_float) ai_temperature (\<lambda>x. ai_temperature_update (\<lambda>_. x)),
      field ''top_p'' (dec_ptr 0 dec_float) ai_top_p (\<lambda>x. ai_top_p_update (\<lambda>_. x)),
      field ''system'' dec_any ai_system (\<lambda>x. ai_system_update (\<lambda>_. x)),
      field ''stop_sequences'' (dec_slice [] dec_string) ai_stop (\<lambda>x. ai_stop_update (\<lambda>_. x)),
      field ''tools'' dec_raw ai_tools (\<lambda>x. ai_tools_update (\<lambda>_. x)),
      field ''tool_choice'' dec_raw ai_tool_choice (\<lambda>x. ai_tool_choice_update (\<lambda>_. x)),
      field ''messages''
        (dec_slice \<lparr>am_role = [], am_content = JNull\<rparr> (dec_struct anthropic_in_message_fields))
        ai_messages (\<lambda>x. ai_messages_update (\<lambda>_. x))]"

definition zero_anthropic_in :: anthropic_in where
  "zero_anthropic_in = \<lparr>ai_model = [], ai_stream = False, ai_max_tokens = 0, ai_temperature = None, ai_top_p = None,
     ai_system = JNull, ai_stop = [], ai_tools = None, ai_tool_choice = None, ai_messages = []\<rparr>"

text \<open>One message of the body: an assistant turn, or tool results followed by what the user says.\<close>

definition anthropic_message_in :: "(json \<Rightarrow> string) \<Rightarrow> anthropic_in_message \<Rightarrow> call_error + message list" where
  "anthropic_message_in show_json m =
     (if am_role m = ''assistant'' then
        bind_res (parse_anthropic_content show_json (am_content m)) (\<lambda>c. Inr
          [\<lparr>ms_role = ''assistant'', ms_content = ac_text c, ms_parts = [], ms_tool_calls = ac_calls c, ms_tool_call_id = []\<rparr>])
      else if am_role m = ''user'' then
        bind_res (parse_anthropic_content show_json (am_content m)) (\<lambda>c. Inr
          (map (\<lambda>(i, t). \<lparr>ms_role = ''tool'', ms_content = t, ms_parts = [], ms_tool_calls = [], ms_tool_call_id = i\<rparr>)
             (ac_results c)
           @ (if ac_text c \<noteq> [] \<or> ac_parts c \<noteq> [] then
                [\<lparr>ms_role = ''user'', ms_content = ac_text c, ms_parts = ac_parts c, ms_tool_calls = [], ms_tool_call_id = []\<rparr>]
              else [])))
      else Inr [])"

definition decode_anthropic_value :: "(json \<Rightarrow> string) \<Rightarrow> json \<Rightarrow> call_error + chat_request" where
  "decode_anthropic_value show_json body =
     bind_res (decode_map ''invalid anthropic messages body'' body) (\<lambda>raw.
     bind_res (reject_anthropic_unsupported raw) (\<lambda>_.
     bind_res (or_error ''invalid anthropic messages body'' (dec_struct anthropic_in_fields body zero_anthropic_in)) (\<lambda>inp.
       if trim_space (ai_model inp) = [] then Inl (OtherError ''model is required'')
       else
         bind_res (parse_anthropic_tools (ai_tools inp)) (\<lambda>tools.
         bind_res (parse_anthropic_tool_choice (ai_tool_choice inp)) (\<lambda>tc.
         bind_res (map_res (anthropic_message_in show_json) (ai_messages inp)) (\<lambda>mss.
           if concat mss = [] then Inl (OtherError ''at least one user/assistant message is required'')
           else Inr \<lparr>cq_model = ai_model inp, cq_messages = concat mss,
             cq_system = anthropic_system_to_string show_json (ai_system inp),
             cq_max_tokens = ai_max_tokens inp, cq_temperature = ai_temperature inp, cq_top_p = ai_top_p inp,
             cq_stream = ai_stream inp, cq_stop = ai_stop inp, cq_tools = tools, cq_tool_choice = tc\<rparr>))))))"

definition decode_anthropic_request ::
  "(string \<Rightarrow> json option) \<Rightarrow> (json \<Rightarrow> string) \<Rightarrow> string \<Rightarrow> call_error + chat_request" where
  "decode_anthropic_request parse_json show_json body =
     (case parse_json body of
        None \<Rightarrow> Inl (OtherError ''invalid anthropic messages body'')
      | Some j \<Rightarrow> decode_anthropic_value show_json j)"

section \<open>Responses\<close>

definition map_anthropic_stop_reason :: "string \<Rightarrow> string" where
  "map_anthropic_stop_reason r =
     (if r = ''max_tokens'' then ''length''
      else if r = ''tool_use'' then ''tool_calls''
      else if r = ''end_turn'' \<or> r = ''stop_sequence'' \<or> r = [] then ''stop''
      else r)"

definition map_finish_to_anthropic :: "string \<Rightarrow> string" where
  "map_finish_to_anthropic r =
     (if r = ''length'' then ''max_tokens''
      else if r = ''tool_calls'' then ''tool_use''
      else if r = ''stop'' \<or> r = [] then ''end_turn''
      else r)"

definition encode_anthropic_response :: "(string \<Rightarrow> json option) \<Rightarrow> chat_response \<Rightarrow> json" where
  "encode_anthropic_response parse_json resp =
     (let u = cr_usage resp in
      JObj
       [(''id'', JStr (cr_resp_id resp)), (''type'', JStr ''message''),
        (''role'', JStr (if cr_role resp = [] then ''assistant'' else cr_role resp)),
        (''model'', JStr (cr_model resp)),
        (''content'', JArr
           ((if cr_content resp \<noteq> [] \<or> cr_tool_calls resp = [] then [text_block (cr_content resp)] else [])
            @ map (tool_use_block parse_json) (cr_tool_calls resp))),
        (''stop_reason'', JStr (map_finish_to_anthropic (cr_finish_reason resp))),
        (''usage'', JObj [(''input_tokens'', JNum (of_int (us_prompt u))),
                          (''output_tokens'', JNum (of_int (us_completion u)))])])"

record anthropic_resp_in =
  ar_id :: string
  ar_model :: string
  ar_role :: string
  ar_content :: raw_json
  ar_stop_reason :: string
  ar_input :: int
  ar_output :: int
  ar_error :: "string option"

definition anthropic_resp_fields :: "anthropic_resp_in fields" where
  "anthropic_resp_fields =
     [field ''id'' dec_string ar_id (\<lambda>x. ar_id_update (\<lambda>_. x)),
      field ''model'' dec_string ar_model (\<lambda>x. ar_model_update (\<lambda>_. x)),
      field ''role'' dec_string ar_role (\<lambda>x. ar_role_update (\<lambda>_. x)),
      field ''content'' dec_raw ar_content (\<lambda>x. ar_content_update (\<lambda>_. x)),
      field ''stop_reason'' dec_string ar_stop_reason (\<lambda>x. ar_stop_reason_update (\<lambda>_. x)),
      (''usage'', dec_struct
         [field ''input_tokens'' dec_int ar_input (\<lambda>x. ar_input_update (\<lambda>_. x)),
          field ''output_tokens'' dec_int ar_output (\<lambda>x. ar_output_update (\<lambda>_. x))]),
      field ''error'' (dec_ptr [] (dec_struct [field ''message'' dec_string id (\<lambda>x _. x)])) ar_error
        (\<lambda>x. ar_error_update (\<lambda>_. x))]"

definition zero_anthropic_resp :: anthropic_resp_in where
  "zero_anthropic_resp = \<lparr>ar_id = [], ar_model = [], ar_role = [], ar_content = None, ar_stop_reason = [],
     ar_input = 0, ar_output = 0, ar_error = None\<rparr>"

definition decode_anthropic_response :: "(json \<Rightarrow> string) \<Rightarrow> json \<Rightarrow> call_error + chat_response" where
  "decode_anthropic_response show_json body =
     bind_res (or_error ''invalid anthropic response'' (dec_struct anthropic_resp_fields body zero_anthropic_resp)) (\<lambda>inp.
       case ar_error inp of
         Some msg \<Rightarrow> Inl (OtherError (''anthropic: '' @ msg))
       | None \<Rightarrow>
           bind_res (parse_anthropic_content show_json (raw_value (ar_content inp))) (\<lambda>c. Inr
             \<lparr>cr_resp_id = ar_id inp, cr_model = ar_model inp,
              cr_role = (if ar_role inp = [] then ''assistant'' else ar_role inp),
              cr_content = ac_text c, cr_tool_calls = ac_calls c,
              cr_finish_reason = map_anthropic_stop_reason (ar_stop_reason inp),
              cr_usage = \<lparr>us_prompt = ar_input inp, us_completion = ar_output inp\<rparr>\<rparr>))"

section \<open>Turns\<close>

fun alternating :: "(string \<times> json list) list \<Rightarrow> bool" where
  "alternating (a # b # ts) \<longleftrightarrow> fst a \<noteq> fst b \<and> alternating (b # ts)"
| "alternating _ \<longleftrightarrow> True"

lemma turn_side_nonempty: "turn_side m = Some side \<Longrightarrow> side \<noteq> []"
  by (auto simp: turn_side_def split: if_splits)

text \<open>No block is lost, whatever the messages are.\<close>

lemma anthropic_turns_blocks:
  assumes "role \<noteq> [] \<or> blocks = []"
  shows "concat (map snd (anthropic_turns parse_json role blocks ms)) =
    blocks @ concat (map (turn_blocks parse_json) (filter (\<lambda>m. turn_side m \<noteq> None) ms))"
  using assms
proof (induction parse_json role blocks ms rule: anthropic_turns.induct)
  case (2 parse_json role blocks m ms)
  show ?case
  proof (cases "turn_side m")
    case (Some side)
    with 2 turn_side_nonempty [OF Some] show ?thesis by (auto simp: flush_turn_def)
  qed (use 2 in simp)
qed (auto simp: flush_turn_def)

definition fills_turn :: "(string \<Rightarrow> json option) \<Rightarrow> message \<Rightarrow> bool" where
  "fills_turn parse_json m \<longleftrightarrow> turn_side m = None \<or> turn_blocks parse_json m \<noteq> []"

lemma anthropic_turns_alternating:
  assumes "list_all (fills_turn parse_json) ms" and "role = [] \<or> blocks \<noteq> []"
  shows "alternating (anthropic_turns parse_json role blocks ms) \<and>
    (role \<noteq> [] \<longrightarrow> (\<exists>b ts. anthropic_turns parse_json role blocks ms = (role, b) # ts))"
  using assms
proof (induction parse_json role blocks ms rule: anthropic_turns.induct)
  case (2 parse_json role blocks m ms)
  show ?case
  proof (cases "turn_side m")
    case None
    with 2 show ?thesis by simp
  next
    case (Some side)
    have ne: "turn_blocks parse_json m \<noteq> []" using 2(4) Some by (simp add: fills_turn_def)
    have side: "side \<noteq> []" using turn_side_nonempty [OF Some] .
    show ?thesis
    proof (cases "role = side")
      case True
      with 2 Some ne show ?thesis by simp
    next
      case False
      have "list_all (fills_turn parse_json) ms" using 2(4) by simp
      with 2(2) [OF Some False] ne side obtain b ts where
        t: "anthropic_turns parse_json side (turn_blocks parse_json m) ms = (side, b) # ts"
        "alternating ((side, b) # ts)" by auto
      with False Some 2(5) show ?thesis by (auto simp: flush_turn_def)
    qed
  qed
qed (auto simp: flush_turn_def)

text \<open>
  The Anthropic encoder turns any conversation into well-formed turns: no block is lost,
  duplicated or reordered (the blocks of the messages sent are exactly those of the conversation,
  in order, whatever the roles), and when every turn has content the roles strictly alternate, as
  the Anthropic API requires.
\<close>

theorem anthropic_turns_lossless_alternating:
  "concat (map snd (anthropic_turns parse_json [] [] ms)) =
     concat (map (turn_blocks parse_json) (filter (\<lambda>m. turn_side m \<noteq> None) ms)) \<and>
   (list_all (fills_turn parse_json) ms \<longrightarrow> alternating (anthropic_turns parse_json [] [] ms))"
  using anthropic_turns_blocks [of "[]" "[]" parse_json ms] anthropic_turns_alternating [of parse_json ms "[]" "[]"]
  by simp

definition demo_say :: "string \<Rightarrow> string \<Rightarrow> message" where
  "demo_say role t = \<lparr>ms_role = role, ms_content = t, ms_parts = [], ms_tool_calls = [], ms_tool_call_id = []\<rparr>"

theorem anthropic_turns_lossless_alternating_witness:
  "alternating (anthropic_turns (\<lambda>_. None) [] [] [demo_say ''user'' ''a'', demo_say ''tool'' ''b'', demo_say ''assistant'' ''c''])"
proof -
  have "list_all (fills_turn (\<lambda>_. None)) [demo_say ''user'' ''a'', demo_say ''tool'' ''b'', demo_say ''assistant'' ''c'']"
    by (simp add: fills_turn_def turn_side_def turn_blocks_def demo_say_def content_blocks_def assistant_blocks_def)
  then show ?thesis using anthropic_turns_lossless_alternating [of "\<lambda>_. None"] by blast
qed

text \<open>An assistant turn without content is dropped, and the turns around it no longer alternate.\<close>

lemma empty_assistant_turn_breaks_alternation:
  "\<not> alternating (anthropic_turns parse_json [] [] [demo_say ''user'' ''a'', demo_say ''assistant'' [], demo_say ''user'' ''b''])"
  by (simp add: demo_say_def turn_side_def turn_blocks_def content_blocks_def assistant_blocks_def flush_turn_def)

section \<open>Replies\<close>

lemma finish_reason_back:
  "r \<notin> {[], ''max_tokens'', ''tool_use'', ''end_turn'', ''stop_sequence''} \<Longrightarrow>
   map_anthropic_stop_reason (map_finish_to_anthropic r) = r"
  by (auto simp: map_anthropic_stop_reason_def map_finish_to_anthropic_def)

text \<open>Arguments that are the canonical text of a JSON value.\<close>

definition canonical_args :: "(string \<Rightarrow> json option) \<Rightarrow> (json \<Rightarrow> string) \<Rightarrow> string \<Rightarrow> bool" where
  "canonical_args parse_json show_json args \<longleftrightarrow>
     trim_space args \<noteq> [] \<and>
     (case parse_json args of None \<Rightarrow> False | Some v \<Rightarrow> v \<noteq> JNull \<and> show_json v = args)"

lemma canonical_args_back: "canonical_args parse_json show_json args \<Longrightarrow>
    object_to_args show_json (args_to_object parse_json args) = args"
  by (auto simp: canonical_args_def object_to_args_def args_to_object_def split: option.splits)

lemma tool_use_blocks_back:
  assumes "list_all (\<lambda>c. canonical_args parse_json show_json (tk_arguments c)) calls"
  shows "map_res (parse_anthropic_block show_json) (map (tool_use_block parse_json) calls) = Inr (map CallBlock calls)"
  using assms
  by (induction calls) (simp_all add: parse_anthropic_block_def tool_use_block_def jget_def Let_def canonical_args_back)

lemma text_block_back [simp]: "parse_anthropic_block show_json (text_block t) = Inr (PartBlock (text_part t))"
  by (simp add: parse_anthropic_block_def text_block_def jget_def Let_def)

lemma block_lists [simp]:
  "block_parts (map CallBlock calls) = []" "block_calls (map CallBlock calls) = calls" "block_results (map CallBlock calls) = []"
  by (induction calls) simp_all

definition normal_anthropic_response :: "(string \<Rightarrow> json option) \<Rightarrow> (json \<Rightarrow> string) \<Rightarrow> chat_response \<Rightarrow> bool" where
  "normal_anthropic_response parse_json show_json r \<longleftrightarrow>
     normal_response r \<and>
     list_all (\<lambda>c. canonical_args parse_json show_json (tk_arguments c)) (cr_tool_calls r) \<and>
     cr_finish_reason r \<notin> {[], ''max_tokens'', ''tool_use'', ''end_turn'', ''stop_sequence''}"

lemma anthropic_response_back:
  assumes "normal_anthropic_response parse_json show_json r"
  shows "decode_anthropic_response show_json (encode_anthropic_response parse_json r) = Inr r"
proof -
  have n: "cr_role r \<noteq> []" "int64_ok (us_prompt (cr_usage r))" "int64_ok (us_completion (cr_usage r))"
    "list_all (\<lambda>c. canonical_args parse_json show_json (tk_arguments c)) (cr_tool_calls r)"
    "map_anthropic_stop_reason (map_finish_to_anthropic (cr_finish_reason r)) = cr_finish_reason r"
    using assms finish_reason_back by (simp_all add: normal_anthropic_response_def normal_response_def)
  define blocks where "blocks = (if cr_content r \<noteq> [] \<or> cr_tool_calls r = [] then [text_block (cr_content r)] else []) @
      map (tool_use_block parse_json) (cr_tool_calls r)"
  have d: "dec_struct anthropic_resp_fields (encode_anthropic_response parse_json r) zero_anthropic_resp =
      Inr \<lparr>ar_id = cr_resp_id r, ar_model = cr_model r, ar_role = cr_role r, ar_content = Some (JArr blocks),
        ar_stop_reason = map_finish_to_anthropic (cr_finish_reason r), ar_input = us_prompt (cr_usage r),
        ar_output = us_completion (cr_usage r), ar_error = None\<rparr>"
    using n(1-3)
    by (simp add: encode_anthropic_response_def anthropic_resp_fields_def field_for_def field_def zero_anthropic_resp_def
        int64_ok_def blocks_def Let_def)
  have c: "parse_anthropic_content show_json (JArr blocks) =
      Inr \<lparr>ac_text = cr_content r, ac_parts = [], ac_calls = cr_tool_calls r, ac_results = []\<rparr>"
    using tool_use_blocks_back [OF n(4)]
    by (simp add: blocks_def parse_anthropic_content_def has_image_def text_part_def part_text_def content_kinds Let_def)
  show ?thesis
    unfolding decode_anthropic_response_def d
    using n(1) by (simp add: c n(5))
qed

text \<open>
  A completed reply survives either client dialect: encoding a reply in normal form as an OpenAI
  or as an Anthropic response and decoding it again gives the same reply, with its text, its tool
  calls and their arguments, its finish reason and its token counts.
\<close>

theorem response_roundtrip:
  assumes "normal_anthropic_response parse_json show_json r"
  shows "decode_openai_response show_json (encode_openai_response r) = Inr r \<and>
    decode_anthropic_response show_json (encode_anthropic_response parse_json r) = Inr r"
  using assms anthropic_response_back openai_response_roundtrip by (auto simp: normal_anthropic_response_def)

definition demo_reply :: chat_response where
  "demo_reply = \<lparr>cr_resp_id = ''r'', cr_model = ''m'', cr_role = ''assistant'', cr_content = ''hi'',
     cr_tool_calls = [\<lparr>tk_id = ''c'', tk_name = ''f'', tk_arguments = ''[]''\<rparr>], cr_finish_reason = ''tool_calls'',
     cr_usage = \<lparr>us_prompt = 3, us_completion = 4\<rparr>\<rparr>"

theorem response_roundtrip_witness:
  "decode_anthropic_response (\<lambda>_. ''[]'') (encode_anthropic_response (\<lambda>_. Some (JArr [])) demo_reply) = Inr demo_reply"
proof -
  have "normal_anthropic_response (\<lambda>_. Some (JArr [])) (\<lambda>_. ''[]'') demo_reply" by code_simp
  from response_roundtrip [OF this] show ?thesis by blast
qed

end
