(* ===== verification/Codec_Gemini.thy ===== *)
theory Codec_Gemini
  imports Codec_Anthropic
begin

text \<open>
  The Gemini generateContent codec: \<^verbatim>\<open>src/internal/dataplane/dialect/gemini.go\<close> without its stream
  writer. Gemini identifies a function call by an optional identifier and its name; decoding numbers
  the calls without one and pairs results with calls of the same name in order, encoding refuses a
  result whose call is unknown.
\<close>

section \<open>Arguments, finish reasons and rejected features\<close>

definition gemini_args_json :: "(json \<Rightarrow> string) \<Rightarrow> json \<Rightarrow> string" where
  "gemini_args_json show_json v = (if v = JNull then ''{}'' else show_json v)"

definition gemini_args_object :: "(string \<Rightarrow> json option) \<Rightarrow> string \<Rightarrow> json" where
  "gemini_args_object parse_json v =
     (if trim_space v = [] then JObj []
      else (case parse_json v of None \<Rightarrow> JObj [] | Some out \<Rightarrow> out))"

definition gemini_response_object :: "(string \<Rightarrow> json option) \<Rightarrow> string \<Rightarrow> json" where
  "gemini_response_object parse_json v =
     (case parse_json v of
        Some (JObj kvs) \<Rightarrow> JObj kvs
      | _ \<Rightarrow> JObj [(''result'', JStr v)])"

definition gemini_finish_reason :: "string \<Rightarrow> string" where
  "gemini_finish_reason r =
     (if r = ''length'' then ''MAX_TOKENS''
      else if r = ''stop'' \<or> r = ''tool_calls'' \<or> r = [] then ''STOP''
      else to_upper r)"

definition gemini_config_fields :: "string list" where
  "gemini_config_fields =
     [''responseMimeType'', ''responseSchema'', ''responseJsonSchema'', ''thinkingConfig'', ''seed'', ''logprobs'',
      ''responseLogprobs'', ''presencePenalty'', ''frequencyPenalty'', ''audioTimestamp'']"

definition int_from_json :: "json \<Rightarrow> int" where
  "int_from_json v = (case as_number v of None \<Rightarrow> 0 | Some r \<Rightarrow> trunc_rat r)"

definition string_slice :: "json \<Rightarrow> string list" where
  "string_slice v = concat (map (\<lambda>j. case j of JStr s \<Rightarrow> [s] | _ \<Rightarrow> []) (as_array v))"

definition reject_gemini_unsupported :: "json \<Rightarrow> call_error + unit" where
  "reject_gemini_unsupported raw =
     (if present ''cachedContent'' raw then
        unsupported ''cached_content'' ''cachedContent is not supported by the gateway chat dialect yet''
      else if present ''safetySettings'' raw then
        unsupported ''safety_settings'' ''safetySettings are not supported by the gateway chat dialect yet''
      else
        let cfg = jget ''generationConfig'' raw in
        (case find (\<lambda>f. present f cfg) gemini_config_fields of
           Some f \<Rightarrow> unsupported f (''generationConfig.'' @ f @ '' is not supported by the gateway chat dialect yet'')
         | None \<Rightarrow>
             if int_from_json (jget ''candidateCount'' cfg) > 1 then
               unsupported ''candidate_count'' ''candidateCount > 1 is not supported by the gateway chat dialect''
             else Inr ()))"

section \<open>Decoding content\<close>

text \<open>The numbering of calls: how many were seen, their identifiers by name, how many are answered.\<close>

record gemini_ids =
  gi_number :: nat
  gi_calls :: "(string, string list) gomap"
  gi_used :: "(string, nat) gomap"

definition no_ids :: gemini_ids where
  "no_ids = \<lparr>gi_number = 0, gi_calls = [], gi_used = []\<rparr>"

definition gemini_call_id :: "nat \<Rightarrow> string" where
  "gemini_call_id n = ''call_gemini_'' @ show_nat n"

definition calls_named :: "string \<Rightarrow> gemini_ids \<Rightarrow> string list" where
  "calls_named name ids = (case gm_get (gi_calls ids) name of None \<Rightarrow> [] | Some xs \<Rightarrow> xs)"

definition register_call :: "string \<Rightarrow> string \<Rightarrow> gemini_ids \<Rightarrow> string \<times> gemini_ids" where
  "register_call name i0 ids =
     (let i = (if i0 = [] then gemini_call_id (gi_number ids) else i0) in
      (i, ids\<lparr>gi_number := gi_number ids + 1,
              gi_calls := gm_put name (calls_named name ids @ [i]) (gi_calls ids)\<rparr>))"

record gemini_content =
  gc_texts :: "string list"
  gc_built :: "content_part list"
  gc_calls :: "tool_call list"
  gc_results :: "(string \<times> string \<times> string) list"

definition no_content :: gemini_content where
  "no_content = \<lparr>gc_texts = [], gc_built = [], gc_calls = [], gc_results = []\<rparr>"

text \<open>One part; \<open>register\<close> is the function that numbers calls, absent for the system instruction.\<close>

definition gemini_part ::
  "(json \<Rightarrow> string) \<Rightarrow> bool \<Rightarrow> json \<Rightarrow> gemini_content \<Rightarrow> gemini_ids \<Rightarrow> call_error + gemini_content \<times> gemini_ids" where
  "gemini_part show_json register part c ids =
     (if \<not> is_object part then Inr (c, ids)
      else if present ''text'' part then
        (let v = as_string (jget ''text'' part) in
         Inr (c\<lparr>gc_texts := gc_texts c @ [v], gc_built := gc_built c @ [text_part v]\<rparr>, ids))
      else if present ''inlineData'' part then
        (let src = jget ''inlineData'' part; data = as_string (jget ''data'' src) in
         if data = [] then unsupported ''vision'' ''inlineData image is missing data''
         else Inr (c\<lparr>gc_built := gc_built c @ [image_part (data_image (as_string (jget ''mimeType'' src)) data)]\<rparr>, ids))
      else if present ''fileData'' part then
        (let src = jget ''fileData'' part; uri = as_string (jget ''fileUri'' src) in
         if uri = [] then unsupported ''vision'' ''fileData image is missing fileUri''
         else Inr (c\<lparr>gc_built := gc_built c @ [image_part
             \<lparr>im_url = uri, im_media_type = as_string (jget ''mimeType'' src), im_data = []\<rparr>]\<rparr>, ids))
      else if present ''functionCall'' part then
        (let call = jget ''functionCall'' part; name = as_string (jget ''name'' call); i0 = as_string (jget ''id'' call) in
         case (if register then register_call name i0 ids else (i0, ids)) of (i, ids') \<Rightarrow>
           Inr (c\<lparr>gc_calls := gc_calls c @
             [\<lparr>tk_id = i, tk_name = name, tk_arguments = gemini_args_json show_json (jget ''args'' call)\<rparr>]\<rparr>, ids'))
      else if present ''functionResponse'' part then
        (let r = jget ''functionResponse'' part in
         Inr (c\<lparr>gc_results := gc_results c @
           [(as_string (jget ''id'' r), as_string (jget ''name'' r), gemini_args_json show_json (jget ''response'' r))]\<rparr>, ids))
      else unsupported ''content_parts'' ''gemini content part type is not supported by the gateway'')"

fun gemini_parts ::
  "(json \<Rightarrow> string) \<Rightarrow> bool \<Rightarrow> json list \<Rightarrow> gemini_content \<Rightarrow> gemini_ids \<Rightarrow> call_error + gemini_content \<times> gemini_ids" where
  "gemini_parts show_json register [] c ids = Inr (c, ids)"
| "gemini_parts show_json register (p # ps) c ids =
     bind_res (gemini_part show_json register p c ids) (\<lambda>(c', ids'). gemini_parts show_json register ps c' ids')"

definition decode_gemini_parts ::
  "(json \<Rightarrow> string) \<Rightarrow> bool \<Rightarrow> json \<Rightarrow> gemini_ids \<Rightarrow> call_error + gemini_content \<times> gemini_ids" where
  "decode_gemini_parts show_json register raw ids = gemini_parts show_json register (as_array raw) no_content ids"

definition gc_text :: "gemini_content \<Rightarrow> string" where
  "gc_text c = join [] (gc_texts c)"

definition gc_parts :: "gemini_content \<Rightarrow> content_part list" where
  "gc_parts c = (if has_image (gc_built c) then gc_built c else [])"

section \<open>Decoding requests\<close>

definition gemini_tool :: "json \<Rightarrow> tool" where
  "gemini_tool d =
     \<lparr>tl_name = as_string (jget ''name'' d), tl_description = as_string (jget ''description'' d),
      tl_parameters = Some (if present ''parameters'' d then jget ''parameters'' d else jget ''parametersJsonSchema'' d)\<rparr>"

definition gemini_tool_group :: "json \<Rightarrow> call_error + tool list" where
  "gemini_tool_group g =
     (let declarations = as_array (jget ''functionDeclarations'' g) in
      if declarations = [] \<and> is_object g \<and> g \<noteq> JObj [] then
        unsupported ''tools'' ''only Gemini functionDeclarations tools are supported''
      else Inr (map gemini_tool declarations))"

definition decode_gemini_tools :: "json \<Rightarrow> call_error + tool list" where
  "decode_gemini_tools raw = bind_res (map_res gemini_tool_group (as_array raw)) (\<lambda>ts. Inr (concat ts))"

definition decode_gemini_tool_choice :: "json \<Rightarrow> tool_choice option" where
  "decode_gemini_tool_choice raw =
     (let cfg = jget ''functionCallingConfig'' raw; mode = to_upper (as_string (jget ''mode'' cfg)) in
      if mode = ''AUTO'' then Some \<lparr>tc_mode = ToolChoiceAuto, tc_name = []\<rparr>
      else if mode = ''NONE'' then Some \<lparr>tc_mode = ToolChoiceNone, tc_name = []\<rparr>
      else if mode = ''ANY'' then
        (case string_slice (jget ''allowedFunctionNames'' cfg) of
           [name] \<Rightarrow> Some \<lparr>tc_mode = ToolChoiceTool, tc_name = name\<rparr>
         | _ \<Rightarrow> Some \<lparr>tc_mode = ToolChoiceRequired, tc_name = []\<rparr>)
      else None)"

text \<open>The identifier a result answers: its own, the next call of its name, or a new number.\<close>

definition resolve_result :: "string \<times> string \<times> string \<Rightarrow> gemini_ids \<Rightarrow> message \<times> gemini_ids" where
  "resolve_result r ids =
     (case r of (i0, name, content) \<Rightarrow>
        let idx = (case gm_get (gi_used ids) name of None \<Rightarrow> 0 | Some n \<Rightarrow> n);
            found = i0 = [] \<and> idx < length (calls_named name ids);
            i1 = (if found then calls_named name ids ! idx else i0);
            ids1 = (if found then ids\<lparr>gi_used := gm_put name (idx + 1) (gi_used ids)\<rparr> else ids);
            i = (if i1 = [] then gemini_call_id (gi_number ids1) else i1);
            ids2 = (if i1 = [] then ids1\<lparr>gi_number := gi_number ids1 + 1\<rparr> else ids1)
        in (\<lparr>ms_role = ''tool'', ms_content = content, ms_parts = [], ms_tool_calls = [], ms_tool_call_id = i\<rparr>, ids2))"

fun resolve_results :: "(string \<times> string \<times> string) list \<Rightarrow> gemini_ids \<Rightarrow> message list \<times> gemini_ids" where
  "resolve_results [] ids = ([], ids)"
| "resolve_results (r # rs) ids =
     (case resolve_result r ids of (m, ids') \<Rightarrow>
        case resolve_results rs ids' of (ms, ids'') \<Rightarrow> (m # ms, ids''))"

fun gemini_contents :: "(json \<Rightarrow> string) \<Rightarrow> json list \<Rightarrow> gemini_ids \<Rightarrow> call_error + message list" where
  "gemini_contents show_json [] ids = Inr []"
| "gemini_contents show_json (item # items) ids =
     (if \<not> is_object item then gemini_contents show_json items ids
      else
        bind_res (decode_gemini_parts show_json True (jget ''parts'' item) ids) (\<lambda>(c, ids1).
          let role = as_string (jget ''role'' item) in
          if role = ''model'' then
            bind_res (gemini_contents show_json items ids1) (\<lambda>ms. Inr
              (\<lparr>ms_role = ''assistant'', ms_content = gc_text c, ms_parts = gc_parts c, ms_tool_calls = gc_calls c,
                ms_tool_call_id = []\<rparr> # ms))
          else if role = ''user'' \<or> role = [] then
            (case resolve_results (gc_results c) ids1 of (rs, ids2) \<Rightarrow>
               bind_res (gemini_contents show_json items ids2) (\<lambda>ms. Inr
                 (rs @ (if gc_text c \<noteq> [] \<or> gc_parts c \<noteq> [] then
                    [\<lparr>ms_role = ''user'', ms_content = gc_text c, ms_parts = gc_parts c, ms_tool_calls = [],
                      ms_tool_call_id = []\<rparr>] else []) @ ms)))
          else unsupported ''role'' (''gemini role is not supported'')))"

definition decode_gemini_value :: "(json \<Rightarrow> string) \<Rightarrow> json \<Rightarrow> call_error + chat_request" where
  "decode_gemini_value show_json body =
     bind_res (decode_map ''invalid gemini generateContent body'' body) (\<lambda>raw.
     bind_res (reject_gemini_unsupported raw) (\<lambda>_.
     bind_res (if is_object (jget ''systemInstruction'' raw)
         then bind_res (decode_gemini_parts show_json False (jget ''parts'' (jget ''systemInstruction'' raw)) no_ids)
           (\<lambda>(c, _). Inr (gc_text c))
         else Inr []) (\<lambda>sys.
     bind_res (decode_gemini_tools (jget ''tools'' raw)) (\<lambda>tools.
     bind_res (gemini_contents show_json (as_array (jget ''contents'' raw)) no_ids) (\<lambda>msgs.
       let cfg = jget ''generationConfig'' raw in
       if msgs = [] then Inl (OtherError ''at least one user/model content is required'')
       else Inr \<lparr>cq_model = [], cq_messages = msgs, cq_system = sys,
         cq_max_tokens = int_from_json (jget ''maxOutputTokens'' cfg), cq_temperature = as_number (jget ''temperature'' cfg),
         cq_top_p = as_number (jget ''topP'' cfg), cq_stream = False, cq_stop = string_slice (jget ''stopSequences'' cfg),
         cq_tools = tools, cq_tool_choice = decode_gemini_tool_choice (jget ''toolConfig'' raw)\<rparr>)))))"

definition decode_gemini_request ::
  "(string \<Rightarrow> json option) \<Rightarrow> (json \<Rightarrow> string) \<Rightarrow> string \<Rightarrow> call_error + chat_request" where
  "decode_gemini_request parse_json show_json body =
     (case parse_json body of
        None \<Rightarrow> Inl (OtherError ''invalid gemini generateContent body'')
      | Some j \<Rightarrow> decode_gemini_value show_json j)"

section \<open>Encoding requests\<close>

definition gemini_content_part :: "content_part \<Rightarrow> json list" where
  "gemini_content_part p =
     (if cp_type p = ContentImage then
        (case cp_image p of None \<Rightarrow> []
         | Some im \<Rightarrow>
             if im_data im \<noteq> [] then
               [JObj [(''inlineData'', JObj [(''mimeType'', JStr (im_media_type im)), (''data'', JStr (im_data im))])]]
             else if im_url im \<noteq> [] then
               [JObj [(''fileData'', JObj [(''mimeType'', JStr (im_media_type im)), (''fileUri'', JStr (im_url im))])]]
             else [])
      else [JObj [(''text'', JStr (cp_text p))]])"

definition encode_gemini_content_parts :: "message \<Rightarrow> json list" where
  "encode_gemini_content_parts m =
     (if ms_parts m = [] then (if ms_content m \<noteq> [] then [JObj [(''text'', JStr (ms_content m))]] else [])
      else concat (map gemini_content_part (ms_parts m)))"

definition gemini_function_call :: "(string \<Rightarrow> json option) \<Rightarrow> tool_call \<Rightarrow> json" where
  "gemini_function_call parse_json call =
     JObj [(''functionCall'', JObj [(''id'', JStr (tk_id call)), (''name'', JStr (tk_name call)),
        (''args'', gemini_args_object parse_json (tk_arguments call))])]"

text \<open>The names of the calls of a conversation by identifier, a later call replacing an earlier one.\<close>

definition gemini_call_names :: "message list \<Rightarrow> (string, string) gomap" where
  "gemini_call_names ms =
     fold (\<lambda>call names. gm_put (tk_id call) (tk_name call) names) (concat (map ms_tool_calls ms)) []"

definition call_name :: "(string, string) gomap \<Rightarrow> string \<Rightarrow> string" where
  "call_name names i = (case gm_get names i of None \<Rightarrow> [] | Some n \<Rightarrow> n)"

definition encode_gemini_message ::
  "(string \<Rightarrow> json option) \<Rightarrow> (string, string) gomap \<Rightarrow> message \<Rightarrow> call_error + json list" where
  "encode_gemini_message parse_json names m =
     (if ms_role m = ''system'' then Inr []
      else if ms_role m = ''user'' \<or> ms_role m = ''assistant'' then
        (let parts = encode_gemini_content_parts m @ map (gemini_function_call parse_json) (ms_tool_calls m) in
         Inr (if parts = [] then []
              else [JObj [(''role'', JStr (if ms_role m = ''assistant'' then ''model'' else ''user'')), (''parts'', JArr parts)]]))
      else if ms_role m = ''tool'' then
        (if call_name names (ms_tool_call_id m) = [] then
           unsupported ''tool_result'' ''tool result has no matching tool call''
         else Inr [JObj [(''role'', JStr ''user''), (''parts'', JArr
           [JObj [(''functionResponse'', JObj [(''id'', JStr (ms_tool_call_id m)),
              (''name'', JStr (call_name names (ms_tool_call_id m))),
              (''response'', gemini_response_object parse_json (ms_content m))])]])]])
      else unsupported ''role'' ''message role cannot be mapped to Gemini'')"

definition gemini_declaration :: "tool \<Rightarrow> json" where
  "gemini_declaration t =
     JObj ([(''name'', JStr (tl_name t))]
       @ opt_member (tl_description t \<noteq> []) ''description'' (JStr (tl_description t))
       @ [(''parameters'', if tl_parameters t \<noteq> None then raw_value (tl_parameters t)
            else JObj [(''type'', JStr ''object'')])])"

definition gemini_function_config :: "tool_choice \<Rightarrow> (string \<times> json) list" where
  "gemini_function_config c =
     (if tc_mode c = ToolChoiceAuto then [(''mode'', JStr ''AUTO'')]
      else if tc_mode c = ToolChoiceNone then [(''mode'', JStr ''NONE'')]
      else if tc_mode c = ToolChoiceRequired then [(''mode'', JStr ''ANY'')]
      else if tc_mode c = ToolChoiceTool then
        [(''mode'', JStr ''ANY''), (''allowedFunctionNames'', JArr [JStr (tc_name c)])]
      else [])"

definition encode_gemini_request :: "(string \<Rightarrow> json option) \<Rightarrow> chat_request \<Rightarrow> call_error + json" where
  "encode_gemini_request parse_json req =
     (let names = gemini_call_names (cq_messages req);
          cfg = opt_member (cq_max_tokens req > 0) ''maxOutputTokens'' (JNum (of_int (cq_max_tokens req)))
            @ opt_member (cq_temperature req \<noteq> None) ''temperature'' (num_value (cq_temperature req))
            @ opt_member (cq_top_p req \<noteq> None) ''topP'' (num_value (cq_top_p req))
            @ opt_member (cq_stop req \<noteq> []) ''stopSequences'' (JArr (map JStr (cq_stop req)));
          choice = (case cq_tool_choice req of None \<Rightarrow> [] | Some c \<Rightarrow> gemini_function_config c)
      in bind_res (map_res (encode_gemini_message parse_json names) (cq_messages req)) (\<lambda>cs.
           if concat cs = [] then Inl (OtherError ''at least one user/model content is required'')
           else Inr (JObj ([(''contents'', JArr (concat cs))]
             @ opt_member (cq_system req \<noteq> []) ''systemInstruction''
                 (JObj [(''parts'', JArr [JObj [(''text'', JStr (cq_system req))]])])
             @ opt_member (cfg \<noteq> []) ''generationConfig'' (JObj cfg)
             @ opt_member (cq_tools req \<noteq> []) ''tools''
                 (JArr [JObj [(''functionDeclarations'', JArr (map gemini_declaration (cq_tools req)))]])
             @ opt_member (choice \<noteq> []) ''toolConfig'' (JObj [(''functionCallingConfig'', JObj choice)])))))"

section \<open>Responses\<close>

definition gemini_usage :: "token_usage \<Rightarrow> json" where
  "gemini_usage u =
     JObj [(''promptTokenCount'', JNum (of_int (us_prompt u))), (''candidatesTokenCount'', JNum (of_int (us_completion u))),
           (''totalTokenCount'', JNum (of_int (i64 (us_prompt u + us_completion u))))]"

definition encode_gemini_response :: "(string \<Rightarrow> json option) \<Rightarrow> chat_response \<Rightarrow> json" where
  "encode_gemini_response parse_json resp =
     (let parts = (if cr_content resp \<noteq> [] \<or> cr_tool_calls resp = [] then [JObj [(''text'', JStr (cr_content resp))]] else [])
            @ map (gemini_function_call parse_json) (cr_tool_calls resp)
      in JObj
        [(''responseId'', JStr (cr_resp_id resp)), (''modelVersion'', JStr (cr_model resp)),
         (''candidates'', JArr [JObj [(''index'', JNum 0),
            (''content'', JObj [(''role'', JStr ''model''), (''parts'', JArr parts)]),
            (''finishReason'', JStr (gemini_finish_reason (cr_finish_reason resp)))]]),
         (''usageMetadata'', gemini_usage (cr_usage resp))])"

end
