(* ===== verification/Streams.thy ===== *)
theory Streams
  imports Codec_Gemini
begin

text \<open>
  The other stream writers and the stream parsers of \<^verbatim>\<open>src/internal/dataplane/dialect\<close>: the
  Anthropic writer, which numbers content blocks and keeps one open at a time, its parser, the
  parser of OpenAI chunks and the Gemini writer, which holds tool calls back until the end. What is
  written are the JSON payloads of the events; the parsers start from the lines that the scanner
  delivers before it ends, with an error or not.
\<close>

section \<open>The Anthropic writer\<close>

datatype anth_sse =
    MessageStart string string string
  | TextBlockStart int
  | ToolBlockStart int string string
  | TextBlockDelta int string
  | ToolBlockDelta int string
  | BlockStop int
  | MessageDelta string "token_usage option"
  | MessageStop

text \<open>The name and the payload of an event.\<close>

fun anth_payload :: "anth_sse \<Rightarrow> string \<times> json" where
  "anth_payload (MessageStart i m r) =
     (''message_start'', JObj [(''type'', JStr ''message_start''),
        (''message'', JObj [(''id'', JStr i), (''type'', JStr ''message''), (''role'', JStr r), (''model'', JStr m),
           (''content'', JArr [])])])"
| "anth_payload (TextBlockStart n) =
     (''content_block_start'', JObj [(''type'', JStr ''content_block_start''), (''index'', JNum (of_int n)),
        (''content_block'', JObj [(''type'', JStr ''text''), (''text'', JStr [])])])"
| "anth_payload (ToolBlockStart n i name) =
     (''content_block_start'', JObj [(''type'', JStr ''content_block_start''), (''index'', JNum (of_int n)),
        (''content_block'', JObj [(''type'', JStr ''tool_use''), (''id'', JStr i), (''name'', JStr name), (''input'', JObj [])])])"
| "anth_payload (TextBlockDelta n t) =
     (''content_block_delta'', JObj [(''type'', JStr ''content_block_delta''), (''index'', JNum (of_int n)),
        (''delta'', JObj [(''type'', JStr ''text_delta''), (''text'', JStr t)])])"
| "anth_payload (ToolBlockDelta n a) =
     (''content_block_delta'', JObj [(''type'', JStr ''content_block_delta''), (''index'', JNum (of_int n)),
        (''delta'', JObj [(''type'', JStr ''input_json_delta''), (''partial_json'', JStr a)])])"
| "anth_payload (BlockStop n) =
     (''content_block_stop'', JObj [(''type'', JStr ''content_block_stop''), (''index'', JNum (of_int n))])"
| "anth_payload (MessageDelta stop u) =
     (''message_delta'', JObj ([(''type'', JStr ''message_delta''), (''delta'', JObj [(''stop_reason'', JStr stop)])]
        @ (case u of None \<Rightarrow> []
           | Some u \<Rightarrow> [(''usage'', JObj [(''input_tokens'', JNum (of_int (us_prompt u))),
                                   (''output_tokens'', JNum (of_int (us_completion u)))])])))"
| "anth_payload MessageStop = (''message_stop'', JObj [(''type'', JStr ''message_stop'')])"

record anth_state =
  as_out :: "anth_sse list"
  as_id :: string
  as_model :: string
  as_started :: bool
  as_next :: int
  as_kind :: string
  as_tool_ir :: int
  as_index :: int
  as_prompt :: int
  as_completion :: int

definition anth_init :: anth_state where
  "anth_init = \<lparr>as_out = [], as_id = ''msg_afi'', as_model = [], as_started = False, as_next = 0, as_kind = [],
     as_tool_ir = -1, as_index = -1, as_prompt = 0, as_completion = 0\<rparr>"

type_synonym anth_step = "anth_state \<Rightarrow> anth_state \<times> err option"

text \<open>Steps that stop at the first failed write.\<close>

definition then_step :: "anth_step \<Rightarrow> anth_step \<Rightarrow> anth_step" where
  "then_step f g s = (case f s of (s', Some e) \<Rightarrow> (s', Some e) | (s', None) \<Rightarrow> g s')"

definition anth_write :: "(nat \<Rightarrow> bool) \<Rightarrow> anth_sse \<Rightarrow> anth_step" where
  "anth_write ok e s =
     (if ok (length (as_out s)) then (s\<lparr>as_out := as_out s @ [e]\<rparr>, None)
      else (s, Some (Err ErrOther ''write failed'')))"

definition ensure_started :: "(nat \<Rightarrow> bool) \<Rightarrow> string \<Rightarrow> anth_step" where
  "ensure_started ok role s =
     (if as_started s then (s, None)
      else anth_write ok (MessageStart (as_id s) (as_model s) (if role = [] then ''assistant'' else role))
        (s\<lparr>as_started := True\<rparr>))"

definition close_cur :: "(nat \<Rightarrow> bool) \<Rightarrow> anth_step" where
  "close_cur ok s =
     (if as_kind s = [] then (s, None)
      else anth_write ok (BlockStop (as_index s)) (s\<lparr>as_kind := [], as_tool_ir := -1, as_index := -1\<rparr>))"

text \<open>Opening the next block.\<close>

definition open_text :: "(nat \<Rightarrow> bool) \<Rightarrow> anth_step" where
  "open_text ok s =
     anth_write ok (TextBlockStart (as_next s)) (s\<lparr>as_kind := ''text'', as_index := as_next s, as_next := as_next s + 1\<rparr>)"

definition open_tool :: "(nat \<Rightarrow> bool) \<Rightarrow> stream_event \<Rightarrow> anth_step" where
  "open_tool ok ev s =
     anth_write ok (ToolBlockStart (as_next s) (sv_tool_id ev) (sv_tool_name ev))
       (s\<lparr>as_kind := ''tool'', as_tool_ir := sv_tool_index ev, as_index := as_next s, as_next := as_next s + 1\<rparr>)"

definition anth_event :: "(nat \<Rightarrow> bool) \<Rightarrow> stream_event \<Rightarrow> anth_step" where
  "anth_event ok ev s =
     (case sv_kind ev of
        StreamError \<Rightarrow> (s, Some (case sv_err ev of Some e \<Rightarrow> e | None \<Rightarrow> Err ErrOther ''stream error''))
      | StreamMessageStart \<Rightarrow>
          ensure_started ok (sv_role ev)
            (s\<lparr>as_id := (if sv_id ev \<noteq> [] then sv_id ev else as_id s),
               as_model := (if sv_model ev \<noteq> [] then sv_model ev else as_model s)\<rparr>)
      | StreamTextDelta \<Rightarrow>
          then_step (ensure_started ok [])
          (then_step (\<lambda>s. if as_kind s \<noteq> ''text'' then then_step (close_cur ok) (open_text ok) s else (s, None))
            (\<lambda>s. if sv_text ev = [] then (s, None) else anth_write ok (TextBlockDelta (as_index s) (sv_text ev)) s)) s
      | StreamToolCallStart \<Rightarrow>
          then_step (ensure_started ok []) (then_step (close_cur ok) (open_tool ok ev)) s
      | StreamToolCallDelta \<Rightarrow>
          (if sv_args_delta ev = [] then (s, None)
           else if as_kind s \<noteq> ''tool'' \<or> as_tool_ir s \<noteq> sv_tool_index ev then (s, None)
           else anth_write ok (ToolBlockDelta (as_index s) (sv_args_delta ev)) s)
      | StreamMessageEnd \<Rightarrow>
          then_step (close_cur ok)
          (then_step (\<lambda>s. anth_write ok
              (MessageDelta (map_finish_to_anthropic (if sv_finish_reason ev = [] then ''stop'' else sv_finish_reason ev)) (sv_usage ev))
              (case sv_usage ev of None \<Rightarrow> s
               | Some u \<Rightarrow> s\<lparr>as_prompt := us_prompt u, as_completion := us_completion u\<rparr>))
            (anth_write ok MessageStop)) s
      | StreamOther k \<Rightarrow> (s, None))"

fun anth_events :: "(nat \<Rightarrow> bool) \<Rightarrow> stream_event list \<Rightarrow> anth_step" where
  "anth_events ok [] s = (s, None)"
| "anth_events ok (ev # evs) s = then_step (anth_event ok ev) (anth_events ok evs) s"

text \<open>\<^verbatim>\<open>Anthropic.WriteStream\<close>: a nil channel blocks for ever.\<close>

definition anthropic_write_stream :: "(nat \<Rightarrow> bool) \<Rightarrow> events \<Rightarrow> (anth_sse list \<times> int \<times> int \<times> err option) option" where
  "anthropic_write_stream ok evs =
     map_option (\<lambda>evs. case anth_events ok evs anth_init of (s, e) \<Rightarrow> (as_out s, as_prompt s, as_completion s, e)) evs"

section \<open>Lines of a stream\<close>

text \<open>The payloads of the data lines.\<close>

definition sse_payload :: "string \<Rightarrow> string option" where
  "sse_payload line =
     (if \<not> has_prefix line ''data:'' then None
      else let payload = trim_space (trim_prefix line ''data:'') in
        if payload = [] \<or> payload = ''[DONE]'' then None else Some payload)"

definition sse_values :: "(string \<Rightarrow> json option) \<Rightarrow> string list \<Rightarrow> json list" where
  "sse_values parse_json lines =
     concat (map (\<lambda>l. case sse_payload l of None \<Rightarrow> []
        | Some p \<Rightarrow> (case parse_json p of None \<Rightarrow> [] | Some j \<Rightarrow> [j])) lines)"

definition scan_error_event :: "err option \<Rightarrow> stream_event list" where
  "scan_error_event e =
     (case e of None \<Rightarrow> []
      | Some e \<Rightarrow> [\<lparr>sv_kind = StreamError, sv_id = [], sv_model = [], sv_role = [], sv_text = [], sv_finish_reason = [],
           sv_usage = None, sv_err = Some e, sv_tool_index = 0, sv_tool_id = [], sv_tool_name = [], sv_args_delta = []\<rparr>])"

definition stream_event_of :: "stream_kind \<Rightarrow> string \<Rightarrow> string \<Rightarrow> stream_event" where
  "stream_event_of k i m = \<lparr>sv_kind = k, sv_id = i, sv_model = m, sv_role = [], sv_text = [], sv_finish_reason = [],
     sv_usage = None, sv_err = None, sv_tool_index = 0, sv_tool_id = [], sv_tool_name = [], sv_args_delta = []\<rparr>"

section \<open>The Anthropic parser\<close>

record anth_parser =
  ap_id :: string
  ap_model :: string
  ap_ordinals :: "(int, int) gomap"
  ap_next :: int

definition anth_parser_init :: anth_parser where
  "anth_parser_init = \<lparr>ap_id = ''msg_afi'', ap_model = [], ap_ordinals = [], ap_next = 0\<rparr>"

definition anthropic_block_index :: "json \<Rightarrow> int" where
  "anthropic_block_index raw = int_from_json (jget ''index'' raw)"

definition nonempty_or :: "string \<Rightarrow> string \<Rightarrow> string" where
  "nonempty_or v old = (if v \<noteq> [] then v else old)"

definition anth_parse :: "json \<Rightarrow> anth_parser \<Rightarrow> stream_event list \<times> anth_parser" where
  "anth_parse raw p =
     (let typ = as_string (jget ''type'' raw);
          idx = anthropic_block_index raw;
          event = (\<lambda>k. stream_event_of k (ap_id p) (ap_model p)) in
      if typ = ''message_start'' then
        (let msg = jget ''message'' raw;
             p' = p\<lparr>ap_id := nonempty_or (as_string (jget ''id'' msg)) (ap_id p),
                    ap_model := nonempty_or (as_string (jget ''model'' msg)) (ap_model p)\<rparr> in
         if is_object msg then
           ([(stream_event_of StreamMessageStart (ap_id p') (ap_model p'))
               \<lparr>sv_role := nonempty_or (as_string (jget ''role'' msg)) ''assistant''\<rparr>], p')
         else ([], p))
      else if typ = ''content_block_start'' then
        (let block = jget ''content_block'' raw; btyp = as_string (jget ''type'' block); text = as_string (jget ''text'' block) in
         if \<not> is_object block then ([], p)
         else if btyp = ''text'' then (if text \<noteq> [] then [(event StreamTextDelta)\<lparr>sv_text := text\<rparr>] else [], p)
         else if btyp = ''tool_use'' then
           ([(event StreamToolCallStart)\<lparr>sv_tool_index := ap_next p, sv_tool_id := as_string (jget ''id'' block),
               sv_tool_name := as_string (jget ''name'' block)\<rparr>],
            p\<lparr>ap_ordinals := gm_put idx (ap_next p) (ap_ordinals p), ap_next := ap_next p + 1\<rparr>)
         else ([], p))
      else if typ = ''content_block_delta'' then
        (let delta = jget ''delta'' raw; pj = as_string (jget ''partial_json'' delta); text = as_string (jget ''text'' delta) in
         if \<not> is_object delta then ([], p)
         else if as_string (jget ''type'' delta) = ''input_json_delta'' then
           (if pj \<noteq> [] then [(event StreamToolCallDelta)
                \<lparr>sv_tool_index := (case gm_get (ap_ordinals p) idx of None \<Rightarrow> 0 | Some n \<Rightarrow> n), sv_args_delta := pj\<rparr>]
            else [], p)
         else (if text \<noteq> [] then [(event StreamTextDelta)\<lparr>sv_text := text\<rparr>] else [], p))
      else if typ = ''message_delta'' then
        (let delta = jget ''delta'' raw; usage = jget ''usage'' raw in
         ([(event StreamMessageEnd)
             \<lparr>sv_finish_reason := (case jmember ''stop_reason'' delta of
                  Some (JStr sr) \<Rightarrow> map_anthropic_stop_reason sr | _ \<Rightarrow> []),
              sv_usage := (if is_object usage
                 then Some \<lparr>us_prompt = int_from_json (jget ''input_tokens'' usage),
                            us_completion = int_from_json (jget ''output_tokens'' usage)\<rparr>
                 else None)\<rparr>], p))
      else ([], p))"

fun anth_parse_all :: "json list \<Rightarrow> anth_parser \<Rightarrow> stream_event list" where
  "anth_parse_all [] p = []"
| "anth_parse_all (j # js) p = (case anth_parse j p of (evs, p') \<Rightarrow> evs @ anth_parse_all js p')"

text \<open>A payload that is neither an object nor \<^verbatim>\<open>null\<close> does not decode and is skipped.\<close>

definition parse_anthropic_sse :: "(string \<Rightarrow> json option) \<Rightarrow> string list \<Rightarrow> err option \<Rightarrow> stream_event list" where
  "parse_anthropic_sse parse_json lines scan_err =
     anth_parse_all (filter (\<lambda>j. is_object j \<or> j = JNull) (sse_values parse_json lines)) anth_parser_init
       @ scan_error_event scan_err"

section \<open>The OpenAI parser\<close>

record openai_tool_in =
  ot_index :: "int option"
  ot_id :: string
  ot_name :: string
  ot_arguments :: string

record openai_delta_in =
  od_role :: string
  od_content :: string
  od_tool_calls :: "openai_tool_in list"
  od_finish :: "string option"

record openai_chunk_in =
  ok_id :: string
  ok_model :: string
  ok_choices :: "openai_delta_in list"
  ok_usage :: "token_usage option"

definition zero_openai_tool_in :: openai_tool_in where
  "zero_openai_tool_in = \<lparr>ot_index = None, ot_id = [], ot_name = [], ot_arguments = []\<rparr>"

definition zero_openai_delta_in :: openai_delta_in where
  "zero_openai_delta_in = \<lparr>od_role = [], od_content = [], od_tool_calls = [], od_finish = None\<rparr>"

definition openai_tool_in_fields :: "openai_tool_in fields" where
  "openai_tool_in_fields =
     [field ''index'' (dec_ptr 0 dec_int) ot_index (\<lambda>x. ot_index_update (\<lambda>_. x)),
      field ''id'' dec_string ot_id (\<lambda>x. ot_id_update (\<lambda>_. x)),
      (''function'', dec_struct
         [field ''name'' dec_string ot_name (\<lambda>x. ot_name_update (\<lambda>_. x)),
          field ''arguments'' dec_string ot_arguments (\<lambda>x. ot_arguments_update (\<lambda>_. x))])]"

definition openai_delta_in_fields :: "openai_delta_in fields" where
  "openai_delta_in_fields =
     [(''delta'', dec_struct
         [field ''role'' dec_string od_role (\<lambda>x. od_role_update (\<lambda>_. x)),
          field ''content'' dec_string od_content (\<lambda>x. od_content_update (\<lambda>_. x)),
          field ''tool_calls'' (dec_slice zero_openai_tool_in (dec_struct openai_tool_in_fields)) od_tool_calls
            (\<lambda>x. od_tool_calls_update (\<lambda>_. x))]),
      field ''finish_reason'' (dec_ptr [] dec_string) od_finish (\<lambda>x. od_finish_update (\<lambda>_. x))]"

definition openai_chunk_in_fields :: "openai_chunk_in fields" where
  "openai_chunk_in_fields =
     [field ''id'' dec_string ok_id (\<lambda>x. ok_id_update (\<lambda>_. x)),
      field ''model'' dec_string ok_model (\<lambda>x. ok_model_update (\<lambda>_. x)),
      field ''choices'' (dec_slice zero_openai_delta_in (dec_struct openai_delta_in_fields)) ok_choices
        (\<lambda>x. ok_choices_update (\<lambda>_. x)),
      field ''usage'' (dec_ptr \<lparr>us_prompt = 0, us_completion = 0\<rparr> (dec_struct
         [field ''prompt_tokens'' dec_int us_prompt (\<lambda>x. us_prompt_update (\<lambda>_. x)),
          field ''completion_tokens'' dec_int us_completion (\<lambda>x. us_completion_update (\<lambda>_. x))])) ok_usage
        (\<lambda>x. ok_usage_update (\<lambda>_. x))]"

definition zero_openai_chunk_in :: openai_chunk_in where
  "zero_openai_chunk_in = \<lparr>ok_id = [], ok_model = [], ok_choices = [], ok_usage = None\<rparr>"

record openai_parser =
  op_id :: string
  op_model :: string
  op_started :: bool
  op_seen :: "int list"

definition openai_parser_init :: openai_parser where
  "openai_parser_init = \<lparr>op_id = ''chatcmpl-afi'', op_model = [], op_started = False, op_seen = []\<rparr>"

text \<open>The events of the tool calls of a delta.\<close>

fun openai_tool_events :: "(stream_kind \<Rightarrow> stream_event) \<Rightarrow> openai_tool_in list \<Rightarrow> int list \<Rightarrow> stream_event list \<times> int list" where
  "openai_tool_events event [] seen = ([], seen)"
| "openai_tool_events event (tc # tcs) seen =
     (let idx = (case ot_index tc of None \<Rightarrow> 0 | Some n \<Rightarrow> n);
          start = (if idx \<in> set seen then []
            else [(event StreamToolCallStart)\<lparr>sv_tool_index := idx, sv_tool_id := ot_id tc, sv_tool_name := ot_name tc\<rparr>]);
          args = (if ot_arguments tc = [] then []
            else [(event StreamToolCallDelta)\<lparr>sv_tool_index := idx, sv_args_delta := ot_arguments tc\<rparr>])
      in case openai_tool_events event tcs (if idx \<in> set seen then seen else idx # seen) of (evs, seen') \<Rightarrow>
           (start @ args @ evs, seen'))"

definition openai_chunk :: "openai_chunk_in \<Rightarrow> openai_parser \<Rightarrow> stream_event list \<times> openai_parser" where
  "openai_chunk raw p0 =
     (let p = p0\<lparr>op_id := nonempty_or (ok_id raw) (op_id p0), op_model := nonempty_or (ok_model raw) (op_model p0)\<rparr>;
          event = (\<lambda>k. stream_event_of k (op_id p) (op_model p)) in
      case ok_choices raw of
        [] \<Rightarrow>
          (case ok_usage raw of
             Some u \<Rightarrow> if us_prompt u > 0 \<or> us_completion u > 0 then ([(event StreamMessageEnd)\<lparr>sv_usage := Some u\<rparr>], p) else ([], p)
           | None \<Rightarrow> ([], p))
      | c # _ \<Rightarrow>
          let begin = \<not> op_started p \<and> (od_role c \<noteq> [] \<or> od_content c \<noteq> [] \<or> od_tool_calls c \<noteq> [] \<or> od_finish c \<noteq> None);
              start = (if begin then [(event StreamMessageStart)\<lparr>sv_role := nonempty_or (od_role c) ''assistant''\<rparr>] else []);
              text = (if od_content c = [] then [] else [(event StreamTextDelta)\<lparr>sv_text := od_content c\<rparr>]);
              final = (case od_finish c of None \<Rightarrow> [] | Some f \<Rightarrow>
                 if f = [] then [] else [(event StreamMessageEnd)\<lparr>sv_finish_reason := f, sv_usage := ok_usage raw\<rparr>])
          in case openai_tool_events event (od_tool_calls c) (op_seen p) of (tools, seen) \<Rightarrow>
               (start @ text @ tools @ final, p\<lparr>op_started := (op_started p \<or> begin), op_seen := seen\<rparr>))"

fun openai_chunks :: "json list \<Rightarrow> openai_parser \<Rightarrow> stream_event list" where
  "openai_chunks [] p = []"
| "openai_chunks (j # js) p =
     (case dec_struct openai_chunk_in_fields j zero_openai_chunk_in of
        Inl _ \<Rightarrow> openai_chunks js p
      | Inr raw \<Rightarrow> (case openai_chunk raw p of (evs, p') \<Rightarrow> evs @ openai_chunks js p'))"

definition parse_openai_sse :: "(string \<Rightarrow> json option) \<Rightarrow> string list \<Rightarrow> err option \<Rightarrow> stream_event list" where
  "parse_openai_sse parse_json lines scan_err =
     openai_chunks (sse_values parse_json lines) openai_parser_init @ scan_error_event scan_err"

text \<open>The payload of a chunk the OpenAI writer writes; the terminator has none.\<close>

fun sse_json :: "sse \<Rightarrow> json list" where
  "sse_json (Chunk i m delta finish) =
     [JObj [(''id'', JStr i), (''object'', JStr ''chat.completion.chunk''), (''model'', JStr m),
        (''choices'', JArr [JObj [(''index'', JNum 0), (''delta'', delta), (''finish_reason'', finish)]])]]"
| "sse_json (UsageChunk i m p c) =
     [JObj [(''id'', JStr i), (''object'', JStr ''chat.completion.chunk''), (''model'', JStr m), (''choices'', JArr []),
        (''usage'', JObj [(''prompt_tokens'', JNum (of_int p)), (''completion_tokens'', JNum (of_int c)),
           (''total_tokens'', JNum (of_int (i64 (p + c))))])]]"
| "sse_json Done = []"

section \<open>The Gemini writer\<close>

record pending_tool =
  pt_id :: string
  pt_name :: string
  pt_args :: string

record gemini_state =
  gs_out :: "json list"
  gs_tools :: "(int, pending_tool) gomap"
  gs_order :: "int list"
  gs_prompt :: int
  gs_completion :: int

definition gemini_init :: gemini_state where
  "gemini_init = \<lparr>gs_out = [], gs_tools = [], gs_order = [], gs_prompt = 0, gs_completion = 0\<rparr>"

definition gemini_candidate :: "json list \<Rightarrow> string \<Rightarrow> token_usage option \<Rightarrow> json" where
  "gemini_candidate parts finish usage =
     JObj ([(''candidates'', JArr [JObj (
              [(''index'', JNum 0), (''content'', JObj [(''role'', JStr ''model''), (''parts'', JArr parts)])]
              @ opt_member (finish \<noteq> []) ''finishReason'' (JStr (gemini_finish_reason finish)))])]
       @ (case usage of None \<Rightarrow> [] | Some u \<Rightarrow> [(''usageMetadata'', gemini_usage u)]))"

definition write_candidate ::
  "(nat \<Rightarrow> bool) \<Rightarrow> json list \<Rightarrow> string \<Rightarrow> token_usage option \<Rightarrow> gemini_state \<Rightarrow> gemini_state \<times> err option" where
  "write_candidate ok parts finish usage s0 =
     (let s = (case usage of None \<Rightarrow> s0
               | Some u \<Rightarrow> s0\<lparr>gs_prompt := us_prompt u, gs_completion := us_completion u\<rparr>) in
      if ok (length (gs_out s)) then (s\<lparr>gs_out := gs_out s @ [gemini_candidate parts finish usage]\<rparr>, None)
      else (s, Some (Err ErrOther ''write failed'')))"

text \<open>The parts of the tool calls held back, in the order they started.\<close>

definition pending_parts :: "(string \<Rightarrow> json option) \<Rightarrow> gemini_state \<Rightarrow> json list" where
  "pending_parts parse_json s =
     concat (map (\<lambda>i. case gm_get (gs_tools s) i of None \<Rightarrow> []
       | Some t \<Rightarrow> [gemini_function_call parse_json \<lparr>tk_id = pt_id t, tk_name = pt_name t, tk_arguments = pt_args t\<rparr>])
       (gs_order s))"

definition gemini_event ::
  "(string \<Rightarrow> json option) \<Rightarrow> (nat \<Rightarrow> bool) \<Rightarrow> stream_event \<Rightarrow> gemini_state \<Rightarrow> gemini_state \<times> err option" where
  "gemini_event parse_json ok ev s =
     (case sv_kind ev of
        StreamError \<Rightarrow> (s, Some (case sv_err ev of Some e \<Rightarrow> e | None \<Rightarrow> Err ErrOther ''stream error''))
      | StreamTextDelta \<Rightarrow>
          (if sv_text ev = [] then (s, None)
           else write_candidate ok [JObj [(''text'', JStr (sv_text ev))]] [] None s)
      | StreamToolCallStart \<Rightarrow>
          (if gm_get (gs_tools s) (sv_tool_index ev) \<noteq> None then (s, None)
           else (s\<lparr>gs_tools := gm_put (sv_tool_index ev)
                     \<lparr>pt_id = sv_tool_id ev, pt_name = sv_tool_name ev, pt_args = []\<rparr> (gs_tools s),
                   gs_order := gs_order s @ [sv_tool_index ev]\<rparr>, None))
      | StreamToolCallDelta \<Rightarrow>
          (case gm_get (gs_tools s) (sv_tool_index ev) of
             None \<Rightarrow> (s, None)
           | Some t \<Rightarrow> (s\<lparr>gs_tools := gm_put (sv_tool_index ev) (t\<lparr>pt_args := pt_args t @ sv_args_delta ev\<rparr>) (gs_tools s)\<rparr>, None))
      | StreamMessageEnd \<Rightarrow>
          (if gs_order s = [] then write_candidate ok [] (sv_finish_reason ev) (sv_usage ev) s
           else (case write_candidate ok (pending_parts parse_json s) [] None s of
                   (s1, Some e) \<Rightarrow> (s1, Some e)
                 | (s1, None) \<Rightarrow> write_candidate ok [] (sv_finish_reason ev) (sv_usage ev) (s1\<lparr>gs_order := [], gs_tools := []\<rparr>)))
      | _ \<Rightarrow> (s, None))"

fun gemini_events ::
  "(string \<Rightarrow> json option) \<Rightarrow> (nat \<Rightarrow> bool) \<Rightarrow> stream_event list \<Rightarrow> gemini_state \<Rightarrow> gemini_state \<times> err option" where
  "gemini_events parse_json ok [] s = (s, None)"
| "gemini_events parse_json ok (ev # evs) s =
     (case gemini_event parse_json ok ev s of (s', Some e) \<Rightarrow> (s', Some e) | (s', None) \<Rightarrow> gemini_events parse_json ok evs s')"

definition gemini_write_stream ::
  "(string \<Rightarrow> json option) \<Rightarrow> (nat \<Rightarrow> bool) \<Rightarrow> events \<Rightarrow> (json list \<times> int \<times> int \<times> err option) option" where
  "gemini_write_stream parse_json ok evs =
     map_option (\<lambda>evs. case gemini_events parse_json ok evs gemini_init of
        (s, e) \<Rightarrow> (gs_out s, gs_prompt s, gs_completion s, e)) evs"

end
