(* ===== verification/Stream_Laws.thy ===== *)
theory Stream_Laws
  imports Streams
begin

text \<open>
  What the stream writers guarantee: the block structure of the Anthropic stream, the round trip
  between its writer and its parser, and the delivery of tool calls by the Gemini writer.
\<close>

section \<open>Block structure of an Anthropic stream\<close>

text \<open>Where a stream stands: started or not, the next block index, the open block (tool or text).\<close>

type_synonym anth_phase = "bool \<times> int \<times> (bool \<times> int) option"

fun anth_accept :: "anth_sse \<Rightarrow> anth_phase \<Rightarrow> anth_phase option" where
  "anth_accept (MessageStart i m r) (started, next, cur) = (if started then None else Some (True, next, cur))"
| "anth_accept (TextBlockStart n) (started, next, cur) =
     (if started \<and> cur = None \<and> n = next then Some (started, next + 1, Some (False, n)) else None)"
| "anth_accept (ToolBlockStart n i name) (started, next, cur) =
     (if started \<and> cur = None \<and> n = next then Some (started, next + 1, Some (True, n)) else None)"
| "anth_accept (TextBlockDelta n t) (started, next, cur) =
     (if cur = Some (False, n) then Some (started, next, cur) else None)"
| "anth_accept (ToolBlockDelta n a) (started, next, cur) =
     (if cur = Some (True, n) then Some (started, next, cur) else None)"
| "anth_accept (BlockStop n) (started, next, cur) =
     (if \<exists>k\<in>{True, False}. cur = Some (k, n) then Some (started, next, None) else None)"
| "anth_accept (MessageDelta r u) (started, next, cur) = (if cur = None then Some (started, next, cur) else None)"
| "anth_accept MessageStop (started, next, cur) = (if cur = None then Some (started, next, cur) else None)"

fun anth_accepts :: "anth_sse list \<Rightarrow> anth_phase \<Rightarrow> anth_phase option" where
  "anth_accepts [] ph = Some ph"
| "anth_accepts (e # es) ph = Option.bind (anth_accept e ph) (anth_accepts es)"

lemma anth_accepts_snoc: "anth_accepts (es @ [e]) ph = Option.bind (anth_accepts es ph) (anth_accept e)"
  by (induction es arbitrary: ph) (auto split: bind_splits)

definition anth_valid :: "anth_state \<Rightarrow> bool" where
  "anth_valid s \<longleftrightarrow> anth_accepts (as_out s) (False, 0, None) \<noteq> None"

definition open_block :: "anth_state \<Rightarrow> (bool \<times> int) option" where
  "open_block s = (if as_kind s = [] then None else Some (as_kind s = ''tool'', as_index s))"

definition in_phase :: "anth_state \<Rightarrow> bool" where
  "in_phase s \<longleftrightarrow> anth_accepts (as_out s) (False, 0, None) = Some (as_started s, as_next s, open_block s)"

text \<open>A step from a state with \<open>P\<close> ends in one with \<open>Q\<close>, or fails with a valid output.\<close>

definition step_ok :: "(anth_state \<Rightarrow> bool) \<Rightarrow> anth_step \<Rightarrow> (anth_state \<Rightarrow> bool) \<Rightarrow> bool" where
  "step_ok P f Q \<longleftrightarrow>
     (\<forall>s. P s \<longrightarrow> (case f s of (s', None) \<Rightarrow> Q s' | (s', Some e) \<Rightarrow> anth_valid s'))"

lemma step_ok_then: "step_ok P f Q \<Longrightarrow> step_ok Q g R \<Longrightarrow> step_ok P (then_step f g) R"
  unfolding step_ok_def then_step_def by (fastforce split: prod.splits option.splits)

lemma in_phase_valid: "in_phase s \<Longrightarrow> anth_valid s"
  by (simp add: in_phase_def anth_valid_def)

lemma step_okI:
  assumes "\<And>s s'. P s \<Longrightarrow> f s = (s', None) \<Longrightarrow> Q s'" and "\<And>s s' e. P s \<Longrightarrow> f s = (s', Some e) \<Longrightarrow> anth_valid s'"
  shows "step_ok P f Q"
  using assms unfolding step_ok_def by (auto split: prod.splits option.splits)

definition started_phase :: "anth_state \<Rightarrow> bool" where
  "started_phase s \<longleftrightarrow> in_phase s \<and> as_started s"

definition closed_phase :: "anth_state \<Rightarrow> bool" where
  "closed_phase s \<longleftrightarrow> in_phase s \<and> as_started s \<and> as_kind s = []"

lemmas phase_defs = in_phase_def started_phase_def closed_phase_def anth_valid_def open_block_def anth_write_def
  anth_accepts_snoc

lemma ensure_started_ok: "step_ok in_phase (ensure_started ok r) started_phase"
  by (rule step_okI) (auto simp: ensure_started_def phase_defs split: if_splits)

lemma close_cur_ok: "step_ok started_phase (close_cur ok) closed_phase"
  "step_ok in_phase (close_cur ok) (\<lambda>s. in_phase s \<and> as_kind s = [])"
  by (rule step_okI; auto simp: close_cur_def phase_defs split: if_splits)+

lemma open_text_ok: "step_ok closed_phase (open_text ok) (\<lambda>s. started_phase s \<and> as_kind s = ''text'')"
  by (rule step_okI) (auto simp: open_text_def phase_defs split: if_splits)

lemma open_tool_ok: "step_ok closed_phase (open_tool ok ev) started_phase"
  by (rule step_okI) (auto simp: open_tool_def phase_defs split: if_splits)

lemma step_ok_weaken: "step_ok P f Q \<Longrightarrow> (\<And>s. Q s \<Longrightarrow> R s) \<Longrightarrow> step_ok P f R"
  unfolding step_ok_def by (fastforce split: prod.splits option.splits)

lemma step_ok_at: "step_ok P f Q \<Longrightarrow> P s \<Longrightarrow> case f s of (s', None) \<Rightarrow> Q s' | (s', Some e) \<Rightarrow> anth_valid s'"
  by (simp add: step_ok_def)

lemma text_block_ok:
  "step_ok started_phase (\<lambda>s. if as_kind s \<noteq> ''text'' then then_step (close_cur ok) (open_text ok) s else (s, None))
     (\<lambda>s. started_phase s \<and> as_kind s = ''text'')"
  using step_ok_then [OF close_cur_ok(1) open_text_ok] unfolding step_ok_def by auto

lemma text_delta_ok:
  "step_ok (\<lambda>s. started_phase s \<and> as_kind s = ''text'')
     (\<lambda>s. if t = [] then (s, None) else anth_write ok (TextBlockDelta (as_index s) t) s) in_phase"
  by (rule step_okI) (auto simp: phase_defs split: if_splits)

lemma message_end_ok:
  "step_ok (\<lambda>s. in_phase s \<and> as_kind s = [])
     (then_step (\<lambda>s. anth_write ok (MessageDelta r u) (case u of None \<Rightarrow> s
          | Some u \<Rightarrow> s\<lparr>as_prompt := us_prompt u, as_completion := us_completion u\<rparr>)) (anth_write ok MessageStop)) in_phase"
  by (rule step_ok_then [where Q = "\<lambda>s. in_phase s \<and> as_kind s = []"]; rule step_okI)
    (auto simp: phase_defs split: if_splits option.splits)

lemma in_phase_ids: "in_phase (s\<lparr>as_id := i, as_model := m\<rparr>) = in_phase s"
  by (simp add: in_phase_def open_block_def)

lemma anth_event_ok: "step_ok in_phase (anth_event ok ev) in_phase"
proof (cases "sv_kind ev")
  case StreamMessageStart
  then show ?thesis
    using step_ok_weaken [OF ensure_started_ok [of ok "sv_role ev"], of in_phase]
    unfolding step_ok_def by (simp add: anth_event_def started_phase_def in_phase_ids)
next
  case StreamTextDelta
  have "step_ok in_phase (anth_event ok ev) in_phase \<longleftrightarrow> step_ok in_phase (then_step (ensure_started ok [])
          (then_step (\<lambda>s. if as_kind s \<noteq> ''text'' then then_step (close_cur ok) (open_text ok) s else (s, None))
            (\<lambda>s. if sv_text ev = [] then (s, None) else anth_write ok (TextBlockDelta (as_index s) (sv_text ev)) s))) in_phase"
    by (simp add: step_ok_def anth_event_def StreamTextDelta)
  then show ?thesis
    using step_ok_then [OF ensure_started_ok step_ok_then [OF text_block_ok text_delta_ok]] by simp
next
  case StreamToolCallStart
  then show ?thesis
    using step_ok_then [OF ensure_started_ok [of ok "[]"] step_ok_then [OF close_cur_ok(1) open_tool_ok [of ok ev]]]
      step_ok_weaken [of in_phase _ started_phase in_phase]
    unfolding step_ok_def by (auto simp: anth_event_def started_phase_def split: prod.splits option.splits)
next
  case StreamToolCallDelta
  then show ?thesis
    by (intro step_okI) (auto simp: anth_event_def phase_defs split: if_splits)
next
  case StreamMessageEnd
  then show ?thesis
    using step_ok_then [OF close_cur_ok(2) message_end_ok] unfolding step_ok_def by (simp add: anth_event_def)
next
  case StreamError
  then show ?thesis by (intro step_okI) (auto simp: anth_event_def in_phase_valid)
next
  case (StreamOther k)
  then show ?thesis by (intro step_okI) (auto simp: anth_event_def)
qed

lemma anth_events_ok: "step_ok in_phase (anth_events ok evs) in_phase"
proof (induction evs)
  case Nil
  show ?case by (intro step_okI) auto
next
  case (Cons ev evs)
  have "anth_events ok (ev # evs) = then_step (anth_event ok ev) (anth_events ok evs)" by (rule ext) simp
  then show ?case using step_ok_then [OF anth_event_ok Cons] by simp
qed


section \<open>Parsing what was written\<close>

text \<open>The events an upstream message is made of, after its start: texts, and tool calls with their arguments.\<close>

definition text_event :: "string \<Rightarrow> string \<Rightarrow> string \<Rightarrow> stream_event" where
  "text_event i m t = (stream_event_of StreamTextDelta i m)\<lparr>sv_text := t\<rparr>"

definition tool_event :: "string \<Rightarrow> string \<Rightarrow> int \<Rightarrow> string \<Rightarrow> string \<Rightarrow> stream_event" where
  "tool_event i m n tid name =
     (stream_event_of StreamToolCallStart i m)\<lparr>sv_tool_index := n, sv_tool_id := tid, sv_tool_name := name\<rparr>"

definition args_event :: "string \<Rightarrow> string \<Rightarrow> int \<Rightarrow> string \<Rightarrow> stream_event" where
  "args_event i m n a = (stream_event_of StreamToolCallDelta i m)\<lparr>sv_tool_index := n, sv_args_delta := a\<rparr>"

definition start_event :: "string \<Rightarrow> string \<Rightarrow> string \<Rightarrow> stream_event" where
  "start_event i m r = (stream_event_of StreamMessageStart i m)\<lparr>sv_role := r\<rparr>"

definition end_event :: "string \<Rightarrow> string \<Rightarrow> string \<Rightarrow> token_usage option \<Rightarrow> stream_event" where
  "end_event i m f u = (stream_event_of StreamMessageEnd i m)\<lparr>sv_finish_reason := f, sv_usage := u\<rparr>"

lemmas event_defs = text_event_def tool_event_def args_event_def start_event_def end_event_def stream_event_of_def

text \<open>Tool calls are numbered in order and their arguments follow them.\<close>

fun message_body :: "string \<Rightarrow> string \<Rightarrow> int \<Rightarrow> bool \<Rightarrow> stream_event list \<Rightarrow> bool" where
  "message_body i m n in_tool [] \<longleftrightarrow> True"
| "message_body i m n in_tool (ev # evs) \<longleftrightarrow>
     (if sv_kind ev = StreamTextDelta then
        ev = text_event i m (sv_text ev) \<and> sv_text ev \<noteq> [] \<and> message_body i m n False evs
      else if sv_kind ev = StreamToolCallStart then
        ev = tool_event i m n (sv_tool_id ev) (sv_tool_name ev) \<and> message_body i m (n + 1) True evs
      else
        ev = args_event i m (n - 1) (sv_args_delta ev) \<and> sv_args_delta ev \<noteq> [] \<and> in_tool \<and> message_body i m n True evs)"

text \<open>Parsing with the state at the end.\<close>

fun anth_parse_run :: "json list \<Rightarrow> anth_parser \<Rightarrow> stream_event list \<times> anth_parser" where
  "anth_parse_run [] p = ([], p)"
| "anth_parse_run (j # js) p =
     (case anth_parse j p of (e, p1) \<Rightarrow> case anth_parse_run js p1 of (es, p2) \<Rightarrow> (e @ es, p2))"

lemma anth_parse_all_run: "anth_parse_all js p = fst (anth_parse_run js p)"
  by (induction js arbitrary: p) (auto split: prod.splits)

lemma anth_parse_run_append:
  "anth_parse_run (xs @ ys) p =
     (case anth_parse_run xs p of (e1, p1) \<Rightarrow> case anth_parse_run ys p1 of (e2, p2) \<Rightarrow> (e1 @ e2, p2))"
  by (induction xs arbitrary: p) (auto split: prod.splits)

definition payloads :: "anth_sse list \<Rightarrow> json list" where
  "payloads out = map (\<lambda>e. snd (anth_payload e)) out"

text \<open>Writer and parser in step: the parser has read what was written and knows the open tool call.\<close>

definition in_step :: "string \<Rightarrow> string \<Rightarrow> int \<Rightarrow> bool \<Rightarrow> anth_state \<Rightarrow> anth_parser \<Rightarrow> bool" where
  "in_step i m n in_tool s p \<longleftrightarrow>
     as_started s \<and> ap_id p = i \<and> ap_model p = m \<and> ap_next p = n \<and>
     (in_tool \<longrightarrow> as_kind s = ''tool'' \<and> as_tool_ir s = n - 1 \<and> gm_get (ap_ordinals p) (as_index s) = Some (n - 1))"

text \<open>A step writes \<open>new\<close>, which the parser turns into \<open>evs\<close>.\<close>

definition carries ::
  "anth_step \<Rightarrow> anth_state \<Rightarrow> anth_parser \<Rightarrow> stream_event list \<Rightarrow> anth_state \<Rightarrow> anth_parser \<Rightarrow> bool" where
  "carries f s p evs s' p' \<longleftrightarrow>
     f s = (s', None) \<and> (\<exists>new. as_out s' = as_out s @ new \<and> anth_parse_run (payloads new) p = (evs, p'))"

lemma carries_then:
  "carries f s p e1 s1 p1 \<Longrightarrow> carries g s1 p1 e2 s2 p2 \<Longrightarrow> carries (then_step f g) s p (e1 @ e2) s2 p2"
  unfolding carries_def then_step_def payloads_def by (fastforce simp: anth_parse_run_append)

lemma carries_skip: "carries (\<lambda>s. (s, None)) s p [] s p"
  unfolding carries_def payloads_def by simp

lemmas payload_parse_simps = payloads_def anth_parse_def anthropic_block_index_def jget_def int_from_json_def nonempty_or_def Let_def

lemma anth_event_simps:
  "anth_event ok (text_event i m t) = then_step (ensure_started ok [])
     (then_step (\<lambda>s. if as_kind s \<noteq> ''text'' then then_step (close_cur ok) (open_text ok) s else (s, None))
        (\<lambda>s. if t = [] then (s, None) else anth_write ok (TextBlockDelta (as_index s) t) s))"
  "anth_event ok (tool_event i m n tid name) = then_step (ensure_started ok [])
     (then_step (close_cur ok) (open_tool ok (tool_event i m n tid name)))"
  by (rule ext, simp add: anth_event_def event_defs cong: if_cong)+

lemma carries_close: "\<exists>s'. carries (close_cur (\<lambda>_. True)) s p [] s' p \<and> as_kind s' = [] \<and> as_started s' = as_started s \<and>
    as_next s' = as_next s"
  by (auto simp: carries_def close_cur_def anth_write_def payload_parse_simps)

lemma carries_text:
  assumes "in_step i m n b s p" and "t \<noteq> []"
  shows "\<exists>s'. carries (anth_event (\<lambda>_. True) (text_event i m t)) s p [text_event i m t] s' p \<and> in_step i m n False s' p"
proof -
  obtain s1 where s1: "carries (close_cur (\<lambda>_. True)) s p [] s1 p" "as_started s1 = as_started s"
    using carries_close by blast
  have started: "as_started s" using assms(1) by (simp add: in_step_def)
  have e: "carries (ensure_started (\<lambda>_. True) []) s p [] s p"
    using started by (simp add: carries_def ensure_started_def payloads_def)
  have o: "\<exists>s2. carries (open_text (\<lambda>_. True)) s1 p [] s2 p \<and> as_started s2 = as_started s1"
    by (auto simp: carries_def open_text_def anth_write_def payload_parse_simps)
  have "\<exists>s2. carries (\<lambda>s. if as_kind s \<noteq> ''text'' then then_step (close_cur (\<lambda>_. True)) (open_text (\<lambda>_. True)) s else (s, None))
      s p [] s2 p \<and> as_started s2"
  proof (cases "as_kind s = ''text''")
    case True
    with started show ?thesis by (auto simp: carries_def payloads_def)
  next
    case False
    obtain s2 where s2: "carries (open_text (\<lambda>_. True)) s1 p [] s2 p" "as_started s2 = as_started s1" using o by blast
    from carries_then [OF s1(1) s2(1)] s2(2) s1(2) started False show ?thesis by (auto simp: carries_def)
  qed
  then obtain s2 where s2: "carries (\<lambda>s. if as_kind s \<noteq> ''text'' then then_step (close_cur (\<lambda>_. True)) (open_text (\<lambda>_. True)) s else (s, None))
      s p [] s2 p" "as_started s2" by blast
  have d: "carries (\<lambda>s. if t = [] then (s, None) else anth_write (\<lambda>_. True) (TextBlockDelta (as_index s) t) s) s2 p
      [text_event i m t] (s2\<lparr>as_out := as_out s2 @ [TextBlockDelta (as_index s2) t]\<rparr>) p"
    using assms by (simp add: carries_def anth_write_def payload_parse_simps in_step_def event_defs)
  from carries_then [OF e carries_then [OF s2(1) d]] s2(2) assms(1) show ?thesis
    unfolding anth_event_simps
    by (intro exI [of _ "s2\<lparr>as_out := as_out s2 @ [TextBlockDelta (as_index s2) t]\<rparr>"]) (simp add: in_step_def)
qed

lemma carries_tool:
  assumes "in_step i m n b s p"
  shows "\<exists>s' p'. carries (anth_event (\<lambda>_. True) (tool_event i m n tid name)) s p [tool_event i m n tid name] s' p' \<and>
    in_step i m (n + 1) True s' p'"
proof -
  obtain s1 where s1: "carries (close_cur (\<lambda>_. True)) s p [] s1 p" "as_started s1 = as_started s"
    using carries_close by blast
  have started: "as_started s" using assms(1) by (simp add: in_step_def)
  have e: "carries (ensure_started (\<lambda>_. True) []) s p [] s p"
    using started by (simp add: carries_def ensure_started_def payloads_def)
  let ?ev = "tool_event i m n tid name"
  let ?s2 = "s1\<lparr>as_kind := ''tool'', as_tool_ir := n, as_index := as_next s1, as_next := as_next s1 + 1,
      as_out := as_out s1 @ [ToolBlockStart (as_next s1) tid name]\<rparr>"
  let ?p2 = "p\<lparr>ap_ordinals := gm_put (as_next s1) n (ap_ordinals p), ap_next := n + 1\<rparr>"
  have o: "carries (open_tool (\<lambda>_. True) ?ev) s1 p [?ev] ?s2 ?p2"
    using assms by (simp add: carries_def open_tool_def anth_write_def payload_parse_simps in_step_def event_defs)
  from carries_then [OF e carries_then [OF s1(1) o]] s1(2) started assms show ?thesis
    unfolding anth_event_simps by (intro exI [of _ ?s2] exI [of _ ?p2]) (simp add: in_step_def)
qed

lemma carries_args:
  assumes "in_step i m n True s p" and "a \<noteq> []"
  shows "\<exists>s'. carries (anth_event (\<lambda>_. True) (args_event i m (n - 1) a)) s p [args_event i m (n - 1) a] s' p \<and>
    in_step i m n True s' p"
  using assms
  by (intro exI [of _ "s\<lparr>as_out := as_out s @ [ToolBlockDelta (as_index s) a]\<rparr>"])
    (simp add: carries_def anth_event_def anth_write_def payload_parse_simps in_step_def event_defs)

lemma carries_body:
  assumes "message_body i m n b body" and "in_step i m n b s p"
  shows "\<exists>s' p' n' b'. carries (anth_events (\<lambda>_. True) body) s p body s' p' \<and> in_step i m n' b' s' p'"
  using assms
proof (induction body arbitrary: n b s p)
  case Nil
  then show ?case using carries_skip by (auto simp: carries_def payloads_def)
next
  case (Cons ev evs)
  obtain s1 p1 n1 b1 where c: "carries (anth_event (\<lambda>_. True) ev) s p [ev] s1 p1" "in_step i m n1 b1 s1 p1"
    "message_body i m n1 b1 evs"
  proof (cases "sv_kind ev = StreamTextDelta")
    case True
    with Cons.prems carries_text [OF Cons.prems(2), of "sv_text ev"] that show thesis by auto
  next
    case nt: False
    show thesis
    proof (cases "sv_kind ev = StreamToolCallStart")
      case True
      with nt Cons.prems carries_tool [OF Cons.prems(2), of "sv_tool_id ev" "sv_tool_name ev"] that show thesis by auto
    next
      case False
      with nt Cons.prems carries_args [of i m n s p "sv_args_delta ev"] that show thesis by auto
    qed
  qed
  from Cons.IH [OF c(3,2)] obtain s2 p2 n2 b2 where
    "carries (anth_events (\<lambda>_. True) evs) s1 p1 evs s2 p2" "in_step i m n2 b2 s2 p2" by blast
  with carries_then [OF c(1) this(1)] show ?case by (auto simp: carries_def)
qed

lemma carries_start:
  assumes "i \<noteq> []" and "m \<noteq> []" and "r \<noteq> []"
  shows "\<exists>s' p'. carries (anth_event (\<lambda>_. True) (start_event i m r)) anth_init anth_parser_init [start_event i m r] s' p' \<and>
    in_step i m 0 False s' p'"
  using assms
  by (intro exI [of _ "anth_init\<lparr>as_id := i, as_model := m, as_started := True, as_out := [MessageStart i m r]\<rparr>"]
      exI [of _ "anth_parser_init\<lparr>ap_id := i, ap_model := m\<rparr>"])
    (simp add: carries_def anth_event_def ensure_started_def anth_write_def anth_init_def anth_parser_init_def payload_parse_simps
      in_step_def event_defs)

definition end_reason :: "string \<Rightarrow> bool" where
  "end_reason f \<longleftrightarrow> f \<notin> {[], ''max_tokens'', ''tool_use'', ''end_turn'', ''stop_sequence''}"

lemma carries_end:
  assumes "in_step i m n b s p" and "end_reason f"
  shows "\<exists>s'. carries (anth_event (\<lambda>_. True) (end_event i m f u)) s p [end_event i m f u] s' p \<and>
    (\<forall>w. u = Some w \<longrightarrow> as_prompt s' = us_prompt w \<and> as_completion s' = us_completion w)"
proof -
  obtain s1 where s1: "carries (close_cur (\<lambda>_. True)) s p [] s1 p" using carries_close by blast
  have f: "map_anthropic_stop_reason (map_finish_to_anthropic f) = f" "f \<noteq> []"
    using assms(2) finish_reason_back by (auto simp: end_reason_def)
  let ?s2 = "case u of None \<Rightarrow> s1 | Some w \<Rightarrow> s1\<lparr>as_prompt := us_prompt w, as_completion := us_completion w\<rparr>"
  let ?d = "MessageDelta (map_finish_to_anthropic f) u"
  let ?s3 = "?s2\<lparr>as_out := as_out s1 @ [?d, MessageStop]\<rparr>"
  have d: "carries (then_step (\<lambda>s. anth_write (\<lambda>_. True) ?d (case u of None \<Rightarrow> s
          | Some w \<Rightarrow> s\<lparr>as_prompt := us_prompt w, as_completion := us_completion w\<rparr>)) (anth_write (\<lambda>_. True) MessageStop))
      s1 p [end_event i m f u] ?s3 p"
    using assms(1) f
    by (cases u) (simp_all add: carries_def then_step_def anth_write_def payload_parse_simps in_step_def event_defs)
  have "anth_event (\<lambda>_. True) (end_event i m f u) = then_step (close_cur (\<lambda>_. True)) (then_step
      (\<lambda>s. anth_write (\<lambda>_. True) ?d (case u of None \<Rightarrow> s
          | Some w \<Rightarrow> s\<lparr>as_prompt := us_prompt w, as_completion := us_completion w\<rparr>)) (anth_write (\<lambda>_. True) MessageStop))"
    using f(2) by (intro ext) (simp add: anth_event_def event_defs cong: if_cong)
  with carries_then [OF s1 d] show ?thesis by (intro exI [of _ ?s3]) (auto split: option.splits)
qed

lemma anth_events_append: "anth_events ok (xs @ ys) s = then_step (anth_events ok xs) (anth_events ok ys) s"
  by (induction xs arbitrary: s) (auto simp: then_step_def split: prod.splits option.splits)

text \<open>
  C23: Streams round-trip through the Anthropic dialect: parsing what the writer writes for a message
  (a start, texts, tool calls with their argument fragments in any number, an end) gives back exactly
  the same events, so a chain of gateways neither loses nor alters anything; the call reports the
  tokens of the end.
\<close>

theorem anthropic_stream_roundtrip:
  assumes "i \<noteq> []" and "m \<noteq> []" and "r \<noteq> []" and "message_body i m 0 False body" and "end_reason f"
  shows "\<exists>out. anthropic_write_stream (\<lambda>_. True) (Some (start_event i m r # body @ [end_event i m f (Some u)])) =
      Some (out, us_prompt u, us_completion u, None) \<and>
    anth_parse_all (payloads out) anth_parser_init = start_event i m r # body @ [end_event i m f (Some u)]"
proof -
  let ?evs = "start_event i m r # body @ [end_event i m f (Some u)]"
  obtain s1 p1 where c1: "carries (anth_event (\<lambda>_. True) (start_event i m r)) anth_init anth_parser_init [start_event i m r] s1 p1"
    "in_step i m 0 False s1 p1" using carries_start [OF assms(1-3)] by blast
  obtain s2 p2 n2 b2 where c2: "carries (anth_events (\<lambda>_. True) body) s1 p1 body s2 p2" "in_step i m n2 b2 s2 p2"
    using carries_body [OF assms(4) c1(2)] by blast
  obtain s3 where c3: "carries (anth_event (\<lambda>_. True) (end_event i m f (Some u))) s2 p2 [end_event i m f (Some u)] s3 p2"
    "as_prompt s3 = us_prompt u" "as_completion s3 = us_completion u" using carries_end [OF c2(2) assms(5), of "Some u"] by auto
  have fn: "anth_events (\<lambda>_. True) ?evs = then_step (anth_event (\<lambda>_. True) (start_event i m r))
      (then_step (anth_events (\<lambda>_. True) body) (anth_event (\<lambda>_. True) (end_event i m f (Some u))))"
    by (rule ext) (auto simp: anth_events_append then_step_def split: prod.splits option.splits)
  have "carries (anth_events (\<lambda>_. True) ?evs) anth_init anth_parser_init ?evs s3 p2"
    using carries_then [OF c1(1) carries_then [OF c2(1) c3(1)]] unfolding fn by simp
  then show ?thesis using c3(2,3)
    by (auto simp: carries_def anthropic_write_stream_def anth_parse_all_run anth_init_def)
qed

theorem anthropic_stream_roundtrip_witness:
  "\<exists>out. anth_parse_all (payloads out) anth_parser_init =
     start_event ''i'' ''m'' ''assistant'' # [text_event ''i'' ''m'' ''hi'', tool_event ''i'' ''m'' 0 ''c'' ''f'',
       args_event ''i'' ''m'' 0 ''{}''] @ [end_event ''i'' ''m'' ''tool_calls'' (Some \<lparr>us_prompt = 3, us_completion = 4\<rparr>)]"
proof -
  have "message_body ''i'' ''m'' 0 False
      [text_event ''i'' ''m'' ''hi'', tool_event ''i'' ''m'' 0 ''c'' ''f'', args_event ''i'' ''m'' 0 ''{}'']"
    by (simp add: event_defs)
  moreover have "end_reason ''tool_calls''" by (simp add: end_reason_def)
  ultimately show ?thesis
    using anthropic_stream_roundtrip [of "''i''" "''m''" "''assistant''" _ "''tool_calls''" "\<lparr>us_prompt = 3, us_completion = 4\<rparr>"]
    by blast
qed

section \<open>An OpenAI stream for an Anthropic client\<close>

text \<open>The stops of an Anthropic stream: its stop reasons, in order.\<close>

fun stop_reasons :: "anth_sse list \<Rightarrow> string list" where
  "stop_reasons [] = []"
| "stop_reasons (MessageDelta r u # es) = r # stop_reasons es"
| "stop_reasons (_ # es) = stop_reasons es"

lemma dec_chunk:
  "dec_struct openai_chunk_in_fields (JObj [(''id'', JStr i), (''object'', JStr ''chat.completion.chunk''), (''model'', JStr m),
      (''choices'', JArr [JObj [(''index'', JNum 0), (''delta'', JObj [(''content'', JStr t)]), (''finish_reason'', JNull)]])])
     zero_openai_chunk_in =
   Inr \<lparr>ok_id = i, ok_model = m, ok_choices = [zero_openai_delta_in\<lparr>od_content := t\<rparr>], ok_usage = None\<rparr>"
  "dec_struct openai_chunk_in_fields (JObj [(''id'', JStr i), (''object'', JStr ''chat.completion.chunk''), (''model'', JStr m),
      (''choices'', JArr [JObj [(''index'', JNum 0), (''delta'', JObj []), (''finish_reason'', JStr f)]])])
     zero_openai_chunk_in =
   Inr \<lparr>ok_id = i, ok_model = m, ok_choices = [zero_openai_delta_in\<lparr>od_finish := Some f\<rparr>], ok_usage = None\<rparr>"
  "int64_ok p \<Longrightarrow> int64_ok c \<Longrightarrow> dec_struct openai_chunk_in_fields (JObj [(''id'', JStr i), (''object'', JStr ''chat.completion.chunk''),
      (''model'', JStr m), (''choices'', JArr []), (''usage'', JObj [(''prompt_tokens'', JNum (of_int p)),
        (''completion_tokens'', JNum (of_int c)), (''total_tokens'', JNum (of_int (i64 (p + c))))])])
     zero_openai_chunk_in =
   Inr \<lparr>ok_id = i, ok_model = m, ok_choices = [], ok_usage = Some \<lparr>us_prompt = p, us_completion = c\<rparr>\<rparr>"
  by (simp_all add: openai_chunk_in_fields_def openai_delta_in_fields_def field_for_def field_def zero_openai_chunk_in_def
      zero_openai_delta_in_def dec_ptr_def int64_ok_def)

lemma openai_events_of_answer:
  assumes "i \<noteq> []" and "m \<noteq> []" and "t \<noteq> []" and "f \<noteq> []" and "0 < p" and "int64_ok p" and "int64_ok c"
  shows "openai_chunks (sse_json (Chunk i m (JObj [(''content'', JStr t)]) JNull) @ sse_json (Chunk i m (JObj []) (JStr f))
          @ sse_json (UsageChunk i m p c)) openai_parser_init =
    [start_event i m ''assistant'', text_event i m t, end_event i m f None,
     end_event i m [] (Some \<lparr>us_prompt = p, us_completion = c\<rparr>)]"
  using assms
  by (simp add: dec_chunk openai_chunk_def zero_openai_delta_in_def openai_parser_init_def nonempty_or_def event_defs Let_def
      del: dec_struct_simps)

text \<open>
  A message streamed from an OpenAI upstream ends twice for an Anthropic client. The gateway
  asks the upstream for a usage report, which arrives in a chunk of its own after the one with the
  finish reason; the parser makes a message end of each, and the Anthropic writer closes the message
  for each: the client sees the real stop reason followed by a second end, whose reason is always
  \<^verbatim>\<open>end_turn\<close>.
\<close>

theorem openai_stream_ends_anthropic_twice:
  assumes "i \<noteq> []" and "m \<noteq> []" and "t \<noteq> []" and "f \<noteq> []" and "0 < p" and "int64_ok p" and "int64_ok c"
  shows "\<exists>out. anthropic_write_stream (\<lambda>_. True)
       (Some (openai_chunks (sse_json (Chunk i m (JObj [(''content'', JStr t)]) JNull) @ sse_json (Chunk i m (JObj []) (JStr f))
          @ sse_json (UsageChunk i m p c)) openai_parser_init)) = Some (out, p, c, None) \<and>
     stop_reasons out = [map_finish_to_anthropic f, ''end_turn'']"
  unfolding openai_events_of_answer [OF assms]
  using assms(4)
  by (simp add: anthropic_write_stream_def anth_event_def event_defs then_step_def ensure_started_def anth_write_def close_cur_def
      open_text_def anth_init_def map_finish_to_anthropic_def)

theorem openai_stream_ends_anthropic_twice_witness:
  "\<exists>out. anthropic_write_stream (\<lambda>_. True)
       (Some (openai_chunks (sse_json (Chunk ''i'' ''m'' (JObj [(''content'', JStr ''x'')]) JNull)
          @ sse_json (Chunk ''i'' ''m'' (JObj []) (JStr ''length'')) @ sse_json (UsageChunk ''i'' ''m'' 3 4)) openai_parser_init)) =
       Some (out, 3, 4, None) \<and> stop_reasons out = [''max_tokens'', ''end_turn'']"
  using openai_stream_ends_anthropic_twice [of "''i''" "''m''" "''x''" "''length''" 3 4]
  by (simp add: int64_ok_def map_finish_to_anthropic_def del: sse_json.simps)

section \<open>Tool calls of a Gemini stream\<close>

text \<open>What the writer holds back for a tool: identifier, name and arguments so far, in order of start.\<close>

definition held :: "gemini_state \<Rightarrow> (int \<times> pending_tool) list" where
  "held s = concat (map (\<lambda>i. case gm_get (gs_tools s) i of None \<Rightarrow> [] | Some t \<Rightarrow> [(i, t)]) (gs_order s))"

text \<open>The calls of a stream: the first start of an index opens it, its fragments are appended.\<close>

fun collect_call :: "stream_event \<Rightarrow> (int \<times> pending_tool) list \<Rightarrow> (int \<times> pending_tool) list" where
  "collect_call ev calls =
     (if sv_kind ev = StreamToolCallStart then
        (if sv_tool_index ev \<in> fst ` set calls then calls
         else calls @ [(sv_tool_index ev, \<lparr>pt_id = sv_tool_id ev, pt_name = sv_tool_name ev, pt_args = []\<rparr>)])
      else if sv_kind ev = StreamToolCallDelta then
        map (\<lambda>(i, t). (i, if i = sv_tool_index ev then t\<lparr>pt_args := pt_args t @ sv_args_delta ev\<rparr> else t)) calls
      else calls)"

definition call_part :: "(string \<Rightarrow> json option) \<Rightarrow> int \<times> pending_tool \<Rightarrow> json" where
  "call_part parse_json c = gemini_function_call parse_json
     \<lparr>tk_id = pt_id (snd c), tk_name = pt_name (snd c), tk_arguments = pt_args (snd c)\<rparr>"

text \<open>The writer's map and order agree.\<close>

definition tools_wf :: "gemini_state \<Rightarrow> bool" where
  "tools_wf s \<longleftrightarrow> distinct (gs_order s) \<and> (\<forall>i. gm_get (gs_tools s) i \<noteq> None \<longleftrightarrow> i \<in> set (gs_order s))"

lemma concat_lookup_fst:
  "\<forall>i\<in>set xs. gm_get tools i \<noteq> None \<Longrightarrow>
   map fst (concat (map (\<lambda>i. case gm_get tools i of None \<Rightarrow> [] | Some t \<Rightarrow> [(i, t)]) xs)) = xs"
  by (induction xs) auto

lemma held_indices: "tools_wf s \<Longrightarrow> map fst (held s) = gs_order s"
  unfolding held_def by (rule concat_lookup_fst) (simp add: tools_wf_def)

lemma held_set: "tools_wf s \<Longrightarrow> fst ` set (held s) = set (gs_order s)"
  using arg_cong [OF held_indices, of s set] by simp

lemma held_member: "tools_wf s \<Longrightarrow> i \<in> set (gs_order s) \<longleftrightarrow> gm_get (gs_tools s) i \<noteq> None"
  unfolding tools_wf_def by blast

lemma pending_parts_held: "pending_parts parse_json s = map (call_part parse_json) (held s)"
  unfolding pending_parts_def held_def call_part_def
  by (induction "gs_order s" arbitrary: s) (simp_all add: map_concat comp_def option.case_distrib cong: option.case_cong)

lemma held_start:
  assumes "tools_wf s" and "gm_get (gs_tools s) i = None"
  shows "held (s\<lparr>gs_tools := gm_put i t (gs_tools s), gs_order := gs_order s @ [i]\<rparr>) = held s @ [(i, t)]"
proof -
  have "i \<notin> set (gs_order s)" using assms(2) held_member [OF assms(1)] by simp
  then have ne: "x \<noteq> i" if "x \<in> set (gs_order s)" for x using that by blast
  show ?thesis unfolding held_def using ne by (auto intro!: arg_cong [where f = concat] split: option.splits)
qed

lemma held_update:
  "held (s\<lparr>gs_tools := gm_put i (f t) (gs_tools s)\<rparr>) = map (\<lambda>(j, u). (j, if j = i then f u else u)) (held s)"
  if "gm_get (gs_tools s) i = Some t"
  using that unfolding held_def
  by (induction "gs_order s" arbitrary: s) (auto simp: map_concat comp_def intro!: arg_cong [where f = concat] split: option.splits)

text \<open>The text chunks of the events before the end.\<close>

definition text_candidates :: "stream_event list \<Rightarrow> json list" where
  "text_candidates evs =
     concat (map (\<lambda>ev. if sv_kind ev = StreamTextDelta \<and> sv_text ev \<noteq> []
        then [gemini_candidate [JObj [(''text'', JStr (sv_text ev))]] [] None] else []) evs)"

definition before_end :: "stream_event \<Rightarrow> bool" where
  "before_end ev \<longleftrightarrow> sv_kind ev \<noteq> StreamMessageEnd \<and> sv_kind ev \<noteq> StreamError"

lemma gemini_event_before_end:
  assumes "before_end ev" and "tools_wf s"
  shows "\<exists>s'. gemini_event parse_json (\<lambda>_. True) ev s = (s', None) \<and> tools_wf s' \<and> held s' = collect_call ev (held s) \<and>
    gs_out s' = gs_out s @ text_candidates [ev]"
proof (cases "sv_kind ev")
  case StreamToolCallStart
  show ?thesis
  proof (cases "gm_get (gs_tools s) (sv_tool_index ev)")
    case None
    then have "sv_tool_index ev \<notin> fst ` set (held s)" using held_set [OF assms(2)] held_member [OF assms(2)] by simp
    moreover have "sv_tool_index ev \<notin> set (gs_order s)" using None held_member [OF assms(2)] by simp
    ultimately show ?thesis using None StreamToolCallStart assms(2) held_start [OF assms(2) None]
      by (auto simp: gemini_event_def text_candidates_def tools_wf_def)
  next
    case (Some t)
    then have "sv_tool_index ev \<in> fst ` set (held s)" using held_set [OF assms(2)] held_member [OF assms(2)] by simp
    with Some StreamToolCallStart assms(2) show ?thesis by (simp add: gemini_event_def text_candidates_def)
  qed
next
  case StreamToolCallDelta
  show ?thesis
  proof (cases "gm_get (gs_tools s) (sv_tool_index ev)")
    case None
    then have "sv_tool_index ev \<notin> fst ` set (held s)" using held_set [OF assms(2)] held_member [OF assms(2)] by simp
    then have "map (\<lambda>(i, t). (i, if i = sv_tool_index ev then t\<lparr>pt_args := pt_args t @ sv_args_delta ev\<rparr> else t)) (held s) = held s"
      by (intro map_idI) (force simp: image_iff)
    with None StreamToolCallDelta assms(2) show ?thesis by (simp add: gemini_event_def text_candidates_def)
  next
    case (Some t)
    with StreamToolCallDelta assms(2) held_update [OF Some, of "\<lambda>t. t\<lparr>pt_args := pt_args t @ sv_args_delta ev\<rparr>"] show ?thesis
      by (auto simp: gemini_event_def text_candidates_def tools_wf_def)
  qed
next
  case StreamTextDelta
  with assms show ?thesis
    by (auto simp: gemini_event_def text_candidates_def write_candidate_def tools_wf_def held_def)
qed (use assms in \<open>auto simp: gemini_event_def text_candidates_def before_end_def\<close>)

lemma gemini_events_before_end:
  assumes "list_all before_end evs" and "tools_wf s"
  shows "\<exists>s'. gemini_events parse_json (\<lambda>_. True) evs s = (s', None) \<and> tools_wf s' \<and> held s' = fold collect_call evs (held s) \<and>
    gs_out s' = gs_out s @ text_candidates evs"
  using assms
proof (induction evs arbitrary: s)
  case Nil
  then show ?case by (simp add: text_candidates_def)
next
  case (Cons ev evs)
  obtain s1 where s1: "gemini_event parse_json (\<lambda>_. True) ev s = (s1, None)" "tools_wf s1" "held s1 = collect_call ev (held s)"
    "gs_out s1 = gs_out s @ text_candidates [ev]" using gemini_event_before_end [of ev s parse_json] Cons.prems by auto
  with Cons.IH [OF _ s1(2)] Cons.prems(1) show ?case by (auto simp: text_candidates_def simp del: collect_call.simps)
qed

lemma gemini_events_append:
  "gemini_events parse_json ok (xs @ ys) s =
     (case gemini_events parse_json ok xs s of (s', Some e) \<Rightarrow> (s', Some e) | (s', None) \<Rightarrow> gemini_events parse_json ok ys s')"
  by (induction xs arbitrary: s) (auto split: prod.splits option.splits)

text \<open>
  A Gemini client receives every tool call of a message exactly once, complete and in order:
  the texts are sent as they come, and at the end one chunk carries all calls, each with the
  identifier and the name of its start and the concatenation of all its argument fragments, however
  the fragments of different calls interleave; the last chunk has the finish reason and the tokens.
\<close>

theorem gemini_stream_delivers_tool_calls:
  assumes "list_all before_end evs" and "sv_kind e = StreamMessageEnd"
  shows "\<exists>prompt completion. gemini_write_stream parse_json (\<lambda>_. True) (Some (evs @ [e])) =
    Some (text_candidates evs
      @ (let calls = fold collect_call evs [] in
         if calls = [] then [] else [gemini_candidate (map (call_part parse_json) calls) [] None])
      @ [gemini_candidate [] (sv_finish_reason e) (sv_usage e)], prompt, completion, None)"
proof -
  have "tools_wf gemini_init" "held gemini_init = []" by (simp_all add: tools_wf_def held_def gemini_init_def)
  with gemini_events_before_end [OF assms(1), of gemini_init parse_json] obtain s1 where s1:
    "gemini_events parse_json (\<lambda>_. True) evs gemini_init = (s1, None)" "tools_wf s1" "held s1 = fold collect_call evs []"
    "gs_out s1 = text_candidates evs" by (auto simp: gemini_init_def)
  have "gs_order s1 = [] \<longleftrightarrow> held s1 = []" using arg_cong [OF held_indices [OF s1(2)], of length] by auto
  with s1 assms(2) pending_parts_held [of parse_json s1] show ?thesis
    by (auto simp: gemini_write_stream_def gemini_events_append gemini_event_def write_candidate_def Let_def split: option.splits)
qed

definition demo_tools :: "stream_event list" where
  "demo_tools = [tool_event ''i'' ''m'' 0 ''a'' ''f'', tool_event ''i'' ''m'' 1 ''b'' ''g'', args_event ''i'' ''m'' 0 ''1'',
     args_event ''i'' ''m'' 1 ''2'', args_event ''i'' ''m'' 0 ''3'']"

theorem gemini_stream_delivers_tool_calls_witness:
  "\<exists>prompt completion. gemini_write_stream (\<lambda>a. Some (JStr a)) (\<lambda>_. True) (Some (demo_tools @ [end_event ''i'' ''m'' ''stop'' None])) =
     Some ([gemini_candidate
        [gemini_function_call (\<lambda>a. Some (JStr a)) \<lparr>tk_id = ''a'', tk_name = ''f'', tk_arguments = ''13''\<rparr>,
         gemini_function_call (\<lambda>a. Some (JStr a)) \<lparr>tk_id = ''b'', tk_name = ''g'', tk_arguments = ''2''\<rparr>] [] None,
        gemini_candidate [] ''stop'' None], prompt, completion, None)"
proof -
  have "list_all before_end demo_tools" "sv_kind (end_event ''i'' ''m'' ''stop'' None) = StreamMessageEnd"
    by (simp_all add: demo_tools_def before_end_def event_defs)
  note d = gemini_stream_delivers_tool_calls [OF this, of "\<lambda>a. Some (JStr a)"]
  have "text_candidates demo_tools = []" by (simp add: demo_tools_def text_candidates_def event_defs)
  moreover have "fold collect_call demo_tools [] =
      [(0, \<lparr>pt_id = ''a'', pt_name = ''f'', pt_args = ''13''\<rparr>), (1, \<lparr>pt_id = ''b'', pt_name = ''g'', pt_args = ''2''\<rparr>)]"
    by (simp add: demo_tools_def event_defs)
  ultimately show ?thesis using d by (simp add: call_part_def end_event_def stream_event_of_def)
qed

end
