(* ===== verification/Gateway_Codecs.thy ===== *)
theory Gateway_Codecs
  imports Chat_Exec Stream_Laws
begin

text \<open>
  The codecs of \<^verbatim>\<open>dialect.For\<close> for the chat handler of \<^verbatim>\<open>Chat_Exec\<close>: the three dialects over one
  type of written streams. The parser and the printer of JSON text remain parameters.
\<close>

datatype wire = OpenAIWire "sse list" | AnthropicWire "anth_sse list" | GeminiWire "json list"

definition to_res :: "call_error + 'a \<Rightarrow> 'a res" where
  "to_res r = (case r of Inl e \<Rightarrow> Inl (Err ErrOther (error_text e)) | Inr x \<Rightarrow> Inr x)"

definition tag_stream ::
  "('a \<Rightarrow> wire) \<Rightarrow> ('a \<times> int \<times> int \<times> err option) option \<Rightarrow> (wire \<times> int \<times> int \<times> err option) option" where
  "tag_stream tag r = map_option (\<lambda>(out, p, c, e). (tag out, p, c, e)) r"

definition openai_codec :: "(string \<Rightarrow> json option) \<Rightarrow> (json \<Rightarrow> string) \<Rightarrow> (nat \<Rightarrow> bool) \<Rightarrow> wire codec" where
  "openai_codec parse_json show_json ok =
     \<lparr>cd_decode_request = (\<lambda>body. to_res (decode_openai_request parse_json body)),
      cd_encode_response = (\<lambda>r. Inr (show_json (encode_openai_response r))),
      cd_write_stream = (\<lambda>evs. tag_stream OpenAIWire (openai_write_stream ok evs))\<rparr>"

definition anthropic_codec :: "(string \<Rightarrow> json option) \<Rightarrow> (json \<Rightarrow> string) \<Rightarrow> (nat \<Rightarrow> bool) \<Rightarrow> wire codec" where
  "anthropic_codec parse_json show_json ok =
     \<lparr>cd_decode_request = (\<lambda>body. to_res (decode_anthropic_request parse_json show_json body)),
      cd_encode_response = (\<lambda>r. Inr (show_json (encode_anthropic_response parse_json r))),
      cd_write_stream = (\<lambda>evs. tag_stream AnthropicWire (anthropic_write_stream ok evs))\<rparr>"

definition gemini_codec :: "(string \<Rightarrow> json option) \<Rightarrow> (json \<Rightarrow> string) \<Rightarrow> (nat \<Rightarrow> bool) \<Rightarrow> wire codec" where
  "gemini_codec parse_json show_json ok =
     \<lparr>cd_decode_request = (\<lambda>body. to_res (decode_gemini_request parse_json show_json body)),
      cd_encode_response = (\<lambda>r. Inr (show_json (encode_gemini_response parse_json r))),
      cd_write_stream = (\<lambda>evs. tag_stream GeminiWire (gemini_write_stream parse_json ok evs))\<rparr>"

definition gateway_codecs :: "(string \<Rightarrow> json option) \<Rightarrow> (json \<Rightarrow> string) \<Rightarrow> (nat \<Rightarrow> bool) \<Rightarrow> wire codecs" where
  "gateway_codecs parse_json show_json ok =
     \<lparr>cs_openai = openai_codec parse_json show_json ok, cs_anthropic = anthropic_codec parse_json show_json ok,
      cs_gemini = gemini_codec parse_json show_json ok\<rparr>"

text \<open>Every writer of the gateway waits for ever on a nil channel, and returns on any other.\<close>

lemma gateway_codecs_block:
  assumes "codec_for (gateway_codecs parse_json show_json ok) d = Inr codec"
  shows "cd_write_stream codec evs = None \<longleftrightarrow> evs = None"
  using assms
  by (auto simp: codec_for_def gateway_codecs_def openai_codec_def anthropic_codec_def gemini_codec_def tag_stream_def
      openai_write_stream_def write_stream_def anthropic_write_stream_def gemini_write_stream_def
      split: if_splits option.splits)

end
