(* ===== verification/Region_Source.thy ===== *)
theory Region_Source
  imports Snapshot
begin

text \<open>
  Regional configuration: \<^verbatim>\<open>src/internal/regions/source.go\<close> and \<^verbatim>\<open>overlay.go\<close>. A region serves the
  organizations actively bound to it; each contributes its slice of the hub's configuration, or
  the overlay that replaces the slice in that region. The abstract specification is
  \<open>region_rows\<close>, row by row; \<open>build_region_source_rows\<close> shows that the nest of loops computes it.
\<close>

section \<open>Memberships and overlays\<close>

definition MembershipStatusActive :: string where "MembershipStatusActive = ''active''"
definition MembershipStatusDisabled :: string where "MembershipStatusDisabled = ''disabled''"

record region_membership =
  orm_organization_id :: string
  orm_region_id :: string
  orm_status :: string
  orm_created_at :: gotime
  orm_updated_at :: gotime

record overlay_payload =
  olp_providers :: "provider list"
  olp_routes :: "route list"
  olp_quotas :: "quota list"
  olp_policies :: "policy list"
  olp_wasm_hooks :: "wasm_hook list"
  olp_mcp_backends :: "mcp_backend list"
  olp_a2a_agents :: "a2a_agent list"
  olp_credentials :: "credential list"
  olp_assignments :: "credential_assignment list"
  olp_default_retry :: "retry_config option"
  olp_object_store :: "object_store_config option"

definition empty_payload :: overlay_payload where
  "empty_payload = \<lparr>olp_providers = [], olp_routes = [], olp_quotas = [], olp_policies = [],
     olp_wasm_hooks = [], olp_mcp_backends = [], olp_a2a_agents = [], olp_credentials = [],
     olp_assignments = [], olp_default_retry = None, olp_object_store = None\<rparr>"

record region_overlay =
  rco_organization_id :: string
  rco_region_id :: string
  rco_payload :: overlay_payload
  rco_created_at :: gotime
  rco_updated_at :: gotime

definition validate_membership_status :: "string \<Rightarrow> unit res" where
  "validate_membership_status status =
     (if status = MembershipStatusActive \<or> status = MembershipStatusDisabled then Inr ()
      else Inl (Err ErrInvalidRequest ''status must be active or disabled''))"

definition new_org_region_membership :: "string \<Rightarrow> string \<Rightarrow> string \<Rightarrow> gotime \<Rightarrow> region_membership res" where
  "new_org_region_membership org0 region0 status0 now =
     (let org = trim_space org0; region = trim_space region0; status1 = trim_space status0 in
      if org = [] \<or> region = [] then Inl (Err ErrInvalidRequest ''organization_id and region_id required'')
      else (let status = (if status1 = [] then MembershipStatusActive else status1) in
        bind_res (validate_membership_status status) (\<lambda>_.
          Inr \<lparr>orm_organization_id = org, orm_region_id = region, orm_status = status,
               orm_created_at = now, orm_updated_at = now\<rparr>)))"

text \<open>The rows of a payload are stamped with the organization they are for.\<close>

definition stamp_route :: "string \<Rightarrow> route \<Rightarrow> route" where
  "stamp_route org r = r\<lparr>ro_organization_id := org\<rparr>"
definition stamp_quota :: "string \<Rightarrow> quota \<Rightarrow> quota" where
  "stamp_quota org q = q\<lparr>qt_organization_id := org\<rparr>"
definition stamp_policy :: "string \<Rightarrow> policy \<Rightarrow> policy" where
  "stamp_policy org p = p\<lparr>po_organization_id := org\<rparr>"
definition stamp_wasm_hook :: "string \<Rightarrow> wasm_hook \<Rightarrow> wasm_hook" where
  "stamp_wasm_hook org h = h\<lparr>wh_organization_id := org\<rparr>"
definition stamp_mcp_backend :: "string \<Rightarrow> mcp_backend \<Rightarrow> mcp_backend" where
  "stamp_mcp_backend org b = b\<lparr>mb_organization_id := org\<rparr>"
definition stamp_a2a_agent :: "string \<Rightarrow> a2a_agent \<Rightarrow> a2a_agent" where
  "stamp_a2a_agent org a = a\<lparr>aa_organization_id := org\<rparr>"
definition stamp_credential :: "string \<Rightarrow> credential \<Rightarrow> credential" where
  "stamp_credential org c = c\<lparr>cr_organization_id := org\<rparr>"

lemmas stamp_defs = stamp_route_def stamp_quota_def stamp_policy_def stamp_wasm_hook_def
  stamp_mcp_backend_def stamp_a2a_agent_def stamp_credential_def

definition stamp_payload :: "string \<Rightarrow> overlay_payload \<Rightarrow> overlay_payload" where
  "stamp_payload org p = p\<lparr>
     olp_routes := map (stamp_route org) (olp_routes p),
     olp_quotas := map (stamp_quota org) (olp_quotas p),
     olp_policies := map (stamp_policy org) (olp_policies p),
     olp_wasm_hooks := map (stamp_wasm_hook org) (olp_wasm_hooks p),
     olp_mcp_backends := map (stamp_mcp_backend org) (olp_mcp_backends p),
     olp_a2a_agents := map (stamp_a2a_agent org) (olp_a2a_agents p),
     olp_credentials := map (stamp_credential org) (olp_credentials p)\<rparr>"

definition new_region_config_overlay ::
  "string \<Rightarrow> string \<Rightarrow> overlay_payload \<Rightarrow> gotime \<Rightarrow> region_overlay res" where
  "new_region_config_overlay org0 region0 payload now =
     (let org = trim_space org0; region = trim_space region0 in
      if org = [] \<or> region = [] then Inl (Err ErrInvalidRequest ''organization_id and region_id required'')
      else Inr \<lparr>rco_organization_id = org, rco_region_id = region, rco_payload = stamp_payload org payload,
                rco_created_at = now, rco_updated_at = now\<rparr>)"

section \<open>Slices\<close>

record org_slice =
  osl_api_keys :: "api_key list"
  osl_signing_keys :: "signing_key list"
  osl_providers :: "provider list"
  osl_routes :: "route list"
  osl_quotas :: "quota list"
  osl_policies :: "policy list"
  osl_wasm_hooks :: "wasm_hook list"
  osl_mcp_backends :: "mcp_backend list"
  osl_a2a_agents :: "a2a_agent list"
  osl_credentials :: "credential list"
  osl_assignments :: "credential_assignment list"
  osl_default_retry :: "retry_config option"
  osl_object_store :: "object_store_config option"

definition empty_slice :: org_slice where
  "empty_slice = \<lparr>osl_api_keys = [], osl_signing_keys = [], osl_providers = [], osl_routes = [],
     osl_quotas = [], osl_policies = [], osl_wasm_hooks = [], osl_mcp_backends = [],
     osl_a2a_agents = [], osl_credentials = [], osl_assignments = [], osl_default_retry = None,
     osl_object_store = None\<rparr>"

text \<open>Reading a missing key of the map gives the zero slice.\<close>

definition get_slice :: "(string, org_slice) gomap \<Rightarrow> string \<Rightarrow> org_slice" where
  "get_slice m org = (case gm_get m org of None \<Rightarrow> empty_slice | Some s \<Rightarrow> s)"

text \<open>One loop of \<^verbatim>\<open>IndexBaseByOrg\<close>: rows without an organization are skipped.\<close>

definition add_row :: "('a \<Rightarrow> string) \<Rightarrow> ('a \<Rightarrow> org_slice \<Rightarrow> org_slice) \<Rightarrow> 'a \<Rightarrow>
    (string, org_slice) gomap \<Rightarrow> (string, org_slice) gomap" where
  "add_row org_of upd x m =
     (if org_of x = [] then m else gm_put (org_of x) (upd x (get_slice m (org_of x))) m)"

definition cred_org :: "credential list \<Rightarrow> string \<Rightarrow> string" where
  "cred_org creds i =
     (case gm_get (index_by (\<lambda>c. Some (cr_id c, cr_organization_id c)) creds []) i of
        None \<Rightarrow> [] | Some org \<Rightarrow> org)"

text \<open>A nil pointer of the default maps is skipped like an empty organization.\<close>

definition add_pointer :: "('a \<Rightarrow> org_slice \<Rightarrow> org_slice) \<Rightarrow> string \<times> 'a option \<Rightarrow>
    (string, org_slice) gomap \<Rightarrow> (string, org_slice) gomap" where
  "add_pointer upd kv m =
     (case snd kv of None \<Rightarrow> m | Some v \<Rightarrow> add_row (\<lambda>_. fst kv) (\<lambda>_. upd v) kv m)"

definition index_base_by_org :: "source \<Rightarrow> (string, org_slice) gomap \<times> provider list" where
  "index_base_by_org base =
     (let m1 = fold (add_row ak_organization_id (\<lambda>k s. s\<lparr>osl_api_keys := osl_api_keys s @ [k]\<rparr>)) (so_api_keys base) [];
          m2 = fold (add_row sk_organization_id (\<lambda>k s. s\<lparr>osl_signing_keys := osl_signing_keys s @ [k]\<rparr>)) (so_signing_keys base) m1;
          m3 = fold (add_row ro_organization_id (\<lambda>r s. s\<lparr>osl_routes := osl_routes s @ [r]\<rparr>)) (so_routes base) m2;
          m4 = fold (add_row qt_organization_id (\<lambda>q s. s\<lparr>osl_quotas := osl_quotas s @ [q]\<rparr>)) (so_quotas base) m3;
          m5 = fold (add_row po_organization_id (\<lambda>p s. s\<lparr>osl_policies := osl_policies s @ [p]\<rparr>)) (so_policies base) m4;
          m6 = fold (add_row wh_organization_id (\<lambda>h s. s\<lparr>osl_wasm_hooks := osl_wasm_hooks s @ [h]\<rparr>)) (so_wasm_hooks base) m5;
          m7 = fold (add_row mb_organization_id (\<lambda>b s. s\<lparr>osl_mcp_backends := osl_mcp_backends s @ [b]\<rparr>)) (so_mcp_backends base) m6;
          m8 = fold (add_row aa_organization_id (\<lambda>a s. s\<lparr>osl_a2a_agents := osl_a2a_agents s @ [a]\<rparr>)) (so_a2a_agents base) m7;
          m9 = fold (add_row cr_organization_id (\<lambda>c s. s\<lparr>osl_credentials := osl_credentials s @ [c]\<rparr>)) (so_credentials base) m8;
          m10 = fold (add_row (\<lambda>a. cred_org (so_credentials base) (ca_credential_id a))
                  (\<lambda>a s. s\<lparr>osl_assignments := osl_assignments s @ [a]\<rparr>)) (so_assignments base) m9;
          m11 = fold (add_pointer (\<lambda>r s. s\<lparr>osl_default_retry := Some r\<rparr>)) (so_default_retries base) m10;
          m12 = fold (add_pointer (\<lambda>c s. s\<lparr>osl_object_store := Some c\<rparr>)) (so_object_stores base) m11
      in (m12, so_providers base))"

definition overlay_to_slice :: "string \<Rightarrow> org_slice \<Rightarrow> overlay_payload \<Rightarrow> org_slice" where
  "overlay_to_slice org keys p = \<lparr>
     osl_api_keys = osl_api_keys keys, osl_signing_keys = osl_signing_keys keys,
     osl_providers = olp_providers p,
     osl_routes = map (stamp_route org) (olp_routes p),
     osl_quotas = map (stamp_quota org) (olp_quotas p),
     osl_policies = map (stamp_policy org) (olp_policies p),
     osl_wasm_hooks = map (stamp_wasm_hook org) (olp_wasm_hooks p),
     osl_mcp_backends = map (stamp_mcp_backend org) (olp_mcp_backends p),
     osl_a2a_agents = map (stamp_a2a_agent org) (olp_a2a_agents p),
     osl_credentials = map (stamp_credential org) (olp_credentials p),
     osl_assignments = olp_assignments p,
     osl_default_retry = olp_default_retry p, osl_object_store = olp_object_store p\<rparr>"

section \<open>The regional source\<close>

definition add_allowed :: "region_membership \<Rightarrow> string list \<Rightarrow> string list" where
  "add_allowed m acc =
     (if orm_status m \<noteq> MembershipStatusActive then acc
      else if orm_organization_id m \<in> set acc then acc
      else acc @ [orm_organization_id m])"

definition allowed_orgs :: "region_membership list \<Rightarrow> string list" where
  "allowed_orgs ms = fold add_allowed ms []"

definition overlay_by_org :: "region_overlay list \<Rightarrow> (string, region_overlay) gomap" where
  "overlay_by_org ovs = index_by (\<lambda>v. Some (rco_organization_id v, v)) ovs []"

definition region_slice ::
  "(string, org_slice) gomap \<Rightarrow> (string, region_overlay) gomap \<Rightarrow> string \<Rightarrow> org_slice" where
  "region_slice by_org ov org =
     (case gm_get ov org of
        Some v \<Rightarrow> overlay_to_slice org (get_slice by_org org) (rco_payload v)
      | None \<Rightarrow> get_slice by_org org)"

text \<open>The providers a slice needs, in the order the loop meets them.\<close>

definition slice_needs :: "org_slice \<Rightarrow> string list" where
  "slice_needs s =
     concat (map (\<lambda>r. ro_provider_id r # map rt_provider_id (ro_fallbacks r)) (osl_routes s)) @
     map pv_id (osl_providers s)"

definition add_slice :: "string \<Rightarrow> org_slice \<Rightarrow> source \<Rightarrow> source" where
  "add_slice org s src = src\<lparr>
     so_api_keys := so_api_keys src @ osl_api_keys s,
     so_signing_keys := so_signing_keys src @ osl_signing_keys s,
     so_routes := so_routes src @ osl_routes s,
     so_quotas := so_quotas src @ osl_quotas s,
     so_policies := so_policies src @ osl_policies s,
     so_wasm_hooks := so_wasm_hooks src @ osl_wasm_hooks s,
     so_mcp_backends := so_mcp_backends src @ osl_mcp_backends s,
     so_a2a_agents := so_a2a_agents src @ osl_a2a_agents s,
     so_credentials := so_credentials src @ osl_credentials s,
     so_assignments := so_assignments src @ osl_assignments s,
     so_default_retries := (case osl_default_retry s of None \<Rightarrow> so_default_retries src
        | Some r \<Rightarrow> gm_put org (Some r) (so_default_retries src)),
     so_object_stores := (case osl_object_store s of None \<Rightarrow> so_object_stores src
        | Some c \<Rightarrow> gm_put org (Some c) (so_object_stores src))\<rparr>"

text \<open>
  The provider pool: the base rows and then the rows of every overlay, later rows replacing
  earlier ones with the same identifier.
\<close>

definition provider_pool :: "provider list \<Rightarrow> region_overlay list \<Rightarrow> (string, provider) gomap" where
  "provider_pool ps ovs =
     index_by (\<lambda>p. Some (pv_id p, p)) (concat (map (\<lambda>v. olp_providers (rco_payload v)) ovs))
       (index_by (\<lambda>p. Some (pv_id p, p)) ps [])"

definition build_region_source ::
  "source \<Rightarrow> region_membership list \<Rightarrow> region_overlay list \<Rightarrow> source \<times> string list" where
  "build_region_source base ms ovs =
     (let (by_org, ps) = index_base_by_org base;
          ov = overlay_by_org ovs;
          allowed = allowed_orgs ms;
          src = fold (\<lambda>org. add_slice org (region_slice by_org ov org)) allowed empty_source;
          needed = fold (\<lambda>org acc. fold (\<lambda>i acc. if i \<in> set acc then acc else acc @ [i])
                     (slice_needs (region_slice by_org ov org)) acc) allowed [];
          pool = provider_pool ps ovs
      in (src\<lparr>so_providers := List.map_filter (gm_get pool) needed\<rparr>, allowed))"

section \<open>What the loops compute\<close>

text \<open>
  Every loop of \<^verbatim>\<open>IndexBaseByOrg\<close> appends to one field of a slice: reading and writing the field
  is the interface, appending row by row is the client.
\<close>

locale row_field =
  fixes get :: "'s \<Rightarrow> 'a list"
    and put :: "'a list \<Rightarrow> 's \<Rightarrow> 's"
  assumes get_put: "get (put xs s) = xs"
    and put_put: "put ys (put xs s) = put ys s"
    and put_get: "put (get s) s = s"
begin

lemma fold_append: "fold (\<lambda>x s. put (get s @ [x]) s) xs s = put (get s @ xs) s"
  by (induction xs arbitrary: s) (simp_all add: get_put put_put put_get)

end

interpretation rf_api_keys: row_field osl_api_keys "\<lambda>xs s. s\<lparr>osl_api_keys := xs\<rparr>" by unfold_locales simp_all
interpretation rf_signing_keys: row_field osl_signing_keys "\<lambda>xs s. s\<lparr>osl_signing_keys := xs\<rparr>" by unfold_locales simp_all
interpretation rf_routes: row_field osl_routes "\<lambda>xs s. s\<lparr>osl_routes := xs\<rparr>" by unfold_locales simp_all
interpretation rf_quotas: row_field osl_quotas "\<lambda>xs s. s\<lparr>osl_quotas := xs\<rparr>" by unfold_locales simp_all
interpretation rf_policies: row_field osl_policies "\<lambda>xs s. s\<lparr>osl_policies := xs\<rparr>" by unfold_locales simp_all
interpretation rf_wasm_hooks: row_field osl_wasm_hooks "\<lambda>xs s. s\<lparr>osl_wasm_hooks := xs\<rparr>" by unfold_locales simp_all
interpretation rf_mcp_backends: row_field osl_mcp_backends "\<lambda>xs s. s\<lparr>osl_mcp_backends := xs\<rparr>" by unfold_locales simp_all
interpretation rf_a2a_agents: row_field osl_a2a_agents "\<lambda>xs s. s\<lparr>osl_a2a_agents := xs\<rparr>" by unfold_locales simp_all
interpretation rf_credentials: row_field osl_credentials "\<lambda>xs s. s\<lparr>osl_credentials := xs\<rparr>" by unfold_locales simp_all
interpretation rf_assignments: row_field osl_assignments "\<lambda>xs s. s\<lparr>osl_assignments := xs\<rparr>" by unfold_locales simp_all

lemmas fold_append_fields =
  rf_api_keys.fold_append rf_signing_keys.fold_append rf_routes.fold_append rf_quotas.fold_append
  rf_policies.fold_append rf_wasm_hooks.fold_append rf_mcp_backends.fold_append
  rf_a2a_agents.fold_append rf_credentials.fold_append rf_assignments.fold_append

lemma get_slice_put [simp]: "get_slice (gm_put k s m) org = (if org = k then s else get_slice m org)"
  by (simp add: get_slice_def)

lemma get_slice_add_rows:
  "get_slice (fold (add_row g u) xs m) org =
     (if org = [] then get_slice m org else fold u (filter (\<lambda>x. g x = org) xs) (get_slice m org))"
  by (induction xs arbitrary: m) (auto simp: add_row_def)

lemma get_slice_add_pointers:
  assumes "gm_wf kvs"
  shows "get_slice (fold (add_pointer u) kvs m) org =
     (if org = [] then get_slice m org
      else case gm_get kvs org of Some (Some v) \<Rightarrow> u v (get_slice m org) | _ \<Rightarrow> get_slice m org)"
  using assms
proof (induction kvs arbitrary: m)
  case (Cons kv kvs)
  obtain k v where kv: "kv = (k, v)" by (cases kv)
  have wf: "gm_wf kvs" and k: "gm_get kvs k = None"
    using Cons.prems kv by (auto simp: gm_wf_def map_of_eq_None_iff)
  have step: "get_slice (add_pointer u (k, v) m) org =
      (if org \<noteq> [] \<and> k = org then (case v of Some v \<Rightarrow> u v (get_slice m org) | None \<Rightarrow> get_slice m org)
       else get_slice m org)"
    by (auto simp: add_pointer_def add_row_def split: option.splits)
  show ?case
    using Cons.IH [OF wf, of "add_pointer u (k, v) m"] k kv step
    by (auto split: option.splits)
qed simp

lemma base_slice:
  assumes "org \<noteq> []" and "gm_wf (so_default_retries base)" and "gm_wf (so_object_stores base)"
  shows "get_slice (fst (index_base_by_org base)) org = \<lparr>
     osl_api_keys = filter (\<lambda>k. ak_organization_id k = org) (so_api_keys base),
     osl_signing_keys = filter (\<lambda>k. sk_organization_id k = org) (so_signing_keys base),
     osl_providers = [],
     osl_routes = filter (\<lambda>r. ro_organization_id r = org) (so_routes base),
     osl_quotas = filter (\<lambda>q. qt_organization_id q = org) (so_quotas base),
     osl_policies = filter (\<lambda>p. po_organization_id p = org) (so_policies base),
     osl_wasm_hooks = filter (\<lambda>h. wh_organization_id h = org) (so_wasm_hooks base),
     osl_mcp_backends = filter (\<lambda>b. mb_organization_id b = org) (so_mcp_backends base),
     osl_a2a_agents = filter (\<lambda>a. aa_organization_id a = org) (so_a2a_agents base),
     osl_credentials = filter (\<lambda>c. cr_organization_id c = org) (so_credentials base),
     osl_assignments = filter (\<lambda>a. cred_org (so_credentials base) (ca_credential_id a) = org) (so_assignments base),
     osl_default_retry = (case gm_get (so_default_retries base) org of Some (Some r) \<Rightarrow> Some r | _ \<Rightarrow> None),
     osl_object_store = (case gm_get (so_object_stores base) org of Some (Some c) \<Rightarrow> Some c | _ \<Rightarrow> None)\<rparr>"
  using assms
  by (simp add: index_base_by_org_def Let_def get_slice_add_rows get_slice_add_pointers
      fold_append_fields get_slice_def [of "[]"] empty_slice_def split: option.splits)

lemma base_slice_empty:
  assumes "gm_wf (so_default_retries base)" and "gm_wf (so_object_stores base)"
  shows "get_slice (fst (index_base_by_org base)) [] = empty_slice"
  using assms
  by (simp add: index_base_by_org_def Let_def get_slice_add_rows get_slice_add_pointers
      get_slice_def [of "[]"])

lemma so_fold_add_slice:
  "so_api_keys (fold (\<lambda>org. add_slice org (f org)) orgs src) = so_api_keys src @ concat (map (osl_api_keys \<circ> f) orgs)"
  "so_signing_keys (fold (\<lambda>org. add_slice org (f org)) orgs src) = so_signing_keys src @ concat (map (osl_signing_keys \<circ> f) orgs)"
  "so_routes (fold (\<lambda>org. add_slice org (f org)) orgs src) = so_routes src @ concat (map (osl_routes \<circ> f) orgs)"
  "so_quotas (fold (\<lambda>org. add_slice org (f org)) orgs src) = so_quotas src @ concat (map (osl_quotas \<circ> f) orgs)"
  "so_policies (fold (\<lambda>org. add_slice org (f org)) orgs src) = so_policies src @ concat (map (osl_policies \<circ> f) orgs)"
  "so_wasm_hooks (fold (\<lambda>org. add_slice org (f org)) orgs src) = so_wasm_hooks src @ concat (map (osl_wasm_hooks \<circ> f) orgs)"
  "so_mcp_backends (fold (\<lambda>org. add_slice org (f org)) orgs src) = so_mcp_backends src @ concat (map (osl_mcp_backends \<circ> f) orgs)"
  "so_a2a_agents (fold (\<lambda>org. add_slice org (f org)) orgs src) = so_a2a_agents src @ concat (map (osl_a2a_agents \<circ> f) orgs)"
  "so_credentials (fold (\<lambda>org. add_slice org (f org)) orgs src) = so_credentials src @ concat (map (osl_credentials \<circ> f) orgs)"
  "so_assignments (fold (\<lambda>org. add_slice org (f org)) orgs src) = so_assignments src @ concat (map (osl_assignments \<circ> f) orgs)"
  by (induction orgs arbitrary: src) (simp_all add: add_slice_def)

lemma set_fold_add_allowed: "set (fold add_allowed ms acc) = set acc \<union> {orm_organization_id m | m. m \<in> set ms \<and> orm_status m = MembershipStatusActive}"
  by (induction ms arbitrary: acc) (auto simp: add_allowed_def)

lemma set_allowed_orgs:
  "set (allowed_orgs ms) = {orm_organization_id m | m. m \<in> set ms \<and> orm_status m = MembershipStatusActive}"
  by (simp add: allowed_orgs_def set_fold_add_allowed)

lemma distinct_allowed_orgs: "distinct (allowed_orgs ms)"
proof -
  have "distinct acc \<Longrightarrow> distinct (fold add_allowed ms acc)" for acc
    by (induction ms arbitrary: acc) (auto simp: add_allowed_def)
  then show ?thesis by (simp add: allowed_orgs_def)
qed

lemma get_overlay_by_org: "gm_get (overlay_by_org ovs) org = find_last (\<lambda>v. rco_organization_id v = org) ovs"
  unfolding overlay_by_org_def gm_get_index_by by (rule last_with_find_last_id) auto

section \<open>Specification\<close>

text \<open>
  One kind of configuration row in a region: organization by organization, the rows of its
  overlay when it has one, else its rows of the hub in their order.
\<close>

definition hub_rows :: "('a \<Rightarrow> string) \<Rightarrow> 'a list \<Rightarrow> string \<Rightarrow> 'a list" where
  "hub_rows g xs org = (if org = [] then [] else filter (\<lambda>x. g x = org) xs)"

definition effective_overlay :: "region_overlay list \<Rightarrow> string \<Rightarrow> overlay_payload option" where
  "effective_overlay ovs org = map_option rco_payload (find_last (\<lambda>v. rco_organization_id v = org) ovs)"

definition region_rows ::
  "('a \<Rightarrow> string) \<Rightarrow> (string \<Rightarrow> 'a \<Rightarrow> 'a) \<Rightarrow> (overlay_payload \<Rightarrow> 'a list) \<Rightarrow> 'a list \<Rightarrow> region_overlay list \<Rightarrow> string \<Rightarrow> 'a list" where
  "region_rows g stamp sel xs ovs org =
     (case effective_overlay ovs org of Some p \<Rightarrow> map (stamp org) (sel p) | None \<Rightarrow> hub_rows g xs org)"

lemma region_rows_org:
  assumes "\<And>x. g (stamp org x) = org" and "x \<in> set (region_rows g stamp sel xs ovs org)"
  shows "g x = org"
  using assms by (auto simp: region_rows_def hub_rows_def split: option.splits if_splits)

lemma hub_rows_org: "x \<in> set (hub_rows g xs org) \<Longrightarrow> g x = org"
  by (auto simp: hub_rows_def split: if_splits)

lemma region_slice_rows:
  fixes base ovs org
  assumes "gm_wf (so_default_retries base)" and "gm_wf (so_object_stores base)"
  defines "s \<equiv> region_slice (fst (index_base_by_org base)) (overlay_by_org ovs) org"
  shows "osl_api_keys s = hub_rows ak_organization_id (so_api_keys base) org"
    "osl_signing_keys s = hub_rows sk_organization_id (so_signing_keys base) org"
    "osl_routes s = region_rows ro_organization_id stamp_route olp_routes (so_routes base) ovs org"
    "osl_quotas s = region_rows qt_organization_id stamp_quota olp_quotas (so_quotas base) ovs org"
    "osl_policies s = region_rows po_organization_id stamp_policy olp_policies (so_policies base) ovs org"
    "osl_wasm_hooks s = region_rows wh_organization_id stamp_wasm_hook olp_wasm_hooks (so_wasm_hooks base) ovs org"
    "osl_mcp_backends s = region_rows mb_organization_id stamp_mcp_backend olp_mcp_backends (so_mcp_backends base) ovs org"
    "osl_a2a_agents s = region_rows aa_organization_id stamp_a2a_agent olp_a2a_agents (so_a2a_agents base) ovs org"
    "osl_credentials s = region_rows cr_organization_id stamp_credential olp_credentials (so_credentials base) ovs org"
    "osl_providers s = (case effective_overlay ovs org of Some p \<Rightarrow> olp_providers p | None \<Rightarrow> [])"
proof -
  have base: "get_slice (fst (index_base_by_org base)) org = (if org = [] then empty_slice else get_slice (fst (index_base_by_org base)) org)"
    using base_slice_empty [OF assms(1,2)] by simp
  note defs = s_def region_slice_def get_overlay_by_org effective_overlay_def region_rows_def hub_rows_def overlay_to_slice_def
  show "osl_api_keys s = hub_rows ak_organization_id (so_api_keys base) org"
    "osl_signing_keys s = hub_rows sk_organization_id (so_signing_keys base) org"
    "osl_routes s = region_rows ro_organization_id stamp_route olp_routes (so_routes base) ovs org"
    "osl_quotas s = region_rows qt_organization_id stamp_quota olp_quotas (so_quotas base) ovs org"
    "osl_policies s = region_rows po_organization_id stamp_policy olp_policies (so_policies base) ovs org"
    "osl_wasm_hooks s = region_rows wh_organization_id stamp_wasm_hook olp_wasm_hooks (so_wasm_hooks base) ovs org"
    "osl_mcp_backends s = region_rows mb_organization_id stamp_mcp_backend olp_mcp_backends (so_mcp_backends base) ovs org"
    "osl_a2a_agents s = region_rows aa_organization_id stamp_a2a_agent olp_a2a_agents (so_a2a_agents base) ovs org"
    "osl_credentials s = region_rows cr_organization_id stamp_credential olp_credentials (so_credentials base) ovs org"
    "osl_providers s = (case effective_overlay ovs org of Some p \<Rightarrow> olp_providers p | None \<Rightarrow> [])"
    by (cases "org = []"; simp add: defs base_slice_empty [OF assms(1,2)] base_slice [OF _ assms(1,2)] empty_slice_def split: option.splits)+
qed

text \<open>The organizations a region serves: those with an active membership, in row order.\<close>

definition bound_orgs :: "region_membership list \<Rightarrow> string set" where
  "bound_orgs ms = {orm_organization_id m | m. m \<in> set ms \<and> orm_status m = MembershipStatusActive}"

lemma bound_orgs_filter:
  "bound_orgs ms = set (map orm_organization_id (filter (\<lambda>m. orm_status m = MembershipStatusActive) ms))"
  by (auto simp: bound_orgs_def)

lemma build_region_source_allowed: "snd (build_region_source base ms ovs) = allowed_orgs ms"
  by (simp add: build_region_source_def Let_def case_prod_beta)

lemma build_region_source_rows:
  fixes base ms ovs
  assumes "gm_wf (so_default_retries base)" and "gm_wf (so_object_stores base)"
  defines "src \<equiv> fst (build_region_source base ms ovs)"
  shows "so_api_keys src = concat (map (hub_rows ak_organization_id (so_api_keys base)) (allowed_orgs ms))"
    "so_signing_keys src = concat (map (hub_rows sk_organization_id (so_signing_keys base)) (allowed_orgs ms))"
    "so_routes src = concat (map (region_rows ro_organization_id stamp_route olp_routes (so_routes base) ovs) (allowed_orgs ms))"
    "so_quotas src = concat (map (region_rows qt_organization_id stamp_quota olp_quotas (so_quotas base) ovs) (allowed_orgs ms))"
    "so_policies src = concat (map (region_rows po_organization_id stamp_policy olp_policies (so_policies base) ovs) (allowed_orgs ms))"
    "so_wasm_hooks src = concat (map (region_rows wh_organization_id stamp_wasm_hook olp_wasm_hooks (so_wasm_hooks base) ovs) (allowed_orgs ms))"
    "so_mcp_backends src = concat (map (region_rows mb_organization_id stamp_mcp_backend olp_mcp_backends (so_mcp_backends base) ovs) (allowed_orgs ms))"
    "so_a2a_agents src = concat (map (region_rows aa_organization_id stamp_a2a_agent olp_a2a_agents (so_a2a_agents base) ovs) (allowed_orgs ms))"
    "so_credentials src = concat (map (region_rows cr_organization_id stamp_credential olp_credentials (so_credentials base) ovs) (allowed_orgs ms))"
  by (simp_all add: src_def build_region_source_def Let_def case_prod_beta so_fold_add_slice
      region_slice_rows [OF assms(1,2)] empty_source_def comp_def)

section \<open>Properties\<close>

definition regional_snapshot ::
  "registry \<Rightarrow> gotime \<Rightarrow> source \<Rightarrow> region_membership list \<Rightarrow> region_overlay list \<Rightarrow> snapshot" where
  "regional_snapshot reg now base ms ovs =
     (case build_region_source base ms ovs of (src, allowed) \<Rightarrow> compile_region reg now src (Some allowed))"

lemma regional_snapshot_simps:
  "sn_api_keys (regional_snapshot reg now base ms ovs) = index_by api_key_row (so_api_keys (fst (build_region_source base ms ovs))) []"
  "sn_signing_keys (regional_snapshot reg now base ms ovs) = index_by signing_key_row (so_signing_keys (fst (build_region_source base ms ovs))) []"
  "sn_routes (regional_snapshot reg now base ms ovs) = index_by route_row (so_routes (fst (build_region_source base ms ovs))) []"
  "sn_credentials (regional_snapshot reg now base ms ovs) = index_by credential_row (so_credentials (fst (build_region_source base ms ovs))) []"
  "sn_providers (regional_snapshot reg now base ms ovs) = index_by (provider_row reg) (so_providers (fst (build_region_source base ms ovs))) []"
  "sn_quotas (regional_snapshot reg now base ms ovs) = so_quotas (fst (build_region_source base ms ovs))"
  "sn_policies (regional_snapshot reg now base ms ovs) = so_policies (fst (build_region_source base ms ovs))"
  "sn_mcp_backends (regional_snapshot reg now base ms ovs) = index_by mcp_backend_row (so_mcp_backends (fst (build_region_source base ms ovs))) []"
  "sn_a2a_agents (regional_snapshot reg now base ms ovs) = index_by a2a_agent_row (so_a2a_agents (fst (build_region_source base ms ovs))) []"
  by (simp_all add: regional_snapshot_def compile_region_def case_prod_beta Let_def)

lemma concat_rows_org:
  assumes "x \<in> set (concat (map rows (allowed_orgs ms)))" and "\<And>org x. x \<in> set (rows org) \<Longrightarrow> g x = org"
  shows "g x \<in> bound_orgs ms"
  using assms by (auto simp: set_allowed_orgs bound_orgs_def)

lemma stamped_rows_org:
  "r \<in> set (region_rows ro_organization_id stamp_route selr rs ovs org) \<Longrightarrow> ro_organization_id r = org"
  "q \<in> set (region_rows qt_organization_id stamp_quota selq qs ovs org) \<Longrightarrow> qt_organization_id q = org"
  "p \<in> set (region_rows po_organization_id stamp_policy selp ps ovs org) \<Longrightarrow> po_organization_id p = org"
  "b \<in> set (region_rows mb_organization_id stamp_mcp_backend selb bs ovs org) \<Longrightarrow> mb_organization_id b = org"
  "a \<in> set (region_rows aa_organization_id stamp_a2a_agent sela as ovs org) \<Longrightarrow> aa_organization_id a = org"
  "c \<in> set (region_rows cr_organization_id stamp_credential selc cs ovs org) \<Longrightarrow> cr_organization_id c = org"
  by (erule region_rows_org [rotated], simp add: stamp_defs)+

lemma index_by_value:
  "gm_get (index_by f xs []) k = Some v \<Longrightarrow> (\<And>x k v. f x = Some (k, v) \<Longrightarrow> v = x) \<Longrightarrow> v \<in> set xs"
  unfolding gm_get_index_by by (metis last_with_SomeD)

lemma row_values:
  "api_key_row k = Some (i, v) \<Longrightarrow> v = k" "signing_key_row sk = Some (i, sv) \<Longrightarrow> sv = sk"
  "route_row r = Some (i, rv) \<Longrightarrow> rv = r" "credential_row c = Some (i, cv) \<Longrightarrow> cv = c"
  "mcp_backend_row b = Some (i, bv) \<Longrightarrow> bv = b" "a2a_agent_row a = Some (i, av) \<Longrightarrow> av = a"
  by (auto simp: api_key_row_def signing_key_row_def route_row_def credential_row_def
      mcp_backend_row_def a2a_agent_row_def split: if_splits)

lemma index_rows_org:
  assumes "gm_get (index_by f (concat (map rows (allowed_orgs ms))) []) i = Some v"
    and "\<And>x k v. f x = Some (k, v) \<Longrightarrow> v = x" and "\<And>org x. x \<in> set (rows org) \<Longrightarrow> g x = org"
  shows "g v \<in> bound_orgs ms"
  using index_by_value [OF assms(1,2)] assms(3) by (rule concat_rows_org)

text \<open>
  C29: A regional snapshot holds nothing of an organization that is not actively bound to the
  region. Whatever the hub's configuration and whatever overlays are stored, every API key,
  signing key, route, credential, MCP backend and A2A agent the data plane can look up, and
  every quota and policy it evaluates, belongs to an organization with an active membership.
\<close>

theorem regional_snapshot_bound_only:
  assumes "gm_wf (so_default_retries base)" and "gm_wf (so_object_stores base)"
    and "sn = regional_snapshot reg now base ms ovs"
  shows "(\<forall>i k. gm_get (sn_api_keys sn) i = Some k \<longrightarrow> ak_organization_id k \<in> bound_orgs ms) \<and>
    (\<forall>i k. gm_get (sn_signing_keys sn) i = Some k \<longrightarrow> sk_organization_id k \<in> bound_orgs ms) \<and>
    (\<forall>i r. gm_get (sn_routes sn) i = Some r \<longrightarrow> ro_organization_id r \<in> bound_orgs ms) \<and>
    (\<forall>i c. gm_get (sn_credentials sn) i = Some c \<longrightarrow> cr_organization_id c \<in> bound_orgs ms) \<and>
    (\<forall>i b. gm_get (sn_mcp_backends sn) i = Some b \<longrightarrow> mb_organization_id b \<in> bound_orgs ms) \<and>
    (\<forall>i a. gm_get (sn_a2a_agents sn) i = Some a \<longrightarrow> aa_organization_id a \<in> bound_orgs ms) \<and>
    (\<forall>q\<in>set (sn_quotas sn). qt_organization_id q \<in> bound_orgs ms) \<and>
    (\<forall>p\<in>set (sn_policies sn). po_organization_id p \<in> bound_orgs ms)"
  unfolding assms(3) regional_snapshot_simps build_region_source_rows [OF assms(1,2)]
  by (intro conjI allI impI ballI;
      (erule index_rows_org concat_rows_org, (erule row_values)?, (erule hub_rows_org stamped_rows_org)))

lemma find_last_append: "find_last P (xs @ ys) = (case find_last P ys of None \<Rightarrow> find_last P xs | Some y \<Rightarrow> Some y)"
  by (auto simp: find_last_def find_append split: option.splits)

lemma find_last_unique:
  assumes "\<And>x y. x \<in> set xs \<Longrightarrow> y \<in> set xs \<Longrightarrow> P x \<Longrightarrow> P y \<Longrightarrow> x = y"
  shows "find_last P xs = Some x \<longleftrightarrow> x \<in> set xs \<and> P x"
proof
  assume x: "x \<in> set xs \<and> P x"
  then obtain y where y: "find_last P xs = Some y" by (cases "find_last P xs") (auto simp: find_last_None_iff)
  with x assms show "find_last P xs = Some x" using find_last_SomeD by metis
qed (rule find_last_SomeD)

lemma option_eq_by_Some: "(\<And>k. a = Some k \<longleftrightarrow> b = Some k) \<Longrightarrow> a = b"
  by (cases a; cases b) auto

lemma find_last_rows:
  assumes "\<And>v x. x \<in> set (rows v) \<Longrightarrow> g x = v"
  shows "find_last (\<lambda>x. g x = org \<and> Q x) (concat (map rows orgs)) =
     (if org \<in> set orgs then find_last Q (rows org) else None)"
proof (induction orgs)
  case (Cons a orgs)
  have "find_last (\<lambda>x. g x = org \<and> Q x) (rows a) = (if a = org then find_last Q (rows org) else None)"
    using assms by (auto simp: find_last_None_iff intro: find_last_cong)
  with Cons show ?case by (auto simp: find_last_append split: option.splits)
qed simp

text \<open>
  C30: An API key authenticates in a region exactly when it authenticates on the hub and its
  organization is actively bound to the region, and it gets the same identity. Key hashes are
  unique in the hub's table and memberships name an organization, as their constructor ensures.
\<close>

theorem regional_key_refines_hub:
  assumes "gm_wf (so_default_retries base)" and "gm_wf (so_object_stores base)"
    and "distinct (map ak_key_hash (so_api_keys base))" and "[] \<notin> bound_orgs ms"
    and "hash_key sha raw \<noteq> []"
  shows "lookup_key sha (Some (regional_snapshot reg now base ms ovs)) raw =
     (case lookup_key sha (Some (compile reg now base)) raw of
        Some k \<Rightarrow> if ak_organization_id k \<in> bound_orgs ms then Some k else None
      | None \<Rightarrow> None)"
proof -
  define h where "h = hash_key sha raw"
  define xs where "xs = concat (map (hub_rows ak_organization_id (so_api_keys base)) (allowed_orgs ms))"
  have mem: "k \<in> set xs \<longleftrightarrow> k \<in> set (so_api_keys base) \<and> ak_organization_id k \<in> bound_orgs ms" for k
    using assms(4) by (auto simp: xs_def hub_rows_def set_allowed_orgs bound_orgs_def)
  have inj: "x = y" if "x \<in> set (so_api_keys base)" "y \<in> set (so_api_keys base)" "ak_key_hash x = h" "ak_key_hash y = h" for x y
    using assms(3) that by (metis distinct_map inj_on_def)
  have hub: "find_last (\<lambda>k. ak_key_hash k = h) (so_api_keys base) = Some k \<longleftrightarrow> k \<in> set (so_api_keys base) \<and> ak_key_hash k = h" for k
    by (rule find_last_unique) (rule inj)
  have reg: "find_last (\<lambda>k. ak_key_hash k = h) xs = Some k \<longleftrightarrow> k \<in> set xs \<and> ak_key_hash k = h" for k
    by (rule find_last_unique) (auto simp: mem intro: inj)
  have "find_last (\<lambda>k. ak_key_hash k = h) xs =
     (case find_last (\<lambda>k. ak_key_hash k = h) (so_api_keys base) of
        Some k \<Rightarrow> if ak_organization_id k \<in> bound_orgs ms then Some k else None | None \<Rightarrow> None)"
    (is "?l = ?r")
  proof -
    have "?l = Some k \<longleftrightarrow> ?r = Some k" for k
    proof (cases "find_last (\<lambda>k. ak_key_hash k = h) (so_api_keys base)")
      case None
      then have "\<forall>x\<in>set (so_api_keys base). ak_key_hash x \<noteq> h" by (simp add: find_last_None_iff)
      with None show ?thesis by (auto simp: reg mem)
    next
      case (Some k')
      with hub have "k' \<in> set (so_api_keys base)" "ak_key_hash k' = h" by auto
      with Some show ?thesis by (auto simp: reg mem dest: inj)
    qed
    then show ?thesis by (rule option_eq_by_Some)
  qed
  moreover have "lookup_key sha (Some (regional_snapshot reg now base ms ovs)) raw = find_last (\<lambda>k. ak_key_hash k = h) xs"
    unfolding lookup_key_def option.case regional_snapshot_simps build_region_source_rows [OF assms(1,2)] gm_get_index_by xs_def h_def
    by (rule last_with_api_key [OF assms(5)])
  moreover have "lookup_key sha (Some (compile reg now base)) raw = find_last (\<lambda>k. ak_key_hash k = h) (so_api_keys base)"
    unfolding lookup_key_def option.case compile_simps gm_get_index_by h_def by (rule last_with_api_key [OF assms(5)])
  ultimately show ?thesis by (simp only:)
qed

text \<open>
  A region routes a bound organization's model as its overlay says, when it has one, and
  otherwise exactly as the hub does; other organizations have no route. Organization identifiers
  are generated without a colon, which separates the parts of a route key.
\<close>

theorem regional_route_refines_hub:
  assumes "gm_wf (so_default_retries base)" and "gm_wf (so_object_stores base)" and "[] \<notin> bound_orgs ms"
    and "CHR '':'' \<notin> set org" and "\<forall>r\<in>set (so_routes base). CHR '':'' \<notin> set (ro_organization_id r)"
    and "\<forall>v\<in>bound_orgs ms. CHR '':'' \<notin> set v"
  shows "gm_get (sn_routes (regional_snapshot reg now base ms ovs)) (route_key org model) =
     (if org \<in> bound_orgs ms
      then (case effective_overlay ovs org of
              Some p \<Rightarrow> map_option (stamp_route org) (find_last (\<lambda>r. ro_model r = model) (olp_routes p))
            | None \<Rightarrow> gm_get (sn_routes (compile reg now base)) (route_key org model))
      else None)"
proof -
  define rows where "rows = region_rows ro_organization_id stamp_route olp_routes (so_routes base) ovs"
  have rows_org: "ro_organization_id r = v" if "r \<in> set (rows v)" for r v
    using that unfolding rows_def by (rule region_rows_org [rotated]) (simp add: stamp_defs)
  have colon: "\<forall>r\<in>set (concat (map rows (allowed_orgs ms))). CHR '':'' \<notin> set (ro_organization_id r)"
    using assms(6) rows_org by (auto simp: set_allowed_orgs bound_orgs_def)
  have hub: "last_with route_row (so_routes base) (route_key org model) =
      find_last (\<lambda>r. ro_organization_id r = org \<and> ro_model r = model) (so_routes base)"
    by (rule last_with_route) (use assms in auto)
  have filt: "find_last (\<lambda>r. ro_model r = model) (filter (\<lambda>r. ro_organization_id r = org) rs) =
      find_last (\<lambda>r. ro_organization_id r = org \<and> ro_model r = model) rs" for rs
    by (induction rs) (auto split: option.splits)
  have stamp: "find_last (\<lambda>r. ro_model r = model) (map (stamp_route org) rs) =
      map_option (stamp_route org) (find_last (\<lambda>r. ro_model r = model) rs)" for rs
    by (induction rs) (auto simp: stamp_route_def split: option.splits)
  have "gm_get (sn_routes (regional_snapshot reg now base ms ovs)) (route_key org model) =
      find_last (\<lambda>r. ro_organization_id r = org \<and> ro_model r = model) (concat (map rows (allowed_orgs ms)))"
    unfolding regional_snapshot_simps build_region_source_rows [OF assms(1,2)] gm_get_index_by rows_def [symmetric]
    by (rule last_with_route [OF assms(4) colon])
  also have "\<dots> = (if org \<in> bound_orgs ms then find_last (\<lambda>r. ro_model r = model) (rows org) else None)"
    by (subst find_last_rows) (auto simp: set_allowed_orgs bound_orgs_def dest: rows_org)
  also have "org \<in> bound_orgs ms \<Longrightarrow> find_last (\<lambda>r. ro_model r = model) (rows org) =
      (case effective_overlay ovs org of
         Some p \<Rightarrow> map_option (stamp_route org) (find_last (\<lambda>r. ro_model r = model) (olp_routes p))
       | None \<Rightarrow> gm_get (sn_routes (compile reg now base)) (route_key org model))"
    using assms(3) by (auto simp: rows_def region_rows_def hub_rows_def filt stamp gm_get_index_by hub split: option.splits)
  ultimately show ?thesis by simp
qed

section \<open>Providers\<close>

lemma gm_get_provider_pool:
  "gm_get (provider_pool ps ovs) i =
     (case find_last (\<lambda>p. pv_id p = i) (concat (map (\<lambda>v. olp_providers (rco_payload v)) ovs)) of
        Some p \<Rightarrow> Some p | None \<Rightarrow> find_last (\<lambda>p. pv_id p = i) ps)"
proof -
  have "last_with (\<lambda>p. Some (pv_id p, p)) xs i = find_last (\<lambda>p. pv_id p = i) xs" for xs :: "provider list"
    by (rule last_with_find_last_id) auto
  then show ?thesis by (simp add: provider_pool_def gm_get_index_by_acc gm_get_index_by split: option.splits)
qed

lemma provider_pool_id: "gm_get (provider_pool ps ovs) i = Some p \<Longrightarrow> pv_id p = i"
  by (auto simp: gm_get_provider_pool dest: find_last_SomeD split: option.splits)

lemma find_last_map_filter:
  assumes "\<And>j p. f j = Some p \<Longrightarrow> pv_id p = j"
  shows "find_last (\<lambda>p. pv_id p = i) (List.map_filter f xs) = (if i \<in> set xs then f i else None)"
  by (induction xs) (auto simp: map_filter_simps dest: assms split: option.splits)

lemma set_fold_insert: "set (fold (\<lambda>i acc. if i \<in> set acc then acc else acc @ [i]) xs acc) = set acc \<union> set xs"
  by (induction xs arbitrary: acc) auto

lemma set_fold_needs:
  "set (fold (\<lambda>org acc. fold (\<lambda>i acc. if i \<in> set acc then acc else acc @ [i]) (f org) acc) orgs acc) =
     set acc \<union> (\<Union>org\<in>set orgs. set (f org))"
  by (induction orgs arbitrary: acc) (auto simp: set_fold_insert)

lemma regional_provider:
  assumes "r \<in> set (so_routes (fst (build_region_source base ms ovs)))"
  shows "gm_get (sn_providers (regional_snapshot reg now base ms ovs)) (ro_provider_id r) =
     map_option (normalized_provider reg) (gm_get (provider_pool (so_providers base) ovs) (ro_provider_id r))"
proof -
  define sl where "sl org = region_slice (fst (index_base_by_org base)) (overlay_by_org ovs) org" for org
  have "so_routes (fst (build_region_source base ms ovs)) = concat (map (osl_routes \<circ> sl) (allowed_orgs ms))"
    by (simp add: build_region_source_def Let_def case_prod_beta so_fold_add_slice empty_source_def sl_def comp_def)
  with assms have need: "ro_provider_id r \<in> (\<Union>org\<in>set (allowed_orgs ms). set (slice_needs (sl org)))"
    by (auto simp: slice_needs_def)
  have ps: "snd (index_base_by_org base) = so_providers base" by (simp add: index_base_by_org_def Let_def)
  show ?thesis
    unfolding regional_snapshot_simps gm_get_index_by last_with_provider
    using need by (simp add: build_region_source_def Let_def case_prod_beta ps set_fold_needs sl_def
        find_last_map_filter [OF provider_pool_id])
qed

text \<open>
  An overlay stored for one organization changes where another organization's traffic goes.
  The provider pool of a region takes the providers of every stored overlay, whoever it belongs
  to and whether or not that organization is still bound, and they replace the hub's providers
  of the same identifier: a route served in the region to organization \<open>o1\<close> reaches the base URL
  that the overlay of \<open>o2\<close> gives.
\<close>

theorem overlay_replaces_foreign_provider:
  assumes "gm_get (sn_routes (regional_snapshot reg now base ms ovs)) key = Some r"
    and "find_last (\<lambda>p. pv_id p = ro_provider_id r) (concat (map (\<lambda>v. olp_providers (rco_payload v)) ovs)) = Some p"
  shows "gm_get (sn_providers (regional_snapshot reg now base ms ovs)) (ro_provider_id r) =
     Some (normalized_provider reg p)"
proof -
  have "r \<in> set (so_routes (fst (build_region_source base ms ovs)))"
    using assms(1) unfolding regional_snapshot_simps by (rule index_by_value) (rule row_values)
  then show ?thesis using assms(2) by (simp add: regional_provider gm_get_provider_pool)
qed

subsection \<open>Concrete instances\<close>

definition demo_region_provider :: "string \<Rightarrow> string \<Rightarrow> provider" where
  "demo_region_provider i url = \<lparr>pv_id = i, pv_type = ''openai'', pv_base_url = url, pv_api_key_env = [], pv_name = [],
     pv_capabilities = no_caps, pv_config = None, pv_inline_api_key = []\<rparr>"

definition demo_region_route :: "string \<Rightarrow> string \<Rightarrow> string \<Rightarrow> route" where
  "demo_region_route org model prov = \<lparr>ro_organization_id = org, ro_model = model, ro_provider_id = prov, ro_target_model = model,
     ro_fallbacks = [], ro_retry = None, ro_routing_strategy = [], ro_weight = 0\<rparr>"

definition demo_region_base :: source where
  "demo_region_base = empty_source\<lparr>
     so_api_keys := [zero_api_key\<lparr>ak_key_hash := ''6131'', ak_organization_id := ''o1''\<rparr>,
                     zero_api_key\<lparr>ak_key_hash := ''6132'', ak_organization_id := ''o2''\<rparr>],
     so_providers := [demo_region_provider ''p1'' ''https://hub.example''],
     so_routes := [demo_region_route ''o1'' ''m'' ''p1'', demo_region_route ''o2'' ''m'' ''p1'']\<rparr>"

definition demo_membership :: "string \<Rightarrow> string \<Rightarrow> region_membership" where
  "demo_membership org st = \<lparr>orm_organization_id = org, orm_region_id = ''r'', orm_status = st,
     orm_created_at = 0, orm_updated_at = 0\<rparr>"

definition demo_region_overlay :: region_overlay where
  "demo_region_overlay = \<lparr>rco_organization_id = ''o2'', rco_region_id = ''r'',
     rco_payload = empty_payload\<lparr>olp_providers := [demo_region_provider ''p1'' ''https://other.example'']\<rparr>,
     rco_created_at = 0, rco_updated_at = 0\<rparr>"

definition demo_region_members :: "region_membership list" where
  "demo_region_members = [demo_membership ''o1'' ''active'', demo_membership ''o2'' ''disabled'']"

lemma demo_bound_orgs: "bound_orgs demo_region_members = {''o1''}"
  by (simp add: bound_orgs_filter demo_region_members_def demo_membership_def MembershipStatusActive_def)

lemma demo_region_wf: "gm_wf (so_default_retries demo_region_base)" "gm_wf (so_object_stores demo_region_base)"
  by (simp_all add: demo_region_base_def empty_source_def)

theorem overlay_replaces_foreign_provider_witness:
  "orm_status (demo_region_members ! 1) = MembershipStatusDisabled \<and>
   map_option pv_base_url (gm_get (sn_providers (regional_snapshot [] 0 demo_region_base demo_region_members [demo_region_overlay])) ''p1'') =
     Some ''https://other.example''"
proof -
  have "gm_get (sn_routes (regional_snapshot [] 0 demo_region_base demo_region_members [demo_region_overlay])) ''o1::m'' =
      Some (demo_region_route ''o1'' ''m'' ''p1'')" by code_simp
  moreover have "find_last (\<lambda>p. pv_id p = ''p1'') (concat (map (\<lambda>v. olp_providers (rco_payload v)) [demo_region_overlay])) =
      Some (demo_region_provider ''p1'' ''https://other.example'')"
    by (simp add: demo_region_overlay_def empty_payload_def demo_region_provider_def)
  ultimately show ?thesis
    using overlay_replaces_foreign_provider [of "[]" 0 demo_region_base demo_region_members "[demo_region_overlay]"
        "''o1::m''" "demo_region_route ''o1'' ''m'' ''p1''" "demo_region_provider ''p1'' ''https://other.example''"]
    by (simp add: demo_region_route_def demo_region_provider_def normalized_provider_def demo_region_members_def demo_membership_def MembershipStatusDisabled_def)
qed

theorem regional_snapshot_bound_only_witness:
  "\<exists>k. gm_get (sn_api_keys (regional_snapshot [] 0 demo_region_base demo_region_members [demo_region_overlay])) ''6131'' = Some k \<and>
     ak_organization_id k \<in> {''o1''}"
proof -
  have "gm_get (sn_api_keys (regional_snapshot [] 0 demo_region_base demo_region_members [demo_region_overlay])) ''6131'' =
    Some (so_api_keys demo_region_base ! 0)" by code_simp
  then show ?thesis
    using regional_snapshot_bound_only [OF demo_region_wf refl, of "[]" 0 demo_region_members "[demo_region_overlay]"]
    unfolding demo_bound_orgs by blast
qed

theorem regional_key_refines_hub_witness:
  "lookup_key id (Some (regional_snapshot [] 0 demo_region_base demo_region_members [])) ''a1'' \<noteq> None \<and>
   lookup_key id (Some (regional_snapshot [] 0 demo_region_base demo_region_members [])) ''a2'' = None \<and>
   lookup_key id (Some (compile [] 0 demo_region_base)) ''a2'' \<noteq> None"
proof -
  have d: "distinct (map ak_key_hash (so_api_keys demo_region_base))" by code_simp
  have o: "[] \<notin> bound_orgs demo_region_members" by (simp add: demo_bound_orgs)
  have k: "hash_key id ''a1'' = ''6131''" "hash_key id ''a2'' = ''6132''"
    by (simp_all add: hash_key_def hex_encode_def hex_digit_def char_of_def bit_0)
  then have h: "hash_key id ''a1'' \<noteq> []" "hash_key id ''a2'' \<noteq> []" by simp_all
  have "gm_get (sn_api_keys (compile [] 0 demo_region_base)) ''6131'' = Some (so_api_keys demo_region_base ! 0)"
    "gm_get (sn_api_keys (compile [] 0 demo_region_base)) ''6132'' = Some (so_api_keys demo_region_base ! 1)" by code_simp+
  with k have g: "lookup_key id (Some (compile [] 0 demo_region_base)) ''a1'' = Some (so_api_keys demo_region_base ! 0)"
    "lookup_key id (Some (compile [] 0 demo_region_base)) ''a2'' = Some (so_api_keys demo_region_base ! 1)"
    by (simp_all add: lookup_key_def)
  show ?thesis
    using g regional_key_refines_hub [OF demo_region_wf d o h(1), of "[]" 0 "[]"]
      regional_key_refines_hub [OF demo_region_wf d o h(2), of "[]" 0 "[]"]
    by (simp add: demo_bound_orgs demo_region_base_def zero_api_key_def)
qed

theorem regional_route_refines_hub_witness:
  "gm_get (sn_routes (regional_snapshot [] 0 demo_region_base demo_region_members [])) (route_key ''o1'' ''m'') =
     Some (demo_region_route ''o1'' ''m'' ''p1'') \<and>
   gm_get (sn_routes (regional_snapshot [] 0 demo_region_base demo_region_members [])) (route_key ''o2'' ''m'') = None"
proof -
  have r: "\<forall>r\<in>set (so_routes demo_region_base). CHR '':'' \<notin> set (ro_organization_id r)" by code_simp
  have o: "[] \<notin> bound_orgs demo_region_members" "\<forall>v\<in>bound_orgs demo_region_members. CHR '':'' \<notin> set v"
    by (simp_all add: demo_bound_orgs)
  have c: "CHR '':'' \<notin> set ''o1''" "CHR '':'' \<notin> set ''o2''" by simp_all
  have hub: "gm_get (sn_routes (compile [] 0 demo_region_base)) (route_key ''o1'' ''m'') = Some (demo_region_route ''o1'' ''m'' ''p1'')"
    by code_simp
  show ?thesis
    using hub regional_route_refines_hub [OF demo_region_wf o(1) c(1) r o(2), of "[]" 0 "[]" "''m''"]
      regional_route_refines_hub [OF demo_region_wf o(1) c(2) r o(2), of "[]" 0 "[]" "''m''"]
    by (simp add: demo_bound_orgs effective_overlay_def)
qed

end
