(* ===== verification/Regions.thy ===== *)
theory Regions
  imports Region_Source Tenancy
begin

text \<open>
  Regions, their gateway deployments, memberships and overlays: the entities and services of
  \<^verbatim>\<open>src/internal/regions\<close> (\<^verbatim>\<open>types.go\<close>, \<^verbatim>\<open>service.go\<close>) over the tables of
  \<^verbatim>\<open>src/internal/adapters/postgres/regions.go\<close>. Identifiers, raw join tokens and the clock are
  arguments; \<open>sha\<close> is SHA-256. The same record carries the federation tables that
  \<^verbatim>\<open>Federation\<close> uses, since the hub's operations also advance the federation revision.
\<close>

section \<open>Entities\<close>

definition RegionStatusActive :: string where "RegionStatusActive = ''active''"
definition RegionStatusDraining :: string where "RegionStatusDraining = ''draining''"
definition RegionStatusDisabled :: string where "RegionStatusDisabled = ''disabled''"

definition DeploymentStatusPending :: string where "DeploymentStatusPending = ''pending''"
definition DeploymentStatusHealthy :: string where "DeploymentStatusHealthy = ''healthy''"
definition DeploymentStatusStale :: string where "DeploymentStatusStale = ''stale''"
definition DeploymentStatusDisabled :: string where "DeploymentStatusDisabled = ''disabled''"

lemmas region_status_defs = RegionStatusActive_def RegionStatusDraining_def RegionStatusDisabled_def
lemmas deployment_status_defs = DeploymentStatusPending_def DeploymentStatusHealthy_def
  DeploymentStatusStale_def DeploymentStatusDisabled_def

definition DefaultHeartbeatTTL :: duration where "DefaultHeartbeatTTL = 2 * minute"
definition max_region_slug_len :: nat where "max_region_slug_len = 64"

record region =
  rgn_id :: string
  rgn_slug :: string
  rgn_name :: string
  rgn_status :: string
  rgn_created_at :: gotime
  rgn_updated_at :: gotime

record deployment =
  gd_id :: string
  gd_region_id :: string
  gd_name :: string
  gd_public_base_url :: string
  gd_join_token_hash :: string
  gd_status :: string
  gd_last_seen_at :: "gotime option"
  gd_reported_version :: int
  gd_reported_build :: string
  gd_created_at :: gotime
  gd_updated_at :: gotime

definition normalize_region_slug :: "string \<Rightarrow> string" where
  "normalize_region_slug slug = to_lower (trim_space slug)"

definition validate_region_slug :: "string \<Rightarrow> unit res" where
  "validate_region_slug slug0 =
     (let slug = normalize_region_slug slug0 in
      if slug = [] then Inl (invalid_request ''slug is required'')
      else if length slug > max_region_slug_len then Inl (invalid_request ''slug must be at most 64 characters'')
      else if list_all slug_char slug then Inr ()
      else Inl (invalid_request ''slug must be lowercase alphanumeric with - or _''))"

definition validate_region_status :: "string \<Rightarrow> unit res" where
  "validate_region_status status =
     (if status = RegionStatusActive \<or> status = RegionStatusDraining \<or> status = RegionStatusDisabled then Inr ()
      else Inl (invalid_request ''status must be active, draining, or disabled''))"

definition validate_deployment_status :: "string \<Rightarrow> unit res" where
  "validate_deployment_status status =
     (if status = DeploymentStatusPending \<or> status = DeploymentStatusHealthy \<or>
         status = DeploymentStatusStale \<or> status = DeploymentStatusDisabled then Inr ()
      else Inl (invalid_request ''status must be pending, healthy, stale, or disabled''))"

definition new_region :: "string \<Rightarrow> string \<Rightarrow> string \<Rightarrow> gotime \<Rightarrow> region res" where
  "new_region i slug0 name0 now =
     (let name = trim_space name0; slug = normalize_region_slug slug0 in
      if i = [] then Inl (invalid_request ''id required'')
      else if name = [] then Inl (invalid_request ''name required'')
      else bind_res (validate_region_slug slug) (\<lambda>_.
        Inr \<lparr>rgn_id = i, rgn_slug = slug, rgn_name = name, rgn_status = RegionStatusActive,
             rgn_created_at = now, rgn_updated_at = now\<rparr>))"

definition new_gateway_deployment ::
  "string \<Rightarrow> string \<Rightarrow> string \<Rightarrow> string \<Rightarrow> string \<Rightarrow> gotime \<Rightarrow> deployment res" where
  "new_gateway_deployment i region name0 url0 h now =
     (let name = trim_space name0; url = trim_space url0 in
      if i = [] \<or> region = [] then Inl (invalid_request ''id and region_id required'')
      else if name = [] then Inl (invalid_request ''name required'')
      else if h = [] then Inl (invalid_request ''join_token_hash required'')
      else Inr \<lparr>gd_id = i, gd_region_id = region, gd_name = name, gd_public_base_url = url,
             gd_join_token_hash = h, gd_status = DeploymentStatusPending, gd_last_seen_at = None,
             gd_reported_version = 0, gd_reported_build = [], gd_created_at = now, gd_updated_at = now\<rparr>)"

text \<open>\<^verbatim>\<open>Time.Sub\<close> saturates at the range of a duration.\<close>

definition time_sub :: "gotime \<Rightarrow> gotime \<Rightarrow> duration" where
  "time_sub t u = max (- (2 ^ 63)) (min (2 ^ 63 - 1) (t - u))"

definition effective_status :: "deployment \<Rightarrow> gotime \<Rightarrow> duration \<Rightarrow> string" where
  "effective_status d now ttl0 =
     (if gd_status d = DeploymentStatusDisabled \<or> gd_status d = DeploymentStatusPending then gd_status d
      else (let ttl = (if ttl0 \<le> 0 then DefaultHeartbeatTTL else ttl0) in
        case gd_last_seen_at d of
          None \<Rightarrow> (if gd_status d = DeploymentStatusHealthy then DeploymentStatusStale else gd_status d)
        | Some seen \<Rightarrow>
            if gd_status d = DeploymentStatusHealthy \<or> gd_status d = DeploymentStatusStale then
              (if time_sub now seen > ttl then DeploymentStatusStale else DeploymentStatusHealthy)
            else gd_status d))"

section \<open>Tables\<close>

record peer =
  pe_id :: string
  pe_name :: string
  pe_region_id :: string
  pe_base_url :: string
  pe_status :: string
  pe_join_token_hash :: string
  pe_join_token_enc :: string
  pe_last_sync_at :: "gotime option"
  pe_last_sync_cursor :: int
  pe_last_sync_error :: string
  pe_created_at :: gotime
  pe_updated_at :: gotime

record sync_state =
  ss_region_slug :: string
  ss_cursor :: int
  ss_last_sync_at :: "gotime option"
  ss_last_sync_error :: string
  ss_updated_at :: gotime

text \<open>
  Memberships and overlays are keyed by organization and region. \<open>rdb_org_names\<close> is the part of
  the organizations table these operations touch: identifier and name.
\<close>

record region_db =
  rdb_org_names :: "(string, string) gomap"
  rdb_regions :: "(string, region) gomap"
  rdb_deployments :: "(string, deployment) gomap"
  rdb_memberships :: "(string \<times> string, region_membership) gomap"
  rdb_overlays :: "(string \<times> string, region_overlay) gomap"
  rdb_revision :: int
  rdb_peers :: "(string, peer) gomap"
  rdb_sync :: "(string, sync_state) gomap"

definition empty_region_db :: region_db where
  "empty_region_db = \<lparr>rdb_org_names = [], rdb_regions = [], rdb_deployments = [], rdb_memberships = [],
     rdb_overlays = [], rdb_revision = 0, rdb_peers = [], rdb_sync = []\<rparr>"

type_synonym 'a rop = "('a, region_db) storeop"

subsection \<open>Regions\<close>

definition rs_create_region :: "region \<Rightarrow> unit rop" where
  "rs_create_region r db =
     (if gm_get (rdb_regions db) (rgn_id r) \<noteq> None \<or>
         (\<exists>x\<in>set (map snd (rdb_regions db)). rgn_slug x = rgn_slug r) then (Inl key_violation, db)
      else (Inr (), db\<lparr>rdb_regions := gm_put (rgn_id r) r (rdb_regions db)\<rparr>))"

definition rs_get_region :: "region_db \<Rightarrow> string \<Rightarrow> region res" where
  "rs_get_region db i = found (gm_get (rdb_regions db) i)"

definition rs_get_region_by_slug :: "region_db \<Rightarrow> string \<Rightarrow> region res" where
  "rs_get_region_by_slug db slug = found (find (\<lambda>r. rgn_slug r = slug) (map snd (rdb_regions db)))"

definition rs_list_regions :: "region_db \<Rightarrow> region list" where
  "rs_list_regions db = sort_key rgn_slug (map snd (rdb_regions db))"

definition rs_update_region :: "string \<Rightarrow> string \<Rightarrow> string \<Rightarrow> gotime \<Rightarrow> region rop" where
  "rs_update_region i name status now db =
     (case gm_get (rdb_regions db) i of
        None \<Rightarrow> (Inl (sentinel ErrNotFound), db)
      | Some r \<Rightarrow> (let r' = r\<lparr>rgn_name := name, rgn_status := status, rgn_updated_at := now\<rparr>
          in (Inr r', db\<lparr>rdb_regions := gm_put i r' (rdb_regions db)\<rparr>)))"

definition rs_count_deployments :: "region_db \<Rightarrow> string \<Rightarrow> nat" where
  "rs_count_deployments db region = length (filter (\<lambda>d. gd_region_id d = region) (map snd (rdb_deployments db)))"

subsection \<open>Deployments\<close>

definition rs_insert_deployment :: "deployment \<Rightarrow> unit rop" where
  "rs_insert_deployment d db =
     (if gm_get (rdb_deployments db) (gd_id d) \<noteq> None \<or>
         (\<exists>x\<in>set (map snd (rdb_deployments db)). gd_join_token_hash x = gd_join_token_hash d) then (Inl key_violation, db)
      else if gm_get (rdb_regions db) (gd_region_id d) = None then (Inl foreign_key_violation, db)
      else (Inr (), db\<lparr>rdb_deployments := gm_put (gd_id d) d (rdb_deployments db)\<rparr>))"

definition rs_get_deployment :: "region_db \<Rightarrow> string \<Rightarrow> deployment res" where
  "rs_get_deployment db i = found (gm_get (rdb_deployments db) i)"

definition rs_list_deployments_by_region :: "region_db \<Rightarrow> string \<Rightarrow> deployment list" where
  "rs_list_deployments_by_region db region =
     sort_key gd_name (filter (\<lambda>d. gd_region_id d = region) (map snd (rdb_deployments db)))"

definition rs_get_deployment_by_hash :: "region_db \<Rightarrow> string \<Rightarrow> deployment res" where
  "rs_get_deployment_by_hash db h = found (find (\<lambda>d. gd_join_token_hash d = h) (map snd (rdb_deployments db)))"

text \<open>One row updated by its key; no row is \<^verbatim>\<open>kernel.ErrNotFound\<close>.\<close>

definition modify_deployment :: "string \<Rightarrow> (deployment \<Rightarrow> deployment) \<Rightarrow> unit rop" where
  "modify_deployment i f db =
     (case gm_get (rdb_deployments db) i of
        None \<Rightarrow> (Inl (sentinel ErrNotFound), db)
      | Some d \<Rightarrow> (Inr (), db\<lparr>rdb_deployments := gm_put i (f d) (rdb_deployments db)\<rparr>))"

text \<open>The join token hash has a unique index.\<close>

definition rs_update_join_token_hash :: "string \<Rightarrow> string \<Rightarrow> gotime \<Rightarrow> unit rop" where
  "rs_update_join_token_hash i h now db =
     (if gm_get (rdb_deployments db) i \<noteq> None \<and>
         (\<exists>x\<in>set (map snd (rdb_deployments db)). gd_id x \<noteq> i \<and> gd_join_token_hash x = h) then (Inl key_violation, db)
      else modify_deployment i (\<lambda>d. d\<lparr>gd_join_token_hash := h, gd_updated_at := now\<rparr>) db)"

definition rs_record_heartbeat :: "string \<Rightarrow> int \<Rightarrow> string \<Rightarrow> gotime \<Rightarrow> unit rop" where
  "rs_record_heartbeat i version build t =
     modify_deployment i (\<lambda>d. d\<lparr>gd_status := DeploymentStatusHealthy, gd_last_seen_at := Some t,
       gd_reported_version := version, gd_reported_build := build, gd_updated_at := t\<rparr>)"

definition rs_update_deployment_status :: "string \<Rightarrow> string \<Rightarrow> gotime \<Rightarrow> unit rop" where
  "rs_update_deployment_status i status now =
     modify_deployment i (\<lambda>d. d\<lparr>gd_status := status, gd_updated_at := now\<rparr>)"

subsection \<open>Memberships and overlays\<close>

definition rs_list_memberships_by_region :: "region_db \<Rightarrow> string \<Rightarrow> region_membership list" where
  "rs_list_memberships_by_region db region =
     sort_key orm_organization_id (map snd (filter (\<lambda>((_, g), _). g = region) (rdb_memberships db)))"

definition rs_list_memberships_by_org :: "region_db \<Rightarrow> string \<Rightarrow> region_membership list" where
  "rs_list_memberships_by_org db org =
     sort_key orm_region_id (map snd (filter (\<lambda>((o', _), _). o' = org) (rdb_memberships db)))"

definition rs_get_membership :: "region_db \<Rightarrow> string \<Rightarrow> string \<Rightarrow> region_membership res" where
  "rs_get_membership db region org = found (gm_get (rdb_memberships db) (org, region))"

definition rs_upsert_membership :: "region_membership \<Rightarrow> unit rop" where
  "rs_upsert_membership m db =
     (let k = (orm_organization_id m, orm_region_id m) in
      case gm_get (rdb_memberships db) k of
        Some old \<Rightarrow> (Inr (), db\<lparr>rdb_memberships := gm_put k
            (old\<lparr>orm_status := orm_status m, orm_updated_at := orm_updated_at m\<rparr>) (rdb_memberships db)\<rparr>)
      | None \<Rightarrow>
          if gm_get (rdb_org_names db) (orm_organization_id m) = None \<or> gm_get (rdb_regions db) (orm_region_id m) = None
          then (Inl foreign_key_violation, db)
          else (Inr (), db\<lparr>rdb_memberships := gm_put k m (rdb_memberships db)\<rparr>))"

definition rs_delete_membership :: "string \<Rightarrow> string \<Rightarrow> unit rop" where
  "rs_delete_membership region org db =
     (if gm_get (rdb_memberships db) (org, region) = None then (Inl (sentinel ErrNotFound), db)
      else (Inr (), db\<lparr>rdb_memberships := gm_del (org, region) (rdb_memberships db)\<rparr>))"

text \<open>
  An overlay's payload is stored as JSON; keys given inline carry the tag \<^verbatim>\<open>json:"-"\<close> and are
  dropped, every other field survives the round trip.
\<close>

definition stored_payload :: "overlay_payload \<Rightarrow> overlay_payload" where
  "stored_payload p = p\<lparr>
     olp_providers := map (\<lambda>v. v\<lparr>pv_inline_api_key := []\<rparr>) (olp_providers p),
     olp_mcp_backends := map (\<lambda>v. v\<lparr>mb_inline_api_key := []\<rparr>) (olp_mcp_backends p),
     olp_a2a_agents := map (\<lambda>v. v\<lparr>aa_inline_api_key := []\<rparr>) (olp_a2a_agents p)\<rparr>"

definition rs_get_overlay :: "region_db \<Rightarrow> string \<Rightarrow> string \<Rightarrow> region_overlay res" where
  "rs_get_overlay db region org = found (gm_get (rdb_overlays db) (org, region))"

definition rs_list_overlays_by_region :: "region_db \<Rightarrow> string \<Rightarrow> region_overlay list" where
  "rs_list_overlays_by_region db region =
     sort_key rco_organization_id (map snd (filter (\<lambda>((_, g), _). g = region) (rdb_overlays db)))"

definition rs_upsert_overlay :: "region_overlay \<Rightarrow> unit rop" where
  "rs_upsert_overlay v db =
     (let k = (rco_organization_id v, rco_region_id v); p = stored_payload (rco_payload v) in
      case gm_get (rdb_overlays db) k of
        Some old \<Rightarrow> (Inr (), db\<lparr>rdb_overlays := gm_put k
            (old\<lparr>rco_payload := p, rco_updated_at := rco_updated_at v\<rparr>) (rdb_overlays db)\<rparr>)
      | None \<Rightarrow>
          if gm_get (rdb_org_names db) (rco_organization_id v) = None \<or> gm_get (rdb_regions db) (rco_region_id v) = None
          then (Inl foreign_key_violation, db)
          else (Inr (), db\<lparr>rdb_overlays := gm_put k (v\<lparr>rco_payload := p\<rparr>) (rdb_overlays db)\<rparr>))"

definition rs_delete_overlay :: "string \<Rightarrow> string \<Rightarrow> unit rop" where
  "rs_delete_overlay region org db = (Inr (), db\<lparr>rdb_overlays := gm_del (org, region) (rdb_overlays db)\<rparr>)"

section \<open>Services\<close>

definition svc_create_region :: "string \<Rightarrow> string \<Rightarrow> string \<Rightarrow> gotime \<Rightarrow> region rop" where
  "svc_create_region i slug name now =
     db_check (new_region i slug name now) (\<lambda>r db.
       case rs_get_region_by_slug db (rgn_slug r) of
         Inr _ \<Rightarrow> (Inl (invalid_request ''region slug already exists''), db)
       | Inl e \<Rightarrow>
           if err_is e ErrNotFound then db_bind (rs_create_region r) (\<lambda>_ db. (Inr r, db)) db
           else (Inl e, db))"

definition svc_update_region :: "string \<Rightarrow> string \<Rightarrow> string \<Rightarrow> gotime \<Rightarrow> region rop" where
  "svc_update_region i name0 status0 now db =
     db_check (rs_get_region db i) (\<lambda>cur.
       let name1 = trim_space name0; status1 = trim_space status0;
           name = (if name1 = [] then rgn_name cur else name1);
           status = (if status1 = [] then rgn_status cur else status1)
       in db_check (validate_region_status status) (\<lambda>_.
            if name = [] then (\<lambda>db. (Inl (invalid_request ''name required''), db))
            else rs_update_region i name status now)) db"

record deployment_with_token =
  dt_deployment :: deployment
  dt_join_token :: string

definition hash_opaque_token :: "(string \<Rightarrow> string) \<Rightarrow> string \<Rightarrow> string" where
  "hash_opaque_token sha raw = hex_encode (sha raw)"

definition svc_register_deployment ::
  "(string \<Rightarrow> string) \<Rightarrow> string \<Rightarrow> string \<Rightarrow> string \<Rightarrow> string \<Rightarrow> string \<Rightarrow> gotime \<Rightarrow> deployment_with_token rop" where
  "svc_register_deployment sha raw i region name url now db =
     db_check (rs_get_region db region) (\<lambda>r.
       if rgn_status r = RegionStatusDisabled then (\<lambda>db. (Inl (invalid_request ''region is disabled''), db))
       else db_check (new_gateway_deployment i region name url (hash_opaque_token sha raw) now) (\<lambda>d.
         db_bind (rs_insert_deployment d) (\<lambda>_ db. (Inr \<lparr>dt_deployment = d, dt_join_token = raw\<rparr>, db)))) db"

definition svc_rotate_join_token ::
  "(string \<Rightarrow> string) \<Rightarrow> string \<Rightarrow> string \<Rightarrow> gotime \<Rightarrow> deployment_with_token rop" where
  "svc_rotate_join_token sha raw i now db =
     db_check (rs_get_deployment db i) (\<lambda>d.
       db_bind (rs_update_join_token_hash i (hash_opaque_token sha raw) now) (\<lambda>_ db.
         (Inr \<lparr>dt_deployment = d\<lparr>gd_join_token_hash := hash_opaque_token sha raw, gd_updated_at := now\<rparr>,
               dt_join_token = raw\<rparr>, db))) db"

definition svc_record_heartbeat :: "string \<Rightarrow> string \<Rightarrow> int \<Rightarrow> string \<Rightarrow> gotime \<Rightarrow> deployment rop" where
  "svc_record_heartbeat i h version build now db =
     db_check (rs_get_deployment db i) (\<lambda>d.
       if gd_status d = DeploymentStatusDisabled then (\<lambda>db. (Inl (Err ErrUnauthorized ''deployment is disabled''), db))
       else if gd_join_token_hash d = [] \<or> gd_join_token_hash d \<noteq> h then (\<lambda>db. (Inl (sentinel ErrUnauthorized), db))
       else db_bind (rs_record_heartbeat i version (trim_space build) now) (\<lambda>_ db.
         (Inr (d\<lparr>gd_status := DeploymentStatusHealthy, gd_last_seen_at := Some now,
                 gd_reported_version := version, gd_reported_build := trim_space build, gd_updated_at := now\<rparr>), db))) db"

definition svc_authenticate_join_token :: "(string \<Rightarrow> string) \<Rightarrow> region_db \<Rightarrow> string \<Rightarrow> deployment res" where
  "svc_authenticate_join_token sha db raw0 =
     (let raw = trim_space raw0 in
      if raw = [] then Inl (sentinel ErrUnauthorized)
      else (case rs_get_deployment_by_hash db (hash_opaque_token sha raw) of
          Inl e \<Rightarrow> if err_is e ErrNotFound then Inl (sentinel ErrUnauthorized) else Inl e
        | Inr d \<Rightarrow> if gd_status d = DeploymentStatusDisabled then Inl (sentinel ErrUnauthorized) else Inr d))"

definition svc_list_deployments :: "region_db \<Rightarrow> string \<Rightarrow> duration \<Rightarrow> gotime \<Rightarrow> deployment list" where
  "svc_list_deployments db region ttl now =
     map (\<lambda>d. d\<lparr>gd_status := effective_status d now ttl\<rparr>) (rs_list_deployments_by_region db region)"

definition svc_get_deployment :: "region_db \<Rightarrow> string \<Rightarrow> duration \<Rightarrow> gotime \<Rightarrow> deployment res" where
  "svc_get_deployment db i ttl now =
     bind_res (rs_get_deployment db i) (\<lambda>d. Inr (d\<lparr>gd_status := effective_status d now ttl\<rparr>))"

definition svc_bind_org :: "string \<Rightarrow> string \<Rightarrow> string \<Rightarrow> gotime \<Rightarrow> region_membership rop" where
  "svc_bind_org region org status now db =
     db_check (rs_get_region db region) (\<lambda>r.
       if rgn_status r = RegionStatusDisabled then (\<lambda>db. (Inl (invalid_request ''region is disabled''), db))
       else db_check (new_org_region_membership org region status now) (\<lambda>m.
         db_bind (rs_upsert_membership m) (\<lambda>_ db. (Inr m, db)))) db"

definition svc_unbind_org :: "string \<Rightarrow> string \<Rightarrow> unit rop" where
  "svc_unbind_org region org db =
     db_check (rs_get_membership db region org) (\<lambda>_ db.
       rs_delete_membership region org (snd (rs_delete_overlay region org db))) db"

definition svc_put_overlay :: "string \<Rightarrow> string \<Rightarrow> overlay_payload \<Rightarrow> gotime \<Rightarrow> region_overlay rop" where
  "svc_put_overlay region org payload now db =
     db_check (rs_get_membership db region org) (\<lambda>m.
       if orm_status m \<noteq> MembershipStatusActive
       then (\<lambda>db. (Inl (invalid_request ''organization is not actively bound to region''), db))
       else db_check (new_region_config_overlay org region payload now) (\<lambda>v.
         db_bind (rs_upsert_overlay v) (\<lambda>_ db. (Inr v, db)))) db"

definition svc_delete_overlay :: "string \<Rightarrow> string \<Rightarrow> unit rop" where
  "svc_delete_overlay region org = rs_delete_overlay region org"

text \<open>The loop stops at the first failure with the number bound so far, keeping those bindings.\<close>

fun bind_all_loop :: "string \<Rightarrow> string list \<Rightarrow> gotime \<Rightarrow> nat \<Rightarrow> region_db \<Rightarrow> (nat \<times> err option) \<times> region_db" where
  "bind_all_loop region [] now n db = ((n, None), db)"
| "bind_all_loop region (org0 # orgs) now n db =
     (let org = trim_space org0 in
      if org = [] then bind_all_loop region orgs now n db
      else (case svc_bind_org region org MembershipStatusActive now db of
          (Inl e, db') \<Rightarrow> ((n, Some e), db')
        | (Inr _, db') \<Rightarrow> bind_all_loop region orgs now (Suc n) db'))"

definition svc_bind_all :: "string \<Rightarrow> string list \<Rightarrow> gotime \<Rightarrow> region_db \<Rightarrow> (nat \<times> err option) \<times> region_db" where
  "svc_bind_all region orgs now db =
     (case rs_get_region db region of
        Inl e \<Rightarrow> ((0, Some e), db)
      | Inr _ \<Rightarrow> bind_all_loop region orgs now 0 db)"

section \<open>Join tokens\<close>

definition deployments_unique :: "region_db \<Rightarrow> bool" where
  "deployments_unique db \<longleftrightarrow> gm_wf (rdb_deployments db) \<and>
     (\<forall>i d. gm_get (rdb_deployments db) i = Some d \<longrightarrow> gd_id d = i) \<and>
     (\<forall>i j d e. gm_get (rdb_deployments db) i = Some d \<longrightarrow> gm_get (rdb_deployments db) j = Some e \<longrightarrow>
        gd_join_token_hash d = gd_join_token_hash e \<longrightarrow> i = j)"

lemma deployment_by_hash:
  assumes "deployments_unique db"
  shows "rs_get_deployment_by_hash db h = Inr d \<longleftrightarrow>
     gm_get (rdb_deployments db) (gd_id d) = Some d \<and> gd_join_token_hash d = h"
proof -
  let ?rows = "map snd (rdb_deployments db)"
  have mem: "x \<in> set ?rows \<longleftrightarrow> gm_get (rdb_deployments db) (gd_id x) = Some x" for x
  proof
    assume "x \<in> set ?rows"
    then obtain i where "(i, x) \<in> set (rdb_deployments db)" by auto
    then have "gm_get (rdb_deployments db) i = Some x" using assms by (simp add: deployments_unique_def gm_get_mem)
    moreover from this assms have "gd_id x = i" by (simp add: deployments_unique_def)
    ultimately show "gm_get (rdb_deployments db) (gd_id x) = Some x" by simp
  next
    assume "gm_get (rdb_deployments db) (gd_id x) = Some x"
    then have "(gd_id x, x) \<in> set (rdb_deployments db)" by (rule gm_get_set)
    then have "snd (gd_id x, x) \<in> snd ` set (rdb_deployments db)" by (rule imageI)
    then show "x \<in> set ?rows" by simp
  qed
  have uniq: "x = y" if "x \<in> set ?rows" "y \<in> set ?rows" "gd_join_token_hash x = h" "gd_join_token_hash y = h" for x y
  proof -
    have "gd_id x = gd_id y" using assms that unfolding mem deployments_unique_def by metis
    with that(1,2) show ?thesis unfolding mem by (metis option.inject)
  qed
  have "find (\<lambda>x. gd_join_token_hash x = h) ?rows = Some d \<longleftrightarrow> d \<in> set ?rows \<and> gd_join_token_hash d = h"
  proof
    assume "find (\<lambda>x. gd_join_token_hash x = h) ?rows = Some d"
    then show "d \<in> set ?rows \<and> gd_join_token_hash d = h" by (auto simp: find_Some_iff)
  next
    assume d: "d \<in> set ?rows \<and> gd_join_token_hash d = h"
    then obtain e where e: "find (\<lambda>x. gd_join_token_hash x = h) ?rows = Some e"
      by (cases "find (\<lambda>x. gd_join_token_hash x = h) ?rows") (auto simp: find_None_iff)
    then have "e \<in> set ?rows" "gd_join_token_hash e = h" by (auto simp: find_Some_iff)
    with d e uniq show "find (\<lambda>x. gd_join_token_hash x = h) ?rows = Some d" by blast
  qed
  then show ?thesis unfolding rs_get_deployment_by_hash_def found_Inr_iff mem .
qed

text \<open>Every operation on deployments keeps the table keyed and its tokens unique.\<close>

lemma deployments_unique_put:
  assumes "deployments_unique db" and "gd_id d = i"
    and "\<And>j e. gm_get (rdb_deployments db) j = Some e \<Longrightarrow> j \<noteq> i \<Longrightarrow> gd_join_token_hash e \<noteq> gd_join_token_hash d"
  shows "deployments_unique (db\<lparr>rdb_deployments := gm_put i d (rdb_deployments db)\<rparr>)"
proof -
  have u: "x = y" if "gm_get (gm_put i d (rdb_deployments db)) x = Some a" "gm_get (gm_put i d (rdb_deployments db)) y = Some b"
    "gd_join_token_hash a = gd_join_token_hash b" for x y a b
  proof (cases "x = i \<or> y = i")
    case True
    with that assms(3) show ?thesis by (auto split: if_splits)
  next
    case False
    with that(1,2) have "gm_get (rdb_deployments db) x = Some a" "gm_get (rdb_deployments db) y = Some b" by simp_all
    with that(3) assms(1) show ?thesis unfolding deployments_unique_def by blast
  qed
  have "gm_wf (gm_put i d (rdb_deployments db))" using assms(1) by (simp add: deployments_unique_def)
  moreover have "gd_id e = j" if "gm_get (gm_put i d (rdb_deployments db)) j = Some e" for j e
    using assms(1,2) that by (auto simp: deployments_unique_def split: if_splits)
  moreover have "rdb_deployments (db\<lparr>rdb_deployments := gm_put i d (rdb_deployments db)\<rparr>) = gm_put i d (rdb_deployments db)"
    by simp
  ultimately show ?thesis using u unfolding deployments_unique_def by (simp only: simp_thms) blast
qed

lemma rotated_join_token:
  assumes "deployments_unique db" and "svc_rotate_join_token sha raw i now db = (Inr dt, db')"
    and "trim_space raw = raw" and "raw \<noteq> []"
  shows "\<forall>other d. svc_authenticate_join_token sha db' other = Inr d \<and> gd_id d = i \<longrightarrow>
       hash_opaque_token sha (trim_space other) = hash_opaque_token sha raw"
    and "gd_status (dt_deployment dt) \<noteq> DeploymentStatusDisabled \<Longrightarrow>
       svc_authenticate_join_token sha db' (dt_join_token dt) = Inr (dt_deployment dt)"
proof -
  let ?h = "hash_opaque_token sha raw"
  from assms(2) obtain d where d: "gm_get (rdb_deployments db) i = Some d"
    by (auto simp: svc_rotate_join_token_def db_check_def rs_get_deployment_def found_def split: option.splits)
  have up: "rs_update_join_token_hash i ?h now db = (Inr (), db')"
    using assms(2) d by (auto simp: svc_rotate_join_token_def db_check_def rs_get_deployment_def db_bind_def
        split: prod.splits sum.splits)
  then have free: "\<not> (\<exists>x\<in>set (map snd (rdb_deployments db)). gd_id x \<noteq> i \<and> gd_join_token_hash x = ?h)"
    using d unfolding rs_update_join_token_hash_def by (metis Inl_Inr_False fst_conv option.distinct(1))
  define d' where "d' = d\<lparr>gd_join_token_hash := ?h, gd_updated_at := now\<rparr>"
  have db': "db' = db\<lparr>rdb_deployments := gm_put i d' (rdb_deployments db)\<rparr>"
  proof -
    have "rs_update_join_token_hash i ?h now db =
        modify_deployment i (\<lambda>d. d\<lparr>gd_join_token_hash := ?h, gd_updated_at := now\<rparr>) db"
      using free by (simp only: rs_update_join_token_hash_def simp_thms if_False)
    with up d show ?thesis by (simp add: modify_deployment_def d'_def)
  qed
  have dt: "dt = \<lparr>dt_deployment = d', dt_join_token = raw\<rparr>"
    using assms(2) d up by (simp add: svc_rotate_join_token_def db_check_def rs_get_deployment_def db_bind_def d'_def)
  have di: "gd_id d' = i" using assms(1) d by (simp add: d'_def deployments_unique_def)
  have others: "gd_join_token_hash e \<noteq> gd_join_token_hash d'" if "gm_get (rdb_deployments db) j = Some e" "j \<noteq> i" for j e
  proof -
    have "e \<in> set (map snd (rdb_deployments db))" using gm_get_set [OF that(1)] by force
    moreover have "gd_id e \<noteq> i" using assms(1) that by (simp add: deployments_unique_def)
    ultimately show ?thesis using free by (auto simp: d'_def)
  qed
  have u: "deployments_unique db'" unfolding db' by (rule deployments_unique_put [OF assms(1) di others])
  show "\<forall>other e. svc_authenticate_join_token sha db' other = Inr e \<and> gd_id e = i \<longrightarrow>
       hash_opaque_token sha (trim_space other) = hash_opaque_token sha raw"
  proof (intro allI impI)
    fix other e assume a: "svc_authenticate_join_token sha db' other = Inr e \<and> gd_id e = i"
    then have "rs_get_deployment_by_hash db' (hash_opaque_token sha (trim_space other)) = Inr e"
      by (auto simp: svc_authenticate_join_token_def Let_def split: if_splits sum.splits)
    then have "gm_get (rdb_deployments db') i = Some e" "gd_join_token_hash e = hash_opaque_token sha (trim_space other)"
      using a deployment_by_hash [OF u] by auto
    then show "hash_opaque_token sha (trim_space other) = ?h" by (auto simp: db' d'_def)
  qed
  show "svc_authenticate_join_token sha db' (dt_join_token dt) = Inr (dt_deployment dt)"
    if "gd_status (dt_deployment dt) \<noteq> DeploymentStatusDisabled"
  proof -
    have "rs_get_deployment_by_hash db' ?h = Inr d'"
      using deployment_by_hash [OF u] di by (simp add: db' d'_def)
    with that assms(3,4) show ?thesis by (simp add: svc_authenticate_join_token_def Let_def dt)
  qed
qed

text \<open>
  Rotating a deployment's join token revokes the old one. After a successful rotation no
  token other than the new one authenticates as that deployment, and the new one does unless the
  deployment is disabled; the raw token is returned only here, the table keeps its hash.
\<close>

theorem rotated_join_token_exclusive:
  assumes "deployments_unique db" and "svc_rotate_join_token sha raw i now db = (Inr dt, db')"
    and "trim_space raw = raw" and "raw \<noteq> []"
  shows "(\<forall>other d. svc_authenticate_join_token sha db' other = Inr d \<and> gd_id d = i \<longrightarrow>
       hash_opaque_token sha (trim_space other) = hash_opaque_token sha raw) \<and>
     (gd_status (dt_deployment dt) \<noteq> DeploymentStatusDisabled \<longrightarrow>
       svc_authenticate_join_token sha db' (dt_join_token dt) = Inr (dt_deployment dt))"
  using rotated_join_token [OF assms] by blast

text \<open>
  A heartbeat keeps a deployment healthy for exactly the heartbeat TTL. It is accepted only
  with the deployment's own token and not when the deployment is disabled; from then on the
  status shown is healthy until more than the TTL has passed, and stale after that.
\<close>

theorem heartbeat_healthy_for_ttl:
  assumes "svc_record_heartbeat i h version build now db = (Inr d, db')"
  shows "gm_get (rdb_deployments db') i = Some d \<and>
     (\<exists>d0. gm_get (rdb_deployments db) i = Some d0 \<and> gd_status d0 \<noteq> DeploymentStatusDisabled \<and>
        gd_join_token_hash d0 = h \<and> h \<noteq> []) \<and>
     effective_status d t 0 =
       (if time_sub t now > 120000000000 then DeploymentStatusStale else DeploymentStatusHealthy)"
proof -
  from assms obtain d0 where d0: "gm_get (rdb_deployments db) i = Some d0" "gd_status d0 \<noteq> DeploymentStatusDisabled"
    "gd_join_token_hash d0 = h" "h \<noteq> []"
    by (auto simp: svc_record_heartbeat_def db_check_def rs_get_deployment_def found_def split: option.splits if_splits)
  moreover from this assms have d: "gm_get (rdb_deployments db') i = Some d" "gd_status d = DeploymentStatusHealthy"
    "gd_last_seen_at d = Some now"
    by (auto simp: svc_record_heartbeat_def db_check_def db_bind_def rs_get_deployment_def rs_record_heartbeat_def
        modify_deployment_def)
  moreover have "effective_status d t 0 =
       (if time_sub t now > 120000000000 then DeploymentStatusStale else DeploymentStatusHealthy)"
    using d(2,3) by (simp add: effective_status_def deployment_status_defs DefaultHeartbeatTTL_def minute_def second_def)
  ultimately show ?thesis by blast
qed

definition demo_deployment :: deployment where
  "demo_deployment = \<lparr>gd_id = ''d'', gd_region_id = ''r'', gd_name = ''gw'', gd_public_base_url = [],
     gd_join_token_hash = ''6f6c64'', gd_status = ''pending'', gd_last_seen_at = None, gd_reported_version = 0,
     gd_reported_build = [], gd_created_at = 0, gd_updated_at = 0\<rparr>"

definition demo_deployments :: region_db where
  "demo_deployments = empty_region_db\<lparr>rdb_deployments := [(''d'', demo_deployment)]\<rparr>"

lemma demo_hash: "hash_opaque_token id ''new'' = ''6e6577''" "hash_opaque_token id ''old'' = ''6f6c64''"
  by (simp_all add: hash_opaque_token_def hex_encode_def hex_digit_def char_of_def bit_0)

lemma demo_tokens: "trim_space ''new'' = ''new''" "trim_space ''old'' = ''old''"
  by code_simp+

lemma demo_rotation:
  "\<exists>db'. svc_rotate_join_token id ''new'' ''d'' 1 demo_deployments =
     (Inr \<lparr>dt_deployment = demo_deployment\<lparr>gd_join_token_hash := ''6e6577'', gd_updated_at := 1\<rparr>,
           dt_join_token = ''new''\<rparr>, db')"
  by (simp add: svc_rotate_join_token_def demo_deployments_def rs_get_deployment_def db_check_def db_bind_def
      rs_update_join_token_hash_def modify_deployment_def demo_hash demo_deployment_def)

theorem rotated_join_token_exclusive_witness:
  "\<exists>dt db'. svc_rotate_join_token id ''new'' ''d'' 1 demo_deployments = (Inr dt, db') \<and>
     svc_authenticate_join_token id db' ''new'' = Inr (dt_deployment dt) \<and>
     svc_authenticate_join_token id db' ''old'' \<noteq> Inr (dt_deployment dt)"
proof -
  have u: "deployments_unique demo_deployments"
    by (auto simp: deployments_unique_def demo_deployments_def gm_wf_def demo_deployment_def split: if_splits)
  obtain dt db' where r: "svc_rotate_join_token id ''new'' ''d'' 1 demo_deployments = (Inr dt, db')"
    and n: "gd_status (dt_deployment dt) \<noteq> DeploymentStatusDisabled" "dt_join_token dt = ''new''" "gd_id (dt_deployment dt) = ''d''"
    using demo_rotation by (auto simp: demo_deployment_def DeploymentStatusDisabled_def)
  have ne: "(''new''::string) \<noteq> []" by simp
  have "svc_authenticate_join_token id db' ''old'' \<noteq> Inr (dt_deployment dt)"
    using rotated_join_token_exclusive [OF u r demo_tokens(1) ne] n(3) demo_tokens(2) demo_hash by force
  moreover have "svc_authenticate_join_token id db' ''new'' = Inr (dt_deployment dt)"
    using rotated_join_token_exclusive [OF u r demo_tokens(1) ne] n by simp
  ultimately show ?thesis using r by blast
qed

theorem heartbeat_healthy_for_ttl_witness:
  "\<exists>d db'. svc_record_heartbeat ''d'' ''6f6c64'' 7 ''v1'' 0 demo_deployments = (Inr d, db') \<and>
     effective_status d 120000000000 0 = DeploymentStatusHealthy \<and>
     effective_status d 120000000001 0 = DeploymentStatusStale"
proof -
  define d where "d = projr (fst (svc_record_heartbeat ''d'' ''6f6c64'' 7 ''v1'' 0 demo_deployments))"
  define db' where "db' = snd (svc_record_heartbeat ''d'' ''6f6c64'' 7 ''v1'' 0 demo_deployments)"
  have "\<not> isl (fst (svc_record_heartbeat ''d'' ''6f6c64'' 7 ''v1'' 0 demo_deployments))" by code_simp
  then have r: "svc_record_heartbeat ''d'' ''6f6c64'' 7 ''v1'' 0 demo_deployments = (Inr d, db')"
    unfolding d_def db'_def by (metis prod.collapse sum.collapse(2))
  show ?thesis
    using r heartbeat_healthy_for_ttl [OF r, of 120000000000] heartbeat_healthy_for_ttl [OF r, of 120000000001]
    by (auto simp: time_sub_def)
qed

end
