(* ===== verification/Federation.thy ===== *)
theory Federation
  imports Regions
begin

text \<open>
  Control-plane federation: peers, the revision counter, the region export of the hub and its
  application on a regional control plane (\<^verbatim>\<open>src/internal/federation\<close>,
  \<^verbatim>\<open>src/internal/adapters/postgres/federation.go\<close>, \<^verbatim>\<open>federation_store.go\<close>), the hub's
  topology operations and publication (\<^verbatim>\<open>platform_store.go\<close>, \<^verbatim>\<open>platform_seeder.go\<close>), the export
  handler (\<^verbatim>\<open>src/internal/controlplane/http_federation.go\<close>) and the pull
  (\<^verbatim>\<open>src/internal/adapters/federationclient\<close>). The transport delivers requests and responses
  unchanged; a response of status 300 or more is an error of the client.
\<close>

section \<open>Peers\<close>

definition PeerStatusPending :: string where "PeerStatusPending = ''pending''"
definition PeerStatusActive :: string where "PeerStatusActive = ''active''"
definition PeerStatusDisabled :: string where "PeerStatusDisabled = ''disabled''"

lemmas peer_status_defs = PeerStatusPending_def PeerStatusActive_def PeerStatusDisabled_def

definition validate_peer_status :: "string \<Rightarrow> unit res" where
  "validate_peer_status status =
     (if status = PeerStatusPending \<or> status = PeerStatusActive \<or> status = PeerStatusDisabled then Inr ()
      else Inl (invalid_request ''status must be pending, active, or disabled''))"

definition new_control_plane_peer ::
  "string \<Rightarrow> string \<Rightarrow> string \<Rightarrow> string \<Rightarrow> string \<Rightarrow> gotime \<Rightarrow> peer res" where
  "new_control_plane_peer i0 name0 region0 url0 h0 now =
     (let i = trim_space i0; name = trim_space name0; region = trim_space region0;
          url = trim_space url0; h = trim_space h0 in
      if i = [] \<or> name = [] \<or> region = [] then Inl (invalid_request ''id, name, and region_id required'')
      else if h = [] then Inl (invalid_request ''join token hash required'')
      else Inr \<lparr>pe_id = i, pe_name = name, pe_region_id = region, pe_base_url = url, pe_status = PeerStatusPending,
             pe_join_token_hash = h, pe_join_token_enc = [], pe_last_sync_at = None, pe_last_sync_cursor = 0,
             pe_last_sync_error = [], pe_created_at = now, pe_updated_at = now\<rparr>)"

subsection \<open>Tables\<close>

definition fs_create_peer :: "peer \<Rightarrow> unit rop" where
  "fs_create_peer p db =
     (if gm_get (rdb_peers db) (pe_id p) \<noteq> None \<or>
         (\<exists>x\<in>set (map snd (rdb_peers db)). pe_join_token_hash x = pe_join_token_hash p) then (Inl key_violation, db)
      else if gm_get (rdb_regions db) (pe_region_id p) = None then (Inl foreign_key_violation, db)
      else (Inr (), db\<lparr>rdb_peers := gm_put (pe_id p) p (rdb_peers db)\<rparr>))"

definition fs_get_peer :: "region_db \<Rightarrow> string \<Rightarrow> peer res" where
  "fs_get_peer db i = found (gm_get (rdb_peers db) i)"

definition fs_get_peer_by_hash :: "region_db \<Rightarrow> string \<Rightarrow> peer res" where
  "fs_get_peer_by_hash db h = found (find (\<lambda>p. pe_join_token_hash p = h) (map snd (rdb_peers db)))"

definition fs_list_peers :: "region_db \<Rightarrow> peer list" where
  "fs_list_peers db = sort_key pe_created_at (map snd (rdb_peers db))"

text \<open>The update ignores the number of rows; the select that follows reports a missing peer.\<close>

definition fs_update_peer :: "string \<Rightarrow> string \<Rightarrow> string \<Rightarrow> string \<Rightarrow> gotime \<Rightarrow> peer rop" where
  "fs_update_peer i name url status now db =
     (let db' = (case gm_get (rdb_peers db) i of
          None \<Rightarrow> db
        | Some p \<Rightarrow> db\<lparr>rdb_peers := gm_put i (p\<lparr>pe_name := name, pe_base_url := url, pe_status := status,
            pe_updated_at := now\<rparr>) (rdb_peers db)\<rparr>)
      in (fs_get_peer db' i, db'))"

definition modify_peer :: "string \<Rightarrow> (peer \<Rightarrow> peer) \<Rightarrow> unit rop" where
  "modify_peer i f db =
     (case gm_get (rdb_peers db) i of
        None \<Rightarrow> (Inl (sentinel ErrNotFound), db)
      | Some p \<Rightarrow> (Inr (), db\<lparr>rdb_peers := gm_put i (f p) (rdb_peers db)\<rparr>))"

definition fs_update_peer_hash :: "string \<Rightarrow> string \<Rightarrow> gotime \<Rightarrow> unit rop" where
  "fs_update_peer_hash i h now db =
     (if gm_get (rdb_peers db) i \<noteq> None \<and>
         (\<exists>x\<in>set (map snd (rdb_peers db)). pe_id x \<noteq> i \<and> pe_join_token_hash x = h) then (Inl key_violation, db)
      else modify_peer i (\<lambda>p. p\<lparr>pe_join_token_hash := h, pe_status := PeerStatusPending, pe_updated_at := now\<rparr>) db)"

definition fs_update_peer_enc :: "string \<Rightarrow> string \<Rightarrow> gotime \<Rightarrow> unit rop" where
  "fs_update_peer_enc i enc now = modify_peer i (\<lambda>p. p\<lparr>pe_join_token_enc := enc, pe_updated_at := now\<rparr>)"

definition fs_record_peer_sync :: "string \<Rightarrow> int \<Rightarrow> gotime \<Rightarrow> string \<Rightarrow> unit rop" where
  "fs_record_peer_sync i cursor t e =
     modify_peer i (\<lambda>p. p\<lparr>pe_last_sync_at := Some t, pe_last_sync_cursor := cursor,
       pe_last_sync_error := e, pe_updated_at := t\<rparr>)"

definition fs_bump_revision :: "int rop" where
  "fs_bump_revision db = (Inr (rdb_revision db + 1), db\<lparr>rdb_revision := rdb_revision db + 1\<rparr>)"

definition fs_get_sync_state :: "region_db \<Rightarrow> string \<Rightarrow> sync_state res" where
  "fs_get_sync_state db slug = found (gm_get (rdb_sync db) slug)"

definition fs_upsert_sync_state :: "sync_state \<Rightarrow> unit rop" where
  "fs_upsert_sync_state st db = (Inr (), db\<lparr>rdb_sync := gm_put (ss_region_slug st) st (rdb_sync db)\<rparr>)"

subsection \<open>Services\<close>

record peer_with_token =
  pt_peer :: peer
  pt_join_token :: string

definition svc_register_peer ::
  "(string \<Rightarrow> string) \<Rightarrow> string \<Rightarrow> string \<Rightarrow> string \<Rightarrow> string \<Rightarrow> string \<Rightarrow> gotime \<Rightarrow> peer_with_token rop" where
  "svc_register_peer sha raw i name region url now db =
     db_check (rs_get_region db region) (\<lambda>r.
       if rgn_status r = RegionStatusDisabled then (\<lambda>db. (Inl (invalid_request ''region is disabled''), db))
       else db_check (new_control_plane_peer i name region url (hash_opaque_token sha raw) now) (\<lambda>p.
         db_bind (fs_create_peer p) (\<lambda>_ db. (Inr \<lparr>pt_peer = p, pt_join_token = raw\<rparr>, db)))) db"

definition svc_rotate_peer_token :: "(string \<Rightarrow> string) \<Rightarrow> string \<Rightarrow> string \<Rightarrow> gotime \<Rightarrow> peer_with_token rop" where
  "svc_rotate_peer_token sha raw i now db =
     db_check (fs_get_peer db i) (\<lambda>p.
       db_bind (fs_update_peer_hash i (hash_opaque_token sha raw) now) (\<lambda>_ db.
         (Inr \<lparr>pt_peer = p\<lparr>pe_join_token_hash := hash_opaque_token sha raw, pe_updated_at := now,
                            pe_status := PeerStatusPending\<rparr>, pt_join_token = raw\<rparr>, db))) db"

definition svc_update_peer :: "string \<Rightarrow> string \<Rightarrow> string \<Rightarrow> string \<Rightarrow> gotime \<Rightarrow> peer rop" where
  "svc_update_peer i name0 url0 status0 now db =
     db_check (fs_get_peer db i) (\<lambda>cur.
       let name1 = trim_space name0; url1 = trim_space url0; status1 = trim_space status0;
           name = (if name1 = [] then pe_name cur else name1);
           url = (if url1 = [] then pe_base_url cur else url1);
           status = (if status1 = [] then pe_status cur else status1)
       in db_check (validate_peer_status status) (\<lambda>_. fs_update_peer i name url status now)) db"

definition svc_authenticate_peer :: "(string \<Rightarrow> string) \<Rightarrow> string \<Rightarrow> gotime \<Rightarrow> peer rop" where
  "svc_authenticate_peer sha raw0 now db =
     (let raw = trim_space raw0 in
      if raw = [] then (Inl (sentinel ErrUnauthorized), db)
      else (case fs_get_peer_by_hash db (hash_opaque_token sha raw) of
          Inl e \<Rightarrow> (Inl (if err_is e ErrNotFound then sentinel ErrUnauthorized else e), db)
        | Inr p \<Rightarrow>
            if pe_status p = PeerStatusDisabled then (Inl (sentinel ErrUnauthorized), db)
            else if pe_status p = PeerStatusPending
              then fs_update_peer (pe_id p) (pe_name p) (pe_base_url p) PeerStatusActive now db
            else (Inr p, db)))"

definition svc_join :: "(string \<Rightarrow> string) \<Rightarrow> string \<Rightarrow> gotime \<Rightarrow> peer rop" where
  "svc_join = svc_authenticate_peer"

section \<open>The hub's topology operations\<close>

text \<open>
  Each operation of the store runs the service and then advances the revision, whose result it
  ignores. Errors return before the revision is advanced.
\<close>

definition bump_after :: "'a rop \<Rightarrow> 'a rop" where
  "bump_after m = db_bind m (\<lambda>x db. (Inr x, snd (fs_bump_revision db)))"

definition hub_bind_org :: "string \<Rightarrow> string \<Rightarrow> string \<Rightarrow> gotime \<Rightarrow> region_membership rop" where
  "hub_bind_org region org status now db =
     db_check (found (gm_get (rdb_org_names db) org)) (\<lambda>_. bump_after (svc_bind_org region org status now)) db"

definition hub_unbind_org :: "string \<Rightarrow> string \<Rightarrow> unit rop" where
  "hub_unbind_org region org = bump_after (svc_unbind_org region org)"

definition hub_put_overlay :: "string \<Rightarrow> string \<Rightarrow> overlay_payload \<Rightarrow> gotime \<Rightarrow> region_overlay rop" where
  "hub_put_overlay region org payload now = bump_after (svc_put_overlay region org payload now)"

definition hub_delete_overlay :: "string \<Rightarrow> string \<Rightarrow> unit rop" where
  "hub_delete_overlay region org = bump_after (svc_delete_overlay region org)"

definition hub_bind_all :: "string \<Rightarrow> gotime \<Rightarrow> region_db \<Rightarrow> (nat \<times> err option) \<times> region_db" where
  "hub_bind_all region now db =
     (case svc_bind_all region (map fst (rdb_org_names db)) now db of
        ((n, Some e), db') \<Rightarrow> ((n, Some e), db')
      | ((n, None), db') \<Rightarrow> ((n, None), snd (fs_bump_revision db')))"

section \<open>Publication\<close>

text \<open>
  The hub: its tables, the configuration that \<^verbatim>\<open>LoadSnapshotSource\<close> reads, the snapshots it has
  stored, and the object-store mirror, which is there only when snapshot distribution is enabled
  and holds the latest snapshot of each region.
\<close>

record hub =
  hb_db :: region_db
  hb_base :: source
  hb_snapshots :: "snapshot list"
  hb_mirror :: "(string, snapshot) gomap option"

definition put_snapshot :: "snapshot \<Rightarrow> snapshot list \<Rightarrow> int \<times> snapshot list" where
  "put_snapshot s ss = (let v = int (length ss) + 1 in (v, ss @ [s\<lparr>sn_version := v\<rparr>]))"

definition region_snapshot_of :: "registry \<Rightarrow> gotime \<Rightarrow> source \<Rightarrow> region_db \<Rightarrow> region \<Rightarrow> snapshot" where
  "region_snapshot_of reg now base db r =
     (case build_region_source base (rs_list_memberships_by_region db (rgn_id r)) (rs_list_overlays_by_region db (rgn_id r)) of
        (src, allowed) \<Rightarrow> compile_region reg now src (Some allowed))"

definition publishes_region :: "string list \<Rightarrow> region \<Rightarrow> bool" where
  "publishes_region only r \<longleftrightarrow>
     (rgn_status r = RegionStatusActive \<or> rgn_status r = RegionStatusDraining) \<and>
     (let filt = filter (\<lambda>i. i \<noteq> []) (map trim_space only) in filt = [] \<or> rgn_id r \<in> set filt)"

definition publish_regional_snapshots :: "registry \<Rightarrow> gotime \<Rightarrow> source \<Rightarrow> int \<Rightarrow> string list \<Rightarrow> hub \<Rightarrow> hub" where
  "publish_regional_snapshots reg now base version only h =
     (case hb_mirror h of
        None \<Rightarrow> h
      | Some m \<Rightarrow>
          (let m' = fold (\<lambda>r m. if publishes_region only r
                 then gm_put (rgn_slug r) ((region_snapshot_of reg now base (hb_db h) r)\<lparr>sn_version := version\<rparr>) m else m)
               (rs_list_regions (hb_db h)) m
           in h\<lparr>hb_mirror := Some m', hb_db := snd (fs_bump_revision (hb_db h))\<rparr>))"

definition publish_with_regions :: "registry \<Rightarrow> gotime \<Rightarrow> string list \<Rightarrow> hub \<Rightarrow> hub" where
  "publish_with_regions reg now only h =
     (let base = hb_base h;
          (version, ss) = put_snapshot (compile reg now base) (hb_snapshots h)
      in publish_regional_snapshots reg now base version only (h\<lparr>hb_snapshots := ss\<rparr>))"

section \<open>Export\<close>

record region_export =
  re_revision :: int
  re_region_slug :: string
  re_region_id :: string
  re_memberships :: "region_membership list option"
  re_overlays :: "region_overlay list option"
  re_meta_version :: int
  re_object_prefix :: string
  re_snapshot :: "snapshot option"

text \<open>The loop that trims slashes from both ends, one from each per round.\<close>

function trim_slashes :: "string \<Rightarrow> string" where
  "trim_slashes p =
     (if p \<noteq> [] \<and> (hd p = CHR ''/'' \<or> last p = CHR ''/'') then
        (let p1 = (if hd p = CHR ''/'' then tl p else p);
             p2 = (if p1 \<noteq> [] \<and> last p1 = CHR ''/'' then butlast p1 else p1)
         in trim_slashes p2)
      else p)"
  by pat_completeness auto

termination
  by (relation "measure length") (auto simp: Let_def)

declare trim_slashes.simps [simp del]

definition strings_trim_prefix :: "string \<Rightarrow> string" where
  "strings_trim_prefix prefix = (let p = trim_slashes prefix in if p = [] then ''snapshots'' else p)"

definition latest_regional_snapshot :: "registry \<Rightarrow> gotime \<Rightarrow> hub \<Rightarrow> string \<Rightarrow> snapshot res" where
  "latest_regional_snapshot reg now h slug =
     (case Option.bind (hb_mirror h) (\<lambda>m. gm_get m slug) of
        Some s \<Rightarrow> Inr s
      | None \<Rightarrow> bind_res (rs_get_region_by_slug (hb_db h) slug) (\<lambda>r.
          Inr (region_snapshot_of reg now (hb_base h) (hb_db h) r)))"

definition build_region_export ::
  "registry \<Rightarrow> gotime \<Rightarrow> hub \<Rightarrow> string \<Rightarrow> int \<Rightarrow> string \<Rightarrow> region_export res" where
  "build_region_export reg now h slug0 since object_prefix =
     (let slug = normalize_region_slug slug0; db = hb_db h in
      if slug = [] then Inl (invalid_request ''region slug required'')
      else bind_res (rs_get_region_by_slug db slug) (\<lambda>r.
        let rev = rdb_revision db;
            out = \<lparr>re_revision = rev, re_region_slug = rgn_slug r, re_region_id = rgn_id r,
                   re_memberships = None, re_overlays = None, re_meta_version = 0,
                   re_object_prefix = strings_trim_prefix object_prefix @ ''/'' @ rgn_slug r, re_snapshot = None\<rparr>
        in if since > 0 \<and> since \<ge> rev then Inr out
           else (let out1 = out\<lparr>re_memberships := Some (rs_list_memberships_by_region db (rgn_id r)),
                                re_overlays := Some (rs_list_overlays_by_region db (rgn_id r))\<rparr>
                 in case latest_regional_snapshot reg now h (rgn_slug r) of
                      Inr s \<Rightarrow> Inr (out1\<lparr>re_snapshot := Some s, re_meta_version := sn_version s\<rparr>)
                    | Inl e \<Rightarrow> if err_is e ErrNotFound then Inr out1 else Inl e)))"

text \<open>
  The export handler authenticates the peer by its token, checks that the peer's region is the
  one asked for, and records the revision it hands out. \<open>Inl\<close> is the status of an error response.
\<close>

definition handle_region_export ::
  "registry \<Rightarrow> (string \<Rightarrow> string) \<Rightarrow> gotime \<Rightarrow> string \<Rightarrow> string \<Rightarrow> string \<Rightarrow> int \<Rightarrow> hub \<Rightarrow> (nat + region_export) \<times> hub" where
  "handle_region_export reg sha now object_prefix token slug0 since h =
     (case svc_authenticate_peer sha (trim_space token) now (hb_db h) of
        (Inl e, db) \<Rightarrow> (Inl (if err_is e ErrUnauthorized then 401 else 500), h\<lparr>hb_db := db\<rparr>)
      | (Inr p, db) \<Rightarrow>
          (let h1 = h\<lparr>hb_db := db\<rparr>; slug = trim_space slug0 in
           case rs_get_region db (pe_region_id p) of
             Inl _ \<Rightarrow> (Inl 500, h1)
           | Inr r \<Rightarrow>
               if rgn_slug r \<noteq> slug then (Inl 403, h1)
               else (case build_region_export reg now h1 slug since object_prefix of
                   Inl e \<Rightarrow> (Inl (if err_is e ErrNotFound then 404 else 500), h1)
                 | Inr out \<Rightarrow> (Inr out, h1\<lparr>hb_db := snd (fs_record_peer_sync (pe_id p) (re_revision out) now [] db)\<rparr>))))"

definition handle_peer_join ::
  "(string \<Rightarrow> string) \<Rightarrow> gotime \<Rightarrow> string \<Rightarrow> string \<Rightarrow> hub \<Rightarrow> (nat + peer) \<times> hub" where
  "handle_peer_join sha now body_token header_token h =
     (let t0 = trim_space body_token; token = (if t0 = [] then trim_space header_token else t0) in
      case svc_join sha token now (hb_db h) of
        (Inl e, db) \<Rightarrow> (Inl (if err_is e ErrUnauthorized then 401 else 500), h\<lparr>hb_db := db\<rparr>)
      | (Inr p, db) \<Rightarrow> (Inr p, h\<lparr>hb_db := db\<rparr>))"

section \<open>Application on a regional control plane\<close>

record regional =
  rc_db :: region_db
  rc_snapshots :: "snapshot list"

definition ensure_region :: "string \<Rightarrow> string \<Rightarrow> string \<Rightarrow> gotime \<Rightarrow> unit rop" where
  "ensure_region i slug name now db =
     (case rs_get_region db i of Inr _ \<Rightarrow> (Inr (), db)
      | Inl _ \<Rightarrow> (case rs_get_region_by_slug db slug of Inr _ \<Rightarrow> (Inr (), db)
          | Inl _ \<Rightarrow> rs_create_region \<lparr>rgn_id = i, rgn_slug = slug, rgn_name = name, rgn_status = RegionStatusActive,
              rgn_created_at = now, rgn_updated_at = now\<rparr> db))"

definition ensure_org_stub :: "string \<Rightarrow> unit rop" where
  "ensure_org_stub org0 db =
     (let org = trim_space org0 in
      if org = [] then (Inl (invalid_request ''organization_id required''), db)
      else if gm_get (rdb_org_names db) org \<noteq> None then (Inr (), db)
      else (Inr (), db\<lparr>rdb_org_names := gm_put org (''federated:'' @ org) (rdb_org_names db)\<rparr>))"

fun upsert_memberships :: "region_membership list \<Rightarrow> unit rop" where
  "upsert_memberships [] db = (Inr (), db)"
| "upsert_memberships (m # ms) db =
     db_bind (ensure_org_stub (orm_organization_id m)) (\<lambda>_.
       db_bind (rs_upsert_membership m) (\<lambda>_. upsert_memberships ms)) db"

definition replace_memberships :: "string \<Rightarrow> region_membership list \<Rightarrow> unit rop" where
  "replace_memberships region ms db =
     (let existing = rs_list_memberships_by_region db region; keep = map orm_organization_id ms in
      db_bind (upsert_memberships ms) (\<lambda>_ db.
        (Inr (), fold (\<lambda>m db. if orm_organization_id m \<in> set keep then db
             else snd (rs_delete_membership region (orm_organization_id m)
                    (snd (rs_delete_overlay region (orm_organization_id m) db)))) existing db)) db)"

fun upsert_overlays :: "region_overlay list \<Rightarrow> unit rop" where
  "upsert_overlays [] db = (Inr (), db)"
| "upsert_overlays (v # vs) db =
     db_bind (ensure_org_stub (rco_organization_id v)) (\<lambda>_.
       db_bind (rs_upsert_overlay v) (\<lambda>_. upsert_overlays vs)) db"

definition replace_overlays :: "string \<Rightarrow> region_overlay list \<Rightarrow> unit rop" where
  "replace_overlays region vs db =
     (let existing = rs_list_overlays_by_region db region; keep = map rco_organization_id vs in
      db_bind (upsert_overlays vs) (\<lambda>_ db.
        (Inr (), fold (\<lambda>v db. if rco_organization_id v \<in> set keep then db
             else snd (rs_delete_overlay region (rco_organization_id v) db)) existing db)) db)"

text \<open>A nil slice or snapshot of the export means unchanged.\<close>

definition apply_tables :: "gotime \<Rightarrow> region_export \<Rightarrow> unit rop" where
  "apply_tables now e =
     (if re_region_id e = [] \<or> re_region_slug e = []
      then (\<lambda>db. (Inl (invalid_request ''region_id and region_slug required''), db))
      else db_bind (ensure_region (re_region_id e) (re_region_slug e) (re_region_slug e) now) (\<lambda>_.
        db_bind (case re_memberships e of None \<Rightarrow> (\<lambda>db. (Inr (), db)) | Some ms \<Rightarrow> replace_memberships (re_region_id e) ms) (\<lambda>_.
          (case re_overlays e of None \<Rightarrow> (\<lambda>db. (Inr (), db)) | Some vs \<Rightarrow> replace_overlays (re_region_id e) vs))))"

definition apply_export :: "gotime \<Rightarrow> region_export \<Rightarrow> (unit, regional) storeop" where
  "apply_export now e st =
     (case apply_tables now e (rc_db st) of
        (Inl err, db) \<Rightarrow> (Inl err, st\<lparr>rc_db := db\<rparr>)
      | (Inr _, db) \<Rightarrow>
          (let ss = (case re_snapshot e of None \<Rightarrow> rc_snapshots st | Some s \<Rightarrow> snd (put_snapshot s (rc_snapshots st)));
               db' = snd (fs_upsert_sync_state \<lparr>ss_region_slug = re_region_slug e, ss_cursor = re_revision e,
                       ss_last_sync_at = Some now, ss_last_sync_error = [], ss_updated_at = now\<rparr> db)
           in (Inr (), st\<lparr>rc_db := db', rc_snapshots := ss\<rparr>)))"

text \<open>One round of the pull loop: join, read the cursor, export, apply.\<close>

definition pull_cursor :: "regional \<Rightarrow> string \<Rightarrow> int" where
  "pull_cursor st slug = (case fs_get_sync_state (rc_db st) slug of Inr s \<Rightarrow> ss_cursor s | Inl _ \<Rightarrow> 0)"

definition pull_once ::
  "registry \<Rightarrow> (string \<Rightarrow> string) \<Rightarrow> gotime \<Rightarrow> string \<Rightarrow> string \<Rightarrow> string \<Rightarrow> hub \<Rightarrow> regional \<Rightarrow>
     (err + region_export) \<times> hub \<times> regional" where
  "pull_once reg sha now object_prefix token slug h st =
     (let h1 = snd (handle_peer_join sha now token [] h);
          since = pull_cursor st slug
      in case handle_region_export reg sha now object_prefix token (trim_space slug) (max 0 since) h1 of
           (Inl code, h2) \<Rightarrow> (Inl (Err ErrOther ''federationclient export: status''), h2, st)
         | (Inr e, h2) \<Rightarrow>
             (case apply_export now e st of
                (Inr _, st') \<Rightarrow> (Inr e, h2, st')
              | (Inl err, st') \<Rightarrow>
                  (Inl err, h2, st'\<lparr>rc_db := snd (fs_upsert_sync_state \<lparr>ss_region_slug = slug, ss_cursor = since,
                     ss_last_sync_at = Some now, ss_last_sync_error = err_msg err, ss_updated_at = now\<rparr> (rc_db st'))\<rparr>)))"

end
