(* ===== verification/Federation_Sync.thy ===== *)
theory Federation_Sync
  imports Federation
begin

text \<open>
  Why pull synchronisation converges. The memberships and overlays of a region are read as two
  maps (\<open>mem_view\<close>, \<open>ovl_view\<close>), the repository's statements are updates of those maps, and the
  hub's revision never stays the same across a change of them. Reachable states of hub and
  regional control plane, under any interleaving of hub operations, publications and pulls, then
  satisfy \<open>sync_inv\<close>, from which one authenticated pull makes the regional tables mirror the hub's.
\<close>

section \<open>Tables as maps\<close>

definition mem_view :: "region_db \<Rightarrow> string \<times> string \<Rightarrow> (string \<times> gotime) option" where
  "mem_view db k = map_option (\<lambda>m. (orm_status m, orm_updated_at m)) (gm_get (rdb_memberships db) k)"

definition ovl_view :: "region_db \<Rightarrow> string \<times> string \<Rightarrow> (overlay_payload \<times> gotime) option" where
  "ovl_view db k = map_option (\<lambda>v. (rco_payload v, rco_updated_at v)) (gm_get (rdb_overlays db) k)"

definition tables_keyed :: "region_db \<Rightarrow> bool" where
  "tables_keyed db \<longleftrightarrow>
     gm_wf (rdb_memberships db) \<and>
     (\<forall>k m. gm_get (rdb_memberships db) k = Some m \<longrightarrow> k = (orm_organization_id m, orm_region_id m)) \<and>
     gm_wf (rdb_overlays db) \<and>
     (\<forall>k v. gm_get (rdb_overlays db) k = Some v \<longrightarrow> k = (rco_organization_id v, rco_region_id v))"

text \<open>What an operation on memberships and overlays leaves alone.\<close>

definition same_frame :: "region_db \<Rightarrow> region_db \<Rightarrow> bool" where
  "same_frame db db' \<longleftrightarrow> rdb_regions db' = rdb_regions db \<and> rdb_revision db' = rdb_revision db \<and>
     rdb_sync db' = rdb_sync db"

lemma same_frame_refl [simp]: "same_frame db db" by (simp add: same_frame_def)

lemma same_frame_trans: "same_frame a b \<Longrightarrow> same_frame b c \<Longrightarrow> same_frame a c"
  by (simp add: same_frame_def)

lemma same_frame_regions: "same_frame db db' \<Longrightarrow> rdb_regions db' = rdb_regions db"
  by (simp add: same_frame_def)

lemma upsert_membership_view:
  assumes "rs_upsert_membership m db = (Inr (), db')"
  shows "mem_view db' = (mem_view db)((orm_organization_id m, orm_region_id m) \<mapsto> (orm_status m, orm_updated_at m))"
    and "ovl_view db' = ovl_view db" and "same_frame db db'" and "rdb_org_names db' = rdb_org_names db"
    and "tables_keyed db \<Longrightarrow> tables_keyed db'"
  using assms
  by (auto simp: rs_upsert_membership_def Let_def mem_view_def ovl_view_def same_frame_def tables_keyed_def fun_eq_iff
      split: option.splits if_splits)

lemma delete_membership_view:
  "mem_view (snd (rs_delete_membership g o' db)) = (mem_view db)((o', g) := None)"
  "ovl_view (snd (rs_delete_membership g o' db)) = ovl_view db"
  "same_frame db (snd (rs_delete_membership g o' db))"
  "rdb_org_names (snd (rs_delete_membership g o' db)) = rdb_org_names db"
  "tables_keyed db \<Longrightarrow> tables_keyed (snd (rs_delete_membership g o' db))"
  by (auto simp: rs_delete_membership_def mem_view_def ovl_view_def same_frame_def tables_keyed_def fun_eq_iff)

lemma upsert_overlay_view:
  assumes "rs_upsert_overlay v db = (Inr (), db')"
  shows "ovl_view db' = (ovl_view db)((rco_organization_id v, rco_region_id v) \<mapsto> (stored_payload (rco_payload v), rco_updated_at v))"
    and "mem_view db' = mem_view db" and "same_frame db db'" and "rdb_org_names db' = rdb_org_names db"
    and "tables_keyed db \<Longrightarrow> tables_keyed db'"
  using assms
  by (auto simp: rs_upsert_overlay_def Let_def mem_view_def ovl_view_def same_frame_def tables_keyed_def fun_eq_iff
      split: option.splits if_splits)

lemma delete_overlay_view:
  "ovl_view (snd (rs_delete_overlay g o' db)) = (ovl_view db)((o', g) := None)"
  "mem_view (snd (rs_delete_overlay g o' db)) = mem_view db"
  "same_frame db (snd (rs_delete_overlay g o' db))"
  "rdb_org_names (snd (rs_delete_overlay g o' db)) = rdb_org_names db"
  "tables_keyed db \<Longrightarrow> tables_keyed (snd (rs_delete_overlay g o' db))"
  by (auto simp: rs_delete_overlay_def mem_view_def ovl_view_def same_frame_def tables_keyed_def fun_eq_iff)

lemma ensure_org_stub_ok:
  assumes "trim_space o' = o'" and "o' \<noteq> []"
  obtains ns where "ensure_org_stub o' db = (Inr (), db\<lparr>rdb_org_names := ns\<rparr>)" "gm_get ns o' \<noteq> None"
proof (cases "gm_get (rdb_org_names db) o' = None")
  case True
  with assms have "ensure_org_stub o' db =
      (Inr (), db\<lparr>rdb_org_names := gm_put o' (''federated:'' @ o') (rdb_org_names db)\<rparr>)"
    by (simp add: ensure_org_stub_def)
  then show ?thesis by (rule that) simp
next
  case False
  with assms have "ensure_org_stub o' db = (Inr (), db\<lparr>rdb_org_names := rdb_org_names db\<rparr>)"
    by (simp add: ensure_org_stub_def)
  then show ?thesis using False by (rule that)
qed

lemma view_org_names [simp]:
  "mem_view (db\<lparr>rdb_org_names := ns\<rparr>) = mem_view db"
  "ovl_view (db\<lparr>rdb_org_names := ns\<rparr>) = ovl_view db"
  "tables_keyed (db\<lparr>rdb_org_names := ns\<rparr>) = tables_keyed db"
  "same_frame a (db\<lparr>rdb_org_names := ns\<rparr>) = same_frame a db"
  by (simp_all add: mem_view_def ovl_view_def tables_keyed_def same_frame_def fun_eq_iff)

lemma set_memberships_by_region:
  assumes "tables_keyed db"
  shows "m \<in> set (rs_list_memberships_by_region db g) \<longleftrightarrow>
     gm_get (rdb_memberships db) (orm_organization_id m, g) = Some m"
proof -
  have "m \<in> set (rs_list_memberships_by_region db g) \<longleftrightarrow> (\<exists>o'. ((o', g), m) \<in> set (rdb_memberships db))"
    by (force simp: rs_list_memberships_by_region_def)
  also have "\<dots> \<longleftrightarrow> (\<exists>o'. gm_get (rdb_memberships db) (o', g) = Some m)"
    using assms by (simp add: tables_keyed_def gm_get_mem)
  also have "\<dots> \<longleftrightarrow> gm_get (rdb_memberships db) (orm_organization_id m, g) = Some m"
    using assms by (auto simp: tables_keyed_def)
  finally show ?thesis .
qed

lemma set_overlays_by_region:
  assumes "tables_keyed db"
  shows "v \<in> set (rs_list_overlays_by_region db g) \<longleftrightarrow>
     gm_get (rdb_overlays db) (rco_organization_id v, g) = Some v"
proof -
  have "v \<in> set (rs_list_overlays_by_region db g) \<longleftrightarrow> (\<exists>o'. ((o', g), v) \<in> set (rdb_overlays db))"
    by (force simp: rs_list_overlays_by_region_def)
  also have "\<dots> \<longleftrightarrow> (\<exists>o'. gm_get (rdb_overlays db) (o', g) = Some v)"
    using assms by (simp add: tables_keyed_def gm_get_mem)
  also have "\<dots> \<longleftrightarrow> gm_get (rdb_overlays db) (rco_organization_id v, g) = Some v"
    using assms by (auto simp: tables_keyed_def)
  finally show ?thesis .
qed

section \<open>Full replacement\<close>

definition trimmed :: "string \<Rightarrow> bool" where
  "trimmed s \<longleftrightarrow> s \<noteq> [] \<and> trim_space s = s"

text \<open>
  The contract of a table that a pull replaces row by row: writing a row, once its organization
  and region exist, updates the table's map at the row's key and nothing else.
\<close>

locale region_table =
  fixes org :: "'r \<Rightarrow> string" and reg :: "'r \<Rightarrow> string" and val :: "'r \<Rightarrow> 'v"
    and view :: "region_db \<Rightarrow> string \<times> string \<Rightarrow> 'v option"
    and rest :: "region_db \<Rightarrow> string \<times> string \<Rightarrow> 'w option"
    and upsert :: "'r \<Rightarrow> unit rop" and loop :: "'r list \<Rightarrow> unit rop"
  assumes loop_Nil: "loop [] db = (Inr (), db)"
    and loop_Cons: "loop (x # xs) db =
       db_bind (ensure_org_stub (org x)) (\<lambda>_. db_bind (upsert x) (\<lambda>_. loop xs)) db"
    and upsert_ok: "gm_get (rdb_org_names db) (org x) \<noteq> None \<Longrightarrow> gm_get (rdb_regions db) (reg x) \<noteq> None \<Longrightarrow>
       tables_keyed db \<Longrightarrow>
       \<exists>db'. upsert x db = (Inr (), db') \<and> view db' = (view db)((org x, reg x) \<mapsto> val x) \<and>
         rest db' = rest db \<and> same_frame db db' \<and> tables_keyed db'"
    and view_names: "view (db\<lparr>rdb_org_names := ns\<rparr>) = view db"
    and rest_names: "rest (db\<lparr>rdb_org_names := ns\<rparr>) = rest db"
begin

lemma loop_view:
  assumes "\<forall>x\<in>set xs. reg x = g \<and> trimmed (org x)"
    and "gm_get (rdb_regions db) g \<noteq> None" and "tables_keyed db"
  shows "\<exists>db'. loop xs db = (Inr (), db') \<and>
    view db' = (\<lambda>k. case find_last (\<lambda>x. (org x, g) = k) xs of Some x \<Rightarrow> Some (val x) | None \<Rightarrow> view db k) \<and>
    rest db' = rest db \<and> same_frame db db' \<and> tables_keyed db'"
  using assms
proof (induction xs arbitrary: db)
  case Nil
  then show ?case by (simp add: loop_Nil)
next
  case (Cons x xs)
  from Cons.prems(1) have x: "reg x = g" "trim_space (org x) = org x" "org x \<noteq> []" by (auto simp: trimmed_def)
  from x(2,3) obtain ns where 1: "ensure_org_stub (org x) db = (Inr (), db\<lparr>rdb_org_names := ns\<rparr>)" "gm_get ns (org x) \<noteq> None"
    by (rule ensure_org_stub_ok)
  from upsert_ok [of "db\<lparr>rdb_org_names := ns\<rparr>" x] 1(2) x(1) Cons.prems(2,3) obtain db2 where
    2: "upsert x (db\<lparr>rdb_org_names := ns\<rparr>) = (Inr (), db2)" "view db2 = (view db)((org x, g) \<mapsto> val x)"
    "rest db2 = rest db" "same_frame (db\<lparr>rdb_org_names := ns\<rparr>) db2" "tables_keyed db2"
    by (auto simp: view_names rest_names)
  from 2(4) have f2: "same_frame db db2" by (simp add: same_frame_def)
  then have r2: "gm_get (rdb_regions db2) g \<noteq> None" using Cons.prems(2) by (simp add: same_frame_def)
  from Cons.IH [OF _ r2 2(5)] Cons.prems(1) obtain db' where
    3: "loop xs db2 = (Inr (), db')"
    "view db' = (\<lambda>k. case find_last (\<lambda>x. (org x, g) = k) xs of Some x \<Rightarrow> Some (val x) | None \<Rightarrow> view db2 k)"
    "rest db' = rest db2" "same_frame db2 db'" "tables_keyed db'" by auto
  have "loop (x # xs) db = (Inr (), db')" using 1(1) 2(1) 3(1) by (simp add: loop_Cons db_bind_def)
  moreover have "view db' = (\<lambda>k. case find_last (\<lambda>x. (org x, g) = k) (x # xs) of Some x \<Rightarrow> Some (val x) | None \<Rightarrow> view db k)"
    using 3(2) 2(2) by (auto simp: fun_eq_iff split: option.splits)
  moreover have "same_frame db db'" using f2 3(4) by (rule same_frame_trans)
  ultimately show ?case using 3(3,5) 2(3) by metis
qed

end

interpretation mem_table: region_table orm_organization_id orm_region_id
    "\<lambda>m. (orm_status m, orm_updated_at m)" mem_view ovl_view rs_upsert_membership upsert_memberships
proof unfold_locales
  fix db :: region_db and x :: region_membership
  assume "gm_get (rdb_org_names db) (orm_organization_id x) \<noteq> None" "gm_get (rdb_regions db) (orm_region_id x) \<noteq> None"
    "tables_keyed db"
  moreover from this obtain db' where "rs_upsert_membership x db = (Inr (), db')"
    by (cases "gm_get (rdb_memberships db) (orm_organization_id x, orm_region_id x)")
      (auto simp: rs_upsert_membership_def Let_def)
  ultimately show "\<exists>db'. rs_upsert_membership x db = (Inr (), db') \<and>
      mem_view db' = (mem_view db)((orm_organization_id x, orm_region_id x) \<mapsto> (orm_status x, orm_updated_at x)) \<and>
      ovl_view db' = ovl_view db \<and> same_frame db db' \<and> tables_keyed db'"
    using upsert_membership_view [of x db] by blast
qed simp_all

interpretation ovl_table: region_table rco_organization_id rco_region_id
    "\<lambda>v. (stored_payload (rco_payload v), rco_updated_at v)" ovl_view mem_view rs_upsert_overlay upsert_overlays
proof unfold_locales
  fix db :: region_db and x :: region_overlay
  assume "gm_get (rdb_org_names db) (rco_organization_id x) \<noteq> None" "gm_get (rdb_regions db) (rco_region_id x) \<noteq> None"
    "tables_keyed db"
  moreover from this obtain db' where "rs_upsert_overlay x db = (Inr (), db')"
    by (cases "gm_get (rdb_overlays db) (rco_organization_id x, rco_region_id x)")
      (auto simp: rs_upsert_overlay_def Let_def)
  ultimately show "\<exists>db'. rs_upsert_overlay x db = (Inr (), db') \<and>
      ovl_view db' = (ovl_view db)((rco_organization_id x, rco_region_id x) \<mapsto> (stored_payload (rco_payload x), rco_updated_at x)) \<and>
      mem_view db' = mem_view db \<and> same_frame db db' \<and> tables_keyed db'"
    using upsert_overlay_view [of x db] by blast
qed simp_all

text \<open>The deletions that follow: the loops remove the rows that are no longer exported.\<close>

lemma delete_stale_members_view:
  fixes ex keep db g
  defines "db' \<equiv> fold (\<lambda>m db. if orm_organization_id m \<in> set keep then db
     else snd (rs_delete_membership g (orm_organization_id m) (snd (rs_delete_overlay g (orm_organization_id m) db)))) ex db"
  shows "mem_view db' = (\<lambda>k. if snd k = g \<and> fst k \<in> orm_organization_id ` set ex - set keep then None else mem_view db k)"
    and "ovl_view db' = (\<lambda>k. if snd k = g \<and> fst k \<in> orm_organization_id ` set ex - set keep then None else ovl_view db k)"
    and "same_frame db db'" and "tables_keyed db \<Longrightarrow> tables_keyed db'"
proof -
  have "mem_view db' = (\<lambda>k. if snd k = g \<and> fst k \<in> orm_organization_id ` set ex - set keep then None else mem_view db k) \<and>
    ovl_view db' = (\<lambda>k. if snd k = g \<and> fst k \<in> orm_organization_id ` set ex - set keep then None else ovl_view db k) \<and>
    same_frame db db' \<and> (tables_keyed db \<longrightarrow> tables_keyed db')"
    unfolding db'_def
  proof (induction ex arbitrary: db)
    case (Cons m ex)
    define db1 where "db1 = (if orm_organization_id m \<in> set keep then db
     else snd (rs_delete_membership g (orm_organization_id m) (snd (rs_delete_overlay g (orm_organization_id m) db))))"
    have "mem_view db1 = (if orm_organization_id m \<in> set keep then mem_view db else (mem_view db)((orm_organization_id m, g) := None))"
      "ovl_view db1 = (if orm_organization_id m \<in> set keep then ovl_view db else (ovl_view db)((orm_organization_id m, g) := None))"
      "same_frame db db1" "tables_keyed db \<longrightarrow> tables_keyed db1"
      by (auto simp: db1_def delete_membership_view delete_overlay_view
          intro: same_frame_trans [OF delete_overlay_view(3) delete_membership_view(3)])
    with Cons.IH [of db1] show ?case
      by (auto simp: fun_eq_iff db1_def [symmetric] intro: same_frame_trans)
  qed simp
  then show "mem_view db' = (\<lambda>k. if snd k = g \<and> fst k \<in> orm_organization_id ` set ex - set keep then None else mem_view db k)"
    "ovl_view db' = (\<lambda>k. if snd k = g \<and> fst k \<in> orm_organization_id ` set ex - set keep then None else ovl_view db k)"
    "same_frame db db'" "tables_keyed db \<Longrightarrow> tables_keyed db'" by auto
qed

lemma delete_stale_overlays_view:
  fixes ex keep db g
  defines "db' \<equiv> fold (\<lambda>v db. if rco_organization_id v \<in> set keep then db
     else snd (rs_delete_overlay g (rco_organization_id v) db)) ex db"
  shows "ovl_view db' = (\<lambda>k. if snd k = g \<and> fst k \<in> rco_organization_id ` set ex - set keep then None else ovl_view db k)"
    and "mem_view db' = mem_view db" and "same_frame db db'" and "tables_keyed db \<Longrightarrow> tables_keyed db'"
proof -
  have "ovl_view db' = (\<lambda>k. if snd k = g \<and> fst k \<in> rco_organization_id ` set ex - set keep then None else ovl_view db k) \<and>
    mem_view db' = mem_view db \<and> same_frame db db' \<and> (tables_keyed db \<longrightarrow> tables_keyed db')"
    unfolding db'_def
  proof (induction ex arbitrary: db)
    case (Cons v ex)
    define db1 where "db1 = (if rco_organization_id v \<in> set keep then db else snd (rs_delete_overlay g (rco_organization_id v) db))"
    have "ovl_view db1 = (if rco_organization_id v \<in> set keep then ovl_view db else (ovl_view db)((rco_organization_id v, g) := None))"
      "mem_view db1 = mem_view db" "same_frame db db1" "tables_keyed db \<longrightarrow> tables_keyed db1"
      by (auto simp: db1_def delete_overlay_view)
    with Cons.IH [of db1] show ?case
      by (auto simp: fun_eq_iff db1_def [symmetric] intro: same_frame_trans)
  qed simp
  then show "ovl_view db' = (\<lambda>k. if snd k = g \<and> fst k \<in> rco_organization_id ` set ex - set keep then None else ovl_view db k)"
    "mem_view db' = mem_view db" "same_frame db db'" "tables_keyed db \<Longrightarrow> tables_keyed db'" by auto
qed

section \<open>Applying an export\<close>

definition views_ok :: "region_db \<Rightarrow> bool" where
  "views_ok db \<longleftrightarrow> (\<forall>k x. mem_view db k = Some x \<longrightarrow> trimmed (fst k)) \<and>
     (\<forall>k p t. ovl_view db k = Some (p, t) \<longrightarrow> trimmed (fst k) \<and> stored_payload p = p)"

definition mirrors :: "region_db \<Rightarrow> region_db \<Rightarrow> string \<Rightarrow> bool" where
  "mirrors hub reg g \<longleftrightarrow> (\<forall>org. mem_view reg (org, g) = mem_view hub (org, g) \<and> ovl_view reg (org, g) = ovl_view hub (org, g))"

lemma keyed_rows:
  assumes "tables_keyed db"
  shows "gm_get (rdb_memberships db) k = Some m \<Longrightarrow> k = (orm_organization_id m, orm_region_id m)"
    and "gm_get (rdb_overlays db) j = Some v \<Longrightarrow> j = (rco_organization_id v, rco_region_id v)"
  using assms unfolding tables_keyed_def by blast+

lemma listed_membership:
  assumes "tables_keyed db" and "m \<in> set (rs_list_memberships_by_region db g)"
  shows "orm_region_id m = g" and "mem_view db (orm_organization_id m, g) = Some (orm_status m, orm_updated_at m)"
proof -
  have "gm_get (rdb_memberships db) (orm_organization_id m, g) = Some m"
    using assms by (simp add: set_memberships_by_region)
  with keyed_rows(1) [OF assms(1) this] show "orm_region_id m = g"
    "mem_view db (orm_organization_id m, g) = Some (orm_status m, orm_updated_at m)"
    by (simp_all add: mem_view_def)
qed

lemma listed_overlay:
  assumes "tables_keyed db" and "v \<in> set (rs_list_overlays_by_region db g)"
  shows "rco_region_id v = g" and "ovl_view db (rco_organization_id v, g) = Some (rco_payload v, rco_updated_at v)"
proof -
  have "gm_get (rdb_overlays db) (rco_organization_id v, g) = Some v"
    using assms by (simp add: set_overlays_by_region)
  with keyed_rows(2) [OF assms(1) this] show "rco_region_id v = g"
    "ovl_view db (rco_organization_id v, g) = Some (rco_payload v, rco_updated_at v)"
    by (simp_all add: ovl_view_def)
qed

lemma find_last_memberships:
  assumes "tables_keyed db"
  shows "map_option (\<lambda>m. (orm_status m, orm_updated_at m))
      (find_last (\<lambda>m. orm_organization_id m = org) (rs_list_memberships_by_region db g)) = mem_view db (org, g)"
proof (cases "find_last (\<lambda>m. orm_organization_id m = org) (rs_list_memberships_by_region db g)")
  case None
  have "gm_get (rdb_memberships db) (org, g) = None"
  proof (rule ccontr)
    assume "gm_get (rdb_memberships db) (org, g) \<noteq> None"
    then obtain m where m: "gm_get (rdb_memberships db) (org, g) = Some m" by auto
    with assms have "orm_organization_id m = org" by (auto simp: tables_keyed_def)
    with None m assms show False by (auto simp: find_last_None_iff set_memberships_by_region)
  qed
  with None show ?thesis by (simp add: mem_view_def)
next
  case (Some m)
  from find_last_SomeD [OF this] assms have "gm_get (rdb_memberships db) (org, g) = Some m"
    by (auto simp: set_memberships_by_region)
  with Some show ?thesis by (simp add: mem_view_def)
qed

lemma find_last_overlays:
  assumes "tables_keyed db"
  shows "map_option (\<lambda>v. (rco_payload v, rco_updated_at v))
      (find_last (\<lambda>v. rco_organization_id v = org) (rs_list_overlays_by_region db g)) = ovl_view db (org, g)"
proof (cases "find_last (\<lambda>v. rco_organization_id v = org) (rs_list_overlays_by_region db g)")
  case None
  have "gm_get (rdb_overlays db) (org, g) = None"
  proof (rule ccontr)
    assume "gm_get (rdb_overlays db) (org, g) \<noteq> None"
    then obtain v where v: "gm_get (rdb_overlays db) (org, g) = Some v" by auto
    with assms have "rco_organization_id v = org" by (auto simp: tables_keyed_def)
    with None v assms show False by (auto simp: find_last_None_iff set_overlays_by_region)
  qed
  with None show ?thesis by (simp add: ovl_view_def)
next
  case (Some v)
  from find_last_SomeD [OF this] assms have "gm_get (rdb_overlays db) (org, g) = Some v"
    by (auto simp: set_overlays_by_region)
  with Some show ?thesis by (simp add: ovl_view_def)
qed

lemma member_orgs:
  assumes "tables_keyed db"
  shows "org \<in> orm_organization_id ` set (rs_list_memberships_by_region db g) \<longleftrightarrow> mem_view db (org, g) \<noteq> None"
proof
  assume "org \<in> orm_organization_id ` set (rs_list_memberships_by_region db g)"
  then obtain m where "gm_get (rdb_memberships db) (org, g) = Some m"
    using set_memberships_by_region [OF assms] by blast
  then show "mem_view db (org, g) \<noteq> None" by (simp add: mem_view_def)
next
  assume "mem_view db (org, g) \<noteq> None"
  then obtain m where m: "gm_get (rdb_memberships db) (org, g) = Some m" by (auto simp: mem_view_def)
  with keyed_rows(1) [OF assms this] have "m \<in> set (rs_list_memberships_by_region db g)" "org = orm_organization_id m"
    using set_memberships_by_region [OF assms] by auto
  then show "org \<in> orm_organization_id ` set (rs_list_memberships_by_region db g)" by blast
qed

lemma overlay_orgs:
  assumes "tables_keyed db"
  shows "org \<in> rco_organization_id ` set (rs_list_overlays_by_region db g) \<longleftrightarrow> ovl_view db (org, g) \<noteq> None"
proof
  assume "org \<in> rco_organization_id ` set (rs_list_overlays_by_region db g)"
  then obtain v where "gm_get (rdb_overlays db) (org, g) = Some v"
    using set_overlays_by_region [OF assms] by blast
  then show "ovl_view db (org, g) \<noteq> None" by (simp add: ovl_view_def)
next
  assume "ovl_view db (org, g) \<noteq> None"
  then obtain v where v: "gm_get (rdb_overlays db) (org, g) = Some v" by (auto simp: ovl_view_def)
  with keyed_rows(2) [OF assms this] have "v \<in> set (rs_list_overlays_by_region db g)" "org = rco_organization_id v"
    using set_overlays_by_region [OF assms] by auto
  then show "org \<in> rco_organization_id ` set (rs_list_overlays_by_region db g)" by blast
qed

text \<open>Replacing with a hub's list makes the region's rows equal to the hub's.\<close>

lemma replace_memberships_mirrors:
  assumes hub: "tables_keyed hub" "views_ok hub"
    and reg: "tables_keyed db" "gm_get (rdb_regions db) g \<noteq> None"
  obtains db' where "replace_memberships g (rs_list_memberships_by_region hub g) db = (Inr (), db')"
    "\<forall>org. mem_view db' (org, g) = mem_view hub (org, g)" "same_frame db db'" "tables_keyed db'"
proof -
  define ms where "ms = rs_list_memberships_by_region hub g"
  have ok: "\<forall>m\<in>set ms. orm_region_id m = g \<and> trimmed (orm_organization_id m)"
    using listed_membership [OF hub(1)] hub(2) unfolding ms_def views_ok_def by (metis fst_conv)
  from mem_table.loop_view [OF ok reg(2,1)] obtain db1 where
    1: "upsert_memberships ms db = (Inr (), db1)"
    "mem_view db1 = (\<lambda>k. case find_last (\<lambda>x. (orm_organization_id x, g) = k) ms of
        Some x \<Rightarrow> Some (orm_status x, orm_updated_at x) | None \<Rightarrow> mem_view db k)"
    "same_frame db db1" "tables_keyed db1" by blast
  define ex where "ex = rs_list_memberships_by_region db g"
  define db' where "db' = fold (\<lambda>m db. if orm_organization_id m \<in> set (map orm_organization_id ms) then db
     else snd (rs_delete_membership g (orm_organization_id m) (snd (rs_delete_overlay g (orm_organization_id m) db)))) ex db1"
  note d = delete_stale_members_view [where keep = "map orm_organization_id ms" and g = g and ex = ex and db = db1, folded db'_def]
  have "replace_memberships g ms db = (Inr (), db')"
    by (simp add: replace_memberships_def Let_def db_bind_def 1(1) db'_def ex_def)
  moreover have "mem_view db' (org, g) = mem_view hub (org, g)" for org
  proof (cases "find_last (\<lambda>m. orm_organization_id m = org) ms")
    case None
    then have "org \<notin> orm_organization_id ` set ms" by (auto simp: find_last_None_iff)
    moreover from this have "mem_view hub (org, g) = None"
      using member_orgs [OF hub(1), of org g] unfolding ms_def by blast
    moreover have "org \<notin> orm_organization_id ` set ex \<Longrightarrow> mem_view db (org, g) = None"
      using member_orgs [OF reg(1), of org g] unfolding ex_def by blast
    ultimately show ?thesis using None d(1) 1(2) by simp
  next
    case (Some m)
    then have "org \<in> orm_organization_id ` set ms" by (auto dest: find_last_SomeD)
    with Some d(1) 1(2) find_last_memberships [OF hub(1), of org g] show ?thesis by (simp add: ms_def)
  qed
  moreover have "same_frame db db'" using 1(3) d(3) by (rule same_frame_trans)
  moreover have "tables_keyed db'" using d(4) 1(4) by blast
  ultimately show ?thesis using that by (simp add: ms_def)
qed

lemma replace_overlays_mirrors:
  assumes hub: "tables_keyed hub" "views_ok hub"
    and reg: "tables_keyed db" "gm_get (rdb_regions db) g \<noteq> None"
  obtains db' where "replace_overlays g (rs_list_overlays_by_region hub g) db = (Inr (), db')"
    "\<forall>org. ovl_view db' (org, g) = ovl_view hub (org, g)" "mem_view db' = mem_view db"
    "same_frame db db'" "tables_keyed db'"
proof -
  define vs where "vs = rs_list_overlays_by_region hub g"
  have rows: "\<forall>v\<in>set vs. rco_region_id v = g \<and> ovl_view hub (rco_organization_id v, g) = Some (rco_payload v, rco_updated_at v)"
    using listed_overlay [OF hub(1)] unfolding vs_def by blast
  then have ok: "\<forall>v\<in>set vs. rco_region_id v = g \<and> trimmed (rco_organization_id v)"
    and st: "\<forall>v\<in>set vs. stored_payload (rco_payload v) = rco_payload v"
    using hub(2) unfolding views_ok_def by (metis fst_conv)+
  from ovl_table.loop_view [OF ok reg(2,1)] obtain db1 where
    1: "upsert_overlays vs db = (Inr (), db1)"
    "ovl_view db1 = (\<lambda>k. case find_last (\<lambda>x. (rco_organization_id x, g) = k) vs of
        Some x \<Rightarrow> Some (stored_payload (rco_payload x), rco_updated_at x) | None \<Rightarrow> ovl_view db k)"
    "mem_view db1 = mem_view db" "same_frame db db1" "tables_keyed db1" by blast
  define ex where "ex = rs_list_overlays_by_region db g"
  define db' where "db' = fold (\<lambda>v db. if rco_organization_id v \<in> set (map rco_organization_id vs) then db
     else snd (rs_delete_overlay g (rco_organization_id v) db)) ex db1"
  note d = delete_stale_overlays_view [where keep = "map rco_organization_id vs" and g = g and ex = ex and db = db1, folded db'_def]
  have "replace_overlays g vs db = (Inr (), db')"
    by (simp add: replace_overlays_def Let_def db_bind_def 1(1) db'_def ex_def)
  moreover have "ovl_view db' (org, g) = ovl_view hub (org, g)" for org
  proof (cases "find_last (\<lambda>v. rco_organization_id v = org) vs")
    case None
    then have "org \<notin> rco_organization_id ` set vs" by (auto simp: find_last_None_iff)
    moreover from this have "ovl_view hub (org, g) = None"
      using overlay_orgs [OF hub(1), of org g] unfolding vs_def by blast
    moreover have "org \<notin> rco_organization_id ` set ex \<Longrightarrow> ovl_view db (org, g) = None"
      using overlay_orgs [OF reg(1), of org g] unfolding ex_def by blast
    ultimately show ?thesis using None d(1) 1(2) by simp
  next
    case (Some v)
    then have "v \<in> set vs" "org \<in> rco_organization_id ` set vs" by (auto dest: find_last_SomeD)
    with Some d(1) 1(2) st find_last_overlays [OF hub(1), of org g] show ?thesis by (simp add: vs_def)
  qed
  moreover have "same_frame db db'" using 1(4) d(3) by (rule same_frame_trans)
  moreover have "tables_keyed db'" using d(4) 1(5) by blast
  ultimately show ?thesis using that d(2) 1(3) by (simp add: vs_def)
qed

section \<open>The hub's operations\<close>

definition hub_ok :: "region_db \<Rightarrow> bool" where
  "hub_ok db \<longleftrightarrow> tables_keyed db \<and> views_ok db \<and>
     (\<forall>n. gm_get (rdb_org_names db) n \<noteq> None \<longrightarrow> trimmed n) \<and>
     (\<forall>i. gm_get (rdb_regions db) i \<noteq> None \<longrightarrow> trimmed i)"

text \<open>
  The revision only grows, and while it stays the same the memberships and overlays stay the same.
\<close>

definition hub_progress :: "region_db \<Rightarrow> region_db \<Rightarrow> bool" where
  "hub_progress db db' \<longleftrightarrow> hub_ok db' \<and> rdb_regions db' = rdb_regions db \<and> rdb_org_names db' = rdb_org_names db \<and>
     rdb_revision db \<le> rdb_revision db' \<and>
     (rdb_revision db' = rdb_revision db \<longrightarrow> mem_view db' = mem_view db \<and> ovl_view db' = ovl_view db)"

lemma hub_progress_refl: "hub_ok db \<Longrightarrow> hub_progress db db"
  by (simp add: hub_progress_def)

lemma bump_view [simp]:
  "mem_view (snd (fs_bump_revision db)) = mem_view db" "ovl_view (snd (fs_bump_revision db)) = ovl_view db"
  "tables_keyed (snd (fs_bump_revision db)) = tables_keyed db"
  "rdb_regions (snd (fs_bump_revision db)) = rdb_regions db"
  "rdb_org_names (snd (fs_bump_revision db)) = rdb_org_names db"
  "rdb_revision (snd (fs_bump_revision db)) = rdb_revision db + 1"
  by (simp_all add: fs_bump_revision_def mem_view_def ovl_view_def tables_keyed_def fun_eq_iff)

lemma bump_progress:
  assumes "hub_ok db" and "rdb_regions db1 = rdb_regions db" "rdb_org_names db1 = rdb_org_names db"
    "rdb_revision db1 = rdb_revision db" "tables_keyed db1" "views_ok db1"
  shows "hub_progress db (snd (fs_bump_revision db1))"
  using assms by (simp add: hub_progress_def hub_ok_def views_ok_def)

lemma stored_payload_idem [simp]: "stored_payload (stored_payload p) = stored_payload p"
  by (simp add: stored_payload_def)

lemma svc_bind_org_result:
  assumes "svc_bind_org region org status now db = (r, db1)" and "hub_ok db"
  shows "(\<exists>e. r = Inl e \<and> db1 = db) \<or>
    ((\<exists>m. r = Inr m) \<and> tables_keyed db1 \<and> views_ok db1 \<and> rdb_org_names db1 = rdb_org_names db \<and> same_frame db db1)"
proof (cases r)
  case (Inl e)
  then have "db1 = db"
    using assms(1) by (auto simp: svc_bind_org_def db_check_def db_bind_def rs_upsert_membership_def Let_def
        split: sum.splits if_splits prod.splits option.splits)
  with Inl show ?thesis by simp
next
  case (Inr m)
  then have m: "new_org_region_membership org region status now = Inr m" "rs_upsert_membership m db = (Inr (), db1)"
    using assms(1) by (auto simp: svc_bind_org_def db_check_def db_bind_def split: sum.splits if_splits prod.splits)
  then have t: "trimmed (orm_organization_id m)"
    by (auto simp: new_org_region_membership_def Let_def trimmed_def bind_res_Inr_iff split: if_splits)
  note u = upsert_membership_view [OF m(2)]
  have "views_ok db1" using assms(2) t u(1,2) by (auto simp: hub_ok_def views_ok_def split: if_splits)
  with u assms(2) Inr show ?thesis by (simp add: hub_ok_def)
qed

lemma hub_bind_org_progress:
  assumes "hub_ok db" shows "hub_progress db (snd (hub_bind_org region org status now db))"
proof (cases "gm_get (rdb_org_names db) org")
  case None
  with assms show ?thesis by (simp add: hub_bind_org_def db_check_def hub_progress_refl)
next
  case (Some n)
  obtain r db1 where r: "svc_bind_org region org status now db = (r, db1)" by fastforce
  from svc_bind_org_result [OF r assms] consider e where "r = Inl e" "db1 = db"
    | m where "r = Inr m" "tables_keyed db1" "views_ok db1" "rdb_org_names db1 = rdb_org_names db" "same_frame db db1"
    by (cases r) auto
  then show ?thesis
  proof cases
    case 1
    with Some r assms show ?thesis by (simp add: hub_bind_org_def db_check_def bump_after_def db_bind_def hub_progress_refl)
  next
    case 2
    then have "hub_progress db (snd (fs_bump_revision db1))"
      by (intro bump_progress [OF assms]) (simp_all add: same_frame_def)
    with 2 Some r show ?thesis by (simp add: hub_bind_org_def db_check_def bump_after_def db_bind_def)
  qed
qed

lemma views_ok_delete:
  "views_ok db \<Longrightarrow> views_ok (snd (rs_delete_overlay g o' db))"
  "views_ok db \<Longrightarrow> views_ok (snd (rs_delete_membership g o' db))"
  by (auto simp: views_ok_def delete_overlay_view delete_membership_view split: if_splits)

lemma hub_unbind_org_progress:
  assumes "hub_ok db" shows "hub_progress db (snd (hub_unbind_org region org db))"
proof (cases "gm_get (rdb_memberships db) (org, region)")
  case None
  with assms show ?thesis
    by (simp add: hub_unbind_org_def bump_after_def db_bind_def svc_unbind_org_def rs_get_membership_def db_check_def hub_progress_refl)
next
  case (Some m)
  define db1 where "db1 = snd (rs_delete_membership region org (snd (rs_delete_overlay region org db)))"
  have "rs_delete_membership region org (snd (rs_delete_overlay region org db)) = (Inr (), db1)"
    using Some by (simp add: db1_def rs_delete_membership_def rs_delete_overlay_def)
  then have eq: "snd (hub_unbind_org region org db) = snd (fs_bump_revision db1)"
    using Some by (simp add: hub_unbind_org_def bump_after_def db_bind_def svc_unbind_org_def rs_get_membership_def db_check_def)
  have "same_frame db db1" unfolding db1_def by (rule same_frame_trans [OF delete_overlay_view(3) delete_membership_view(3)])
  moreover have "tables_keyed db1" "views_ok db1"
    using assms unfolding db1_def hub_ok_def by (simp_all add: delete_overlay_view delete_membership_view views_ok_delete)
  moreover have "rdb_org_names db1 = rdb_org_names db" by (simp add: db1_def delete_overlay_view delete_membership_view)
  ultimately show ?thesis unfolding eq by (intro bump_progress [OF assms]) (simp_all add: same_frame_def)
qed

lemma hub_delete_overlay_progress:
  assumes "hub_ok db" shows "hub_progress db (snd (hub_delete_overlay region org db))"
proof -
  have eq: "snd (hub_delete_overlay region org db) = snd (fs_bump_revision (snd (rs_delete_overlay region org db)))"
    by (simp add: hub_delete_overlay_def bump_after_def db_bind_def svc_delete_overlay_def rs_delete_overlay_def)
  have "same_frame db (snd (rs_delete_overlay region org db))" by (rule delete_overlay_view)
  then show ?thesis unfolding eq
    by (intro bump_progress [OF assms]) (use assms in \<open>simp_all add: same_frame_def delete_overlay_view hub_ok_def views_ok_delete\<close>)
qed

lemma hub_put_overlay_progress:
  assumes "hub_ok db" shows "hub_progress db (snd (hub_put_overlay region org payload now db))"
proof (cases "svc_put_overlay region org payload now db")
  case (Pair r db1)
  show ?thesis
  proof (cases r)
    case (Inl e)
    with Pair have "db1 = db"
      by (auto simp: svc_put_overlay_def db_check_def db_bind_def rs_upsert_overlay_def Let_def
        split: sum.splits if_splits prod.splits option.splits)
    with Inl Pair assms show ?thesis by (simp add: hub_put_overlay_def bump_after_def db_bind_def hub_progress_refl)
  next
    case (Inr v)
    with Pair have v: "new_region_config_overlay org region payload now = Inr v" "rs_upsert_overlay v db = (Inr (), db1)"
      by (auto simp: svc_put_overlay_def db_check_def db_bind_def split: sum.splits if_splits prod.splits)
    then have t: "trimmed (rco_organization_id v)"
      by (auto simp: new_region_config_overlay_def Let_def trimmed_def split: if_splits)
    note u = upsert_overlay_view [OF v(2)]
    have "views_ok db1" using assms t u(1,2) by (auto simp: hub_ok_def views_ok_def split: if_splits)
    moreover have "tables_keyed db1" using u(5) assms by (simp add: hub_ok_def)
    ultimately have "hub_progress db (snd (fs_bump_revision db1))"
      using u(3,4) by (intro bump_progress [OF assms]) (simp_all add: same_frame_def)
    with Inr Pair show ?thesis by (simp add: hub_put_overlay_def bump_after_def db_bind_def)
  qed
qed

text \<open>Binding all organizations fails at the first one or not at all.\<close>

lemma trim_active: "trim_space MembershipStatusActive = MembershipStatusActive" "MembershipStatusActive \<noteq> []"
  by code_simp+

lemma svc_bind_org_succeeds:
  assumes "hub_ok db" and "gm_get (rdb_regions db) region = Some r" and "rgn_status r \<noteq> RegionStatusDisabled"
    and "gm_get (rdb_org_names db) org \<noteq> None"
  shows "\<exists>m db1. svc_bind_org region org MembershipStatusActive now db = (Inr m, db1)"
proof -
  have t: "trimmed org" "trimmed region" using assms by (auto simp: hub_ok_def)
  then obtain m where m: "new_org_region_membership org region MembershipStatusActive now = Inr m"
    "orm_organization_id m = org" "orm_region_id m = region"
    by (auto simp: new_org_region_membership_def Let_def trimmed_def validate_membership_status_def trim_active)
  have "\<exists>db1. rs_upsert_membership m db = (Inr (), db1)"
    using assms(2,4) m(2,3) by (cases "gm_get (rdb_memberships db) (org, region)") (auto simp: rs_upsert_membership_def Let_def)
  then show ?thesis using m(1) assms(2,3)
    by (auto simp: svc_bind_org_def rs_get_region_def db_check_def db_bind_def)
qed

lemma bind_all_loop_ok:
  assumes "hub_ok db" and "gm_get (rdb_regions db) region = Some r" and "rgn_status r \<noteq> RegionStatusDisabled"
    and "\<forall>n\<in>set orgs. gm_get (rdb_org_names db) n \<noteq> None"
  shows "\<exists>n' db'. bind_all_loop region orgs now n db = ((n', None), db') \<and> tables_keyed db' \<and> views_ok db' \<and>
    same_frame db db' \<and> rdb_org_names db' = rdb_org_names db"
  using assms
proof (induction orgs arbitrary: n db)
  case Nil
  then show ?case by (simp add: hub_ok_def)
next
  case (Cons org orgs)
  have t: "trim_space org = org" "org \<noteq> []" using Cons.prems(1,4) by (auto simp: hub_ok_def trimmed_def)
  from svc_bind_org_succeeds [OF Cons.prems(1,2,3), of org now] Cons.prems(4) obtain m db1 where
    1: "svc_bind_org region org MembershipStatusActive now db = (Inr m, db1)" by auto
  from svc_bind_org_result [OF 1 Cons.prems(1)] have
    2: "tables_keyed db1" "views_ok db1" "rdb_org_names db1 = rdb_org_names db" "same_frame db db1" by auto
  have "hub_ok db1" "gm_get (rdb_regions db1) region = Some r"
    using 2 Cons.prems(1,2) by (simp_all add: hub_ok_def same_frame_def)
  from Cons.IH [OF this Cons.prems(3), of "Suc n"] Cons.prems(4) 2 1 t show ?case
    by (auto intro: same_frame_trans)
qed

lemma bind_all_loop_disabled:
  assumes "gm_get (rdb_regions db) region = Some r" and "rgn_status r = RegionStatusDisabled"
    and "bind_all_loop region orgs now n db = ((n', e), db')"
  shows "db' = db"
  using assms(3)
  by (induction orgs arbitrary: n)
    (auto simp: Let_def svc_bind_org_def rs_get_region_def assms(1,2) db_check_def split: if_splits)

lemma hub_bind_all_progress:
  assumes "hub_ok db" shows "hub_progress db (snd (hub_bind_all region now db))"
proof (cases "gm_get (rdb_regions db) region")
  case None
  with assms show ?thesis by (simp add: hub_bind_all_def svc_bind_all_def rs_get_region_def hub_progress_refl)
next
  case (Some r)
  define orgs where "orgs = map fst (rdb_org_names db)"
  have all: "\<forall>n\<in>set orgs. gm_get (rdb_org_names db) n \<noteq> None"
    by (auto simp: orgs_def map_of_eq_None_iff)
  show ?thesis
  proof (cases "rgn_status r = RegionStatusDisabled")
    case True
    obtain n e db' where l: "bind_all_loop region orgs now 0 db = ((n, e), db')" by (metis prod.exhaust)
    with bind_all_loop_disabled [OF Some True l] have "db' = db" by simp
    moreover have "hub_progress db (snd (fs_bump_revision db))"
      using assms by (intro bump_progress) (simp_all add: hub_ok_def)
    ultimately show ?thesis using l Some assms
      by (cases e) (simp_all add: hub_bind_all_def svc_bind_all_def rs_get_region_def hub_progress_refl flip: orgs_def)
  next
    case False
    from bind_all_loop_ok [OF assms Some False all, of now 0] obtain n' db' where
      l: "bind_all_loop region orgs now 0 db = ((n', None), db')" "tables_keyed db'" "views_ok db'"
      "same_frame db db'" "rdb_org_names db' = rdb_org_names db" by blast
    then have "hub_progress db (snd (fs_bump_revision db'))"
      by (intro bump_progress [OF assms]) (simp_all add: same_frame_def)
    with l(1) Some show ?thesis by (simp add: hub_bind_all_def svc_bind_all_def rs_get_region_def flip: orgs_def)
  qed
qed

section \<open>Pulls\<close>

lemma peers_view [simp]:
  "mem_view (db\<lparr>rdb_peers := ps\<rparr>) = mem_view db" "ovl_view (db\<lparr>rdb_peers := ps\<rparr>) = ovl_view db"
  "tables_keyed (db\<lparr>rdb_peers := ps\<rparr>) = tables_keyed db" "hub_ok (db\<lparr>rdb_peers := ps\<rparr>) = hub_ok db"
  "rs_get_region_by_slug (db\<lparr>rdb_peers := ps\<rparr>) slug = rs_get_region_by_slug db slug"
  by (simp_all add: mem_view_def ovl_view_def tables_keyed_def hub_ok_def views_ok_def rs_get_region_by_slug_def fun_eq_iff)

lemma sync_view [simp]:
  "mem_view (db\<lparr>rdb_sync := ss\<rparr>) = mem_view db" "ovl_view (db\<lparr>rdb_sync := ss\<rparr>) = ovl_view db"
  "tables_keyed (db\<lparr>rdb_sync := ss\<rparr>) = tables_keyed db"
  by (simp_all add: mem_view_def ovl_view_def tables_keyed_def fun_eq_iff)

lemma authenticate_frame: "\<exists>ps. snd (svc_authenticate_peer sha raw now db) = db\<lparr>rdb_peers := ps\<rparr>"
proof (intro exI)
  show "snd (svc_authenticate_peer sha raw now db) =
      db\<lparr>rdb_peers := rdb_peers (snd (svc_authenticate_peer sha raw now db))\<rparr>"
    by (simp add: svc_authenticate_peer_def fs_update_peer_def Let_def split: sum.splits option.splits)
qed

lemma join_frame:
  obtains ps where "snd (handle_peer_join sha now body hdr h) = h\<lparr>hb_db := (hb_db h)\<lparr>rdb_peers := ps\<rparr>\<rparr>"
proof -
  define t where "t = (if trim_space body = [] then trim_space hdr else trim_space body)"
  obtain ps where ps: "snd (svc_authenticate_peer sha t now (hb_db h)) = (hb_db h)\<lparr>rdb_peers := ps\<rparr>"
    using authenticate_frame by blast
  obtain x d where x: "svc_authenticate_peer sha t now (hb_db h) = (x, d)" by fastforce
  with ps have "d = (hb_db h)\<lparr>rdb_peers := ps\<rparr>" by simp
  then have "snd (handle_peer_join sha now body hdr h) = h\<lparr>hb_db := (hb_db h)\<lparr>rdb_peers := ps\<rparr>\<rparr>"
    using x by (cases x) (simp_all add: handle_peer_join_def svc_join_def t_def Let_def)
  then show ?thesis by (rule that)
qed

text \<open>The one region of the pull, on the hub and on the regional side.\<close>

definition hub_region :: "region_db \<Rightarrow> string \<Rightarrow> region \<Rightarrow> bool" where
  "hub_region db slug r \<longleftrightarrow> gm_get (rdb_regions db) (rgn_id r) = Some r \<and> rs_get_region_by_slug db slug = Inr r \<and>
     trimmed slug \<and> normalize_region_slug slug = slug \<and> rgn_slug r = slug \<and> rgn_id r \<noteq> []"

definition only_region :: "region_db \<Rightarrow> string \<Rightarrow> bool" where
  "only_region db g \<longleftrightarrow> (\<forall>i. gm_get (rdb_regions db) i \<noteq> None \<longrightarrow> i = g)"

definition exported :: "region_db \<Rightarrow> region \<Rightarrow> int \<Rightarrow> region_export \<Rightarrow> bool" where
  "exported db r since e \<longleftrightarrow> re_revision e = rdb_revision db \<and> re_region_slug e = rgn_slug r \<and> re_region_id e = rgn_id r \<and>
     (if since > 0 \<and> since \<ge> rdb_revision db then re_memberships e = None \<and> re_overlays e = None \<and> re_snapshot e = None
      else re_memberships e = Some (rs_list_memberships_by_region db (rgn_id r)) \<and>
           re_overlays e = Some (rs_list_overlays_by_region db (rgn_id r)))"

lemma build_region_export_exported:
  assumes "hub_region (hb_db h) slug r"
  obtains e where "build_region_export reg now h slug since prefix = Inr e" "exported (hb_db h) r since e"
proof -
  have slug: "normalize_region_slug slug = slug" "slug \<noteq> []" "rgn_slug r = slug" "rs_get_region_by_slug (hb_db h) slug = Inr r"
    using assms by (auto simp: hub_region_def trimmed_def)
  obtain s where s: "latest_regional_snapshot reg now h slug = Inr s"
    using slug(4) by (cases "Option.bind (hb_mirror h) (\<lambda>m. gm_get m slug)") (auto simp: latest_regional_snapshot_def)
  have "\<exists>e. build_region_export reg now h slug since prefix = Inr e \<and> exported (hb_db h) r since e"
    using slug s by (cases "since > 0 \<and> since \<ge> rdb_revision (hb_db h)")
      (auto simp: build_region_export_def Let_def exported_def)
  with that show ?thesis by blast
qed

lemma export_frame:
  assumes "handle_region_export reg sha now prefix token slug since h = (res, h')"
  obtains ps where "h' = h\<lparr>hb_db := (hb_db h)\<lparr>rdb_peers := ps\<rparr>\<rparr>"
proof -
  obtain x d where x: "svc_authenticate_peer sha (trim_space token) now (hb_db h) = (x, d)" by fastforce
  with authenticate_frame [of sha "trim_space token" now "hb_db h"] obtain ps where d: "d = (hb_db h)\<lparr>rdb_peers := ps\<rparr>" by auto
  have rec: "\<exists>ps'. snd (fs_record_peer_sync i c t e d) = (hb_db h)\<lparr>rdb_peers := ps'\<rparr>" for i c t e
    by (auto simp: fs_record_peer_sync_def modify_peer_def d split: option.splits)
  have "\<exists>ps. h' = h\<lparr>hb_db := (hb_db h)\<lparr>rdb_peers := ps\<rparr>\<rparr>"
  proof (cases x)
    case (Inl e)
    with assms x d show ?thesis by (auto simp: handle_region_export_def)
  next
    case (Inr p)
    with assms x have "h' = h\<lparr>hb_db := d\<rparr> \<or> (\<exists>i c t e. h' = h\<lparr>hb_db := snd (fs_record_peer_sync i c t e d)\<rparr>)"
      by (auto simp: handle_region_export_def Let_def split: sum.splits if_splits)
    then show ?thesis
    proof
      assume "h' = h\<lparr>hb_db := d\<rparr>"
      with d show ?thesis by auto
    next
      assume "\<exists>i c t e. h' = h\<lparr>hb_db := snd (fs_record_peer_sync i c t e d)\<rparr>"
      then obtain i c t e where "h' = h\<lparr>hb_db := snd (fs_record_peer_sync i c t e d)\<rparr>" by blast
      with rec [of i c t e] show ?thesis by metis
    qed
  qed
  with that show ?thesis by blast
qed

lemma handle_region_export_exported:
  assumes "handle_region_export reg sha now prefix token slug since h = (Inr e, h')" and "hub_region (hb_db h) slug r"
  shows "exported (hb_db h) r since e"
proof -
  obtain x d where x: "svc_authenticate_peer sha (trim_space token) now (hb_db h) = (x, d)" by fastforce
  with authenticate_frame [of sha "trim_space token" now "hb_db h"] obtain ps where d: "d = (hb_db h)\<lparr>rdb_peers := ps\<rparr>" by auto
  define h1 where "h1 = h\<lparr>hb_db := d\<rparr>"
  have hr: "hub_region (hb_db h1) slug r" using assms(2) by (simp add: h1_def d hub_region_def)
  obtain e' where e': "build_region_export reg now h1 slug since prefix = Inr e'" "exported (hb_db h1) r since e'"
    using build_region_export_exported [OF hr] by blast
  have "trim_space slug = slug" using assms(2) by (simp add: hub_region_def trimmed_def)
  with assms(1) x e'(1) have "e = e'"
    by (auto simp: handle_region_export_def Let_def h1_def split: sum.splits if_splits)
  moreover have "exported (hb_db h1) r since e' = exported (hb_db h) r since e'"
    by (simp add: exported_def h1_def d rs_list_memberships_by_region_def rs_list_overlays_by_region_def)
  ultimately show ?thesis using e'(2) by simp
qed

lemma ensure_region_ok:
  assumes "only_region db g" and "tables_keyed db"
  obtains db' where "ensure_region g slug name now db = (Inr (), db')" "gm_get (rdb_regions db') g \<noteq> None"
    "mem_view db' = mem_view db" "ovl_view db' = ovl_view db" "rdb_sync db' = rdb_sync db" "tables_keyed db'" "only_region db' g"
proof (cases "gm_get (rdb_regions db) g")
  case (Some r)
  then have "ensure_region g slug name now db = (Inr (), db)" by (simp add: ensure_region_def rs_get_region_def)
  with Some assms show ?thesis by (intro that) auto
next
  case None
  have "rdb_regions db = []"
  proof (cases "rdb_regions db")
    case (Cons kv m)
    then have "gm_get (rdb_regions db) (fst kv) \<noteq> None" by (cases kv) simp
    with assms(1) have "fst kv = g" by (auto simp: only_region_def)
    with None \<open>gm_get (rdb_regions db) (fst kv) \<noteq> None\<close> show ?thesis by simp
  qed simp
  then have "ensure_region g slug name now db = (Inr (), db\<lparr>rdb_regions := [(g, \<lparr>rgn_id = g, rgn_slug = slug, rgn_name = name,
      rgn_status = RegionStatusActive, rgn_created_at = now, rgn_updated_at = now\<rparr>)]\<rparr>)"
    by (simp add: ensure_region_def rs_get_region_def rs_get_region_by_slug_def rs_create_region_def)
  then show ?thesis
  proof (rule that)
    show "tables_keyed (db\<lparr>rdb_regions := [(g, \<lparr>rgn_id = g, rgn_slug = slug, rgn_name = name,
      rgn_status = RegionStatusActive, rgn_created_at = now, rgn_updated_at = now\<rparr>)]\<rparr>)"
      using assms(2) by (simp add: tables_keyed_def)
  qed (simp_all add: mem_view_def ovl_view_def only_region_def fun_eq_iff)
qed

lemma apply_export_result:
  assumes e: "exported hub r since e" and hub: "hub_ok hub" and r: "rgn_id r \<noteq> []" "rgn_slug r \<noteq> []"
    and st: "tables_keyed (rc_db st)" "only_region (rc_db st) (rgn_id r)"
  obtains st' where "apply_export now e st = (Inr (), st')" "tables_keyed (rc_db st')" "only_region (rc_db st') (rgn_id r)"
    "pull_cursor st' (rgn_slug r) = rdb_revision hub"
    "if since > 0 \<and> since \<ge> rdb_revision hub
     then mem_view (rc_db st') = mem_view (rc_db st) \<and> ovl_view (rc_db st') = ovl_view (rc_db st) \<and> rc_snapshots st' = rc_snapshots st
     else mirrors hub (rc_db st') (rgn_id r)"
proof -
  from ensure_region_ok [OF st(2,1)] obtain db1 where
    1: "ensure_region (rgn_id r) (rgn_slug r) (rgn_slug r) now (rc_db st) = (Inr (), db1)"
    "gm_get (rdb_regions db1) (rgn_id r) \<noteq> None" "mem_view db1 = mem_view (rc_db st)" "ovl_view db1 = ovl_view (rc_db st)"
    "tables_keyed db1" "only_region db1 (rgn_id r)" by metis
  have ids: "re_region_id e = rgn_id r" "re_region_slug e = rgn_slug r" "re_revision e = rdb_revision hub"
    using e by (simp_all add: exported_def)
  have "\<exists>db2. apply_tables now e (rc_db st) = (Inr (), db2) \<and> tables_keyed db2 \<and> only_region db2 (rgn_id r) \<and>
     (if since > 0 \<and> since \<ge> rdb_revision hub
      then mem_view db2 = mem_view (rc_db st) \<and> ovl_view db2 = ovl_view (rc_db st) else mirrors hub db2 (rgn_id r))"
  proof (cases "since > 0 \<and> since \<ge> rdb_revision hub")
    case True
    with e have "re_memberships e = None" "re_overlays e = None" by (simp_all add: exported_def)
    with 1 ids r True show ?thesis by (simp add: apply_tables_def db_bind_def)
  next
    case False
    with e have ex: "re_memberships e = Some (rs_list_memberships_by_region hub (rgn_id r))"
      "re_overlays e = Some (rs_list_overlays_by_region hub (rgn_id r))" by (auto simp: exported_def)
    have h: "tables_keyed hub" "views_ok hub" using hub by (simp_all add: hub_ok_def)
    from replace_memberships_mirrors [OF h 1(5,2)] obtain db2 where
      2: "replace_memberships (rgn_id r) (rs_list_memberships_by_region hub (rgn_id r)) db1 = (Inr (), db2)"
      "\<forall>org. mem_view db2 (org, rgn_id r) = mem_view hub (org, rgn_id r)" "same_frame db1 db2" "tables_keyed db2" by metis
    have g2: "gm_get (rdb_regions db2) (rgn_id r) \<noteq> None" using 1(2) 2(3) by (simp add: same_frame_def)
    from replace_overlays_mirrors [OF h 2(4) g2] obtain db3 where
      3: "replace_overlays (rgn_id r) (rs_list_overlays_by_region hub (rgn_id r)) db2 = (Inr (), db3)"
      "\<forall>org. ovl_view db3 (org, rgn_id r) = ovl_view hub (org, rgn_id r)" "mem_view db3 = mem_view db2"
      "same_frame db2 db3" "tables_keyed db3" by metis
    have "only_region db3 (rgn_id r)" using 1(6) 2(3) 3(4) by (simp add: only_region_def same_frame_def)
    moreover have "mirrors hub db3 (rgn_id r)" using 2(2) 3(2,3) by (simp add: mirrors_def)
    moreover have "apply_tables now e (rc_db st) = (Inr (), db3)"
      using 1(1) 2(1) 3(1) ids r ex by (simp add: apply_tables_def db_bind_def)
    ultimately show ?thesis using 3(5) False by auto
  qed
  then obtain db2 where 2: "apply_tables now e (rc_db st) = (Inr (), db2)" "tables_keyed db2" "only_region db2 (rgn_id r)"
    "if since > 0 \<and> since \<ge> rdb_revision hub
      then mem_view db2 = mem_view (rc_db st) \<and> ovl_view db2 = ovl_view (rc_db st) else mirrors hub db2 (rgn_id r)" by blast
  define db3 where "db3 = snd (fs_upsert_sync_state \<lparr>ss_region_slug = re_region_slug e, ss_cursor = re_revision e,
     ss_last_sync_at = Some now, ss_last_sync_error = [], ss_updated_at = now\<rparr> db2)"
  define st' where "st' = st\<lparr>rc_db := db3, rc_snapshots :=
     (case re_snapshot e of None \<Rightarrow> rc_snapshots st | Some s \<Rightarrow> snd (put_snapshot s (rc_snapshots st)))\<rparr>"
  have ap: "apply_export now e st = (Inr (), st')" using 2(1) by (simp add: apply_export_def Let_def st'_def db3_def)
  have db3: "db3 = db2\<lparr>rdb_sync := rdb_sync db3\<rparr>" by (simp add: db3_def fs_upsert_sync_state_def)
  have v3: "tables_keyed db3" "only_region db3 (rgn_id r)" "mem_view db3 = mem_view db2" "ovl_view db3 = ovl_view db2"
    using 2(2,3) by (subst db3, simp add: only_region_def)+
  have "pull_cursor st' (rgn_slug r) = rdb_revision hub"
    by (simp add: pull_cursor_def st'_def db3_def fs_upsert_sync_state_def fs_get_sync_state_def ids)
  moreover have "if since > 0 \<and> since \<ge> rdb_revision hub
     then mem_view (rc_db st') = mem_view (rc_db st) \<and> ovl_view (rc_db st') = ovl_view (rc_db st) \<and> rc_snapshots st' = rc_snapshots st
     else mirrors hub (rc_db st') (rgn_id r)"
    using 2(4) e v3(3,4) by (auto simp: st'_def mirrors_def exported_def)
  moreover have "tables_keyed (rc_db st')" "only_region (rc_db st') (rgn_id r)" using v3 by (simp_all add: st'_def)
  ultimately show ?thesis using that [OF ap] by blast
qed

section \<open>Reachable states\<close>

text \<open>
  The hub's topology, its peers, its base configuration and its publications change in any
  order, and the regional side pulls at any time with any token.
\<close>

inductive sync_step ::
  "registry \<Rightarrow> (string \<Rightarrow> string) \<Rightarrow> string \<Rightarrow> string \<Rightarrow> hub \<times> regional \<Rightarrow> hub \<times> regional \<Rightarrow> bool"
  for reg :: registry and sha :: "string \<Rightarrow> string" and prefix slug :: string
where
  step_bind: "sync_step reg sha prefix slug (h, st) (h\<lparr>hb_db := snd (hub_bind_org region org status now (hb_db h))\<rparr>, st)"
| step_unbind: "sync_step reg sha prefix slug (h, st) (h\<lparr>hb_db := snd (hub_unbind_org region org (hb_db h))\<rparr>, st)"
| step_put: "sync_step reg sha prefix slug (h, st) (h\<lparr>hb_db := snd (hub_put_overlay region org payload now (hb_db h))\<rparr>, st)"
| step_delete: "sync_step reg sha prefix slug (h, st) (h\<lparr>hb_db := snd (hub_delete_overlay region org (hb_db h))\<rparr>, st)"
| step_bind_all: "sync_step reg sha prefix slug (h, st) (h\<lparr>hb_db := snd (hub_bind_all region now (hb_db h))\<rparr>, st)"
| step_peers: "sync_step reg sha prefix slug (h, st) (h\<lparr>hb_db := (hb_db h)\<lparr>rdb_peers := ps\<rparr>\<rparr>, st)"
| step_base: "sync_step reg sha prefix slug (h, st) (h\<lparr>hb_base := base\<rparr>, st)"
| step_publish: "sync_step reg sha prefix slug (h, st) (publish_with_regions reg now only h, st)"
| step_pull: "pull_once reg sha now prefix token slug h st = (res, h', st') \<Longrightarrow>
     sync_step reg sha prefix slug (h, st) (h', st')"

definition sync_inv :: "string \<Rightarrow> region \<Rightarrow> hub \<times> regional \<Rightarrow> bool" where
  "sync_inv slug r s \<longleftrightarrow> (case s of (h, st) \<Rightarrow>
     hub_ok (hb_db h) \<and> hub_region (hb_db h) slug r \<and>
     tables_keyed (rc_db st) \<and> only_region (rc_db st) (rgn_id r) \<and>
     pull_cursor st slug \<le> rdb_revision (hb_db h) \<and>
     (0 < pull_cursor st slug \<and> pull_cursor st slug = rdb_revision (hb_db h) \<longrightarrow>
        mirrors (hb_db h) (rc_db st) (rgn_id r)))"

lemma sync_inv_progress:
  assumes "sync_inv slug r (h, st)" and "hub_progress (hb_db h) (hb_db h')"
  shows "sync_inv slug r (h', st)"
proof -
  have same: "rdb_revision (hb_db h') = rdb_revision (hb_db h) \<Longrightarrow>
      mirrors (hb_db h') (rc_db st) (rgn_id r) = mirrors (hb_db h) (rc_db st) (rgn_id r)"
    using assms(2) by (simp add: hub_progress_def mirrors_def)
  have "rdb_revision (hb_db h) \<le> rdb_revision (hb_db h')" "hub_ok (hb_db h')" "rdb_regions (hb_db h') = rdb_regions (hb_db h)"
    using assms(2) by (simp_all add: hub_progress_def)
  with assms(1) same show ?thesis
    by (auto simp: sync_inv_def hub_region_def rs_get_region_by_slug_def)
qed

lemma publish_progress:
  assumes "hub_ok (hb_db h)" shows "hub_progress (hb_db h) (hb_db (publish_with_regions reg now only h))"
proof (cases "hb_mirror h")
  case None
  then have "hb_db (publish_with_regions reg now only h) = hb_db h"
    by (simp add: publish_with_regions_def publish_regional_snapshots_def put_snapshot_def Let_def)
  with assms show ?thesis by (simp add: hub_progress_refl)
next
  case (Some m)
  then have "hb_db (publish_with_regions reg now only h) = snd (fs_bump_revision (hb_db h))"
    by (simp add: publish_with_regions_def publish_regional_snapshots_def put_snapshot_def Let_def)
  with assms show ?thesis by (auto intro!: bump_progress simp: hub_ok_def)
qed

lemma pull_once_cases:
  assumes inv: "sync_inv slug r (h, st)" and pull: "pull_once reg sha now prefix token slug h st = (res, h', st')"
  obtains (failed) err where "res = Inl err" "st' = st" "hub_progress (hb_db h) (hb_db h')"
  | (pulled) e where "res = Inr e" "exported (hb_db h) r (max 0 (pull_cursor st slug)) e" "hub_progress (hb_db h) (hb_db h')"
      "mirrors (hb_db h') (rc_db st') (rgn_id r)" "pull_cursor st' slug = rdb_revision (hb_db h')"
      "tables_keyed (rc_db st')" "only_region (rc_db st') (rgn_id r)"
proof -
  have i: "hub_ok (hb_db h)" "hub_region (hb_db h) slug r" "tables_keyed (rc_db st)" "only_region (rc_db st) (rgn_id r)"
    "pull_cursor st slug \<le> rdb_revision (hb_db h)"
    "0 < pull_cursor st slug \<Longrightarrow> pull_cursor st slug = rdb_revision (hb_db h) \<Longrightarrow> mirrors (hb_db h) (rc_db st) (rgn_id r)"
    using inv by (auto simp: sync_inv_def)
  have slug: "trim_space slug = slug" "rgn_slug r = slug" "rgn_id r \<noteq> []" "rgn_slug r \<noteq> []"
    using i(2) by (auto simp: hub_region_def trimmed_def)
  define h1 where "h1 = snd (handle_peer_join sha now token [] h)"
  obtain ps where h1: "h1 = h\<lparr>hb_db := (hb_db h)\<lparr>rdb_peers := ps\<rparr>\<rparr>" unfolding h1_def by (rule join_frame)
  define since where "since = max 0 (pull_cursor st slug)"
  obtain x h2 where x: "handle_region_export reg sha now prefix token slug since h1 = (x, h2)" by fastforce
  from x obtain ps2 where "h2 = h1\<lparr>hb_db := (hb_db h1)\<lparr>rdb_peers := ps2\<rparr>\<rparr>" by (rule export_frame)
  then have h2: "h2 = h\<lparr>hb_db := (hb_db h)\<lparr>rdb_peers := ps2\<rparr>\<rparr>" by (simp add: h1)
  have hr: "hub_region (hb_db h1) slug r" using i(2) by (simp add: h1 hub_region_def)
  have prog: "hub_progress (hb_db h) (hb_db h2)" using i(1) by (simp add: h2 hub_progress_def)
  show ?thesis
  proof (cases x)
    case (Inl c)
    with pull x slug(1) prog show ?thesis by (intro failed [of "Err ErrOther ''federationclient export: status''"]) (simp_all add: pull_once_def Let_def h1_def since_def)
  next
    case (Inr e)
    with handle_region_export_exported x hr have "exported (hb_db h1) r since e" by blast
    then have ex: "exported (hb_db h) r since e"
      by (simp add: exported_def h1 rs_list_memberships_by_region_def rs_list_overlays_by_region_def)
    from apply_export_result [OF ex i(1) slug(3,4) i(3,4)] obtain st2 where
      a: "apply_export now e st = (Inr (), st2)" "tables_keyed (rc_db st2)" "only_region (rc_db st2) (rgn_id r)"
      "pull_cursor st2 slug = rdb_revision (hb_db h)"
      "if since > 0 \<and> since \<ge> rdb_revision (hb_db h)
       then mem_view (rc_db st2) = mem_view (rc_db st) \<and> ovl_view (rc_db st2) = ovl_view (rc_db st) \<and> rc_snapshots st2 = rc_snapshots st
       else mirrors (hb_db h) (rc_db st2) (rgn_id r)" unfolding slug(2) by blast
    have res: "res = Inr e" "h' = h2" "st' = st2"
      using pull x slug(1) Inr a(1) by (simp_all add: pull_once_def Let_def h1_def since_def)
    have "mirrors (hb_db h) (rc_db st2) (rgn_id r)"
    proof (cases "since > 0 \<and> since \<ge> rdb_revision (hb_db h)")
      case True
      then have "0 < pull_cursor st slug" "pull_cursor st slug = rdb_revision (hb_db h)"
        using i(5) by (auto simp: since_def)
      with i(6) True a(5) show ?thesis by (simp add: mirrors_def)
    next
      case False
      with a(5) show ?thesis by (simp only: if_False)
    qed
    then have "mirrors (hb_db h2) (rc_db st2) (rgn_id r)" by (simp add: mirrors_def h2)
    with a res prog ex show ?thesis by (intro pulled) (simp_all add: h2 since_def)
  qed
qed

lemma sync_inv_hub:
  assumes "sync_inv slug r (h, st)" and "hub_ok (hb_db h) \<Longrightarrow> hub_progress (hb_db h) (hb_db h')"
  shows "sync_inv slug r (h', st)"
proof (rule sync_inv_progress [OF assms(1)])
  have "hub_ok (hb_db h)" using assms(1) by (simp add: sync_inv_def)
  then show "hub_progress (hb_db h) (hb_db h')" by (rule assms(2))
qed

lemma sync_step_inv:
  assumes "sync_step reg sha prefix slug s s'" and "sync_inv slug r s"
  shows "sync_inv slug r s'"
  using assms(1)
proof cases
  case (step_pull now token h st res h' st')
  from assms(2) step_pull(1) have inv: "sync_inv slug r (h, st)" by simp
  show ?thesis
  proof (rule pull_once_cases [OF inv step_pull(3)])
    fix e assume "hub_progress (hb_db h) (hb_db h')" "mirrors (hb_db h') (rc_db st') (rgn_id r)"
      "pull_cursor st' slug = rdb_revision (hb_db h')" "tables_keyed (rc_db st')" "only_region (rc_db st') (rgn_id r)"
    with sync_inv_progress [OF inv] show ?thesis unfolding step_pull(2) by (simp add: sync_inv_def)
  next
    assume "st' = st" "hub_progress (hb_db h) (hb_db h')"
    with sync_inv_progress [OF inv] show ?thesis unfolding step_pull(2) by simp
  qed
next
  case (step_base h st base)
  with assms(2) show ?thesis by (simp add: sync_inv_def)
next
  case (step_peers h st ps)
  with assms(2) show ?thesis by (auto simp: sync_inv_def hub_region_def mirrors_def)
qed (use assms(2) in \<open>auto intro!: hub_bind_org_progress hub_unbind_org_progress hub_put_overlay_progress
      hub_delete_overlay_progress hub_bind_all_progress publish_progress elim!: sync_inv_hub\<close>)

section \<open>Authentication of the peer\<close>

definition peers_unique :: "region_db \<Rightarrow> bool" where
  "peers_unique db \<longleftrightarrow> gm_wf (rdb_peers db) \<and> (\<forall>i p. gm_get (rdb_peers db) i = Some p \<longrightarrow> pe_id p = i) \<and>
     (\<forall>i j p q. gm_get (rdb_peers db) i = Some p \<longrightarrow> gm_get (rdb_peers db) j = Some q \<longrightarrow>
        pe_join_token_hash p = pe_join_token_hash q \<longrightarrow> i = j)"

text \<open>The hub has an enabled peer for region \<open>g\<close> whose join token is \<open>token\<close>.\<close>

definition peer_enabled :: "(string \<Rightarrow> string) \<Rightarrow> region_db \<Rightarrow> string \<Rightarrow> string \<Rightarrow> bool" where
  "peer_enabled sha db token g \<longleftrightarrow> peers_unique db \<and> trim_space token \<noteq> [] \<and>
     (\<exists>i p. gm_get (rdb_peers db) i = Some p \<and> pe_join_token_hash p = hash_opaque_token sha (trim_space token) \<and>
        pe_status p \<noteq> PeerStatusDisabled \<and> pe_region_id p = g)"

lemma get_peer_by_hash:
  assumes "peers_unique db" and "gm_get (rdb_peers db) i = Some p"
  shows "fs_get_peer_by_hash db (pe_join_token_hash p) = Inr p"
proof -
  have p: "p \<in> set (map snd (rdb_peers db))" using gm_get_set [OF assms(2)] by force
  then obtain q where q: "find (\<lambda>x. pe_join_token_hash x = pe_join_token_hash p) (map snd (rdb_peers db)) = Some q"
    by (cases "find (\<lambda>x. pe_join_token_hash x = pe_join_token_hash p) (map snd (rdb_peers db))") (auto simp: find_None_iff)
  then have "q \<in> set (map snd (rdb_peers db))" "pe_join_token_hash q = pe_join_token_hash p"
    by (auto simp: find_Some_iff)
  then obtain j where "(j, q) \<in> set (rdb_peers db)" by auto
  then have "gm_get (rdb_peers db) j = Some q" using assms(1) by (simp add: peers_unique_def gm_get_mem)
  with assms \<open>pe_join_token_hash q = _\<close> have "j = i" by (metis peers_unique_def)
  with \<open>gm_get (rdb_peers db) j = Some q\<close> assms(2) have "q = p" by simp
  with q show ?thesis by (simp add: fs_get_peer_by_hash_def)
qed

lemma authenticate_enabled:
  assumes "peer_enabled sha db token g"
  obtains p db' where "svc_authenticate_peer sha (trim_space token) now db = (Inr p, db')" "pe_region_id p = g" "peer_enabled sha db' token g"
proof -
  from assms obtain i p where p: "gm_get (rdb_peers db) i = Some p" "pe_join_token_hash p = hash_opaque_token sha (trim_space token)"
    "pe_status p \<noteq> PeerStatusDisabled" "pe_region_id p = g" and u: "peers_unique db" and t: "trim_space token \<noteq> []"
    by (auto simp: peer_enabled_def)
  have i: "pe_id p = i" using u p(1) by (simp add: peers_unique_def)
  have f: "fs_get_peer_by_hash db (hash_opaque_token sha (trim_space token)) = Inr p"
    using get_peer_by_hash [OF u p(1)] p(2) by simp
  show ?thesis
  proof (cases "pe_status p = PeerStatusPending")
    case False
    with f p(3) t have "svc_authenticate_peer sha (trim_space token) now db = (Inr p, db)"
      by (simp add: svc_authenticate_peer_def Let_def)
    with p(4) assms show ?thesis by (intro that)
  next
    case True
    define p' where "p' = p\<lparr>pe_status := PeerStatusActive, pe_updated_at := now\<rparr>"
    define db' where "db' = db\<lparr>rdb_peers := gm_put i p' (rdb_peers db)\<rparr>"
    have "svc_authenticate_peer sha (trim_space token) now db = (Inr p', db')"
      using True f t p(1) i
      by (simp add: svc_authenticate_peer_def Let_def peer_status_defs fs_update_peer_def fs_get_peer_def p'_def db'_def)
    moreover have "peers_unique db'"
      using u p(1) by (auto simp: peers_unique_def db'_def p'_def split: if_splits)
    then have "peer_enabled sha db' token g"
      using t p by (auto simp: peer_enabled_def db'_def p'_def peer_status_defs intro!: exI [of _ i])
    moreover have "pe_region_id p' = g" using p(4) by (simp add: p'_def)
    ultimately show ?thesis using that by blast
  qed
qed

lemma pull_once_succeeds:
  assumes inv: "sync_inv slug r (h, st)" and peer: "peer_enabled sha (hb_db h) token (rgn_id r)"
  obtains e h' st' where "pull_once reg sha now prefix token slug h st = (Inr e, h', st')"
proof -
  have i: "hub_region (hb_db h) slug r" "hub_ok (hb_db h)" "tables_keyed (rc_db st)" "only_region (rc_db st) (rgn_id r)"
    using inv by (auto simp: sync_inv_def)
  have slug: "trim_space slug = slug" "rgn_slug r = slug" "rgn_id r \<noteq> []" "rgn_slug r \<noteq> []" "gm_get (rdb_regions (hb_db h)) (rgn_id r) = Some r"
    using i(1) by (auto simp: hub_region_def trimmed_def)
  define h1 where "h1 = snd (handle_peer_join sha now token [] h)"
  define since where "since = max 0 (pull_cursor st slug)"
  from authenticate_enabled [OF peer, of now] obtain p db1 where
    1: "svc_authenticate_peer sha (trim_space token) now (hb_db h) = (Inr p, db1)" "peer_enabled sha db1 token (rgn_id r)" by metis
  have t: "trim_space token \<noteq> []" using peer by (simp add: peer_enabled_def)
  have h1: "h1 = h\<lparr>hb_db := db1\<rparr>" using 1(1) t by (simp add: h1_def handle_peer_join_def svc_join_def Let_def)
  from authenticate_frame [of sha "trim_space token" now "hb_db h"] 1(1) obtain ps where d1: "db1 = (hb_db h)\<lparr>rdb_peers := ps\<rparr>"
    by auto
  from authenticate_enabled [OF 1(2), of now] obtain q db2 where
    2: "svc_authenticate_peer sha (trim_space token) now db1 = (Inr q, db2)" "pe_region_id q = rgn_id r" by metis
  from authenticate_frame [of sha "trim_space token" now db1] 2(1) obtain ps2 where d2: "db2 = (hb_db h)\<lparr>rdb_peers := ps2\<rparr>"
    by (auto simp: d1)
  have hr: "hub_region (hb_db (h\<lparr>hb_db := db2\<rparr>)) slug r" using i(1) by (simp add: d2 hub_region_def)
  obtain e where e: "build_region_export reg now (h\<lparr>hb_db := db2\<rparr>) slug since prefix = Inr e" "exported (hb_db (h\<lparr>hb_db := db2\<rparr>)) r since e"
    by (rule build_region_export_exported [OF hr])
  have ex: "exported (hb_db h) r since e" using e(2)
    by (simp add: exported_def d2 rs_list_memberships_by_region_def rs_list_overlays_by_region_def)
  have "\<exists>h2. handle_region_export reg sha now prefix token slug since h1 = (Inr e, h2)"
    using 2 e(1) slug by (simp add: handle_region_export_def h1 Let_def rs_get_region_def d2)
  then obtain h2 where h2: "handle_region_export reg sha now prefix token slug since h1 = (Inr e, h2)" by blast
  obtain st' where "apply_export now e st = (Inr (), st')"
    using apply_export_result [OF ex i(2) slug(3,4) i(3,4)] by blast
  with h2 slug(1) show ?thesis
    by (intro that) (simp add: pull_once_def Let_def flip: h1_def since_def)
qed

section \<open>Properties\<close>

definition empty_regional :: regional where
  "empty_regional = \<lparr>rc_db = empty_region_db, rc_snapshots = []\<rparr>"

lemma reachable_inv:
  assumes "rtranclp (sync_step reg sha prefix slug) (h0, empty_regional) s"
    and "hub_ok (hb_db h0)" and "hub_region (hb_db h0) slug r" and "0 \<le> rdb_revision (hb_db h0)"
  shows "sync_inv slug r s"
  using assms(1)
proof (induction rule: rtranclp_induct)
  case base
  show ?case using assms(2-4)
    by (simp add: sync_inv_def empty_regional_def empty_region_db_def tables_keyed_def only_region_def
        pull_cursor_def fs_get_sync_state_def)
next
  case (step s s')
  from sync_step_inv [OF step(2) step(3)] show ?case .
qed


text \<open>
  A hub without an object-store mirror never tells its regions about changed configuration.
  Publishing advances the federation revision only after the regional blobs are written, and
  returns before that when there is no mirror; a region that is up to date with memberships and
  overlays then gets the answer \<^verbatim>\<open>unchanged\<close>, and keeps the snapshot it has, whatever
  configuration the hub has published since.
\<close>

theorem unmirrored_publish_not_pulled:
  assumes "sync_inv slug r (h, st)" and "hb_mirror h = None"
    and "0 < pull_cursor st slug" and "pull_cursor st slug = rdb_revision (hb_db h)"
    and "pull_once reg sha now prefix token slug (publish_with_regions reg now only (h\<lparr>hb_base := base\<rparr>)) st = (res, h', st')"
  shows "rc_snapshots st' = rc_snapshots st"
proof -
  define h1 where "h1 = publish_with_regions reg now only (h\<lparr>hb_base := base\<rparr>)"
  have d1: "hb_db h1 = hb_db h"
    using assms(2) by (simp add: h1_def publish_with_regions_def publish_regional_snapshots_def put_snapshot_def Let_def)
  then have inv: "sync_inv slug r (h1, st)" using assms(1) by (simp add: sync_inv_def)
  show ?thesis
  proof (cases res)
    case (Inl err)
    with assms(5) pull_once_cases [OF inv assms(5) [folded h1_def]] show ?thesis by blast
  next
    case (Inr e)
    then have "exported (hb_db h1) r (max 0 (pull_cursor st slug)) e"
      using pull_once_cases [OF inv assms(5) [folded h1_def]] by blast
    then have "re_snapshot e = None" using assms(3,4) d1 by (simp add: exported_def)
    with Inr assms(5) show ?thesis
      by (auto simp: pull_once_def Let_def apply_export_def split: sum.splits prod.splits)
  qed
qed

subsection \<open>Concrete instances\<close>

definition demo_region :: region where
  "demo_region = \<lparr>rgn_id = ''r'', rgn_slug = ''eu'', rgn_name = ''EU'', rgn_status = ''active'', rgn_created_at = 0, rgn_updated_at = 0\<rparr>"

definition demo_peer :: peer where
  "demo_peer = \<lparr>pe_id = ''p'', pe_name = ''EU CP'', pe_region_id = ''r'', pe_base_url = [], pe_status = ''pending'',
     pe_join_token_hash = ''74'', pe_join_token_enc = [], pe_last_sync_at = None, pe_last_sync_cursor = 0,
     pe_last_sync_error = [], pe_created_at = 0, pe_updated_at = 0\<rparr>"

definition demo_hub :: hub where
  "demo_hub = \<lparr>hb_db = empty_region_db\<lparr>rdb_org_names := [(''o1'', ''Acme'')], rdb_regions := [(''r'', demo_region)],
       rdb_peers := [(''p'', demo_peer)]\<rparr>,
     hb_base = empty_source, hb_snapshots = [], hb_mirror = None\<rparr>"

definition demo_bound_hub :: hub where
  "demo_bound_hub = demo_hub\<lparr>hb_db := snd (hub_bind_org ''r'' ''o1'' ''active'' 1 (hb_db demo_hub))\<rparr>"

lemma demo_trimmed: "trimmed ''o1''" "trimmed ''r''" "trimmed ''eu''" "normalize_region_slug ''eu'' = ''eu''"
  by code_simp+

lemma demo_hub_ok: "hub_ok (hb_db demo_hub)" "hub_region (hb_db demo_hub) ''eu'' demo_region" "0 \<le> rdb_revision (hb_db demo_hub)"
  by (auto simp: hub_ok_def views_ok_def tables_keyed_def mem_view_def ovl_view_def demo_hub_def empty_region_db_def
      hub_region_def rs_get_region_by_slug_def demo_region_def demo_trimmed split: if_splits)

lemma demo_peer_enabled: "peer_enabled id (hb_db demo_bound_hub) ''t'' ''r''"
proof -
  have "rdb_peers (hb_db demo_bound_hub) = [(''p'', demo_peer)]" by code_simp
  moreover have "trim_space ''t'' = ''t''" by code_simp
  then have "hash_opaque_token id (trim_space ''t'') = ''74''" "trim_space ''t'' \<noteq> []"
    by (simp_all add: hash_opaque_token_def hex_encode_def hex_digit_def char_of_def bit_0)
  ultimately show ?thesis
    by (auto simp: peer_enabled_def peers_unique_def gm_wf_def demo_peer_def peer_status_defs split: if_splits)
qed

lemma demo_reachable: "rtranclp (sync_step [] id ''snapshots'' ''eu'') (demo_hub, empty_regional) (demo_bound_hub, empty_regional)"
  unfolding demo_bound_hub_def by (rule r_into_rtranclp) (rule step_bind)


text \<open>A hub and a regional control plane that are synchronized at revision 1.\<close>

definition demo_bound :: region_membership where
  "demo_bound = \<lparr>orm_organization_id = ''o1'', orm_region_id = ''r'', orm_status = ''active'', orm_created_at = 1, orm_updated_at = 1\<rparr>"

definition demo_synced_hub :: hub where
  "demo_synced_hub = demo_hub\<lparr>hb_db := (hb_db demo_hub)\<lparr>rdb_memberships := [((''o1'', ''r''), demo_bound)], rdb_revision := 1\<rparr>\<rparr>"

definition demo_synced :: regional where
  "demo_synced = \<lparr>rc_db = empty_region_db\<lparr>rdb_org_names := [(''o1'', ''federated:o1'')], rdb_regions := [(''r'', demo_region)],
       rdb_memberships := [((''o1'', ''r''), demo_bound)],
       rdb_sync := [(''eu'', \<lparr>ss_region_slug = ''eu'', ss_cursor = 1, ss_last_sync_at = Some 2, ss_last_sync_error = [], ss_updated_at = 2\<rparr>)]\<rparr>,
     rc_snapshots = [empty_snapshot]\<rparr>"

lemma demo_sync_inv: "sync_inv ''eu'' demo_region (demo_synced_hub, demo_synced)"
  by (auto simp: sync_inv_def hub_ok_def views_ok_def tables_keyed_def mem_view_def ovl_view_def demo_synced_hub_def
      demo_synced_def demo_hub_def empty_region_db_def hub_region_def rs_get_region_by_slug_def demo_region_def demo_trimmed
      demo_bound_def only_region_def mirrors_def pull_cursor_def fs_get_sync_state_def gm_wf_def split: if_splits)

theorem unmirrored_publish_not_pulled_witness:
  "rc_snapshots (snd (snd (pull_once [] id 4 ''snapshots'' ''t'' ''eu''
       (publish_with_regions [] 4 [] (demo_synced_hub\<lparr>hb_base := demo_region_base\<rparr>)) demo_synced))) = rc_snapshots demo_synced \<and>
   rc_snapshots demo_synced = [empty_snapshot] \<and>
   sn_routes (region_snapshot_of [] 4 demo_region_base (hb_db demo_synced_hub) demo_region) \<noteq> []"
proof -
  have "hb_mirror demo_synced_hub = None" "0 < pull_cursor demo_synced ''eu''"
    "pull_cursor demo_synced ''eu'' = rdb_revision (hb_db demo_synced_hub)"
    by (simp_all add: demo_synced_hub_def demo_hub_def demo_synced_def pull_cursor_def fs_get_sync_state_def)
  note unmirrored_publish_not_pulled [OF demo_sync_inv this, of "[]" id 4 "''snapshots''" "''t''" "[]" demo_region_base]
  moreover have "sn_routes (region_snapshot_of [] 4 demo_region_base (hb_db demo_synced_hub) demo_region) \<noteq> []" by code_simp
  moreover have "rc_snapshots demo_synced = [empty_snapshot]" by (simp add: demo_synced_def)
  ultimately show ?thesis by (metis prod.collapse)
qed

end
