(* ===== verification/Access.thy ===== *)
theory Access
  imports Tenancy_Service
begin

text \<open>
  Virtual API keys and service signing keys: the entities and services of \<^verbatim>\<open>src/internal/access\<close>,
  their tables (\<^verbatim>\<open>src/internal/adapters/postgres/apikeys.go\<close>, \<^verbatim>\<open>signing_keys.go\<close>,
  \<^verbatim>\<open>environments.go\<close>) and the key handlers of \<^verbatim>\<open>src/internal/controlplane/http_keys.go\<close>. The hash of
  a key is stored beside its row and the raw key is not. Identifiers, random keys and the clock are
  arguments; \<open>sha\<close> is SHA-256 and \<open>pub\<close> tells whether a PEM text holds a public key and of which kind.
\<close>

section \<open>Keys\<close>

definition KeyKindPersonal :: string where "KeyKindPersonal = ''personal''"
definition KeyKindServiceAccount :: string where "KeyKindServiceAccount = ''service_account''"

lemmas key_kind_defs = KeyKindPersonal_def KeyKindServiceAccount_def

record access_key =
  ky_id :: string
  ky_project_id :: string
  ky_organization_id :: string
  ky_environment_id :: string
  ky_name :: string
  ky_kind :: string
  ky_owner_user_id :: string
  ky_key_prefix :: string
  ky_key :: string
  ky_created_at :: gotime

definition key_display_prefix :: "string \<Rightarrow> string" where
  "key_display_prefix raw = (if length raw \<le> 10 then raw else take 10 raw)"

definition access_hash :: "(string \<Rightarrow> string) \<Rightarrow> string \<Rightarrow> string" where
  "access_hash sha raw = hash_key sha raw"

definition normalize_kind :: "string \<Rightarrow> string" where
  "normalize_kind kind = (if kind = [] then KeyKindServiceAccount else kind)"

definition parse_key_kind :: "string \<Rightarrow> string res" where
  "parse_key_kind kind0 =
     (let kind = normalize_kind kind0 in
      if kind = KeyKindPersonal \<or> kind = KeyKindServiceAccount then Inr kind
      else Inl (invalid_request ''invalid key kind''))"

definition validate_kind_rules :: "string \<Rightarrow> string \<Rightarrow> string \<Rightarrow> string \<Rightarrow> unit res" where
  "validate_kind_rules kind owner proj env =
     bind_res (parse_key_kind kind) (\<lambda>k.
       if k = KeyKindPersonal then
         (if owner = [] then Inl (invalid_request ''personal keys require owner'')
          else if proj \<noteq> [] then Inl (invalid_request ''personal keys cannot have a project'')
          else if env \<noteq> [] then Inl (invalid_request ''personal keys cannot have an environment'')
          else Inr ())
       else
         (if owner \<noteq> [] then Inl (invalid_request ''service account keys cannot have an owner'')
          else if env \<noteq> [] \<and> proj = [] then Inl (invalid_request ''environment requires a project'')
          else Inr ()))"

definition new_api_key ::
  "string \<Rightarrow> string \<Rightarrow> string \<Rightarrow> string \<Rightarrow> string \<Rightarrow> string \<Rightarrow> string \<Rightarrow> string \<Rightarrow> gotime \<Rightarrow> access_key res" where
  "new_api_key i org kind0 owner proj env name raw now =
     (if i = [] \<or> org = [] then Inl (invalid_request ''id and organization_id required'')
      else if raw = [] then Inl (invalid_request ''raw key required'')
      else let kind = normalize_kind kind0 in
        bind_res (validate_kind_rules kind owner proj env) (\<lambda>_.
          Inr \<lparr>ky_id = i, ky_project_id = proj, ky_organization_id = org, ky_environment_id = env, ky_name = name,
               ky_kind = kind, ky_owner_user_id = owner, ky_key_prefix = key_display_prefix raw, ky_key = raw,
               ky_created_at = now\<rparr>))"

definition SigningKeyAlgorithmEd25519 :: string where "SigningKeyAlgorithmEd25519 = ''ed25519''"
definition SigningKeyStatusActive :: string where "SigningKeyStatusActive = ''active''"
definition SigningKeyStatusDisabled :: string where "SigningKeyStatusDisabled = ''disabled''"

lemmas signing_status_defs = SigningKeyStatusActive_def SigningKeyStatusDisabled_def

record service_key =
  sg_id :: string
  sg_key_id :: string
  sg_project_id :: string
  sg_organization_id :: string
  sg_environment_id :: string
  sg_name :: string
  sg_algorithm :: string
  sg_public_key_pem :: string
  sg_status :: string
  sg_created_at :: gotime
  sg_updated_at :: gotime

definition normalize_signing_key_algorithm :: "string \<Rightarrow> string" where
  "normalize_signing_key_algorithm v =
     (if trim_space v = [] then SigningKeyAlgorithmEd25519 else to_lower (trim_space v))"

definition normalize_signing_key_status :: "string \<Rightarrow> string" where
  "normalize_signing_key_status v =
     (if trim_space v = [] then SigningKeyStatusActive else to_lower (trim_space v))"

definition validate_signing_key_status :: "string \<Rightarrow> unit res" where
  "validate_signing_key_status v =
     (if normalize_signing_key_status v = SigningKeyStatusActive \<or>
         normalize_signing_key_status v = SigningKeyStatusDisabled then Inr ()
      else Inl (invalid_request ''unsupported status''))"

text \<open>What \<^verbatim>\<open>pem.Decode\<close> and \<^verbatim>\<open>x509.ParsePKIXPublicKey\<close> find in a text.\<close>

datatype public_key = NoPEM | BadPublicKey | OtherPublicKey | Ed25519Key string

definition parse_ed25519_pem :: "(string \<Rightarrow> public_key) \<Rightarrow> string \<Rightarrow> string res" where
  "parse_ed25519_pem pub pem =
     (case pub (trim_space pem) of
        NoPEM \<Rightarrow> Inl (invalid_request ''invalid PEM public key'')
      | BadPublicKey \<Rightarrow> Inl (invalid_request ''parse public key'')
      | OtherPublicKey \<Rightarrow> Inl (invalid_request ''public key must be ed25519'')
      | Ed25519Key k \<Rightarrow> Inr k)"

definition validate_signing_key_material :: "(string \<Rightarrow> public_key) \<Rightarrow> string \<Rightarrow> string \<Rightarrow> unit res" where
  "validate_signing_key_material pub algorithm pem =
     (if normalize_signing_key_algorithm algorithm = SigningKeyAlgorithmEd25519
      then bind_res (parse_ed25519_pem pub pem) (\<lambda>_. Inr ())
      else Inl (invalid_request ''unsupported algorithm''))"

text \<open>
  The project and environment are compared untrimmed and stored trimmed; every other field is
  trimmed first.
\<close>

definition new_signing_key ::
  "(string \<Rightarrow> public_key) \<Rightarrow> string \<Rightarrow> string \<Rightarrow> string \<Rightarrow> string \<Rightarrow> string \<Rightarrow> string \<Rightarrow> string \<Rightarrow> string \<Rightarrow> gotime \<Rightarrow>
   service_key res" where
  "new_signing_key pub i0 key_id0 org0 proj env name0 algorithm0 pem0 now =
     (let i = trim_space i0; key_id = trim_space key_id0; org = trim_space org0; name = trim_space name0;
          pem = trim_space pem0 in
      if i = [] \<or> key_id = [] \<or> org = [] \<or> name = []
        then Inl (invalid_request ''id, key_id, organization_id, and name required'')
      else if proj = [] \<and> env \<noteq> [] then Inl (invalid_request ''environment requires a project'')
      else let algorithm = normalize_signing_key_algorithm algorithm0 in
        bind_res (validate_signing_key_material pub algorithm pem) (\<lambda>_.
          Inr \<lparr>sg_id = i, sg_key_id = key_id, sg_project_id = trim_space proj, sg_organization_id = org,
               sg_environment_id = trim_space env, sg_name = name, sg_algorithm = algorithm,
               sg_public_key_pem = pem, sg_status = SigningKeyStatusActive,
               sg_created_at = now, sg_updated_at = now\<rparr>))"

section \<open>Tables\<close>

text \<open>A row of the keys table is a key without its raw text, with the hash beside it.\<close>

record access_db =
  acc_tenancy :: tenancy_db
  acc_keys :: "(string, access_key \<times> string) gomap"
  acc_signing :: "(string, service_key) gomap"

type_synonym 'a acc_op = "('a, access_db) storeop"

definition key_rows :: "access_db \<Rightarrow> access_key list" where
  "key_rows db = map (fst \<circ> snd) (acc_keys db)"

definition keys_list_by_project :: "access_db \<Rightarrow> string \<Rightarrow> access_key list" where
  "keys_list_by_project db proj = sort_key ky_created_at (filter (\<lambda>k. proj \<noteq> [] \<and> ky_project_id k = proj) (key_rows db))"

definition keys_list_by_org :: "access_db \<Rightarrow> string \<Rightarrow> access_key list" where
  "keys_list_by_org db org = sort_key ky_created_at (filter (\<lambda>k. ky_organization_id k = org) (key_rows db))"

definition keys_get :: "access_db \<Rightarrow> string \<Rightarrow> access_key res" where
  "keys_get db i = found (map_option fst (gm_get (acc_keys db) i))"

definition keys_org_id :: "access_db \<Rightarrow> string \<Rightarrow> string res" where
  "keys_org_id db i = bind_res (keys_get db i) (\<lambda>k. Inr (ky_organization_id k))"

text \<open>An empty project, environment or owner is stored as NULL, which no foreign key constrains.\<close>

definition key_references_ok :: "tenancy_db \<Rightarrow> string \<Rightarrow> string \<Rightarrow> string \<Rightarrow> bool" where
  "key_references_ok db org proj env \<longleftrightarrow>
     gm_get (db_orgs db) org \<noteq> None \<and> (proj \<noteq> [] \<longrightarrow> gm_get (db_projects db) proj \<noteq> None) \<and>
     (env \<noteq> [] \<longrightarrow> gm_get (db_environments db) env \<noteq> None)"

definition kind_check :: "access_key \<Rightarrow> bool" where
  "kind_check k \<longleftrightarrow>
     ky_kind k = KeyKindPersonal \<and> ky_owner_user_id k \<noteq> [] \<and> ky_project_id k = [] \<or>
     ky_kind k = KeyKindServiceAccount \<and> ky_owner_user_id k = []"

definition check_violation :: err where
  "check_violation = Err ErrOther ''new row violates check constraint''"

definition keys_insert :: "access_key \<Rightarrow> string \<Rightarrow> unit acc_op" where
  "keys_insert k h db =
     (if \<not> kind_check k then (Inl check_violation, db)
      else if gm_get (acc_keys db) (ky_id k) \<noteq> None \<or> (\<exists>(_, _, h')\<in>set (acc_keys db). h' = h) then (Inl key_violation, db)
      else if \<not> key_references_ok (acc_tenancy db) (ky_organization_id k) (ky_project_id k) (ky_environment_id k) \<or>
              ky_owner_user_id k \<noteq> [] \<and> gm_get (db_users (acc_tenancy db)) (ky_owner_user_id k) = None
        then (Inl foreign_key_violation, db)
      else (Inr (), db\<lparr>acc_keys := gm_put (ky_id k) (k\<lparr>ky_key := []\<rparr>, h) (acc_keys db)\<rparr>))"

definition keys_delete :: "string \<Rightarrow> unit acc_op" where
  "keys_delete i db =
     (if gm_get (acc_keys db) i = None then (Inl (sentinel ErrNotFound), db)
      else (Inr (), db\<lparr>acc_keys := gm_del i (acc_keys db)\<rparr>))"

definition signing_list_by_org :: "access_db \<Rightarrow> string \<Rightarrow> service_key list" where
  "signing_list_by_org db org =
     sort_key sg_created_at (filter (\<lambda>k. sg_organization_id k = org) (map snd (acc_signing db)))"

definition signing_get :: "access_db \<Rightarrow> string \<Rightarrow> service_key res" where
  "signing_get db i = found (gm_get (acc_signing db) i)"

definition signing_org_id :: "access_db \<Rightarrow> string \<Rightarrow> string res" where
  "signing_org_id db i = bind_res (signing_get db i) (\<lambda>k. Inr (sg_organization_id k))"

definition signing_status_check :: "service_key \<Rightarrow> bool" where
  "signing_status_check k \<longleftrightarrow> sg_status k = SigningKeyStatusActive \<or> sg_status k = SigningKeyStatusDisabled"

definition signing_insert :: "service_key \<Rightarrow> unit acc_op" where
  "signing_insert k db =
     (if \<not> signing_status_check k then (Inl check_violation, db)
      else if gm_get (acc_signing db) (sg_id k) \<noteq> None \<or>
              (\<exists>x\<in>set (map snd (acc_signing db)). sg_key_id x = sg_key_id k) then (Inl key_violation, db)
      else if \<not> key_references_ok (acc_tenancy db) (sg_organization_id k) (sg_project_id k) (sg_environment_id k)
        then (Inl foreign_key_violation, db)
      else (Inr (), db\<lparr>acc_signing := gm_put (sg_id k) k (acc_signing db)\<rparr>))"

definition signing_update :: "string \<Rightarrow> (service_key \<Rightarrow> service_key) \<Rightarrow> service_key acc_op" where
  "signing_update i f db =
     (case gm_get (acc_signing db) i of
        None \<Rightarrow> (Inl (sentinel ErrNotFound), db)
      | Some k \<Rightarrow>
          if \<not> signing_status_check (f k) then (Inl check_violation, db)
          else (Inr (f k), db\<lparr>acc_signing := gm_put i (f k) (acc_signing db)\<rparr>))"

definition signing_update_meta :: "string \<Rightarrow> string \<Rightarrow> string \<Rightarrow> gotime \<Rightarrow> service_key acc_op" where
  "signing_update_meta i name status now =
     signing_update i (\<lambda>k. k\<lparr>sg_name := (if name = [] then sg_name k else name),
       sg_status := (if status = [] then sg_status k else status), sg_updated_at := now\<rparr>)"

definition signing_update_public_key :: "string \<Rightarrow> string \<Rightarrow> gotime \<Rightarrow> service_key acc_op" where
  "signing_update_public_key i pem now =
     signing_update i (\<lambda>k. k\<lparr>sg_public_key_pem := pem, sg_status := ''active'', sg_updated_at := now\<rparr>)"

definition signing_delete :: "string \<Rightarrow> unit acc_op" where
  "signing_delete i db =
     (if gm_get (acc_signing db) i = None then (Inl (sentinel ErrNotFound), db)
      else (Inr (), db\<lparr>acc_signing := gm_del i (acc_signing db)\<rparr>))"

definition environments_list_by_project :: "access_db \<Rightarrow> string \<Rightarrow> environment list" where
  "environments_list_by_project db proj =
     sort_key ev_created_at (filter (\<lambda>e. ev_project_id e = proj) (map snd (db_environments (acc_tenancy db))))"

definition environments_get :: "access_db \<Rightarrow> string \<Rightarrow> environment res" where
  "environments_get db i = found (gm_get (db_environments (acc_tenancy db)) i)"

definition environments_org_id :: "access_db \<Rightarrow> string \<Rightarrow> string res" where
  "environments_org_id db i = bind_res (environments_get db i) (\<lambda>e. Inr (ev_organization_id e))"

text \<open>The keys of a deleted environment stay, without an environment (\<^verbatim>\<open>ON DELETE SET NULL\<close>).\<close>

definition detach_key :: "string \<Rightarrow> access_key \<Rightarrow> access_key" where
  "detach_key i k = (if ky_environment_id k = i then k\<lparr>ky_environment_id := []\<rparr> else k)"

definition detach_signing_key :: "string \<Rightarrow> service_key \<Rightarrow> service_key" where
  "detach_signing_key i k = (if sg_environment_id k = i then k\<lparr>sg_environment_id := []\<rparr> else k)"

definition environments_delete :: "string \<Rightarrow> unit acc_op" where
  "environments_delete i db =
     (if gm_get (db_environments (acc_tenancy db)) i = None then (Inl (sentinel ErrNotFound), db)
      else (Inr (), db\<lparr>
        acc_tenancy := (acc_tenancy db)\<lparr>db_environments := gm_del i (db_environments (acc_tenancy db))\<rparr>,
        acc_keys := map (\<lambda>(j, k, h). (j, detach_key i k, h)) (acc_keys db),
        acc_signing := map (\<lambda>(j, k). (j, detach_signing_key i k)) (acc_signing db)\<rparr>))"

section \<open>Services\<close>

definition project_belongs_to_org :: "access_db \<Rightarrow> string \<Rightarrow> string \<Rightarrow> unit res" where
  "project_belongs_to_org db proj org =
     (case projects_org_id (acc_tenancy db) proj of
        Inl e \<Rightarrow> Inl (if err_is e ErrNotFound then invalid_request ''project not found'' else e)
      | Inr proj_org \<Rightarrow> if proj_org \<noteq> org then Inl (invalid_request ''project not in organization'') else Inr ())"

definition environment_belongs_to_project :: "access_db \<Rightarrow> string \<Rightarrow> string \<Rightarrow> string \<Rightarrow> unit res" where
  "environment_belongs_to_project db env proj org =
     (case environments_get db env of
        Inl e \<Rightarrow> Inl (if err_is e ErrNotFound then invalid_request ''environment not found'' else e)
      | Inr e \<Rightarrow> if ev_organization_id e \<noteq> org \<or> ev_project_id e \<noteq> proj
                 then Inl (invalid_request ''environment does not belong to project'') else Inr ())"

text \<open>The checks of a project and an environment, each skipped when not given.\<close>

definition check_scopes :: "access_db \<Rightarrow> string \<Rightarrow> string \<Rightarrow> string \<Rightarrow> unit res" where
  "check_scopes db proj env org =
     bind_res (if proj \<noteq> [] then project_belongs_to_org db proj org else Inr ()) (\<lambda>_.
       if env \<noteq> [] then environment_belongs_to_project db env proj org else Inr ())"

definition create_api_key ::
  "(string \<Rightarrow> string) \<Rightarrow> gotime \<Rightarrow> string \<Rightarrow> string \<Rightarrow> string \<Rightarrow> string \<Rightarrow> string \<Rightarrow> string \<Rightarrow> string \<Rightarrow> string \<Rightarrow>
   access_key acc_op" where
  "create_api_key sha now i org kind owner proj env name raw db =
     db_check (new_api_key i org kind owner proj env name raw now) (\<lambda>k.
       db_check (check_scopes db proj env org) (\<lambda>_.
         db_bind (keys_insert k (access_hash sha raw)) (\<lambda>_ db. (Inr k, db)))) db"

definition create_signing_key ::
  "(string \<Rightarrow> public_key) \<Rightarrow> gotime \<Rightarrow> string \<Rightarrow> string \<Rightarrow> string \<Rightarrow> string \<Rightarrow> string \<Rightarrow> string \<Rightarrow> string \<Rightarrow> string \<Rightarrow>
   service_key acc_op" where
  "create_signing_key pub now i key_id org proj env name algorithm pem db =
     db_check (new_signing_key pub i key_id org proj env name algorithm pem now) (\<lambda>k.
       db_check (check_scopes db proj env org) (\<lambda>_.
         db_bind (signing_insert k) (\<lambda>_ db. (Inr k, db)))) db"

text \<open>A status of spaces is neither validated nor treated as missing: it is written.\<close>

definition update_signing_key :: "gotime \<Rightarrow> string \<Rightarrow> string \<Rightarrow> string \<Rightarrow> service_key acc_op" where
  "update_signing_key now i name status =
     (if trim_space name = [] \<and> trim_space status = []
      then (\<lambda>db. (Inl (invalid_request ''name or status required''), db))
      else if trim_space status \<noteq> [] then
        db_check (validate_signing_key_status status) (\<lambda>_.
          signing_update_meta i (trim_space name) (normalize_signing_key_status status) now)
      else signing_update_meta i (trim_space name) status now)"

definition rotate_signing_key :: "(string \<Rightarrow> public_key) \<Rightarrow> gotime \<Rightarrow> string \<Rightarrow> string \<Rightarrow> service_key acc_op" where
  "rotate_signing_key pub now i pem db =
     db_check (signing_get db i) (\<lambda>k.
       db_check (validate_signing_key_material pub (sg_algorithm k) pem) (\<lambda>_.
         signing_update_public_key i (trim_space pem) now)) db"

definition list_visible_org_api_keys :: "access_db \<Rightarrow> string \<Rightarrow> string \<Rightarrow> bool \<Rightarrow> access_key list" where
  "list_visible_org_api_keys db org viewer admin =
     (if admin then keys_list_by_org db org
      else filter (\<lambda>k. ky_kind k = KeyKindServiceAccount \<or> ky_owner_user_id k = viewer) (keys_list_by_org db org))"

text \<open>An operation of the tenancy services on the whole database.\<close>

definition on_tenancy :: "(tenancy_db \<Rightarrow> tenancy_db) \<Rightarrow> access_db \<Rightarrow> access_db" where
  "on_tenancy f db = db\<lparr>acc_tenancy := f (acc_tenancy db)\<rparr>"

end
