(* ===== verification/Http.thy ===== *)
theory Http
  imports Kernel
begin

text \<open>
  Answers of the HTTP handlers of \<^verbatim>\<open>src/internal/controlplane\<close>: a status with a body, or
  \<^verbatim>\<open>writeErr\<close> with a status and a message. The internals of an error that reaches a client
  are its message.
\<close>

datatype 'a reply = Reply nat 'a | Failed nat string

definition StatusOK :: nat where "StatusOK = 200"
definition StatusCreated :: nat where "StatusCreated = 201"
definition StatusNoContent :: nat where "StatusNoContent = 204"
definition StatusBadRequest :: nat where "StatusBadRequest = 400"
definition StatusUnauthorized :: nat where "StatusUnauthorized = 401"
definition StatusForbidden :: nat where "StatusForbidden = 403"
definition StatusNotFound :: nat where "StatusNotFound = 404"
definition StatusMethodNotAllowed :: nat where "StatusMethodNotAllowed = 405"
definition StatusConflict :: nat where "StatusConflict = 409"
definition StatusInternalServerError :: nat where "StatusInternalServerError = 500"
definition StatusBadGateway :: nat where "StatusBadGateway = 502"
definition StatusServiceUnavailable :: nat where "StatusServiceUnavailable = 503"

lemmas status_defs = StatusOK_def StatusCreated_def StatusNoContent_def StatusBadRequest_def
  StatusUnauthorized_def StatusForbidden_def StatusNotFound_def StatusMethodNotAllowed_def
  StatusConflict_def StatusInternalServerError_def StatusBadGateway_def StatusServiceUnavailable_def

text \<open>An unexpected error is a 500 with the error's text.\<close>

definition internal_error :: "err \<Rightarrow> 'a reply" where
  "internal_error e = Failed StatusInternalServerError (err_msg e)"

text \<open>Continue with the value of a result, or answer 500.\<close>

definition ok_or_500 :: "'a res \<Rightarrow> ('a \<Rightarrow> 'b reply) \<Rightarrow> 'b reply" where
  "ok_or_500 r f = (case r of Inl e \<Rightarrow> internal_error e | Inr x \<Rightarrow> f x)"

lemma ok_or_500_Reply [result_simps]: "ok_or_500 r f = Reply s b \<longleftrightarrow> (\<exists>x. r = Inr x \<and> f x = Reply s b)"
  by (cases r) (simp_all add: ok_or_500_def internal_error_def)

end
