(* ===== verification/Access_Scopes.thy ===== *)
theory Access_Scopes
  imports Access Http
begin

text \<open>
  The key handlers (\<^verbatim>\<open>src/internal/controlplane/http_keys.go\<close>) and the invariant of the key tables:
  a key never points to a project or an environment of another organization.
\<close>

section \<open>Handlers\<close>

record org_key_body =
  kb_name :: string
  kb_key :: string
  kb_kind :: string
  kb_project_id :: string
  kb_environment_id :: string

text \<open>Membership as \<^verbatim>\<open>Store.IsOrgMember\<close> reads it.\<close>

definition is_org_member :: "tenancy_db \<Rightarrow> string \<Rightarrow> string \<Rightarrow> bool res" where
  "is_org_member = org_privilege (\<lambda>role. True)"

definition or_default :: "string \<Rightarrow> string \<Rightarrow> string" where
  "or_default s d = (if s = [] then d else s)"

text \<open>
  The owner of a requested key, or the refusal: a personal key belongs to the caller, a service
  account needs an admin. \<open>None\<close> is a body that does not decode.
\<close>

definition requested_key_owner :: "tenancy_db \<Rightarrow> string \<Rightarrow> string \<Rightarrow> org_key_body \<Rightarrow> string reply" where
  "requested_key_owner db caller org b =
     (if kb_kind b = KeyKindPersonal then
        (if kb_project_id b \<noteq> [] then Failed StatusBadRequest ''personal keys cannot have a project''
         else if kb_environment_id b \<noteq> [] then Failed StatusBadRequest ''personal keys cannot have an environment''
         else Reply StatusOK caller)
      else if kb_kind b = KeyKindServiceAccount then
        ok_or_500 (is_org_admin db caller org) (\<lambda>admin.
          if admin then Reply StatusOK []
          else Failed StatusForbidden ''only org admins can create service account keys'')
      else Failed StatusBadRequest ''kind must be personal or service_account'')"

definition handle_create_org_key ::
  "(string \<Rightarrow> string) \<Rightarrow> gotime \<Rightarrow> string \<Rightarrow> string \<Rightarrow> string \<Rightarrow> string \<Rightarrow> org_key_body option \<Rightarrow> access_db \<Rightarrow>
   access_key reply \<times> access_db" where
  "handle_create_org_key sha now i rnd caller org body db =
     (case body of
        None \<Rightarrow> (Failed StatusBadRequest ''invalid json'', db)
      | Some b0 \<Rightarrow>
          (let b = b0\<lparr>kb_name := or_default (kb_name b0) ''API Key'', kb_key := or_default (kb_key b0) (''sk-'' @ rnd),
                     kb_kind := or_default (kb_kind b0) KeyKindPersonal\<rparr>
           in (case requested_key_owner (acc_tenancy db) caller org b of
                 Failed s m \<Rightarrow> (Failed s m, db)
               | Reply _ owner \<Rightarrow>
                   (case create_api_key sha now i org (kb_kind b) owner (kb_project_id b) (kb_environment_id b)
                           (kb_name b) (kb_key b) db of
                      (Inl e, db') \<Rightarrow> (Failed StatusBadRequest (err_msg e), db')
                    | (Inr k, db') \<Rightarrow> (Reply StatusCreated k, db')))))"

definition handle_delete_key :: "string \<Rightarrow> string \<Rightarrow> access_db \<Rightarrow> unit reply \<times> access_db" where
  "handle_delete_key caller i db =
     (case keys_get db i of
        Inl e \<Rightarrow> (if err_is e ErrNotFound then Failed StatusNotFound ''not found'' else internal_error e, db)
      | Inr k \<Rightarrow>
          (case is_org_member (acc_tenancy db) caller (ky_organization_id k) of
             Inl e \<Rightarrow> (internal_error e, db)
           | Inr ok \<Rightarrow>
               if \<not> ok then (Failed StatusForbidden ''forbidden'', db)
               else (case is_org_admin (acc_tenancy db) caller (ky_organization_id k) of
                  Inl e \<Rightarrow> (internal_error e, db)
                | Inr admin \<Rightarrow>
                    if \<not> admin \<and> \<not> (ky_kind k = KeyKindPersonal \<and> ky_owner_user_id k = caller)
                    then (Failed StatusForbidden ''forbidden'', db)
                    else (case keys_delete i db of
                       (Inl e, db') \<Rightarrow> (if err_is e ErrNotFound then Failed StatusNotFound ''not found'' else internal_error e, db')
                     | (Inr _, db') \<Rightarrow> (Reply StatusNoContent (), db')))))"

definition handle_create_key ::
  "(string \<Rightarrow> string) \<Rightarrow> gotime \<Rightarrow> string \<Rightarrow> string \<Rightarrow> string \<Rightarrow> org_key_body option \<Rightarrow> access_db \<Rightarrow>
   access_key reply \<times> access_db" where
  "handle_create_key sha now i rnd proj body db =
     (case body of
        None \<Rightarrow> (Failed StatusBadRequest ''invalid json'', db)
      | Some b \<Rightarrow>
          (case projects_org_id (acc_tenancy db) proj of
             Inl e \<Rightarrow> (Failed StatusNotFound ''project not found'', db)
           | Inr org \<Rightarrow>
               (case create_api_key sha now i org KeyKindServiceAccount [] proj (kb_environment_id b)
                       (or_default (kb_name b) ''API Key'') (or_default (kb_key b) (''sk-'' @ rnd)) db of
                  (Inl e, db') \<Rightarrow> (Failed StatusBadRequest (err_msg e), db')
                | (Inr k, db') \<Rightarrow> (Reply StatusCreated k, db'))))"

definition handle_list_org_keys :: "string \<Rightarrow> string \<Rightarrow> access_db \<Rightarrow> access_key list reply" where
  "handle_list_org_keys caller org db =
     ok_or_500 (is_org_admin (acc_tenancy db) caller org) (\<lambda>admin.
       Reply StatusOK (list_visible_org_api_keys db org caller admin))"

lemma is_org_admin_iff: "is_org_admin db user org = Inr True \<longleftrightarrow>
   (\<exists>role. member_role (db_org_members db) org user = Some role \<and> role_is_admin role)"
  by (auto simp: is_org_admin_def org_privilege_def orgs_get_member_role_def found_def split: option.splits)

lemma is_org_member_iff: "is_org_member db user org = Inr True \<longleftrightarrow> member_role (db_org_members db) org user \<noteq> None"
  by (auto simp: is_org_member_def org_privilege_def orgs_get_member_role_def found_def split: option.splits)

section \<open>Scopes\<close>

text \<open>The scope of a key, of either kind, against the tenancy tables.\<close>

definition scope_ok :: "tenancy_db \<Rightarrow> string \<Rightarrow> string \<Rightarrow> string \<Rightarrow> bool" where
  "scope_ok db org proj env \<longleftrightarrow>
     (proj \<noteq> [] \<longrightarrow> (\<exists>p. gm_get (db_projects db) proj = Some p \<and> pj_organization_id p = org)) \<and>
     (env \<noteq> [] \<longrightarrow> proj \<noteq> [] \<and> (\<exists>e. gm_get (db_environments db) env = Some e \<and>
        ev_organization_id e = org \<and> ev_project_id e = proj))"

definition key_ok :: "tenancy_db \<Rightarrow> access_key \<Rightarrow> bool" where
  "key_ok db k \<longleftrightarrow> scope_ok db (ky_organization_id k) (ky_project_id k) (ky_environment_id k) \<and> kind_check k"

definition keys_scoped :: "access_db \<Rightarrow> bool" where
  "keys_scoped db \<longleftrightarrow> (\<forall>i k h. gm_get (acc_keys db) i = Some (k, h) \<longrightarrow> key_ok (acc_tenancy db) k)"

text \<open>Projects and environments are created and never moved by the tenancy services.\<close>

definition scope_frame :: "tenancy_db \<Rightarrow> tenancy_db \<Rightarrow> bool" where
  "scope_frame db db' \<longleftrightarrow>
     (\<forall>p x. gm_get (db_projects db) p = Some x \<longrightarrow> gm_get (db_projects db') p = Some x) \<and>
     (\<forall>e x. gm_get (db_environments db) e = Some x \<longrightarrow> gm_get (db_environments db') e = Some x)"

lemma scope_frame_refl [simp]: "scope_frame db db"
  by (simp add: scope_frame_def)

lemma scope_frame_cong:
  "scope_frame db0 db \<Longrightarrow> db_projects db' = db_projects db \<Longrightarrow> db_environments db' = db_environments db \<Longrightarrow> scope_frame db0 db'"
  by (simp add: scope_frame_def)

lemma key_ok_frame: "key_ok db k \<Longrightarrow> scope_frame db db' \<Longrightarrow> key_ok db' k"
  unfolding key_ok_def scope_ok_def scope_frame_def by metis

named_theorems frame_intros \<open>operations that keep projects and environments\<close>

lemma tables_frame [frame_intros]:
  "scope_frame db0 db \<Longrightarrow> scope_frame db0 (snd (users_create u db))"
  "scope_frame db0 db \<Longrightarrow> scope_frame db0 (snd (orgs_create_with_owner og w db))"
  "scope_frame db0 db \<Longrightarrow> scope_frame db0 (snd (orgs_add_member org w r db))"
  "scope_frame db0 db \<Longrightarrow> scope_frame db0 (snd (teams_create_with_owner t w db))"
  "scope_frame db0 db \<Longrightarrow> scope_frame db0 (snd (teams_add_member team w r db))"
  "scope_frame db0 db \<Longrightarrow> scope_frame db0 (snd (teams_remove_member team w db))"
  "scope_frame db0 db \<Longrightarrow> scope_frame db0 (snd (teams_set_member_role team w r db))"
  "scope_frame db0 db \<Longrightarrow> scope_frame db0 (snd (invites_insert v db))"
  "scope_frame db0 db \<Longrightarrow> scope_frame db0 (snd (invites_update i f db))"
  "scope_frame db0 db \<Longrightarrow> scope_frame db0 (orgs_apply_role_change org a t' r d db)"
  by (auto simp: users_create_def orgs_create_with_owner_def orgs_add_member_def teams_create_with_owner_def
      teams_add_member_def teams_remove_member_def teams_set_member_role_def invites_insert_def invites_update_def
      orgs_apply_role_change_def Let_def elim!: scope_frame_cong split: option.splits)

lemma rows_frame [frame_intros]:
  "scope_frame db0 db \<Longrightarrow> scope_frame db0 (snd (projects_insert p db))"
  "scope_frame db0 db \<Longrightarrow> scope_frame db0 (snd (environments_insert e db))"
  by (auto simp: projects_insert_def environments_insert_def scope_frame_def)

lemmas frame_seq = db_bind_keeps [where P = "scope_frame db0" for db0] db_check_keeps [where P = "scope_frame db0" for db0]

lemma entities_frame:
  "scope_frame db0 db \<Longrightarrow> scope_frame db0 (snd (create_organization now i name u db))"
  "scope_frame db0 db \<Longrightarrow> scope_frame db0 (snd (create_team now i org name u db))"
  "scope_frame db0 db \<Longrightarrow> scope_frame db0 (snd (create_project now i org team name db))"
  "scope_frame db0 db \<Longrightarrow> scope_frame db0 (snd (create_environment now i org proj name slug db))"
  "scope_frame db0 db \<Longrightarrow> scope_frame db0 (snd (add_org_member_by_email org email db))"
  unfolding create_organization_def create_team_def create_project_def create_environment_def add_org_member_by_email_def
  by (auto intro!: frame_seq frame_intros)

lemma update_org_member_role_frame:
  "scope_frame db0 db \<Longrightarrow> scope_frame db0 (snd (update_org_member_role org a t' r db))"
  by (auto simp: update_org_member_role_def Let_def intro: frame_intros split: sum.splits prod.splits)

lemma team_members_frame:
  "scope_frame db0 db \<Longrightarrow> scope_frame db0 (snd (add_team_member team w db))"
  "scope_frame db0 db \<Longrightarrow> scope_frame db0 (snd (remove_team_member team w db))"
  "scope_frame db0 db \<Longrightarrow> scope_frame db0 (snd (update_team_member_role team a w r db))"
  unfolding add_team_member_def remove_team_member_def update_team_member_role_def
  by (auto intro!: frame_seq frame_intros split: sum.splits)

lemma invites_frame:
  "scope_frame db0 db \<Longrightarrow> scope_frame db0 (snd (invite_org_member sha now raw i org email by' db))"
  "scope_frame db0 db \<Longrightarrow> scope_frame db0 (snd (revoke_invite org i db))"
  "scope_frame db0 db \<Longrightarrow> scope_frame db0 (snd (resend_invite sha now raw org i db))"
  unfolding invite_org_member_def revoke_invite_def resend_invite_def Let_def invites_update_token_def invites_mark_revoked_def
  by (auto intro!: frame_seq frame_intros split: sum.splits)

lemma accepting_user_frame: "scope_frame db0 db \<Longrightarrow> scope_frame db0 (snd (accepting_user v name pw uid db))"
  unfolding accepting_user_def create_user_def Let_def by (auto intro!: frame_seq frame_intros split: sum.splits)

lemma accept_invite_frame: "scope_frame db0 db \<Longrightarrow> scope_frame db0 (snd (accept_invite sha now raw name pw uid db))"
  unfolding accept_invite_def Let_def invites_mark_accepted_def
  by (auto intro!: frame_seq frame_intros accepting_user_frame split: sum.splits prod.splits)

lemma exec_op_frame: "scope_frame db (exec_op sha op0 db)"
  by (cases op0)
    (simp_all add: entities_frame update_org_member_role_frame team_members_frame invites_frame accept_invite_frame)

text \<open>What the checks of a new key establish.\<close>

lemma check_scopes_Inr:
  assumes "check_scopes db proj env org = Inr ()" and "env \<noteq> [] \<longrightarrow> proj \<noteq> []"
  shows "scope_ok (acc_tenancy db) org proj env"
  using assms
  by (auto simp: check_scopes_def scope_ok_def project_belongs_to_org_def environment_belongs_to_project_def
      projects_org_id_def environments_get_def found_def bind_res_def split: if_splits option.splits sum.splits)

lemma new_api_key_Inr:
  assumes "new_api_key i org kind owner proj env name raw now = Inr k"
  shows "kind_check k \<and> (env \<noteq> [] \<longrightarrow> proj \<noteq> []) \<and> ky_organization_id k = org \<and> ky_project_id k = proj \<and>
    ky_environment_id k = env \<and> ky_id k = i \<and> ky_owner_user_id k = owner \<and> ky_kind k = normalize_kind kind \<and> ky_key k = raw"
  using assms
  by (auto simp: new_api_key_def validate_kind_rules_def parse_key_kind_def normalize_kind_def kind_check_def Let_def
      bind_res_def split: if_splits)

lemma create_api_key_Inr:
  assumes "create_api_key sha now i org kind owner proj env name raw db = (Inr k, db')"
  shows "new_api_key i org kind owner proj env name raw now = Inr k \<and> check_scopes db proj env org = Inr () \<and>
    db' = db\<lparr>acc_keys := gm_put i (k\<lparr>ky_key := []\<rparr>, access_hash sha raw) (acc_keys db)\<rparr>"
  using assms new_api_key_Inr
  by (fastforce simp: create_api_key_def db_check_def db_bind_def keys_insert_def split: sum.splits if_splits prod.splits)

lemma create_api_key_Inl:
  "create_api_key sha now i org kind owner proj env name raw db = (Inl e, db') \<Longrightarrow> db' = db"
  by (auto simp: create_api_key_def db_check_def db_bind_def keys_insert_def split: sum.splits if_splits prod.splits)

lemma key_ok_stored: "key_ok db (k\<lparr>ky_key := []\<rparr>) = key_ok db k"
  by (simp add: key_ok_def kind_check_def)

lemma create_api_key_scoped:
  assumes "keys_scoped db" shows "keys_scoped (snd (create_api_key sha now i org kind owner proj env name raw db))"
proof (cases "create_api_key sha now i org kind owner proj env name raw db")
  case (Pair r db')
  show ?thesis
  proof (cases r)
    case (Inl e)
    then show ?thesis using create_api_key_Inl Pair assms by fastforce
  next
    case (Inr k)
    note c = create_api_key_Inr [OF Pair [unfolded Inr]]
    have "key_ok (acc_tenancy db) k"
      using check_scopes_Inr [of db proj env org] new_api_key_Inr c by (auto simp: key_ok_def)
    then show ?thesis using assms c by (simp add: Pair keys_scoped_def key_ok_stored)
  qed
qed

lemma keys_delete_scoped: "keys_scoped db \<Longrightarrow> keys_scoped (snd (keys_delete i db))"
  by (auto simp: keys_delete_def keys_scoped_def)

lemma gm_get_detach: "gm_get (map (\<lambda>(j, k, h). (j, detach_key e k, h)) m) i =
   map_option (\<lambda>(k, h). (detach_key e k, h)) (gm_get m i)"
  by (induction m) auto

lemma detach_key_ok:
  assumes "key_ok db k"
  shows "key_ok (db\<lparr>db_environments := gm_del e (db_environments db)\<rparr>) (detach_key e k)"
  using assms by (auto simp: key_ok_def detach_key_def scope_ok_def kind_check_def)

lemma environments_delete_scoped:
  assumes "keys_scoped db" shows "keys_scoped (snd (environments_delete e db))"
  using assms detach_key_ok by (fastforce simp: environments_delete_def keys_scoped_def gm_get_detach)

section \<open>Operations\<close>

datatype access_op =
    TenancyOp tenancy_op
  | CreateAPIKey gotime string string string string string string string string
  | DeleteAPIKey string
  | CreateOrgKey gotime string string string string "org_key_body option"
  | CreateProjectKey gotime string string string "org_key_body option"
  | DeleteKeyAs string string
  | CreateSigningKey gotime string string string string string string string string
  | UpdateSigningKey gotime string string string
  | RotateSigningKey gotime string string
  | DeleteSigningKey string
  | DeleteEnvironment string

fun exec_access :: "(string \<Rightarrow> string) \<Rightarrow> (string \<Rightarrow> public_key) \<Rightarrow> access_op \<Rightarrow> access_db \<Rightarrow> access_db" where
  "exec_access sha pub (TenancyOp p) db = on_tenancy (exec_op sha p) db"
| "exec_access sha pub (CreateAPIKey now i org kind owner proj env name raw) db =
     snd (create_api_key sha now i org kind owner proj env name raw db)"
| "exec_access sha pub (DeleteAPIKey i) db = snd (keys_delete i db)"
| "exec_access sha pub (CreateOrgKey now i rnd caller org body) db = snd (handle_create_org_key sha now i rnd caller org body db)"
| "exec_access sha pub (CreateProjectKey now i rnd proj body) db = snd (handle_create_key sha now i rnd proj body db)"
| "exec_access sha pub (DeleteKeyAs caller i) db = snd (handle_delete_key caller i db)"
| "exec_access sha pub (CreateSigningKey now i key_id org proj env name alg pem) db =
     snd (create_signing_key pub now i key_id org proj env name alg pem db)"
| "exec_access sha pub (UpdateSigningKey now i name status) db = snd (update_signing_key now i name status db)"
| "exec_access sha pub (RotateSigningKey now i pem) db = snd (rotate_signing_key pub now i pem db)"
| "exec_access sha pub (DeleteSigningKey i) db = snd (signing_delete i db)"
| "exec_access sha pub (DeleteEnvironment e) db = snd (environments_delete e db)"

definition exec_accesses :: "(string \<Rightarrow> string) \<Rightarrow> (string \<Rightarrow> public_key) \<Rightarrow> access_op list \<Rightarrow> access_db \<Rightarrow> access_db" where
  "exec_accesses sha pub ops db = fold (exec_access sha pub) ops db"

lemma handle_create_org_key_scoped: "keys_scoped db \<Longrightarrow> keys_scoped (snd (handle_create_org_key sha now i rnd caller org body db))"
  using create_api_key_scoped
  by (auto simp: handle_create_org_key_def Let_def split: option.split reply.split prod.split sum.split) (metis snd_conv)+

lemma handle_create_key_scoped: "keys_scoped db \<Longrightarrow> keys_scoped (snd (handle_create_key sha now i rnd proj body db))"
  using create_api_key_scoped
  by (auto simp: handle_create_key_def Let_def split: option.split prod.split sum.split) (metis snd_conv)+

lemma handle_delete_key_scoped: "keys_scoped db \<Longrightarrow> keys_scoped (snd (handle_delete_key caller i db))"
  using keys_delete_scoped
  by (auto simp: handle_delete_key_def split: prod.split sum.split) (metis snd_conv)+

lemma keys_scoped_cong: "acc_keys db' = acc_keys db \<Longrightarrow> acc_tenancy db' = acc_tenancy db \<Longrightarrow> keys_scoped db' = keys_scoped db"
  by (simp add: keys_scoped_def)

lemma signing_keys_frame:
  "acc_keys (snd (create_signing_key pub now i key_id org proj env name alg pem db)) = acc_keys db \<and>
   acc_tenancy (snd (create_signing_key pub now i key_id org proj env name alg pem db)) = acc_tenancy db"
  "acc_keys (snd (update_signing_key now i name status db)) = acc_keys db \<and>
   acc_tenancy (snd (update_signing_key now i name status db)) = acc_tenancy db"
  "acc_keys (snd (rotate_signing_key pub now i pem db)) = acc_keys db \<and>
   acc_tenancy (snd (rotate_signing_key pub now i pem db)) = acc_tenancy db"
  "acc_keys (snd (signing_delete i db)) = acc_keys db \<and> acc_tenancy (snd (signing_delete i db)) = acc_tenancy db"
  by (auto simp: create_signing_key_def update_signing_key_def rotate_signing_key_def signing_delete_def signing_insert_def
      signing_update_meta_def signing_update_public_key_def signing_update_def db_check_def db_bind_def
      split: sum.split option.split prod.split)

lemma on_tenancy_scoped: "keys_scoped db \<Longrightarrow> keys_scoped (on_tenancy (exec_op sha p) db)"
  using key_ok_frame exec_op_frame by (fastforce simp: keys_scoped_def on_tenancy_def)

lemma exec_access_scoped: "keys_scoped db \<Longrightarrow> keys_scoped (exec_access sha pub p db)"
  by (cases p)
    (simp_all add: on_tenancy_scoped create_api_key_scoped keys_delete_scoped handle_create_org_key_scoped
      handle_create_key_scoped handle_delete_key_scoped environments_delete_scoped
      keys_scoped_cong [OF signing_keys_frame(1) [THEN conjunct1] signing_keys_frame(1) [THEN conjunct2]]
      keys_scoped_cong [OF signing_keys_frame(2) [THEN conjunct1] signing_keys_frame(2) [THEN conjunct2]]
      keys_scoped_cong [OF signing_keys_frame(3) [THEN conjunct1] signing_keys_frame(3) [THEN conjunct2]]
      keys_scoped_cong [OF signing_keys_frame(4) [THEN conjunct1] signing_keys_frame(4) [THEN conjunct2]])

section \<open>Properties\<close>

definition small_access :: access_db where
  "small_access = \<lparr>acc_tenancy = small_db\<lparr>
       db_org_members := [((''o'', ''u1''), ''owner''), ((''o'', ''u2''), ''member'')],
       db_projects := [(''p'', \<lparr>pj_id = ''p'', pj_organization_id = ''o'', pj_team_id = [], pj_name = ''P'', pj_created_at = 0\<rparr>)],
       db_environments := [(''e'', \<lparr>ev_id = ''e'', ev_organization_id = ''o'', ev_project_id = ''p'', ev_name = ''E'',
          ev_slug = ''e'', ev_created_at = 0\<rparr>)]\<rparr>,
     acc_keys = [], acc_signing = []\<rparr>"

text \<open>
  C28: A key never reaches into another organization. In every state that the operations of the
  control plane lead to, in any order and with any outcome (key creation through either handler
  or the service, deletions, signing-key changes, every tenancy operation, deletion of an
  environment), each stored key is confined to its own organization: its project, if any, is a
  project of that organization, its environment is one of that project, a personal key has an
  owner and no project, and a service account has no owner.
\<close>

theorem key_scopes_consistent:
  assumes "keys_scoped db"
  shows "keys_scoped (exec_accesses sha pub ops db)"
  unfolding exec_accesses_def using assms by (induction ops arbitrary: db) (simp_all add: exec_access_scoped)

theorem key_scopes_consistent_witness:
  "keys_scoped (exec_accesses id (\<lambda>_. NoPEM)
     [CreateAPIKey 0 ''k'' ''o'' ''service_account'' [] ''p'' ''e'' ''n'' ''raw'', DeleteEnvironment ''e'',
      CreateProjectKey 0 ''k2'' ''r'' ''p'' (Some \<lparr>kb_name = [], kb_key = [], kb_kind = [], kb_project_id = [], kb_environment_id = ''e''\<rparr>)]
     small_access)"
  by (rule key_scopes_consistent) (simp add: keys_scoped_def small_access_def)

lemma requested_key_owner_Reply:
  assumes "requested_key_owner db caller org b = Reply s owner"
  shows "kb_kind b = KeyKindPersonal \<and> owner = caller \<and> kb_project_id b = [] \<and> kb_environment_id b = [] \<or>
    kb_kind b = KeyKindServiceAccount \<and> owner = [] \<and> is_org_admin db caller org = Inr True"
  using assms by (auto simp: requested_key_owner_def ok_or_500_Reply split: if_splits)

lemma handle_create_org_key_Reply:
  assumes "handle_create_org_key sha now i rnd caller org body db = (Reply s k, db')"
  obtains b owner where "requested_key_owner (acc_tenancy db) caller org b = Reply StatusOK owner"
    and "create_api_key sha now i org (kb_kind b) owner (kb_project_id b) (kb_environment_id b) (kb_name b) (kb_key b) db = (Inr k, db')"
proof -
  from assms obtain b0 where b0: "body = Some b0" by (auto simp: handle_create_org_key_def split: option.splits)
  define b where "b = b0\<lparr>kb_name := or_default (kb_name b0) ''API Key'', kb_key := or_default (kb_key b0) (''sk-'' @ rnd),
                     kb_kind := or_default (kb_kind b0) KeyKindPersonal\<rparr>"
  have "\<exists>owner. requested_key_owner (acc_tenancy db) caller org b = Reply StatusOK owner \<and>
    create_api_key sha now i org (kb_kind b) owner (kb_project_id b) (kb_environment_id b) (kb_name b) (kb_key b) db = (Inr k, db')"
    using assms unfolding handle_create_org_key_def b0 option.case Let_def b_def [symmetric]
    by (auto simp: requested_key_owner_def ok_or_500_def internal_error_def split: reply.splits prod.splits sum.splits if_splits)
  with that show ?thesis by blast
qed

text \<open>
  Who may create and delete keys. A request to create a key in an organization succeeds only
  for a personal key owned by the caller himself, without project and environment, or for a
  service account when the caller is an admin of the organization; the row stored carries the
  hash and not the raw key. A request to delete a key succeeds only for a member of the key's
  organization who is its admin or the owner of the personal key. A refused request changes
  nothing.
\<close>

theorem key_changes_authorized:
  "(case handle_create_org_key sha now i rnd caller org body db of
      (Failed s m, db') \<Rightarrow> db' = db
    | (Reply s k, db') \<Rightarrow>
        gm_get (acc_keys db') i = Some (k\<lparr>ky_key := []\<rparr>, access_hash sha (ky_key k)) \<and> ky_organization_id k = org \<and>
        (ky_kind k = KeyKindPersonal \<and> ky_owner_user_id k = caller \<and> ky_project_id k = [] \<and> ky_environment_id k = [] \<or>
         ky_kind k = KeyKindServiceAccount \<and> ky_owner_user_id k = [] \<and> is_org_admin (acc_tenancy db) caller org = Inr True)) \<and>
   (case handle_delete_key caller j db of
      (Failed s m, db') \<Rightarrow> db' = db
    | (Reply s u, db') \<Rightarrow> \<exists>k. keys_get db j = Inr k \<and> gm_get (acc_keys db') j = None \<and>
        is_org_member (acc_tenancy db) caller (ky_organization_id k) = Inr True \<and>
        (is_org_admin (acc_tenancy db) caller (ky_organization_id k) = Inr True \<or>
         ky_kind k = KeyKindPersonal \<and> ky_owner_user_id k = caller))"
proof (intro conjI)
  show "case handle_create_org_key sha now i rnd caller org body db of
      (Failed s m, db') \<Rightarrow> db' = db
    | (Reply s k, db') \<Rightarrow>
        gm_get (acc_keys db') i = Some (k\<lparr>ky_key := []\<rparr>, access_hash sha (ky_key k)) \<and> ky_organization_id k = org \<and>
        (ky_kind k = KeyKindPersonal \<and> ky_owner_user_id k = caller \<and> ky_project_id k = [] \<and> ky_environment_id k = [] \<or>
         ky_kind k = KeyKindServiceAccount \<and> ky_owner_user_id k = [] \<and> is_org_admin (acc_tenancy db) caller org = Inr True)"
  proof (cases "handle_create_org_key sha now i rnd caller org body db")
    case (Pair r db')
    show ?thesis
    proof (cases r)
      case (Failed s m)
      with Pair show ?thesis
        by (auto simp: handle_create_org_key_def Let_def split: option.splits reply.splits prod.splits sum.splits
            dest: create_api_key_Inl)
    next
      case (Reply s k)
      obtain b owner where b: "requested_key_owner (acc_tenancy db) caller org b = Reply StatusOK owner"
        and c: "create_api_key sha now i org (kb_kind b) owner (kb_project_id b) (kb_environment_id b) (kb_name b) (kb_key b) db = (Inr k, db')"
        by (rule handle_create_org_key_Reply [OF Pair [unfolded Reply]])
      note n = create_api_key_Inr [OF c]
      note e = new_api_key_Inr [OF n [THEN conjunct1]]
      show ?thesis
        using requested_key_owner_Reply [OF b] n e by (auto simp: Pair Reply normalize_kind_def key_kind_defs)
    qed
  qed
next
  show "case handle_delete_key caller j db of
      (Failed s m, db') \<Rightarrow> db' = db
    | (Reply s u, db') \<Rightarrow> \<exists>k. keys_get db j = Inr k \<and> gm_get (acc_keys db') j = None \<and>
        is_org_member (acc_tenancy db) caller (ky_organization_id k) = Inr True \<and>
        (is_org_admin (acc_tenancy db) caller (ky_organization_id k) = Inr True \<or>
         ky_kind k = KeyKindPersonal \<and> ky_owner_user_id k = caller)"
    by (auto simp: handle_delete_key_def internal_error_def keys_delete_def split: reply.splits prod.splits sum.splits if_splits)
qed

text \<open>A blank status given with a name is written as it is, and the database refuses it.\<close>

lemma blank_signing_status_fails:
  assumes "gm_get (acc_signing db) i = Some k"
  shows "update_signing_key now i ''renamed'' '' '' db = (Inl check_violation, db)"
proof -
  have "trim_space '' '' = []" "trim_space ''renamed'' = ''renamed''" by code_simp+
  with assms show ?thesis
    by (simp add: update_signing_key_def signing_update_meta_def signing_update_def signing_status_check_def signing_status_defs)
qed

text \<open>Rotating the material of a disabled signing key puts it back into service.\<close>

lemma rotation_reactivates:
  assumes "gm_get (acc_signing db) i = Some k" and "rotate_signing_key pub now i pem db = (Inr k', db')"
  shows "sg_status k' = SigningKeyStatusActive \<and> gm_get (acc_signing db') i = Some k'"
  using assms
  by (auto simp: rotate_signing_key_def signing_get_def signing_update_public_key_def signing_update_def db_check_def
      signing_status_defs split: sum.splits if_splits)

end
