(* ===== verification/Authorization.thy ===== *)
theory Authorization
  imports Access_Scopes
begin

text \<open>
  Who reaches which handler of the control plane's HTTP API: the middleware of
  \<^verbatim>\<open>src/internal/controlplane/http_middleware.go\<close> (and \<^verbatim>\<open>http_regions.go\<close>,
  \<^verbatim>\<open>internal_token.go\<close>, \<^verbatim>\<open>federation_readonly.go\<close>) and the route table of \<^verbatim>\<open>http.go\<close>. A
  middleware takes the next handler, as in the code; a handler answers, or the run is over with
  what it returns, or it panics on a nil pointer. A table with an organization column that no other
  theory models is a map from identifiers to organizations. Validating a session token is the JWT
  library with the configured secret, \<open>jwt\<close>.
\<close>

section \<open>Requests\<close>

datatype http_method = MGET | MHEAD | MPOST | MPUT | MPATCH | MDELETE | MOPTIONS | MOther string

record jwt_claims =
  jc_user_id :: string
  jc_email :: string
  jc_role :: string

record api_request =
  hr_method :: http_method
  hr_path :: string
  hr_vars :: "(string, string) gomap"
  hr_authorization :: string
  hr_internal_token :: string
  hr_claims :: "jwt_claims option"

record cp_config =
  cf_jwt_secret :: string
  cf_internal_token :: string
  cf_federation_mode :: string

datatype 'a outcome = Ran 'a | Answered nat string | Panicked

text \<open>The tables with an organization of their own.\<close>

datatype resource =
    ResProject | ResEnvironment | ResSigningKey | ResQuota | ResPolicy | ResWasmHook | ResMCPBackend
  | ResA2AAgent | ResCredential | ResCredentialAssignment | ResProvider | ResRoute

record authz_db =
  az_access :: access_db
  az_orgs :: "(resource \<times> string, string) gomap"

definition resource_org_id :: "authz_db \<Rightarrow> resource \<Rightarrow> string \<Rightarrow> string res" where
  "resource_org_id db kind i =
     (case kind of
        ResProject \<Rightarrow> projects_org_id (acc_tenancy (az_access db)) i
      | ResEnvironment \<Rightarrow> environments_org_id (az_access db) i
      | ResSigningKey \<Rightarrow> signing_org_id (az_access db) i
      | _ \<Rightarrow> found (gm_get (az_orgs db) (kind, i)))"

type_synonym 'a api_handler = "authz_db \<Rightarrow> api_request \<Rightarrow> 'a outcome"
type_synonym 'a middleware = "'a api_handler \<Rightarrow> 'a api_handler"

text \<open>A path value that the pattern does not bind is empty.\<close>

definition path_value :: "api_request \<Rightarrow> string \<Rightarrow> string" where
  "path_value r v = (case gm_get (hr_vars r) v of None \<Rightarrow> [] | Some x \<Rightarrow> x)"

definition forbidden :: "'a outcome" where "forbidden = Answered StatusForbidden ''forbidden''"
definition answer_500 :: "err \<Rightarrow> 'a outcome" where "answer_500 e = Answered StatusInternalServerError (err_msg e)"
definition answer_404_500 :: "err \<Rightarrow> 'a outcome" where
  "answer_404_500 e = (if err_is e ErrNotFound then Answered StatusNotFound ''not found'' else answer_500 e)"

text \<open>Using the claims of the context; they are nil without \<^verbatim>\<open>requireAuth\<close>.\<close>

definition with_claims :: "api_request \<Rightarrow> (jwt_claims \<Rightarrow> 'a outcome) \<Rightarrow> 'a outcome" where
  "with_claims r f = (case hr_claims r of None \<Rightarrow> Panicked | Some c \<Rightarrow> f c)"

text \<open>Answer 500 on an error, refuse on false, go on otherwise.\<close>

definition require_true :: "bool res \<Rightarrow> 'a outcome \<Rightarrow> 'a outcome \<Rightarrow> 'a outcome" where
  "require_true ok refusal rest = (case ok of Inl e \<Rightarrow> answer_500 e | Inr b \<Rightarrow> if b then rest else refusal)"

section \<open>Middleware\<close>

definition require_auth :: "(string \<Rightarrow> string \<Rightarrow> jwt_claims option) \<Rightarrow> cp_config \<Rightarrow> 'a middleware" where
  "require_auth jwt cfg nxt db r =
     (let h = hr_authorization r in
      if \<not> has_prefix h ''Bearer '' then Answered StatusUnauthorized ''unauthorized''
      else (case jwt (cf_jwt_secret cfg) (trim_prefix h ''Bearer '') of
              None \<Rightarrow> Answered StatusUnauthorized ''unauthorized''
            | Some c \<Rightarrow> nxt db (r\<lparr>hr_claims := Some c\<rparr>)))"

definition check_internal_token :: "string \<Rightarrow> string \<Rightarrow> bool" where
  "check_internal_token configured presented \<longleftrightarrow> configured \<noteq> [] \<and> configured = presented"

definition require_internal :: "cp_config \<Rightarrow> 'a middleware" where
  "require_internal cfg nxt db r =
     (if check_internal_token (cf_internal_token cfg) (hr_internal_token r) then nxt db r
      else Answered StatusUnauthorized ''unauthorized'')"

definition require_platform_admin :: "'a middleware" where
  "require_platform_admin nxt db r =
     (case hr_claims r of
        None \<Rightarrow> forbidden
      | Some c \<Rightarrow> if jc_role c = ''admin'' then nxt db r else forbidden)"

abbreviation tenants :: "authz_db \<Rightarrow> tenancy_db" where
  "tenants db \<equiv> acc_tenancy (az_access db)"

definition require_org_member_from_path :: "string \<Rightarrow> 'a middleware" where
  "require_org_member_from_path v nxt db r =
     with_claims r (\<lambda>c. require_true (is_org_member (tenants db) (jc_user_id c) (path_value r v)) forbidden (nxt db r))"

definition require_org_admin_from_path :: "string \<Rightarrow> 'a middleware" where
  "require_org_admin_from_path v nxt = require_org_member_from_path v (\<lambda>db r.
     with_claims r (\<lambda>c. require_true (is_org_admin (tenants db) (jc_user_id c) (path_value r v)) forbidden (nxt db r)))"

definition require_org_owner_from_path :: "string \<Rightarrow> 'a middleware" where
  "require_org_owner_from_path v nxt = require_org_member_from_path v (\<lambda>db r.
     with_claims r (\<lambda>c. require_true (is_org_owner (tenants db) (jc_user_id c) (path_value r v)) forbidden (nxt db r)))"

text \<open>
  The guards that go through a resource come in four shapes: membership in its organization; the
  same and then, with the organization read again, admin; both in one; admin alone.
\<close>

definition member_via :: "resource \<Rightarrow> string \<Rightarrow> 'a middleware" where
  "member_via kind v nxt db r =
     (case resource_org_id db kind (path_value r v) of
        Inl e \<Rightarrow> answer_404_500 e
      | Inr org \<Rightarrow> with_claims r (\<lambda>c. require_true (is_org_member (tenants db) (jc_user_id c) org) forbidden (nxt db r)))"

definition admin_after_member_via :: "resource \<Rightarrow> string \<Rightarrow> 'a middleware" where
  "admin_after_member_via kind v nxt = member_via kind v (\<lambda>db r.
     case resource_org_id db kind (path_value r v) of
        Inl e \<Rightarrow> answer_500 e
      | Inr org \<Rightarrow> with_claims r (\<lambda>c. require_true (is_org_admin (tenants db) (jc_user_id c) org) forbidden (nxt db r)))"

definition member_and_admin_via :: "resource \<Rightarrow> string \<Rightarrow> 'a middleware" where
  "member_and_admin_via kind v nxt db r =
     (case resource_org_id db kind (path_value r v) of
        Inl e \<Rightarrow> answer_404_500 e
      | Inr org \<Rightarrow> with_claims r (\<lambda>c.
          require_true (is_org_member (tenants db) (jc_user_id c) org) forbidden
            (require_true (is_org_admin (tenants db) (jc_user_id c) org) forbidden (nxt db r))))"

definition admin_via :: "resource \<Rightarrow> string \<Rightarrow> 'a middleware" where
  "admin_via kind v nxt db r =
     (case resource_org_id db kind (path_value r v) of
        Inl e \<Rightarrow> answer_404_500 e
      | Inr org \<Rightarrow> with_claims r (\<lambda>c. require_true (is_org_admin (tenants db) (jc_user_id c) org) forbidden (nxt db r)))"

definition require_org_member_via_project :: "'a middleware" where
  "require_org_member_via_project = member_via ResProject ''projectID''"
definition require_org_member_via_environment :: "'a middleware" where
  "require_org_member_via_environment = member_via ResEnvironment ''environmentID''"
definition require_org_member_via_provider :: "'a middleware" where
  "require_org_member_via_provider = member_via ResProvider ''providerID''"
definition require_org_member_via_route :: "'a middleware" where
  "require_org_member_via_route = member_via ResRoute ''routeID''"
definition require_org_member_via_quota :: "'a middleware" where
  "require_org_member_via_quota = member_via ResQuota ''quotaID''"

definition require_org_admin_via_project :: "'a middleware" where
  "require_org_admin_via_project = admin_after_member_via ResProject ''projectID''"
definition require_org_admin_via_environment :: "'a middleware" where
  "require_org_admin_via_environment = admin_after_member_via ResEnvironment ''environmentID''"
definition require_org_admin_via_provider :: "'a middleware" where
  "require_org_admin_via_provider = admin_after_member_via ResProvider ''providerID''"
definition require_org_admin_via_route :: "'a middleware" where
  "require_org_admin_via_route = admin_after_member_via ResRoute ''routeID''"
definition require_org_admin_via_quota :: "'a middleware" where
  "require_org_admin_via_quota = admin_after_member_via ResQuota ''quotaID''"

definition require_org_admin_via_policy :: "'a middleware" where
  "require_org_admin_via_policy = member_and_admin_via ResPolicy ''policyID''"
definition require_org_admin_via_wasm_hook :: "'a middleware" where
  "require_org_admin_via_wasm_hook = member_and_admin_via ResWasmHook ''hookID''"
definition require_org_admin_via_signing_key :: "'a middleware" where
  "require_org_admin_via_signing_key = member_and_admin_via ResSigningKey ''signingKeyID''"
definition require_org_admin_via_mcp_backend :: "'a middleware" where
  "require_org_admin_via_mcp_backend = member_and_admin_via ResMCPBackend ''backendID''"
definition require_org_admin_via_a2a_agent :: "'a middleware" where
  "require_org_admin_via_a2a_agent = member_and_admin_via ResA2AAgent ''agentID''"

definition require_org_admin_via_credential :: "'a middleware" where
  "require_org_admin_via_credential = admin_via ResCredential ''credentialID''"
definition require_org_admin_via_credential_assignment :: "'a middleware" where
  "require_org_admin_via_credential_assignment = admin_via ResCredentialAssignment ''assignmentID''"

definition team_guard :: "(tenancy_db \<Rightarrow> string \<Rightarrow> string \<Rightarrow> bool res) \<Rightarrow> string \<Rightarrow> 'a middleware" where
  "team_guard allowed msg nxt db r =
     (let team = path_value r ''teamID'' in
      case teams_org_id (tenants db) team of
        Inl e \<Rightarrow> answer_404_500 e
      | Inr _ \<Rightarrow> with_claims r (\<lambda>c.
          require_true (allowed (tenants db) team (jc_user_id c)) (Answered StatusForbidden msg) (nxt db r)))"

definition require_team_access :: "'a middleware" where
  "require_team_access = team_guard can_access_team ''forbidden''"
definition require_team_manager :: "'a middleware" where
  "require_team_manager = team_guard can_manage_team ''forbidden''"
definition require_team_role_changer :: "'a middleware" where
  "require_team_role_changer = team_guard can_change_team_roles ''only org admins and team owners can change team roles''"

section \<open>The route table\<close>

datatype path_seg = Lit string | Var string

datatype guard_name =
    GAuth | GInternal | GPlatformAdmin
  | GOrgMemberFromPath string | GOrgAdminFromPath string | GOrgOwnerFromPath string
  | GOrgMemberViaProject | GOrgMemberViaEnvironment
  | GOrgAdminViaProject | GOrgAdminViaEnvironment | GOrgAdminViaProvider | GOrgAdminViaRoute | GOrgAdminViaQuota
  | GOrgAdminViaPolicy | GOrgAdminViaWasmHook | GOrgAdminViaSigningKey | GOrgAdminViaMCPBackend | GOrgAdminViaA2AAgent
  | GOrgAdminViaCredential | GOrgAdminViaCredentialAssignment
  | GTeamAccess | GTeamManager | GTeamRoleChanger

fun apply_guard :: "(string \<Rightarrow> string \<Rightarrow> jwt_claims option) \<Rightarrow> cp_config \<Rightarrow> guard_name \<Rightarrow> 'a middleware" where
  "apply_guard jwt cfg GAuth = require_auth jwt cfg"
| "apply_guard jwt cfg GInternal = require_internal cfg"
| "apply_guard jwt cfg GPlatformAdmin = require_platform_admin"
| "apply_guard jwt cfg (GOrgMemberFromPath v) = require_org_member_from_path v"
| "apply_guard jwt cfg (GOrgAdminFromPath v) = require_org_admin_from_path v"
| "apply_guard jwt cfg (GOrgOwnerFromPath v) = require_org_owner_from_path v"
| "apply_guard jwt cfg GOrgMemberViaProject = require_org_member_via_project"
| "apply_guard jwt cfg GOrgMemberViaEnvironment = require_org_member_via_environment"
| "apply_guard jwt cfg GOrgAdminViaProject = require_org_admin_via_project"
| "apply_guard jwt cfg GOrgAdminViaEnvironment = require_org_admin_via_environment"
| "apply_guard jwt cfg GOrgAdminViaProvider = require_org_admin_via_provider"
| "apply_guard jwt cfg GOrgAdminViaRoute = require_org_admin_via_route"
| "apply_guard jwt cfg GOrgAdminViaQuota = require_org_admin_via_quota"
| "apply_guard jwt cfg GOrgAdminViaPolicy = require_org_admin_via_policy"
| "apply_guard jwt cfg GOrgAdminViaWasmHook = require_org_admin_via_wasm_hook"
| "apply_guard jwt cfg GOrgAdminViaSigningKey = require_org_admin_via_signing_key"
| "apply_guard jwt cfg GOrgAdminViaMCPBackend = require_org_admin_via_mcp_backend"
| "apply_guard jwt cfg GOrgAdminViaA2AAgent = require_org_admin_via_a2a_agent"
| "apply_guard jwt cfg GOrgAdminViaCredential = require_org_admin_via_credential"
| "apply_guard jwt cfg GOrgAdminViaCredentialAssignment = require_org_admin_via_credential_assignment"
| "apply_guard jwt cfg GTeamAccess = require_team_access"
| "apply_guard jwt cfg GTeamManager = require_team_manager"
| "apply_guard jwt cfg GTeamRoleChanger = require_team_role_changer"

text \<open>A route: method, pattern, the guards from the outermost, and the handler.\<close>

datatype route_entry =
  Entry (en_method: http_method) (en_pattern: "path_seg list") (en_guards: "guard_name list") (en_handler: string)

definition in_api :: "path_seg list \<Rightarrow> path_seg list" where
  "in_api p = Lit ''api'' # Lit ''v1'' # Lit ''platform'' # p"
definition in_org :: "path_seg list \<Rightarrow> path_seg list" where
  "in_org p = in_api (Lit ''organizations'' # Var ''orgID'' # p)"
definition in_auth :: "path_seg list \<Rightarrow> path_seg list" where
  "in_auth p = in_api (Lit ''auth'' # p)"
definition in_regions :: "path_seg list \<Rightarrow> path_seg list" where
  "in_regions p = in_api (Lit ''regions'' # p)"
definition in_internal :: "path_seg list \<Rightarrow> path_seg list" where
  "in_internal p = Lit ''internal'' # Lit ''v1'' # p"

definition health_routes :: "route_entry list" where
  "health_routes = [
     Entry MGET ([Lit ''healthz'']) [] ''handleHealth'']"

definition internal_routes :: "route_entry list" where
  "internal_routes = [
     Entry MPOST (in_internal [Lit ''seed'']) [GInternal] ''handleSeed'',
     Entry MPOST (in_internal [Lit ''snapshots'', Lit ''publish'']) [GInternal] ''handlePublish'',
     Entry MPOST (in_internal [Lit ''deployments'', Lit ''join'']) [] ''handleDeploymentJoin'',
     Entry MPOST (in_internal [Lit ''deployments'', Var ''deploymentID'', Lit ''heartbeat'']) [] ''handleDeploymentHeartbeat'',
     Entry MPOST (in_internal [Lit ''deployments'', Var ''deploymentID'', Lit ''usage'']) [] ''handleDeploymentUsageIngest'',
     Entry MPOST (in_internal [Lit ''federation'', Lit ''peers'', Lit ''join'']) [] ''handleFederationPeerJoin'',
     Entry MGET (in_internal [Lit ''federation'', Lit ''regions'', Var ''slug'', Lit ''export'']) [] ''handleFederationRegionExport'',
     Entry MGET (in_internal [Lit ''federation'', Lit ''usage-reports'']) [] ''handleFederationUsageReports'']"

definition region_routes :: "route_entry list" where
  "region_routes = [
     Entry MGET (in_regions []) [GAuth, GPlatformAdmin] ''handleListRegions'',
     Entry MPOST (in_regions []) [GAuth, GPlatformAdmin] ''handleCreateRegion'',
     Entry MGET (in_regions [Var ''regionID'']) [GAuth, GPlatformAdmin] ''handleGetRegion'',
     Entry MPATCH (in_regions [Var ''regionID'']) [GAuth, GPlatformAdmin] ''handleUpdateRegion'',
     Entry MGET (in_regions [Var ''regionID'', Lit ''deployments'']) [GAuth, GPlatformAdmin] ''handleListDeployments'',
     Entry MPOST (in_regions [Var ''regionID'', Lit ''deployments'']) [GAuth, GPlatformAdmin] ''handleRegisterDeployment'',
     Entry MGET (in_regions [Var ''regionID'', Lit ''deployments'', Var ''deploymentID'']) [GAuth, GPlatformAdmin] ''handleGetDeployment'',
     Entry MPOST (in_regions [Var ''regionID'', Lit ''deployments'', Var ''deploymentID'', Lit ''rotate-join-token'']) [GAuth, GPlatformAdmin] ''handleRotateDeploymentJoinToken'',
     Entry MGET (in_regions [Var ''regionID'', Lit ''organizations'']) [GAuth, GPlatformAdmin] ''handleListRegionMemberships'',
     Entry MPOST (in_regions [Var ''regionID'', Lit ''organizations'']) [GAuth, GPlatformAdmin] ''handleBindOrgToRegion'',
     Entry MPOST (in_regions [Var ''regionID'', Lit ''organizations'', Lit ''bind-all'']) [GAuth, GPlatformAdmin] ''handleBindAllOrgsToRegion'',
     Entry MDELETE (in_regions [Var ''regionID'', Lit ''organizations'', Var ''orgID'']) [GAuth, GPlatformAdmin] ''handleUnbindOrgFromRegion'',
     Entry MGET (in_regions [Var ''regionID'', Lit ''organizations'', Var ''orgID'', Lit ''overlay'']) [GAuth, GPlatformAdmin] ''handleGetRegionOverlay'',
     Entry MPUT (in_regions [Var ''regionID'', Lit ''organizations'', Var ''orgID'', Lit ''overlay'']) [GAuth, GPlatformAdmin] ''handlePutRegionOverlay'',
     Entry MDELETE (in_regions [Var ''regionID'', Lit ''organizations'', Var ''orgID'', Lit ''overlay'']) [GAuth, GPlatformAdmin] ''handleDeleteRegionOverlay'']"

definition federation_routes :: "route_entry list" where
  "federation_routes = [
     Entry MGET (in_api [Lit ''federation'', Lit ''peers'']) [GAuth, GPlatformAdmin] ''handleListFederationPeers'',
     Entry MPOST (in_api [Lit ''federation'', Lit ''peers'']) [GAuth, GPlatformAdmin] ''handleRegisterFederationPeer'',
     Entry MGET (in_api [Lit ''federation'', Lit ''peers'', Var ''peerID'']) [GAuth, GPlatformAdmin] ''handleGetFederationPeer'',
     Entry MPATCH (in_api [Lit ''federation'', Lit ''peers'', Var ''peerID'']) [GAuth, GPlatformAdmin] ''handleUpdateFederationPeer'',
     Entry MPOST (in_api [Lit ''federation'', Lit ''peers'', Var ''peerID'', Lit ''rotate-join-token'']) [GAuth, GPlatformAdmin] ''handleRotateFederationPeerToken'',
     Entry MGET (in_api [Lit ''federation'', Lit ''peers'', Var ''peerID'', Lit ''usage-reports'']) [GAuth, GPlatformAdmin] ''handlePullPeerUsageReports'']"

definition auth_routes :: "route_entry list" where
  "auth_routes = [
     Entry MPOST (in_auth [Lit ''login'']) [] ''handleLogin'',
     Entry MGET (in_auth [Lit ''me'']) [GAuth] ''handleMe'',
     Entry MGET (in_auth [Lit ''features'']) [] ''handleAuthFeatures'',
     Entry MPOST (in_auth [Lit ''register'']) [] ''handleRegister'',
     Entry MPOST (in_auth [Lit ''password-reset'']) [] ''handleRequestPasswordReset'',
     Entry MPOST (in_auth [Lit ''password-reset'', Var ''token'']) [] ''handleConfirmPasswordReset'',
     Entry MGET (in_auth [Lit ''sso'', Lit ''providers'']) [] ''handleListSSOProviders'',
     Entry MGET (in_auth [Lit ''sso'', Var ''provider'', Lit ''start'']) [] ''handleSSOStart'',
     Entry MGET (in_auth [Lit ''sso'', Var ''provider'', Lit ''callback'']) [] ''handleSSOCallback'',
     Entry MPOST (in_auth [Lit ''sso'', Var ''provider'', Lit ''callback'']) [] ''handleSSOACS'',
     Entry MGET (in_auth [Lit ''sso'', Var ''provider'', Lit ''metadata'']) [] ''handleSSOMetadata'',
     Entry MGET (in_auth [Lit ''invites'', Var ''token'']) [] ''handlePreviewInvite'',
     Entry MPOST (in_auth [Lit ''invites'', Var ''token'', Lit ''accept'']) [] ''handleAcceptInvite'']"

definition organization_routes :: "route_entry list" where
  "organization_routes = [
     Entry MGET (in_api [Lit ''organizations'']) [GAuth] ''handleListOrgs'',
     Entry MPOST (in_api [Lit ''organizations'']) [GAuth] ''handleCreateOrg'',
     Entry MGET (in_org [Lit ''members'']) [GAuth, GOrgMemberFromPath ''orgID''] ''handleListOrgMembers'',
     Entry MPOST (in_org [Lit ''members'']) [GAuth, GOrgAdminFromPath ''orgID''] ''handleInviteOrgMember'',
     Entry MPATCH (in_org [Lit ''members'', Var ''userID'']) [GAuth, GOrgOwnerFromPath ''orgID''] ''handleUpdateOrgMemberRole'',
     Entry MGET (in_org [Lit ''invites'']) [GAuth, GOrgAdminFromPath ''orgID''] ''handleListOrgInvites'',
     Entry MDELETE (in_org [Lit ''invites'', Var ''inviteID'']) [GAuth, GOrgAdminFromPath ''orgID''] ''handleRevokeOrgInvite'',
     Entry MPOST (in_org [Lit ''invites'', Var ''inviteID'', Lit ''resend'']) [GAuth, GOrgAdminFromPath ''orgID''] ''handleResendOrgInvite'',
     Entry MGET (in_org [Lit ''mail'']) [GAuth, GOrgAdminFromPath ''orgID''] ''handleGetOrgMail'',
     Entry MPATCH (in_org [Lit ''mail'']) [GAuth, GOrgAdminFromPath ''orgID''] ''handleUpdateOrgMail'',
     Entry MPOST (in_org [Lit ''mail'', Lit ''test'']) [GAuth, GOrgAdminFromPath ''orgID''] ''handleTestOrgMail'',
     Entry MGET (in_org [Lit ''default-retry'']) [GAuth, GOrgMemberFromPath ''orgID''] ''handleGetOrgDefaultRetry'',
     Entry MPUT (in_org [Lit ''default-retry'']) [GAuth, GOrgAdminFromPath ''orgID''] ''handleUpdateOrgDefaultRetry'',
     Entry MGET (in_org [Lit ''object-store'']) [GAuth, GOrgMemberFromPath ''orgID''] ''handleGetOrgObjectStore'',
     Entry MPUT (in_org [Lit ''object-store'']) [GAuth, GOrgAdminFromPath ''orgID''] ''handleUpdateOrgObjectStore'',
     Entry MGET (in_org [Lit ''teams'']) [GAuth, GOrgMemberFromPath ''orgID''] ''handleListTeams'',
     Entry MPOST (in_org [Lit ''teams'']) [GAuth, GOrgAdminFromPath ''orgID''] ''handleCreateTeam'',
     Entry MGET (in_org [Lit ''projects'']) [GAuth, GOrgMemberFromPath ''orgID''] ''handleListProjects'',
     Entry MPOST (in_org [Lit ''projects'']) [GAuth, GOrgMemberFromPath ''orgID''] ''handleCreateProject'',
     Entry MGET (in_org [Lit ''projects'', Var ''projectID'', Lit ''environments'']) [GAuth, GOrgMemberFromPath ''orgID'', GOrgMemberViaProject] ''handleListEnvironments'',
     Entry MPOST (in_org [Lit ''projects'', Var ''projectID'', Lit ''environments'']) [GAuth, GOrgAdminFromPath ''orgID'', GOrgAdminViaProject] ''handleCreateEnvironment'',
     Entry MGET (in_api [Lit ''environments'', Var ''environmentID'']) [GAuth, GOrgMemberViaEnvironment] ''handleGetEnvironment'',
     Entry MDELETE (in_api [Lit ''environments'', Var ''environmentID'']) [GAuth, GOrgAdminViaEnvironment] ''handleDeleteEnvironment'']"

definition provider_routes :: "route_entry list" where
  "provider_routes = [
     Entry MGET (in_org [Lit ''providers'']) [GAuth, GOrgMemberFromPath ''orgID''] ''handleListProviders'',
     Entry MGET (in_org [Lit ''providers'', Lit ''health'']) [GAuth, GOrgMemberFromPath ''orgID''] ''handleProviderHealth'',
     Entry MPOST (in_org [Lit ''providers'']) [GAuth, GOrgAdminFromPath ''orgID''] ''handleCreateProvider'',
     Entry MPATCH (in_api [Lit ''providers'', Var ''providerID'']) [GAuth, GOrgAdminViaProvider] ''handleUpdateProvider'',
     Entry MDELETE (in_api [Lit ''providers'', Var ''providerID'']) [GAuth, GOrgAdminViaProvider] ''handleDeleteProvider'',
     Entry MGET (in_api [Lit ''provider-types'']) [GAuth] ''handleListProviderTypes'',
     Entry MGET (in_api [Lit ''model-catalog'']) [GAuth] ''handleListModelCatalog'']"

definition route_routes :: "route_entry list" where
  "route_routes = [
     Entry MGET (in_org [Lit ''routes'']) [GAuth, GOrgMemberFromPath ''orgID''] ''handleListRoutes'',
     Entry MPOST (in_org [Lit ''routes'']) [GAuth, GOrgAdminFromPath ''orgID''] ''handleCreateRoute'',
     Entry MPATCH (in_api [Lit ''routes'', Var ''routeID'']) [GAuth, GOrgAdminViaRoute] ''handleUpdateRoute'',
     Entry MDELETE (in_api [Lit ''routes'', Var ''routeID'']) [GAuth, GOrgAdminViaRoute] ''handleDeleteRoute'']"

definition usage_routes :: "route_entry list" where
  "usage_routes = [
     Entry MGET (in_org [Lit ''usage'']) [GAuth, GOrgMemberFromPath ''orgID''] ''handleListUsage'',
     Entry MGET (in_org [Lit ''usage'', Lit ''summary'']) [GAuth, GOrgMemberFromPath ''orgID''] ''handleUsageSummary'',
     Entry MGET (in_org [Lit ''audit'']) [GAuth, GOrgAdminFromPath ''orgID''] ''handleListAudit'']"

definition quota_policy_routes :: "route_entry list" where
  "quota_policy_routes = [
     Entry MGET (in_org [Lit ''quotas'']) [GAuth, GOrgMemberFromPath ''orgID''] ''handleListQuotas'',
     Entry MPOST (in_org [Lit ''quotas'']) [GAuth, GOrgAdminFromPath ''orgID''] ''handleCreateQuota'',
     Entry MPATCH (in_api [Lit ''quotas'', Var ''quotaID'']) [GAuth, GOrgAdminViaQuota] ''handleUpdateQuota'',
     Entry MDELETE (in_api [Lit ''quotas'', Var ''quotaID'']) [GAuth, GOrgAdminViaQuota] ''handleDeleteQuota'',
     Entry MGET (in_org [Lit ''policies'']) [GAuth, GOrgMemberFromPath ''orgID''] ''handleListPolicies'',
     Entry MPOST (in_org [Lit ''policies'']) [GAuth, GOrgAdminFromPath ''orgID''] ''handleCreatePolicy'',
     Entry MPOST (in_org [Lit ''policies'', Lit ''reorder'']) [GAuth, GOrgAdminFromPath ''orgID''] ''handleReorderPolicies'',
     Entry MPATCH (in_api [Lit ''policies'', Var ''policyID'']) [GAuth, GOrgAdminViaPolicy] ''handleUpdatePolicy'',
     Entry MDELETE (in_api [Lit ''policies'', Var ''policyID'']) [GAuth, GOrgAdminViaPolicy] ''handleDeletePolicy'']"

definition wasm_hook_routes :: "route_entry list" where
  "wasm_hook_routes = [
     Entry MGET (in_org [Lit ''wasm-hooks'']) [GAuth, GOrgMemberFromPath ''orgID''] ''handleListWasmHooks'',
     Entry MPOST (in_org [Lit ''wasm-hooks'']) [GAuth, GOrgAdminFromPath ''orgID''] ''handleCreateWasmHook'',
     Entry MPATCH (in_api [Lit ''wasm-hooks'', Var ''hookID'']) [GAuth, GOrgAdminViaWasmHook] ''handleUpdateWasmHook'',
     Entry MDELETE (in_api [Lit ''wasm-hooks'', Var ''hookID'']) [GAuth, GOrgAdminViaWasmHook] ''handleDeleteWasmHook'']"

definition mcp_backend_routes :: "route_entry list" where
  "mcp_backend_routes = [
     Entry MGET (in_org [Lit ''mcp-backends'']) [GAuth, GOrgMemberFromPath ''orgID''] ''handleListMCPBackends'',
     Entry MPOST (in_org [Lit ''mcp-backends'']) [GAuth, GOrgAdminFromPath ''orgID''] ''handleCreateMCPBackend'',
     Entry MPOST (in_org [Lit ''mcp-backends'', Lit ''test'']) [GAuth, GOrgAdminFromPath ''orgID''] ''handleTestMCPBackend'',
     Entry MPATCH (in_api [Lit ''mcp-backends'', Var ''backendID'']) [GAuth, GOrgAdminViaMCPBackend] ''handleUpdateMCPBackend'',
     Entry MDELETE (in_api [Lit ''mcp-backends'', Var ''backendID'']) [GAuth, GOrgAdminViaMCPBackend] ''handleDeleteMCPBackend'']"

definition a2a_agent_routes :: "route_entry list" where
  "a2a_agent_routes = [
     Entry MGET (in_org [Lit ''a2a-agents'']) [GAuth, GOrgMemberFromPath ''orgID''] ''handleListA2AAgents'',
     Entry MPOST (in_org [Lit ''a2a-agents'']) [GAuth, GOrgAdminFromPath ''orgID''] ''handleCreateA2AAgent'',
     Entry MPOST (in_org [Lit ''a2a-agents'', Lit ''test'']) [GAuth, GOrgAdminFromPath ''orgID''] ''handleTestA2AAgent'',
     Entry MPATCH (in_api [Lit ''a2a-agents'', Var ''agentID'']) [GAuth, GOrgAdminViaA2AAgent] ''handleUpdateA2AAgent'',
     Entry MDELETE (in_api [Lit ''a2a-agents'', Var ''agentID'']) [GAuth, GOrgAdminViaA2AAgent] ''handleDeleteA2AAgent'']"

definition credential_routes :: "route_entry list" where
  "credential_routes = [
     Entry MGET (in_org [Lit ''credentials'']) [GAuth, GOrgMemberFromPath ''orgID''] ''handleListCredentials'',
     Entry MPOST (in_org [Lit ''credentials'']) [GAuth, GOrgAdminFromPath ''orgID''] ''handleCreateCredential'',
     Entry MPATCH (in_api [Lit ''credentials'', Var ''credentialID'']) [GAuth, GOrgAdminViaCredential] ''handleUpdateCredential'',
     Entry MPOST (in_api [Lit ''credentials'', Var ''credentialID'', Lit ''rotate'']) [GAuth, GOrgAdminViaCredential] ''handleRotateCredential'',
     Entry MDELETE (in_api [Lit ''credentials'', Var ''credentialID'']) [GAuth, GOrgAdminViaCredential] ''handleDeleteCredential'',
     Entry MGET (in_org [Lit ''credential-assignments'']) [GAuth, GOrgMemberFromPath ''orgID''] ''handleListCredentialAssignments'',
     Entry MPUT (in_org [Lit ''credential-assignments'']) [GAuth, GOrgAdminFromPath ''orgID''] ''handleAssignCredential'',
     Entry MDELETE (in_api [Lit ''credential-assignments'', Var ''assignmentID'']) [GAuth, GOrgAdminViaCredentialAssignment] ''handleDeleteCredentialAssignment'']"

definition team_routes :: "route_entry list" where
  "team_routes = [
     Entry MGET (in_api [Lit ''teams'', Var ''teamID'']) [GAuth, GTeamAccess] ''handleGetTeam'',
     Entry MGET (in_api [Lit ''teams'', Var ''teamID'', Lit ''members'']) [GAuth, GTeamAccess] ''handleListTeamMembers'',
     Entry MPOST (in_api [Lit ''teams'', Var ''teamID'', Lit ''members'']) [GAuth, GTeamManager] ''handleAddTeamMember'',
     Entry MPATCH (in_api [Lit ''teams'', Var ''teamID'', Lit ''members'', Var ''userID'']) [GAuth, GTeamRoleChanger] ''handleUpdateTeamMemberRole'',
     Entry MDELETE (in_api [Lit ''teams'', Var ''teamID'', Lit ''members'', Var ''userID'']) [GAuth, GTeamManager] ''handleRemoveTeamMember'']"

definition key_routes :: "route_entry list" where
  "key_routes = [
     Entry MGET (in_org [Lit ''keys'']) [GAuth, GOrgMemberFromPath ''orgID''] ''handleListOrgKeys'',
     Entry MPOST (in_org [Lit ''keys'']) [GAuth, GOrgMemberFromPath ''orgID''] ''handleCreateOrgKey'',
     Entry MDELETE (in_api [Lit ''keys'', Var ''keyID'']) [GAuth] ''handleDeleteKey'',
     Entry MGET (in_org [Lit ''signing-keys'']) [GAuth, GOrgMemberFromPath ''orgID''] ''handleListSigningKeys'',
     Entry MPOST (in_org [Lit ''signing-keys'']) [GAuth, GOrgAdminFromPath ''orgID''] ''handleCreateSigningKey'',
     Entry MPATCH (in_api [Lit ''signing-keys'', Var ''signingKeyID'']) [GAuth, GOrgAdminViaSigningKey] ''handleUpdateSigningKey'',
     Entry MPOST (in_api [Lit ''signing-keys'', Var ''signingKeyID'', Lit ''rotate'']) [GAuth, GOrgAdminViaSigningKey] ''handleRotateSigningKey'',
     Entry MDELETE (in_api [Lit ''signing-keys'', Var ''signingKeyID'']) [GAuth, GOrgAdminViaSigningKey] ''handleDeleteSigningKey'']"

definition project_key_routes :: "route_entry list" where
  "project_key_routes = [
     Entry MGET (in_api [Lit ''projects'', Var ''projectID'', Lit ''keys'']) [GAuth, GOrgMemberViaProject] ''handleListKeys'',
     Entry MPOST (in_api [Lit ''projects'', Var ''projectID'', Lit ''keys'']) [GAuth, GOrgAdminViaProject] ''handleCreateKey'']"

definition api_routes :: "route_entry list" where
  "api_routes = health_routes @ internal_routes @ region_routes @ federation_routes @ auth_routes @ organization_routes @ provider_routes @ route_routes @ usage_routes @ quota_policy_routes @ wasm_hook_routes @ mcp_backend_routes @ a2a_agent_routes @ credential_routes @ team_routes @ key_routes @ project_key_routes"

section \<open>Serving\<close>

definition wrap :: "(string \<Rightarrow> string \<Rightarrow> jwt_claims option) \<Rightarrow> cp_config \<Rightarrow> guard_name list \<Rightarrow> 'a middleware" where
  "wrap jwt cfg gs nxt = foldr (apply_guard jwt cfg) gs nxt"

text \<open>
  The router of \<^verbatim>\<open>net/http\<close> on clean paths: a wildcard takes one non-empty segment, a GET pattern
  also serves HEAD, a path known only for other methods is 405.
\<close>

fun match_path :: "path_seg list \<Rightarrow> string list \<Rightarrow> (string, string) gomap option" where
  "match_path [] [] = Some []"
| "match_path (Lit s # ps) (x # xs) = (if s = x then match_path ps xs else None)"
| "match_path (Var v # ps) (x # xs) =
     (if x = [] then None else map_option (\<lambda>m. (v, x) # m) (match_path ps xs))"
| "match_path _ _ = None"

definition method_matches :: "http_method \<Rightarrow> http_method \<Rightarrow> bool" where
  "method_matches pat m \<longleftrightarrow> pat = m \<or> pat = MGET \<and> m = MHEAD"

definition path_segments :: "string \<Rightarrow> string list" where
  "path_segments p = tl (split_char (CHR ''/'') p)"

definition entry_vars :: "api_request \<Rightarrow> route_entry \<Rightarrow> (string, string) gomap option" where
  "entry_vars r e = match_path (en_pattern e) (path_segments (hr_path r))"

definition serve_mux ::
  "(string \<Rightarrow> string \<Rightarrow> jwt_claims option) \<Rightarrow> cp_config \<Rightarrow> route_entry list \<Rightarrow> (route_entry \<Rightarrow> 'a api_handler) \<Rightarrow> 'a api_handler" where
  "serve_mux jwt cfg routes handlers db r =
     (case find (\<lambda>e. method_matches (en_method e) (hr_method r) \<and> entry_vars r e \<noteq> None) routes of
        Some e \<Rightarrow> wrap jwt cfg (en_guards e) (handlers e) db (r\<lparr>hr_vars := the (entry_vars r e), hr_claims := None\<rparr>)
      | None \<Rightarrow> if \<exists>e\<in>set routes. entry_vars r e \<noteq> None then Answered StatusMethodNotAllowed ''Method Not Allowed''
                else Answered StatusNotFound ''404 page not found'')"

definition read_method :: "http_method \<Rightarrow> bool" where
  "read_method m \<longleftrightarrow> m = MGET \<or> m = MHEAD \<or> m = MOPTIONS"

definition federation_regional_read_only :: "cp_config \<Rightarrow> 'a middleware" where
  "federation_regional_read_only cfg nxt db r =
     (if cf_federation_mode cfg \<noteq> ''regional'' then nxt db r
      else if read_method (hr_method r) then
        (if has_prefix (hr_path r) ''/internal/v1/federation/'' then
           (if has_suffix (hr_path r) ''/usage-reports'' then nxt db r
            else Answered StatusForbidden ''federation export is hub-only; regional CP pulls from the hub'')
         else nxt db r)
      else if has_prefix (hr_path r) ''/api/v1/platform/auth/'' then nxt db r
      else Answered StatusForbidden ''regional control plane is read-only for management; change config on the hub'')"

definition with_cors :: "'a middleware" where
  "with_cors nxt db r = (if hr_method r = MOPTIONS then Answered StatusNoContent [] else nxt db r)"

definition serve ::
  "(string \<Rightarrow> string \<Rightarrow> jwt_claims option) \<Rightarrow> cp_config \<Rightarrow> (route_entry \<Rightarrow> 'a api_handler) \<Rightarrow> 'a api_handler" where
  "serve jwt cfg handlers = with_cors (federation_regional_read_only cfg (serve_mux jwt cfg api_routes handlers))"

end
