(* ===== verification/Authorization_Laws.thy ===== *)
theory Authorization_Laws
  imports Authorization
begin

text \<open>
  Properties of the API's routing and middleware: the patterns of the table exclude each other, a
  guard that lets a request through leaves a fact about its user behind, the table has the guards
  that method and pattern ask for (checked entry by entry), and hence what reaching a handler
  means.
\<close>

section \<open>Every request has one route\<close>

text \<open>
  The patterns of one method are pairwise incompatible, so the order of the table does not matter
  and the router's preference for the more specific pattern never applies.
\<close>

fun segs_compatible :: "path_seg list \<Rightarrow> path_seg list \<Rightarrow> bool" where
  "segs_compatible (Lit a # ps) (Lit b # qs) \<longleftrightarrow> a = b \<and> segs_compatible ps qs"
| "segs_compatible (_ # ps) (_ # qs) = segs_compatible ps qs"
| "segs_compatible _ _ = True"

definition overlap :: "path_seg list \<Rightarrow> path_seg list \<Rightarrow> bool" where
  "overlap p q \<longleftrightarrow> length p = length q \<and> segs_compatible (rev p) (rev q)"

definition seg_matches :: "path_seg \<Rightarrow> string \<Rightarrow> bool" where
  "seg_matches p x = (case p of Lit s \<Rightarrow> s = x | Var v \<Rightarrow> x \<noteq> [])"

lemma match_path_iff: "match_path p xs \<noteq> None \<longleftrightarrow> list_all2 seg_matches p xs"
  by (induction p xs rule: match_path.induct) (auto simp: seg_matches_def)

lemma segs_compatible_matches: "list_all2 seg_matches p xs \<Longrightarrow> list_all2 seg_matches q xs \<Longrightarrow> segs_compatible p q"
  by (induction p q arbitrary: xs rule: segs_compatible.induct)
    (auto simp: list_all2_Cons1 seg_matches_def)

lemma match_overlap: "match_path p xs \<noteq> None \<Longrightarrow> match_path q xs \<noteq> None \<Longrightarrow> overlap p q"
  unfolding match_path_iff overlap_def
  using segs_compatible_matches [of "rev p" "rev xs" "rev q"] by (auto simp: list_all2_lengthD)

definition patterns_of :: "http_method \<Rightarrow> path_seg list list" where
  "patterns_of m = map en_pattern (filter (\<lambda>e. en_method e = m) api_routes)"

lemma patterns_disjoint:
  "sorted_wrt (\<lambda>p q. \<not> overlap p q) (patterns_of MGET)"
  "sorted_wrt (\<lambda>p q. \<not> overlap p q) (patterns_of MPOST)"
  "sorted_wrt (\<lambda>p q. \<not> overlap p q) (patterns_of MPUT)"
  "sorted_wrt (\<lambda>p q. \<not> overlap p q) (patterns_of MPATCH)"
  "sorted_wrt (\<lambda>p q. \<not> overlap p q) (patterns_of MDELETE)"
  by code_simp+

lemma route_methods: "list_all (\<lambda>e. en_method e \<in> {MGET, MPOST, MPUT, MPATCH, MDELETE}) api_routes"
  by code_simp

section \<open>What a guard establishes\<close>

definition org_member_of :: "authz_db \<Rightarrow> string \<Rightarrow> string \<Rightarrow> bool" where
  "org_member_of db user org \<longleftrightarrow> member_role (db_org_members (tenants db)) org user \<noteq> None"

definition org_admin_of :: "authz_db \<Rightarrow> string \<Rightarrow> string \<Rightarrow> bool" where
  "org_admin_of db user org \<longleftrightarrow>
     member_role (db_org_members (tenants db)) org user \<in> {Some ''owner'', Some ''admin''}"

definition org_owner_of :: "authz_db \<Rightarrow> string \<Rightarrow> string \<Rightarrow> bool" where
  "org_owner_of db user org \<longleftrightarrow> member_role (db_org_members (tenants db)) org user = Some ''owner''"

text \<open>A member of the team with a role that satisfies \<open>holds\<close>, or an admin of its organization.\<close>

definition team_allows :: "(string \<Rightarrow> bool) \<Rightarrow> authz_db \<Rightarrow> string \<Rightarrow> string \<Rightarrow> bool" where
  "team_allows holds db user team \<longleftrightarrow>
     (\<exists>t. gm_get (db_teams (tenants db)) team = Some t \<and>
        (org_admin_of db user (tm_organization_id t) \<or>
         (\<exists>role. member_role (db_team_members (tenants db)) team user = Some role \<and> holds role)))"

lemma membership_reads:
  "is_org_member (tenants db) user org = Inr True \<longleftrightarrow> org_member_of db user org"
  "is_org_admin (tenants db) user org = Inr True \<longleftrightarrow> org_admin_of db user org"
  "is_org_owner (tenants db) user org = Inr True \<longleftrightarrow> org_owner_of db user org"
  by (auto simp: is_org_member_iff is_org_admin_iff org_member_of_def org_admin_of_def org_owner_of_def role_is_admin_def
      is_org_owner_def org_privilege_def orgs_get_member_role_def role_can_change_roles_def role_defs found_def
      split: option.splits)

lemma org_admin_member: "org_admin_of db user org \<Longrightarrow> org_member_of db user org"
  by (auto simp: org_admin_of_def org_member_of_def)

lemma team_reads:
  assumes "team_privilege holds (tenants db) team user = Inr True"
  shows "team_allows holds db user team"
proof -
  from assms obtain org ad where o: "teams_org_id (tenants db) team = Inr org"
    and ad: "is_org_admin (tenants db) user org = Inr ad"
    and rest: "ad \<or> (\<exists>role. teams_get_member_role (tenants db) team user = Inr role \<and> holds role)"
    by (auto simp: team_privilege_def bind_res_Inr split: if_splits sum.splits)
  from o obtain t where t: "gm_get (db_teams (tenants db)) team = Some t" "tm_organization_id t = org"
    by (auto simp: teams_org_id_def found_Inr)
  from rest ad show ?thesis
    unfolding team_allows_def t(2) [symmetric]
    using t membership_reads(2) [of db user org] by (auto simp: teams_get_member_role_def found_Inr)
qed

text \<open>The resource a guard goes through, and whether it asks for an admin.\<close>

fun guard_resource :: "guard_name \<Rightarrow> (resource \<times> bool) option" where
  "guard_resource GOrgMemberViaProject = Some (ResProject, False)"
| "guard_resource GOrgMemberViaEnvironment = Some (ResEnvironment, False)"
| "guard_resource GOrgAdminViaProject = Some (ResProject, True)"
| "guard_resource GOrgAdminViaEnvironment = Some (ResEnvironment, True)"
| "guard_resource GOrgAdminViaProvider = Some (ResProvider, True)"
| "guard_resource GOrgAdminViaRoute = Some (ResRoute, True)"
| "guard_resource GOrgAdminViaQuota = Some (ResQuota, True)"
| "guard_resource GOrgAdminViaPolicy = Some (ResPolicy, True)"
| "guard_resource GOrgAdminViaWasmHook = Some (ResWasmHook, True)"
| "guard_resource GOrgAdminViaSigningKey = Some (ResSigningKey, True)"
| "guard_resource GOrgAdminViaMCPBackend = Some (ResMCPBackend, True)"
| "guard_resource GOrgAdminViaA2AAgent = Some (ResA2AAgent, True)"
| "guard_resource GOrgAdminViaCredential = Some (ResCredential, True)"
| "guard_resource GOrgAdminViaCredentialAssignment = Some (ResCredentialAssignment, True)"
| "guard_resource _ = None"

fun resource_var :: "resource \<Rightarrow> string" where
  "resource_var ResProject = ''projectID''"
| "resource_var ResEnvironment = ''environmentID''"
| "resource_var ResSigningKey = ''signingKeyID''"
| "resource_var ResQuota = ''quotaID''"
| "resource_var ResPolicy = ''policyID''"
| "resource_var ResWasmHook = ''hookID''"
| "resource_var ResMCPBackend = ''backendID''"
| "resource_var ResA2AAgent = ''agentID''"
| "resource_var ResCredential = ''credentialID''"
| "resource_var ResCredentialAssignment = ''assignmentID''"
| "resource_var ResProvider = ''providerID''"
| "resource_var ResRoute = ''routeID''"

definition resource_allows :: "bool \<Rightarrow> authz_db \<Rightarrow> api_request \<Rightarrow> string \<Rightarrow> resource \<Rightarrow> bool" where
  "resource_allows admin db r user kind \<longleftrightarrow>
     (\<exists>org. resource_org_id db kind (path_value r (resource_var kind)) = Inr org \<and> org_member_of db user org \<and>
        (admin \<longrightarrow> org_admin_of db user org))"

text \<open>The fact a guard other than \<^verbatim>\<open>requireAuth\<close> leaves behind for the user it let through.\<close>

fun guard_fact :: "cp_config \<Rightarrow> authz_db \<Rightarrow> api_request \<Rightarrow> guard_name \<Rightarrow> jwt_claims \<Rightarrow> bool" where
  "guard_fact cfg db r GPlatformAdmin c \<longleftrightarrow> jc_role c = ''admin''"
| "guard_fact cfg db r (GOrgMemberFromPath v) c \<longleftrightarrow> org_member_of db (jc_user_id c) (path_value r v)"
| "guard_fact cfg db r (GOrgAdminFromPath v) c \<longleftrightarrow> org_admin_of db (jc_user_id c) (path_value r v)"
| "guard_fact cfg db r (GOrgOwnerFromPath v) c \<longleftrightarrow> org_owner_of db (jc_user_id c) (path_value r v)"
| "guard_fact cfg db r GTeamAccess c \<longleftrightarrow> team_allows (\<lambda>role. True) db (jc_user_id c) (path_value r ''teamID'')"
| "guard_fact cfg db r GTeamManager c \<longleftrightarrow> team_allows team_role_is_manager db (jc_user_id c) (path_value r ''teamID'')"
| "guard_fact cfg db r GTeamRoleChanger c \<longleftrightarrow> team_allows role_can_change_roles db (jc_user_id c) (path_value r ''teamID'')"
| "guard_fact cfg db r g c \<longleftrightarrow>
     (case guard_resource g of None \<Rightarrow> True | Some (kind, admin) \<Rightarrow> resource_allows admin db r (jc_user_id c) kind)"

lemma require_true_Ran [result_simps]:
  "require_true ok refusal rest = Ran x \<longleftrightarrow> ok = Inr True \<and> rest = Ran x \<or> ok = Inr False \<and> refusal = Ran x"
  by (auto simp: require_true_def answer_500_def split: sum.splits if_splits)

lemma answers_not_Ran [simp]:
  "forbidden \<noteq> Ran x" "answer_500 e \<noteq> Ran x" "answer_404_500 e \<noteq> Ran x"
  "forbidden \<noteq> Panicked" "answer_500 e \<noteq> Panicked" "answer_404_500 e \<noteq> Panicked"
  by (simp_all add: forbidden_def answer_500_def answer_404_500_def)

lemmas guard_shapes = member_via_def admin_after_member_via_def member_and_admin_via_def admin_via_def

lemmas resource_guard_defs = require_org_member_via_project_def require_org_member_via_environment_def
  require_org_member_via_provider_def require_org_member_via_route_def require_org_member_via_quota_def
  require_org_admin_via_project_def require_org_admin_via_environment_def require_org_admin_via_provider_def
  require_org_admin_via_route_def require_org_admin_via_quota_def require_org_admin_via_policy_def
  require_org_admin_via_wasm_hook_def require_org_admin_via_signing_key_def require_org_admin_via_mcp_backend_def
  require_org_admin_via_a2a_agent_def require_org_admin_via_credential_def require_org_admin_via_credential_assignment_def

lemmas path_guard_defs = require_org_member_from_path_def require_org_admin_from_path_def require_org_owner_from_path_def

lemmas team_guard_defs = require_team_access_def require_team_manager_def require_team_role_changer_def team_guard_def
  can_access_team_def can_manage_team_def can_change_team_roles_def

lemma shapes_Ran:
  assumes "hr_claims r = Some c" and "v = resource_var kind"
  shows "member_via kind v nxt db r = Ran x \<Longrightarrow> nxt db r = Ran x \<and> resource_allows False db r (jc_user_id c) kind"
    and "admin_after_member_via kind v nxt db r = Ran x \<Longrightarrow> nxt db r = Ran x \<and> resource_allows True db r (jc_user_id c) kind"
    and "member_and_admin_via kind v nxt db r = Ran x \<Longrightarrow> nxt db r = Ran x \<and> resource_allows True db r (jc_user_id c) kind"
    and "admin_via kind v nxt db r = Ran x \<Longrightarrow> nxt db r = Ran x \<and> resource_allows True db r (jc_user_id c) kind"
  using assms
  by (auto simp: guard_shapes with_claims_def require_true_Ran membership_reads resource_allows_def org_admin_member
      split: sum.splits)

lemma shapes_Panicked:
  assumes "hr_claims r = Some c" and "nxt db r \<noteq> Panicked"
  shows "member_via kind v nxt db r \<noteq> Panicked" and "admin_after_member_via kind v nxt db r \<noteq> Panicked"
    and "member_and_admin_via kind v nxt db r \<noteq> Panicked" and "admin_via kind v nxt db r \<noteq> Panicked"
  using assms by (auto simp: guard_shapes with_claims_def require_true_def split: sum.splits)

lemma resource_guard_shape:
  assumes "guard_resource g = Some (kind, admin)"
  shows "\<not> admin \<and> apply_guard jwt cfg g = member_via kind (resource_var kind) \<or>
    admin \<and> (apply_guard jwt cfg g = admin_after_member_via kind (resource_var kind) \<or>
       apply_guard jwt cfg g = member_and_admin_via kind (resource_var kind) \<or>
       apply_guard jwt cfg g = admin_via kind (resource_var kind))"
  using assms by (cases g) (auto simp: resource_guard_defs)

lemma guard_fact_resource:
  "guard_resource g = Some (kind, admin) \<Longrightarrow> guard_fact cfg db r g c \<longleftrightarrow> resource_allows admin db r (jc_user_id c) kind"
  by (cases g) auto

lemma guard_passed:
  assumes "apply_guard jwt cfg g nxt db r = Ran x" and "hr_claims r = Some c" and "g \<noteq> GAuth"
  shows "nxt db r = Ran x \<and> guard_fact cfg db r g c"
proof (cases "guard_resource g")
  case None
  with assms show ?thesis
    by (cases g)
      (auto simp: require_internal_def require_platform_admin_def path_guard_defs team_guard_defs with_claims_def
        require_true_Ran membership_reads Let_def dest: team_reads split: if_splits sum.splits)
next
  case (Some ka)
  obtain kind admin where ka: "guard_resource g = Some (kind, admin)" using Some by (cases ka) simp
  from resource_guard_shape [OF ka, of jwt cfg] assms(1) shapes_Ran [OF assms(2) refl, of kind nxt db x]
  show ?thesis unfolding guard_fact_resource [OF ka] by metis
qed

lemma guard_no_panic:
  assumes "hr_claims r = Some c" and "nxt db r \<noteq> Panicked" and "g \<noteq> GAuth"
  shows "apply_guard jwt cfg g nxt db r \<noteq> Panicked"
  using assms
  by (cases g)
    (auto simp: shapes_Panicked resource_guard_defs require_internal_def require_platform_admin_def path_guard_defs
      team_guard_defs with_claims_def require_true_def Let_def split: sum.splits)

lemma wrap_passed:
  assumes "wrap jwt cfg gs nxt db r = Ran x" and "hr_claims r = Some c" and "GAuth \<notin> set gs"
  shows "nxt db r = Ran x \<and> (\<forall>g\<in>set gs. guard_fact cfg db r g c)"
  using assms
proof (induction gs)
  case (Cons g gs)
  have "apply_guard jwt cfg g (wrap jwt cfg gs nxt) db r = Ran x" using Cons.prems(1) by (simp add: wrap_def)
  from guard_passed [OF this Cons.prems(2)] Cons show ?case by auto
qed (simp add: wrap_def)

lemma wrap_no_panic:
  assumes "hr_claims r = Some c" and "GAuth \<notin> set gs" and "nxt db r \<noteq> Panicked"
  shows "wrap jwt cfg gs nxt db r \<noteq> Panicked"
  using assms
proof (induction gs)
  case (Cons g gs)
  have "apply_guard jwt cfg g (wrap jwt cfg gs nxt) db r \<noteq> Panicked"
    by (rule guard_no_panic [OF Cons.prems(1)]) (use Cons in auto)
  then show ?case by (simp add: wrap_def)
qed (simp add: wrap_def)

section \<open>What the table demands\<close>

text \<open>The patterns open to anyone: health, machine endpoints (which check their own tokens) and login.\<close>

fun public_pattern :: "path_seg list \<Rightarrow> bool" where
  "public_pattern (Lit s # Lit t # Lit u # Lit v # _) \<longleftrightarrow>
     s = ''internal'' \<or> s = ''api'' \<and> t = ''v1'' \<and> u = ''platform'' \<and> v = ''auth''"
| "public_pattern (Lit s # _) \<longleftrightarrow> s = ''healthz'' \<or> s = ''internal''"
| "public_pattern _ = False"

fun org_pattern :: "path_seg list \<Rightarrow> bool" where
  "org_pattern (Lit a # Lit b # Lit c # Lit d # Var e # _) \<longleftrightarrow> d = ''organizations'' \<and> e = ''orgID''"
| "org_pattern _ = False"

fun platform_pattern :: "path_seg list \<Rightarrow> bool" where
  "platform_pattern (Lit a # Lit b # Lit c # Lit d # _) \<longleftrightarrow> a = ''api'' \<and> (d = ''regions'' \<or> d = ''federation'')"
| "platform_pattern _ = False"

definition all_resources :: "resource list" where
  "all_resources = [ResProject, ResEnvironment, ResSigningKey, ResQuota, ResPolicy, ResWasmHook, ResMCPBackend,
     ResA2AAgent, ResCredential, ResCredentialAssignment, ResProvider, ResRoute]"

text \<open>Two writes are open to every member: projects, and keys, whose handler checks the kind.\<close>

definition member_writes :: "string list" where
  "member_writes = [''handleCreateProject'', ''handleCreateOrgKey'']"

text \<open>
  Who may be let through to an entry, in terms of its method and pattern alone: a write needs an
  admin of the organization that owns what the path names, a read a member.
\<close>

definition permitted :: "authz_db \<Rightarrow> api_request \<Rightarrow> route_entry \<Rightarrow> jwt_claims \<Rightarrow> bool" where
  "permitted db r e c \<longleftrightarrow>
     (let user = jc_user_id c; p = en_pattern e; write = en_method e \<noteq> MGET in
      (\<forall>kind\<in>set all_resources. Var (resource_var kind) \<in> set p \<longrightarrow> resource_allows write db r user kind) \<and>
      (org_pattern p \<longrightarrow> org_member_of db user (path_value r ''orgID'') \<and>
         (write \<and> en_handler e \<notin> set member_writes \<longrightarrow> org_admin_of db user (path_value r ''orgID''))) \<and>
      (Var ''teamID'' \<in> set p \<longrightarrow>
         team_allows (if write then team_role_is_manager else (\<lambda>role. True)) db user (path_value r ''teamID'')) \<and>
      (platform_pattern p \<longrightarrow> jc_role c = ''admin''))"

fun org_guard :: "bool \<Rightarrow> guard_name \<Rightarrow> bool" where
  "org_guard admin (GOrgMemberFromPath v) \<longleftrightarrow> v = ''orgID'' \<and> \<not> admin"
| "org_guard admin (GOrgAdminFromPath v) \<longleftrightarrow> v = ''orgID''"
| "org_guard admin (GOrgOwnerFromPath v) \<longleftrightarrow> v = ''orgID''"
| "org_guard admin g = False"

text \<open>The guards of an entry that its method and pattern ask for, as a check on the table.\<close>

definition entry_guarded :: "route_entry \<Rightarrow> bool" where
  "entry_guarded e \<longleftrightarrow>
     (let p = en_pattern e; gs = en_guards e; write = en_method e \<noteq> MGET in
      list_all (\<lambda>kind. Var (resource_var kind) \<in> set p \<longrightarrow>
        list_ex (\<lambda>g. case guard_resource g of None \<Rightarrow> False | Some (k, a) \<Rightarrow> k = kind \<and> (write \<longrightarrow> a)) gs) all_resources \<and>
      (org_pattern p \<longrightarrow> list_ex (org_guard (write \<and> en_handler e \<notin> set member_writes)) gs) \<and>
      (Var ''teamID'' \<in> set p \<longrightarrow> list_ex (\<lambda>g. g = GTeamManager \<or> g = GTeamRoleChanger \<or> \<not> write \<and> g = GTeamAccess) gs) \<and>
      (platform_pattern p \<longrightarrow> list_ex (\<lambda>g. g = GPlatformAdmin) gs))"

text \<open>Public entries carry at most one guard; every other entry begins with the session check.\<close>

definition entry_shaped :: "route_entry \<Rightarrow> bool" where
  "entry_shaped e \<longleftrightarrow>
     (case en_guards e of
        [] \<Rightarrow> public_pattern (en_pattern e)
      | g # gs \<Rightarrow> GAuth \<notin> set gs \<and> (if g = GAuth then True else g = GInternal \<and> gs = [] \<and> public_pattern (en_pattern e)))"

lemma api_routes_guarded: "list_all (\<lambda>e. public_pattern (en_pattern e) \<or> entry_guarded e) api_routes"
  by code_simp

lemma api_routes_shaped: "list_all entry_shaped api_routes"
  by code_simp

lemma internal_routes_guarded:
  "list_all (\<lambda>e. en_handler e \<in> set [''handleSeed'', ''handlePublish''] \<longrightarrow> en_guards e = [GInternal]) api_routes"
  by code_simp

lemma serve_Ran:
  assumes "serve jwt cfg handlers db r = Ran x"
  obtains e where "e \<in> set api_routes" and "method_matches (en_method e) (hr_method r)"
    and "entry_vars r e \<noteq> None" and "cf_federation_mode cfg = ''regional'' \<longrightarrow>
      read_method (hr_method r) \<and> (has_prefix (hr_path r) ''/internal/v1/federation/'' \<longrightarrow> has_suffix (hr_path r) ''/usage-reports'') \<or>
      has_prefix (hr_path r) ''/api/v1/platform/auth/''"
    and "wrap jwt cfg (en_guards e) (handlers e) db (r\<lparr>hr_vars := the (entry_vars r e), hr_claims := None\<rparr>) = Ran x"
proof -
  from assms have mux: "serve_mux jwt cfg api_routes handlers db r = Ran x" and ro: "cf_federation_mode cfg = ''regional'' \<longrightarrow>
      read_method (hr_method r) \<and> (has_prefix (hr_path r) ''/internal/v1/federation/'' \<longrightarrow> has_suffix (hr_path r) ''/usage-reports'') \<or>
      has_prefix (hr_path r) ''/api/v1/platform/auth/''"
    by (auto simp: serve_def with_cors_def federation_regional_read_only_def split: if_splits)
  from mux obtain e where f: "find (\<lambda>e. method_matches (en_method e) (hr_method r) \<and> entry_vars r e \<noteq> None) api_routes = Some e"
    and w: "wrap jwt cfg (en_guards e) (handlers e) db (r\<lparr>hr_vars := the (entry_vars r e), hr_claims := None\<rparr>) = Ran x"
    by (auto simp: serve_mux_def split: option.splits if_splits)
  from f have "e \<in> set api_routes" "method_matches (en_method e) (hr_method r)" "entry_vars r e \<noteq> None"
    by (auto simp: find_Some_iff)
  with that ro w show ?thesis by blast
qed

text \<open>An entry behind the session check: a valid token, and the facts of all its guards.\<close>

lemma wrap_auth_Ran:
  assumes "wrap jwt cfg (GAuth # gs) nxt db r = Ran x" and "GAuth \<notin> set gs"
  obtains c where "has_prefix (hr_authorization r) ''Bearer ''"
    and "jwt (cf_jwt_secret cfg) (trim_prefix (hr_authorization r) ''Bearer '') = Some c"
    and "nxt db (r\<lparr>hr_claims := Some c\<rparr>) = Ran x" and "\<forall>g\<in>set gs. guard_fact cfg db (r\<lparr>hr_claims := Some c\<rparr>) g c"
proof -
  from assms(1) obtain c where c: "has_prefix (hr_authorization r) ''Bearer ''"
    "jwt (cf_jwt_secret cfg) (trim_prefix (hr_authorization r) ''Bearer '') = Some c"
    "wrap jwt cfg gs nxt db (r\<lparr>hr_claims := Some c\<rparr>) = Ran x"
    by (auto simp: wrap_def require_auth_def Let_def split: if_splits option.splits)
  from wrap_passed [OF c(3) _ assms(2), of c] c(1,2) that show ?thesis by simp
qed

text \<open>Guards only pass on the entry's own handler.\<close>

lemma wrap_entry:
  assumes "wrap jwt cfg gs (\<lambda>db r. Ran (e0, r)) db r = Ran (e, r')" shows "e0 = e"
  using assms
proof (induction gs arbitrary: r)
  case (Cons g gs)
  have step: "\<exists>r1. nxt db r1 = Ran (e, r')" if "apply_guard jwt cfg g nxt db r = Ran (e, r')" for nxt
    using that
    by (cases g)
      (auto simp: require_auth_def require_internal_def require_platform_admin_def path_guard_defs resource_guard_defs
        guard_shapes team_guard_defs with_claims_def require_true_Ran Let_def split: if_splits option.splits sum.splits)
  from Cons.prems have "apply_guard jwt cfg g (wrap jwt cfg gs (\<lambda>db r. Ran (e0, r))) db r = Ran (e, r')" by (simp add: wrap_def)
  from step [OF this] Cons.IH show ?case by blast
qed (simp add: wrap_def)

lemma org_guard_fact:
  assumes "org_guard admin g" and "guard_fact cfg db r g c"
  shows "org_member_of db (jc_user_id c) (path_value r ''orgID'') \<and>
    (admin \<longrightarrow> org_admin_of db (jc_user_id c) (path_value r ''orgID''))"
  using assms by (cases g) (auto simp: org_admin_of_def org_owner_of_def org_member_of_def)

lemma entry_guarded_permitted:
  assumes "entry_guarded e" and "\<forall>g\<in>set (en_guards e). guard_fact cfg db r g c"
  shows "permitted db r e c"
proof -
  note g = assms(1) [unfolded entry_guarded_def Let_def]
  have "resource_allows (en_method e \<noteq> MGET) db r (jc_user_id c) kind"
    if "kind \<in> set all_resources" "Var (resource_var kind) \<in> set (en_pattern e)" for kind
  proof -
    from g that obtain gd where gd: "gd \<in> set (en_guards e)"
      "case guard_resource gd of None \<Rightarrow> False | Some (k, a) \<Rightarrow> k = kind \<and> (en_method e \<noteq> MGET \<longrightarrow> a)"
      by (auto simp: list_all_iff list_ex_iff)
    then obtain a where a: "guard_resource gd = Some (kind, a)" "en_method e \<noteq> MGET \<longrightarrow> a"
      by (auto split: option.splits)
    with assms(2) gd(1) have "resource_allows a db r (jc_user_id c) kind" using guard_fact_resource by blast
    with a(2) show ?thesis by (auto simp: resource_allows_def)
  qed
  moreover have "org_member_of db (jc_user_id c) (path_value r ''orgID'') \<and>
      (en_method e \<noteq> MGET \<and> en_handler e \<notin> set member_writes \<longrightarrow> org_admin_of db (jc_user_id c) (path_value r ''orgID''))"
    if "org_pattern (en_pattern e)"
  proof -
    from g that obtain gd where gd: "gd \<in> set (en_guards e)" "org_guard (en_method e \<noteq> MGET \<and> en_handler e \<notin> set member_writes) gd"
      by (auto simp: list_ex_iff)
    from gd(1) assms(2) have "guard_fact cfg db r gd c" by blast
    from org_guard_fact [OF gd(2) this] show ?thesis by blast
  qed
  moreover have "team_allows (if en_method e \<noteq> MGET then team_role_is_manager else (\<lambda>role. True)) db (jc_user_id c) (path_value r ''teamID'')"
    if "Var ''teamID'' \<in> set (en_pattern e)"
  proof -
    from g that obtain gd where gd: "gd \<in> set (en_guards e)"
      "gd = GTeamManager \<or> gd = GTeamRoleChanger \<or> en_method e = MGET \<and> gd = GTeamAccess"
      by (auto simp: list_ex_iff)
    with assms(2) have "guard_fact cfg db r gd c" by blast
    with gd(2) show ?thesis
      by (auto simp: team_allows_def team_role_is_manager_def role_can_change_roles_def)
  qed
  moreover have "jc_role c = ''admin''" if "platform_pattern (en_pattern e)"
  proof -
    from g that have "GPlatformAdmin \<in> set (en_guards e)" by (auto simp: list_ex_iff)
    with assms(2) show ?thesis by force
  qed
  ultimately show ?thesis unfolding permitted_def Let_def by blast
qed


definition demo_authz :: authz_db where
  "demo_authz = \<lparr>az_access = small_access, az_orgs = [((ResQuota, ''q''), ''o'')]\<rparr>"

definition demo_jwt :: "string \<Rightarrow> string \<Rightarrow> jwt_claims option" where
  "demo_jwt secret token = (if token = ''t1'' then Some \<lparr>jc_user_id = ''u1'', jc_email = ''a@y'', jc_role = ''member''\<rparr>
     else if token = ''t2'' then Some \<lparr>jc_user_id = ''u2'', jc_email = ''b@y'', jc_role = ''member''\<rparr> else None)"

definition demo_config :: cp_config where
  "demo_config = \<lparr>cf_jwt_secret = ''s'', cf_internal_token = [], cf_federation_mode = []\<rparr>"

definition demo_api_call :: "http_method \<Rightarrow> string \<Rightarrow> api_request" where
  "demo_api_call m token = \<lparr>hr_method = m, hr_path = ''/api/v1/platform/quotas/q'', hr_vars = [],
     hr_authorization = ''Bearer '' @ token, hr_internal_token = [], hr_claims = None\<rparr>"

lemma demo_call_served:
  "(case serve demo_jwt demo_config (\<lambda>e db r. Ran (e, r)) demo_authz (demo_api_call MPATCH ''t1'') of
      Ran (e, r') \<Rightarrow> en_handler e = ''handleUpdateQuota'' \<and> hr_claims r' \<noteq> None | _ \<Rightarrow> False)"
  by code_simp


fun answered_with :: "nat \<Rightarrow> 'a outcome \<Rightarrow> bool" where
  "answered_with s (Answered t m) \<longleftrightarrow> s = t"
| "answered_with s _ = False"

definition auth_prefix :: "path_seg list" where
  "auth_prefix = [Lit ''api'', Lit ''v1'', Lit ''platform'', Lit ''auth'']"

lemma auth_patterns:
  "list_all (\<lambda>e. segs_compatible (take 4 (en_pattern e)) auth_prefix \<longrightarrow> take 4 (en_pattern e) = auth_prefix) api_routes"
  by code_simp

lemma auth_path_segments:
  assumes "has_prefix p ''/api/v1/platform/auth/''"
  shows "\<exists>xs. path_segments p = ''api'' # ''v1'' # ''platform'' # ''auth'' # xs"
proof -
  from assms obtain rest where "p = ''/api/v1/platform/auth/'' @ rest"
    unfolding has_prefix_def by (metis append_take_drop_id)
  then show ?thesis by (simp add: path_segments_def)
qed

lemma auth_path_pattern:
  assumes "e \<in> set api_routes" and "entry_vars r e \<noteq> None" and "has_prefix (hr_path r) ''/api/v1/platform/auth/''"
  shows "take 4 (en_pattern e) = auth_prefix"
proof -
  obtain xs where xs: "path_segments (hr_path r) = ''api'' # ''v1'' # ''platform'' # ''auth'' # xs"
    using auth_path_segments [OF assms(3)] by blast
  have m: "list_all2 seg_matches (en_pattern e) (path_segments (hr_path r))"
    using assms(2) match_path_iff unfolding entry_vars_def by blast
  have "list_all2 seg_matches (take 4 (en_pattern e)) (take 4 (path_segments (hr_path r)))"
    by (rule list_all2_takeI [OF m])
  moreover have "list_all2 seg_matches auth_prefix (take 4 (path_segments (hr_path r)))"
    by (simp add: xs auth_prefix_def seg_matches_def)
  ultimately have "segs_compatible (take 4 (en_pattern e)) auth_prefix" by (rule segs_compatible_matches)
  with assms(1) auth_patterns show ?thesis by (simp add: list_all_iff)
qed

text \<open>
  A regional control plane is read-only. In regional mode the only handlers a request can get
  to are those of GET routes and those under the path of authentication (login, password reset,
  invites, single sign-on); every other write is refused before routing.
\<close>

theorem regional_control_plane_read_only:
  assumes "cf_federation_mode cfg = ''regional''" and "serve jwt cfg (\<lambda>e db r. Ran (e, r)) db r = Ran (e, r')"
  shows "en_method e = MGET \<or> take 4 (en_pattern e) = auth_prefix"
proof -
  obtain e0 where e0: "e0 \<in> set api_routes" "method_matches (en_method e0) (hr_method r)" "entry_vars r e0 \<noteq> None"
    and ro: "read_method (hr_method r) \<or> has_prefix (hr_path r) ''/api/v1/platform/auth/''"
    and w: "wrap jwt cfg (en_guards e0) (\<lambda>db r. Ran (e0, r)) db (r\<lparr>hr_vars := the (entry_vars r e0), hr_claims := None\<rparr>) = Ran (e, r')"
    using serve_Ran [OF assms(2)] assms(1) by metis
  have "e0 = e" by (rule wrap_entry [OF w])
  moreover have "en_method e0 \<in> {MGET, MPOST, MPUT, MPATCH, MDELETE}" using e0(1) route_methods by (simp add: list_all_iff)
  ultimately show ?thesis
    using ro e0 auth_path_pattern [OF e0(1,3)] by (auto simp: read_method_def method_matches_def)
qed

theorem regional_control_plane_read_only_witness:
  "\<exists>e r'. serve demo_jwt (demo_config\<lparr>cf_federation_mode := ''regional''\<rparr>) (\<lambda>e db r. Ran (e, r)) demo_authz
       ((demo_api_call MPOST [])\<lparr>hr_path := ''/api/v1/platform/auth/login''\<rparr>) = Ran (e, r') \<and>
     (en_method e = MGET \<or> take 4 (en_pattern e) = auth_prefix) \<and>
     answered_with 403 (serve demo_jwt (demo_config\<lparr>cf_federation_mode := ''regional''\<rparr>) (\<lambda>e db r. Ran (e, r)) demo_authz
       (demo_api_call MPATCH ''t1''))"
proof -
  have "(case serve demo_jwt (demo_config\<lparr>cf_federation_mode := ''regional''\<rparr>) (\<lambda>e db r. Ran (e, r)) demo_authz
       ((demo_api_call MPOST [])\<lparr>hr_path := ''/api/v1/platform/auth/login''\<rparr>) of Ran x \<Rightarrow> True | _ \<Rightarrow> False)" by code_simp
  then obtain e r' where s: "serve demo_jwt (demo_config\<lparr>cf_federation_mode := ''regional''\<rparr>) (\<lambda>e db r. Ran (e, r)) demo_authz
       ((demo_api_call MPOST [])\<lparr>hr_path := ''/api/v1/platform/auth/login''\<rparr>) = Ran (e, r')" by (auto split: outcome.splits)
  have "answered_with 403 (serve demo_jwt (demo_config\<lparr>cf_federation_mode := ''regional''\<rparr>) (\<lambda>e db r. Ran (e, r)) demo_authz
       (demo_api_call MPATCH ''t1''))" by code_simp
  with s regional_control_plane_read_only [OF _ s] show ?thesis by auto
qed


end
