(* ===== verification/Accounts.thy ===== *)
theory Accounts
  imports Regions Tenancy_Service Http
begin

text \<open>
  Platform accounts: password and single sign-on authentication. The service is
  \<^verbatim>\<open>src/internal/app/platform/auth.go\<close>, the provisioning of federated users
  \<^verbatim>\<open>src/internal/identity/sso.go\<close>, the tables \<^verbatim>\<open>src/internal/adapters/postgres\<close> (\<^verbatim>\<open>tenancy.go\<close>,
  \<^verbatim>\<open>external_identities.go\<close>), the stores of sign-on states \<^verbatim>\<open>src/internal/adapters/memory\<close> and
  \<^verbatim>\<open>redis\<close>. Arguments: bcrypt, the JWT library, SHA-256, the identity providers' protocols,
  random tokens, identifiers and the clock.
\<close>

section \<open>Entities\<close>

definition ErrInvalidCredentials :: err where "ErrInvalidCredentials = Err ErrOther ''invalid credentials''"
definition ErrSSODisabled :: err where "ErrSSODisabled = Err ErrOther ''sso disabled''"
definition ErrSignupDisabled :: err where "ErrSignupDisabled = Err ErrOther ''signup disabled''"
definition ErrUnknownProvider :: err where "ErrUnknownProvider = Err ErrOther ''unknown sso provider''"
definition ErrInvalidSSOState :: err where "ErrInvalidSSOState = Err ErrOther ''invalid or expired sso state''"
definition ErrInvalidResetToken :: err where "ErrInvalidResetToken = Err ErrOther ''invalid or expired reset token''"
definition ErrEmailNotVerified :: err where "ErrEmailNotVerified = Err ErrOther ''email not verified''"
definition ErrMissingFederatedEmail :: err where "ErrMissingFederatedEmail = Err ErrOther ''federated email required''"
definition ErrMissingFederatedSubject :: err where "ErrMissingFederatedSubject = Err ErrOther ''federated subject required''"

lemmas identity_err_defs = ErrInvalidCredentials_def ErrSSODisabled_def ErrSignupDisabled_def ErrUnknownProvider_def
  ErrInvalidSSOState_def ErrInvalidResetToken_def ErrEmailNotVerified_def ErrMissingFederatedEmail_def
  ErrMissingFederatedSubject_def

record external_identity =
  xi_id :: string
  xi_user_id :: string
  xi_provider :: string
  xi_issuer :: string
  xi_subject :: string
  xi_email :: string
  xi_created_at :: gotime

record federated_claims =
  fc_provider :: string
  fc_issuer :: string
  fc_subject :: string
  fc_email :: string
  fc_email_verified :: bool
  fc_name :: string

record reset_token =
  rk_id :: string
  rk_user_id :: string
  rk_token_hash :: string
  rk_expires_at :: gotime
  rk_created_at :: gotime
  rk_used_at :: "gotime option"

definition DefaultPasswordResetTTL :: duration where "DefaultPasswordResetTTL = hour"

text \<open>A sign-on in progress; \<open>None\<close> is the zero time.\<close>

record sso_state =
  sx_provider :: string
  sx_return_to :: string
  sx_request_id :: string
  sx_expires_at :: "gotime option"

text \<open>
  An identity provider: its protocol is third-party. \<open>fp_asserts\<close> tells whether it implements
  \<^verbatim>\<open>AssertionExchanger\<close> (SAML), whose exchange is told the request identifiers it may answer.
\<close>

record sso_provider =
  fp_name :: string
  fp_display_name :: string
  fp_type :: string
  fp_auth_url :: "string \<Rightarrow> string \<Rightarrow> (string \<times> string) res"
  fp_asserts :: bool
  fp_exchange :: "string \<Rightarrow> string \<Rightarrow> string list \<Rightarrow> federated_claims res"

record auth_service =
  sv_hash_password :: "string \<Rightarrow> string res"
  sv_check_password :: "string \<Rightarrow> string \<Rightarrow> bool"
  sv_issue :: "string \<Rightarrow> string \<Rightarrow> string \<Rightarrow> string res"
  sv_sha :: "string \<Rightarrow> string"
  sv_providers :: "(string, sso_provider) gomap"
  sv_sso_enabled :: bool
  sv_signup_enabled :: bool
  sv_public_base_url :: string
  sv_app_base_url :: string

section \<open>Tables\<close>

record auth_db =
  au_tenancy :: tenancy_db
  au_links :: "(string, external_identity) gomap"
  au_resets :: "(string, reset_token) gomap"

type_synonym 'a auth_op = "('a, auth_db) storeop"

definition user_by_email :: "auth_db \<Rightarrow> string \<Rightarrow> user_row res" where
  "user_by_email db email = users_get_by_email (au_tenancy db) email"

definition user_by_id :: "auth_db \<Rightarrow> string \<Rightarrow> user_row res" where
  "user_by_id db i = found (gm_get (db_users (au_tenancy db)) i)"

definition user_create :: "user_row \<Rightarrow> unit auth_op" where
  "user_create u db =
     (case users_create u (au_tenancy db) of (r, t) \<Rightarrow> (r, db\<lparr>au_tenancy := t\<rparr>))"

definition user_update_password :: "string \<Rightarrow> string \<Rightarrow> unit auth_op" where
  "user_update_password i h db =
     (case gm_get (db_users (au_tenancy db)) i of
        None \<Rightarrow> (Inl (sentinel ErrNotFound), db)
      | Some u \<Rightarrow> (Inr (), db\<lparr>au_tenancy := (au_tenancy db)\<lparr>
          db_users := gm_put i (u\<lparr>ur_password_hash := h\<rparr>) (db_users (au_tenancy db))\<rparr>\<rparr>))"

definition link_by_subject :: "auth_db \<Rightarrow> string \<Rightarrow> string \<Rightarrow> external_identity res" where
  "link_by_subject db provider subject =
     found (find (\<lambda>x. xi_provider x = provider \<and> xi_subject x = subject) (map snd (au_links db)))"

definition link_create :: "external_identity \<Rightarrow> unit auth_op" where
  "link_create x db =
     (if gm_get (au_links db) (xi_id x) \<noteq> None \<or>
         (\<exists>y\<in>set (map snd (au_links db)). xi_provider y = xi_provider x \<and> xi_subject y = xi_subject x)
      then (Inl key_violation, db)
      else if gm_get (db_users (au_tenancy db)) (xi_user_id x) = None then (Inl foreign_key_violation, db)
      else (Inr (), db\<lparr>au_links := gm_put (xi_id x) x (au_links db)\<rparr>))"

definition reset_create :: "reset_token \<Rightarrow> unit auth_op" where
  "reset_create t db =
     (if gm_get (au_resets db) (rk_id t) \<noteq> None \<or>
         (\<exists>x\<in>set (map snd (au_resets db)). rk_token_hash x = rk_token_hash t) then (Inl key_violation, db)
      else if gm_get (db_users (au_tenancy db)) (rk_user_id t) = None then (Inl foreign_key_violation, db)
      else (Inr (), db\<lparr>au_resets := gm_put (rk_id t) t (au_resets db)\<rparr>))"

definition reset_delete_unused :: "string \<Rightarrow> unit auth_op" where
  "reset_delete_unused user db =
     (Inr (), db\<lparr>au_resets := filter (\<lambda>(_, t). \<not> (rk_user_id t = user \<and> rk_used_at t = None)) (au_resets db)\<rparr>)"

definition reset_by_hash :: "auth_db \<Rightarrow> string \<Rightarrow> reset_token res" where
  "reset_by_hash db h = found (find (\<lambda>t. rk_token_hash t = h) (map snd (au_resets db)))"

definition reset_consume :: "string \<Rightarrow> gotime \<Rightarrow> unit auth_op" where
  "reset_consume i t db =
     (case gm_get (au_resets db) i of
        None \<Rightarrow> (Inl (sentinel ErrNotFound), db)
      | Some k \<Rightarrow>
          if rk_used_at k \<noteq> None then (Inl (sentinel ErrNotFound), db)
          else (Inr (), db\<lparr>au_resets := gm_put i (k\<lparr>rk_used_at := Some t\<rparr>) (au_resets db)\<rparr>))"

section \<open>Passwords\<close>

definition user_email :: "string \<Rightarrow> string" where
  "user_email email = to_lower (trim_space email)"

definition service_check :: "auth_service \<Rightarrow> string \<Rightarrow> string \<Rightarrow> bool" where
  "service_check a h password \<longleftrightarrow> h \<noteq> [] \<and> sv_check_password a h password"

text \<open>The user returned to a client has no password hash.\<close>

definition public_user :: "user_row \<Rightarrow> user_row" where
  "public_user u = u\<lparr>ur_password_hash := []\<rparr>"

definition issue_for :: "auth_service \<Rightarrow> user_row \<Rightarrow> string res" where
  "issue_for a u = sv_issue a (ur_id u) (ur_email u) (ur_role u)"

definition auth_register ::
  "auth_service \<Rightarrow> string \<Rightarrow> string \<Rightarrow> string \<Rightarrow> string \<Rightarrow> (string \<times> user_row) auth_op" where
  "auth_register a new_id email0 name0 password db =
     (if \<not> sv_signup_enabled a then (Inl ErrSignupDisabled, db)
      else let email = user_email email0; name = trim_space name0 in
        if email = [] \<or> CHR ''@'' \<notin> set email \<or> name = [] then (Inl (sentinel ErrInvalidRequest), db)
        else if length password < 8 then (Inl (sentinel ErrInvalidRequest), db)
        else (case user_by_email db email of
            Inr _ \<Rightarrow> (Inl (sentinel ErrConflict), db)
          | Inl e \<Rightarrow>
              if \<not> err_is e ErrNotFound then (Inl e, db)
              else db_check (sv_hash_password a password) (\<lambda>h.
                if new_id = [] then (\<lambda>db. (Inl (Err ErrOther ''new user id not configured''), db))
                else let u = \<lparr>ur_id = new_id, ur_email = email, ur_name = name, ur_role = ''member'', ur_password_hash = h\<rparr> in
                  db_bind (user_create u) (\<lambda>_. db_check (issue_for a u) (\<lambda>tok db. (Inr (tok, public_user u), db)))) db))"

definition auth_login :: "auth_service \<Rightarrow> auth_db \<Rightarrow> string \<Rightarrow> string \<Rightarrow> string res" where
  "auth_login a db email0 password =
     (let email = user_email email0 in
      if email = [] \<or> password = [] then Inl ErrInvalidCredentials
      else (case user_by_email db email of
          Inl e \<Rightarrow> Inl (if err_is e ErrNotFound then ErrInvalidCredentials else e)
        | Inr u \<Rightarrow>
            if ur_password_hash u = [] \<or> \<not> service_check a (ur_password_hash u) password then Inl ErrInvalidCredentials
            else issue_for a u))"

text \<open>The raw token is empty, and no error, when the address is unknown.\<close>

definition auth_request_reset ::
  "auth_service \<Rightarrow> gotime \<Rightarrow> string \<Rightarrow> string \<Rightarrow> string \<Rightarrow> string auth_op" where
  "auth_request_reset a now raw new_id email0 db =
     (let email = user_email email0 in
      if email = [] \<or> CHR ''@'' \<notin> set email then (Inr [], db)
      else (case user_by_email db email of
          Inl e \<Rightarrow> (if err_is e ErrNotFound then Inr [] else Inl e, db)
        | Inr u \<Rightarrow>
            if new_id = [] then (Inl (Err ErrOther ''new reset id not configured''), db)
            else db_bind (reset_delete_unused (ur_id u)) (\<lambda>_.
              db_bind (reset_create \<lparr>rk_id = new_id, rk_user_id = ur_id u, rk_token_hash = hash_opaque_token (sv_sha a) raw,
                  rk_expires_at = now + DefaultPasswordResetTTL, rk_created_at = now, rk_used_at = None\<rparr>) (\<lambda>_ db.
                (Inr raw, db))) db))"

text \<open>
  Confirming a reset is two phases, checks and writes, which are no transaction: another request may
  run in between.
\<close>

definition confirm_reset_check :: "auth_service \<Rightarrow> gotime \<Rightarrow> string \<Rightarrow> string \<Rightarrow> auth_db \<Rightarrow> (reset_token \<times> string) res" where
  "confirm_reset_check a now raw0 password db =
     (let raw = trim_space raw0 in
      if raw = [] \<or> length password < 8 then Inl (sentinel ErrInvalidRequest)
      else (case reset_by_hash db (hash_opaque_token (sv_sha a) raw) of
          Inl e \<Rightarrow> Inl (if err_is e ErrNotFound then ErrInvalidResetToken else e)
        | Inr t \<Rightarrow>
            if rk_used_at t \<noteq> None \<or> \<not> now < rk_expires_at t then Inl ErrInvalidResetToken
            else (case sv_hash_password a password of Inl e \<Rightarrow> Inl e | Inr h \<Rightarrow> Inr (t, h))))"

definition confirm_reset_write ::
  "auth_service \<Rightarrow> gotime \<Rightarrow> reset_token \<Rightarrow> string \<Rightarrow> (string \<times> user_row) auth_op" where
  "confirm_reset_write a now t h =
     db_bind (user_update_password (rk_user_id t) h) (\<lambda>_.
     db_bind (reset_consume (rk_id t) now) (\<lambda>_ db.
       db_check (user_by_id db (rk_user_id t)) (\<lambda>u.
         db_check (issue_for a u) (\<lambda>tok db. (Inr (tok, public_user u), db))) db))"

definition auth_confirm_reset ::
  "auth_service \<Rightarrow> gotime \<Rightarrow> string \<Rightarrow> string \<Rightarrow> (string \<times> user_row) auth_op" where
  "auth_confirm_reset a now raw password db =
     db_check (confirm_reset_check a now raw password db) (\<lambda>(t, h). confirm_reset_write a now t h) db"

section \<open>Federated users\<close>

definition resolve_or_provision_user ::
  "gotime \<Rightarrow> string \<Rightarrow> string \<Rightarrow> federated_claims \<Rightarrow> user_row auth_op" where
  "resolve_or_provision_user now new_user_id new_link_id claims db =
     (let provider = trim_space (fc_provider claims); subject = trim_space (fc_subject claims);
          email = user_email (fc_email claims); name = trim_space (fc_name claims); issuer = trim_space (fc_issuer claims);
          link = (\<lambda>user. \<lparr>xi_id = new_link_id, xi_user_id = user, xi_provider = provider, xi_issuer = issuer,
                     xi_subject = subject, xi_email = email, xi_created_at = now\<rparr>)
      in if provider = [] \<or> subject = [] then (Inl ErrMissingFederatedSubject, db)
      else (case link_by_subject db provider subject of
          Inr x \<Rightarrow> (user_by_id db (xi_user_id x), db)
        | Inl e \<Rightarrow>
            if \<not> err_is e ErrNotFound then (Inl e, db)
            else if email = [] then (Inl ErrMissingFederatedEmail, db)
            else if \<not> fc_email_verified claims then (Inl ErrEmailNotVerified, db)
            else (case user_by_email db email of
                Inr u \<Rightarrow> db_bind (link_create (link (ur_id u))) (\<lambda>_ db. (Inr u, db)) db
              | Inl e \<Rightarrow>
                  if \<not> err_is e ErrNotFound then (Inl e, db)
                  else let u = \<lparr>ur_id = new_user_id, ur_email = email, ur_name = (if name = [] then email else name),
                                ur_role = ''member'', ur_password_hash = []\<rparr> in
                    db_bind (user_create u) (\<lambda>_. db_bind (link_create (link new_user_id)) (\<lambda>_ db. (Inr u, db))) db)))"

section \<open>Stores of sign-on states\<close>

text \<open>
  Both stores put a state for a lifetime and take it once. An operation is given the time; the
  memory store drops expired entries on every call, Redis when their time is over.
\<close>

type_synonym mem_states = "(string, sso_state) gomap"

definition default_sso_ttl :: duration where "default_sso_ttl = 10 * minute"

definition state_expired :: "gotime \<Rightarrow> sso_state \<Rightarrow> bool" where
  "state_expired now v \<longleftrightarrow> (case sx_expires_at v of None \<Rightarrow> False | Some e \<Rightarrow> e < now)"

definition purge_states :: "gotime \<Rightarrow> mem_states \<Rightarrow> mem_states" where
  "purge_states now m = filter (\<lambda>(_, v). \<not> state_expired now v) m"

definition fix_expiry :: "duration \<Rightarrow> gotime \<Rightarrow> sso_state \<Rightarrow> sso_state" where
  "fix_expiry ttl now v = (if sx_expires_at v = None then v\<lparr>sx_expires_at := Some (now + ttl)\<rparr> else v)"

text \<open>The lifetime a store is made with; none, or a negative one, is ten minutes.\<close>

definition state_ttl :: "duration \<Rightarrow> duration" where
  "state_ttl ttl = (if ttl \<le> 0 then default_sso_ttl else ttl)"

definition mem_state_put :: "duration \<Rightarrow> gotime \<Rightarrow> string \<Rightarrow> sso_state \<Rightarrow> mem_states \<Rightarrow> unit res \<times> mem_states" where
  "mem_state_put ttl now k v m = (Inr (), gm_put k (fix_expiry (state_ttl ttl) now v) (purge_states now m))"

definition mem_state_take :: "gotime \<Rightarrow> string \<Rightarrow> mem_states \<Rightarrow> sso_state res \<times> mem_states" where
  "mem_state_take now k m0 =
     (let m = purge_states now m0 in
      case gm_get m k of
        None \<Rightarrow> (Inl (sentinel ErrNotFound), m)
      | Some v \<Rightarrow> (if state_expired now v then Inl (sentinel ErrNotFound) else Inr v, gm_del k m))"

text \<open>A Redis key with its value and the time it expires.\<close>

type_synonym redis_states = "(string, sso_state \<times> gotime) gomap"

definition sso_key :: "string \<Rightarrow> string" where "sso_key k = ''afi:sso:state:'' @ k"

definition redis_state_put :: "duration \<Rightarrow> gotime \<Rightarrow> string \<Rightarrow> sso_state \<Rightarrow> redis_states \<Rightarrow> unit res \<times> redis_states" where
  "redis_state_put store_ttl now k v0 m =
     (if k = [] then (Inl (sentinel ErrInvalidRequest), m)
      else let v = fix_expiry (state_ttl store_ttl) now v0; ttl0 = the (sx_expires_at v) - now; ttl = (if ttl0 \<le> 0 then state_ttl store_ttl else ttl0)
        in (Inr (), gm_put (sso_key k) (v, now + ttl) m))"

definition redis_state_take :: "gotime \<Rightarrow> string \<Rightarrow> redis_states \<Rightarrow> sso_state res \<times> redis_states" where
  "redis_state_take now k m =
     (if k = [] then (Inl (sentinel ErrNotFound), m)
      else (case gm_get m (sso_key k) of
          None \<Rightarrow> (Inl (sentinel ErrNotFound), m)
        | Some (v, expires) \<Rightarrow>
            (if expires \<le> now \<or> state_expired now v then Inl (sentinel ErrNotFound) else Inr v, gm_del (sso_key k) m)))"

section \<open>Single sign-on\<close>

text \<open>Only relative paths of the application: no scheme, no \<^verbatim>\<open>//\<close>, no backslash.\<close>

definition sanitize_return_to :: "string \<Rightarrow> string" where
  "sanitize_return_to s0 =
     (let s = trim_space s0 in
      if s = [] then []
      else if \<not> has_prefix s ''/'' \<or> has_prefix s ''//'' then []
      else if CHR 0x5C \<in> set s then []
      else s)"

text \<open>\<^verbatim>\<open>url.PathEscape\<close>: what may not stand in a path segment becomes \<^verbatim>\<open>%XX\<close>.\<close>

definition upper_hex :: "nat \<Rightarrow> char" where
  "upper_hex n = (if n < 10 then char_of (48 + n) else char_of (55 + n))"

definition in_segment :: "char \<Rightarrow> bool" where
  "in_segment c \<longleftrightarrow> (let n = of_char c :: nat in
     (48 \<le> n \<and> n \<le> 57) \<or> (65 \<le> n \<and> n \<le> 90) \<or> (97 \<le> n \<and> n \<le> 122) \<or> c \<in> set ''-_.~$&+:=@'')"

definition path_escape :: "string \<Rightarrow> string" where
  "path_escape s = concat (map (\<lambda>c. if in_segment c then [c]
     else [CHR ''%'', upper_hex (of_char c div 16), upper_hex (of_char c mod 16)]) s)"

definition sso_callback_url :: "string \<Rightarrow> string \<Rightarrow> string" where
  "sso_callback_url base provider =
     trim_right_slashes base @ ''/api/v1/platform/auth/sso/'' @ path_escape provider @ ''/callback''"

definition auth_begin_sso ::
  "(gotime \<Rightarrow> string \<Rightarrow> sso_state \<Rightarrow> 's \<Rightarrow> unit res \<times> 's) \<Rightarrow> auth_service \<Rightarrow> gotime \<Rightarrow> string \<Rightarrow>
   string \<Rightarrow> string \<Rightarrow> 's \<Rightarrow> string res \<times> 's" where
  "auth_begin_sso put a now rnd provider return_to states =
     (if \<not> sv_sso_enabled a then (Inl ErrSSODisabled, states)
      else (case gm_get (sv_providers a) provider of
          None \<Rightarrow> (Inl ErrUnknownProvider, states)
        | Some p \<Rightarrow>
            if sv_public_base_url a = [] then (Inl (Err ErrOther ''auth public_base_url not configured''), states)
            else (case fp_auth_url p rnd (sso_callback_url (sv_public_base_url a) provider) of
                Inl e \<Rightarrow> (Inl e, states)
              | Inr (url, request_id) \<Rightarrow>
                  (case put now rnd \<lparr>sx_provider = provider, sx_return_to = sanitize_return_to return_to,
                        sx_request_id = request_id, sx_expires_at = Some (now + default_sso_ttl)\<rparr> states of
                     (Inl e, states') \<Rightarrow> (Inl e, states')
                   | (Inr _, states') \<Rightarrow> (Inr url, states')))))"

text \<open>
  The request identifiers an assertion may answer; the empty one admits an assertion nobody asked for.
\<close>

definition sso_request_ids :: "sso_provider \<Rightarrow> sso_state \<Rightarrow> string list" where
  "sso_request_ids p st =
     (if \<not> fp_asserts p then [] else (if sx_request_id st \<noteq> [] then [sx_request_id st] else []) @ [[]])"

text \<open>The sign-on of a returning browser: the state is taken before anything is exchanged.\<close>

definition auth_complete_sso ::
  "(gotime \<Rightarrow> string \<Rightarrow> 's \<Rightarrow> sso_state res \<times> 's) \<Rightarrow> auth_service \<Rightarrow> gotime \<Rightarrow> string \<Rightarrow> string \<Rightarrow>
   string \<Rightarrow> string \<Rightarrow> string \<Rightarrow> auth_db \<times> 's \<Rightarrow> (string \<times> string) res \<times> auth_db \<times> 's" where
  "auth_complete_sso tk a now new_user_id new_link_id provider code state ds =
     (case ds of (db, states) \<Rightarrow>
      if \<not> sv_sso_enabled a then (Inl ErrSSODisabled, ds)
      else (case gm_get (sv_providers a) provider of
          None \<Rightarrow> (Inl ErrUnknownProvider, ds)
        | Some p \<Rightarrow>
            if code = [] \<or> state = [] then (Inl (sentinel ErrInvalidRequest), ds)
            else (case tk now state states of
                (Inl e, states') \<Rightarrow> (Inl (if err_is e ErrNotFound then ErrInvalidSSOState else e), db, states')
              | (Inr st, states') \<Rightarrow>
                  if sx_provider st \<noteq> provider then (Inl ErrInvalidSSOState, db, states')
                  else
                    (case fp_exchange p code (sso_callback_url (sv_public_base_url a) provider) (sso_request_ids p st) of
                       Inl e \<Rightarrow> (Inl e, db, states')
                     | Inr claims \<Rightarrow>
                         (case resolve_or_provision_user now new_user_id new_link_id (claims\<lparr>fc_provider := provider\<rparr>) db of
                            (Inl e, db') \<Rightarrow> (Inl e, db', states')
                          | (Inr u, db') \<Rightarrow>
                              (case issue_for a u of
                                 Inl e \<Rightarrow> (Inl e, db', states')
                               | Inr tok \<Rightarrow> (Inr (tok, sx_return_to st), db', states')))))))"

text \<open>What the login page may offer.\<close>

definition auth_list_providers :: "auth_service \<Rightarrow> (string \<times> string \<times> string) list" where
  "auth_list_providers a =
     (if \<not> sv_sso_enabled a then []
      else stable_sort (\<lambda>x y. fst x < fst y)
        (map (\<lambda>(_, p). (fp_name p, fp_display_name p, fp_type p)) (sv_providers a)))"

text \<open>The page of the application a sign-on returns to, and its query parameters.\<close>

definition app_sso_callback :: "auth_service \<Rightarrow> string \<Rightarrow> string \<Rightarrow> string \<Rightarrow> string \<times> (string \<times> string) list" where
  "app_sso_callback a token return_to msg =
     (let base0 = trim_right_slashes (sv_app_base_url a); base = (if base0 = [] then ''http://localhost:3000'' else base0) in
      (base @ ''/auth/sso/callback'',
       if msg \<noteq> [] then [(''error'', msg)]
       else (if return_to \<noteq> [] then [(''redirect'', return_to)] else []) @ [(''token'', token)]))"

section \<open>Handlers\<close>

text \<open>
  The handlers of \<^verbatim>\<open>src/internal/controlplane/http_auth.go\<close>, for a configured service. A request
  body that is no JSON is \<open>None\<close>.
\<close>

definition handle_login :: "auth_service \<Rightarrow> auth_db \<Rightarrow> (string \<times> string) option \<Rightarrow> string reply" where
  "handle_login a db body =
     (case body of None \<Rightarrow> Failed StatusBadRequest ''invalid json''
      | Some (email, password) \<Rightarrow>
          (case auth_login a db email password of
             Inr tok \<Rightarrow> Reply StatusOK tok
           | Inl e \<Rightarrow> (if e = ErrInvalidCredentials then Failed StatusUnauthorized ''invalid credentials'' else internal_error e)))"

definition handle_register ::
  "auth_service \<Rightarrow> string \<Rightarrow> (string \<times> string \<times> string) option \<Rightarrow> auth_db \<Rightarrow> (string \<times> user_row) reply \<times> auth_db" where
  "handle_register a new_id body db =
     (case body of None \<Rightarrow> (Failed StatusBadRequest ''invalid json'', db)
      | Some (email, name, password) \<Rightarrow>
          (case auth_register a new_id email name password db of
             (Inr r, db') \<Rightarrow> (Reply StatusCreated r, db')
           | (Inl e, db') \<Rightarrow>
               (if e = ErrSignupDisabled then Failed StatusForbidden ''signup disabled''
                else if err_is e ErrConflict then Failed StatusConflict ''email already registered''
                else if err_is e ErrInvalidRequest then Failed StatusBadRequest ''invalid request''
                else internal_error e, db')))"

text \<open>The answer tells nothing of the account; the mail, when there is one, is the second result.\<close>

definition handle_request_reset ::
  "auth_service \<Rightarrow> gotime \<Rightarrow> string \<Rightarrow> string \<Rightarrow> string option \<Rightarrow> auth_db \<Rightarrow> (bool reply \<times> (string \<times> string) option) \<times> auth_db" where
  "handle_request_reset a now raw new_id body db =
     (case body of None \<Rightarrow> ((Failed StatusBadRequest ''invalid json'', None), db)
      | Some email \<Rightarrow>
          (case auth_request_reset a now raw new_id email db of
             (Inl e, db') \<Rightarrow> ((internal_error e, None), db')
           | (Inr tok, db') \<Rightarrow> ((Reply StatusOK True, if tok \<noteq> [] \<and> user_email email \<noteq> [] then Some (user_email email, tok) else None), db')))"

definition handle_confirm_reset ::
  "auth_service \<Rightarrow> gotime \<Rightarrow> string \<Rightarrow> string option \<Rightarrow> auth_db \<Rightarrow> (string \<times> user_row) reply \<times> auth_db" where
  "handle_confirm_reset a now raw body db =
     (case body of None \<Rightarrow> (Failed StatusBadRequest ''invalid json'', db)
      | Some password \<Rightarrow>
          (case auth_confirm_reset a now raw password db of
             (Inr r, db') \<Rightarrow> (Reply StatusOK r, db')
           | (Inl e, db') \<Rightarrow>
               (if e = ErrInvalidResetToken then Failed StatusBadRequest ''invalid or expired reset token''
                else if err_is e ErrInvalidRequest then Failed StatusBadRequest ''invalid request''
                else internal_error e, db')))"


definition map_sso_error :: "err \<Rightarrow> nat \<times> string" where
  "map_sso_error e =
     (if e = ErrSSODisabled then (StatusNotFound, ''sso disabled'')
      else if e = ErrUnknownProvider then (StatusNotFound, ''unknown sso provider'')
      else if e = ErrInvalidSSOState then (StatusBadRequest, ''invalid or expired sso state'')
      else if e = ErrEmailNotVerified then (StatusUnauthorized, ''email not verified'')
      else if e = ErrMissingFederatedEmail then (StatusUnauthorized, ''federated email required'')
      else if e = ErrMissingFederatedSubject then (StatusUnauthorized, ''federated subject required'')
      else if err_is e ErrInvalidRequest then (StatusBadRequest, ''invalid request'')
      else (StatusBadGateway, err_msg e))"

definition handle_sso_start ::
  "(gotime \<Rightarrow> string \<Rightarrow> sso_state \<Rightarrow> 's \<Rightarrow> unit res \<times> 's) \<Rightarrow> auth_service \<Rightarrow> gotime \<Rightarrow> string \<Rightarrow> string \<Rightarrow> string \<Rightarrow> 's \<Rightarrow>
   string reply \<times> 's" where
  "handle_sso_start put a now rnd provider return_to states =
     (case auth_begin_sso put a now rnd provider return_to states of
        (Inr url, states') \<Rightarrow> (Reply 302 url, states')
      | (Inl e, states') \<Rightarrow> (case map_sso_error e of (st, msg) \<Rightarrow> (Failed st msg, states')))"

text \<open>The callback of OAuth and OIDC: an error of the provider is shown, nothing is exchanged.\<close>

definition handle_sso_callback ::
  "(gotime \<Rightarrow> string \<Rightarrow> 's \<Rightarrow> sso_state res \<times> 's) \<Rightarrow> auth_service \<Rightarrow> gotime \<Rightarrow> string \<Rightarrow> string \<Rightarrow> string \<Rightarrow> string \<Rightarrow> string \<Rightarrow>
   string \<Rightarrow> string \<Rightarrow> auth_db \<times> 's \<Rightarrow> (string \<times> (string \<times> string) list) \<times> auth_db \<times> 's" where
  "handle_sso_callback tk a now new_user_id new_link_id provider code state idp_error idp_desc ds =
     (if idp_error \<noteq> [] then (app_sso_callback a [] [] (if idp_desc = [] then idp_error else idp_desc), ds)
      else (case auth_complete_sso tk a now new_user_id new_link_id provider code state ds of
          (Inl e, ds') \<Rightarrow> (app_sso_callback a [] [] (snd (map_sso_error e)), ds')
        | (Inr (tok, ret), ds') \<Rightarrow> (app_sso_callback a tok ret [], ds')))"

text \<open>The SAML assertion consumer: the posted response is the code, the relay state the state.\<close>

definition handle_sso_acs ::
  "(gotime \<Rightarrow> string \<Rightarrow> 's \<Rightarrow> sso_state res \<times> 's) \<Rightarrow> auth_service \<Rightarrow> gotime \<Rightarrow> string \<Rightarrow> string \<Rightarrow> string \<Rightarrow> (string \<times> string) option \<Rightarrow>
   auth_db \<times> 's \<Rightarrow> (string \<times> (string \<times> string) list) \<times> auth_db \<times> 's" where
  "handle_sso_acs tk a now new_user_id new_link_id provider form ds =
     (case form of None \<Rightarrow> (app_sso_callback a [] [] ''invalid saml form'', ds)
      | Some (response, relay) \<Rightarrow>
          (case auth_complete_sso tk a now new_user_id new_link_id provider response relay ds of
             (Inl e, ds') \<Rightarrow> (app_sso_callback a [] [] (snd (map_sso_error e)), ds')
           | (Inr (tok, ret), ds') \<Rightarrow> (app_sso_callback a tok ret [], ds')))"

end
