(* ===== verification/Accounts_Laws.thy ===== *)
theory Accounts_Laws
  imports Accounts
begin

text \<open>
  What the accounts promise: the tables stay well formed, a reset token sets a password once, at most
  one reset token of a user is live, a sign-on is backed by a state of this provider that is used up
  and by a linked subject or a verified address. The stores of sign-on states are a locale, which
  the memory store and the Redis store interpret. Two theorems state what is not guarded: two
  confirmations of one token running together, and a password of an address nobody verified.
\<close>

section \<open>Steps and the invariant\<close>

inductive auth_step :: "auth_service \<Rightarrow> auth_db \<Rightarrow> auth_db \<Rightarrow> bool" for a where
  step_register: "auth_step a db (snd (auth_register a i email name pw db))"
| step_request: "auth_step a db (snd (auth_request_reset a now raw i email db))"
| step_confirm: "auth_step a db (snd (auth_confirm_reset a now raw pw db))"
| step_provision: "auth_step a db (snd (resolve_or_provision_user now uid lid claims db))"

definition auth_reach :: "auth_service \<Rightarrow> auth_db \<Rightarrow> auth_db \<Rightarrow> bool" where
  "auth_reach a = (auth_step a)\<^sup>*\<^sup>*"

definition user_rows :: "auth_db \<Rightarrow> (string, user_row) gomap" where
  "user_rows db = db_users (au_tenancy db)"

definition live_user :: "reset_token \<Rightarrow> string option" where
  "live_user t = (if rk_used_at t = None then Some (rk_user_id t) else None)"

definition users_ok :: "(string, user_row) gomap \<Rightarrow> bool" where
  "users_ok m \<longleftrightarrow> keyed_by ur_id m \<and> unique_on (\<lambda>u. Some (ur_email u)) m"

definition links_ok :: "(string, user_row) gomap \<Rightarrow> (string, external_identity) gomap \<Rightarrow> bool" where
  "links_ok us m \<longleftrightarrow> keyed_by xi_id m \<and> unique_on (\<lambda>x. Some (xi_provider x, xi_subject x)) m \<and>
     (\<forall>i x. gm_get m i = Some x \<longrightarrow> gm_get us (xi_user_id x) \<noteq> None)"

definition resets_ok :: "(string, reset_token) gomap \<Rightarrow> bool" where
  "resets_ok m \<longleftrightarrow> keyed_by rk_id m \<and> unique_on (\<lambda>t. Some (rk_token_hash t)) m \<and> unique_on live_user m"

definition accounts_ok :: "auth_db \<Rightarrow> bool" where
  "accounts_ok db \<longleftrightarrow> users_ok (user_rows db) \<and> links_ok (user_rows db) (au_links db) \<and> resets_ok (au_resets db)"

text \<open>The token of a hash has been used.\<close>

definition spent_in :: "string \<Rightarrow> (string, reset_token) gomap \<Rightarrow> bool" where
  "spent_in h m \<longleftrightarrow> (\<exists>i t. gm_get m i = Some t \<and> rk_token_hash t = h \<and> rk_used_at t \<noteq> None)"

definition spent_hash :: "string \<Rightarrow> auth_db \<Rightarrow> bool" where
  "spent_hash h db \<longleftrightarrow> spent_in h (au_resets db)"

section \<open>Writes to the tables\<close>

lemma links_ok_users: "links_ok us m \<Longrightarrow> (\<And>i. gm_get us i \<noteq> None \<Longrightarrow> gm_get us' i \<noteq> None) \<Longrightarrow> links_ok us' m"
  unfolding links_ok_def by blast

lemma user_create_cases:
  assumes "user_create u db = (r, db')"
  obtains "db' = db" "r \<noteq> Inr ()"
  | "r = Inr ()" "au_links db' = au_links db" "au_resets db' = au_resets db"
    "user_rows db' = gm_put (ur_id u) u (user_rows db)" "gm_get (user_rows db) (ur_id u) = None"
    "\<forall>v\<in>snd ` set (user_rows db). ur_email v \<noteq> ur_email u"
  using assms by (auto simp: user_create_def users_create_def user_rows_def split: if_splits)

lemma user_create_ok: "accounts_ok db \<Longrightarrow> user_create u db = (r, db') \<Longrightarrow> accounts_ok db'"
proof (elim user_create_cases)
  assume ok: "accounts_ok db" and new: "user_rows db' = gm_put (ur_id u) u (user_rows db)"
    "\<forall>v\<in>snd ` set (user_rows db). ur_email v \<noteq> ur_email u"
    and same: "au_links db' = au_links db" "au_resets db' = au_resets db"
  have "users_ok (user_rows db')"
    using ok new(2) unfolding accounts_ok_def users_ok_def new(1)
    by (auto intro!: keyed_by_put unique_on_put dest: gm_value)
  moreover have "links_ok (user_rows db') (au_links db')"
    unfolding same(1) by (rule links_ok_users [of "user_rows db"]) (use ok in \<open>auto simp: accounts_ok_def new(1)\<close>)
  ultimately show ?thesis using ok by (simp add: accounts_ok_def same)
qed simp

lemma link_create_cases:
  assumes "link_create x db = (r, db')"
  obtains "db' = db" "r \<noteq> Inr ()"
  | "r = Inr ()" "db' = db\<lparr>au_links := gm_put (xi_id x) x (au_links db)\<rparr>" "gm_get (user_rows db) (xi_user_id x) \<noteq> None"
    "\<forall>y\<in>snd ` set (au_links db). (xi_provider y, xi_subject y) \<noteq> (xi_provider x, xi_subject x)"
  using assms by (auto simp: link_create_def user_rows_def split: if_splits)

lemma link_create_ok: "accounts_ok db \<Longrightarrow> link_create x db = (r, db') \<Longrightarrow> accounts_ok db'"
proof (elim link_create_cases)
  assume ok: "accounts_ok db" and db': "db' = db\<lparr>au_links := gm_put (xi_id x) x (au_links db)\<rparr>"
    and user: "gm_get (user_rows db) (xi_user_id x) \<noteq> None"
    and new: "\<forall>y\<in>snd ` set (au_links db). (xi_provider y, xi_subject y) \<noteq> (xi_provider x, xi_subject x)"
  have l: "links_ok (user_rows db) (au_links db)" using ok by (simp add: accounts_ok_def)
  have "links_ok (user_rows db) (gm_put (xi_id x) x (au_links db))"
    using l user new unfolding links_ok_def gm_get_put
    by (auto intro!: keyed_by_put unique_on_put dest: gm_value split: if_splits)
  then show ?thesis using ok by (simp add: accounts_ok_def db' user_rows_def)
qed simp

lemma user_update_password_ok: "accounts_ok db \<Longrightarrow> user_update_password i h db = (r, db') \<Longrightarrow> accounts_ok db'"
proof (cases "gm_get (user_rows db) i")
  case (Some u)
  assume ok: "accounts_ok db" and upd: "user_update_password i h db = (r, db')"
  have rows: "user_rows db' = gm_put i (u\<lparr>ur_password_hash := h\<rparr>) (user_rows db)"
    and same: "au_links db' = au_links db" "au_resets db' = au_resets db"
    using Some upd by (auto simp: user_update_password_def user_rows_def)
  have "users_ok (user_rows db')"
    using ok Some unfolding accounts_ok_def users_ok_def rows
    by (auto intro!: keyed_by_put intro: unique_on_update) (simp add: keyed_by_def)
  moreover have "links_ok (user_rows db') (au_links db')"
    unfolding same(1) by (rule links_ok_users [of "user_rows db"]) (use ok in \<open>auto simp: accounts_ok_def rows\<close>)
  ultimately show ?thesis using ok by (simp add: accounts_ok_def same)
qed (simp add: user_update_password_def user_rows_def)

lemma reset_consume_cases:
  assumes "reset_consume i t db = (r, db')"
  obtains "db' = db" "r \<noteq> Inr ()"
  | k where "r = Inr ()" "gm_get (au_resets db) i = Some k" "rk_used_at k = None"
    "db' = db\<lparr>au_resets := gm_put i (k\<lparr>rk_used_at := Some t\<rparr>) (au_resets db)\<rparr>"
  using assms by (auto simp: reset_consume_def split: option.splits if_splits)

lemma reset_consume_ok: "accounts_ok db \<Longrightarrow> reset_consume i t db = (r, db') \<Longrightarrow> accounts_ok db'"
proof (elim reset_consume_cases)
  fix k
  assume ok: "accounts_ok db" and k: "gm_get (au_resets db) i = Some k" "rk_used_at k = None"
    and db': "db' = db\<lparr>au_resets := gm_put i (k\<lparr>rk_used_at := Some t\<rparr>) (au_resets db)\<rparr>"
  have "resets_ok (gm_put i (k\<lparr>rk_used_at := Some t\<rparr>) (au_resets db))"
    using ok k unfolding accounts_ok_def resets_ok_def
    by (auto intro!: keyed_by_put elim!: unique_on_update simp: live_user_def) (simp add: keyed_by_def)
  then show ?thesis using ok by (simp add: accounts_ok_def db' user_rows_def)
qed simp

text \<open>Requesting: the unused tokens of the user go before the new one comes.\<close>

lemma reset_delete_unused_ok: "accounts_ok db \<Longrightarrow> reset_delete_unused u db = (r, db') \<Longrightarrow> accounts_ok db'"
  unfolding reset_delete_unused_def accounts_ok_def resets_ok_def
  by (auto simp: user_rows_def intro!: keyed_by_filter unique_on_filter) (simp_all add: keyed_by_def)

lemma delete_unused_clears:
  assumes "accounts_ok db" "reset_delete_unused u db = (r, db')" "gm_get (au_resets db') i = Some t" "rk_user_id t = u"
  shows "rk_used_at t \<noteq> None"
proof -
  have "gm_wf (au_resets db)" using assms(1) by (simp add: accounts_ok_def resets_ok_def keyed_by_def)
  from gm_get_filter [OF this] show ?thesis using assms(2-4) by (auto simp: reset_delete_unused_def)
qed

lemma reset_create_cases:
  assumes "reset_create k db = (r, db')"
  obtains "db' = db" "r \<noteq> Inr ()"
  | "r = Inr ()" "db' = db\<lparr>au_resets := gm_put (rk_id k) k (au_resets db)\<rparr>" "gm_get (au_resets db) (rk_id k) = None"
    "\<forall>x\<in>snd ` set (au_resets db). rk_token_hash x \<noteq> rk_token_hash k"
  using assms by (auto simp: reset_create_def split: if_splits)

lemma reset_create_ok:
  assumes ok: "accounts_ok db"
    and none: "\<And>i t. gm_get (au_resets db) i = Some t \<Longrightarrow> rk_user_id t = rk_user_id k \<Longrightarrow> rk_used_at t \<noteq> None"
    and "reset_create k db = (r, db')"
  shows "accounts_ok db'"
  using assms(3)
proof (cases rule: reset_create_cases)
  case 2
  have "resets_ok (gm_put (rk_id k) k (au_resets db))"
    using ok 2(4) unfolding accounts_ok_def resets_ok_def
    by (auto intro!: keyed_by_put unique_on_put dest: gm_value none simp: live_user_def split: if_splits)
  then show ?thesis using ok by (simp add: accounts_ok_def 2(2) user_rows_def)
qed (simp add: ok)

section \<open>The invariant\<close>

lemma table_writes_ok:
  "accounts_ok db \<Longrightarrow> accounts_ok (snd (user_create u db))"
  "accounts_ok db \<Longrightarrow> accounts_ok (snd (link_create x db))"
  "accounts_ok db \<Longrightarrow> accounts_ok (snd (user_update_password i h db))"
  "accounts_ok db \<Longrightarrow> accounts_ok (snd (reset_consume i now db))"
  by (metis prod.collapse user_create_ok link_create_ok user_update_password_ok reset_consume_ok)+

lemmas ok_keeps = db_check_keeps [where P = accounts_ok] db_bind_keeps [where P = accounts_ok] table_writes_ok

lemma register_ok: "accounts_ok db \<Longrightarrow> accounts_ok (snd (auth_register a i email name pw db))"
  unfolding auth_register_def Let_def by (auto split: sum.splits intro!: ok_keeps)

lemma provision_ok: "accounts_ok db \<Longrightarrow> accounts_ok (snd (resolve_or_provision_user now uid lid claims db))"
  unfolding resolve_or_provision_user_def Let_def by (auto split: sum.splits intro!: ok_keeps)

lemma confirm_write_ok: "accounts_ok db \<Longrightarrow> accounts_ok (snd (confirm_reset_write a now t h db))"
  unfolding confirm_reset_write_def by (auto intro!: ok_keeps)

lemma confirm_ok: "accounts_ok db \<Longrightarrow> accounts_ok (snd (auth_confirm_reset a now raw pw db))"
  unfolding auth_confirm_reset_def by (auto intro!: ok_keeps confirm_write_ok)

lemma replace_reset_ok:
  assumes "accounts_ok db" "rk_user_id k = u"
  shows "accounts_ok (snd (db_bind (reset_delete_unused u) (\<lambda>_. db_bind (reset_create k) (\<lambda>_ db. (Inr raw, db))) db))"
proof -
  obtain r db1 where del: "reset_delete_unused u db = (r, db1)" by force
  have ok1: "accounts_ok db1" by (rule reset_delete_unused_ok [OF assms(1) del])
  have "accounts_ok (snd (reset_create k db1))"
    using reset_create_ok [OF ok1] delete_unused_clears [OF assms(1) del] assms(2) by (metis prod.collapse)
  then show ?thesis using ok1 by (auto simp: db_bind_def del split: sum.splits prod.splits)
qed

lemma request_ok: "accounts_ok db \<Longrightarrow> accounts_ok (snd (auth_request_reset a now raw i email db))"
  unfolding auth_request_reset_def Let_def by (auto split: sum.splits intro!: replace_reset_ok)

lemma auth_step_ok: "auth_step a db db' \<Longrightarrow> accounts_ok db \<Longrightarrow> accounts_ok db'"
  by (induction rule: auth_step.induct) (auto intro: register_ok request_ok confirm_ok provision_ok)

text \<open>
  C33: Whatever sequence of registrations, reset requests, confirmations and sign-ons runs, the
  account tables stay well formed: users have unique addresses, a subject of an identity provider
  is linked to one existing user, reset tokens have unique hashes, and a user has at most one
  reset token that is not used.
\<close>
theorem accounts_well_formed:
  assumes "auth_reach a db db'" "accounts_ok db"
  shows "accounts_ok db'"
  using assms unfolding auth_reach_def by (induction rule: rtranclp_induct) (auto intro: auth_step_ok)

section \<open>Reset tokens\<close>

lemma reset_by_hash_Inr:
  assumes "resets_ok (au_resets db)" "gm_get (au_resets db) i = Some t"
  shows "reset_by_hash db (rk_token_hash t) = Inr t"
proof -
  obtain u where u: "find (\<lambda>u. rk_token_hash u = rk_token_hash t) (map snd (au_resets db)) = Some u"
    using find_exists [of t "map snd (au_resets db)" "\<lambda>u. rk_token_hash u = rk_token_hash t"] gm_value [OF assms(2)]
    by auto
  have "gm_wf (au_resets db)" using assms(1) by (simp add: resets_ok_def keyed_by_def)
  from find_row [OF u this] obtain j where j: "gm_get (au_resets db) j = Some u" and h: "rk_token_hash u = rk_token_hash t"
    by blast
  have "unique_on (\<lambda>t. Some (rk_token_hash t)) (au_resets db)" using assms(1) by (simp add: resets_ok_def)
  from unique_onD [OF this j assms(2)] h have "j = i" by simp
  then have "u = t" using j assms(2) by simp
  then show ?thesis by (simp add: reset_by_hash_def u)
qed

text \<open>A used token keeps its row.\<close>

lemma spent_inI: "gm_get m i = Some t \<Longrightarrow> rk_token_hash t = h \<Longrightarrow> rk_used_at t \<noteq> None \<Longrightarrow> spent_in h m"
  unfolding spent_in_def by blast

lemma spent_in_put:
  assumes "spent_in h m" "\<And>t. gm_get m i = Some t \<Longrightarrow> rk_token_hash t = h \<Longrightarrow> rk_used_at t \<noteq> None \<Longrightarrow> rk_token_hash k = h \<and> rk_used_at k \<noteq> None"
  shows "spent_in h (gm_put i k m)"
proof -
  obtain j t where t: "gm_get m j = Some t" "rk_token_hash t = h" "rk_used_at t \<noteq> None"
    using assms(1) by (auto simp: spent_in_def)
  show ?thesis
    by (rule spent_inI [of _ j "if j = i then k else t"]) (use t assms(2) in auto)
qed

lemma spent_in_filter: "gm_wf m \<Longrightarrow> spent_in h m \<Longrightarrow> spent_in h (filter (\<lambda>(_, t). \<not> (rk_user_id t = u \<and> rk_used_at t = None)) m)"
proof -
  assume wf: "gm_wf m" and "spent_in h m"
  then obtain i t where t: "gm_get m i = Some t" "rk_token_hash t = h" "rk_used_at t \<noteq> None"
    by (auto simp: spent_in_def)
  show ?thesis
    by (rule spent_inI [of _ i t]) (use t gm_get_filter [OF wf] in simp_all)
qed

lemma spent_writes:
  "spent_hash h db \<Longrightarrow> user_create u db = (r, db') \<Longrightarrow> spent_hash h db'"
  "spent_hash h db \<Longrightarrow> link_create x db = (r1, db') \<Longrightarrow> spent_hash h db'"
  "spent_hash h db \<Longrightarrow> user_update_password i p db = (r, db') \<Longrightarrow> spent_hash h db'"
  by (auto simp: spent_hash_def user_update_password_def split: option.splits elim!: user_create_cases link_create_cases)

lemma spent_consume: "spent_hash h db \<Longrightarrow> reset_consume i t db = (r, db') \<Longrightarrow> spent_hash h db'"
  by (elim reset_consume_cases) (auto simp: spent_hash_def intro: spent_in_put)

lemma spent_create: "spent_hash h db \<Longrightarrow> reset_create k db = (r, db') \<Longrightarrow> spent_hash h db'"
  by (elim reset_create_cases) (auto simp: spent_hash_def intro: spent_in_put)

lemma spent_delete_unused:
  "gm_wf (au_resets db) \<Longrightarrow> spent_hash h db \<Longrightarrow> reset_delete_unused u db = (r, db') \<Longrightarrow> spent_hash h db'"
  by (auto simp: spent_hash_def reset_delete_unused_def simp del: de_Morgan_conj intro: spent_in_filter)

lemma spent_writes_snd:
  "spent_hash h db \<Longrightarrow> spent_hash h (snd (user_create u db))"
  "spent_hash h db \<Longrightarrow> spent_hash h (snd (link_create x db))"
  "spent_hash h db \<Longrightarrow> spent_hash h (snd (user_update_password i p db))"
  "spent_hash h db \<Longrightarrow> spent_hash h (snd (reset_consume i now db))"
  "spent_hash h db \<Longrightarrow> spent_hash h (snd (reset_create k db))"
  by (metis prod.collapse spent_writes spent_consume spent_create)+

lemmas spent_keeps = db_check_keeps [where P = "spent_hash h" for h] db_bind_keeps [where P = "spent_hash h" for h] spent_writes_snd

lemma spent_register: "spent_hash h db \<Longrightarrow> spent_hash h (snd (auth_register a i email name pw db))"
  unfolding auth_register_def Let_def by (auto split: sum.splits intro!: spent_keeps)

lemma spent_provision: "spent_hash h db \<Longrightarrow> spent_hash h (snd (resolve_or_provision_user now uid lid claims db))"
  unfolding resolve_or_provision_user_def Let_def by (auto split: sum.splits intro!: spent_keeps)

lemma spent_confirm: "spent_hash h db \<Longrightarrow> spent_hash h (snd (auth_confirm_reset a now raw pw db))"
  unfolding auth_confirm_reset_def confirm_reset_write_def by (auto intro!: spent_keeps)

lemma spent_request:
  assumes "gm_wf (au_resets db)" "spent_hash h db"
  shows "spent_hash h (snd (auth_request_reset a now raw i email db))"
proof -
  have "spent_hash h (snd (reset_delete_unused u db))" for u
    using spent_delete_unused [OF assms] by (metis prod.collapse)
  then show ?thesis
    using assms(2) unfolding auth_request_reset_def Let_def by (auto split: sum.splits intro!: spent_keeps)
qed

lemma auth_step_spent:
  assumes "auth_step a db db'" "accounts_ok db" "spent_hash h db"
  shows "spent_hash h db'"
proof -
  have "gm_wf (au_resets db)" using assms(2) by (simp add: accounts_ok_def resets_ok_def keyed_by_def)
  then show ?thesis
    using assms(1,3) by (elim auth_step.cases) (simp_all add: spent_register spent_provision spent_confirm spent_request)
qed

lemma spent_reach:
  assumes "auth_reach a db db'" "accounts_ok db" "spent_hash h db"
  shows "accounts_ok db' \<and> spent_hash h db'"
  using assms unfolding auth_reach_def
  by (induction rule: rtranclp_induct) (blast intro: auth_step_ok auth_step_spent)+

lemma spent_confirm_refused:
  assumes ok: "accounts_ok db" and spent: "spent_hash (hash_opaque_token (sv_sha a) (trim_space raw)) db"
    and "trim_space raw \<noteq> []" "8 \<le> length pw"
  shows "auth_confirm_reset a now raw pw db = (Inl ErrInvalidResetToken, db)"
proof -
  obtain i t where t: "gm_get (au_resets db) i = Some t" "rk_used_at t \<noteq> None"
    and h: "rk_token_hash t = hash_opaque_token (sv_sha a) (trim_space raw)"
    using spent by (auto simp: spent_hash_def spent_in_def)
  have "reset_by_hash db (hash_opaque_token (sv_sha a) (trim_space raw)) = Inr t"
    using reset_by_hash_Inr [OF _ t(1)] ok unfolding h by (simp add: accounts_ok_def)
  then show ?thesis
    using assms(3,4) t(2) by (simp add: auth_confirm_reset_def confirm_reset_check_def db_check_def)
qed

lemma confirm_check_Inr:
  assumes "confirm_reset_check a now raw pw db = Inr (t, h)"
  shows "trim_space raw \<noteq> []" "8 \<le> length pw" "rk_used_at t = None" "now < rk_expires_at t"
    "reset_by_hash db (hash_opaque_token (sv_sha a) (trim_space raw)) = Inr t" "sv_hash_password a pw = Inr h"
  using assms by (auto simp: confirm_reset_check_def Let_def split: if_splits sum.splits)

lemma confirm_write_Inr:
  assumes "confirm_reset_write a now t h db = (Inr (tok, u), db')"
  shows "\<exists>k. gm_get (au_resets db) (rk_id t) = Some k \<and> rk_used_at k = None \<and>
    gm_get (au_resets db') (rk_id t) = Some (k\<lparr>rk_used_at := Some now\<rparr>)"
  using assms
  by (auto simp: confirm_reset_write_def db_bind_def db_check_def user_update_password_def
      split: prod.splits sum.splits option.splits elim!: reset_consume_cases)

lemma reset_by_hash_D:
  "reset_by_hash db h = Inr t \<Longrightarrow> gm_wf (au_resets db) \<Longrightarrow> \<exists>i. gm_get (au_resets db) i = Some t \<and> rk_token_hash t = h"
  unfolding reset_by_hash_def found_Inr_iff using find_row by fastforce

text \<open>
  C34: A reset token sets a password once. After a confirmation that succeeded, no sequence of
  operations of the accounts makes the same token valid again: every later confirmation with it is
  refused as an invalid token and changes nothing.
\<close>
theorem reset_token_single_use:
  assumes done1: "auth_confirm_reset a now raw pw db = (Inr (tok, u), db1)" and ok: "accounts_ok db"
    and later: "auth_reach a db1 db2" and pw: "8 \<le> length pw'"
  shows "auth_confirm_reset a now' raw pw' db2 = (Inl ErrInvalidResetToken, db2)"
proof -
  obtain t h where chk: "confirm_reset_check a now raw pw db = Inr (t, h)"
    and wr: "confirm_reset_write a now t h db = (Inr (tok, u), db1)"
    using done1 by (auto simp: auth_confirm_reset_def db_check_def split: sum.splits)
  note c = confirm_check_Inr [OF chk]
  have wf: "gm_wf (au_resets db)" "keyed_by rk_id (au_resets db)"
    using ok by (auto simp: accounts_ok_def resets_ok_def keyed_by_def)
  obtain i where i: "gm_get (au_resets db) i = Some t" "rk_token_hash t = hash_opaque_token (sv_sha a) (trim_space raw)"
    using reset_by_hash_D [OF c(5) wf(1)] by blast
  have "rk_id t = i" using i(1) wf(2) by (simp add: keyed_by_def)
  then have "spent_hash (hash_opaque_token (sv_sha a) (trim_space raw)) db1"
    using confirm_write_Inr [OF wr] i unfolding spent_hash_def
    by (intro spent_inI [of _ i "t\<lparr>rk_used_at := Some now\<rparr>"]) auto
  moreover have "accounts_ok db1" using confirm_ok [OF ok, of a now raw pw] done1 by simp
  ultimately show ?thesis
    using spent_reach [OF later] spent_confirm_refused c(1) pw by blast
qed

section \<open>Stores of sign-on states\<close>

text \<open>
  What a sign-on relies on: a state is taken only while it is held and not expired, and it is gone
  then; other keys keep at most what they held. \<open>holds\<close> reads the abstract content.
\<close>

locale sso_state_store =
  fixes put :: "gotime \<Rightarrow> string \<Rightarrow> sso_state \<Rightarrow> 's \<Rightarrow> unit res \<times> 's"
    and tk :: "gotime \<Rightarrow> string \<Rightarrow> 's \<Rightarrow> sso_state res \<times> 's"
    and holds :: "'s \<Rightarrow> string \<Rightarrow> sso_state option"
    and ok :: "'s \<Rightarrow> bool"
  assumes ok_put: "ok s \<Longrightarrow> ok (snd (put now k v s))"
    and ok_take: "ok s \<Longrightarrow> ok (snd (tk now k s))"
    and take_held: "ok s \<Longrightarrow> tk now k s = (Inr v, s') \<Longrightarrow> holds s k = Some v \<and> \<not> state_expired now v"
    and take_gone: "ok s \<Longrightarrow> holds (snd (tk now k s)) k = None"
    and take_keeps: "ok s \<Longrightarrow> holds (snd (tk now k s)) j = Some v \<Longrightarrow> holds s j = Some v"
    and put_keeps: "ok s \<Longrightarrow> holds (snd (put now k v s)) j = Some w \<Longrightarrow> j \<noteq> k \<Longrightarrow> holds s j = Some w"

datatype state_op = PutState gotime string sso_state | TakeState gotime string

definition run_state ::
  "(gotime \<Rightarrow> string \<Rightarrow> sso_state \<Rightarrow> 's \<Rightarrow> unit res \<times> 's) \<Rightarrow> (gotime \<Rightarrow> string \<Rightarrow> 's \<Rightarrow> sso_state res \<times> 's) \<Rightarrow> state_op \<Rightarrow> 's \<Rightarrow> 's" where
  "run_state put tk op s = (case op of PutState now k v \<Rightarrow> snd (put now k v s) | TakeState now k \<Rightarrow> snd (tk now k s))"

definition puts_state :: "string \<Rightarrow> state_op \<Rightarrow> bool" where
  "puts_state k op \<longleftrightarrow> (case op of PutState _ j _ \<Rightarrow> j = k | TakeState _ _ \<Rightarrow> False)"

context sso_state_store
begin

lemma run_keeps_gone:
  assumes "ok s" "holds s k = None" "\<not> puts_state k op"
  shows "ok (run_state put tk op s) \<and> holds (run_state put tk op s) k = None"
proof (cases op)
  case (PutState now j v)
  then show ?thesis
    using assms put_keeps [OF assms(1), of now j v k]
    by (cases "holds (snd (put now j v s)) k") (auto simp: run_state_def puts_state_def ok_put)
next
  case (TakeState now j)
  then show ?thesis
    using assms take_keeps [OF assms(1), of now j k]
    by (cases "holds (snd (tk now j s)) k") (auto simp: run_state_def ok_take)
qed

lemma runs_keep_gone:
  "ok s \<Longrightarrow> holds s k = None \<Longrightarrow> \<forall>op\<in>set ops. \<not> puts_state k op \<Longrightarrow>
    ok (fold (run_state put tk) ops s) \<and> holds (fold (run_state put tk) ops s) k = None"
  by (induction ops arbitrary: s) (simp_all add: run_keeps_gone)

lemma take_once:
  assumes "ok s" "tk now k s = (r, s')" "\<forall>op\<in>set ops. \<not> puts_state k op"
  shows "fst (tk now' k (fold (run_state put tk) ops s')) \<noteq> Inr w"
proof
  let ?s = "fold (run_state put tk) ops s'"
  assume "fst (tk now' k ?s) = Inr w"
  then have t: "tk now' k ?s = (Inr w, snd (tk now' k ?s))" by (metis prod.collapse)
  have "ok s'" "holds s' k = None"
    using ok_take [OF assms(1)] take_gone [OF assms(1)] assms(2) by (metis snd_conv)+
  from runs_keep_gone [OF this assms(3)] take_held [OF _ t] show False by auto
qed

end

lemma purge_get: "gm_wf m \<Longrightarrow> gm_get (purge_states now m) k = Some v \<longleftrightarrow> gm_get m k = Some v \<and> \<not> state_expired now v"
  unfolding purge_states_def using gm_get_filter [of m "\<lambda>v. \<not> state_expired now v"] by simp

definition redis_holds :: "redis_states \<Rightarrow> string \<Rightarrow> sso_state option" where
  "redis_holds m k = (if k = [] then None else map_option fst (gm_get m (sso_key k)))"

lemma sso_key_inject [simp]: "sso_key j = sso_key k \<longleftrightarrow> j = k"
  by (simp add: sso_key_def)

lemma gm_wf_purge: "gm_wf m \<Longrightarrow> gm_wf (purge_states now m)"
  by (simp add: purge_states_def gm_wf_def distinct_map_filter)

interpretation mem_sso: sso_state_store "mem_state_put ttl" mem_state_take gm_get gm_wf
proof unfold_locales
  show "gm_get s j = Some v" if "gm_wf s" "gm_get (snd (mem_state_take now k s)) j = Some v" for s j v now k
    using that by (auto simp: mem_state_take_def Let_def purge_get split: option.splits if_splits)
  show "gm_get s j = Some w" if "gm_wf s" "gm_get (snd (mem_state_put ttl now k v s)) j = Some w" "j \<noteq> k" for s j v w now k
    using that by (auto simp: mem_state_put_def purge_get)
qed (auto simp: mem_state_take_def mem_state_put_def Let_def gm_wf_purge purge_get split: option.splits if_splits)

interpretation redis_sso: sso_state_store "redis_state_put ttl" redis_state_take redis_holds "\<lambda>_. True"
  by unfold_locales
    (auto simp: redis_state_take_def redis_state_put_def redis_holds_def Let_def split: option.splits if_splits prod.splits)

text \<open>
  A sign-on state is accepted once. After a state was presented, accepted or not, no sequence
  of other sign-ons makes the same state acceptable again, unless it is issued anew; both stores,
  memory and Redis, keep this, so a callback cannot be replayed.
\<close>
theorem sso_state_single_use:
  assumes "gm_wf m" "mem_state_take now k m = (r, m')" "redis_state_take now k d = (r', d')"
    "\<forall>op\<in>set ops. \<not> puts_state k op"
  shows "fst (mem_state_take now' k (fold (run_state (mem_state_put ttl) mem_state_take) ops m')) \<noteq> Inr w \<and>
    fst (redis_state_take now' k (fold (run_state (redis_state_put ttl) redis_state_take) ops d')) \<noteq> Inr w"
  using mem_sso.take_once [OF assms(1,2,4)] redis_sso.take_once [OF TrueI assms(3,4)] by blast

section \<open>Signing on\<close>

lemma provision_Inr:
  assumes "resolve_or_provision_user now uid lid claims db = (Inr u, db')"
  shows "trim_space (fc_provider claims) \<noteq> [] \<and> trim_space (fc_subject claims) \<noteq> []"
    "(\<exists>x. link_by_subject db (trim_space (fc_provider claims)) (trim_space (fc_subject claims)) = Inr x \<and>
        user_by_id db (xi_user_id x) = Inr u \<and> db' = db) \<or>
     (fc_email_verified claims \<and> ur_email u = user_email (fc_email claims) \<and>
        link_by_subject db (trim_space (fc_provider claims)) (trim_space (fc_subject claims)) = Inl (sentinel ErrNotFound))"
proof -
  show "trim_space (fc_provider claims) \<noteq> [] \<and> trim_space (fc_subject claims) \<noteq> []"
    using assms by (auto simp: resolve_or_provision_user_def Let_def split: if_splits)
  show "(\<exists>x. link_by_subject db (trim_space (fc_provider claims)) (trim_space (fc_subject claims)) = Inr x \<and>
        user_by_id db (xi_user_id x) = Inr u \<and> db' = db) \<or>
     (fc_email_verified claims \<and> ur_email u = user_email (fc_email claims) \<and>
        link_by_subject db (trim_space (fc_provider claims)) (trim_space (fc_subject claims)) = Inl (sentinel ErrNotFound))"
  proof (cases "link_by_subject db (trim_space (fc_provider claims)) (trim_space (fc_subject claims))")
    case (Inr x)
    then show ?thesis using assms by (auto simp: resolve_or_provision_user_def Let_def split: if_splits)
  next
    case (Inl e)
    then have e: "e = sentinel ErrNotFound"
      by (auto simp: link_by_subject_def found_def split: option.splits)
    have "user_by_email db email = Inr v \<Longrightarrow> ur_email v = email" for email v
      by (auto simp: user_by_email_def users_get_by_email_def found_Inr_iff find_Some_iff)
    then show ?thesis
      using assms Inl e unfolding resolve_or_provision_user_def Let_def
      by (auto simp: db_bind_def split: if_splits sum.splits prod.splits)
  qed
qed

lemma complete_sso_Inr:
  assumes "auth_complete_sso tk a now uid lid provider code state (db, st) = (Inr (tok, ret), db', st')"
  obtains p v claims u where "gm_get (sv_providers a) provider = Some p" "tk now state st = (Inr v, st')"
    "sx_provider v = provider" "ret = sx_return_to v"
    "fp_exchange p code (sso_callback_url (sv_public_base_url a) provider) (sso_request_ids p v) = Inr claims"
    "resolve_or_provision_user now uid lid (claims\<lparr>fc_provider := provider\<rparr>) db = (Inr u, db')"
    "issue_for a u = Inr tok" "sv_sso_enabled a" "state \<noteq> []"
  using assms unfolding auth_complete_sso_def Let_def
  by (auto split: if_splits option.splits sum.splits prod.splits)

text \<open>
  C35: A single sign-on yields a session only when all of this holds: sign-on is enabled, the
  state was issued for this provider, has not expired and is used up now; the provider's exchange
  vouched for the claims, told which requests an assertion may answer; and the user is the one
  this provider's subject is linked to, or the provider says the address is verified and it is
  the user's. The browser returns where the state says.
\<close>
theorem sso_login_authorized:
  assumes "auth_complete_sso mem_state_take a now uid lid provider code state (db, st) = (Inr (tok, ret), db', st')" "gm_wf st"
  shows "\<exists>v p claims u. sv_sso_enabled a \<and> gm_get st state = Some v \<and> sx_provider v = provider \<and> \<not> state_expired now v \<and>
    gm_get st' state = None \<and> ret = sx_return_to v \<and>
    gm_get (sv_providers a) provider = Some p \<and>
    fp_exchange p code (sso_callback_url (sv_public_base_url a) provider) (sso_request_ids p v) = Inr claims \<and> issue_for a u = Inr tok \<and>
    ((\<exists>x. link_by_subject db (trim_space provider) (trim_space (fc_subject claims)) = Inr x \<and> user_by_id db (xi_user_id x) = Inr u) \<or>
     (fc_email_verified claims \<and> ur_email u = user_email (fc_email claims)))"
proof (rule complete_sso_Inr [OF assms(1)])
  fix p v claims u
  assume p: "gm_get (sv_providers a) provider = Some p" and t: "mem_state_take now state st = (Inr v, st')"
    and rest: "sx_provider v = provider" "ret = sx_return_to v"
    "fp_exchange p code (sso_callback_url (sv_public_base_url a) provider) (sso_request_ids p v) = Inr claims"
    "issue_for a u = Inr tok" "sv_sso_enabled a"
    and prov: "resolve_or_provision_user now uid lid (claims\<lparr>fc_provider := provider\<rparr>) db = (Inr u, db')"
  have "gm_get st' state = None" using mem_sso.take_gone [OF assms(2), of now state] t by simp
  then show ?thesis
    using mem_sso.take_held [OF assms(2) t] provision_Inr(2) [OF prov] p rest
    by (intro exI [of _ v] exI [of _ p] exI [of _ claims] exI [of _ u]) auto
qed

section \<open>What is not guarded\<close>

lemma user_by_email_created:
  assumes "user_by_email db (ur_email u) = Inl e" "user_create u db = (Inr (), db')"
  shows "user_by_email db' (ur_email u) = Inr u"
  using assms(2)
proof (cases rule: user_create_cases)
  case 2
  have "find (\<lambda>v. ur_email v = ur_email u) (map snd m) = None \<Longrightarrow> gm_get m (ur_id u) = None \<Longrightarrow>
    find (\<lambda>v. ur_email v = ur_email u) (map snd (gm_put (ur_id u) u m)) = Some u" for m :: "(string, user_row) gomap"
    by (induction m) (auto split: if_splits)
  then show ?thesis
    using assms(1) 2(4,5)
    by (auto simp: user_by_email_def users_get_by_email_def user_rows_def found_def split: option.splits)
qed simp

lemma register_Inr:
  assumes "auth_register a uid email name pw db = (Inr r, db')"
  obtains h where "sv_hash_password a pw = Inr h" "8 \<le> length pw" "user_email email \<noteq> []"
    "user_by_email db' (user_email email) =
      Inr \<lparr>ur_id = uid, ur_email = user_email email, ur_name = trim_space name, ur_role = ''member'', ur_password_hash = h\<rparr>"
    "au_links db' = au_links db"
  using assms user_by_email_created [of db "\<lparr>ur_id = uid, ur_email = user_email email, ur_name = trim_space name,
    ur_role = ''member'', ur_password_hash = h\<rparr>" for h]
  unfolding auth_register_def Let_def
  by (auto simp: db_bind_def db_check_def not_less split: if_splits sum.splits prod.splits elim!: user_create_cases)

text \<open>
  A registered password outlives the proof of the address. Registration asks for no proof of
  the address. When somebody registers an address that is not theirs and its owner signs on
  later with a verified address, the owner is linked to that account, and the password of the
  one who registered still opens it.
\<close>
theorem preregistered_account_shared:
  assumes reg: "auth_register a uid email name pw db = (Inr r, db1)"
    and prov: "resolve_or_provision_user now uid' lid claims db1 = (Inr u, db2)"
    and unlinked: "link_by_subject db (trim_space (fc_provider claims)) (trim_space (fc_subject claims)) = Inl (sentinel ErrNotFound)"
    and owner: "user_email (fc_email claims) = user_email email"
    and bcrypt: "\<And>h. sv_hash_password a pw = Inr h \<Longrightarrow> h \<noteq> [] \<and> sv_check_password a h pw"
  shows "ur_id u = uid \<and> auth_login a db2 email pw = issue_for a u"
proof -
  obtain h where h: "sv_hash_password a pw = Inr h" "8 \<le> length pw" "user_email email \<noteq> []"
    and mine: "user_by_email db1 (user_email email) =
      Inr \<lparr>ur_id = uid, ur_email = user_email email, ur_name = trim_space name, ur_role = ''member'', ur_password_hash = h\<rparr>"
      (is "_ = Inr ?u")
    and links: "au_links db1 = au_links db"
    using register_Inr [OF reg] by metis
  have un: "link_by_subject db1 (trim_space (fc_provider claims)) (trim_space (fc_subject claims)) = Inl (sentinel ErrNotFound)"
    using unlinked by (simp add: link_by_subject_def links)
  obtain x where u: "u = ?u" and x: "link_create x db1 = (Inr (), db2)"
    using prov un owner mine unfolding resolve_or_provision_user_def Let_def
    by (auto simp: db_bind_def split: if_splits sum.splits prod.splits)
  from x have "user_by_email db2 (user_email email) = Inr ?u"
    by (elim link_create_cases) (use mine in \<open>simp_all add: user_by_email_def\<close>)
  then show ?thesis
    using h bcrypt [OF h(1)] by (auto simp: u auth_login_def Let_def service_check_def)
qed

text \<open>
  A confirmation that is refused can still set the password. The password is written before
  the token is consumed and not in one transaction: when two confirmations of the same token
  check it before either writes, the second is answered with an error, and yet the account has
  the second password and no longer the first.
\<close>
theorem racing_confirmations_both_write:
  assumes c1: "confirm_reset_check a now raw pw1 db = Inr (t, h1)" and c2: "confirm_reset_check a now raw pw2 db = Inr (t, h2)"
    and w1: "confirm_reset_write a now t h1 db = (Inr r, db1)"
    and w2: "confirm_reset_write a now' t h2 db1 = (r2, db2)"
  shows "(\<exists>e. r2 = Inl e) \<and> (\<exists>u. gm_get (user_rows db2) (rk_user_id t) = Some u \<and> ur_password_hash u = h2)"
proof -
  obtain tok u1 where r: "r = (tok, u1)" by force
  obtain k where k: "gm_get (au_resets db1) (rk_id t) = Some (k\<lparr>rk_used_at := Some now\<rparr>)"
    using confirm_write_Inr w1 unfolding r by blast
  obtain v where v: "gm_get (user_rows db1) (rk_user_id t) = Some v"
    using w1 by (auto simp: confirm_reset_write_def db_bind_def db_check_def user_by_id_def user_rows_def found_Inr_iff
        split: prod.splits sum.splits)
  then show ?thesis
    using w2 k by (auto simp: confirm_reset_write_def db_bind_def user_update_password_def reset_consume_def user_rows_def)
qed

section \<open>Witnesses\<close>

definition demo_auth :: auth_service where
  "demo_auth = \<lparr>sv_hash_password = (\<lambda>p. Inr (CHR ''h'' # p)), sv_check_password = (\<lambda>h p. h = CHR ''h'' # p),
     sv_issue = (\<lambda>i _ _. Inr i), sv_sha = (\<lambda>x. x),
     sv_providers = [(''g'', \<lparr>fp_name = ''g'', fp_display_name = ''G'', fp_type = ''oidc'',
       fp_auth_url = (\<lambda>_ _. Inr (''u'', [])), fp_asserts = False,
       fp_exchange = (\<lambda>_ _ _. Inr \<lparr>fc_provider = ''x'', fc_issuer = [], fc_subject = ''s'', fc_email = ''a@b'',
         fc_email_verified = True, fc_name = ''o''\<rparr>)\<rparr>)],
     sv_sso_enabled = True, sv_signup_enabled = True, sv_public_base_url = ''p'', sv_app_base_url = ''q''\<rparr>"

definition demo_accounts :: "(string, user_row) gomap \<Rightarrow> (string, reset_token) gomap \<Rightarrow> auth_db" where
  "demo_accounts us rs = \<lparr>au_tenancy = \<lparr>db_users = us, db_orgs = [], db_org_members = [], db_teams = [], db_team_members = [],
       db_projects = [], db_environments = [], db_invites = []\<rparr>, au_links = [], au_resets = rs\<rparr>"

definition demo_user :: user_row where
  "demo_user = \<lparr>ur_id = ''1'', ur_email = ''a@b'', ur_name = ''n'', ur_role = ''member'', ur_password_hash = ''x''\<rparr>"

definition demo_reset :: reset_token where
  "demo_reset = \<lparr>rk_id = ''t'', rk_user_id = ''1'', rk_token_hash = ''72'', rk_expires_at = 9, rk_created_at = 0, rk_used_at = None\<rparr>"

lemma demo_reset_hash: "hash_opaque_token (\<lambda>x. x) ''r'' = ''72''"
  by (simp add: hash_opaque_token_def hex_encode_def hex_digit_def char_of_def bit_0)

lemma demo_trim: "trim_space ''r'' = ''r''" "trim_space ''n'' = ''n''" "trim_space ''g'' = ''g''" "trim_space ''s'' = ''s''"
  "user_email ''a@b'' = ''a@b''" "trim_space [] = []" "trim_space ''o'' = ''o''"
  by code_simp+

lemmas demo_simps = demo_auth_def demo_accounts_def demo_user_def demo_reset_def demo_reset_hash demo_trim

lemma demo_accounts_ok: "accounts_ok (demo_accounts [(''1'', demo_user)] [(''t'', demo_reset)])"
  by (simp add: accounts_ok_def users_ok_def links_ok_def resets_ok_def keyed_by_def unique_on_def user_rows_def
      gm_wf_def demo_simps)

lemma accounts_well_formed_witness:
  "accounts_ok (snd (auth_register demo_auth ''2'' ''c@d'' ''n'' ''12345678'' (demo_accounts [(''1'', demo_user)] [(''t'', demo_reset)])))"
  by (rule accounts_well_formed [OF _ demo_accounts_ok, of demo_auth])
    (simp add: auth_reach_def step_register r_into_rtranclp)

lemma demo_confirm:
  "confirm_reset_check demo_auth 1 ''r'' pw (demo_accounts [(''1'', demo_user)] [(''t'', demo_reset)]) =
     (if length pw < 8 then Inl (sentinel ErrInvalidRequest) else Inr (demo_reset, CHR ''h'' # pw))"
  by (simp add: confirm_reset_check_def Let_def reset_by_hash_def demo_simps)

lemma demo_write:
  "confirm_reset_write demo_auth 1 demo_reset (CHR ''h'' # pw) (demo_accounts [(''1'', demo_user)] [(''t'', demo_reset)]) =
     (Inr (''1'', demo_user\<lparr>ur_password_hash := []\<rparr>),
      demo_accounts [(''1'', demo_user\<lparr>ur_password_hash := CHR ''h'' # pw\<rparr>)] [(''t'', demo_reset\<lparr>rk_used_at := Some 1\<rparr>)])"
  by (simp add: confirm_reset_write_def db_bind_def db_check_def user_update_password_def reset_consume_def
      user_by_id_def issue_for_def public_user_def demo_simps)

lemma demo_confirmed:
  "auth_confirm_reset demo_auth 1 ''r'' ''12345678'' (demo_accounts [(''1'', demo_user)] [(''t'', demo_reset)]) =
     (Inr (''1'', demo_user\<lparr>ur_password_hash := []\<rparr>),
      demo_accounts [(''1'', demo_user\<lparr>ur_password_hash := ''h12345678''\<rparr>)] [(''t'', demo_reset\<lparr>rk_used_at := Some 1\<rparr>)])"
  by (simp add: auth_confirm_reset_def db_check_def demo_confirm demo_write)

lemma reset_token_single_use_witness:
  "auth_confirm_reset demo_auth 2 ''r'' ''87654321''
     (demo_accounts [(''1'', demo_user\<lparr>ur_password_hash := ''h12345678''\<rparr>)] [(''t'', demo_reset\<lparr>rk_used_at := Some 1\<rparr>)]) =
   (Inl ErrInvalidResetToken,
    demo_accounts [(''1'', demo_user\<lparr>ur_password_hash := ''h12345678''\<rparr>)] [(''t'', demo_reset\<lparr>rk_used_at := Some 1\<rparr>)])"
  by (rule reset_token_single_use [OF demo_confirmed demo_accounts_ok]) (simp_all add: auth_reach_def)

definition demo_sso :: sso_state where
  "demo_sso = \<lparr>sx_provider = ''g'', sx_return_to = ''/'', sx_request_id = [], sx_expires_at = Some 9\<rparr>"

lemma sso_state_single_use_witness:
  "fst (mem_state_take 2 ''k'' (fold (run_state (mem_state_put 1) mem_state_take) [PutState 1 ''j'' demo_sso] [])) \<noteq> Inr demo_sso \<and>
   fst (redis_state_take 2 ''k'' (fold (run_state (redis_state_put 1) redis_state_take) [PutState 1 ''j'' demo_sso] [])) \<noteq> Inr demo_sso"
  by (rule sso_state_single_use [of "[(''k'', demo_sso)]" 1 "''k''" _ _ "[(sso_key ''k'', (demo_sso, 9))]"])
    (simp_all add: mem_state_take_def redis_state_take_def purge_states_def state_expired_def demo_sso_def puts_state_def gm_wf_def)

lemma demo_complete:
  "auth_complete_sso mem_state_take demo_auth 1 ''2'' ''l'' ''g'' ''c'' ''k'' (demo_accounts [(''1'', demo_user)] [], [(''k'', demo_sso)]) =
     (Inr (''1'', ''/''), (demo_accounts [(''1'', demo_user)] [])\<lparr>au_links :=
        [(''l'', \<lparr>xi_id = ''l'', xi_user_id = ''1'', xi_provider = ''g'', xi_issuer = [], xi_subject = ''s'', xi_email = ''a@b'', xi_created_at = 1\<rparr>)]\<rparr>, [])"
  by (simp add: auth_complete_sso_def Let_def mem_state_take_def purge_states_def state_expired_def demo_sso_def
      resolve_or_provision_user_def link_by_subject_def user_by_email_def users_get_by_email_def link_create_def
      db_bind_def issue_for_def demo_simps)

lemma sso_login_authorized_witness:
  "\<exists>v p claims u. sv_sso_enabled demo_auth \<and> gm_get [(''k'', demo_sso)] ''k'' = Some v \<and> sx_provider v = ''g'' \<and> \<not> state_expired 1 v \<and>
    gm_get ([] :: mem_states) ''k'' = None \<and> ''/'' = sx_return_to v \<and> gm_get (sv_providers demo_auth) ''g'' = Some p \<and>
    fp_exchange p ''c'' (sso_callback_url (sv_public_base_url demo_auth) ''g'') (sso_request_ids p v) = Inr claims \<and>
    issue_for demo_auth u = Inr ''1'' \<and>
    ((\<exists>x. link_by_subject (demo_accounts [(''1'', demo_user)] []) (trim_space ''g'') (trim_space (fc_subject claims)) = Inr x \<and>
        user_by_id (demo_accounts [(''1'', demo_user)] []) (xi_user_id x) = Inr u) \<or>
     (fc_email_verified claims \<and> ur_email u = user_email (fc_email claims)))"
  by (rule sso_login_authorized [OF demo_complete]) (simp add: gm_wf_def)

definition demo_claims :: federated_claims where
  "demo_claims = \<lparr>fc_provider = ''g'', fc_issuer = [], fc_subject = ''s'', fc_email = ''a@b'', fc_email_verified = True, fc_name = ''o''\<rparr>"

lemma demo_register:
  "auth_register demo_auth ''1'' ''a@b'' ''n'' ''12345678'' (demo_accounts [] []) =
     (Inr (''1'', demo_user\<lparr>ur_password_hash := []\<rparr>), demo_accounts [(''1'', demo_user\<lparr>ur_password_hash := ''h12345678''\<rparr>)] [])"
  by (simp add: auth_register_def Let_def user_by_email_def users_get_by_email_def user_create_def users_create_def
      db_bind_def db_check_def issue_for_def public_user_def demo_simps)

lemma preregistered_account_shared_witness:
  "\<exists>u db2. resolve_or_provision_user 1 ''2'' ''l'' demo_claims (demo_accounts [(''1'', demo_user\<lparr>ur_password_hash := ''h12345678''\<rparr>)] []) =
     (Inr u, db2) \<and> ur_id u = ''1'' \<and> auth_login demo_auth db2 ''a@b'' ''12345678'' = issue_for demo_auth u"
proof -
  obtain u db2 where p: "resolve_or_provision_user 1 ''2'' ''l'' demo_claims
      (demo_accounts [(''1'', demo_user\<lparr>ur_password_hash := ''h12345678''\<rparr>)] []) = (Inr u, db2)"
    by (simp add: resolve_or_provision_user_def Let_def link_by_subject_def user_by_email_def users_get_by_email_def
        link_create_def db_bind_def demo_claims_def demo_simps)
  from preregistered_account_shared [OF demo_register p] p show ?thesis
    by (simp add: link_by_subject_def demo_claims_def demo_simps)
qed

lemma racing_confirmations_both_write_witness:
  "\<exists>r2 db2. confirm_reset_write demo_auth 1 demo_reset ''hbbbbbbbb''
     (demo_accounts [(''1'', demo_user\<lparr>ur_password_hash := ''haaaaaaaa''\<rparr>)] [(''t'', demo_reset\<lparr>rk_used_at := Some 1\<rparr>)]) = (r2, db2) \<and>
     (\<exists>e. r2 = Inl e) \<and> (\<exists>u. gm_get (user_rows db2) (rk_user_id demo_reset) = Some u \<and> ur_password_hash u = ''hbbbbbbbb'')"
proof -
  obtain r2 db2 where w: "confirm_reset_write demo_auth 1 demo_reset ''hbbbbbbbb''
     (demo_accounts [(''1'', demo_user\<lparr>ur_password_hash := ''haaaaaaaa''\<rparr>)] [(''t'', demo_reset\<lparr>rk_used_at := Some 1\<rparr>)]) = (r2, db2)"
    by force
  show ?thesis
    using racing_confirmations_both_write [OF _ _ demo_write w, of "''r''" "''aaaaaaaa''" "''bbbbbbbb''"] w
    by (simp add: demo_confirm)
qed

end
