(* ===== verification/Credentials.thy ===== *)
theory Credentials
  imports Access Http
begin

text \<open>
  Provider credentials and the scopes they are assigned to: the master key and the sealing of
  secrets (\<^verbatim>\<open>src/internal/credentials/crypto.go\<close>), the entities and services (\<^verbatim>\<open>types.go\<close>,
  \<^verbatim>\<open>service.go\<close>), their tables (\<^verbatim>\<open>src/internal/adapters/postgres/credentials.go\<close>) and the handlers
  (\<^verbatim>\<open>src/internal/controlplane/http_credentials.go\<close>). AES-GCM, base64, SHA-256, nonces, identifiers
  and the clock are arguments.
\<close>

section \<open>Sealing\<close>

text \<open>
  A key of another length than 32 is a box that is not configured. \<open>gcm_seal\<close> and \<open>gcm_open\<close> are
  AES-256-GCM with the key, a nonce and a text; a sealed payload starts with its nonce.
\<close>

definition CurrentKeyVersion :: int where "CurrentKeyVersion = 1"

definition gcm_nonce_size :: nat where "gcm_nonce_size = 12"

definition not_sealed :: "string \<Rightarrow> err" where "not_sealed m = Err ErrOther m"

definition parse_master_key :: "(string \<Rightarrow> string option) \<Rightarrow> (string \<Rightarrow> string) \<Rightarrow> string \<Rightarrow> string res" where
  "parse_master_key b64 sha raw0 =
     (let raw = trim_space raw0 in
      if raw = [] then Inl (not_sealed ''empty credentials master key'')
      else if has_prefix raw ''base64:'' then
        (case b64 (trim_prefix raw ''base64:'') of
           None \<Rightarrow> Inl (not_sealed ''decode master key'')
         | Some d \<Rightarrow> if length d \<noteq> 32 then Inl (not_sealed ''base64 master key must decode to 32 bytes'') else Inr d)
      else (case b64 raw of
          Some d \<Rightarrow> if length d = 32 then Inr d else Inr (sha raw)
        | None \<Rightarrow> Inr (sha raw)))"

definition box_seal :: "(string \<Rightarrow> string \<Rightarrow> string \<Rightarrow> string) \<Rightarrow> string option \<Rightarrow> string \<Rightarrow> string \<Rightarrow> string res" where
  "box_seal gcm_seal box nonce plaintext =
     (case box of
        None \<Rightarrow> Inl (not_sealed ''credentials master key not configured'')
      | Some key \<Rightarrow> if length key \<noteq> 32 then Inl (not_sealed ''credentials master key not configured'')
          else Inr (nonce @ gcm_seal key nonce plaintext))"

definition box_open :: "(string \<Rightarrow> string \<Rightarrow> string \<Rightarrow> string option) \<Rightarrow> string option \<Rightarrow> string \<Rightarrow> string res" where
  "box_open gcm_open box payload =
     (case box of
        None \<Rightarrow> Inl (not_sealed ''credentials master key not configured'')
      | Some key \<Rightarrow>
          if length key \<noteq> 32 then Inl (not_sealed ''credentials master key not configured'')
          else if payload = [] then Inl (not_sealed ''empty encrypted payload'')
          else if length payload < gcm_nonce_size then Inl (not_sealed ''ciphertext too short'')
          else (case gcm_open key (take gcm_nonce_size payload) (drop gcm_nonce_size payload) of
              None \<Rightarrow> Inl (not_sealed ''decrypt credential'')
            | Some p \<Rightarrow> Inr p))"

section \<open>Entities\<close>

text \<open>The payload is \<open>None\<close> for NULL; an empty reference is stored as NULL.\<close>

record provider_credential =
  pc_id :: string
  pc_organization_id :: string
  pc_name :: string
  pc_provider_type :: string
  pc_storage_kind :: string
  pc_secret_ref :: string
  pc_encrypted_payload :: "string option"
  pc_key_version :: int
  pc_status :: string
  pc_has_secret :: bool
  pc_created_at :: gotime
  pc_updated_at :: gotime

record cred_assignment =
  asn_id :: string
  asn_credential_id :: string
  asn_organization_id :: string
  asn_provider_type :: string
  asn_scope_type :: string
  asn_scope_id :: string
  asn_created_at :: gotime
  asn_created_by :: string

definition CredentialStorageEnv :: string where "CredentialStorageEnv = ''env''"
definition CredentialStorageEncryptedDB :: string where "CredentialStorageEncryptedDB = ''encrypted_db''"
definition CredentialStorageVault :: string where "CredentialStorageVault = ''vault''"

lemmas storage_kind_defs = CredentialStorageEnv_def CredentialStorageEncryptedDB_def CredentialStorageVault_def

definition CredStatusActive :: string where "CredStatusActive = ''active''"
definition CredStatusDisabled :: string where "CredStatusDisabled = ''disabled''"

definition by_reference :: "string \<Rightarrow> bool" where
  "by_reference kind \<longleftrightarrow> kind = CredentialStorageEnv \<or> kind = CredentialStorageVault"

definition public_credential :: "provider_credential \<Rightarrow> provider_credential" where
  "public_credential c =
     (let has = pc_has_secret c \<or> (by_reference (pc_storage_kind c) \<and> pc_secret_ref c \<noteq> []) \<or>
                (pc_storage_kind c = CredentialStorageEncryptedDB \<and>
                 (case pc_encrypted_payload c of None \<Rightarrow> False | Some p \<Rightarrow> p \<noteq> []))
      in c\<lparr>pc_encrypted_payload := None, pc_has_secret := has,
           pc_secret_ref := (if pc_storage_kind c = CredentialStorageEncryptedDB then [] else pc_secret_ref c)\<rparr>)"

definition new_credential ::
  "string \<Rightarrow> string \<Rightarrow> string \<Rightarrow> string \<Rightarrow> string \<Rightarrow> string \<Rightarrow> gotime \<Rightarrow> provider_credential res" where
  "new_credential i org name0 ptype0 kind0 status0 now =
     (let name = trim_space name0; ptype = trim_space ptype0; kind = trim_space kind0; status1 = trim_space status0;
          status = (if status1 = [] then CredStatusActive else status1) in
      if i = [] \<or> org = [] then Inl (invalid_request ''id and organization_id required'')
      else if name = [] then Inl (invalid_request ''name is required'')
      else if ptype = [] then Inl (invalid_request ''provider_type is required'')
      else if \<not> by_reference kind \<and> kind \<noteq> CredentialStorageEncryptedDB then Inl (invalid_request ''invalid storage_kind'')
      else if status \<noteq> CredStatusActive \<and> status \<noteq> CredStatusDisabled then Inl (invalid_request ''invalid status'')
      else Inr \<lparr>pc_id = i, pc_organization_id = org, pc_name = name, pc_provider_type = ptype, pc_storage_kind = kind,
             pc_secret_ref = [], pc_encrypted_payload = None, pc_key_version = 0, pc_status = status,
             pc_has_secret = False, pc_created_at = now, pc_updated_at = now\<rparr>)"

definition valid_assignment_scope :: "string \<Rightarrow> bool" where
  "valid_assignment_scope s \<longleftrightarrow> s = ScopeOrganization \<or> s = ScopeProject \<or> s = ScopeAPIKey"

definition validate_assignment_scope :: "string \<Rightarrow> unit res" where
  "validate_assignment_scope s =
     (if valid_assignment_scope s then Inr () else Inl (invalid_request ''invalid scope_type''))"

section \<open>Tables\<close>

record cred_db =
  cdb_access :: access_db
  cdb_credentials :: "(string, provider_credential) gomap"
  cdb_assignments :: "(string, cred_assignment) gomap"

type_synonym 'a cred_op = "('a, cred_db) storeop"

definition creds_list_by_org :: "cred_db \<Rightarrow> string \<Rightarrow> provider_credential list" where
  "creds_list_by_org db org =
     map public_credential (sort_key pc_created_at (filter (\<lambda>c. pc_organization_id c = org) (map snd (cdb_credentials db))))"

definition creds_get :: "cred_db \<Rightarrow> string \<Rightarrow> provider_credential res" where
  "creds_get db i = found (gm_get (cdb_credentials db) i)"

definition creds_org_id :: "cred_db \<Rightarrow> string \<Rightarrow> string res" where
  "creds_org_id db i = bind_res (creds_get db i) (\<lambda>c. Inr (pc_organization_id c))"

definition cred_storage_check :: "provider_credential \<Rightarrow> bool" where
  "cred_storage_check c \<longleftrightarrow>
     (by_reference (pc_storage_kind c) \<and> pc_secret_ref c \<noteq> [] \<and> pc_encrypted_payload c = None) \<or>
     (pc_storage_kind c = CredentialStorageEncryptedDB \<and> pc_encrypted_payload c \<noteq> None \<and> pc_secret_ref c = [])"

definition cred_status_check :: "provider_credential \<Rightarrow> bool" where
  "cred_status_check c \<longleftrightarrow> pc_status c = CredStatusActive \<or> pc_status c = CredStatusDisabled"

text \<open>Whether a row has secret material is no column.\<close>

definition creds_insert :: "provider_credential \<Rightarrow> unit cred_op" where
  "creds_insert c db =
     (if \<not> cred_storage_check c \<or> \<not> cred_status_check c then (Inl check_violation, db)
      else if gm_get (cdb_credentials db) (pc_id c) \<noteq> None \<or>
              (\<exists>x\<in>set (map snd (cdb_credentials db)). pc_organization_id x = pc_organization_id c \<and> pc_name x = pc_name c)
        then (Inl key_violation, db)
      else if gm_get (db_orgs (acc_tenancy (cdb_access db))) (pc_organization_id c) = None then (Inl foreign_key_violation, db)
      else (Inr (), db\<lparr>cdb_credentials := gm_put (pc_id c) (c\<lparr>pc_has_secret := False\<rparr>) (cdb_credentials db)\<rparr>))"

definition creds_modify :: "string \<Rightarrow> (provider_credential \<Rightarrow> provider_credential) \<Rightarrow> provider_credential cred_op" where
  "creds_modify i f db =
     (case gm_get (cdb_credentials db) i of
        None \<Rightarrow> (Inl (sentinel ErrNotFound), db)
      | Some c \<Rightarrow>
          if \<not> cred_storage_check (f c) \<or> \<not> cred_status_check (f c) then (Inl check_violation, db)
          else if \<exists>(j, x)\<in>set (cdb_credentials db). j \<noteq> i \<and> pc_organization_id x = pc_organization_id (f c) \<and> pc_name x = pc_name (f c)
            then (Inl key_violation, db)
          else (Inr (public_credential (f c)), db\<lparr>cdb_credentials := gm_put i (f c) (cdb_credentials db)\<rparr>))"

definition creds_update_meta :: "string \<Rightarrow> string \<Rightarrow> string \<Rightarrow> gotime \<Rightarrow> provider_credential cred_op" where
  "creds_update_meta i name status now =
     creds_modify i (\<lambda>c. c\<lparr>pc_name := (if name = [] then pc_name c else name),
       pc_status := (if status = [] then pc_status c else status), pc_updated_at := now\<rparr>)"

definition creds_update_secret :: "string \<Rightarrow> string \<Rightarrow> string option \<Rightarrow> int \<Rightarrow> gotime \<Rightarrow> provider_credential cred_op" where
  "creds_update_secret i ref payload version now =
     creds_modify i (\<lambda>c. c\<lparr>pc_secret_ref := ref, pc_encrypted_payload := payload, pc_key_version := version,
       pc_updated_at := now\<rparr>)"

text \<open>Deleting a credential deletes its assignments (\<^verbatim>\<open>ON DELETE CASCADE\<close>).\<close>

definition creds_delete :: "string \<Rightarrow> unit cred_op" where
  "creds_delete i db =
     (if gm_get (cdb_credentials db) i = None then (Inl (sentinel ErrNotFound), db)
      else (Inr (), db\<lparr>cdb_credentials := gm_del i (cdb_credentials db),
          cdb_assignments := filter (\<lambda>(_, a). asn_credential_id a \<noteq> i) (cdb_assignments db)\<rparr>))"

definition has_assignments :: "cred_db \<Rightarrow> string \<Rightarrow> bool" where
  "has_assignments db i \<longleftrightarrow> 0 < length (filter (\<lambda>a. asn_credential_id a = i) (map snd (cdb_assignments db)))"

definition assignments_list_by_org :: "cred_db \<Rightarrow> string \<Rightarrow> cred_assignment list" where
  "assignments_list_by_org db org =
     sort_key asn_created_at (filter (\<lambda>a. asn_organization_id a = org) (map snd (cdb_assignments db)))"

definition same_slot :: "cred_assignment \<Rightarrow> cred_assignment \<Rightarrow> bool" where
  "same_slot a b \<longleftrightarrow> asn_scope_type a = asn_scope_type b \<and> asn_scope_id a = asn_scope_id b \<and>
     asn_provider_type a = asn_provider_type b"

definition insert_assignment :: "cred_assignment \<Rightarrow> unit cred_op" where
  "insert_assignment a db =
     (if \<not> valid_assignment_scope (asn_scope_type a) then (Inl check_violation, db)
      else if gm_get (cdb_assignments db) (asn_id a) \<noteq> None \<or> (\<exists>x\<in>set (map snd (cdb_assignments db)). same_slot x a)
        then (Inl key_violation, db)
      else if gm_get (cdb_credentials db) (asn_credential_id a) = None \<or>
              gm_get (db_orgs (acc_tenancy (cdb_access db))) (asn_organization_id a) = None then (Inl foreign_key_violation, db)
      else (Inr (), db\<lparr>cdb_assignments := gm_put (asn_id a) a (cdb_assignments db)\<rparr>))"

text \<open>Two statements and no transaction: when the insertion fails the old slot is gone.\<close>

definition upsert_assignment :: "cred_assignment \<Rightarrow> cred_assignment cred_op" where
  "upsert_assignment a db =
     db_bind (insert_assignment a) (\<lambda>_ db. (Inr a, db))
       (db\<lparr>cdb_assignments := filter (\<lambda>(_, x). \<not> same_slot x a) (cdb_assignments db)\<rparr>)"

definition delete_assignment :: "string \<Rightarrow> unit cred_op" where
  "delete_assignment i db =
     (if gm_get (cdb_assignments db) i = None then (Inl (sentinel ErrNotFound), db)
      else (Inr (), db\<lparr>cdb_assignments := gm_del i (cdb_assignments db)\<rparr>))"

definition assignment_org_id :: "cred_db \<Rightarrow> string \<Rightarrow> string res" where
  "assignment_org_id db i = bind_res (found (gm_get (cdb_assignments db) i)) (\<lambda>a. Inr (asn_organization_id a))"

definition api_key_belongs_to_org :: "access_db \<Rightarrow> string \<Rightarrow> string \<Rightarrow> unit res" where
  "api_key_belongs_to_org db i org =
     (case keys_get db i of
        Inl e \<Rightarrow> Inl (if err_is e ErrNotFound then invalid_request ''api key not found'' else e)
      | Inr k \<Rightarrow> if ky_organization_id k \<noteq> org then Inl (invalid_request ''api key not in organization'') else Inr ())"

section \<open>Services\<close>

text \<open>\<open>seal\<close> is \<^verbatim>\<open>Seal\<close> of the configured box with the nonce drawn, or no box.\<close>

definition secret_material ::
  "(string \<Rightarrow> string res) option \<Rightarrow> string \<Rightarrow> string \<Rightarrow> string \<Rightarrow> (string \<times> string option \<times> int) res" where
  "secret_material seal kind secret_ref secret_value =
     (if by_reference kind then
        (if trim_space secret_ref = [] then Inl (invalid_request ''secret_ref is required'')
         else Inr (trim_space secret_ref, None, 0))
      else if kind = CredentialStorageEncryptedDB then
        (if trim_space secret_value = [] then Inl (invalid_request ''secret_value is required'')
         else (case seal of
             None \<Rightarrow> Inl (invalid_request ''credentials master key not configured'')
           | Some f \<Rightarrow> bind_res (f (trim_space secret_value)) (\<lambda>p. Inr ([], Some p, CurrentKeyVersion))))
      else Inl (invalid_request ''unknown storage_kind''))"

definition create_credential ::
  "(string \<Rightarrow> string res) option \<Rightarrow> gotime \<Rightarrow> string \<Rightarrow> string \<Rightarrow> string \<Rightarrow> string \<Rightarrow> string \<Rightarrow> string \<Rightarrow> string \<Rightarrow>
   provider_credential cred_op" where
  "create_credential seal now i org name ptype kind secret_ref secret_value db =
     db_check (new_credential i org name ptype kind CredStatusActive now) (\<lambda>c.
       db_check (secret_material seal (pc_storage_kind c) secret_ref secret_value) (\<lambda>(ref, payload, version).
         let c1 = c\<lparr>pc_secret_ref := ref, pc_encrypted_payload := payload, pc_key_version := version, pc_has_secret := True\<rparr> in
         db_bind (creds_insert c1) (\<lambda>_ db. (Inr (public_credential c1), db)))) db"

definition rotate_secret ::
  "(string \<Rightarrow> string res) option \<Rightarrow> gotime \<Rightarrow> string \<Rightarrow> string \<Rightarrow> string \<Rightarrow> provider_credential cred_op" where
  "rotate_secret seal now i secret_ref secret_value db =
     db_check (creds_get db i) (\<lambda>c.
       db_check (secret_material seal (pc_storage_kind c) secret_ref secret_value) (\<lambda>(ref, payload, version).
         db_bind (creds_update_secret i ref payload version now) (\<lambda>u db. (Inr (public_credential u), db)))) db"

definition check_assignment_scope :: "cred_db \<Rightarrow> string \<Rightarrow> string \<Rightarrow> string \<Rightarrow> unit res" where
  "check_assignment_scope db scope_type scope_id org =
     (if scope_type = ScopeOrganization then
        (if scope_id \<noteq> org then Inl (invalid_request ''organization scope_id must match credential organization'') else Inr ())
      else if scope_type = ScopeProject then project_belongs_to_org (cdb_access db) scope_id org
      else if scope_type = ScopeAPIKey then api_key_belongs_to_org (cdb_access db) scope_id org
      else Inr ())"

definition assign_credential ::
  "gotime \<Rightarrow> string \<Rightarrow> string \<Rightarrow> string \<Rightarrow> string \<Rightarrow> string \<Rightarrow> cred_assignment cred_op" where
  "assign_credential now i cred scope_type scope_id0 by db =
     db_check (validate_assignment_scope scope_type) (\<lambda>_.
       let scope_id = trim_space scope_id0 in
       if scope_id = [] then (\<lambda>db. (Inl (invalid_request ''scope_id is required''), db))
       else db_check (creds_get db cred) (\<lambda>c.
         if pc_status c \<noteq> CredStatusActive then (\<lambda>db. (Inl (invalid_request ''credential is not active''), db))
         else db_check (check_assignment_scope db scope_type scope_id (pc_organization_id c)) (\<lambda>_.
           upsert_assignment \<lparr>asn_id = i, asn_credential_id = pc_id c, asn_organization_id = pc_organization_id c,
             asn_provider_type = pc_provider_type c, asn_scope_type = scope_type, asn_scope_id = scope_id,
             asn_created_at = now, asn_created_by = by\<rparr>))) db"

definition delete_credential :: "string \<Rightarrow> unit cred_op" where
  "delete_credential i db =
     (if has_assignments db i then (Inl (Err ErrConflict ''credential still has assignments''), db)
      else creds_delete i db)"

section \<open>Handlers\<close>

text \<open>Statuses of a failed call: \<open>nf\<close>, \<open>bad\<close> and \<open>cf\<close> tell which errors the handler recognises.\<close>

definition cred_failure :: "bool \<Rightarrow> bool \<Rightarrow> bool \<Rightarrow> err \<Rightarrow> 'a reply" where
  "cred_failure nf bad cf e =
     (if nf \<and> err_is e ErrNotFound then Failed StatusNotFound ''not found''
      else if bad \<and> err_is e ErrInvalidRequest then Failed StatusBadRequest (err_msg e)
      else if cf \<and> err_is e ErrConflict then Failed StatusConflict (err_msg e)
      else internal_error e)"

definition reply_with :: "nat \<Rightarrow> bool \<Rightarrow> bool \<Rightarrow> bool \<Rightarrow> 'a res \<times> 's \<Rightarrow> 'a reply \<times> 's" where
  "reply_with status nf bad cf r =
     (case r of (Inl e, db) \<Rightarrow> (cred_failure nf bad cf e, db) | (Inr x, db) \<Rightarrow> (Reply status x, db))"

record credential_body =
  kd_name :: string
  kd_provider_type :: string
  kd_storage_kind :: string
  kd_secret_ref :: string
  kd_secret_value :: string

definition handle_create_credential ::
  "(string \<Rightarrow> string res) option \<Rightarrow> gotime \<Rightarrow> string \<Rightarrow> string \<Rightarrow> credential_body option \<Rightarrow> cred_db \<Rightarrow>
   provider_credential reply \<times> cred_db" where
  "handle_create_credential seal now i org body db =
     (case body of
        None \<Rightarrow> (Failed StatusBadRequest ''name, provider_type, and storage_kind required'', db)
      | Some b \<Rightarrow>
          if kd_name b = [] \<or> kd_provider_type b = [] \<or> kd_storage_kind b = []
          then (Failed StatusBadRequest ''name, provider_type, and storage_kind required'', db)
          else reply_with StatusCreated False True False
            (create_credential seal now i org (kd_name b) (kd_provider_type b) (kd_storage_kind b) (kd_secret_ref b) (kd_secret_value b) db))"

definition handle_update_credential ::
  "gotime \<Rightarrow> string \<Rightarrow> (string \<times> string) option \<Rightarrow> cred_db \<Rightarrow> provider_credential reply \<times> cred_db" where
  "handle_update_credential now i body db =
     (case body of
        None \<Rightarrow> (Failed StatusBadRequest ''invalid json'', db)
      | Some (name, status) \<Rightarrow>
          if name = [] \<and> status = [] then (Failed StatusBadRequest ''name or status required'', db)
          else reply_with StatusOK True True False (creds_update_meta i name status now db))"

definition handle_rotate_credential ::
  "(string \<Rightarrow> string res) option \<Rightarrow> gotime \<Rightarrow> string \<Rightarrow> (string \<times> string) option \<Rightarrow> cred_db \<Rightarrow> provider_credential reply \<times> cred_db" where
  "handle_rotate_credential seal now i body db =
     (case body of
        None \<Rightarrow> (Failed StatusBadRequest ''invalid json'', db)
      | Some (ref, value) \<Rightarrow> reply_with StatusOK True True False (rotate_secret seal now i ref value db))"

text \<open>The command layer looks the organization up before deleting, which finds a missing row first.\<close>

definition command_delete_credential :: "string \<Rightarrow> unit cred_op" where
  "command_delete_credential i db = db_check (creds_org_id db i) (\<lambda>_. delete_credential i) db"

definition command_delete_assignment :: "string \<Rightarrow> unit cred_op" where
  "command_delete_assignment i db = db_check (assignment_org_id db i) (\<lambda>_. delete_assignment i) db"

definition handle_delete_credential :: "string \<Rightarrow> cred_db \<Rightarrow> unit reply \<times> cred_db" where
  "handle_delete_credential i db = reply_with StatusNoContent True False True (command_delete_credential i db)"

definition handle_assign_credential ::
  "gotime \<Rightarrow> string \<Rightarrow> string \<Rightarrow> string \<Rightarrow> (string \<times> string \<times> string) option \<Rightarrow> cred_db \<Rightarrow> cred_assignment reply \<times> cred_db" where
  "handle_assign_credential now i caller org body db =
     (case body of
        None \<Rightarrow> (Failed StatusBadRequest ''credential_id, scope_type, and scope_id required'', db)
      | Some (cred, scope_type, scope_id) \<Rightarrow>
          if cred = [] \<or> scope_type = [] \<or> scope_id = []
          then (Failed StatusBadRequest ''credential_id, scope_type, and scope_id required'', db)
          else (case creds_org_id db cred of
              Inl e \<Rightarrow> (cred_failure True False False e, db)
            | Inr cred_org \<Rightarrow>
                if cred_org \<noteq> org then (Failed StatusBadRequest ''credential does not belong to organization'', db)
                else reply_with StatusOK True True False (assign_credential now i cred scope_type scope_id caller db)))"

definition handle_delete_assignment :: "string \<Rightarrow> cred_db \<Rightarrow> unit reply \<times> cred_db" where
  "handle_delete_assignment i db = reply_with StatusNoContent True False False (command_delete_assignment i db)"

end
