(* ===== verification/Credentials_Laws.thy ===== *)
theory Credentials_Laws
  imports Credentials Access_Scopes
begin

text \<open>
  What the credential tables keep: an assignment names an existing credential of its organization
  and provider type, a scope of that organization, and is alone in its slot. The invariant is
  proved for every sequence of operations on credentials, keys and tenants.
\<close>

section \<open>Sealing\<close>

text \<open>
  A sealed secret opens again. With the key that a master key is parsed to, opening what was
  sealed returns the secret, for every nonce of the right length; the only thing asked of the
  cipher is that it opens what it sealed, and of the digest that it is 32 bytes long.
\<close>
theorem sealed_secret_opens:
  assumes "parse_master_key b64 sha raw = Inr key" "\<And>x. length (sha x) = 32"
    and "\<And>k n p. length k = 32 \<Longrightarrow> length n = gcm_nonce_size \<Longrightarrow> gcm_open k n (gcm_seal k n p) = Some p"
    and "length nonce = gcm_nonce_size"
  shows "\<exists>payload. box_seal gcm_seal (Some key) nonce secret = Inr payload \<and> box_open gcm_open (Some key) payload = Inr secret"
proof -
  have k: "length key = 32"
    using assms(1,2) by (auto simp: parse_master_key_def Let_def split: if_splits option.splits)
  then show ?thesis
    using assms(3,4) by (auto simp: box_seal_def box_open_def gcm_nonce_size_def)
qed

section \<open>The invariant\<close>

text \<open>The scope of an assignment against the tables; a deleted key leaves its assignment behind.\<close>

definition assigned_scope_ok :: "access_db \<Rightarrow> cred_assignment \<Rightarrow> bool" where
  "assigned_scope_ok db a \<longleftrightarrow>
     valid_assignment_scope (asn_scope_type a) \<and>
     (asn_scope_type a = ScopeOrganization \<longrightarrow> asn_scope_id a = asn_organization_id a) \<and>
     (asn_scope_type a = ScopeProject \<longrightarrow>
       (\<exists>p. gm_get (db_projects (acc_tenancy db)) (asn_scope_id a) = Some p \<and> pj_organization_id p = asn_organization_id a)) \<and>
     (asn_scope_type a = ScopeAPIKey \<longrightarrow>
       (\<forall>k h. gm_get (acc_keys db) (asn_scope_id a) = Some (k, h) \<longrightarrow> ky_organization_id k = asn_organization_id a))"

definition assignment_slot :: "cred_assignment \<Rightarrow> (string \<times> string \<times> string) option" where
  "assignment_slot a = Some (asn_scope_type a, asn_scope_id a, asn_provider_type a)"

definition credential_name_slot :: "provider_credential \<Rightarrow> (string \<times> string) option" where
  "credential_name_slot c = Some (pc_organization_id c, pc_name c)"

definition credentials_ok :: "(string, provider_credential) gomap \<Rightarrow> bool" where
  "credentials_ok m \<longleftrightarrow> keyed_by pc_id m \<and> unique_on credential_name_slot m \<and>
     (\<forall>i c. gm_get m i = Some c \<longrightarrow> cred_storage_check c \<and> cred_status_check c)"

definition assignments_ok :: "access_db \<Rightarrow> (string, provider_credential) gomap \<Rightarrow> (string, cred_assignment) gomap \<Rightarrow> bool" where
  "assignments_ok acc cs m \<longleftrightarrow> keyed_by asn_id m \<and> unique_on assignment_slot m \<and>
     (\<forall>i a. gm_get m i = Some a \<longrightarrow> assigned_scope_ok acc a \<and>
        (\<exists>c. gm_get cs (asn_credential_id a) = Some c \<and> pc_organization_id c = asn_organization_id a \<and>
           pc_provider_type c = asn_provider_type a))"

definition cred_db_ok :: "cred_db \<Rightarrow> bool" where
  "cred_db_ok db \<longleftrightarrow> keys_scoped (cdb_access db) \<and> credentials_ok (cdb_credentials db) \<and>
     assignments_ok (cdb_access db) (cdb_credentials db) (cdb_assignments db)"

section \<open>Steps\<close>

text \<open>
  Any operation on keys and tenants, and every operation on credentials. Identifiers are random:
  a new key never gets the identifier of a deleted one that an assignment still names.
\<close>

definition fresh_key_ids :: "access_db \<Rightarrow> access_db \<Rightarrow> (string, cred_assignment) gomap \<Rightarrow> bool" where
  "fresh_key_ids acc acc' m \<longleftrightarrow>
     (\<forall>i a. gm_get m i = Some a \<and> asn_scope_type a = ScopeAPIKey \<and> gm_get (acc_keys acc') (asn_scope_id a) \<noteq> None \<longrightarrow>
        gm_get (acc_keys acc) (asn_scope_id a) \<noteq> None)"

inductive cred_step :: "(string \<Rightarrow> string) \<Rightarrow> (string \<Rightarrow> public_key) \<Rightarrow> cred_db \<Rightarrow> cred_db \<Rightarrow> bool" for sha pub where
  step_access: "fresh_key_ids (cdb_access db) (exec_access sha pub op (cdb_access db)) (cdb_assignments db) \<Longrightarrow>
     cred_step sha pub db (db\<lparr>cdb_access := exec_access sha pub op (cdb_access db)\<rparr>)"
| step_create: "cred_step sha pub db (snd (handle_create_credential seal now i org body db))"
| step_update: "cred_step sha pub db (snd (handle_update_credential now i body2 db))"
| step_rotate: "cred_step sha pub db (snd (handle_rotate_credential seal now i body2 db))"
| step_delete: "cred_step sha pub db (snd (handle_delete_credential i db))"
| step_assign: "cred_step sha pub db (snd (handle_assign_credential now i caller org body3 db))"
| step_unassign: "cred_step sha pub db (snd (handle_delete_assignment i db))"

section \<open>Keys and tenants\<close>

text \<open>What one operation can do to the table of keys.\<close>

inductive keys_effect :: "(string, access_key \<times> string) gomap \<Rightarrow> (string, access_key \<times> string) gomap \<Rightarrow> bool" where
  keys_same: "keys_effect m m"
| keys_put: "gm_get m i = None \<Longrightarrow> ky_id k = i \<Longrightarrow> (\<And>j k' h'. gm_get m j = Some (k', h') \<Longrightarrow> h' \<noteq> h) \<Longrightarrow>
     keys_effect m (gm_put i (k, h) m)"
| keys_del: "keys_effect m (gm_del i m)"
| keys_detach: "keys_effect m (map (\<lambda>(j, k, h). (j, detach_key e k, h)) m)"

lemma keys_insert_effect: "keys_effect (acc_keys db) (acc_keys (snd (keys_insert k h db)))"
proof (cases "gm_get (acc_keys db) (ky_id k) \<noteq> None \<or> (\<exists>(_, _, h')\<in>set (acc_keys db). h' = h)")
  case False
  then have n: "gm_get (acc_keys db) (ky_id k) = None" "\<not> (\<exists>(_, _, h')\<in>set (acc_keys db). h' = h)" by blast+
  have "keys_effect (acc_keys db) (gm_put (ky_id k) (k\<lparr>ky_key := []\<rparr>, h) (acc_keys db))"
    by (intro keys_put n(1)) (use n(2) in \<open>auto dest: map_of_SomeD\<close>)
  then show ?thesis by (auto simp: keys_insert_def keys_same)
qed (auto simp: keys_insert_def keys_same)

lemma create_key_effect: "keys_effect (acc_keys db) (acc_keys (snd (create_api_key sha now i org kind owner proj env name raw db)))"
proof (cases "create_api_key sha now i org kind owner proj env name raw db")
  case (Pair r db')
  then show ?thesis
    using keys_insert_effect [of db]
    by (auto simp: create_api_key_def db_check_def db_bind_def keys_same split: sum.splits prod.splits)
       (metis snd_conv)+
qed

lemma delete_key_effect: "keys_effect (acc_keys db) (acc_keys (snd (keys_delete i db)))"
  by (auto simp: keys_delete_def intro: keys_effect.intros)

lemma key_handlers_effect:
  "keys_effect (acc_keys db) (acc_keys (snd (handle_create_org_key sha now i rnd caller org body db)))"
  "keys_effect (acc_keys db) (acc_keys (snd (handle_create_key sha now i rnd proj body db)))"
  "keys_effect (acc_keys db) (acc_keys (snd (handle_delete_key caller i db)))"
  using create_key_effect delete_key_effect
  by (auto simp: handle_create_org_key_def handle_create_key_def handle_delete_key_def Let_def keys_same
      split: option.split reply.split prod.split sum.split) (metis snd_conv)+

lemma exec_access_effect: "keys_effect (acc_keys db) (acc_keys (exec_access sha pub op db))"
  by (cases op)
    (simp_all add: on_tenancy_def create_key_effect delete_key_effect key_handlers_effect signing_keys_frame keys_same
      environments_delete_def keys_detach)

lemma gm_get_detach_row: "gm_get (map (\<lambda>(j, k, h). (j, detach_key e k, h)) m) i = map_option (\<lambda>(k, h). (detach_key e k, h)) (gm_get m i)"
  by (induction m) auto

lemma keys_effect_org:
  assumes "keys_effect m m'" "gm_get m i = Some (k, h)" "gm_get m' i = Some (k', h')"
  shows "ky_organization_id k' = ky_organization_id k"
  using assms
proof (cases rule: keys_effect.cases)
  case (keys_detach e)
  then have "k' = detach_key e k" using assms(2,3) gm_get_detach_row [of e m i] by simp
  then show ?thesis by (simp add: detach_key_def)
qed (auto split: if_splits)

lemma exec_access_projects:
  assumes "gm_get (db_projects (acc_tenancy db)) p = Some x"
  shows "gm_get (db_projects (acc_tenancy (exec_access sha pub op db))) p = Some x"
proof -
  have keys: "acc_tenancy (snd (create_api_key sha now i org kind owner proj env name raw db)) = acc_tenancy db"
    for now i org kind owner proj env name raw
    by (auto simp: create_api_key_def db_check_def db_bind_def keys_insert_def split: sum.splits prod.splits)
  have del: "acc_tenancy (snd (keys_delete i db)) = acc_tenancy db" for i by (simp add: keys_delete_def)
  have hands: "acc_tenancy (snd (handle_create_org_key sha now i rnd caller org body db)) = acc_tenancy db"
    "acc_tenancy (snd (handle_create_key sha now i rnd proj body db)) = acc_tenancy db"
    "acc_tenancy (snd (handle_delete_key caller i db)) = acc_tenancy db" for now i rnd caller org body proj
    by (auto simp: handle_create_org_key_def handle_create_key_def handle_delete_key_def Let_def
        split: option.split reply.split prod.split sum.split) (metis keys del snd_conv)+
  show ?thesis
  proof (cases op)
    case (TenancyOp q)
    then show ?thesis using exec_op_frame [of "acc_tenancy db" sha q] assms by (simp add: on_tenancy_def scope_frame_def)
  qed (use assms in \<open>simp_all add: keys del hands signing_keys_frame environments_delete_def\<close>)
qed

lemma assigned_scope_access:
  assumes "assigned_scope_ok acc a" "acc' = exec_access sha pub op acc"
    and "asn_scope_type a = ScopeAPIKey \<and> gm_get (acc_keys acc') (asn_scope_id a) \<noteq> None \<Longrightarrow> gm_get (acc_keys acc) (asn_scope_id a) \<noteq> None"
  shows "assigned_scope_ok acc' a"
  unfolding assigned_scope_ok_def
proof (intro conjI impI allI)
  show "\<exists>p. gm_get (db_projects (acc_tenancy acc')) (asn_scope_id a) = Some p \<and> pj_organization_id p = asn_organization_id a"
    if "asn_scope_type a = ScopeProject"
    using that assms(1,2) exec_access_projects by (auto simp: assigned_scope_ok_def)
  show "ky_organization_id k = asn_organization_id a"
    if "asn_scope_type a = ScopeAPIKey" "gm_get (acc_keys acc') (asn_scope_id a) = Some (k, h)" for k h
  proof -
    have ne: "gm_get (acc_keys acc') (asn_scope_id a) \<noteq> None" using that(2) by simp
    from assms(3) [OF conjI [OF that(1) ne]]
    obtain k0 h0 where k0: "gm_get (acc_keys acc) (asn_scope_id a) = Some (k0, h0)" by (metis not_None_eq surj_pair)
    then have "ky_organization_id k0 = asn_organization_id a" using assms(1) that(1) unfolding assigned_scope_ok_def by blast
    then show ?thesis using keys_effect_org [OF exec_access_effect k0] that(2) assms(2) by metis
  qed
qed (use assms(1) in \<open>auto simp: assigned_scope_ok_def\<close>)

section \<open>Credentials\<close>

lemma creds_insert_ok:
  "cred_db_ok db \<Longrightarrow> cred_db_ok (snd (creds_insert c db))"
proof (cases "snd (creds_insert c db) = db")
  case False
  assume ok: "cred_db_ok db"
  let ?c = "c\<lparr>pc_has_secret := False\<rparr>"
  have chk: "cred_storage_check ?c" "cred_status_check ?c" "gm_get (cdb_credentials db) (pc_id c) = None"
    and names: "\<And>j x. gm_get (cdb_credentials db) j = Some x \<Longrightarrow> credential_name_slot x \<noteq> credential_name_slot c"
    and db': "snd (creds_insert c db) = db\<lparr>cdb_credentials := gm_put (pc_id c) ?c (cdb_credentials db)\<rparr>"
    using False gm_value [of "cdb_credentials db"]
    by (auto simp: creds_insert_def credential_name_slot_def cred_storage_check_def cred_status_check_def split: if_splits)
  have "credentials_ok (gm_put (pc_id c) ?c (cdb_credentials db))"
    using ok chk names unfolding cred_db_ok_def credentials_ok_def
    by (auto intro!: keyed_by_put unique_on_put simp: credential_name_slot_def split: if_splits)
  moreover have "assignments_ok (cdb_access db) (gm_put (pc_id c) ?c (cdb_credentials db)) (cdb_assignments db)"
    using ok chk(3) unfolding cred_db_ok_def assignments_ok_def by (auto split: if_splits) (metis option.distinct(1))+
  ultimately show ?thesis using ok by (simp add: cred_db_ok_def db')
qed simp

lemma creds_modify_ok:
  assumes ok: "cred_db_ok db"
    and same: "\<And>c. pc_id (f c) = pc_id c \<and> pc_organization_id (f c) = pc_organization_id c \<and> pc_provider_type (f c) = pc_provider_type c"
  shows "cred_db_ok (snd (creds_modify i f db))"
proof (cases "snd (creds_modify i f db) = db")
  case False
  then obtain c where c: "gm_get (cdb_credentials db) i = Some c" "cred_storage_check (f c)" "cred_status_check (f c)"
    and names: "\<not> (\<exists>(j, x)\<in>set (cdb_credentials db). j \<noteq> i \<and> pc_organization_id x = pc_organization_id (f c) \<and> pc_name x = pc_name (f c))"
    and db': "snd (creds_modify i f db) = db\<lparr>cdb_credentials := gm_put i (f c) (cdb_credentials db)\<rparr>"
    by (auto simp: creds_modify_def split: option.splits if_splits)
  have u: "credential_name_slot w \<noteq> credential_name_slot (f c)" if "gm_get (cdb_credentials db) j = Some w" "j \<noteq> i" for j w
    using names map_of_SomeD [OF that(1)] that(2) by (auto simp: credential_name_slot_def)
  have "credentials_ok (gm_put i (f c) (cdb_credentials db))"
    using ok c u same unfolding cred_db_ok_def credentials_ok_def
    by (auto intro!: keyed_by_put unique_on_put split: if_splits) (auto simp: keyed_by_def)
  moreover have "assignments_ok (cdb_access db) (gm_put i (f c) (cdb_credentials db)) (cdb_assignments db)"
    using ok c(1) same unfolding cred_db_ok_def assignments_ok_def gm_get_put by (metis option.inject)
  ultimately show ?thesis using ok by (simp add: cred_db_ok_def db')
qed (simp add: ok)

lemma creds_update_ok:
  "cred_db_ok db \<Longrightarrow> cred_db_ok (snd (creds_update_meta i name status now db))"
  "cred_db_ok db \<Longrightarrow> cred_db_ok (snd (creds_update_secret i ref payload version now db))"
  unfolding creds_update_meta_def creds_update_secret_def by (auto intro: creds_modify_ok)

text \<open>A credential that is deleted has no assignments left.\<close>

lemma creds_delete_ok: "cred_db_ok db \<Longrightarrow> cred_db_ok (snd (creds_delete i db))"
proof (cases "gm_get (cdb_credentials db) i")
  case (Some c)
  assume ok: "cred_db_ok db"
  have wf: "gm_wf (cdb_assignments db)" using ok by (simp add: cred_db_ok_def assignments_ok_def keyed_by_def)
  have "credentials_ok (gm_del i (cdb_credentials db))"
    using ok unfolding cred_db_ok_def credentials_ok_def by (auto intro: keyed_by_del unique_on_del split: if_splits)
  moreover have "assignments_ok (cdb_access db) (gm_del i (cdb_credentials db))
      (filter (\<lambda>(_, a). asn_credential_id a \<noteq> i) (cdb_assignments db))"
    using ok wf unfolding cred_db_ok_def assignments_ok_def
    by (auto intro: keyed_by_filter unique_on_filter simp: gm_get_filter)
  ultimately show ?thesis using ok Some by (simp add: cred_db_ok_def creds_delete_def)
qed (simp add: creds_delete_def)

lemma delete_assignment_ok: "cred_db_ok db \<Longrightarrow> cred_db_ok (snd (delete_assignment i db))"
  unfolding cred_db_ok_def assignments_ok_def delete_assignment_def
  by (auto intro: keyed_by_del unique_on_del split: if_splits)

text \<open>Assigning: the scope was checked against the credential's organization.\<close>

lemma check_assignment_scope_Inr:
  assumes "check_assignment_scope db st si org = Inr ()" "valid_assignment_scope st"
    and "asn_scope_type a = st" "asn_scope_id a = si" "asn_organization_id a = org"
  shows "assigned_scope_ok (cdb_access db) a"
  using assms
  by (auto simp: check_assignment_scope_def assigned_scope_ok_def project_belongs_to_org_def api_key_belongs_to_org_def
      projects_org_id_def keys_get_def found_def bind_res_def ScopeOrganization_def ScopeProject_def ScopeAPIKey_def
      split: if_splits sum.splits option.splits)

lemma upsert_assignment_ok:
  assumes ok: "cred_db_ok db" and scope: "assigned_scope_ok (cdb_access db) a"
    and cred: "gm_get (cdb_credentials db) (asn_credential_id a) = Some c" "pc_organization_id c = asn_organization_id a"
      "pc_provider_type c = asn_provider_type a"
  shows "cred_db_ok (snd (upsert_assignment a db))"
proof -
  let ?m = "filter (\<lambda>(_, x). \<not> same_slot x a) (cdb_assignments db)"
  let ?db = "db\<lparr>cdb_assignments := ?m\<rparr>"
  have wf: "gm_wf (cdb_assignments db)" using ok by (simp add: cred_db_ok_def assignments_ok_def keyed_by_def)
  have m: "assignments_ok (cdb_access db) (cdb_credentials db) ?m"
    using ok wf unfolding cred_db_ok_def assignments_ok_def
    by (auto intro: keyed_by_filter unique_on_filter simp: gm_get_filter)
  have "assignments_ok (cdb_access db) (cdb_credentials db) (gm_put (asn_id a) a ?m)"
    using m scope cred unfolding assignments_ok_def
    by (auto intro!: keyed_by_put unique_on_put simp: gm_get_filter [OF wf] assignment_slot_def same_slot_def split: if_splits)
  then have "cred_db_ok (snd (insert_assignment a ?db))"
    using ok m by (simp add: insert_assignment_def cred_db_ok_def)
  then show ?thesis by (auto simp: upsert_assignment_def db_bind_def split: prod.splits sum.splits)
qed

lemma assign_credential_ok:
  assumes "cred_db_ok db" shows "cred_db_ok (snd (assign_credential now i cred st si by' db))"
proof -
  have id: "pc_id c = cred" if "creds_get db cred = Inr c" for c
    using assms that by (auto simp: creds_get_def found_Inr_iff cred_db_ok_def credentials_ok_def keyed_by_def)
  have get: "gm_get (cdb_credentials db) cred = Some c" if "creds_get db cred = Inr c" for c
    using that by (simp add: creds_get_def found_Inr_iff)
  show ?thesis
    using assms id get unfolding assign_credential_def Let_def validate_assignment_scope_def
    by (auto intro!: db_check_keeps [where P = cred_db_ok] upsert_assignment_ok check_assignment_scope_Inr split: if_splits)
qed

lemma create_credential_ok: "cred_db_ok db \<Longrightarrow> cred_db_ok (snd (create_credential seal now i org name pt kind ref val db))"
  unfolding create_credential_def Let_def
  by (auto intro!: db_check_keeps [where P = cred_db_ok] db_bind_keeps [where P = cred_db_ok] creds_insert_ok split: prod.splits)

lemma rotate_secret_ok: "cred_db_ok db \<Longrightarrow> cred_db_ok (snd (rotate_secret seal now i ref val db))"
  unfolding rotate_secret_def
  by (auto intro!: db_check_keeps [where P = cred_db_ok] db_bind_keeps [where P = cred_db_ok] creds_update_ok split: prod.splits)

lemma delete_credential_ok: "cred_db_ok db \<Longrightarrow> cred_db_ok (snd (command_delete_credential i db))"
  unfolding command_delete_credential_def delete_credential_def
  by (auto intro!: db_check_keeps [where P = cred_db_ok] creds_delete_ok)

lemma snd_reply_with [simp]: "snd (reply_with st nf bad cf r) = snd r"
  by (auto simp: reply_with_def split: prod.splits sum.splits)

lemma handlers_ok:
  assumes "cred_db_ok db"
  shows "cred_db_ok (snd (handle_create_credential seal now i org body db))"
    "cred_db_ok (snd (handle_update_credential now i body2 db))"
    "cred_db_ok (snd (handle_rotate_credential seal now i body2 db))"
    "cred_db_ok (snd (handle_delete_credential i db))"
    "cred_db_ok (snd (handle_assign_credential now i caller org body3 db))"
    "cred_db_ok (snd (handle_delete_assignment i db))"
  using assms
  by (auto simp: handle_create_credential_def handle_update_credential_def handle_rotate_credential_def
      handle_delete_credential_def handle_assign_credential_def handle_delete_assignment_def command_delete_assignment_def
      create_credential_ok creds_update_ok rotate_secret_ok delete_credential_ok assign_credential_ok
      intro!: db_check_keeps [where P = cred_db_ok] delete_assignment_ok split: option.split sum.split)

lemma access_step_ok:
  assumes ok: "cred_db_ok db" and fresh: "fresh_key_ids (cdb_access db) (exec_access sha pub op (cdb_access db)) (cdb_assignments db)"
  shows "cred_db_ok (db\<lparr>cdb_access := exec_access sha pub op (cdb_access db)\<rparr>)"
proof -
  have "assigned_scope_ok (exec_access sha pub op (cdb_access db)) a" if "gm_get (cdb_assignments db) i = Some a" for i a
    by (rule assigned_scope_access [OF _ refl])
      (use ok fresh that in \<open>auto simp: cred_db_ok_def assignments_ok_def fresh_key_ids_def\<close>)
  then show ?thesis
    using ok exec_access_scoped unfolding cred_db_ok_def assignments_ok_def by auto
qed

lemma cred_step_ok: "cred_step sha pub db db' \<Longrightarrow> cred_db_ok db \<Longrightarrow> cred_db_ok db'"
  by (induction rule: cred_step.induct) (simp_all add: handlers_ok access_step_ok)

text \<open>
  C36: A credential never serves a scope of another organization. Whatever sequence of operations
  on tenants, keys, credentials and assignments runs, every assignment names an existing
  credential of its own organization and provider type, its scope is that organization, a project
  of it or, as long as the key exists, a key of it, and no scope has two assignments for one
  provider type; credentials have the material their storage kind needs and unique names.
\<close>
theorem assignments_scoped:
  assumes "(cred_step sha pub)\<^sup>*\<^sup>* db db'" "cred_db_ok db"
  shows "cred_db_ok db'"
  using assms by (induction rule: rtranclp_induct) (auto intro: cred_step_ok)

end
