(* ===== verification/Config_Entities.thy ===== *)
theory Config_Entities
  imports Gateway_Config Policy Store Json
begin

text \<open>
  The rest of the gateway configuration an operator edits
  (\<^verbatim>\<open>src/internal/gatewayconfig\<close>): request policies with their then-actions, sandboxed
  hooks, MCP back ends, A2A agents and the object store of an organization; how each is built,
  patched and normalised. A \<^verbatim>\<open>json.RawMessage\<close> is the JSON value it denotes. The CEL
  compiler and \<^verbatim>\<open>net/url\<close> are arguments.
\<close>

section \<open>Request policies\<close>

record request_policy =
  rp_id :: string
  rp_organization_id :: string
  rp_name :: string
  rp_expression :: string
  rp_actions :: "policy_action list"
  rp_enabled :: bool
  rp_priority :: int
  rp_created_at :: gotime

record set_header_config =
  sh_header :: string
  sh_value :: string
  sh_value_expr :: string

record use_credential_config =
  uc_credential_name :: string
  uc_credential_name_expr :: string

text \<open>\<^verbatim>\<open>ExpressionValidator\<close>: what the compiler says to a condition and to a string expression.\<close>

record cel_validator =
  cv_validate :: "string \<Rightarrow> string option"
  cv_validate_string :: "string \<Rightarrow> string option"

definition check_string_expr :: "cel_validator option \<Rightarrow> string \<Rightarrow> string \<Rightarrow> unit res" where
  "check_string_expr v what e =
     (case v of None \<Rightarrow> Inr ()
      | Some v \<Rightarrow> (case cv_validate_string v e of None \<Rightarrow> Inr () | Some msg \<Rightarrow> Inl (invalid (''invalid '' @ what @ '': '' @ msg))))"

definition decode_set_header :: "raw_json \<Rightarrow> set_header_config res" where
  "decode_set_header raw =
     (let zero = \<lparr>sh_header = [], sh_value = [], sh_value_expr = []\<rparr> in
      case raw of None \<Rightarrow> Inr zero
      | Some j \<Rightarrow> dec_struct
          [field ''header'' dec_string sh_header (\<lambda>x r. r\<lparr>sh_header := x\<rparr>),
           field ''value'' dec_string sh_value (\<lambda>x r. r\<lparr>sh_value := x\<rparr>),
           field ''value_expr'' dec_string sh_value_expr (\<lambda>x r. r\<lparr>sh_value_expr := x\<rparr>)] j zero)"

definition decode_use_credential :: "raw_json \<Rightarrow> use_credential_config res" where
  "decode_use_credential raw =
     (let zero = \<lparr>uc_credential_name = [], uc_credential_name_expr = []\<rparr> in
      case raw of None \<Rightarrow> Inr zero
      | Some j \<Rightarrow> dec_struct
          [field ''credential_name'' dec_string uc_credential_name (\<lambda>x r. r\<lparr>uc_credential_name := x\<rparr>),
           field ''credential_name_expr'' dec_string uc_credential_name_expr (\<lambda>x r. r\<lparr>uc_credential_name_expr := x\<rparr>)] j zero)"

definition encode_set_header :: "set_header_config \<Rightarrow> json" where
  "encode_set_header c =
     JObj ([(''header'', JStr (sh_header c))] @ opt_member (sh_value c \<noteq> []) ''value'' (JStr (sh_value c)) @
       opt_member (sh_value_expr c \<noteq> []) ''value_expr'' (JStr (sh_value_expr c)))"

definition encode_use_credential :: "use_credential_config \<Rightarrow> json" where
  "encode_use_credential c =
     JObj (opt_member (uc_credential_name c \<noteq> []) ''credential_name'' (JStr (uc_credential_name c)) @
       opt_member (uc_credential_name_expr c \<noteq> []) ''credential_name_expr'' (JStr (uc_credential_name_expr c)))"

text \<open>An expression wins over the constant, which is then dropped.\<close>

definition normalize_set_header :: "raw_json \<Rightarrow> cel_validator option \<Rightarrow> set_header_config res" where
  "normalize_set_header raw v =
     (case decode_set_header raw of
        Inl _ \<Rightarrow> Inl (invalid ''invalid set_header config'')
      | Inr c0 \<Rightarrow>
          let c = \<lparr>sh_header = trim_space (sh_header c0), sh_value = trim_space (sh_value c0),
                   sh_value_expr = trim_space (sh_value_expr c0)\<rparr> in
          if sh_header c = [] then Inl (invalid ''set_header requires header'')
          else if sh_value_expr c \<noteq> []
            then bind_res (check_string_expr v ''value_expr'' (sh_value_expr c)) (\<lambda>_. Inr (c\<lparr>sh_value := []\<rparr>))
          else Inr c)"

definition normalize_use_credential :: "raw_json \<Rightarrow> cel_validator option \<Rightarrow> use_credential_config res" where
  "normalize_use_credential raw v =
     (case decode_use_credential raw of
        Inl _ \<Rightarrow> Inl (invalid ''invalid use_credential config'')
      | Inr c0 \<Rightarrow>
          let c = \<lparr>uc_credential_name = trim_space (uc_credential_name c0),
                   uc_credential_name_expr = trim_space (uc_credential_name_expr c0)\<rparr> in
          if uc_credential_name_expr c \<noteq> []
            then bind_res (check_string_expr v ''credential_name_expr'' (uc_credential_name_expr c)) (\<lambda>_. Inr (c\<lparr>uc_credential_name := []\<rparr>))
          else if uc_credential_name c = [] then Inl (invalid ''use_credential requires credential_name or credential_name_expr'')
          else Inr c)"

definition normalize_action_config ::
  "string \<Rightarrow> raw_json \<Rightarrow> cel_validator option \<Rightarrow> (string \<times> raw_json) res" where
  "normalize_action_config action0 raw v =
     (let action1 = trim_space (to_lower action0); action = (if action1 = [] then ActionDeny else action1) in
      if action = ActionAllow \<or> action = ActionDeny then Inr (action, Some (JObj []))
      else if action = ActionSetHeader
        then bind_res (normalize_set_header raw v) (\<lambda>c. Inr (action, Some (encode_set_header c)))
      else if action = ActionUseCredential
        then bind_res (normalize_use_credential raw v) (\<lambda>c. Inr (action, Some (encode_use_credential c)))
      else Inl (invalid ''unknown action (allow|deny|set_header|use_credential)''))"

definition normalize_action :: "cel_validator option \<Rightarrow> policy_action \<Rightarrow> policy_action res" where
  "normalize_action v a =
     bind_res (normalize_action_config (pa_type a) (pa_config a) v) (\<lambda>(typ, cfg). Inr \<lparr>pa_type = typ, pa_config = cfg\<rparr>)"

definition normalize_actions :: "cel_validator option \<Rightarrow> policy_action list \<Rightarrow> policy_action list res" where
  "normalize_actions v actions =
     (if actions = [] then Inl (invalid ''at least one then action required'') else map_res (normalize_action v) actions)"

definition legacy_single_action :: "string \<Rightarrow> raw_json \<Rightarrow> policy_action list" where
  "legacy_single_action action0 cfg =
     (let action = trim_space action0 in
      if action = [] then []
      else [\<lparr>pa_type = action, pa_config = (if cfg = None then Some (JObj []) else cfg)\<rparr>])"

definition check_condition :: "cel_validator option \<Rightarrow> string \<Rightarrow> unit res" where
  "check_condition v e =
     (case v of None \<Rightarrow> Inr ()
      | Some v \<Rightarrow> (case cv_validate v e of None \<Rightarrow> Inr () | Some msg \<Rightarrow> Inl (invalid (''invalid CEL expression: '' @ msg))))"

definition new_request_policy ::
  "cel_validator option \<Rightarrow> gotime \<Rightarrow> string \<Rightarrow> string \<Rightarrow> string \<Rightarrow> string \<Rightarrow> policy_action list \<Rightarrow> bool \<Rightarrow> int \<Rightarrow>
   request_policy res" where
  "new_request_policy v now i org name0 expr0 actions enabled priority =
     (let name = trim_space name0; expr = trim_space expr0 in
      if i = [] \<or> org = [] then Inl (invalid ''id and organization_id required'')
      else if name = [] \<or> expr = [] then Inl (invalid ''name and expression required'')
      else bind_res (check_condition v expr) (\<lambda>_.
        bind_res (normalize_actions v actions) (\<lambda>acts.
          Inr \<lparr>rp_id = i, rp_organization_id = org, rp_name = name, rp_expression = expr, rp_actions = acts,
               rp_enabled = enabled, rp_priority = priority, rp_created_at = now\<rparr>)))"

text \<open>A patch: the fields that are present, validated one after the other.\<close>

definition patch :: "'a option \<Rightarrow> ('a \<Rightarrow> 'r \<Rightarrow> 'r res) \<Rightarrow> 'r \<Rightarrow> 'r res" where
  "patch x f r = (case x of None \<Rightarrow> Inr r | Some v \<Rightarrow> f v r)"

definition required :: "string \<Rightarrow> (string \<Rightarrow> 'r) \<Rightarrow> string \<Rightarrow> 'r res" where
  "required msg f s0 = (let s = trim_space s0 in if s = [] then Inl (invalid msg) else Inr (f s))"

definition apply_policy_patch ::
  "cel_validator option \<Rightarrow> string option \<Rightarrow> string option \<Rightarrow> policy_action list option \<Rightarrow> bool option \<Rightarrow> int option \<Rightarrow>
   request_policy \<Rightarrow> request_policy res" where
  "apply_policy_patch v name expr actions enabled priority p =
     bind_res (patch name (\<lambda>x r. required ''name required'' (\<lambda>n. r\<lparr>rp_name := n\<rparr>) x) p) (\<lambda>p.
     bind_res (patch expr (\<lambda>x r. bind_res (required ''expression required'' id x) (\<lambda>e.
       bind_res (check_condition v e) (\<lambda>_. Inr (r\<lparr>rp_expression := e\<rparr>)))) p) (\<lambda>p.
     bind_res (patch actions (\<lambda>x r. bind_res (normalize_actions v x) (\<lambda>acts. Inr (r\<lparr>rp_actions := acts\<rparr>))) p) (\<lambda>p.
     bind_res (patch enabled (\<lambda>x r. Inr (r\<lparr>rp_enabled := x\<rparr>)) p) (\<lambda>p.
       patch priority (\<lambda>x r. Inr (r\<lparr>rp_priority := x\<rparr>)) p))))"

section \<open>Sandboxed hooks\<close>

definition WasmPhaseBeforeCall :: string where "WasmPhaseBeforeCall = ''before_call''"
definition WasmPhaseBeforeChat :: string where "WasmPhaseBeforeChat = ''before_chat''"
definition WasmPhaseAfterCall :: string where "WasmPhaseAfterCall = ''after_call''"

record gc_wasm_hook =
  wm_id :: string
  wm_organization_id :: string
  wm_name :: string
  wm_phase :: string
  wm_module_uri :: string
  wm_digest :: string
  wm_enabled :: bool
  wm_priority :: int
  wm_config :: raw_json
  wm_created_at :: gotime

definition parse_wasm_phase :: "string \<Rightarrow> string res" where
  "parse_wasm_phase phase =
     (if trim_space phase \<in> {WasmPhaseBeforeCall, WasmPhaseBeforeChat, WasmPhaseAfterCall} then Inr (trim_space phase)
      else Inl (invalid ''phase must be before_call, before_chat, or after_call''))"

definition or_empty_object :: "raw_json \<Rightarrow> raw_json" where
  "or_empty_object c = (case c of None \<Rightarrow> Some (JObj []) | Some j \<Rightarrow> Some j)"

definition new_wasm_hook ::
  "gotime \<Rightarrow> string \<Rightarrow> string \<Rightarrow> string \<Rightarrow> string \<Rightarrow> string \<Rightarrow> string \<Rightarrow> bool \<Rightarrow> int \<Rightarrow> raw_json \<Rightarrow> gc_wasm_hook res" where
  "new_wasm_hook now i org name0 phase uri0 digest0 enabled priority config =
     (let name = trim_space name0; uri = trim_space uri0; digest = trim_space (to_lower digest0) in
      if i = [] \<or> org = [] then Inl (invalid ''id and organization_id required'')
      else if name = [] then Inl (invalid ''name required'')
      else bind_res (parse_wasm_phase phase) (\<lambda>ph.
        if uri = [] then Inl (invalid ''module_uri required'')
        else Inr \<lparr>wm_id = i, wm_organization_id = org, wm_name = name, wm_phase = ph, wm_module_uri = uri, wm_digest = digest,
                  wm_enabled = enabled, wm_priority = priority, wm_config = or_empty_object config, wm_created_at = now\<rparr>))"

text \<open>\<open>config\<close> is absent or a JSON value; the empty slice cannot come from a JSON body.\<close>

definition apply_wasm_hook_patch ::
  "string option \<Rightarrow> string option \<Rightarrow> string option \<Rightarrow> string option \<Rightarrow> bool option \<Rightarrow> int option \<Rightarrow> raw_json \<Rightarrow>
   gc_wasm_hook \<Rightarrow> gc_wasm_hook res" where
  "apply_wasm_hook_patch name phase uri digest enabled priority config h =
     bind_res (patch name (\<lambda>x r. required ''name required'' (\<lambda>n. r\<lparr>wm_name := n\<rparr>) x) h) (\<lambda>h.
     bind_res (patch phase (\<lambda>x r. bind_res (parse_wasm_phase x) (\<lambda>ph. Inr (r\<lparr>wm_phase := ph\<rparr>))) h) (\<lambda>h.
     bind_res (patch uri (\<lambda>x r. required ''module_uri required'' (\<lambda>u. r\<lparr>wm_module_uri := u\<rparr>) x) h) (\<lambda>h.
     bind_res (patch digest (\<lambda>x r. Inr (r\<lparr>wm_digest := trim_space (to_lower x)\<rparr>)) h) (\<lambda>h.
     bind_res (patch enabled (\<lambda>x r. Inr (r\<lparr>wm_enabled := x\<rparr>)) h) (\<lambda>h.
     bind_res (patch priority (\<lambda>x r. Inr (r\<lparr>wm_priority := x\<rparr>)) h) (\<lambda>h.
       patch config (\<lambda>x r. Inr (r\<lparr>wm_config := Some x\<rparr>)) h))))))"

section \<open>MCP back ends\<close>

record gc_mcp_backend =
  bk_id :: string
  bk_organization_id :: string
  bk_alias :: string
  bk_name :: string
  bk_base_url :: string
  bk_api_key_env :: string
  bk_method_allowlist :: raw_json
  bk_enabled :: bool
  bk_created_at :: gotime

text \<open>The pattern \<^verbatim>\<open>^[a-z0-9]([a-z0-9-]{0,61}[a-z0-9])?$\<close>.\<close>

definition alias_char :: "char \<Rightarrow> bool" where
  "alias_char c \<longleftrightarrow> (CHR ''a'' \<le> c \<and> c \<le> CHR ''z'') \<or> (CHR ''0'' \<le> c \<and> c \<le> CHR ''9'')"

definition matches_alias :: "string \<Rightarrow> bool" where
  "matches_alias s \<longleftrightarrow> s \<noteq> [] \<and> length s \<le> 63 \<and> list_all (\<lambda>c. alias_char c \<or> c = CHR ''-'') s \<and>
     alias_char (s ! 0) \<and> alias_char (last s)"

definition parse_mcp_alias :: "string \<Rightarrow> string res" where
  "parse_mcp_alias alias0 =
     (let a = to_lower (trim_space alias0) in
      if a = [] then Inl (invalid ''alias required'')
      else if \<not> matches_alias a then Inl (invalid ''alias must be lowercase alphanumeric with optional hyphens (1-63 chars)'')
      else Inr a)"

text \<open>\<open>url\<close> is \<^verbatim>\<open>url.Parse\<close>: the scheme and the host, or an error.\<close>

type_synonym url_parser = "string \<Rightarrow> (string \<times> string) option"

definition parse_mcp_base_url :: "url_parser \<Rightarrow> string \<Rightarrow> string res" where
  "parse_mcp_base_url url raw0 =
     (let raw = trim_space raw0 in
      if raw = [] then Inl (invalid ''base_url required'')
      else (case url raw of
          None \<Rightarrow> Inl (invalid ''base_url must be an absolute http(s) URL'')
        | Some (scheme, host) \<Rightarrow>
            if scheme = [] \<or> host = [] then Inl (invalid ''base_url must be an absolute http(s) URL'')
            else if scheme \<noteq> ''http'' \<and> scheme \<noteq> ''https'' then Inl (invalid ''base_url scheme must be http or https'')
            else Inr (trim_right_slashes raw)))"

definition decode_strings :: "json \<Rightarrow> string list res" where
  "decode_strings j = dec_slice [] dec_string j []"

definition normalize_method_allowlist :: "raw_json \<Rightarrow> raw_json res" where
  "normalize_method_allowlist raw =
     (case raw of None \<Rightarrow> Inr (Some (JArr []))
      | Some j \<Rightarrow> (case decode_strings j of
            Inl _ \<Rightarrow> Inl (invalid ''method_allowlist must be a JSON array of strings'')
          | Inr ms \<Rightarrow> Inr (Some (JArr (map JStr (filter (\<lambda>m. m \<noteq> []) (map trim_space ms)))))))"

definition new_mcp_backend ::
  "url_parser \<Rightarrow> gotime \<Rightarrow> string \<Rightarrow> string \<Rightarrow> string \<Rightarrow> string \<Rightarrow> string \<Rightarrow> string \<Rightarrow> raw_json \<Rightarrow> bool \<Rightarrow> gc_mcp_backend res" where
  "new_mcp_backend url now i org alias name0 base env allow enabled =
     (if i = [] \<or> org = [] then Inl (invalid ''id and organization_id required'')
      else bind_res (required ''name required'' id name0) (\<lambda>name.
        bind_res (parse_mcp_alias alias) (\<lambda>a.
        bind_res (parse_mcp_base_url url base) (\<lambda>b.
        bind_res (normalize_method_allowlist allow) (\<lambda>al.
          Inr \<lparr>bk_id = i, bk_organization_id = org, bk_alias = a, bk_name = name, bk_base_url = b,
               bk_api_key_env = trim_space env, bk_method_allowlist = al, bk_enabled = enabled, bk_created_at = now\<rparr>)))))"

definition apply_mcp_backend_patch ::
  "url_parser \<Rightarrow> string option \<Rightarrow> string option \<Rightarrow> string option \<Rightarrow> string option \<Rightarrow> raw_json \<Rightarrow> bool option \<Rightarrow>
   gc_mcp_backend \<Rightarrow> gc_mcp_backend res" where
  "apply_mcp_backend_patch url alias name base env allow enabled b =
     bind_res (patch alias (\<lambda>x r. bind_res (parse_mcp_alias x) (\<lambda>a. Inr (r\<lparr>bk_alias := a\<rparr>))) b) (\<lambda>b.
     bind_res (patch name (\<lambda>x r. required ''name required'' (\<lambda>n. r\<lparr>bk_name := n\<rparr>) x) b) (\<lambda>b.
     bind_res (patch base (\<lambda>x r. bind_res (parse_mcp_base_url url x) (\<lambda>u. Inr (r\<lparr>bk_base_url := u\<rparr>))) b) (\<lambda>b.
     bind_res (patch env (\<lambda>x r. Inr (r\<lparr>bk_api_key_env := trim_space x\<rparr>)) b) (\<lambda>b.
     bind_res (patch allow (\<lambda>x r. bind_res (normalize_method_allowlist (Some x)) (\<lambda>al. Inr (r\<lparr>bk_method_allowlist := al\<rparr>))) b) (\<lambda>b.
       patch enabled (\<lambda>x r. Inr (r\<lparr>bk_enabled := x\<rparr>)) b)))))"

section \<open>A2A agents\<close>

record gc_a2a_agent =
  ag_id :: string
  ag_organization_id :: string
  ag_alias :: string
  ag_name :: string
  ag_upstream_url :: string
  ag_card_url :: string
  ag_card_cache :: raw_json
  ag_api_key_env :: string
  ag_auth_scheme :: string
  ag_enabled :: bool
  ag_created_at :: gotime

definition parse_a2a_alias :: "string \<Rightarrow> string res" where "parse_a2a_alias = parse_mcp_alias"
definition parse_a2a_url :: "url_parser \<Rightarrow> string \<Rightarrow> string res" where "parse_a2a_url = parse_mcp_base_url"

text \<open>Valid JSON is kept as it is, \<^verbatim>\<open>null\<close> included.\<close>

definition normalize_card_cache :: "raw_json \<Rightarrow> raw_json res" where
  "normalize_card_cache raw = Inr raw"

definition parse_card_url :: "url_parser \<Rightarrow> string \<Rightarrow> string \<Rightarrow> string res" where
  "parse_card_url url msg c0 =
     (let c = trim_space c0 in
      if c = [] then Inr [] else (case parse_a2a_url url c of Inl _ \<Rightarrow> Inl (invalid msg) | Inr u \<Rightarrow> Inr u))"

definition new_a2a_agent ::
  "url_parser \<Rightarrow> gotime \<Rightarrow> string \<Rightarrow> string \<Rightarrow> string \<Rightarrow> string \<Rightarrow> string \<Rightarrow> string \<Rightarrow> string \<Rightarrow> string \<Rightarrow> raw_json \<Rightarrow>
   bool \<Rightarrow> gc_a2a_agent res" where
  "new_a2a_agent url now i org alias name0 upstream curl env scheme cache enabled =
     (if i = [] \<or> org = [] then Inl (invalid ''id and organization_id required'')
      else bind_res (required ''name required'' id name0) (\<lambda>name.
        bind_res (parse_a2a_alias alias) (\<lambda>a.
        bind_res (parse_a2a_url url upstream) (\<lambda>u.
        bind_res (parse_card_url url ''card_url must be an absolute http(s) URL'' curl) (\<lambda>c.
        bind_res (normalize_card_cache cache) (\<lambda>cc.
          Inr \<lparr>ag_id = i, ag_organization_id = org, ag_alias = a, ag_name = name, ag_upstream_url = u, ag_card_url = c,
               ag_card_cache = cc, ag_api_key_env = trim_space env, ag_auth_scheme = trim_space scheme,
               ag_enabled = enabled, ag_created_at = now\<rparr>))))))"

definition apply_a2a_agent_patch ::
  "url_parser \<Rightarrow> string option \<Rightarrow> string option \<Rightarrow> string option \<Rightarrow> string option \<Rightarrow> string option \<Rightarrow> string option \<Rightarrow>
   raw_json \<Rightarrow> bool option \<Rightarrow> gc_a2a_agent \<Rightarrow> gc_a2a_agent res" where
  "apply_a2a_agent_patch url alias name upstream curl env scheme cache enabled a =
     bind_res (patch alias (\<lambda>x r. bind_res (parse_a2a_alias x) (\<lambda>s. Inr (r\<lparr>ag_alias := s\<rparr>))) a) (\<lambda>a.
     bind_res (patch name (\<lambda>x r. required ''name required'' (\<lambda>n. r\<lparr>ag_name := n\<rparr>) x) a) (\<lambda>a.
     bind_res (patch upstream (\<lambda>x r. bind_res (parse_a2a_url url x) (\<lambda>u. Inr (r\<lparr>ag_upstream_url := u\<rparr>))) a) (\<lambda>a.
     bind_res (patch curl (\<lambda>x r. bind_res (parse_card_url url ''card_url invalid'' x) (\<lambda>u. Inr (r\<lparr>ag_card_url := u\<rparr>))) a) (\<lambda>a.
     bind_res (patch env (\<lambda>x r. Inr (r\<lparr>ag_api_key_env := trim_space x\<rparr>)) a) (\<lambda>a.
     bind_res (patch scheme (\<lambda>x r. Inr (r\<lparr>ag_auth_scheme := trim_space x\<rparr>)) a) (\<lambda>a.
     bind_res (patch cache (\<lambda>x r. bind_res (normalize_card_cache (Some x)) (\<lambda>c. Inr (r\<lparr>ag_card_cache := c\<rparr>))) a) (\<lambda>a.
       patch enabled (\<lambda>x r. Inr (r\<lparr>ag_enabled := x\<rparr>)) a)))))))"

section \<open>Object store\<close>

definition normalize_object_store :: "object_store_config option \<Rightarrow> object_store_config option res" where
  "normalize_object_store c =
     (case c of None \<Rightarrow> Inr None
      | Some c \<Rightarrow>
          let c1 = c\<lparr>os_endpoint := trim_space (os_endpoint c), os_region := trim_space (os_region c),
                os_bucket := trim_space (os_bucket c), os_credential_id := trim_space (os_credential_id c),
                os_access_key_env := trim_space (os_access_key_env c), os_secret_key_env := trim_space (os_secret_key_env c)\<rparr> in
          if os_presign_ttl_seconds c1 < 0 then Inl (invalid ''presign_ttl_seconds must be >= 0'')
          else if \<not> os_enabled c1 then Inr (Some c1)
          else if os_endpoint c1 = [] then Inl (invalid ''endpoint is required when object store is enabled'')
          else if os_bucket c1 = [] then Inl (invalid ''bucket is required when object store is enabled'')
          else if os_credential_id c1 = [] \<and> (os_access_key_env c1 = [] \<or> os_secret_key_env c1 = [])
            then Inl (invalid ''credential_id or both access_key_env and secret_key_env are required when enabled'')
          else Inr (Some (c1\<lparr>os_presign_ttl_seconds := (if os_presign_ttl_seconds c1 = 0 then 3600 else os_presign_ttl_seconds c1),
              os_region := (if os_region c1 = [] then ''us-east-1'' else os_region c1)\<rparr>)))"

end
