(* ===== verification/Config_Tables.thy ===== *)
theory Config_Tables
  imports Config_Entities Credentials Access_Scopes Snapshot
begin

text \<open>
  The tables of the gateway configuration (\<^verbatim>\<open>src/internal/adapters/postgres\<close>:
  \<^verbatim>\<open>providers_routes.go\<close>, \<^verbatim>\<open>quotas.go\<close>, \<^verbatim>\<open>policies.go\<close>, \<^verbatim>\<open>wasm_hooks.go\<close>, \<^verbatim>\<open>mcp_backends.go\<close>,
  \<^verbatim>\<open>a2a_agents.go\<close>, \<^verbatim>\<open>tenancy.go\<close>) with the keys of the schema, the services that write them
  (\<^verbatim>\<open>src/internal/gatewayconfig\<close>), and how the rows are loaded into a compile source
  (\<^verbatim>\<open>snapshot_source.go\<close>). A JSON column is the value that was stored.
\<close>

section \<open>Rows\<close>

record config_tables =
  tab_providers :: "(string, gc_provider) gomap"
  tab_routes :: "(string, gc_route) gomap"
  tab_quotas :: "(string, gc_quota) gomap"
  tab_policies :: "(string, request_policy) gomap"
  tab_wasm_hooks :: "(string, gc_wasm_hook) gomap"
  tab_mcp_backends :: "(string, gc_mcp_backend) gomap"
  tab_a2a_agents :: "(string, gc_a2a_agent) gomap"
  tab_default_retries :: "(string, retry_config) gomap"
  tab_object_stores :: "(string, object_store_config) gomap"

definition empty_config :: config_tables where
  "empty_config = \<lparr>tab_providers = [], tab_routes = [], tab_quotas = [], tab_policies = [], tab_wasm_hooks = [],
     tab_mcp_backends = [], tab_a2a_agents = [], tab_default_retries = [], tab_object_stores = []\<rparr>"

type_synonym 'a config_op = "('a, config_tables) storeop"

text \<open>\<open>orgs\<close> tells which organizations exist. An \<^verbatim>\<open>INT\<close> column has 32 bits.\<close>

definition fits_int4 :: "int \<Rightarrow> bool" where
  "fits_int4 n \<longleftrightarrow> - (2 ^ 31) \<le> n \<and> n < 2 ^ 31"

definition int4_overflow :: err where "int4_overflow = Err ErrOther ''value out of range for type integer''"

definition insert_row :: "(string \<Rightarrow> bool) \<Rightarrow> string \<Rightarrow> string \<Rightarrow> 'v \<Rightarrow> (unit, (string, 'v) gomap) storeop" where
  "insert_row orgs i org row m =
     (if gm_get m i \<noteq> None then (Inl key_violation, m)
      else if \<not> orgs org then (Inl foreign_key_violation, m)
      else (Inr (), gm_put i row m))"

definition update_row :: "string \<Rightarrow> ('v \<Rightarrow> 'v) \<Rightarrow> ('v, (string, 'v) gomap) storeop" where
  "update_row i f m =
     (case gm_get m i of None \<Rightarrow> (Inl (sentinel ErrNotFound), m) | Some v \<Rightarrow> (Inr (f v), gm_put i (f v) m))"

definition delete_row :: "string \<Rightarrow> (unit, (string, 'v) gomap) storeop" where
  "delete_row i m = (if gm_get m i = None then (Inl (sentinel ErrNotFound), m) else (Inr (), gm_del i m))"

definition get_row :: "(string, 'v) gomap \<Rightarrow> string \<Rightarrow> 'v res" where
  "get_row m i = found (gm_get m i)"

definition rows_of_org :: "('v \<Rightarrow> string) \<Rightarrow> string \<Rightarrow> (string, 'v) gomap \<Rightarrow> 'v list" where
  "rows_of_org org_of org m = filter (\<lambda>v. org_of v = org) (map snd m)"

definition on_table :: "('d \<Rightarrow> 't) \<Rightarrow> ('t \<Rightarrow> 'd \<Rightarrow> 'd) \<Rightarrow> ('a, 't) storeop \<Rightarrow> ('a, 'd) storeop" where
  "on_table get upd op db = (case op (get db) of (r, t) \<Rightarrow> (r, upd t db))"

section \<open>Providers and routes\<close>

type_synonym provider_rows = "(string, gc_provider) gomap"
type_synonym route_rows = "(string, gc_route) gomap"

definition provider_scan :: "registry \<Rightarrow> gc_provider \<Rightarrow> gc_provider" where
  "provider_scan reg p = p\<lparr>gp_capabilities := normalize_capabilities reg (gp_type p) (gp_capabilities p),
     gp_config := or_empty_object (gp_config p)\<rparr>"

definition providers_list_by_org :: "registry \<Rightarrow> string \<Rightarrow> provider_rows \<Rightarrow> gc_provider list" where
  "providers_list_by_org reg org m = map (provider_scan reg) (sort_key gp_created_at (rows_of_org gp_organization_id org m))"

definition providers_insert :: "(string \<Rightarrow> bool) \<Rightarrow> gc_provider \<Rightarrow> (unit, provider_rows) storeop" where
  "providers_insert orgs p m =
     (case normalize_provider_config (gp_config p) of
        Inl e \<Rightarrow> (Inl e, m)
      | Inr cfg \<Rightarrow> insert_row orgs (gp_id p) (gp_organization_id p) (p\<lparr>gp_config := cfg\<rparr>) m)"

definition providers_update ::
  "registry \<Rightarrow> string \<Rightarrow> string \<Rightarrow> string \<Rightarrow> string \<Rightarrow> raw_json \<Rightarrow> (gc_provider, provider_rows) storeop" where
  "providers_update reg i name base env config m =
     (case update_row i (\<lambda>p. p\<lparr>gp_name := name, gp_base_url := base, gp_api_key_env := env,
          gp_config := (if config = None then gp_config p else config)\<rparr>) m of
        (Inl e, m') \<Rightarrow> (Inl e, m') | (Inr p, m') \<Rightarrow> (Inr (provider_scan reg p), m'))"

definition providers_org_id :: "provider_rows \<Rightarrow> string \<Rightarrow> string res" where
  "providers_org_id m i = bind_res (get_row m i) (\<lambda>p. Inr (gp_organization_id p))"

text \<open>The routes of a deleted provider go with it; fall-backs inside other routes stay.\<close>

definition providers_delete :: "string \<Rightarrow> unit config_op" where
  "providers_delete i db =
     (if gm_get (tab_providers db) i = None then (Inl (sentinel ErrNotFound), db)
      else (Inr (), db\<lparr>tab_providers := gm_del i (tab_providers db),
             tab_routes := filter (\<lambda>(_, r). gr_provider_id r \<noteq> i) (tab_routes db)\<rparr>))"

definition routes_list_by_org :: "string \<Rightarrow> route_rows \<Rightarrow> gc_route list" where
  "routes_list_by_org org m = sort_key gr_created_at (rows_of_org gr_organization_id org m)"

definition model_taken :: "string \<Rightarrow> string \<Rightarrow> string \<Rightarrow> route_rows \<Rightarrow> bool" where
  "model_taken i org model m \<longleftrightarrow> (\<exists>(j, r)\<in>set m. j \<noteq> i \<and> gr_organization_id r = org \<and> gr_model r = model)"

definition routes_insert :: "(string \<Rightarrow> bool) \<Rightarrow> gc_route \<Rightarrow> unit config_op" where
  "routes_insert orgs r db =
     (if \<not> fits_int4 (gr_weight r) then (Inl int4_overflow, db)
      else if model_taken (gr_id r) (gr_organization_id r) (gr_model r) (tab_routes db) then (Inl key_violation, db)
      else if gm_get (tab_providers db) (gr_provider_id r) = None then (Inl foreign_key_violation, db)
      else on_table tab_routes (\<lambda>t db. db\<lparr>tab_routes := t\<rparr>) (insert_row orgs (gr_id r) (gr_organization_id r) r) db)"

definition routes_update ::
  "string \<Rightarrow> string \<Rightarrow> string \<Rightarrow> string \<Rightarrow> route_target list \<Rightarrow> retry_config option \<Rightarrow> string \<Rightarrow> int \<Rightarrow> gc_route config_op" where
  "routes_update i model prov target fbs retry strategy weight db =
     (case gm_get (tab_routes db) i of
        None \<Rightarrow> (Inl (sentinel ErrNotFound), db)
      | Some r \<Rightarrow>
          let r' = r\<lparr>gr_model := model, gr_provider_id := prov, gr_target_model := target, gr_fallbacks := fbs,
                gr_retry := retry, gr_routing_strategy := strategy, gr_weight := weight\<rparr> in
          if \<not> fits_int4 weight then (Inl int4_overflow, db)
          else if model_taken i (gr_organization_id r) model (tab_routes db) then (Inl key_violation, db)
          else if gm_get (tab_providers db) prov = None then (Inl foreign_key_violation, db)
          else (Inr r', db\<lparr>tab_routes := gm_put i r' (tab_routes db)\<rparr>))"

definition routes_delete :: "string \<Rightarrow> unit config_op" where
  "routes_delete i = on_table tab_routes (\<lambda>t db. db\<lparr>tab_routes := t\<rparr>) (delete_row i)"

definition routes_org_id :: "route_rows \<Rightarrow> string \<Rightarrow> string res" where
  "routes_org_id m i = bind_res (get_row m i) (\<lambda>r. Inr (gr_organization_id r))"

section \<open>The other tables\<close>

definition quotas_list_by_org :: "string \<Rightarrow> (string, gc_quota) gomap \<Rightarrow> gc_quota list" where
  "quotas_list_by_org org m = sort_key gq_created_at (rows_of_org gq_organization_id org m)"

definition quotas_insert :: "(string \<Rightarrow> bool) \<Rightarrow> gc_quota \<Rightarrow> unit config_op" where
  "quotas_insert orgs q = on_table tab_quotas (\<lambda>t db. db\<lparr>tab_quotas := t\<rparr>) (insert_row orgs (gq_id q) (gq_organization_id q) q)"

definition quotas_update_limit :: "string \<Rightarrow> int \<Rightarrow> gc_quota config_op" where
  "quotas_update_limit i n =
     on_table tab_quotas (\<lambda>t db. db\<lparr>tab_quotas := t\<rparr>) (update_row i (\<lambda>q. q\<lparr>gq_limit_value := n\<rparr>))"

definition quotas_delete :: "string \<Rightarrow> unit config_op" where
  "quotas_delete i = on_table tab_quotas (\<lambda>t db. db\<lparr>tab_quotas := t\<rparr>) (delete_row i)"

definition quotas_org_id :: "(string, gc_quota) gomap \<Rightarrow> string \<Rightarrow> string res" where
  "quotas_org_id m i = bind_res (get_row m i) (\<lambda>q. Inr (gq_organization_id q))"

definition policies_list_by_org :: "string \<Rightarrow> (string, request_policy) gomap \<Rightarrow> request_policy list" where
  "policies_list_by_org org m = sort_key (\<lambda>p. (- rp_priority p, rp_name p)) (rows_of_org rp_organization_id org m)"

definition policies_insert :: "(string \<Rightarrow> bool) \<Rightarrow> request_policy \<Rightarrow> unit config_op" where
  "policies_insert orgs p db =
     (if \<not> fits_int4 (rp_priority p) then (Inl int4_overflow, db)
      else on_table tab_policies (\<lambda>t db. db\<lparr>tab_policies := t\<rparr>) (insert_row orgs (rp_id p) (rp_organization_id p) p) db)"

definition policies_update :: "request_policy \<Rightarrow> request_policy config_op" where
  "policies_update p db =
     (if \<not> fits_int4 (rp_priority p) then (Inl int4_overflow, db)
      else on_table tab_policies (\<lambda>t db. db\<lparr>tab_policies := t\<rparr>)
        (update_row (rp_id p) (\<lambda>old. old\<lparr>rp_name := rp_name p, rp_expression := rp_expression p, rp_actions := rp_actions p,
           rp_enabled := rp_enabled p, rp_priority := rp_priority p\<rparr>)) db)"

text \<open>One transaction: the first row that is missing, or in another organization, undoes them all.\<close>

fun set_priorities :: "string \<Rightarrow> (string \<times> int) list \<Rightarrow> (string, request_policy) gomap \<Rightarrow> (string, request_policy) gomap res" where
  "set_priorities org [] m = Inr m"
| "set_priorities org ((i, n) # items) m =
     (if \<not> fits_int4 n then Inl int4_overflow
      else (case gm_get m i of
          None \<Rightarrow> Inl (sentinel ErrNotFound)
        | Some p \<Rightarrow> if rp_organization_id p \<noteq> org then Inl (sentinel ErrNotFound)
            else set_priorities org items (gm_put i (p\<lparr>rp_priority := n\<rparr>) m)))"

definition policies_update_priorities :: "string \<Rightarrow> (string \<times> int) list \<Rightarrow> unit config_op" where
  "policies_update_priorities org items db =
     (case set_priorities org items (tab_policies db) of
        Inl e \<Rightarrow> (Inl e, db) | Inr m \<Rightarrow> (Inr (), db\<lparr>tab_policies := m\<rparr>))"

definition policies_delete :: "string \<Rightarrow> unit config_op" where
  "policies_delete i = on_table tab_policies (\<lambda>t db. db\<lparr>tab_policies := t\<rparr>) (delete_row i)"

definition policies_org_id :: "(string, request_policy) gomap \<Rightarrow> string \<Rightarrow> string res" where
  "policies_org_id m i = bind_res (get_row m i) (\<lambda>p. Inr (rp_organization_id p))"

definition wasm_hooks_list_by_org :: "string \<Rightarrow> (string, gc_wasm_hook) gomap \<Rightarrow> gc_wasm_hook list" where
  "wasm_hooks_list_by_org org m = sort_key (\<lambda>h. (- wm_priority h, wm_name h)) (rows_of_org wm_organization_id org m)"

definition wasm_hooks_insert :: "(string \<Rightarrow> bool) \<Rightarrow> gc_wasm_hook \<Rightarrow> unit config_op" where
  "wasm_hooks_insert orgs h db =
     (if \<not> fits_int4 (wm_priority h) then (Inl int4_overflow, db)
      else on_table tab_wasm_hooks (\<lambda>t db. db\<lparr>tab_wasm_hooks := t\<rparr>) (insert_row orgs (wm_id h) (wm_organization_id h) h) db)"

definition wasm_hooks_update :: "gc_wasm_hook \<Rightarrow> gc_wasm_hook config_op" where
  "wasm_hooks_update h db =
     (if \<not> fits_int4 (wm_priority h) then (Inl int4_overflow, db)
      else on_table tab_wasm_hooks (\<lambda>t db. db\<lparr>tab_wasm_hooks := t\<rparr>)
        (update_row (wm_id h) (\<lambda>old. old\<lparr>wm_name := wm_name h, wm_phase := wm_phase h, wm_module_uri := wm_module_uri h,
           wm_digest := wm_digest h, wm_enabled := wm_enabled h, wm_priority := wm_priority h, wm_config := wm_config h\<rparr>)) db)"

definition wasm_hooks_delete :: "string \<Rightarrow> unit config_op" where
  "wasm_hooks_delete i = on_table tab_wasm_hooks (\<lambda>t db. db\<lparr>tab_wasm_hooks := t\<rparr>) (delete_row i)"

definition wasm_hooks_org_id :: "(string, gc_wasm_hook) gomap \<Rightarrow> string \<Rightarrow> string res" where
  "wasm_hooks_org_id m i = bind_res (get_row m i) (\<lambda>h. Inr (wm_organization_id h))"

definition mcp_backends_list_by_org :: "string \<Rightarrow> (string, gc_mcp_backend) gomap \<Rightarrow> gc_mcp_backend list" where
  "mcp_backends_list_by_org org m = sort_key bk_alias (rows_of_org bk_organization_id org m)"

definition mcp_alias_taken :: "string \<Rightarrow> string \<Rightarrow> string \<Rightarrow> (string, gc_mcp_backend) gomap \<Rightarrow> bool" where
  "mcp_alias_taken i org alias m \<longleftrightarrow> (\<exists>(j, b)\<in>set m. j \<noteq> i \<and> bk_organization_id b = org \<and> bk_alias b = alias)"

definition mcp_backends_insert :: "(string \<Rightarrow> bool) \<Rightarrow> gc_mcp_backend \<Rightarrow> unit config_op" where
  "mcp_backends_insert orgs b db =
     (if mcp_alias_taken (bk_id b) (bk_organization_id b) (bk_alias b) (tab_mcp_backends db) then (Inl key_violation, db)
      else on_table tab_mcp_backends (\<lambda>t db. db\<lparr>tab_mcp_backends := t\<rparr>) (insert_row orgs (bk_id b) (bk_organization_id b) b) db)"

definition mcp_backends_update :: "gc_mcp_backend \<Rightarrow> gc_mcp_backend config_op" where
  "mcp_backends_update b db =
     (case gm_get (tab_mcp_backends db) (bk_id b) of
        None \<Rightarrow> (Inl (sentinel ErrNotFound), db)
      | Some old \<Rightarrow>
          if mcp_alias_taken (bk_id b) (bk_organization_id old) (bk_alias b) (tab_mcp_backends db) then (Inl key_violation, db)
          else on_table tab_mcp_backends (\<lambda>t db. db\<lparr>tab_mcp_backends := t\<rparr>)
            (update_row (bk_id b) (\<lambda>old. old\<lparr>bk_alias := bk_alias b, bk_name := bk_name b, bk_base_url := bk_base_url b,
               bk_api_key_env := bk_api_key_env b, bk_method_allowlist := bk_method_allowlist b, bk_enabled := bk_enabled b\<rparr>)) db)"

definition mcp_backends_delete :: "string \<Rightarrow> unit config_op" where
  "mcp_backends_delete i = on_table tab_mcp_backends (\<lambda>t db. db\<lparr>tab_mcp_backends := t\<rparr>) (delete_row i)"

definition mcp_backends_org_id :: "(string, gc_mcp_backend) gomap \<Rightarrow> string \<Rightarrow> string res" where
  "mcp_backends_org_id m i = bind_res (get_row m i) (\<lambda>b. Inr (bk_organization_id b))"

definition a2a_agents_list_by_org :: "string \<Rightarrow> (string, gc_a2a_agent) gomap \<Rightarrow> gc_a2a_agent list" where
  "a2a_agents_list_by_org org m = sort_key ag_alias (rows_of_org ag_organization_id org m)"

definition a2a_alias_taken :: "string \<Rightarrow> string \<Rightarrow> string \<Rightarrow> (string, gc_a2a_agent) gomap \<Rightarrow> bool" where
  "a2a_alias_taken i org alias m \<longleftrightarrow> (\<exists>(j, a)\<in>set m. j \<noteq> i \<and> ag_organization_id a = org \<and> ag_alias a = alias)"

definition a2a_agents_insert :: "(string \<Rightarrow> bool) \<Rightarrow> gc_a2a_agent \<Rightarrow> unit config_op" where
  "a2a_agents_insert orgs a db =
     (if a2a_alias_taken (ag_id a) (ag_organization_id a) (ag_alias a) (tab_a2a_agents db) then (Inl key_violation, db)
      else on_table tab_a2a_agents (\<lambda>t db. db\<lparr>tab_a2a_agents := t\<rparr>) (insert_row orgs (ag_id a) (ag_organization_id a) a) db)"

definition a2a_agents_update :: "gc_a2a_agent \<Rightarrow> gc_a2a_agent config_op" where
  "a2a_agents_update a db =
     (case gm_get (tab_a2a_agents db) (ag_id a) of
        None \<Rightarrow> (Inl (sentinel ErrNotFound), db)
      | Some old \<Rightarrow>
          if a2a_alias_taken (ag_id a) (ag_organization_id old) (ag_alias a) (tab_a2a_agents db) then (Inl key_violation, db)
          else on_table tab_a2a_agents (\<lambda>t db. db\<lparr>tab_a2a_agents := t\<rparr>)
            (update_row (ag_id a) (\<lambda>old. old\<lparr>ag_alias := ag_alias a, ag_name := ag_name a, ag_upstream_url := ag_upstream_url a,
               ag_card_url := ag_card_url a, ag_card_cache := ag_card_cache a, ag_api_key_env := ag_api_key_env a,
               ag_auth_scheme := ag_auth_scheme a, ag_enabled := ag_enabled a\<rparr>)) db)"

definition a2a_agents_delete :: "string \<Rightarrow> unit config_op" where
  "a2a_agents_delete i = on_table tab_a2a_agents (\<lambda>t db. db\<lparr>tab_a2a_agents := t\<rparr>) (delete_row i)"

definition a2a_agents_org_id :: "(string, gc_a2a_agent) gomap \<Rightarrow> string \<Rightarrow> string res" where
  "a2a_agents_org_id m i = bind_res (get_row m i) (\<lambda>a. Inr (ag_organization_id a))"

text \<open>Two columns of the organizations; absent is NULL.\<close>

definition orgs_get_default_retry :: "(string \<Rightarrow> bool) \<Rightarrow> string \<Rightarrow> config_tables \<Rightarrow> retry_config option res" where
  "orgs_get_default_retry orgs org db =
     (if orgs org then Inr (gm_get (tab_default_retries db) org) else Inl (sentinel ErrNotFound))"

definition put_or_clear :: "string \<Rightarrow> 'v option \<Rightarrow> (string, 'v) gomap \<Rightarrow> (string, 'v) gomap" where
  "put_or_clear k v m = (case v of None \<Rightarrow> gm_del k m | Some x \<Rightarrow> gm_put k x m)"

definition orgs_set_default_retry :: "(string \<Rightarrow> bool) \<Rightarrow> string \<Rightarrow> retry_config option \<Rightarrow> unit config_op" where
  "orgs_set_default_retry orgs org retry db =
     (if orgs org then (Inr (), db\<lparr>tab_default_retries := put_or_clear org retry (tab_default_retries db)\<rparr>)
      else (Inl (sentinel ErrNotFound), db))"

definition orgs_get_object_store :: "(string \<Rightarrow> bool) \<Rightarrow> string \<Rightarrow> config_tables \<Rightarrow> object_store_config option res" where
  "orgs_get_object_store orgs org db =
     (if orgs org then Inr (gm_get (tab_object_stores db) org) else Inl (sentinel ErrNotFound))"

definition orgs_set_object_store :: "(string \<Rightarrow> bool) \<Rightarrow> string \<Rightarrow> object_store_config option \<Rightarrow> unit config_op" where
  "orgs_set_object_store orgs org cfg db =
     (if orgs org then (Inr (), db\<lparr>tab_object_stores := put_or_clear org cfg (tab_object_stores db)\<rparr>)
      else (Inl (sentinel ErrNotFound), db))"

end
