(* ===== verification/Config_Services.thy ===== *)
theory Config_Services
  imports Config_Tables
begin

text \<open>
  The services of \<^verbatim>\<open>src/internal/gatewayconfig\<close> over the tables: validate, check that what
  is referred to belongs to the organization, write; and the loading of the rows into the source
  that is compiled (\<^verbatim>\<open>src/internal/adapters/postgres/snapshot_source.go\<close>). Identifiers and the
  clock are arguments.
\<close>

section \<open>Scopes\<close>

definition org_exists :: "cred_db \<Rightarrow> string \<Rightarrow> bool" where
  "org_exists db org \<longleftrightarrow> gm_get (db_orgs (acc_tenancy (cdb_access db))) org \<noteq> None"

definition team_belongs_to_org :: "tenancy_db \<Rightarrow> string \<Rightarrow> string \<Rightarrow> unit res" where
  "team_belongs_to_org db team org =
     (case teams_org_id db team of
        Inl e \<Rightarrow> Inl (if err_is e ErrNotFound then invalid ''team not found'' else e)
      | Inr team_org \<Rightarrow> if team_org \<noteq> org then Inl (invalid ''team not in organization'') else Inr ())"

definition user_is_org_member :: "tenancy_db \<Rightarrow> string \<Rightarrow> string \<Rightarrow> unit res" where
  "user_is_org_member db user org =
     (case is_org_member db user org of
        Inl e \<Rightarrow> Inl e
      | Inr member \<Rightarrow> if \<not> member then Inl (invalid ''user is not an organization member'') else Inr ())"

definition assert_scope_in_org :: "cred_db \<Rightarrow> string \<Rightarrow> string \<Rightarrow> string \<Rightarrow> unit res" where
  "assert_scope_in_org db org scope_type scope_id =
     bind_res (validate_scope_type scope_type) (\<lambda>_.
       if scope_id = [] then Inl (invalid ''scope_id is required'')
       else if scope_type = ScopeOrganization then
         (if scope_id \<noteq> org then Inl (invalid ''organization scope_id must match organization'') else Inr ())
       else if scope_type = ScopeTeam then team_belongs_to_org (acc_tenancy (cdb_access db)) scope_id org
       else if scope_type = ScopeProject then project_belongs_to_org (cdb_access db) scope_id org
       else if scope_type = ScopeUser then user_is_org_member (acc_tenancy (cdb_access db)) scope_id org
       else if scope_type = ScopeAPIKey then api_key_belongs_to_org (cdb_access db) scope_id org
       else Inl (invalid ''invalid scope_type''))"

section \<open>Services\<close>

definition create_quota ::
  "cred_db \<Rightarrow> gotime \<Rightarrow> string \<Rightarrow> string \<Rightarrow> string \<Rightarrow> string \<Rightarrow> string \<Rightarrow> int \<Rightarrow> string \<Rightarrow> gc_quota config_op" where
  "create_quota cr now i org scope_type scope_id metric limit window =
     db_check (new_quota now i org scope_type scope_id metric limit (normalize_window window) now) (\<lambda>q.
       db_check (assert_scope_in_org cr org scope_type scope_id) (\<lambda>_.
         db_bind (quotas_insert (org_exists cr) q) (\<lambda>_ db. (Inr q, db))))"

definition update_quota :: "string \<Rightarrow> int \<Rightarrow> gc_quota config_op" where
  "update_quota i limit = db_check (validate_limit limit) (\<lambda>_. quotas_update_limit i limit)"

definition create_provider ::
  "cred_db \<Rightarrow> registry \<Rightarrow> gotime \<Rightarrow> string \<Rightarrow> string \<Rightarrow> string \<Rightarrow> string \<Rightarrow> string \<Rightarrow> string \<Rightarrow> capabilities \<Rightarrow> raw_json \<Rightarrow>
   gc_provider config_op" where
  "create_provider cr reg now i org name typ base env caps config =
     db_check (new_provider reg now i org name typ base env caps config now) (\<lambda>p.
       db_bind (on_table tab_providers (\<lambda>t db. db\<lparr>tab_providers := t\<rparr>) (providers_insert (org_exists cr) p)) (\<lambda>_ db. (Inr p, db)))"

definition update_provider ::
  "registry \<Rightarrow> string \<Rightarrow> string \<Rightarrow> string \<Rightarrow> string \<Rightarrow> raw_json \<Rightarrow> gc_provider config_op" where
  "update_provider reg i name base env config =
     db_check (if config = None then Inr None else normalize_provider_config config) (\<lambda>cfg.
       on_table tab_providers (\<lambda>t db. db\<lparr>tab_providers := t\<rparr>) (providers_update reg i name base env cfg))"

definition assert_provider_in_org :: "provider_rows \<Rightarrow> string \<Rightarrow> string \<Rightarrow> unit res" where
  "assert_provider_in_org m org prov =
     bind_res (providers_org_id m prov) (\<lambda>prov_org.
       if prov_org \<noteq> org then Inl (invalid ''provider is not in organization'') else Inr ())"

definition assert_route_providers :: "provider_rows \<Rightarrow> string \<Rightarrow> string \<Rightarrow> route_target list \<Rightarrow> unit res" where
  "assert_route_providers m org prov fbs =
     bind_res (assert_provider_in_org m org prov) (\<lambda>_.
       bind_res (map_res (\<lambda>fb. assert_provider_in_org m org (rt_provider_id fb)) fbs) (\<lambda>_. Inr ()))"

text \<open>The providers are checked as they were sent, before trimming.\<close>

definition create_route ::
  "cred_db \<Rightarrow> gotime \<Rightarrow> string \<Rightarrow> string \<Rightarrow> string \<Rightarrow> string \<Rightarrow> string \<Rightarrow> route_target list \<Rightarrow> retry_config option \<Rightarrow>
   string \<Rightarrow> int \<Rightarrow> gc_route config_op" where
  "create_route cr now i org model prov target fbs retry strategy weight db =
     db_check (new_route now i org model prov target fbs retry strategy weight now) (\<lambda>r.
       db_check (assert_route_providers (tab_providers db) org prov fbs) (\<lambda>_.
         db_bind (routes_insert (org_exists cr) r) (\<lambda>_ db. (Inr r, db)))) db"

definition update_route ::
  "string \<Rightarrow> string \<Rightarrow> string \<Rightarrow> string \<Rightarrow> route_target list \<Rightarrow> retry_config option \<Rightarrow> string \<Rightarrow> int \<Rightarrow> gc_route config_op" where
  "update_route i model prov target fbs0 retry0 strategy0 weight0 db =
     db_check (routes_org_id (tab_routes db) i) (\<lambda>org.
       db_check (normalize_route_routing strategy0 weight0 fbs0) (\<lambda>(strategy, weight, fbs).
         db_check (normalize_retry retry0) (\<lambda>retry.
           db_check (assert_route_providers (tab_providers db) org prov fbs) (\<lambda>_.
             routes_update i model prov target fbs retry strategy weight)))) db"

definition create_policy ::
  "cred_db \<Rightarrow> cel_validator option \<Rightarrow> gotime \<Rightarrow> string \<Rightarrow> string \<Rightarrow> string \<Rightarrow> string \<Rightarrow> policy_action list \<Rightarrow> bool \<Rightarrow> int \<Rightarrow>
   request_policy config_op" where
  "create_policy cr v now i org name expr actions enabled priority =
     db_check (new_request_policy v now i org name expr actions enabled priority) (\<lambda>p.
       db_bind (policies_insert (org_exists cr) p) (\<lambda>_ db. (Inr p, db)))"

definition update_policy ::
  "cel_validator option \<Rightarrow> string \<Rightarrow> string option \<Rightarrow> string option \<Rightarrow> policy_action list option \<Rightarrow> bool option \<Rightarrow>
   int option \<Rightarrow> request_policy config_op" where
  "update_policy v i name expr actions enabled priority db =
     db_check (get_row (tab_policies db) i) (\<lambda>cur.
       db_check (apply_policy_patch v name expr actions enabled priority cur) policies_update) db"

fun check_reorder_items :: "string list \<Rightarrow> (string \<times> int) list \<Rightarrow> unit res" where
  "check_reorder_items seen [] = Inr ()"
| "check_reorder_items seen ((i, _) # items) =
     (if i = [] then Inl (invalid ''policy id required'')
      else if i \<in> set seen then Inl (invalid ''duplicate policy id'')
      else check_reorder_items (i # seen) items)"

definition reorder_policies :: "string \<Rightarrow> (string \<times> int) list \<Rightarrow> unit config_op" where
  "reorder_policies org items db =
     (if org = [] then (Inl (invalid ''organization_id required''), db)
      else if items = [] then (Inl (invalid ''items required''), db)
      else db_check (check_reorder_items [] items) (\<lambda>_. policies_update_priorities org items) db)"

definition create_wasm_hook ::
  "cred_db \<Rightarrow> gotime \<Rightarrow> string \<Rightarrow> string \<Rightarrow> string \<Rightarrow> string \<Rightarrow> string \<Rightarrow> string \<Rightarrow> bool \<Rightarrow> int \<Rightarrow> raw_json \<Rightarrow>
   gc_wasm_hook config_op" where
  "create_wasm_hook cr now i org name phase uri digest enabled priority config =
     db_check (new_wasm_hook now i org name phase uri digest enabled priority config) (\<lambda>h.
       db_bind (wasm_hooks_insert (org_exists cr) h) (\<lambda>_ db. (Inr h, db)))"

definition update_wasm_hook ::
  "string \<Rightarrow> string option \<Rightarrow> string option \<Rightarrow> string option \<Rightarrow> string option \<Rightarrow> bool option \<Rightarrow> int option \<Rightarrow> raw_json \<Rightarrow>
   gc_wasm_hook config_op" where
  "update_wasm_hook i name phase uri digest enabled priority config db =
     db_check (get_row (tab_wasm_hooks db) i) (\<lambda>cur.
       db_check (apply_wasm_hook_patch name phase uri digest enabled priority config cur) wasm_hooks_update) db"

definition create_mcp_backend ::
  "cred_db \<Rightarrow> url_parser \<Rightarrow> gotime \<Rightarrow> string \<Rightarrow> string \<Rightarrow> string \<Rightarrow> string \<Rightarrow> string \<Rightarrow> string \<Rightarrow> raw_json \<Rightarrow> bool \<Rightarrow>
   gc_mcp_backend config_op" where
  "create_mcp_backend cr url now i org alias name base env allow enabled =
     db_check (new_mcp_backend url now i org alias name base env allow enabled) (\<lambda>b.
       db_bind (mcp_backends_insert (org_exists cr) b) (\<lambda>_ db. (Inr b, db)))"

definition update_mcp_backend ::
  "url_parser \<Rightarrow> string \<Rightarrow> string option \<Rightarrow> string option \<Rightarrow> string option \<Rightarrow> string option \<Rightarrow> raw_json \<Rightarrow> bool option \<Rightarrow>
   gc_mcp_backend config_op" where
  "update_mcp_backend url i alias name base env allow enabled db =
     db_check (get_row (tab_mcp_backends db) i) (\<lambda>cur.
       db_check (apply_mcp_backend_patch url alias name base env allow enabled cur) mcp_backends_update) db"

definition create_a2a_agent ::
  "cred_db \<Rightarrow> url_parser \<Rightarrow> gotime \<Rightarrow> string \<Rightarrow> string \<Rightarrow> string \<Rightarrow> string \<Rightarrow> string \<Rightarrow> string \<Rightarrow> string \<Rightarrow> string \<Rightarrow>
   raw_json \<Rightarrow> bool \<Rightarrow> gc_a2a_agent config_op" where
  "create_a2a_agent cr url now i org alias name upstream curl env scheme cache enabled =
     db_check (new_a2a_agent url now i org alias name upstream curl env scheme cache enabled) (\<lambda>a.
       db_bind (a2a_agents_insert (org_exists cr) a) (\<lambda>_ db. (Inr a, db)))"

definition update_a2a_agent ::
  "url_parser \<Rightarrow> string \<Rightarrow> string option \<Rightarrow> string option \<Rightarrow> string option \<Rightarrow> string option \<Rightarrow> string option \<Rightarrow> string option \<Rightarrow>
   raw_json \<Rightarrow> bool option \<Rightarrow> gc_a2a_agent config_op" where
  "update_a2a_agent url i alias name upstream curl env scheme cache enabled db =
     db_check (get_row (tab_a2a_agents db) i) (\<lambda>cur.
       db_check (apply_a2a_agent_patch url alias name upstream curl env scheme cache enabled cur) a2a_agents_update) db"

definition set_org_default_retry :: "cred_db \<Rightarrow> string \<Rightarrow> retry_config option \<Rightarrow> unit config_op" where
  "set_org_default_retry cr org retry0 =
     db_check (normalize_retry retry0) (\<lambda>retry. orgs_set_default_retry (org_exists cr) org retry)"

definition set_org_object_store :: "cred_db \<Rightarrow> string \<Rightarrow> object_store_config option \<Rightarrow> unit config_op" where
  "set_org_object_store cr org cfg0 =
     db_check (normalize_object_store cfg0) (\<lambda>cfg. orgs_set_object_store (org_exists cr) org cfg)"

section \<open>Loading\<close>

definition load_provider :: "registry \<Rightarrow> gc_provider \<Rightarrow> provider" where
  "load_provider reg p =
     \<lparr>pv_id = gp_id p, pv_type = gp_type p, pv_base_url = gp_base_url p, pv_api_key_env = gp_api_key_env p,
      pv_name = gp_name p, pv_capabilities = normalize_capabilities reg (gp_type p) (gp_capabilities p),
      pv_config = or_empty_object (gp_config p), pv_inline_api_key = []\<rparr>"

definition load_route :: "gc_route \<Rightarrow> route" where
  "load_route r =
     \<lparr>ro_organization_id = gr_organization_id r, ro_model = gr_model r, ro_provider_id = gr_provider_id r,
      ro_target_model = gr_target_model r, ro_fallbacks = gr_fallbacks r, ro_retry = retry_to_snapshot (gr_retry r),
      ro_routing_strategy = gr_routing_strategy r, ro_weight = gr_weight r\<rparr>"

definition load_quota :: "gc_quota \<Rightarrow> quota" where
  "load_quota q =
     \<lparr>qt_id = gq_id q, qt_organization_id = gq_organization_id q, qt_scope_type = gq_scope_type q,
      qt_scope_id = gq_scope_id q, qt_metric = gq_metric q, qt_limit_value = gq_limit_value q, qt_window = gq_window q\<rparr>"

definition load_policy :: "request_policy \<Rightarrow> policy" where
  "load_policy p =
     \<lparr>po_id = rp_id p, po_organization_id = rp_organization_id p, po_name = rp_name p, po_expression = rp_expression p,
      po_actions = rp_actions p, po_enabled = rp_enabled p, po_priority = rp_priority p\<rparr>"

definition load_wasm_hook :: "gc_wasm_hook \<Rightarrow> wasm_hook" where
  "load_wasm_hook h =
     \<lparr>wh_id = wm_id h, wh_organization_id = wm_organization_id h, wh_name = wm_name h, wh_phase = wm_phase h,
      wh_module_uri = wm_module_uri h, wh_digest = wm_digest h, wh_enabled = wm_enabled h, wh_priority = wm_priority h,
      wh_config = wm_config h\<rparr>"

text \<open>The error of decoding the allowlist is ignored: an element of another type stays empty.\<close>

definition load_allowlist :: "raw_json \<Rightarrow> string list" where
  "load_allowlist raw = (case raw of Some (JArr xs) \<Rightarrow> map as_string xs | _ \<Rightarrow> [])"

definition load_mcp_backend :: "gc_mcp_backend \<Rightarrow> mcp_backend" where
  "load_mcp_backend b =
     \<lparr>mb_id = bk_id b, mb_organization_id = bk_organization_id b, mb_alias = bk_alias b, mb_name = bk_name b,
      mb_base_url = bk_base_url b, mb_api_key_env = bk_api_key_env b, mb_method_allowlist = load_allowlist (bk_method_allowlist b),
      mb_enabled = bk_enabled b, mb_inline_api_key = []\<rparr>"

definition load_a2a_agent :: "gc_a2a_agent \<Rightarrow> a2a_agent" where
  "load_a2a_agent a =
     \<lparr>aa_id = ag_id a, aa_organization_id = ag_organization_id a, aa_alias = ag_alias a, aa_name = ag_name a,
      aa_upstream_url = ag_upstream_url a, aa_card_url = ag_card_url a, aa_card_cache = ag_card_cache a,
      aa_api_key_env = ag_api_key_env a, aa_auth_scheme = ag_auth_scheme a, aa_enabled = ag_enabled a, aa_inline_api_key = []\<rparr>"

definition load_config :: "registry \<Rightarrow> config_tables \<Rightarrow> source" where
  "load_config reg t = empty_source
     \<lparr>so_providers := map (load_provider reg \<circ> snd) (tab_providers t),
      so_routes := map (load_route \<circ> snd) (tab_routes t),
      so_quotas := map (load_quota \<circ> snd) (tab_quotas t),
      so_policies := map (load_policy \<circ> snd) (tab_policies t),
      so_wasm_hooks := map (load_wasm_hook \<circ> snd) (tab_wasm_hooks t),
      so_mcp_backends := map (load_mcp_backend \<circ> snd) (tab_mcp_backends t),
      so_a2a_agents := map (load_a2a_agent \<circ> snd) (tab_a2a_agents t),
      so_default_retries := map (\<lambda>(org, r). (org, retry_to_snapshot (Some r))) (tab_default_retries t),
      so_object_stores := map (\<lambda>(org, c). (org, Some c)) (tab_object_stores t)\<rparr>"

end
