(* ===== verification/Publishing.thy ===== *)
theory Publishing
  imports Credentials_Laws Config_Services
begin

text \<open>
  From the tables to the gateways: loading the snapshot source from the rows of keys and
  credentials (\<^verbatim>\<open>src/internal/adapters/postgres/snapshot_source.go\<close>), the stores of compiled
  snapshots and how a gateway watches them (\<^verbatim>\<open>postgres/snapshot.go\<close>, \<^verbatim>\<open>objectstore/snapshot.go\<close>), and
  the commands that change rows, publish and emit events (\<^verbatim>\<open>src/internal/app/platform/commands.go\<close>,
  \<^verbatim>\<open>events.go\<close>). The rows of the gateway configuration are loaded in \<^verbatim>\<open>Config_Services\<close>.
\<close>

section \<open>Loading\<close>

text \<open>The \<^verbatim>\<open>LEFT JOIN\<close> with the projects gives the team; NULL columns are empty strings.\<close>

definition project_team :: "tenancy_db \<Rightarrow> string \<Rightarrow> string" where
  "project_team db proj =
     (if proj = [] then [] else (case gm_get (db_projects db) proj of None \<Rightarrow> [] | Some p \<Rightarrow> pj_team_id p))"

definition load_api_key :: "tenancy_db \<Rightarrow> access_key \<Rightarrow> string \<Rightarrow> api_key" where
  "load_api_key db k h =
     \<lparr>ak_key_hash = h, ak_key_prefix = ky_key_prefix k, ak_project_id = ky_project_id k,
      ak_team_id = project_team db (ky_project_id k), ak_environment_id = ky_environment_id k,
      ak_organization_id = ky_organization_id k, ak_name = ky_name k, ak_id = ky_id k, ak_kind = ky_kind k,
      ak_owner_user_id = ky_owner_user_id k\<rparr>"

definition load_signing_key :: "tenancy_db \<Rightarrow> service_key \<Rightarrow> signing_key" where
  "load_signing_key db k =
     \<lparr>sk_id = sg_id k, sk_key_id = sg_key_id k, sk_project_id = sg_project_id k,
      sk_team_id = project_team db (sg_project_id k), sk_environment_id = sg_environment_id k,
      sk_organization_id = sg_organization_id k, sk_name = sg_name k, sk_algorithm = sg_algorithm k,
      sk_public_key_pem = sg_public_key_pem k, sk_status = sg_status k\<rparr>"

definition load_credential :: "provider_credential \<Rightarrow> credential" where
  "load_credential c =
     \<lparr>cr_id = pc_id c, cr_organization_id = pc_organization_id c, cr_name = pc_name c,
      cr_provider_type = pc_provider_type c, cr_storage_kind = pc_storage_kind c, cr_secret_ref = pc_secret_ref c,
      cr_encrypted_payload = (case pc_encrypted_payload c of None \<Rightarrow> [] | Some p \<Rightarrow> p),
      cr_key_version = pc_key_version c, cr_status = pc_status c\<rparr>"

definition load_assignment :: "cred_assignment \<Rightarrow> credential_assignment" where
  "load_assignment a =
     \<lparr>ca_credential_id = asn_credential_id a, ca_provider_type = asn_provider_type a,
      ca_scope_type = asn_scope_type a, ca_scope_id = asn_scope_id a\<rparr>"

definition load_source :: "cred_db \<Rightarrow> source \<Rightarrow> source" where
  "load_source db cfg =
     cfg\<lparr>so_api_keys := map (\<lambda>(_, k, h). load_api_key (acc_tenancy (cdb_access db)) k h) (acc_keys (cdb_access db)),
         so_signing_keys := map (load_signing_key (acc_tenancy (cdb_access db)) \<circ> snd) (acc_signing (cdb_access db)),
         so_credentials := map (load_credential \<circ> snd) (cdb_credentials db),
         so_assignments := map (load_assignment \<circ> snd) (cdb_assignments db)\<rparr>"

section \<open>Stores of snapshots\<close>

text \<open>
  Postgres numbers the rows with a sequence. \<open>up\<close> tells whether the transaction commits. What a
  snapshot loses in its JSON form is not modelled.
\<close>

record pg_snapshots =
  ps_serial :: int
  ps_rows :: "(int \<times> snapshot) list"

definition store_down :: err where "store_down = Err ErrOther ''connection refused''"

definition pg_snapshot_put :: "bool \<Rightarrow> snapshot \<Rightarrow> pg_snapshots \<Rightarrow> int res \<times> pg_snapshots" where
  "pg_snapshot_put up sn st =
     (if \<not> up then (Inl store_down, st)
      else let v = ps_serial st + 1 in (Inr v, \<lparr>ps_serial = v, ps_rows = ps_rows st @ [(v, sn)]\<rparr>))"

definition newer_row :: "int \<times> snapshot \<Rightarrow> int \<times> snapshot \<Rightarrow> int \<times> snapshot" where
  "newer_row a b = (if fst a < fst b then b else a)"

definition pg_snapshot_latest :: "pg_snapshots \<Rightarrow> snapshot res" where
  "pg_snapshot_latest st =
     (case ps_rows st of [] \<Rightarrow> Inl (sentinel ErrNotFound)
      | r # rs \<Rightarrow> (case foldl newer_row r rs of (v, sn) \<Rightarrow> Inr (sn\<lparr>sn_version := v\<rparr>)))"

text \<open>The object store: a blob per version, and a pointer to the latest.\<close>

record blob_snapshots =
  bs_blobs :: "(int, snapshot) gomap"
  bs_pointer :: "int option"

definition blob_error :: "string \<Rightarrow> err" where "blob_error m = Err ErrOther m"

definition blob_snapshot_put :: "snapshot \<Rightarrow> blob_snapshots \<Rightarrow> int res \<times> blob_snapshots" where
  "blob_snapshot_put sn st =
     (if sn_version sn \<le> 0 then (Inl (blob_error ''objectstore snapshot: version required''), st)
      else (Inr (sn_version sn), st\<lparr>bs_blobs := gm_put (sn_version sn) sn (bs_blobs st), bs_pointer := Some (sn_version sn)\<rparr>))"

definition blob_snapshot_latest :: "blob_snapshots \<Rightarrow> snapshot res" where
  "blob_snapshot_latest st =
     (case bs_pointer st of None \<Rightarrow> Inl (sentinel ErrNotFound)
      | Some v \<Rightarrow> if v \<le> 0 then Inl (blob_error ''objectstore snapshot: invalid latest pointer'')
          else (case gm_get (bs_blobs st) v of None \<Rightarrow> Inl (sentinel ErrNotFound) | Some sn \<Rightarrow> Inr (sn\<lparr>sn_version := v\<rparr>)))"

text \<open>The primary first, then the mirror, with the version the primary gave.\<close>

definition fanout_put :: "bool \<Rightarrow> snapshot \<Rightarrow> pg_snapshots \<times> blob_snapshots option \<Rightarrow> int res \<times> pg_snapshots \<times> blob_snapshots option" where
  "fanout_put up sn st =
     (case st of (primary, mirror) \<Rightarrow>
       (case pg_snapshot_put up sn primary of
          (Inl e, p') \<Rightarrow> (Inl e, p', mirror)
        | (Inr v, p') \<Rightarrow>
            (case mirror of None \<Rightarrow> (Inr v, p', None)
             | Some m \<Rightarrow> (case blob_snapshot_put (sn\<lparr>sn_version := v\<rparr>) m of
                  (Inl e, m') \<Rightarrow> (Inl e, p', Some m') | (Inr _, m') \<Rightarrow> (Inr v, p', Some m')))))"

definition fanout_latest :: "pg_snapshots \<times> blob_snapshots option \<Rightarrow> snapshot res" where
  "fanout_latest st = pg_snapshot_latest (fst st)"

section \<open>Watching\<close>

text \<open>
  A gateway follows a store: it takes what is there when it starts and on every tick or
  notification looks for a newer version. An error other than a missing snapshot ends the watch.
\<close>

record watcher =
  wt_version :: int
  wt_snapshot :: "snapshot option"

definition watch_start :: "snapshot res \<Rightarrow> watcher res" where
  "watch_start latest =
     (case latest of
        Inl e \<Rightarrow> if err_is e ErrNotFound then Inr \<lparr>wt_version = 0, wt_snapshot = None\<rparr> else Inl e
      | Inr sn \<Rightarrow> Inr \<lparr>wt_version = sn_version sn, wt_snapshot = Some sn\<rparr>)"

definition watch_check :: "snapshot res \<Rightarrow> watcher \<Rightarrow> watcher res" where
  "watch_check latest w =
     (case latest of
        Inl e \<Rightarrow> if err_is e ErrNotFound then Inr w else Inl e
      | Inr sn \<Rightarrow> Inr (if wt_version w < sn_version sn then \<lparr>wt_version = sn_version sn, wt_snapshot = Some sn\<rparr> else w))"

section \<open>Commands\<close>

record platform_event =
  vt_name :: string
  vt_resource_id :: string
  vt_organization_id :: string

record platform =
  pf_db :: cred_db
  pf_config :: config_tables
  pf_snapshots :: pg_snapshots
  pf_events :: "platform_event list"

type_synonym 'a command = "platform \<Rightarrow> 'a res \<times> platform"

definition on_creds :: "('a, cred_db) storeop \<Rightarrow> 'a command" where
  "on_creds op p = (case op (pf_db p) of (r, db) \<Rightarrow> (r, p\<lparr>pf_db := db\<rparr>))"

definition on_access :: "('a, access_db) storeop \<Rightarrow> 'a command" where
  "on_access op = on_creds (\<lambda>db. case op (cdb_access db) of (r, acc) \<Rightarrow> (r, db\<lparr>cdb_access := acc\<rparr>))"

definition on_tenants :: "('a, tenancy_db) storeop \<Rightarrow> 'a command" where
  "on_tenants op = on_access (\<lambda>db. case op (acc_tenancy db) of (r, t) \<Rightarrow> (r, db\<lparr>acc_tenancy := t\<rparr>))"

abbreviation pf_access :: "platform \<Rightarrow> access_db" where "pf_access p \<equiv> cdb_access (pf_db p)"
abbreviation pf_tenancy :: "platform \<Rightarrow> tenancy_db" where "pf_tenancy p \<equiv> acc_tenancy (pf_access p)"

definition emit :: "string \<Rightarrow> string \<Rightarrow> string \<Rightarrow> unit command" where
  "emit name resource org p =
     (Inr (), p\<lparr>pf_events := pf_events p @ [\<lparr>vt_name = name, vt_resource_id = resource, vt_organization_id = org\<rparr>]\<rparr>)"

text \<open>\<^verbatim>\<open>PublishSnapshot\<close> of the seeder: load, compile, put.\<close>

definition publish_snapshot :: "registry \<Rightarrow> gotime \<Rightarrow> bool \<Rightarrow> unit command" where
  "publish_snapshot reg now up p =
     (case pg_snapshot_put up (compile reg now (load_source (pf_db p) (load_config reg (pf_config p)))) (pf_snapshots p) of
        (Inl e, st) \<Rightarrow> (Inl e, p\<lparr>pf_snapshots := st\<rparr>)
      | (Inr _, st) \<Rightarrow> (Inr (), p\<lparr>pf_snapshots := st\<rparr>))"

definition publish :: "unit command \<Rightarrow> string \<Rightarrow> unit command" where
  "publish snap action p =
     (case snap p of
        (Inl e, p') \<Rightarrow> (Inl (Err (err_kind e) (action @ '' but snapshot publish failed: '' @ err_msg e)), p')
      | (Inr _, p') \<Rightarrow> emit ''snapshot.published'' [] [] p')"

text \<open>A command: change the rows, publish if the gateways read them, emit an event.\<close>

definition and_emit :: "'a command \<Rightarrow> ('a \<Rightarrow> platform \<Rightarrow> string \<times> string \<times> string) \<Rightarrow> 'a command" where
  "and_emit op ev = db_bind op (\<lambda>x p. case ev x p of (name, res, org) \<Rightarrow> db_bind (emit name res org) (\<lambda>_ p. (Inr x, p)) p)"

definition publishing :: "unit command \<Rightarrow> string \<Rightarrow> 'a command \<Rightarrow> ('a \<Rightarrow> string \<times> string \<times> string) \<Rightarrow> 'a command" where
  "publishing snap action op ev = and_emit (db_bind op (\<lambda>x. db_bind (publish snap action) (\<lambda>_ p. (Inr x, p)))) (\<lambda>x _. ev x)"

text \<open>A deletion looks the organization up first, for the event; a missing row is found missing there.\<close>

definition deleting :: "unit command \<Rightarrow> (platform \<Rightarrow> string res) \<Rightarrow> unit command \<Rightarrow> string \<Rightarrow> string \<Rightarrow> unit command" where
  "deleting snap org_of op name i p =
     db_check (org_of p) (\<lambda>org. publishing snap ''deleted'' op (\<lambda>_. (name, i, org))) p"

subsection \<open>Tenants\<close>

definition cmd_create_organization :: "gotime \<Rightarrow> string \<Rightarrow> string \<Rightarrow> string \<Rightarrow> organization command" where
  "cmd_create_organization now i name creator =
     and_emit (on_tenants (create_organization now i name creator)) (\<lambda>x _. (''org.created'', og_id x, og_id x))"

definition cmd_update_org_member_role :: "string \<Rightarrow> string \<Rightarrow> string \<Rightarrow> string \<Rightarrow> member command" where
  "cmd_update_org_member_role org actor target role =
     and_emit (on_tenants (update_org_member_role org actor target role)) (\<lambda>_ _. (''member.role_updated'', target, org))"

definition cmd_invite_org_member ::
  "(string \<Rightarrow> string) \<Rightarrow> gotime \<Rightarrow> string \<Rightarrow> string \<Rightarrow> string \<Rightarrow> string \<Rightarrow> string \<Rightarrow> invite_outcome command" where
  "cmd_invite_org_member sha now raw i org email by =
     and_emit (on_tenants (invite_org_member sha now raw i org email by))
       (\<lambda>x _. case x of Added m \<Rightarrow> (''member.added'', me_user_id m, org) | Invited v _ \<Rightarrow> (''invite.created'', iv_id v, org))"

definition cmd_revoke_org_invite :: "string \<Rightarrow> string \<Rightarrow> unit command" where
  "cmd_revoke_org_invite org i = and_emit (on_tenants (revoke_invite org i)) (\<lambda>_ _. (''invite.revoked'', i, org))"

definition cmd_resend_org_invite :: "(string \<Rightarrow> string) \<Rightarrow> gotime \<Rightarrow> string \<Rightarrow> string \<Rightarrow> string \<Rightarrow> (invite \<times> string) command" where
  "cmd_resend_org_invite sha now raw org i =
     and_emit (on_tenants (resend_invite sha now raw org i)) (\<lambda>_ _. (''invite.resent'', i, org))"

definition cmd_accept_org_invite ::
  "(string \<Rightarrow> string) \<Rightarrow> gotime \<Rightarrow> string \<Rightarrow> string \<Rightarrow> string \<Rightarrow> string \<Rightarrow> (member \<times> user_row) command" where
  "cmd_accept_org_invite sha now raw name pw uid p =
     db_check (preview_invite sha now (pf_tenancy p) raw) (\<lambda>v.
       and_emit (on_tenants (accept_invite sha now raw name pw uid))
         (\<lambda>x _. (''invite.accepted'', me_user_id (fst x), ip_organization_id v))) p"

definition team_org :: "string \<Rightarrow> platform \<Rightarrow> string" where
  "team_org team p = (case teams_org_id (pf_tenancy p) team of Inl _ \<Rightarrow> [] | Inr org \<Rightarrow> org)"

definition cmd_create_team :: "gotime \<Rightarrow> string \<Rightarrow> string \<Rightarrow> string \<Rightarrow> string \<Rightarrow> team command" where
  "cmd_create_team now i org name creator =
     and_emit (on_tenants (create_team now i org name creator)) (\<lambda>x _. (''team.created'', tm_id x, org))"

definition cmd_add_team_member :: "string \<Rightarrow> string \<Rightarrow> member command" where
  "cmd_add_team_member team user =
     and_emit (on_tenants (add_team_member team user)) (\<lambda>_ p. (''team.member_added'', user, team_org team p))"

definition cmd_update_team_member_role :: "string \<Rightarrow> string \<Rightarrow> string \<Rightarrow> string \<Rightarrow> member command" where
  "cmd_update_team_member_role team actor target role =
     and_emit (on_tenants (update_team_member_role team actor target role))
       (\<lambda>_ p. (''team.member_role_updated'', target, team_org team p))"

definition cmd_remove_team_member :: "string \<Rightarrow> string \<Rightarrow> unit command" where
  "cmd_remove_team_member team user p =
     and_emit (on_tenants (remove_team_member team user)) (\<lambda>_ _. (''team.member_removed'', user, team_org team p)) p"

definition cmd_create_project :: "unit command \<Rightarrow> gotime \<Rightarrow> string \<Rightarrow> string \<Rightarrow> string \<Rightarrow> string \<Rightarrow> project command" where
  "cmd_create_project snap now i org team name =
     publishing snap ''created'' (on_tenants (create_project now i org team name)) (\<lambda>x. (''project.created'', pj_id x, org))"

definition cmd_create_environment :: "gotime \<Rightarrow> string \<Rightarrow> string \<Rightarrow> string \<Rightarrow> string \<Rightarrow> string \<Rightarrow> environment command" where
  "cmd_create_environment now i org proj name slug =
     and_emit (on_tenants (create_environment now i org proj name slug)) (\<lambda>x _. (''environment.created'', ev_id x, org))"

definition cmd_delete_environment :: "unit command \<Rightarrow> string \<Rightarrow> unit command" where
  "cmd_delete_environment snap i =
     deleting snap (\<lambda>p. environments_org_id (pf_access p) i) (on_access (environments_delete i)) ''environment.deleted'' i"

subsection \<open>Keys\<close>

definition cmd_create_api_key ::
  "unit command \<Rightarrow> (string \<Rightarrow> string) \<Rightarrow> gotime \<Rightarrow> string \<Rightarrow> string \<Rightarrow> string \<Rightarrow> string \<Rightarrow> string \<Rightarrow> string \<Rightarrow> string \<Rightarrow>
   string \<Rightarrow> access_key command" where
  "cmd_create_api_key snap sha now i org kind owner proj env name raw =
     publishing snap ''created'' (on_access (create_api_key sha now i org kind owner proj env name raw))
       (\<lambda>k. (''api_key.created'', ky_id k, org))"

definition cmd_delete_api_key :: "unit command \<Rightarrow> string \<Rightarrow> unit command" where
  "cmd_delete_api_key snap i =
     deleting snap (\<lambda>p. keys_org_id (pf_access p) i) (on_access (keys_delete i)) ''api_key.deleted'' i"

definition cmd_create_signing_key ::
  "unit command \<Rightarrow> (string \<Rightarrow> public_key) \<Rightarrow> gotime \<Rightarrow> string \<Rightarrow> string \<Rightarrow> string \<Rightarrow> string \<Rightarrow> string \<Rightarrow> string \<Rightarrow> string \<Rightarrow>
   string \<Rightarrow> service_key command" where
  "cmd_create_signing_key snap pub now i key_id org proj env name alg pem =
     publishing snap ''created'' (on_access (create_signing_key pub now i key_id org proj env name alg pem))
       (\<lambda>k. (''signing_key.created'', sg_id k, org))"

definition cmd_update_signing_key :: "unit command \<Rightarrow> gotime \<Rightarrow> string \<Rightarrow> string \<Rightarrow> string \<Rightarrow> service_key command" where
  "cmd_update_signing_key snap now i name status =
     publishing snap ''updated'' (on_access (update_signing_key now i name status))
       (\<lambda>k. (''signing_key.updated'', i, sg_organization_id k))"

definition cmd_rotate_signing_key ::
  "unit command \<Rightarrow> (string \<Rightarrow> public_key) \<Rightarrow> gotime \<Rightarrow> string \<Rightarrow> string \<Rightarrow> service_key command" where
  "cmd_rotate_signing_key snap pub now i pem =
     publishing snap ''updated'' (on_access (rotate_signing_key pub now i pem))
       (\<lambda>k. (''signing_key.rotated'', i, sg_organization_id k))"

definition cmd_delete_signing_key :: "unit command \<Rightarrow> string \<Rightarrow> unit command" where
  "cmd_delete_signing_key snap i =
     deleting snap (\<lambda>p. signing_org_id (pf_access p) i) (on_access (signing_delete i)) ''signing_key.deleted'' i"

subsection \<open>Credentials\<close>

definition cmd_create_credential ::
  "unit command \<Rightarrow> (string \<Rightarrow> string res) option \<Rightarrow> gotime \<Rightarrow> string \<Rightarrow> string \<Rightarrow> string \<Rightarrow> string \<Rightarrow> string \<Rightarrow> string \<Rightarrow>
   string \<Rightarrow> provider_credential command" where
  "cmd_create_credential snap seal now i org name pt kind ref val =
     publishing snap ''created'' (on_creds (create_credential seal now i org name pt kind ref val))
       (\<lambda>c. (''credential.created'', pc_id c, org))"

definition cmd_update_credential :: "unit command \<Rightarrow> gotime \<Rightarrow> string \<Rightarrow> string \<Rightarrow> string \<Rightarrow> provider_credential command" where
  "cmd_update_credential snap now i name status =
     publishing snap ''updated'' (on_creds (creds_update_meta i name status now))
       (\<lambda>c. (''credential.updated'', i, pc_organization_id c))"

definition cmd_rotate_credential ::
  "unit command \<Rightarrow> (string \<Rightarrow> string res) option \<Rightarrow> gotime \<Rightarrow> string \<Rightarrow> string \<Rightarrow> string \<Rightarrow> provider_credential command" where
  "cmd_rotate_credential snap seal now i ref val =
     publishing snap ''updated'' (on_creds (rotate_secret seal now i ref val))
       (\<lambda>c. (''credential.rotated'', i, pc_organization_id c))"

definition cmd_delete_credential :: "unit command \<Rightarrow> string \<Rightarrow> unit command" where
  "cmd_delete_credential snap i =
     deleting snap (\<lambda>p. creds_org_id (pf_db p) i) (on_creds (delete_credential i)) ''credential.deleted'' i"

definition cmd_assign_credential ::
  "unit command \<Rightarrow> gotime \<Rightarrow> string \<Rightarrow> string \<Rightarrow> string \<Rightarrow> string \<Rightarrow> string \<Rightarrow> cred_assignment command" where
  "cmd_assign_credential snap now i cred st si by =
     publishing snap ''created'' (on_creds (assign_credential now i cred st si by))
       (\<lambda>a. (''credential.assigned'', asn_id a, asn_organization_id a))"

definition cmd_delete_assignment :: "unit command \<Rightarrow> string \<Rightarrow> unit command" where
  "cmd_delete_assignment snap i =
     deleting snap (\<lambda>p. assignment_org_id (pf_db p) i) (on_creds (delete_assignment i)) ''credential.unassigned'' i"

end
