(* ===== verification/Publishing_Laws.thy ===== *)
theory Publishing_Laws
  imports Publishing
begin

text \<open>
  What gateways can rely on: a published snapshot authenticates exactly the keys of the table, a
  call gets a credential of its key's own organization only, and a deleted key is refused once
  its deletion is published. The stores of snapshots are a locale with the laws a watching gateway
  needs; Postgres, the object store and their fan-out interpret it. Two theorems state when a
  deleted key survives: a publication that fails, and one that was loaded before the deletion.
\<close>

section \<open>The table of keys\<close>

definition keys_unique :: "(string, access_key \<times> string) gomap \<Rightarrow> bool" where
  "keys_unique m \<longleftrightarrow> keyed_by (\<lambda>(k, _). ky_id k) m \<and> unique_on (\<lambda>(_, h). Some h) m"

lemma gm_wf_detach: "gm_wf m \<Longrightarrow> gm_wf (map (\<lambda>(j, k, h). (j, detach_key e k, h)) m)"
  by (simp add: gm_wf_def case_prod_beta comp_def)

lemma keys_effect_unique: "keys_effect m m' \<Longrightarrow> keys_unique m \<Longrightarrow> keys_unique m'"
proof (induction rule: keys_effect.induct)
  case (keys_put m i k h)
  have "w \<noteq> (k', h)" if "gm_get m j = Some w" for j w k'
    using keys_put(3) that by (cases w) auto
  then show ?case
    using keys_put unfolding keys_unique_def by (auto intro!: keyed_by_put unique_on_put split: prod.splits)
next
  case (keys_del m i)
  then show ?case by (auto simp: keys_unique_def intro: keyed_by_del unique_on_del)
next
  case (keys_detach m e)
  have id: "ky_id (detach_key e k) = ky_id k" for k by (simp add: detach_key_def)
  from keys_detach show ?case
    unfolding keys_unique_def keyed_by_def unique_on_def gm_get_detach_row
    by (auto simp: gm_wf_detach id split: prod.splits)
qed

lemma row_of_hash:
  assumes "keys_unique m" "gm_get m i = Some (k, h)" "(j, k', h) \<in> set m"
  shows "j = i \<and> k' = k"
proof -
  have "gm_get m j = Some (k', h)" using assms(1,3) by (simp add: keys_unique_def keyed_by_def gm_get_mem)
  then show ?thesis
    using assms(1,2) unfolding keys_unique_def by (auto dest: unique_onD [where v = "(k', h)" and w = "(k, h)"])
qed

definition key_of_hash :: "cred_db \<Rightarrow> string \<Rightarrow> access_key option" where
  "key_of_hash db h = map_option (fst \<circ> snd) (find (\<lambda>(_, _, h'). h' = h) (acc_keys (cdb_access db)))"

lemma key_of_hash_Some:
  "keys_unique (acc_keys (cdb_access db)) \<Longrightarrow>
   key_of_hash db h = Some k \<longleftrightarrow> (\<exists>i. gm_get (acc_keys (cdb_access db)) i = Some (k, h))"
proof -
  assume u: "keys_unique (acc_keys (cdb_access db))"
  then have wf: "gm_wf (acc_keys (cdb_access db))" by (simp add: keys_unique_def keyed_by_def)
  have find: "find P xs = Some x \<Longrightarrow> x \<in> set xs \<and> P x" for P and xs :: "(string \<times> access_key \<times> string) list" and x
    by (induction xs) (auto split: if_splits)
  have ex: "x \<in> set xs \<Longrightarrow> P x \<Longrightarrow> \<exists>y. find P xs = Some y" for P and xs :: "(string \<times> access_key \<times> string) list" and x
    by (induction xs) auto
  show ?thesis
  proof
    assume "key_of_hash db h = Some k"
    then obtain i where "(i, k, h) \<in> set (acc_keys (cdb_access db))"
      by (auto simp: key_of_hash_def dest!: find)
    then show "\<exists>i. gm_get (acc_keys (cdb_access db)) i = Some (k, h)" using wf by (auto simp: gm_get_mem)
  next
    assume "\<exists>i. gm_get (acc_keys (cdb_access db)) i = Some (k, h)"
    then obtain i where i: "gm_get (acc_keys (cdb_access db)) i = Some (k, h)" by blast
    obtain y where y: "find (\<lambda>(_, _, h'). h' = h) (acc_keys (cdb_access db)) = Some y"
      using ex [OF map_of_SomeD [OF i], of "\<lambda>(_, _, h'). h' = h"] by auto
    then obtain j k' where "y = (j, k', h)" "(j, k', h) \<in> set (acc_keys (cdb_access db))" by (auto dest!: find)
    then show "key_of_hash db h = Some k" using row_of_hash [OF u i] y by (auto simp: key_of_hash_def)
  qed
qed

lemma load_source_keys: "so_api_keys (load_source db cfg) = map (\<lambda>(_, k, h). load_api_key (acc_tenancy (cdb_access db)) k h) (acc_keys (cdb_access db))"
  by (simp add: load_source_def)

lemma ak_load [simp]:
  "ak_key_hash (load_api_key t k h) = h" "ak_organization_id (load_api_key t k h) = ky_organization_id k"
  "ak_id (load_api_key t k h) = ky_id k" "ak_project_id (load_api_key t k h) = ky_project_id k"
  by (simp_all add: load_api_key_def)

lemma published_exact:
  assumes "keys_unique (acc_keys (cdb_access db))" "hash_key sha raw \<noteq> []"
  shows "lookup_key sha (Some (compile reg now (load_source db cfg))) raw =
    map_option (\<lambda>k. load_api_key (acc_tenancy (cdb_access db)) k (hash_key sha raw)) (key_of_hash db (hash_key sha raw))"
proof -
  let ?h = "hash_key sha raw" and ?t = "acc_tenancy (cdb_access db)" and ?m = "acc_keys (cdb_access db)"
  let ?xs = "map (\<lambda>(_, k, h). load_api_key ?t k h) ?m"
  have l: "lookup_key sha (Some (compile reg now (load_source db cfg))) raw = last_with api_key_row ?xs ?h"
    by (simp add: lookup_key_def load_source_keys gomap_simps)
  have row: "last_with api_key_row ?xs ?h = Some a \<Longrightarrow> \<exists>i k. gm_get ?m i = Some (k, ?h) \<and> a = load_api_key ?t k ?h" for a
    using assms(1) by (auto dest!: last_with_SomeD simp: api_key_row_def keys_unique_def keyed_by_def gm_get_mem split: if_splits) blast
  show ?thesis
  proof (cases "key_of_hash db ?h")
    case None
    then have "\<nexists>i k. gm_get ?m i = Some (k, ?h)" using key_of_hash_Some [OF assms(1), of ?h] by auto
    then have "last_with api_key_row ?xs ?h = None" using row by (cases "last_with api_key_row ?xs ?h") auto
    then show ?thesis by (simp add: l None)
  next
    case (Some k)
    then obtain i where i: "gm_get ?m i = Some (k, ?h)" using key_of_hash_Some [OF assms(1)] by auto
    have "load_api_key ?t k ?h \<in> set ?xs" using map_of_SomeD [OF i] by force
    moreover have "api_key_row (load_api_key ?t k ?h) = Some (?h, load_api_key ?t k ?h)"
      using assms(2) by (simp add: api_key_row_def)
    ultimately have "last_with api_key_row ?xs ?h \<noteq> None" unfolding last_with_None_iff by blast
    then obtain a where a: "last_with api_key_row ?xs ?h = Some a" by blast
    obtain j k' where j: "gm_get ?m j = Some (k', ?h)" "a = load_api_key ?t k' ?h" using row [OF a] by blast
    have "k' = k" using row_of_hash [OF assms(1) i map_of_SomeD [OF j(1)]] by simp
    then show ?thesis by (simp add: l a j(2) Some)
  qed
qed

text \<open>
  A published snapshot authenticates exactly the keys in the table. A raw key is accepted by a
  gateway with the snapshot compiled from the tables precisely when a row holds its hash, and the
  identity it gets is that row's: its organization, project with the project's team, environment,
  owner and kind.
\<close>
theorem published_keys_exact:
  assumes "keys_unique (acc_keys (cdb_access db))" "hash_key sha raw \<noteq> []"
  shows "lookup_key sha (Some (compile reg now (load_source db cfg))) raw =
    map_option (\<lambda>k. load_api_key (acc_tenancy (cdb_access db)) k (hash_key sha raw)) (key_of_hash db (hash_key sha raw))"
  by (rule published_exact [OF assms])

section \<open>Credentials of a call\<close>

text \<open>Identifiers are UUIDs: no colon, no space around them.\<close>

definition plain :: "string \<Rightarrow> bool" where
  "plain s \<longleftrightarrow> CHR '':'' \<notin> set s \<and> trim_space s = s"

definition plain_ids :: "cred_db \<Rightarrow> bool" where
  "plain_ids db \<longleftrightarrow>
     (\<forall>(_, k, _)\<in>set (acc_keys (cdb_access db)). plain (ky_id k) \<and> plain (ky_project_id k) \<and> plain (ky_organization_id k)) \<and>
     (\<forall>(_, a)\<in>set (cdb_assignments db). plain (asn_scope_id a))"

lemma rev_append_sep: "CHR '':'' \<notin> set a \<Longrightarrow> CHR '':'' \<notin> set b \<Longrightarrow> x @ CHR '':'' # a = y @ CHR '':'' # b \<longleftrightarrow> x = y \<and> a = b"
  using append_sep_inj [of "rev a" "rev b" "rev x" "rev y"] by (metis rev.simps(2) rev_append rev_rev_ident append.assoc
      append_Cons append_Nil set_rev)

lemma assignment_key_inj_right:
  assumes "CHR '':'' \<notin> set i" "CHR '':'' \<notin> set i'" "CHR '':'' \<notin> set st" "CHR '':'' \<notin> set st'"
  shows "assignment_key pt st i = assignment_key pt' st' i' \<longleftrightarrow> pt = pt' \<and> st = st' \<and> i = i'"
  using rev_append_sep [OF assms(1,2), of "pt @ ''::'' @ st @ '':''" "pt' @ ''::'' @ st' @ '':''"]
    rev_append_sep [OF assms(3,4), of "pt @ '':''" "pt' @ '':''"]
  by (simp add: assignment_key_def)

lemma scope_plain: "valid_assignment_scope st \<Longrightarrow> CHR '':'' \<notin> set st"
  by (auto simp: valid_assignment_scope_def ScopeOrganization_def ScopeProject_def ScopeAPIKey_def)

lemma loaded_credential:
  assumes "credentials_ok (cdb_credentials db)" "gm_get (sn_credentials (compile reg now (load_source db cfg))) i = Some c"
  shows "\<exists>pc. gm_get (cdb_credentials db) i = Some pc \<and> c = load_credential pc"
proof -
  have "last_with credential_row (map (load_credential \<circ> snd) (cdb_credentials db)) i = Some c"
    using assms(2) by (simp add: gomap_simps load_source_def)
  from last_with_SomeD [OF this] obtain j pc where "(j, pc) \<in> set (cdb_credentials db)"
    "credential_row (load_credential pc) = Some (i, c)" by auto
  then show ?thesis
    using assms(1) by (auto simp: credential_row_def load_credential_def credentials_ok_def keyed_by_def gm_get_mem split: if_splits)
qed

lemma loaded_assignment:
  assumes "gm_wf (cdb_assignments db)"
    "gm_get (sn_assignments (compile reg now (load_source db cfg))) key = Some cid"
  shows "\<exists>i a. gm_get (cdb_assignments db) i = Some a \<and> cid = asn_credential_id a \<and>
    key = assignment_key (asn_provider_type a) (asn_scope_type a) (asn_scope_id a)"
proof -
  have "last_with assignment_row (map (load_assignment \<circ> snd) (cdb_assignments db)) key = Some cid"
    using assms(2) by (simp add: gomap_simps load_source_def)
  from last_with_SomeD [OF this] obtain i a where "(i, a) \<in> set (cdb_assignments db)"
    "assignment_row (load_assignment a) = Some (key, cid)" by auto
  then show ?thesis
    using assms(1) by (auto simp: assignment_row_def load_assignment_def gm_get_mem split: if_splits)
qed

text \<open>A scope of the key that an assignment was found for is in the assignment's organization.\<close>

definition key_scope :: "access_key \<Rightarrow> string \<Rightarrow> string \<Rightarrow> bool" where
  "key_scope k st i \<longleftrightarrow> i \<noteq> [] \<and>
     (st = ScopeAPIKey \<and> i = ky_id k \<or> st = ScopeProject \<and> i = ky_project_id k \<or> st = ScopeOrganization \<and> i = ky_organization_id k)"

lemma assigned_credential_own:
  assumes ok: "cred_db_ok db" "plain_ids db" "keys_unique (acc_keys (cdb_access db))"
    and k: "gm_get (acc_keys (cdb_access db)) j = Some (k, h)" and sc: "key_scope k st i"
    and c: "assigned_credential (compile reg now (load_source db cfg)) pt st i = Some c"
  shows "\<exists>ci pc. gm_get (cdb_credentials db) ci = Some pc \<and> c = load_credential pc \<and>
    pc_organization_id pc = ky_organization_id k \<and> pc_provider_type pc = pt"
proof -
  let ?sn = "compile reg now (load_source db cfg)"
  from assigned_credential_SomeD [OF c] obtain cid where
    cid: "gm_get (sn_assignments ?sn) (assignment_key pt st i) = Some cid" "gm_get (sn_credentials ?sn) cid = Some c" by blast
  have aok: "assignments_ok (cdb_access db) (cdb_credentials db) (cdb_assignments db)" "credentials_ok (cdb_credentials db)"
    "keys_scoped (cdb_access db)" using ok(1) by (simp_all add: cred_db_ok_def)
  obtain ai a where a: "gm_get (cdb_assignments db) ai = Some a" "cid = asn_credential_id a"
    "assignment_key pt st i = assignment_key (asn_provider_type a) (asn_scope_type a) (asn_scope_id a)"
    using loaded_assignment [OF _ cid(1)] aok(1) by (auto simp: assignments_ok_def keyed_by_def)
  have aok': "assigned_scope_ok (cdb_access db) a" using aok(1) a(1) by (simp add: assignments_ok_def)
  obtain pc where pc: "gm_get (cdb_credentials db) cid = Some pc" "c = load_credential pc"
    using loaded_credential [OF aok(2) cid(2)] by blast
  have pcs: "pc_organization_id pc = asn_organization_id a" "pc_provider_type pc = asn_provider_type a"
    using aok(1) a(1,2) pc(1) unfolding assignments_ok_def by (metis option.inject)+
  have kset: "(j, k, h) \<in> set (acc_keys (cdb_access db))" and aset: "(ai, a) \<in> set (cdb_assignments db)"
    using map_of_SomeD [OF k] map_of_SomeD [OF a(1)] by auto
  have st: "CHR '':'' \<notin> set st" "CHR '':'' \<notin> set i" "CHR '':'' \<notin> set (asn_scope_id a)"
    using sc ok(2) kset aset unfolding plain_ids_def key_scope_def plain_def
    by (fastforce simp: ScopeOrganization_def ScopeProject_def ScopeAPIKey_def)+
  have "CHR '':'' \<notin> set (asn_scope_type a)" using aok' scope_plain by (simp add: assigned_scope_ok_def)
  from a(3) [unfolded assignment_key_inj_right [OF st(2,3,1) this]]
  have eq: "pt = asn_provider_type a" "st = asn_scope_type a" "i = asn_scope_id a" by auto
  have "ky_id k = j" using ok(3) k by (auto simp: keys_unique_def keyed_by_def)
  moreover have "key_ok (acc_tenancy (cdb_access db)) k" using aok(3) k by (auto simp: keys_scoped_def)
  ultimately have "asn_organization_id a = ky_organization_id k"
    using sc aok' k eq(2,3) by (auto simp: key_scope_def assigned_scope_ok_def key_ok_def scope_ok_def)
  then show ?thesis using pc pcs eq(1) by auto
qed

text \<open>
  C7: A call is paid with its own organization's credential. With the tables in the state their
  operations keep, whatever credential a gateway resolves for a request of an authenticated key,
  named by the request or assigned to the key, its project or its organization, is an active row
  of the key's organization and of the provider's type.
\<close>
theorem call_credential_own_organization:
  assumes "cred_db_ok db" "plain_ids db" "keys_unique (acc_keys (cdb_access db))"
    and "sn = compile reg now (load_source db cfg)" "lookup_key sha (Some sn) raw = Some k" "trim_space pt = pt"
    and "resolve_credential_for_call (Some sn) pt k name = CredHit c"
  shows "\<exists>i pc. gm_get (cdb_credentials db) i = Some pc \<and> c = load_credential pc \<and> pc_status pc = StatusActive \<and>
    pc_organization_id pc = ak_organization_id k \<and> pc_provider_type pc = pt"
proof -
  let ?P = "\<lambda>c. \<exists>i pc. gm_get (cdb_credentials db) i = Some pc \<and> c = load_credential pc \<and>
    pc_organization_id pc = ak_organization_id k \<and> pc_provider_type pc = pt"
  have cok: "credentials_ok (cdb_credentials db)" using assms(1) by (simp add: cred_db_ok_def)
  have "last_with api_key_row (map (\<lambda>(_, k, h). load_api_key (acc_tenancy (cdb_access db)) k h) (acc_keys (cdb_access db))) (hash_key sha raw) = Some k"
    using assms(4,5) by (simp add: lookup_key_def load_source_keys gomap_simps)
  from last_with_SomeD [OF this] obtain j k0 h where "(j, k0, h) \<in> set (acc_keys (cdb_access db))"
    and k: "k = load_api_key (acc_tenancy (cdb_access db)) k0 h"
    by (auto simp: api_key_row_def split: if_splits)
  then have j: "gm_get (acc_keys (cdb_access db)) j = Some (k0, h)" "plain (ky_organization_id k0)"
    using assms(2,3) by (auto simp: keys_unique_def keyed_by_def gm_get_mem [symmetric] plain_ids_def)
  have own: "?P c" if "assigned_credential sn pt st i = Some c" "key_scope k0 st i" for c st i
    using assigned_credential_own [OF assms(1-3) j(1) that(2)] that(1) k assms(4) by simp
  have named: "?P c" if c: "lookup_credential_by_name (Some sn) (ak_organization_id k) pt (trim_space name) = Some c" for c
  proof -
    from lookup_credential_by_name_SomeD [OF c] obtain i where
      m: "credential_matches (ak_organization_id k) pt (trim_space (trim_space name)) c" "(i, c) \<in> set (sn_credentials sn)"
      using j(2) k assms(6) by (auto simp: plain_def)
    have "gm_get (sn_credentials sn) i = Some c"
      using m(2) unfolding assms(4) compile_simps by (simp add: gm_get_mem gm_wf_index_by)
    from loaded_credential [OF cok this [unfolded assms(4)]] obtain pc where
      "gm_get (cdb_credentials db) i = Some pc" "c = load_credential pc" by blast
    moreover from this m(1) have "pc_organization_id pc = ak_organization_id k" "pc_provider_type pc = pt"
      by (simp_all add: credential_matches_def load_credential_def)
    ultimately show ?thesis by blast
  qed
  have sc: "assigned_credential sn pt st i = Some c \<Longrightarrow> i \<noteq> []" for st i c by (rule assigned_credential_SomeD(2))
  have "?P c \<and> cr_status c = StatusActive"
    using assms(7) named own sc assigned_credential_SomeD(1) lookup_credential_by_name_SomeD(1) k
    by (auto simp: resolve_credential_for_call_def Let_def key_scope_def credential_matches_def split: if_splits option.splits)
  moreover have "cr_status (load_credential pc) = pc_status pc" for pc by (simp add: load_credential_def)
  ultimately show ?thesis by metis
qed

section \<open>What a watching gateway needs of a store\<close>

text \<open>
  A store takes snapshots and gives back the one it took last, numbered. One that numbers them
  itself also promises that numbers grow, that a failed publication changes nothing that can be
  read, and that reading fails only for want of a snapshot.
\<close>

locale snapshot_store =
  fixes put :: "bool \<Rightarrow> snapshot \<Rightarrow> 's \<Rightarrow> int res \<times> 's" and latest :: "'s \<Rightarrow> snapshot res" and ok :: "'s \<Rightarrow> bool"
  assumes put_ok: "ok st \<Longrightarrow> ok (snd (put up sn st))"
    and put_latest: "ok st \<Longrightarrow> put up sn st = (Inr v, st') \<Longrightarrow> latest st' = Inr (sn\<lparr>sn_version := v\<rparr>)"
    and put_positive: "ok st \<Longrightarrow> put up sn st = (Inr v, st') \<Longrightarrow> 0 < v"

locale versioned_store = snapshot_store +
  assumes put_newer: "ok st \<Longrightarrow> put up sn st = (Inr v, st') \<Longrightarrow> latest st = Inr sn0 \<Longrightarrow> sn_version sn0 < v"
    and put_failed: "ok st \<Longrightarrow> put up sn st = (Inl e, st') \<Longrightarrow> latest st' = latest st"
    and latest_missing: "ok st \<Longrightarrow> latest st = Inl e \<Longrightarrow> err_is e ErrNotFound"

text \<open>A store and a gateway watching it, with publications between the gateway's checks.\<close>

inductive watched :: "(bool \<Rightarrow> snapshot \<Rightarrow> 's \<Rightarrow> int res \<times> 's) \<Rightarrow> ('s \<Rightarrow> snapshot res) \<Rightarrow> ('s \<Rightarrow> bool) \<Rightarrow> 's \<Rightarrow> watcher \<Rightarrow> bool"
  for put latest ok where
  watched_start: "ok st \<Longrightarrow> watch_start (latest st) = Inr w \<Longrightarrow> watched put latest ok st w"
| watched_put: "watched put latest ok st w \<Longrightarrow> watched put latest ok (snd (put up sn st)) w"
| watched_check: "watched put latest ok st w \<Longrightarrow> watch_check (latest st) w = Inr w' \<Longrightarrow> watched put latest ok st w'"

text \<open>The gateway is behind the store, or holds its latest snapshot.\<close>

definition gateway_in_step :: "snapshot res \<Rightarrow> watcher \<Rightarrow> bool" where
  "gateway_in_step l w =
     (case l of Inl e \<Rightarrow> wt_version w = 0 \<and> wt_snapshot w = None
      | Inr sn \<Rightarrow> wt_version w < sn_version sn \<or> wt_version w = sn_version sn \<and> wt_snapshot w = Some sn)"

lemma gateway_in_step_check: "watch_check l w = Inr w' \<Longrightarrow> gateway_in_step l w \<Longrightarrow> gateway_in_step l w'"
  by (auto simp: watch_check_def gateway_in_step_def split: sum.splits if_splits)

lemma gateway_in_step_start: "watch_start l = Inr w \<Longrightarrow> gateway_in_step l w"
  by (auto simp: watch_start_def gateway_in_step_def split: sum.splits if_splits)

context versioned_store begin

lemma watched_gateway_in_step: "watched put latest ok st w \<Longrightarrow> ok st \<and> gateway_in_step (latest st) w"
proof (induction rule: watched.induct)
  case (watched_put st w up sn)
  then have ok: "ok st" and w: "gateway_in_step (latest st) w" by blast+
  show ?case
  proof (cases "put up sn st")
    case (Pair r st')
    show ?thesis
    proof (cases r)
      case (Inl e)
      then show ?thesis using put_failed [OF ok Pair [unfolded Inl]] put_ok [OF ok] w Pair by (metis snd_conv)
    next
      case (Inr v)
      note p = Pair [unfolded Inr]
      have "wt_version w < v"
        using w put_newer [OF ok p] put_positive [OF ok p] by (fastforce simp: gateway_in_step_def split: sum.splits)
      then show ?thesis using put_latest [OF ok p] put_ok [OF ok, of up sn] by (simp add: p gateway_in_step_def)
    qed
  qed
qed (auto intro: gateway_in_step_check gateway_in_step_start)

lemma watch_converges:
  assumes "watched put latest ok st w"
  shows "\<exists>w'. watch_check (latest st) w = Inr w' \<and> wt_version w \<le> wt_version w' \<and>
    (\<forall>sn. latest st = Inr sn \<longrightarrow> wt_snapshot w' = Some sn)"
  using watched_gateway_in_step [OF assms] latest_missing
  by (cases "latest st") (auto simp: watch_check_def gateway_in_step_def)

lemma watch_sees_put:
  assumes "watched put latest ok st w" "put up sn st = (Inr v, st')"
  shows "watch_check (latest st') w = Inr \<lparr>wt_version = v, wt_snapshot = Some (sn\<lparr>sn_version := v\<rparr>)\<rparr>"
proof -
  have ok: "ok st" and w: "gateway_in_step (latest st) w" using watched_gateway_in_step [OF assms(1)] by blast+
  have "wt_version w < v"
    using w put_newer [OF ok assms(2)] put_positive [OF ok assms(2)] by (fastforce simp: gateway_in_step_def split: sum.splits)
  then show ?thesis by (simp add: put_latest [OF ok assms(2)] watch_check_def)
qed

end

subsection \<open>Postgres\<close>

definition pg_ok :: "pg_snapshots \<Rightarrow> bool" where
  "pg_ok st \<longleftrightarrow> 0 \<le> ps_serial st \<and> (\<forall>(v, _)\<in>set (ps_rows st). 0 < v \<and> v \<le> ps_serial st)"

lemma pg_snapshot_put_simps:
  "pg_snapshot_put up sn st =
     (if up then (Inr (ps_serial st + 1), \<lparr>ps_serial = ps_serial st + 1, ps_rows = ps_rows st @ [(ps_serial st + 1, sn)]\<rparr>)
      else (Inl store_down, st))"
  by (simp add: pg_snapshot_put_def Let_def)

lemma newest_row: "foldl newer_row r rs \<in> insert r (set rs)"
  by (induction rs arbitrary: r) (auto simp: newer_row_def split: if_splits)

lemma newest_last: "(\<And>x. x \<in> insert r (set rs) \<Longrightarrow> fst x < fst b) \<Longrightarrow> foldl newer_row r (rs @ [b]) = b"
  using newest_row [of r rs] by (simp add: newer_row_def)

lemma pg_put_latest:
  assumes "pg_ok st" "pg_snapshot_put up sn st = (Inr v, st')"
  shows "pg_snapshot_latest st' = Inr (sn\<lparr>sn_version := v\<rparr>)"
proof (cases "ps_rows st")
  case (Cons r rs)
  have "foldl newer_row r (rs @ [(v, sn)]) = (v, sn)"
    by (rule newest_last) (use assms Cons in \<open>auto simp: pg_ok_def pg_snapshot_put_simps split: if_splits\<close>)
  then show ?thesis using assms Cons by (auto simp: pg_snapshot_put_simps pg_snapshot_latest_def split: if_splits)
qed (use assms in \<open>auto simp: pg_snapshot_put_simps pg_snapshot_latest_def split: if_splits\<close>)

lemma pg_latest_version:
  assumes "pg_ok st" "pg_snapshot_latest st = Inr sn" shows "sn_version sn \<le> ps_serial st"
proof (cases "ps_rows st")
  case (Cons r rs)
  then show ?thesis
    using assms newest_row [of r rs] by (auto simp: pg_ok_def pg_snapshot_latest_def split: prod.splits)
qed (use assms in \<open>simp add: pg_snapshot_latest_def\<close>)

interpretation pg: versioned_store pg_snapshot_put pg_snapshot_latest pg_ok
proof (unfold_locales, goal_cases)
  case (1 st up sn)
  then show ?case by (auto simp: pg_ok_def pg_snapshot_put_simps)
next
  case (2 st up sn v st')
  then show ?case by (rule pg_put_latest)
next
  case (3 st up sn v st')
  then show ?case by (auto simp: pg_ok_def pg_snapshot_put_simps split: if_splits)
next
  case (4 st up sn v st' sn0)
  then show ?case using pg_latest_version by (fastforce simp: pg_snapshot_put_simps split: if_splits)
next
  case (5 st up sn e st')
  then show ?case by (auto simp: pg_snapshot_put_simps split: if_splits)
next
  case (6 st e)
  then show ?case by (auto simp: pg_snapshot_latest_def split: list.splits prod.splits)
qed

subsection \<open>The object store and the fan-out\<close>

interpretation blob: snapshot_store "\<lambda>_. blob_snapshot_put" blob_snapshot_latest "\<lambda>_. True"
  by unfold_locales (auto simp: blob_snapshot_put_def blob_snapshot_latest_def split: if_splits)

lemma fanout_put_primary:
  assumes "pg_ok (fst st)"
  shows "fst (fanout_put up sn st) = fst (pg_snapshot_put up sn (fst st)) \<and>
    fst (snd (fanout_put up sn st)) = snd (pg_snapshot_put up sn (fst st))"
proof (cases up)
  case True
  then have "0 < ps_serial (fst st) + 1" using assms by (simp add: pg_ok_def)
  then show ?thesis using True
    by (auto simp: fanout_put_def pg_snapshot_put_simps blob_snapshot_put_def split: prod.splits option.splits)
qed (simp add: fanout_put_def pg_snapshot_put_simps split: prod.splits)

interpretation fanout: versioned_store fanout_put fanout_latest "\<lambda>st. pg_ok (fst st)"
proof -
  have eq: "pg_snapshot_put up sn (fst st) = (r, fst st')" if "pg_ok (fst st)" "fanout_put up sn st = (r, st')" for up sn st r st'
    using fanout_put_primary [OF that(1), of up sn] that(2) by (metis fst_conv prod.collapse snd_conv)
  show "versioned_store fanout_put fanout_latest (\<lambda>st. pg_ok (fst st))"
    unfolding fanout_latest_def
    by unfold_locales
      (metis fanout_put_primary pg.put_ok, metis eq pg.put_latest, metis eq pg.put_positive, metis eq pg.put_newer,
       metis eq pg.put_failed, rule pg.latest_missing)
qed


text \<open>The object store keeps the pointer of the last write: a late write of an older version takes it back.\<close>

lemma late_write_regresses:
  assumes "0 < sn_version old" "sn_version old < sn_version new"
  shows "blob_snapshot_latest (snd (blob_snapshot_put old (snd (blob_snapshot_put new st)))) = Inr old"
  using assms by (simp add: blob_snapshot_put_def blob_snapshot_latest_def)

section \<open>Deleting a key\<close>

text \<open>What a deletion does: the row goes, then the tables are published, then the event is emitted.\<close>

abbreviation pf_keys :: "platform \<Rightarrow> (string, access_key \<times> string) gomap" where
  "pf_keys p \<equiv> acc_keys (pf_access p)"

definition without_key :: "string \<Rightarrow> platform \<Rightarrow> platform" where
  "without_key i p =
     p\<lparr>pf_db := (pf_db p)\<lparr>cdb_access := (pf_access p)\<lparr>acc_keys := gm_del i (pf_keys p)\<rparr>\<rparr>\<rparr>"

lemma without_key_simps [simp]:
  "pf_snapshots (without_key i p) = pf_snapshots p" "pf_keys (without_key i p) = gm_del i (pf_keys p)"
  "pf_config (without_key i p) = pf_config p"
  by (simp_all add: without_key_def)

lemma keys_org_id_Inr: "gm_get (acc_keys acc) i = Some (k, h) \<Longrightarrow> keys_org_id acc i = Inr (ky_organization_id k)"
  by (simp add: keys_org_id_def keys_get_def bind_res_def)

lemma delete_key_run:
  assumes "gm_get (pf_keys p) i = Some (k, h)"
  shows "cmd_delete_api_key snap i p =
    (case snap (without_key i p) of
       (Inl e, p') \<Rightarrow> (Inl (Err (err_kind e) (''deleted'' @ '' but snapshot publish failed: '' @ err_msg e)), p')
     | (Inr _, p') \<Rightarrow> db_bind (emit ''snapshot.published'' [] [])
          (\<lambda>_. db_bind (emit ''api_key.deleted'' i (ky_organization_id k)) (\<lambda>_ p. (Inr (), p))) p')"
  using assms keys_org_id_Inr [OF assms]
  by (simp add: cmd_delete_api_key_def deleting_def publishing_def and_emit_def db_check_def db_bind_def on_access_def
      on_creds_def keys_delete_def publish_def without_key_def split: prod.splits sum.splits)

lemma delete_key_missing:
  "gm_get (pf_keys p) i = None \<Longrightarrow> cmd_delete_api_key snap i p = (Inl (sentinel ErrNotFound), p)"
  by (simp add: cmd_delete_api_key_def deleting_def db_check_def keys_org_id_def keys_get_def bind_res_def)

lemma delete_key_Inr:
  assumes "gm_get (pf_keys p) i = Some (k, h)" "cmd_delete_api_key (publish_snapshot reg now up) i p = (Inr (), p')"
  shows "\<exists>v. pg_snapshot_put up (compile reg now (load_source (pf_db (without_key i p)) (load_config reg (pf_config p)))) (pf_snapshots p) =
    (Inr v, pf_snapshots p') \<and> pf_db p' = pf_db (without_key i p)"
proof -
  define sn where "sn = compile reg now (load_source (pf_db (without_key i p)) (load_config reg (pf_config p)))"
  define q where "q = without_key i p"
  obtain r st where put: "pg_snapshot_put up sn (pf_snapshots p) = (r, st)" by fastforce
  then have "publish_snapshot reg now up q = ((case r of Inl e \<Rightarrow> Inl e | Inr _ \<Rightarrow> Inr ()), q\<lparr>pf_snapshots := st\<rparr>)"
    unfolding publish_snapshot_def q_def without_key_simps sn_def [symmetric] by (cases r) simp_all
  note run = this
  show ?thesis
  proof (cases r)
    case (Inl e)
    then show ?thesis using assms(2) unfolding delete_key_run [OF assms(1)] q_def [symmetric] run by simp
  next
    case (Inr v)
    have "pf_snapshots p' = st \<and> pf_db p' = pf_db q"
      using assms(2) unfolding delete_key_run [OF assms(1)] q_def [symmetric] run Inr by (auto simp: db_bind_def emit_def)
    then show ?thesis using put Inr unfolding sn_def q_def by blast
  qed
qed

lemma key_of_hash_deleted:
  assumes "keys_unique (pf_keys p)" "gm_get (pf_keys p) i = Some (k, h)"
  shows "keys_unique (pf_keys (without_key i p))" "key_of_hash (pf_db (without_key i p)) h = None"
proof -
  show u: "keys_unique (pf_keys (without_key i p))"
    using keys_effect_unique [OF keys_del assms(1)] by simp
  have "gm_get (gm_del i (pf_keys p)) j \<noteq> Some (k', h)" for j k'
  proof
    assume j: "gm_get (gm_del i (pf_keys p)) j = Some (k', h)"
    then have "gm_get (pf_keys p) j = Some (k', h)" "j \<noteq> i" by (auto split: if_splits)
    then show False using row_of_hash [OF assms map_of_SomeD] by blast
  qed
  then show "key_of_hash (pf_db (without_key i p)) h = None"
    using key_of_hash_Some [OF u, of h] by (cases "key_of_hash (pf_db (without_key i p)) h") auto
qed

lemma lookup_key_version [simp]: "lookup_key sha (Some (sn\<lparr>sn_version := v\<rparr>)) raw = lookup_key sha (Some sn) raw"
  by (simp add: lookup_key_def)


text \<open>
  A deletion whose publication fails revokes nothing at the gateways, and repeating it does not
  help. The row is gone and the command reports an error, but what gateways read is unchanged, so
  the key is still accepted; the command run again finds no row and does not publish.
\<close>
theorem failed_publish_keeps_deleted_key:
  assumes "gm_get (pf_keys p) i = Some (k, h)"
  shows "\<exists>e p'. cmd_delete_api_key (publish_snapshot reg now False) i p = (Inl e, p') \<and> gm_get (pf_keys p') i = None \<and>
    pf_snapshots p' = pf_snapshots p \<and> cmd_delete_api_key snap i p' = (Inl (sentinel ErrNotFound), p')"
proof -
  let ?p = "without_key i p"
  have "cmd_delete_api_key (publish_snapshot reg now False) i p =
      (Inl (Err (err_kind store_down) (''deleted'' @ '' but snapshot publish failed: '' @ err_msg store_down)), ?p)"
    unfolding delete_key_run [OF assms] by (simp add: publish_snapshot_def pg_snapshot_put_def without_key_def)
  moreover have "gm_get (pf_keys ?p) i = None" by simp
  ultimately show ?thesis using delete_key_missing [of ?p i snap] by (metis without_key_simps(1))
qed

text \<open>
  A publication loaded before a deletion and put after it brings the key back. Loading and
  putting are not one transaction: when another command has loaded the tables before the key is
  deleted and puts its snapshot after the deletion was published, the newest snapshot accepts the
  deleted key, with the identity it had.
\<close>
theorem stale_publish_resurrects_deleted_key:
  assumes "keys_unique (pf_keys p)" "gm_get (pf_keys p) i = Some (k, hash_key sha raw)" "hash_key sha raw \<noteq> []" "pg_ok (pf_snapshots p)"
    and "cmd_delete_api_key (publish_snapshot reg now True) i p = (Inr (), p')"
    and "pg_snapshot_put True (compile reg now (load_source (pf_db p) (load_config reg (pf_config p)))) (pf_snapshots p') = (Inr v, st)"
  shows "\<exists>sn. pg_snapshot_latest st = Inr sn \<and> gm_get (pf_keys p') i = None \<and>
    lookup_key sha (Some sn) raw = Some (load_api_key (pf_tenancy p) k (hash_key sha raw))"
proof -
  from delete_key_Inr [OF assms(2,5)] obtain v0 where
    put: "pg_snapshot_put True (compile reg now (load_source (pf_db (without_key i p)) (load_config reg (pf_config p)))) (pf_snapshots p) =
      (Inr v0, pf_snapshots p')" and db: "pf_db p' = pf_db (without_key i p)" by blast
  have "pg_ok (pf_snapshots p')" using pg.put_ok [OF assms(4)] put by (metis snd_conv)
  note l = pg.put_latest [OF this assms(6)]
  have "key_of_hash (pf_db p) (hash_key sha raw) = Some k" using key_of_hash_Some [OF assms(1)] assms(2) by blast
  then show ?thesis using published_exact [OF assms(1,3)] l db by simp
qed

section \<open>Witnesses\<close>

text \<open>One organization with a project, a service key, a credential and its assignment to the project.\<close>

definition demo_access_key :: access_key where
  "demo_access_key = \<lparr>ky_id = ''k'', ky_project_id = ''p'', ky_organization_id = ''o'', ky_environment_id = [], ky_name = ''K'',
     ky_kind = KeyKindServiceAccount, ky_owner_user_id = [], ky_key_prefix = ''a'', ky_key = [], ky_created_at = 0\<rparr>"

definition demo_provider_credential :: provider_credential where
  "demo_provider_credential = \<lparr>pc_id = ''c'', pc_organization_id = ''o'', pc_name = ''C'', pc_provider_type = ''openai'',
     pc_storage_kind = CredentialStorageEnv, pc_secret_ref = ''KEY'', pc_encrypted_payload = None, pc_key_version = 0,
     pc_status = CredStatusActive, pc_has_secret = False, pc_created_at = 0, pc_updated_at = 0\<rparr>"

definition demo_assignment :: cred_assignment where
  "demo_assignment = \<lparr>asn_id = ''a'', asn_credential_id = ''c'', asn_organization_id = ''o'', asn_provider_type = ''openai'',
     asn_scope_type = ScopeProject, asn_scope_id = ''p'', asn_created_at = 0, asn_created_by = ''u1''\<rparr>"

definition demo_cred_db :: cred_db where
  "demo_cred_db = \<lparr>cdb_access = small_access\<lparr>acc_keys := [(''k'', demo_access_key, ''6131'')]\<rparr>,
     cdb_credentials = [(''c'', demo_provider_credential)], cdb_assignments = [(''a'', demo_assignment)]\<rparr>"

definition demo_platform :: platform where
  "demo_platform = \<lparr>pf_db = demo_cred_db, pf_config = empty_config, pf_snapshots = \<lparr>ps_serial = 0, ps_rows = []\<rparr>, pf_events = []\<rparr>"

lemmas demo_cred_defs = demo_cred_db_def demo_access_key_def demo_provider_credential_def demo_assignment_def small_access_def
  ScopeProject_def ScopeOrganization_def ScopeAPIKey_def CredentialStorageEnv_def CredStatusActive_def

lemma demo_key_hash: "hash_key id ''a1'' = ''6131''"
  by (simp add: hash_key_def hex_encode_def hex_digit_def char_of_def bit_0)

lemma demo_keys_unique: "keys_unique (acc_keys (cdb_access demo_cred_db))"
  by (simp add: keys_unique_def keyed_by_def unique_on_def gm_wf_def demo_cred_defs)

lemma demo_cred_db_ok: "cred_db_ok demo_cred_db"
proof -
  have "keys_scoped (cdb_access demo_cred_db)"
    by (simp add: keys_scoped_def key_ok_def scope_ok_def kind_check_def demo_cred_defs)
  moreover have "credentials_ok (cdb_credentials demo_cred_db)"
    by (simp add: credentials_ok_def keyed_by_def unique_on_def gm_wf_def cred_storage_check_def cred_status_check_def
        by_reference_def demo_cred_defs)
  moreover have "assignments_ok (cdb_access demo_cred_db) (cdb_credentials demo_cred_db) (cdb_assignments demo_cred_db)"
    by (simp add: assignments_ok_def keyed_by_def unique_on_def gm_wf_def assigned_scope_ok_def valid_assignment_scope_def
        demo_cred_defs)
  ultimately show ?thesis by (simp add: cred_db_ok_def)
qed

lemma assignments_scoped_witness:
  "cred_db_ok (snd (handle_assign_credential 1 ''a2'' ''u1'' ''o'' (Some (''c'', ScopeAPIKey, ''k'')) demo_cred_db))"
  by (rule assignments_scoped [OF r_into_rtranclp demo_cred_db_ok, where sha = id and pub = "\<lambda>_. NoPEM"]) (rule step_assign)

lemma demo_lookup:
  "lookup_key id (Some (compile [] 0 (load_source demo_cred_db empty_source))) ''a1'' =
     Some (load_api_key (acc_tenancy (cdb_access demo_cred_db)) demo_access_key ''6131'')"
proof -
  have "gm_get (sn_api_keys (compile [] 0 (load_source demo_cred_db empty_source))) ''6131'' =
    Some (load_api_key (acc_tenancy (cdb_access demo_cred_db)) demo_access_key ''6131'')" by code_simp
  then show ?thesis by (simp add: lookup_key_def demo_key_hash)
qed

lemma published_keys_exact_witness:
  "lookup_key id (Some (compile [] 0 (load_source demo_cred_db empty_source))) ''a1'' =
     Some (load_api_key (acc_tenancy (cdb_access demo_cred_db)) demo_access_key ''6131'')"
  using published_keys_exact [OF demo_keys_unique, of id "''a1''" "[]" 0 empty_source]
  by (simp add: demo_key_hash key_of_hash_def demo_cred_db_def)

lemma call_credential_own_organization_witness:
  "\<exists>c. resolve_credential_for_call (Some (compile [] 0 (load_source demo_cred_db empty_source))) ''openai''
      (load_api_key (acc_tenancy (cdb_access demo_cred_db)) demo_access_key ''6131'') [] = CredHit c \<and>
    (\<exists>i pc. gm_get (cdb_credentials demo_cred_db) i = Some pc \<and> c = load_credential pc \<and> pc_organization_id pc = ''o'')"
proof -
  have hit: "resolve_credential_for_call (Some (compile [] 0 (load_source demo_cred_db empty_source))) ''openai''
      (load_api_key (acc_tenancy (cdb_access demo_cred_db)) demo_access_key ''6131'') [] =
    CredHit (load_credential demo_provider_credential)" by code_simp
  have plain: "plain_ids demo_cred_db"
    by (simp add: plain_ids_def plain_def demo_cred_defs) code_simp
  have trim: "trim_space ''openai'' = ''openai''" by code_simp
  show ?thesis
    using call_credential_own_organization [OF demo_cred_db_ok plain demo_keys_unique refl demo_lookup trim hit] hit
    by (auto simp: demo_access_key_def)
qed


text \<open>The platform publishes, a gateway starts, the key is deleted.\<close>

lemma demo_platform_simps:
  "pf_keys demo_platform = [(''k'', demo_access_key, ''6131'')]" "pf_db demo_platform = demo_cred_db"
  "pf_config demo_platform = empty_config" "pf_snapshots demo_platform = \<lparr>ps_serial = 0, ps_rows = []\<rparr>"
  by (simp_all add: demo_platform_def demo_cred_db_def)

lemma demo_platform_facts:
  "keys_unique (pf_keys demo_platform)" "gm_get (pf_keys demo_platform) ''k'' = Some (demo_access_key, hash_key id ''a1'')"
  "hash_key id ''a1'' \<noteq> []"
  using demo_keys_unique by (simp_all add: demo_platform_def demo_cred_db_def demo_key_hash)

lemma demo_delete: "\<exists>p'. cmd_delete_api_key (publish_snapshot [] 0 True) ''k'' demo_platform = (Inr (), p')"
  unfolding delete_key_run [OF demo_platform_facts(2)]
  by (simp add: publish_snapshot_def pg_snapshot_put_simps db_bind_def emit_def)


lemma failed_publish_keeps_deleted_key_witness:
  "\<exists>e p'. cmd_delete_api_key (publish_snapshot [] 0 False) ''k'' demo_platform = (Inl e, p') \<and>
     gm_get (pf_keys p') ''k'' = None \<and> pf_snapshots p' = pf_snapshots demo_platform \<and>
     cmd_delete_api_key (publish_snapshot [] 1 True) ''k'' p' = (Inl (sentinel ErrNotFound), p')"
  by (rule failed_publish_keeps_deleted_key [OF demo_platform_facts(2)])

lemma stale_publish_resurrects_deleted_key_witness:
  "\<exists>p' st sn. cmd_delete_api_key (publish_snapshot [] 0 True) ''k'' demo_platform = (Inr (), p') \<and>
     snd (pg_snapshot_put True (compile [] 0 (load_source (pf_db demo_platform) (load_config [] empty_config))) (pf_snapshots p')) = st \<and>
     pg_snapshot_latest st = Inr sn \<and> gm_get (pf_keys p') ''k'' = None \<and> lookup_key id (Some sn) ''a1'' \<noteq> None"
proof -
  from demo_delete obtain p' where p': "cmd_delete_api_key (publish_snapshot [] 0 True) ''k'' demo_platform = (Inr (), p')" by blast
  have ok: "pg_ok (pf_snapshots demo_platform)" by (simp add: demo_platform_simps pg_ok_def)
  obtain v st where put: "pg_snapshot_put True (compile [] 0 (load_source (pf_db demo_platform) (load_config [] (pf_config demo_platform)))) (pf_snapshots p') = (Inr v, st)"
    by (simp add: pg_snapshot_put_simps)
  from stale_publish_resurrects_deleted_key [OF demo_platform_facts ok p' put] p' put show ?thesis
    by (auto simp: demo_platform_simps)
qed

end
