(* ===== verification/Config_Commands.thy ===== *)
theory Config_Commands
  imports Publishing
begin

text \<open>
  The commands on the gateway configuration (\<^verbatim>\<open>src/internal/app/platform/commands.go\<close>): write
  the tables, publish, emit; and the handlers that decode a body, call a command and choose a
  status (\<^verbatim>\<open>src/internal/controlplane/http_providers.go\<close>, \<^verbatim>\<open>http_routes.go\<close>, \<^verbatim>\<open>http_quotas.go\<close>,
  \<^verbatim>\<open>http_policies.go\<close>, \<^verbatim>\<open>http_wasm_hooks.go\<close>, \<^verbatim>\<open>http_mcp_backends.go\<close>, \<^verbatim>\<open>http_a2a_agents.go\<close>,
  \<^verbatim>\<open>http_org_retry.go\<close>, \<^verbatim>\<open>http_object_store.go\<close>). \<open>None\<close> is a body that does not decode.
\<close>

section \<open>Commands\<close>

definition on_config :: "(cred_db \<Rightarrow> 'a config_op) \<Rightarrow> 'a command" where
  "on_config op p = (case op (pf_db p) (pf_config p) of (r, t) \<Rightarrow> (r, p\<lparr>pf_config := t\<rparr>))"

definition cmd_create_provider ::
  "unit command \<Rightarrow> registry \<Rightarrow> gotime \<Rightarrow> string \<Rightarrow> string \<Rightarrow> string \<Rightarrow> string \<Rightarrow> string \<Rightarrow> string \<Rightarrow> capabilities \<Rightarrow>
   raw_json \<Rightarrow> gc_provider command" where
  "cmd_create_provider snap reg now i org name typ base env caps config =
     publishing snap ''created'' (on_config (\<lambda>cr. create_provider cr reg now i org name typ base env caps config))
       (\<lambda>p. (''provider.created'', gp_id p, org))"

definition cmd_update_provider ::
  "unit command \<Rightarrow> registry \<Rightarrow> string \<Rightarrow> string \<Rightarrow> string \<Rightarrow> string \<Rightarrow> raw_json \<Rightarrow> gc_provider command" where
  "cmd_update_provider snap reg i name base env config =
     publishing snap ''updated'' (on_config (\<lambda>_. update_provider reg i name base env config))
       (\<lambda>p. (''provider.updated'', i, gp_organization_id p))"

definition cmd_delete_provider :: "unit command \<Rightarrow> string \<Rightarrow> unit command" where
  "cmd_delete_provider snap i =
     deleting snap (\<lambda>p. providers_org_id (tab_providers (pf_config p)) i) (on_config (\<lambda>_. providers_delete i)) ''provider.deleted'' i"

definition cmd_create_route ::
  "unit command \<Rightarrow> gotime \<Rightarrow> string \<Rightarrow> string \<Rightarrow> string \<Rightarrow> string \<Rightarrow> string \<Rightarrow> route_target list \<Rightarrow> retry_config option \<Rightarrow>
   string \<Rightarrow> int \<Rightarrow> gc_route command" where
  "cmd_create_route snap now i org model prov target fbs retry strategy weight =
     publishing snap ''created'' (on_config (\<lambda>cr. create_route cr now i org model prov target fbs retry strategy weight))
       (\<lambda>r. (''route.created'', gr_id r, org))"

definition cmd_update_route ::
  "unit command \<Rightarrow> string \<Rightarrow> string \<Rightarrow> string \<Rightarrow> string \<Rightarrow> route_target list \<Rightarrow> retry_config option \<Rightarrow> string \<Rightarrow> int \<Rightarrow>
   gc_route command" where
  "cmd_update_route snap i model prov target fbs retry strategy weight =
     publishing snap ''updated'' (on_config (\<lambda>_. update_route i model prov target fbs retry strategy weight))
       (\<lambda>r. (''route.updated'', i, gr_organization_id r))"

definition cmd_delete_route :: "unit command \<Rightarrow> string \<Rightarrow> unit command" where
  "cmd_delete_route snap i =
     deleting snap (\<lambda>p. routes_org_id (tab_routes (pf_config p)) i) (on_config (\<lambda>_. routes_delete i)) ''route.deleted'' i"

text \<open>The two settings of an organization are read again after they were published.\<close>

definition cmd_set_org_default_retry :: "unit command \<Rightarrow> string \<Rightarrow> retry_config option \<Rightarrow> retry_config option command" where
  "cmd_set_org_default_retry snap org retry =
     db_bind (publishing snap ''updated'' (on_config (\<lambda>cr. set_org_default_retry cr org retry))
        (\<lambda>_. (''org.default_retry.updated'', org, org)))
       (\<lambda>_ p. (orgs_get_default_retry (org_exists (pf_db p)) org (pf_config p), p))"

definition cmd_set_org_object_store :: "unit command \<Rightarrow> string \<Rightarrow> object_store_config option \<Rightarrow> object_store_config option command" where
  "cmd_set_org_object_store snap org cfg =
     db_bind (publishing snap ''updated'' (on_config (\<lambda>cr. set_org_object_store cr org cfg))
        (\<lambda>_. (''org.object_store.updated'', org, org)))
       (\<lambda>_ p. (orgs_get_object_store (org_exists (pf_db p)) org (pf_config p), p))"

definition cmd_create_quota ::
  "unit command \<Rightarrow> gotime \<Rightarrow> string \<Rightarrow> string \<Rightarrow> string \<Rightarrow> string \<Rightarrow> string \<Rightarrow> int \<Rightarrow> string \<Rightarrow> gc_quota command" where
  "cmd_create_quota snap now i org scope_type scope_id metric limit window =
     publishing snap ''created'' (on_config (\<lambda>cr. create_quota cr now i org scope_type scope_id metric limit window))
       (\<lambda>q. (''quota.created'', gq_id q, org))"

definition cmd_update_quota :: "unit command \<Rightarrow> string \<Rightarrow> int \<Rightarrow> gc_quota command" where
  "cmd_update_quota snap i limit =
     publishing snap ''updated'' (on_config (\<lambda>_. update_quota i limit)) (\<lambda>q. (''quota.updated'', i, gq_organization_id q))"

definition cmd_delete_quota :: "unit command \<Rightarrow> string \<Rightarrow> unit command" where
  "cmd_delete_quota snap i =
     deleting snap (\<lambda>p. quotas_org_id (tab_quotas (pf_config p)) i) (on_config (\<lambda>_. quotas_delete i)) ''quota.deleted'' i"

definition cmd_create_policy ::
  "unit command \<Rightarrow> cel_validator option \<Rightarrow> gotime \<Rightarrow> string \<Rightarrow> string \<Rightarrow> string \<Rightarrow> string \<Rightarrow> policy_action list \<Rightarrow> bool \<Rightarrow>
   int \<Rightarrow> request_policy command" where
  "cmd_create_policy snap v now i org name expr actions enabled priority =
     publishing snap ''created'' (on_config (\<lambda>cr. create_policy cr v now i org name expr actions enabled priority))
       (\<lambda>p. (''policy.created'', rp_id p, org))"

definition cmd_update_policy ::
  "unit command \<Rightarrow> cel_validator option \<Rightarrow> string \<Rightarrow> string option \<Rightarrow> string option \<Rightarrow> policy_action list option \<Rightarrow>
   bool option \<Rightarrow> int option \<Rightarrow> request_policy command" where
  "cmd_update_policy snap v i name expr actions enabled priority =
     publishing snap ''updated'' (on_config (\<lambda>_. update_policy v i name expr actions enabled priority))
       (\<lambda>p. (''policy.updated'', i, rp_organization_id p))"

definition cmd_reorder_policies :: "unit command \<Rightarrow> string \<Rightarrow> (string \<times> int) list \<Rightarrow> unit command" where
  "cmd_reorder_policies snap org items =
     publishing snap ''reordered'' (on_config (\<lambda>_. reorder_policies org items)) (\<lambda>_. (''policy.updated'', org, org))"

definition cmd_delete_policy :: "unit command \<Rightarrow> string \<Rightarrow> unit command" where
  "cmd_delete_policy snap i =
     deleting snap (\<lambda>p. policies_org_id (tab_policies (pf_config p)) i) (on_config (\<lambda>_. policies_delete i)) ''policy.deleted'' i"

definition cmd_create_wasm_hook ::
  "unit command \<Rightarrow> gotime \<Rightarrow> string \<Rightarrow> string \<Rightarrow> string \<Rightarrow> string \<Rightarrow> string \<Rightarrow> string \<Rightarrow> bool \<Rightarrow> int \<Rightarrow> raw_json \<Rightarrow>
   gc_wasm_hook command" where
  "cmd_create_wasm_hook snap now i org name phase uri digest enabled priority config =
     publishing snap ''created'' (on_config (\<lambda>cr. create_wasm_hook cr now i org name phase uri digest enabled priority config))
       (\<lambda>h. (''wasm_hook.created'', wm_id h, org))"

definition cmd_update_wasm_hook ::
  "unit command \<Rightarrow> string \<Rightarrow> string option \<Rightarrow> string option \<Rightarrow> string option \<Rightarrow> string option \<Rightarrow> bool option \<Rightarrow>
   int option \<Rightarrow> raw_json \<Rightarrow> gc_wasm_hook command" where
  "cmd_update_wasm_hook snap i name phase uri digest enabled priority config =
     publishing snap ''updated'' (on_config (\<lambda>_. update_wasm_hook i name phase uri digest enabled priority config))
       (\<lambda>h. (''wasm_hook.updated'', i, wm_organization_id h))"

definition cmd_delete_wasm_hook :: "unit command \<Rightarrow> string \<Rightarrow> unit command" where
  "cmd_delete_wasm_hook snap i =
     deleting snap (\<lambda>p. wasm_hooks_org_id (tab_wasm_hooks (pf_config p)) i) (on_config (\<lambda>_. wasm_hooks_delete i)) ''wasm_hook.deleted'' i"

definition cmd_create_mcp_backend ::
  "unit command \<Rightarrow> url_parser \<Rightarrow> gotime \<Rightarrow> string \<Rightarrow> string \<Rightarrow> string \<Rightarrow> string \<Rightarrow> string \<Rightarrow> string \<Rightarrow> raw_json \<Rightarrow> bool \<Rightarrow>
   gc_mcp_backend command" where
  "cmd_create_mcp_backend snap url now i org alias name base env allow enabled =
     publishing snap ''created'' (on_config (\<lambda>cr. create_mcp_backend cr url now i org alias name base env allow enabled))
       (\<lambda>b. (''mcp_backend.created'', bk_id b, org))"

definition cmd_update_mcp_backend ::
  "unit command \<Rightarrow> url_parser \<Rightarrow> string \<Rightarrow> string option \<Rightarrow> string option \<Rightarrow> string option \<Rightarrow> string option \<Rightarrow> raw_json \<Rightarrow>
   bool option \<Rightarrow> gc_mcp_backend command" where
  "cmd_update_mcp_backend snap url i alias name base env allow enabled =
     publishing snap ''updated'' (on_config (\<lambda>_. update_mcp_backend url i alias name base env allow enabled))
       (\<lambda>b. (''mcp_backend.updated'', i, bk_organization_id b))"

definition cmd_delete_mcp_backend :: "unit command \<Rightarrow> string \<Rightarrow> unit command" where
  "cmd_delete_mcp_backend snap i =
     deleting snap (\<lambda>p. mcp_backends_org_id (tab_mcp_backends (pf_config p)) i) (on_config (\<lambda>_. mcp_backends_delete i)) ''mcp_backend.deleted'' i"

definition cmd_create_a2a_agent ::
  "unit command \<Rightarrow> url_parser \<Rightarrow> gotime \<Rightarrow> string \<Rightarrow> string \<Rightarrow> string \<Rightarrow> string \<Rightarrow> string \<Rightarrow> string \<Rightarrow> string \<Rightarrow> string \<Rightarrow>
   raw_json \<Rightarrow> bool \<Rightarrow> gc_a2a_agent command" where
  "cmd_create_a2a_agent snap url now i org alias name upstream curl env scheme cache enabled =
     publishing snap ''created''
       (on_config (\<lambda>cr. create_a2a_agent cr url now i org alias name upstream curl env scheme cache enabled))
       (\<lambda>a. (''a2a_agent.created'', ag_id a, org))"

definition cmd_update_a2a_agent ::
  "unit command \<Rightarrow> url_parser \<Rightarrow> string \<Rightarrow> string option \<Rightarrow> string option \<Rightarrow> string option \<Rightarrow> string option \<Rightarrow> string option \<Rightarrow>
   string option \<Rightarrow> raw_json \<Rightarrow> bool option \<Rightarrow> gc_a2a_agent command" where
  "cmd_update_a2a_agent snap url i alias name upstream curl env scheme cache enabled =
     publishing snap ''updated'' (on_config (\<lambda>_. update_a2a_agent url i alias name upstream curl env scheme cache enabled))
       (\<lambda>a. (''a2a_agent.updated'', i, ag_organization_id a))"

definition cmd_delete_a2a_agent :: "unit command \<Rightarrow> string \<Rightarrow> unit command" where
  "cmd_delete_a2a_agent snap i =
     deleting snap (\<lambda>p. a2a_agents_org_id (tab_a2a_agents (pf_config p)) i) (on_config (\<lambda>_. a2a_agents_delete i)) ''a2a_agent.deleted'' i"

section \<open>Handlers\<close>

definition deleted_reply :: "unit command \<Rightarrow> platform \<Rightarrow> unit reply \<times> platform" where
  "deleted_reply cmd p = reply_with StatusNoContent True False False (cmd p)"

record provider_body =
  vb_name :: string
  vb_type :: string
  vb_base_url :: string
  vb_api_key_env :: string
  vb_capabilities :: capabilities
  vb_config :: raw_json

definition handle_create_provider ::
  "unit command \<Rightarrow> registry \<Rightarrow> gotime \<Rightarrow> string \<Rightarrow> string \<Rightarrow> provider_body option \<Rightarrow> platform \<Rightarrow> gc_provider reply \<times> platform" where
  "handle_create_provider snap reg now i org body p =
     (let bad = Failed StatusBadRequest ''name and base_url required'' in
      case body of None \<Rightarrow> (bad, p)
      | Some b \<Rightarrow>
          if vb_name b = [] \<or> vb_base_url b = [] then (bad, p)
          else
            let typ = (if vb_type b = [] then ''openai'' else vb_type b);
                env = (if vb_api_key_env b = [] then default_api_key_env reg typ else vb_api_key_env b);
                c = vb_capabilities b;
                caps = (if \<not> cap_chat c \<and> \<not> cap_stream c \<and> \<not> cap_tts c \<and> \<not> cap_stt c \<and> \<not> cap_embedding c \<and> \<not> cap_image c
                  then default_capabilities reg typ else c)
            in reply_with StatusCreated False True False
                 (cmd_create_provider snap reg now i org (vb_name b) typ (vb_base_url b) env caps (vb_config b) p))"

text \<open>\<open>config\<close> is a pointer here: \<^verbatim>\<open>null\<close> or absent leaves the stored one. The type is not read.\<close>

definition handle_update_provider ::
  "unit command \<Rightarrow> registry \<Rightarrow> string \<Rightarrow> (string \<times> string \<times> string \<times> raw_json) option \<Rightarrow> platform \<Rightarrow> gc_provider reply \<times> platform" where
  "handle_update_provider snap reg i body p =
     (let bad = Failed StatusBadRequest ''name and base_url required'' in
      case body of None \<Rightarrow> (bad, p)
      | Some (name, base, env0, config) \<Rightarrow>
          if name = [] \<or> base = [] then (bad, p)
          else reply_with StatusOK True True False
            (cmd_update_provider snap reg i name base (if env0 = [] then ''OPENAI_API_KEY'' else env0) config p))"

definition handle_delete_provider :: "unit command \<Rightarrow> string \<Rightarrow> platform \<Rightarrow> unit reply \<times> platform" where
  "handle_delete_provider snap i = deleted_reply (cmd_delete_provider snap i)"

record route_body =
  tb_model :: string
  tb_provider_id :: string
  tb_target_model :: string
  tb_fallbacks :: "route_target list"
  tb_retry :: "retry_config option"
  tb_routing_strategy :: string
  tb_weight :: int

definition body_target :: "route_body \<Rightarrow> string" where
  "body_target b = (if tb_target_model b = [] then tb_model b else tb_target_model b)"

definition handle_create_route ::
  "unit command \<Rightarrow> gotime \<Rightarrow> string \<Rightarrow> string \<Rightarrow> route_body option \<Rightarrow> platform \<Rightarrow> gc_route reply \<times> platform" where
  "handle_create_route snap now i org body p =
     (let bad = Failed StatusBadRequest ''model and provider_id required'' in
      case body of None \<Rightarrow> (bad, p)
      | Some b \<Rightarrow>
          if tb_model b = [] \<or> tb_provider_id b = [] then (bad, p)
          else reply_with StatusCreated False True False
            (cmd_create_route snap now i org (tb_model b) (tb_provider_id b) (body_target b) (tb_fallbacks b) (tb_retry b)
               (tb_routing_strategy b) (tb_weight b) p))"

definition handle_update_route ::
  "unit command \<Rightarrow> string \<Rightarrow> route_body option \<Rightarrow> platform \<Rightarrow> gc_route reply \<times> platform" where
  "handle_update_route snap i body p =
     (let bad = Failed StatusBadRequest ''model and provider_id required'' in
      case body of None \<Rightarrow> (bad, p)
      | Some b \<Rightarrow>
          if tb_model b = [] \<or> tb_provider_id b = [] then (bad, p)
          else reply_with StatusOK True True False
            (cmd_update_route snap i (tb_model b) (tb_provider_id b) (body_target b) (tb_fallbacks b) (tb_retry b)
               (tb_routing_strategy b) (tb_weight b) p))"

definition handle_delete_route :: "unit command \<Rightarrow> string \<Rightarrow> platform \<Rightarrow> unit reply \<times> platform" where
  "handle_delete_route snap i = deleted_reply (cmd_delete_route snap i)"

record quota_body =
  qb_scope_type :: string
  qb_scope_id :: string
  qb_metric :: string
  qb_limit_value :: int
  qb_window :: string

definition handle_create_quota ::
  "unit command \<Rightarrow> gotime \<Rightarrow> string \<Rightarrow> string \<Rightarrow> quota_body option \<Rightarrow> platform \<Rightarrow> gc_quota reply \<times> platform" where
  "handle_create_quota snap now i org body p =
     (let bad = Failed StatusBadRequest ''scope_type, scope_id, metric required'' in
      case body of None \<Rightarrow> (bad, p)
      | Some b \<Rightarrow>
          if qb_scope_type b = [] \<or> qb_scope_id b = [] \<or> qb_metric b = [] then (bad, p)
          else if qb_limit_value b < 0 then (Failed StatusBadRequest ''limit_value must be >= 0'', p)
          else reply_with StatusCreated False True False
            (cmd_create_quota snap now i org (qb_scope_type b) (qb_scope_id b) (qb_metric b) (qb_limit_value b) (qb_window b) p))"

definition handle_update_quota :: "unit command \<Rightarrow> string \<Rightarrow> int option \<Rightarrow> platform \<Rightarrow> gc_quota reply \<times> platform" where
  "handle_update_quota snap i body p =
     (let bad = Failed StatusBadRequest ''limit_value required (>= 0)'' in
      case body of None \<Rightarrow> (bad, p)
      | Some n \<Rightarrow> if n < 0 then (bad, p) else reply_with StatusOK True False False (cmd_update_quota snap i n p))"

definition handle_delete_quota :: "unit command \<Rightarrow> string \<Rightarrow> platform \<Rightarrow> unit reply \<times> platform" where
  "handle_delete_quota snap i = deleted_reply (cmd_delete_quota snap i)"

text \<open>\<open>Some []\<close> for the actions is a JSON array without elements; \<open>action\<close> is the legacy field.\<close>

record policy_body =
  yb_name :: "string option"
  yb_expression :: "string option"
  yb_actions :: "policy_action list option"
  yb_action :: "string option"
  yb_action_config :: raw_json
  yb_enabled :: "bool option"
  yb_priority :: "int option"

definition or_zero :: "'a list option \<Rightarrow> 'a list" where
  "or_zero x = (case x of None \<Rightarrow> [] | Some s \<Rightarrow> s)"

definition handle_create_policy ::
  "unit command \<Rightarrow> cel_validator option \<Rightarrow> gotime \<Rightarrow> string \<Rightarrow> string \<Rightarrow> policy_body option \<Rightarrow> platform \<Rightarrow>
   request_policy reply \<times> platform" where
  "handle_create_policy snap v now i org body p =
     (let bad = Failed StatusBadRequest ''name and expression required'' in
      case body of None \<Rightarrow> (bad, p)
      | Some b \<Rightarrow>
          if or_zero (yb_name b) = [] \<or> or_zero (yb_expression b) = [] then (bad, p)
          else
            let acts = or_zero (yb_actions b);
                actions = (if acts = [] then legacy_single_action (or_zero (yb_action b)) (yb_action_config b) else acts);
                enabled = (case yb_enabled b of None \<Rightarrow> True | Some x \<Rightarrow> x);
                priority = (case yb_priority b of None \<Rightarrow> 100 | Some x \<Rightarrow> x)
            in reply_with StatusCreated False True False
                 (cmd_create_policy snap v now i org (or_zero (yb_name b)) (or_zero (yb_expression b)) actions enabled priority p))"

text \<open>A legacy action that is blank gives no actions, which is the same as not sending any.\<close>

definition patch_actions :: "policy_body \<Rightarrow> policy_action list option" where
  "patch_actions b =
     (case yb_actions b of Some acts \<Rightarrow> Some acts
      | None \<Rightarrow> (case yb_action b of None \<Rightarrow> None
          | Some a \<Rightarrow> (case legacy_single_action a (yb_action_config b) of [] \<Rightarrow> None | acts \<Rightarrow> Some acts)))"

definition handle_update_policy ::
  "unit command \<Rightarrow> cel_validator option \<Rightarrow> string \<Rightarrow> policy_body option \<Rightarrow> platform \<Rightarrow> request_policy reply \<times> platform" where
  "handle_update_policy snap v i body p =
     (case body of None \<Rightarrow> (Failed StatusBadRequest ''invalid json'', p)
      | Some b \<Rightarrow>
          let actions = patch_actions b in
          if yb_name b = None \<and> yb_expression b = None \<and> actions = None \<and> yb_enabled b = None \<and> yb_priority b = None
          then (Failed StatusBadRequest ''at least one field required'', p)
          else reply_with StatusOK True True False
            (cmd_update_policy snap v i (yb_name b) (yb_expression b) actions (yb_enabled b) (yb_priority b) p))"

definition handle_reorder_policies ::
  "unit command \<Rightarrow> string \<Rightarrow> (string \<times> int) list option \<Rightarrow> platform \<Rightarrow> request_policy list reply \<times> platform" where
  "handle_reorder_policies snap org body p =
     (case body of None \<Rightarrow> (Failed StatusBadRequest ''invalid json'', p)
      | Some items \<Rightarrow>
          (case cmd_reorder_policies snap org items p of
             (Inl e, p') \<Rightarrow> (cred_failure True True False e, p')
           | (Inr _, p') \<Rightarrow> (Reply StatusOK (policies_list_by_org org (tab_policies (pf_config p'))), p')))"

definition handle_delete_policy :: "unit command \<Rightarrow> string \<Rightarrow> platform \<Rightarrow> unit reply \<times> platform" where
  "handle_delete_policy snap i = deleted_reply (cmd_delete_policy snap i)"

record wasm_body =
  wb_name :: "string option"
  wb_phase :: "string option"
  wb_module_uri :: "string option"
  wb_digest :: "string option"
  wb_enabled :: "bool option"
  wb_priority :: "int option"
  wb_config :: raw_json

definition handle_create_wasm_hook ::
  "unit command \<Rightarrow> gotime \<Rightarrow> string \<Rightarrow> string \<Rightarrow> wasm_body option \<Rightarrow> platform \<Rightarrow> gc_wasm_hook reply \<times> platform" where
  "handle_create_wasm_hook snap now i org body p =
     (let bad = Failed StatusBadRequest ''name, phase, and module_uri required'' in
      case body of None \<Rightarrow> (bad, p)
      | Some b \<Rightarrow>
          if or_zero (wb_name b) = [] \<or> or_zero (wb_phase b) = [] \<or> or_zero (wb_module_uri b) = [] then (bad, p)
          else reply_with StatusCreated False True False
            (cmd_create_wasm_hook snap now i org (or_zero (wb_name b)) (or_zero (wb_phase b)) (or_zero (wb_module_uri b))
               (or_zero (wb_digest b)) (case wb_enabled b of None \<Rightarrow> True | Some x \<Rightarrow> x)
               (case wb_priority b of None \<Rightarrow> 100 | Some x \<Rightarrow> x) (wb_config b) p))"

definition handle_update_wasm_hook ::
  "unit command \<Rightarrow> string \<Rightarrow> wasm_body option \<Rightarrow> platform \<Rightarrow> gc_wasm_hook reply \<times> platform" where
  "handle_update_wasm_hook snap i body p =
     (case body of None \<Rightarrow> (Failed StatusBadRequest ''invalid json'', p)
      | Some b \<Rightarrow>
          if wb_name b = None \<and> wb_phase b = None \<and> wb_module_uri b = None \<and> wb_digest b = None \<and> wb_enabled b = None \<and>
             wb_priority b = None \<and> wb_config b = None
          then (Failed StatusBadRequest ''at least one field required'', p)
          else reply_with StatusOK True True False
            (cmd_update_wasm_hook snap i (wb_name b) (wb_phase b) (wb_module_uri b) (wb_digest b) (wb_enabled b) (wb_priority b)
               (wb_config b) p))"

definition handle_delete_wasm_hook :: "unit command \<Rightarrow> string \<Rightarrow> platform \<Rightarrow> unit reply \<times> platform" where
  "handle_delete_wasm_hook snap i = deleted_reply (cmd_delete_wasm_hook snap i)"

record mcp_body =
  eb_alias :: "string option"
  eb_name :: "string option"
  eb_base_url :: "string option"
  eb_api_key_env :: "string option"
  eb_method_allowlist :: raw_json
  eb_enabled :: "bool option"

definition handle_create_mcp_backend ::
  "unit command \<Rightarrow> url_parser \<Rightarrow> gotime \<Rightarrow> string \<Rightarrow> string \<Rightarrow> mcp_body option \<Rightarrow> platform \<Rightarrow> gc_mcp_backend reply \<times> platform" where
  "handle_create_mcp_backend snap url now i org body p =
     (let bad = Failed StatusBadRequest ''alias, name, and base_url required'' in
      case body of None \<Rightarrow> (bad, p)
      | Some b \<Rightarrow>
          if or_zero (eb_alias b) = [] \<or> or_zero (eb_name b) = [] \<or> or_zero (eb_base_url b) = [] then (bad, p)
          else reply_with StatusCreated False True False
            (cmd_create_mcp_backend snap url now i org (or_zero (eb_alias b)) (or_zero (eb_name b)) (or_zero (eb_base_url b))
               (or_zero (eb_api_key_env b)) (eb_method_allowlist b) (case eb_enabled b of None \<Rightarrow> True | Some x \<Rightarrow> x) p))"

definition handle_update_mcp_backend ::
  "unit command \<Rightarrow> url_parser \<Rightarrow> string \<Rightarrow> mcp_body option \<Rightarrow> platform \<Rightarrow> gc_mcp_backend reply \<times> platform" where
  "handle_update_mcp_backend snap url i body p =
     (case body of None \<Rightarrow> (Failed StatusBadRequest ''invalid json'', p)
      | Some b \<Rightarrow>
          if eb_alias b = None \<and> eb_name b = None \<and> eb_base_url b = None \<and> eb_api_key_env b = None \<and>
             eb_method_allowlist b = None \<and> eb_enabled b = None
          then (Failed StatusBadRequest ''at least one field required'', p)
          else reply_with StatusOK True True False
            (cmd_update_mcp_backend snap url i (eb_alias b) (eb_name b) (eb_base_url b) (eb_api_key_env b)
               (eb_method_allowlist b) (eb_enabled b) p))"

definition handle_delete_mcp_backend :: "unit command \<Rightarrow> string \<Rightarrow> platform \<Rightarrow> unit reply \<times> platform" where
  "handle_delete_mcp_backend snap i = deleted_reply (cmd_delete_mcp_backend snap i)"

record a2a_body =
  nb_alias :: "string option"
  nb_name :: "string option"
  nb_upstream_url :: "string option"
  nb_card_url :: "string option"
  nb_card_cache :: raw_json
  nb_api_key_env :: "string option"
  nb_auth_scheme :: "string option"
  nb_enabled :: "bool option"

definition handle_create_a2a_agent ::
  "unit command \<Rightarrow> url_parser \<Rightarrow> gotime \<Rightarrow> string \<Rightarrow> string \<Rightarrow> a2a_body option \<Rightarrow> platform \<Rightarrow> gc_a2a_agent reply \<times> platform" where
  "handle_create_a2a_agent snap url now i org body p =
     (let bad = Failed StatusBadRequest ''alias, name, and upstream_url required'' in
      case body of None \<Rightarrow> (bad, p)
      | Some b \<Rightarrow>
          if or_zero (nb_alias b) = [] \<or> or_zero (nb_name b) = [] \<or> or_zero (nb_upstream_url b) = [] then (bad, p)
          else reply_with StatusCreated False True False
            (cmd_create_a2a_agent snap url now i org (or_zero (nb_alias b)) (or_zero (nb_name b)) (or_zero (nb_upstream_url b))
               (or_zero (nb_card_url b)) (or_zero (nb_api_key_env b)) (or_zero (nb_auth_scheme b)) (nb_card_cache b)
               (case nb_enabled b of None \<Rightarrow> True | Some x \<Rightarrow> x) p))"

definition handle_update_a2a_agent ::
  "unit command \<Rightarrow> url_parser \<Rightarrow> string \<Rightarrow> a2a_body option \<Rightarrow> platform \<Rightarrow> gc_a2a_agent reply \<times> platform" where
  "handle_update_a2a_agent snap url i body p =
     (case body of None \<Rightarrow> (Failed StatusBadRequest ''invalid json'', p)
      | Some b \<Rightarrow>
          if nb_alias b = None \<and> nb_name b = None \<and> nb_upstream_url b = None \<and> nb_card_url b = None \<and>
             nb_card_cache b = None \<and> nb_api_key_env b = None \<and> nb_auth_scheme b = None \<and> nb_enabled b = None
          then (Failed StatusBadRequest ''at least one field required'', p)
          else reply_with StatusOK True True False
            (cmd_update_a2a_agent snap url i (nb_alias b) (nb_name b) (nb_upstream_url b) (nb_card_url b) (nb_api_key_env b)
               (nb_auth_scheme b) (nb_card_cache b) (nb_enabled b) p))"

definition handle_delete_a2a_agent :: "unit command \<Rightarrow> string \<Rightarrow> platform \<Rightarrow> unit reply \<times> platform" where
  "handle_delete_a2a_agent snap i = deleted_reply (cmd_delete_a2a_agent snap i)"

definition handle_update_org_default_retry ::
  "unit command \<Rightarrow> string \<Rightarrow> retry_config option option \<Rightarrow> platform \<Rightarrow> retry_config option reply \<times> platform" where
  "handle_update_org_default_retry snap org body p =
     (case body of None \<Rightarrow> (Failed StatusBadRequest ''invalid json'', p)
      | Some retry \<Rightarrow> reply_with StatusOK True True False (cmd_set_org_default_retry snap org retry p))"

definition handle_update_org_object_store ::
  "unit command \<Rightarrow> string \<Rightarrow> object_store_config option option \<Rightarrow> platform \<Rightarrow> object_store_config option reply \<times> platform" where
  "handle_update_org_object_store snap org body p =
     (case body of None \<Rightarrow> (Failed StatusBadRequest ''invalid json'', p)
      | Some cfg \<Rightarrow> reply_with StatusOK True True False (cmd_set_org_object_store snap org cfg p))"

end
