(* ===== verification/Config_Laws.thy ===== *)
theory Config_Laws
  imports Config_Commands Publishing_Laws Call_Gate
begin

text \<open>
  What gateways can rely on in the configuration they read: a route sends calls to providers of
  its own organization only, and the actions of a stored policy evaluate. Both are invariants of
  every sequence of the services. A batch of priorities is all or nothing; a provider that is
  patched without a key variable is switched to another vendor's.
\<close>

section \<open>Invariants\<close>

text \<open>The providers a route names; a fall-back whose provider was deleted leads nowhere.\<close>

definition route_confined :: "provider_rows \<Rightarrow> gc_route \<Rightarrow> bool" where
  "route_confined ps r \<longleftrightarrow>
     (\<exists>p. gm_get ps (gr_provider_id r) = Some p \<and> gp_organization_id p = gr_organization_id r) \<and>
     (\<forall>fb\<in>set (gr_fallbacks r). \<forall>p. gm_get ps (rt_provider_id fb) = Some p \<longrightarrow> gp_organization_id p = gr_organization_id r)"

definition route_slot :: "gc_route \<Rightarrow> (string \<times> string) option" where
  "route_slot r = Some (gr_organization_id r, gr_model r)"

definition routes_ok :: "provider_rows \<Rightarrow> route_rows \<Rightarrow> bool" where
  "routes_ok ps rs \<longleftrightarrow> keyed_by gp_id ps \<and> (\<forall>i p. gm_get ps i = Some p \<longrightarrow> trim_space i = i) \<and>
     keyed_by gr_id rs \<and> unique_on route_slot rs \<and> (\<forall>i r. gm_get rs i = Some r \<longrightarrow> route_confined ps r)"

text \<open>An action in normal form: the constants trimmed, an expression accepted by the compiler.\<close>

definition checked_expr :: "cel_validator option \<Rightarrow> string \<Rightarrow> bool" where
  "checked_expr v e \<longleftrightarrow> trim_space e = e \<and> (e \<noteq> [] \<longrightarrow> (\<forall>w. v = Some w \<longrightarrow> cv_validate_string w e = None))"

definition canonical_action :: "cel_validator option \<Rightarrow> policy_action \<Rightarrow> bool" where
  "canonical_action v a \<longleftrightarrow>
     (pa_type a = ActionAllow \<or> pa_type a = ActionDeny) \<or>
     pa_type a = ActionSetHeader \<and> (\<exists>c. pa_config a = Some (encode_set_header c) \<and> sh_header c \<noteq> [] \<and>
        trim_space (sh_header c) = sh_header c \<and> checked_expr v (sh_value_expr c)) \<or>
     pa_type a = ActionUseCredential \<and> (\<exists>c. pa_config a = Some (encode_use_credential c) \<and>
        trim_space (uc_credential_name c) = uc_credential_name c \<and> checked_expr v (uc_credential_name_expr c) \<and>
        (uc_credential_name c \<noteq> [] \<or> uc_credential_name_expr c \<noteq> []))"

definition policies_ok :: "cel_validator option \<Rightarrow> (string, request_policy) gomap \<Rightarrow> bool" where
  "policies_ok v m \<longleftrightarrow> keyed_by rp_id m \<and>
     (\<forall>i p. gm_get m i = Some p \<longrightarrow> rp_actions p \<noteq> [] \<and> (\<forall>a\<in>set (rp_actions p). canonical_action v a))"

definition config_ok :: "cel_validator option \<Rightarrow> config_tables \<Rightarrow> bool" where
  "config_ok v t \<longleftrightarrow> routes_ok (tab_providers t) (tab_routes t) \<and> policies_ok v (tab_policies t)"

section \<open>Steps\<close>

text \<open>Identifiers are random: a new provider never gets one that a route still names.\<close>

definition fresh_provider :: "string \<Rightarrow> config_tables \<Rightarrow> bool" where
  "fresh_provider i t \<longleftrightarrow> trim_space i = i \<and>
     (\<forall>(_, r)\<in>set (tab_routes t). \<forall>fb\<in>set (gr_fallbacks r). rt_provider_id fb \<noteq> i)"

inductive config_step :: "cel_validator option \<Rightarrow> config_tables \<Rightarrow> config_tables \<Rightarrow> bool" for v where
  step_create_provider: "fresh_provider i t \<Longrightarrow> config_step v t (snd (create_provider cr reg now i org name typ base env caps config t))"
| step_update_provider: "config_step v t (snd (update_provider reg i name base env config t))"
| step_delete_provider: "config_step v t (snd (providers_delete i t))"
| step_create_route: "config_step v t (snd (create_route cr now i org model prov target fbs retry strategy weight t))"
| step_update_route: "config_step v t (snd (update_route i model prov target fbs retry strategy weight t))"
| step_delete_route: "config_step v t (snd (routes_delete i t))"
| step_create_policy: "config_step v t (snd (create_policy cr v now i org name expr actions enabled priority t))"
| step_update_policy: "config_step v t (snd (update_policy v i name' expr' actions' enabled' priority' t))"
| step_reorder_policies: "config_step v t (snd (reorder_policies org items t))"
| step_delete_policy: "config_step v t (snd (policies_delete i t))"
| step_other: "tab_providers t' = tab_providers t \<Longrightarrow> tab_routes t' = tab_routes t \<Longrightarrow> tab_policies t' = tab_policies t \<Longrightarrow>
     config_step v t t'"

text \<open>The operations on the other tables are such steps.\<close>

definition other_ops :: "config_tables \<Rightarrow> config_tables set" where
  "other_ops t = {t'. tab_providers t' = tab_providers t \<and> tab_routes t' = tab_routes t \<and> tab_policies t' = tab_policies t}"

lemma other_ops_intros:
  "snd (on_table tab_quotas (\<lambda>x db. db\<lparr>tab_quotas := x\<rparr>) opq t) \<in> other_ops t"
  "snd (on_table tab_wasm_hooks (\<lambda>x db. db\<lparr>tab_wasm_hooks := x\<rparr>) opw t) \<in> other_ops t"
  "snd (on_table tab_mcp_backends (\<lambda>x db. db\<lparr>tab_mcp_backends := x\<rparr>) opm t) \<in> other_ops t"
  "snd (on_table tab_a2a_agents (\<lambda>x db. db\<lparr>tab_a2a_agents := x\<rparr>) opa t) \<in> other_ops t"
  "t \<in> other_ops t"
  by (simp_all add: on_table_def other_ops_def split: prod.splits)

lemma other_services:
  "snd (create_quota cr now i org st si metric limit window t) \<in> other_ops t"
  "snd (update_quota i limit t) \<in> other_ops t"
  "snd (quotas_delete i t) \<in> other_ops t"
  "snd (create_wasm_hook cr now i org name phase uri digest enabled priority config t) \<in> other_ops t"
  "snd (update_wasm_hook i name' phase' uri' digest' enabled' priority' config t) \<in> other_ops t"
  "snd (wasm_hooks_delete i t) \<in> other_ops t"
  "snd (create_mcp_backend cr url now i org alias name base env allow enabled t) \<in> other_ops t"
  "snd (update_mcp_backend url i alias' name' base' env' allow enabled' t) \<in> other_ops t"
  "snd (mcp_backends_delete i t) \<in> other_ops t"
  "snd (create_a2a_agent cr url now i org alias name upstream curl env scheme cache enabled t) \<in> other_ops t"
  "snd (update_a2a_agent url i alias' name' upstream' curl' env' scheme' cache enabled' t) \<in> other_ops t"
  "snd (a2a_agents_delete i t) \<in> other_ops t"
  "snd (set_org_default_retry cr org retry t) \<in> other_ops t"
  "snd (set_org_object_store cr org cfg t) \<in> other_ops t"
  by (auto simp: create_quota_def update_quota_def quotas_delete_def create_wasm_hook_def update_wasm_hook_def
      wasm_hooks_delete_def create_mcp_backend_def update_mcp_backend_def mcp_backends_delete_def create_a2a_agent_def
      update_a2a_agent_def a2a_agents_delete_def set_org_default_retry_def set_org_object_store_def db_check_def
      quotas_insert_def quotas_update_limit_def wasm_hooks_insert_def wasm_hooks_update_def mcp_backends_insert_def
      mcp_backends_update_def a2a_agents_insert_def a2a_agents_update_def orgs_set_default_retry_def
      orgs_set_object_store_def other_ops_intros on_table_def other_ops_def db_bind_def split: sum.splits prod.splits option.splits if_splits)

section \<open>Routes\<close>

lemma route_confinedI:
  "gm_get ps (gr_provider_id r) = Some p \<Longrightarrow> gp_organization_id p = gr_organization_id r \<Longrightarrow>
   (\<And>fb q. fb \<in> set (gr_fallbacks r) \<Longrightarrow> gm_get ps (rt_provider_id fb) = Some q \<Longrightarrow> gp_organization_id q = gr_organization_id r) \<Longrightarrow>
   route_confined ps r"
  by (auto simp: route_confined_def)

lemma routes_ok_add_provider:
  assumes ok: "routes_ok ps rs" and new: "gm_get ps i = None" "gp_id p = i" "trim_space i = i"
    and fresh: "\<forall>(_, r)\<in>set rs. \<forall>fb\<in>set (gr_fallbacks r). rt_provider_id fb \<noteq> i"
  shows "routes_ok (gm_put i p ps) rs"
proof -
  have "route_confined (gm_put i p ps) r" if "gm_get rs j = Some r" for j r
  proof -
    have "(j, r) \<in> set rs" using that by (rule map_of_SomeD)
    then have "\<forall>fb\<in>set (gr_fallbacks r). rt_provider_id fb \<noteq> i" using fresh by auto
    moreover have "route_confined ps r" using ok that by (simp add: routes_ok_def)
    ultimately show ?thesis using new(1) by (auto simp: route_confined_def)
  qed
  then show ?thesis using ok new(2,3) by (auto simp: routes_ok_def keyed_by_put)
qed

lemma routes_ok_change_provider:
  assumes "routes_ok ps rs" "gm_get ps i = Some p" "gp_id q = gp_id p" "gp_organization_id q = gp_organization_id p"
  shows "routes_ok (gm_put i q ps) rs"
proof -
  have "route_confined (gm_put i q ps) r" if "route_confined ps r" for r
    using that assms(2,4) by (auto simp: route_confined_def)
  then show ?thesis using assms by (auto simp: routes_ok_def keyed_by_def split: if_splits)
qed

lemma routes_ok_remove_provider:
  "routes_ok ps rs \<Longrightarrow> routes_ok (gm_del i ps) (filter (\<lambda>(_, r). gr_provider_id r \<noteq> i) rs)"
  unfolding routes_ok_def
  by (auto simp: keyed_by_del keyed_by_filter unique_on_filter keyed_by_wf gm_get_filter route_confined_def split: if_splits)

lemma routes_ok_put_route:
  "routes_ok ps rs \<Longrightarrow> gr_id r = k \<Longrightarrow> route_confined ps r \<Longrightarrow> \<not> model_taken k (gr_organization_id r) (gr_model r) rs \<Longrightarrow>
   routes_ok ps (gm_put k r rs)"
  unfolding routes_ok_def
  by (auto simp: keyed_by_put route_slot_def model_taken_def intro!: unique_on_put dest!: map_of_SomeD [where xs = rs])

lemma routes_ok_remove_route: "routes_ok ps rs \<Longrightarrow> routes_ok ps (gm_del k rs)"
  by (auto simp: routes_ok_def keyed_by_del unique_on_del split: if_splits)

text \<open>Providers that were found under the identifiers as sent are found under the trimmed ones.\<close>

lemma assert_provider_in_org_Inr:
  "assert_provider_in_org ps org i = Inr u \<longleftrightarrow> (\<exists>p. gm_get ps i = Some p \<and> gp_organization_id p = org)"
  by (auto simp: assert_provider_in_org_def providers_org_id_def get_row_def bind_res_Inr_iff found_Inr_iff split: if_splits)

lemma assert_route_providers_Inr:
  "assert_route_providers ps org i fbs = Inr u \<longleftrightarrow>
     (\<forall>j\<in>set (i # map rt_provider_id fbs). \<exists>p. gm_get ps j = Some p \<and> gp_organization_id p = org)"
proof -
  have "(\<exists>ys. map_res (\<lambda>fb. assert_provider_in_org ps org (rt_provider_id fb)) fbs = Inr ys) \<longleftrightarrow>
      (\<forall>j\<in>rt_provider_id ` set fbs. \<exists>p. gm_get ps j = Some p \<and> gp_organization_id p = org)"
    by (induction fbs) (auto simp: bind_res_Inr_iff assert_provider_in_org_Inr)
  then show ?thesis by (auto simp: assert_route_providers_def bind_res_Inr_iff assert_provider_in_org_Inr)
qed

lemma confined_when_checked:
  "\<forall>j\<in>set (prov # map rt_provider_id fbs). \<exists>p. gm_get ps j = Some p \<and> gp_organization_id p = org \<Longrightarrow>
   gr_provider_id r = prov \<Longrightarrow> map rt_provider_id (gr_fallbacks r) = map rt_provider_id fbs \<Longrightarrow>
   gr_organization_id r = org \<Longrightarrow> route_confined ps r"
proof -
  assume a: "\<forall>j\<in>set (prov # map rt_provider_id fbs). \<exists>p. gm_get ps j = Some p \<and> gp_organization_id p = org"
    and p: "gr_provider_id r = prov" and f: "map rt_provider_id (gr_fallbacks r) = map rt_provider_id fbs"
    and o: "gr_organization_id r = org"
  have "rt_provider_id ` set (gr_fallbacks r) = rt_provider_id ` set fbs" using f by (metis list.set_map)
  then have "rt_provider_id fb \<in> set (prov # map rt_provider_id fbs)" if "fb \<in> set (gr_fallbacks r)" for fb
    using that by auto
  then show ?thesis using a p o unfolding route_confined_def by (metis list.set_intros(1) option.inject)
qed

lemma normalize_fallbacks_ids:
  "map_res normalize_fallback fbs = Inr out \<Longrightarrow> map rt_provider_id out = map (trim_space \<circ> rt_provider_id) fbs"
  by (induction fbs arbitrary: out) (auto simp: bind_res_Inr_iff normalize_fallback_def)

lemma create_route_keeps:
  assumes ok: "routes_ok (tab_providers t) (tab_routes t)"
  shows "routes_ok (tab_providers (snd (create_route cr now i org model prov target fbs retry strategy weight t)))
    (tab_routes (snd (create_route cr now i org model prov target fbs retry strategy weight t)))"
  unfolding create_route_def
proof (intro db_check_keeps [where P = "\<lambda>t. routes_ok (tab_providers t) (tab_routes t)"]
    db_bind_keeps [where P = "\<lambda>t. routes_ok (tab_providers t) (tab_routes t)"] ok)
  fix r u
  assume new: "new_route now i org model prov target fbs retry strategy weight now = Inr r"
    and checked: "assert_route_providers (tab_providers t) org prov fbs = Inr u"
  have r: "gr_id r = i" "gr_organization_id r = org" "gr_provider_id r = trim_space prov"
    and fbs: "map rt_provider_id (gr_fallbacks r) = map (trim_space \<circ> rt_provider_id) fbs"
    using new by (auto simp: new_route_def Let_def bind_res_Inr_iff normalize_route_routing_def normalize_fallbacks_ids split: if_splits)
  note found_as_sent = checked [unfolded assert_route_providers_Inr]
  have trimmed: "trim_space j = j" if "j \<in> set (prov # map rt_provider_id fbs)" for j
    using found_as_sent that ok unfolding routes_ok_def by blast
  then have "gr_provider_id r = prov" "map rt_provider_id (gr_fallbacks r) = map rt_provider_id fbs"
    using r fbs by simp_all
  then have "route_confined (tab_providers t) r"
    using confined_when_checked [OF found_as_sent] r by simp
  then show "routes_ok (tab_providers (snd (routes_insert (org_exists cr) r t))) (tab_routes (snd (routes_insert (org_exists cr) r t)))"
    using ok r by (auto simp: routes_insert_def on_table_def insert_row_def intro!: routes_ok_put_route)
qed simp

lemma update_route_keeps:
  assumes ok: "routes_ok (tab_providers t) (tab_routes t)"
  shows "routes_ok (tab_providers (snd (update_route i model prov target fbs0 retry0 strategy0 weight0 t)))
    (tab_routes (snd (update_route i model prov target fbs0 retry0 strategy0 weight0 t)))"
  unfolding update_route_def
proof (intro db_check_keeps [where P = "\<lambda>t. routes_ok (tab_providers t) (tab_routes t)"] ok, clarsimp,
    intro db_check_keeps [where P = "\<lambda>t. routes_ok (tab_providers t) (tab_routes t)"] ok)
  fix org strategy weight fbs retry u
  assume row: "routes_org_id (tab_routes t) i = Inr org"
    and checked: "assert_route_providers (tab_providers t) org prov fbs = Inr u"
  obtain r where r: "gm_get (tab_routes t) i = Some r" "gr_organization_id r = org" "gr_id r = i"
    using row ok by (auto simp: routes_org_id_def get_row_def bind_res_Inr_iff found_Inr_iff routes_ok_def keyed_by_def)
  then show "routes_ok (tab_providers (snd (routes_update i model prov target fbs retry strategy weight t)))
      (tab_routes (snd (routes_update i model prov target fbs retry strategy weight t)))"
    using ok confined_when_checked [OF checked [unfolded assert_route_providers_Inr]]
    by (auto simp: routes_update_def Let_def intro!: routes_ok_put_route)
qed

lemma create_provider_keeps:
  assumes ok: "routes_ok (tab_providers t) (tab_routes t)" and fresh: "fresh_provider i t"
  shows "routes_ok (tab_providers (snd (create_provider cr reg now i org name typ base env caps config t)))
    (tab_routes (snd (create_provider cr reg now i org name typ base env caps config t)))"
  unfolding create_provider_def
proof (intro db_check_keeps [where P = "\<lambda>t. routes_ok (tab_providers t) (tab_routes t)"]
    db_bind_keeps [where P = "\<lambda>t. routes_ok (tab_providers t) (tab_routes t)"] ok)
  fix p
  assume new: "new_provider reg now i org name typ base env caps config now = Inr p"
  have "gp_id p = i" using new by (auto simp: new_provider_def Let_def bind_res_Inr_iff split: if_splits)
  then show "routes_ok (tab_providers (snd (on_table tab_providers (\<lambda>t db. db\<lparr>tab_providers := t\<rparr>) (providers_insert (org_exists cr) p) t)))
      (tab_routes (snd (on_table tab_providers (\<lambda>t db. db\<lparr>tab_providers := t\<rparr>) (providers_insert (org_exists cr) p) t)))"
    using ok fresh routes_ok_add_provider [OF ok]
    by (auto simp: on_table_def providers_insert_def insert_row_def fresh_provider_def split: sum.splits)
qed simp

lemma update_provider_keeps:
  assumes ok: "routes_ok (tab_providers t) (tab_routes t)"
  shows "routes_ok (tab_providers (snd (update_provider reg i name base env config t)))
    (tab_routes (snd (update_provider reg i name base env config t)))"
  using ok routes_ok_change_provider [OF ok]
  by (auto simp: update_provider_def db_check_def on_table_def providers_update_def update_row_def
      split: sum.splits option.splits prod.splits)

lemma delete_keeps:
  "routes_ok (tab_providers t) (tab_routes t) \<Longrightarrow>
   routes_ok (tab_providers (snd (providers_delete i t))) (tab_routes (snd (providers_delete i t)))"
  "routes_ok (tab_providers t) (tab_routes t) \<Longrightarrow>
   routes_ok (tab_providers (snd (routes_delete i t))) (tab_routes (snd (routes_delete i t)))"
  by (auto simp: providers_delete_def routes_delete_def on_table_def delete_row_def routes_ok_remove_provider routes_ok_remove_route)

section \<open>Policies\<close>

lemma policy_steps_frame:
  "tab_providers (snd (create_policy cr v now i org name expr actions enabled priority t)) = tab_providers t"
  "tab_routes (snd (create_policy cr v now i org name expr actions enabled priority t)) = tab_routes t"
  "tab_providers (snd (update_policy v i name' expr' actions' enabled' priority' t)) = tab_providers t"
  "tab_routes (snd (update_policy v i name' expr' actions' enabled' priority' t)) = tab_routes t"
  "tab_providers (snd (reorder_policies org items t)) = tab_providers t"
  "tab_routes (snd (reorder_policies org items t)) = tab_routes t"
  "tab_providers (snd (policies_delete i t)) = tab_providers t"
  "tab_routes (snd (policies_delete i t)) = tab_routes t"
  by (auto simp: create_policy_def update_policy_def reorder_policies_def policies_delete_def db_check_def db_bind_def
      on_table_def policies_insert_def policies_update_def policies_update_priorities_def split: sum.splits prod.splits)

lemma route_steps_frame:
  "tab_policies (snd (create_provider cr reg now i org name typ base env caps config t)) = tab_policies t"
  "tab_policies (snd (update_provider reg i name base env config t)) = tab_policies t"
  "tab_policies (snd (providers_delete i t)) = tab_policies t"
  "tab_policies (snd (create_route cr now i org model prov target fbs retry strategy weight t)) = tab_policies t"
  "tab_policies (snd (update_route i model prov target fbs retry strategy weight t)) = tab_policies t"
  "tab_policies (snd (routes_delete i t)) = tab_policies t"
  by (auto simp: create_provider_def update_provider_def providers_delete_def create_route_def update_route_def
      routes_delete_def db_check_def db_bind_def on_table_def routes_insert_def routes_update_def Let_def
      split: sum.splits prod.splits option.splits)

lemma check_string_expr_Inr: "check_string_expr v what e = Inr u \<longleftrightarrow> (\<forall>w. v = Some w \<longrightarrow> cv_validate_string w e = None)"
  by (auto simp: check_string_expr_def split: option.splits)

lemma normalize_set_header_Inr:
  "normalize_set_header raw v = Inr c \<Longrightarrow>
     sh_header c \<noteq> [] \<and> trim_space (sh_header c) = sh_header c \<and> checked_expr v (sh_value_expr c)"
  by (auto simp: normalize_set_header_def Let_def bind_res_Inr_iff check_string_expr_Inr checked_expr_def
      split: sum.splits if_splits)

lemma normalize_use_credential_Inr:
  "normalize_use_credential raw v = Inr c \<Longrightarrow>
     trim_space (uc_credential_name c) = uc_credential_name c \<and> checked_expr v (uc_credential_name_expr c) \<and>
     (uc_credential_name c \<noteq> [] \<or> uc_credential_name_expr c \<noteq> [])"
  by (auto simp: normalize_use_credential_def Let_def bind_res_Inr_iff check_string_expr_Inr checked_expr_def
      split: sum.splits if_splits)

lemma normalize_action_canonical: "normalize_action v a = Inr b \<Longrightarrow> canonical_action v b"
  by (auto simp: normalize_action_def normalize_action_config_def canonical_action_def Let_def bind_res_Inr_iff
      dest: normalize_set_header_Inr normalize_use_credential_Inr split: if_splits)

lemma normalize_actions_canonical:
  "normalize_actions v as = Inr bs \<Longrightarrow> bs \<noteq> [] \<and> (\<forall>b\<in>set bs. canonical_action v b)"
  by (auto simp: normalize_actions_def map_res_Inr_list_all2 list_all2_conv_all_nth in_set_conv_nth
      split: if_splits dest!: normalize_action_canonical)

definition policy_ok :: "cel_validator option \<Rightarrow> request_policy \<Rightarrow> bool" where
  "policy_ok v p \<longleftrightarrow> rp_actions p \<noteq> [] \<and> (\<forall>a\<in>set (rp_actions p). canonical_action v a)"

lemma new_request_policy_Inr:
  "new_request_policy v now i org name expr actions enabled priority = Inr p \<Longrightarrow> rp_id p = i \<and> policy_ok v p"
  by (auto simp: new_request_policy_def Let_def bind_res_Inr_iff policy_ok_def dest: normalize_actions_canonical split: if_splits)

lemma patch_Inr: "patch x f r = Inr q \<Longrightarrow> q = r \<or> (\<exists>y. f y r = Inr q)"
  by (auto simp: patch_def split: option.splits)

lemma required_Inr: "required msg f s = Inr q \<Longrightarrow> \<exists>n. q = f n"
  by (auto simp: required_def Let_def split: if_splits)

definition same_policy :: "cel_validator option \<Rightarrow> request_policy \<Rightarrow> request_policy \<Rightarrow> bool" where
  "same_policy v p q \<longleftrightarrow> rp_id q = rp_id p \<and> policy_ok v q"

lemma same_policy_simps [simp]:
  "same_policy v p (q\<lparr>rp_name := n\<rparr>) = same_policy v p q"
  "same_policy v p (q\<lparr>rp_expression := n\<rparr>) = same_policy v p q"
  "same_policy v p (q\<lparr>rp_enabled := b\<rparr>) = same_policy v p q"
  "same_policy v p (q\<lparr>rp_priority := k\<rparr>) = same_policy v p q"
  by (simp_all add: same_policy_def policy_ok_def)

lemma apply_policy_patch_Inr:
  assumes "apply_policy_patch v name expr actions enabled priority p = Inr q" and "policy_ok v p"
  shows "rp_id q = rp_id p \<and> policy_ok v q"
proof -
  obtain p1 p2 p3 p4 where
    1: "patch name (\<lambda>x r. required ''name required'' (\<lambda>n. r\<lparr>rp_name := n\<rparr>) x) p = Inr p1" and
    2: "patch expr (\<lambda>x r. bind_res (required ''expression required'' id x) (\<lambda>e.
       bind_res (check_condition v e) (\<lambda>_. Inr (r\<lparr>rp_expression := e\<rparr>)))) p1 = Inr p2" and
    3: "patch actions (\<lambda>x r. bind_res (normalize_actions v x) (\<lambda>acts. Inr (r\<lparr>rp_actions := acts\<rparr>))) p2 = Inr p3" and
    4: "patch enabled (\<lambda>x r. Inr (r\<lparr>rp_enabled := x\<rparr>)) p3 = Inr p4" and
    5: "patch priority (\<lambda>x r. Inr (r\<lparr>rp_priority := x\<rparr>)) p4 = Inr q"
    using assms(1) unfolding apply_policy_patch_def bind_res_Inr_iff by blast
  have s0: "same_policy v p p" using assms(2) by (simp add: same_policy_def)
  have s1: "same_policy v p p1" using patch_Inr [OF 1] s0 by (auto dest: required_Inr)
  have s2: "same_policy v p p2" using patch_Inr [OF 2] s1 by (auto simp: bind_res_Inr_iff)
  have s3: "same_policy v p p3" using patch_Inr [OF 3] s2
    by (auto simp: bind_res_Inr_iff same_policy_def policy_ok_def dest!: normalize_actions_canonical)
  have s4: "same_policy v p p4" using patch_Inr [OF 4] s3 by auto
  have "same_policy v p q" using patch_Inr [OF 5] s4 by auto
  then show ?thesis by (simp add: same_policy_def)
qed

lemma policies_ok_iff:
  "policies_ok v m \<longleftrightarrow> keyed_by rp_id m \<and> (\<forall>i p. gm_get m i = Some p \<longrightarrow> policy_ok v p)"
  by (simp add: policies_ok_def policy_ok_def)

lemma policies_ok_put: "policies_ok v m \<Longrightarrow> rp_id p = k \<Longrightarrow> policy_ok v p \<Longrightarrow> policies_ok v (gm_put k p m)"
  by (auto simp: policies_ok_iff keyed_by_put)

lemma set_priorities_keeps: "set_priorities org items m = Inr m' \<Longrightarrow> policies_ok v m \<Longrightarrow> policies_ok v m'"
proof (induction org items m rule: set_priorities.induct)
  case (2 org i n items m)
  then obtain p where p: "gm_get m i = Some p" "set_priorities org items (gm_put i (p\<lparr>rp_priority := n\<rparr>) m) = Inr m'"
    "fits_int4 n" "rp_organization_id p = org"
    by (auto split: if_splits option.splits)
  have "policies_ok v (gm_put i (p\<lparr>rp_priority := n\<rparr>) m)"
    using 2(3) p(1) by (intro policies_ok_put) (auto simp: policies_ok_iff keyed_by_def policy_ok_def)
  then show ?case using 2(1) p by simp
qed simp

lemma policy_steps_keep:
  assumes ok: "policies_ok v (tab_policies t)"
  shows "policies_ok v (tab_policies (snd (create_policy cr v now i org name expr actions enabled priority t)))"
    and "policies_ok v (tab_policies (snd (update_policy v i name' expr' actions' enabled' priority' t)))"
    and "policies_ok v (tab_policies (snd (reorder_policies org items t)))"
    and "policies_ok v (tab_policies (snd (policies_delete i t)))"
proof -
  show "policies_ok v (tab_policies (snd (create_policy cr v now i org name expr actions enabled priority t)))"
    unfolding create_policy_def
  proof (intro db_check_keeps [where P = "\<lambda>t. policies_ok v (tab_policies t)"]
      db_bind_keeps [where P = "\<lambda>t. policies_ok v (tab_policies t)"] ok)
    fix p assume "new_request_policy v now i org name expr actions enabled priority = Inr p"
    from new_request_policy_Inr [OF this] show "policies_ok v (tab_policies (snd (policies_insert (org_exists cr) p t)))"
      using ok by (auto simp: policies_insert_def on_table_def insert_row_def policies_ok_put)
  qed simp
  show "policies_ok v (tab_policies (snd (update_policy v i name' expr' actions' enabled' priority' t)))"
    unfolding update_policy_def
  proof (intro db_check_keeps [where P = "\<lambda>t. policies_ok v (tab_policies t)"] ok)
    fix cur p assume cur: "get_row (tab_policies t) i = Inr cur"
      and p: "apply_policy_patch v name' expr' actions' enabled' priority' cur = Inr p"
    have c: "gm_get (tab_policies t) i = Some cur" using cur by (simp add: get_row_def found_Inr_iff)
    then have "policy_ok v cur" "rp_id cur = i" using ok by (auto simp: policies_ok_iff keyed_by_def)
    with apply_policy_patch_Inr [OF p] have "rp_id p = i" "policy_ok v p" by auto
    then show "policies_ok v (tab_policies (snd (policies_update p t)))"
      using ok c \<open>rp_id cur = i\<close> by (auto simp: policies_update_def on_table_def update_row_def policy_ok_def intro!: policies_ok_put)
  qed
  show "policies_ok v (tab_policies (snd (reorder_policies org items t)))"
    using ok by (auto simp: reorder_policies_def db_check_def policies_update_priorities_def set_priorities_keeps split: sum.splits)
  show "policies_ok v (tab_policies (snd (policies_delete i t)))"
    using ok by (auto simp: policies_delete_def on_table_def delete_row_def policies_ok_iff keyed_by_del split: if_splits)
qed

section \<open>Reachable tables\<close>

lemma config_step_keeps: "config_step v t t' \<Longrightarrow> config_ok v t \<Longrightarrow> config_ok v t'"
  by (induction rule: config_step.induct)
    (simp_all add: config_ok_def policy_steps_frame route_steps_frame policy_steps_keep create_provider_keeps
      update_provider_keeps delete_keeps create_route_keeps update_route_keeps)

lemma empty_config_ok: "config_ok v empty_config"
  by (simp add: config_ok_def routes_ok_def policies_ok_def empty_config_def keyed_by_def unique_on_def gm_wf_def)

lemma config_reachable_ok: "(config_step v)\<^sup>*\<^sup>* empty_config t \<Longrightarrow> config_ok v t"
  by (induction rule: rtranclp_induct) (auto intro: empty_config_ok config_step_keeps)

lemma publish_snapshot_keeps_config: "pf_config (snd (publish_snapshot reg now up p)) = pf_config p"
  by (simp add: publish_snapshot_def split: prod.splits sum.splits)

lemma publishing_keeps_config:
  "pf_config (snd (publishing (publish_snapshot reg now up) a op ev p)) = pf_config (snd (op p))"
  using publish_snapshot_keeps_config [of reg now up]
  by (auto simp: publishing_def and_emit_def db_bind_def publish_def emit_def split: prod.splits sum.splits)
    (metis snd_conv)+

section \<open>Stored actions\<close>

lemma set_header_fields [simp]:
  "config_field ''header'' (Some (encode_set_header c)) = Inr (sh_header c)"
  "config_field ''value'' (Some (encode_set_header c)) = Inr (sh_value c)"
  "config_field ''value_expr'' (Some (encode_set_header c)) = Inr (sh_value_expr c)"
  by (auto simp: config_field_def encode_set_header_def json_str_field_def json_str_member_def opt_member_def to_lower_def lower_char_def)

lemma use_credential_fields [simp]:
  "config_field ''credential_name'' (Some (encode_use_credential c)) = Inr (uc_credential_name c)"
  "config_field ''credential_name_expr'' (Some (encode_use_credential c)) = Inr (uc_credential_name_expr c)"
  by (auto simp: config_field_def encode_use_credential_def json_str_field_def json_str_member_def opt_member_def to_lower_def lower_char_def)

lemma action_kinds:
  "pa_type a \<in> {ActionDeny, ActionAllow, ActionSetHeader, ActionUseCredential} \<Longrightarrow> action_kind a = pa_type a"
proof -
  have "trim_space (to_lower ''deny'') = ''deny''" "trim_space (to_lower ''allow'') = ''allow''"
    "trim_space (to_lower ''set_header'') = ''set_header''" "trim_space (to_lower ''use_credential'') = ''use_credential''"
    by code_simp+
  then show "pa_type a \<in> {ActionDeny, ActionAllow, ActionSetHeader, ActionUseCredential} \<Longrightarrow> action_kind a = pa_type a"
    by (auto simp: action_kind_def action_defs Let_def)
qed

text \<open>An expression of the action that the compiler accepted fails, or gives a blank name.\<close>

definition expression_fails :: "cel_validator \<Rightarrow> cel_engine \<Rightarrow> cel_vars \<Rightarrow> err \<Rightarrow> policy_action \<Rightarrow> bool" where
  "expression_fails w cel vars e act \<longleftrightarrow>
     (\<exists>x\<in>{x. config_field ''value_expr'' (pa_config act) = Inr x \<or> config_field ''credential_name_expr'' (pa_config act) = Inr x}.
        x \<noteq> [] \<and> cv_validate_string w x = None \<and>
        (eval_string cel x vars = Inl e \<or> (\<exists>s. eval_string cel x vars = Inr s \<and> trim_space s = [])))"

lemma canonical_action_evaluates:
  assumes ok: "canonical_action (Some w) act" and fails: "apply_action cel n act vars out = Inl e"
  shows "expression_fails w cel vars e act"
proof -
  have kind: "action_kind act = pa_type act"
    using ok by (auto simp: canonical_action_def action_kinds)
  consider (header) c where "pa_type act = ActionSetHeader" "pa_config act = Some (encode_set_header c)" "sh_header c \<noteq> []"
      "trim_space (sh_header c) = sh_header c" "checked_expr (Some w) (sh_value_expr c)"
    | (credential) c where "pa_type act = ActionUseCredential" "pa_config act = Some (encode_use_credential c)"
      "trim_space (uc_credential_name c) = uc_credential_name c" "checked_expr (Some w) (uc_credential_name_expr c)"
      "uc_credential_name c \<noteq> [] \<or> uc_credential_name_expr c \<noteq> []"
    using ok fails kind by (auto simp: canonical_action_def apply_action_def action_defs)
  then show ?thesis
  proof cases
    case header
    then show ?thesis using fails kind
      by (auto simp: apply_action_def action_defs resolve_dynamic_string_def bind_res_def Let_def checked_expr_def
          expression_fails_def split: if_splits sum.splits)
  next
    case credential
    then show ?thesis using fails kind
      by (auto simp: apply_action_def action_defs resolve_dynamic_string_def bind_res_def Let_def checked_expr_def
          expression_fails_def split: if_splits sum.splits)
  qed
qed

lemma canonical_actions_evaluate:
  "\<forall>a\<in>set acts. canonical_action (Some w) a \<Longrightarrow> apply_actions cel n acts vars out = Inl e \<Longrightarrow>
     \<exists>a\<in>set acts. expression_fails w cel vars e a"
proof (induction acts arbitrary: out)
  case (Cons a acts)
  show ?case
  proof (cases "apply_action cel n a vars out")
    case (Inl e')
    then show ?thesis using Cons.prems canonical_action_evaluates [of w a cel n vars out e'] by simp
  next
    case (Inr res)
    then show ?thesis using Cons by (auto split: prod.splits if_splits)
  qed
qed simp

section \<open>Properties\<close>

lemma loaded_rows [simp]:
  "so_providers (load_source cr (load_config reg t)) = map (load_provider reg \<circ> snd) (tab_providers t)"
  "so_routes (load_source cr (load_config reg t)) = map (load_route \<circ> snd) (tab_routes t)"
  "so_policies (load_source cr (load_config reg t)) = map (load_policy \<circ> snd) (tab_policies t)"
  by (simp_all add: load_source_def load_config_def)

lemma loaded_provider:
  assumes ok: "routes_ok (tab_providers t) (tab_routes t)"
    and q: "gm_get (sn_providers (compile reg now (load_source cr (load_config reg' t)))) i = Some q"
  shows "\<exists>p. gm_get (tab_providers t) i = Some p \<and> pv_id q = i \<and> gp_id p = i \<and>
    pv_type q = gp_type p \<and> pv_api_key_env q = gp_api_key_env p"
proof -
  obtain j row where row: "(j, row) \<in> set (tab_providers t)" "gp_id row = i"
    "q = normalized_provider reg (load_provider reg' row)"
    using q unfolding compile_simps gm_get_index_by last_with_provider loaded_rows
    by (auto simp: load_provider_def dest!: find_last_SomeD)
  have wf: "gm_wf (tab_providers t)" using ok by (simp add: routes_ok_def keyed_by_def)
  have "gm_get (tab_providers t) j = Some row" using row(1) by (simp only: gm_get_mem [OF wf])
  moreover from this have "j = i" using ok row(2) by (simp add: routes_ok_def keyed_by_def)
  ultimately show ?thesis using row(2,3) by (simp add: load_provider_def normalized_provider_def)
qed

lemma loaded_provider_found:
  assumes ok: "routes_ok (tab_providers t) (tab_routes t)" and p: "gm_get (tab_providers t) i = Some p"
  shows "gm_get (sn_providers (compile reg now (load_source cr (load_config reg' t)))) i =
    Some (normalized_provider reg (load_provider reg' p))"
proof -
  have wf: "gm_wf (tab_providers t)" and i: "gp_id p = i" using ok p by (auto simp: routes_ok_def keyed_by_def)
  have mem: "(i, p) \<in> set (tab_providers t)" using p by (rule map_of_SomeD)
  have only: "j = i" if "(j, q) \<in> set (tab_providers t)" "gp_id q = i" for j q
  proof -
    have "gm_get (tab_providers t) j = Some q" using that(1) by (simp only: gm_get_mem [OF wf])
    then show ?thesis using ok that(2) by (simp add: routes_ok_def keyed_by_def)
  qed
  have "load_provider reg' p \<in> set (map (load_provider reg' \<circ> snd) (tab_providers t))" "pv_id (load_provider reg' p) = i"
    using mem i by (force, simp add: load_provider_def)
  then have "find_last (\<lambda>q. pv_id q = i) (map (load_provider reg' \<circ> snd) (tab_providers t)) \<noteq> None"
    unfolding find_last_None_iff by blast
  then obtain q where q: "find_last (\<lambda>q. pv_id q = i) (map (load_provider reg' \<circ> snd) (tab_providers t)) = Some q" by blast
  then obtain j row where "(j, row) \<in> set (tab_providers t)" "gp_id row = i" "q = load_provider reg' row"
    by (auto simp: load_provider_def dest!: find_last_SomeD)
  then have "row = p" using only mem wf by (metis gm_get_mem option.inject)
  then have "find_last (\<lambda>q. pv_id q = i) (map (load_provider reg' \<circ> snd) (tab_providers t)) = Some (load_provider reg' p)"
    using q \<open>q = load_provider reg' row\<close> by simp
  then show ?thesis unfolding compile_simps gm_get_index_by last_with_provider loaded_rows by simp
qed

lemma loaded_route:
  assumes ok: "routes_ok (tab_providers t) (tab_routes t)"
    and r: "gm_get (sn_routes (compile reg now (load_source cr (load_config reg' t)))) k = Some r"
  shows "\<exists>i row. gm_get (tab_routes t) i = Some row \<and> r = load_route row \<and> k = route_key (gr_organization_id row) (gr_model row)"
proof -
  obtain i row where row: "(i, row) \<in> set (tab_routes t)" "r = load_route row" "k = route_key (ro_organization_id r) (ro_model r)"
    using r unfolding compile_simps gm_get_index_by loaded_rows
    by (auto simp: route_row_def dest!: last_with_SomeD)
  have "gm_wf (tab_routes t)" using ok by (simp add: routes_ok_def keyed_by_def)
  then have "gm_get (tab_routes t) i = Some row" using row(1) by (simp only: gm_get_mem)
  then show ?thesis using row(2,3) by (auto simp: load_route_def)
qed

text \<open>Tables that three operations give: a provider, a route to it, a policy.\<close>

definition demo_validator :: cel_validator where
  "demo_validator = \<lparr>cv_validate = \<lambda>_. None, cv_validate_string = \<lambda>_. None\<rparr>"

definition demo_tables :: config_tables where
  "demo_tables = empty_config
     \<lparr>tab_providers := [(''pv'', \<lparr>gp_id = ''pv'', gp_organization_id = ''o'', gp_name = ''P'', gp_type = ''anthropic'',
        gp_base_url = ''u'', gp_api_key_env = ''ANTHROPIC_API_KEY'', gp_capabilities = normalize_capabilities builtin_registry ''anthropic'' no_caps,
        gp_config = Some (JObj []), gp_created_at = 1\<rparr>)],
      tab_routes := [(''r'', \<lparr>gr_id = ''r'', gr_organization_id = ''o'', gr_model = ''m'', gr_provider_id = ''pv'', gr_target_model = ''t'',
        gr_fallbacks = [\<lparr>rt_provider_id = ''pv'', rt_target_model = ''t2'', rt_weight = 1\<rparr>], gr_retry = None,
        gr_routing_strategy = StrategyOrdered, gr_weight = 1, gr_created_at = 1\<rparr>)],
      tab_policies := [(''po'', \<lparr>rp_id = ''po'', rp_organization_id = ''o'', rp_name = ''N'', rp_expression = ''true'',
        rp_actions = [\<lparr>pa_type = ActionUseCredential, pa_config = Some (JObj [(''credential_name_expr'', JStr ''e'')])\<rparr>],
        rp_enabled = True, rp_priority = 1, rp_created_at = 1\<rparr>)]\<rparr>"

abbreviation demo_fallback :: route_target where
  "demo_fallback \<equiv> \<lparr>rt_provider_id = ''pv'', rt_target_model = ''t2'', rt_weight = 0\<rparr>"

lemma demo_org_exists [simp]: "org_exists demo_cred_db ''o''"
  by (simp add: org_exists_def demo_cred_db_def small_access_def small_db_def)

lemma demo_tables_steps:
  "snd (create_policy demo_cred_db (Some demo_validator) 1 ''po'' ''o'' ''N'' ''true''
       [\<lparr>pa_type = ''use_credential'', pa_config = Some (JObj [(''credential_name_expr'', JStr ''e'')])\<rparr>] True 1
     (snd (create_route demo_cred_db 1 ''r'' ''o'' ''m'' ''pv'' ''t'' [demo_fallback] None [] 0
       (snd (create_provider demo_cred_db builtin_registry 1 ''pv'' ''o'' ''P'' ''anthropic'' ''u'' ''ANTHROPIC_API_KEY'' no_caps None
         empty_config))))) = demo_tables"
proof -
  let ?r = "\<lparr>gr_id = ''r'', gr_organization_id = ''o'', gr_model = ''m'', gr_provider_id = ''pv'', gr_target_model = ''t'',
        gr_fallbacks = [\<lparr>rt_provider_id = ''pv'', rt_target_model = ''t2'', rt_weight = 1\<rparr>], gr_retry = None,
        gr_routing_strategy = StrategyOrdered, gr_weight = 1, gr_created_at = 1\<rparr>"
  have 1: "new_provider builtin_registry 1 ''pv'' ''o'' ''P'' ''anthropic'' ''u'' ''ANTHROPIC_API_KEY'' no_caps None 1 =
      Inr \<lparr>gp_id = ''pv'', gp_organization_id = ''o'', gp_name = ''P'', gp_type = ''anthropic'', gp_base_url = ''u'',
        gp_api_key_env = ''ANTHROPIC_API_KEY'', gp_capabilities = normalize_capabilities builtin_registry ''anthropic'' no_caps,
        gp_config = Some (JObj []), gp_created_at = 1\<rparr>" by code_simp
  have 2: "new_route 1 ''r'' ''o'' ''m'' ''pv'' ''t'' [demo_fallback] None [] 0 1 = Inr ?r" by code_simp
  have 3: "new_request_policy (Some demo_validator) 1 ''po'' ''o'' ''N'' ''true''
       [\<lparr>pa_type = ''use_credential'', pa_config = Some (JObj [(''credential_name_expr'', JStr ''e'')])\<rparr>] True 1 =
     Inr \<lparr>rp_id = ''po'', rp_organization_id = ''o'', rp_name = ''N'', rp_expression = ''true'',
        rp_actions = [\<lparr>pa_type = ActionUseCredential, pa_config = Some (JObj [(''credential_name_expr'', JStr ''e'')])\<rparr>],
        rp_enabled = True, rp_priority = 1, rp_created_at = 1\<rparr>" by code_simp
  have 4: "normalize_provider_config (Some (JObj [])) = Inr (Some (JObj []))" by code_simp
  show ?thesis
    by (simp add: create_policy_def create_route_def create_provider_def 1 2 3 4 db_check_def db_bind_def on_table_def
        providers_insert_def insert_row_def routes_insert_def policies_insert_def assert_route_providers_def
        assert_provider_in_org_def providers_org_id_def get_row_def empty_config_def demo_tables_def fits_int4_def model_taken_def)
qed

lemma demo_tables_reachable: "(config_step (Some demo_validator))\<^sup>*\<^sup>* empty_config demo_tables"
proof -
  have "fresh_provider ''pv'' empty_config" by code_simp
  show ?thesis unfolding demo_tables_steps [symmetric]
    by (rule rtranclp.rtrancl_into_rtrancl [rotated], rule step_create_policy,
        rule rtranclp.rtrancl_into_rtrancl [rotated], rule step_create_route,
        rule r_into_rtranclp, rule step_create_provider, fact)
qed

text \<open>
  C8: Routes stay in their organization. Whatever sequence of provider, route and policy
  operations produced the tables, a route found in the snapshot compiled from them for an
  organization belongs to it (identifiers without a colon), and both the provider calls are sent
  to and every fall-back provider that still exists are rows of that organization: no traffic, and
  no key, of one organization reaches a provider of another.
\<close>

theorem routes_stay_in_organization:
  assumes "(config_step v)\<^sup>*\<^sup>* empty_config t"
    and "snap = compile reg now (load_source cr (load_config reg t))"
    and "lookup_route (Some snap) org model = Some (r, p)"
    and "CHR '':'' \<notin> set org" and "\<forall>(_, row)\<in>set (tab_routes t). CHR '':'' \<notin> set (gr_organization_id row)"
  shows "ro_organization_id r = org \<and> ro_model r = model \<and>
    (\<forall>i\<in>set (ro_provider_id r # map rt_provider_id (ro_fallbacks r)). gm_get (sn_providers snap) i \<noteq> None \<longrightarrow>
       map_option gp_organization_id (gm_get (tab_providers t) i) = Some org)"
proof -
  have ok: "routes_ok (tab_providers t) (tab_routes t)"
    using config_reachable_ok [OF assms(1)] by (simp add: config_ok_def)
  have "gm_get (sn_routes snap) (route_key org model) = Some r"
    using assms(3) by (auto simp: lookup_route_def split: option.splits)
  from loaded_route [OF ok this [unfolded assms(2)]] obtain i row where
    row: "gm_get (tab_routes t) i = Some row" "r = load_route row"
    and key: "route_key org model = route_key (gr_organization_id row) (gr_model row)"
    by blast
  have "(i, row) \<in> set (tab_routes t)" using row(1) by (rule map_of_SomeD)
  then have "gr_organization_id row = org" "gr_model row = model"
    using key assms(4,5) by (auto simp: route_key_inj)
  moreover have "route_confined (tab_providers t) row" using ok row(1) by (simp add: routes_ok_def)
  moreover have "gm_get (tab_providers t) j \<noteq> None" if "gm_get (sn_providers snap) j \<noteq> None" for j
    using that loaded_provider [OF ok] assms(2) by fastforce
  ultimately show ?thesis using row(2) by (fastforce simp: load_route_def route_confined_def)
qed

lemma demo_route_lookup:
  "lookup_route (Some (compile builtin_registry 0 (load_source demo_cred_db (load_config builtin_registry demo_tables)))) ''o'' ''m'' =
     Some (load_route (snd (tab_routes demo_tables ! 0)),
       normalized_provider builtin_registry (load_provider builtin_registry (snd (tab_providers demo_tables ! 0))))"
  unfolding lookup_route_def option.case compile_simps loaded_rows gm_get_index_by last_with_provider
  by (simp add: demo_tables_def empty_config_def load_route_def load_provider_def route_row_def)

theorem routes_stay_in_organization_witness:
  "map_option gp_organization_id (gm_get (tab_providers demo_tables)
     (ro_provider_id (fst (the (lookup_route (Some (compile builtin_registry 0 (load_source demo_cred_db (load_config builtin_registry demo_tables)))) ''o'' ''m''))))) =
   Some ''o''"
proof -
  let ?snap = "compile builtin_registry 0 (load_source demo_cred_db (load_config builtin_registry demo_tables))"
  have ok: "routes_ok (tab_providers demo_tables) (tab_routes demo_tables)"
    using config_reachable_ok [OF demo_tables_reachable] by (simp add: config_ok_def)
  have colons: "CHR '':'' \<notin> set ''o''" "\<forall>(_, row)\<in>set (tab_routes demo_tables). CHR '':'' \<notin> set (gr_organization_id row)"
    by (simp_all add: demo_tables_def empty_config_def)
  have "gm_get (sn_providers ?snap) ''pv'' \<noteq> None"
    using loaded_provider_found [OF ok, of "''pv''"] by (simp add: demo_tables_def empty_config_def)
  then show ?thesis
    using routes_stay_in_organization [OF demo_tables_reachable refl demo_route_lookup colons]
    unfolding demo_route_lookup by (simp add: demo_tables_def empty_config_def load_route_def)
qed



lemma set_priorities_Inr:
  "set_priorities org items m = Inr m' \<Longrightarrow> distinct (map fst items) \<Longrightarrow>
     (\<forall>i\<in>fst ` set items. \<exists>p. gm_get m i = Some p \<and> rp_organization_id p = org) \<and>
     (\<forall>i. gm_get m' i = (case map_of items i of None \<Rightarrow> gm_get m i | Some n \<Rightarrow> map_option (rp_priority_update (\<lambda>_. n)) (gm_get m i)))"
proof (induction org items m rule: set_priorities.induct)
  case (2 org j n items m)
  then obtain p where p: "gm_get m j = Some p" "rp_organization_id p = org" "fits_int4 n"
    and rest: "set_priorities org items (gm_put j (p\<lparr>rp_priority := n\<rparr>) m) = Inr m'"
    by (auto split: if_splits option.splits)
  have new: "j \<notin> fst ` set items" and d: "distinct (map fst items)" using 2(3) by auto
  then have "map_of items j = None" by (simp add: map_of_eq_None_iff)
  moreover note 2(1) [OF _ p(1) _ rest d]
  ultimately show ?case using p new by (auto split: if_splits option.splits)
qed simp

lemma check_reorder_items_Inr: "check_reorder_items seen items = Inr u \<Longrightarrow> distinct (map fst items) \<and> fst ` set items \<inter> set seen = {}"
  by (induction seen items rule: check_reorder_items.induct) (auto split: if_splits)

text \<open>
  Reordering policies is all or nothing. When it fails nothing has changed; when it succeeds
  the listed policies are distinct and all of this organization, each has the priority of its
  item, and no other policy, and nothing else, changed.
\<close>

theorem reorder_policies_atomic:
  "case reorder_policies org items t of
     (Inl e, t') \<Rightarrow> t' = t
   | (Inr _, t') \<Rightarrow> t' = t\<lparr>tab_policies := tab_policies t'\<rparr> \<and> items \<noteq> [] \<and> distinct (map fst items) \<and>
       fst ` set items \<subseteq> {i. map_option rp_organization_id (gm_get (tab_policies t) i) = Some org} \<and>
       gm_get (tab_policies t') = (\<lambda>i. case map_of items i of None \<Rightarrow> gm_get (tab_policies t) i
         | Some n \<Rightarrow> map_option (rp_priority_update (\<lambda>_. n)) (gm_get (tab_policies t) i))"
proof (cases "reorder_policies org items t")
  case (Pair r t')
  show ?thesis
  proof (cases r)
    case (Inl e)
    then show ?thesis using Pair
      by (auto simp: reorder_policies_def db_check_def policies_update_priorities_def split: if_splits sum.splits)
  next
    case (Inr u)
    then obtain m where m: "check_reorder_items [] items = Inr ()" "set_priorities org items (tab_policies t) = Inr m"
      "t' = t\<lparr>tab_policies := m\<rparr>" "items \<noteq> []"
      using Pair by (auto simp: reorder_policies_def db_check_def policies_update_priorities_def split: if_splits sum.splits)
    have "distinct (map fst items)" using check_reorder_items_Inr [OF m(1)] by simp
    with set_priorities_Inr [OF m(2)] show ?thesis using Inr Pair m by (auto simp: fun_eq_iff)
  qed
qed

text \<open>
  A provider that is patched without a key variable is switched to another vendor's key. The
  handler fills in the variable of OpenAI whatever the provider's type (creation uses the type's
  own), so the gateways then send that key to the address of the provider.
\<close>

theorem patched_provider_sends_openai_key:
  assumes "routes_ok (tab_providers (pf_config p)) (tab_routes (pf_config p))"
    and "gm_get (tab_providers (pf_config p)) i = Some row" and "name \<noteq> []" and "base \<noteq> []"
    and "handle_update_provider (publish_snapshot reg now up) reg i (Some (name, base, [], None)) p = (reply, p')"
  shows "\<exists>q. gm_get (sn_providers (compile reg now' (load_source (pf_db p') (load_config reg (pf_config p'))))) i = Some q \<and>
    pv_type q = gp_type row \<and> pv_base_url q = base \<and> pv_api_key_env q = ''OPENAI_API_KEY''"
proof -
  let ?row = "row\<lparr>gp_name := name, gp_base_url := base, gp_api_key_env := ''OPENAI_API_KEY''\<rparr>"
  let ?t = "(pf_config p)\<lparr>tab_providers := gm_put i ?row (tab_providers (pf_config p))\<rparr>"
  have "p' = snd (cmd_update_provider (publish_snapshot reg now up) reg i name base ''OPENAI_API_KEY'' None p)"
    using assms(3-5) by (auto simp: handle_update_provider_def Let_def reply_with_def split: prod.splits sum.splits if_splits)
  then have t': "pf_config p' = ?t"
    using assms(2) by (auto simp: cmd_update_provider_def publishing_keeps_config on_config_def update_provider_def db_check_def
        on_table_def providers_update_def update_row_def)
  have ok: "routes_ok (tab_providers ?t) (tab_routes ?t)"
    using routes_ok_change_provider [OF assms(1,2), of ?row] by simp
  then show ?thesis unfolding t' using loaded_provider_found [OF ok, of i ?row]
    by (simp add: normalized_provider_def load_provider_def)
qed

theorem patched_provider_sends_openai_key_witness:
  "map_option pv_api_key_env (gm_get (sn_providers (compile builtin_registry 0
     (let p' = snd (handle_update_provider (publish_snapshot builtin_registry 0 True) builtin_registry ''pv''
        (Some (''P'', ''u'', [], None)) (demo_platform\<lparr>pf_config := demo_tables\<rparr>))
      in load_source (pf_db p') (load_config builtin_registry (pf_config p'))))) ''pv'') = Some ''OPENAI_API_KEY''"
proof -
  let ?p = "demo_platform\<lparr>pf_config := demo_tables\<rparr>"
  let ?out = "handle_update_provider (publish_snapshot builtin_registry 0 True) builtin_registry ''pv'' (Some (''P'', ''u'', [], None)) ?p"
  have ok: "routes_ok (tab_providers (pf_config ?p)) (tab_routes (pf_config ?p))"
    using config_reachable_ok [OF demo_tables_reachable] by (simp add: config_ok_def)
  have row: "gm_get (tab_providers (pf_config ?p)) ''pv'' = Some (snd (tab_providers demo_tables ! 0))"
    by (simp add: demo_tables_def empty_config_def)
  obtain q where "gm_get (sn_providers (compile builtin_registry 0
      (load_source (pf_db (snd ?out)) (load_config builtin_registry (pf_config (snd ?out)))))) ''pv'' = Some q"
    "pv_api_key_env q = ''OPENAI_API_KEY''"
    using patched_provider_sends_openai_key [OF ok row, of "''P''" "''u''" builtin_registry 0 True "fst ?out" "snd ?out" 0]
    unfolding prod.collapse by blast
  then show ?thesis unfolding Let_def by (simp only: option.map)
qed

end
