(* ===== verification/Agent_Gateway.thy ===== *)
theory Agent_Gateway
  imports Chat_Exec Json
begin

text \<open>
  The gateway's proxies for MCP back ends and A2A agents
  (\<^verbatim>\<open>src/internal/dataplane/mcp.go\<close>, \<^verbatim>\<open>a2a.go\<close>, \<^verbatim>\<open>http_copy.go\<close>): authenticate, pass the gate,
  look the alias up, look into the JSON-RPC envelope, add the back end's own key, forward, record.
  The HTTP client, the secrets and the text of JSON are arguments; a panic of a handler is
  \<open>None\<close>. Values of JSON stand for their texts.
\<close>

section \<open>Requests and answers\<close>

definition ModalityMCP :: string where "ModalityMCP = ''mcp''"
definition ModalityA2A :: string where "ModalityA2A = ''a2a''"

record agent_request =
  nq_alias :: string
  nq_request :: http_request
  nq_body :: "string res"
  nq_raw_query :: string
  nq_host :: string
  nq_tls :: bool

record upstream_request =
  uq_method :: string
  uq_url :: string
  uq_query :: string
  uq_headers :: "(string, string) gomap"
  uq_body :: string

text \<open>An answer, what could be read of its body, and whether copying it failed.\<close>

record upstream_response =
  ux_status :: int
  ux_headers :: "(string, string list) gomap"
  ux_body :: string
  ux_failed :: bool

datatype agent_reply =
    AgentError http_response
  | Proxied int "(string, string list) gomap" string
  | CardReply "(string, string) gomap" json

record ('h, 's, 'r, 'u) agent_env =
  ae_gate :: "('h, 's) gate_env"
  ae_sha :: "string \<Rightarrow> string"
  ae_sig :: sig_lib
  ae_replay :: "(gotime \<Rightarrow> string \<Rightarrow> duration \<Rightarrow> 'r \<Rightarrow> bool res \<times> 'r) option"
  ae_secrets :: "string \<Rightarrow> string res"
  ae_parse_json :: "string \<Rightarrow> json option"
  ae_url_ok :: "string \<Rightarrow> bool"
  ae_upstream :: "upstream_request \<Rightarrow> 'u \<Rightarrow> upstream_response res \<times> 'u"
  ae_now :: "'u \<Rightarrow> gotime"

definition json_error :: "int \<Rightarrow> string \<Rightarrow> string \<Rightarrow> http_response" where
  "json_error status msg typ =
     \<lparr>hp_status = status, hp_headers = [(''Content-Type'', ''application/json'')],
      hp_body = JObj [(''error'', JObj [(''message'', JStr msg), (''type'', JStr typ)])]\<rparr>"

definition refuse :: "int \<Rightarrow> string \<Rightarrow> string \<Rightarrow> 's \<Rightarrow> agent_reply \<times> 's" where
  "refuse status msg typ s = (AgentError (json_error status msg typ), s)"

text \<open>\<^verbatim>\<open>strings.Contains\<close>.\<close>

definition contains_text :: "string \<Rightarrow> string \<Rightarrow> bool" where
  "contains_text s t \<longleftrightarrow> list_ex (\<lambda>i. has_prefix (drop i s) t) [0..<Suc (length s)]"

definition wants_stream :: "http_request \<Rightarrow> bool" where
  "wants_stream r \<longleftrightarrow> contains_text (to_lower (header_get r ''Accept'')) ''text/event-stream''"

text \<open>
  Headers of the request to the back end: a few of the client's (\<^verbatim>\<open>Last-Event-ID\<close> is
  looked up under its canonical name), then those of the policies.
\<close>

definition copy_client_headers :: "string list \<Rightarrow> http_request \<Rightarrow> (string, string) gomap" where
  "copy_client_headers names r =
     set_headers (map (\<lambda>k. (k, header_get r k)) (filter (\<lambda>k. header_get r k \<noteq> []) names)) []"

definition copy_extra_headers :: "(string, string) gomap \<Rightarrow> (string, string) gomap \<Rightarrow> (string, string) gomap" where
  "copy_extra_headers extra hdrs =
     set_headers (filter (\<lambda>(k, v). \<not> (to_lower k = ''authorization'' \<or> to_lower k = ''origin'') \<and> v \<noteq> []) extra) hdrs"

definition copy_mcp_request_headers :: "http_request \<Rightarrow> (string, string) gomap \<Rightarrow> (string, string) gomap" where
  "copy_mcp_request_headers r extra =
     copy_extra_headers extra (copy_client_headers [''Accept'', ''Content-Type'', ''Mcp-Session-Id'', ''Last-Event-Id''] r)"

definition copy_a2a_request_headers :: "http_request \<Rightarrow> (string, string) gomap \<Rightarrow> (string, string) gomap" where
  "copy_a2a_request_headers r extra = copy_extra_headers extra (copy_client_headers [''Accept'', ''Content-Type''] r)"

definition with_bearer :: "string \<Rightarrow> (string, string) gomap \<Rightarrow> (string, string) gomap" where
  "with_bearer key h = (if key = [] then h else gm_put ''Authorization'' (''Bearer '' @ key) h)"

definition with_content_type :: "bool \<Rightarrow> (string, string) gomap \<Rightarrow> (string, string) gomap" where
  "with_content_type b h =
     (if b \<and> (case gm_get h ''Content-Type'' of None \<Rightarrow> True | Some v \<Rightarrow> v = []) then gm_put ''Content-Type'' ''application/json'' h else h)"

text \<open>\<^verbatim>\<open>CopyResponse\<close> adds the upstream headers to those already set on the answer.\<close>

definition add_header :: "string \<Rightarrow> string \<Rightarrow> (string, string list) gomap \<Rightarrow> (string, string list) gomap" where
  "add_header k v h = (let c = canonical_header_key k in
     gm_put c ((case gm_get h c of None \<Rightarrow> [] | Some vs \<Rightarrow> vs) @ [v]) h)"

definition copied_headers ::
  "string list \<Rightarrow> (string, string) gomap \<Rightarrow> (string, string list) gomap \<Rightarrow> (string, string list) gomap" where
  "copied_headers skip set_before hdrs =
     fold (\<lambda>(k, vs) h. fold (add_header k) vs h) (filter (\<lambda>(k, _). to_lower k \<notin> set skip) hdrs)
       (map (\<lambda>(k, v). (k, [v])) set_before)"

definition copy_response :: "(string, string) gomap \<Rightarrow> upstream_response \<Rightarrow> agent_reply" where
  "copy_response set_before resp =
     Proxied (ux_status resp) (copied_headers [''transfer-encoding'', ''connection''] set_before (ux_headers resp)) (ux_body resp)"

section \<open>JSON-RPC envelopes\<close>

record rpc_message =
  rm_method :: string
  rm_params :: raw_json

definition rpc_fields :: "rpc_message fields" where
  "rpc_fields = [field ''method'' dec_string rm_method (\<lambda>x r. r\<lparr>rm_method := x\<rparr>),
     field ''params'' dec_raw rm_params (\<lambda>x r. r\<lparr>rm_params := x\<rparr>)]"

definition decode_rpc :: "(string \<Rightarrow> json option) \<Rightarrow> string \<Rightarrow> rpc_message option" where
  "decode_rpc parse body =
     (if body = [] then None
      else (case parse body of None \<Rightarrow> None
        | Some j \<Rightarrow> (case dec_struct rpc_fields j \<lparr>rm_method = [], rm_params = None\<rparr> of Inl _ \<Rightarrow> None | Inr m \<Rightarrow> Some m)))"

definition parse_mcp_jsonrpc_meta :: "(string \<Rightarrow> json option) \<Rightarrow> string \<Rightarrow> string \<times> string" where
  "parse_mcp_jsonrpc_meta parse body =
     (case decode_rpc parse body of
        None \<Rightarrow> ([], [])
      | Some m \<Rightarrow>
          let meth = trim_space (rm_method m) in
          (meth,
           if meth = ''tools/call'' then
             (case rm_params m of None \<Rightarrow> []
              | Some j \<Rightarrow> (case dec_struct [field ''name'' dec_string id (\<lambda>x _. x)] j [] of Inl _ \<Rightarrow> [] | Inr n \<Rightarrow> trim_space n))
           else []))"

definition mcp_method_allowed :: "string list \<Rightarrow> string \<Rightarrow> bool" where
  "mcp_method_allowed allow meth \<longleftrightarrow>
     allow = [] \<or> meth = [] \<or> list_ex (\<lambda>m. m = meth \<or> has_suffix m ''/*'' \<and> has_prefix meth (butlast m)) allow"

definition dec_map :: "(string \<times> json) list option decoder" where
  "dec_map j old =
     (case j of JNull \<Rightarrow> Inr None | JObj kvs \<Rightarrow> Inr (Some ((case old of None \<Rightarrow> [] | Some m \<Rightarrow> m) @ kvs)) | _ \<Rightarrow> Inl type_error)"

definition unmarshal_string :: "json option \<Rightarrow> string option" where
  "unmarshal_string j =
     (case j of None \<Rightarrow> None
      | Some v \<Rightarrow> (case dec_string v [] of Inl _ \<Rightarrow> None | Inr s \<Rightarrow> Some (trim_space s)))"

definition metadata_skill :: "json option \<Rightarrow> string option" where
  "metadata_skill j =
     (case j of None \<Rightarrow> None
      | Some v \<Rightarrow> (case dec_struct [field ''metadata'' dec_map id (\<lambda>x _. x)] v None of
            Inr (Some kvs) \<Rightarrow> (case jmember ''skill'' (JObj kvs) of Some (JStr s) \<Rightarrow> Some (trim_space s) | _ \<Rightarrow> None)
          | _ \<Rightarrow> None))"

definition or_blank :: "string option \<Rightarrow> string" where
  "or_blank s = (case s of None \<Rightarrow> [] | Some x \<Rightarrow> x)"

text \<open>Method, skill and task: the skill of the parameters wins over that of the message.\<close>

definition parse_a2a_jsonrpc_meta :: "(string \<Rightarrow> json option) \<Rightarrow> string \<Rightarrow> string \<times> string \<times> string" where
  "parse_a2a_jsonrpc_meta parse body =
     (case decode_rpc parse body of
        None \<Rightarrow> ([], [], [])
      | Some m \<Rightarrow>
          let meth = trim_space (rm_method m) in
          (case rm_params m of
             Some (JObj kvs) \<Rightarrow>
               (meth,
                (case unmarshal_string (jmember ''skill'' (JObj kvs)) of
                   Some s \<Rightarrow> s | None \<Rightarrow> or_blank (metadata_skill (jmember ''message'' (JObj kvs)))),
                or_blank (unmarshal_string (jmember ''id'' (JObj kvs))))
           | _ \<Rightarrow> (meth, [], [])))"

section \<open>Forwarding\<close>

text \<open>What is known of the call when its outcome is recorded.\<close>

record agent_call =
  nc_principal :: principal
  nc_call :: call_context
  nc_alias :: string
  nc_provider :: string
  nc_modality :: string
  nc_target :: string
  nc_start :: gotime

definition agent_event :: "agent_call \<Rightarrow> string \<Rightarrow> int \<Rightarrow> (string, goval) gomap \<Rightarrow> usage_event" where
  "agent_event c status latency metrics =
     (usage_event_base (nc_principal c) [])\<lparr>ue_model := nc_alias c, ue_provider_type := nc_provider c,
        ue_target_model := nc_target c, ue_status := status, ue_latency_ms := latency,
        ue_modality := nc_modality c, ue_metrics := metrics, ue_tags := clone_tags (cx_tags (nc_call c))\<rparr>"

definition settle_agent ::
  "('h, 's, 'r, 'u) agent_env \<Rightarrow> snapshot \<Rightarrow> agent_call \<Rightarrow> string \<Rightarrow> (string, goval) gomap \<Rightarrow>
   ('h, 's, 'r, 'u) gw_state \<Rightarrow> ('h, 's, 'r, 'u) gw_state" where
  "settle_agent env sn c status metrics s =
     (let latency = since_ms (ae_now env) (nc_start c) (gw_world s);
          h = run_after_call_all (ae_gate env) (Some sn) (nc_call c)
                \<lparr>ai_status = status, ai_latency_ms = latency, ai_provider_type = nc_provider c,
                 ai_target_model = nc_target c, ai_prompt_tokens = 0, ai_completion_tokens = 0\<rparr> (gw_hooks s)
      in s\<lparr>gw_usage := record_usage (agent_event c status latency metrics) (gw_usage s), gw_hooks := h\<rparr>)"

definition metric :: "string \<Rightarrow> string \<Rightarrow> (string, goval) gomap" where
  "metric k v = (if v = [] then [] else [(k, GStr v)])"

definition proxy ::
  "('h, 's, 'r, 'u) agent_env \<Rightarrow> snapshot \<Rightarrow> agent_call \<Rightarrow> (string, goval) gomap \<Rightarrow> upstream_request \<Rightarrow>
   ('h, 's, 'r, 'u) gw_state \<Rightarrow> agent_reply \<times> ('h, 's, 'r, 'u) gw_state" where
  "proxy env sn c metrics req s =
     (case ae_upstream env req (gw_world s) of (r, u) \<Rightarrow>
        let s1 = s\<lparr>gw_world := u\<rparr>;
            timed = gm_put ''latency_ms'' (GInt64 (since_ms (ae_now env) (nc_start c) u)) metrics in
        (case r of
           Inl e \<Rightarrow> refuse 502 (err_msg e) ''server_error'' (settle_agent env sn c ''error'' timed s1)
         | Inr resp \<Rightarrow>
             (copy_response (apply_response_headers (nc_call c) []) resp,
              settle_agent env sn c (if ux_status resp \<ge> 400 \<or> ux_failed resp then ''error'' else ''ok'') timed s1)))"

text \<open>
  The common start of the handlers: snapshot, body, authentication, the model and what else the
  handler decodes from the body, gate; refused with an answer, or admitted with what was decoded,
  the snapshot, the principal and the call the gate let pass.
\<close>

datatype ('b, 'h, 's, 'r, 'u) admission =
    Refused agent_reply "('h, 's, 'r, 'u) gw_state"
  | Admitted 'b snapshot principal call_context "('h, 's, 'r, 'u) gw_state"

definition turn_away :: "int \<Rightarrow> string \<Rightarrow> string \<Rightarrow> ('h, 's, 'r, 'u) gw_state \<Rightarrow> ('b, 'h, 's, 'r, 'u) admission" where
  "turn_away status msg typ s = Refused (AgentError (json_error status msg typ)) s"

definition handler_call :: "principal \<Rightarrow> agent_request \<Rightarrow> string \<Rightarrow> string \<Rightarrow> string \<Rightarrow> bool \<Rightarrow> string \<Rightarrow> call_context" where
  "handler_call p rq model path modality stream body =
     (new_call_context p model path modality stream body (tags_from_request (nq_request rq)))
       \<lparr>cx_headers := headers_for_policy (hr_headers (nq_request rq))\<rparr>"

definition admit_call ::
  "('h, 's, 'r, 'u) agent_env \<Rightarrow> snapshot option \<Rightarrow> (string \<Rightarrow> (string \<times> 'b) res) \<Rightarrow> string \<Rightarrow> string \<Rightarrow> bool \<Rightarrow>
   string res \<Rightarrow> agent_request \<Rightarrow> ('h, 's, 'r, 'u) gw_state \<Rightarrow> ('b, 'h, 's, 'r, 'u) admission" where
  "admit_call env snap decode path modality stream body0 rq s =
     (case snap of None \<Rightarrow> turn_away 503 ''no snapshot loaded'' ''server_error'' s
      | Some sn \<Rightarrow>
      (case body0 of Inl _ \<Rightarrow> turn_away 400 ''failed to read body'' ''invalid_request_error'' s
      | Inr body \<Rightarrow>
      (case authenticate_gateway_request (ae_sha env) (ae_sig env) (ae_replay env) (ae_now env (gw_world s)) snap
              (nq_request rq) body (gw_replay s) of
         (Inl e, rep) \<Rightarrow> turn_away (auth_http_status e) (auth_err_message e) ''invalid_request_error'' (s\<lparr>gw_replay := rep\<rparr>)
       | (Inr p, rep) \<Rightarrow>
           (case decode body of
              Inl e \<Rightarrow> turn_away 400 (err_msg e) ''invalid_request_error'' (s\<lparr>gw_replay := rep\<rparr>)
            | Inr (model, x) \<Rightarrow>
                (case gate_call (ae_gate env) snap (handler_call p rq model path modality stream body) (gw_hooks s) (gw_counters s) of
                   (Some resp, _, h, c) \<Rightarrow> Refused (AgentError resp) (s\<lparr>gw_replay := rep, gw_hooks := h, gw_counters := c\<rparr>)
                 | (None, call, h, c) \<Rightarrow> Admitted x sn p call (s\<lparr>gw_replay := rep, gw_hooks := h, gw_counters := c\<rparr>))))))"

text \<open>The agent handlers look at the alias first.\<close>

definition admit ::
  "('h, 's, 'r, 'u) agent_env \<Rightarrow> snapshot option \<Rightarrow> string \<Rightarrow> string \<Rightarrow> bool \<Rightarrow> string res \<Rightarrow> agent_request \<Rightarrow>
   ('h, 's, 'r, 'u) gw_state \<Rightarrow> (unit, 'h, 's, 'r, 'u) admission" where
  "admit env snap path modality stream body0 rq s =
     (let alias = trim_space (nq_alias rq) in
      if alias = [] then turn_away 400 ''alias required'' ''invalid_request_error'' s
      else admit_call env snap (\<lambda>_. Inr (alias, ())) path modality stream body0 rq s)"

definition request_body :: "agent_request \<Rightarrow> string res" where
  "request_body rq = bind_res (nq_body rq) (\<lambda>raw. Inr (limit_body raw))"

definition resolve_key :: "('h, 's, 'r, 'u) agent_env \<Rightarrow> string \<Rightarrow> string \<Rightarrow> string res" where
  "resolve_key env key_env inline = (if key_env = [] then Inr inline else ae_secrets env key_env)"

subsection \<open>MCP\<close>

definition forward_mcp ::
  "('h, 's, 'r, 'u) agent_env \<Rightarrow> agent_request \<Rightarrow> gotime \<Rightarrow> snapshot \<Rightarrow> principal \<Rightarrow> call_context \<Rightarrow>
   ('h, 's, 'r, 'u) gw_state \<Rightarrow> agent_reply \<times> ('h, 's, 'r, 'u) gw_state" where
  "forward_mcp env rq start sn p call s =
     (let body = cx_body call; alias = trim_space (nq_alias rq) in
      case lookup_mcp_backend (Some sn) (pr_organization_id p) alias of
        None \<Rightarrow> refuse 404 ''unknown mcp alias'' ''invalid_request_error'' s
      | Some b \<Rightarrow>
      (case parse_mcp_jsonrpc_meta (ae_parse_json env) body of (meth, tool) \<Rightarrow>
      if \<not> mcp_method_allowed (mb_method_allowlist b) meth
        then refuse 403 (''mcp method not allowed: '' @ meth) ''invalid_request_error'' s
      else (case resolve_key env (mb_api_key_env b) (mb_inline_api_key b) of
        Inl _ \<Rightarrow> refuse 502 ''upstream credential unavailable'' ''server_error'' s
      | Inr key \<Rightarrow>
          if \<not> ae_url_ok env (mb_base_url b) then refuse 500 ''failed to build upstream request'' ''server_error'' s
          else proxy env sn
            \<lparr>nc_principal = p, nc_call = call, nc_alias = alias, nc_provider = ''mcp'', nc_modality = ModalityMCP, nc_target = mb_id b, nc_start = start\<rparr>
            (metric ''method'' meth @ metric ''tool'' tool)
            \<lparr>uq_method = hr_method (nq_request rq), uq_url = mb_base_url b, uq_query = nq_raw_query rq,
             uq_headers = with_content_type (body \<noteq> [])
               (with_bearer key (copy_mcp_request_headers (nq_request rq) (cx_request_headers call))),
             uq_body = body\<rparr> s)))"

definition handle_mcp ::
  "('h, 's, 'r, 'u) agent_env \<Rightarrow> snapshot option \<Rightarrow> agent_request \<Rightarrow> ('h, 's, 'r, 'u) gw_state \<Rightarrow>
   agent_reply \<times> ('h, 's, 'r, 'u) gw_state" where
  "handle_mcp env snap rq s =
     (case admit env snap (''/mcp/'' @ trim_space (nq_alias rq)) ModalityMCP (wants_stream (nq_request rq))
        (if hr_method (nq_request rq) = ''POST'' then request_body rq else Inr []) rq s of
        Refused r s1 \<Rightarrow> (r, s1)
      | Admitted _ sn p call s1 \<Rightarrow> forward_mcp env rq (ae_now env (gw_world s)) sn p call s1)"

subsection \<open>A2A\<close>

definition forward_a2a ::
  "('h, 's, 'r, 'u) agent_env \<Rightarrow> agent_request \<Rightarrow> gotime \<Rightarrow> snapshot \<Rightarrow> principal \<Rightarrow> call_context \<Rightarrow>
   ('h, 's, 'r, 'u) gw_state \<Rightarrow> agent_reply \<times> ('h, 's, 'r, 'u) gw_state" where
  "forward_a2a env rq start sn p call s =
     (let body = cx_body call; alias = trim_space (nq_alias rq) in
      case lookup_a2a_agent (Some sn) (pr_organization_id p) alias of
        None \<Rightarrow> refuse 404 ''unknown a2a alias'' ''invalid_request_error'' s
      | Some a \<Rightarrow>
      (case parse_a2a_jsonrpc_meta (ae_parse_json env) body of (meth, skill, task) \<Rightarrow>
      (case resolve_key env (aa_api_key_env a) (aa_inline_api_key a) of
        Inl _ \<Rightarrow> refuse 502 ''upstream credential unavailable'' ''server_error'' s
      | Inr key \<Rightarrow>
          if \<not> ae_url_ok env (aa_upstream_url a) then refuse 500 ''failed to build upstream request'' ''server_error'' s
          else proxy env sn
            \<lparr>nc_principal = p, nc_call = call, nc_alias = alias, nc_provider = ''a2a'', nc_modality = ModalityA2A, nc_target = aa_id a, nc_start = start\<rparr>
            (metric ''method'' meth @ metric ''skill'' skill @ metric ''task_id'' task)
            \<lparr>uq_method = ''POST'', uq_url = aa_upstream_url a, uq_query = nq_raw_query rq,
             uq_headers = with_content_type True
               (with_bearer key (copy_a2a_request_headers (nq_request rq) (cx_request_headers call))),
             uq_body = body\<rparr> s)))"

definition handle_a2a_jsonrpc ::
  "('h, 's, 'r, 'u) agent_env \<Rightarrow> snapshot option \<Rightarrow> agent_request \<Rightarrow> ('h, 's, 'r, 'u) gw_state \<Rightarrow>
   agent_reply \<times> ('h, 's, 'r, 'u) gw_state" where
  "handle_a2a_jsonrpc env snap rq s =
     (case admit env snap (''/a2a/'' @ trim_space (nq_alias rq)) ModalityA2A (wants_stream (nq_request rq)) (request_body rq) rq s of
        Refused r s1 \<Rightarrow> (r, s1)
      | Admitted _ sn p call s1 \<Rightarrow> forward_a2a env rq (ae_now env (gw_world s)) sn p call s1)"

subsection \<open>Agent cards\<close>

text \<open>\<^verbatim>\<open>card[..] = v\<close> on a decoded object; of equal names the last one counts.\<close>

definition put_member :: "string \<Rightarrow> json \<Rightarrow> (string \<times> json) list \<Rightarrow> (string \<times> json) list" where
  "put_member k v kvs = filter (\<lambda>(k', _). k' \<noteq> k) kvs @ [(k, v)]"

definition replace_member :: "string \<Rightarrow> json \<Rightarrow> (string \<times> json) list \<Rightarrow> (string \<times> json) list" where
  "replace_member k v kvs = (if jmember k (JObj kvs) = None then kvs else put_member k v kvs)"

definition rewrite_interface :: "string \<Rightarrow> json \<Rightarrow> json" where
  "rewrite_interface url j = (case j of JObj kvs \<Rightarrow> JObj (replace_member ''url'' (JStr url) kvs) | _ \<Rightarrow> j)"

definition rewrite_interfaces :: "string \<Rightarrow> (string \<times> json) list \<Rightarrow> (string \<times> json) list" where
  "rewrite_interfaces url kvs =
     (case jmember ''interfaces'' (JObj kvs) of
        Some (JArr xs) \<Rightarrow> put_member ''interfaces'' (JArr (map (rewrite_interface url) xs)) kvs
      | _ \<Rightarrow> kvs)"

text \<open>A card that is not an object is an error; \<^verbatim>\<open>null\<close> is a nil map, and storing in it panics.\<close>

definition rewrite_a2a_agent_card :: "json option \<Rightarrow> string \<Rightarrow> json res option" where
  "rewrite_a2a_agent_card doc url =
     (case doc of
        Some (JObj kvs) \<Rightarrow>
          Some (Inr (JObj (rewrite_interfaces url (replace_member ''endpoint'' (JStr url) (put_member ''url'' (JStr url) kvs)))))
      | Some JNull \<Rightarrow> None
      | _ \<Rightarrow> Some (Inl type_error))"

text \<open>The card: stored, or fetched. \<open>None\<close> inside is a text that is not JSON.\<close>

definition load_a2a_agent_card ::
  "('h, 's, 'r, 'u) agent_env \<Rightarrow> a2a_agent \<Rightarrow> string \<Rightarrow> 'u \<Rightarrow> json option res \<times> 'u" where
  "load_a2a_agent_card env a key u =
     (case aa_card_cache a of
        Some j \<Rightarrow> (Inr (Some j), u)
      | None \<Rightarrow>
          let curl = trim_space (aa_card_url a);
              url = (if curl = [] then trim_right_slashes (aa_upstream_url a) @ ''/.well-known/agent-card.json'' else curl) in
          if \<not> ae_url_ok env url then (Inl (Err ErrOther ''bad url''), u)
          else (case ae_upstream env
                  \<lparr>uq_method = ''GET'', uq_url = url, uq_query = [], uq_headers = with_bearer key [(''Accept'', ''application/json'')], uq_body = []\<rparr> u of
              (Inl e, u') \<Rightarrow> (Inl e, u')
            | (Inr resp, u') \<Rightarrow>
                if ux_failed resp then (Inl (Err ErrOther ''read body''), u')
                else if ux_status resp \<ge> 400 then (Inl (Err ErrOther ''upstream card status''), u')
                else (Inr (ae_parse_json env (limit_body (ux_body resp))), u')))"

definition first_of :: "string \<Rightarrow> string" where
  "first_of s = trim_space (takeWhile (\<lambda>c. c \<noteq> CHR '','') s)"

definition public_gateway_base :: "agent_request \<Rightarrow> string" where
  "public_gateway_base rq =
     (let proto = trim_space (header_get (nq_request rq) ''X-Forwarded-Proto'');
          fwd = trim_space (header_get (nq_request rq) ''X-Forwarded-Host'')
      in (if proto \<noteq> [] then first_of proto else if nq_tls rq then ''https'' else ''http'') @ ''://'' @
         (if fwd \<noteq> [] then first_of fwd else nq_host rq))"

definition serve_card ::
  "('h, 's, 'r, 'u) agent_env \<Rightarrow> agent_request \<Rightarrow> gotime \<Rightarrow> snapshot \<Rightarrow> principal \<Rightarrow> call_context \<Rightarrow>
   ('h, 's, 'r, 'u) gw_state \<Rightarrow> (agent_reply \<times> ('h, 's, 'r, 'u) gw_state) option" where
  "serve_card env rq start sn p call s =
     (let alias = trim_space (nq_alias rq) in
      case lookup_a2a_agent (Some sn) (pr_organization_id p) alias of
        None \<Rightarrow> Some (refuse 404 ''unknown a2a alias'' ''invalid_request_error'' s)
      | Some a \<Rightarrow>
      (case resolve_key env (aa_api_key_env a) (aa_inline_api_key a) of
        Inl _ \<Rightarrow> Some (refuse 502 ''upstream credential unavailable'' ''server_error'' s)
      | Inr key \<Rightarrow>
          let c = \<lparr>nc_principal = p, nc_call = call, nc_alias = alias, nc_provider = ''a2a'', nc_modality = ModalityA2A,
                   nc_target = aa_id a, nc_start = start\<rparr>;
              m = [(''method'', GStr ''agent-card'')] in
          (case load_a2a_agent_card env a key (gw_world s) of
             (Inl _, u) \<Rightarrow> Some (refuse 502 ''failed to load agent card'' ''server_error'' (settle_agent env sn c ''error'' m (s\<lparr>gw_world := u\<rparr>)))
           | (Inr doc, u) \<Rightarrow>
               (case rewrite_a2a_agent_card doc (public_gateway_base rq @ ''/a2a/'' @ alias) of
                  None \<Rightarrow> None
                | Some (Inl _) \<Rightarrow> Some (refuse 502 ''invalid agent card'' ''server_error'' (s\<lparr>gw_world := u\<rparr>))
                | Some (Inr j) \<Rightarrow>
                    Some (CardReply (gm_put ''Content-Type'' ''application/json'' (apply_response_headers call [])) j,
                      settle_agent env sn c ''ok'' m (s\<lparr>gw_world := u\<rparr>))))))"

definition handle_a2a_agent_card ::
  "('h, 's, 'r, 'u) agent_env \<Rightarrow> snapshot option \<Rightarrow> agent_request \<Rightarrow> ('h, 's, 'r, 'u) gw_state \<Rightarrow>
   (agent_reply \<times> ('h, 's, 'r, 'u) gw_state) option" where
  "handle_a2a_agent_card env snap rq s =
     (case admit env snap (''/a2a/'' @ trim_space (nq_alias rq) @ ''/.well-known/agent-card.json'') ModalityA2A False (Inr []) rq s of
        Refused r s1 \<Rightarrow> Some (r, s1)
      | Admitted _ sn p call s1 \<Rightarrow> serve_card env rq (ae_now env (gw_world s)) sn p call s1)"

section \<open>What a forwarded call has passed\<close>

lemma set_headers_Nil [simp]: "set_headers [] h = h"
  by (simp add: set_headers_def)

lemma set_headers_Cons [simp]: "set_headers ((k, v) # kvs) h = set_headers kvs (gm_put (canonical_header_key k) v h)"
  by (simp add: set_headers_def)

lemma lower_upper_char: "lower_char (upper_char c) = lower_char c"
  by (auto simp: upper_char_def lower_char_def Let_def)

lemma canonical_from_lower: "to_lower (canonical_from up k) = to_lower k"
  by (induction up k rule: canonical_from.induct) (auto simp: to_lower_def lower_upper_char)

lemma canonical_header_key_lower [simp]: "to_lower (canonical_header_key k) = to_lower k"
  by (simp add: canonical_header_key_def canonical_from_lower)

text \<open>A header that is set under no spelling of its name is not set.\<close>

lemma set_headers_other:
  "\<forall>kv\<in>set kvs. to_lower (fst kv) \<noteq> to_lower name \<Longrightarrow> gm_get (set_headers kvs h) name = gm_get h name"
proof (induction kvs arbitrary: h)
  case (Cons kv kvs)
  obtain k v where kv: "kv = (k, v)" by (cases kv)
  have "canonical_header_key k \<noteq> name" using Cons.prems kv canonical_header_key_lower [of k] by auto
  then show ?case using Cons kv by simp
qed simp

lemma copy_client_headers_other:
  "\<forall>k\<in>set names. to_lower k \<noteq> to_lower name \<Longrightarrow> gm_get (copy_client_headers names r) name = None"
  unfolding copy_client_headers_def by (subst set_headers_other) auto

lemma copy_extra_headers_authorization:
  "gm_get (copy_extra_headers extra h) ''Authorization'' = gm_get h ''Authorization''"
proof -
  have "to_lower ''Authorization'' = ''authorization''" by code_simp
  then show ?thesis unfolding copy_extra_headers_def by (subst set_headers_other) auto
qed

text \<open>The client's key never reaches a back end.\<close>

lemma copied_headers_authorization [simp]:
  "gm_get (copy_mcp_request_headers r extra) ''Authorization'' = None"
  "gm_get (copy_a2a_request_headers r extra) ''Authorization'' = None"
proof -
  have "\<forall>k\<in>set [''Accept'', ''Content-Type'', ''Mcp-Session-Id'', ''Last-Event-Id'']. to_lower k \<noteq> to_lower ''Authorization''"
    by code_simp
  then show "gm_get (copy_mcp_request_headers r extra) ''Authorization'' = None"
    "gm_get (copy_a2a_request_headers r extra) ''Authorization'' = None"
    unfolding copy_mcp_request_headers_def copy_a2a_request_headers_def copy_extra_headers_authorization
    by (simp_all add: copy_client_headers_other)
qed

lemma with_bearer_authorization [simp]:
  "gm_get h ''Authorization'' = None \<Longrightarrow>
   gm_get (with_content_type b (with_bearer key h)) ''Authorization'' = (if key = [] then None else Some (''Bearer '' @ key))"
  by (simp add: with_content_type_def with_bearer_def)

text \<open>An admitted call: authenticated, decoded, let pass by the gate.\<close>

lemma admit_call_Admitted:
  "admit_call env snap decode path modality stream body0 rq s = Admitted x sn p call s1 \<longleftrightarrow>
     (\<exists>body rep model h c. snap = Some sn \<and> body0 = Inr body \<and>
        authenticate_gateway_request (ae_sha env) (ae_sig env) (ae_replay env) (ae_now env (gw_world s)) snap
          (nq_request rq) body (gw_replay s) = (Inr p, rep) \<and> decode body = Inr (model, x) \<and>
        gate_call (ae_gate env) snap (handler_call p rq model path modality stream body) (gw_hooks s) (gw_counters s) = (None, call, h, c) \<and>
        s1 = s\<lparr>gw_replay := rep, gw_hooks := h, gw_counters := c\<rparr>)"
  by (auto simp: admit_call_def turn_away_def split: option.splits sum.splits prod.splits)

lemma admit_call_Refused_state:
  "admit_call env snap decode path modality stream body0 rq s = Refused r s1 \<Longrightarrow> gw_world s1 = gw_world s \<and> gw_usage s1 = gw_usage s"
  by (auto simp: admit_call_def turn_away_def split: option.splits sum.splits prod.splits)

lemma admit_Admitted:
  "admit env snap path modality stream body0 rq s = Admitted () sn p call s1 \<longleftrightarrow>
     trim_space (nq_alias rq) \<noteq> [] \<and>
     admit_call env snap (\<lambda>_. Inr (trim_space (nq_alias rq), ())) path modality stream body0 rq s = Admitted () sn p call s1"
  by (auto simp: admit_def turn_away_def Let_def)

lemma admit_Refused_state:
  "admit env snap path modality stream body0 rq s = Refused r s1 \<Longrightarrow> gw_world s1 = gw_world s \<and> gw_usage s1 = gw_usage s"
  by (auto simp: admit_def turn_away_def Let_def admit_call_Refused_state split: if_splits)

lemma settle_agent_simps [simp]:
  "gw_world (settle_agent env sn c status m s) = gw_world s"
  "gw_replay (settle_agent env sn c status m s) = gw_replay s"
  "gw_counters (settle_agent env sn c status m s) = gw_counters s"
  by (simp_all add: settle_agent_def Let_def)

lemma settle_agent_usage [simp]:
  "gw_usage (settle_agent env sn c status m s) =
     gw_usage s @ [mark_byok (agent_event c status (since_ms (ae_now env) (nc_start c) (gw_world s)) m)]"
  by (simp add: settle_agent_def Let_def record_usage_def)

lemma proxy_effect:
  "gw_world (snd (proxy env sn c m req s)) = snd (ae_upstream env req (gw_world s))"
  "\<exists>status latency m'. gw_usage (snd (proxy env sn c m req s)) = gw_usage s @ [mark_byok (agent_event c status latency m')]"
  by (auto simp: proxy_def Let_def refuse_def split: prod.splits sum.splits)

text \<open>The request a back end gets.\<close>

definition mcp_request :: "agent_request \<Rightarrow> call_context \<Rightarrow> mcp_backend \<Rightarrow> string \<Rightarrow> upstream_request" where
  "mcp_request rq call b key =
     \<lparr>uq_method = hr_method (nq_request rq), uq_url = mb_base_url b, uq_query = nq_raw_query rq,
      uq_headers = with_content_type (cx_body call \<noteq> [])
        (with_bearer key (copy_mcp_request_headers (nq_request rq) (cx_request_headers call))),
      uq_body = cx_body call\<rparr>"

lemma forward_mcp_cases:
  obtains "gw_world (snd (forward_mcp env rq start sn p call s)) = gw_world s"
      "gw_usage (snd (forward_mcp env rq start sn p call s)) = gw_usage s"
      "\<And>b key. lookup_mcp_backend (Some sn) (pr_organization_id p) (trim_space (nq_alias rq)) = Some b \<Longrightarrow>
         mcp_method_allowed (mb_method_allowlist b) (fst (parse_mcp_jsonrpc_meta (ae_parse_json env) (cx_body call))) \<Longrightarrow>
         resolve_key env (mb_api_key_env b) (mb_inline_api_key b) = Inr key \<Longrightarrow> \<not> ae_url_ok env (mb_base_url b)"
  | b key status latency m c where
      "lookup_mcp_backend (Some sn) (pr_organization_id p) (trim_space (nq_alias rq)) = Some b"
      "mcp_method_allowed (mb_method_allowlist b) (fst (parse_mcp_jsonrpc_meta (ae_parse_json env) (cx_body call)))"
      "resolve_key env (mb_api_key_env b) (mb_inline_api_key b) = Inr key" "ae_url_ok env (mb_base_url b)"
      "gw_world (snd (forward_mcp env rq start sn p call s)) = snd (ae_upstream env (mcp_request rq call b key) (gw_world s))"
      "gw_usage (snd (forward_mcp env rq start sn p call s)) = gw_usage s @ [mark_byok (agent_event c status latency m)]"
      "nc_principal c = p" "nc_alias c = trim_space (nq_alias rq)" "nc_target c = mb_id b"
proof (cases "lookup_mcp_backend (Some sn) (pr_organization_id p) (trim_space (nq_alias rq))")
  case None
  then show ?thesis by (intro that(1)) (simp_all add: forward_mcp_def Let_def refuse_def)
next
  case (Some b)
  obtain meth tool where meta: "parse_mcp_jsonrpc_meta (ae_parse_json env) (cx_body call) = (meth, tool)" by fastforce
  consider (refused) "\<not> mcp_method_allowed (mb_method_allowlist b) meth"
    | (keyless) e where "mcp_method_allowed (mb_method_allowlist b) meth" "resolve_key env (mb_api_key_env b) (mb_inline_api_key b) = Inl e"
    | (bad_url) key where "mcp_method_allowed (mb_method_allowlist b) meth"
        "resolve_key env (mb_api_key_env b) (mb_inline_api_key b) = Inr key" "\<not> ae_url_ok env (mb_base_url b)"
    | (sent) key where "mcp_method_allowed (mb_method_allowlist b) meth"
        "resolve_key env (mb_api_key_env b) (mb_inline_api_key b) = Inr key" "ae_url_ok env (mb_base_url b)"
    by (cases "resolve_key env (mb_api_key_env b) (mb_inline_api_key b)") auto
  then show ?thesis
  proof cases
    case sent
    define c where "c = \<lparr>nc_principal = p, nc_call = call, nc_alias = trim_space (nq_alias rq), nc_provider = ''mcp'',
      nc_modality = ModalityMCP, nc_target = mb_id b, nc_start = start\<rparr>"
    have out: "forward_mcp env rq start sn p call s =
        proxy env sn c (metric ''method'' meth @ metric ''tool'' tool) (mcp_request rq call b key) s"
      using Some sent meta by (simp add: forward_mcp_def Let_def mcp_request_def c_def)
    obtain status latency m where "gw_usage (snd (forward_mcp env rq start sn p call s)) =
        gw_usage s @ [mark_byok (agent_event c status latency m)]"
      unfolding out using proxy_effect(2) by blast
    then show ?thesis using sent Some meta
      by (intro that(2) [of b key c status latency m]) (simp_all add: out proxy_effect c_def)
  qed (use Some meta in \<open>auto intro!: that(1) simp: forward_mcp_def Let_def refuse_def\<close>)
qed

section \<open>A concrete gateway\<close>

text \<open>A back end that allows one method; the world counts the requests it got; bodies are parsed by a table.\<close>

definition demo_agent_env :: "json \<Rightarrow> (unit, pg_counters \<times> redis_counters, replay_items, nat) agent_env" where
  "demo_agent_env doc = \<lparr>ae_gate = \<lparr>ge_policies = None, ge_hooks = Some new_hook_chain, ge_wasm = None, ge_counters = Some gateway_counters\<rparr>,
     ae_sha = demo_sha, ae_sig = demo_lib, ae_replay = Some mem_replay_use, ae_secrets = (\<lambda>_. Inr ''s''),
     ae_parse_json = (\<lambda>_. Some doc), ae_url_ok = (\<lambda>_. True),
     ae_upstream = (\<lambda>req n. (Inr \<lparr>ux_status = 200, ux_headers = [], ux_body = ''{}'', ux_failed = False\<rparr>, Suc n)),
     ae_now = int\<rparr>"

definition demo_agent_backend :: mcp_backend where
  "demo_agent_backend = \<lparr>mb_id = ''b'', mb_organization_id = ''o1'', mb_alias = ''t'', mb_name = ''T'', mb_base_url = ''u'',
     mb_api_key_env = ''K'', mb_method_allowlist = [''tools/list''], mb_enabled = True, mb_inline_api_key = []\<rparr>"

definition demo_agent :: "raw_json \<Rightarrow> a2a_agent" where
  "demo_agent cache = \<lparr>aa_id = ''a'', aa_organization_id = ''o1'', aa_alias = ''t'', aa_name = ''T'', aa_upstream_url = ''u'',
     aa_card_url = [], aa_card_cache = cache, aa_api_key_env = [], aa_auth_scheme = [], aa_enabled = True, aa_inline_api_key = []\<rparr>"

definition demo_agent_snapshot :: "raw_json \<Rightarrow> snapshot" where
  "demo_agent_snapshot cache = demo_auth_snapshot
     \<lparr>sn_mcp_backends := [(''b'', demo_agent_backend)], sn_mcp_routes := [(mcp_route_key ''o1'' ''t'', ''b'')],
      sn_a2a_agents := [(''a'', demo_agent cache)], sn_a2a_routes := [(a2a_route_key ''o1'' ''t'', ''a'')]\<rparr>"

definition demo_agent_request :: agent_request where
  "demo_agent_request = \<lparr>nq_alias = ''t'', nq_request = demo_request\<lparr>hr_method := ''POST''\<rparr>, nq_body = Inr ''x'', nq_raw_query = [],
     nq_host = ''h'', nq_tls = False\<rparr>"

text \<open>A method that is not allowed is refused, one that is allowed gets through.\<close>

lemma demo_mcp_outcomes:
  "fst (handle_mcp (demo_agent_env (JObj [(''method'', JStr ''tools/call'')])) (Some (demo_agent_snapshot None)) demo_agent_request demo_gw) =
     AgentError (json_error 403 ''mcp method not allowed: tools/call'' ''invalid_request_error'')"
  "gw_world (snd (handle_mcp (demo_agent_env (JObj [(''method'', JStr ''tools/list'')])) (Some (demo_agent_snapshot None)) demo_agent_request demo_gw)) = 1"
  by code_simp+

section \<open>Properties\<close>



text \<open>
  An envelope can hide its method from the allowlist. A JSON-RPC batch (an array), or an object
  that repeats the member in another case with a blank value, reads as a message without method,
  which every allowlist admits; the body, with whatever calls it holds, is forwarded as it is. So
  a method the operator did not list reaches the back end.
\<close>

theorem envelope_hides_method:
  assumes "admit env snap (''/mcp/'' @ trim_space (nq_alias rq)) ModalityMCP (wants_stream (nq_request rq))
        (if hr_method (nq_request rq) = ''POST'' then request_body rq else Inr []) rq s = Admitted () sn p call s1"
    and "ae_parse_json env (cx_body call) \<in> {Some (JArr msgs), Some (JObj [(''method'', JStr m), (''Method'', JStr [])])}"
    and "lookup_mcp_backend (Some sn) (pr_organization_id p) (trim_space (nq_alias rq)) = Some b"
    and "resolve_key env (mb_api_key_env b) (mb_inline_api_key b) = Inr key" and "ae_url_ok env (mb_base_url b)"
  shows "gw_world (snd (handle_mcp env snap rq s)) = snd (ae_upstream env (mcp_request rq call b key) (gw_world s1)) \<and>
    uq_body (mcp_request rq call b key) = cx_body call"
proof -
  have lower: "to_lower ''Method'' = ''method''" by code_simp
  have "parse_mcp_jsonrpc_meta (ae_parse_json env) (cx_body call) = ([], [])"
    using assms(2) by (auto simp: parse_mcp_jsonrpc_meta_def decode_rpc_def rpc_fields_def field_for_def field_def dec_struct_def lower)
  then have "mcp_method_allowed (mb_method_allowlist b) (fst (parse_mcp_jsonrpc_meta (ae_parse_json env) (cx_body call)))"
    by (simp add: mcp_method_allowed_def)
  then have "gw_world (snd (forward_mcp env rq (ae_now env (gw_world s)) sn p call s1)) =
      snd (ae_upstream env (mcp_request rq call b key) (gw_world s1))"
    using assms(3-5) by (cases rule: forward_mcp_cases [of env rq "ae_now env (gw_world s)" sn p call s1]) auto
  then show ?thesis using assms(1) by (simp add: handle_mcp_def mcp_request_def)
qed

theorem envelope_hides_method_witness:
  "gw_world (snd (handle_mcp (demo_agent_env (JArr [JObj [(''method'', JStr ''tools/call'')]])) (Some (demo_agent_snapshot None))
     demo_agent_request demo_gw)) = 1"
proof -
  let ?env = "demo_agent_env (JArr [JObj [(''method'', JStr ''tools/call'')]])"
  let ?adm = "admit ?env (Some (demo_agent_snapshot None)) (''/mcp/'' @ trim_space (nq_alias demo_agent_request)) ModalityMCP
    (wants_stream (nq_request demo_agent_request))
    (if hr_method (nq_request demo_agent_request) = ''POST'' then request_body demo_agent_request else Inr []) demo_agent_request demo_gw"
  have "case ?adm of Refused _ _ \<Rightarrow> False | Admitted _ sn p call s1 \<Rightarrow>
      lookup_mcp_backend (Some sn) (pr_organization_id p) (trim_space (nq_alias demo_agent_request)) = Some demo_agent_backend \<and> gw_world s1 = 0"
    by code_simp
  then obtain sn p call s1 where adm: "?adm = Admitted () sn p call s1" "gw_world s1 = 0"
    "lookup_mcp_backend (Some sn) (pr_organization_id p) (trim_space (nq_alias demo_agent_request)) = Some demo_agent_backend"
    by (auto split: admission.splits)
  have "ae_parse_json ?env (cx_body call) \<in> {Some (JArr [JObj [(''method'', JStr ''tools/call'')]]),
      Some (JObj [(''method'', JStr ''tools/call''), (''Method'', JStr [])])}"
    and "resolve_key ?env (mb_api_key_env demo_agent_backend) (mb_inline_api_key demo_agent_backend) = Inr ''s''"
    and "ae_url_ok ?env (mb_base_url demo_agent_backend)"
    by (simp_all add: demo_agent_env_def resolve_key_def demo_agent_backend_def)
  from envelope_hides_method [OF adm(1) this(1) adm(3) this(2,3)] adm(2) show ?thesis
    by (simp add: demo_agent_env_def)
qed

lemma rewrite_panics: "rewrite_a2a_agent_card doc url = None \<longleftrightarrow> doc = Some JNull"
  by (auto simp: rewrite_a2a_agent_card_def split: option.splits json.splits)

lemma rewrite_null: "rewrite_a2a_agent_card (Some JNull) url = None"
  by (simp add: rewrite_panics)

text \<open>
  The agent-card handler panics on a null card, and only then. It ends without an answer and
  without a usage event exactly when the request is admitted, the agent is there with its key, and
  its card, stored by the operator or fetched, is the JSON value null.
\<close>

theorem agent_card_panics_on_null:
  "handle_a2a_agent_card env snap rq s = None \<longleftrightarrow>
     (\<exists>sn p call s1 a key.
        admit env snap (''/a2a/'' @ trim_space (nq_alias rq) @ ''/.well-known/agent-card.json'') ModalityA2A False (Inr []) rq s =
          Admitted () sn p call s1 \<and>
        lookup_a2a_agent (Some sn) (pr_organization_id p) (trim_space (nq_alias rq)) = Some a \<and>
        resolve_key env (aa_api_key_env a) (aa_inline_api_key a) = Inr key \<and>
        fst (load_a2a_agent_card env a key (gw_world s1)) = Inr (Some JNull))"
  by (auto simp: handle_a2a_agent_card_def serve_card_def Let_def rewrite_panics rewrite_null
      split: admission.splits option.splits sum.splits prod.splits)

lemma demo_null_card:
  "handle_a2a_agent_card (demo_agent_env JNull) (Some (demo_agent_snapshot (Some JNull))) demo_agent_request demo_gw = None"
  "map_option fst (handle_a2a_agent_card (demo_agent_env JNull) (Some (demo_agent_snapshot (Some (JObj [(''url'', JStr ''u'')]))))
     demo_agent_request demo_gw) =
     Some (CardReply [(''Content-Type'', ''application/json'')] (JObj [(''url'', JStr ''http://h/a2a/t'')]))"
  by code_simp+

end
