(* ===== verification/Media_Gateway.thy ===== *)
theory Media_Gateway
  imports Agent_Gateway
begin

text \<open>
  Embeddings, images and audio at the gateway (\<^verbatim>\<open>src/internal/dataplane/embeddings.go\<close>,
  \<^verbatim>\<open>images.go\<close>, \<^verbatim>\<open>audio.go\<close>, \<^verbatim>\<open>backends.go\<close>, \<^verbatim>\<open>multipart_form.go\<close>) and the store for generated
  images (\<^verbatim>\<open>src/internal/adapters/objectstore/store.go\<close>). The vendors' transports, the S3
  client, base64 and MIME are arguments.
\<close>

section \<open>The environment\<close>

definition ModalityTTS :: string where "ModalityTTS = ''tts''"
definition ModalitySTT :: string where "ModalitySTT = ''stt''"
definition ModalityEmbedding :: string where "ModalityEmbedding = ''embedding''"
definition ModalityImage :: string where "ModalityImage = ''image''"

text \<open>A vendor's transport: provider, target model, extra headers, body; audio also a content type.\<close>

type_synonym 'u transport =
  "provider \<Rightarrow> string \<Rightarrow> (string, string) gomap \<Rightarrow> string \<Rightarrow> string \<Rightarrow> 'u \<Rightarrow> (call_error + upstream_response) \<times> 'u"

record 'u open_ai_transport =
  ot_speech :: "'u transport"
  ot_transcriptions :: "'u transport"
  ot_embeddings :: "'u transport"
  ot_images :: "'u transport"

record 'u audio_ports =
  av_speech :: "'u transport"
  av_transcriptions :: "'u transport"

text \<open>What an adapter exposes: an audio port of its own, the OpenAI transport, or neither.\<close>

record 'u media_adapter =
  ma_audio :: "'u audio_ports option"
  ma_openai :: "'u open_ai_transport option"

record s3_client =
  s3_endpoint :: string
  s3_access_key :: string
  s3_secret_key :: string
  s3_region :: string
  s3_secure :: bool
  s3_path_style :: bool
  s3_bucket :: string

record ('h, 's, 'r, 'u) media_env =
  me_base :: "('h, 's, 'r, 'u) agent_env"
  me_specs :: registry
  me_entries :: entries
  me_opener :: "(credential \<Rightarrow> string res) option"
  me_secrets :: "(string \<Rightarrow> string res) option"
  me_adapters :: "(string \<Rightarrow> 'u media_adapter option) option"
  me_overflow :: "rat \<Rightarrow> int"
  me_draw :: "int \<Rightarrow> int"
  me_wait :: "duration \<Rightarrow> 'u \<Rightarrow> bool \<times> 'u"
  me_show_json :: "json \<Rightarrow> string"
  me_b64_encode :: "string \<Rightarrow> string"
  me_b64_decode :: "string \<Rightarrow> string option"
  me_media_type :: "string \<Rightarrow> (string, string) gomap res"
  me_parts :: "string \<Rightarrow> string \<Rightarrow> (string \<times> string res) list \<times> err option"
  me_minio :: "s3_client \<Rightarrow> err option"
  me_put :: "s3_client \<Rightarrow> string \<Rightarrow> string \<Rightarrow> string \<Rightarrow> (string, string) gomap \<Rightarrow> 'u \<Rightarrow> unit res \<times> 'u"
  me_presign :: "s3_client \<Rightarrow> string \<Rightarrow> duration \<Rightarrow> string res"
  me_asset_id :: "'u \<Rightarrow> string res \<times> 'u"

section \<open>Back ends\<close>

definition adapter_for :: "('h, 's, 'r, 'u) media_env \<Rightarrow> string \<Rightarrow> 'u media_adapter option" where
  "adapter_for env typ = (case me_adapters env of None \<Rightarrow> None | Some get \<Rightarrow> get typ)"

definition openai_transport :: "('h, 's, 'r, 'u) media_env \<Rightarrow> string \<Rightarrow> 'u open_ai_transport option" where
  "openai_transport env typ = Option.bind (adapter_for env typ) ma_openai"

definition audio_backend_for :: "('h, 's, 'r, 'u) media_env \<Rightarrow> string \<Rightarrow> 'u audio_ports option" where
  "audio_backend_for env typ =
     (case adapter_for env typ of None \<Rightarrow> None
      | Some a \<Rightarrow> (case ma_audio a of Some b \<Rightarrow> Some b
          | None \<Rightarrow> map_option (\<lambda>t. \<lparr>av_speech = ot_speech t, av_transcriptions = ot_transcriptions t\<rparr>) (openai_transport env typ)))"

definition missing_backend :: "string \<Rightarrow> string \<Rightarrow> err" where
  "missing_backend what typ = Err ErrOther (what @ '' backend not registered for type '' @ [CHR 0x22] @ typ @ [CHR 0x22])"

definition images_backend :: "('h, 's, 'r, 'u) media_env \<Rightarrow> string \<Rightarrow> 'u transport res" where
  "images_backend env typ =
     (case openai_transport env typ of None \<Rightarrow> Inl (missing_backend ''images'' typ) | Some t \<Rightarrow> Inr (ot_images t))"

definition embeddings_backend :: "('h, 's, 'r, 'u) media_env \<Rightarrow> string \<Rightarrow> 'u transport res" where
  "embeddings_backend env typ =
     (case openai_transport env typ of None \<Rightarrow> Inl (missing_backend ''embeddings'' typ) | Some t \<Rightarrow> Inr (ot_embeddings t))"

definition audio_backend :: "('h, 's, 'r, 'u) media_env \<Rightarrow> string \<Rightarrow> 'u audio_ports res" where
  "audio_backend env typ =
     (case audio_backend_for env typ of None \<Rightarrow> Inl (missing_backend ''audio'' typ) | Some b \<Rightarrow> Inr b)"

text \<open>The capabilities a provider has after its type's defaults.\<close>

definition caps_of :: "('h, 's, 'r, 'u) media_env \<Rightarrow> provider \<Rightarrow> capabilities" where
  "caps_of env p = normalize_capabilities (me_specs env) (pv_type p) (pv_capabilities p)"

definition embeddings_provider_usable :: "('h, 's, 'r, 'u) media_env \<Rightarrow> provider \<Rightarrow> bool" where
  "embeddings_provider_usable env p \<longleftrightarrow> cap_embedding (caps_of env p) \<and> openai_transport env (pv_type p) \<noteq> None"

definition images_provider_usable :: "('h, 's, 'r, 'u) media_env \<Rightarrow> provider \<Rightarrow> bool" where
  "images_provider_usable env p \<longleftrightarrow> cap_image (caps_of env p) \<and> openai_transport env (pv_type p) \<noteq> None"

definition audio_provider_usable :: "('h, 's, 'r, 'u) media_env \<Rightarrow> bool \<Rightarrow> bool \<Rightarrow> provider \<Rightarrow> bool" where
  "audio_provider_usable env need_tts need_stt p \<longleftrightarrow>
     (need_tts \<longrightarrow> cap_tts (caps_of env p)) \<and> (need_stt \<longrightarrow> cap_stt (caps_of env p)) \<and>
     audio_backend_for env (pv_type p) \<noteq> None"

section \<open>Models by name\<close>

definition clean_name :: "string \<Rightarrow> string" where "clean_name m = to_lower (trim_space m)"

definition model_looks_like_embedding :: "string \<Rightarrow> string \<Rightarrow> bool" where
  "model_looks_like_embedding requested target \<longleftrightarrow>
     list_ex (\<lambda>m. contains_text (clean_name m) ''embedding'' \<or> contains_text (clean_name m) ''embed'') [requested, target]"

definition catalog_image :: "('h, 's, 'r, 'u) media_env \<Rightarrow> string \<Rightarrow> bool" where
  "catalog_image env m \<longleftrightarrow>
     (case mc_lookup (me_specs env) (me_entries env) ''openai'' m of None \<Rightarrow> False | Some e \<Rightarrow> is_image e)"

definition model_looks_like_image :: "('h, 's, 'r, 'u) media_env \<Rightarrow> string \<Rightarrow> string \<Rightarrow> bool" where
  "model_looks_like_image env requested target \<longleftrightarrow>
     list_ex (\<lambda>m. list_ex (contains_text (clean_name m)) [''dall-e'', ''gpt-image'', ''imagen'', ''image'']) [requested, target] \<or>
     catalog_image env target \<or> catalog_image env requested"

definition model_looks_like_tts :: "string \<Rightarrow> string \<Rightarrow> bool" where
  "model_looks_like_tts requested target \<longleftrightarrow>
     list_ex (\<lambda>m. contains_text (clean_name m) ''tts'' \<or>
        contains_text (clean_name m) ''eleven_'' \<and> \<not> contains_text (clean_name m) ''scribe'') [requested, target]"

definition model_looks_like_stt :: "string \<Rightarrow> string \<Rightarrow> bool" where
  "model_looks_like_stt requested target \<longleftrightarrow>
     list_ex (\<lambda>m. list_ex (contains_text (clean_name m)) [''whisper'', ''transcribe'', ''stt'', ''scribe'']) [requested, target]"

section \<open>Reading bodies\<close>

record media_body =
  mq_model :: string
  mq_input :: json
  mq_text :: string
  mq_format :: string

definition zero_media_body :: media_body where
  "zero_media_body = \<lparr>mq_model = [], mq_input = JNull, mq_text = [], mq_format = []\<rparr>"

definition decode_model ::
  "('h, 's, 'r, 'u) media_env \<Rightarrow> media_body fields \<Rightarrow> string \<Rightarrow> media_body res" where
  "decode_model env fs body =
     (let bad = Inl (Err ErrOther ''model is required'') in
      case ae_parse_json (me_base env) body of None \<Rightarrow> bad
      | Some j \<Rightarrow>
          (case dec_struct (field ''model'' dec_string mq_model (\<lambda>x r. r\<lparr>mq_model := x\<rparr>) # fs) j zero_media_body of
             Inl _ \<Rightarrow> bad | Inr b \<Rightarrow> if mq_model b = [] then bad else Inr b))"

definition decode_embeddings :: "('h, 's, 'r, 'u) media_env \<Rightarrow> string \<Rightarrow> (string \<times> media_body) res" where
  "decode_embeddings env body =
     bind_res (decode_model env [field ''input'' dec_any mq_input (\<lambda>x r. r\<lparr>mq_input := x\<rparr>)] body) (\<lambda>b.
       if mq_input b = JNull then Inl (Err ErrOther ''input is required'') else Inr (mq_model b, b))"

definition decode_images :: "('h, 's, 'r, 'u) media_env \<Rightarrow> string \<Rightarrow> (string \<times> media_body) res" where
  "decode_images env body =
     bind_res (decode_model env [field ''response_format'' dec_string mq_format (\<lambda>x r. r\<lparr>mq_format := x\<rparr>)] body) (\<lambda>b. Inr (mq_model b, b))"

definition decode_speech :: "('h, 's, 'r, 'u) media_env \<Rightarrow> string \<Rightarrow> (string \<times> media_body) res" where
  "decode_speech env body =
     bind_res (decode_model env [field ''input'' dec_string mq_text (\<lambda>x r. r\<lparr>mq_text := x\<rparr>)] body) (\<lambda>b. Inr (mq_model b, b))"

text \<open>
  The parts of a form, by name with what reading them gives, and the error the reader ends with;
  the first part of the name counts, an error before it does too.
\<close>

fun first_part :: "string \<Rightarrow> (string \<times> string res) list \<Rightarrow> err option \<Rightarrow> string res" where
  "first_part name [] e = (case e of None \<Rightarrow> Inr [] | Some e \<Rightarrow> Inl e)"
| "first_part name ((n, v) # parts) e = (if n = name then v else first_part name parts e)"

definition multipart_form_value :: "('h, 's, 'r, 'u) media_env \<Rightarrow> string \<Rightarrow> string \<Rightarrow> string \<Rightarrow> string res" where
  "multipart_form_value env content_type body name =
     bind_res (me_media_type env content_type) (\<lambda>params.
       case gm_get params ''boundary'' of
         None \<Rightarrow> Inl (Err ErrOther ''multipart boundary missing'')
       | Some b \<Rightarrow> if b = [] then Inl (Err ErrOther ''multipart boundary missing'')
           else (case me_parts env b body of (parts, e) \<Rightarrow> first_part name parts e))"

definition decode_transcription :: "('h, 's, 'r, 'u) media_env \<Rightarrow> string \<Rightarrow> string \<Rightarrow> (string \<times> media_body) res" where
  "decode_transcription env content_type body =
     (let bad = Inl (Err ErrOther ''model is required (multipart)'') in
      case multipart_form_value env content_type body ''model'' of
        Inl _ \<Rightarrow> bad | Inr m \<Rightarrow> if m = [] then bad else Inr (m, zero_media_body\<lparr>mq_model := m\<rparr>))"

text \<open>Runes of a decoded JSON string, which is valid UTF-8: the bytes that continue none.\<close>

definition rune_count :: "string \<Rightarrow> nat" where
  "rune_count s = length (filter (\<lambda>c. \<not> (128 \<le> (of_char c :: nat) \<and> (of_char c :: nat) < 192)) s)"

text \<open>Token counts of an answer; anything of another type makes both zero.\<close>

definition usage_fields :: "token_usage fields" where
  "usage_fields = [field ''prompt_tokens'' dec_int us_prompt (\<lambda>x r. r\<lparr>us_prompt := x\<rparr>),
     field ''completion_tokens'' dec_int us_completion (\<lambda>x r. r\<lparr>us_completion := x\<rparr>)]"

definition parse_usage_tokens :: "(string \<Rightarrow> json option) \<Rightarrow> string \<Rightarrow> int \<times> int" where
  "parse_usage_tokens parse body =
     (case parse body of None \<Rightarrow> (0, 0)
      | Some j \<Rightarrow>
          (case dec_struct [field ''usage'' (dec_struct usage_fields) id (\<lambda>x _. x)] j \<lparr>us_prompt = 0, us_completion = 0\<rparr> of
             Inl _ \<Rightarrow> (0, 0) | Inr u \<Rightarrow> (us_prompt u, us_completion u)))"

section \<open>Recording\<close>

text \<open>What is known of a call when it is recorded.\<close>

record media_call =
  mk_principal :: principal
  mk_call :: call_context
  mk_model :: string
  mk_modality :: string
  mk_provider_type :: string
  mk_target :: string
  mk_credential_id :: string
  mk_start :: gotime

definition media_event :: "media_call \<Rightarrow> string \<Rightarrow> int \<Rightarrow> int \<times> int \<Rightarrow> (string, goval) gomap \<Rightarrow> usage_event" where
  "media_event c status latency tokens metrics =
     (usage_event_base (mk_principal c) (mk_credential_id c))\<lparr>ue_model := mk_model c, ue_provider_type := mk_provider_type c,
        ue_target_model := mk_target c, ue_status := status, ue_latency_ms := latency,
        ue_prompt_tokens := fst tokens, ue_completion_tokens := snd tokens, ue_modality := mk_modality c,
        ue_metrics := metrics, ue_tags := clone_tags (cx_tags (mk_call c))\<rparr>"

definition settle_media ::
  "('h, 's, 'r, 'u) media_env \<Rightarrow> snapshot \<Rightarrow> media_call \<Rightarrow> string \<Rightarrow> int \<times> int \<Rightarrow> (string, goval) gomap \<Rightarrow>
   ('h, 's, 'r, 'u) gw_state \<Rightarrow> ('h, 's, 'r, 'u) gw_state" where
  "settle_media env sn c status tokens metrics s =
     (let latency = since_ms (ae_now (me_base env)) (mk_start c) (gw_world s);
          h = run_after_call_all (ae_gate (me_base env)) (Some sn) (mk_call c)
                \<lparr>ai_status = status, ai_latency_ms = latency, ai_provider_type = mk_provider_type c,
                 ai_target_model = mk_target c, ai_prompt_tokens = 0, ai_completion_tokens = 0\<rparr> (gw_hooks s)
      in s\<lparr>gw_usage := record_usage (media_event c status latency tokens metrics) (gw_usage s), gw_hooks := h\<rparr>)"

definition charge_media :: "('h, 's, 'r, 'u) media_env \<Rightarrow> snapshot \<Rightarrow> api_key \<Rightarrow> int \<Rightarrow> ('h, 's, 'r, 'u) gw_state \<Rightarrow> ('h, 's, 'r, 'u) gw_state" where
  "charge_media env sn key n s =
     s\<lparr>gw_counters := incr_tokens (ge_counters (ae_gate (me_base env))) (Some sn) key n (gw_counters s)\<rparr>"

definition media_cel_request :: "string \<Rightarrow> call_context \<Rightarrow> cel_request" where
  "media_cel_request model call =
     \<lparr>rq_model = model, rq_path = cx_path call, rq_stream = False, rq_tags = cx_tags call, rq_headers = cx_headers call\<rparr>"

definition bind_media ::
  "('h, 's, 'r, 'u) media_env \<Rightarrow> snapshot \<Rightarrow> provider \<Rightarrow> api_key \<Rightarrow> string \<Rightarrow> call_context \<Rightarrow> (provider \<times> string) res" where
  "bind_media env sn prov key model call =
     bind_provider_secret (me_specs env) (ge_policies (ae_gate (me_base env))) (me_opener env) (Some sn) prov key
       (media_cel_request model call)"

section \<open>Embeddings and images\<close>

text \<open>
  The two handlers differ in their checks, their back end, and what they do with a good answer:
  \<open>good\<close> gives the answer, the tokens to charge, the tokens and metrics to record.
\<close>

record ('h, 's, 'r, 'u) single_kind =
  sk_modality :: string
  sk_usable :: "provider \<Rightarrow> bool"
  sk_unusable :: string
  sk_looks_right :: "string \<Rightarrow> string \<Rightarrow> bool"
  sk_looks_wrong :: string
  sk_backend :: "string \<Rightarrow> 'u transport res"
  sk_good :: "snapshot \<Rightarrow> api_key \<Rightarrow> call_context \<Rightarrow> media_body \<Rightarrow> upstream_response \<Rightarrow> 'u \<Rightarrow>
     (agent_reply \<times> int \<times> (int \<times> int) \<times> (string, goval) gomap) \<times> 'u"

definition forward_single ::
  "('h, 's, 'r, 'u) media_env \<Rightarrow> ('h, 's, 'r, 'u) single_kind \<Rightarrow> gotime \<Rightarrow> media_body \<Rightarrow> snapshot \<Rightarrow> principal \<Rightarrow>
   call_context \<Rightarrow> ('h, 's, 'r, 'u) gw_state \<Rightarrow> agent_reply \<times> ('h, 's, 'r, 'u) gw_state" where
  "forward_single env kind start b sn p call s =
     (let key = policy_key p; model = mq_model b in
      case lookup_route (Some sn) (ak_organization_id key) model of
        None \<Rightarrow> refuse 400 ''no route for model'' ''invalid_request_error'' s
      | Some (r, prov) \<Rightarrow>
      if \<not> sk_usable kind prov then refuse 400 (sk_unusable kind) ''invalid_request_error'' s
      else if \<not> sk_looks_right kind model (ro_target_model r) then refuse 400 (sk_looks_wrong kind) ''invalid_request_error'' s
      else (case bind_media env sn prov key model call of
        Inl e \<Rightarrow> refuse 502 (err_msg e) ''server_error'' s
      | Inr (bound, cred) \<Rightarrow>
      (case sk_backend kind (pv_type bound) of
        Inl e \<Rightarrow> refuse 502 (err_msg e) ''server_error'' s
      | Inr send \<Rightarrow>
          let c = \<lparr>mk_principal = p, mk_call = call, mk_model = model, mk_modality = sk_modality kind, mk_provider_type = pv_type bound,
                   mk_target = ro_target_model r, mk_credential_id = cred, mk_start = start\<rparr> in
          (case send bound (ro_target_model r) (cx_request_headers call) [] (cx_body call) (gw_world s) of
             (Inl e, u) \<Rightarrow> refuse 502 (error_text e) ''server_error'' (settle_media env sn c ''error'' (0, 0) [] (s\<lparr>gw_world := u\<rparr>))
           | (Inr resp, u) \<Rightarrow>
               if ux_status resp \<ge> 400 then
                 (copy_response (apply_response_headers call []) resp,
                  settle_media env sn c ''error'' (0, 0) [] (s\<lparr>gw_world := u\<rparr>))
               else if ux_failed resp then
                 refuse 502 ''failed to read upstream'' ''server_error'' (settle_media env sn c ''error'' (0, 0) [] (s\<lparr>gw_world := u\<rparr>))
               else (case sk_good kind sn key call b resp u of
                   ((reply, tokens, recorded, metrics), u') \<Rightarrow>
                     (reply, settle_media env sn c ''ok'' recorded metrics (charge_media env sn key tokens (s\<lparr>gw_world := u'\<rparr>))))))))"

text \<open>The charge is made where \<^verbatim>\<open>incrTokens\<close> is called; a charge of zero is none.\<close>

definition embeddings_kind :: "('h, 's, 'r, 'u) media_env \<Rightarrow> ('h, 's, 'r, 'u) single_kind" where
  "embeddings_kind env =
     \<lparr>sk_modality = ModalityEmbedding, sk_usable = embeddings_provider_usable env,
      sk_unusable = ''embeddings require a provider with embedding capability and an embeddings backend'',
      sk_looks_right = model_looks_like_embedding,
      sk_looks_wrong = ''model is not an embedding model (use text-embedding-* or a *embed* route)'',
      sk_backend = embeddings_backend env,
      sk_good = (\<lambda>sn key call b resp u.
        let t = parse_usage_tokens (ae_parse_json (me_base env)) (ux_body resp)
        in ((copy_response (apply_response_headers call []) resp, fst t + snd t, t, []), u))\<rparr>"

definition handle_embeddings ::
  "('h, 's, 'r, 'u) media_env \<Rightarrow> snapshot option \<Rightarrow> agent_request \<Rightarrow> ('h, 's, 'r, 'u) gw_state \<Rightarrow>
   agent_reply \<times> ('h, 's, 'r, 'u) gw_state" where
  "handle_embeddings env snap rq s =
     (case admit_call (me_base env) snap (decode_embeddings env) ''/v1/embeddings'' ModalityEmbedding False (request_body rq) rq s of
        Refused r s1 \<Rightarrow> (r, s1)
      | Admitted b sn p call s1 \<Rightarrow>
          forward_single env (embeddings_kind env) (ae_now (me_base env) (gw_world s)) b sn p call s1)"

subsection \<open>Keeping generated images\<close>

text \<open>\<^verbatim>\<open>objectstore.New\<close>: nil without an address or a bucket.\<close>

definition new_object_store ::
  "('h, 's, 'r, 'u) media_env \<Rightarrow> object_store_config \<Rightarrow> string \<Rightarrow> string \<Rightarrow> s3_client option res" where
  "new_object_store env cfg access secret =
     (let endpoint = trim_space (os_endpoint cfg); bucket = trim_space (os_bucket cfg); region = trim_space (os_region cfg) in
      if endpoint = [] \<or> bucket = [] then Inr None
      else
        let c = \<lparr>s3_endpoint = trim_prefix (trim_prefix endpoint ''https://'') ''http://'', s3_access_key = access,
                 s3_secret_key = secret, s3_region = (if region = [] then ''us-east-1'' else region),
                 s3_secure = os_use_ssl cfg, s3_path_style = os_path_style cfg, s3_bucket = bucket\<rparr>
        in (case me_minio env c of Some e \<Rightarrow> Inl e | None \<Rightarrow> Inr (Some c)))"

definition object_name :: "string \<Rightarrow> string" where "object_name key = trim_prefix (trim_space key) ''/''"

definition object_put ::
  "('h, 's, 'r, 'u) media_env \<Rightarrow> s3_client option \<Rightarrow> string \<Rightarrow> string \<Rightarrow> string \<Rightarrow> (string, string) gomap \<Rightarrow> 'u \<Rightarrow> unit res \<times> 'u" where
  "object_put env store key body content_type meta u =
     (case store of None \<Rightarrow> (Inl (Err ErrOther ''objectstore: not configured''), u)
      | Some c \<Rightarrow>
          if object_name key = [] then (Inl (Err ErrOther ''objectstore: empty key''), u)
          else me_put env c (object_name key) body (if content_type = [] then ''application/octet-stream'' else content_type) meta u)"

definition object_presign ::
  "('h, 's, 'r, 'u) media_env \<Rightarrow> s3_client option \<Rightarrow> string \<Rightarrow> duration \<Rightarrow> string res" where
  "object_presign env store key ttl =
     (case store of None \<Rightarrow> Inl (Err ErrOther ''objectstore: not configured'')
      | Some c \<Rightarrow>
          if object_name key = [] then Inl (Err ErrOther ''objectstore: empty key'')
          else me_presign env c (object_name key) (if ttl \<le> 0 then 3600000000000 else ttl))"

definition asset_key :: "string \<Rightarrow> string \<Rightarrow> string \<Rightarrow> string \<Rightarrow> string" where
  "asset_key org proj asset ext0 =
     (let ext = trim_prefix (trim_space ext0) ''.'' in
      trim_space org @ ''/'' @ (if trim_space proj = [] then ''_org'' else trim_space proj) @ ''/'' @ trim_space asset @ ''.'' @
        (if ext = [] then ''bin'' else ext))"

definition sniff_image :: "string \<Rightarrow> string \<times> string" where
  "sniff_image raw =
     (if has_prefix raw [CHR 0x89, CHR ''P'', CHR ''N'', CHR ''G''] then (''image/png'', ''png'')
      else if has_prefix raw [CHR 0xFF, CHR 0xD8, CHR 0xFF] then (''image/jpeg'', ''jpg'')
      else if has_prefix raw ''RIFF'' \<and> length raw > 11 \<and> take 4 (drop 8 raw) = ''WEBP'' then (''image/webp'', ''webp'')
      else if has_prefix raw ''GIF8'' then (''image/gif'', ''gif'')
      else (''application/octet-stream'', ''bin''))"

text \<open>The keys of the configured store: from a credential of the snapshot, or from the environment.\<close>

definition store_key_fields :: "(string \<times> string) fields" where
  "store_key_fields = [field ''access_key'' dec_string fst (\<lambda>x r. (x, snd r)), field ''secret_key'' dec_string snd (\<lambda>x r. (fst r, x))]"

definition resolve_object_store_keys ::
  "('h, 's, 'r, 'u) media_env \<Rightarrow> snapshot \<Rightarrow> object_store_config \<Rightarrow> (string \<times> string) res" where
  "resolve_object_store_keys env sn cfg =
     (if os_credential_id cfg \<noteq> [] then
        (case gm_get (sn_credentials sn) (os_credential_id cfg) of
           None \<Rightarrow> Inl (Err ErrOther ''object store credential not found'')
         | Some c \<Rightarrow>
             (case me_opener env of None \<Rightarrow> Inl (Err ErrOther ''credential resolver not configured'')
              | Some openc \<Rightarrow> bind_res (openc c) (\<lambda>plain.
                  let bad = Inl (Err ErrOther ''object store credential must be JSON'') in
                  case ae_parse_json (me_base env) plain of None \<Rightarrow> bad
                  | Some j \<Rightarrow>
                      (case dec_struct store_key_fields j ([], []) of
                         Inl _ \<Rightarrow> bad | Inr (a, k) \<Rightarrow> if a \<noteq> [] \<and> k \<noteq> [] then Inr (a, k) else bad))))
      else if os_access_key_env cfg = [] \<or> os_secret_key_env cfg = []
        then Inl (Err ErrOther ''object store access_key_env and secret_key_env required'')
      else (case me_secrets env of None \<Rightarrow> Inl (Err ErrOther ''secrets resolver not configured'')
        | Some get \<Rightarrow> bind_res (get (os_access_key_env cfg)) (\<lambda>a. bind_res (get (os_secret_key_env cfg)) (\<lambda>k. Inr (a, k)))))"

definition open_object_store ::
  "('h, 's, 'r, 'u) media_env \<Rightarrow> snapshot \<Rightarrow> object_store_config \<Rightarrow> (s3_client option \<times> duration) res" where
  "open_object_store env sn cfg =
     bind_res (resolve_object_store_keys env sn cfg) (\<lambda>(a, k).
       bind_res (new_object_store env cfg a k) (\<lambda>store.
         let ttl = i64 (os_presign_ttl_seconds cfg * 1000000000) in Inr (store, if ttl \<le> 0 then 3600000000000 else ttl)))"

record image_item =
  it_url :: string
  it_b64 :: string
  it_revised :: string

record image_answer =
  ia_created :: int
  ia_data :: "image_item list"

definition item_fields :: "image_item fields" where
  "item_fields = [field ''url'' dec_string it_url (\<lambda>x r. r\<lparr>it_url := x\<rparr>),
     field ''b64_json'' dec_string it_b64 (\<lambda>x r. r\<lparr>it_b64 := x\<rparr>),
     field ''revised_prompt'' dec_string it_revised (\<lambda>x r. r\<lparr>it_revised := x\<rparr>)]"

definition answer_fields :: "image_answer fields" where
  "answer_fields = [field ''created'' dec_int ia_created (\<lambda>x r. r\<lparr>ia_created := x\<rparr>),
     field ''data'' (dec_slice \<lparr>it_url = [], it_b64 = [], it_revised = []\<rparr> (dec_struct item_fields)) ia_data (\<lambda>x r. r\<lparr>ia_data := x\<rparr>)]"

definition count_images_in_response :: "(string \<Rightarrow> json option) \<Rightarrow> string \<Rightarrow> nat" where
  "count_images_in_response parse body =
     (case parse body of None \<Rightarrow> 0
      | Some j \<Rightarrow> (case dec_struct [field ''data'' (dec_slice JNull dec_any) id (\<lambda>x _. x)] j [] of Inl _ \<Rightarrow> 0 | Inr xs \<Rightarrow> length xs))"

definition first_header :: "upstream_response \<Rightarrow> string \<Rightarrow> string" where
  "first_header resp name = (case gm_get (ux_headers resp) name of Some (v # _) \<Rightarrow> v | _ \<Rightarrow> [])"

text \<open>The bytes of an image with their content type and extension: decoded, or fetched, 32 MiB at most.\<close>

definition image_bytes_from_item ::
  "('h, 's, 'r, 'u) media_env \<Rightarrow> image_item \<Rightarrow> 'u \<Rightarrow> (string \<times> string \<times> string) res \<times> 'u" where
  "image_bytes_from_item env it u =
     (if it_b64 it \<noteq> [] then
        (case me_b64_decode env (it_b64 it) of
           None \<Rightarrow> (Inl (Err ErrOther ''decode b64_json''), u)
         | Some raw \<Rightarrow> (Inr (raw, fst (sniff_image raw), snd (sniff_image raw)), u))
      else if it_url it = [] then (Inl (Err ErrOther ''image item has neither url nor b64_json''), u)
      else if \<not> ae_url_ok (me_base env) (it_url it) then (Inl (Err ErrOther ''bad url''), u)
      else (case ae_upstream (me_base env)
              \<lparr>uq_method = ''GET'', uq_url = it_url it, uq_query = [], uq_headers = [], uq_body = []\<rparr> u of
          (Inl e, u') \<Rightarrow> (Inl e, u')
        | (Inr resp, u') \<Rightarrow>
            if ux_status resp \<ge> 400 then (Inl (Err ErrOther ''fetch image url: status''), u')
            else if ux_failed resp then (Inl (Err ErrOther ''read image''), u')
            else
              let raw = take (32 * 1024 * 1024) (ux_body resp); ct = first_header resp ''Content-Type'' in
              (Inr (raw, (if ct = [] then fst (sniff_image raw) else ct), snd (sniff_image raw)), u')))"

definition persist_item ::
  "('h, 's, 'r, 'u) media_env \<Rightarrow> s3_client option \<Rightarrow> duration \<Rightarrow> api_key \<Rightarrow> bool \<Rightarrow> image_item \<Rightarrow> 'u \<Rightarrow> json res \<times> 'u" where
  "persist_item env store ttl key want_b64 it u0 =
     (case image_bytes_from_item env it u0 of (Inl e, u) \<Rightarrow> (Inl e, u) | (Inr (raw, ct, ext), u) \<Rightarrow>
     (case me_asset_id env u of (Inl e, u) \<Rightarrow> (Inl e, u) | (Inr asset, u) \<Rightarrow>
        let obj = asset_key (ak_organization_id key) (ak_project_id key) asset ext;
            revised = opt_member (it_revised it \<noteq> []) ''revised_prompt'' (JStr (it_revised it)) in
        (case object_put env store obj raw ct [(''org_id'', ak_organization_id key), (''project_id'', ak_project_id key)] u of (Inl e, u) \<Rightarrow> (Inl e, u) | (Inr _, u) \<Rightarrow>
          if want_b64 then (Inr (JObj (revised @ [(''b64_json'', JStr (me_b64_encode env raw))])), u)
          else (case object_presign env store obj ttl of Inl e \<Rightarrow> (Inl e, u)
            | Inr url \<Rightarrow> (Inr (JObj (revised @ [(''url'', JStr url)])), u)))))"

fun persist_items ::
  "('h, 's, 'r, 'u) media_env \<Rightarrow> s3_client option \<Rightarrow> duration \<Rightarrow> api_key \<Rightarrow> bool \<Rightarrow> image_item list \<Rightarrow> 'u \<Rightarrow> json list res \<times> 'u" where
  "persist_items env store ttl key want_b64 [] u = (Inr [], u)"
| "persist_items env store ttl key want_b64 (it # its) u =
     (case persist_item env store ttl key want_b64 it u of (Inl e, u') \<Rightarrow> (Inl e, u') | (Inr j, u') \<Rightarrow>
     (case persist_items env store ttl key want_b64 its u' of (Inl e, u'') \<Rightarrow> (Inl e, u'') | (Inr js, u'') \<Rightarrow> (Inr (j # js), u'')))"

definition rewrite_persisted_images ::
  "('h, 's, 'r, 'u) media_env \<Rightarrow> s3_client option \<Rightarrow> duration \<Rightarrow> api_key \<Rightarrow> string \<Rightarrow> bool \<Rightarrow> 'u \<Rightarrow> string option res \<times> 'u" where
  "rewrite_persisted_images env store ttl key body want_b64 u =
     (let bad = (Inl (Err ErrOther ''parse images response''), u) in
      case ae_parse_json (me_base env) body of None \<Rightarrow> bad
      | Some j \<Rightarrow>
      (case dec_struct answer_fields j \<lparr>ia_created = 0, ia_data = []\<rparr> of Inl _ \<Rightarrow> bad
      | Inr a \<Rightarrow>
          if ia_data a = [] then (Inr None, u)
          else (case persist_items env store ttl key want_b64 (ia_data a) u of (Inl e, u') \<Rightarrow> (Inl e, u')
            | (Inr js, u') \<Rightarrow>
                (Inr (Some (me_show_json env (JObj ([(''data'', JArr js)] @
                   opt_member (ia_created a \<noteq> 0) ''created'' (JNum (of_int (ia_created a))))))), u'))))"

text \<open>
  The organization's store, if it is enabled. \<^verbatim>\<open>objectstore.New\<close> returns a typed nil, so the
  test for a nil store never succeeds; putting into it is an error.
\<close>

definition maybe_persist_images ::
  "('h, 's, 'r, 'u) media_env \<Rightarrow> snapshot \<Rightarrow> api_key \<Rightarrow> string \<Rightarrow> bool \<Rightarrow> 'u \<Rightarrow> string option res \<times> 'u" where
  "maybe_persist_images env sn key body want_b64 u =
     (case resolve_object_store (Some sn) (ak_organization_id key) of None \<Rightarrow> (Inr None, u)
      | Some cfg \<Rightarrow>
          if \<not> os_enabled cfg then (Inr None, u)
          else (case open_object_store env sn cfg of Inl e \<Rightarrow> (Inl e, u)
            | Inr (store, ttl) \<Rightarrow> rewrite_persisted_images env store ttl key body want_b64 u))"

definition image_reply :: "call_context \<Rightarrow> upstream_response \<Rightarrow> string \<Rightarrow> agent_reply" where
  "image_reply call resp body =
     Proxied (ux_status resp)
       (gm_put ''Content-Type'' [''application/json'']
         (copied_headers [''transfer-encoding'', ''connection'', ''content-length''] (apply_response_headers call []) (ux_headers resp)))
       body"

definition images_kind :: "('h, 's, 'r, 'u) media_env \<Rightarrow> ('h, 's, 'r, 'u) single_kind" where
  "images_kind env =
     \<lparr>sk_modality = ModalityImage, sk_usable = images_provider_usable env,
      sk_unusable = ''images require a provider with image capability and an images backend'',
      sk_looks_right = model_looks_like_image env,
      sk_looks_wrong = ''model is not an image model (use dall-e-*, gpt-image-*, or a catalog image route)'',
      sk_backend = images_backend env,
      sk_good = (\<lambda>sn key call b resp u.
        case maybe_persist_images env sn key (ux_body resp) (to_lower (trim_space (mq_format b)) = ''b64_json'') u of
          (kept, u') \<Rightarrow>
            let body = (case kept of Inr (Some body) \<Rightarrow> body | _ \<Rightarrow> ux_body resp);
                n = count_images_in_response (ae_parse_json (me_base env)) body
            in ((image_reply call resp body, 0, (0, 0), if n > 0 then [(''images'', GFloat64 (of_nat n))] else []), u'))\<rparr>"

text \<open>The rest of the handler for images once the call is admitted.\<close>

definition forward_images ::
  "('h, 's, 'r, 'u) media_env \<Rightarrow> gotime \<Rightarrow> media_body \<Rightarrow> snapshot \<Rightarrow> principal \<Rightarrow> call_context \<Rightarrow>
   ('h, 's, 'r, 'u) gw_state \<Rightarrow> agent_reply \<times> ('h, 's, 'r, 'u) gw_state" where
  "forward_images env = forward_single env (images_kind env)"

definition handle_images_generations ::
  "('h, 's, 'r, 'u) media_env \<Rightarrow> snapshot option \<Rightarrow> agent_request \<Rightarrow> ('h, 's, 'r, 'u) gw_state \<Rightarrow>
   agent_reply \<times> ('h, 's, 'r, 'u) gw_state" where
  "handle_images_generations env snap rq s =
     (case admit_call (me_base env) snap (decode_images env) ''/v1/images/generations'' ModalityImage False (request_body rq) rq s of
        Refused r s1 \<Rightarrow> (r, s1)
      | Admitted b sn p call s1 \<Rightarrow>
          forward_images env (ae_now (me_base env) (gw_world s)) b sn p call s1)"

section \<open>Audio\<close>

record audio_need =
  an_tts :: bool
  an_stt :: bool

definition audio_candidate :: "('h, 's, 'r, 'u) media_env \<Rightarrow> audio_need \<Rightarrow> snapshot \<Rightarrow> route \<Rightarrow> route_target \<Rightarrow> candidate option" where
  "audio_candidate env need sn r fb =
     (case gm_get (sn_providers sn) (rt_provider_id fb) of None \<Rightarrow> None
      | Some prov \<Rightarrow>
          if audio_provider_usable env (an_tts need) (an_stt need) prov then fallback_candidate sn r fb else None)"

definition build_audio_attempts ::
  "('h, 's, 'r, 'u) media_env \<Rightarrow> audio_need \<Rightarrow> signal_state option \<Rightarrow> snapshot \<Rightarrow> route \<Rightarrow> provider \<Rightarrow> route_attempt list" where
  "build_audio_attempts env need signals sn r primary =
     List.map_filter (candidate_attempt sn)
       (selector_order (me_specs env) (me_entries env) (me_draw env)
         (for_strategy (ro_routing_strategy r) (map_option sig_latency_ewma signals))
         ((if audio_provider_usable env (an_tts need) (an_stt need) primary
           then [\<lparr>cd_provider_id = pv_id primary, cd_provider_type = pv_type primary,
                  cd_target_model = ro_target_model r, cd_weight = ro_weight r\<rparr>] else []) @
          List.map_filter (audio_candidate env need sn r) (ro_fallbacks r)))"

text \<open>The variables of the loop; \<open>al_calls\<close> records the calls made, with their answers.\<close>

record 'u audio_loop =
  al_world :: 'u
  al_signals :: "signal_state option"
  al_resp :: "upstream_response option"
  al_err :: "call_error option"
  al_provider_type :: string
  al_target :: string
  al_credential_id :: string
  al_calls :: "(route_attempt \<times> (call_error + upstream_response)) list"

definition audio_init :: "'u \<Rightarrow> signal_state option \<Rightarrow> 'u audio_loop" where
  "audio_init u sigs =
     \<lparr>al_world = u, al_signals = sigs, al_resp = None, al_err = None, al_provider_type = [], al_target = [],
      al_credential_id = [], al_calls = []\<rparr>"

record 'u audio_job =
  aj_snapshot :: snapshot
  aj_key :: api_key
  aj_model :: string
  aj_call :: call_context
  aj_retry :: "retry_config option"
  aj_port :: "'u audio_ports \<Rightarrow> 'u transport"
  aj_content_type :: string

definition observe_audio ::
  "('u \<Rightarrow> gotime) \<Rightarrow> route_attempt \<Rightarrow> gotime \<Rightarrow> bool \<Rightarrow> 'u audio_loop \<Rightarrow> 'u audio_loop" where
  "observe_audio now a started failed st =
     st\<lparr>al_signals := map_option (sig_observe (pv_id (ra_provider a)) (ra_target_model a)
          (since_ms now started (al_world st)) failed) (al_signals st)\<rparr>"

definition audio_try ::
  "('h, 's, 'r, 'u) media_env \<Rightarrow> 'u audio_job \<Rightarrow> route_attempt \<Rightarrow> bool \<Rightarrow> int \<Rightarrow> 'u audio_loop \<Rightarrow> verdict \<times> 'u audio_loop" where
  "audio_try env job a others tried st0 =
     (let retry_left = tried + 1 < max_tries_for (aj_retry job);
          failover = (if retry_left then Retry else if others then NextTarget else StopLoop);
          give_up = (if others then NextTarget else StopLoop) in
      case (if tried > 0 then sleep_before_retry (me_overflow env) (me_wait env) (aj_retry job) (tried - 1) (al_world st0)
            else (False, al_world st0)) of
        (True, u) \<Rightarrow> (StopLoop, st0\<lparr>al_world := u, al_err := Some (OtherError ''context canceled''), al_resp := None\<rparr>)
      | (False, u) \<Rightarrow>
          let st = st0\<lparr>al_world := u\<rparr> in
          (case bind_media env (aj_snapshot job) (ra_provider a) (aj_key job) (aj_model job) (aj_call job) of
             Inl e \<Rightarrow> (give_up, st\<lparr>al_err := Some (OtherError (err_msg e))\<rparr>)
           | Inr (bound, cred) \<Rightarrow>
               let st1 = st\<lparr>al_provider_type := pv_type bound, al_target := ra_target_model a, al_credential_id := cred\<rparr> in
               (case audio_backend env (pv_type bound) of
                  Inl e \<Rightarrow> (give_up, st1\<lparr>al_err := Some (OtherError (err_msg e))\<rparr>)
                | Inr b \<Rightarrow>
                    let started = ae_now (me_base env) u in
                    (case aj_port job b bound (ra_target_model a) (cx_request_headers (aj_call job)) (aj_content_type job)
                            (cx_body (aj_call job)) u of
                       (Inl e, u') \<Rightarrow>
                         (if should_failover_error (Some e) then failover else StopLoop,
                          observe_audio (ae_now (me_base env)) a started True
                            (st1\<lparr>al_world := u', al_resp := None, al_err := Some e, al_calls := al_calls st1 @ [(a, Inl e)]\<rparr>))
                     | (Inr resp, u') \<Rightarrow>
                         let st2 = observe_audio (ae_now (me_base env)) a started (ux_status resp \<ge> 400)
                               (st1\<lparr>al_world := u', al_resp := Some resp, al_err := None, al_calls := al_calls st1 @ [(a, Inr resp)]\<rparr>) in
                         if should_failover_status (ux_status resp) \<and> failover \<noteq> StopLoop
                           then (failover, st2\<lparr>al_resp := None\<rparr>)
                         else (StopLoop, st2)))))"

fun audio_tries ::
  "('h, 's, 'r, 'u) media_env \<Rightarrow> 'u audio_job \<Rightarrow> route_attempt \<Rightarrow> bool \<Rightarrow> nat \<Rightarrow> int \<Rightarrow> 'u audio_loop \<Rightarrow> bool \<times> 'u audio_loop" where
  "audio_tries env job a others 0 tried st = (False, st)"
| "audio_tries env job a others (Suc n) tried st =
     (case audio_try env job a others tried st of
        (Retry, st') \<Rightarrow> audio_tries env job a others n (tried + 1) st'
      | (NextTarget, st') \<Rightarrow> (False, st')
      | (StopLoop, st') \<Rightarrow> (True, st'))"

fun audio_targets ::
  "('h, 's, 'r, 'u) media_env \<Rightarrow> 'u audio_job \<Rightarrow> route_attempt list \<Rightarrow> 'u audio_loop \<Rightarrow> 'u audio_loop" where
  "audio_targets env job [] st = st"
| "audio_targets env job (a # rest) st =
     (case audio_tries env job a (rest \<noteq> []) (nat (max_tries_for (aj_retry job))) 0 st of
        (True, st') \<Rightarrow> st'
      | (False, st') \<Rightarrow> audio_targets env job rest st')"

record ('h, 's, 'r, 'u) audio_kind =
  ak_modality_of :: string
  ak_need :: audio_need
  ak_unusable :: string
  ak_looks_right :: "string \<Rightarrow> string \<Rightarrow> bool"
  ak_looks_wrong :: string
  ak_port :: "'u audio_ports \<Rightarrow> 'u transport"
  ak_content_type :: string

definition forward_audio ::
  "('h, 's, 'r, 'u) media_env \<Rightarrow> ('h, 's, 'r, 'u) audio_kind \<Rightarrow> (string, goval) gomap \<Rightarrow> gotime \<Rightarrow> string \<Rightarrow> snapshot \<Rightarrow>
   principal \<Rightarrow> call_context \<Rightarrow> ('h, 's, 'r, 'u) gw_state \<Rightarrow> agent_reply \<times> ('h, 's, 'r, 'u) gw_state" where
  "forward_audio env kind metrics start model sn p call s =
     (let key = policy_key p in
      case lookup_route (Some sn) (ak_organization_id key) model of
        None \<Rightarrow> refuse 400 ''no route for model'' ''invalid_request_error'' s
      | Some (r, prov) \<Rightarrow>
      if \<not> audio_provider_usable env (an_tts (ak_need kind)) (an_stt (ak_need kind)) prov
        then refuse 400 (ak_unusable kind) ''invalid_request_error'' s
      else if \<not> ak_looks_right kind model (ro_target_model r) then refuse 400 (ak_looks_wrong kind) ''invalid_request_error'' s
      else
        let attempts = build_audio_attempts env (ak_need kind) (gw_signals s) sn r prov in
        if attempts = [] then refuse 400 ''no usable providers for route'' ''invalid_request_error'' s
        else
          let job = \<lparr>aj_snapshot = sn, aj_key = key, aj_model = model, aj_call = call, aj_retry = resolve_retry (Some sn) r,
                     aj_port = ak_port kind, aj_content_type = ak_content_type kind\<rparr>;
              st = audio_targets env job attempts (audio_init (gw_world s) (gw_signals s));
              s1 = s\<lparr>gw_world := al_world st, gw_signals := al_signals st\<rparr>;
              c = \<lparr>mk_principal = p, mk_call = call, mk_model = model, mk_modality = ak_modality_of kind,
                   mk_provider_type = al_provider_type st, mk_target = al_target st, mk_credential_id = al_credential_id st,
                   mk_start = start\<rparr>
          in
          (case al_resp st of
             None \<Rightarrow>
               (case al_err st of
                  Some e \<Rightarrow> refuse 502 (error_text e) ''server_error'' (settle_media env sn c ''error'' (0, 0) metrics s1)
                | None \<Rightarrow> refuse 502 ''all upstream attempts failed'' ''server_error'' s1)
           | Some resp \<Rightarrow>
               (copy_response (apply_response_headers call []) resp,
                settle_media env sn c (if ux_status resp \<ge> 400 \<or> ux_failed resp then ''error'' else ''ok'') (0, 0) metrics s1)))"

definition speech_kind :: "('h, 's, 'r, 'u) audio_kind" where
  "speech_kind =
     \<lparr>ak_modality_of = ModalityTTS, ak_need = \<lparr>an_tts = True, an_stt = False\<rparr>,
      ak_unusable = ''TTS requires a provider with tts capability and an audio backend'',
      ak_looks_right = model_looks_like_tts,
      ak_looks_wrong = ''model is not a TTS model (use tts-1, eleven_* , or a *tts* route)'',
      ak_port = av_speech, ak_content_type = []\<rparr>"

definition handle_audio_speech ::
  "('h, 's, 'r, 'u) media_env \<Rightarrow> snapshot option \<Rightarrow> agent_request \<Rightarrow> ('h, 's, 'r, 'u) gw_state \<Rightarrow>
   agent_reply \<times> ('h, 's, 'r, 'u) gw_state" where
  "handle_audio_speech env snap rq s =
     (case admit_call (me_base env) snap (decode_speech env) ''/v1/audio/speech'' ModalityTTS False (request_body rq) rq s of
        Refused r s1 \<Rightarrow> (r, s1)
      | Admitted b sn p call s1 \<Rightarrow>
          let n = rune_count (mq_text b) in
          forward_audio env speech_kind (if n > 0 then [(''characters'', GInt (int n))] else [])
            (ae_now (me_base env) (gw_world s)) (mq_model b) sn p call s1)"

text \<open>A transcription may be four times as long.\<close>

definition transcription_body :: "agent_request \<Rightarrow> string res" where
  "transcription_body rq = bind_res (nq_body rq) (\<lambda>raw. Inr (take (32 * 1024 * 1024) raw))"

definition transcription_kind :: "string \<Rightarrow> ('h, 's, 'r, 'u) audio_kind" where
  "transcription_kind content_type =
     \<lparr>ak_modality_of = ModalitySTT, ak_need = \<lparr>an_tts = False, an_stt = True\<rparr>,
      ak_unusable = ''STT requires a provider with stt capability and an audio backend'',
      ak_looks_right = model_looks_like_stt,
      ak_looks_wrong = ''model is not an STT model (use whisper-1, scribe_*, or a *transcribe* route, not tts-*)'',
      ak_port = av_transcriptions, ak_content_type = content_type\<rparr>"

text \<open>The rest of the handler for transcriptions: the same loop over another port.\<close>

definition forward_transcription ::
  "('h, 's, 'r, 'u) media_env \<Rightarrow> string \<Rightarrow> gotime \<Rightarrow> string \<Rightarrow> snapshot \<Rightarrow>
   principal \<Rightarrow> call_context \<Rightarrow> ('h, 's, 'r, 'u) gw_state \<Rightarrow> agent_reply \<times> ('h, 's, 'r, 'u) gw_state" where
  "forward_transcription env content_type = forward_audio env (transcription_kind content_type) []"

definition handle_audio_transcriptions ::
  "('h, 's, 'r, 'u) media_env \<Rightarrow> snapshot option \<Rightarrow> agent_request \<Rightarrow> ('h, 's, 'r, 'u) gw_state \<Rightarrow>
   agent_reply \<times> ('h, 's, 'r, 'u) gw_state" where
  "handle_audio_transcriptions env snap rq s =
     (let ct = header_get (nq_request rq) ''Content-Type'' in
      case admit_call (me_base env) snap (decode_transcription env ct) ''/v1/audio/transcriptions'' ModalitySTT False
             (transcription_body rq) rq s of
        Refused r s1 \<Rightarrow> (r, s1)
      | Admitted b sn p call s1 \<Rightarrow>
          forward_transcription env ct (ae_now (me_base env) (gw_world s)) (mq_model b) sn p call s1)"

end
