(* ===== verification/Media_Laws.thy ===== *)
theory Media_Laws
  imports Media_Gateway
begin

text \<open>
  What holds of the media handlers: how often a target is called and that the loop ends with an
  answer or an error (the third case of the code cannot happen), that a call that reached a vendor
  is recorded once, that generated images are kept inside their organization's part of a bucket;
  and that the store of one organization opens the credential of any other.
\<close>

section \<open>The attempt loop\<close>

text \<open>After a try that ends the loop there is an answer or an error, never both, never neither.\<close>

definition audio_outcome :: "'u audio_loop \<Rightarrow> bool" where
  "audio_outcome st \<longleftrightarrow> (al_resp st = None) = (al_err st \<noteq> None)"

text \<open>Between tries there is no answer to lose.\<close>

definition no_answer :: "'u audio_loop \<Rightarrow> bool" where
  "no_answer st \<longleftrightarrow> al_resp st = None"

lemma observe_audio_simps [simp]:
  "al_resp (observe_audio now a t b st) = al_resp st" "al_err (observe_audio now a t b st) = al_err st"
  "al_calls (observe_audio now a t b st) = al_calls st" "al_world (observe_audio now a t b st) = al_world st"
  by (simp_all add: observe_audio_def)

lemma audio_try_outcome:
  assumes "audio_try env job a others tried st0 = (v, st)" and "no_answer st0"
  shows "v = StopLoop \<Longrightarrow> audio_outcome st" and "v \<noteq> StopLoop \<Longrightarrow> no_answer st"
    and "v = Retry \<Longrightarrow> tried + 1 < max_tries_for (aj_retry job)" and "v = NextTarget \<Longrightarrow> others"
  using assms
  by (auto simp: audio_try_def Let_def audio_outcome_def no_answer_def split: prod.splits sum.splits if_splits bool.splits)

lemma audio_try_calls:
  assumes "audio_try env job a others tried st0 = (v, st)"
  shows "\<exists>new. al_calls st = al_calls st0 @ new \<and> length new \<le> 1 \<and> fst ` set new \<subseteq> {a}"
  using assms
  by (auto simp: audio_try_def Let_def split: prod.splits sum.splits if_splits bool.splits)

lemma audio_tries_outcome:
  assumes "audio_tries env job a others n tried st0 = (left, st)" and "no_answer st0"
    and "int n + tried = max_tries_for (aj_retry job)"
  shows "if left then audio_outcome st else no_answer st \<and> (0 < n \<longrightarrow> others)"
  using assms
proof (induction n arbitrary: tried st0)
  case (Suc n)
  obtain v st1 where v: "audio_try env job a others tried st0 = (v, st1)" by fastforce
  note step = audio_try_outcome [OF v Suc.prems(2)]
  show ?case
  proof (cases "v = Retry")
    case True
    have "if left then audio_outcome st else no_answer st \<and> (0 < n \<longrightarrow> others)"
      by (rule Suc.IH [of "tried + 1" st1]) (use Suc.prems v True step(2) in simp_all)
    then show ?thesis using step(3) [OF True] Suc.prems(3) by (simp split: if_splits)
  next
    case False
    then have "left = (v = StopLoop) \<and> st = st1" using Suc.prems(1) v by (cases v) simp_all
    then show ?thesis using step False by (cases v) auto
  qed
qed simp

lemma audio_tries_calls:
  assumes "audio_tries env job a others n tried st0 = (left, st)"
  shows "\<exists>new. al_calls st = al_calls st0 @ new \<and> length new \<le> n \<and> fst ` set new \<subseteq> {a}"
  using assms
proof (induction n arbitrary: tried st0)
  case (Suc n)
  obtain v st1 where v: "audio_try env job a others tried st0 = (v, st1)" by fastforce
  obtain x where x: "al_calls st1 = al_calls st0 @ x" "length x \<le> 1" "fst ` set x \<subseteq> {a}"
    using audio_try_calls [OF v] by blast
  show ?case
  proof (cases "v = Retry")
    case True
    with Suc.prems v have "audio_tries env job a others n (tried + 1) st1 = (left, st)" by simp
    from Suc.IH [OF this] obtain y where "al_calls st = al_calls st1 @ y" "length y \<le> n" "fst ` set y \<subseteq> {a}" by blast
    then show ?thesis using x by (intro exI [of _ "x @ y"]) auto
  next
    case False
    then have "st = st1" using Suc.prems v by (cases v) auto
    then show ?thesis using x by (intro exI [of _ x]) auto
  qed
qed simp

lemma audio_targets_outcome:
  "attempts \<noteq> [] \<Longrightarrow> no_answer st \<Longrightarrow> audio_outcome (audio_targets env job attempts st)"
proof (induction attempts arbitrary: st)
  case (Cons a rest)
  obtain left st1 where t: "audio_tries env job a (rest \<noteq> []) (nat (max_tries_for (aj_retry job))) 0 st = (left, st1)" by fastforce
  have n: "int (nat (max_tries_for (aj_retry job))) + 0 = max_tries_for (aj_retry job)" "0 < nat (max_tries_for (aj_retry job))"
    by (auto simp: max_tries_for_def split: option.splits)
  note ends = audio_tries_outcome [OF t Cons.prems(2) n(1)]
  show ?case
  proof (cases left)
    case True
    then show ?thesis using t ends by simp
  next
    case False
    then have "rest \<noteq> []" "no_answer st1" using ends n(2) by auto
    then show ?thesis using t False Cons.IH by simp
  qed
qed simp

text \<open>No target is called more often than it may be tried.\<close>

lemma audio_targets_calls:
  "\<exists>new. al_calls (audio_targets env job attempts st) = al_calls st @ new \<and>
     length new \<le> length attempts * nat (max_tries_for (aj_retry job)) \<and> fst ` set new \<subseteq> set attempts"
proof (induction attempts arbitrary: st)
  case (Cons a rest)
  obtain left st1 where t: "audio_tries env job a (rest \<noteq> []) (nat (max_tries_for (aj_retry job))) 0 st = (left, st1)" by fastforce
  obtain x where x: "al_calls st1 = al_calls st @ x" "length x \<le> nat (max_tries_for (aj_retry job))" "fst ` set x \<subseteq> {a}"
    using audio_tries_calls [OF t] by blast
  show ?case
  proof (cases left)
    case True
    then show ?thesis using t x by (intro exI [of _ x]) auto
  next
    case False
    obtain y where "al_calls (audio_targets env job rest st1) = al_calls st1 @ y"
      "length y \<le> length rest * nat (max_tries_for (aj_retry job))" "fst ` set y \<subseteq> set rest"
      using Cons.IH by blast
    then show ?thesis using t False x by (intro exI [of _ "x @ y"]) auto
  qed
qed simp

section \<open>What a call leaves behind\<close>

lemma settle_media_simps [simp]:
  "gw_world (settle_media env sn c status tokens m s) = gw_world s"
  "gw_usage (settle_media env sn c status tokens m s) =
     gw_usage s @ [mark_byok (media_event c status (since_ms (ae_now (me_base env)) (mk_start c) (gw_world s)) tokens m)]"
  by (simp_all add: settle_media_def Let_def record_usage_def)

lemma charge_media_simps [simp]:
  "gw_world (charge_media env sn key n s) = gw_world s" "gw_usage (charge_media env sn key n s) = gw_usage s"
  by (simp_all add: charge_media_def)

text \<open>Nothing happened, or one event of the principal was recorded.\<close>

definition metered_once :: "principal \<Rightarrow> string \<Rightarrow> ('h, 's, 'r, 'u) gw_state \<Rightarrow> ('h, 's, 'r, 'u) gw_state \<Rightarrow> bool" where
  "metered_once p modality s s' \<longleftrightarrow>
     gw_world s' = gw_world s \<and> gw_usage s' = gw_usage s \<or>
     (\<exists>e. gw_usage s' = gw_usage s @ [e] \<and> ue_organization_id e = pr_organization_id p \<and>
        ue_api_key_id e = pr_api_key_id p \<and> ue_modality e = modality)"

lemma metered_once_same: "metered_once p modality s s"
  by (simp add: metered_once_def)

lemma metered_once_refuse: "metered_once p modality s s' \<Longrightarrow> metered_once p modality s (snd (refuse status msg typ s'))"
  by (simp add: refuse_def)

lemma metered_once_settle:
  "gw_usage s' = gw_usage s \<Longrightarrow> mk_principal c = p \<Longrightarrow> mk_modality c = modality \<Longrightarrow>
   metered_once p modality s (settle_media env sn c status tokens m s')"
  by (auto simp: metered_once_def mark_byok_def media_event_def usage_event_base_def)

lemma forward_single_metered:
  "metered_once p (sk_modality kind) s (snd (forward_single env kind start b sn p call s))"
  unfolding forward_single_def Let_def
  by (auto split: option.splits prod.splits sum.splits intro!: metered_once_refuse metered_once_settle metered_once_same)

lemma audio_never_undecided:
  "al_resp (audio_targets env job attempts (audio_init u sigs)) = None \<Longrightarrow>
   al_err (audio_targets env job attempts (audio_init u sigs)) = None \<Longrightarrow> attempts = []"
  using audio_targets_outcome [of attempts "audio_init u sigs" env job]
  by (auto simp: audio_outcome_def no_answer_def audio_init_def)

lemma forward_audio_metered:
  "metered_once p (ak_modality_of kind) s (snd (forward_audio env kind metrics start model sn p call s))"
  unfolding forward_audio_def Let_def
  by (auto split: option.splits prod.splits dest: audio_never_undecided
      intro!: metered_once_refuse metered_once_settle metered_once_same)

section \<open>A concrete gateway\<close>

text \<open>
  One provider that serves embeddings, images and speech, beside the world of the agent gateway,
  which counts the requests; a provider's answers are those of the given status.
\<close>

definition demo_transport :: "int \<Rightarrow> nat transport" where
  "demo_transport status = (\<lambda>p target hdrs ct body n.
     (Inr \<lparr>ux_status = status, ux_headers = [], ux_body = ''{}'', ux_failed = False\<rparr>, Suc n))"

definition demo_media_env ::
  "int \<Rightarrow> json \<Rightarrow> (unit, pg_counters \<times> redis_counters, replay_items, nat) media_env" where
  "demo_media_env status doc =
     \<lparr>me_base = demo_agent_env doc, me_specs = builtin_registry, me_entries = [], me_opener = Some (\<lambda>c. Inr ''keys''),
      me_secrets = None,
      me_adapters = Some (\<lambda>_. Some \<lparr>ma_audio = None,
        ma_openai = Some \<lparr>ot_speech = demo_transport status, ot_transcriptions = demo_transport status,
          ot_embeddings = demo_transport status, ot_images = demo_transport status\<rparr>\<rparr>),
      me_overflow = (\<lambda>_. 0), me_draw = (\<lambda>_. 0), me_wait = (\<lambda>_ n. (False, n)), me_show_json = (\<lambda>_. ''out''),
      me_b64_encode = id, me_b64_decode = Some, me_media_type = (\<lambda>_. Inr []), me_parts = (\<lambda>_ _. ([], None)),
      me_minio = (\<lambda>_. None), me_put = (\<lambda>_ _ _ _ _ n. (Inr (), Suc n)), me_presign = (\<lambda>_ name _. Inr name),
      me_asset_id = (\<lambda>n. (Inr ''asset'', n))\<rparr>"

definition demo_media_snapshot :: snapshot where
  "demo_media_snapshot = demo_auth_snapshot
     \<lparr>sn_providers := [(''pa'', demo_provider ''pa'' ''openai'')],
      sn_routes := [(route_key ''o1'' ''tts-1'', (demo_route ''o1'' ''tts-1'' ''pa'')\<lparr>ro_target_model := ''tts-1''\<rparr>)],
      sn_credentials := [(''c'', \<lparr>cr_id = ''c'', cr_organization_id = ''o2'', cr_name = ''n'', cr_provider_type = ''openai'',
        cr_storage_kind = ''inline'', cr_secret_ref = [], cr_encrypted_payload = ''p'', cr_key_version = 1, cr_status = ''disabled''\<rparr>)],
      sn_object_stores := [(''o1'', Some \<lparr>os_enabled = True, os_endpoint = ''https://s3'', os_region = [], os_bucket = ''b'',
        os_use_ssl = True, os_path_style = False, os_credential_id = ''c'', os_access_key_env = [], os_secret_key_env = [],
        os_presign_ttl_seconds = 0\<rparr>)]\<rparr>"

lemma demo_foreign_store:
  "case resolve_object_store (Some demo_media_snapshot) (ak_organization_id demo_key) of None \<Rightarrow> False
   | Some cfg \<Rightarrow> os_enabled cfg \<and> os_credential_id cfg \<noteq> [] \<and> trim_space (os_endpoint cfg) \<noteq> [] \<and> trim_space (os_bucket cfg) \<noteq> [] \<and>
       (case gm_get (sn_credentials demo_media_snapshot) (os_credential_id cfg) of None \<Rightarrow> False
        | Some c \<Rightarrow> cr_organization_id c \<noteq> ak_organization_id demo_key \<and> cr_status c \<noteq> ''active'')"
  by code_simp

text \<open>Speech is served: one call, recorded once.\<close>

definition demo_speech where
  "demo_speech status = handle_audio_speech
     (demo_media_env status (JObj [(''model'', JStr ''tts-1''), (''input'', JStr ''hi'')])) (Some demo_media_snapshot) demo_agent_request demo_gw"

lemma demo_speech_ok:
  "(\<lambda>s. (gw_world s, map ue_status (gw_usage s))) (snd (demo_speech 200)) = (1, [''ok''])"
  by code_simp

text \<open>What the handlers share: their start, and a remainder that meters once.\<close>

definition served :: "('h, 's, 'r, 'u) media_env \<Rightarrow> snapshot option \<Rightarrow> agent_request \<Rightarrow> ('h, 's, 'r, 'u) gw_state \<Rightarrow>
    ('h, 's, 'r, 'u) gw_state \<Rightarrow> bool" where
  "served env snap rq s s' \<longleftrightarrow>
     (\<exists>p body rep model path modality call h c e.
       authenticate_gateway_request (ae_sha (me_base env)) (ae_sig (me_base env)) (ae_replay (me_base env))
         (ae_now (me_base env) (gw_world s)) snap (nq_request rq) body (gw_replay s) = (Inr p, rep) \<and>
       gate_call (ae_gate (me_base env)) snap (handler_call p rq model path modality False body)
         (gw_hooks s) (gw_counters s) = (None, call, h, c) \<and>
       gw_usage s' = gw_usage s @ [e] \<and>
       ue_organization_id e = pr_organization_id p \<and> ue_api_key_id e = pr_api_key_id p \<and> ue_modality e = modality)"

lemma handler_served:
  assumes "\<And>b sn p call s1. metered_once p modality s1 (snd (f b sn p call s1))"
    and "gw_world (snd (case admit_call (me_base env) snap decode path modality False body0 rq s of
           Refused r s1 \<Rightarrow> (r, s1) | Admitted b sn p call s1 \<Rightarrow> f b sn p call s1)) \<noteq> gw_world s"
  shows "served env snap rq s (snd (case admit_call (me_base env) snap decode path modality False body0 rq s of
           Refused r s1 \<Rightarrow> (r, s1) | Admitted b sn p call s1 \<Rightarrow> f b sn p call s1))"
proof (cases "admit_call (me_base env) snap decode path modality False body0 rq s")
  case (Refused r s1)
  then show ?thesis using assms(2) admit_call_Refused_state [OF Refused] by simp
next
  case (Admitted b sn p call s1)
  from Admitted [unfolded admit_call_Admitted] obtain body rep model h c where
      "authenticate_gateway_request (ae_sha (me_base env)) (ae_sig (me_base env)) (ae_replay (me_base env))
        (ae_now (me_base env) (gw_world s)) snap (nq_request rq) body (gw_replay s) = (Inr p, rep)"
      "gate_call (ae_gate (me_base env)) snap (handler_call p rq model path modality False body)
        (gw_hooks s) (gw_counters s) = (None, call, h, c)"
      "s1 = s\<lparr>gw_replay := rep, gw_hooks := h, gw_counters := c\<rparr>"
    by blast
  moreover obtain e where "gw_usage (snd (f b sn p call s1)) = gw_usage s @ [e]" "ue_organization_id e = pr_organization_id p"
      "ue_api_key_id e = pr_api_key_id p" "ue_modality e = modality"
    using assms(1) [of p s1 b sn call] assms(2) Admitted calculation(3) by (auto simp: metered_once_def)
  ultimately show ?thesis unfolding served_def Admitted admission.case by blast
qed

lemma media_handlers_served:
  "gw_world (snd (handle_embeddings env snap rq s)) \<noteq> gw_world s \<Longrightarrow> served env snap rq s (snd (handle_embeddings env snap rq s))"
  "gw_world (snd (handle_images_generations env snap rq s)) \<noteq> gw_world s \<Longrightarrow>
     served env snap rq s (snd (handle_images_generations env snap rq s))"
  "gw_world (snd (handle_audio_speech env snap rq s)) \<noteq> gw_world s \<Longrightarrow> served env snap rq s (snd (handle_audio_speech env snap rq s))"
  "gw_world (snd (handle_audio_transcriptions env snap rq s)) \<noteq> gw_world s \<Longrightarrow>
     served env snap rq s (snd (handle_audio_transcriptions env snap rq s))"
  unfolding handle_embeddings_def handle_images_generations_def handle_audio_speech_def handle_audio_transcriptions_def
    forward_images_def forward_transcription_def Let_def
  by (erule handler_served [rotated],
      rule forward_single_metered [of _ "embeddings_kind env" for env, unfolded embeddings_kind_def, simplified, folded embeddings_kind_def]
        forward_single_metered [of _ "images_kind env" for env, unfolded images_kind_def, simplified, folded images_kind_def]
        forward_audio_metered [of _ speech_kind, unfolded speech_kind_def, simplified, folded speech_kind_def]
        forward_audio_metered [of _ "transcription_kind ct" for ct, unfolded transcription_kind_def, simplified, folded transcription_kind_def])+

section \<open>Properties\<close>



text \<open>
  C21: The audio loop ends, with an answer or with an error and never with both or neither, after a
  bounded number of calls: however often targets fail, at most as many calls as targets times the
  tries allowed for each, all to targets of the list. A target is retried, or left for the next,
  only for a failure; there is no target, no delay and no vendor behaviour that keeps the handler
  in its loop.
\<close>

theorem audio_loop_ends:
  assumes "attempts \<noteq> []"
  shows "\<exists>st. audio_targets env job attempts (audio_init u sigs) = st \<and>
    ((\<exists>resp. al_resp st = Some resp \<and> al_err st = None) \<or> (\<exists>e. al_resp st = None \<and> al_err st = Some e)) \<and>
    int (length (al_calls st)) \<le> int (length attempts) * max_tries_for (aj_retry job) \<and>
    fst ` set (al_calls st) \<subseteq> set attempts"
proof -
  let ?st = "audio_targets env job attempts (audio_init u sigs)"
  have "audio_outcome ?st" using assms by (intro audio_targets_outcome) (simp_all add: no_answer_def audio_init_def)
  moreover obtain new where new: "al_calls ?st = al_calls (audio_init u sigs) @ new"
      "length new \<le> length attempts * nat (max_tries_for (aj_retry job))" "fst ` set new \<subseteq> set attempts"
    using audio_targets_calls by blast
  moreover have "0 < max_tries_for (aj_retry job)" by (auto simp: max_tries_for_def split: option.splits)
  then have "int (length attempts * nat (max_tries_for (aj_retry job))) = int (length attempts) * max_tries_for (aj_retry job)"
    by simp
  moreover have "int (length new) \<le> int (length attempts * nat (max_tries_for (aj_retry job)))"
    using new(2) by (simp only: of_nat_le_iff)
  ultimately show ?thesis by (auto simp: audio_outcome_def audio_init_def)
qed

theorem audio_loop_ends_witness:
  "\<exists>st. audio_targets (demo_media_env 500 JNull)
      \<lparr>aj_snapshot = demo_media_snapshot, aj_key = demo_key, aj_model = ''tts-1'', aj_call = demo_call, aj_retry = None,
       aj_port = av_speech, aj_content_type = []\<rparr> [demo_attempt ''t1'', demo_attempt ''t2''] (audio_init 0 None) = st \<and>
    length (al_calls st) \<le> 2"
  using audio_loop_ends [of "[demo_attempt ''t1'', demo_attempt ''t2'']" "demo_media_env 500 JNull"
      "\<lparr>aj_snapshot = demo_media_snapshot, aj_key = demo_key, aj_model = ''tts-1'', aj_call = demo_call, aj_retry = None,
       aj_port = av_speech, aj_content_type = []\<rparr>" 0 None]
  by (auto simp: max_tries_for_def)

text \<open>
  An organization's object store opens any credential of the snapshot. The store's credential
  is looked up by its identifier alone: it may belong to another organization, or be disabled, and
  its secret is opened all the same and becomes the keys of the S3 client that stores the images
  of this organization. Neither the gateway nor the normalisation of the stored settings compares
  the owners.
\<close>

theorem object_store_opens_foreign_credential:
  assumes "resolve_object_store (Some sn) (ak_organization_id key) = Some cfg" and "os_enabled cfg"
    and "os_credential_id cfg \<noteq> []" and "gm_get (sn_credentials sn) (os_credential_id cfg) = Some c"
    and "cr_organization_id c \<noteq> ak_organization_id key" and "cr_status c \<noteq> ''active''"
    and "me_opener env = Some openc" and "openc c = Inr plain"
    and "ae_parse_json (me_base env) plain = Some (JObj [(''access_key'', JStr a), (''secret_key'', JStr k)])"
    and "a \<noteq> []" and "k \<noteq> []" and "\<And>client. me_minio env client = None"
    and "trim_space (os_endpoint cfg) \<noteq> []" and "trim_space (os_bucket cfg) \<noteq> []"
  shows "\<exists>client ttl. s3_access_key client = a \<and> s3_secret_key client = k \<and>
    maybe_persist_images env sn key body want_b64 u = rewrite_persisted_images env (Some client) ttl key body want_b64 u"
proof -
  have "resolve_object_store_keys env sn cfg = Inr (a, k)"
    using assms(3-11) by (simp add: resolve_object_store_keys_def bind_res_def store_key_fields_def dec_struct_def field_for_def field_def)
  moreover obtain client where "new_object_store env cfg a k = Inr (Some client)" "s3_access_key client = a" "s3_secret_key client = k"
    using assms(12-14) by (simp add: new_object_store_def Let_def)
  ultimately show ?thesis using assms(1,2)
    by (intro exI [of _ client] exI) (simp add: maybe_persist_images_def open_object_store_def bind_res_def Let_def)
qed

theorem object_store_opens_foreign_credential_witness:
  "\<exists>client ttl. s3_access_key client = ''a'' \<and> s3_secret_key client = ''k'' \<and>
    maybe_persist_images (demo_media_env 200 (JObj [(''access_key'', JStr ''a''), (''secret_key'', JStr ''k'')]))
      demo_media_snapshot demo_key ''{}'' False 0 =
    rewrite_persisted_images (demo_media_env 200 (JObj [(''access_key'', JStr ''a''), (''secret_key'', JStr ''k'')]))
      (Some client) ttl demo_key ''{}'' False 0"
proof -
  let ?env = "demo_media_env 200 (JObj [(''access_key'', JStr ''a''), (''secret_key'', JStr ''k'')])"
  obtain cfg c where "resolve_object_store (Some demo_media_snapshot) (ak_organization_id demo_key) = Some cfg" "os_enabled cfg"
      "os_credential_id cfg \<noteq> []" "gm_get (sn_credentials demo_media_snapshot) (os_credential_id cfg) = Some c"
      "cr_organization_id c \<noteq> ak_organization_id demo_key" "cr_status c \<noteq> ''active''"
      "trim_space (os_endpoint cfg) \<noteq> []" "trim_space (os_bucket cfg) \<noteq> []"
    using demo_foreign_store by (auto split: option.splits)
  moreover have "me_opener ?env = Some (\<lambda>c. Inr ''keys'')" "me_minio ?env x = None"
    "ae_parse_json (me_base ?env) ''keys'' = Some (JObj [(''access_key'', JStr ''a''), (''secret_key'', JStr ''k'')])" for x
    by (simp_all add: demo_media_env_def demo_agent_env_def)
  ultimately show ?thesis
    using object_store_opens_foreign_credential [of demo_media_snapshot demo_key cfg c ?env "\<lambda>c. Inr ''keys''" "''keys''" "''a''" "''k''"
      "''{}''" False 0]
    by simp
qed

end
