(* ===== verification/Metering.thy ===== *)
theory Metering
  imports Federation Agent_Gateway Http
begin

text \<open>
  From a served request to the usage tables: how a gateway hands over its usage events
  (\<^verbatim>\<open>src/cmd/gateway/main.go\<close>), the outbox tables (\<^verbatim>\<open>src/internal/adapters/postgres/outbox.go\<close>,
  \<^verbatim>\<open>platform_events.go\<close>), the worker that drains them (\<^verbatim>\<open>src/internal/workers\<close>), and the
  ingest of reports at the hub. Statements of Postgres are the table updates they denote; JSON is
  its value, times in it are written and read by the given functions; a port that may fail is an
  argument.
\<close>

section \<open>Events as JSON\<close>

fun json_of_goval :: "goval \<Rightarrow> json res" where
  "json_of_goval GNil = Inr JNull"
| "json_of_goval (GBool b) = Inr (JBool b)"
| "json_of_goval (GStr s) = Inr (JStr s)"
| "json_of_goval (GFloat64 x) = Inr (JNum x)"
| "json_of_goval (GFloat32 x) = Inr (JNum x)"
| "json_of_goval (GInt n) = Inr (JNum (of_int n))"
| "json_of_goval (GInt32 n) = Inr (JNum (of_int n))"
| "json_of_goval (GInt64 n) = Inr (JNum (of_int n))"
| "json_of_goval (GUint n) = Inr (JNum (of_nat n))"
| "json_of_goval (GUint64 n) = Inr (JNum (of_nat n))"
| "json_of_goval GOther = Inl (Err ErrOther ''json: unsupported value'')"

text \<open>What decoding gives for a value of type any: numbers are floats.\<close>

fun goval_of_json :: "json \<Rightarrow> goval" where
  "goval_of_json JNull = GNil"
| "goval_of_json (JBool b) = GBool b"
| "goval_of_json (JNum x) = GFloat64 x"
| "goval_of_json (JStr s) = GStr s"
| "goval_of_json (JArr xs) = GOther"
| "goval_of_json (JObj kvs) = GOther"

definition encode_metrics :: "(string, goval) gomap \<Rightarrow> (string \<times> json) list res" where
  "encode_metrics m = map_res (\<lambda>(k, v). bind_res (json_of_goval v) (\<lambda>j. Inr (k, j))) m"

text \<open>\<^verbatim>\<open>EncodeUsage\<close>: the members in the order of the struct, those with \<^verbatim>\<open>omitempty\<close> only when set.\<close>

definition encode_usage :: "usage_event \<Rightarrow> json res" where
  "encode_usage e =
     bind_res (encode_metrics (ue_metrics e)) (\<lambda>metrics. Inr (JObj (
       [(''organization_id'', JStr (ue_organization_id e)), (''project_id'', JStr (ue_project_id e))] @
       opt_member (ue_team_id e \<noteq> []) ''team_id'' (JStr (ue_team_id e)) @
       opt_member (ue_environment_id e \<noteq> []) ''environment_id'' (JStr (ue_environment_id e)) @
       [(''api_key_id'', JStr (ue_api_key_id e))] @
       opt_member (ue_signing_key_id e \<noteq> []) ''signing_key_id'' (JStr (ue_signing_key_id e)) @
       opt_member (ue_signer_key_id e \<noteq> []) ''signer_key_id'' (JStr (ue_signer_key_id e)) @
       opt_member (ue_auth_method e \<noteq> []) ''auth_method'' (JStr (ue_auth_method e)) @
       opt_member (ue_credential_id e \<noteq> []) ''credential_id'' (JStr (ue_credential_id e)) @
       [(''used_byok'', JBool (ue_used_byok e)), (''model'', JStr (ue_model e)),
        (''provider_type'', JStr (ue_provider_type e)), (''target_model'', JStr (ue_target_model e)),
        (''status'', JStr (ue_status e)), (''latency_ms'', JNum (of_int (ue_latency_ms e))),
        (''prompt_tokens'', JNum (of_int (ue_prompt_tokens e))),
        (''completion_tokens'', JNum (of_int (ue_completion_tokens e))), (''modality'', JStr (ue_modality e))] @
       opt_member (metrics \<noteq> []) ''metrics'' (JObj metrics) @
       opt_member (ue_tags e \<noteq> []) ''tags'' (JObj (map (\<lambda>(k, v). (k, JStr v)) (ue_tags e))))))"

text \<open>A member decoded into a map replaces the entry of its name.\<close>

definition dec_any_map :: "(string, goval) gomap decoder" where
  "dec_any_map j old =
     (case j of JNull \<Rightarrow> Inr [] | JObj kvs \<Rightarrow> Inr (fold (\<lambda>(k, v). gm_put k (goval_of_json v)) kvs old) | _ \<Rightarrow> Inl type_error)"

fun dec_string_members :: "(string \<times> json) list \<Rightarrow> (string, string) gomap \<Rightarrow> (string, string) gomap res" where
  "dec_string_members [] m = Inr m"
| "dec_string_members ((k, v) # kvs) m =
     bind_res (dec_string v []) (\<lambda>s. dec_string_members kvs (gm_put k s m))"

definition dec_string_map :: "(string, string) gomap decoder" where
  "dec_string_map j old =
     (case j of JNull \<Rightarrow> Inr [] | JObj kvs \<Rightarrow> dec_string_members kvs old | _ \<Rightarrow> Inl type_error)"

definition usage_event_fields :: "usage_event fields" where
  "usage_event_fields =
     [field ''organization_id'' dec_string ue_organization_id (\<lambda>x e. e\<lparr>ue_organization_id := x\<rparr>),
      field ''project_id'' dec_string ue_project_id (\<lambda>x e. e\<lparr>ue_project_id := x\<rparr>),
      field ''team_id'' dec_string ue_team_id (\<lambda>x e. e\<lparr>ue_team_id := x\<rparr>),
      field ''environment_id'' dec_string ue_environment_id (\<lambda>x e. e\<lparr>ue_environment_id := x\<rparr>),
      field ''api_key_id'' dec_string ue_api_key_id (\<lambda>x e. e\<lparr>ue_api_key_id := x\<rparr>),
      field ''signing_key_id'' dec_string ue_signing_key_id (\<lambda>x e. e\<lparr>ue_signing_key_id := x\<rparr>),
      field ''signer_key_id'' dec_string ue_signer_key_id (\<lambda>x e. e\<lparr>ue_signer_key_id := x\<rparr>),
      field ''auth_method'' dec_string ue_auth_method (\<lambda>x e. e\<lparr>ue_auth_method := x\<rparr>),
      field ''credential_id'' dec_string ue_credential_id (\<lambda>x e. e\<lparr>ue_credential_id := x\<rparr>),
      field ''used_byok'' dec_bool ue_used_byok (\<lambda>x e. e\<lparr>ue_used_byok := x\<rparr>),
      field ''model'' dec_string ue_model (\<lambda>x e. e\<lparr>ue_model := x\<rparr>),
      field ''provider_type'' dec_string ue_provider_type (\<lambda>x e. e\<lparr>ue_provider_type := x\<rparr>),
      field ''target_model'' dec_string ue_target_model (\<lambda>x e. e\<lparr>ue_target_model := x\<rparr>),
      field ''status'' dec_string ue_status (\<lambda>x e. e\<lparr>ue_status := x\<rparr>),
      field ''latency_ms'' dec_int ue_latency_ms (\<lambda>x e. e\<lparr>ue_latency_ms := x\<rparr>),
      field ''prompt_tokens'' dec_int ue_prompt_tokens (\<lambda>x e. e\<lparr>ue_prompt_tokens := x\<rparr>),
      field ''completion_tokens'' dec_int ue_completion_tokens (\<lambda>x e. e\<lparr>ue_completion_tokens := x\<rparr>),
      field ''modality'' dec_string ue_modality (\<lambda>x e. e\<lparr>ue_modality := x\<rparr>),
      field ''metrics'' dec_any_map ue_metrics (\<lambda>x e. e\<lparr>ue_metrics := x\<rparr>),
      field ''tags'' dec_string_map ue_tags (\<lambda>x e. e\<lparr>ue_tags := x\<rparr>)]"

definition decode_usage :: "json \<Rightarrow> usage_event res" where
  "decode_usage j = dec_struct usage_event_fields j zero_usage_event"

section \<open>Outbox tables\<close>

record outbox_row =
  br_id :: int
  br_payload :: json
  br_created_at :: gotime
  br_processed_at :: "gotime option"

record outbox =
  bx_rows :: "outbox_row list"
  bx_next :: int

definition empty_outbox :: outbox where
  "empty_outbox = \<lparr>bx_rows = [], bx_next = 1\<rparr>"

text \<open>A jsonb value has no character NUL in its strings: Postgres refuses the escape.\<close>

definition text_ok :: "string \<Rightarrow> bool" where "text_ok s \<longleftrightarrow> CHR 0x00 \<notin> set s"

fun jsonb_ok :: "json \<Rightarrow> bool" where
  "jsonb_ok (JStr s) = text_ok s"
| "jsonb_ok (JArr xs) = list_all jsonb_ok xs"
| "jsonb_ok (JObj kvs) = list_all (\<lambda>kv. text_ok (fst kv) \<and> jsonb_ok (snd kv)) kvs"
| "jsonb_ok _ = True"

definition unicode_escape_error :: err where
  "unicode_escape_error = Err ErrOther ''unsupported Unicode escape sequence''"

definition outbox_enqueue :: "gotime \<Rightarrow> json \<Rightarrow> (unit, outbox) storeop" where
  "outbox_enqueue now payload t =
     (if jsonb_ok payload then
        (Inr (), t\<lparr>bx_rows := bx_rows t @ [\<lparr>br_id = bx_next t, br_payload = payload, br_created_at = now, br_processed_at = None\<rparr>],
                   bx_next := bx_next t + 1\<rparr>)
      else (Inl unicode_escape_error, t))"

definition pending :: "outbox \<Rightarrow> outbox_row list" where
  "pending t = sort_key br_id (filter (\<lambda>r. br_processed_at r = None) (bx_rows t))"

definition claim_batch :: "int \<Rightarrow> (outbox_row list, outbox) storeop" where
  "claim_batch limit t = (Inr (take (nat limit) (pending t)), t)"

definition mark_processed :: "gotime \<Rightarrow> int \<Rightarrow> (unit, outbox) storeop" where
  "mark_processed now i t =
     (Inr (), t\<lparr>bx_rows := map (\<lambda>r. if br_id r = i then r\<lparr>br_processed_at := Some now\<rparr> else r) (bx_rows t)\<rparr>)"

section \<open>The worker\<close>

text \<open>The ports of the worker over a state: a source of payloads, a sink of usage, prices.\<close>

record 's outbox_source =
  oc_claim :: "int \<Rightarrow> (outbox_row list, 's) storeop"
  oc_mark :: "int \<Rightarrow> (unit, 's) storeop"

type_synonym 's usage_sink = "usage_event \<Rightarrow> rat option \<Rightarrow> (unit, 's) storeop"
type_synonym 's price_lookup = "string \<Rightarrow> string \<Rightarrow> ((rat \<times> rat) option, 's) storeop"

definition compute_cost_usd :: "int \<Rightarrow> int \<Rightarrow> rat \<Rightarrow> rat \<Rightarrow> rat option" where
  "compute_cost_usd prompt completion inp outp =
     (if inp < 0 \<or> outp < 0 then None
      else if prompt = 0 \<and> completion = 0 then None
      else Some (of_int prompt / 1000000 * inp + of_int completion / 1000000 * outp))"

definition estimate_usage_cost ::
  "registry \<Rightarrow> entries \<Rightarrow> 's price_lookup option \<Rightarrow> usage_event \<Rightarrow> (rat option, 's) storeop" where
  "estimate_usage_cost reg es prices e s =
     (let model = (if ue_target_model e = [] then ue_model e else ue_target_model e);
          catalog = (\<lambda>s. (Inr (estimate_cost_usd reg es e), s)) in
      case prices of
        None \<Rightarrow> catalog s
      | Some lookup \<Rightarrow>
          if ue_provider_type e = [] \<or> model = [] then catalog s
          else db_bind (lookup (ue_provider_type e) model) (\<lambda>p s. case p of
              None \<Rightarrow> catalog s
            | Some (inp, outp) \<Rightarrow> (Inr (compute_cost_usd (ue_prompt_tokens e) (ue_completion_tokens e) inp outp), s)) s)"

definition ingest_payload ::
  "registry \<Rightarrow> entries \<Rightarrow> 's usage_sink \<Rightarrow> 's price_lookup option \<Rightarrow> json \<Rightarrow> (unit, 's) storeop" where
  "ingest_payload reg es sink prices payload =
     db_check (decode_usage payload) (\<lambda>e. db_bind (estimate_usage_cost reg es prices e) (\<lambda>cost. sink e cost))"

text \<open>The loop over a claimed batch: how many were processed, and the error that ended it.\<close>

fun process_rows ::
  "'s outbox_source \<Rightarrow> (json \<Rightarrow> (unit, 's) storeop) \<Rightarrow> int \<Rightarrow> outbox_row list \<Rightarrow> 's \<Rightarrow> (int \<times> err option) \<times> 's" where
  "process_rows src deliver n [] s = ((n, None), s)"
| "process_rows src deliver n (r # rows) s =
     (case deliver (br_payload r) s of
        (Inl e, s1) \<Rightarrow> ((n, Some e), s1)
      | (Inr _, s1) \<Rightarrow>
          (case oc_mark src (br_id r) s1 of
             (Inl e, s2) \<Rightarrow> ((n, Some e), s2)
           | (Inr _, s2) \<Rightarrow> process_rows src deliver (n + 1) rows s2))"

definition process_batch ::
  "'s outbox_source \<Rightarrow> (json \<Rightarrow> (unit, 's) storeop) \<Rightarrow> 's \<Rightarrow> (int \<times> err option) \<times> 's" where
  "process_batch src deliver s =
     (case oc_claim src 50 s of
        (Inl e, s1) \<Rightarrow> ((0, Some e), s1)
      | (Inr rows, s1) \<Rightarrow> process_rows src deliver 0 rows s1)"

definition process_once ::
  "registry \<Rightarrow> entries \<Rightarrow> 's outbox_source \<Rightarrow> 's usage_sink \<Rightarrow> 's price_lookup option \<Rightarrow> 's \<Rightarrow> (int \<times> err option) \<times> 's" where
  "process_once reg es src sink prices = process_batch src (ingest_payload reg es sink prices)"

section \<open>The usage tables\<close>

text \<open>A row of \<^verbatim>\<open>usage_events\<close>: an event without its target model, with its cost.\<close>

record usage_row =
  uw_id :: int
  uw_organization_id :: string
  uw_project_id :: string
  uw_team_id :: string
  uw_environment_id :: string
  uw_api_key_id :: string
  uw_signing_key_id :: string
  uw_signer_key_id :: string
  uw_auth_method :: string
  uw_credential_id :: "string option"
  uw_used_byok :: bool
  uw_model :: string
  uw_provider_type :: string
  uw_status :: string
  uw_latency_ms :: int
  uw_prompt_tokens :: int
  uw_completion_tokens :: int
  uw_cost_usd :: "rat option"
  uw_modality :: string
  uw_metrics :: "(string \<times> json) list"
  uw_tags :: "(string, string) gomap"
  uw_created_at :: gotime

record metering_db =
  md_outbox :: outbox
  md_usage :: "usage_row list"
  md_next :: int
  md_prices :: "(string \<times> string, rat \<times> rat) gomap"
  md_events :: outbox

definition null_if_empty :: "string \<Rightarrow> string option" where
  "null_if_empty s = (if s = [] then None else Some s)"

definition usage_row_ok :: "usage_row \<Rightarrow> bool" where
  "usage_row_ok r \<longleftrightarrow>
     list_all text_ok [uw_organization_id r, uw_project_id r, uw_team_id r, uw_environment_id r, uw_api_key_id r,
       uw_signing_key_id r, uw_signer_key_id r, uw_auth_method r, or_blank (uw_credential_id r), uw_model r,
       uw_provider_type r, uw_status r, uw_modality r] \<and>
     jsonb_ok (JObj (uw_metrics r)) \<and> jsonb_ok (JObj (map (\<lambda>(k, v). (k, JStr v)) (uw_tags r)))"

text \<open>A text value with a NUL is refused like a jsonb value with one.\<close>

definition insert_usage_row :: "usage_row \<Rightarrow> (unit, metering_db) storeop" where
  "insert_usage_row r db =
     (if usage_row_ok r then (Inr (), db\<lparr>md_usage := md_usage db @ [r\<lparr>uw_id := md_next db\<rparr>], md_next := md_next db + 1\<rparr>)
      else (Inl unicode_escape_error, db))"

definition usage_row_of :: "gotime \<Rightarrow> (string \<times> json) list \<Rightarrow> usage_event \<Rightarrow> rat option \<Rightarrow> usage_row" where
  "usage_row_of now metrics e cost =
     \<lparr>uw_id = 0, uw_organization_id = ue_organization_id e, uw_project_id = ue_project_id e, uw_team_id = ue_team_id e,
      uw_environment_id = ue_environment_id e, uw_api_key_id = ue_api_key_id e, uw_signing_key_id = ue_signing_key_id e,
      uw_signer_key_id = ue_signer_key_id e, uw_auth_method = ue_auth_method e,
      uw_credential_id = null_if_empty (ue_credential_id e), uw_used_byok = ue_used_byok e, uw_model = ue_model e,
      uw_provider_type = ue_provider_type e, uw_status = ue_status e, uw_latency_ms = ue_latency_ms e,
      uw_prompt_tokens = ue_prompt_tokens e, uw_completion_tokens = ue_completion_tokens e, uw_cost_usd = cost,
      uw_modality = normalize_modality (ue_modality e), uw_metrics = metrics, uw_tags = ue_tags e, uw_created_at = now\<rparr>"

definition insert_usage :: "gotime \<Rightarrow> metering_db usage_sink" where
  "insert_usage now e0 cost =
     (let e = mark_byok e0 in
      db_check (encode_metrics (ue_metrics e)) (\<lambda>metrics. insert_usage_row (usage_row_of now metrics e cost)))"

definition lookup_model_price :: "metering_db price_lookup" where
  "lookup_model_price typ model db = (Inr (gm_get (md_prices db) (typ, model)), db)"

definition on_usage_outbox :: "('a, outbox) storeop \<Rightarrow> ('a, metering_db) storeop" where
  "on_usage_outbox op db = (case op (md_outbox db) of (r, t) \<Rightarrow> (r, db\<lparr>md_outbox := t\<rparr>))"

definition on_event_outbox :: "('a, outbox) storeop \<Rightarrow> ('a, metering_db) storeop" where
  "on_event_outbox op db = (case op (md_events db) of (r, t) \<Rightarrow> (r, db\<lparr>md_events := t\<rparr>))"

definition usage_source :: "gotime \<Rightarrow> metering_db outbox_source" where
  "usage_source now = \<lparr>oc_claim = \<lambda>n. on_usage_outbox (claim_batch n), oc_mark = \<lambda>i. on_usage_outbox (mark_processed now i)\<rparr>"

definition event_source :: "gotime \<Rightarrow> metering_db outbox_source" where
  "event_source now = \<lparr>oc_claim = \<lambda>n. on_event_outbox (claim_batch n), oc_mark = \<lambda>i. on_event_outbox (mark_processed now i)\<rparr>"

section \<open>Platform events\<close>

record domain_event =
  ve_id :: string
  ve_name :: string
  ve_resource_id :: string
  ve_organization_id :: string
  ve_actor_user_id :: string
  ve_at :: gotime
  ve_meta :: "(string, string) gomap"

text \<open>The zero value of \<^verbatim>\<open>time.Time\<close> is 0 here; times in JSON are written and read by the given functions.\<close>

definition zero_domain_event :: domain_event where
  "zero_domain_event = \<lparr>ve_id = [], ve_name = [], ve_resource_id = [], ve_organization_id = [], ve_actor_user_id = [],
     ve_at = 0, ve_meta = []\<rparr>"

definition encode_domain_event :: "(gotime \<Rightarrow> string) \<Rightarrow> domain_event \<Rightarrow> json" where
  "encode_domain_event show_time e = JObj (
     [(''id'', JStr (ve_id e)), (''name'', JStr (ve_name e))] @
     opt_member (ve_resource_id e \<noteq> []) ''resource_id'' (JStr (ve_resource_id e)) @
     opt_member (ve_organization_id e \<noteq> []) ''organization_id'' (JStr (ve_organization_id e)) @
     opt_member (ve_actor_user_id e \<noteq> []) ''actor_user_id'' (JStr (ve_actor_user_id e)) @
     [(''at'', JStr (show_time (ve_at e)))] @
     opt_member (ve_meta e \<noteq> []) ''meta'' (JObj (map (\<lambda>(k, v). (k, JStr v)) (ve_meta e))))"

definition dec_time :: "(string \<Rightarrow> gotime option) \<Rightarrow> gotime decoder" where
  "dec_time parse_time j old =
     (case j of JNull \<Rightarrow> Inr old
      | JStr s \<Rightarrow> (case parse_time s of None \<Rightarrow> Inl (Err ErrOther ''parsing time'') | Some t \<Rightarrow> Inr t)
      | _ \<Rightarrow> Inl type_error)"

definition decode_domain_event :: "(string \<Rightarrow> gotime option) \<Rightarrow> json \<Rightarrow> domain_event res" where
  "decode_domain_event parse_time j =
     dec_struct
       [field ''id'' dec_string ve_id (\<lambda>x e. e\<lparr>ve_id := x\<rparr>), field ''name'' dec_string ve_name (\<lambda>x e. e\<lparr>ve_name := x\<rparr>),
        field ''resource_id'' dec_string ve_resource_id (\<lambda>x e. e\<lparr>ve_resource_id := x\<rparr>),
        field ''organization_id'' dec_string ve_organization_id (\<lambda>x e. e\<lparr>ve_organization_id := x\<rparr>),
        field ''actor_user_id'' dec_string ve_actor_user_id (\<lambda>x e. e\<lparr>ve_actor_user_id := x\<rparr>),
        field ''at'' (dec_time parse_time) ve_at (\<lambda>x e. e\<lparr>ve_at := x\<rparr>),
        field ''meta'' dec_string_map ve_meta (\<lambda>x e. e\<lparr>ve_meta := x\<rparr>)] j zero_domain_event"

definition process_platform_events_once ::
  "(string \<Rightarrow> gotime option) \<Rightarrow> 's outbox_source \<Rightarrow> (domain_event \<Rightarrow> (unit, 's) storeop) option \<Rightarrow> 's \<Rightarrow> (int \<times> err option) \<times> 's" where
  "process_platform_events_once parse_time src pub s =
     (case pub of None \<Rightarrow> ((0, None), s)
      | Some publish \<Rightarrow> process_batch src (\<lambda>payload. db_check (decode_domain_event parse_time payload) publish) s)"

text \<open>
  The handler that puts events into the outbox: a missing identifier or time is filled in, a
  failure is only logged.
\<close>

definition outbox_handler ::
  "(gotime \<Rightarrow> string) \<Rightarrow> (json \<Rightarrow> (unit, 's) storeop) option \<Rightarrow> string \<Rightarrow> gotime \<Rightarrow> domain_event \<Rightarrow> 's \<Rightarrow> 's" where
  "outbox_handler show_time enq fresh now e s =
     (case enq of None \<Rightarrow> s
      | Some put \<Rightarrow>
          let e1 = (if ve_id e = [] then e\<lparr>ve_id := fresh\<rparr> else e); e2 = (if ve_at e1 = 0 then e1\<lparr>ve_at := now\<rparr> else e1)
          in snd (put (encode_domain_event show_time e2) s))"

text \<open>
  The bus: subscribers by name, run in their order, those of the name before those of all events.
  A subscriber changes a state and may panic (\<open>None\<close>), which is recovered; what it had
  changed before is part of the state the panic leaves.
\<close>

type_synonym 's subscriber = "domain_event \<Rightarrow> 's \<Rightarrow> bool \<times> 's"

record 's bus =
  bu_subs :: "(string, 's subscriber list) gomap"
  bu_on_panic :: "(domain_event \<Rightarrow> 's \<Rightarrow> 's) option"

definition EventAll :: string where "EventAll = ''*''"

definition subscribers :: "'s bus \<Rightarrow> string \<Rightarrow> 's subscriber list" where
  "subscribers b name = (case gm_get (bu_subs b) name of None \<Rightarrow> [] | Some hs \<Rightarrow> hs)"

definition bus_subscribe :: "string \<Rightarrow> 's subscriber \<Rightarrow> 's bus \<Rightarrow> 's bus" where
  "bus_subscribe name h b = b\<lparr>bu_subs := gm_put name (subscribers b name @ [h]) (bu_subs b)\<rparr>"

definition run_subscriber :: "(domain_event \<Rightarrow> 's \<Rightarrow> 's) option \<Rightarrow> domain_event \<Rightarrow> 's subscriber \<Rightarrow> 's \<Rightarrow> 's" where
  "run_subscriber on_panic e h s =
     (case h e s of (panicked, s1) \<Rightarrow>
        if panicked then (case on_panic of None \<Rightarrow> s1 | Some f \<Rightarrow> f e s1) else s1)"

definition bus_record :: "'s bus \<Rightarrow> string \<Rightarrow> gotime \<Rightarrow> domain_event \<Rightarrow> 's \<Rightarrow> 's" where
  "bus_record b fresh now e s =
     (let e1 = (if ve_id e = [] then e\<lparr>ve_id := fresh\<rparr> else e); e2 = (if ve_at e1 = 0 then e1\<lparr>ve_at := now\<rparr> else e1)
      in fold (run_subscriber (bu_on_panic b) e2) (subscribers b (ve_name e2) @ subscribers b EventAll) s)"

record memory_recorder =
  mr_limit :: int
  mr_items :: "domain_event list"

definition new_memory_recorder :: "int \<Rightarrow> memory_recorder" where
  "new_memory_recorder limit = \<lparr>mr_limit = (if limit \<le> 0 then 256 else limit), mr_items = []\<rparr>"

definition memory_record :: "domain_event \<Rightarrow> memory_recorder \<Rightarrow> memory_recorder" where
  "memory_record e m =
     (let items = mr_items m @ [e] in
      m\<lparr>mr_items := (if int (length items) > mr_limit m then drop (nat (int (length items) - mr_limit m)) items else items)\<rparr>)"

section \<open>What a gateway does with its usage events\<close>

record gateway_usage_config =
  gu_backend :: string
  gu_region_id :: string
  gu_deployment_id :: string
  gu_usage_sync :: bool

text \<open>The tags of region and deployment; over HTTP the deployment is always named.\<close>

definition tag_origin :: "gateway_usage_config \<Rightarrow> bool \<Rightarrow> usage_event \<Rightarrow> usage_event" where
  "tag_origin cfg always e =
     (if gu_region_id cfg = [] then e
      else e\<lparr>ue_tags := (if always \<or> gu_deployment_id cfg \<noteq> [] then gm_put ''deployment_id'' (gu_deployment_id cfg) else id)
          (gm_put ''region'' (gu_region_id cfg) (ue_tags e))\<rparr>)"

text \<open>An event that cannot be encoded, sent or stored is logged and dropped.\<close>

definition hand_over :: "(json \<Rightarrow> (unit, 's) storeop) \<Rightarrow> usage_event \<Rightarrow> 's \<Rightarrow> 's" where
  "hand_over put e s = (case encode_usage e of Inl _ \<Rightarrow> s | Inr payload \<Rightarrow> snd (put payload s))"

definition enqueue_usage :: "gotime \<Rightarrow> json \<Rightarrow> (unit, metering_db) storeop" where
  "enqueue_usage now payload = on_usage_outbox (outbox_enqueue now payload)"

text \<open>The three back ends; \<open>ship\<close> posts a payload to the hub.\<close>

definition gateway_usage ::
  "registry \<Rightarrow> entries \<Rightarrow> gateway_usage_config \<Rightarrow> gotime \<Rightarrow> (json \<Rightarrow> (unit, metering_db) storeop) \<Rightarrow> usage_event \<Rightarrow> metering_db \<Rightarrow> metering_db" where
  "gateway_usage reg es cfg now ship e db =
     (if gu_backend cfg = ''http'' then hand_over ship (tag_origin cfg True e) db
      else if gu_usage_sync cfg then hand_over (ingest_payload reg es (insert_usage now) (Some lookup_model_price)) e db
      else hand_over (enqueue_usage now) (tag_origin cfg False e) db)"

subsection \<open>Reports at the hub\<close>

text \<open>
  The client of a deployment; \<open>post\<close> is the HTTP exchange: the status of the answer, or an
  error. The base address and the token are trimmed.
\<close>

record hub_client =
  hc_base_url :: string
  hc_join_token :: string

definition trim_right_char :: "char \<Rightarrow> string \<Rightarrow> string" where
  "trim_right_char c s = rev (dropWhile (\<lambda>x. x = c) (rev s))"

definition new_hub_client :: "string \<Rightarrow> string \<Rightarrow> hub_client" where
  "new_hub_client base token = \<lparr>hc_base_url = trim_right_char CHR ''/'' (trim_space base), hc_join_token = trim_space token\<rparr>"

definition ship_usage ::
  "(string \<Rightarrow> string \<Rightarrow> json \<Rightarrow> 's \<Rightarrow> int res \<times> 's) \<Rightarrow> hub_client \<Rightarrow> string \<Rightarrow> json \<Rightarrow> (unit, 's) storeop" where
  "ship_usage post c dep payload s =
     (if hc_base_url c = [] \<or> hc_join_token c = [] \<or> dep = []
        then (Inl (Err ErrOther ''hubclient: usage ship not configured''), s)
      else (case post (hc_base_url c @ ''/internal/v1/deployments/'' @ dep @ ''/usage'') (hc_join_token c) payload s of
          (Inl e, s1) \<Rightarrow> (Inl e, s1)
        | (Inr status, s1) \<Rightarrow> (if status \<ge> 300 then (Inl (Err ErrOther ''hubclient usage: status''), s1) else (Inr (), s1))))"

text \<open>What the hub keeps of a report: the counters of region, status and modality.\<close>

record spoke_usage =
  su_region :: string
  su_status :: string
  su_modality :: string
  su_prompt_tokens :: int
  su_completion_tokens :: int

definition tag_of :: "string \<Rightarrow> (string, string) gomap \<Rightarrow> string" where
  "tag_of name tags = or_blank (gm_get tags name)"

definition observe_report :: "(string \<Rightarrow> json option) \<Rightarrow> string \<Rightarrow> (unit, spoke_usage list) storeop" where
  "observe_report parse payload seen =
     (case parse payload of None \<Rightarrow> (Inl (Err ErrOther ''invalid character''), seen)
      | Some j \<Rightarrow> db_check (decode_usage j) (\<lambda>e seen.
          (Inr (), seen @ [\<lparr>su_region = tag_of ''region'' (ue_tags e), su_status = ue_status e,
             su_modality = normalize_modality (ue_modality e), su_prompt_tokens = ue_prompt_tokens e,
             su_completion_tokens = ue_completion_tokens e\<rparr>])) seen)"

definition StatusAccepted :: nat where "StatusAccepted = 202"

definition deployment_join_token_from :: "http_request \<Rightarrow> string" where
  "deployment_join_token_from r =
     (let t = trim_space (header_get r ''X-AFI-Deployment-Token''); h = header_get r ''Authorization'' in
      if t \<noteq> [] then t else if has_prefix h ''Bearer '' then trim_space (trim_prefix h ''Bearer '') else [])"

definition handle_deployment_usage_ingest ::
  "(string \<Rightarrow> string) \<Rightarrow> (string \<Rightarrow> (unit, 's) storeop) option \<Rightarrow> region_db \<Rightarrow> string \<Rightarrow> http_request \<Rightarrow> string res \<Rightarrow> 's \<Rightarrow>
   unit reply \<times> 's" where
  "handle_deployment_usage_ingest sha enq rdb dep rq body s =
     (case svc_authenticate_join_token sha rdb (deployment_join_token_from rq) of
        Inl e \<Rightarrow> ((if err_is e ErrUnauthorized then Failed StatusUnauthorized ''unauthorized'' else internal_error e), s)
      | Inr d \<Rightarrow>
          if gd_id d \<noteq> dep then (Failed StatusUnauthorized ''unauthorized'', s)
          else (case bind_res body (\<lambda>raw. Inr (take (1024 * 1024) raw)) of
              Inl _ \<Rightarrow> (Failed StatusBadRequest ''payload required'', s)
            | Inr payload \<Rightarrow>
                if payload = [] then (Failed StatusBadRequest ''payload required'', s)
                else (case enq of None \<Rightarrow> (Failed StatusServiceUnavailable ''usage ingest unavailable'', s)
                  | Some put \<Rightarrow> (case put payload s of
                        (Inl e, s1) \<Rightarrow> (internal_error e, s1) | (Inr _, s1) \<Rightarrow> (Reply StatusAccepted (), s1)))))"

end
