(* ===== verification/Usage_Reports.thy ===== *)
theory Usage_Reports
  imports Metering
begin

text \<open>
  Reading the usage tables: lists, reports for the hub, summaries and provider health
  (\<^verbatim>\<open>src/internal/adapters/postgres/usage.go\<close>, \<^verbatim>\<open>src/internal/usage/reporting.go\<close>), the
  reports a hub pulls from its regions and merges with its own
  (\<^verbatim>\<open>src/internal/controlplane/usage_federation.go\<close>), and the handlers
  (\<^verbatim>\<open>http_usage.go\<close>, \<^verbatim>\<open>http_federation.go\<close>). Costs and metrics are exact rationals. Where a
  query or \<^verbatim>\<open>sort.Slice\<close> leaves the order of equals open, they stay in the order they came in.
\<close>

section \<open>Records and filters\<close>

record usage_record =
  ur_id :: int
  ur_organization_id :: string
  ur_project_id :: string
  ur_project_name :: string
  ur_api_key_id :: string
  ur_signing_key_id :: string
  ur_signer_key_id :: string
  ur_auth_method :: string
  ur_credential_id :: string
  ur_credential_name :: string
  ur_used_byok :: bool
  ur_model :: string
  ur_provider_type :: string
  ur_status :: string
  ur_latency_ms :: int
  ur_prompt_tokens :: int
  ur_completion_tokens :: int
  ur_modality :: string
  ur_metrics :: "(string, goval) gomap"
  ur_tags :: "(string, string) gomap"
  ur_cost_usd :: "rat option"
  ur_created_at :: gotime
  ur_key_name :: string
  ur_key_kind :: string
  ur_owner_user_id :: string
  ur_owner_email :: string
  ur_owner_name :: string

record usage_filter =
  uf_limit :: int
  uf_project_id :: string
  uf_api_key_id :: string
  uf_credential_id :: string
  uf_model :: string
  uf_modality :: string
  uf_exclude_byok :: bool
  uf_byok_only :: bool
  uf_from :: "gotime option"
  uf_to :: "gotime option"
  uf_group_by :: string

text \<open>The tables a list joins, by their keys: keys with owner, users, projects, credentials.\<close>

record joined_key =
  jk_name :: string
  jk_kind :: string
  jk_owner_user_id :: string

record joined_tables =
  jt_keys :: "(string, joined_key) gomap"
  jt_users :: "(string, string \<times> string) gomap"
  jt_projects :: "(string, string) gomap"
  jt_credentials :: "(string, string) gomap"

text \<open>A condition that is there only when the filter's value is.\<close>

definition where_set :: "string \<Rightarrow> string option \<Rightarrow> bool" where
  "where_set v col \<longleftrightarrow> v \<noteq> [] \<longrightarrow> col = Some v"

definition usage_where :: "string \<Rightarrow> usage_filter \<Rightarrow> usage_row \<Rightarrow> bool" where
  "usage_where org f r \<longleftrightarrow>
     uw_organization_id r = org \<and> where_set (uf_project_id f) (Some (uw_project_id r)) \<and>
     where_set (uf_api_key_id f) (Some (uw_api_key_id r)) \<and> where_set (uf_credential_id f) (uw_credential_id r) \<and>
     where_set (uf_model f) (Some (uw_model r)) \<and> where_set (uf_modality f) (Some (uw_modality r)) \<and>
     (uf_exclude_byok f \<longrightarrow> \<not> uw_used_byok r) \<and> (uf_byok_only f \<longrightarrow> uw_used_byok r) \<and>
     (case uf_from f of None \<Rightarrow> True | Some t \<Rightarrow> uw_created_at r \<ge> t) \<and>
     (case uf_to f of None \<Rightarrow> True | Some t \<Rightarrow> uw_created_at r < t)"

definition decode_row_metrics :: "(string \<times> json) list \<Rightarrow> (string, goval) gomap" where
  "decode_row_metrics kvs = fold (\<lambda>(k, v). gm_put k (goval_of_json v)) kvs []"

text \<open>A row without the joined names; the lists of reports leave them blank.\<close>

definition report_record :: "usage_row \<Rightarrow> usage_record" where
  "report_record r =
     \<lparr>ur_id = uw_id r, ur_organization_id = uw_organization_id r, ur_project_id = uw_project_id r, ur_project_name = [],
      ur_api_key_id = uw_api_key_id r, ur_signing_key_id = uw_signing_key_id r, ur_signer_key_id = uw_signer_key_id r,
      ur_auth_method = uw_auth_method r, ur_credential_id = or_blank (uw_credential_id r), ur_credential_name = [],
      ur_used_byok = uw_used_byok r, ur_model = uw_model r, ur_provider_type = uw_provider_type r,
      ur_status = uw_status r, ur_latency_ms = uw_latency_ms r, ur_prompt_tokens = uw_prompt_tokens r,
      ur_completion_tokens = uw_completion_tokens r, ur_modality = uw_modality r,
      ur_metrics = decode_row_metrics (uw_metrics r), ur_tags = uw_tags r, ur_cost_usd = uw_cost_usd r,
      ur_created_at = uw_created_at r, ur_key_name = [], ur_key_kind = [], ur_owner_user_id = [], ur_owner_email = [],
      ur_owner_name = []\<rparr>"

definition list_record :: "joined_tables \<Rightarrow> usage_row \<Rightarrow> usage_record" where
  "list_record jt r =
     (let k = gm_get (jt_keys jt) (uw_api_key_id r);
          u = Option.bind k (\<lambda>k. gm_get (jt_users jt) (jk_owner_user_id k)) in
      (report_record r)\<lparr>ur_key_name := or_blank (map_option jk_name k), ur_key_kind := or_blank (map_option jk_kind k),
        ur_owner_user_id := or_blank (map_option jk_owner_user_id k), ur_owner_email := or_blank (map_option fst u),
        ur_owner_name := or_blank (map_option snd u),
        ur_project_name := or_blank (Option.bind (null_if_empty (uw_project_id r)) (gm_get (jt_projects jt))),
        ur_credential_name := or_blank (Option.bind (uw_credential_id r) (gm_get (jt_credentials jt)))\<rparr>)"

text \<open>A record inserted as it is, with the tables' own time; it has no team, environment or target.\<close>

definition insert_record :: "gotime \<Rightarrow> usage_record \<Rightarrow> (unit, metering_db) storeop" where
  "insert_record now e =
     db_check (encode_metrics (ur_metrics e)) (\<lambda>metrics. insert_usage_row
       \<lparr>uw_id = 0, uw_organization_id = ur_organization_id e, uw_project_id = ur_project_id e, uw_team_id = [],
        uw_environment_id = [], uw_api_key_id = ur_api_key_id e, uw_signing_key_id = ur_signing_key_id e,
        uw_signer_key_id = ur_signer_key_id e, uw_auth_method = ur_auth_method e,
        uw_credential_id = null_if_empty (ur_credential_id e), uw_used_byok = (ur_credential_id e \<noteq> []),
        uw_model = ur_model e, uw_provider_type = ur_provider_type e, uw_status = ur_status e,
        uw_latency_ms = ur_latency_ms e, uw_prompt_tokens = ur_prompt_tokens e,
        uw_completion_tokens = ur_completion_tokens e, uw_cost_usd = ur_cost_usd e,
        uw_modality = normalize_modality (ur_modality e), uw_metrics = metrics, uw_tags = ur_tags e, uw_created_at = now\<rparr>)"

definition newest :: "usage_row list \<Rightarrow> usage_row list" where
  "newest = sort_key (\<lambda>r. - uw_created_at r)"

definition list_usage :: "joined_tables \<Rightarrow> string \<Rightarrow> usage_filter \<Rightarrow> usage_row list \<Rightarrow> usage_record list" where
  "list_usage jt org f rows =
     (let limit = (if uf_limit f \<le> 0 \<or> uf_limit f > 200 then 50 else uf_limit f) in
      map (list_record jt) (take (nat limit) (newest (filter (usage_where org f) rows))))"

text \<open>A time that is set and not zero restricts the reports.\<close>

definition set_time :: "gotime option \<Rightarrow> gotime option" where
  "set_time t = (case t of None \<Rightarrow> None | Some x \<Rightarrow> if x = 0 then None else Some x)"

definition list_reports_since ::
  "string \<Rightarrow> gotime option \<Rightarrow> gotime option \<Rightarrow> int \<Rightarrow> usage_row list \<Rightarrow> usage_record list" where
  "list_reports_since org0 since until limit0 rows =
     (let limit = (if limit0 \<le> 0 \<or> limit0 > 500 then 100 else limit0); org = trim_space org0 in
      map report_record (take (nat limit) (newest (filter (\<lambda>r.
        where_set org (Some (uw_organization_id r)) \<and>
        (case set_time since of None \<Rightarrow> True | Some t \<Rightarrow> uw_created_at r \<ge> t) \<and>
        (case set_time until of None \<Rightarrow> True | Some t \<Rightarrow> uw_created_at r < t)) rows))))"

section \<open>Summaries\<close>

record summary_bucket =
  sb_bucket :: string
  sb_label :: string
  sb_requests :: int
  sb_cost_usd :: rat
  sb_prompt_tokens :: int
  sb_completion_tokens :: int
  sb_metrics :: "(string, rat) gomap"
  sb_key_kind :: string
  sb_owner_email :: string
  sb_owner_name :: string

definition metric_sum :: "string \<Rightarrow> usage_row list \<Rightarrow> rat" where
  "metric_sum key rows = sum_list (map (\<lambda>r. case jmember key (JObj (uw_metrics r)) of Some (JNum x) \<Rightarrow> x | _ \<Rightarrow> 0) rows)"

text \<open>Bucket of a row and the joined columns it is also grouped by.\<close>

definition row_bucket :: "joined_tables \<Rightarrow> string \<Rightarrow> usage_row \<Rightarrow> string \<times> string \<times> string \<times> string \<times> string" where
  "row_bucket jt group_by r =
     (let no_names = (\<lambda>b. (b, [], [], [], [])) in
      if group_by = ''day'' then no_names (format_date (uw_created_at r))
      else if group_by = ''model'' then no_names (uw_model r)
      else if group_by = ''modality'' then no_names (uw_modality r)
      else if group_by = ''byok'' then no_names (if uw_used_byok r then ''byok'' else ''platform'')
      else (let l = list_record jt r in (uw_api_key_id r, ur_key_name l, ur_key_kind l, ur_owner_email l, ur_owner_name l)))"

definition bucket_label :: "string \<Rightarrow> string \<Rightarrow> string \<Rightarrow> string" where
  "bucket_label group_by bucket name =
     (if group_by = ''key'' then (if name = [] then bucket else name)
      else if group_by = ''byok'' then (if bucket = ''byok'' then ''BYOK'' else if bucket = ''platform'' then ''Platform'' else bucket)
      else bucket)"

definition summary_of ::
  "string \<Rightarrow> string \<times> string \<times> string \<times> string \<times> string \<Rightarrow> usage_row list \<Rightarrow> summary_bucket" where
  "summary_of group_by g rows =
     (case g of (bucket, name, kind, email, owner) \<Rightarrow>
        \<lparr>sb_bucket = bucket, sb_label = bucket_label group_by bucket name, sb_requests = int (length rows),
         sb_cost_usd = sum_list (map (\<lambda>r. case uw_cost_usd r of None \<Rightarrow> 0 | Some c \<Rightarrow> c) rows),
         sb_prompt_tokens = sum_list (map uw_prompt_tokens rows),
         sb_completion_tokens = sum_list (map uw_completion_tokens rows),
         sb_metrics = filter (\<lambda>(k, x). x \<noteq> 0) (map (\<lambda>k. (k, metric_sum k rows)) [''characters'', ''audio_seconds'', ''images'', ''tokens'']),
         sb_key_kind = kind, sb_owner_email = email, sb_owner_name = owner\<rparr>)"

definition group_names :: "string list" where
  "group_names = [''day'', ''model'', ''modality'', ''byok'', ''key'']"

text \<open>
  A sum of a bigint column is a numeric; one that does not fit \<^verbatim>\<open>bigint\<close> is an error of the cast.
\<close>

definition bigint_error :: err where "bigint_error = Err ErrOther ''bigint out of range''"

definition thirty_days :: duration where "thirty_days = 30 * 24 * hour"

definition summarize ::
  "joined_tables \<Rightarrow> gotime \<Rightarrow> string \<Rightarrow> usage_filter \<Rightarrow> usage_row list \<Rightarrow> summary_bucket list res" where
  "summarize jt now org f rows0 =
     (let group_by = (if uf_group_by f = [] then ''day'' else uf_group_by f);
          ff = (if uf_from f = None \<and> uf_to f = None \<and> group_by = ''day'' then f\<lparr>uf_from := Some (now - thirty_days)\<rparr> else f);
          rows = filter (usage_where org ff) rows0;
          buckets = map (\<lambda>g. summary_of group_by g (filter (\<lambda>r. row_bucket jt group_by r = g) rows))
            (remdups (map (row_bucket jt group_by) rows)) in
      if group_by \<notin> set group_names then Inl (invalid_request ''group_by must be day, model, key, modality, or byok'')
      else if \<not> list_all (\<lambda>b. fits_i64 (sb_prompt_tokens b) \<and> fits_i64 (sb_completion_tokens b)) buckets then Inl bigint_error
      else Inr (if group_by = ''day'' then sort_key sb_bucket buckets else sort_key (\<lambda>b. - sb_requests b) buckets))"

section \<open>Provider health\<close>

record provider_health =
  ph_provider_id :: string
  ph_name :: string
  ph_type :: string
  ph_requests :: int
  ph_errors :: int
  ph_error_rate :: rat
  ph_avg_latency_ms :: rat
  ph_status :: string

definition classify_provider_health :: "int \<Rightarrow> int \<Rightarrow> rat \<Rightarrow> string" where
  "classify_provider_health requests errors rate =
     (if requests = 0 then ''unknown''
      else if rate \<ge> 9 / 10 \<or> (requests \<ge> 3 \<and> errors = requests) then ''down''
      else if rate \<ge> 2 / 10 then ''degraded''
      else ''healthy'')"

text \<open>
  A provider with the events of its organization for the models of the routes it is the primary
  of: one per route and event, so an event counts for every such route of its model.
\<close>

record health_provider =
  hp_id :: string
  hp_name :: string
  hp_type :: string
  hp_organization_id :: string
  hp_route_models :: "string list"

definition provider_events :: "gotime \<Rightarrow> gotime \<Rightarrow> usage_row list \<Rightarrow> health_provider \<Rightarrow> usage_row list" where
  "provider_events from til rows p =
     concat (map (\<lambda>m. filter (\<lambda>r. uw_organization_id r = hp_organization_id p \<and> uw_model r = m \<and>
       uw_created_at r \<ge> from \<and> uw_created_at r < til) rows) (hp_route_models p))"

definition health_of :: "health_provider \<Rightarrow> usage_row list \<Rightarrow> provider_health" where
  "health_of p es =
     (let n = int (length es); errors = int (length (filter (\<lambda>r. uw_status r \<noteq> ''ok'') es));
          rate = (if n > 0 then of_int errors / of_int n else 0) in
      \<lparr>ph_provider_id = hp_id p, ph_name = hp_name p, ph_type = hp_type p, ph_requests = n, ph_errors = errors,
       ph_error_rate = rate,
       ph_avg_latency_ms = (if n > 0 then of_int (sum_list (map uw_latency_ms es)) / of_int n else 0),
       ph_status = classify_provider_health n errors rate\<rparr>)"

definition list_provider_health ::
  "gotime \<Rightarrow> string \<Rightarrow> gotime \<Rightarrow> gotime \<Rightarrow> health_provider list \<Rightarrow> usage_row list \<Rightarrow> provider_health list" where
  "list_provider_health now org from0 til0 provs rows =
     (let from = (if from0 = 0 then now - 24 * hour else from0); til = (if til0 = 0 then now + hour else til0) in
      map (\<lambda>p. health_of p (provider_events from til rows p))
        (sort_key hp_name (filter (\<lambda>p. hp_organization_id p = org) provs)))"

section \<open>Reports of the regions\<close>

text \<open>Opening the token the hub keeps of a peer.\<close>

definition open_peer_token :: "(string \<Rightarrow> string res) option \<Rightarrow> region_db \<Rightarrow> string \<Rightarrow> string res" where
  "open_peer_token box rdb i =
     bind_res (fs_get_peer rdb i) (\<lambda>p.
       if pe_join_token_enc p = [] then Inl (invalid_request ''peer join token not retained; rotate the join token'')
       else (case box of None \<Rightarrow> Inl (Err ErrOther ''federation token key not configured'') | Some unseal \<Rightarrow> unseal (pe_join_token_enc p)))"

text \<open>
  The client that asks a region for reports: \<open>get\<close> is the HTTP exchange on an address with a
  token and a query, giving the decoded reports.
\<close>

definition usage_reports_query :: "(gotime \<Rightarrow> string) \<Rightarrow> string \<Rightarrow> gotime option \<Rightarrow> gotime option \<Rightarrow> int \<Rightarrow> (string, string) gomap" where
  "usage_reports_query show_time org0 since until limit =
     (let org = trim_space org0 in
      (if org = [] then [] else [(''org_id'', org)]) @
      (case set_time since of None \<Rightarrow> [] | Some t \<Rightarrow> [(''since'', show_time t)]) @
      (case set_time until of None \<Rightarrow> [] | Some t \<Rightarrow> [(''until'', show_time t)]) @
      (if limit > 0 then [(''limit'', show_int limit)] else []))"

type_synonym usage_get = "string \<Rightarrow> string \<Rightarrow> (string, string) gomap \<Rightarrow> usage_record list res"

definition usage_reports_client ::
  "usage_get \<Rightarrow> (gotime \<Rightarrow> string) \<Rightarrow> string \<Rightarrow> string \<Rightarrow> string \<Rightarrow> gotime option \<Rightarrow> gotime option \<Rightarrow> int \<Rightarrow> usage_record list res" where
  "usage_reports_client get show_time base0 token0 org since until limit =
     (let base = trim_right_char CHR ''/'' (trim_space base0); token = trim_space token0 in
      if base = [] \<or> token = [] then Inl (Err ErrOther ''federationclient: usage reports not configured'')
      else get (base @ ''/internal/v1/federation/usage-reports'') token (usage_reports_query show_time org since until limit))"

definition usage_matches_filter :: "usage_record \<Rightarrow> string \<Rightarrow> usage_filter \<Rightarrow> bool" where
  "usage_matches_filter e org f \<longleftrightarrow>
     ur_organization_id e = org \<and>
     \<not> (uf_project_id f \<noteq> [] \<and> ur_project_id e \<noteq> uf_project_id f) \<and>
     \<not> (uf_api_key_id f \<noteq> [] \<and> ur_api_key_id e \<noteq> uf_api_key_id f) \<and>
     \<not> (uf_credential_id f \<noteq> [] \<and> ur_credential_id e \<noteq> uf_credential_id f) \<and>
     \<not> (uf_model f \<noteq> [] \<and> ur_model e \<noteq> uf_model f) \<and>
     \<not> (uf_modality f \<noteq> [] \<and> normalize_modality (ur_modality e) \<noteq> normalize_modality (uf_modality f)) \<and>
     \<not> (uf_exclude_byok f \<and> ur_used_byok e) \<and> \<not> (uf_byok_only f \<and> \<not> ur_used_byok e) \<and>
     (case uf_from f of None \<Rightarrow> True | Some t \<Rightarrow> \<not> ur_created_at e < t) \<and>
     (case uf_to f of None \<Rightarrow> True | Some t \<Rightarrow> ur_created_at e < t)"

text \<open>What the hub knows when it asks: its mode, its peers and their tokens.\<close>

record usage_hub =
  uh_mode :: string
  uh_regions :: region_db
  uh_box :: "(string \<Rightarrow> string res) option"
  uh_get :: usage_get
  uh_show_time :: "gotime \<Rightarrow> string"

definition tag_report :: "region_db \<Rightarrow> peer \<Rightarrow> usage_record \<Rightarrow> usage_record" where
  "tag_report rdb p rep =
     (let tags = (if tag_of ''region'' (ur_tags rep) = []
          then (case rs_get_region rdb (pe_region_id p) of Inl _ \<Rightarrow> ur_tags rep
            | Inr r \<Rightarrow> gm_put ''region'' (rgn_slug r) (ur_tags rep)) else ur_tags rep)
      in rep\<lparr>ur_tags := gm_put ''federation_peer_id'' (pe_id p) tags\<rparr>)"

definition spoke_usage_of :: "usage_record \<Rightarrow> spoke_usage" where
  "spoke_usage_of rep =
     \<lparr>su_region = tag_of ''region'' (ur_tags rep), su_status = ur_status rep, su_modality = normalize_modality (ur_modality rep),
      su_prompt_tokens = ur_prompt_tokens rep, su_completion_tokens = ur_completion_tokens rep\<rparr>"

text \<open>A peer's reports: those kept, and those counted. A peer that cannot be asked is skipped.\<close>

definition fetch_peer_usage ::
  "usage_hub \<Rightarrow> string \<Rightarrow> usage_filter \<Rightarrow> peer \<Rightarrow> usage_record list \<times> spoke_usage list" where
  "fetch_peer_usage h org f p =
     (if pe_status p = PeerStatusDisabled \<or> trim_space (pe_base_url p) = [] then ([], [])
      else (case open_peer_token (uh_box h) (uh_regions h) (pe_id p) of
          Inl _ \<Rightarrow> ([], [])
        | Inr token \<Rightarrow>
            if token = [] then ([], [])
            else (case usage_reports_client (uh_get h) (uh_show_time h) (pe_base_url p) token org (uf_from f) (uf_to f) 500 of
                Inl _ \<Rightarrow> ([], [])
              | Inr reports \<Rightarrow>
                  (map (tag_report (uh_regions h) p) (filter (\<lambda>e. usage_matches_filter e org f) reports),
                   map spoke_usage_of reports))))"

definition fetch_federation_usage_for_org :: "usage_hub \<Rightarrow> string \<Rightarrow> usage_filter \<Rightarrow> usage_record list" where
  "fetch_federation_usage_for_org h org f =
     (if uh_mode h \<noteq> ''home'' \<or> trim_space org = [] then []
      else concat (map (\<lambda>p. fst (fetch_peer_usage h org f p)) (fs_list_peers (uh_regions h))))"

definition merge_usage_events :: "usage_record list \<Rightarrow> usage_record list \<Rightarrow> int \<Rightarrow> usage_record list" where
  "merge_usage_events loc remote limit =
     take (nat (if limit \<le> 0 then 50 else limit)) (sort_key (\<lambda>e. - ur_created_at e) (loc @ remote))"

subsection \<open>Summaries of reports\<close>

definition usage_summary_bucket_key :: "usage_record \<Rightarrow> string \<Rightarrow> string \<times> string" where
  "usage_summary_bucket_key e group_by =
     (if group_by = ''model'' then (ur_model e, ur_model e)
      else if group_by = ''key'' then
        (let i = (if ur_api_key_id e = [] then ''unknown'' else ur_api_key_id e)
         in (i, if ur_key_name e = [] then i else ur_key_name e))
      else if group_by = ''modality'' then (normalize_modality (ur_modality e), normalize_modality (ur_modality e))
      else if group_by = ''byok'' then (if ur_used_byok e then (''byok'', ''BYOK'') else (''platform'', ''Platform''))
      else (format_date (ur_created_at e), format_date (ur_created_at e)))"

definition add_metric :: "string \<times> rat \<Rightarrow> (string, rat) gomap \<Rightarrow> (string, rat) gomap" where
  "add_metric kx m = gm_put (fst kx) ((case gm_get m (fst kx) of None \<Rightarrow> 0 | Some y \<Rightarrow> y) + snd kx) m"

text \<open>The metrics that are counted are those of the types \<^verbatim>\<open>float64\<close>, \<^verbatim>\<open>int\<close> and \<^verbatim>\<open>int64\<close>.\<close>

definition counted_metric :: "string \<times> goval \<Rightarrow> (string \<times> rat) option" where
  "counted_metric kv =
     (case snd kv of GFloat64 x \<Rightarrow> Some (fst kv, x) | GInt n \<Rightarrow> Some (fst kv, of_int n) | GInt64 n \<Rightarrow> Some (fst kv, of_int n)
      | _ \<Rightarrow> None)"

definition zero_bucket :: "usage_record \<Rightarrow> string \<Rightarrow> summary_bucket" where
  "zero_bucket e group_by =
     (case usage_summary_bucket_key e group_by of (b, l) \<Rightarrow>
        \<lparr>sb_bucket = b, sb_label = l, sb_requests = 0, sb_cost_usd = 0, sb_prompt_tokens = 0, sb_completion_tokens = 0,
         sb_metrics = [], sb_key_kind = ur_key_kind e, sb_owner_email = ur_owner_email e, sb_owner_name = ur_owner_name e\<rparr>)"

definition add_record :: "string \<Rightarrow> usage_record \<Rightarrow> (string, summary_bucket) gomap \<Rightarrow> (string, summary_bucket) gomap" where
  "add_record group_by e by =
     (let b = fst (usage_summary_bucket_key e group_by);
          a = (case gm_get by b of None \<Rightarrow> zero_bucket e group_by | Some a \<Rightarrow> a) in
      gm_put b (a\<lparr>sb_requests := i64 (sb_requests a + 1), sb_prompt_tokens := i64 (sb_prompt_tokens a + ur_prompt_tokens e),
        sb_completion_tokens := i64 (sb_completion_tokens a + ur_completion_tokens e),
        sb_cost_usd := sb_cost_usd a + (case ur_cost_usd e of None \<Rightarrow> 0 | Some c \<Rightarrow> c),
        sb_metrics := fold add_metric (List.map_filter counted_metric (ur_metrics e)) (sb_metrics a)\<rparr>) by)"

definition summarize_usage_records :: "usage_record list \<Rightarrow> string \<Rightarrow> summary_bucket list" where
  "summarize_usage_records records group_by =
     (let by = map snd (fold (add_record group_by) records []) in
      if group_by = ''day'' then sort_key sb_bucket by else sort_key (\<lambda>b. (- sb_requests b, sb_bucket b)) by)"

text \<open>Merging: the buckets of one name are added, the first one's names stay.\<close>

definition add_bucket :: "summary_bucket \<Rightarrow> (string, summary_bucket) gomap \<Rightarrow> (string, summary_bucket) gomap" where
  "add_bucket b by =
     (case gm_get by (sb_bucket b) of
        None \<Rightarrow> gm_put (sb_bucket b) b by
      | Some c \<Rightarrow>
          gm_put (sb_bucket b) (c\<lparr>sb_requests := i64 (sb_requests c + sb_requests b), sb_cost_usd := sb_cost_usd c + sb_cost_usd b,
            sb_prompt_tokens := i64 (sb_prompt_tokens c + sb_prompt_tokens b),
            sb_completion_tokens := i64 (sb_completion_tokens c + sb_completion_tokens b),
            sb_metrics := fold add_metric (sb_metrics b) (sb_metrics c),
            sb_label := (if sb_label c = [] then sb_label b else sb_label c)\<rparr>) by)"

text \<open>
  The order of the merged buckets. The comparison looks at the fifth byte of the second name
  whenever the first looks like a date, and panics (\<open>None\<close>) when there is none.
\<close>

definition bucket_less :: "summary_bucket \<Rightarrow> summary_bucket \<Rightarrow> bool option" where
  "bucket_less a b =
     (let by_requests = Some (if sb_requests a \<noteq> sb_requests b then sb_requests a > sb_requests b else sb_bucket a < sb_bucket b) in
      if length (sb_bucket a) = 10 \<and> sb_bucket a ! 4 = CHR ''-'' then
        (if length (sb_bucket b) \<le> 4 then None
         else if sb_bucket b ! 4 = CHR ''-'' then Some (sb_bucket a < sb_bucket b) else by_requests)
      else by_requests)"

text \<open>
  \<^verbatim>\<open>sort.Slice\<close> on at most twelve elements is an insertion sort, from the left; the list is
  kept reversed here. Longer lists are sorted by the given function.
\<close>

fun insert_left :: "('a \<Rightarrow> 'a \<Rightarrow> bool option) \<Rightarrow> 'a \<Rightarrow> 'a list \<Rightarrow> 'a list option" where
  "insert_left lt x [] = Some [x]"
| "insert_left lt x (y # ys) =
     (case lt x y of None \<Rightarrow> None | Some False \<Rightarrow> Some (x # y # ys)
      | Some True \<Rightarrow> map_option (\<lambda>zs. y # zs) (insert_left lt x ys))"

fun insertion_sort :: "('a \<Rightarrow> 'a \<Rightarrow> bool option) \<Rightarrow> 'a list \<Rightarrow> 'a list \<Rightarrow> 'a list option" where
  "insertion_sort lt sorted_rev [] = Some (rev sorted_rev)"
| "insertion_sort lt sorted_rev (x # xs) =
     Option.bind (insert_left lt x sorted_rev) (\<lambda>ys. insertion_sort lt ys xs)"

type_synonym 'a slice_sort = "('a \<Rightarrow> 'a \<Rightarrow> bool option) \<Rightarrow> 'a list \<Rightarrow> 'a list option"

definition sort_slice :: "'a slice_sort \<Rightarrow> 'a slice_sort" where
  "sort_slice long lt xs = (if length xs \<le> 12 then insertion_sort lt [] xs else long lt xs)"

definition merge_usage_summary ::
  "summary_bucket slice_sort \<Rightarrow> summary_bucket list \<Rightarrow> summary_bucket list \<Rightarrow> summary_bucket list option" where
  "merge_usage_summary long loc remote = sort_slice long bucket_less (map snd (fold add_bucket (loc @ remote) []))"

section \<open>Handlers\<close>

text \<open>\<^verbatim>\<open>strconv.Atoi\<close> without its error: 0 for what is no number, the bound for what is too large.\<close>

definition digit_value :: "char \<Rightarrow> int" where "digit_value c = int (of_char c) - 48"

definition atoi :: "string \<Rightarrow> int option" where
  "atoi s =
     (let neg = has_prefix s ''-''; ds = (if neg \<or> has_prefix s ''+'' then tl s else s);
          n = foldl (\<lambda>a c. 10 * a + digit_value c) 0 ds in
      if ds = [] \<or> \<not> list_all is_digit ds then None else Some (if neg then - n else n))"

definition clamp_i64 :: "int \<Rightarrow> int" where "clamp_i64 n = max (- (2 ^ 63)) (min (2 ^ 63 - 1) n)"

text \<open>Times of a query are read by the given function for a layout.\<close>

definition parse_usage_time ::
  "(string \<Rightarrow> string \<Rightarrow> gotime option) \<Rightarrow> string \<Rightarrow> string \<Rightarrow> gotime option res" where
  "parse_usage_time parse_time name v =
     (if v = [] then Inr None
      else (case parse_time ''RFC3339'' v of Some t \<Rightarrow> Inr (Some t)
        | None \<Rightarrow> (case parse_time ''2006-01-02'' v of Some t \<Rightarrow> Inr (Some t)
            | None \<Rightarrow> Inl (invalid_request (''invalid '' @ name)))))"

definition query_flag :: "http_request \<Rightarrow> string \<Rightarrow> bool" where
  "query_flag r name \<longleftrightarrow> query_get r name = ''1'' \<or> to_lower (query_get r name) = ''true''"

definition parse_usage_filter :: "(string \<Rightarrow> string \<Rightarrow> gotime option) \<Rightarrow> http_request \<Rightarrow> usage_filter res" where
  "parse_usage_filter parse_time r =
     (let f = \<lparr>uf_limit = (case atoi (query_get r ''limit'') of None \<Rightarrow> 0 | Some n \<Rightarrow> clamp_i64 n),
            uf_project_id = query_get r ''project_id'', uf_api_key_id = query_get r ''api_key_id'',
            uf_credential_id = query_get r ''credential_id'', uf_model = query_get r ''model'',
            uf_modality = query_get r ''modality'', uf_exclude_byok = query_flag r ''exclude_byok'',
            uf_byok_only = query_flag r ''byok_only'', uf_from = None, uf_to = None, uf_group_by = query_get r ''group_by''\<rparr> in
      if uf_exclude_byok f \<and> uf_byok_only f
        then Inl (invalid_request ''exclude_byok and byok_only are mutually exclusive'')
      else bind_res (parse_usage_time parse_time ''from'' (query_get r ''from'')) (\<lambda>from.
        bind_res (parse_usage_time parse_time ''to'' (query_get r ''to'')) (\<lambda>til. Inr (f\<lparr>uf_from := from, uf_to := til\<rparr>))))"

definition handle_list_usage ::
  "(string \<Rightarrow> string \<Rightarrow> gotime option) \<Rightarrow> usage_hub \<Rightarrow> joined_tables \<Rightarrow> metering_db \<Rightarrow> string \<Rightarrow> http_request \<Rightarrow> usage_record list reply" where
  "handle_list_usage parse_time h jt db org rq =
     (case parse_usage_filter parse_time rq of
        Inl e \<Rightarrow> Failed StatusBadRequest (err_msg e)
      | Inr f \<Rightarrow>
          let loc = list_usage jt org f (md_usage db); remote = fetch_federation_usage_for_org h org f in
          Reply StatusOK (if remote = [] then loc else merge_usage_events loc remote (uf_limit f)))"

definition handle_usage_summary ::
  "summary_bucket slice_sort \<Rightarrow> (string \<Rightarrow> string \<Rightarrow> gotime option) \<Rightarrow> usage_hub \<Rightarrow> joined_tables \<Rightarrow> gotime \<Rightarrow> metering_db \<Rightarrow> string \<Rightarrow> http_request \<Rightarrow>
   summary_bucket list reply option" where
  "handle_usage_summary long parse_time h jt now db org rq =
     (case parse_usage_filter parse_time rq of
        Inl e \<Rightarrow> Some (Failed StatusBadRequest (err_msg e))
      | Inr f0 \<Rightarrow>
          let f = (if uf_group_by f0 = [] then f0\<lparr>uf_group_by := ''day''\<rparr> else f0) in
          (case summarize jt now org f (md_usage db) of
             Inl e \<Rightarrow> Some (if err_is e ErrInvalidRequest then Failed StatusBadRequest (err_msg e) else internal_error e)
           | Inr loc \<Rightarrow>
               let remote = fetch_federation_usage_for_org h org f in
               if remote = [] then Some (Reply StatusOK loc)
               else map_option (Reply StatusOK) (merge_usage_summary long loc (summarize_usage_records remote (uf_group_by f)))))"

subsection \<open>Reports on request\<close>

definition federation_token_from :: "http_request \<Rightarrow> string" where
  "federation_token_from r = trim_space (header_get r ''X-AFI-Federation-Token'')"

definition report_time :: "(string \<Rightarrow> string \<Rightarrow> gotime option) \<Rightarrow> string \<Rightarrow> http_request \<Rightarrow> gotime option option" where
  "report_time parse_time name r =
     (let q = trim_space (query_get r name) in
      if q = [] then Some None else map_option Some (parse_time ''RFC3339'' q))"

definition report_limit :: "http_request \<Rightarrow> int" where
  "report_limit r =
     (case atoi (query_get r ''limit'') of None \<Rightarrow> 100 | Some n \<Rightarrow> if clamp_i64 n = n then n else 100)"

text \<open>A regional control plane answers its hub, who shows the region's own join token.\<close>

definition handle_federation_usage_reports ::
  "(string \<Rightarrow> string) \<Rightarrow> (string \<Rightarrow> string \<Rightarrow> gotime option) \<Rightarrow> string \<Rightarrow> string \<Rightarrow> usage_row list \<Rightarrow> http_request \<Rightarrow> usage_record list reply" where
  "handle_federation_usage_reports sha parse_time mode join_token rows rq =
     (let raw = federation_token_from rq in
      if mode \<noteq> ''regional'' then Failed StatusForbidden ''usage reports are served by regional control planes''
      else if raw = [] \<or> trim_space join_token = [] then Failed StatusUnauthorized ''unauthorized''
      else if hash_opaque_token sha raw \<noteq> hash_opaque_token sha join_token then Failed StatusUnauthorized ''unauthorized''
      else (case report_time parse_time ''since'' rq of
          None \<Rightarrow> Failed StatusBadRequest ''since must be RFC3339''
        | Some since \<Rightarrow> (case report_time parse_time ''until'' rq of
              None \<Rightarrow> Failed StatusBadRequest ''until must be RFC3339''
            | Some until \<Rightarrow>
                Reply StatusOK (list_reports_since (trim_space (query_get rq ''org_id'')) since until (report_limit rq) rows))))"

text \<open>The hub asks a peer on demand, with the token the caller shows for it or the one it keeps.\<close>

definition handle_pull_peer_usage_reports ::
  "(string \<Rightarrow> string) \<Rightarrow> (string \<Rightarrow> string \<Rightarrow> gotime option) \<Rightarrow> gotime \<Rightarrow> usage_hub \<Rightarrow> string \<Rightarrow> http_request \<Rightarrow>
   (usage_record list reply \<times> spoke_usage list) \<times> usage_hub" where
  "handle_pull_peer_usage_reports sha parse_time now h peer_id rq =
     (let fail = (\<lambda>st msg. (Failed st msg, [])); token0 = federation_token_from rq in
      case fs_get_peer (uh_regions h) peer_id of
        Inl e \<Rightarrow> (if err_is e ErrNotFound then fail StatusNotFound ''not found'' else (internal_error e, []), h)
      | Inr p \<Rightarrow>
          (case (if token0 \<noteq> [] then
                   (case svc_authenticate_peer sha token0 now (uh_regions h) of
                      (Inl e, rdb) \<Rightarrow> (Inl (if err_is e ErrUnauthorized then fail StatusUnauthorized ''unauthorized'' else (internal_error e, [])), rdb)
                    | (Inr q, rdb) \<Rightarrow>
                        (if pe_id q \<noteq> pe_id p then Inl (fail StatusForbidden ''token not scoped to this peer'') else Inr token0, rdb))
                 else (case open_peer_token (uh_box h) (uh_regions h) (pe_id p) of
                     Inl e \<Rightarrow> (Inl (fail StatusBadRequest (err_msg e)), uh_regions h) | Inr t \<Rightarrow> (Inr t, uh_regions h))) of
             (Inl r, rdb) \<Rightarrow> (r, h\<lparr>uh_regions := rdb\<rparr>)
           | (Inr token, rdb) \<Rightarrow>
               ((if trim_space (pe_base_url p) = [] then fail StatusBadRequest ''peer base_url required to pull usage reports''
                 else (case report_time parse_time ''since'' rq of
                     None \<Rightarrow> fail StatusBadRequest ''since must be RFC3339''
                   | Some since \<Rightarrow> (case report_time parse_time ''until'' rq of
                         None \<Rightarrow> fail StatusBadRequest ''until must be RFC3339''
                       | Some until \<Rightarrow>
                           (case usage_reports_client (uh_get h) (uh_show_time h) (pe_base_url p) token
                                   (trim_space (query_get rq ''org_id'')) since until (report_limit rq) of
                              Inl e \<Rightarrow> fail StatusBadGateway (err_msg e)
                            | Inr reports \<Rightarrow> (Reply StatusOK reports, map spoke_usage_of reports))))),
                h\<lparr>uh_regions := rdb\<rparr>)))"

end
