(* ===== verification/Metering_Laws.thy ===== *)
theory Metering_Laws
  imports Usage_Reports
begin

text \<open>
  What holds of metering: an event survives its encoding with its cost; the outbox and its workers
  lose nothing, a single worker records everything exactly once, several may count twice; the
  summaries add up, the hub filters reports as the regions do; and the two ways a served call
  escapes its record or a summary its answer.
\<close>

section \<open>Events and their JSON\<close>

text \<open>What decoding makes of a metric: every number is a float.\<close>

definition normal_metric :: "goval \<Rightarrow> goval" where
  "normal_metric v = (case json_of_goval v of Inl _ \<Rightarrow> v | Inr j \<Rightarrow> goval_of_json j)"

definition normal_event :: "usage_event \<Rightarrow> usage_event" where
  "normal_event e = e\<lparr>ue_metrics := map (\<lambda>(k, v). (k, normal_metric v)) (ue_metrics e)\<rparr>"

text \<open>The events a gateway makes: numbers of 64 bits, maps.\<close>

definition event_wf :: "usage_event \<Rightarrow> bool" where
  "event_wf e \<longleftrightarrow> gm_wf (ue_metrics e) \<and> gm_wf (ue_tags e) \<and>
     fits_i64 (ue_latency_ms e) \<and> fits_i64 (ue_prompt_tokens e) \<and> fits_i64 (ue_completion_tokens e)"

lemma put_fresh: "k \<notin> fst ` set m \<Longrightarrow> gm_put k v m = m @ [(k, v)]"
  by (induction m) auto

lemma fold_put_distinct:
  "distinct (map fst kvs) \<Longrightarrow> fst ` set kvs \<inter> fst ` set m = {} \<Longrightarrow>
   fold (\<lambda>(k, v). gm_put k (f v)) kvs m = m @ map (\<lambda>(k, v). (k, f v)) kvs"
proof (induction kvs arbitrary: m)
  case (Cons kv kvs)
  obtain k v where kv: "kv = (k, v)" by fastforce
  have put: "gm_put k (f v) m = m @ [(k, f v)]" by (rule put_fresh) (use Cons.prems(2) kv in auto)
  show ?case using Cons.prems kv by (simp add: put, subst Cons.IH) auto
qed simp

lemma dec_string_members_distinct:
  "distinct (map fst kvs) \<Longrightarrow> fst ` set kvs \<inter> fst ` set m = {} \<Longrightarrow>
   dec_string_members (map (\<lambda>(k, v). (k, JStr v)) kvs) m = Inr (m @ kvs)"
proof (induction kvs arbitrary: m)
  case (Cons kv kvs)
  obtain k v where kv: "kv = (k, v)" by fastforce
  have put: "gm_put k v m = m @ [(k, v)]" by (rule put_fresh) (use Cons.prems(2) kv in auto)
  show ?case using Cons.prems kv by (simp add: put, subst Cons.IH) auto
qed simp

lemma encode_metrics_keys: "encode_metrics m = Inr kvs \<Longrightarrow> map fst kvs = map fst m"
  unfolding encode_metrics_def by (induction m arbitrary: kvs) (auto simp: bind_res_Inr_iff split: prod.splits)

lemma encode_metrics_values:
  "encode_metrics m = Inr kvs \<Longrightarrow> map (\<lambda>(k, j). (k, goval_of_json j)) kvs = map (\<lambda>(k, v). (k, normal_metric v)) m"
  unfolding encode_metrics_def
  by (induction m arbitrary: kvs) (auto simp: normal_metric_def bind_res_Inr_iff split: prod.splits)

lemma dec_usage_members:
  "dec_members usage_event_fields [(''organization_id'', JStr s)] e = Inr (e\<lparr>ue_organization_id := s\<rparr>)"
  "dec_members usage_event_fields [(''project_id'', JStr s)] e = Inr (e\<lparr>ue_project_id := s\<rparr>)"
  "dec_members usage_event_fields [(''api_key_id'', JStr s)] e = Inr (e\<lparr>ue_api_key_id := s\<rparr>)"
  "dec_members usage_event_fields [(''model'', JStr s)] e = Inr (e\<lparr>ue_model := s\<rparr>)"
  "dec_members usage_event_fields [(''provider_type'', JStr s)] e = Inr (e\<lparr>ue_provider_type := s\<rparr>)"
  "dec_members usage_event_fields [(''target_model'', JStr s)] e = Inr (e\<lparr>ue_target_model := s\<rparr>)"
  "dec_members usage_event_fields [(''status'', JStr s)] e = Inr (e\<lparr>ue_status := s\<rparr>)"
  "dec_members usage_event_fields [(''modality'', JStr s)] e = Inr (e\<lparr>ue_modality := s\<rparr>)"
  "fits_i64 n \<Longrightarrow> dec_members usage_event_fields [(''latency_ms'', JNum (of_int n))] e = Inr (e\<lparr>ue_latency_ms := n\<rparr>)"
  "fits_i64 n \<Longrightarrow> dec_members usage_event_fields [(''prompt_tokens'', JNum (of_int n))] e = Inr (e\<lparr>ue_prompt_tokens := n\<rparr>)"
  "fits_i64 n \<Longrightarrow> dec_members usage_event_fields [(''completion_tokens'', JNum (of_int n))] e = Inr (e\<lparr>ue_completion_tokens := n\<rparr>)"
  "dec_members usage_event_fields [(''used_byok'', JBool b)] e = Inr (e\<lparr>ue_used_byok := b\<rparr>)"
  by (simp_all add: usage_event_fields_def field_for_def field_def fits_i64_def)

lemma dec_usage_optional:
  "dec_members usage_event_fields (opt_member (s \<noteq> []) ''team_id'' (JStr s)) e = Inr (e\<lparr>ue_team_id := (if s = [] then ue_team_id e else s)\<rparr>)"
  "dec_members usage_event_fields (opt_member (s \<noteq> []) ''environment_id'' (JStr s)) e = Inr (e\<lparr>ue_environment_id := (if s = [] then ue_environment_id e else s)\<rparr>)"
  "dec_members usage_event_fields (opt_member (s \<noteq> []) ''signing_key_id'' (JStr s)) e = Inr (e\<lparr>ue_signing_key_id := (if s = [] then ue_signing_key_id e else s)\<rparr>)"
  "dec_members usage_event_fields (opt_member (s \<noteq> []) ''signer_key_id'' (JStr s)) e = Inr (e\<lparr>ue_signer_key_id := (if s = [] then ue_signer_key_id e else s)\<rparr>)"
  "dec_members usage_event_fields (opt_member (s \<noteq> []) ''auth_method'' (JStr s)) e = Inr (e\<lparr>ue_auth_method := (if s = [] then ue_auth_method e else s)\<rparr>)"
  "dec_members usage_event_fields (opt_member (s \<noteq> []) ''credential_id'' (JStr s)) e = Inr (e\<lparr>ue_credential_id := (if s = [] then ue_credential_id e else s)\<rparr>)"
  by (simp_all add: usage_event_fields_def field_for_def field_def opt_member_def)

lemma dec_usage_maps:
  "gm_wf m \<Longrightarrow> encode_metrics m = Inr kvs \<Longrightarrow> ue_metrics e = [] \<Longrightarrow>
     dec_members usage_event_fields (opt_member (kvs \<noteq> []) ''metrics'' (JObj kvs)) e =
     Inr (e\<lparr>ue_metrics := map (\<lambda>(k, v). (k, normal_metric v)) m\<rparr>)"
  "gm_wf t \<Longrightarrow> ue_tags e = [] \<Longrightarrow>
     dec_members usage_event_fields (opt_member (t \<noteq> []) ''tags'' (JObj (map (\<lambda>(k, v). (k, JStr v)) t))) e = Inr (e\<lparr>ue_tags := t\<rparr>)"
proof -
  assume m: "gm_wf m" "encode_metrics m = Inr kvs" "ue_metrics e = []"
  then have "distinct (map fst kvs)" by (simp add: gm_wf_def encode_metrics_keys)
  then have "fold (\<lambda>(k, v). gm_put k (goval_of_json v)) kvs [] = map (\<lambda>(k, v). (k, normal_metric v)) m"
    using encode_metrics_values [OF m(2)] by (simp add: fold_put_distinct)
  moreover have "kvs = [] \<longleftrightarrow> m = []" using encode_metrics_keys [OF m(2)] by auto
  ultimately show "dec_members usage_event_fields (opt_member (kvs \<noteq> []) ''metrics'' (JObj kvs)) e =
     Inr (e\<lparr>ue_metrics := map (\<lambda>(k, v). (k, normal_metric v)) m\<rparr>)"
    using m(3) by (cases "m = []") (simp_all add: usage_event_fields_def field_for_def field_def dec_any_map_def)
next
  assume t: "gm_wf t" "ue_tags e = []"
  then show "dec_members usage_event_fields (opt_member (t \<noteq> []) ''tags'' (JObj (map (\<lambda>(k, v). (k, JStr v)) t))) e = Inr (e\<lparr>ue_tags := t\<rparr>)"
    by (cases "t = []") (simp_all add: usage_event_fields_def field_for_def field_def dec_string_map_def dec_string_members_distinct gm_wf_def)
qed

lemma if_blank: "(if s = [] then [] else s) = s"
  by simp

lemma split_members: "dec_members fs (kv # kv' # kvs) r = bind_res (dec_members fs [kv] r) (dec_members fs (kv' # kvs))"
  using dec_members_append [of fs "[kv]" "kv' # kvs" r] by simp

lemma decode_encode:
  assumes "encode_usage e = Inr j" and "event_wf e"
  shows "decode_usage j = Inr (normal_event e)"
proof -
  obtain kvs where kvs: "encode_metrics (ue_metrics e) = Inr kvs"
    using assms(1) by (cases "encode_metrics (ue_metrics e)") (simp_all add: encode_usage_def)
  note wf = assms(2) [unfolded event_wf_def]
  note j = assms(1) [unfolded encode_usage_def kvs bind_res_simps sum.inject, symmetric]
  show ?thesis
    unfolding j decode_usage_def dec_struct_simps dec_members_append split_members dec_usage_members dec_usage_optional
    using wf kvs
    by (simp del: dec_members.simps(2)
        add: dec_usage_members dec_usage_maps(1) [OF _ kvs] dec_usage_maps(2) if_blank zero_usage_event_def normal_event_def)
qed

text \<open>The cost is the same: floats and integers read as the same number.\<close>

lemma normal_metric_float: "metric_float (map (\<lambda>(k, v). (k, normal_metric v)) m) key = metric_float m key"
proof -
  have get: "gm_get (map (\<lambda>(k, v). (k, normal_metric v)) m) key = map_option normal_metric (gm_get m key)"
    by (induction m) auto
  show ?thesis unfolding metric_float_def get
    by (auto simp: normal_metric_def split: option.splits goval.splits)
qed

lemma estimate_cost_normal [simp]: "estimate_cost_usd reg es (normal_event e) = estimate_cost_usd reg es e"
  by (simp add: estimate_cost_usd_def normal_event_def entry_cost_def token_cost_def normal_metric_float Let_def
      split: option.splits cong: if_cong)

lemma normal_event_simps [simp]:
  "ue_prompt_tokens (normal_event e) = ue_prompt_tokens e" "ue_completion_tokens (normal_event e) = ue_completion_tokens e"
  "ue_target_model (normal_event e) = ue_target_model e" "ue_model (normal_event e) = ue_model e"
  "ue_provider_type (normal_event e) = ue_provider_type e" "ue_credential_id (normal_event e) = ue_credential_id e"
  by (simp_all add: normal_event_def)

section \<open>One payload\<close>

text \<open>The row a payload makes, without its identifier and its time; prices do not change.\<close>

definition row_content :: "usage_row \<Rightarrow> usage_row" where
  "row_content r = r\<lparr>uw_id := 0, uw_created_at := 0\<rparr>"

definition price_cost :: "registry \<Rightarrow> entries \<Rightarrow> (string \<times> string, rat \<times> rat) gomap \<Rightarrow> usage_event \<Rightarrow> rat option" where
  "price_cost reg es prices e =
     (let model = (if ue_target_model e = [] then ue_model e else ue_target_model e) in
      case (if ue_provider_type e = [] \<or> model = [] then None else gm_get prices (ue_provider_type e, model)) of
        None \<Rightarrow> estimate_cost_usd reg es e
      | Some (inp, outp) \<Rightarrow> compute_cost_usd (ue_prompt_tokens e) (ue_completion_tokens e) inp outp)"

definition payload_row ::
  "registry \<Rightarrow> entries \<Rightarrow> (string \<times> string, rat \<times> rat) gomap \<Rightarrow> json \<Rightarrow> usage_row option" where
  "payload_row reg es prices payload =
     (case decode_usage payload of Inl _ \<Rightarrow> None
      | Inr e \<Rightarrow> (case encode_metrics (ue_metrics e) of Inl _ \<Rightarrow> None
          | Inr metrics \<Rightarrow>
              (let r = usage_row_of 0 metrics (mark_byok e) (price_cost reg es prices e) in if usage_row_ok r then Some r else None)))"

lemma estimate_usage_cost_db:
  "estimate_usage_cost reg es (Some lookup_model_price) e db = (Inr (price_cost reg es (md_prices db) e), db)"
  by (simp add: estimate_usage_cost_def price_cost_def lookup_model_price_def db_bind_def Let_def split: option.splits prod.splits)

lemma mark_byok_keeps [simp]: "ue_metrics (mark_byok e) = ue_metrics e"
  by (simp add: mark_byok_def)

lemma insert_row_of:
  "insert_usage_row (usage_row_of now m e c) db =
     (if usage_row_ok (usage_row_of 0 m e c)
      then (Inr (), db\<lparr>md_usage := md_usage db @ [(usage_row_of 0 m e c)\<lparr>uw_id := md_next db, uw_created_at := now\<rparr>],
              md_next := md_next db + 1\<rparr>)
      else (Inl unicode_escape_error, db))"
  by (simp add: insert_usage_row_def usage_row_ok_def usage_row_of_def)

text \<open>Ingesting: the payload's row is added, or nothing changes.\<close>

lemma ingest_cases:
  obtains e where "payload_row reg es (md_prices db) payload = None"
      "ingest_payload reg es (insert_usage now) (Some lookup_model_price) payload db = (Inl e, db)"
  | r where "payload_row reg es (md_prices db) payload = Some r"
      "ingest_payload reg es (insert_usage now) (Some lookup_model_price) payload db =
         (Inr (), db\<lparr>md_usage := md_usage db @ [r\<lparr>uw_id := md_next db, uw_created_at := now\<rparr>], md_next := md_next db + 1\<rparr>)"
proof (cases "decode_usage payload")
  case (Inl e)
  then show ?thesis using that(1) by (simp add: ingest_payload_def payload_row_def db_check_def)
next
  case e: (Inr e)
  show ?thesis
  proof (cases "encode_metrics (ue_metrics e)")
    case (Inl f)
    then show ?thesis using e that(1)
      by (simp add: ingest_payload_def payload_row_def db_check_def db_bind_def estimate_usage_cost_db insert_usage_def Let_def)
  next
    case (Inr m)
    let ?r = "usage_row_of 0 m (mark_byok e) (price_cost reg es (md_prices db) e)"
    have "ingest_payload reg es (insert_usage now) (Some lookup_model_price) payload db =
        insert_usage_row (usage_row_of now m (mark_byok e) (price_cost reg es (md_prices db) e)) db"
      using e Inr by (simp add: ingest_payload_def db_check_def db_bind_def estimate_usage_cost_db insert_usage_def Let_def)
    moreover have "payload_row reg es (md_prices db) payload = (if usage_row_ok ?r then Some ?r else None)"
      using e Inr by (simp add: payload_row_def Let_def)
    ultimately show ?thesis using that(1) that(2) [of ?r] unfolding insert_row_of by (cases "usage_row_ok ?r") simp_all
  qed
qed

lemma price_cost_normal [simp]: "price_cost reg es prices (normal_event e) = price_cost reg es prices e"
  by (simp add: price_cost_def Let_def split: option.split)

text \<open>The payloads of the gateways are ingested: what a jsonb column accepts, the usage table does.\<close>

lemma encode_metrics_again:
  "encode_metrics m = Inr kvs \<Longrightarrow> encode_metrics (map (\<lambda>(k, v). (k, normal_metric v)) m) = Inr kvs"
  unfolding encode_metrics_def
proof (induction m arbitrary: kvs)
  case (Cons kv m)
  obtain k v where kv: "kv = (k, v)" by fastforce
  obtain j where j: "json_of_goval v = Inr j" using Cons.prems kv by (auto simp: bind_res_Inr_iff)
  then have "json_of_goval (normal_metric v) = Inr j" by (cases v) (auto simp: normal_metric_def)
  then show ?case using Cons kv j by (auto simp: bind_res_Inr_iff)
qed simp

lemma payload_row_encoded:
  assumes "encode_usage e = Inr j" and "event_wf e" and "jsonb_ok j"
  shows "\<exists>metrics. encode_metrics (ue_metrics e) = Inr metrics \<and>
    payload_row reg es prices j = Some (usage_row_of 0 metrics (mark_byok e) (price_cost reg es prices e))"
proof -
  obtain kvs where kvs: "encode_metrics (ue_metrics e) = Inr kvs"
    using assms(1) by (cases "encode_metrics (ue_metrics e)") (simp_all add: encode_usage_def)
  note j = assms(1) [unfolded encode_usage_def kvs bind_res_simps sum.inject, symmetric]
  have row: "usage_row_of 0 kvs (mark_byok (normal_event e)) (price_cost reg es prices (normal_event e)) =
      usage_row_of 0 kvs (mark_byok e) (price_cost reg es prices e)"
    by (simp add: usage_row_of_def mark_byok_def) (simp add: normal_event_def)
  have "usage_row_ok (usage_row_of 0 kvs (mark_byok e) (price_cost reg es prices e))"
    using assms(3) unfolding j
    by (auto simp: usage_row_ok_def usage_row_of_def mark_byok_def opt_member_def null_if_empty_def or_blank_def
        normalize_modality_def text_ok_def split: if_splits)
  then show ?thesis
    using kvs decode_encode [OF assms(1,2)] encode_metrics_again [OF kvs] row
    by (simp add: payload_row_def normal_event_def [of e] Let_def)
qed

section \<open>One worker\<close>

text \<open>Outbox rows have distinct, growing identifiers.\<close>

definition outbox_ok :: "outbox \<Rightarrow> bool" where
  "outbox_ok t \<longleftrightarrow> sorted_wrt (<) (map br_id (bx_rows t)) \<and> (\<forall>r\<in>set (bx_rows t). br_id r < bx_next t)"

lemma outbox_ok_pending: "outbox_ok t \<Longrightarrow> pending t = filter (\<lambda>r. br_processed_at r = None) (bx_rows t)"
  unfolding pending_def outbox_ok_def
  by (intro sort_key_id_if_sorted sorted_filter strict_sorted_imp_sorted) blast

lemma outbox_ok_distinct: "outbox_ok t \<Longrightarrow> distinct (map br_id (bx_rows t))"
  by (auto simp: outbox_ok_def strict_sorted_iff)

lemma outbox_ok_enqueue: "outbox_ok t \<Longrightarrow> outbox_ok (snd (outbox_enqueue now payload t))"
  by (auto simp: outbox_ok_def outbox_enqueue_def sorted_wrt_append)

lemma outbox_ok_mark: "outbox_ok t \<Longrightarrow> outbox_ok (snd (mark_processed now i t))"
  by (auto simp: outbox_ok_def mark_processed_def comp_def if_distrib cong: if_cong)

lemma pending_enqueue:
  "outbox_ok t \<Longrightarrow> jsonb_ok payload \<Longrightarrow> map br_payload (pending (snd (outbox_enqueue now payload t))) = map br_payload (pending t) @ [payload]"
  by (simp only: outbox_ok_pending outbox_ok_enqueue) (simp add: outbox_enqueue_def)

lemma filter_mark:
  "filter (\<lambda>x. br_processed_at x = None) (map (\<lambda>x. if br_id x = i then x\<lparr>br_processed_at := Some now\<rparr> else x) rows) =
   filter (\<lambda>x. br_id x \<noteq> i) (filter (\<lambda>x. br_processed_at x = None) rows)"
  by (induction rows) auto

lemma pending_mark:
  assumes "outbox_ok t" and "pending t = r # rest"
  shows "pending (snd (mark_processed now (br_id r) t)) = rest"
proof -
  have "pending (snd (mark_processed now (br_id r) t)) = filter (\<lambda>x. br_id x \<noteq> br_id r) (pending t)"
    unfolding outbox_ok_pending [OF assms(1)] outbox_ok_pending [OF outbox_ok_mark [OF assms(1)]]
    by (simp add: mark_processed_def filter_mark)
  moreover have "distinct (map br_id (pending t))"
    using outbox_ok_distinct [OF assms(1)] outbox_ok_pending [OF assms(1)] by (simp add: distinct_map_filter)
  ultimately show ?thesis using assms(2) by (auto intro!: filter_True simp: image_iff)
qed

text \<open>
  The interface of a worker: a source whose waiting rows are claimed in order and marked one by
  one, and a delivery that either makes something of a payload or refuses it for good.
\<close>

locale outbox_worker =
  fixes src :: "'s outbox_source" and deliver :: "json \<Rightarrow> (unit, 's) storeop"
    and waiting :: "'s \<Rightarrow> outbox_row list" and made :: "'s \<Rightarrow> 'x list" and make :: "json \<Rightarrow> 'x option" and ok :: "'s \<Rightarrow> bool"
  assumes claim: "ok s \<Longrightarrow> oc_claim src n s = (Inr (take (nat n) (waiting s)), s)"
    and deliver_made: "ok s \<Longrightarrow> make p = Some x \<Longrightarrow>
      \<exists>s'. deliver p s = (Inr (), s') \<and> ok s' \<and> waiting s' = waiting s \<and> made s' = made s @ [x]"
    and deliver_refused: "ok s \<Longrightarrow> make p = None \<Longrightarrow> \<exists>e. deliver p s = (Inl e, s)"
    and mark: "ok s \<Longrightarrow> waiting s = r # rest \<Longrightarrow>
      \<exists>s'. oc_mark src (br_id r) s = (Inr (), s') \<and> ok s' \<and> waiting s' = rest \<and> made s' = made s"
begin

lemma rows_processed:
  "ok s \<Longrightarrow> waiting s = rows @ rest \<Longrightarrow> \<forall>r\<in>set rows. make (br_payload r) \<noteq> None \<Longrightarrow>
   \<exists>s'. process_rows src deliver n rows s = ((n + int (length rows), None), s') \<and> ok s' \<and> waiting s' = rest \<and>
     made s' = made s @ map (\<lambda>r. the (make (br_payload r))) rows"
proof (induction rows arbitrary: s n)
  case (Cons r rows)
  obtain x where x: "make (br_payload r) = Some x" using Cons.prems(3) by auto
  obtain s1 where s1: "deliver (br_payload r) s = (Inr (), s1)" "ok s1" "waiting s1 = waiting s" "made s1 = made s @ [x]"
    using deliver_made [OF Cons.prems(1) x] by blast
  obtain s2 where s2: "oc_mark src (br_id r) s1 = (Inr (), s2)" "ok s2" "waiting s2 = rows @ rest" "made s2 = made s1"
    using mark [of s1 r "rows @ rest"] s1 Cons.prems(2) by auto
  show ?case using Cons.IH [OF s2(2,3), of "n + 1"] Cons.prems(3) s1 s2 x by (auto simp: algebra_simps)
qed auto

text \<open>One round takes the first fifty; rounds drain what is waiting, in order, once.\<close>

lemma batch_processed:
  assumes "ok s" and "\<forall>r\<in>set (waiting s). make (br_payload r) \<noteq> None"
  shows "\<exists>s'. process_batch src deliver s = ((int (min 50 (length (waiting s))), None), s') \<and> ok s' \<and>
    waiting s' = drop 50 (waiting s) \<and> made s' = made s @ map (\<lambda>r. the (make (br_payload r))) (take 50 (waiting s))"
proof -
  have "\<forall>r\<in>set (take 50 (waiting s)). make (br_payload r) \<noteq> None" using assms(2) by (auto dest: in_set_takeD)
  from rows_processed [OF assms(1) append_take_drop_id [symmetric] this, of 0] show ?thesis
    by (auto simp: process_batch_def claim [OF assms(1)] min.commute)
qed

lemma rounds_drain:
  assumes "ok s" and "\<forall>r\<in>set (waiting s). make (br_payload r) \<noteq> None"
  shows "ok (((\<lambda>s. snd (process_batch src deliver s)) ^^ k) s) \<and>
    waiting (((\<lambda>s. snd (process_batch src deliver s)) ^^ k) s) = drop (50 * k) (waiting s) \<and>
    made (((\<lambda>s. snd (process_batch src deliver s)) ^^ k) s) =
      made s @ map (\<lambda>r. the (make (br_payload r))) (take (50 * k) (waiting s))"
proof (induction k)
  case (Suc k)
  let ?s = "((\<lambda>s. snd (process_batch src deliver s)) ^^ k) s"
  have "\<forall>r\<in>set (waiting ?s). make (br_payload r) \<noteq> None"
    using Suc assms(2) by (auto dest: in_set_dropD)
  from batch_processed [OF conjunct1 [OF Suc] this] obtain s' where
    "process_batch src deliver ?s = ((int (min 50 (length (waiting ?s))), None), s')" "ok s'" "waiting s' = drop 50 (waiting ?s)"
    "made s' = made ?s @ map (\<lambda>r. the (make (br_payload r))) (take 50 (waiting ?s))" by blast
  then show ?case using Suc by (auto simp: take_add [of "50 * k" 50, symmetric] add.commute map_append [symmetric] simp del: map_append)
qed (use assms(1) in simp)

text \<open>A refused payload at the head stops everything behind it, for ever.\<close>

lemma head_blocks:
  assumes "ok s" and "waiting s = r # rest" and "make (br_payload r) = None"
  shows "\<exists>e. process_batch src deliver s = ((0, Some e), s)"
  using deliver_refused [OF assms(1,3)] assms(2) by (auto simp: process_batch_def claim [OF assms(1)])

end

lemma usage_source_laws:
  "oc_claim (usage_source now) n db = (Inr (take (nat n) (pending (md_outbox db))), db)"
  "oc_mark (usage_source now) i db = (Inr (), db\<lparr>md_outbox := snd (mark_processed now i (md_outbox db))\<rparr>)"
  by (simp_all add: usage_source_def on_usage_outbox_def claim_batch_def mark_processed_def)

lemma payload_row_content:
  "payload_row reg es prices payload = Some r \<Longrightarrow> row_content (r\<lparr>uw_id := i, uw_created_at := t\<rparr>) = r"
  by (auto simp: payload_row_def row_content_def usage_row_of_def Let_def split: sum.splits if_splits)

interpretation uw: outbox_worker "usage_source now" "ingest_payload reg es (insert_usage now) (Some lookup_model_price)"
  "\<lambda>db. pending (md_outbox db)" "\<lambda>db. map row_content (md_usage db)" "payload_row reg es prices"
  "\<lambda>db. outbox_ok (md_outbox db) \<and> md_prices db = prices"
  for now reg es prices
proof (unfold_locales, goal_cases)
  case (1 s n)
  then show ?case by (simp add: usage_source_laws)
next
  case (2 s p x)
  then show ?case
    by (cases rule: ingest_cases [of reg es s p now]) (auto simp: payload_row_content)
next
  case (3 s p)
  then show ?case by (cases rule: ingest_cases [of reg es s p now]) auto
next
  case (4 s r rest)
  then show ?case by (auto simp: usage_source_laws outbox_ok_mark pending_mark)
qed

section \<open>Several workers\<close>

text \<open>
  Workers run side by side on one database, and may stop anywhere: a worker is idle, has claimed
  rows left to deliver, or has delivered its first row and not marked it yet. \<open>mw_log\<close> notes
  the outbox row every usage row came from.
\<close>

datatype worker_phase = Idle | Claimed "outbox_row list" | Delivered "outbox_row list"

record metering_world =
  mw_db :: metering_db
  mw_workers :: "nat \<Rightarrow> worker_phase"
  mw_log :: "int list"

inductive metering_step :: "registry \<Rightarrow> entries \<Rightarrow> metering_world \<Rightarrow> metering_world \<Rightarrow> bool" for reg es where
  step_enqueue: "enqueue_usage now payload (mw_db m) = (r, db) \<Longrightarrow> metering_step reg es m (m\<lparr>mw_db := db\<rparr>)"
| step_claim: "mw_workers m w = Idle \<Longrightarrow> oc_claim (usage_source now) 50 (mw_db m) = (Inr rows, db) \<Longrightarrow>
    metering_step reg es m (m\<lparr>mw_db := db, mw_workers := (mw_workers m)(w := Claimed rows)\<rparr>)"
| step_deliver: "mw_workers m w = Claimed (row # rows) \<Longrightarrow>
    ingest_payload reg es (insert_usage now) (Some lookup_model_price) (br_payload row) (mw_db m) = (Inr (), db) \<Longrightarrow>
    metering_step reg es m
      (m\<lparr>mw_db := db, mw_workers := (mw_workers m)(w := Delivered (row # rows)), mw_log := mw_log m @ [br_id row]\<rparr>)"
| step_mark: "mw_workers m w = Delivered (row # rows) \<Longrightarrow> oc_mark (usage_source now) (br_id row) (mw_db m) = (Inr (), db) \<Longrightarrow>
    metering_step reg es m (m\<lparr>mw_db := db, mw_workers := (mw_workers m)(w := Claimed rows)\<rparr>)"
| step_stop: "metering_step reg es m (m\<lparr>mw_workers := (mw_workers m)(w := Idle)\<rparr>)"

text \<open>A round of one worker is a run of these steps.\<close>

definition metering_init :: "metering_db \<Rightarrow> metering_world" where
  "metering_init db = \<lparr>mw_db = db, mw_workers = (\<lambda>_. Idle), mw_log = []\<rparr>"

lemma process_rows_steps:
  "mw_workers m w = Claimed rows \<Longrightarrow> process_rows (usage_source now) (ingest_payload reg es (insert_usage now) (Some lookup_model_price)) n rows (mw_db m) = (res, db') \<Longrightarrow>
   \<exists>m'. (metering_step reg es)\<^sup>*\<^sup>* m m' \<and> mw_db m' = db' \<and> mw_workers m' = (mw_workers m)(w := Idle)"
proof (induction rows arbitrary: m n)
  case Nil
  have "metering_step reg es m (m\<lparr>mw_workers := (mw_workers m)(w := Idle)\<rparr>)" by (rule step_stop)
  then show ?case using Nil by (intro exI [of _ "m\<lparr>mw_workers := (mw_workers m)(w := Idle)\<rparr>"]) auto
next
  case (Cons r rows)
  show ?case
  proof (cases rule: ingest_cases [of reg es "mw_db m" "br_payload r" now])
    case (1 e)
    have "metering_step reg es m (m\<lparr>mw_workers := (mw_workers m)(w := Idle)\<rparr>)" by (rule step_stop)
    then show ?thesis using Cons.prems 1 by (intro exI [of _ "m\<lparr>mw_workers := (mw_workers m)(w := Idle)\<rparr>"]) auto
  next
    case (2 x)
    define db1 where "db1 = snd (ingest_payload reg es (insert_usage now) (Some lookup_model_price) (br_payload r) (mw_db m))"
    have ok: "ingest_payload reg es (insert_usage now) (Some lookup_model_price) (br_payload r) (mw_db m) = (Inr (), db1)"
      using 2 by (simp add: db1_def)
    define m1 where "m1 = m\<lparr>mw_db := db1, mw_workers := (mw_workers m)(w := Delivered (r # rows)), mw_log := mw_log m @ [br_id r]\<rparr>"
    define db2 where "db2 = snd (oc_mark (usage_source now) (br_id r) db1)"
    have marked: "oc_mark (usage_source now) (br_id r) db1 = (Inr (), db2)" by (simp add: db2_def usage_source_laws)
    define m2 where "m2 = m1\<lparr>mw_db := db2, mw_workers := (mw_workers m1)(w := Claimed rows)\<rparr>"
    have "metering_step reg es m m1" unfolding m1_def by (rule step_deliver [OF Cons.prems(1) ok])
    moreover have "metering_step reg es m1 m2"
      unfolding m2_def by (rule step_mark [where row = r and now = now]) (simp_all add: m1_def marked)
    moreover obtain m' where "(metering_step reg es)\<^sup>*\<^sup>* m2 m'" "mw_db m' = db'" "mw_workers m' = (mw_workers m2)(w := Idle)"
    proof -
      have "mw_workers m2 w = Claimed rows" by (simp add: m2_def)
      moreover have "process_rows (usage_source now) (ingest_payload reg es (insert_usage now) (Some lookup_model_price)) (n + 1) rows (mw_db m2) = (res, db')"
        using Cons.prems(2) ok marked by (simp add: m2_def)
      ultimately show thesis using Cons.IH that by blast
    qed
    moreover have "(mw_workers m2)(w := Idle) = (mw_workers m)(w := Idle)" by (simp add: m2_def m1_def)
    ultimately show ?thesis by (metis converse_rtranclp_into_rtranclp)
  qed
qed

text \<open>The invariant: what a worker holds and what the log names are outbox rows; the log covers what is marked.\<close>

definition payload_of :: "outbox \<Rightarrow> int \<Rightarrow> json option" where
  "payload_of t = map_of (map (\<lambda>r. (br_id r, br_payload r)) (bx_rows t))"

fun held_rows :: "worker_phase \<Rightarrow> outbox_row list" where
  "held_rows Idle = []"
| "held_rows (Claimed rows) = rows"
| "held_rows (Delivered rows) = rows"

definition metering_inv ::
  "registry \<Rightarrow> entries \<Rightarrow> (string \<times> string, rat \<times> rat) gomap \<Rightarrow> metering_world \<Rightarrow> bool" where
  "metering_inv reg es prices m \<longleftrightarrow>
     outbox_ok (md_outbox (mw_db m)) \<and> md_prices (mw_db m) = prices \<and>
     list_all2 (\<lambda>i u. \<exists>p. payload_of (md_outbox (mw_db m)) i = Some p \<and> payload_row reg es prices p = Some (row_content u))
       (mw_log m) (md_usage (mw_db m)) \<and>
     (\<forall>w. \<forall>r\<in>set (held_rows (mw_workers m w)). payload_of (md_outbox (mw_db m)) (br_id r) = Some (br_payload r)) \<and>
     (\<forall>w r rows. mw_workers m w = Delivered (r # rows) \<longrightarrow> br_id r \<in> set (mw_log m)) \<and>
     (\<forall>r\<in>set (bx_rows (md_outbox (mw_db m))). br_processed_at r \<noteq> None \<longrightarrow> br_id r \<in> set (mw_log m))"

lemma payload_of_enqueue: "payload_of t i = Some p \<Longrightarrow> payload_of (snd (outbox_enqueue now payload t)) i = Some p"
  by (auto simp: payload_of_def outbox_enqueue_def map_add_def)

lemma payload_of_mark [simp]: "payload_of (snd (mark_processed now i t)) = payload_of t"
  by (simp add: payload_of_def mark_processed_def comp_def if_distrib cong: if_cong)

lemma payload_of_row: "outbox_ok t \<Longrightarrow> r \<in> set (bx_rows t) \<Longrightarrow> payload_of t (br_id r) = Some (br_payload r)"
  unfolding payload_of_def by (rule map_of_is_SomeI) (force dest: outbox_ok_distinct simp: comp_def)+

lemma pending_subset: "outbox_ok t \<Longrightarrow> set (pending t) \<subseteq> set (bx_rows t)"
  by (auto simp: outbox_ok_pending)

lemma enqueue_usage_db:
  "enqueue_usage now payload db = (fst (outbox_enqueue now payload (md_outbox db)), db\<lparr>md_outbox := snd (outbox_enqueue now payload (md_outbox db))\<rparr>)"
  by (simp add: enqueue_usage_def on_usage_outbox_def split: prod.split)

lemma row_content_new:
  "payload_row reg es prices p = Some r \<Longrightarrow> row_content (r\<lparr>uw_id := i, uw_created_at := t\<rparr>) = r"
  by (rule payload_row_content)

lemma metering_inv_step:
  assumes "metering_step reg es m m'" and "metering_inv reg es prices m"
  shows "metering_inv reg es prices m'"
  using assms(1)
proof cases
  case (step_enqueue now payload r db)
  then have db: "db = (mw_db m)\<lparr>md_outbox := snd (outbox_enqueue now payload (md_outbox (mw_db m)))\<rparr>"
    by (simp add: enqueue_usage_db)
  have "list_all2 (\<lambda>i u. \<exists>p. payload_of (md_outbox db) i = Some p \<and> payload_row reg es prices p = Some (row_content u))
      (mw_log m) (md_usage (mw_db m))"
    by (rule list_all2_mono [where P = "\<lambda>i u. \<exists>p. payload_of (md_outbox (mw_db m)) i = Some p \<and> payload_row reg es prices p = Some (row_content u)"])
      (use assms(2) in \<open>auto simp: metering_inv_def db payload_of_enqueue\<close>)
  moreover have "\<forall>r\<in>set (bx_rows (md_outbox db)). br_processed_at r \<noteq> None \<longrightarrow> br_id r \<in> set (mw_log m)"
    using assms(2) by (auto simp: metering_inv_def db outbox_enqueue_def)
  ultimately show ?thesis
    using assms(2) unfolding step_enqueue(1) by (auto simp: metering_inv_def db outbox_ok_enqueue payload_of_enqueue)
next
  case (step_claim w now rows db)
  then have db: "db = mw_db m" and rows: "set rows \<subseteq> set (bx_rows (md_outbox (mw_db m)))"
    using assms(2) by (auto simp: usage_source_laws metering_inv_def dest!: in_set_takeD subsetD [OF pending_subset])
  then show ?thesis
    using assms(2) unfolding step_claim(1) by (auto simp: metering_inv_def db intro: payload_of_row)
next
  case (step_deliver w row rows now db)
  obtain x where x: "payload_row reg es prices (br_payload row) = Some x"
    and db: "db = (mw_db m)\<lparr>md_usage := md_usage (mw_db m) @ [x\<lparr>uw_id := md_next (mw_db m), uw_created_at := now\<rparr>],
      md_next := md_next (mw_db m) + 1\<rparr>"
    using assms(2) step_deliver(3)
    by (cases rule: ingest_cases [of reg es "mw_db m" "br_payload row" now]) (auto simp: metering_inv_def)
  have "payload_of (md_outbox (mw_db m)) (br_id row) = Some (br_payload row)"
    using assms(2) step_deliver(2) unfolding metering_inv_def by (metis held_rows.simps(2) list.set_intros(1))
  then show ?thesis
    using assms(2) x unfolding step_deliver(1)
    by (auto simp: metering_inv_def db row_content_new [OF x] list_all2_appendI dest: bspec split: if_splits)
       (metis held_rows.simps(2) list.set_intros(2) step_deliver(2))+
next
  case (step_mark w row rows now db)
  then have db: "db = (mw_db m)\<lparr>md_outbox := snd (mark_processed now (br_id row) (md_outbox (mw_db m)))\<rparr>"
    by (simp add: usage_source_laws)
  have logged: "br_id row \<in> set (mw_log m)" using assms(2) step_mark(2) unfolding metering_inv_def by blast
  have "\<forall>r\<in>set (bx_rows (md_outbox db)). br_processed_at r \<noteq> None \<longrightarrow> br_id r \<in> set (mw_log m)"
    using assms(2) logged by (auto simp: metering_inv_def db mark_processed_def)
  moreover have "\<forall>r\<in>set rows. payload_of (md_outbox (mw_db m)) (br_id r) = Some (br_payload r)"
    using assms(2) step_mark(2) unfolding metering_inv_def by (metis held_rows.simps(3) list.set_intros(2))
  ultimately show ?thesis
    using assms(2) unfolding step_mark(1) by (auto simp: metering_inv_def db outbox_ok_mark)
next
  case (step_stop w)
  then show ?thesis using assms(2) by (auto simp: metering_inv_def)
qed

lemma metering_inv_reachable:
  "(metering_step reg es)\<^sup>*\<^sup>* m m' \<Longrightarrow> metering_inv reg es prices m \<Longrightarrow> metering_inv reg es prices m'"
  by (induction rule: rtranclp_induct) (auto intro: metering_inv_step)

definition fresh_metering :: "metering_db \<Rightarrow> bool" where
  "fresh_metering db \<longleftrightarrow> outbox_ok (md_outbox db) \<and> md_usage db = [] \<and> (\<forall>r\<in>set (bx_rows (md_outbox db)). br_processed_at r = None)"

lemma metering_inv_init: "fresh_metering db \<Longrightarrow> metering_inv reg es (md_prices db) (metering_init db)"
  by (simp add: metering_inv_def metering_init_def fresh_metering_def)

lemma logged_contents:
  "list_all2 (\<lambda>i u. \<exists>p. payload_of t i = Some p \<and> payload_row reg es prices p = Some (row_content u)) ids us \<Longrightarrow>
   map (\<lambda>i. Option.bind (payload_of t i) (payload_row reg es prices)) ids = map (\<lambda>u. Some (row_content u)) us"
  by (induction rule: list_all2_induct) auto

lemma distinct_submset: "distinct xs \<Longrightarrow> set xs \<subseteq> set ys \<Longrightarrow> mset xs \<subseteq># mset ys"
  using subset_imp_msubset_mset_set [of "set xs" "set ys"] mset_set_set_mset_msubset [of "mset ys"]
  by (metis List.finite_set mset_set_set set_mset_mset subset_mset.order_trans)

lemma pending_enqueued:
  "outbox_ok (md_outbox db) \<Longrightarrow> encode_usage e = Inr j \<Longrightarrow> jsonb_ok j \<Longrightarrow>
   outbox_ok (md_outbox (hand_over (enqueue_usage now) e db)) \<and> md_usage (hand_over (enqueue_usage now) e db) = md_usage db \<and>
   md_prices (hand_over (enqueue_usage now) e db) = md_prices db \<and>
   map br_payload (pending (md_outbox (hand_over (enqueue_usage now) e db))) = map br_payload (pending (md_outbox db)) @ [j]"
  by (simp add: hand_over_def enqueue_usage_db outbox_ok_enqueue pending_enqueue)

text \<open>The events that reach the tables: encoded without an error, as a jsonb column takes them.\<close>

definition recordable :: "usage_event \<Rightarrow> bool" where
  "recordable e \<longleftrightarrow> event_wf e \<and> (case encode_usage e of Inl _ \<Rightarrow> False | Inr j \<Rightarrow> jsonb_ok j)"

lemma recordable_payload: "recordable e \<Longrightarrow> \<exists>j. encode_usage e = Inr j \<and> jsonb_ok j \<and> event_wf e"
  by (auto simp: recordable_def split: sum.splits)

text \<open>The row an event should end up as.\<close>

definition event_row ::
  "registry \<Rightarrow> entries \<Rightarrow> (string \<times> string, rat \<times> rat) gomap \<Rightarrow> usage_event \<Rightarrow> usage_row" where
  "event_row reg es prices e =
     usage_row_of 0 (case encode_metrics (ue_metrics e) of Inl _ \<Rightarrow> [] | Inr m \<Rightarrow> m) (mark_byok e) (price_cost reg es prices e)"

lemma payload_event_row:
  "encode_usage e = Inr j \<Longrightarrow> event_wf e \<Longrightarrow> jsonb_ok j \<Longrightarrow> payload_row reg es prices j = Some (event_row reg es prices e)"
  using payload_row_encoded [of e j reg es prices] by (auto simp: event_row_def)

lemma gateway_enqueued:
  assumes "gu_backend cfg \<noteq> ''http''" and "\<not> gu_usage_sync cfg" and "recordable (tag_origin cfg False e)"
    and "outbox_ok (md_outbox db)"
  shows "\<exists>j. payload_row reg es prices j = Some (event_row reg es prices (tag_origin cfg False e)) \<and>
    outbox_ok (md_outbox (gateway_usage reg es cfg now ship e db)) \<and> md_usage (gateway_usage reg es cfg now ship e db) = md_usage db \<and>
    md_prices (gateway_usage reg es cfg now ship e db) = md_prices db \<and>
    map br_payload (pending (md_outbox (gateway_usage reg es cfg now ship e db))) = map br_payload (pending (md_outbox db)) @ [j]"
proof -
  obtain j where "encode_usage (tag_origin cfg False e) = Inr j" "jsonb_ok j" "event_wf (tag_origin cfg False e)"
    using recordable_payload [OF assms(3)] by blast
  then show ?thesis
    using pending_enqueued [OF assms(4), of "tag_origin cfg False e" j now] payload_event_row [of "tag_origin cfg False e" j reg es prices]
      assms(1,2) by (intro exI [of _ j]) (simp add: gateway_usage_def)
qed

lemma handed_over:
  assumes "\<forall>e\<in>set evs. recordable (tag_origin cfg False e)" and "gu_backend cfg \<noteq> ''http''" and "\<not> gu_usage_sync cfg"
    and "outbox_ok (md_outbox db)" and "prices = md_prices db"
  shows "outbox_ok (md_outbox (fold (gateway_usage reg es cfg now ship) evs db)) \<and>
    md_usage (fold (gateway_usage reg es cfg now ship) evs db) = md_usage db \<and>
    md_prices (fold (gateway_usage reg es cfg now ship) evs db) = prices \<and>
    map (\<lambda>r. payload_row reg es prices (br_payload r)) (pending (md_outbox (fold (gateway_usage reg es cfg now ship) evs db))) =
      map (\<lambda>r. payload_row reg es prices (br_payload r)) (pending (md_outbox db)) @
      map (\<lambda>e. Some (event_row reg es prices (tag_origin cfg False e))) evs"
  using assms(1,4,5)
proof (induction evs arbitrary: db)
  case (Cons e evs)
  let ?db = "gateway_usage reg es cfg now ship e db"
  obtain j where j: "payload_row reg es prices j = Some (event_row reg es prices (tag_origin cfg False e))"
      "outbox_ok (md_outbox ?db)" "md_usage ?db = md_usage db" "md_prices ?db = md_prices db"
      "map br_payload (pending (md_outbox ?db)) = map br_payload (pending (md_outbox db)) @ [j]"
    using gateway_enqueued [OF assms(2,3) _ Cons.prems(2), of e reg es prices now ship] Cons.prems(1) by auto
  have "map (\<lambda>r. payload_row reg es prices (br_payload r)) (pending (md_outbox ?db)) =
      map (payload_row reg es prices) (map br_payload (pending (md_outbox db)) @ [j])"
    unfolding j(5) [symmetric] by simp
  with Cons.IH [of ?db] Cons.prems(1,3) j show ?case by (simp add: comp_def)
qed simp

section \<open>Events that are dropped\<close>

lemma json_of_str: "encode_metrics m = Inr kvs \<Longrightarrow> gm_get m k = Some (GStr x) \<Longrightarrow> (k, JStr x) \<in> set kvs"
  unfolding encode_metrics_def by (induction m arbitrary: kvs) (auto simp: bind_res_Inr_iff split: if_splits)

text \<open>A metric with a NUL keeps its event out of the outbox.\<close>

lemma nul_metric_dropped:
  assumes "gm_get (ue_metrics (tag_origin cfg False e)) k = Some (GStr x)" and "CHR 0x00 \<in> set x"
    and "gu_backend cfg \<noteq> ''http''" and "\<not> gu_usage_sync cfg"
  shows "gateway_usage reg es cfg now ship e db = db"
proof (cases "encode_usage (tag_origin cfg False e)")
  case (Inl f)
  then show ?thesis using assms(3,4) by (simp add: gateway_usage_def hand_over_def)
next
  case (Inr j)
  then obtain kvs where kvs: "encode_metrics (ue_metrics (tag_origin cfg False e)) = Inr kvs"
    by (cases "encode_metrics (ue_metrics (tag_origin cfg False e))") (simp_all add: encode_usage_def)
  have mem: "(k, JStr x) \<in> set kvs" by (rule json_of_str [OF kvs assms(1)])
  have "\<exists>kv\<in>set kvs. \<not> jsonb_ok (snd kv)" using assms(2) by (intro bexI [OF _ mem]) (simp add: text_ok_def)
  then have "\<not> jsonb_ok (JObj kvs)" by (auto simp: list_all_iff)
  then have "\<not> jsonb_ok j" using mem Inr [unfolded encode_usage_def kvs, symmetric]
    by (auto simp: opt_member_def simp del: jsonb_ok.simps(2))
  then show ?thesis using Inr assms(3,4)
    by (simp add: gateway_usage_def hand_over_def enqueue_usage_def on_usage_outbox_def outbox_enqueue_def)
qed

lemma proxy_metrics:
  "\<exists>status latency t. gw_usage (snd (proxy env sn c m req s)) =
    gw_usage s @ [mark_byok (agent_event c status latency (gm_put ''latency_ms'' (GInt64 t) m))]"
  by (auto simp: proxy_def Let_def refuse_def split: prod.splits sum.splits)

section \<open>Reading the table\<close>

text \<open>Sums over groups are the sum over all.\<close>

lemma sum_groups:
  fixes f :: "'a \<Rightarrow> 'b :: comm_monoid_add"
  shows "sum_list (map (\<lambda>k. sum_list (map f (filter (\<lambda>x. g x = k) xs))) (remdups (map g xs))) = sum_list (map f xs)"
proof -
  have "sum_list (map f xs) = (\<Sum>k\<in>set (map g xs). sum_list (map f (filter (\<lambda>x. g x = k) xs)))"
  proof -
    have "sum_list (map f xs) = (\<Sum>k\<in>K. sum_list (map f (filter (\<lambda>x. g x = k) xs)))" if "finite K" "set (map g xs) \<subseteq> K" for K
      using that
    proof (induction xs)
      case (Cons x xs)
      have "(\<Sum>k\<in>K. sum_list (map f (filter (\<lambda>y. g y = k) (x # xs)))) =
          (\<Sum>k\<in>K. (if k = g x then f x else 0) + sum_list (map f (filter (\<lambda>y. g y = k) xs)))"
        by (intro sum.cong) auto
      also have "\<dots> = f x + sum_list (map f xs)" using Cons by (simp add: sum.distrib sum.delta)
      finally show ?case by simp
    qed simp
    then show ?thesis by blast
  qed
  then show ?thesis by (simp add: sum_list_distinct_conv_sum_set comp_def)
qed

lemma summary_of_sums:
  "sb_requests (summary_of grp k rows) = sum_list (map (\<lambda>_. 1) rows)"
  "sb_prompt_tokens (summary_of grp k rows) = sum_list (map uw_prompt_tokens rows)"
  "sb_completion_tokens (summary_of grp k rows) = sum_list (map uw_completion_tokens rows)"
  "sb_cost_usd (summary_of grp k rows) = sum_list (map (\<lambda>r. case uw_cost_usd r of None \<Rightarrow> 0 | Some c \<Rightarrow> c) rows)"
  by (cases k, simp add: summary_of_def sum_list_triv)+

lemma sort_buckets_sum: "sum_list (map (f :: 'a \<Rightarrow> 'b :: comm_monoid_add) (sort_key k bs)) = sum_list (map f bs)"
  by (metis mset_map mset_sort sum_mset_sum_list)

section \<open>A concrete database\<close>

definition demo_usage :: usage_event where
  "demo_usage = zero_usage_event\<lparr>ue_organization_id := ''o1'', ue_model := ''m'', ue_provider_type := ''openai'', ue_status := ''ok'',
     ue_prompt_tokens := 3, ue_metrics := [(''tool'', GStr ''t'')], ue_tags := [(''team'', ''a'')]\<rparr>"

definition demo_metering_db :: metering_db where
  "demo_metering_db = \<lparr>md_outbox = empty_outbox, md_usage = [], md_next = 1, md_prices = [((''openai'', ''m''), (1, 2))],
     md_events = empty_outbox\<rparr>"

definition demo_usage_config :: gateway_usage_config where
  "demo_usage_config = \<lparr>gu_backend = ''postgres'', gu_region_id = ''r1'', gu_deployment_id = [], gu_usage_sync = False\<rparr>"

definition demo_payload :: json where
  "demo_payload = (case encode_usage demo_usage of Inr j \<Rightarrow> j | Inl _ \<Rightarrow> JNull)"

definition demo_outbox_row :: outbox_row where
  "demo_outbox_row = \<lparr>br_id = 1, br_payload = demo_payload, br_created_at = 5, br_processed_at = None\<rparr>"

definition demo_waiting_db :: metering_db where
  "demo_waiting_db = demo_metering_db\<lparr>md_outbox := \<lparr>bx_rows = [demo_outbox_row], bx_next = 2\<rparr>\<rparr>"

lemma demo_usage_wf: "event_wf demo_usage" "event_wf (tag_origin demo_usage_config False demo_usage)"
  by (simp_all add: event_wf_def demo_usage_def zero_usage_event_def fits_i64_def gm_wf_def tag_origin_def demo_usage_config_def)

lemma demo_encoded: "encode_usage demo_usage = Inr demo_payload" "jsonb_ok demo_payload"
  by code_simp+

lemma demo_payload_row: "payload_row [] [] prices demo_payload = Some (event_row [] [] prices demo_usage)"
  by (rule payload_event_row [OF demo_encoded(1) demo_usage_wf(1) demo_encoded(2)])

lemma demo_recordable: "recordable (tag_origin demo_usage_config False demo_usage)"
proof -
  have "case encode_usage (tag_origin demo_usage_config False demo_usage) of Inl _ \<Rightarrow> False | Inr j \<Rightarrow> jsonb_ok j" by code_simp
  then show ?thesis using demo_usage_wf(2) by (simp add: recordable_def)
qed

lemma demo_fresh: "fresh_metering demo_waiting_db" "pending (md_outbox demo_waiting_db) = [demo_outbox_row]"
  "md_prices demo_waiting_db = md_prices demo_metering_db"
  by (simp_all add: fresh_metering_def outbox_ok_def demo_waiting_db_def demo_metering_db_def demo_outbox_row_def pending_def)

definition demo_usage_filter :: usage_filter where
  "demo_usage_filter = \<lparr>uf_limit = 0, uf_project_id = [], uf_api_key_id = [], uf_credential_id = [], uf_model = ''m'',
     uf_modality = ''chat'', uf_exclude_byok = False, uf_byok_only = False, uf_from = None, uf_to = None, uf_group_by = ''model''\<rparr>"

definition demo_joined :: joined_tables where
  "demo_joined = \<lparr>jt_keys = [], jt_users = [], jt_projects = [], jt_credentials = []\<rparr>"

lemma demo_summary:
  "summarize demo_joined 0 ''o1'' demo_usage_filter [event_row [] [] [] demo_usage] =
     Inr [summary_of ''model'' (''m'', [], [], [], []) [event_row [] [] [] demo_usage]]"
  by (simp add: summarize_def demo_usage_filter_def event_row_def usage_row_of_def demo_usage_def zero_usage_event_def usage_where_def
      where_set_def mark_byok_def row_bucket_def Let_def normalize_modality_def summary_of_def fits_i64_def group_names_def
      sort_key_def null_if_empty_def)

text \<open>A round of one worker on it.\<close>

lemma demo_run:
  "\<exists>m. (metering_step [] [])\<^sup>*\<^sup>* (metering_init demo_waiting_db) m \<and>
     bx_rows (md_outbox (mw_db m)) = [demo_outbox_row\<lparr>br_processed_at := Some 9\<rparr>]"
proof -
  let ?m = "(metering_init demo_waiting_db)\<lparr>mw_workers := (\<lambda>_. Idle)(0 := Claimed [demo_outbox_row])\<rparr>"
  let ?db = "snd (process_rows (usage_source 9) (ingest_payload [] [] (insert_usage 9) (Some lookup_model_price)) 0 [demo_outbox_row] demo_waiting_db)"
  have claim: "metering_step [] [] (metering_init demo_waiting_db) ?m"
    using step_claim [of "metering_init demo_waiting_db" 0 9 "[demo_outbox_row]" demo_waiting_db "[]" "[]"] demo_fresh(2)
    by (simp add: metering_init_def usage_source_laws)
  obtain m' where m': "(metering_step [] [])\<^sup>*\<^sup>* ?m m'" "mw_db m' = ?db"
    using process_rows_steps [of ?m 0 "[demo_outbox_row]" 9 "[]" "[]" 0, OF _ prod.collapse [symmetric]]
    by (auto simp: metering_init_def)
  have "bx_rows (md_outbox ?db) = [demo_outbox_row\<lparr>br_processed_at := Some 9\<rparr>]"
  proof (cases rule: ingest_cases [of "[]" "[]" demo_waiting_db "br_payload demo_outbox_row" 9])
    case (1 e)
    then show ?thesis using demo_payload_row by (simp add: demo_outbox_row_def)
  next
    case (2 r)
    then show ?thesis by (simp add: usage_source_laws mark_processed_def demo_waiting_db_def)
  qed
  then show ?thesis using claim m' by (metis converse_rtranclp_into_rtranclp)
qed

section \<open>Properties\<close>

text \<open>
  Usage events survive the outbox. What the encoder writes of an event whose counters fit 64
  bits and whose metrics and tags have distinct names, the worker decodes to the same event, its
  numeric metrics now floats; and that event has the same estimated cost.
\<close>

theorem usage_event_roundtrip:
  assumes "encode_usage e = Inr j" and "event_wf e"
  shows "decode_usage j = Inr (normal_event e) \<and> estimate_cost_usd reg es (normal_event e) = estimate_cost_usd reg es e"
  using decode_encode [OF assms] by simp

theorem usage_event_roundtrip_witness:
  "decode_usage demo_payload = Inr demo_usage"
  using usage_event_roundtrip [OF demo_encoded(1) demo_usage_wf(1)]
  by (simp add: normal_event_def demo_usage_def normal_metric_def)

text \<open>
  C18: No usage event is lost between outbox and usage table, whatever the workers do. In every
  state that enqueueing, claiming, delivering, marking and stopping workers reach from a fresh
  database, the rows that marked payloads denote are all there (each at least as often as it was
  marked), and every row of the usage table is the row of some payload of the outbox.
\<close>

theorem no_usage_lost:
  assumes "fresh_metering db" and "(metering_step reg es)\<^sup>*\<^sup>* (metering_init db) m"
  shows "mset (map (\<lambda>r. payload_row reg es (md_prices db) (br_payload r))
        (filter (\<lambda>r. br_processed_at r \<noteq> None) (bx_rows (md_outbox (mw_db m))))) \<subseteq>#
      mset (map (\<lambda>u. Some (row_content u)) (md_usage (mw_db m))) \<and>
    (\<lambda>u. Some (row_content u)) ` set (md_usage (mw_db m)) \<subseteq>
      (\<lambda>r. payload_row reg es (md_prices db) (br_payload r)) ` set (bx_rows (md_outbox (mw_db m)))"
proof -
  let ?t = "md_outbox (mw_db m)" and ?row = "payload_row reg es (md_prices db)"
  let ?f = "\<lambda>i. Option.bind (payload_of ?t i) ?row" and ?marked = "filter (\<lambda>r. br_processed_at r \<noteq> None) (bx_rows ?t)"
  have inv: "metering_inv reg es (md_prices db) m"
    by (rule metering_inv_reachable [OF assms(2) metering_inv_init [OF assms(1)]])
  then have rows: "map ?f (mw_log m) = map (\<lambda>u. Some (row_content u)) (md_usage (mw_db m))"
    by (intro logged_contents) (simp add: metering_inv_def)
  have named: "?f (br_id r) = ?row (br_payload r)" if "r \<in> set (bx_rows ?t)" for r
    using payload_of_row [OF _ that] inv by (simp add: metering_inv_def)
  have "mset (map br_id ?marked) \<subseteq># mset (mw_log m)"
    using inv outbox_ok_distinct [of ?t] by (intro distinct_submset) (auto simp: metering_inv_def distinct_map_filter)
  from image_mset_subseteq_mono [OF this, of ?f]
  have "mset (map (\<lambda>r. ?f (br_id r)) ?marked) \<subseteq># mset (map (\<lambda>u. Some (row_content u)) (md_usage (mw_db m)))"
    by (simp add: rows [symmetric] multiset.map_comp comp_def)
  moreover have "map (\<lambda>r. ?f (br_id r)) ?marked = map (\<lambda>r. ?row (br_payload r)) ?marked"
    using named by auto
  ultimately have marked: "mset (map (\<lambda>r. ?row (br_payload r)) ?marked) \<subseteq># mset (map (\<lambda>u. Some (row_content u)) (md_usage (mw_db m)))"
    by (simp only:)
  have "Some (row_content u) \<in> (\<lambda>r. ?row (br_payload r)) ` set (bx_rows ?t)" if "u \<in> set (md_usage (mw_db m))" for u
  proof -
    have "Some (row_content u) \<in> ?f ` set (mw_log m)" using that arg_cong [OF rows, of set] by auto
    then obtain i where "Some (row_content u) = ?f i" by auto
    from this [symmetric] obtain p where "payload_of ?t i = Some p" "?row p = Some (row_content u)"
      unfolding bind_eq_Some_conv by blast
    then show ?thesis unfolding payload_of_def by (force dest: map_of_SomeD)
  qed
  with marked show ?thesis by (intro conjI) blast+
qed

theorem no_usage_lost_witness:
  "\<exists>m. (metering_step [] [])\<^sup>*\<^sup>* (metering_init demo_waiting_db) m \<and>
     {#payload_row [] [] (md_prices demo_waiting_db) demo_payload#} \<subseteq># mset (map (\<lambda>u. Some (row_content u)) (md_usage (mw_db m)))"
proof -
  obtain m where m: "(metering_step [] [])\<^sup>*\<^sup>* (metering_init demo_waiting_db) m"
      "bx_rows (md_outbox (mw_db m)) = [demo_outbox_row\<lparr>br_processed_at := Some 9\<rparr>]"
    using demo_run by blast
  from no_usage_lost [OF demo_fresh(1) m(1)] show ?thesis
    by (intro exI [of _ m] conjI m(1)) (simp add: m(2) demo_outbox_row_def)
qed

text \<open>
  C17: A single worker records every event exactly once, in order. Events that can be recorded,
  handed over by a gateway with the outbox back end to a database with nothing waiting, are in the
  usage table after as many rounds as they have fifties, each as its one row with its modality,
  its cost and the gateway's tags, in the order they were handed over, and nothing waits.
\<close>

theorem gateway_events_recorded_once:
  assumes "\<forall>e\<in>set evs. recordable (tag_origin cfg False e)" and "gu_backend cfg \<noteq> ''http''" and "\<not> gu_usage_sync cfg"
    and "outbox_ok (md_outbox db)" and "pending (md_outbox db) = []" and "length evs \<le> 50 * k"
    and "db' = ((\<lambda>d. snd (process_once reg es (usage_source t) (insert_usage t) (Some lookup_model_price) d)) ^^ k)
      (fold (gateway_usage reg es cfg now ship) evs db)"
  shows "map row_content (md_usage db') =
      map row_content (md_usage db) @ map (\<lambda>e. event_row reg es (md_prices db) (tag_origin cfg False e)) evs \<and>
    pending (md_outbox db') = []"
proof -
  let ?db = "fold (gateway_usage reg es cfg now ship) evs db" and ?row = "payload_row reg es (md_prices db)"
  note h = handed_over [OF assms(1-4) refl, where reg = reg and es = es and now = now and ship = ship]
  have rows: "map (\<lambda>r. ?row (br_payload r)) (pending (md_outbox ?db)) = map (\<lambda>e. Some (event_row reg es (md_prices db) (tag_origin cfg False e))) evs"
    using h assms(5) by simp
  have all: "\<forall>r\<in>set (pending (md_outbox ?db)). ?row (br_payload r) \<noteq> None"
  proof
    fix r assume "r \<in> set (pending (md_outbox ?db))"
    then have "?row (br_payload r) \<in> set (map (\<lambda>r. ?row (br_payload r)) (pending (md_outbox ?db)))" by simp
    then show "?row (br_payload r) \<noteq> None" unfolding rows by auto
  qed
  have len: "length (pending (md_outbox ?db)) = length evs" using arg_cong [OF rows, of length] by simp
  have "map (\<lambda>r. the (?row (br_payload r))) (pending (md_outbox ?db)) = map the (map (\<lambda>r. ?row (br_payload r)) (pending (md_outbox ?db)))"
    by simp
  then have made: "map (\<lambda>r. the (?row (br_payload r))) (pending (md_outbox ?db)) =
      map (\<lambda>e. event_row reg es (md_prices db) (tag_origin cfg False e)) evs" unfolding rows by (simp add: comp_def)
  have "outbox_ok (md_outbox ?db) \<and> md_prices ?db = md_prices db" using h by blast
  note drained = uw.rounds_drain [OF this all, where k = k and now = t, folded process_once_def, folded assms(7)]
  have "take (50 * k) (pending (md_outbox ?db)) = pending (md_outbox ?db)" using assms(6) len by simp
  moreover have "drop (50 * k) (pending (md_outbox ?db)) = []" using assms(6) len by simp
  moreover have "md_usage ?db = md_usage db" using h by blast
  ultimately show ?thesis using drained by (simp only: made simp_thms)
qed

theorem gateway_events_recorded_once_witness:
  "map row_content (md_usage (snd (process_once [] [] (usage_source 9) (insert_usage 9) (Some lookup_model_price)
      (gateway_usage [] [] demo_usage_config 5 (\<lambda>_ s. (Inr (), s)) demo_usage demo_metering_db)))) =
    [event_row [] [] (md_prices demo_metering_db) (tag_origin demo_usage_config False demo_usage)]"
  using gateway_events_recorded_once [of "[demo_usage]" demo_usage_config demo_metering_db 1 _ "[]" "[]" 9 5 "\<lambda>_ s. (Inr (), s)", OF _ _ _ _ _ _ refl]
    demo_recordable
  by (simp add: demo_usage_config_def demo_metering_db_def empty_outbox_def outbox_ok_def pending_def)

text \<open>
  C40: Two workers count an event twice. A worker claims without a lock and marks a row only after it
  delivered it, so two idle workers on a database with a recordable event waiting can each write
  its row: a state with the same content twice is reachable, from one payload. (A worker that
  stops between delivery and mark repeats the event the same way.)
\<close>

theorem concurrent_workers_count_twice:
  assumes "pending (md_outbox db) = r # rest" and "payload_row reg es (md_prices db) (br_payload r) = Some x"
  shows "\<exists>m. (metering_step reg es)\<^sup>*\<^sup>* (metering_init db) m \<and> md_outbox (mw_db m) = md_outbox db \<and>
    mw_log m = [br_id r, br_id r] \<and> map row_content (md_usage (mw_db m)) = map row_content (md_usage db) @ [x, x]"
proof -
  define rows where "rows = take 49 rest"
  have claimed: "oc_claim (usage_source 0) 50 db = (Inr (r # rows), db)"
    using assms(1) by (simp add: usage_source_laws rows_def take_Cons')
  define m1 where "m1 = (metering_init db)\<lparr>mw_workers := (\<lambda>_. Idle)(0 := Claimed (r # rows))\<rparr>"
  define m2 where "m2 = m1\<lparr>mw_workers := (mw_workers m1)(1 := Claimed (r # rows))\<rparr>"
  define deliver :: "metering_world \<Rightarrow> nat \<Rightarrow> metering_world" where "deliver = (\<lambda>m w. m\<lparr>mw_db := snd (ingest_payload reg es (insert_usage 0) (Some lookup_model_price) (br_payload r) (mw_db m)),
    mw_workers := (mw_workers m)(w := Delivered (r # rows)), mw_log := mw_log m @ [br_id r]\<rparr>)"
  have s1: "metering_step reg es (metering_init db) m1"
    using step_claim [of "metering_init db" 0 0 "r # rows" db reg es] claimed by (simp add: metering_init_def m1_def)
  have s2: "metering_step reg es m1 m2"
    using step_claim [of m1 1 0 "r # rows" db reg es] claimed by (simp add: metering_init_def m1_def m2_def)
  have delivered: "metering_step reg es m (deliver m w) \<and> md_outbox (mw_db (deliver m w)) = md_outbox (mw_db m) \<and>
      md_prices (mw_db (deliver m w)) = md_prices (mw_db m) \<and>
      map row_content (md_usage (mw_db (deliver m w))) = map row_content (md_usage (mw_db m)) @ [x]"
    if "mw_workers m w = Claimed (r # rows)" "md_prices (mw_db m) = md_prices db" for m w
  proof (cases rule: ingest_cases [of reg es "mw_db m" "br_payload r" 0])
    case (2 y)
    then show ?thesis using step_deliver [of m w r rows reg es 0] that assms(2) by (auto simp: deliver_def row_content_new)
  qed (use that assms(2) in auto)
  have m2: "mw_workers m2 0 = Claimed (r # rows)" "mw_workers m2 1 = Claimed (r # rows)" "mw_db m2 = db" "mw_log m2 = []"
    by (simp_all add: m2_def m1_def metering_init_def)
  note d1 = delivered [of m2 0] note d2 = delivered [of "deliver m2 0" 1]
  have w: "mw_workers (deliver m2 0) 1 = Claimed (r # rows)" using m2 by (simp add: deliver_def)
  have "(metering_step reg es)\<^sup>*\<^sup>* (metering_init db) (deliver (deliver m2 0) 1)"
    using s1 s2 d1 d2 m2 w by (metis converse_rtranclp_into_rtranclp rtranclp.rtrancl_refl)
  moreover have "mw_log (deliver (deliver m2 0) 1) = [br_id r, br_id r]" using m2 by (simp add: deliver_def)
  ultimately show ?thesis using d1 d2 m2 w by (intro exI [of _ "deliver (deliver m2 0) 1"]) simp
qed

theorem concurrent_workers_count_twice_witness:
  "\<exists>m. (metering_step [] [])\<^sup>*\<^sup>* (metering_init demo_waiting_db) m \<and> mw_log m = [1, 1] \<and> length (md_usage (mw_db m)) = 2"
proof -
  from concurrent_workers_count_twice [OF demo_fresh(2), of "[]" "[]"] demo_payload_row
  obtain m x where m: "(metering_step [] [])\<^sup>*\<^sup>* (metering_init demo_waiting_db) m" "mw_log m = [1, 1]"
      "map row_content (md_usage (mw_db m)) = map row_content (md_usage demo_waiting_db) @ [x, x]"
    by (auto simp: demo_outbox_row_def)
  from arg_cong [OF m(3), of length] have "length (md_usage (mw_db m)) = 2"
    by (simp add: demo_waiting_db_def demo_metering_db_def)
  with m show ?thesis by blast
qed

text \<open>
  C39: A tool whose name has a NUL character is never metered. A client can name a tool so in an MCP
  call; if the method is allowed, the call is forwarded to the back end, but the name is a metric
  of its usage event, the outbox column refuses the payload, the failure is only logged, and the
  metering database stays as it was.
\<close>

theorem nul_tool_name_unmetered:
  assumes "admit env snap (''/mcp/'' @ trim_space (nq_alias rq)) ModalityMCP (wants_stream (nq_request rq))
        (if hr_method (nq_request rq) = ''POST'' then request_body rq else Inr []) rq s = Admitted () sn p call s1"
    and "lookup_mcp_backend (Some sn) (pr_organization_id p) (trim_space (nq_alias rq)) = Some b"
    and "parse_mcp_jsonrpc_meta (ae_parse_json env) (cx_body call) = (''tools/call'', tool)" and "CHR 0x00 \<in> set tool"
    and "mcp_method_allowed (mb_method_allowlist b) ''tools/call''"
    and "resolve_key env (mb_api_key_env b) (mb_inline_api_key b) = Inr key" and "ae_url_ok env (mb_base_url b)"
    and "gu_backend cfg \<noteq> ''http''" and "\<not> gu_usage_sync cfg"
  shows "gw_world (snd (handle_mcp env snap rq s)) = snd (ae_upstream env (mcp_request rq call b key) (gw_world s1)) \<and>
    (\<exists>e. gw_usage (snd (handle_mcp env snap rq s)) = gw_usage s1 @ [e] \<and>
      (\<forall>db. gateway_usage reg es cfg now ship e db = db))"
proof -
  define c where "c = \<lparr>nc_principal = p, nc_call = call, nc_alias = trim_space (nq_alias rq), nc_provider = ''mcp'',
    nc_modality = ModalityMCP, nc_target = mb_id b, nc_start = ae_now env (gw_world s)\<rparr>"
  have out: "handle_mcp env snap rq s =
      proxy env sn c (metric ''method'' ''tools/call'' @ metric ''tool'' tool) (mcp_request rq call b key) s1"
    using assms by (simp add: handle_mcp_def forward_mcp_def Let_def mcp_request_def c_def)
  obtain status latency t where e: "gw_usage (snd (handle_mcp env snap rq s)) = gw_usage s1 @
      [mark_byok (agent_event c status latency (gm_put ''latency_ms'' (GInt64 t) (metric ''method'' ''tools/call'' @ metric ''tool'' tool)))]"
    unfolding out using proxy_metrics by blast
  have "gm_get (ue_metrics (tag_origin cfg False (mark_byok (agent_event c status latency
      (gm_put ''latency_ms'' (GInt64 t) (metric ''method'' ''tools/call'' @ metric ''tool'' tool)))))) ''tool'' = Some (GStr tool)"
    using assms(4) by (auto simp: tag_origin_def agent_event_def metric_def)
  then have "gateway_usage reg es cfg now ship (mark_byok (agent_event c status latency
      (gm_put ''latency_ms'' (GInt64 t) (metric ''method'' ''tools/call'' @ metric ''tool'' tool)))) db = db" for db
    using assms(4,8,9) by (intro nul_metric_dropped) auto
  then show ?thesis unfolding e by (simp add: out proxy_effect)
qed

definition nul_tool_call :: json where
  "nul_tool_call = JObj [(''method'', JStr ''tools/call''), (''params'', JObj [(''name'', JStr [CHR ''a'', CHR 0x00])])]"

definition open_tool_snapshot :: snapshot where
  "open_tool_snapshot = (demo_agent_snapshot None)\<lparr>sn_mcp_backends := [(''b'', demo_agent_backend\<lparr>mb_method_allowlist := []\<rparr>)]\<rparr>"

theorem nul_tool_name_unmetered_witness:
  "gw_world (snd (handle_mcp (demo_agent_env nul_tool_call) (Some open_tool_snapshot) demo_agent_request demo_gw)) = 1"
proof -
  let ?env = "demo_agent_env nul_tool_call" and ?b = "demo_agent_backend\<lparr>mb_method_allowlist := []\<rparr>"
  let ?adm = "admit ?env (Some open_tool_snapshot) (''/mcp/'' @ trim_space (nq_alias demo_agent_request)) ModalityMCP
    (wants_stream (nq_request demo_agent_request))
    (if hr_method (nq_request demo_agent_request) = ''POST'' then request_body demo_agent_request else Inr []) demo_agent_request demo_gw"
  have "case ?adm of Refused _ _ \<Rightarrow> False | Admitted _ sn p call s1 \<Rightarrow>
      lookup_mcp_backend (Some sn) (pr_organization_id p) (trim_space (nq_alias demo_agent_request)) = Some ?b \<and> gw_world s1 = 0 \<and>
      parse_mcp_jsonrpc_meta (ae_parse_json ?env) (cx_body call) = (''tools/call'', [CHR ''a'', CHR 0x00])"
    by code_simp
  then obtain sn p call s1 where adm: "?adm = Admitted () sn p call s1" "gw_world s1 = 0"
    "lookup_mcp_backend (Some sn) (pr_organization_id p) (trim_space (nq_alias demo_agent_request)) = Some ?b"
    "parse_mcp_jsonrpc_meta (ae_parse_json ?env) (cx_body call) = (''tools/call'', [CHR ''a'', CHR 0x00])"
    by (auto split: admission.splits)
  have "resolve_key ?env (mb_api_key_env ?b) (mb_inline_api_key ?b) = Inr ''s''" "ae_url_ok ?env (mb_base_url ?b)"
    "mcp_method_allowed (mb_method_allowlist ?b) ''tools/call''"
    by (simp_all add: demo_agent_env_def resolve_key_def demo_agent_backend_def mcp_method_allowed_def)
  from nul_tool_name_unmetered [OF adm(1,3,4) _ this(3,1,2), of demo_usage_config] adm(2) show ?thesis
    by (simp add: demo_agent_env_def demo_usage_config_def)
qed

text \<open>
  C37: The hub filters reports exactly as the regions filter rows. For a stored row, whose modality
  is set and whose credential is not the blank one, the hub's check of the row's report under any
  filter agrees with the conditions of the region's own query.
\<close>

theorem hub_filter_agrees:
  assumes "uw_modality r \<noteq> []" and "uw_credential_id r \<noteq> Some []"
  shows "usage_matches_filter (report_record r) org f = usage_where org f r"
  using assms
  by (cases "uw_credential_id r"; cases "uf_from f"; cases "uf_to f")
    (auto simp: usage_matches_filter_def usage_where_def report_record_def where_set_def normalize_modality_def or_blank_def not_less)

theorem hub_filter_agrees_witness:
  "usage_matches_filter (report_record (event_row [] [] [] demo_usage)) ''o1'' demo_usage_filter"
  using hub_filter_agrees [of "event_row [] [] [] demo_usage" "''o1''" demo_usage_filter]
  by (simp add: event_row_def usage_row_of_def demo_usage_def normalize_modality_def null_if_empty_def mark_byok_def
      zero_usage_event_def usage_where_def where_set_def demo_usage_filter_def)



text \<open>
  Merging usage summaries panics on some model names. When the hub's own summary has one bucket
  with a name of at most four bytes (the model o3) and the reports of its regions one whose name
  has ten bytes with a dash as the fifth (the model nova-micro), the comparison takes the second
  for a date, reads the fifth byte of the first, and the handler panics.
\<close>

theorem usage_summary_panics:
  assumes "parse_usage_filter parse_time rq = Inr f" and "uf_group_by f \<noteq> []"
    and "summarize jt now org f (md_usage db) = Inr [own]" and "length (sb_bucket own) \<le> 4"
    and "fetch_federation_usage_for_org h org f \<noteq> []"
    and "summarize_usage_records (fetch_federation_usage_for_org h org f) (uf_group_by f) = [other]"
    and "length (sb_bucket other) = 10" and "sb_bucket other ! 4 = CHR ''-''"
  shows "handle_usage_summary long parse_time h jt now db org rq = None"
proof -
  have "sb_bucket own \<noteq> sb_bucket other" using assms(4,7) by auto
  then have "merge_usage_summary long [own] [other] = None"
    using assms(4,7,8) by (simp add: merge_usage_summary_def add_bucket_def sort_slice_def bucket_less_def)
  then show ?thesis using assms(1-3,5,6) by (simp add: handle_usage_summary_def Let_def)
qed

definition dashed_report :: usage_record where
  "dashed_report = report_record (usage_row_of 0 [] (demo_usage\<lparr>ue_model := ''nova-micro''\<rparr>) None)"

definition dashed_hub :: usage_hub where
  "dashed_hub = \<lparr>uh_mode = ''home'',
     uh_regions = empty_region_db\<lparr>rdb_peers := [(''p'',
       \<lparr>pe_id = ''p'', pe_name = ''EU CP'', pe_region_id = ''r'', pe_base_url = ''u'', pe_status = ''connected'', pe_join_token_hash = [],
        pe_join_token_enc = ''x'', pe_last_sync_at = None, pe_last_sync_cursor = 0, pe_last_sync_error = [], pe_created_at = 0,
        pe_updated_at = 0\<rparr>)]\<rparr>,
     uh_box = Some (\<lambda>_. Inr ''t''), uh_get = (\<lambda>_ _ _. Inr [dashed_report]), uh_show_time = (\<lambda>_. [])\<rparr>"

definition short_model_db :: metering_db where
  "short_model_db = demo_metering_db\<lparr>md_usage := [usage_row_of 0 [] (demo_usage\<lparr>ue_model := ''o3''\<rparr>) None]\<rparr>"

definition by_model_request :: http_request where
  "by_model_request = demo_request\<lparr>hr_query := [(''group_by'', ''model'')]\<rparr>"

theorem usage_summary_panics_witness:
  "handle_usage_summary (\<lambda>_. Some) (\<lambda>_ _. None) dashed_hub demo_joined 0 short_model_db ''o1'' by_model_request = None"
proof -
  obtain f where f: "parse_usage_filter (\<lambda>_ _. None) by_model_request = Inr f" "uf_group_by f = ''model''"
    "summarize demo_joined 0 ''o1'' f (md_usage short_model_db) = Inr [summary_of ''model'' (''o3'', [], [], [], []) (md_usage short_model_db)]"
    "fetch_federation_usage_for_org dashed_hub ''o1'' f =
       [dashed_report\<lparr>ur_tags := gm_put ''federation_peer_id'' ''p'' (ur_tags dashed_report)\<rparr>]"
  proof -
    have "case parse_usage_filter (\<lambda>_ _. None) by_model_request of Inl _ \<Rightarrow> False | Inr f \<Rightarrow> uf_group_by f = ''model'' \<and>
      summarize demo_joined 0 ''o1'' f (md_usage short_model_db) = Inr [summary_of ''model'' (''o3'', [], [], [], []) (md_usage short_model_db)] \<and>
      fetch_federation_usage_for_org dashed_hub ''o1'' f =
        [dashed_report\<lparr>ur_tags := gm_put ''federation_peer_id'' ''p'' (ur_tags dashed_report)\<rparr>]" by code_simp
    then show thesis using that by (auto split: sum.splits)
  qed
  have "length (summarize_usage_records [dashed_report\<lparr>ur_tags := gm_put ''federation_peer_id'' ''p'' (ur_tags dashed_report)\<rparr>] ''model'') = 1 \<and>
      sb_bucket (hd (summarize_usage_records [dashed_report\<lparr>ur_tags := gm_put ''federation_peer_id'' ''p'' (ur_tags dashed_report)\<rparr>] ''model'')) = ''nova-micro''"
    by code_simp
  then obtain other where other: "summarize_usage_records [dashed_report\<lparr>ur_tags := gm_put ''federation_peer_id'' ''p'' (ur_tags dashed_report)\<rparr>] ''model'' = [other]"
    "sb_bucket other = ''nova-micro''" by (auto simp: length_Suc_conv)
  show ?thesis
    by (rule usage_summary_panics [OF f(1) _ f(3), where other = other]) (simp_all add: f other summary_of_def)
qed

end
