(* ===== verification/Region_Commands.thy ===== *)
theory Region_Commands
  imports Federation_Sync Publishing
begin

text \<open>
  Regions and peers as the control plane's clients use them: the commands that change the tables,
  publish the region's snapshot and emit an event (\<^verbatim>\<open>src/internal/app/platform/commands.go\<close>,
  \<^verbatim>\<open>events.go\<close>), the peers with their sealed tokens
  (\<^verbatim>\<open>src/internal/adapters/postgres/federation_store.go\<close>) and the handlers
  (\<^verbatim>\<open>src/internal/controlplane/http_regions.go\<close>, \<^verbatim>\<open>http_federation.go\<close>). A body is its decoded
  value, \<open>None\<close> when it is no JSON; identifiers, raw tokens and the clock are arguments.
\<close>

section \<open>Commands\<close>

record region_cp =
  rp_hub :: hub
  rp_events :: "platform_event list"

type_synonym 'a region_command = "region_cp \<Rightarrow> 'a res \<times> region_cp"

text \<open>The publisher of snapshots for a list of regions, if there is one.\<close>

type_synonym region_publisher = "(string list \<Rightarrow> hub \<Rightarrow> unit res \<times> hub) option"

definition seeder :: "registry \<Rightarrow> gotime \<Rightarrow> region_publisher" where
  "seeder reg now = Some (\<lambda>ids h. (Inr (), publish_with_regions reg now ids h))"

definition on_hub :: "'a rop \<Rightarrow> 'a region_command" where
  "on_hub op p = (case op (hb_db (rp_hub p)) of (r, db) \<Rightarrow> (r, p\<lparr>rp_hub := (rp_hub p)\<lparr>hb_db := db\<rparr>\<rparr>))"

definition emit_region :: "string \<Rightarrow> string \<Rightarrow> string \<Rightarrow> region_cp \<Rightarrow> region_cp" where
  "emit_region name resource org p =
     p\<lparr>rp_events := rp_events p @ [\<lparr>vt_name = name, vt_resource_id = resource, vt_organization_id = org\<rparr>]\<rparr>"

definition emitting :: "'a region_command \<Rightarrow> ('a \<Rightarrow> string \<times> string \<times> string) \<Rightarrow> 'a region_command" where
  "emitting op ev = db_bind op (\<lambda>x p. case ev x of (name, res, org) \<Rightarrow> (Inr x, emit_region name res org p))"

definition publish_regions :: "region_publisher \<Rightarrow> string \<Rightarrow> string list \<Rightarrow> unit region_command" where
  "publish_regions pub action ids p =
     (case pub of None \<Rightarrow> (Inl (Err ErrOther (action @ '' but snapshot publisher unavailable'')), p)
      | Some f \<Rightarrow> (case f ids (rp_hub p) of
            (Inl e, h) \<Rightarrow> (Inl (Err (err_kind e) (action @ '' but snapshot publish failed: '' @ err_msg e)), p\<lparr>rp_hub := h\<rparr>)
          | (Inr _, h) \<Rightarrow> (Inr (), emit_region ''snapshot.published'' [] [] (p\<lparr>rp_hub := h\<rparr>))))"

text \<open>A change of what a region serves: the rows, the region's snapshot, the event.\<close>

definition region_change ::
  "region_publisher \<Rightarrow> string \<Rightarrow> string \<Rightarrow> 'a region_command \<Rightarrow> string \<Rightarrow> string \<Rightarrow> 'a region_command" where
  "region_change pub action region op name org =
     emitting (db_bind op (\<lambda>x. db_bind (publish_regions pub action [region]) (\<lambda>_ p. (Inr x, p)))) (\<lambda>_. (name, org, org))"

definition cmd_create_region :: "string \<Rightarrow> string \<Rightarrow> string \<Rightarrow> gotime \<Rightarrow> region region_command" where
  "cmd_create_region i slug name now =
     emitting (on_hub (svc_create_region i slug name now)) (\<lambda>r. (''region.created'', rgn_id r, []))"

definition cmd_update_region :: "string \<Rightarrow> string \<Rightarrow> string \<Rightarrow> gotime \<Rightarrow> region region_command" where
  "cmd_update_region i name status now =
     emitting (on_hub (svc_update_region i name status now)) (\<lambda>r. (''region.updated'', rgn_id r, []))"

definition cmd_bind_org_to_region ::
  "region_publisher \<Rightarrow> string \<Rightarrow> string \<Rightarrow> string \<Rightarrow> gotime \<Rightarrow> region_membership region_command" where
  "cmd_bind_org_to_region pub region org status now =
     region_change pub ''region.membership'' region (on_hub (hub_bind_org region org status now)) ''org.region.bound'' org"

text \<open>Binding all organizations gives the number bound, with an error as without.\<close>

definition cmd_bind_all_orgs_to_region ::
  "region_publisher \<Rightarrow> string \<Rightarrow> gotime \<Rightarrow> region_cp \<Rightarrow> (nat \<times> err option) \<times> region_cp" where
  "cmd_bind_all_orgs_to_region pub region now p =
     (case hub_bind_all region now (hb_db (rp_hub p)) of
        ((n, Some e), db) \<Rightarrow> ((n, Some e), p\<lparr>rp_hub := (rp_hub p)\<lparr>hb_db := db\<rparr>\<rparr>)
      | ((n, None), db) \<Rightarrow>
          (case publish_regions pub ''region.membership'' [region] (p\<lparr>rp_hub := (rp_hub p)\<lparr>hb_db := db\<rparr>\<rparr>) of
             (Inl e, p1) \<Rightarrow> ((n, Some e), p1)
           | (Inr _, p1) \<Rightarrow> ((n, None), emit_region ''org.region.bound'' region [] p1)))"

definition cmd_unbind_org_from_region :: "region_publisher \<Rightarrow> string \<Rightarrow> string \<Rightarrow> unit region_command" where
  "cmd_unbind_org_from_region pub region org =
     region_change pub ''region.membership'' region (on_hub (hub_unbind_org region org)) ''org.region.unbound'' org"

definition cmd_put_region_overlay ::
  "region_publisher \<Rightarrow> string \<Rightarrow> string \<Rightarrow> overlay_payload \<Rightarrow> gotime \<Rightarrow> region_overlay region_command" where
  "cmd_put_region_overlay pub region org payload now =
     region_change pub ''region.overlay'' region (on_hub (hub_put_overlay region org payload now)) ''region.overlay.upserted'' org"

definition cmd_delete_region_overlay :: "region_publisher \<Rightarrow> string \<Rightarrow> string \<Rightarrow> unit region_command" where
  "cmd_delete_region_overlay pub region org =
     region_change pub ''region.overlay'' region (on_hub (hub_delete_overlay region org)) ''region.overlay.deleted'' org"

definition cmd_register_deployment ::
  "(string \<Rightarrow> string) \<Rightarrow> string \<Rightarrow> string \<Rightarrow> string \<Rightarrow> string \<Rightarrow> string \<Rightarrow> gotime \<Rightarrow> deployment_with_token region_command" where
  "cmd_register_deployment sha raw i region name url now =
     emitting (on_hub (svc_register_deployment sha raw i region name url now))
       (\<lambda>d. (''deployment.registered'', gd_id (dt_deployment d), []))"

definition cmd_rotate_deployment_join_token ::
  "(string \<Rightarrow> string) \<Rightarrow> string \<Rightarrow> string \<Rightarrow> gotime \<Rightarrow> deployment_with_token region_command" where
  "cmd_rotate_deployment_join_token sha raw i now =
     emitting (on_hub (svc_rotate_join_token sha raw i now)) (\<lambda>d. (''deployment.join_token_rotated'', gd_id (dt_deployment d), []))"

text \<open>
  A peer's token is kept sealed, in a statement of its own: when it cannot be sealed the peer is
  registered, or its token rotated, all the same.
\<close>

definition persist_peer_join_token_enc ::
  "(string \<Rightarrow> string res) option \<Rightarrow> string \<Rightarrow> string \<Rightarrow> gotime \<Rightarrow> unit rop" where
  "persist_peer_join_token_enc box i raw now db =
     (case box of None \<Rightarrow> (Inl (Err ErrOther ''federation token key not configured''), db)
      | Some seal \<Rightarrow> db_check (seal raw) (\<lambda>enc. fs_update_peer_enc i enc now) db)"

definition hub_register_peer ::
  "(string \<Rightarrow> string res) option \<Rightarrow> (string \<Rightarrow> string) \<Rightarrow> string \<Rightarrow> string \<Rightarrow> string \<Rightarrow> string \<Rightarrow> string \<Rightarrow> gotime \<Rightarrow> peer_with_token rop" where
  "hub_register_peer box sha raw i name region url now =
     db_bind (svc_register_peer sha raw i name region url now) (\<lambda>out.
       db_bind (persist_peer_join_token_enc box (pe_id (pt_peer out)) (pt_join_token out) now) (\<lambda>_ db. (Inr out, db)))"

definition hub_rotate_peer_token ::
  "(string \<Rightarrow> string res) option \<Rightarrow> (string \<Rightarrow> string) \<Rightarrow> string \<Rightarrow> string \<Rightarrow> gotime \<Rightarrow> peer_with_token rop" where
  "hub_rotate_peer_token box sha raw i now =
     db_bind (svc_rotate_peer_token sha raw i now) (\<lambda>out.
       db_bind (persist_peer_join_token_enc box (pe_id (pt_peer out)) (pt_join_token out) now) (\<lambda>_ db. (Inr out, db)))"

section \<open>Handlers\<close>

text \<open>Errors of the handlers: a missing row, an invalid request, everything else.\<close>

definition missing_or_500 :: "err \<Rightarrow> 'a reply" where
  "missing_or_500 e = (if err_is e ErrNotFound then Failed StatusNotFound ''not found'' else internal_error e)"

definition invalid_or_500 :: "err \<Rightarrow> 'a reply" where
  "invalid_or_500 e = (if err_is e ErrInvalidRequest then Failed StatusBadRequest (err_msg e) else internal_error e)"

definition missing_or_invalid :: "err \<Rightarrow> 'a reply" where
  "missing_or_invalid e = (if err_is e ErrNotFound then Failed StatusNotFound ''not found'' else invalid_or_500 e)"

definition answer :: "(err \<Rightarrow> 'a reply) \<Rightarrow> nat \<Rightarrow> 'a res \<Rightarrow> 'a reply" where
  "answer on_err status r = (case r of Inl e \<Rightarrow> on_err e | Inr x \<Rightarrow> Reply status x)"

definition answer_command ::
  "(err \<Rightarrow> 'a reply) \<Rightarrow> nat \<Rightarrow> 'a region_command \<Rightarrow> region_cp \<Rightarrow> 'a reply \<times> region_cp" where
  "answer_command on_err status c p = (case c p of (r, p1) \<Rightarrow> (answer on_err status r, p1))"

definition with_body ::
  "'b option \<Rightarrow> ('b \<Rightarrow> region_cp \<Rightarrow> 'a reply \<times> region_cp) \<Rightarrow> region_cp \<Rightarrow> 'a reply \<times> region_cp" where
  "with_body body f p = (case body of None \<Rightarrow> (Failed StatusBadRequest ''invalid json'', p) | Some b \<Rightarrow> f b p)"

definition set_or_blank :: "string option \<Rightarrow> string" where
  "set_or_blank s = (case s of None \<Rightarrow> [] | Some x \<Rightarrow> x)"

abbreviation rp_db :: "region_cp \<Rightarrow> region_db" where "rp_db p \<equiv> hb_db (rp_hub p)"

subsection \<open>Regions\<close>

definition handle_list_regions :: "region_cp \<Rightarrow> region list reply" where
  "handle_list_regions p = Reply StatusOK (rs_list_regions (rp_db p))"

definition handle_create_region ::
  "string \<Rightarrow> gotime \<Rightarrow> (string \<times> string) option \<Rightarrow> region_cp \<Rightarrow> region reply \<times> region_cp" where
  "handle_create_region i now body =
     with_body body (\<lambda>(slug, name). answer_command invalid_or_500 StatusCreated (cmd_create_region i slug name now))"

definition handle_get_region :: "string \<Rightarrow> region_cp \<Rightarrow> region reply" where
  "handle_get_region i p = answer missing_or_500 StatusOK (rs_get_region (rp_db p) i)"

definition handle_update_region ::
  "gotime \<Rightarrow> string \<Rightarrow> (string option \<times> string option) option \<Rightarrow> region_cp \<Rightarrow> region reply \<times> region_cp" where
  "handle_update_region now i body =
     with_body body (\<lambda>(name, status). answer_command missing_or_invalid StatusOK
       (cmd_update_region i (set_or_blank name) (set_or_blank status) now))"

definition handle_list_deployments :: "gotime \<Rightarrow> string \<Rightarrow> region_cp \<Rightarrow> deployment list reply" where
  "handle_list_deployments now region p = Reply StatusOK (svc_list_deployments (rp_db p) region DefaultHeartbeatTTL now)"

definition handle_register_deployment ::
  "(string \<Rightarrow> string) \<Rightarrow> string \<Rightarrow> string \<Rightarrow> gotime \<Rightarrow> string \<Rightarrow> (string \<times> string) option \<Rightarrow> region_cp \<Rightarrow>
   deployment_with_token reply \<times> region_cp" where
  "handle_register_deployment sha raw i now region body =
     with_body body (\<lambda>(name, url). answer_command missing_or_invalid StatusCreated
       (cmd_register_deployment sha raw i region name url now))"

text \<open>A deployment is addressed under its region.\<close>

definition deployment_in_region :: "gotime \<Rightarrow> string \<Rightarrow> string \<Rightarrow> region_cp \<Rightarrow> deployment reply" where
  "deployment_in_region now region dep p =
     (case svc_get_deployment (rp_db p) dep DefaultHeartbeatTTL now of
        Inl e \<Rightarrow> missing_or_500 e
      | Inr d \<Rightarrow> if gd_region_id d \<noteq> region then Failed StatusNotFound ''not found'' else Reply StatusOK d)"

definition handle_get_deployment :: "gotime \<Rightarrow> string \<Rightarrow> string \<Rightarrow> region_cp \<Rightarrow> deployment reply" where
  "handle_get_deployment = deployment_in_region"

definition handle_rotate_deployment_join_token ::
  "(string \<Rightarrow> string) \<Rightarrow> string \<Rightarrow> gotime \<Rightarrow> string \<Rightarrow> string \<Rightarrow> region_cp \<Rightarrow> deployment_with_token reply \<times> region_cp" where
  "handle_rotate_deployment_join_token sha raw now region dep p =
     (case deployment_in_region now region dep p of
        Failed st msg \<Rightarrow> (Failed st msg, p)
      | Reply _ _ \<Rightarrow> answer_command internal_error StatusOK (cmd_rotate_deployment_join_token sha raw dep now) p)"

text \<open>A body that is no JSON reads as version 0 without a build.\<close>

definition handle_deployment_heartbeat ::
  "(string \<Rightarrow> string) \<Rightarrow> gotime \<Rightarrow> string \<Rightarrow> string \<Rightarrow> int \<times> string \<Rightarrow> region_cp \<Rightarrow> deployment reply \<times> region_cp" where
  "handle_deployment_heartbeat sha now dep token body =
     answer_command (\<lambda>e. if err_is e ErrUnauthorized then Failed StatusUnauthorized ''unauthorized'' else missing_or_500 e) StatusOK
       (on_hub (svc_record_heartbeat dep (hash_opaque_token sha token) (fst body) (snd body) now))"

definition handle_deployment_join :: "(string \<Rightarrow> string) \<Rightarrow> string option \<Rightarrow> region_cp \<Rightarrow> deployment reply" where
  "handle_deployment_join sha body p =
     (case body of None \<Rightarrow> Failed StatusBadRequest ''invalid json''
      | Some token \<Rightarrow> answer (\<lambda>e. if err_is e ErrUnauthorized then Failed StatusUnauthorized ''unauthorized'' else internal_error e)
          StatusOK (svc_authenticate_join_token sha (rp_db p) token))"

definition handle_list_region_memberships :: "string \<Rightarrow> region_cp \<Rightarrow> region_membership list reply" where
  "handle_list_region_memberships region p = Reply StatusOK (rs_list_memberships_by_region (rp_db p) region)"

definition handle_bind_org_to_region ::
  "region_publisher \<Rightarrow> gotime \<Rightarrow> string \<Rightarrow> (string \<times> string) option \<Rightarrow> region_cp \<Rightarrow> region_membership reply \<times> region_cp" where
  "handle_bind_org_to_region pub now region body =
     with_body body (\<lambda>(org, status). answer_command missing_or_invalid StatusCreated
       (cmd_bind_org_to_region pub region org status now))"

definition handle_bind_all_orgs_to_region ::
  "region_publisher \<Rightarrow> gotime \<Rightarrow> string \<Rightarrow> region_cp \<Rightarrow> nat reply \<times> region_cp" where
  "handle_bind_all_orgs_to_region pub now region p =
     (case cmd_bind_all_orgs_to_region pub region now p of
        ((_, Some e), p1) \<Rightarrow> (missing_or_invalid e, p1) | ((n, None), p1) \<Rightarrow> (Reply StatusOK n, p1))"

definition handle_unbind_org_from_region :: "region_publisher \<Rightarrow> string \<Rightarrow> string \<Rightarrow> region_cp \<Rightarrow> unit reply \<times> region_cp" where
  "handle_unbind_org_from_region pub region org =
     answer_command missing_or_500 StatusNoContent (cmd_unbind_org_from_region pub region org)"

definition handle_get_region_overlay :: "string \<Rightarrow> string \<Rightarrow> region_cp \<Rightarrow> region_overlay reply" where
  "handle_get_region_overlay region org p = answer missing_or_500 StatusOK (rs_get_overlay (rp_db p) region org)"

definition handle_put_region_overlay ::
  "region_publisher \<Rightarrow> gotime \<Rightarrow> string \<Rightarrow> string \<Rightarrow> overlay_payload option \<Rightarrow> region_cp \<Rightarrow> region_overlay reply \<times> region_cp" where
  "handle_put_region_overlay pub now region org body =
     with_body body (\<lambda>payload. answer_command missing_or_invalid StatusOK (cmd_put_region_overlay pub region org payload now))"

definition handle_delete_region_overlay :: "region_publisher \<Rightarrow> string \<Rightarrow> string \<Rightarrow> region_cp \<Rightarrow> unit reply \<times> region_cp" where
  "handle_delete_region_overlay pub region org =
     answer_command missing_or_500 StatusNoContent (cmd_delete_region_overlay pub region org)"

subsection \<open>Peers\<close>

definition handle_list_federation_peers :: "region_cp \<Rightarrow> peer list reply" where
  "handle_list_federation_peers p = Reply StatusOK (fs_list_peers (rp_db p))"

definition handle_register_federation_peer ::
  "(string \<Rightarrow> string res) option \<Rightarrow> (string \<Rightarrow> string) \<Rightarrow> string \<Rightarrow> string \<Rightarrow> gotime \<Rightarrow>
   (string \<times> string \<times> string) option \<Rightarrow> region_cp \<Rightarrow> peer_with_token reply \<times> region_cp" where
  "handle_register_federation_peer box sha raw i now body =
     with_body body (\<lambda>(name, region, url). answer_command missing_or_invalid StatusCreated
       (on_hub (hub_register_peer box sha raw i name region url now)))"

definition handle_get_federation_peer :: "string \<Rightarrow> region_cp \<Rightarrow> peer reply" where
  "handle_get_federation_peer i p = answer missing_or_500 StatusOK (fs_get_peer (rp_db p) i)"

definition handle_update_federation_peer ::
  "gotime \<Rightarrow> string \<Rightarrow> (string option \<times> string option \<times> string option) option \<Rightarrow> region_cp \<Rightarrow> peer reply \<times> region_cp" where
  "handle_update_federation_peer now i body =
     with_body body (\<lambda>(name, url, status). answer_command missing_or_invalid StatusOK
       (on_hub (svc_update_peer i (set_or_blank name) (set_or_blank url) (set_or_blank status) now)))"

definition handle_rotate_federation_peer_token ::
  "(string \<Rightarrow> string res) option \<Rightarrow> (string \<Rightarrow> string) \<Rightarrow> string \<Rightarrow> gotime \<Rightarrow> string \<Rightarrow> region_cp \<Rightarrow> peer_with_token reply \<times> region_cp" where
  "handle_rotate_federation_peer_token box sha raw now i =
     answer_command missing_or_500 StatusOK (on_hub (hub_rotate_peer_token box sha raw i now))"

section \<open>What a publication stores\<close>

lemma fold_put_other:
  "\<forall>r\<in>set rs. P r \<longrightarrow> f r \<noteq> k \<Longrightarrow> gm_get (fold (\<lambda>r m. if P r then gm_put (f r) (v r) m else m) rs m) k = gm_get m k"
  by (induction rs arbitrary: m) auto

lemma fold_put_at:
  assumes "distinct (map f rs)" and "r \<in> set rs"
  shows "gm_get (fold (\<lambda>r m. if P r then gm_put (f r) (v r) m else m) rs m) (f r) = (if P r then Some (v r) else gm_get m (f r))"
  using assms
proof (induction rs arbitrary: m)
  case (Cons x rs)
  show ?case
  proof (cases "r = x")
    case True
    then have "\<forall>y\<in>set rs. P y \<longrightarrow> f y \<noteq> f r" using Cons.prems by (auto simp: image_iff)
    then show ?thesis using True by (simp add: fold_put_other)
  next
    case False
    then have "f x \<noteq> f r" using Cons.prems by (auto simp: image_iff)
    then show ?thesis using False Cons by auto
  qed
qed simp

text \<open>Regions are stored under their identifiers, with different slugs.\<close>

definition regions_ok :: "region_db \<Rightarrow> bool" where
  "regions_ok db \<longleftrightarrow> distinct (map rgn_slug (map snd (rdb_regions db))) \<and>
     (\<forall>i r. gm_get (rdb_regions db) i = Some r \<longrightarrow> rgn_id r = i)"

lemma mirror_published:
  assumes "hb_mirror h = Some m" and "regions_ok (hb_db h)" and "gm_get (rdb_regions (hb_db h)) (rgn_id r) = Some r"
  shows "\<exists>m' v. hb_mirror (publish_with_regions reg now only h) = Some m' \<and>
    gm_get m' (rgn_slug r) = (if publishes_region only r
      then Some ((region_snapshot_of reg now (hb_base h) (hb_db h) r)\<lparr>sn_version := v\<rparr>) else gm_get m (rgn_slug r))"
proof -
  have d: "distinct (map rgn_slug (rs_list_regions (hb_db h)))"
    using assms(2) unfolding regions_ok_def rs_list_regions_def by (metis mset_eq_imp_distinct_iff mset_map mset_sort)
  have r: "r \<in> set (rs_list_regions (hb_db h))"
    using assms(3) by (force simp: rs_list_regions_def dest: gm_get_set)
  let ?v = "int (length (hb_snapshots h)) + 1"
  let ?sn = "\<lambda>r. (region_snapshot_of reg now (hb_base h) (hb_db h) r)\<lparr>sn_version := ?v\<rparr>"
  have "hb_mirror (publish_with_regions reg now only h) =
      Some (fold (\<lambda>r m. if publishes_region only r then gm_put (rgn_slug r) (?sn r) m else m) (rs_list_regions (hb_db h)) m)"
    using assms(1) by (simp add: publish_with_regions_def publish_regional_snapshots_def put_snapshot_def Let_def cong: if_cong)
  then show ?thesis using fold_put_at [OF d r, where P = "publishes_region only" and m = m and v = ?sn] by blast
qed

lemma unbound_rows:
  assumes "tables_keyed db" and "mem_view db (org, g) = None"
  shows "org \<notin> bound_orgs (rs_list_memberships_by_region db g)"
proof
  assume "org \<in> bound_orgs (rs_list_memberships_by_region db g)"
  then obtain m where "m \<in> set (rs_list_memberships_by_region db g)" "org = orm_organization_id m"
    by (auto simp: bound_orgs_def)
  with listed_membership(2) [OF assms(1)] assms(2) show False by auto
qed

lemma region_snapshot_regional:
  "region_snapshot_of reg now base db r =
     regional_snapshot reg now base (rs_list_memberships_by_region db (rgn_id r)) (rs_list_overlays_by_region db (rgn_id r))"
  by (simp add: region_snapshot_of_def regional_snapshot_def)

text \<open>What a snapshot holds for an organization: keys, signing keys, routes and credentials.\<close>

definition serves_org :: "snapshot \<Rightarrow> string \<Rightarrow> bool" where
  "serves_org sn org \<longleftrightarrow> (\<exists>i k. gm_get (sn_api_keys sn) i = Some k \<and> ak_organization_id k = org) \<or>
     (\<exists>i k. gm_get (sn_signing_keys sn) i = Some k \<and> sk_organization_id k = org) \<or>
     (\<exists>i r. gm_get (sn_routes sn) i = Some r \<and> ro_organization_id r = org) \<or>
     (\<exists>i c. gm_get (sn_credentials sn) i = Some c \<and> cr_organization_id c = org)"

lemma regional_rows_bound:
  assumes "gm_wf (so_default_retries base)" and "gm_wf (so_object_stores base)"
  shows "gm_get (sn_api_keys (regional_snapshot reg now base ms ovs)) i = Some k \<Longrightarrow> ak_organization_id k \<in> bound_orgs ms"
    and "gm_get (sn_signing_keys (regional_snapshot reg now base ms ovs)) i = Some sk \<Longrightarrow> sk_organization_id sk \<in> bound_orgs ms"
    and "gm_get (sn_routes (regional_snapshot reg now base ms ovs)) i = Some r \<Longrightarrow> ro_organization_id r \<in> bound_orgs ms"
    and "gm_get (sn_credentials (regional_snapshot reg now base ms ovs)) i = Some c \<Longrightarrow> cr_organization_id c \<in> bound_orgs ms"
  unfolding regional_snapshot_simps build_region_source_rows [OF assms]
  by (erule index_rows_org, (erule row_values), (erule hub_rows_org stamped_rows_org))+

lemma regional_serves_bound:
  assumes "gm_wf (so_default_retries base)" and "gm_wf (so_object_stores base)"
    and "serves_org (regional_snapshot reg now base ms ovs) org"
  shows "org \<in> bound_orgs ms"
  using assms(3) unfolding serves_org_def by (auto dest: regional_rows_bound [OF assms(1,2)])

lemma serves_org_version [simp]: "serves_org (sn\<lparr>sn_version := v\<rparr>) org = serves_org sn org"
  by (simp add: serves_org_def)

lemma unbind_rows:
  assumes "hub_unbind_org region org db = (Inr u, db')" and "tables_keyed db"
  shows "mem_view db' (org, region) = None \<and> rdb_regions db' = rdb_regions db \<and> tables_keyed db'"
proof (cases "gm_get (rdb_memberships db) (org, region)")
  case None
  then show ?thesis using assms(1)
    by (simp add: hub_unbind_org_def bump_after_def db_bind_def svc_unbind_org_def rs_get_membership_def db_check_def found_def)
next
  case (Some m)
  define db1 where "db1 = snd (rs_delete_overlay region org db)"
  define db2 where "db2 = snd (rs_delete_membership region org db1)"
  note o = delete_overlay_view [where g = region and o' = org and db = db, folded db1_def] and d = delete_membership_view [where g = region and o' = org and db = db1, folded db2_def]
  have "db' = snd (fs_bump_revision db2)"
    using assms(1) Some by (auto simp: hub_unbind_org_def bump_after_def db_bind_def svc_unbind_org_def rs_get_membership_def db_check_def
        found_def db2_def db1_def split: prod.splits sum.splits)
  moreover have "mem_view db2 (org, region) = None" by (simp add: d(1))
  moreover have "rdb_regions db2 = rdb_regions db" using o(3) d(3) by (simp add: same_frame_def)
  moreover have "tables_keyed db2" using o(5) d(5) assms(2) by blast
  ultimately show ?thesis by simp
qed

section \<open>Properties\<close>

text \<open>
  C31: An organization that is unbound from a region leaves what the region serves, if the region is
  not disabled. When unbinding is answered with success by a control plane that mirrors its
  snapshots, and the region is active or draining, the mirror holds a snapshot of the region
  without a key, signing key, route or credential of the organization. For a disabled region the
  answer is the same and the mirror keeps what it had.
\<close>

theorem unbound_org_leaves_region:
  assumes "handle_unbind_org_from_region (seeder reg now) region org p = (Reply status u, p')"
    and "tables_keyed (rp_db p)" and "regions_ok (rp_db p)" and "trimmed region"
    and "gm_get (rdb_regions (rp_db p)) region = Some r" and "hb_mirror (rp_hub p) = Some m"
    and "gm_wf (so_default_retries (hb_base (rp_hub p)))" and "gm_wf (so_object_stores (hb_base (rp_hub p)))"
  shows "\<exists>m'. hb_mirror (rp_hub p') = Some m' \<and>
    (if rgn_status r = RegionStatusActive \<or> rgn_status r = RegionStatusDraining
     then \<exists>sn. gm_get m' (rgn_slug r) = Some sn \<and> \<not> serves_org sn org
     else gm_get m' (rgn_slug r) = gm_get m (rgn_slug r))"
proof -
  obtain res db where run: "hub_unbind_org region org (rp_db p) = (res, db)" by fastforce
  note unbind = handle_unbind_org_from_region_def answer_command_def answer_def cmd_unbind_org_from_region_def
    region_change_def emitting_def on_hub_def db_bind_def
  obtain v where res: "res = Inr v"
  proof (cases res)
    case (Inl e)
    then have "fst (handle_unbind_org_from_region (seeder reg now) region org p) = missing_or_500 e"
      using run by (simp add: unbind)
    then show thesis using assms(1) by (simp add: missing_or_500_def internal_error_def split: if_splits)
  qed (rule that)
  then have p': "rp_hub p' = publish_with_regions reg now [region] ((rp_hub p)\<lparr>hb_db := db\<rparr>)"
  proof -
    have "rp_hub (snd (handle_unbind_org_from_region (seeder reg now) region org p)) =
        publish_with_regions reg now [region] ((rp_hub p)\<lparr>hb_db := db\<rparr>)"
      using run res by (simp add: unbind publish_regions_def seeder_def emit_region_def)
    then show ?thesis using assms(1) by simp
  qed
  note db = run [unfolded res]
  let ?h = "(rp_hub p)\<lparr>hb_db := db\<rparr>"
  have rows: "mem_view db (org, region) = None" "rdb_regions db = rdb_regions (rp_db p)" "tables_keyed db"
    using unbind_rows [OF db assms(2)] by blast+
  have r: "rgn_id r = region" using assms(3,5) by (simp add: regions_ok_def)
  have reg: "regions_ok (hb_db ?h)" "gm_get (rdb_regions (hb_db ?h)) (rgn_id r) = Some r"
    using assms(3,5) rows(2) r by (simp_all add: regions_ok_def)
  have only: "publishes_region [region] r \<longleftrightarrow> rgn_status r = RegionStatusActive \<or> rgn_status r = RegionStatusDraining"
    using assms(4) r by (auto simp: publishes_region_def trimmed_def Let_def)
  obtain m' w where m': "hb_mirror (rp_hub p') = Some m'"
      "gm_get m' (rgn_slug r) = (if publishes_region [region] r
        then Some ((region_snapshot_of reg now (hb_base (rp_hub p)) db r)\<lparr>sn_version := w\<rparr>) else gm_get m (rgn_slug r))"
    using mirror_published [of ?h m r reg now "[region]"] assms(6) reg unfolding p' by (auto cong: if_cong)
  have "\<not> serves_org (region_snapshot_of reg now (hb_base (rp_hub p)) db r) org"
    using regional_serves_bound [OF assms(7,8)] unbound_rows [OF rows(3,1)] unfolding region_snapshot_regional r by blast
  then show ?thesis using m' only by auto
qed

definition demo_region_cp :: region_cp where
  "demo_region_cp = \<lparr>rp_hub = demo_bound_hub\<lparr>hb_mirror := Some []\<rparr>, rp_events = []\<rparr>"

theorem unbound_org_leaves_region_witness:
  "\<exists>m' sn. hb_mirror (rp_hub (snd (handle_unbind_org_from_region (seeder [] 2) ''r'' ''o1'' demo_region_cp))) = Some m' \<and>
     gm_get m' ''eu'' = Some sn \<and> \<not> serves_org sn ''o1''"
proof -
  let ?out = "handle_unbind_org_from_region (seeder [] 2) ''r'' ''o1'' demo_region_cp"
  have "fst ?out = Reply StatusNoContent ()" by code_simp
  then have out: "?out = (Reply StatusNoContent (), snd ?out)" by (metis prod.collapse)
  have keyed: "tables_keyed (rp_db demo_region_cp)"
    using hub_bind_org_progress [OF demo_hub_ok(1)] by (simp add: demo_region_cp_def demo_bound_hub_def hub_progress_def hub_ok_def)
  have regions: "rdb_regions (rp_db demo_region_cp) = [(''r'', demo_region)]" by code_simp
  then have ok: "regions_ok (rp_db demo_region_cp)" "gm_get (rdb_regions (rp_db demo_region_cp)) ''r'' = Some demo_region"
    by (simp_all add: regions_ok_def demo_region_def split: if_splits)
  have mirror: "hb_mirror (rp_hub demo_region_cp) = Some []" "hb_base (rp_hub demo_region_cp) = empty_source"
    by (simp_all add: demo_region_cp_def demo_bound_hub_def demo_hub_def)
  from unbound_org_leaves_region [OF out keyed ok(1) demo_trimmed(2) ok(2) mirror(1)] show ?thesis
    by (simp add: mirror empty_source_def gm_wf_def demo_region_def region_status_defs)
qed

text \<open>
  Without a sealing key a peer cannot be registered, but it is: the answer is an error, the peer's
  row stays, with the hash of a token nobody has.
\<close>

theorem unsealed_peer_stays:
  assumes "svc_register_peer sha raw i name region url now (rp_db p) = (Inr out, db)"
  shows "\<exists>msg. handle_register_federation_peer None sha raw i now (Some (name, region, url)) p =
    (Failed StatusInternalServerError msg, p\<lparr>rp_hub := (rp_hub p)\<lparr>hb_db := db\<rparr>\<rparr>)"
  using assms
  by (simp add: handle_register_federation_peer_def with_body_def answer_command_def on_hub_def hub_register_peer_def db_bind_def
      persist_peer_join_token_enc_def answer_def missing_or_invalid_def invalid_or_500_def internal_error_def err_is_def)

end
