(* ===== verification/Spec2Isabelle.thy ===== *)
theory Spec2Isabelle
  imports Gateway_Config Chat_Exec Tenancy_Invites Gateway_Codecs Federation_Sync Authorization_Laws Accounts_Laws Publishing_Laws Config_Laws Agent_Gateway Media_Laws Metering_Laws Region_Commands
begin

text \<open>
  A model of AFI (module \<^verbatim>\<open>github.com/curefatih/afi\<close>): the gateway that serves requests, the control
  plane that configures it, the federation of regions, and the metering of what was served. All
  paths below are under \<^verbatim>\<open>src/\<close>.

  The system. A control plane (\<^verbatim>\<open>internal/controlplane\<close>, \<^verbatim>\<open>internal/app\<close>, \<^verbatim>\<open>internal/adapters/postgres\<close>)
  keeps organizations, members, keys, providers, routes, policies, quotas and credentials in a
  database, validates what operators enter, compiles it into an immutable snapshot and publishes
  that. A gateway (\<^verbatim>\<open>internal/dataplane\<close>) serves every request from the current snapshot alone: it
  authenticates the caller, gates the call (region allowlist, CEL policies, hooks, request quota),
  looks up the route, tries its targets in the order of its strategy with retries, binding each
  provider's secret, answers in the client's dialect, and settles usage, token counters and
  after-hooks. Its usage events go through an outbox and a worker into the usage tables, which
  the control plane reads. A hub exports a snapshot for each region; a regional control plane
  pulls it and serves its own gateways.

  The theories, from the data up.

    \<^item> \<^verbatim>\<open>Prelude\<close>: byte-string functions of Go's standard library, Go maps as association lists with
      the last write of a key, stable sorting, wrap-around of \<^verbatim>\<open>int64\<close>, the hint collections.
      \<^verbatim>\<open>Kernel\<close>: errors (\<^verbatim>\<open>internal/kernel/errors.go\<close>), JSON values, values of type \<^verbatim>\<open>any\<close>.
      \<^verbatim>\<open>Store\<close>: statements on tables, their chaining and constraint violations. \<^verbatim>\<open>Http\<close>: statuses and
      replies. \<^verbatim>\<open>Json\<close>: what \<^verbatim>\<open>encoding/json\<close> does with structs, fields and optional members.
    \<^item> Catalogs and snapshot: \<^verbatim>\<open>Provider_Catalog\<close> (\<^verbatim>\<open>internal/providercatalog\<close>), \<^verbatim>\<open>Model_Catalog\<close>
      (\<^verbatim>\<open>internal/modelcatalog\<close>, \<^verbatim>\<open>internal/usage\<close>), \<^verbatim>\<open>Snapshot_Types\<close> and \<^verbatim>\<open>Snapshot\<close> (\<^verbatim>\<open>internal/snapshot\<close>:
      compilation from source rows and every lookup).
    \<^item> Serving: \<^verbatim>\<open>Routing\<close> (selectors and signals), \<^verbatim>\<open>Policy\<close> (\<^verbatim>\<open>internal/policy\<close>), \<^verbatim>\<open>Quota\<close> (the request
      gate and the counters in SQL, in Redis and composed), \<^verbatim>\<open>Dialect\<close> (the chat representation, error
      bodies, the OpenAI stream), \<^verbatim>\<open>Gateway_Auth\<close> (virtual keys, signed requests, replay store),
      \<^verbatim>\<open>Call_Gate\<close> (hooks, gate, credential binding), \<^verbatim>\<open>Chat_Exec\<close> (the chat handler),
      \<^verbatim>\<open>Codec_OpenAI\<close>, \<^verbatim>\<open>Codec_Anthropic\<close>, \<^verbatim>\<open>Codec_Gemini\<close> (requests and responses as JSON), \<^verbatim>\<open>Streams\<close>
      and \<^verbatim>\<open>Stream_Laws\<close> (the stream writers and parsers), \<^verbatim>\<open>Gateway_Codecs\<close> (the chat handler with the
      real codecs), \<^verbatim>\<open>Agent_Gateway\<close> (MCP and A2A), \<^verbatim>\<open>Media_Gateway\<close> and \<^verbatim>\<open>Media_Laws\<close> (embeddings, images,
      speech, transcription).
    \<^item> Tenants and access: \<^verbatim>\<open>Tenancy\<close> (\<^verbatim>\<open>internal/tenancy\<close> with its tables), \<^verbatim>\<open>Tenancy_Service\<close>,
      \<^verbatim>\<open>Tenancy_Invites\<close>, \<^verbatim>\<open>Access\<close> and \<^verbatim>\<open>Access_Scopes\<close> (API keys and signing keys), \<^verbatim>\<open>Authorization\<close> and
      \<^verbatim>\<open>Authorization_Laws\<close> (the middleware and the whole route table of the control plane), \<^verbatim>\<open>Accounts\<close>
      and \<^verbatim>\<open>Accounts_Laws\<close> (registration, login, password reset, single sign-on), \<^verbatim>\<open>Credentials\<close> and
      \<^verbatim>\<open>Credentials_Laws\<close> (sealed provider credentials and their assignments).
    \<^item> Configuration: \<^verbatim>\<open>Gateway_Config\<close> and \<^verbatim>\<open>Config_Entities\<close> (\<^verbatim>\<open>internal/gatewayconfig\<close>: validation and
      normal forms), \<^verbatim>\<open>Config_Tables\<close>, \<^verbatim>\<open>Config_Services\<close>, \<^verbatim>\<open>Config_Commands\<close> (the handlers) and
      \<^verbatim>\<open>Config_Laws\<close>. \<^verbatim>\<open>Publishing\<close> and \<^verbatim>\<open>Publishing_Laws\<close>: from tables to a published snapshot, its stores,
      the watch of a gateway, the commands that publish.
    \<^item> Regions: \<^verbatim>\<open>Region_Source\<close> (what a region's snapshot is compiled from), \<^verbatim>\<open>Regions\<close> (regions,
      deployments, memberships, overlays), \<^verbatim>\<open>Federation\<close> (peers, export, apply, pull),
      \<^verbatim>\<open>Federation_Sync\<close> (the run of hub and region together) and \<^verbatim>\<open>Region_Commands\<close> (commands and
      handlers).
    \<^item> Metering: \<^verbatim>\<open>Metering\<close> (events as JSON, outbox, worker, usage table, platform events, what a
      gateway does with its events, the ingest at the hub), \<^verbatim>\<open>Usage_Reports\<close> (lists, summaries, provider
      health, the reports a hub pulls) and \<^verbatim>\<open>Metering_Laws\<close>.

  Correspondence. A Go struct is a record, an operation that changes state returns the new state,
  an \<^verbatim>\<open>error\<close> result is the left of a sum, a missing map entry or nil pointer is \<open>None\<close>, a handler
  that panics is \<open>None\<close>, and the name of a definition is the Go name in lower case with underscores.
  A statement of Postgres is the update of the tables it denotes, with the keys and constraints of
  the schema; the loss of a connection is modelled where the code handles it. A Go map is an
  association list; where the code ranges over one, the model takes the list's order, and a
  property that must not depend on that order says so. \<^verbatim>\<open>int\<close> and \<^verbatim>\<open>int64\<close> are integers, wrapped
  where arithmetic can leave 64 bits. Floating point is exact (rationals): rounding, NaN and
  infinities are not modelled, except the conversion of an out-of-range float to \<^verbatim>\<open>int64\<close>, an
  argument. Case mapping is that of ASCII. Byte strings are strings of 8-bit characters.

  Interfaces. Each locale is interpreted by every implementation the code has: \<^verbatim>\<open>selector\<close> (a strategy
  permutes its candidates), \<^verbatim>\<open>signal_store\<close>, \<^verbatim>\<open>counter_store\<close> (reads do not write, an increment
  changes one counter), \<^verbatim>\<open>replay_store\<close> (an accepted nonce stays blocked), \<^verbatim>\<open>member_store\<close> (members of
  organizations and of teams), \<^verbatim>\<open>row_field\<close> and \<^verbatim>\<open>region_table\<close> (the kinds of rows a region's source and
  its mirror hold), \<^verbatim>\<open>sso_state_store\<close> (in memory and in Redis), \<^verbatim>\<open>snapshot_store\<close> and its extension
  \<^verbatim>\<open>versioned_store\<close> (Postgres, object store, fan-out), \<^verbatim>\<open>outbox_worker\<close> (a source drained in order).

  Parameters stand for what is not in the repository: SHA-256 and AES-GCM, the CEL engine, the HTTP
  message signature and JWT libraries, the identity providers' protocols, the parser and printer of
  JSON text, base64 and MIME, URL parsing, random draws, identifiers, clocks, the WASM runtime, the
  HTTP and S3 clients. The vendors' adapters (\<^verbatim>\<open>internal/adapters/llm\<close>) are in the repository and a
  parameter as well. No property assumes anything about them unless its statement says so.

  What the properties show. Security: authentication accepts only principals the snapshot vouches
  for and signed requests only once; nothing reaches an upstream or an MCP back end without having
  authenticated and passed the gate; a credential named by a policy is used or the call fails, and
  it is one of the caller's organization; routes and assignments stay in their organization; every
  endpoint of the control plane asks for the right it should, and its middleware never panics; a
  deleted key is refused by every gateway that took the next snapshot; invites, reset tokens and
  single sign-on states work once; no organization or team loses its last owner. Accounting:
  quotas are not exceeded by requests served one after the other, a served call is metered exactly
  once, its event reaches the usage table exactly once and is not lost whatever the workers do,
  and summaries add up. Protocols: request and stream round trips, well-formed Anthropic streams.
  Routing: fail-over is bounded and ends, the latency order is a stable sort. Regions: a regional
  snapshot serves bound organizations only, also after one is unbound, and its keys are the hub's; a
  pull converges; the hub filters reports as the regions do.

  Concurrency. Mutexes and atomics are not modelled: an operation on a shared structure is one
  step. Where steps of several actors interleave, they are explicit: sequences of operations for
  the invariants of tables, \<^verbatim>\<open>auth_step\<close>, \<^verbatim>\<open>sync_step\<close> (hub and region), the watch of a gateway between
  publications, \<^verbatim>\<open>metering_step\<close> (gateways and workers).

  Defects the model shows: \<^verbatim>\<open>empty_region_allowlist_admits_all\<close>, \<^verbatim>\<open>error_after_failover_loses_answer\<close>,
  \<^verbatim>\<open>retry_delay_overflow\<close>, \<^verbatim>\<open>token_quotas_not_enforced\<close>, \<^verbatim>\<open>envelope_hides_method\<close> (an MCP allowlist is
  passed by a batch), \<^verbatim>\<open>agent_card_panics_on_null\<close>, \<^verbatim>\<open>stale_publish_resurrects_deleted_key\<close> (a publication
  that loaded earlier and stores later), \<^verbatim>\<open>nul_tool_name_unmetered\<close>, \<^verbatim>\<open>concurrent_workers_count_twice\<close>,
  \<^verbatim>\<open>usage_summary_panics\<close>, and in \<^verbatim>\<open>Metering_Laws\<close> the refused payload that blocks an outbox
  (\<^verbatim>\<open>head_blocks\<close>).

  Termination. Every loop of the modelled code recurses on a list or on the number of tries left,
  so no fuel is needed; the audio loop, which the code writes without such a bound, is shown to
  end. The one call that may never return, writing a stream from a nil channel, is \<open>None\<close>, and the
  chat handler returns \<open>None\<close> exactly then. \<^verbatim>\<open>sort.Slice\<close> is the insertion sort it is up to twelve
  elements and a given function beyond.

  Not modelled. The vendors' HTTP clients and their wire formats beyond the three client dialects;
  read-only listings of the control plane; migrations, seeding of a fresh installation, configuration
  loading, connection pools, object-store and mail clients: input and output; the audit trail,
  logging, metrics and tracing; the JSON form of a snapshot; the command line, the SDK and the user
  interface.
\<close>

end
